(* ===== verification/GA_Prelude.thy ===== *)
theory GA_Prelude
  imports Complex_Main "HOL-Library.Product_Lexorder"
begin

text \<open>
  What the components share: the Python values and built-ins the source uses (exceptions as
  values, \<open>float("inf")\<close>, \<open>round\<close>, \<open>int\<close>, \<open>statistics.fmean\<close>, \<open>min(..., key=...)\<close>,
  \<open>%\<close> on floats), and generic lemmas on lists and results.

  Python floats are modelled as real numbers, with the infinity the source writes explicitly as
  a separate value (\<open>pyfloat\<close>); rounding errors and NaN are outside the model.
\<close>

named_theorems result_simps \<open>rewriting of fallible computations\<close>
named_theorems config_simps \<open>the constants of the source, unfolded\<close>

section \<open>Exceptions as values\<close>

datatype pyerr =
    ValueError
  | IndexError
  | KeyError
  | TypeError
  | AttributeError
  | ZeroDivisionError
  | RuntimeError
  | UnboundLocalError

type_synonym 'a result = "pyerr + 'a"

definition bindE :: "'a result \<Rightarrow> ('a \<Rightarrow> 'b result) \<Rightarrow> 'b result" where
  "bindE m f = (case m of Inl e \<Rightarrow> Inl e | Inr v \<Rightarrow> f v)"

lemma bindE_simps [simp, result_simps]:
  "bindE (Inl e) f = Inl e"
  "bindE (Inr v) f = f v"
  by (simp_all add: bindE_def)

lemma bindE_Inr_iff [result_simps]: "bindE m f = Inr w \<longleftrightarrow> (\<exists>v. m = Inr v \<and> f v = Inr w)"
  by (cases m) auto

lemma bindE_InrE:
  assumes "bindE m f = Inr w"
  obtains v where "m = Inr v" and "f v = Inr w"
  using assms by (auto simp: bindE_Inr_iff)

fun mapE :: "('a \<Rightarrow> 'b result) \<Rightarrow> 'a list \<Rightarrow> 'b list result" where
  "mapE f [] = Inr []"
| "mapE f (v # vs) = bindE (f v) (\<lambda>w. bindE (mapE f vs) (\<lambda>ws. Inr (w # ws)))"

lemma mapE_length: "mapE f vs = Inr ws \<Longrightarrow> length ws = length vs"
  by (induction vs arbitrary: ws) (auto simp: result_simps)

lemma mapE_total: "(\<And>v. v \<in> set vs \<Longrightarrow> f v = Inr (g v)) \<Longrightarrow> mapE f vs = Inr (map g vs)"
  by (induction vs) auto

section \<open>Floats with infinity\<close>

datatype pyfloat = Fin real | Inf

instantiation pyfloat :: linorder
begin

fun less_eq_pyfloat :: "pyfloat \<Rightarrow> pyfloat \<Rightarrow> bool" where
  "less_eq_pyfloat (Fin p) (Fin q) = (p \<le> q)"
| "less_eq_pyfloat _ Inf = True"
| "less_eq_pyfloat Inf (Fin _) = False"

definition less_pyfloat :: "pyfloat \<Rightarrow> pyfloat \<Rightarrow> bool" where
  "less_pyfloat p q = (p \<le> q \<and> \<not> q \<le> p)"

instance
proof
  fix p q r :: pyfloat
  show "(p < q) = (p \<le> q \<and> \<not> q \<le> p)" by (simp add: less_pyfloat_def)
  show "p \<le> p" by (cases p) auto
  show "p \<le> q \<Longrightarrow> q \<le> r \<Longrightarrow> p \<le> r" by (cases p; cases q; cases r) auto
  show "p \<le> q \<Longrightarrow> q \<le> p \<Longrightarrow> p = q" by (cases p; cases q) auto
  show "p \<le> q \<or> q \<le> p" by (cases p; cases q) auto
qed

end

lemma less_pyfloat_simps [simp]:
  "Fin p < Fin q \<longleftrightarrow> p < q"
  "Fin p < Inf"
  "\<not> Inf < p'"
  by (cases p'; auto simp: less_pyfloat_def)+

section \<open>Numeric built-ins\<close>

text \<open>\<open>round(x)\<close>: to the nearest integer, ties to the even one.\<close>

definition py_round :: "real \<Rightarrow> int" where
  "py_round v =
     (let f = \<lfloor>v\<rfloor>; d = v - of_int f
      in if d < 1/2 then f else if d > 1/2 then f + 1 else if even f then f else f + 1)"

text \<open>\<open>int(x)\<close> of a float: truncation towards zero.\<close>

definition py_int :: "real \<Rightarrow> int" where
  "py_int v = (if 0 \<le> v then \<lfloor>v\<rfloor> else \<lceil>v\<rceil>)"

text \<open>\<open>a % m\<close> on floats with a positive \<open>m\<close>.\<close>

definition py_fmod :: "real \<Rightarrow> real \<Rightarrow> real" where
  "py_fmod v m = v - m * of_int \<lfloor>v / m\<rfloor>"

definition radians :: "real \<Rightarrow> real" where
  "radians d = d * pi / 180"

definition degrees :: "real \<Rightarrow> real" where
  "degrees v = v * 180 / pi"

definition clamp :: "real \<Rightarrow> real \<Rightarrow> real \<Rightarrow> real" where
  "clamp lo hi v = min hi (max lo v)"

definition fmean :: "real list \<Rightarrow> real" where
  "fmean vs = sum_list vs / real (length vs)"

lemma py_round_near: "\<bar>of_int (py_round v) - v\<bar> \<le> 1/2"
  unfolding py_round_def Let_def by (auto simp: abs_le_iff)

lemma py_round_mono_bounds:
  assumes "real_of_int lo \<le> v" and "v \<le> real_of_int hi"
  shows "lo \<le> py_round v \<and> py_round v \<le> hi"
proof -
  have "\<bar>of_int (py_round v) - v\<bar> \<le> 1/2" by (rule py_round_near)
  moreover have "v = of_int hi \<Longrightarrow> py_round v = hi" "v = of_int lo \<Longrightarrow> py_round v = lo"
    by (simp_all add: py_round_def)
  ultimately show ?thesis using assms by linarith
qed

lemma py_fmod_bounds: "0 < m \<Longrightarrow> 0 \<le> py_fmod v m \<and> py_fmod v m < m"
proof -
  assume m: "0 < m"
  have "of_int \<lfloor>v / m\<rfloor> \<le> v / m" "v / m < of_int \<lfloor>v / m\<rfloor> + 1" by linarith+
  then have "m * of_int \<lfloor>v / m\<rfloor> \<le> m * (v / m)" "m * (v / m) < m * (of_int \<lfloor>v / m\<rfloor> + 1)"
    using m by (intro mult_left_mono mult_strict_left_mono; simp)+
  with m show ?thesis by (simp add: py_fmod_def algebra_simps)
qed

lemma radians_degrees [simp]: "radians (degrees v) = v"
  by (simp add: radians_def degrees_def)

lemma clamp_bounds: "lo \<le> hi \<Longrightarrow> lo \<le> clamp lo hi v \<and> clamp lo hi v \<le> hi"
  by (auto simp: clamp_def)

lemma sum_list_mono_all2: "list_all2 (\<le>) vs ws \<Longrightarrow> sum_list vs \<le> (sum_list ws :: real)"
  by (induction rule: list_all2_induct) auto

lemma fmean_mono: "list_all2 (\<le>) vs ws \<Longrightarrow> fmean vs \<le> fmean ws"
  unfolding fmean_def
  by (metis divide_right_mono list_all2_lengthD of_nat_0_le_iff sum_list_mono_all2)

lemma fmean_bounds:
  assumes "vs \<noteq> []" and "\<And>v. v \<in> set vs \<Longrightarrow> lo \<le> v \<and> v \<le> hi"
  shows "lo \<le> fmean vs \<and> fmean vs \<le> hi"
proof -
  have "real (length us) * lo \<le> sum_list us \<and> sum_list us \<le> real (length us) * hi"
    if "\<And>v. v \<in> set us \<Longrightarrow> lo \<le> v \<and> v \<le> hi" for us
    using that
  proof (induction us)
    case (Cons u us)
    then have "lo \<le> u \<and> u \<le> hi"
      and "real (length us) * lo \<le> sum_list us \<and> sum_list us \<le> real (length us) * hi" by simp_all
    then show ?case by (simp add: algebra_simps)
  qed simp
  from this [of vs] assms show ?thesis
    by (simp add: fmean_def pos_le_divide_eq pos_divide_le_eq mult.commute)
qed

lemma sum_list_pos: "us \<noteq> [] \<Longrightarrow> (\<And>v. v \<in> set us \<Longrightarrow> 0 < v) \<Longrightarrow> 0 < (sum_list us :: real)"
proof (induction us)
  case (Cons u us)
  then show ?case by (cases us) (simp, fastforce intro: add_pos_pos)
qed simp

lemma fmean_pos: "vs \<noteq> [] \<Longrightarrow> (\<And>v. v \<in> set vs \<Longrightarrow> 0 < v) \<Longrightarrow> 0 < fmean vs"
  unfolding fmean_def by (simp add: sum_list_pos)

section \<open>Selection by key\<close>

text \<open>
  \<open>min(xs, key=k)\<close> returns the first element whose key is smallest and raises on an empty
  sequence; \<open>sorted(xs, key=k)\<close> is stable, as \<open>sort_key\<close> is.
\<close>

fun argmin_from :: "('a \<Rightarrow> 'k::linorder) \<Rightarrow> 'a \<Rightarrow> 'a list \<Rightarrow> 'a" where
  "argmin_from k best [] = best"
| "argmin_from k best (v # vs) = argmin_from k (if k v < k best then v else best) vs"

definition py_min_by :: "('a \<Rightarrow> 'k::linorder) \<Rightarrow> 'a list \<Rightarrow> 'a result" where
  "py_min_by k vs = (case vs of [] \<Rightarrow> Inl ValueError | v # ws \<Rightarrow> Inr (argmin_from k v ws))"

lemma argmin_from_mem: "argmin_from k best vs \<in> set (best # vs)"
  by (induction vs arbitrary: best) fastforce+

lemma argmin_from_le: "v \<in> set (best # vs) \<Longrightarrow> k (argmin_from k best vs) \<le> k v"
proof (induction vs arbitrary: best v)
  case (Cons w ws)
  let ?b = "if k w < k best then w else best"
  have b: "k (argmin_from k ?b ws) \<le> k ?b" using Cons.IH [of ?b ?b] by simp
  have "k ?b \<le> k w" "k ?b \<le> k best" by auto
  then show ?case using Cons b by (auto split: if_splits intro: order_trans)
qed simp

lemma py_min_by_mem: "py_min_by k vs = Inr v \<Longrightarrow> v \<in> set vs"
  by (metis py_min_by_def argmin_from_mem list.exhaust list.simps(4,5) sum.distinct(1) sum.inject(2))

lemma py_min_by_le: "py_min_by k vs = Inr v \<Longrightarrow> w \<in> set vs \<Longrightarrow> k v \<le> k w"
  by (cases vs) (simp_all add: py_min_by_def, metis argmin_from_le list.set_intros)

lemma py_min_by_total: "vs \<noteq> [] \<Longrightarrow> \<exists>v. py_min_by k vs = Inr v"
  by (cases vs) (auto simp: py_min_by_def)

end
