(* ===== verification/Genes.thy ===== *)
theory Genes
  imports GA_Prelude
begin

text \<open>
  \<open>genes.py\<close>: the path-relative genome and its three operators, with the pseudo-random generator
  they draw from. A generator is the record of the values \<open>random.Random\<close> hands out, indexed by the
  number of the draw: which values come is not modelled, what the library documents about them
  (\<open>rng_ok\<close>: a float in \<open>[0, 1)\<close>, an index below the bound, a sample without repetition) is.
\<close>

section \<open>The random generator\<close>

record rng =
  rng_random :: "nat \<Rightarrow> real"
  rng_below :: "nat \<Rightarrow> nat \<Rightarrow> nat"
  rng_gauss :: "nat \<Rightarrow> real"
  rng_sample :: "nat \<Rightarrow> nat \<Rightarrow> nat \<Rightarrow> nat list"
  rng_pos :: nat

definition tick :: "rng \<Rightarrow> rng" where
  "tick r = r\<lparr>rng_pos := Suc (rng_pos r)\<rparr>"

definition py_random :: "rng \<Rightarrow> real \<times> rng" where
  "py_random r = (rng_random r (rng_pos r), tick r)"

definition py_uniform :: "real \<Rightarrow> real \<Rightarrow> rng \<Rightarrow> real \<times> rng" where
  "py_uniform lo hi r = (lo + (hi - lo) * rng_random r (rng_pos r), tick r)"

definition py_gauss :: "real \<Rightarrow> real \<Rightarrow> rng \<Rightarrow> real \<times> rng" where
  "py_gauss mu sigma r = (mu + rng_gauss r (rng_pos r) * sigma, tick r)"

definition py_choice :: "'a list \<Rightarrow> rng \<Rightarrow> ('a \<times> rng) result" where
  "py_choice vs r =
     (if vs = [] then Inl IndexError else Inr (vs ! rng_below r (rng_pos r) (length vs), tick r))"

definition py_sample :: "'a list \<Rightarrow> nat \<Rightarrow> rng \<Rightarrow> ('a list \<times> rng) result" where
  "py_sample vs k r =
     (if k > length vs then Inl ValueError
      else Inr (map ((!) vs) (rng_sample r (rng_pos r) (length vs) k), tick r))"

definition rng_ok :: "rng \<Rightarrow> bool" where
  "rng_ok r \<longleftrightarrow>
     (\<forall>i. 0 \<le> rng_random r i \<and> rng_random r i < 1) \<and>
     (\<forall>i n. 0 < n \<longrightarrow> rng_below r i n < n) \<and>
     (\<forall>i n k. k \<le> n \<longrightarrow> length (rng_sample r i n k) = k \<and> distinct (rng_sample r i n k) \<and>
        set (rng_sample r i n k) \<subseteq> {..<n})"

lemma rng_ok_tick [simp]: "rng_ok (tick r) = rng_ok r"
  by (simp add: rng_ok_def tick_def)

lemma py_random_ok: "rng_ok r \<Longrightarrow> py_random r = (v, r') \<Longrightarrow> 0 \<le> v \<and> v < 1 \<and> rng_ok r'"
  by (auto simp: py_random_def) (auto simp: rng_ok_def)

lemma py_uniform_ok:
  assumes "rng_ok r" and "lo \<le> hi" and "py_uniform lo hi r = (v, r')"
  shows "lo \<le> v \<and> v \<le> hi \<and> rng_ok r'"
proof -
  let ?u = "rng_random r (rng_pos r)"
  have u: "0 \<le> ?u" "?u \<le> 1" using assms(1) by (auto simp: rng_ok_def less_imp_le)
  have "(hi - lo) * ?u \<le> (hi - lo) * 1" using u assms(2) by (intro mult_left_mono) auto
  then show ?thesis using assms u by (auto simp: py_uniform_def)
qed

lemma py_gauss_ok: "rng_ok r \<Longrightarrow> py_gauss mu s r = (v, r') \<Longrightarrow> rng_ok r'"
  by (auto simp: py_gauss_def)

lemma py_choice_ok:
  assumes "rng_ok r" and "py_choice vs r = Inr (v, r')"
  shows "v \<in> set vs \<and> rng_ok r'"
proof -
  have "vs \<noteq> []" using assms(2) by (auto simp: py_choice_def)
  then have "rng_below r (rng_pos r) (length vs) < length vs" using assms(1) by (simp add: rng_ok_def)
  then show ?thesis using assms \<open>vs \<noteq> []\<close> by (auto simp: py_choice_def)
qed

lemma py_choice_total: "vs \<noteq> [] \<Longrightarrow> \<exists>v r'. py_choice vs r = Inr (v, r')"
  by (simp add: py_choice_def)

lemma py_sample_ok:
  assumes "rng_ok r" and "py_sample vs k r = Inr (ws, r')"
  shows "set ws \<subseteq> set vs \<and> length ws = k \<and> rng_ok r'"
proof -
  have k: "k \<le> length vs" using assms(2) by (auto simp: py_sample_def split: if_splits)
  then have "length (rng_sample r (rng_pos r) (length vs) k) = k"
    "set (rng_sample r (rng_pos r) (length vs) k) \<subseteq> {..<length vs}"
    using assms(1) by (simp_all add: rng_ok_def)
  then have "set (map ((!) vs) (rng_sample r (rng_pos r) (length vs) k)) \<subseteq> set vs"
    by (auto simp: subset_iff)
  with \<open>length _ = k\<close> show ?thesis using assms k by (auto simp: py_sample_def split: if_splits)
qed

lemma py_sample_total: "k \<le> length vs \<Longrightarrow> \<exists>ws r'. py_sample vs k r = Inr (ws, r')"
  by (simp add: py_sample_def)

section \<open>Genes\<close>

datatype kind = KIND_WALL | KIND_GATE

datatype gene = Gene_t | Gene_crossingDeg | Gene_length | Gene_overhang | Gene_gateWidth

record Genes =
  g_kind :: kind
  g_segment :: nat
  g_side :: int
  g_t :: real
  g_crossingDeg :: real
  g_length :: real
  g_overhang :: real
  g_gateWidth :: real

definition KIND_BY_COUNT :: "nat \<Rightarrow> kind result" where
  "KIND_BY_COUNT n = (if n = 1 then Inr KIND_WALL else if n = 2 then Inr KIND_GATE else Inl KeyError)"

fun GENE_RANGES :: "kind \<Rightarrow> (gene \<times> real \<times> real) list" where
  "GENE_RANGES KIND_WALL =
     [(Gene_t, 2/10, 8/10), (Gene_crossingDeg, 35, 55), (Gene_length, 17, 20), (Gene_overhang, 6, 10)]"
| "GENE_RANGES KIND_GATE =
     [(Gene_t, 2/10, 8/10), (Gene_crossingDeg, 40, 55), (Gene_length, 18, 20), (Gene_overhang, 35/10, 6),
      (Gene_gateWidth, 7, 10)]"

fun GENE_SIGMAS :: "gene \<Rightarrow> real" where
  "GENE_SIGMAS Gene_t = 15/1000"
| "GENE_SIGMAS Gene_crossingDeg = 2"
| "GENE_SIGMAS Gene_length = 1"
| "GENE_SIGMAS Gene_overhang = 5/10"
| "GENE_SIGMAS Gene_gateWidth = 5/10"

definition COARSE_STEP_PROBABILITY :: real where
  "COARSE_STEP_PROBABILITY = 1/10"

definition COARSE_STEP_FACTOR :: real where
  "COARSE_STEP_FACTOR = 4"

text \<open>\<open>getattr\<close> and \<open>setattr\<close> on the numeric genes.\<close>

fun getGene :: "gene \<Rightarrow> Genes \<Rightarrow> real" where
  "getGene Gene_t g = g_t g"
| "getGene Gene_crossingDeg g = g_crossingDeg g"
| "getGene Gene_length g = g_length g"
| "getGene Gene_overhang g = g_overhang g"
| "getGene Gene_gateWidth g = g_gateWidth g"

fun setGene :: "gene \<Rightarrow> real \<Rightarrow> Genes \<Rightarrow> Genes" where
  "setGene Gene_t v g = g\<lparr>g_t := v\<rparr>"
| "setGene Gene_crossingDeg v g = g\<lparr>g_crossingDeg := v\<rparr>"
| "setGene Gene_length v g = g\<lparr>g_length := v\<rparr>"
| "setGene Gene_overhang v g = g\<lparr>g_overhang := v\<rparr>"
| "setGene Gene_gateWidth v g = g\<lparr>g_gateWidth := v\<rparr>"

definition mutableGenes :: "kind \<Rightarrow> gene list" where
  "mutableGenes k = map fst (GENE_RANGES k)"

text \<open>The range of one gene, and its bounds (every mutable gene has one).\<close>

definition geneRange :: "kind \<Rightarrow> gene \<Rightarrow> (real \<times> real) result" where
  "geneRange k n = (case map_of (GENE_RANGES k) n of None \<Rightarrow> Inl KeyError | Some b \<Rightarrow> Inr b)"

section \<open>Operators\<close>

fun uniformAll :: "(gene \<times> real \<times> real) list \<Rightarrow> rng \<Rightarrow> (gene \<times> real) list \<times> rng" where
  "uniformAll [] r = ([], r)"
| "uniformAll ((n, lo, hi) # rest) r =
     (let (v, r1) = py_uniform lo hi r; (vs, r2) = uniformAll rest r1 in ((n, v) # vs, r2))"

text \<open>The constructor call with the drawn values as keywords; \<open>gateWidth\<close> defaults to zero.\<close>

definition buildGenes :: "kind \<Rightarrow> nat \<Rightarrow> int \<Rightarrow> (gene \<times> real) list \<Rightarrow> Genes" where
  "buildGenes k seg side values =
     fold (\<lambda>(n, v). setGene n v) values
       \<lparr>g_kind = k, g_segment = seg, g_side = side, g_t = 0, g_crossingDeg = 0, g_length = 0,
        g_overhang = 0, g_gateWidth = 0\<rparr>"

definition randomGenes :: "rng \<Rightarrow> kind \<Rightarrow> nat list \<Rightarrow> int list \<Rightarrow> (Genes \<times> rng) result" where
  "randomGenes r k segmentChoices sides =
     (let (values, r1) = uniformAll (GENE_RANGES k) r
      in bindE (py_choice segmentChoices r1) (\<lambda>(seg, r2).
         bindE (py_choice sides r2) (\<lambda>(side, r3).
           Inr (buildGenes k seg side values, r3))))"

text \<open>
  The retry loop of \<open>mutateGenes\<close>: up to ten gaussian steps, stopping at the first that is not
  clamped back to the old value. The value of the last step is kept either way.
\<close>

fun redraw :: "nat \<Rightarrow> real \<Rightarrow> real \<Rightarrow> real \<Rightarrow> real \<Rightarrow> rng \<Rightarrow> real \<times> rng" where
  "redraw 0 lo hi sigma old r = (old, r)"
| "redraw (Suc n) lo hi sigma old r =
     (let (step, r1) = py_gauss 0 sigma r; new = clamp lo hi (old + step)
      in if new \<noteq> old \<or> n = 0 then (new, r1) else redraw n lo hi sigma old r1)"

definition mutateGenes :: "rng \<Rightarrow> Genes \<Rightarrow> real \<Rightarrow> (Genes \<times> rng) result" where
  "mutateGenes r genes scale =
     bindE (py_choice (mutableGenes (g_kind genes)) r) (\<lambda>(name, r1).
     bindE (geneRange (g_kind genes) name) (\<lambda>(lo, hi).
       let sigma = GENE_SIGMAS name * scale;
           (coin, r2) = py_random r1;
           sigma' = (if coin < COARSE_STEP_PROBABILITY then sigma * COARSE_STEP_FACTOR else sigma);
           old = getGene name genes;
           (new, r3) = redraw 10 lo hi sigma' old r2
       in Inr (setGene name new genes, r3)))"

fun mixGenes :: "gene list \<Rightarrow> Genes \<Rightarrow> Genes \<Rightarrow> rng \<Rightarrow> Genes \<times> rng" where
  "mixGenes [] gb child r = (child, r)"
| "mixGenes (n # ns) gb child r =
     (let (coin, r1) = py_random r
      in mixGenes ns gb (if coin < 1/2 then setGene n (getGene n gb) child else child) r1)"

definition crossoverGenes :: "rng \<Rightarrow> Genes \<Rightarrow> Genes \<Rightarrow> Genes \<times> rng" where
  "crossoverGenes r ga gb =
     (if (g_kind ga, g_segment ga, g_side ga) \<noteq> (g_kind gb, g_segment gb, g_side gb)
      then let (coin, r1) = py_random r in (if coin < 1/2 then ga else gb, r1)
      else mixGenes (mutableGenes (g_kind ga)) gb ga r)"

section \<open>Lemmas\<close>

definition frame :: "Genes \<Rightarrow> kind \<times> nat \<times> int" where
  "frame g = (g_kind g, g_segment g, g_side g)"

definition genes_ok :: "Genes \<Rightarrow> bool" where
  "genes_ok g \<longleftrightarrow> (\<forall>(n, lo, hi) \<in> set (GENE_RANGES (g_kind g)). lo \<le> getGene n g \<and> getGene n g \<le> hi) \<and>
     (g_kind g = KIND_WALL \<longrightarrow> g_gateWidth g = 0)"

lemma getGene_setGene [simp]: "getGene n (setGene n' v g) = (if n = n' then v else getGene n g)"
  by (cases n; cases n') auto

lemma frame_setGene [simp]:
  "frame (setGene n v g) = frame g" "g_kind (setGene n v g) = g_kind g"
  "g_segment (setGene n v g) = g_segment g" "g_side (setGene n v g) = g_side g"
  by (cases n; simp add: frame_def)+

lemma frame_eqD: "frame g = frame g' \<Longrightarrow> g_kind g = g_kind g' \<and> g_segment g = g_segment g' \<and> g_side g = g_side g'"
  by (simp add: frame_def)

lemma Genes_eq_iff: "g = g' \<longleftrightarrow> frame g = frame g' \<and> (\<forall>n. getGene n g = getGene n g')"
proof -
  have "(\<forall>n. getGene n g = getGene n g') \<longleftrightarrow> g_t g = g_t g' \<and> g_crossingDeg g = g_crossingDeg g' \<and>
      g_length g = g_length g' \<and> g_overhang g = g_overhang g' \<and> g_gateWidth g = g_gateWidth g'"
    by (metis gene.exhaust getGene.simps)
  then show ?thesis by (auto simp: frame_def intro: Genes.equality)
qed

lemma mutable_gateWidth: "Gene_gateWidth \<in> set (mutableGenes k) \<longleftrightarrow> k = KIND_GATE"
  by (cases k) (auto simp: mutableGenes_def)

lemma mutableGenes_ne: "mutableGenes k \<noteq> []"
  by (cases k) (auto simp: mutableGenes_def)

lemma geneRange_mem: "geneRange k n = Inr (lo, hi) \<Longrightarrow> (n, lo, hi) \<in> set (GENE_RANGES k)"
  by (auto simp: geneRange_def split: option.splits dest: map_of_SomeD)

lemma geneRange_total: "n \<in> set (mutableGenes k) \<Longrightarrow> \<exists>lo hi. geneRange k n = Inr (lo, hi)"
  by (auto simp: mutableGenes_def geneRange_def map_of_eq_None_iff split: option.splits)

lemma GENE_RANGES_distinct: "distinct (map fst (GENE_RANGES k))"
  by (cases k) auto

lemma GENE_RANGES_le: "(n, lo, hi) \<in> set (GENE_RANGES k) \<Longrightarrow> lo \<le> hi"
  by (cases k) auto

lemma GENE_RANGES_unique:
  "(n, lo, hi) \<in> set (GENE_RANGES k) \<Longrightarrow> (n, lo', hi') \<in> set (GENE_RANGES k) \<Longrightarrow> lo' = lo \<and> hi' = hi"
  by (cases k) auto

lemma genes_ok_setGene:
  assumes "genes_ok g" and "(n, lo, hi) \<in> set (GENE_RANGES (g_kind g))" and "lo \<le> v" and "v \<le> hi"
  shows "genes_ok (setGene n v g)"
proof -
  have "lo' \<le> getGene m (setGene n v g) \<and> getGene m (setGene n v g) \<le> hi'"
    if m: "(m, lo', hi') \<in> set (GENE_RANGES (g_kind g))" for m lo' hi'
  proof (cases "m = n")
    case True
    then show ?thesis using GENE_RANGES_unique [OF assms(2)] m assms(3,4) by auto
  next
    case False
    then show ?thesis using assms(1) m by (auto simp: genes_ok_def)
  qed
  moreover have "g_kind g = KIND_WALL \<Longrightarrow> g_gateWidth (setGene n v g) = g_gateWidth g"
    using assms(2) by auto
  ultimately show ?thesis using assms(1) by (auto simp: genes_ok_def)
qed

lemma redraw_bounds:
  "lo \<le> hi \<Longrightarrow> 0 < n \<Longrightarrow> redraw n lo hi s old r = (v, r') \<Longrightarrow> lo \<le> v \<and> v \<le> hi"
proof (induction n arbitrary: r)
  case (Suc n)
  obtain step r1 where g: "py_gauss 0 s r = (step, r1)" by fastforce
  show ?case
  proof (cases "clamp lo hi (old + step) \<noteq> old \<or> n = 0")
    case True
    then have "v = clamp lo hi (old + step)" using Suc.prems(3) g by (auto simp: Let_def)
    then show ?thesis using clamp_bounds [OF Suc.prems(1)] by simp
  next
    case False
    then have "redraw n lo hi s old r1 = (v, r')" using Suc.prems(3) g by (simp add: Let_def)
    then show ?thesis using Suc.IH [OF Suc.prems(1)] False by simp
  qed
qed simp

lemma redraw_rng: "rng_ok r \<Longrightarrow> redraw n lo hi s old r = (v, r') \<Longrightarrow> rng_ok r'"
  by (induction n arbitrary: r) (auto simp: Let_def split: prod.splits if_splits dest: py_gauss_ok)

lemma mixGenes_ok:
  assumes "rng_ok r" and "mixGenes ns gb child r = (g, r')"
  shows "frame g = frame child \<and> rng_ok r' \<and>
    (\<forall>n. getGene n g = getGene n child \<or> n \<in> set ns \<and> getGene n g = getGene n gb)"
  using assms
proof (induction ns gb child r rule: mixGenes.induct)
  case (2 n ns gb child r)
  obtain coin r1 where c: "py_random r = (coin, r1)" by fastforce
  have "rng_ok r1" using py_random_ok [OF "2.prems"(1) c] by simp
  from "2.IH" [OF c [symmetric] refl this] "2.prems"(2) c show ?case
    by (auto split: if_splits)
qed simp

lemma fold_setGene_frame: "frame (fold (\<lambda>(n, v). setGene n v) vs g) = frame g"
  by (induction vs arbitrary: g) (auto split: prod.splits)

lemma fold_setGene_get:
  "distinct (map fst vs) \<Longrightarrow> getGene n (fold (\<lambda>(n, v). setGene n v) vs g) =
     (case map_of vs n of None \<Rightarrow> getGene n g | Some v \<Rightarrow> v)"
  by (induction vs arbitrary: g) (auto split: option.splits prod.splits dest: map_of_SomeD intro: rev_image_eqI)

lemma uniformAll_ok:
  assumes "rng_ok r" and "\<forall>(n, lo, hi) \<in> set rs. lo \<le> hi" and "uniformAll rs r = (vs, r')"
  shows "rng_ok r' \<and> map fst vs = map fst rs \<and> list_all2 (\<lambda>(n, lo, hi) (m, v). lo \<le> v \<and> v \<le> hi) rs vs"
  using assms
proof (induction rs r arbitrary: vs r' rule: uniformAll.induct)
  case (2 n lo hi rest r)
  obtain v r1 where v: "py_uniform lo hi r = (v, r1)" by fastforce
  obtain ws r2 where w: "uniformAll rest r1 = (ws, r2)" by fastforce
  have "lo \<le> v \<and> v \<le> hi \<and> rng_ok r1" using py_uniform_ok [OF "2.prems"(1) _ v] "2.prems"(2) by simp
  with "2.IH" [OF v [symmetric] refl _ _ w] "2.prems" v w show ?case by auto
qed simp

lemma list_all2_map_of:
  assumes "list_all2 (\<lambda>(n, lo, hi) (m, v). lo \<le> v \<and> v \<le> hi) rs vs" and "map fst vs = map fst rs"
    and "distinct (map fst rs)" and "(n, lo, hi) \<in> set rs"
  shows "\<exists>v. map_of vs n = Some v \<and> lo \<le> v \<and> v \<le> (hi :: real)"
  using assms
  by (induction rs vs rule: list_all2_induct) (auto split: prod.splits intro: rev_image_eqI)

lemma buildGenes_ok:
  assumes "list_all2 (\<lambda>(n, lo, hi) (m, v). lo \<le> v \<and> v \<le> hi) (GENE_RANGES k) vs"
    and "map fst vs = map fst (GENE_RANGES k)"
  shows "genes_ok (buildGenes k seg side vs) \<and> frame (buildGenes k seg side vs) = (k, seg, side)"
proof -
  let ?g = "buildGenes k seg side vs"
  have fr: "frame ?g = (k, seg, side)" 
    unfolding buildGenes_def fold_setGene_frame by (simp add: frame_def)
  have d: "distinct (map fst vs)" using GENE_RANGES_distinct [of k] assms(2) by simp
  have "lo \<le> getGene n ?g \<and> getGene n ?g \<le> hi" if "(n, lo, hi) \<in> set (GENE_RANGES k)" for n lo hi
    using list_all2_map_of [OF assms GENE_RANGES_distinct that]
    by (auto simp: buildGenes_def fold_setGene_get [OF d])
  moreover have "g_gateWidth ?g = 0" if "k = KIND_WALL"
  proof -
    have "map_of vs Gene_gateWidth = None" using assms(2) that by (simp add: map_of_eq_None_iff flip: set_map)
    then have "getGene Gene_gateWidth ?g = 0" unfolding buildGenes_def fold_setGene_get [OF d] by simp
    then show ?thesis by simp
  qed
  ultimately show ?thesis using fr by (auto simp: genes_ok_def frame_def)
qed

lemma randomGenes_ok:
  assumes "rng_ok r" and "randomGenes r k segs sides = Inr (g, r')"
  shows "genes_ok g \<and> g_kind g = k \<and> g_segment g \<in> set segs \<and> g_side g \<in> set sides \<and> rng_ok r'"
proof -
  obtain vs r1 where v: "uniformAll (GENE_RANGES k) r = (vs, r1)" by fastforce
  have u: "rng_ok r1" "map fst vs = map fst (GENE_RANGES k)"
    "list_all2 (\<lambda>(n, lo, hi) (m, v). lo \<le> v \<and> v \<le> hi) (GENE_RANGES k) vs"
    using uniformAll_ok [OF assms(1) _ v] GENE_RANGES_le by blast+
  obtain seg r2 side where c: "py_choice segs r1 = Inr (seg, r2)" "py_choice sides r2 = Inr (side, r')"
    and g: "g = buildGenes k seg side vs"
    using assms(2) v by (auto simp: randomGenes_def result_simps)
  have "seg \<in> set segs \<and> rng_ok r2" using py_choice_ok [OF u(1) c(1)] .
  then show ?thesis
    using py_choice_ok [OF _ c(2)] buildGenes_ok [OF u(3,2), of seg side] g by (auto simp: frame_def)
qed

lemma randomGenes_total:
  "segs \<noteq> [] \<Longrightarrow> sides \<noteq> [] \<Longrightarrow> \<exists>g r'. randomGenes r k segs sides = Inr (g, r')"
  by (simp add: randomGenes_def py_choice_def split: prod.splits)

lemma mutateGenes_steps:
  assumes "rng_ok r" and "mutateGenes r g scale = Inr (g', r')"
  obtains n lo hi v where "(n, lo, hi) \<in> set (GENE_RANGES (g_kind g))" and "lo \<le> v" and "v \<le> hi"
    and "g' = setGene n v g" and "rng_ok r'"
proof -
  obtain n r1 lo hi where c: "py_choice (mutableGenes (g_kind g)) r = Inr (n, r1)"
    and rg: "geneRange (g_kind g) n = Inr (lo, hi)"
    and rest: "(let sigma = GENE_SIGMAS n * scale; (coin, r2) = py_random r1;
        sigma' = (if coin < COARSE_STEP_PROBABILITY then sigma * COARSE_STEP_FACTOR else sigma);
        old = getGene n g; (new, r3) = redraw 10 lo hi sigma' old r2
      in Inr (setGene n new g, r3)) = (Inr (g', r') :: (Genes \<times> rng) result)"
    using assms(2) by (auto simp: mutateGenes_def result_simps)
  obtain coin r2 where p: "py_random r1 = (coin, r2)" by fastforce
  then obtain sigma v where d: "redraw 10 lo hi sigma (getGene n g) r2 = (v, r')" and g': "g' = setGene n v g"
    using rest by (auto simp: Let_def split: prod.splits)
  have mem: "(n, lo, hi) \<in> set (GENE_RANGES (g_kind g))" using geneRange_mem [OF rg] .
  have "rng_ok r1" using py_choice_ok [OF assms(1) c] by simp
  then have "rng_ok r2" using py_random_ok p by blast
  then have "rng_ok r'" using redraw_rng d by blast
  then show ?thesis
    using redraw_bounds [OF GENE_RANGES_le [OF mem] _ d] that [OF mem _ _ g'] by simp
qed

lemma mutateGenes_total:
  assumes "rng_ok r"
  shows "\<exists>g' r'. mutateGenes r g scale = Inr (g', r')"
proof -
  obtain n r1 where c: "py_choice (mutableGenes (g_kind g)) r = Inr (n, r1)"
    using py_choice_total mutableGenes_ne by metis
  then obtain lo hi where "geneRange (g_kind g) n = Inr (lo, hi)"
    using py_choice_ok [OF assms c] geneRange_total by blast
  then show ?thesis using c by (auto simp: mutateGenes_def Let_def split: prod.splits)
qed

lemma crossoverGenes_ok:
  assumes "rng_ok r" and "crossoverGenes r ga gb = (g, r')"
  shows "rng_ok r' \<and> (frame g = frame ga \<or> frame g = frame gb) \<and> (frame ga \<noteq> frame gb \<longrightarrow> g = ga \<or> g = gb) \<and>
    (\<forall>n. getGene n g = getGene n ga \<or> getGene n g = getGene n gb)"
proof (cases "frame ga = frame gb")
  case True
  then have "mixGenes (mutableGenes (g_kind ga)) gb ga r = (g, r')"
    using assms(2) by (simp add: crossoverGenes_def frame_def)
  from mixGenes_ok [OF assms(1) this] show ?thesis using True by auto
next
  case False
  obtain coin r1 where c: "py_random r = (coin, r1)" by fastforce
  then have "r' = r1" and "g = ga \<or> g = gb"
    using assms(2) False by (auto simp: crossoverGenes_def frame_def split: if_splits)
  then show ?thesis using False py_random_ok [OF assms(1) c] by auto
qed

lemma crossoverGenes_genes_ok:
  assumes "rng_ok r" and "crossoverGenes r ga gb = (g, r')" and "genes_ok ga" and "genes_ok gb"
  shows "genes_ok g"
proof (cases "frame ga = frame gb")
  case True
  note fr = crossoverGenes_ok [OF assms(1,2)]
  then have k: "g_kind g = g_kind ga" "g_kind gb = g_kind ga" using True by (auto simp: frame_def)
  have "lo \<le> getGene n g \<and> getGene n g \<le> hi" if "(n, lo, hi) \<in> set (GENE_RANGES (g_kind g))" for n lo hi
    using that fr assms(3,4) k unfolding genes_ok_def by (metis (no_types, lifting) case_prodD)
  moreover have "g_gateWidth g = g_gateWidth ga \<or> g_gateWidth g = g_gateWidth gb"
    using fr by (metis getGene.simps(5))
  ultimately show ?thesis using assms(3,4) k by (auto simp: genes_ok_def)
next
  case False
  then show ?thesis using crossoverGenes_ok [OF assms(1,2)] assms(3,4) by auto
qed

section \<open>Properties\<close>

definition rng_fixed :: rng where
  "rng_fixed = \<lparr>rng_random = (\<lambda>_. 1/2), rng_below = (\<lambda>_ _. 0), rng_gauss = (\<lambda>_. 1),
     rng_sample = (\<lambda>_ n k. [0..<k]), rng_pos = 0\<rparr>"

lemma rng_fixed_ok: "rng_ok rng_fixed"
  by (auto simp: rng_ok_def rng_fixed_def)

text \<open>
  Fresh genes are complete and legal: with at least one segment and one side to choose from the
  draw succeeds, every gene lies in the range of its kind, a wall has no gate width, and segment and
  side come from the given choices.
\<close>

theorem randomGenes_in_range:
  assumes "rng_ok r" and "segs \<noteq> []" and "sides \<noteq> []"
  shows "\<exists>g r'. randomGenes r k segs sides = Inr (g, r') \<and> genes_ok g \<and> g_kind g = k \<and>
    g_segment g \<in> set segs \<and> g_side g \<in> set sides \<and> rng_ok r'"
  using randomGenes_total [OF assms(2,3)] randomGenes_ok [OF assms(1)] by blast

theorem randomGenes_in_range_witness:
  "\<exists>g r'. randomGenes rng_fixed KIND_GATE [3, 5] [-1, 1] = Inr (g, r') \<and> genes_ok g \<and> g_kind g = KIND_GATE \<and>
    g_segment g \<in> set [3, 5] \<and> g_side g \<in> set [-1, 1] \<and> rng_ok r'"
  by (rule randomGenes_in_range) (simp_all add: rng_fixed_ok)

text \<open>
  C21. Breeding stays inside the gene ranges and inside a parent's frame: a child is produced, its
  genes are legal, it attacks the same segment from the same side as one of its parents (with that
  parent's kind), and all of its genes but at most one are inherited unchanged from a parent.
\<close>

theorem bred_genes_ok:
  assumes "rng_ok r" and "genes_ok ga" and "genes_ok gb"
  shows "\<exists>g r1 child r2. crossoverGenes r ga gb = (g, r1) \<and> mutateGenes r1 g scale = Inr (child, r2) \<and>
    genes_ok child \<and> rng_ok r2 \<and> (frame child = frame ga \<or> frame child = frame gb) \<and>
    (\<exists>n. \<forall>m. m \<noteq> n \<longrightarrow> getGene m child = getGene m ga \<or> getGene m child = getGene m gb)"
proof -
  obtain g r1 where x: "crossoverGenes r ga gb = (g, r1)" by fastforce
  note cross = crossoverGenes_ok [OF assms(1) x]
  have g: "genes_ok g" using crossoverGenes_genes_ok [OF assms(1) x assms(2,3)] .
  obtain child r2 where m: "mutateGenes r1 g scale = Inr (child, r2)"
    using mutateGenes_total cross by blast
  from cross obtain n lo hi v where s: "(n, lo, hi) \<in> set (GENE_RANGES (g_kind g))" "lo \<le> v" "v \<le> hi"
    and c: "child = setGene n v g" and "rng_ok r2"
    using mutateGenes_steps [OF _ m] by blast
  have "genes_ok child" using genes_ok_setGene [OF g s] c by simp
  moreover have "frame child = frame ga \<or> frame child = frame gb" using c cross by simp
  moreover have "\<forall>m. m \<noteq> n \<longrightarrow> getGene m child = getGene m ga \<or> getGene m child = getGene m gb"
    using c cross by simp
  ultimately show ?thesis using x m \<open>rng_ok r2\<close> by blast
qed

definition sampleGenes :: "real \<Rightarrow> Genes" where
  "sampleGenes v = \<lparr>g_kind = KIND_WALL, g_segment = 1, g_side = 1, g_t = v, g_crossingDeg = 45,
     g_length = 18, g_overhang = 8, g_gateWidth = 0\<rparr>"

theorem bred_genes_ok_witness:
  "\<exists>g r1 child r2. crossoverGenes rng_fixed (sampleGenes (3/10)) (sampleGenes (5/10)) = (g, r1) \<and>
    mutateGenes r1 g 1 = Inr (child, r2) \<and> genes_ok child \<and> rng_ok r2 \<and>
    (frame child = frame (sampleGenes (3/10)) \<or> frame child = frame (sampleGenes (5/10))) \<and>
    (\<exists>n. \<forall>m. m \<noteq> n \<longrightarrow> getGene m child = getGene m (sampleGenes (3/10)) \<or>
      getGene m child = getGene m (sampleGenes (5/10)))"
  by (rule bred_genes_ok) (simp_all add: rng_fixed_ok genes_ok_def sampleGenes_def)

end
