(* ===== verification/Mission.thy ===== *)
theory Mission
  imports GA_Prelude
begin

text \<open>
  \<open>mission.py\<close>: the QGC plan, parsed into waypoints in local metres, and the flight segments
  between them. The plan is the JSON value that \<open>json.load\<close> returns; reading the file is the
  first argument (\<open>Inl\<close> when opening or decoding it fails).
\<close>

section \<open>JSON values\<close>

text \<open>
  \<open>JObj\<close> holds the association list of a dict: \<open>json.load\<close> has already dropped the repeated keys.
\<close>

datatype json =
    JNull
  | JBool bool
  | JNum real
  | JStr string
  | JList "json list"
  | JObj "(string \<times> json) list"

text \<open>\<open>v[key]\<close> with a string key: KeyError on a dict, TypeError on anything else.\<close>

fun jindex :: "json \<Rightarrow> string \<Rightarrow> json result" where
  "jindex (JObj kvs) k = (case map_of kvs k of None \<Rightarrow> Inl KeyError | Some v \<Rightarrow> Inr v)"
| "jindex _ k = Inl TypeError"

text \<open>\<open>v.get(key, default)\<close>: only dicts have the method.\<close>

fun jget :: "json \<Rightarrow> string \<Rightarrow> json \<Rightarrow> json result" where
  "jget (JObj kvs) k dflt = Inr (case map_of kvs k of None \<Rightarrow> dflt | Some v \<Rightarrow> v)"
| "jget _ k dflt = Inl AttributeError"

text \<open>\<open>v[i]\<close> with a number index and \<open>len(v)\<close>.\<close>

fun jnth :: "json \<Rightarrow> nat \<Rightarrow> json result" where
  "jnth (JList vs) i = (if i < length vs then Inr (vs ! i) else Inl IndexError)"
| "jnth (JStr s) i = (if i < length s then Inr (JStr [s ! i]) else Inl IndexError)"
| "jnth (JObj _) i = Inl KeyError"
| "jnth _ i = Inl TypeError"

fun jlen :: "json \<Rightarrow> nat result" where
  "jlen (JList vs) = Inr (length vs)"
| "jlen (JStr s) = Inr (length s)"
| "jlen (JObj kvs) = Inr (card (dom (map_of kvs)))"
| "jlen _ = Inl TypeError"

text \<open>Iteration over a JSON value: a list's items, a string's characters, a dict's keys.\<close>

fun jiter :: "json \<Rightarrow> json list result" where
  "jiter (JList vs) = Inr vs"
| "jiter (JStr s) = Inr (map (\<lambda>c. JStr [c]) s)"
| "jiter (JObj kvs) = Inr (map JStr (remdups (map fst kvs)))"
| "jiter _ = Inl TypeError"

text \<open>A value used as a number: \<open>True\<close> and \<open>False\<close> count as 1 and 0.\<close>

fun jnum :: "json \<Rightarrow> real result" where
  "jnum (JNum v) = Inr v"
| "jnum (JBool b) = Inr (if b then 1 else 0)"
| "jnum _ = Inl TypeError"

section \<open>Waypoints\<close>

type_synonym Waypoint = "real \<times> real"

definition POSITION_COMMANDS :: "real list" where
  "POSITION_COMMANDS = [16, 22, 21]"

definition EARTH_RADIUS_M :: real where
  "EARTH_RADIUS_M = 6378137"

definition MIN_SEGMENT_LENGTH_M :: real where
  "MIN_SEGMENT_LENGTH_M = 25"

definition wgs84ToLocal :: "real \<Rightarrow> real \<Rightarrow> real \<Rightarrow> real \<Rightarrow> Waypoint" where
  "wgs84ToLocal lat lon homeLat homeLon =
     (let dLat = radians (lat - homeLat);
          dLon = radians (lon - homeLon)
      in (EARTH_RADIUS_M * dLat, EARTH_RADIUS_M * dLon * cos (radians homeLat)))"

text \<open>\<open>item.get("command") in POSITION_COMMANDS\<close> (\<open>True\<close> is 1, which no command code is).\<close>

definition isPositionCommand :: "json \<Rightarrow> bool" where
  "isPositionCommand c = (\<exists>v \<in> set POSITION_COMMANDS. jnum c = Inr v)"

text \<open>One item of the plan: the waypoint it adds, if any.\<close>

definition itemWaypoint :: "json \<Rightarrow> json \<Rightarrow> Waypoint option result" where
  "itemWaypoint home item =
     bindE (jget item ''params'' (JList [])) (\<lambda>params.
     bindE (jget item ''command'' JNull) (\<lambda>command.
       if \<not> isPositionCommand command then Inr None
       else bindE (jlen params) (\<lambda>n.
         if n < 6 then Inr None
         else bindE (jnth params 4) (\<lambda>p4.
           if p4 = JNull then Inr None
           else bindE (jnth params 5) (\<lambda>p5.
             if p5 = JNull then Inr None
             else bindE (jnth home 0) (\<lambda>h0.
               bindE (jnth home 1) (\<lambda>h1.
               bindE (jnum p4) (\<lambda>lat.
               bindE (jnum p5) (\<lambda>lon.
               bindE (jnum h0) (\<lambda>homeLat.
               bindE (jnum h1) (\<lambda>homeLon.
                 Inr (Some (wgs84ToLocal lat lon homeLat homeLon)))))))))))))"

fun collectWaypoints :: "json \<Rightarrow> json list \<Rightarrow> Waypoint list result" where
  "collectWaypoints home [] = Inr []"
| "collectWaypoints home (item # items) =
     bindE (itemWaypoint home item) (\<lambda>w.
     bindE (collectWaypoints home items) (\<lambda>ws.
       Inr (case w of None \<Rightarrow> ws | Some p \<Rightarrow> p # ws)))"

text \<open>
  The \<open>try\<close> block of \<open>parseWaypoints\<close>: OSError and ValueError of the file, KeyError and TypeError
  of the two subscripts become ValueError, while the AttributeError of \<open>.get\<close> on something that
  is not a dict passes through. (With \<open>plan["mission"]["items"]\<close> found, \<open>plan["mission"]\<close> is a
  dict, so it cannot happen.)
\<close>

definition readPlan :: "json result \<Rightarrow> (json \<times> json) result" where
  "readPlan file =
     (case bindE file (\<lambda>plan.
           bindE (jindex plan ''mission'') (\<lambda>mission.
           bindE (jindex mission ''items'') (\<lambda>items.
           bindE (jindex plan ''mission'') (\<lambda>mission.
           bindE (jget mission ''plannedHomePosition'' (JList [JNum 0, JNum 0, JNum 0])) (\<lambda>home.
             Inr (items, home)))))) of
        Inl e \<Rightarrow> Inl (if e \<in> {ValueError, KeyError, TypeError} then ValueError else e)
      | Inr v \<Rightarrow> Inr v)"

definition parseWaypoints :: "json result \<Rightarrow> Waypoint list result" where
  "parseWaypoints file =
     bindE (readPlan file) (\<lambda>(items, home).
     bindE (jiter items) (\<lambda>its.
     bindE (collectWaypoints home its) (\<lambda>ws.
       let waypoints = (0, 0) # ws
       in if length waypoints < 2 then Inl ValueError else Inr waypoints)))"

section \<open>Segments\<close>

record Segment =
  seg_index :: nat
  seg_a :: Waypoint
  seg_b :: Waypoint

text \<open>\<open>math.dist\<close> of two points of the plane.\<close>

definition pdist :: "real \<times> real \<Rightarrow> real \<times> real \<Rightarrow> real" where
  "pdist p q = sqrt ((fst p - fst q)\<^sup>2 + (snd p - snd q)\<^sup>2)"

definition segLength :: "Segment \<Rightarrow> real" where
  "segLength s = pdist (seg_a s) (seg_b s)"

definition direction :: "Segment \<Rightarrow> (real \<times> real) result" where
  "direction s =
     (let len = segLength s
      in if len = 0 then Inl ZeroDivisionError
         else Inr ((fst (seg_b s) - fst (seg_a s)) / len, (snd (seg_b s) - snd (seg_a s)) / len))"

definition sideNormal :: "Segment \<Rightarrow> (real \<times> real) result" where
  "sideNormal s = bindE (direction s) (\<lambda>(ux, uy). Inr (uy, - ux))"

definition pointAt :: "Segment \<Rightarrow> real \<Rightarrow> real \<times> real" where
  "pointAt s f =
     (fst (seg_a s) + f * (fst (seg_b s) - fst (seg_a s)),
      snd (seg_a s) + f * (snd (seg_b s) - snd (seg_a s)))"

definition allSegments :: "Waypoint list \<Rightarrow> Segment list" where
  "allSegments waypoints =
     (let segments =
        map (\<lambda>i. \<lparr>seg_index = i, seg_a = waypoints ! i, seg_b = waypoints ! (i + 1)\<rparr>)
          [0..<length waypoints - 1]
      in filter (\<lambda>s. segLength s > 1 / 1000000) segments)"

definition longSegments :: "Waypoint list \<Rightarrow> real \<Rightarrow> Segment list" where
  "longSegments waypoints minLength =
     filter (\<lambda>s. segLength s \<ge> minLength) (allSegments waypoints)"

section \<open>Lemmas\<close>

lemma pdist_nonneg [simp]: "0 \<le> pdist p q"
  by (simp add: pdist_def)

lemma pdist_sym: "pdist p q = pdist q p"
  by (simp add: pdist_def power2_commute)

lemma pdist_eq_0_iff [simp]: "pdist p q = 0 \<longleftrightarrow> p = q"
  by (cases p; cases q) (auto simp: pdist_def sum_power2_eq_zero_iff)

lemma pdist_self [simp]: "pdist p p = 0"
  by simp

lemma pdist_square: "(pdist p q)\<^sup>2 = (fst p - fst q)\<^sup>2 + (snd p - snd q)\<^sup>2"
  by (simp add: pdist_def)

text \<open>A usable segment: long enough to have a direction, as \<open>allSegments\<close> guarantees.\<close>

definition seg_ok :: "Segment \<Rightarrow> bool" where
  "seg_ok s \<longleftrightarrow> 0 < segLength s"

definition unit2 :: "real \<times> real \<Rightarrow> bool" where
  "unit2 v \<longleftrightarrow> (fst v)\<^sup>2 + (snd v)\<^sup>2 = 1"

lemma direction_unit:
  assumes "seg_ok s"
  obtains ux uy where "direction s = Inr (ux, uy)" and "sideNormal s = Inr (uy, - ux)"
    and "ux\<^sup>2 + uy\<^sup>2 = 1"
proof -
  let ?l = "segLength s"
  let ?ux = "(fst (seg_b s) - fst (seg_a s)) / ?l"
  let ?uy = "(snd (seg_b s) - snd (seg_a s)) / ?l"
  have l: "0 < ?l" using assms by (simp add: seg_ok_def)
  have "?l\<^sup>2 = (fst (seg_b s) - fst (seg_a s))\<^sup>2 + (snd (seg_b s) - snd (seg_a s))\<^sup>2"
    by (simp add: segLength_def pdist_square power2_commute)
  then have "?ux\<^sup>2 + ?uy\<^sup>2 = ?l\<^sup>2 / ?l\<^sup>2"
    by (simp only: power_divide flip: add_divide_distrib)
  with l have "?ux\<^sup>2 + ?uy\<^sup>2 = 1" by simp
  moreover have "direction s = Inr (?ux, ?uy)" using l by (simp add: direction_def Let_def)
  moreover from this have "sideNormal s = Inr (?uy, - ?ux)" by (simp add: sideNormal_def)
  ultimately show ?thesis using that by blast
qed

lemma allSegments_ok: "s \<in> set (allSegments ws) \<Longrightarrow> seg_ok s"
  by (auto simp: allSegments_def seg_ok_def)

lemma allSegments_consecutive:
  "s \<in> set (allSegments ws) \<Longrightarrow>
     seg_index s + 1 < length ws \<and> seg_a s = ws ! seg_index s \<and> seg_b s = ws ! (seg_index s + 1)"
  by (auto simp: allSegments_def)

lemma allSegments_sorted: "sorted_wrt (<) (map seg_index (allSegments ws))"
proof -
  have "sorted_wrt (\<lambda>s t. seg_index s < seg_index t) (allSegments ws)"
    unfolding allSegments_def Let_def
    by (rule sorted_wrt_filter) (simp add: sorted_wrt_map)
  then show ?thesis by (simp add: sorted_wrt_map)
qed

lemma allSegments_distinct: "distinct (map seg_index (allSegments ws))"
  using allSegments_sorted strict_sorted_iff by blast

lemma longSegments_subset: "s \<in> set (longSegments ws m) \<Longrightarrow> s \<in> set (allSegments ws)"
  by (simp add: longSegments_def)

lemma jindex_error: "jindex v k = Inl e \<Longrightarrow> e \<in> {KeyError, TypeError}"
  by (cases v) (auto split: option.splits)

lemma jget_after_jindex: "jindex v k = Inr w \<Longrightarrow> \<exists>u. jget v k' d = Inr u"
  by (cases v) auto

lemma bindE_Inl_iff [result_simps]:
  "bindE m f = Inl e \<longleftrightarrow> m = Inl e \<or> (\<exists>v. m = Inr v \<and> f v = Inl e)"
  by (cases m) auto

lemma readPlan_error:
  assumes "readPlan f = Inl e" and "\<forall>e'. f = Inl e' \<longrightarrow> e' = ValueError"
  shows "e = ValueError"
proof (cases f)
  case (Inl e')
  then show ?thesis using assms by (simp add: readPlan_def)
next
  case plan: (Inr plan)
  show ?thesis
  proof (cases "jindex plan ''mission''")
    case (Inl e')
    then show ?thesis using assms(1) plan jindex_error [OF Inl] by (auto simp: readPlan_def)
  next
    case mission: (Inr mission)
    show ?thesis
    proof (cases "jindex mission ''items''")
      case (Inl e')
      then show ?thesis using assms(1) plan mission jindex_error [OF Inl] by (auto simp: readPlan_def)
    next
      case (Inr items)
      then obtain home where
        "jget mission ''plannedHomePosition'' (JList [JNum 0, JNum 0, JNum 0]) = Inr home"
        using jget_after_jindex by blast
      then show ?thesis using assms(1) plan mission Inr by (simp add: readPlan_def)
    qed
  qed
qed

lemma wgs84ToLocal_home: "wgs84ToLocal homeLat homeLon homeLat homeLon = (0, 0)"
  by (simp add: wgs84ToLocal_def radians_def)


lemma parseWaypoints_shape:
  assumes "parseWaypoints f = Inr ws"
  shows "2 \<le> length ws \<and> hd ws = (0, 0)"
  using assms by (auto simp: parseWaypoints_def Let_def Suc_le_eq split: if_splits elim!: bindE_InrE)

section \<open>Properties\<close>

text \<open>
  A plan as the ground station writes it: position items and other commands in between, and the
  planned home position.
\<close>

fun planItem :: "(real \<times> real) option \<Rightarrow> json" where
  "planItem (Some (lat, lon)) = JObj [(''command'', JNum 16),
     (''params'', JList [JNum 0, JNum 0, JNum 0, JNull, JNum lat, JNum lon, JNum 10])]"
| "planItem None = JObj [(''command'', JNum 178), (''params'', JList [JNum 1, JNum 5, JNum 0, JNum 0, JNum 0, JNum 0, JNum 0])]"

definition planOf :: "real \<times> real \<Rightarrow> (real \<times> real) option list \<Rightarrow> json" where
  "planOf home entries = JObj [(''mission'', JObj [(''items'', JList (map planItem entries)),
     (''plannedHomePosition'', JList [JNum (fst home), JNum (snd home), JNum 480])])]"

lemma itemWaypoint_planItem:
  "itemWaypoint (JList [JNum a, JNum b, JNum c]) (planItem e) =
     Inr (map_option (\<lambda>(lat, lon). wgs84ToLocal lat lon a b) e)"
  by (cases e) (auto simp: itemWaypoint_def isPositionCommand_def POSITION_COMMANDS_def)

lemma collectWaypoints_plan:
  "collectWaypoints (JList [JNum a, JNum b, JNum c]) (map planItem es) =
     Inr (map (\<lambda>(lat, lon). wgs84ToLocal lat lon a b) (map the (filter (\<lambda>e. e \<noteq> None) es)))"
proof (induction es)
  case (Cons e es)
  then show ?case by (cases e) (simp_all add: itemWaypoint_planItem del: planItem.simps)
qed simp


text \<open>
  The segments of a mission are exactly the pairs of consecutive waypoints that are not the same
  point, in flight order and numbered by their first waypoint, and the long segments are those among
  them of at least the given length.
\<close>

theorem segments_correct:
  "set (allSegments ws) = {s. seg_index s + 1 < length ws \<and> seg_a s = ws ! seg_index s \<and>
     seg_b s = ws ! (seg_index s + 1) \<and> 1 / 1000000 < segLength s} \<and>
   sorted_wrt (<) (map seg_index (allSegments ws)) \<and>
   set (longSegments ws m) = {s \<in> set (allSegments ws). m \<le> segLength s}"
proof -
  have "s \<in> set (allSegments ws)" if "seg_index s + 1 < length ws" "seg_a s = ws ! seg_index s"
    "seg_b s = ws ! (seg_index s + 1)" "1 / 1000000 < segLength s" for s
  proof -
    have "s = \<lparr>seg_index = seg_index s, seg_a = ws ! seg_index s, seg_b = ws ! (seg_index s + 1)\<rparr>"
      using that(2,3) by (cases s) simp
    then show ?thesis using that(1,4) by (auto simp: allSegments_def image_iff)
  qed
  moreover have "1 / 1000000 < segLength s" if "s \<in> set (allSegments ws)" for s
    using that by (simp add: allSegments_def)
  ultimately show ?thesis
    using allSegments_consecutive allSegments_sorted by (auto simp: longSegments_def)
qed

end
