(* ===== verification/Geometry.thy ===== *)
theory Geometry
  imports Mission
begin

text \<open>
  \<open>geometry.py\<close>: the ground plane of box obstacles. \<open>Obstacle\<close> has the fields the module reads
  from Aerialist's obstacle class. The footprint of a box, the set of ground points it covers, is
  the abstract object the routines are checked against.
\<close>

section \<open>Obstacles and their axes\<close>

record Obstacle =
  o_l :: real
  o_w :: real
  o_h :: real
  o_x :: real
  o_y :: real
  o_z :: real
  o_r :: real

type_synonym Point = "real \<times> real"
type_synonym Bounds = "real \<times> real \<times> real \<times> real"

definition OVERLAP_EPS :: real where
  "OVERLAP_EPS = 1 / 1000000000"

definition boxAxes :: "Obstacle \<Rightarrow> Point list" where
  "boxAxes ob =
     (let rad = radians (o_r ob); cosR = cos rad; sinR = sin rad
      in [(cosR, sinR), (- sinR, cosR)])"

definition boxCorners :: "Obstacle \<Rightarrow> Point list" where
  "boxCorners ob =
     (let (ux, uy) = boxAxes ob ! 0; (vx, vy) = boxAxes ob ! 1;
          halfL = 1/2 * o_l ob; halfW = 1/2 * o_w ob
      in map (\<lambda>(sL, sW).
           (o_x ob + sL * halfL * ux + sW * halfW * vx,
            o_y ob + sL * halfL * uy + sW * halfW * vy))
         [(1, 1), (1, -1), (-1, -1), (-1, 1)])"

definition projectionRadius :: "Obstacle \<Rightarrow> real \<Rightarrow> real \<Rightarrow> real" where
  "projectionRadius ob nx ny =
     (let (ux, uy) = boxAxes ob ! 0; (vx, vy) = boxAxes ob ! 1
      in 1/2 * o_l ob * \<bar>ux * nx + uy * ny\<bar> + 1/2 * o_w ob * \<bar>vx * nx + vy * ny\<bar>)"

definition axisGap :: "Obstacle \<Rightarrow> Obstacle \<Rightarrow> real \<Rightarrow> real \<Rightarrow> real" where
  "axisGap oa ob nx ny =
     (let dx = o_x ob - o_x oa; dy = o_y ob - o_y oa
      in \<bar>dx * nx + dy * ny\<bar> - projectionRadius oa nx ny - projectionRadius ob nx ny)"

fun overlapLoop :: "Obstacle \<Rightarrow> Obstacle \<Rightarrow> Point list \<Rightarrow> bool" where
  "overlapLoop oa ob [] = True"
| "overlapLoop oa ob ((nx, ny) # rest) =
     (if axisGap oa ob nx ny > - OVERLAP_EPS then False else overlapLoop oa ob rest)"

definition overlaps :: "Obstacle \<Rightarrow> Obstacle \<Rightarrow> bool" where
  "overlaps oa ob = overlapLoop oa ob (boxAxes oa @ boxAxes ob)"

fun hasOverlap :: "Obstacle list \<Rightarrow> bool" where
  "hasOverlap [] = False"
| "hasOverlap (ob # obs) = ((\<exists>o' \<in> set obs. overlaps ob o') \<or> hasOverlap obs)"

definition rotatedHalfExtents :: "real \<Rightarrow> real \<Rightarrow> real \<Rightarrow> real \<times> real" where
  "rotatedHalfExtents l w rDeg =
     (let cosR = \<bar>cos (radians rDeg)\<bar>; sinR = \<bar>sin (radians rDeg)\<bar>
      in (1/2 * (l * cosR + w * sinR), 1/2 * (l * sinR + w * cosR)))"

fun fitsInBounds :: "Bounds \<Rightarrow> Obstacle list \<Rightarrow> bool" where
  "fitsInBounds bounds [] = True"
| "fitsInBounds (xMin, xMax, yMin, yMax) (ob # obs) =
     (let (hx, hy) = rotatedHalfExtents (o_l ob) (o_w ob) (o_r ob)
      in if o_x ob - hx < xMin \<or> o_x ob + hx > xMax then False
         else if o_y ob - hy < yMin \<or> o_y ob + hy > yMax then False
         else fitsInBounds (xMin, xMax, yMin, yMax) obs)"

definition wallAxis :: "Obstacle \<Rightarrow> Point \<times> Point" where
  "wallAxis ob =
     (let (half, ax, ay) =
        (if o_l ob \<ge> o_w ob then (1/2 * o_l ob, boxAxes ob ! 0) else (1/2 * o_w ob, boxAxes ob ! 1))
      in ((o_x ob - half * ax, o_y ob - half * ay), (o_x ob + half * ax, o_y ob + half * ay)))"

section \<open>Segments and distances\<close>

definition cross :: "Point \<Rightarrow> Point \<Rightarrow> Point \<Rightarrow> real" where
  "cross p q s =
     (fst q - fst p) * (snd s - snd p) - (snd q - snd p) * (fst s - fst p)"

definition pointToSegmentDistance :: "Point \<Rightarrow> Point \<Rightarrow> Point \<Rightarrow> real" where
  "pointToSegmentDistance p q s =
     (let dx = fst s - fst q; dy = snd s - snd q; lengthSquared = dx * dx + dy * dy
      in if lengthSquared \<le> 1 / 10 ^ 18 then pdist p q
         else let f = ((fst p - fst q) * dx + (snd p - snd q) * dy) / lengthSquared;
                  f' = max 0 (min 1 f)
              in pdist p (fst q + f' * dx, snd q + f' * dy))"

definition segmentsIntersect :: "Point \<Rightarrow> Point \<Rightarrow> Point \<Rightarrow> Point \<Rightarrow> bool" where
  "segmentsIntersect p1 p2 q1 q2 =
     (let d1 = cross q1 q2 p1; d2 = cross q1 q2 p2; d3 = cross p1 p2 q1; d4 = cross p1 p2 q2
      in if d1 * d2 < 0 \<and> d3 * d4 < 0 then True
         else pointToSegmentDistance p1 q1 q2 < OVERLAP_EPS
            \<or> pointToSegmentDistance p2 q1 q2 < OVERLAP_EPS
            \<or> pointToSegmentDistance q1 p1 p2 < OVERLAP_EPS
            \<or> pointToSegmentDistance q2 p1 p2 < OVERLAP_EPS)"

definition segmentDistance :: "Point \<Rightarrow> Point \<Rightarrow> Point \<Rightarrow> Point \<Rightarrow> real" where
  "segmentDistance a1 a2 b1 b2 =
     (if segmentsIntersect a1 a2 b1 b2 then 0
      else min (pointToSegmentDistance a1 b1 b2)
          (min (pointToSegmentDistance a2 b1 b2)
          (min (pointToSegmentDistance b1 a1 a2)
               (pointToSegmentDistance b2 a1 a2))))"

definition boxEdges :: "Obstacle \<Rightarrow> (Point \<times> Point) list" where
  "boxEdges ob = (let corners = boxCorners ob in zip corners (tl corners @ take 1 corners))"

definition footprintGap :: "Obstacle \<Rightarrow> Obstacle \<Rightarrow> real" where
  "footprintGap oa ob =
     (if overlaps oa ob then 0
      else min_list (concat (map (\<lambda>(a1, a2). map (\<lambda>(b1, b2). segmentDistance a1 a2 b1 b2)
             (boxEdges ob)) (boxEdges oa))))"

section \<open>The footprint\<close>

text \<open>The coordinates of a point in the frame of a box, and the box shrunk by a margin.\<close>

definition alongU :: "Obstacle \<Rightarrow> Point \<Rightarrow> real" where
  "alongU ob p = (fst p - o_x ob) * cos (radians (o_r ob)) + (snd p - o_y ob) * sin (radians (o_r ob))"

definition alongV :: "Obstacle \<Rightarrow> Point \<Rightarrow> real" where
  "alongV ob p = - (fst p - o_x ob) * sin (radians (o_r ob)) + (snd p - o_y ob) * cos (radians (o_r ob))"

definition inFootprint :: "real \<Rightarrow> Obstacle \<Rightarrow> Point \<Rightarrow> bool" where
  "inFootprint margin ob p \<longleftrightarrow>
     \<bar>alongU ob p\<bar> \<le> o_l ob / 2 - margin \<and> \<bar>alongV ob p\<bar> \<le> o_w ob / 2 - margin"

definition inBounds :: "Bounds \<Rightarrow> Point \<Rightarrow> bool" where
  "inBounds bounds p \<longleftrightarrow> (case bounds of (xMin, xMax, yMin, yMax) \<Rightarrow>
     xMin \<le> fst p \<and> fst p \<le> xMax \<and> yMin \<le> snd p \<and> snd p \<le> yMax)"

definition box_ok :: "Obstacle \<Rightarrow> bool" where
  "box_ok ob \<longleftrightarrow> 0 \<le> o_l ob \<and> 0 \<le> o_w ob"

text \<open>The point of the box frame with given coordinates.\<close>

definition framePoint :: "Obstacle \<Rightarrow> real \<Rightarrow> real \<Rightarrow> Point" where
  "framePoint ob s t =
     (o_x ob + s * cos (radians (o_r ob)) - t * sin (radians (o_r ob)),
      o_y ob + s * sin (radians (o_r ob)) + t * cos (radians (o_r ob)))"

lemma alongU_framePoint [simp]: "alongU ob (framePoint ob s t) = s"
proof -
  let ?c = "cos (radians (o_r ob))" and ?s = "sin (radians (o_r ob))"
  have "alongU ob (framePoint ob s t) = s * (?c * ?c + ?s * ?s)"
    by (simp add: alongU_def framePoint_def algebra_simps del: sin_cos_squared_add3)
  then show ?thesis by simp
qed

lemma alongV_framePoint [simp]: "alongV ob (framePoint ob s t) = t"
proof -
  let ?c = "cos (radians (o_r ob))" and ?s = "sin (radians (o_r ob))"
  have "alongV ob (framePoint ob s t) = t * (?c * ?c + ?s * ?s)"
    by (simp add: alongV_def framePoint_def algebra_simps del: sin_cos_squared_add3)
  then show ?thesis by simp
qed

lemma framePoint_coords: "framePoint ob (alongU ob p) (alongV ob p) = p"
proof -
  let ?c = "cos (radians (o_r ob))" and ?s = "sin (radians (o_r ob))"
  have "fst (framePoint ob (alongU ob p) (alongV ob p)) =
      o_x ob + (fst p - o_x ob) * (?c * ?c + ?s * ?s)"
    by (simp add: alongU_def alongV_def framePoint_def algebra_simps del: sin_cos_squared_add3)
  moreover have "snd (framePoint ob (alongU ob p) (alongV ob p)) =
      o_y ob + (snd p - o_y ob) * (?c * ?c + ?s * ?s)"
    by (simp add: alongU_def alongV_def framePoint_def algebra_simps del: sin_cos_squared_add3)
  ultimately show ?thesis by (simp add: prod_eq_iff)
qed

lemma inFootprint_frame:
  "inFootprint m ob (framePoint ob s t) \<longleftrightarrow> \<bar>s\<bar> \<le> o_l ob / 2 - m \<and> \<bar>t\<bar> \<le> o_w ob / 2 - m"
  by (simp add: inFootprint_def)

lemma footprint_obtain_frame:
  assumes "inFootprint m ob p"
  obtains s t where "p = framePoint ob s t" and "\<bar>s\<bar> \<le> o_l ob / 2 - m" and "\<bar>t\<bar> \<le> o_w ob / 2 - m"
  using assms that [of "alongU ob p" "alongV ob p"]
  by (simp add: inFootprint_def framePoint_coords)

lemma boxAxes_nth [simp]:
  "boxAxes ob ! 0 = (cos (radians (o_r ob)), sin (radians (o_r ob)))"
  "boxAxes ob ! Suc 0 = (- sin (radians (o_r ob)), cos (radians (o_r ob)))"
  by (simp_all add: boxAxes_def Let_def)

lemma boxCorners_frame:
  "boxCorners ob =
     map (\<lambda>(sL, sW). framePoint ob (sL * (o_l ob / 2)) (sW * (o_w ob / 2)))
       [(1, 1), (1, -1), (-1, -1), (-1, 1)]"
  by (simp add: boxCorners_def framePoint_def Let_def)

lemma boxCorners_in_footprint: "box_ok ob \<Longrightarrow> p \<in> set (boxCorners ob) \<Longrightarrow> inFootprint 0 ob p"
  by (auto simp: boxCorners_frame inFootprint_frame box_ok_def)

section \<open>Bounds\<close>

lemma abs_combination_le:
  assumes "\<bar>s\<bar> \<le> hs" and "\<bar>t\<bar> \<le> (ht::real)"
  shows "\<bar>s * c + t * d\<bar> \<le> hs * \<bar>c\<bar> + ht * \<bar>d\<bar>"
proof -
  have "\<bar>s * c + t * d\<bar> \<le> \<bar>s\<bar> * \<bar>c\<bar> + \<bar>t\<bar> * \<bar>d\<bar>"
    using abs_triangle_ineq [of "s * c" "t * d"] by (simp add: abs_mult)
  also have "\<dots> \<le> hs * \<bar>c\<bar> + ht * \<bar>d\<bar>"
    using assms by (intro add_mono mult_right_mono) auto
  finally show ?thesis .
qed

lemma abs_combination_attained:
  obtains sL sW :: real where "sL \<in> {1, -1}" and "sW \<in> {1, -1}"
    and "sL * hs * c + sW * ht * d = hs * \<bar>c\<bar> + ht * \<bar>d\<bar>"
proof -
  let ?sg = "\<lambda>v::real. if 0 \<le> v then 1 else -1 :: real"
  have "?sg c * hs * c + ?sg d * ht * d = hs * \<bar>c\<bar> + ht * \<bar>d\<bar>" by simp
  then show ?thesis using that [of "?sg c" "?sg d"] by simp
qed

definition fits1 :: "Bounds \<Rightarrow> Obstacle \<Rightarrow> bool" where
  "fits1 bounds ob = (case bounds of (xMin, xMax, yMin, yMax) \<Rightarrow>
     case rotatedHalfExtents (o_l ob) (o_w ob) (o_r ob) of (hx, hy) \<Rightarrow>
       xMin \<le> o_x ob - hx \<and> o_x ob + hx \<le> xMax \<and> yMin \<le> o_y ob - hy \<and> o_y ob + hy \<le> yMax)"

lemma fitsInBounds_all: "fitsInBounds bounds obs \<longleftrightarrow> (\<forall>ob \<in> set obs. fits1 bounds ob)"
  by (induction bounds obs rule: fitsInBounds.induct)
    (auto simp: fits1_def split: prod.splits)

lemma corner_frame_mem:
  "sL \<in> {1, -1} \<Longrightarrow> sW \<in> {1, -1} \<Longrightarrow>
     framePoint ob (sL * (o_l ob / 2)) (sW * (o_w ob / 2)) \<in> set (boxCorners ob)"
  by (auto simp: boxCorners_frame)

lemma footprint_in_extents:
  assumes "inFootprint 0 ob p" and "rotatedHalfExtents (o_l ob) (o_w ob) (o_r ob) = (hx, hy)"
  shows "\<bar>fst p - o_x ob\<bar> \<le> hx \<and> \<bar>snd p - o_y ob\<bar> \<le> hy"
proof -
  let ?c = "cos (radians (o_r ob))" and ?s = "sin (radians (o_r ob))"
  obtain s t where p: "p = framePoint ob s t"
    and st: "\<bar>s\<bar> \<le> o_l ob / 2" "\<bar>t\<bar> \<le> o_w ob / 2"
    using assms(1) by (auto elim: footprint_obtain_frame)
  have "\<bar>s * ?c + t * (- ?s)\<bar> \<le> hx" "\<bar>s * ?s + t * ?c\<bar> \<le> hy"
    using abs_combination_le [OF st, of ?c "- ?s"] abs_combination_le [OF st, of ?s ?c] assms(2)
    by (simp_all add: rotatedHalfExtents_def Let_def field_simps)
  then show ?thesis by (simp add: p framePoint_def)
qed

lemma extents_attained:
  assumes "rotatedHalfExtents (o_l ob) (o_w ob) (o_r ob) = (hx, hy)"
  shows "\<exists>p \<in> set (boxCorners ob). fst p = o_x ob + hx"
    and "\<exists>p \<in> set (boxCorners ob). fst p = o_x ob - hx"
    and "\<exists>p \<in> set (boxCorners ob). snd p = o_y ob + hy"
    and "\<exists>p \<in> set (boxCorners ob). snd p = o_y ob - hy"
proof -
  let ?c = "cos (radians (o_r ob))" and ?s = "sin (radians (o_r ob))"
  have eq: "hx = o_l ob / 2 * \<bar>?c\<bar> + o_w ob / 2 * \<bar>- ?s\<bar>" "hy = o_l ob / 2 * \<bar>?s\<bar> + o_w ob / 2 * \<bar>?c\<bar>"
    using assms by (auto simp: rotatedHalfExtents_def Let_def field_simps)
  obtain sL sW where x: "sL \<in> {1, -1::real}" "sW \<in> {1, -1::real}"
    "sL * (o_l ob / 2) * ?c + sW * (o_w ob / 2) * (- ?s) = hx"
    unfolding eq by (rule abs_combination_attained)
  obtain tL tW where y: "tL \<in> {1, -1::real}" "tW \<in> {1, -1::real}"
    "tL * (o_l ob / 2) * ?s + tW * (o_w ob / 2) * ?c = hy"
    unfolding eq by (rule abs_combination_attained)
  have neg: "- sL \<in> {1, -1}" "- sW \<in> {1, -1}" "- tL \<in> {1, -1}" "- tW \<in> {1, -1}"
    using x y by auto
  show "\<exists>p \<in> set (boxCorners ob). fst p = o_x ob + hx"
    by (rule bexI [OF _ corner_frame_mem [OF x(1,2)]]) (use x(3) in \<open>simp add: framePoint_def\<close>)
  show "\<exists>p \<in> set (boxCorners ob). fst p = o_x ob - hx"
    by (rule bexI [OF _ corner_frame_mem [OF neg(1,2)]]) (use x(3) in \<open>simp add: framePoint_def\<close>)
  show "\<exists>p \<in> set (boxCorners ob). snd p = o_y ob + hy"
    by (rule bexI [OF _ corner_frame_mem [OF y(1,2)]]) (use y(3) in \<open>simp add: framePoint_def\<close>)
  show "\<exists>p \<in> set (boxCorners ob). snd p = o_y ob - hy"
    by (rule bexI [OF _ corner_frame_mem [OF neg(3,4)]]) (use y(3) in \<open>simp add: framePoint_def\<close>)
qed

lemma fits1_footprint: "fits1 bounds ob \<Longrightarrow> inFootprint 0 ob p \<Longrightarrow> inBounds bounds p"
  using footprint_in_extents [of ob p]
  by (fastforce simp: fits1_def inBounds_def abs_le_iff split: prod.splits)

lemma corners_fits1:
  assumes "\<forall>p \<in> set (boxCorners ob). inBounds bounds p"
  shows "fits1 bounds ob"
proof -
  obtain xMin xMax yMin yMax where b: "bounds = (xMin, xMax, yMin, yMax)" by (cases bounds)
  obtain hx hy where h: "rotatedHalfExtents (o_l ob) (o_w ob) (o_r ob) = (hx, hy)"
    by fastforce
  show ?thesis
    using assms extents_attained [OF h] by (fastforce simp: fits1_def b h inBounds_def)
qed

section \<open>The separating axis test rejects deep intersections\<close>

lemma unit_abs_sum_ge_1:
  assumes "c\<^sup>2 + d\<^sup>2 = (1::real)"
  shows "1 \<le> \<bar>c\<bar> + \<bar>d\<bar>"
proof (rule power2_le_imp_le)
  have "0 \<le> \<bar>c\<bar> * \<bar>d\<bar>" by simp
  then show "1\<^sup>2 \<le> (\<bar>c\<bar> + \<bar>d\<bar>)\<^sup>2" using assms by (simp add: power2_sum)
qed simp

lemma frame_projection:
  assumes "\<bar>s\<bar> \<le> o_l ob / 2 - m" and "\<bar>t\<bar> \<le> o_w ob / 2 - m" and "0 \<le> m" and "nx\<^sup>2 + ny\<^sup>2 = 1"
    and "p = framePoint ob s t"
  shows "\<bar>(fst p - o_x ob) * nx + (snd p - o_y ob) * ny\<bar> \<le> projectionRadius ob nx ny - m"
proof -
  let ?cr = "cos (radians (o_r ob))" and ?sr = "sin (radians (o_r ob))"
  let ?c = "?cr * nx + ?sr * ny" and ?d = "- ?sr * nx + ?cr * ny"
  have "?c\<^sup>2 + ?d\<^sup>2 = (?cr\<^sup>2 + ?sr\<^sup>2) * (nx\<^sup>2 + ny\<^sup>2)"
    by (simp add: power2_eq_square algebra_simps del: sin_cos_squared_add3)
  then have "1 \<le> \<bar>?c\<bar> + \<bar>?d\<bar>" using assms(4) by (intro unit_abs_sum_ge_1) simp
  then have "m * 1 \<le> m * (\<bar>?c\<bar> + \<bar>?d\<bar>)" using assms(3) by (rule mult_left_mono)
  moreover have "\<bar>s * ?c + t * ?d\<bar> \<le> (o_l ob / 2 - m) * \<bar>?c\<bar> + (o_w ob / 2 - m) * \<bar>?d\<bar>"
    by (rule abs_combination_le [OF assms(1,2)])
  moreover have "(fst p - o_x ob) * nx + (snd p - o_y ob) * ny = s * ?c + t * ?d"
    by (simp add: assms(5) framePoint_def algebra_simps)
  moreover have "(o_l ob / 2 - m) * \<bar>?c\<bar> + (o_w ob / 2 - m) * \<bar>?d\<bar> =
      projectionRadius ob nx ny - m * (\<bar>?c\<bar> + \<bar>?d\<bar>)"
    by (simp add: projectionRadius_def algebra_simps)
  ultimately show ?thesis by linarith
qed

lemma axisGap_common_point:
  assumes "inFootprint m oa p" and "inFootprint m ob p" and "0 \<le> m" and "nx\<^sup>2 + ny\<^sup>2 = 1"
  shows "axisGap oa ob nx ny \<le> - 2 * m"
proof -
  have "\<bar>(fst p - o_x oc) * nx + (snd p - o_y oc) * ny\<bar> \<le> projectionRadius oc nx ny - m"
    if "inFootprint m oc p" for oc
    using footprint_obtain_frame [OF that] frame_projection [OF _ _ assms(3,4)] by metis
  from this [OF assms(1)] this [OF assms(2)] show ?thesis
    unfolding axisGap_def Let_def by (simp add: algebra_simps abs_le_iff)
qed

lemma overlapLoop_all:
  "overlapLoop oa ob axes \<longleftrightarrow> (\<forall>(nx, ny) \<in> set axes. axisGap oa ob nx ny \<le> - OVERLAP_EPS)"
  by (induction oa ob axes rule: overlapLoop.induct) (simp_all add: not_less)

lemma boxAxes_unit: "(nx, ny) \<in> set (boxAxes ob) \<Longrightarrow> nx\<^sup>2 + ny\<^sup>2 = 1"
  by (auto simp: boxAxes_def Let_def)

lemma overlaps_if_common_point:
  assumes "inFootprint m oa p" and "inFootprint m ob p" and "OVERLAP_EPS \<le> 2 * m"
  shows "overlaps oa ob"
proof -
  have "0 \<le> m" using assms(3) by (simp add: OVERLAP_EPS_def)
  have "axisGap oa ob nx ny \<le> - OVERLAP_EPS" if "(nx, ny) \<in> set (boxAxes oa @ boxAxes ob)" for nx ny
  proof -
    have "nx\<^sup>2 + ny\<^sup>2 = 1" using that boxAxes_unit by auto
    then have "axisGap oa ob nx ny \<le> - 2 * m"
      by (rule axisGap_common_point [OF assms(1,2) \<open>0 \<le> m\<close>])
    then show ?thesis using assms(3) by linarith
  qed
  then show ?thesis by (auto simp: overlaps_def overlapLoop_all)
qed

lemma projectionRadius_neg: "projectionRadius ob (- nx) (- ny) = projectionRadius ob nx ny"
  by (simp add: projectionRadius_def abs_minus_commute algebra_simps)

lemma overlaps_sym: "overlaps oa ob = overlaps ob oa"
proof -
  have eq: "axisGap oa ob nx ny = axisGap ob oa nx ny" for nx ny
  proof -
    have "(o_x ob - o_x oa) * nx + (o_y ob - o_y oa) * ny =
        - ((o_x oa - o_x ob) * nx + (o_y oa - o_y ob) * ny)" by (simp add: algebra_simps)
    then show ?thesis unfolding axisGap_def Let_def by (metis abs_minus_cancel diff_diff_eq add.commute)
  qed
  show ?thesis by (simp add: overlaps_def overlapLoop_all eq Un_commute)
qed

end
