(* ===== verification/Segment_Distance.thy ===== *)
theory Segment_Distance
  imports Geometry
begin

text \<open>
  Correctness of the segment routines of \<open>geometry.py\<close>: \<open>pointToSegmentDistance\<close> is the distance to
  the nearest point of the segment, \<open>segmentsIntersect\<close> holds for segments that share a point and
  only for segments that come within \<open>OVERLAP_EPS\<close> of each other.
\<close>

section \<open>Points of a segment\<close>

definition segPoint :: "Point \<Rightarrow> Point \<Rightarrow> real \<Rightarrow> Point" where
  "segPoint q s f = (fst q + f * (fst s - fst q), snd q + f * (snd s - snd q))"

lemma segPoint_0 [simp]: "segPoint q s 0 = q" and segPoint_1 [simp]: "segPoint q s 1 = s"
  by (simp_all add: segPoint_def)

lemma pdist_cmod: "pdist p q = cmod (Complex (fst p) (snd p) - Complex (fst q) (snd q))"
  by (simp add: pdist_def cmod_def)

lemma pdist_triangle: "pdist p r \<le> pdist p q + pdist q r"
proof -
  let ?z = "\<lambda>p. Complex (fst p) (snd p)"
  have "cmod ((?z p - ?z q) + (?z q - ?z r)) \<le> cmod (?z p - ?z q) + cmod (?z q - ?z r)"
    by (rule norm_triangle_ineq)
  then show ?thesis by (simp add: pdist_cmod)
qed

lemma pdist_segPoint: "pdist (segPoint q s f) q = \<bar>f\<bar> * pdist s q"
proof -
  have "(f * (fst s - fst q))\<^sup>2 + (f * (snd s - snd q))\<^sup>2 =
      f\<^sup>2 * ((fst s - fst q)\<^sup>2 + (snd s - snd q)\<^sup>2)"
    by (simp add: power_mult_distrib distrib_left)
  then show ?thesis by (simp add: pdist_def segPoint_def real_sqrt_mult)
qed

section \<open>The nearest point\<close>

lemma quadratic_clamped_min:
  fixes B C :: real
  assumes "0 < C" and "f' = max 0 (min 1 (B / C))" and "0 \<le> f" and "f \<le> 1"
  shows "C * f'\<^sup>2 - 2 * B * f' \<le> C * f\<^sup>2 - 2 * B * f"
proof -
  have diff: "(C * f\<^sup>2 - 2 * B * f) - (C * f'\<^sup>2 - 2 * B * f') =
      C * (f - f')\<^sup>2 + 2 * ((f - f') * (C * f' - B))"
    by (simp add: power2_eq_square algebra_simps)
  have "0 \<le> (f - f') * (C * f' - B)"
  proof (cases "B / C < 0")
    case True
    then have "f' = 0" "B \<le> 0" using assms(1,2) by (auto simp: divide_less_0_iff)
    then show ?thesis using assms(3) by (simp add: mult_nonneg_nonpos)
  next
    case False
    show ?thesis
    proof (cases "1 < B / C")
      case True
      then have "f' = 1" "C \<le> B" using assms(1,2) by (auto simp: less_divide_eq)
      then show ?thesis using assms(4) by (simp add: mult_nonpos_nonpos)
    next
      case not1: False
      then have "f' = B / C" using False assms(2) by simp
      then show ?thesis using assms(1) by simp
    qed
  qed
  moreover have "0 \<le> C * (f - f')\<^sup>2" using assms(1) by simp
  ultimately show ?thesis using diff by linarith
qed

lemma pdist_segPoint_square:
  "(pdist p (segPoint q s f))\<^sup>2 =
     (pdist p q)\<^sup>2 + ((fst s - fst q)\<^sup>2 + (snd s - snd q)\<^sup>2) * f\<^sup>2
      - 2 * ((fst p - fst q) * (fst s - fst q) + (snd p - snd q) * (snd s - snd q)) * f"
  unfolding pdist_square by (simp add: segPoint_def power2_eq_square algebra_simps)

definition seg_nondegenerate :: "Point \<Rightarrow> Point \<Rightarrow> bool" where
  "seg_nondegenerate q s \<longleftrightarrow> OVERLAP_EPS < pdist q s"

lemma eps_square: "OVERLAP_EPS\<^sup>2 = 1 / 10 ^ 18"
  by (simp add: OVERLAP_EPS_def power2_eq_square)

lemma lengthSquared_eq:
  "(fst s - fst q) * (fst s - fst q) + (snd s - snd q) * (snd s - snd q) = (pdist q s)\<^sup>2"
  unfolding pdist_square by (simp add: power2_eq_square algebra_simps)

lemma nondegenerate_iff: "seg_nondegenerate q s \<longleftrightarrow> 1 / 10 ^ 18 < (pdist q s)\<^sup>2"
proof -
  have "0 \<le> OVERLAP_EPS" by (simp add: OVERLAP_EPS_def)
  then show ?thesis
    unfolding seg_nondegenerate_def eps_square [symmetric]
    by (meson pdist_nonneg power2_less_imp_less power_strict_mono pos2)
qed

lemma ptsd_degenerate: "\<not> seg_nondegenerate q s \<Longrightarrow> pointToSegmentDistance p q s = pdist p q"
  unfolding pointToSegmentDistance_def Let_def lengthSquared_eq nondegenerate_iff not_less
  by (rule if_P)

lemma ptsd_attained: "\<exists>f. 0 \<le> f \<and> f \<le> 1 \<and> pointToSegmentDistance p q s = pdist p (segPoint q s f)"
proof (cases "seg_nondegenerate q s")
  case False
  then show ?thesis by (intro exI [of _ 0]) (simp add: ptsd_degenerate)
next
  case True
  then show ?thesis
    unfolding pointToSegmentDistance_def Let_def lengthSquared_eq nondegenerate_iff segPoint_def
    by (intro exI [of _ "max 0 (min 1 (((fst p - fst q) * (fst s - fst q) +
        (snd p - snd q) * (snd s - snd q)) / (pdist q s)\<^sup>2))"]) auto
qed

lemma ptsd_le:
  assumes "seg_nondegenerate q s" and "0 \<le> f" and "f \<le> 1"
  shows "pointToSegmentDistance p q s \<le> pdist p (segPoint q s f)"
proof -
  let ?B = "(fst p - fst q) * (fst s - fst q) + (snd p - snd q) * (snd s - snd q)"
  let ?C = "(pdist q s)\<^sup>2"
  define f' where "f' = max 0 (min 1 (?B / ?C))"
  have "0 < pdist q s" using assms(1) by (simp add: seg_nondegenerate_def OVERLAP_EPS_def)
  then have pos: "0 < ?C" by (rule zero_less_power)
  have eq: "pointToSegmentDistance p q s = pdist p (segPoint q s f')"
    using assms(1)
    unfolding pointToSegmentDistance_def Let_def lengthSquared_eq nondegenerate_iff segPoint_def f'_def
    by (subst if_not_P) auto
  have C: "(fst s - fst q)\<^sup>2 + (snd s - snd q)\<^sup>2 = ?C"
    by (simp add: pdist_square power2_commute)
  have "?C * f'\<^sup>2 - 2 * ?B * f' \<le> ?C * f\<^sup>2 - 2 * ?B * f"
    by (rule quadratic_clamped_min [OF pos f'_def assms(2,3)])
  then have "(pdist p (segPoint q s f'))\<^sup>2 \<le> (pdist p (segPoint q s f))\<^sup>2"
    by (simp only: pdist_segPoint_square C)
  then show ?thesis unfolding eq by (rule power2_le_imp_le) simp
qed

lemma ptsd_le_eps:
  assumes "0 \<le> f" and "f \<le> 1"
  shows "pointToSegmentDistance p q s \<le> pdist p (segPoint q s f) + OVERLAP_EPS"
proof (cases "seg_nondegenerate q s")
  case True
  then show ?thesis using ptsd_le [OF True assms, of p] by (simp add: OVERLAP_EPS_def)
next
  case False
  have "pdist (segPoint q s f) q \<le> 1 * OVERLAP_EPS"
    unfolding pdist_segPoint using assms False
    by (intro mult_mono) (auto simp: seg_nondegenerate_def pdist_sym [of s q])
  then show ?thesis
    using pdist_triangle [of p q "segPoint q s f"] by (simp add: ptsd_degenerate [OF False])
qed

section \<open>Crossing segments\<close>

lemma cross_segPoint: "cross q1 q2 (segPoint p1 p2 f) = (1 - f) * cross q1 q2 p1 + f * cross q1 q2 p2"
  by (simp add: cross_def segPoint_def algebra_simps)

lemma cross_diff: "cross q1 q2 p1 - cross q1 q2 p2 = cross p1 p2 q2 - cross p1 p2 q1"
  by (simp add: cross_def algebra_simps)

lemma proper_crossing_point:
  assumes "cross q1 q2 p1 * cross q1 q2 p2 < 0" and "cross p1 p2 q1 * cross p1 p2 q2 < 0"
  shows "\<exists>f g. 0 \<le> f \<and> f \<le> 1 \<and> 0 \<le> g \<and> g \<le> 1 \<and> segPoint p1 p2 f = segPoint q1 q2 g"
proof -
  let ?d1 = "cross q1 q2 p1" and ?d2 = "cross q1 q2 p2"
  let ?d3 = "cross p1 p2 q1" and ?d4 = "cross p1 p2 q2"
  define w where "w = ?d1 - ?d2"
  have w': "w = ?d4 - ?d3" by (simp add: w_def cross_diff)
  have w0: "w \<noteq> 0" using assms(1) by (auto simp: w_def mult_less_0_iff)
  define f where "f = ?d1 / w"
  define g where "g = - ?d3 / w"
  have "0 \<le> f" "f \<le> 1" using assms(1)
    by (auto simp: f_def w_def mult_less_0_iff divide_simps)
  moreover have "0 \<le> g" "g \<le> 1" using assms(2)
    by (auto simp: g_def w' mult_less_0_iff divide_simps)
  moreover have "segPoint p1 p2 f = segPoint q1 q2 g"
  proof -
    have "w * (fst p1 - fst q1) + ?d1 * (fst p2 - fst p1) = - ?d3 * (fst q2 - fst q1)"
      "w * (snd p1 - snd q1) + ?d1 * (snd p2 - snd p1) = - ?d3 * (snd q2 - snd q1)"
      by (simp_all add: w_def cross_def algebra_simps)
    then show ?thesis using w0
      by (simp add: segPoint_def f_def g_def prod_eq_iff field_simps)
  qed
  ultimately show ?thesis by blast
qed

lemma segPoint_segPoint:
  "segPoint (segPoint q1 q2 u) (segPoint q1 q2 v) h = segPoint q1 q2 ((1 - h) * u + h * v)"
  by (simp add: segPoint_def algebra_simps)

lemma collinear_param:
  assumes "cross q1 q2 p = 0" and "q1 \<noteq> q2"
  shows "\<exists>u. p = segPoint q1 q2 u"
proof (cases "fst q1 = fst q2")
  case True
  then have "snd q1 \<noteq> snd q2" using assms(2) by (simp add: prod_eq_iff)
  moreover from this have "fst p = fst q1" using True assms(1) by (simp add: cross_def)
  ultimately show ?thesis using True
    by (intro exI [of _ "(snd p - snd q1) / (snd q2 - snd q1)"]) (simp add: segPoint_def prod_eq_iff)
next
  case False
  with assms(1) show ?thesis
    by (intro exI [of _ "(fst p - fst q1) / (fst q2 - fst q1)"])
      (simp add: cross_def segPoint_def prod_eq_iff field_simps)
qed

lemma cross_on_line: "cross q1 q2 (segPoint q1 q2 g) = 0"
  by (simp add: cross_def segPoint_def algebra_simps)

lemma ptsd_on_segment:
  assumes "seg_nondegenerate q1 q2" and "0 \<le> g" and "g \<le> 1"
  shows "pointToSegmentDistance (segPoint q1 q2 g) q1 q2 < OVERLAP_EPS"
  using ptsd_le [OF assms, of "segPoint q1 q2 g"] by (simp add: OVERLAP_EPS_def)

text \<open>One of two overlapping collinear segments has an end point on the other.\<close>

lemma collinear_overlap_end:
  fixes u v g :: real
  assumes "0 \<le> f" and "f \<le> 1" and "g = (1 - f) * u + f * v" and "0 \<le> g" and "g \<le> 1"
    and "\<not> (0 \<le> u \<and> u \<le> 1)" and "\<not> (0 \<le> v \<and> v \<le> 1)"
  shows "\<exists>h. 0 \<le> h \<and> h \<le> 1 \<and> (1 - h) * u + h * v = 0"
proof -
  have mono: "(1 - f) * x + f * y \<le> m" if "x \<le> m" "y \<le> m" for x y m :: real
    using that assms(1,2) mult_left_mono [of x m "1 - f"] mult_left_mono [of y m f]
    by (simp add: algebra_simps)
  have "\<not> (u < 0 \<and> v < 0)"
  proof
    assume "u < 0 \<and> v < 0"
    then have "g \<le> max u v" using mono [of u "max u v" v] assms(3) by simp
    with \<open>u < 0 \<and> v < 0\<close> assms(4) show False by (auto simp: max_def split: if_splits)
  qed
  moreover have "\<not> (1 < u \<and> 1 < v)"
  proof
    assume "1 < u \<and> 1 < v"
    then have "- g \<le> - min u v" using mono [of "- u" "- min u v" "- v"] assms(3)
      by (simp add: algebra_simps)
    with \<open>1 < u \<and> 1 < v\<close> assms(5) show False by (auto simp: min_def split: if_splits)
  qed
  ultimately have "u < 0 \<and> 1 < v \<or> v < 0 \<and> 1 < u" using assms(6,7) by linarith
  then show ?thesis
    by (intro exI [of _ "u / (u - v)"]) (auto simp: field_simps)
qed

lemma segmentsIntersect_touch:
  "pointToSegmentDistance p1 q1 q2 < OVERLAP_EPS \<Longrightarrow> segmentsIntersect p1 p2 q1 q2"
  "pointToSegmentDistance p2 q1 q2 < OVERLAP_EPS \<Longrightarrow> segmentsIntersect p1 p2 q1 q2"
  "pointToSegmentDistance q1 p1 p2 < OVERLAP_EPS \<Longrightarrow> segmentsIntersect p1 p2 q1 q2"
  "pointToSegmentDistance q2 p1 p2 < OVERLAP_EPS \<Longrightarrow> segmentsIntersect p1 p2 q1 q2"
  by (simp_all add: segmentsIntersect_def)

lemma signs_around_common_point:
  fixes d d' w f :: real
  assumes "(1 - f) * d + f * d' = 0" and "w = d - d'" and "w \<noteq> 0" and "0 < f" and "f < 1"
  shows "d * d' < 0"
proof -
  have "d = f * w" "d' = - ((1 - f) * w)" using assms(1,2) by algebra+
  then have "d * d' = - (f * (1 - f) * w\<^sup>2)" by algebra
  then show ?thesis using assms(3-5) by simp
qed

lemma segmentsIntersect_interior:
  assumes nd: "seg_nondegenerate p1 p2" "seg_nondegenerate q1 q2"
    and f: "0 < f" "f < 1" and g: "0 < g" "g < 1"
    and common: "segPoint p1 p2 f = segPoint q1 q2 g"
  shows "segmentsIntersect p1 p2 q1 q2"
proof (cases "cross q1 q2 p1 = cross q1 q2 p2")
  case False
  have "(1 - f) * cross q1 q2 p1 + f * cross q1 q2 p2 = 0"
    using cross_segPoint [of q1 q2 p1 p2 f] cross_on_line [of q1 q2 g] common by simp
  then have "cross q1 q2 p1 * cross q1 q2 p2 < 0"
    using False f by (intro signs_around_common_point [of f _ _ "cross q1 q2 p1 - cross q1 q2 p2"]) auto
  moreover have "(1 - g) * cross p1 p2 q1 + g * cross p1 p2 q2 = 0"
    using cross_segPoint [of p1 p2 q1 q2 g] cross_on_line [of p1 p2 f] common by simp
  then have "cross p1 p2 q1 * cross p1 p2 q2 < 0"
    using False g cross_diff [of q1 q2 p1 p2]
    by (intro signs_around_common_point [of g _ _ "cross p1 p2 q1 - cross p1 p2 q2"]) auto
  ultimately show ?thesis by (simp add: segmentsIntersect_def)
next
  case True
  have "(1 - f) * cross q1 q2 p1 + f * cross q1 q2 p2 = 0"
    using cross_segPoint [of q1 q2 p1 p2 f] cross_on_line [of q1 q2 g] common by simp
  then have "cross q1 q2 p1 = 0" "cross q1 q2 p2 = 0" using True by (simp_all add: algebra_simps)
  moreover have "q1 \<noteq> q2" using nd(2) by (auto simp: seg_nondegenerate_def OVERLAP_EPS_def)
  ultimately obtain u v where u: "p1 = segPoint q1 q2 u" and v: "p2 = segPoint q1 q2 v"
    using collinear_param by blast
  have "segPoint q1 q2 ((1 - f) * u + f * v) = segPoint q1 q2 g"
    using common by (simp add: u v segPoint_segPoint)
  then have gp: "g = (1 - f) * u + f * v"
    using \<open>q1 \<noteq> q2\<close> by (auto simp: segPoint_def prod_eq_iff)
  show ?thesis
  proof (cases "(0 \<le> u \<and> u \<le> 1) \<or> (0 \<le> v \<and> v \<le> 1)")
    case True
    then show ?thesis using ptsd_on_segment [OF nd(2)] segmentsIntersect_touch(1,2) u v by metis
  next
    case False
    then obtain h where h: "0 \<le> h" "h \<le> 1" "(1 - h) * u + h * v = 0"
      using collinear_overlap_end [of f g u v] f g gp by auto
    then have "q1 = segPoint p1 p2 h" by (simp add: u v segPoint_segPoint)
    then show ?thesis using ptsd_on_segment [OF nd(1) h(1,2)] segmentsIntersect_touch(3) by metis
  qed
qed

lemma segmentsIntersect_complete:
  assumes nd: "seg_nondegenerate p1 p2" "seg_nondegenerate q1 q2"
    and f: "0 \<le> f" "f \<le> 1" and g: "0 \<le> g" "g \<le> 1"
    and common: "segPoint p1 p2 f = segPoint q1 q2 g"
  shows "segmentsIntersect p1 p2 q1 q2"
proof -
  consider "f = 0" | "f = 1" | "g = 0" | "g = 1" | "0 < f" "f < 1" "0 < g" "g < 1"
    using f g by linarith
  then show ?thesis
  proof cases
    case 1
    then show ?thesis
      using ptsd_on_segment [OF nd(2) g] common segmentsIntersect_touch(1) by simp
  next
    case 2
    then show ?thesis
      using ptsd_on_segment [OF nd(2) g] common segmentsIntersect_touch(2) by simp
  next
    case 3
    then show ?thesis
      using ptsd_on_segment [OF nd(1) f] common segmentsIntersect_touch(3) by simp
  next
    case 4
    then show ?thesis
      using ptsd_on_segment [OF nd(1) f] common segmentsIntersect_touch(4) by simp
  next
    case 5
    then show ?thesis using segmentsIntersect_interior [OF nd] common by blast
  qed
qed

lemma ptsd_close_points:
  assumes "pointToSegmentDistance p q s < e"
  shows "\<exists>g. 0 \<le> g \<and> g \<le> 1 \<and> pdist p (segPoint q s g) < e"
  using ptsd_attained [of p q s] assms by auto

lemma segmentsIntersect_sound:
  assumes "segmentsIntersect p1 p2 q1 q2"
  shows "\<exists>f g. 0 \<le> f \<and> f \<le> 1 \<and> 0 \<le> g \<and> g \<le> 1 \<and>
    pdist (segPoint p1 p2 f) (segPoint q1 q2 g) < OVERLAP_EPS"
proof (cases "cross q1 q2 p1 * cross q1 q2 p2 < 0 \<and> cross p1 p2 q1 * cross p1 p2 q2 < 0")
  case True
  then obtain f g where "0 \<le> f" "f \<le> 1" "0 \<le> g" "g \<le> 1" "segPoint p1 p2 f = segPoint q1 q2 g"
    using proper_crossing_point by blast
  moreover from this have "pdist (segPoint p1 p2 f) (segPoint q1 q2 g) < OVERLAP_EPS"
    by (simp add: OVERLAP_EPS_def)
  ultimately show ?thesis by blast
next
  case False
  then consider "pointToSegmentDistance p1 q1 q2 < OVERLAP_EPS" | "pointToSegmentDistance p2 q1 q2 < OVERLAP_EPS"
    | "pointToSegmentDistance q1 p1 p2 < OVERLAP_EPS" | "pointToSegmentDistance q2 p1 p2 < OVERLAP_EPS"
    using assms by (auto simp: segmentsIntersect_def Let_def)
  then show ?thesis
    by cases (metis ptsd_close_points segPoint_0 segPoint_1 pdist_sym order_refl zero_le_one)+
qed

section \<open>Properties\<close>

text \<open>
  \<open>pointToSegmentDistance\<close> is the distance to the nearest point of the closed segment: it is
  attained at a point of the segment, it is never more than \<open>OVERLAP_EPS\<close> above the distance to any
  point of it, and exactly the minimum when the segment is longer than \<open>OVERLAP_EPS\<close>.
\<close>

theorem pointToSegmentDistance_nearest:
  "(\<exists>f \<in> {0..1}. pointToSegmentDistance p q s = pdist p (segPoint q s f)) \<and>
   (\<forall>f \<in> {0..1}. pointToSegmentDistance p q s \<le>
      pdist p (segPoint q s f) + (if seg_nondegenerate q s then 0 else OVERLAP_EPS))"
  using ptsd_attained [of p q s] ptsd_le [of q s _ p] ptsd_le_eps [of _ p q s] by auto

theorem pointToSegmentDistance_nearest_witness:
  "pointToSegmentDistance (0, 0) (1, 0) (1, 1) \<le> 1"
proof -
  have "(0::real) \<in> {0..1}" by simp
  then have "pointToSegmentDistance (0, 0) (1, 0) (1, 1) \<le>
      pdist (0, 0) (segPoint (1, 0) (1, 1) 0) +
        (if seg_nondegenerate (1, 0) (1, 1) then 0 else OVERLAP_EPS)"
    using pointToSegmentDistance_nearest [of "(0, 0)" "(1, 0)" "(1, 1)"] by blast
  then show ?thesis by (simp add: seg_nondegenerate_def pdist_def OVERLAP_EPS_def)
qed

text \<open>
  \<open>segmentsIntersect\<close> answers yes for every two segments (longer than \<open>OVERLAP_EPS\<close>) that share a
  point, crossing, touching or collinear, and only for segments with points closer than
  \<open>OVERLAP_EPS\<close> to each other.
\<close>

theorem segmentsIntersect_correct:
  assumes "seg_nondegenerate p1 p2" and "seg_nondegenerate q1 q2"
  shows "((\<exists>f \<in> {0..1}. \<exists>g \<in> {0..1}. segPoint p1 p2 f = segPoint q1 q2 g) \<longrightarrow>
      segmentsIntersect p1 p2 q1 q2) \<and>
    (segmentsIntersect p1 p2 q1 q2 \<longrightarrow>
      (\<exists>f \<in> {0..1}. \<exists>g \<in> {0..1}. pdist (segPoint p1 p2 f) (segPoint q1 q2 g) < OVERLAP_EPS))"
  using segmentsIntersect_complete [OF assms] segmentsIntersect_sound [of p1 p2 q1 q2]
  by fastforce

theorem segmentsIntersect_correct_witness:
  "segmentsIntersect (0, 0) (2, 2) (0, 2) (2, 0)"
proof -
  have "seg_nondegenerate (0, 0) (2, 2)" "seg_nondegenerate (0, 2) (2, 0)"
    by (simp_all add: nondegenerate_iff pdist_square)
  moreover have "segPoint (0, 0) (2, 2) (1/2) = segPoint (0, 2) (2, 0) (1/2)"
    by (simp add: segPoint_def)
  moreover have "(1/2 :: real) \<in> {0..1}" by simp
  ultimately show ?thesis
    using segmentsIntersect_correct [of "(0, 0)" "(2, 2)" "(0, 2)" "(2, 0)"] by blast
qed

end
