(* ===== verification/Separating_Axes.thy ===== *)
theory Separating_Axes
  imports Geometry
begin

text \<open>
  Correctness of the separating axis test of \<open>geometry.py\<close>. \<open>Geometry\<close> shows that a point well
  inside both footprints makes \<open>overlaps\<close> answer yes; here the converse: when none of the four axes
  shows a gap, the two footprints share a point. The point is found by eliminating first one and
  then the other coordinate in the frame of the first box, which leaves pairwise conditions on
  intervals of the line (Helly's theorem in dimension one).
\<close>

section \<open>Intervals of the line\<close>

definition ivl_lo :: "real \<times> real \<times> real \<Rightarrow> real" where
  "ivl_lo c = (case c of (k, b, g) \<Rightarrow> - b / k - g / \<bar>k\<bar>)"

definition ivl_hi :: "real \<times> real \<times> real \<Rightarrow> real" where
  "ivl_hi c = (case c of (k, b, g) \<Rightarrow> - b / k + g / \<bar>k\<bar>)"

definition ivl_meet :: "real \<times> real \<times> real \<Rightarrow> real \<times> real \<times> real \<Rightarrow> bool" where
  "ivl_meet c d = (case c of (k, b, g) \<Rightarrow> case d of (k', b', g') \<Rightarrow>
     \<bar>k * b' - k' * b\<bar> \<le> g * \<bar>k'\<bar> + g' * \<bar>k\<bar>)"

lemma ivl_mem_iff:
  assumes "k \<noteq> 0"
  shows "\<bar>k * v + b\<bar> \<le> g \<longleftrightarrow> ivl_lo (k, b, g) \<le> v \<and> v \<le> ivl_hi (k, b, g)"
proof -
  have "\<bar>k * v + b\<bar> = \<bar>k\<bar> * \<bar>v + b / k\<bar>"
    using assms by (simp add: abs_mult [symmetric] distrib_left)
  then have "\<bar>k * v + b\<bar> \<le> g \<longleftrightarrow> \<bar>v + b / k\<bar> \<le> g / \<bar>k\<bar>"
    using assms by (simp add: pos_le_divide_eq mult.commute)
  then show ?thesis by (auto simp: ivl_lo_def ivl_hi_def abs_le_iff)
qed

lemma ivl_meet_lo_hi:
  assumes "ivl_meet (k, b, g) (k', b', g')" and "k \<noteq> 0" and "k' \<noteq> 0"
  shows "ivl_lo (k, b, g) \<le> ivl_hi (k', b', g')"
proof -
  have pos: "0 < \<bar>k\<bar> * \<bar>k'\<bar>" using assms(2,3) by simp
  have "\<bar>k\<bar> * \<bar>k'\<bar> * \<bar>b' / k' - b / k\<bar> = \<bar>k * k' * (b' / k' - b / k)\<bar>" by (simp add: abs_mult)
  also have "k * k' * (b' / k' - b / k) = k * b' - k' * b"
    using assms(2,3) by (simp add: field_simps)
  also have "\<bar>k * b' - k' * b\<bar> \<le> g * \<bar>k'\<bar> + g' * \<bar>k\<bar>" using assms(1) by (simp add: ivl_meet_def)
  also have "\<dots> = \<bar>k\<bar> * \<bar>k'\<bar> * (g / \<bar>k\<bar> + g' / \<bar>k'\<bar>)" using assms(2,3) by (simp add: field_simps)
  finally have "\<bar>b' / k' - b / k\<bar> \<le> g / \<bar>k\<bar> + g' / \<bar>k'\<bar>"
    using pos by (rule mult_left_le_imp_le)
  then show ?thesis by (simp add: ivl_lo_def ivl_hi_def abs_le_iff)
qed

lemma helly_line:
  assumes fin: "finite C" and c0: "(k0, b0, g0) \<in> C" "k0 \<noteq> 0"
    and meet: "\<And>c d. c \<in> C \<Longrightarrow> d \<in> C \<Longrightarrow> ivl_meet c d"
  shows "\<exists>v. \<forall>(k, b, g) \<in> C. \<bar>k * v + b\<bar> \<le> g"
proof -
  let ?D = "{c \<in> C. fst c \<noteq> 0}"
  define v where "v = Max (ivl_lo ` ?D)"
  have D: "finite ?D" "(k0, b0, g0) \<in> ?D" using fin c0 by auto
  have "\<bar>k * v + b\<bar> \<le> g" if c: "(k, b, g) \<in> C" for k b g
  proof (cases "k = 0")
    case True
    have "\<bar>k0 * b\<bar> \<le> g * \<bar>k0\<bar>" using meet [OF c0(1) c] True by (simp add: ivl_meet_def)
    then have "\<bar>b\<bar> \<le> g" using c0(2) by (simp add: abs_mult mult.commute [of g])
    then show ?thesis using True by simp
  next
    case False
    have "ivl_lo (k, b, g) \<le> v" using D(1) c False by (auto simp: v_def intro!: Max_ge)
    moreover have "v \<le> ivl_hi (k, b, g)"
      unfolding v_def using D False c meet
      by (subst Max_le_iff) (auto intro!: ivl_meet_lo_hi)
    ultimately show ?thesis by (simp add: ivl_mem_iff [OF False])
  qed
  then show ?thesis by blast
qed

lemma ivl_meet_sym: "ivl_meet c d \<Longrightarrow> ivl_meet d c"
  by (cases c; cases d) (simp add: ivl_meet_def abs_minus_commute add.commute)

lemma ivl_meet_refl: "0 \<le> g \<Longrightarrow> ivl_meet (k, b, g) (k, b, g)"
  by (simp add: ivl_meet_def)

lemma helly_list:
  assumes "sorted_wrt ivl_meet cs" and "\<forall>(k, b, g) \<in> set cs. 0 \<le> g" and "(k0, b0, g0) \<in> set cs" "k0 \<noteq> 0"
  shows "\<exists>v. \<forall>(k, b, g) \<in> set cs. \<bar>k * v + b\<bar> \<le> g"
proof (rule helly_line [OF _ assms(3,4)])
  show "ivl_meet c d" if "c \<in> set cs" "d \<in> set cs" for c d
    using that assms(1,2)
    by (induction cs) (auto intro: ivl_meet_sym ivl_meet_refl)
qed simp

section \<open>Two boxes in one frame\<close>

text \<open>
  In the frame of the first box: half extents \<open>L\<close>, \<open>W\<close>; the second box has centre \<open>(e1, e2)\<close>, axes
  \<open>(c, n)\<close> and \<open>(-n, c)\<close> and half extents \<open>P\<close>, \<open>Q\<close>.
\<close>

lemma eliminate_first:
  fixes L P Q c n d1 d2 e2 t :: real
  assumes "0 \<le> L" "0 \<le> P" "0 \<le> Q"
    and "\<bar>n * t + - d1\<bar> \<le> P + L * \<bar>c\<bar>" and "\<bar>c * t + - d2\<bar> \<le> Q + L * \<bar>n\<bar>"
    and "\<bar>1 * t + - e2\<bar> \<le> P * \<bar>n\<bar> + Q * \<bar>c\<bar>"
    and "c\<^sup>2 + n\<^sup>2 = 1" and "d1 * n + d2 * c = e2"
  shows "\<exists>s. \<bar>s\<bar> \<le> L \<and> \<bar>c * s + (n * t - d1)\<bar> \<le> P \<and> \<bar>- n * s + (c * t - d2)\<bar> \<le> Q"
proof -
  let ?C = "[(1, 0, L), (c, n * t - d1, P), (- n, c * t - d2, Q)]"
  have "n * (n * t - d1) + c * (c * t - d2) = (c\<^sup>2 + n\<^sup>2) * t - (d1 * n + d2 * c)"
    by (simp add: power2_eq_square algebra_simps)
  then have uv: "n * (n * t - d1) + c * (c * t - d2) = t - e2" using assms(7,8) by simp
  have "\<bar>c * (c * t - d2) - - n * (n * t - d1)\<bar> \<le> P * \<bar>- n\<bar> + Q * \<bar>c\<bar>"
    using uv assms(6) by (simp add: add.commute)
  then have "sorted_wrt ivl_meet ?C"
    using assms(4,5) by (simp add: ivl_meet_def add.commute)
  then obtain s where "\<forall>(k, b, g) \<in> set ?C. \<bar>k * s + b\<bar> \<le> g"
    using helly_list [of ?C 1 0 L] assms(1-3) by auto
  then show ?thesis by (intro exI [of _ s]) simp
qed

lemma rotated_extent_le:
  fixes L P Q c n e1 :: real
  assumes "0 \<le> P" and "\<bar>c\<bar> * \<bar>c\<bar> + \<bar>n\<bar> * \<bar>n\<bar> = 1" and "\<bar>e1\<bar> \<le> L + P * \<bar>c\<bar> + Q * \<bar>n\<bar>"
  shows "\<bar>c\<bar> * \<bar>e1\<bar> \<le> P + L * \<bar>c\<bar> + (P * \<bar>n\<bar> + Q * \<bar>c\<bar>) * \<bar>n\<bar>"
proof -
  have "\<bar>c\<bar> * \<bar>e1\<bar> \<le> \<bar>c\<bar> * (L + P * \<bar>c\<bar> + Q * \<bar>n\<bar>)" using assms(3) by (intro mult_left_mono) auto
  moreover have "P * (\<bar>c\<bar> * \<bar>c\<bar>) \<le> P"
    using assms(1) by (intro mult_left_le) (auto simp: assms(2) [symmetric])
  moreover have "0 \<le> P * (\<bar>n\<bar> * \<bar>n\<bar>)" using assms(1) by simp
  ultimately show ?thesis by (simp add: algebra_simps)
qed

lemma boxes_meet:
  fixes L W P Q c n e1 e2 :: real
  assumes pos: "0 \<le> L" "0 \<le> W" "0 \<le> P" "0 \<le> Q" and unit: "c\<^sup>2 + n\<^sup>2 = 1"
    and x: "\<bar>e1\<bar> \<le> L + P * \<bar>c\<bar> + Q * \<bar>n\<bar>" and y: "\<bar>e2\<bar> \<le> W + P * \<bar>n\<bar> + Q * \<bar>c\<bar>"
    and u: "\<bar>e1 * c + e2 * n\<bar> \<le> P + L * \<bar>c\<bar> + W * \<bar>n\<bar>"
    and v: "\<bar>- e1 * n + e2 * c\<bar> \<le> Q + L * \<bar>n\<bar> + W * \<bar>c\<bar>"
  shows "\<exists>s t. \<bar>s\<bar> \<le> L \<and> \<bar>t\<bar> \<le> W \<and> \<bar>(s - e1) * c + (t - e2) * n\<bar> \<le> P \<and>
    \<bar>- (s - e1) * n + (t - e2) * c\<bar> \<le> Q"
proof -
  define d1 where "d1 = e1 * c + e2 * n"
  define d2 where "d2 = - e1 * n + e2 * c"
  have "d1 * n + d2 * c = e2 * (c\<^sup>2 + n\<^sup>2)" "d1 * c - d2 * n = e1 * (c\<^sup>2 + n\<^sup>2)"
    by (simp_all add: d1_def d2_def power2_eq_square algebra_simps)
  then have rot: "d1 * n + d2 * c = e2" "d1 * c - d2 * n = e1" using unit by simp_all
  have sq: "\<bar>c\<bar> * \<bar>c\<bar> + \<bar>n\<bar> * \<bar>n\<bar> = 1" using unit by (simp add: power2_eq_square)
  have t13: "\<bar>d1 - n * e2\<bar> = \<bar>c\<bar> * \<bar>e1\<bar>" by (simp add: d1_def abs_mult [symmetric] algebra_simps)
  have t23: "\<bar>d2 - c * e2\<bar> = \<bar>n\<bar> * \<bar>e1\<bar>" by (simp add: d2_def abs_mult [symmetric] algebra_simps)
  let ?T0 = "(1, 0, W)" and ?T1 = "(n, - d1, P + L * \<bar>c\<bar>)" and ?T2 = "(c, - d2, Q + L * \<bar>n\<bar>)"
    and ?T3 = "(1, - e2, P * \<bar>n\<bar> + Q * \<bar>c\<bar>)"
  have m01: "ivl_meet ?T0 ?T1" using u by (simp add: ivl_meet_def d1_def)
  have m02: "ivl_meet ?T0 ?T2" using v by (simp add: ivl_meet_def d2_def)
  have m03: "ivl_meet ?T0 ?T3" using y by (simp add: ivl_meet_def)
  have "(P + L * \<bar>c\<bar>) * \<bar>c\<bar> + (Q + L * \<bar>n\<bar>) * \<bar>n\<bar> = L * (\<bar>c\<bar> * \<bar>c\<bar> + \<bar>n\<bar> * \<bar>n\<bar>) + P * \<bar>c\<bar> + Q * \<bar>n\<bar>"
    by (simp add: algebra_simps)
  then have "\<bar>d1 * c - d2 * n\<bar> \<le> (P + L * \<bar>c\<bar>) * \<bar>c\<bar> + (Q + L * \<bar>n\<bar>) * \<bar>n\<bar>" using x sq rot(2) by simp
  then have m12: "ivl_meet ?T1 ?T2" by (simp add: ivl_meet_def mult.commute)
  have m13: "ivl_meet ?T1 ?T3"
    using rotated_extent_le [OF pos(3) sq x] t13 by (simp add: ivl_meet_def abs_minus_commute)
  have "\<bar>n\<bar> * \<bar>e1\<bar> \<le> Q + L * \<bar>n\<bar> + (Q * \<bar>c\<bar> + P * \<bar>n\<bar>) * \<bar>c\<bar>"
    using x by (intro rotated_extent_le pos) (simp_all add: sq [symmetric] algebra_simps)
  then have m23: "ivl_meet ?T2 ?T3" using t23
    by (simp add: ivl_meet_def abs_minus_commute add.commute)
  have "sorted_wrt ivl_meet [?T0, ?T1, ?T2, ?T3]"
    using m01 m02 m03 m12 m13 m23 by simp
  then obtain t where "\<forall>(k, b, g) \<in> set [?T0, ?T1, ?T2, ?T3]. \<bar>k * t + b\<bar> \<le> g"
    using helly_list [of "[?T0, ?T1, ?T2, ?T3]" 1 0 W] pos by auto
  then have t: "\<bar>t\<bar> \<le> W" "\<bar>n * t + - d1\<bar> \<le> P + L * \<bar>c\<bar>" "\<bar>c * t + - d2\<bar> \<le> Q + L * \<bar>n\<bar>"
    "\<bar>1 * t + - e2\<bar> \<le> P * \<bar>n\<bar> + Q * \<bar>c\<bar>" by simp_all
  obtain s where s: "\<bar>s\<bar> \<le> L" "\<bar>c * s + (n * t - d1)\<bar> \<le> P" "\<bar>- n * s + (c * t - d2)\<bar> \<le> Q"
    using eliminate_first [OF pos(1,3,4) t(2-4) unit rot(1)] by blast
  have "(s - e1) * c + (t - e2) * n = c * s + (n * t - d1)"
    "- (s - e1) * n + (t - e2) * c = - n * s + (c * t - d2)"
    by (simp_all add: d1_def d2_def algebra_simps)
  then show ?thesis using s t(1) by (intro exI [of _ s] exI [of _ t]) simp
qed

section \<open>The test on obstacles\<close>

text \<open>The second box's axes and centre in the frame of the first.\<close>

definition relCos :: "Obstacle \<Rightarrow> Obstacle \<Rightarrow> real" where
  "relCos oa ob = cos (radians (o_r oa)) * cos (radians (o_r ob)) + sin (radians (o_r oa)) * sin (radians (o_r ob))"

definition relSin :: "Obstacle \<Rightarrow> Obstacle \<Rightarrow> real" where
  "relSin oa ob = cos (radians (o_r oa)) * sin (radians (o_r ob)) - sin (radians (o_r oa)) * cos (radians (o_r ob))"

lemma rel_unit: "(relCos oa ob)\<^sup>2 + (relSin oa ob)\<^sup>2 = 1"
proof -
  let ?a = "radians (o_r oa)" and ?b = "radians (o_r ob)"
  have "relCos oa ob = cos (?b - ?a)" "relSin oa ob = sin (?b - ?a)"
    by (simp_all add: relCos_def relSin_def cos_diff sin_diff)
  then show ?thesis by simp
qed

lemma axisGap_first:
  assumes "axes = boxAxes oa"
  shows "axisGap oa ob (fst (axes ! 0)) (snd (axes ! 0)) =
      \<bar>alongU oa (o_x ob, o_y ob)\<bar> - o_l oa / 2 - o_l ob / 2 * \<bar>relCos oa ob\<bar> - o_w ob / 2 * \<bar>relSin oa ob\<bar>"
    and "axisGap oa ob (fst (axes ! 1)) (snd (axes ! 1)) =
      \<bar>alongV oa (o_x ob, o_y ob)\<bar> - o_w oa / 2 - o_l ob / 2 * \<bar>relSin oa ob\<bar> - o_w ob / 2 * \<bar>relCos oa ob\<bar>"
  unfolding assms axisGap_def projectionRadius_def relCos_def relSin_def alongU_def alongV_def Let_def
  by (simp_all add: algebra_simps abs_minus_commute)

text \<open>A vector given in the frame of the first box, projected on the axes of the second.\<close>

lemma rel_projection:
  fixes oa :: Obstacle and dx dy :: real
  defines "s \<equiv> dx * cos (radians (o_r oa)) + dy * sin (radians (o_r oa))"
    and "t \<equiv> - dx * sin (radians (o_r oa)) + dy * cos (radians (o_r oa))"
  shows "s * relCos oa ob + t * relSin oa ob = dx * cos (radians (o_r ob)) + dy * sin (radians (o_r ob))"
    and "- s * relSin oa ob + t * relCos oa ob = - dx * sin (radians (o_r ob)) + dy * cos (radians (o_r ob))"
proof -
  let ?ca = "cos (radians (o_r oa))" and ?sa = "sin (radians (o_r oa))"
  let ?cb = "cos (radians (o_r ob))" and ?sb = "sin (radians (o_r ob))"
  have "s * relCos oa ob + t * relSin oa ob = (dx * ?cb + dy * ?sb) * (?ca * ?ca + ?sa * ?sa)"
    by (simp add: s_def t_def relCos_def relSin_def algebra_simps del: sin_cos_squared_add3)
  then show "s * relCos oa ob + t * relSin oa ob = dx * ?cb + dy * ?sb" by simp
  have "- s * relSin oa ob + t * relCos oa ob = (- dx * ?sb + dy * ?cb) * (?ca * ?ca + ?sa * ?sa)"
    by (simp add: s_def t_def relCos_def relSin_def algebra_simps del: sin_cos_squared_add3)
  then show "- s * relSin oa ob + t * relCos oa ob = - dx * ?sb + dy * ?cb" by simp
qed

lemma axisGap_second:
  fixes oa ob :: Obstacle
  defines "e1 \<equiv> alongU oa (o_x ob, o_y ob)" and "e2 \<equiv> alongV oa (o_x ob, o_y ob)"
  assumes "axes = boxAxes ob"
  shows "axisGap oa ob (fst (axes ! 0)) (snd (axes ! 0)) =
      \<bar>e1 * relCos oa ob + e2 * relSin oa ob\<bar> - o_l oa / 2 * \<bar>relCos oa ob\<bar> - o_w oa / 2 * \<bar>relSin oa ob\<bar> - o_l ob / 2"
    and "axisGap oa ob (fst (axes ! 1)) (snd (axes ! 1)) =
      \<bar>- e1 * relSin oa ob + e2 * relCos oa ob\<bar> - o_l oa / 2 * \<bar>relSin oa ob\<bar> - o_w oa / 2 * \<bar>relCos oa ob\<bar> - o_w ob / 2"
proof -
  note proj = rel_projection [where oa = oa and ob = ob and dx = "o_x ob - o_x oa" and dy = "o_y ob - o_y oa"]
  have e: "e1 * relCos oa ob + e2 * relSin oa ob =
      (o_x ob - o_x oa) * cos (radians (o_r ob)) + (o_y ob - o_y oa) * sin (radians (o_r ob))"
    "- e1 * relSin oa ob + e2 * relCos oa ob =
      - (o_x ob - o_x oa) * sin (radians (o_r ob)) + (o_y ob - o_y oa) * cos (radians (o_r ob))"
    using proj by (simp_all add: e1_def e2_def alongU_def alongV_def)
  show "axisGap oa ob (fst (axes ! 0)) (snd (axes ! 0)) =
      \<bar>e1 * relCos oa ob + e2 * relSin oa ob\<bar> - o_l oa / 2 * \<bar>relCos oa ob\<bar> - o_w oa / 2 * \<bar>relSin oa ob\<bar> - o_l ob / 2"
    unfolding e(1) unfolding assms(3) axisGap_def projectionRadius_def relCos_def relSin_def Let_def
    by (simp add: algebra_simps abs_minus_commute)
  show "axisGap oa ob (fst (axes ! 1)) (snd (axes ! 1)) =
      \<bar>- e1 * relSin oa ob + e2 * relCos oa ob\<bar> - o_l oa / 2 * \<bar>relSin oa ob\<bar> - o_w oa / 2 * \<bar>relCos oa ob\<bar> - o_w ob / 2"
    unfolding e(2) unfolding assms(3) axisGap_def projectionRadius_def relCos_def relSin_def Let_def
    by (simp add: algebra_simps abs_minus_commute)
qed

lemma second_frame_coords:
  fixes oa ob :: Obstacle and s t :: real
  defines "p \<equiv> framePoint oa s t" and "e1 \<equiv> alongU oa (o_x ob, o_y ob)" and "e2 \<equiv> alongV oa (o_x ob, o_y ob)"
  shows "alongU ob p = (s - e1) * relCos oa ob + (t - e2) * relSin oa ob"
    and "alongV ob p = - (s - e1) * relSin oa ob + (t - e2) * relCos oa ob"
proof -
  have "s - e1 = (fst p - o_x ob) * cos (radians (o_r oa)) + (snd p - o_y ob) * sin (radians (o_r oa))"
    using alongU_framePoint [of oa s t] by (simp add: p_def e1_def alongU_def algebra_simps)
  moreover have "t - e2 = - (fst p - o_x ob) * sin (radians (o_r oa)) + (snd p - o_y ob) * cos (radians (o_r oa))"
    using alongV_framePoint [of oa s t] by (simp add: p_def e2_def alongV_def algebra_simps)
  ultimately show "alongU ob p = (s - e1) * relCos oa ob + (t - e2) * relSin oa ob"
    and "alongV ob p = - (s - e1) * relSin oa ob + (t - e2) * relCos oa ob"
    using rel_projection [where oa = oa and ob = ob and dx = "fst p - o_x ob" and dy = "snd p - o_y ob"]
    by (simp_all add: alongU_def alongV_def)
qed

lemma boxAxes_pairs:
  "boxAxes ob = [(fst (boxAxes ob ! 0), snd (boxAxes ob ! 0)), (fst (boxAxes ob ! 1), snd (boxAxes ob ! 1))]"
  by (simp add: boxAxes_def Let_def)

lemma overlaps_axes:
  assumes "overlaps oa ob"
  shows "axisGap oa ob (fst (boxAxes oa ! 0)) (snd (boxAxes oa ! 0)) \<le> 0"
    and "axisGap oa ob (fst (boxAxes oa ! 1)) (snd (boxAxes oa ! 1)) \<le> 0"
    and "axisGap oa ob (fst (boxAxes ob ! 0)) (snd (boxAxes ob ! 0)) \<le> 0"
    and "axisGap oa ob (fst (boxAxes ob ! 1)) (snd (boxAxes ob ! 1)) \<le> 0"
proof -
  have "axisGap oa ob nx ny \<le> 0" if "(nx, ny) \<in> set (boxAxes oa @ boxAxes ob)" for nx ny
  proof -
    have "axisGap oa ob nx ny \<le> - OVERLAP_EPS"
      using assms that by (auto simp: overlaps_def overlapLoop_all simp del: set_append)
    then show ?thesis by (simp add: OVERLAP_EPS_def)
  qed
  moreover have "(fst (boxAxes oc ! 0), snd (boxAxes oc ! 0)) \<in> set (boxAxes oc)"
    "(fst (boxAxes oc ! 1), snd (boxAxes oc ! 1)) \<in> set (boxAxes oc)" for oc
    using boxAxes_pairs [of oc] by (metis list.set_intros)+
  ultimately show "axisGap oa ob (fst (boxAxes oa ! 0)) (snd (boxAxes oa ! 0)) \<le> 0"
    and "axisGap oa ob (fst (boxAxes oa ! 1)) (snd (boxAxes oa ! 1)) \<le> 0"
    and "axisGap oa ob (fst (boxAxes ob ! 0)) (snd (boxAxes ob ! 0)) \<le> 0"
    and "axisGap oa ob (fst (boxAxes ob ! 1)) (snd (boxAxes ob ! 1)) \<le> 0"
    by (metis Un_iff set_append)+
qed

lemma overlaps_share_point:
  assumes "box_ok oa" and "box_ok ob" and "overlaps oa ob"
  shows "\<exists>p. inFootprint 0 oa p \<and> inFootprint 0 ob p"
proof -
  let ?e1 = "alongU oa (o_x ob, o_y ob)" and ?e2 = "alongV oa (o_x ob, o_y ob)"
  note gaps = overlaps_axes [OF assms(3), unfolded axisGap_first [OF refl] axisGap_second [OF refl]]
  have "\<exists>s t. \<bar>s\<bar> \<le> o_l oa / 2 \<and> \<bar>t\<bar> \<le> o_w oa / 2 \<and>
      \<bar>(s - ?e1) * relCos oa ob + (t - ?e2) * relSin oa ob\<bar> \<le> o_l ob / 2 \<and>
      \<bar>- (s - ?e1) * relSin oa ob + (t - ?e2) * relCos oa ob\<bar> \<le> o_w ob / 2"
    using assms(1,2) rel_unit [of oa ob] gaps
    by (intro boxes_meet) (simp_all add: box_ok_def)
  then obtain s t where "\<bar>s\<bar> \<le> o_l oa / 2" "\<bar>t\<bar> \<le> o_w oa / 2"
    "\<bar>alongU ob (framePoint oa s t)\<bar> \<le> o_l ob / 2" "\<bar>alongV ob (framePoint oa s t)\<bar> \<le> o_w ob / 2"
    unfolding second_frame_coords [of ob oa] by blast
  then have "inFootprint 0 oa (framePoint oa s t) \<and> inFootprint 0 ob (framePoint oa s t)"
    by (simp add: inFootprint_frame) (simp add: inFootprint_def)
  then show ?thesis by blast
qed

section \<open>Properties\<close>

text \<open>
  C17. The separating axis test is exact up to its tolerance: it is symmetric, two boxes it calls
  overlapping share a ground point, and boxes sharing a point that lies at least half of
  \<open>OVERLAP_EPS\<close> inside both are called overlapping.
\<close>

theorem overlaps_correct:
  assumes "box_ok oa" and "box_ok ob"
  shows "(overlaps oa ob \<longleftrightarrow> overlaps ob oa) \<and>
    (overlaps oa ob \<longrightarrow> (\<exists>p. inFootprint 0 oa p \<and> inFootprint 0 ob p)) \<and>
    ((\<exists>p. inFootprint (OVERLAP_EPS / 2) oa p \<and> inFootprint (OVERLAP_EPS / 2) ob p) \<longrightarrow> overlaps oa ob)"
  using overlaps_sym [of oa ob] overlaps_share_point [OF assms]
    overlaps_if_common_point [of "OVERLAP_EPS / 2" oa _ ob] by auto

theorem overlaps_correct_witness:
  "let oa = \<lparr>o_l = 2, o_w = 2, o_h = 1, o_x = 0, o_y = 0, o_z = 0, o_r = 0\<rparr>;
       ob = \<lparr>o_l = 2, o_w = 2, o_h = 1, o_x = 1, o_y = 1, o_z = 0, o_r = 0\<rparr>
   in overlaps oa ob"
proof -
  let ?oa = "\<lparr>o_l = 2, o_w = 2, o_h = 1, o_x = 0, o_y = 0, o_z = 0, o_r = 0\<rparr>"
  let ?ob = "\<lparr>o_l = 2, o_w = 2, o_h = 1, o_x = 1, o_y = 1, o_z = 0, o_r = 0\<rparr>"
  have "box_ok ?oa" "box_ok ?ob" by (simp_all add: box_ok_def)
  moreover have "inFootprint (OVERLAP_EPS / 2) ?oa (1/2, 1/2) \<and> inFootprint (OVERLAP_EPS / 2) ?ob (1/2, 1/2)"
    by (simp add: inFootprint_def alongU_def alongV_def radians_def OVERLAP_EPS_def)
  ultimately have "overlaps ?oa ?ob" using overlaps_correct [of ?oa ?ob] by blast
  then show ?thesis by simp
qed

text \<open>
  A layout fits the placement area exactly when every ground point of every obstacle lies in it,
  which is also when all the corners do: the rotated half extents are the tight bounding box.
\<close>

theorem fitsInBounds_exact:
  assumes "\<forall>ob \<in> set obs. box_ok ob"
  shows "(fitsInBounds bounds obs \<longleftrightarrow> (\<forall>ob \<in> set obs. \<forall>p. inFootprint 0 ob p \<longrightarrow> inBounds bounds p)) \<and>
    (fitsInBounds bounds obs \<longleftrightarrow> (\<forall>ob \<in> set obs. \<forall>p \<in> set (boxCorners ob). inBounds bounds p))"
  unfolding fitsInBounds_all
  using assms fits1_footprint [of bounds] corners_fits1 [of _ bounds] boxCorners_in_footprint by blast

theorem fitsInBounds_exact_witness:
  "let ob = \<lparr>o_l = 4, o_w = 2, o_h = 1, o_x = 3, o_y = 3, o_z = 0, o_r = 90\<rparr>
   in fitsInBounds (0, 6, 0, 6) [ob] \<and> (\<forall>p. inFootprint 0 ob p \<longrightarrow> inBounds (0, 6, 0, 6) p)"
proof -
  let ?ob = "\<lparr>o_l = 4, o_w = 2, o_h = 1, o_x = 3, o_y = 3, o_z = 0, o_r = 90\<rparr>"
  have "\<forall>ob \<in> set [?ob]. box_ok ob" by (simp add: box_ok_def)
  moreover have "fitsInBounds (0, 6, 0, 6) [?ob]"
    by (simp add: rotatedHalfExtents_def radians_def)
  ultimately show ?thesis using fitsInBounds_exact [of "[?ob]" "(0, 6, 0, 6)"] by simp
qed

end
