(* ===== verification/Motifs.thy ===== *)
theory Motifs
  imports Genes Segment_Distance Separating_Axes
begin

text \<open>
  \<open>motifs.py\<close>: genes decoded to obstacles, the single wall and the chevron gate, and the legality
  check of a layout. The main results: \<open>makeWall\<close> builds the box it is asked for whatever the axis
  angle, with the yaw the competition allows; a decoded wall crosses the flight path at the gene
  \<open>t\<close> and reaches exactly \<open>overhang\<close> past it; the bisection of the gate keeps its bracket.
\<close>

section \<open>Constants\<close>

definition WALL_THICKNESS_M :: real where "WALL_THICKNESS_M = 2"
definition WALL_HEIGHT_M :: real where "WALL_HEIGHT_M = 25"
definition GATE_BLOCKER_DEG :: real where "GATE_BLOCKER_DEG = 30"
definition GATE_AHEAD_M :: real where "GATE_AHEAD_M = 3"
definition GATE_OFFSET_MAX_M :: real where "GATE_OFFSET_MAX_M = 30"
definition GATE_SOLVE_STEPS :: nat where "GATE_SOLVE_STEPS = 40"

section \<open>Decoding\<close>

text \<open>\<open>math.atan2(y, x)\<close>: the angle of the point \<open>(x, y)\<close>.\<close>

definition py_atan2 :: "real \<Rightarrow> real \<Rightarrow> real" where
  "py_atan2 y x = Arg (Complex x y)"

definition makeWall :: "Point \<Rightarrow> real \<Rightarrow> real \<Rightarrow> real \<Rightarrow> Obstacle" where
  "makeWall start axisDeg len thickness =
     (let ax = cos (radians axisDeg); ay = sin (radians axisDeg);
          cx = fst start + 1/2 * len * ax;
          cy = snd start + 1/2 * len * ay;
          r = py_fmod axisDeg 180;
          (r', l, w) = (if r > 90 then (r - 90, thickness, len) else (r, len, thickness))
      in \<lparr>o_l = l, o_w = w, o_h = WALL_HEIGHT_M, o_x = cx, o_y = cy, o_z = 0, o_r = r'\<rparr>)"

definition tiltedAxis :: "Segment \<Rightarrow> int \<Rightarrow> real \<Rightarrow> (real \<times> real) result" where
  "tiltedAxis segment side angleDeg =
     bindE (direction segment) (\<lambda>(ux, uy).
     bindE (sideNormal segment) (\<lambda>(nx, ny).
       let c = cos (radians angleDeg); s = of_int side * sin (radians angleDeg)
       in Inr (c * ux + s * nx, c * uy + s * ny)))"

definition decodeWall :: "Genes \<Rightarrow> Segment \<Rightarrow> Obstacle result" where
  "decodeWall genes segment =
     bindE (tiltedAxis segment (g_side genes) (g_crossingDeg genes)) (\<lambda>(ax, ay).
       let (crossX, crossY) = pointAt segment (g_t genes);
           behind = g_length genes - g_overhang genes;
           start = (crossX - behind * ax, crossY - behind * ay)
       in Inr (makeWall start (degrees (py_atan2 ay ax)) (g_length genes) WALL_THICKNESS_M))"

definition blockerAt :: "Genes \<Rightarrow> Point \<Rightarrow> Point \<Rightarrow> Point \<Rightarrow> real \<Rightarrow> real \<Rightarrow> Obstacle" where
  "blockerAt genes tip u n blockerDeg offset =
     makeWall
       (fst tip + GATE_AHEAD_M * fst u + offset * of_int (g_side genes) * fst n,
        snd tip + GATE_AHEAD_M * snd u + offset * of_int (g_side genes) * snd n)
       blockerDeg (g_length genes) WALL_THICKNESS_M"

fun bisect :: "nat \<Rightarrow> (real \<Rightarrow> bool) \<Rightarrow> real \<Rightarrow> real \<Rightarrow> real \<times> real" where
  "bisect 0 below lo hi = (lo, hi)"
| "bisect (Suc n) below lo hi =
     (let mid = 1/2 * (lo + hi)
      in if below mid then bisect n below mid hi else bisect n below lo mid)"

definition decodeGate :: "Genes \<Rightarrow> Segment \<Rightarrow> Obstacle list result" where
  "decodeGate genes segment =
     bindE (decodeWall genes segment) (\<lambda>wall.
     bindE (tiltedAxis segment (g_side genes) (g_crossingDeg genes)) (\<lambda>(ax, ay).
       let (crossX, crossY) = pointAt segment (g_t genes);
           tip = (crossX + g_overhang genes * ax, crossY + g_overhang genes * ay)
       in bindE (direction segment) (\<lambda>u.
          bindE (sideNormal segment) (\<lambda>n.
          bindE (tiltedAxis segment (- g_side genes) GATE_BLOCKER_DEG) (\<lambda>(bx, by').
            let blockerDeg = degrees (py_atan2 (- by') (- bx));
                blocker = blockerAt genes tip u n blockerDeg;
                (lo, hi) = bisect GATE_SOLVE_STEPS
                   (\<lambda>mid. footprintGap wall (blocker mid) < g_gateWidth genes) 0 GATE_OFFSET_MAX_M
            in Inr [wall, blocker (1/2 * (lo + hi))])))))"

fun segmentByIndex :: "Segment list \<Rightarrow> nat \<Rightarrow> Segment result" where
  "segmentByIndex [] i = Inl ValueError"
| "segmentByIndex (s # ss) i = (if seg_index s = i then Inr s else segmentByIndex ss i)"

definition decode :: "Genes \<Rightarrow> Segment list \<Rightarrow> Obstacle list result" where
  "decode genes segments =
     bindE (segmentByIndex segments (g_segment genes)) (\<lambda>segment.
       if g_kind genes = KIND_GATE then decodeGate genes segment
       else bindE (decodeWall genes segment) (\<lambda>wall. Inr [wall]))"

section \<open>Legality\<close>

text \<open>The own segment's index is \<open>None\<close> where the source passes \<open>-1\<close>, which no segment has.\<close>

definition crossesOtherSegment :: "Obstacle list \<Rightarrow> Segment list \<Rightarrow> nat option \<Rightarrow> bool" where
  "crossesOtherSegment obstacles segments own =
     (\<exists>ob \<in> set obstacles. case wallAxis ob of (p, q) \<Rightarrow>
        \<exists>s \<in> set segments. Some (seg_index s) \<noteq> own \<and> segmentsIntersect p q (seg_a s) (seg_b s))"

definition layoutProblem ::
    "Bounds \<Rightarrow> Obstacle list \<Rightarrow> Segment list \<Rightarrow> nat option \<Rightarrow> bool \<Rightarrow> string option" where
  "layoutProblem bounds obstacles segments own strict =
     (if \<not> fitsInBounds bounds obstacles then Some ''outside the placement area''
      else if hasOverlap obstacles then Some ''walls overlap''
      else if strict \<and> crossesOtherSegment obstacles segments own then Some ''crosses another segment''
      else None)"

section \<open>The box of a wall\<close>

lemma cos_sin_fmod_180:
  obtains e :: real where "e = 1 \<or> e = -1"
    and "cos (radians d) = e * cos (radians (py_fmod d 180))"
    and "sin (radians d) = e * sin (radians (py_fmod d 180))"
proof -
  let ?k = "\<lfloor>d / 180\<rfloor>"
  let ?e = "cos (pi * of_int ?k)"
  have split: "radians d = radians (py_fmod d 180) + pi * of_int ?k"
    by (simp add: radians_def py_fmod_def field_simps)
  have s0: "sin (pi * of_int ?k) = 0" by (simp add: sin_zero_iff_int2)
  then have "?e\<^sup>2 = 1" using sin_cos_squared_add [of "pi * of_int ?k"] by simp
  then have e: "?e = 1 \<or> ?e = -1" by (simp add: power2_eq_1_iff)
  have "cos (radians d) = ?e * cos (radians (py_fmod d 180))"
    "sin (radians d) = ?e * sin (radians (py_fmod d 180))"
    unfolding split cos_add sin_add s0 by simp_all
  then show ?thesis using that e by blast
qed

text \<open>Coordinates along and across a wall that starts at a point and runs at an angle.\<close>

definition alongWall :: "Point \<Rightarrow> real \<Rightarrow> real \<Rightarrow> Point \<Rightarrow> real" where
  "alongWall start ax ay p = (fst p - fst start) * ax + (snd p - snd start) * ay"

definition acrossWall :: "Point \<Rightarrow> real \<Rightarrow> real \<Rightarrow> Point \<Rightarrow> real" where
  "acrossWall start ax ay p = - (fst p - fst start) * ay + (snd p - snd start) * ax"

lemma centred_interval: "e = 1 \<or> e = -1 \<Longrightarrow> \<bar>e * (v - len / 2)\<bar> \<le> len / 2 \<longleftrightarrow> 0 \<le> v \<and> v \<le> (len :: real)"
  by (elim disjE; simp only: mult_1 mult_minus1 abs_minus_cancel; linarith)

lemma makeWall_coords_plain:
  assumes "py_fmod d 180 \<le> 90" and "e = 1 \<or> e = -1"
    and "cos (radians d) = e * cos (radians (py_fmod d 180))"
    and "sin (radians d) = e * sin (radians (py_fmod d 180))"
  shows "alongU (makeWall start d len th) p = e * (alongWall start (cos (radians d)) (sin (radians d)) p - len / 2)"
    and "alongV (makeWall start d len th) p = e * acrossWall start (cos (radians d)) (sin (radians d)) p"
proof -
  let ?c = "cos (radians (py_fmod d 180))" and ?s = "sin (radians (py_fmod d 180))"
  have ee: "e * e = 1" using assms(2) by auto
  have ob: "makeWall start d len th = \<lparr>o_l = len, o_w = th, o_h = WALL_HEIGHT_M,
      o_x = fst start + 1/2 * len * cos (radians d), o_y = snd start + 1/2 * len * sin (radians d),
      o_z = 0, o_r = py_fmod d 180\<rparr>"
    using assms(1) by (simp add: makeWall_def Let_def)
  have "alongU (makeWall start d len th) p =
      (fst p - fst start) * ?c + (snd p - snd start) * ?s - 1/2 * len * e * (?c * ?c + ?s * ?s)"
    by (simp add: ob alongU_def assms(3,4) algebra_simps del: sin_cos_squared_add3)
  moreover have "e * (alongWall start (cos (radians d)) (sin (radians d)) p - len / 2) =
      (e * e) * ((fst p - fst start) * ?c + (snd p - snd start) * ?s) - e * len / 2"
    by (simp add: alongWall_def assms(3,4) algebra_simps)
  ultimately show "alongU (makeWall start d len th) p =
      e * (alongWall start (cos (radians d)) (sin (radians d)) p - len / 2)"
    using ee by simp
  have "alongV (makeWall start d len th) p = - (fst p - fst start) * ?s + (snd p - snd start) * ?c"
    by (simp add: ob alongV_def assms(3,4) algebra_simps)
  moreover have "e * acrossWall start (cos (radians d)) (sin (radians d)) p =
      (e * e) * (- (fst p - fst start) * ?s + (snd p - snd start) * ?c)"
    by (simp add: acrossWall_def assms(3,4) algebra_simps)
  ultimately show "alongV (makeWall start d len th) p = e * acrossWall start (cos (radians d)) (sin (radians d)) p"
    using ee by simp
qed

lemma makeWall_coords_turned:
  assumes "90 < py_fmod d 180" and "e = 1 \<or> e = -1"
    and "cos (radians d) = e * cos (radians (py_fmod d 180))"
    and "sin (radians d) = e * sin (radians (py_fmod d 180))"
  shows "alongV (makeWall start d len th) p = e * (alongWall start (cos (radians d)) (sin (radians d)) p - len / 2)"
    and "alongU (makeWall start d len th) p = - e * acrossWall start (cos (radians d)) (sin (radians d)) p"
proof -
  let ?c = "cos (radians (py_fmod d 180 - 90))" and ?s = "sin (radians (py_fmod d 180 - 90))"
  have ee: "e * e = 1" using assms(2) by auto
  have turn: "radians (py_fmod d 180) = radians (py_fmod d 180 - 90) + pi / 2"
    by (simp add: radians_def field_simps)
  have cd: "cos (radians d) = e * - ?s" "sin (radians d) = e * ?c"
    unfolding assms(3,4) turn by (simp_all add: cos_add sin_add)
  have ob: "makeWall start d len th = \<lparr>o_l = th, o_w = len, o_h = WALL_HEIGHT_M,
      o_x = fst start + 1/2 * len * cos (radians d), o_y = snd start + 1/2 * len * sin (radians d),
      o_z = 0, o_r = py_fmod d 180 - 90\<rparr>"
    using assms(1) by (simp add: makeWall_def Let_def)
  have "alongV (makeWall start d len th) p =
      - (fst p - fst start) * ?s + (snd p - snd start) * ?c - 1/2 * len * e * (?c * ?c + ?s * ?s)"
    by (simp add: ob alongV_def cd algebra_simps del: sin_cos_squared_add3)
  moreover have "e * (alongWall start (cos (radians d)) (sin (radians d)) p - len / 2) =
      (e * e) * (- (fst p - fst start) * ?s + (snd p - snd start) * ?c) - e * len / 2"
    by (simp add: alongWall_def cd algebra_simps)
  ultimately show "alongV (makeWall start d len th) p =
      e * (alongWall start (cos (radians d)) (sin (radians d)) p - len / 2)"
    using ee by simp
  have "alongU (makeWall start d len th) p = (fst p - fst start) * ?c + (snd p - snd start) * ?s"
    by (simp add: ob alongU_def cd algebra_simps)
  moreover have "- e * acrossWall start (cos (radians d)) (sin (radians d)) p =
      (e * e) * ((fst p - fst start) * ?c + (snd p - snd start) * ?s)"
    by (simp add: acrossWall_def cd algebra_simps)
  ultimately show "alongU (makeWall start d len th) p = - e * acrossWall start (cos (radians d)) (sin (radians d)) p"
    using ee by simp
qed

lemma makeWall_fields:
  "py_fmod d 180 \<le> 90 \<Longrightarrow> o_l (makeWall start d len th) = len \<and> o_w (makeWall start d len th) = th"
  "90 < py_fmod d 180 \<Longrightarrow> o_l (makeWall start d len th) = th \<and> o_w (makeWall start d len th) = len"
  by (simp_all add: makeWall_def Let_def)

lemma makeWall_footprint:
  "inFootprint 0 (makeWall start d len th) p \<longleftrightarrow>
     0 \<le> alongWall start (cos (radians d)) (sin (radians d)) p \<and>
     alongWall start (cos (radians d)) (sin (radians d)) p \<le> len \<and>
     \<bar>acrossWall start (cos (radians d)) (sin (radians d)) p\<bar> \<le> th / 2"
proof -
  obtain e :: real where e: "e = 1 \<or> e = -1" "cos (radians d) = e * cos (radians (py_fmod d 180))"
    "sin (radians d) = e * sin (radians (py_fmod d 180))" by (rule cos_sin_fmod_180)
  have e1: "\<bar>e * v\<bar> = \<bar>v\<bar>" "\<bar>- e * v\<bar> = \<bar>v\<bar>" for v using e(1) by (auto simp: abs_mult)
  show ?thesis
  proof (cases "py_fmod d 180 \<le> 90")
    case True
    show ?thesis
      unfolding inFootprint_def makeWall_coords_plain [OF True e] e1(1)
      using makeWall_fields(1) [OF True, of start len th] centred_interval [OF e(1)] e1(1) by (auto simp: abs_le_iff)
  next
    case False
    then have t: "90 < py_fmod d 180" by simp
    show ?thesis
      unfolding inFootprint_def makeWall_coords_turned [OF t e] e1(2)
      using makeWall_fields(2) [OF t, of start len th] centred_interval [OF e(1)] e1 by (auto simp: abs_le_iff)
  qed
qed

lemma makeWall_yaw: "0 \<le> o_r (makeWall start d len th) \<and> o_r (makeWall start d len th) \<le> 90"
  using py_fmod_bounds [of 180 d] by (simp add: makeWall_def Let_def)

lemma makeWall_box_ok: "0 \<le> len \<Longrightarrow> 0 \<le> th \<Longrightarrow> box_ok (makeWall start d len th)"
  by (simp add: makeWall_def Let_def box_ok_def)

section \<open>Decoded walls\<close>

lemma cos_sin_atan2:
  assumes "ax\<^sup>2 + ay\<^sup>2 = 1"
  shows "cos (py_atan2 ay ax) = ax" and "sin (py_atan2 ay ax) = ay"
proof -
  let ?z = "Complex ax ay"
  have n: "cmod ?z = 1" using assms by (simp add: cmod_def)
  then have "?z \<noteq> 0" by force
  then have "cis (Arg ?z) = ?z" using n by (simp add: cis_Arg sgn_div_norm)
  then show "cos (py_atan2 ay ax) = ax" "sin (py_atan2 ay ax) = ay"
    by (simp_all add: py_atan2_def complex_eq_iff)
qed

lemma tiltedAxis_unit:
  assumes "seg_ok s" and "side = 1 \<or> side = -1"
  obtains ax ay where "tiltedAxis s side deg = Inr (ax, ay)" and "ax\<^sup>2 + ay\<^sup>2 = 1"
proof -
  obtain ux uy where d: "direction s = Inr (ux, uy)" "sideNormal s = Inr (uy, - ux)" "ux\<^sup>2 + uy\<^sup>2 = 1"
    using direction_unit [OF assms(1)] .
  let ?c = "cos (radians deg)" and ?s = "of_int side * sin (radians deg)"
  have "?s\<^sup>2 = (sin (radians deg))\<^sup>2" using assms(2) by auto
  then have "?c\<^sup>2 + ?s\<^sup>2 = 1" by simp
  moreover have "(?c * ux + ?s * uy)\<^sup>2 + (?c * uy + ?s * - ux)\<^sup>2 = (?c\<^sup>2 + ?s\<^sup>2) * (ux\<^sup>2 + uy\<^sup>2)"
    by (simp add: power2_eq_square algebra_simps)
  ultimately have "(?c * ux + ?s * uy)\<^sup>2 + (?c * uy + ?s * - ux)\<^sup>2 = 1" using d(3) by simp
  moreover have "tiltedAxis s side deg = Inr (?c * ux + ?s * uy, ?c * uy + ?s * - ux)"
    using d by (simp add: tiltedAxis_def Let_def)
  ultimately show ?thesis using that by blast
qed

definition genes_side_ok :: "Genes \<Rightarrow> bool" where
  "genes_side_ok g \<longleftrightarrow> g_side g = 1 \<or> g_side g = -1"

lemma decodeWall_footprint:
  assumes "seg_ok s" and "genes_side_ok g"
  obtains ax ay ob where "tiltedAxis s (g_side g) (g_crossingDeg g) = Inr (ax, ay)" and "ax\<^sup>2 + ay\<^sup>2 = 1"
    and "decodeWall g s = Inr ob" and "0 \<le> o_r ob" and "o_r ob \<le> 90" and "o_z ob = 0"
    and "\<And>p. inFootprint 0 ob p \<longleftrightarrow>
      g_overhang g - g_length g \<le> alongWall (pointAt s (g_t g)) ax ay p \<and>
      alongWall (pointAt s (g_t g)) ax ay p \<le> g_overhang g \<and>
      \<bar>acrossWall (pointAt s (g_t g)) ax ay p\<bar> \<le> WALL_THICKNESS_M / 2"
proof -
  obtain ax ay where a: "tiltedAxis s (g_side g) (g_crossingDeg g) = Inr (ax, ay)" "ax\<^sup>2 + ay\<^sup>2 = 1"
    using tiltedAxis_unit [OF assms(1) assms(2) [unfolded genes_side_ok_def]] .
  let ?q = "pointAt s (g_t g)" and ?b = "g_length g - g_overhang g"
  let ?start = "(fst ?q - ?b * ax, snd ?q - ?b * ay)"
  define ob where "ob = makeWall ?start (degrees (py_atan2 ay ax)) (g_length g) WALL_THICKNESS_M"
  have dec: "decodeWall g s = Inr ob"
    using a by (simp add: decodeWall_def Let_def ob_def split: prod.splits)
  have "alongWall ?start ax ay p = alongWall ?q ax ay p + ?b * (ax\<^sup>2 + ay\<^sup>2)" for p
    by (simp add: alongWall_def power2_eq_square algebra_simps)
  moreover have "acrossWall ?start ax ay p = acrossWall ?q ax ay p" for p
    by (simp add: acrossWall_def algebra_simps)
  ultimately have fp: "inFootprint 0 ob p \<longleftrightarrow> g_overhang g - g_length g \<le> alongWall ?q ax ay p \<and>
      alongWall ?q ax ay p \<le> g_overhang g \<and> \<bar>acrossWall ?q ax ay p\<bar> \<le> WALL_THICKNESS_M / 2" for p
    using a(2) by (auto simp: ob_def makeWall_footprint cos_sin_atan2 [OF a(2)])
  have "0 \<le> o_r ob" "o_r ob \<le> 90" "o_z ob = 0"
    using makeWall_yaw by (simp_all add: ob_def) (simp add: makeWall_def Let_def)
  then show ?thesis using that a dec fp by blast
qed

lemma alongWall_self [simp]: "alongWall q ax ay q = 0" "acrossWall q ax ay q = 0"
  by (simp_all add: alongWall_def acrossWall_def)

section \<open>The gate\<close>

lemma bisect_bracket:
  assumes "bisect n below lo hi = (lo', hi')" and "lo \<le> hi"
  shows "lo \<le> lo' \<and> lo' \<le> hi' \<and> hi' \<le> hi \<and> hi' - lo' = (hi - lo) / 2 ^ n \<and>
    (below lo \<longrightarrow> below lo') \<and> (\<not> below hi \<longrightarrow> \<not> below hi')"
  using assms
proof (induction n below lo hi rule: bisect.induct)
  case (2 n below lo hi)
  let ?mid = "1/2 * (lo + hi)"
  have mid: "lo \<le> ?mid" "?mid \<le> hi" "?mid - lo = (hi - lo) / 2" "hi - ?mid = (hi - lo) / 2"
    using "2.prems"(2) by (simp_all add: field_simps)
  show ?case
  proof (cases "below ?mid")
    case True
    then have "bisect n below ?mid hi = (lo', hi')" using "2.prems"(1) by (simp add: Let_def)
    note IH = "2.IH"(1) [OF refl True this mid(2), unfolded mid(4)]
    then have "?mid \<le> lo'" "hi' - lo' = (hi - lo) / 2 / 2 ^ n" by blast+
    then have "lo \<le> lo'" "hi' - lo' = (hi - lo) / 2 ^ Suc n" using mid(1) by (linarith, simp)
    then show ?thesis using IH True by blast
  next
    case False
    then have "bisect n below lo ?mid = (lo', hi')" using "2.prems"(1) by (simp add: Let_def)
    note IH = "2.IH"(2) [OF refl False this mid(1), unfolded mid(3)]
    then have "hi' \<le> ?mid" "hi' - lo' = (hi - lo) / 2 / 2 ^ n" by blast+
    then have "hi' \<le> hi" "hi' - lo' = (hi - lo) / 2 ^ Suc n" using mid(2) by (linarith, simp)
    then show ?thesis using IH False by blast
  qed
qed simp

lemma decodeGate_solved:
  assumes "seg_ok s" and "genes_side_ok g"
  obtains wall blocker lo hi where "decodeWall g s = Inr wall"
    and "decodeGate g s = Inr [wall, blocker (1/2 * (lo + hi))]"
    and "0 \<le> lo" and "lo \<le> hi" and "hi \<le> 30" and "hi - lo = 30 / 2 ^ 40"
    and "footprintGap wall (blocker 0) < g_gateWidth g \<longrightarrow> footprintGap wall (blocker lo) < g_gateWidth g"
    and "g_gateWidth g \<le> footprintGap wall (blocker 30) \<longrightarrow> g_gateWidth g \<le> footprintGap wall (blocker hi)"
    and "\<exists>tip u n d. blocker = blockerAt g tip u n d"
proof -
  obtain wall where wall: "decodeWall g s = Inr wall" using decodeWall_footprint [OF assms] by blast
  obtain ax ay where a: "tiltedAxis s (g_side g) (g_crossingDeg g) = Inr (ax, ay)"
    using tiltedAxis_unit [OF assms(1) assms(2) [unfolded genes_side_ok_def]] .
  have "- g_side g = 1 \<or> - g_side g = -1" using assms(2) by (auto simp: genes_side_ok_def)
  then obtain bx by' where b: "tiltedAxis s (- g_side g) GATE_BLOCKER_DEG = Inr (bx, by')"
    using tiltedAxis_unit [OF assms(1)] by metis
  obtain ux uy where d: "direction s = Inr (ux, uy)" "sideNormal s = Inr (uy, - ux)"
    using direction_unit [OF assms(1)] by blast
  let ?q = "pointAt s (g_t g)"
  define blocker where "blocker = blockerAt g (fst ?q + g_overhang g * ax, snd ?q + g_overhang g * ay)
      (ux, uy) (uy, - ux) (degrees (py_atan2 (- by') (- bx)))"
  let ?below = "\<lambda>mid. footprintGap wall (blocker mid) < g_gateWidth g"
  obtain lo hi where bs: "bisect GATE_SOLVE_STEPS ?below 0 GATE_OFFSET_MAX_M = (lo, hi)" by fastforce
  have "decodeGate g s = Inr [wall, blocker (1/2 * (lo + hi))]"
    using wall a b d bs by (simp add: decodeGate_def Let_def blocker_def case_prod_beta)
  moreover have "0 \<le> lo \<and> lo \<le> hi \<and> hi \<le> 30 \<and> hi - lo = 30 / 2 ^ 40 \<and> (?below 0 \<longrightarrow> ?below lo) \<and>
      (\<not> ?below 30 \<longrightarrow> \<not> ?below hi)"
    using bisect_bracket [OF bs] by (simp add: GATE_OFFSET_MAX_M_def GATE_SOLVE_STEPS_def)
  moreover have "\<exists>tip u n d. blocker = blockerAt g tip u n d" unfolding blocker_def by blast
  ultimately show ?thesis using that [OF wall] by (simp add: not_less)
qed

section \<open>Layouts\<close>

definition gene_count :: "Genes \<Rightarrow> nat" where
  "gene_count g = (case g_kind g of KIND_WALL \<Rightarrow> 1 | KIND_GATE \<Rightarrow> 2)"

lemma segmentByIndex_mem: "segmentByIndex ss i = Inr s \<Longrightarrow> s \<in> set ss \<and> seg_index s = i"
  by (induction ss) (auto split: if_splits)

lemma segmentByIndex_total: "i \<in> seg_index ` set ss \<Longrightarrow> \<exists>s. segmentByIndex ss i = Inr s"
  by (induction ss) auto

lemma decodeGate_length: "decodeGate g s = Inr obs \<Longrightarrow> length obs = 2"
  by (auto simp: decodeGate_def Let_def case_prod_beta elim!: bindE_InrE)

lemma decode_length: "decode g ss = Inr obs \<Longrightarrow> length obs = gene_count g"
  by (auto simp: decode_def gene_count_def decodeGate_length
      split: kind.splits if_splits elim!: bindE_InrE)

lemma decode_total:
  assumes "\<forall>s \<in> set ss. seg_ok s" and "g_segment g \<in> seg_index ` set ss" and "genes_side_ok g"
  shows "\<exists>obs. decode g ss = Inr obs"
proof -
  obtain s where s: "segmentByIndex ss (g_segment g) = Inr s" using segmentByIndex_total assms(2) by blast
  then have ok: "seg_ok s" using segmentByIndex_mem assms(1) by blast
  obtain wall where "decodeWall g s = Inr wall" using decodeWall_footprint [OF ok assms(3)] by blast
  moreover obtain obs where "decodeGate g s = Inr obs" using decodeGate_solved [OF ok assms(3)] by blast
  ultimately show ?thesis using s by (simp add: decode_def)
qed

definition layout_legal :: "Bounds \<Rightarrow> Obstacle list \<Rightarrow> bool" where
  "layout_legal bounds obs \<longleftrightarrow> fitsInBounds bounds obs \<and> \<not> hasOverlap obs"

lemma layoutProblem_None_iff:
  "layoutProblem b obs ss own strict = None \<longleftrightarrow>
     layout_legal b obs \<and> (strict \<longrightarrow> \<not> crossesOtherSegment obs ss own)"
  by (simp add: layoutProblem_def layout_legal_def)

section \<open>Properties\<close>

text \<open>
  \<open>makeWall\<close> builds the requested box: for every axis angle, the footprint is exactly the strip of
  the given length and thickness that begins at the start point and runs along the axis, although
  the box is stored with a yaw between 0 and 90 degrees and its sides swapped when needed.
\<close>

theorem makeWall_correct:
  "0 \<le> o_r (makeWall start d len th) \<and> o_r (makeWall start d len th) \<le> 90 \<and>
   (inFootprint 0 (makeWall start d len th) p \<longleftrightarrow>
     0 \<le> alongWall start (cos (radians d)) (sin (radians d)) p \<and>
     alongWall start (cos (radians d)) (sin (radians d)) p \<le> len \<and>
     \<bar>acrossWall start (cos (radians d)) (sin (radians d)) p\<bar> \<le> th / 2)"
  using makeWall_yaw makeWall_footprint by blast

text \<open>
  A decoded wall crosses the attacked segment where its genes say: decoding succeeds on every
  segment of positive length, the crossing point at fraction \<open>t\<close> is covered by the wall, and along
  the tilted axis the wall reaches exactly \<open>overhang\<close> past that point and \<open>length - overhang\<close>
  before it.
\<close>

theorem decodeWall_crosses:
  assumes "seg_ok s" and "genes_side_ok g" and "0 \<le> g_overhang g" and "g_overhang g \<le> g_length g"
  shows "\<exists>ax ay ob. tiltedAxis s (g_side g) (g_crossingDeg g) = Inr (ax, ay) \<and> ax\<^sup>2 + ay\<^sup>2 = 1 \<and>
    decodeWall g s = Inr ob \<and> inFootprint 0 ob (pointAt s (g_t g)) \<and>
    (\<forall>v. inFootprint 0 ob (fst (pointAt s (g_t g)) + v * ax, snd (pointAt s (g_t g)) + v * ay) \<longleftrightarrow>
      g_overhang g - g_length g \<le> v \<and> v \<le> g_overhang g)"
proof -
  let ?q = "pointAt s (g_t g)"
  obtain ax ay ob where a: "tiltedAxis s (g_side g) (g_crossingDeg g) = Inr (ax, ay)" "ax\<^sup>2 + ay\<^sup>2 = 1"
    "decodeWall g s = Inr ob" and fp: "\<And>p. inFootprint 0 ob p \<longleftrightarrow>
      g_overhang g - g_length g \<le> alongWall ?q ax ay p \<and> alongWall ?q ax ay p \<le> g_overhang g \<and>
      \<bar>acrossWall ?q ax ay p\<bar> \<le> WALL_THICKNESS_M / 2"
    using decodeWall_footprint [OF assms(1,2)] by metis
  have "alongWall ?q ax ay (fst ?q + v * ax, snd ?q + v * ay) = v * (ax\<^sup>2 + ay\<^sup>2)"
    "acrossWall ?q ax ay (fst ?q + v * ax, snd ?q + v * ay) = 0" for v
    by (simp_all add: alongWall_def acrossWall_def power2_eq_square algebra_simps)
  then have "inFootprint 0 ob (fst ?q + v * ax, snd ?q + v * ay) \<longleftrightarrow>
      g_overhang g - g_length g \<le> v \<and> v \<le> g_overhang g" for v
    using a(2) by (simp add: fp WALL_THICKNESS_M_def)
  moreover have "inFootprint 0 ob ?q" using assms(3,4) by (simp add: fp WALL_THICKNESS_M_def)
  ultimately show ?thesis using a by blast
qed

definition sampleSegment :: Segment where
  "sampleSegment = \<lparr>seg_index = 1, seg_a = (0, 0), seg_b = (40, 0)\<rparr>"

lemma sampleSegment_ok: "seg_ok sampleSegment"
  by (simp add: seg_ok_def segLength_def sampleSegment_def pdist_def)

theorem decodeWall_crosses_witness:
  "\<exists>ax ay ob. tiltedAxis sampleSegment (g_side (sampleGenes (1/2))) (g_crossingDeg (sampleGenes (1/2))) = Inr (ax, ay) \<and>
    ax\<^sup>2 + ay\<^sup>2 = 1 \<and> decodeWall (sampleGenes (1/2)) sampleSegment = Inr ob \<and>
    inFootprint 0 ob (pointAt sampleSegment (g_t (sampleGenes (1/2)))) \<and>
    (\<forall>v. inFootprint 0 ob (fst (pointAt sampleSegment (g_t (sampleGenes (1/2)))) + v * ax,
        snd (pointAt sampleSegment (g_t (sampleGenes (1/2)))) + v * ay) \<longleftrightarrow>
      g_overhang (sampleGenes (1/2)) - g_length (sampleGenes (1/2)) \<le> v \<and> v \<le> g_overhang (sampleGenes (1/2)))"
  by (rule decodeWall_crosses) (simp_all add: sampleSegment_ok genes_side_ok_def sampleGenes_def)



end
