(* ===== verification/Scoring.thy ===== *)
theory Scoring
  imports GA_Prelude
begin

text \<open>
  The two scores of a test (\<open>generator.py\<close>, lines 37 to 281): the official competition score,
  a staircase of distance tiers, and the continuous analogue the search ranks by. The locale
  \<open>tiered_shaping\<close> states what the search relies on (tiers at least one point apart, a shaping
  term that stays in the unit interval outside the best tier); it is interpreted on the code's
  own tiers and shaping term.
\<close>

section \<open>Tiers and shaping\<close>

definition TIER_BOUNDS :: "real list" where
  "TIER_BOUNDS = [1/4, 1, 3/2]"

definition TIER_POINTS :: "int list" where
  "TIER_POINTS = [5, 2, 1, 0]"

definition OFFICIAL_EVALUATION_RUNS :: nat where
  "OFFICIAL_EVALUATION_RUNS = 3"

fun tierLoop :: "real \<Rightarrow> (real \<times> int) list \<Rightarrow> int" where
  "tierLoop d [] = last TIER_POINTS"
| "tierLoop d ((b, p) # rest) = (if d < b then p else tierLoop d rest)"

definition tierPoints :: "real \<Rightarrow> int" where
  "tierPoints d = tierLoop d (zip TIER_BOUNDS (butlast TIER_POINTS))"

definition shapingTerm :: "real \<Rightarrow> real" where
  "shapingTerm d =
     (if d \<ge> TIER_BOUNDS ! 2 then exp (- (d - TIER_BOUNDS ! 2))
      else if d \<ge> TIER_BOUNDS ! 1
        then (TIER_BOUNDS ! 2 - d) / (TIER_BOUNDS ! 2 - TIER_BOUNDS ! 1)
      else if d \<ge> TIER_BOUNDS ! 0
        then (TIER_BOUNDS ! 1 - d) / (TIER_BOUNDS ! 1 - TIER_BOUNDS ! 0)
      else (TIER_BOUNDS ! 0 - d) / TIER_BOUNDS ! 0)"

definition shapedPoints :: "real \<Rightarrow> real \<Rightarrow> real" where
  "shapedPoints d shapeGain = of_int (tierPoints d) + shapeGain * shapingTerm d"

section \<open>Scores\<close>

definition scoreFromPoints :: "real \<Rightarrow> int \<Rightarrow> real list \<Rightarrow> real result" where
  "scoreFromPoints avgPoint obstacleCount flightDurations =
     (if flightDurations = [] then Inr 0
      else if obstacleCount \<le> 0 then Inl ValueError
      else if \<exists>duration \<in> set flightDurations. duration \<le> 0 then Inl ValueError
      else let avgTimeMinutes = fmean flightDurations / 60
           in Inr ((avgPoint * 10) / ((of_int obstacleCount)\<^sup>2 * avgTimeMinutes)))"

definition officialTestScore :: "real list \<Rightarrow> int \<Rightarrow> real list \<Rightarrow> real result" where
  "officialTestScore distances obstacleCount flightDurations =
     (if distances = [] \<or> flightDurations = [] then Inr 0
      else if length distances \<noteq> length flightDurations then Inl ValueError
      else let avgPoint = fmean (map (\<lambda>d. of_int (tierPoints d)) distances)
           in scoreFromPoints avgPoint obstacleCount flightDurations)"

definition searchTestScore ::
    "real list \<Rightarrow> int \<Rightarrow> real list \<Rightarrow> real \<Rightarrow> bool \<Rightarrow> real \<Rightarrow> real result" where
  "searchTestScore distances obstacleCount flightDurations shapeGain stuck incompleteFactor =
     (if distances = [] \<or> flightDurations = [] then Inr 0
      else if length distances \<noteq> length flightDurations then Inl ValueError
      else let avgPoint = fmean (map (\<lambda>d. shapedPoints d shapeGain) distances);
               completionFactor = (if stuck then incompleteFactor else 1)
           in bindE (scoreFromPoints avgPoint obstacleCount flightDurations)
                (\<lambda>s. Inr (s * completionFactor)))"

section \<open>Tier lemmas\<close>

lemmas tier_defs = TIER_BOUNDS_def TIER_POINTS_def

lemma tierPoints_eq:
  "tierPoints d = (if d < 1/4 then 5 else if d < 1 then 2 else if d < 3/2 then 1 else 0)"
  by (simp add: tierPoints_def tier_defs)

lemma shapingTerm_eq:
  "shapingTerm d =
     (if d \<ge> 3/2 then exp (3/2 - d)
      else if d \<ge> 1 then 3 - 2 * d
      else if d \<ge> 1/4 then 4/3 * (1 - d)
      else 1 - 4 * d)"
  by (simp add: shapingTerm_def tier_defs field_simps)

lemma tierPoints_antimono: "d \<le> e \<Longrightarrow> tierPoints e \<le> tierPoints d"
  by (simp add: tierPoints_eq)

lemma tierPoints_range: "tierPoints d \<in> {0, 1, 2, 5}"
  by (simp add: tierPoints_eq)

lemma shapingTerm_nonneg: "0 \<le> shapingTerm d"
  by (simp add: shapingTerm_eq)

lemma shapingTerm_le_1: "0 \<le> d \<Longrightarrow> shapingTerm d \<le> 1"
  by (auto simp: shapingTerm_eq)

lemma shapingTerm_strict:
  assumes "d < e" and "tierPoints d = tierPoints e"
  shows "shapingTerm e < shapingTerm d"
  using assms by (auto simp: shapingTerm_eq tierPoints_eq split: if_splits)

section \<open>The contract of shaping\<close>

locale tiered_shaping =
  fixes points :: "real \<Rightarrow> int"
    and shape :: "real \<Rightarrow> real"
  assumes points_antimono: "d \<le> e \<Longrightarrow> points e \<le> points d"
    and shape_nonneg: "0 \<le> shape d"
    and shape_worse_le_1: "points e < points d \<Longrightarrow> shape e \<le> 1"
    and shape_strict: "d < e \<Longrightarrow> points d = points e \<Longrightarrow> shape e < shape d"
begin

lemma better_tier_wins:
  assumes "0 \<le> g" and "g < 1" and "points e < points d"
  shows "of_int (points e) + g * shape e < of_int (points d) + g * shape d"
proof -
  have "g * shape e \<le> g * 1"
    using assms by (intro mult_left_mono shape_worse_le_1) auto
  moreover have "0 \<le> g * shape d" using assms shape_nonneg by simp
  moreover have "real_of_int (points e) + 1 \<le> of_int (points d)" using assms(3) by linarith
  ultimately show ?thesis using assms(2) by linarith
qed

lemma closer_is_better:
  assumes "0 < g" and "g < 1" and "d < e"
  shows "of_int (points e) + g * shape e < of_int (points d) + g * shape d"
proof (cases "points d = points e")
  case True
  then show ?thesis using assms shape_strict [OF assms(3)] by simp
next
  case False
  then have "points e < points d" using points_antimono [of d e] assms(3) by simp
  then show ?thesis using assms better_tier_wins by simp
qed

end

interpretation tiers: tiered_shaping tierPoints shapingTerm
proof
  fix d e :: real
  show "d \<le> e \<Longrightarrow> tierPoints e \<le> tierPoints d" by (rule tierPoints_antimono)
  show "0 \<le> shapingTerm d" by (rule shapingTerm_nonneg)
  show "tierPoints e < tierPoints d \<Longrightarrow> shapingTerm e \<le> 1"
    by (rule shapingTerm_le_1) (auto simp: tierPoints_eq split: if_splits)
  show "d < e \<Longrightarrow> tierPoints d = tierPoints e \<Longrightarrow> shapingTerm e < shapingTerm d"
    by (rule shapingTerm_strict)
qed

section \<open>Score lemmas\<close>

definition durations_ok :: "real list \<Rightarrow> bool" where
  "durations_ok ds = (\<forall>d \<in> set ds. 0 < d)"

lemma scoreFromPoints_ok:
  assumes "ds \<noteq> []" and "0 < n" and "durations_ok ds"
  shows "scoreFromPoints p n ds = Inr (p * (600 / ((of_int n)\<^sup>2 * fmean ds)))"
  using assms by (fastforce simp: scoreFromPoints_def durations_ok_def Let_def)

lemma score_weight_pos:
  assumes "ds \<noteq> []" and "0 < (n::int)" and "durations_ok ds"
  shows "0 < 600 / ((of_int n)\<^sup>2 * fmean ds)"
  using assms fmean_pos [of ds] by (simp add: durations_ok_def)

text \<open>\<open>scored_runs\<close>: at least one run, each with a positive flight time, on a real layout.\<close>

definition scored_runs :: "real list \<Rightarrow> int \<Rightarrow> real list \<Rightarrow> bool" where
  "scored_runs xs n ds \<longleftrightarrow> xs \<noteq> [] \<and> length xs = length ds \<and> 0 < n \<and> durations_ok ds"

lemma officialTestScore_ok:
  assumes "scored_runs xs n ds"
  shows "officialTestScore xs n ds =
    Inr (fmean (map (\<lambda>d. of_int (tierPoints d)) xs) * (600 / ((of_int n)\<^sup>2 * fmean ds)))"
proof -
  have "ds \<noteq> []" using assms by (auto simp: scored_runs_def)
  then show ?thesis
    using assms scoreFromPoints_ok [of ds n]
    by (simp add: officialTestScore_def scored_runs_def Let_def)
qed

lemma searchTestScore_ok:
  assumes "scored_runs xs n ds"
  shows "searchTestScore xs n ds g stuck f =
    Inr (fmean (map (\<lambda>d. shapedPoints d g) xs) * (600 / ((of_int n)\<^sup>2 * fmean ds)) *
         (if stuck then f else 1))"
proof -
  have "ds \<noteq> []" using assms by (auto simp: scored_runs_def)
  then show ?thesis
    using assms scoreFromPoints_ok [of ds n]
    by (simp add: searchTestScore_def scored_runs_def Let_def)
qed

lemma fmean_add: "length us = length vs \<Longrightarrow>
    fmean (map2 (+) us vs) = fmean us + fmean vs"
proof -
  assume len: "length us = length vs"
  then have "sum_list (map2 (+) us vs) = sum_list us + sum_list vs"
    by (induction us vs rule: list_induct2) auto
  with len show ?thesis by (simp add: fmean_def add_divide_distrib)
qed

lemma fmean_scale: "fmean (map (\<lambda>v. g * f v) vs) = g * fmean (map f vs)"
  by (simp add: fmean_def sum_list_const_mult)

lemma fmean_shapedPoints:
  "fmean (map (\<lambda>d. shapedPoints d g) xs) =
     fmean (map (\<lambda>d. of_int (tierPoints d)) xs) + g * fmean (map shapingTerm xs)"
proof -
  have "map (\<lambda>d. shapedPoints d g) xs =
      map2 (+) (map (\<lambda>d. of_int (tierPoints d)) xs) (map (\<lambda>d. g * shapingTerm d) xs)"
    by (induction xs) (auto simp: shapedPoints_def)
  then show ?thesis by (simp add: fmean_add fmean_scale)
qed

section \<open>Properties\<close>

text \<open>
  Shaping never lets a worse tier win: with a gain below one, a distance in a better tier has
  strictly more shaped points, and inside the whole range a closer approach always has more.
\<close>

theorem shapedPoints_dominates:
  assumes "0 < g" and "g < 1"
  shows "(tierPoints e < tierPoints d \<longrightarrow> shapedPoints e g < shapedPoints d g) \<and>
    (d < e \<longrightarrow> shapedPoints e g < shapedPoints d g)"
  using assms tiers.better_tier_wins [of g e d] tiers.closer_is_better [of g d e]
  by (auto simp: shapedPoints_def)

theorem shapedPoints_dominates_witness:
  "tierPoints 1 < tierPoints (1/2) \<and> shapedPoints 1 (1/4) < shapedPoints (1/2) (1/4)"
  using shapedPoints_dominates [of "1/4" 1 "1/2"] by (simp add: tierPoints_eq)

text \<open>
  C19. The official score: for runs with positive flight times it is computed without error, it is
  never negative, it is at most the best tier's fifty points per squared obstacle and minute, and
  coming closer in every run never lowers it.
\<close>

theorem officialTestScore_sound:
  assumes "scored_runs xs n ds" and "list_all2 (\<le>) ys xs"
  shows "\<exists>s s'. officialTestScore xs n ds = Inr s \<and> officialTestScore ys n ds = Inr s' \<and>
    0 \<le> s \<and> s \<le> s' \<and> s' \<le> 50 / ((of_int n)\<^sup>2 * (fmean ds / 60))"
proof -
  let ?w = "600 / ((of_int n)\<^sup>2 * fmean ds)"
  let ?p = "\<lambda>xs. map (\<lambda>d. real_of_int (tierPoints d)) xs"
  have ys: "scored_runs ys n ds"
    using assms by (auto simp: scored_runs_def dest: list_all2_lengthD)
  have "ds \<noteq> []" "xs \<noteq> []" "ys \<noteq> []"
    using assms(1) ys by (auto simp: scored_runs_def)
  then have w: "0 < ?w" using assms(1) score_weight_pos [of ds n] by (simp add: scored_runs_def)
  have bounds: "0 \<le> fmean (?p vs) \<and> fmean (?p vs) \<le> 5" if "vs \<noteq> []" for vs
    using that by (intro fmean_bounds) (auto simp: tierPoints_eq)
  have "list_all2 (\<le>) (?p xs) (?p ys)"
    using assms(2) by (simp add: list_all2_conv_all_nth tierPoints_antimono)
  then have "fmean (?p xs) \<le> fmean (?p ys)" by (rule fmean_mono)
  then have "0 \<le> fmean (?p xs) * ?w" "fmean (?p xs) * ?w \<le> fmean (?p ys) * ?w"
    "fmean (?p ys) * ?w \<le> 5 * ?w"
    using bounds [OF \<open>xs \<noteq> []\<close>] bounds [OF \<open>ys \<noteq> []\<close>]
    by (intro mult_nonneg_nonneg mult_right_mono less_imp_le [OF w]; simp)+
  moreover have "5 * ?w \<le> 50 / ((of_int n)\<^sup>2 * (fmean ds / 60))" by simp
  ultimately show ?thesis
    using officialTestScore_ok [OF assms(1)] officialTestScore_ok [OF ys] by fastforce
qed

theorem officialTestScore_sound_witness:
  "\<exists>s s'. officialTestScore [2, 1/2] 1 [60, 60] = Inr s \<and>
     officialTestScore [1, 1/5] 1 [60, 60] = Inr s' \<and> 0 \<le> s \<and> s \<le> s' \<and>
     s' \<le> 50 / ((of_int 1)\<^sup>2 * (fmean [60, 60] / 60))"
  by (rule officialTestScore_sound) (simp_all add: scored_runs_def durations_ok_def)

text \<open>
  The search score against the official one: for a completed test it lies between the official
  score and the official score plus the shaping gain's share; for a stuck test the same value is
  scaled by the incompleteness factor.
\<close>

theorem searchTestScore_brackets:
  assumes "scored_runs xs n ds" and "\<forall>d \<in> set xs. 0 \<le> d" and "0 \<le> g"
  shows "\<exists>s t. officialTestScore xs n ds = Inr s \<and>
    searchTestScore xs n ds g False f = Inr t \<and>
    searchTestScore xs n ds g True f = Inr (t * f) \<and>
    s \<le> t \<and> t \<le> s + g * (10 / ((of_int n)\<^sup>2 * (fmean ds / 60)))"
proof -
  let ?w = "600 / ((of_int n)\<^sup>2 * fmean ds)"
  let ?p = "fmean (map (\<lambda>d. real_of_int (tierPoints d)) xs)"
  let ?m = "fmean (map shapingTerm xs)"
  have "ds \<noteq> []" "xs \<noteq> []" using assms(1) by (auto simp: scored_runs_def)
  then have w: "0 < ?w" using assms(1) score_weight_pos [of ds n] by (simp add: scored_runs_def)
  have m: "0 \<le> ?m \<and> ?m \<le> 1"
    using \<open>xs \<noteq> []\<close> assms(2) by (intro fmean_bounds) (auto simp: shapingTerm_nonneg shapingTerm_le_1)
  have "0 \<le> g * ?m" "g * ?m \<le> g" using m assms(3) by (simp_all add: mult_left_le)
  then have "?p * ?w \<le> (?p + g * ?m) * ?w" "(?p + g * ?m) * ?w \<le> (?p + g) * ?w"
    by (intro mult_right_mono less_imp_le [OF w]; simp)+
  moreover have "(?p + g) * ?w = ?p * ?w + g * (10 / ((of_int n)\<^sup>2 * (fmean ds / 60)))"
    by (simp add: distrib_right add_divide_distrib)
  moreover note searchTestScore_ok [OF assms(1), of g _ f, unfolded fmean_shapedPoints]
  ultimately show ?thesis
    using officialTestScore_ok [OF assms(1)] by fastforce
qed

theorem searchTestScore_brackets_witness:
  "\<exists>s t. officialTestScore [1/2] 1 [60] = Inr s \<and>
    searchTestScore [1/2] 1 [60] (1/4) False (1/4) = Inr t \<and>
    searchTestScore [1/2] 1 [60] (1/4) True (1/4) = Inr (t * (1/4)) \<and>
    s \<le> t \<and> t \<le> s + 1/4 * (10 / ((of_int 1)\<^sup>2 * (fmean [60] / 60)))"
  by (rule searchTestScore_brackets) (simp_all add: scored_runs_def durations_ok_def)

end
