(* ===== verification/Individuals.thy ===== *)
theory Individuals
  imports Motifs Scoring
begin

text \<open>
  The data of \<open>generator.py\<close>: the configuration, the individuals and their identity. An
  \<open>Individual\<close> is a mutable object compared by identity (\<open>eq=False\<close>), and the same object sits in the
  population, in the list of evaluated layouts and in a batch of jobs at once; so the objects live
  in a heap, a list indexed by references, and those lists hold references.
\<close>

section \<open>Configuration\<close>

text \<open>The counters of the configuration are natural numbers, as every value the source gives them.\<close>

record GAConfig =
  popSize :: nat
  topK :: nat
  maxRetries :: nat
  seedDraws :: nat
  tournamentK :: nat
  elitePerNiche :: nat
  gateShare :: real
  seedSides :: "int list"
  mutationScale :: real
  mutationDecay :: real
  immigrantShare :: real
  rerunElites :: bool
  evolve :: bool
  relaxSimilarity :: bool
  maxPerFrame :: nat
  keepBestGate :: bool
  shapeGain :: real
  incompleteFactor :: real
  parallelWorkers :: nat
  cfg_xMin :: real
  cfg_xMax :: real
  cfg_yMin :: real
  cfg_yMax :: real
  refineFraction :: real
  refineThreshold :: real
  nReruns :: nat
  failSentinel :: real
  goalTol :: real
  flakeObstacleDistanceM :: real
  maxFlakeRetries :: nat
  timeoutMul :: real
  minTimeout :: real
  maxRunFailures :: nat

text \<open>
  The shipped defaults; \<open>parallelWorkers\<close> is one unless \<open>GA_WORKERS\<close> is set. The seed only selects
  the random generator, which the model takes as an argument.
\<close>

definition defaultConfig :: GAConfig where
  "defaultConfig =
     \<lparr>popSize = 20, topK = 20, maxRetries = 20, seedDraws = 500, tournamentK = 3, elitePerNiche = 1,
      gateShare = 3/10, seedSides = [-1, 1], mutationScale = 1, mutationDecay = 1, immigrantShare = 0,
      rerunElites = False, evolve = True, relaxSimilarity = True, maxPerFrame = 0, keepBestGate = False,
      shapeGain = 1/4, incompleteFactor = 1/4, parallelWorkers = 1,
      cfg_xMin = -40, cfg_xMax = 30, cfg_yMin = 10, cfg_yMax = 40,
      refineFraction = 1/10, refineThreshold = 3/2, nReruns = OFFICIAL_EVALUATION_RUNS - 1,
      failSentinel = 5, goalTol = 5, flakeObstacleDistanceM = 5, maxFlakeRetries = 2,
      timeoutMul = 5/2, minTimeout = 300, maxRunFailures = 2\<rparr>"

definition placementBounds :: "GAConfig \<Rightarrow> Bounds" where
  "placementBounds cfg = (cfg_xMin cfg, cfg_xMax cfg, cfg_yMin cfg, cfg_yMax cfg)"

definition invalidLayout :: "GAConfig \<Rightarrow> Obstacle list \<Rightarrow> bool" where
  "invalidLayout cfg obstacles = (layoutProblem (placementBounds cfg) obstacles [] None False \<noteq> None)"

lemma invalidLayout_iff: "invalidLayout cfg obs \<longleftrightarrow> \<not> layout_legal (placementBounds cfg) obs"
  by (auto simp: invalidLayout_def layoutProblem_def layout_legal_def)

section \<open>Trajectories\<close>

text \<open>
  Aerialist's trajectory, as far as the source reads it: the positions, or \<open>None\<close> where the
  trajectory is \<open>None\<close> or has no such attribute.
\<close>

record pos =
  p_x :: real
  p_y :: real
  p_timestamp :: real

type_synonym trajectory = "pos list option"

section \<open>Individuals\<close>

text \<open>\<open>ind_testCase\<close> is the number of the simulator run the stored test case belongs to.\<close>

record Individual =
  ind_obstacles :: "Obstacle list"
  ind_genes :: "Genes option"
  ind_fitness :: pyfloat
  ind_officialScore :: real
  ind_testCase :: "nat option"
  ind_valid :: bool
  ind_distances :: "real list"
  ind_flightDurations :: "real list"
  ind_trajectories :: "trajectory list"
  ind_stuck :: bool
  ind_illegal :: bool
  ind_duration :: real
  ind_generation :: nat
  ind_attempts :: nat

definition newIndividual :: "Obstacle list \<Rightarrow> Genes option \<Rightarrow> bool \<Rightarrow> Individual" where
  "newIndividual obstacles genes illegal =
     \<lparr>ind_obstacles = obstacles, ind_genes = genes, ind_fitness = Inf, ind_officialScore = 0,
      ind_testCase = None, ind_valid = False, ind_distances = [], ind_flightDurations = [],
      ind_trajectories = [], ind_stuck = False, ind_illegal = illegal, ind_duration = 0,
      ind_generation = 0, ind_attempts = 0\<rparr>"

datatype AttemptOutcome = SKIPPED | CONSUMED | FLAKE

definition nicheOf :: "Individual \<Rightarrow> nat" where
  "nicheOf ind = length (ind_obstacles ind)"

definition meanOrInf :: "real list \<Rightarrow> pyfloat" where
  "meanOrInf vs = (if vs = [] then Inf else Fin (fmean vs))"

definition searchSelectionKey :: "Individual \<Rightarrow> pyfloat \<times> nat \<times> pyfloat \<times> pyfloat" where
  "searchSelectionKey ind =
     (let meanDistance = meanOrInf (ind_distances ind);
          meanDuration = meanOrInf (ind_flightDurations ind)
      in (ind_fitness ind, length (ind_obstacles ind), meanDistance, meanDuration))"

section \<open>The heap\<close>

type_synonym ref = nat
type_synonym heap = "Individual list"

definition refs_ok :: "heap \<Rightarrow> ref list \<Rightarrow> bool" where
  "refs_ok h rs \<longleftrightarrow> (\<forall>r \<in> set rs. r < length h)"

definition heap_upd :: "heap \<Rightarrow> ref \<Rightarrow> (Individual \<Rightarrow> Individual) \<Rightarrow> heap" where
  "heap_upd h r f = h[r := f (h ! r)]"

lemma refs_ok_simps [simp]:
  "refs_ok h []"
  "refs_ok h (r # rs) \<longleftrightarrow> r < length h \<and> refs_ok h rs"
  "refs_ok h (rs @ ss) \<longleftrightarrow> refs_ok h rs \<and> refs_ok h ss"
  by (auto simp: refs_ok_def)

lemma refs_ok_mono: "refs_ok h rs \<Longrightarrow> length h \<le> length h' \<Longrightarrow> refs_ok h' rs"
  by (auto simp: refs_ok_def)

lemma refs_ok_subset: "refs_ok h rs \<Longrightarrow> set ss \<subseteq> set rs \<Longrightarrow> refs_ok h ss"
  by (auto simp: refs_ok_def)

lemma length_heap_upd [simp]: "length (heap_upd h r f) = length h"
  by (simp add: heap_upd_def)

lemma heap_upd_nth: "s < length h \<Longrightarrow> heap_upd h r f ! s = (if s = r then f (h ! r) else h ! s)"
  by (auto simp: heap_upd_def nth_list_update)

end
