(* ===== verification/Breeding.thy ===== *)
theory Breeding
  imports Individuals
begin

text \<open>
  Breeding, from \<open>generator.py\<close>: the obstacle-count schedule, fresh seeds, children, tournaments and
  the next generation. New individuals are appended to the heap, so that the elites carried over keep
  their identity; every draw threads the random generator, in the order the source draws.
\<close>

section \<open>Operations\<close>

definition obstacleCountSchedule :: "nat \<Rightarrow> real \<Rightarrow> nat list" where
  "obstacleCountSchedule n share =
     (let gates = py_round (real n * share)
      in map (\<lambda>k. if (int k + 1) * gates div int n > int k * gates div int n then 2 else 1) [0..<n])"

definition mutationScaleAt :: "GAConfig \<Rightarrow> nat \<Rightarrow> real" where
  "mutationScaleAt cfg gen = max (1/4) (mutationScale cfg * mutationDecay cfg ^ (gen - 1))"

definition buildIndividual :: "GAConfig \<Rightarrow> Genes \<Rightarrow> Segment list \<Rightarrow> bool \<Rightarrow> Individual option result" where
  "buildIndividual cfg genes segments strict =
     bindE (decode genes segments) (\<lambda>obstacles.
       if layoutProblem (placementBounds cfg) obstacles segments (Some (g_segment genes)) strict \<noteq> None
       then Inr None
       else Inr (Some (newIndividual obstacles (Some genes) False)))"

text \<open>One pass of the seeding loop, with the genes drawn last.\<close>

fun drawSeed ::
    "GAConfig \<Rightarrow> Segment list \<Rightarrow> nat list \<Rightarrow> kind \<Rightarrow> bool \<Rightarrow> nat \<Rightarrow> Genes option \<Rightarrow> rng \<Rightarrow>
     (Individual option \<times> Genes option \<times> rng) result" where
  "drawSeed cfg segments choices k strict 0 drawn r = Inr (None, drawn, r)"
| "drawSeed cfg segments choices k strict (Suc n) drawn r =
     bindE (randomGenes r k choices (seedSides cfg)) (\<lambda>(genes, r1).
     bindE (buildIndividual cfg genes segments strict) (\<lambda>found.
       case found of
         Some ind \<Rightarrow> Inr (Some ind, Some genes, r1)
       | None \<Rightarrow> drawSeed cfg segments choices k strict n (Some genes) r1))"

definition freshIndividual ::
    "rng \<Rightarrow> GAConfig \<Rightarrow> Segment list \<Rightarrow> nat list \<Rightarrow> nat \<Rightarrow> (Individual \<times> rng) result" where
  "freshIndividual r cfg segments segmentChoices n =
     bindE (KIND_BY_COUNT n) (\<lambda>k.
     bindE (drawSeed cfg segments segmentChoices k True (seedDraws cfg) None r) (\<lambda>(found, drawn, r1).
       case found of
         Some ind \<Rightarrow> Inr (ind, r1)
       | None \<Rightarrow>
           bindE (drawSeed cfg segments segmentChoices k False (seedDraws cfg) drawn r1) (\<lambda>(found2, drawn2, r2).
             case found2 of
               Some ind \<Rightarrow> Inr (ind, r2)
             | None \<Rightarrow>
                 (case drawn2 of
                    None \<Rightarrow> Inl UnboundLocalError
                  | Some genes \<Rightarrow>
                      bindE (decode genes segments) (\<lambda>obstacles.
                        Inr (newIndividual obstacles (Some genes) True, r2))))))"

definition childOf ::
    "rng \<Rightarrow> GAConfig \<Rightarrow> Segment list \<Rightarrow> Individual \<Rightarrow> Individual \<Rightarrow> real \<Rightarrow> (Individual option \<times> rng) result" where
  "childOf r cfg segments a b scale =
     (case (ind_genes a, ind_genes b) of
        (Some ga, Some gb) \<Rightarrow>
          (let (mixed, r1) = crossoverGenes r ga gb
           in bindE (mutateGenes r1 mixed scale) (\<lambda>(genes, r2).
              bindE (buildIndividual cfg genes segments True) (\<lambda>found. Inr (found, r2))))
      | _ \<Rightarrow> Inl AttributeError)"

definition tournament ::
    "rng \<Rightarrow> GAConfig \<Rightarrow> heap \<Rightarrow> ref list \<Rightarrow> nat option \<Rightarrow> (ref \<times> rng) result" where
  "tournament r cfg h pop niche =
     (let pool0 = filter (\<lambda>i. (niche = None \<or> Some (nicheOf (h ! i)) = niche) \<and> \<not> ind_illegal (h ! i)) pop;
          pool = (if pool0 = [] then pop else pool0)
      in bindE (py_sample pool (min (tournamentK cfg) (length pool)) r) (\<lambda>(contenders, r1).
         bindE (py_min_by (\<lambda>i. searchSelectionKey (h ! i)) contenders) (\<lambda>best.
           Inr (best, r1))))"

text \<open>The breeding loop of \<open>nicheChild\<close>: up to \<open>maxRetries\<close> children of two tournament winners.\<close>

fun breedLoop ::
    "nat \<Rightarrow> rng \<Rightarrow> GAConfig \<Rightarrow> heap \<Rightarrow> ref list \<Rightarrow> nat \<Rightarrow> Segment list \<Rightarrow> real \<Rightarrow> (Individual option \<times> rng) result" where
  "breedLoop 0 r cfg h pop niche segments scale = Inr (None, r)"
| "breedLoop (Suc n) r cfg h pop niche segments scale =
     bindE (tournament r cfg h pop (Some niche)) (\<lambda>(a, r1).
     bindE (tournament r1 cfg h pop (Some niche)) (\<lambda>(b, r2).
     bindE (childOf r2 cfg segments (h ! a) (h ! b) scale) (\<lambda>(child, r3).
       case child of
         Some ind \<Rightarrow> Inr (Some ind, r3)
       | None \<Rightarrow> breedLoop n r3 cfg h pop niche segments scale)))"

definition nicheChild ::
    "rng \<Rightarrow> GAConfig \<Rightarrow> heap \<Rightarrow> ref list \<Rightarrow> nat \<Rightarrow> Segment list \<Rightarrow> nat list \<Rightarrow> real \<Rightarrow> (Individual \<times> rng) result" where
  "nicheChild r cfg h pop niche segments segmentChoices scale =
     bindE (if \<exists>i \<in> set pop. nicheOf (h ! i) = niche \<and> \<not> ind_illegal (h ! i)
            then breedLoop (maxRetries cfg) r cfg h pop niche segments scale
            else Inr (None, r)) (\<lambda>(child, r1).
       case child of
         Some ind \<Rightarrow> Inr (ind, r1)
       | None \<Rightarrow> freshIndividual r1 cfg segments segmentChoices niche)"

text \<open>The filling loop of \<open>nicheGeneration\<close>; the first argument is the number of slots still free.\<close>

fun fillNiche ::
    "nat \<Rightarrow> rng \<Rightarrow> GAConfig \<Rightarrow> ref list \<Rightarrow> nat \<Rightarrow> nat \<Rightarrow> int \<Rightarrow> Segment list \<Rightarrow> nat list \<Rightarrow> real \<Rightarrow> ref list \<Rightarrow> heap \<Rightarrow>
     (ref list \<times> heap \<times> rng) result" where
  "fillNiche 0 r cfg pop niche quota immigrants segments segmentChoices scale children h = Inr (children, h, r)"
| "fillNiche (Suc n) r cfg pop niche quota immigrants segments segmentChoices scale children h =
     bindE (if int (length children) \<ge> int quota - immigrants
            then freshIndividual r cfg segments segmentChoices niche
            else nicheChild r cfg h pop niche segments segmentChoices scale) (\<lambda>(ind, r1).
       fillNiche n r1 cfg pop niche quota immigrants segments segmentChoices scale
         (children @ [length h]) (h @ [ind]))"

definition nicheGeneration ::
    "rng \<Rightarrow> GAConfig \<Rightarrow> heap \<Rightarrow> ref list \<Rightarrow> nat \<Rightarrow> nat \<Rightarrow> Segment list \<Rightarrow> nat list \<Rightarrow> real \<Rightarrow>
     (ref list \<times> heap \<times> rng) result" where
  "nicheGeneration r cfg h pop niche quota segments segmentChoices scale =
     (let pool = filter (\<lambda>i. nicheOf (h ! i) = niche) pop;
          eliteCount = min (elitePerNiche cfg) (min (length pool) (quota - 1));
          children = take eliteCount (sort_key (\<lambda>i. searchSelectionKey (h ! i)) pool);
          immigrants = py_round (immigrantShare cfg * (real quota - real eliteCount))
      in fillNiche (quota - length children) r cfg pop niche quota immigrants segments segmentChoices scale children h)"

text \<open>
  The comprehension over \<open>set(counts)\<close>, whose few small integers come in ascending order, and the
  one that pops the queues in schedule order.
\<close>

fun nicheQueues ::
    "nat list \<Rightarrow> rng \<Rightarrow> GAConfig \<Rightarrow> heap \<Rightarrow> ref list \<Rightarrow> nat list \<Rightarrow> Segment list \<Rightarrow> nat list \<Rightarrow> real \<Rightarrow>
     ((nat \<Rightarrow> ref list) \<times> heap \<times> rng) result" where
  "nicheQueues [] r cfg h pop counts segments segmentChoices scale = Inr (\<lambda>_. [], h, r)"
| "nicheQueues (niche # niches) r cfg h pop counts segments segmentChoices scale =
     bindE (nicheGeneration r cfg h pop niche (count_list counts niche) segments segmentChoices scale)
       (\<lambda>(queue, h1, r1).
     bindE (nicheQueues niches r1 cfg h1 pop counts segments segmentChoices scale) (\<lambda>(queues, h2, r2).
       Inr (queues(niche := queue), h2, r2)))"

fun popQueues :: "nat list \<Rightarrow> (nat \<Rightarrow> ref list) \<Rightarrow> ref list result" where
  "popQueues [] queues = Inr []"
| "popQueues (niche # counts) queues =
     (case queues niche of
        [] \<Rightarrow> Inl IndexError
      | i # rest \<Rightarrow> bindE (popQueues counts (queues(niche := rest))) (\<lambda>is. Inr (i # is)))"

definition nextGeneration ::
    "rng \<Rightarrow> GAConfig \<Rightarrow> heap \<Rightarrow> ref list \<Rightarrow> Segment list \<Rightarrow> nat list \<Rightarrow> real \<Rightarrow> (ref list \<times> heap \<times> rng) result" where
  "nextGeneration r cfg h pop segments segmentChoices scale =
     (let counts = obstacleCountSchedule (popSize cfg) (gateShare cfg)
      in bindE (nicheQueues (sorted_list_of_set (set counts)) r cfg h pop counts segments segmentChoices scale)
           (\<lambda>(queues, h1, r1).
         bindE (popQueues counts queues) (\<lambda>pop1. Inr (pop1, h1, r1))))"


section \<open>The schedule\<close>

lemma schedule_length [simp]: "length (obstacleCountSchedule n share) = n"
  by (simp add: obstacleCountSchedule_def Let_def)

lemma schedule_set: "set (obstacleCountSchedule n share) \<subseteq> {1, 2}"
  by (auto simp: obstacleCountSchedule_def Let_def)

text \<open>A telescoping sum: the quotients grow by nought or one at each step and by \<open>g\<close> in all.\<close>

lemma staircase_count:
  fixes g :: int
  assumes "0 \<le> g" and "g \<le> int n"
  shows "int (length (filter (\<lambda>k. (int k + 1) * g div int n > int k * g div int n) [0..<m])) = int m * g div int n"
proof (induction m)
  case (Suc m)
  let ?q = "\<lambda>k. k * g div int n"
  have "?q (int m) \<le> ?q (int m + 1)"
    using assms by (cases "n = 0") (auto intro!: zdiv_mono1 mult_right_mono)
  moreover have "?q (int m + 1) \<le> ?q (int m) + 1"
  proof (cases "n = 0")
    case False
    have "(int m + 1) * g \<le> int m * g + int n" using assms(2) by (simp add: algebra_simps)
    then have "?q (int m + 1) \<le> (int m * g + int n) div int n" using False by (intro zdiv_mono1) auto
    then show ?thesis using False by simp
  qed simp
  ultimately have "(if ?q (int m + 1) > ?q (int m) then 1 else 0) + ?q (int m) = ?q (int m + 1)" by auto
  moreover have "int (length (filter P [0..<Suc m])) = (if P m then 1 else 0) + int (length (filter P [0..<m]))"
    for P :: "nat \<Rightarrow> bool" by simp
  moreover have "int (Suc m) = int m + 1" by simp
  ultimately show ?case using Suc by (simp only:)
qed simp

lemma count_list_map: "count_list (map f xs) y = length (filter (\<lambda>x. f x = y) xs)"
  by (induction xs) auto

lemma schedule_gates:
  assumes "0 \<le> share" and "share \<le> 1"
  shows "int (count_list (obstacleCountSchedule n share) 2) = py_round (real n * share)"
proof -
  let ?g = "py_round (real n * share)"
  have "real n * share \<le> real n" using assms mult_left_le [of share "real n"] by simp
  then have g: "0 \<le> ?g" "?g \<le> int n"
    using py_round_mono_bounds [of 0 "real n * share" "int n"] assms(1) by simp_all
  have "count_list (obstacleCountSchedule n share) 2 =
      length (filter (\<lambda>k. (int k + 1) * ?g div int n > int k * ?g div int n) [0..<n])"
    unfolding obstacleCountSchedule_def Let_def count_list_map by (intro arg_cong [where f = length] filter_cong) simp_all
  then show ?thesis using staircase_count [OF g, of n] g by (cases "n = 0") simp_all
qed

section \<open>Seeds\<close>

text \<open>
  The setting the generator is built with: usable segments, at least one of them to seed on, sides
  \<open>+1\<close> and \<open>-1\<close> only, at least one draw and one contender, and a share between nought and one.
\<close>

definition setting_ok :: "GAConfig \<Rightarrow> Segment list \<Rightarrow> nat list \<Rightarrow> bool" where
  "setting_ok cfg segments choices \<longleftrightarrow>
     (\<forall>s \<in> set segments. seg_ok s) \<and> choices \<noteq> [] \<and> set choices \<subseteq> seg_index ` set segments \<and>
     seedSides cfg \<noteq> [] \<and> set (seedSides cfg) \<subseteq> {1, -1} \<and> 0 < seedDraws cfg \<and> 0 < tournamentK cfg \<and>
     0 \<le> gateShare cfg \<and> gateShare cfg \<le> 1"

definition viable :: "Segment list \<Rightarrow> Genes \<Rightarrow> bool" where
  "viable segments g \<longleftrightarrow> genes_ok g \<and> genes_side_ok g \<and> g_segment g \<in> seg_index ` set segments"

text \<open>\<open>bred\<close>: the obstacles are the decoded genes, in range, and legal unless flagged.\<close>

definition bred :: "GAConfig \<Rightarrow> Segment list \<Rightarrow> Individual \<Rightarrow> bool" where
  "bred cfg segments ind \<longleftrightarrow>
     (\<exists>g. ind_genes ind = Some g \<and> viable segments g \<and> decode g segments = Inr (ind_obstacles ind)) \<and>
     (\<not> ind_illegal ind \<longrightarrow> layout_legal (placementBounds cfg) (ind_obstacles ind))"

definition unrun :: "Individual \<Rightarrow> bool" where
  "unrun ind \<longleftrightarrow> ind = newIndividual (ind_obstacles ind) (ind_genes ind) (ind_illegal ind)"

definition seedling :: "GAConfig \<Rightarrow> Segment list \<Rightarrow> nat \<Rightarrow> Individual \<Rightarrow> bool" where
  "seedling cfg segments n ind \<longleftrightarrow> bred cfg segments ind \<and> unrun ind \<and> nicheOf ind = n"

lemma newIndividual_fields [simp]:
  "ind_obstacles (newIndividual obs g ill) = obs" "ind_genes (newIndividual obs g ill) = g"
  "ind_illegal (newIndividual obs g ill) = ill" "ind_valid (newIndividual obs g ill) = False"
  by (simp_all add: newIndividual_def)

lemma unrun_new [simp]: "unrun (newIndividual obs g ill)"
  by (simp add: unrun_def)

lemma decode_viable:
  assumes "setting_ok cfg segments choices" and "viable segments g"
  obtains obs where "decode g segments = Inr obs" and "length obs = gene_count g"
  using decode_total [of segments g] decode_length assms by (auto simp: setting_ok_def viable_def)

lemma buildIndividual_viable:
  assumes "setting_ok cfg segments choices" and "viable segments g"
  obtains "buildIndividual cfg g segments strict = Inr None"
  | ind where "buildIndividual cfg g segments strict = Inr (Some ind)" and "seedling cfg segments (gene_count g) ind"
proof -
  obtain obs where obs: "decode g segments = Inr obs" "length obs = gene_count g"
    using decode_viable [OF assms] .
  show ?thesis
  proof (cases "layoutProblem (placementBounds cfg) obs segments (Some (g_segment g)) strict")
    case None
    then have "layout_legal (placementBounds cfg) obs" by (simp add: layoutProblem_None_iff)
    then have "seedling cfg segments (gene_count g) (newIndividual obs (Some g) False)"
      using obs assms(2) by (simp add: seedling_def bred_def nicheOf_def)
    then show ?thesis using that(2) None obs by (simp add: buildIndividual_def)
  qed (use that(1) obs in \<open>simp add: buildIndividual_def\<close>)
qed

lemma randomGenes_viable:
  assumes "setting_ok cfg segments choices" and "rng_ok r"
  obtains g r1 where "randomGenes r k choices (seedSides cfg) = Inr (g, r1)" and "viable segments g"
    and "g_kind g = k" and "rng_ok r1"
proof -
  obtain g r1 where g: "randomGenes r k choices (seedSides cfg) = Inr (g, r1)"
    using randomGenes_total assms(1) unfolding setting_ok_def by blast
  then show ?thesis
    using that randomGenes_ok [OF assms(2) g] assms(1)
    by (auto simp: setting_ok_def viable_def genes_side_ok_def subset_iff)
qed

lemma drawSeed_ok:
  assumes "setting_ok cfg segments choices" and "rng_ok r"
    and "drawn = None \<or> (\<exists>g. drawn = Some g \<and> viable segments g \<and> g_kind g = k)" and "drawn \<noteq> None \<or> 0 < n"
  obtains found g r1 where "drawSeed cfg segments choices k strict n drawn r = Inr (found, Some g, r1)" and "rng_ok r1"
    and "viable segments g" and "g_kind g = k"
    and "found = None \<or> (\<exists>ind. found = Some ind \<and> seedling cfg segments (gene_count g) ind)"
  using assms(2-)
proof (induction n arbitrary: drawn r thesis)
  case (Suc n)
  obtain g r1 where g: "randomGenes r k choices (seedSides cfg) = Inr (g, r1)" "viable segments g" "g_kind g = k" "rng_ok r1"
    using randomGenes_viable [OF assms(1) Suc.prems(2)] .
  show ?case
  proof (rule buildIndividual_viable [OF assms(1) g(2), of strict])
    assume b: "buildIndividual cfg g segments strict = Inr None"
    show ?case
      by (rule Suc.IH [of "Some g" r1]) (use g b Suc.prems(1) in simp_all)
  next
    fix ind assume "buildIndividual cfg g segments strict = Inr (Some ind)" "seedling cfg segments (gene_count g) ind"
    then show ?case using Suc.prems(1) [of "Some ind" g r1] g by simp
  qed
qed auto

lemma gene_count_kind: "KIND_BY_COUNT n = Inr k \<Longrightarrow> g_kind g = k \<Longrightarrow> gene_count g = n"
  by (auto simp: KIND_BY_COUNT_def gene_count_def split: if_splits)

lemma freshIndividual_ok:
  assumes "setting_ok cfg segments choices" and "rng_ok r" and "n = 1 \<or> n = 2"
  obtains ind r1 where "freshIndividual r cfg segments choices n = Inr (ind, r1)" and "rng_ok r1"
    and "seedling cfg segments n ind"
proof -
  obtain k where k: "KIND_BY_COUNT n = Inr k" using assms(3) by (auto simp: KIND_BY_COUNT_def)
  have draws: "0 < seedDraws cfg" using assms(1) by (simp add: setting_ok_def)
  obtain found g r1 where d1: "drawSeed cfg segments choices k True (seedDraws cfg) None r = Inr (found, Some g, r1)" "rng_ok r1"
    "viable segments g" "g_kind g = k" "found = None \<or> (\<exists>ind. found = Some ind \<and> seedling cfg segments (gene_count g) ind)"
    using drawSeed_ok [OF assms(1,2), of None k "seedDraws cfg" True] draws by auto
  obtain found2 g2 r2 where d2: "drawSeed cfg segments choices k False (seedDraws cfg) (Some g) r1 = Inr (found2, Some g2, r2)" "rng_ok r2"
    "viable segments g2" "g_kind g2 = k" "found2 = None \<or> (\<exists>ind. found2 = Some ind \<and> seedling cfg segments (gene_count g2) ind)"
    using drawSeed_ok [OF assms(1) d1(2), of "Some g" k "seedDraws cfg" False] d1(3,4) by auto
  obtain obs where obs: "decode g2 segments = Inr obs" "length obs = gene_count g2" using decode_viable [OF assms(1) d2(3)] .
  have cnt: "gene_count g = n" "gene_count g2 = n" using gene_count_kind [OF k] d1(4) d2(4) by simp_all
  have "seedling cfg segments n (newIndividual obs (Some g2) True)"
    using obs cnt d2(3) by (simp add: seedling_def bred_def nicheOf_def)
  then show ?thesis
    using that d1 d2 obs cnt k by (cases found; cases found2) (simp_all add: freshIndividual_def)
qed


section \<open>Children\<close>

definition pop_ok :: "GAConfig \<Rightarrow> Segment list \<Rightarrow> heap \<Rightarrow> ref list \<Rightarrow> bool" where
  "pop_ok cfg segments h pop \<longleftrightarrow> refs_ok h pop \<and> (\<forall>i \<in> set pop. bred cfg segments (h ! i))"

lemma pop_ok_append: "pop_ok cfg segments h pop \<Longrightarrow> pop_ok cfg segments (h @ new) pop"
  by (auto simp: pop_ok_def refs_ok_def nth_append)

lemma bredE:
  assumes "bred cfg segments ind"
  obtains g where "ind_genes ind = Some g" and "viable segments g" and "gene_count g = nicheOf ind"
  using assms decode_length by (auto simp: bred_def nicheOf_def)

lemma gene_count_eq_iff: "gene_count g = gene_count g' \<longleftrightarrow> g_kind g = g_kind g'"
  by (auto simp: gene_count_def split: kind.splits)

lemma frame_viable:
  assumes "viable segments p" and "frame g = frame p" and "genes_ok g"
  shows "viable segments g \<and> gene_count g = gene_count p"
  using assms frame_eqD [OF assms(2)] by (simp add: viable_def genes_side_ok_def gene_count_eq_iff)

lemma child_genes_viable:
  assumes "rng_ok r" and "viable segments ga" and "viable segments gb" and "gene_count ga = n" and "gene_count gb = n"
    and "crossoverGenes r ga gb = (mixed, r1)"
  obtains g r2 where "mutateGenes r1 mixed scale = Inr (g, r2)" and "viable segments g" and "gene_count g = n" and "rng_ok r2"
proof -
  have x: "rng_ok r1" "frame mixed = frame ga \<or> frame mixed = frame gb"
    using crossoverGenes_ok [OF assms(1,6)] by auto
  have m: "genes_ok mixed"
    using crossoverGenes_genes_ok [OF assms(1,6)] assms(2,3) by (simp add: viable_def)
  obtain g r2 where g: "mutateGenes r1 mixed scale = Inr (g, r2)" using mutateGenes_total [OF x(1)] by blast
  obtain name lo hi v where s: "(name, lo, hi) \<in> set (GENE_RANGES (g_kind mixed))" "lo \<le> v" "v \<le> hi" "g = setGene name v mixed" "rng_ok r2"
    using mutateGenes_steps [OF x(1) g] .
  have "genes_ok g" "frame g = frame mixed" using genes_ok_setGene [OF m s(1-3)] s(4) by simp_all
  then have "viable segments g \<and> gene_count g = n"
    using x(2) frame_viable [OF assms(2), of g] frame_viable [OF assms(3), of g] assms(4,5) by auto
  then show ?thesis using that g s(5) by blast
qed

lemma childOf_ok:
  assumes "setting_ok cfg segments choices" and "rng_ok r" and "bred cfg segments a" and "bred cfg segments b"
    and "nicheOf a = n" and "nicheOf b = n"
  obtains found r1 where "childOf r cfg segments a b scale = Inr (found, r1)" and "rng_ok r1"
    and "found = None \<or> (\<exists>ind. found = Some ind \<and> seedling cfg segments n ind)"
proof -
  obtain ga where ga: "ind_genes a = Some ga" "viable segments ga" "gene_count ga = n" using bredE [OF assms(3)] assms(5) by metis
  obtain gb where gb: "ind_genes b = Some gb" "viable segments gb" "gene_count gb = n" using bredE [OF assms(4)] assms(6) by metis
  obtain mixed r1 where x: "crossoverGenes r ga gb = (mixed, r1)" by fastforce
  obtain g r2 where g: "mutateGenes r1 mixed scale = Inr (g, r2)" "viable segments g" "gene_count g = n" "rng_ok r2"
    using child_genes_viable [OF assms(2) ga(2) gb(2) ga(3) gb(3) x] .
  show ?thesis
    by (rule buildIndividual_viable [OF assms(1) g(2), of True])
      (use that ga(1) gb(1) x g in \<open>auto simp: childOf_def\<close>)
qed

lemma tournament_ok:
  assumes "rng_ok r" and "0 < tournamentK cfg" and "\<exists>i \<in> set pop. nicheOf (h ! i) = n \<and> \<not> ind_illegal (h ! i)"
  obtains best r1 where "tournament r cfg h pop (Some n) = Inr (best, r1)" and "rng_ok r1"
    and "best \<in> set pop" and "nicheOf (h ! best) = n" and "\<not> ind_illegal (h ! best)"
proof -
  let ?pool = "filter (\<lambda>i. (Some n = None \<or> Some (nicheOf (h ! i)) = Some n) \<and> \<not> ind_illegal (h ! i)) pop"
  have ne: "?pool \<noteq> []" using assms(3) by (auto simp: filter_empty_conv)
  obtain ws r1 where ws: "py_sample ?pool (min (tournamentK cfg) (length ?pool)) r = Inr (ws, r1)"
    using py_sample_total [of "min (tournamentK cfg) (length ?pool)" ?pool r] by auto
  have w: "set ws \<subseteq> set ?pool" "length ws = min (tournamentK cfg) (length ?pool)" "rng_ok r1"
    using py_sample_ok [OF assms(1) ws] by auto
  then have "ws \<noteq> []" using ne assms(2) by (auto simp: min_def split: if_splits)
  then obtain best where b: "py_min_by (\<lambda>i. searchSelectionKey (h ! i)) ws = Inr best" using py_min_by_total by blast
  have "best \<in> set ?pool" using py_min_by_mem [OF b] w(1) by blast
  moreover have "tournament r cfg h pop (Some n) = Inr (best, r1)"
    unfolding tournament_def Let_def if_not_P [OF ne] ws using b by simp
  ultimately show ?thesis using that w(3) by auto
qed

lemma breedLoop_ok:
  assumes "setting_ok cfg segments choices" and "rng_ok r" and "pop_ok cfg segments h pop"
    and "\<exists>i \<in> set pop. nicheOf (h ! i) = n \<and> \<not> ind_illegal (h ! i)"
  obtains found r1 where "breedLoop m r cfg h pop n segments scale = Inr (found, r1)" and "rng_ok r1"
    and "found = None \<or> (\<exists>ind. found = Some ind \<and> seedling cfg segments n ind)"
  using assms(2)
proof (induction m arbitrary: r thesis)
  case (Suc m)
  have k: "0 < tournamentK cfg" using assms(1) by (simp add: setting_ok_def)
  obtain a r1 where a: "tournament r cfg h pop (Some n) = Inr (a, r1)" "rng_ok r1" "a \<in> set pop" "nicheOf (h ! a) = n"
    using tournament_ok [OF Suc.prems(2) k assms(4)] .
  obtain b r2 where b: "tournament r1 cfg h pop (Some n) = Inr (b, r2)" "rng_ok r2" "b \<in> set pop" "nicheOf (h ! b) = n"
    using tournament_ok [OF a(2) k assms(4)] .
  have "bred cfg segments (h ! a)" "bred cfg segments (h ! b)" using assms(3) a(3) b(3) by (simp_all add: pop_ok_def)
  then obtain found r3 where c: "childOf r2 cfg segments (h ! a) (h ! b) scale = Inr (found, r3)" "rng_ok r3"
    "found = None \<or> (\<exists>ind. found = Some ind \<and> seedling cfg segments n ind)"
    using childOf_ok [OF assms(1) b(2) _ _ a(4) b(4)] by blast
  show ?case
  proof (cases found)
    case None
    show ?thesis by (rule Suc.IH [of r3]) (use None a b c Suc.prems(1) in simp_all)
  next
    case (Some ind)
    then show ?thesis using Suc.prems(1) [of found r3] a b c by simp
  qed
qed simp

lemma nicheChild_ok:
  assumes "setting_ok cfg segments choices" and "rng_ok r" and "pop_ok cfg segments h pop" and "n = 1 \<or> n = 2"
  obtains ind r1 where "nicheChild r cfg h pop n segments choices scale = Inr (ind, r1)" and "rng_ok r1"
    and "seedling cfg segments n ind"
proof -
  let ?alive = "\<exists>i \<in> set pop. nicheOf (h ! i) = n \<and> \<not> ind_illegal (h ! i)"
  obtain found r1 where f: "(if ?alive then breedLoop (maxRetries cfg) r cfg h pop n segments scale else Inr (None, r)) =
      Inr (found, r1)" "rng_ok r1" "found = None \<or> (\<exists>ind. found = Some ind \<and> seedling cfg segments n ind)"
  proof (cases ?alive)
    case True
    show ?thesis
      by (rule breedLoop_ok [OF assms(1,2,3) True, of "maxRetries cfg" scale]) (use that True in simp)
  next
    case False
    show ?thesis by (rule that [OF if_not_P [OF False]]) (use assms(2) in simp_all)
  qed
  obtain ind r2 where i: "freshIndividual r1 cfg segments choices n = Inr (ind, r2)" "rng_ok r2" "seedling cfg segments n ind"
    using freshIndividual_ok [OF assms(1) f(2) assms(4)] .
  show ?thesis
    using that [of "the found" r1] that [of ind r2] f(2,3) i by (cases found) (simp_all add: nicheChild_def f(1))
qed


section \<open>Generations\<close>

text \<open>
  \<open>slot_ok\<close>: a member of the new generation is bred for its niche and is either carried over from the
  old one or appended to the heap, not yet run.
\<close>

definition slot_ok :: "GAConfig \<Rightarrow> Segment list \<Rightarrow> heap \<Rightarrow> ref list \<Rightarrow> heap \<Rightarrow> nat \<Rightarrow> ref \<Rightarrow> bool" where
  "slot_ok cfg segments h pop h' niche i \<longleftrightarrow> i < length h' \<and> bred cfg segments (h' ! i) \<and> nicheOf (h' ! i) = niche \<and>
     (i \<in> set pop \<or> length h \<le> i \<and> unrun (h' ! i))"

lemma fillNiche_ok:
  assumes "setting_ok cfg segments choices" and "rng_ok r" and "pop_ok cfg segments h pop" and "niche = 1 \<or> niche = 2"
  obtains new r1 where "fillNiche n r cfg pop niche quota imm segments choices scale children h =
      Inr (children @ [length h..<length h + n], h @ new, r1)" and "rng_ok r1" and "length new = n"
    and "\<forall>ind \<in> set new. seedling cfg segments niche ind"
  using assms(2,3)
proof (induction n arbitrary: r children h thesis)
  case (Suc n)
  obtain ind r1 where i: "(if int (length children) \<ge> int quota - imm then freshIndividual r cfg segments choices niche
      else nicheChild r cfg h pop niche segments choices scale) = Inr (ind, r1)" "rng_ok r1" "seedling cfg segments niche ind"
  proof (cases "int (length children) \<ge> int quota - imm")
    case True
    show ?thesis by (rule freshIndividual_ok [OF assms(1) Suc.prems(2) assms(4)]) (use that True in simp)
  next
    case False
    show ?thesis by (rule nicheChild_ok [OF assms(1) Suc.prems(2,3) assms(4), of scale]) (use that False in simp)
  qed
  obtain new r2 where rest: "fillNiche n r1 cfg pop niche quota imm segments choices scale (children @ [length h]) (h @ [ind]) =
      Inr ((children @ [length h]) @ [length (h @ [ind])..<length (h @ [ind]) + n], (h @ [ind]) @ new, r2)"
    "rng_ok r2" "length new = n" "\<forall>ind \<in> set new. seedling cfg segments niche ind"
    using Suc.IH [OF _ i(2) pop_ok_append [OF Suc.prems(3)]] by blast
  have "[length h..<length h + Suc n] = length h # [Suc (length h)..<Suc (length h) + n]"
    by (simp add: upt_conv_Cons)
  then show ?case using Suc.prems(1) [of "ind # new" r2] i rest by simp
qed simp

lemma nicheGeneration_ok:
  assumes "setting_ok cfg segments choices" and "rng_ok r" and "pop_ok cfg segments h pop" and "niche = 1 \<or> niche = 2"
    and "distinct pop"
  obtains queue new r1 where "nicheGeneration r cfg h pop niche quota segments choices scale = Inr (queue, h @ new, r1)"
    and "rng_ok r1" and "length queue = quota" and "distinct queue"
    and "\<forall>i \<in> set queue. slot_ok cfg segments h pop (h @ new) niche i"
    and "\<forall>ind \<in> set new. seedling cfg segments niche ind"
    and "set (take (min (elitePerNiche cfg) (quota - 1))
           (sort_key (\<lambda>i. searchSelectionKey (h ! i)) (filter (\<lambda>i. nicheOf (h ! i) = niche) pop))) \<subseteq> set queue"
proof -
  let ?pool = "filter (\<lambda>i. nicheOf (h ! i) = niche) pop"
  let ?sorted = "sort_key (\<lambda>i. searchSelectionKey (h ! i)) ?pool"
  define e where "e = min (elitePerNiche cfg) (min (length ?pool) (quota - 1))"
  let ?elite = "take e ?sorted"
  have len: "length ?elite = e" "e \<le> quota" by (auto simp: e_def)
  have te: "take (min (elitePerNiche cfg) (quota - 1)) ?sorted = ?elite"
    by (rule nth_equalityI) (auto simp: e_def)
  obtain new r1 where f: "fillNiche (quota - length ?elite) r cfg pop niche quota
      (py_round (immigrantShare cfg * (real quota - real e))) segments choices scale ?elite h =
      Inr (?elite @ [length h..<length h + (quota - length ?elite)], h @ new, r1)" "rng_ok r1"
    "length new = quota - length ?elite" "\<forall>ind \<in> set new. seedling cfg segments niche ind"
    using fillNiche_ok [OF assms(1-4)] by blast
  have sub: "set ?elite \<subseteq> set ?pool" using set_take_subset [of e ?sorted] by simp
  then have old: "i < length h" if "i \<in> set ?elite" for i using that assms(3) by (auto simp: pop_ok_def refs_ok_def)
  have "slot_ok cfg segments h pop (h @ new) niche i" if "i \<in> set ?elite" for i
  proof -
    have "i \<in> set pop" "nicheOf (h ! i) = niche" using that sub by auto
    then show ?thesis using old [OF that] assms(3) by (simp add: slot_ok_def pop_ok_def nth_append)
  qed
  moreover have "slot_ok cfg segments h pop (h @ new) niche i" if "i \<in> set [length h..<length h + (quota - length ?elite)]" for i
    using that f(3,4) by (auto simp: slot_ok_def seedling_def nth_append)
  ultimately have slots: "\<forall>i \<in> set (?elite @ [length h..<length h + (quota - length ?elite)]).
      slot_ok cfg segments h pop (h @ new) niche i" by (metis Un_iff set_append)
  have dist: "distinct (?elite @ [length h..<length h + (quota - length ?elite)])"
    using old assms(5) by (fastforce simp: distinct_sort)
  have gen: "nicheGeneration r cfg h pop niche quota segments choices scale =
      Inr (?elite @ [length h..<length h + (quota - length ?elite)], h @ new, r1)"
    using f(1) unfolding nicheGeneration_def Let_def e_def [symmetric] .
  show ?thesis
    by (rule that [OF gen f(2) _ dist slots f(4)]) (use len te in simp_all)
qed

lemma popQueues_ok:
  assumes "\<And>n. count_list counts n \<le> length (queues n)" and "\<And>n. distinct (queues n)"
    and "\<And>n m. n \<noteq> m \<Longrightarrow> set (queues n) \<inter> set (queues m) = {}"
  obtains js where "popQueues counts queues = Inr js" and "list_all2 (\<lambda>n i. i \<in> set (queues n)) counts js" and "distinct js"
    and "\<And>n. count_list counts n = length (queues n) \<Longrightarrow> set (queues n) \<subseteq> set js"
  using assms
proof (induction counts queues arbitrary: thesis rule: popQueues.induct)
  case (1 queues)
  then show ?case by simp
next
  case (2 niche counts queues)
  have "0 < length (queues niche)" using "2.prems"(2) [of niche] by auto
  then obtain i rest where q: "queues niche = i # rest" by (cases "queues niche") auto
  let ?q = "queues(niche := rest)"
  have c: "count_list counts n \<le> length (?q n)" for n using "2.prems"(2) [of n] q by (auto split: if_splits)
  have d: "distinct (?q n)" for n using "2.prems"(3) [of n] q by auto
  have sub: "set (?q n) \<subseteq> set (queues n)" for n using q by auto
  have x: "set (?q n) \<inter> set (?q m) = {}" if "n \<noteq> m" for n m using "2.prems"(4) [OF that] sub by blast
  obtain js where js: "popQueues counts ?q = Inr js" "list_all2 (\<lambda>n i. i \<in> set (?q n)) counts js" "distinct js"
    "\<And>n. count_list counts n = length (?q n) \<Longrightarrow> set (?q n) \<subseteq> set js"
    using "2.IH" [OF q _ c d x] by blast
  have all: "list_all2 (\<lambda>n i. i \<in> set (queues n)) counts js"
    using js(2) sub by (auto elim!: list_all2_mono)
  have "i \<notin> set (?q n)" for n
    using q "2.prems"(3) [of niche] "2.prems"(4) [of n niche] by (cases "n = niche") auto
  then have "i \<notin> set js" using js(2) by (auto simp: list_all2_conv_all_nth in_set_conv_nth)
  moreover have "set (queues n) \<subseteq> set (i # js)" if "count_list (niche # counts) n = length (queues n)" for n
    using js(4) [of n] that q by (auto split: if_splits)
  ultimately show ?case using "2.prems"(1) [of "i # js"] q js(1,3) all by simp
qed


text \<open>The elites of a niche: its best individuals, one slot of the quota left free for a child.\<close>

definition elites :: "GAConfig \<Rightarrow> heap \<Rightarrow> ref list \<Rightarrow> nat \<Rightarrow> nat \<Rightarrow> ref list" where
  "elites cfg h pop niche quota = take (min (elitePerNiche cfg) (quota - 1))
     (sort_key (\<lambda>i. searchSelectionKey (h ! i)) (filter (\<lambda>i. nicheOf (h ! i) = niche) pop))"

lemma insort_key_eq: "\<forall>y \<in> set (x # xs). f y = g y \<Longrightarrow> insort_key f x xs = insort_key g x xs"
  by (induction xs) auto

lemma sort_key_eq: "\<forall>y \<in> set xs. f y = g y \<Longrightarrow> sort_key f xs = sort_key g xs"
proof (induction xs)
  case (Cons x xs)
  then show ?case using insort_key_eq [of x "sort_key g xs" f g] by simp
qed simp

lemma elites_append:
  assumes "refs_ok h pop"
  shows "elites cfg (h @ new) pop niche quota = elites cfg h pop niche quota"
proof -
  have same: "(h @ new) ! i = h ! i" if "i \<in> set pop" for i using that assms by (simp add: refs_ok_def nth_append)
  then have "filter (\<lambda>i. nicheOf ((h @ new) ! i) = niche) pop = filter (\<lambda>i. nicheOf (h ! i) = niche) pop"
    by (intro filter_cong) simp_all
  moreover have "sort_key (\<lambda>i. searchSelectionKey ((h @ new) ! i)) (filter (\<lambda>i. nicheOf (h ! i) = niche) pop) =
      sort_key (\<lambda>i. searchSelectionKey (h ! i)) (filter (\<lambda>i. nicheOf (h ! i) = niche) pop)"
    by (rule sort_key_eq) (simp add: same)
  ultimately show ?thesis unfolding elites_def by (simp only:)
qed

lemma slot_ok_append: "slot_ok cfg segments h pop h' niche i \<Longrightarrow> slot_ok cfg segments h pop (h' @ new) niche i"
  by (auto simp: slot_ok_def nth_append)

lemma slot_ok_base: "slot_ok cfg segments (h @ new) pop h' niche i \<Longrightarrow> slot_ok cfg segments h pop h' niche i"
  by (auto simp: slot_ok_def)

lemma nicheQueues_ok:
  assumes "setting_ok cfg segments choices" and "rng_ok r" and "pop_ok cfg segments h pop" and "distinct pop"
    and "set niches \<subseteq> {1, 2}" and "distinct niches"
  obtains queues new r1 where "nicheQueues niches r cfg h pop counts segments choices scale = Inr (queues, h @ new, r1)"
    and "rng_ok r1" and "\<And>n. length (queues n) = (if n \<in> set niches then count_list counts n else 0)"
    and "\<And>n. distinct (queues n)" and "\<And>n i. i \<in> set (queues n) \<Longrightarrow> slot_ok cfg segments h pop (h @ new) n i"
    and "\<And>n. n \<in> set niches \<Longrightarrow> set (elites cfg h pop n (count_list counts n)) \<subseteq> set (queues n)"
    and "\<forall>ind \<in> set new. unrun ind \<and> bred cfg segments ind"
  using assms(2,3,5,6)
proof (induction niches arbitrary: r h thesis)
  case (Cons niche niches)
  have n: "niche = 1 \<or> niche = 2" using Cons.prems(4) by auto
  obtain queue new r1 where g: "nicheGeneration r cfg h pop niche (count_list counts niche) segments choices scale = Inr (queue, h @ new, r1)"
    "rng_ok r1" "length queue = count_list counts niche" "distinct queue"
    "\<forall>i \<in> set queue. slot_ok cfg segments h pop (h @ new) niche i" "\<forall>ind \<in> set new. seedling cfg segments niche ind"
    "set (elites cfg h pop niche (count_list counts niche)) \<subseteq> set queue"
    using nicheGeneration_ok [OF assms(1) Cons.prems(2,3) n assms(4), of "count_list counts niche" scale]
    unfolding elites_def .
  obtain queues new2 r2 where q: "nicheQueues niches r1 cfg (h @ new) pop counts segments choices scale = Inr (queues, (h @ new) @ new2, r2)"
    "rng_ok r2" "\<And>n. length (queues n) = (if n \<in> set niches then count_list counts n else 0)" "\<And>n. distinct (queues n)"
    "\<And>n i. i \<in> set (queues n) \<Longrightarrow> slot_ok cfg segments (h @ new) pop ((h @ new) @ new2) n i"
    "\<And>n. n \<in> set niches \<Longrightarrow> set (elites cfg (h @ new) pop n (count_list counts n)) \<subseteq> set (queues n)"
    "\<forall>ind \<in> set new2. unrun ind \<and> bred cfg segments ind"
    by (rule Cons.IH [OF _ g(2) pop_ok_append [OF Cons.prems(3)], where ?new1 = new]) (use Cons.prems(4,5) in auto)
  have refs: "refs_ok h pop" using Cons.prems(3) by (simp add: pop_ok_def)
  let ?q = "queues(niche := queue)"
  show ?case
  proof (rule Cons.prems(1) [of ?q "new @ new2" r2])
    show "nicheQueues (niche # niches) r cfg h pop counts segments choices scale = Inr (?q, h @ new @ new2, r2)"
      using g(1) q(1) by simp
    show "slot_ok cfg segments h pop (h @ new @ new2) n i" if "i \<in> set (?q n)" for n i
      using that g(5) slot_ok_append [of cfg segments h pop "h @ new" niche i new2] slot_ok_base [OF q(5) [of i n]]
      by (auto split: if_splits)
    show "set (elites cfg h pop n (count_list counts n)) \<subseteq> set (?q n)" if "n \<in> set (niche # niches)" for n
      using that g(7) q(6) [of n] elites_append [OF refs, of cfg new] by (cases "n = niche") simp_all
    show "\<forall>ind \<in> set (new @ new2). unrun ind \<and> bred cfg segments ind"
      using g(6) q(7) by (auto simp: seedling_def)
  qed (use g q Cons.prems(5) in auto)
qed simp

lemma nextGeneration_ok:
  assumes "setting_ok cfg segments choices" and "rng_ok r" and "pop_ok cfg segments h pop" and "distinct pop"
  obtains pop' new r1 where "nextGeneration r cfg h pop segments choices scale = Inr (pop', h @ new, r1)" and "rng_ok r1"
    and "pop_ok cfg segments (h @ new) pop'" and "distinct pop'"
    and "map (\<lambda>i. nicheOf ((h @ new) ! i)) pop' = obstacleCountSchedule (popSize cfg) (gateShare cfg)"
    and "\<forall>i \<in> set pop'. i \<in> set pop \<or> length h \<le> i"
    and "\<forall>ind \<in> set new. unrun ind \<and> bred cfg segments ind"
    and "\<And>n. set (elites cfg h pop n (count_list (obstacleCountSchedule (popSize cfg) (gateShare cfg)) n)) \<subseteq> set pop'"
proof -
  let ?c = "obstacleCountSchedule (popSize cfg) (gateShare cfg)"
  let ?ns = "sorted_list_of_set (set ?c)"
  have ns: "set ?ns = set ?c" "set ?ns \<subseteq> {1, 2}" "distinct ?ns" using schedule_set by simp_all
  obtain queues new r1 where q: "nicheQueues ?ns r cfg h pop ?c segments choices scale = Inr (queues, h @ new, r1)"
    "rng_ok r1" "\<And>n. length (queues n) = (if n \<in> set ?ns then count_list ?c n else 0)" "\<And>n. distinct (queues n)"
    "\<And>n i. i \<in> set (queues n) \<Longrightarrow> slot_ok cfg segments h pop (h @ new) n i"
    "\<And>n. n \<in> set ?ns \<Longrightarrow> set (elites cfg h pop n (count_list ?c n)) \<subseteq> set (queues n)"
    "\<forall>ind \<in> set new. unrun ind \<and> bred cfg segments ind"
    using nicheQueues_ok [OF assms ns(2,3)] by blast
  have len: "count_list ?c n = length (queues n)" for n using q(3) [of n] ns(1) by (simp add: count_notin)
  have disj: "set (queues n) \<inter> set (queues m) = {}" if "n \<noteq> m" for n m
    using q(5) that by (auto simp: slot_ok_def)
  obtain js where js: "popQueues ?c queues = Inr js" "list_all2 (\<lambda>n i. i \<in> set (queues n)) ?c js" "distinct js"
    "\<And>n. set (queues n) \<subseteq> set js"
    using popQueues_ok [of ?c queues] q(4) disj len by auto
  have slots: "list_all2 (slot_ok cfg segments h pop (h @ new)) ?c js"
    using js(2) q(5) by (auto elim!: list_all2_mono)
  then have "map (\<lambda>i. nicheOf ((h @ new) ! i)) js = ?c"
    by (auto simp: list_all2_conv_all_nth slot_ok_def intro!: nth_equalityI)
  moreover have "\<exists>n. slot_ok cfg segments h pop (h @ new) n i" if "i \<in> set js" for i
    using that slots by (auto simp: list_all2_conv_all_nth in_set_conv_nth)
  then have "pop_ok cfg segments (h @ new) js \<and> (\<forall>i \<in> set js. i \<in> set pop \<or> length h \<le> i)"
    by (fastforce simp: pop_ok_def refs_ok_def slot_ok_def)
  moreover have "set (elites cfg h pop n (count_list ?c n)) \<subseteq> set js" for n
  proof (cases "n \<in> set ?c")
    case True
    then have "set (elites cfg h pop n (count_list ?c n)) \<subseteq> set (queues n)" using q(6) [of n] ns(1) by blast
    then show ?thesis using js(4) by (rule subset_trans)
  next
    case False
    then show ?thesis by (simp add: elites_def count_notin)
  qed
  ultimately show ?thesis using that q(1,2,7) js(1,3) by (simp add: nextGeneration_def Let_def)
qed


section \<open>Properties\<close>

lemma schedule_prefix:
  assumes "0 \<le> share" and "share \<le> 1" and "m \<le> n"
  shows "int (count_list (take m (obstacleCountSchedule n share)) 2) = int m * py_round (real n * share) div int n"
proof -
  let ?g = "py_round (real n * share)"
  have "real n * share \<le> real n" using assms mult_left_le [of share "real n"] by simp
  then have g: "0 \<le> ?g" "?g \<le> int n"
    using py_round_mono_bounds [of 0 "real n * share" "int n"] assms(1) by simp_all
  have "count_list (take m (obstacleCountSchedule n share)) 2 =
      length (filter (\<lambda>k. (int k + 1) * ?g div int n > int k * ?g div int n) [0..<m])"
    using assms(3) unfolding obstacleCountSchedule_def Let_def take_map take_upt [of 0 m n, simplified] count_list_map
    by (intro arg_cong [where f = length] filter_cong) simp_all
  then show ?thesis using staircase_count [OF g, of m] by simp
qed

text \<open>
  The schedule of a generation: one slot per member, walls and gates only, the gates numbering the
  rounded share of the population, and spread evenly, since the first \<open>m\<close> slots hold the rounded-down
  \<open>m\<close>-th part of them, for every \<open>m\<close>.
\<close>

theorem obstacleCountSchedule_correct:
  assumes "0 \<le> share" and "share \<le> 1"
  shows "length (obstacleCountSchedule n share) = n \<and> set (obstacleCountSchedule n share) \<subseteq> {1, 2} \<and>
    int (count_list (obstacleCountSchedule n share) 2) = py_round (real n * share) \<and>
    (\<forall>m \<le> n. int (count_list (take m (obstacleCountSchedule n share)) 2) =
       int m * py_round (real n * share) div int n)"
  using schedule_set schedule_gates [OF assms] schedule_prefix [OF assms] by simp

theorem obstacleCountSchedule_correct_witness:
  "length (obstacleCountSchedule 20 (3/10)) = 20 \<and> count_list (obstacleCountSchedule 20 (3/10)) 2 = 6"
  using obstacleCountSchedule_correct [of "3/10" 20] by (simp add: py_round_def)

text \<open>
  Seeding never fails: a fresh individual of the requested obstacle count is always returned. It has
  not been run, its genes are in range and decode to its obstacles, and its layout fits the placement
  area without overlap unless it is flagged illegal.
\<close>

theorem freshIndividual_correct:
  assumes "setting_ok cfg segments choices" and "rng_ok r" and "n = 1 \<or> n = 2"
  shows "\<exists>ind r'. freshIndividual r cfg segments choices n = Inr (ind, r') \<and> rng_ok r' \<and> unrun ind \<and> nicheOf ind = n \<and>
    (\<exists>g. ind_genes ind = Some g \<and> viable segments g \<and> decode g segments = Inr (ind_obstacles ind)) \<and>
    (ind_illegal ind \<or> layout_legal (placementBounds cfg) (ind_obstacles ind))"
  using freshIndividual_ok [OF assms] unfolding seedling_def bred_def by metis

lemma sampleSetting_ok: "setting_ok defaultConfig [sampleSegment] [1]"
  using sampleSegment_ok by (simp add: setting_ok_def defaultConfig_def sampleSegment_def)

theorem freshIndividual_correct_witness:
  "\<exists>ind r'. freshIndividual rng_fixed defaultConfig [sampleSegment] [1] 2 = Inr (ind, r') \<and> nicheOf ind = 2"
  using freshIndividual_correct [OF sampleSetting_ok rng_fixed_ok, of 2] by blast

text \<open>
  C7. The next generation keeps the niches and the elites: it is always produced, has the scheduled
  obstacle count in every slot and no individual twice, keeps the best individuals of each niche, and
  otherwise holds new individuals that have not been run. The old individuals are unchanged.
\<close>

theorem nextGeneration_correct:
  assumes "setting_ok cfg segments choices" and "rng_ok r" and "pop_ok cfg segments h pop" and "distinct pop"
  shows "\<exists>pop' new r'. nextGeneration r cfg h pop segments choices scale = Inr (pop', h @ new, r') \<and> rng_ok r' \<and>
    map (\<lambda>i. nicheOf ((h @ new) ! i)) pop' = obstacleCountSchedule (popSize cfg) (gateShare cfg) \<and>
    distinct pop' \<and> pop_ok cfg segments (h @ new) pop' \<and>
    (\<forall>i \<in> set pop'. i \<in> set pop \<or> length h \<le> i \<and> unrun ((h @ new) ! i)) \<and>
    (\<forall>niche. set (elites cfg h pop niche (count_list (obstacleCountSchedule (popSize cfg) (gateShare cfg)) niche)) \<subseteq> set pop')"
proof (rule nextGeneration_ok [OF assms, of scale])
  fix pop' new r1
  assume gen: "nextGeneration r cfg h pop segments choices scale = Inr (pop', h @ new, r1)" "rng_ok r1"
    "pop_ok cfg segments (h @ new) pop'" "distinct pop'"
    "map (\<lambda>i. nicheOf ((h @ new) ! i)) pop' = obstacleCountSchedule (popSize cfg) (gateShare cfg)"
    "\<forall>i \<in> set pop'. i \<in> set pop \<or> length h \<le> i" "\<forall>ind \<in> set new. unrun ind \<and> bred cfg segments ind"
    "\<And>n. set (elites cfg h pop n (count_list (obstacleCountSchedule (popSize cfg) (gateShare cfg)) n)) \<subseteq> set pop'"
  have "unrun ((h @ new) ! i)" if "i \<in> set pop'" "length h \<le> i" for i
    using gen(3,7) that by (auto simp: pop_ok_def refs_ok_def nth_append)
  then show ?thesis using gen by blast
qed

definition sampleSeed :: Individual where
  "sampleSeed = (case freshIndividual rng_fixed defaultConfig [sampleSegment] [1] 1 of
     Inr (ind, _) \<Rightarrow> ind | Inl _ \<Rightarrow> newIndividual [] None True)"

lemma sampleSeed_ok: "seedling defaultConfig [sampleSegment] 1 sampleSeed"
  by (rule freshIndividual_ok [OF sampleSetting_ok rng_fixed_ok, of 1]) (simp_all add: sampleSeed_def)

theorem nextGeneration_correct_witness:
  "\<exists>pop' new r'. nextGeneration rng_fixed defaultConfig [sampleSeed] [0] [sampleSegment] [1] 1 = Inr (pop', [sampleSeed] @ new, r') \<and>
     length pop' = 20"
proof -
  have "pop_ok defaultConfig [sampleSegment] [sampleSeed] [0]"
    using sampleSeed_ok by (simp add: pop_ok_def seedling_def)
  from nextGeneration_correct [OF sampleSetting_ok rng_fixed_ok this, of 1]
  obtain pop' new r' where g: "nextGeneration rng_fixed defaultConfig [sampleSeed] [0] [sampleSegment] [1] 1 = Inr (pop', [sampleSeed] @ new, r')"
    and m: "map (\<lambda>i. nicheOf (([sampleSeed] @ new) ! i)) pop' = obstacleCountSchedule (popSize defaultConfig) (gateShare defaultConfig)"
    by auto
  from arg_cong [OF m, of length] have "length pop' = 20" by (simp add: defaultConfig_def)
  with g show ?thesis by blast
qed

end
