(* ===== verification/Attempts.thy ===== *)
theory Attempts
  imports Individuals
begin

text \<open>
  One simulator attempt: \<open>evaluate\<close>, \<open>rerun\<close> and \<open>rescore\<close> of \<open>generator.py\<close>, with the parts of
  \<open>testcase.py\<close> they call. What the simulator does in its \<open>k\<close>-th run of a layout is the parameter
  \<open>sim\<close>: every step the source calls may return or raise. Each operation returns its outcome, the
  layout it handed to the simulator (\<open>None\<close> when none was started) and the updated individual.
\<close>

section \<open>A simulator run\<close>

text \<open>
  What one execution shows to the source: the recorded trajectory or the exception of
  \<open>execute()\<close>, the answers of \<open>min_distance_to_obstacles\<close>, whether the plot could be written,
  whether the run was still going when the watchdog timer expired, and the wall-clock time.
\<close>

record sim_run =
  sim_trajectory :: "trajectory result"
  sim_minDistance :: "Obstacle \<Rightarrow> real result"
  sim_plot :: "unit result"
  sim_overran :: bool
  sim_elapsed :: real

type_synonym simulator = "nat \<Rightarrow> Obstacle list \<Rightarrow> sim_run"

definition get_distances :: "sim_run \<Rightarrow> Obstacle list \<Rightarrow> real list result" where
  "get_distances run obstacles = mapE (sim_minDistance run) obstacles"

definition flightSeconds :: "trajectory \<Rightarrow> real" where
  "flightSeconds tr =
     (case tr of None \<Rightarrow> 0
      | Some positions \<Rightarrow>
          if positions = [] then 0
          else (p_timestamp (last positions) - p_timestamp (hd positions)) / 1000000)"

definition reachedGoal :: "trajectory \<Rightarrow> Waypoint \<Rightarrow> real \<Rightarrow> bool" where
  "reachedGoal tr goalXY tol =
     (case tr of None \<Rightarrow> False
      | Some positions \<Rightarrow>
          positions \<noteq> [] \<and>
          sqrt ((p_x (last positions) - fst goalXY)\<^sup>2 + (p_y (last positions) - snd goalXY)\<^sup>2) \<le> tol)"

definition missedGoal :: "GAConfig \<Rightarrow> Waypoint option \<Rightarrow> trajectory \<Rightarrow> bool" where
  "missedGoal cfg goalXY tr = (case goalXY of None \<Rightarrow> False | Some g \<Rightarrow> \<not> reachedGoal tr g (goalTol cfg))"

definition isFlakeRun :: "GAConfig \<Rightarrow> trajectory \<Rightarrow> Waypoint option \<Rightarrow> real list \<Rightarrow> bool" where
  "isFlakeRun cfg tr goalXY distances =
     (if \<not> missedGoal cfg goalXY tr then False
      else if distances = [] \<or> Min (set distances) \<le> flakeObstacleDistanceM cfg then False
      else True)"

text \<open>
  The flag of \<open>armWatchdog\<close>: a non-positive timeout arms no timer, and an isolated agent has its own.
\<close>

definition armWatchdog :: "real \<Rightarrow> sim_run \<Rightarrow> bool" where
  "armWatchdog killAfter run = (if killAfter \<le> 0 then False else sim_overran run)"

definition watchdogKilled :: "bool \<Rightarrow> real \<Rightarrow> sim_run \<Rightarrow> bool" where
  "watchdogKilled isolated killAfter run = (if isolated then False else armWatchdog killAfter run)"

text \<open>The common head of both \<open>try\<close> blocks: construct, execute, measure.\<close>

definition measureRun :: "sim_run \<Rightarrow> Obstacle list \<Rightarrow> (trajectory \<times> real list \<times> real) result" where
  "measureRun run obstacles =
     bindE (sim_trajectory run) (\<lambda>tr.
     bindE (get_distances run obstacles) (\<lambda>distances.
       if distances = [] then Inl RuntimeError else Inr (tr, distances, Min (set distances))))"

text \<open>The measurement both operations append once the plot is written.\<close>

definition appendRun ::
    "GAConfig \<Rightarrow> Waypoint option \<Rightarrow> nat \<Rightarrow> trajectory \<Rightarrow> real \<Rightarrow> Individual \<Rightarrow> Individual" where
  "appendRun cfg goalXY k tr minDist ind =
     ind\<lparr>ind_testCase := Some k,
         ind_distances := ind_distances ind @ [minDist],
         ind_flightDurations := ind_flightDurations ind @ [max (flightSeconds tr) (1 / 10 ^ 9)],
         ind_trajectories := ind_trajectories ind @ [tr],
         ind_stuck := (ind_stuck ind \<or> missedGoal cfg goalXY tr)\<rparr>"

section \<open>Scores of an individual\<close>

definition officialOf :: "Individual \<Rightarrow> real result" where
  "officialOf ind =
     officialTestScore (ind_distances ind) (int (length (ind_obstacles ind))) (ind_flightDurations ind)"

definition searchOf :: "GAConfig \<Rightarrow> Individual \<Rightarrow> real result" where
  "searchOf cfg ind =
     searchTestScore (ind_distances ind) (int (length (ind_obstacles ind))) (ind_flightDurations ind)
       (shapeGain cfg) (ind_stuck ind) (incompleteFactor cfg)"

definition rescore :: "GAConfig \<Rightarrow> Individual \<Rightarrow> Individual result" where
  "rescore cfg ind =
     bindE (officialOf ind) (\<lambda>s.
     bindE (searchOf cfg ind) (\<lambda>f.
       Inr (ind\<lparr>ind_officialScore := s, ind_fitness := Fin (- f)\<rparr>)))"

section \<open>The two operations\<close>

text \<open>
  The \<open>try\<close> block of \<open>evaluate\<close>: the value it returns, or the exception that leaves it, and the
  individual with whatever was already stored.
\<close>

definition evaluateTry ::
    "GAConfig \<Rightarrow> Waypoint option \<Rightarrow> nat \<Rightarrow> sim_run \<Rightarrow> Individual \<Rightarrow> AttemptOutcome result \<times> Individual" where
  "evaluateTry cfg goalXY k run ind =
     (case measureRun run (ind_obstacles ind) of
        Inl e \<Rightarrow> (Inl e, ind)
      | Inr (tr, distances, minDist) \<Rightarrow>
          if isFlakeRun cfg tr goalXY distances then (Inr FLAKE, ind)
          else (case sim_plot run of
             Inl e \<Rightarrow> (Inl e, ind)
           | Inr _ \<Rightarrow>
               let ind1 = appendRun cfg goalXY k tr minDist ind
               in (case officialOf ind1 of
                     Inl e \<Rightarrow> (Inl e, ind1)
                   | Inr s \<Rightarrow>
                       let ind2 = ind1\<lparr>ind_officialScore := s\<rparr>
                       in (case searchOf cfg ind2 of
                             Inl e \<Rightarrow> (Inl e, ind2)
                           | Inr f \<Rightarrow> (Inr CONSUMED, ind2\<lparr>ind_fitness := Fin (- f), ind_valid := True\<rparr>)))))"

definition evaluate ::
    "bool \<Rightarrow> GAConfig \<Rightarrow> Waypoint option \<Rightarrow> real \<Rightarrow> simulator \<Rightarrow> nat \<Rightarrow> Individual \<Rightarrow>
     AttemptOutcome \<times> Obstacle list option \<times> Individual" where
  "evaluate isolated cfg goalXY killAfter sim k ind =
     (if invalidLayout cfg (ind_obstacles ind)
      then (SKIPPED, None, ind\<lparr>ind_fitness := Inf, ind_valid := False, ind_illegal := True\<rparr>)
      else
        let run = sim k (ind_obstacles ind);
            (res, ind1) = evaluateTry cfg goalXY k run (ind\<lparr>ind_attempts := ind_attempts ind + 1\<rparr>);
            (outcome, ind2) =
              (case res of
                 Inr out \<Rightarrow> (out, ind1)
               | Inl _ \<Rightarrow>
                   (CONSUMED,
                    ind1\<lparr>ind_stuck := (ind_stuck ind1 \<or> watchdogKilled isolated killAfter run),
                         ind_fitness := Inf, ind_valid := False\<rparr>))
        in (outcome, Some (ind_obstacles ind), ind2\<lparr>ind_duration := sim_elapsed run\<rparr>))"

definition rerunTry ::
    "GAConfig \<Rightarrow> Waypoint option \<Rightarrow> nat \<Rightarrow> sim_run \<Rightarrow> Individual \<Rightarrow> AttemptOutcome result \<times> Individual" where
  "rerunTry cfg goalXY k run ind =
     (case measureRun run (ind_obstacles ind) of
        Inl e \<Rightarrow> (Inl e, ind)
      | Inr (tr, distances, minDist) \<Rightarrow>
          if isFlakeRun cfg tr goalXY distances then (Inr FLAKE, ind)
          else (case sim_plot run of
             Inl e \<Rightarrow> (Inl e, ind)
           | Inr _ \<Rightarrow> (Inr CONSUMED, appendRun cfg goalXY k tr minDist ind)))"

definition rerun ::
    "bool \<Rightarrow> GAConfig \<Rightarrow> Waypoint option \<Rightarrow> real \<Rightarrow> simulator \<Rightarrow> nat \<Rightarrow> Individual \<Rightarrow>
     AttemptOutcome \<times> Obstacle list option \<times> Individual" where
  "rerun isolated cfg goalXY killAfter sim k ind =
     (let run = sim k (ind_obstacles ind);
          (res, ind1) = rerunTry cfg goalXY k run ind;
          (outcome, ind2) =
            (case res of
               Inr out \<Rightarrow> (out, ind1)
             | Inl _ \<Rightarrow>
                 (CONSUMED,
                  ind1\<lparr>ind_stuck := (ind_stuck ind1 \<or> watchdogKilled isolated killAfter run),
                       ind_distances := ind_distances ind1 @ [failSentinel cfg],
                       ind_flightDurations := ind_flightDurations ind1 @ [max killAfter (1 / 10 ^ 9)]\<rparr>))
      in (outcome, Some (ind_obstacles ind), ind2\<lparr>ind_duration := sim_elapsed run\<rparr>))"

section \<open>Invariants\<close>

text \<open>
  \<open>ind_ok\<close>: every run has a positive flight time; a valid individual has a legal layout, at least
  one run and a stored test case; and without the stuck flag every stored flight ended at the goal.
  \<open>ind_scored\<close>: both scores are those of all the runs.
\<close>

definition ind_ok :: "GAConfig \<Rightarrow> Waypoint option \<Rightarrow> Individual \<Rightarrow> bool" where
  "ind_ok cfg goalXY ind \<longleftrightarrow>
     length (ind_distances ind) = length (ind_flightDurations ind) \<and>
     durations_ok (ind_flightDurations ind) \<and>
     (ind_valid ind \<longrightarrow> ind_distances ind \<noteq> [] \<and> ind_obstacles ind \<noteq> [] \<and> ind_testCase ind \<noteq> None \<and>
        layout_legal (placementBounds cfg) (ind_obstacles ind)) \<and>
     (\<not> ind_stuck ind \<longrightarrow> (\<forall>tr \<in> set (ind_trajectories ind). \<not> missedGoal cfg goalXY tr))"

definition scored :: "GAConfig \<Rightarrow> Individual \<Rightarrow> bool" where
  "scored cfg ind \<longleftrightarrow> officialOf ind = Inr (ind_officialScore ind) \<and>
     (\<exists>f. searchOf cfg ind = Inr f \<and> ind_fitness ind = Fin (- f))"

definition ind_scored :: "GAConfig \<Rightarrow> Waypoint option \<Rightarrow> Individual \<Rightarrow> bool" where
  "ind_scored cfg goalXY ind \<longleftrightarrow> ind_ok cfg goalXY ind \<and> (ind_valid ind \<longrightarrow> scored cfg ind)"

text \<open>What a batch of reruns keeps: an individual with a single run has not been touched.\<close>

definition ind_rerunnable :: "GAConfig \<Rightarrow> Waypoint option \<Rightarrow> Individual \<Rightarrow> bool" where
  "ind_rerunnable cfg goalXY ind \<longleftrightarrow> ind_ok cfg goalXY ind \<and> ind_valid ind \<and>
     (length (ind_distances ind) \<le> 1 \<longrightarrow> scored cfg ind)"

text \<open>The fields no attempt changes.\<close>

definition same_layout :: "Individual \<Rightarrow> Individual \<Rightarrow> bool" where
  "same_layout ind ind' \<longleftrightarrow> ind_obstacles ind' = ind_obstacles ind \<and> ind_genes ind' = ind_genes ind \<and>
     ind_generation ind' = ind_generation ind"

lemma durations_ok_snoc [simp]: "durations_ok (ds @ [d]) \<longleftrightarrow> durations_ok ds \<and> 0 < d"
  by (auto simp: durations_ok_def)

lemma appendRun_fields [simp]:
  "ind_obstacles (appendRun cfg g k tr d ind) = ind_obstacles ind"
  "ind_genes (appendRun cfg g k tr d ind) = ind_genes ind"
  "ind_generation (appendRun cfg g k tr d ind) = ind_generation ind"
  "ind_distances (appendRun cfg g k tr d ind) = ind_distances ind @ [d]"
  "ind_flightDurations (appendRun cfg g k tr d ind) =
     ind_flightDurations ind @ [max (flightSeconds tr) (1 / 10 ^ 9)]"
  "ind_stuck (appendRun cfg g k tr d ind) = (ind_stuck ind \<or> missedGoal cfg g tr)"
  "ind_trajectories (appendRun cfg g k tr d ind) = ind_trajectories ind @ [tr]"
  "ind_testCase (appendRun cfg g k tr d ind) = Some k"
  "ind_valid (appendRun cfg g k tr d ind) = ind_valid ind"
  "ind_illegal (appendRun cfg g k tr d ind) = ind_illegal ind"
  "ind_attempts (appendRun cfg g k tr d ind) = ind_attempts ind"
  "ind_officialScore (appendRun cfg g k tr d ind) = ind_officialScore ind"
  "ind_fitness (appendRun cfg g k tr d ind) = ind_fitness ind"
  by (simp_all add: appendRun_def)

lemma measureRun_obstacles: "measureRun run obs = Inr (tr, ds, d) \<Longrightarrow> obs \<noteq> []"
  by (auto simp: measureRun_def get_distances_def split: if_splits elim!: bindE_InrE)

lemma scores_total:
  assumes "ind_ok cfg g ind" and "ind_distances ind \<noteq> []" and "ind_obstacles ind \<noteq> []"
  obtains s f where "officialOf ind = Inr s" and "searchOf cfg ind = Inr f"
proof -
  have "scored_runs (ind_distances ind) (int (length (ind_obstacles ind))) (ind_flightDurations ind)"
    using assms by (simp add: ind_ok_def scored_runs_def)
  then show ?thesis
    using that officialTestScore_ok searchTestScore_ok unfolding officialOf_def searchOf_def by blast
qed

lemma rescore_ok:
  assumes "ind_ok cfg g ind" and "ind_valid ind"
  obtains ind' where "rescore cfg ind = Inr ind'" and "ind_scored cfg g ind'" and "same_layout ind ind'"
    and "ind_valid ind'" and "ind_illegal ind' = ind_illegal ind" and "ind_distances ind' = ind_distances ind"
proof -
  obtain s f where sf: "officialOf ind = Inr s" "searchOf cfg ind = Inr f"
    using scores_total [OF assms(1)] assms by (auto simp: ind_ok_def)
  let ?i = "ind\<lparr>ind_officialScore := s, ind_fitness := Fin (- f)\<rparr>"
  have "rescore cfg ind = Inr ?i" using sf by (simp add: rescore_def)
  moreover have "ind_scored cfg g ?i"
    using assms sf by (simp add: ind_scored_def ind_ok_def scored_def officialOf_def searchOf_def)
  ultimately show ?thesis using that assms(2) by (simp add: same_layout_def)
qed


lemma appendRun_ok:
  assumes "ind_ok cfg g ind" and "ind_obstacles ind \<noteq> []" and "ind_valid ind"
  shows "ind_ok cfg g (appendRun cfg g k tr d ind)"
  using assms by (auto simp: ind_ok_def less_max_iff_disj)

lemma appendRun_runs_ok:
  assumes "ind_ok cfg g ind"
  shows "ind_ok cfg g ((appendRun cfg g k tr d ind)\<lparr>ind_valid := False\<rparr>)"
  using assms by (auto simp: ind_ok_def less_max_iff_disj)

lemma evaluateTry_cases:
  assumes "ind_ok cfg g ind"
  obtains e where "evaluateTry cfg g k run ind = (Inl e, ind)"
  | "evaluateTry cfg g k run ind = (Inr FLAKE, ind)"
  | tr d s f where "evaluateTry cfg g k run ind =
        (Inr CONSUMED, (appendRun cfg g k tr d ind)\<lparr>ind_officialScore := s, ind_fitness := Fin (- f), ind_valid := True\<rparr>)"
      and "officialOf (appendRun cfg g k tr d ind) = Inr s"
      and "searchOf cfg (appendRun cfg g k tr d ind) = Inr f" and "ind_obstacles ind \<noteq> []"
      and "\<exists>ds. measureRun run (ind_obstacles ind) = Inr (tr, ds, d)"
proof (cases "measureRun run (ind_obstacles ind)")
  case (Inl e)
  then show ?thesis using that(1) by (simp add: evaluateTry_def)
next
  case (Inr m)
  obtain tr ds d where m: "m = (tr, ds, d)" by (cases m)
  have ne: "ind_obstacles ind \<noteq> []" using measureRun_obstacles Inr m by blast
  have tr: "\<exists>ds. measureRun run (ind_obstacles ind) = Inr (tr, ds, d)" using Inr m by blast
  let ?a = "appendRun cfg g k tr d ind"
  have "ind_ok cfg g (?a\<lparr>ind_valid := False\<rparr>)" by (rule appendRun_runs_ok [OF assms])
  then obtain s f where sf: "officialOf (?a\<lparr>ind_valid := False\<rparr>) = Inr s" "searchOf cfg (?a\<lparr>ind_valid := False\<rparr>) = Inr f"
    using scores_total [of cfg g "?a\<lparr>ind_valid := False\<rparr>"] ne by auto
  then have sf': "officialOf ?a = Inr s" "searchOf cfg ?a = Inr f" "searchOf cfg (?a\<lparr>ind_officialScore := s\<rparr>) = Inr f"
    by (simp_all add: officialOf_def searchOf_def)
  consider "isFlakeRun cfg tr g ds" | e where "\<not> isFlakeRun cfg tr g ds" "sim_plot run = Inl e"
    | "\<not> isFlakeRun cfg tr g ds" "sim_plot run = Inr ()"
    by (cases "sim_plot run") auto
  then show ?thesis
  proof cases
    case 1
    then show ?thesis using that(2) Inr m by (simp add: evaluateTry_def)
  next
    case 2
    then show ?thesis using that(1) Inr m by (simp add: evaluateTry_def)
  next
    case 3
    then have "evaluateTry cfg g k run ind =
        (Inr CONSUMED, ?a\<lparr>ind_officialScore := s, ind_fitness := Fin (- f), ind_valid := True\<rparr>)"
      using Inr m sf' by (simp add: evaluateTry_def Let_def)
    then show ?thesis using that(3) sf'(1,2) ne tr by blast
  qed
qed

lemma ind_ok_attempts [simp]: "ind_ok cfg g (ind\<lparr>ind_attempts := n\<rparr>) = ind_ok cfg g ind"
  by (simp add: ind_ok_def)

text \<open>The three ways an attempt on a legal layout ends.\<close>

lemma evaluate_cases:
  assumes "ind_ok cfg g ind" and "layout_legal (placementBounds cfg) (ind_obstacles ind)"
  obtains dur stuck where "evaluate isolated cfg g killAfter sim k ind =
        (CONSUMED, Some (ind_obstacles ind),
         ind\<lparr>ind_attempts := ind_attempts ind + 1, ind_stuck := ind_stuck ind \<or> stuck,
             ind_fitness := Inf, ind_valid := False, ind_duration := dur\<rparr>)"
  | dur where "evaluate isolated cfg g killAfter sim k ind =
        (FLAKE, Some (ind_obstacles ind), ind\<lparr>ind_attempts := ind_attempts ind + 1, ind_duration := dur\<rparr>)"
  | dur tr d s f where "evaluate isolated cfg g killAfter sim k ind =
        (CONSUMED, Some (ind_obstacles ind),
         (appendRun cfg g k tr d ind)\<lparr>ind_attempts := ind_attempts ind + 1, ind_officialScore := s,
             ind_fitness := Fin (- f), ind_valid := True, ind_duration := dur\<rparr>)"
      and "officialOf (appendRun cfg g k tr d ind) = Inr s"
      and "searchOf cfg (appendRun cfg g k tr d ind) = Inr f" and "ind_obstacles ind \<noteq> []"
      and "\<exists>ds. measureRun (sim k (ind_obstacles ind)) (ind_obstacles ind) = Inr (tr, ds, d)"
proof -
  let ?run = "sim k (ind_obstacles ind)" and ?i = "ind\<lparr>ind_attempts := ind_attempts ind + 1\<rparr>"
  have legal: "\<not> invalidLayout cfg (ind_obstacles ind)" using assms(2) by (simp add: invalidLayout_iff)
  have "ind_ok cfg g ?i" using assms(1) by simp
  then show ?thesis
  proof (cases rule: evaluateTry_cases [of cfg g ?i k ?run])
    case (1 e)
    then show ?thesis
      using legal that(1) [of "sim_elapsed ?run" "watchdogKilled isolated killAfter ?run"]
      by (simp add: evaluate_def Let_def)
  next
    case 2
    then show ?thesis using legal that(2) [of "sim_elapsed ?run"] by (simp add: evaluate_def Let_def)
  next
    case (3 tr d s f)
    have "appendRun cfg g k tr d ?i = (appendRun cfg g k tr d ind)\<lparr>ind_attempts := ind_attempts ind + 1\<rparr>"
      by (simp add: appendRun_def)
    moreover have "officialOf (appendRun cfg g k tr d ind) = Inr s" "searchOf cfg (appendRun cfg g k tr d ind) = Inr f"
      using 3(2,3) by (simp_all add: officialOf_def searchOf_def)
    ultimately show ?thesis
      using 3(1,4,5) legal that(3) [of "sim_elapsed ?run" f s tr d] by (simp add: evaluate_def Let_def)
  qed
qed

lemma evaluate_illegal:
  assumes "\<not> layout_legal (placementBounds cfg) (ind_obstacles ind)"
  shows "evaluate isolated cfg g killAfter sim k ind =
    (SKIPPED, None, ind\<lparr>ind_fitness := Inf, ind_valid := False, ind_illegal := True\<rparr>)"
  using assms by (simp add: evaluate_def invalidLayout_iff)

lemma evaluate_keeps:
  assumes "evaluate isolated cfg g killAfter sim k ind = (out, lay, ind')" and "ind_scored cfg g ind"
  shows "ind_scored cfg g ind' \<and> same_layout ind ind' \<and> (out = SKIPPED \<longleftrightarrow> lay = None) \<and>
    (\<forall>obs. lay = Some obs \<longrightarrow> obs = ind_obstacles ind \<and> layout_legal (placementBounds cfg) obs) \<and>
    (lay = None \<longrightarrow> ind_illegal ind') \<and> (ind_illegal ind \<longrightarrow> ind_illegal ind')"
proof (cases "layout_legal (placementBounds cfg) (ind_obstacles ind)")
  case True
  have ok: "ind_ok cfg g ind" using assms(2) by (simp add: ind_scored_def)
  show ?thesis
  proof (cases rule: evaluate_cases [OF ok True, of isolated killAfter sim k])
    case (1 dur stuck)
    then show ?thesis using assms True by (auto simp: ind_scored_def ind_ok_def same_layout_def)
  next
    case (2 dur)
    then show ?thesis using assms True
      by (auto simp: ind_scored_def ind_ok_def same_layout_def scored_def officialOf_def searchOf_def)
  next
    case (3 dur tr d s f)
    then show ?thesis using assms True ok
      by (auto simp: ind_scored_def ind_ok_def same_layout_def scored_def officialOf_def searchOf_def less_max_iff_disj)
  qed
next
  case False
  then show ?thesis using assms evaluate_illegal
    by (auto simp: ind_scored_def ind_ok_def same_layout_def)
qed

section \<open>Reruns\<close>

lemma rerun_cases:
  obtains dur stuck where "rerun isolated cfg g killAfter sim k ind =
        (CONSUMED, Some (ind_obstacles ind),
         ind\<lparr>ind_stuck := ind_stuck ind \<or> stuck, ind_distances := ind_distances ind @ [failSentinel cfg],
             ind_flightDurations := ind_flightDurations ind @ [max killAfter (1 / 10 ^ 9)], ind_duration := dur\<rparr>)"
  | dur where "rerun isolated cfg g killAfter sim k ind =
        (FLAKE, Some (ind_obstacles ind), ind\<lparr>ind_duration := dur\<rparr>)"
  | dur tr d where "rerun isolated cfg g killAfter sim k ind =
        (CONSUMED, Some (ind_obstacles ind), (appendRun cfg g k tr d ind)\<lparr>ind_duration := dur\<rparr>)"
      and "\<exists>ds. measureRun (sim k (ind_obstacles ind)) (ind_obstacles ind) = Inr (tr, ds, d)"
proof -
  let ?run = "sim k (ind_obstacles ind)"
  consider e where "rerunTry cfg g k ?run ind = (Inl e, ind)" | "rerunTry cfg g k ?run ind = (Inr FLAKE, ind)"
    | tr d where "rerunTry cfg g k ?run ind = (Inr CONSUMED, appendRun cfg g k tr d ind)"
        "\<exists>ds. measureRun ?run (ind_obstacles ind) = Inr (tr, ds, d)"
  proof (cases "measureRun ?run (ind_obstacles ind)")
    case (Inl e)
    then show ?thesis using that(1) [of e] by (simp add: rerunTry_def)
  next
    case (Inr m)
    obtain tr ds d where m: "m = (tr, ds, d)" by (cases m)
    show ?thesis
    proof (cases "isFlakeRun cfg tr g ds")
      case True
      then show ?thesis using that(2) Inr m by (simp add: rerunTry_def)
    next
      case False
      then show ?thesis
        using that(1) [of "projl (sim_plot ?run)"] that(3) [of tr d] Inr m
        by (cases "sim_plot ?run") (simp_all add: rerunTry_def)
    qed
  qed
  then show ?thesis
  proof cases
    case (1 e)
    then show ?thesis using that(1) [of "sim_elapsed ?run" "watchdogKilled isolated killAfter ?run"]
      by (simp add: rerun_def Let_def)
  next
    case 2
    then show ?thesis using that(2) [of "sim_elapsed ?run"] by (simp add: rerun_def Let_def)
  next
    case (3 tr d)
    then show ?thesis using that(3) [of "sim_elapsed ?run" tr d] by (simp add: rerun_def Let_def)
  qed
qed

lemma rerun_keeps:
  assumes "rerun isolated cfg g killAfter sim k ind = (out, lay, ind')" and "ind_rerunnable cfg g ind"
  shows "ind_rerunnable cfg g ind' \<and> same_layout ind ind' \<and> out \<noteq> SKIPPED \<and> lay = Some (ind_obstacles ind) \<and>
    layout_legal (placementBounds cfg) (ind_obstacles ind) \<and> ind_illegal ind' = ind_illegal ind"
proof -
  have ne: "ind_distances ind \<noteq> []" and legal: "layout_legal (placementBounds cfg) (ind_obstacles ind)"
    using assms(2) by (auto simp: ind_rerunnable_def ind_ok_def)
  show ?thesis
  proof (cases rule: rerun_cases [of isolated cfg g killAfter sim k ind])
    case (1 dur stuck)
    then show ?thesis using assms ne legal
      by (auto simp: ind_rerunnable_def ind_ok_def same_layout_def less_max_iff_disj)
  next
    case (2 dur)
    then show ?thesis using assms legal
      by (auto simp: ind_rerunnable_def ind_ok_def same_layout_def scored_def officialOf_def searchOf_def)
  next
    case (3 dur tr d)
    then show ?thesis using assms ne legal
      by (auto simp: ind_rerunnable_def ind_ok_def same_layout_def less_max_iff_disj)
  qed
qed


lemma measureRun_closest:
  assumes "measureRun run obs = Inr (tr, ds, d)"
  shows "get_distances run obs = Inr ds \<and> sim_trajectory run = Inr tr \<and> d \<in> set ds \<and> (\<forall>v \<in> set ds. d \<le> v)"
  using assms Min_in [of "set ds"]
  by (auto simp: measureRun_def split: if_splits elim!: bindE_InrE)

section \<open>Sample runs\<close>

text \<open>A legal box, a flight that reaches the goal half a metre from it, and a run the watchdog ends.\<close>

definition sampleBox :: Obstacle where
  "sampleBox = \<lparr>o_l = 2, o_w = 2, o_h = 25, o_x = 0, o_y = 20, o_z = 0, o_r = 0\<rparr>"

definition goodRun :: sim_run where
  "goodRun = \<lparr>sim_trajectory = Inr (Some [\<lparr>p_x = 0, p_y = 0, p_timestamp = 0\<rparr>,
       \<lparr>p_x = 10, p_y = 20, p_timestamp = 60000000\<rparr>]),
     sim_minDistance = (\<lambda>_. Inr (1/2)), sim_plot = Inr (), sim_overran = False, sim_elapsed = 70\<rparr>"

definition killedRun :: sim_run where
  "killedRun = \<lparr>sim_trajectory = Inl RuntimeError, sim_minDistance = (\<lambda>_. Inl AttributeError),
     sim_plot = Inr (), sim_overran = True, sim_elapsed = 300\<rparr>"

definition sampleSim :: simulator where
  "sampleSim k obs = (if k = 0 then killedRun else goodRun)"

lemma sampleBox_legal: "layout_legal (placementBounds defaultConfig) [sampleBox]"
  by (simp add: layout_legal_def placementBounds_def defaultConfig_def rotatedHalfExtents_def sampleBox_def radians_def Let_def)

lemma newIndividual_scored: "ind_scored cfg g (newIndividual obs genes illegal)"
  by (simp add: ind_scored_def ind_ok_def newIndividual_def durations_ok_def)

lemmas sample_run_defs = sampleSim_def goodRun_def killedRun_def measureRun_def get_distances_def
  isFlakeRun_def missedGoal_def reachedGoal_def flightSeconds_def watchdogKilled_def armWatchdog_def

text \<open>A first measured individual: the good run on the sample box, evaluated and scored.\<close>

definition sampleMeasured :: Individual where
  "sampleMeasured = snd (snd (evaluate True defaultConfig (Some (10, 20)) 300 sampleSim 1 (newIndividual [sampleBox] None False)))"

lemma sampleMeasured_run:
  "evaluateTry defaultConfig (Some (10, 20)) 1 (sampleSim 1 [sampleBox])
     ((newIndividual [sampleBox] None False)\<lparr>ind_attempts := 1\<rparr>) = (res, ind1) \<Longrightarrow> res = Inr CONSUMED \<and> ind_valid ind1 \<and> \<not> ind_stuck ind1 \<and> ind_distances ind1 = [1/2]"
  by (auto simp: evaluateTry_def sample_run_defs appendRun_def newIndividual_def officialOf_def searchOf_def
      officialTestScore_def searchTestScore_def scoreFromPoints_def Let_def defaultConfig_def
      split: if_splits sum.splits)

lemma sampleMeasured_ok:
  "ind_rerunnable defaultConfig (Some (10, 20)) sampleMeasured \<and> ind_obstacles sampleMeasured = [sampleBox] \<and>
     ind_distances sampleMeasured = [1/2]"
proof -
  let ?i = "newIndividual [sampleBox] None False"
  obtain out lay ind' where e: "evaluate True defaultConfig (Some (10, 20)) 300 sampleSim 1 ?i = (out, lay, ind')"
    by (metis prod_cases3)
  have m: "sampleMeasured = ind'" using e by (simp add: sampleMeasured_def)
  have o1: "ind_obstacles ?i = [sampleBox]" "ind_attempts ?i = 0" by (simp_all add: newIndividual_def)
  obtain res ind1 where t: "evaluateTry defaultConfig (Some (10, 20)) 1 (sampleSim 1 [sampleBox])
     (?i\<lparr>ind_attempts := 1\<rparr>) = (res, ind1)" by fastforce
  note r = sampleMeasured_run [OF t]
  have ind': "ind' = ind1\<lparr>ind_duration := 70\<rparr>"
    using e t r sampleBox_legal o1
    by (simp add: evaluate_def invalidLayout_iff Let_def sampleSim_def goodRun_def)
  have "ind_scored defaultConfig (Some (10, 20)) ind' \<and> same_layout ?i ind'"
    using evaluate_keeps [OF e newIndividual_scored] by simp
  moreover have "ind_valid ind'" "ind_distances ind' = [1/2]" using ind' r by simp_all
  ultimately show ?thesis using o1(1) unfolding m by (simp add: ind_rerunnable_def ind_scored_def same_layout_def)
qed

section \<open>Properties\<close>

text \<open>The distance a completed run contributes: the smallest of the measured obstacle distances.\<close>

definition closestMeasured :: "sim_run \<Rightarrow> Obstacle list \<Rightarrow> real \<Rightarrow> bool" where
  "closestMeasured run obs d \<longleftrightarrow>
     (\<exists>ds. get_distances run obs = Inr ds \<and> d \<in> set ds \<and> (\<forall>v \<in> set ds. d \<le> v))"

text \<open>
  C8. One evaluation attempt, on every branch: an illegal layout is skipped without a simulator run and
  marked illegal; a legal one is handed to the simulator exactly once and counted. A consumed attempt
  either leaves a valid individual with one more distance, the closest the run measured, or leaves
  the measurements alone with the worst fitness; a flake changes no measurement. In all cases every
  run keeps a positive flight time and a valid individual has the official and search scores of all
  its runs.
\<close>

theorem evaluate_correct:
  assumes "ind_scored cfg goal ind" and "evaluate isolated cfg goal killAfter sim k ind = (out, lay, ind')"
  shows "ind_scored cfg goal ind' \<and>
    (out = SKIPPED \<longleftrightarrow> \<not> layout_legal (placementBounds cfg) (ind_obstacles ind)) \<and>
    lay = (if out = SKIPPED then None else Some (ind_obstacles ind)) \<and>
    (out = SKIPPED \<longrightarrow> ind_illegal ind' \<and> \<not> ind_valid ind' \<and> ind_attempts ind' = ind_attempts ind) \<and>
    (out \<noteq> SKIPPED \<longrightarrow> ind_attempts ind' = ind_attempts ind + 1 \<and> ind_illegal ind' = ind_illegal ind) \<and>
    (out = FLAKE \<longrightarrow> ind_distances ind' = ind_distances ind \<and> ind_valid ind' = ind_valid ind \<and>
       ind_fitness ind' = ind_fitness ind) \<and>
    (out = CONSUMED \<longrightarrow>
       (if ind_valid ind'
        then \<exists>d. ind_distances ind' = ind_distances ind @ [d] \<and>
               closestMeasured (sim k (ind_obstacles ind)) (ind_obstacles ind) d
        else ind_distances ind' = ind_distances ind \<and> ind_fitness ind' = Inf))"
proof (cases "layout_legal (placementBounds cfg) (ind_obstacles ind)")
  case True
  have ok: "ind_ok cfg goal ind" using assms(1) by (simp add: ind_scored_def)
  have keep: "ind_scored cfg goal ind'" using evaluate_keeps [OF assms(2,1)] by simp
  show ?thesis
  proof (cases rule: evaluate_cases [OF ok True, of isolated killAfter sim k])
    case (3 dur tr d s f)
    then have "closestMeasured (sim k (ind_obstacles ind)) (ind_obstacles ind) d"
      using measureRun_closest by (auto simp: closestMeasured_def)
    with 3(1) show ?thesis using assms(2) True keep by auto
  qed (use assms(2) True keep in auto)
next
  case False
  then show ?thesis using assms(2) evaluate_keeps [OF assms(2,1)] evaluate_illegal by auto
qed

theorem evaluate_correct_witness:
  "\<exists>out lay ind'. evaluate False defaultConfig (Some (10, 20)) 300 sampleSim 0 (newIndividual [sampleBox] None False) =
      (out, lay, ind') \<and> ind_scored defaultConfig (Some (10, 20)) ind' \<and> out \<noteq> SKIPPED \<and> ind_attempts ind' = 1"
proof -
  let ?i = "newIndividual [sampleBox] None False"
  obtain out lay ind' where e: "evaluate False defaultConfig (Some (10, 20)) 300 sampleSim 0 ?i = (out, lay, ind')"
    by (metis prod_cases3)
  from evaluate_correct [OF newIndividual_scored e] sampleBox_legal e show ?thesis
    by (auto simp: newIndividual_def)
qed

text \<open>
  One rerun: it always reaches the simulator, never changes the verdict, the layout or the scores,
  and appends exactly one measurement unless the run is a flake, which leaves the measurements alone.
  The appended distance is the closest the run measured, or the configured sentinel of a failed run,
  and every flight time stays positive.
\<close>

theorem rerun_correct:
  assumes "ind_rerunnable cfg goal ind" and "rerun isolated cfg goal killAfter sim k ind = (out, lay, ind')"
  shows "ind_rerunnable cfg goal ind' \<and> lay = Some (ind_obstacles ind) \<and>
    ind_obstacles ind' = ind_obstacles ind \<and> ind_valid ind' \<and>
    ind_officialScore ind' = ind_officialScore ind \<and> ind_fitness ind' = ind_fitness ind \<and>
    (out = FLAKE \<and> ind_distances ind' = ind_distances ind \<and> ind_stuck ind' = ind_stuck ind \<or>
     out = CONSUMED \<and> (\<exists>d. ind_distances ind' = ind_distances ind @ [d] \<and>
       (d = failSentinel cfg \<or> closestMeasured (sim k (ind_obstacles ind)) (ind_obstacles ind) d)))"
proof -
  note keep = rerun_keeps [OF assms(2,1)]
  have valid: "ind_valid ind" using assms(1) by (simp add: ind_rerunnable_def)
  show ?thesis
  proof (cases rule: rerun_cases [of isolated cfg goal killAfter sim k ind])
    case (3 dur tr d)
    then have "closestMeasured (sim k (ind_obstacles ind)) (ind_obstacles ind) d"
      using measureRun_closest by (auto simp: closestMeasured_def)
    with 3(1) show ?thesis using assms(2) keep valid by (auto simp: same_layout_def)
  qed (use assms(2) keep valid in \<open>auto simp: same_layout_def\<close>)
qed


theorem rerun_correct_witness:
  "\<exists>out lay ind'. rerun False defaultConfig (Some (10, 20)) 300 sampleSim 0 sampleMeasured = (out, lay, ind') \<and>
     ind_rerunnable defaultConfig (Some (10, 20)) ind' \<and> lay = Some [sampleBox] \<and> ind_valid ind'"
proof -
  obtain out lay ind' where e: "rerun False defaultConfig (Some (10, 20)) 300 sampleSim 0 sampleMeasured = (out, lay, ind')"
    by (metis prod_cases3)
  from rerun_correct [OF _ e] sampleMeasured_ok e show ?thesis by auto
qed


end
