(* ===== verification/Batch.thy ===== *)
theory Batch
  imports Attempts "HOL-Library.Multiset"
begin

text \<open>
  Batches of simulator jobs: \<open>runParallelBatch\<close> and \<open>runRetryingBatch\<close> of \<open>generator.py\<close>. A job is
  the reference of its individual; the other arguments of the source's job tuples are the same for
  the whole batch and are already applied in the operation. The world holds the heap of individuals,
  the number of jobs run so far (which numbers the simulator's answers) and the trace of the layouts
  handed to the simulator.
\<close>

record world =
  w_heap :: heap
  w_clock :: nat
  w_trace :: "Obstacle list list"

type_synonym operation = "nat \<Rightarrow> Individual \<Rightarrow> AttemptOutcome \<times> Obstacle list option \<times> Individual"

section \<open>The operations\<close>

definition layoutsOf :: "Obstacle list option \<Rightarrow> Obstacle list list" where
  "layoutsOf lay = (case lay of None \<Rightarrow> [] | Some obs \<Rightarrow> [obs])"

definition runJob :: "operation \<Rightarrow> ref \<Rightarrow> world \<Rightarrow> AttemptOutcome \<times> world" where
  "runJob operation r w =
     (let (out, lay, ind) = operation (w_clock w) (w_heap w ! r)
      in (out, w\<lparr>w_heap := (w_heap w)[r := ind], w_clock := w_clock w + 1,
                w_trace := w_trace w @ layoutsOf lay\<rparr>))"

fun runJobs :: "operation \<Rightarrow> ref list \<Rightarrow> world \<Rightarrow> AttemptOutcome list \<times> world" where
  "runJobs operation [] w = ([], w)"
| "runJobs operation (r # rs) w =
     (let (out, w1) = runJob operation r w; (outs, w2) = runJobs operation rs w1 in (out # outs, w2))"

text \<open>
  The results come back in the order of the jobs, for one worker and for the thread pool; that the
  order in which the pool runs them does not matter is proved below (\<open>runOrder\<close>).
\<close>

definition runParallelBatch :: "operation \<Rightarrow> ref list \<Rightarrow> world \<Rightarrow> AttemptOutcome list \<times> world" where
  "runParallelBatch operation jobs w = (if jobs = [] then ([], w) else runJobs operation jobs w)"

text \<open>One wave: the first jobs on pairwise different individuals, up to the capacity.\<close>

fun takeWave ::
    "nat \<Rightarrow> (ref \<times> nat) list \<Rightarrow> (ref \<times> nat) list \<Rightarrow> (ref \<times> nat) list \<Rightarrow> ref set \<Rightarrow>
     (ref \<times> nat) list \<times> (ref \<times> nat) list" where
  "takeWave capacity [] batch deferred batched = (batch, deferred)"
| "takeWave capacity (item # items) batch deferred batched =
     (if length batch < capacity \<and> fst item \<notin> batched
      then takeWave capacity items (batch @ [item]) deferred (insert (fst item) batched)
      else takeWave capacity items batch (deferred @ [item]) batched)"

text \<open>The bookkeeping after a wave: attempts used and flakes to retry.\<close>

fun settleWave ::
    "GAConfig \<Rightarrow> (ref \<times> nat) list \<Rightarrow> AttemptOutcome list \<Rightarrow> nat \<Rightarrow> (ref \<times> nat) list \<Rightarrow> nat \<times> (ref \<times> nat) list" where
  "settleWave cfg ((job, retryCount) # items) (outcome # outcomes) used retries =
     settleWave cfg items outcomes
       (if outcome \<noteq> SKIPPED then used + 1 else used)
       (if outcome = FLAKE \<and> retryCount < maxFlakeRetries cfg then retries @ [(job, retryCount + 1)] else retries)"
| "settleWave cfg _ _ used retries = (used, retries)"

definition weight :: "GAConfig \<Rightarrow> (ref \<times> nat) list \<Rightarrow> nat" where
  "weight cfg items = sum_list (map (\<lambda>item. Suc (maxFlakeRetries cfg - snd item)) items)"

lemma weight_simps [simp]:
  "weight cfg [] = 0" "weight cfg (item # items) = Suc (maxFlakeRetries cfg - snd item) + weight cfg items"
  "weight cfg (items @ items') = weight cfg items + weight cfg items'"
  by (simp_all add: weight_def)

lemma takeWave_parts:
  "takeWave c items batch deferred seen = (batch', deferred') \<Longrightarrow>
     weight cfg batch' + weight cfg deferred' = weight cfg items + weight cfg batch + weight cfg deferred"
  by (induction items arbitrary: batch deferred seen) (fastforce split: if_splits)+

lemma settleWave_weight:
  "settleWave cfg items outs used retries = (used', retries') \<Longrightarrow>
     weight cfg retries' + length (zip items outs) \<le> weight cfg items + weight cfg retries"
proof (induction cfg items outs used retries rule: settleWave.induct)
  case (1 cfg job c items out outs used retries)
  let ?r = "if out = FLAKE \<and> c < maxFlakeRetries cfg then retries @ [(job, c + 1)] else retries"
  have "weight cfg ?r \<le> weight cfg retries + (maxFlakeRetries cfg - c)" by auto
  with 1 show ?case by fastforce
qed auto

lemma settleWave_shrinks:
  assumes "settleWave cfg items outs used [] = (used', retries)" and "items \<noteq> []"
  shows "weight cfg retries < weight cfg items"
proof (cases outs)
  case Nil
  then show ?thesis using assms by (cases items) auto
next
  case (Cons out outs')
  then have "0 < length (zip items outs)" using assms(2) by simp
  moreover have "weight cfg [] = 0" by simp
  ultimately show ?thesis using settleWave_weight [OF assms(1)] by linarith
qed

function retryLoop ::
    "GAConfig \<Rightarrow> operation \<Rightarrow> nat \<Rightarrow> (ref \<times> nat) list \<Rightarrow> nat \<Rightarrow> world \<Rightarrow> nat \<times> world" where
  "retryLoop cfg operation budget pending used w =
     (if pending \<noteq> [] \<and> used < budget
      then
        let capacity = min (parallelWorkers cfg) (budget - used);
            (batch, deferred) = takeWave capacity pending [] [] {}
        in if batch = [] then (used, w)
           else
             let (outcomes, w1) = runParallelBatch operation (map fst batch) w;
                 (used1, retries) = settleWave cfg batch outcomes used []
             in retryLoop cfg operation budget (retries @ deferred) used1 w1
      else (used, w))"
  by pat_completeness auto
termination
proof (relation "measure (\<lambda>(cfg, _, _, pending, _). weight cfg pending)")
  fix cfg :: GAConfig and operation :: operation and budget used capacity :: nat and pending and w
    and xx batch deferred and y outcomes w1 and z used1 retries
  assume "xx = takeWave capacity pending [] [] {}" "(batch, deferred) = xx" "batch \<noteq> []"
    "z = settleWave cfg batch outcomes used []" "(used1, retries) = z"
  then have "weight cfg batch + weight cfg deferred = weight cfg pending" "weight cfg retries < weight cfg batch"
    using takeWave_parts [of capacity pending "[]" "[]" "{}" batch deferred cfg]
      settleWave_shrinks [of cfg batch outcomes used used1 retries] by simp_all
  then show "((cfg, operation, budget, retries @ deferred, used1, w1), cfg, operation, budget, pending, used, w)
      \<in> measure (\<lambda>(cfg, _, _, pending, _). weight cfg pending)" by simp
qed simp

declare retryLoop.simps [simp del]

definition runRetryingBatch ::
    "GAConfig \<Rightarrow> operation \<Rightarrow> ref list \<Rightarrow> nat \<Rightarrow> world \<Rightarrow> nat \<times> world" where
  "runRetryingBatch cfg operation jobs attemptBudget w =
     retryLoop cfg operation attemptBudget (map (\<lambda>job. (job, 0)) jobs) 0 w"


section \<open>Waves\<close>

lemma takeWave_spec:
  assumes "takeWave c items batch deferred seen = (batch', deferred')"
    and "distinct (map fst batch)" and "seen = fst ` set batch" and "length batch \<le> c"
  shows "distinct (map fst batch') \<and> length batch' \<le> c \<and> mset batch' + mset deferred' = mset items + mset batch + mset deferred"
  using assms
proof (induction items arbitrary: batch deferred seen)
  case (Cons item items)
  show ?case
  proof (cases "length batch < c \<and> fst item \<notin> seen")
    case True
    have "distinct (map fst batch') \<and> length batch' \<le> c \<and>
        mset batch' + mset deferred' = mset items + mset (batch @ [item]) + mset deferred"
      using True Cons.prems by (intro Cons.IH [of _ _ "insert (fst item) seen"]) auto
    then show ?thesis by simp
  next
    case False
    then have "takeWave c items batch (deferred @ [item]) seen = (batch', deferred')" using Cons.prems(1) by auto
    from Cons.IH [OF this Cons.prems(2-4)] show ?thesis by simp
  qed
qed simp

lemma takeWave_start:
  assumes "takeWave c items [] [] {} = (batch, deferred)"
  shows "distinct (map fst batch) \<and> length batch \<le> c \<and> set batch \<union> set deferred = set items"
proof -
  have s: "distinct (map fst batch) \<and> length batch \<le> c \<and> mset batch + mset deferred = mset items"
    using takeWave_spec [OF assms] by simp
  then have "set batch \<union> set deferred = set items" by (metis set_mset_mset set_mset_union)
  with s show ?thesis by blast
qed

lemma takeWave_prefix:
  "takeWave c items batch deferred seen = (batch', deferred') \<Longrightarrow> \<exists>more. batch' = batch @ more"
  by (induction items arbitrary: batch deferred seen) (fastforce split: if_splits)+

lemma takeWave_nonempty:
  assumes "takeWave c items [] [] {} = (batch, deferred)" and "items \<noteq> []" and "0 < c"
  shows "batch \<noteq> []"
proof -
  obtain item rest where "items = item # rest" using assms(2) by (cases items) auto
  then have "takeWave c rest [item] [] {fst item} = (batch, deferred)" using assms(1,3) by simp
  then show ?thesis using takeWave_prefix by fastforce
qed

definition started :: "AttemptOutcome list \<Rightarrow> nat" where
  "started outs = length (filter (\<lambda>out. out \<noteq> SKIPPED) outs)"

lemma started_simps [simp]:
  "started [] = 0" "started (out # outs) = (if out = SKIPPED then 0 else 1) + started outs"
  by (simp_all add: started_def)

lemma started_le: "started outs \<le> length outs"
  by (simp add: started_def)

lemma settleWave_used:
  "length items = length outs \<Longrightarrow> settleWave cfg items outs used retries = (used', retries') \<Longrightarrow>
     used' = used + started outs \<and> fst ` set retries' \<subseteq> fst ` set retries \<union> fst ` set items"
proof (induction cfg items outs used retries rule: settleWave.induct)
  case (1 cfg job c items out outs used retries)
  then have "used' = (if out \<noteq> SKIPPED then used + 1 else used) + started outs"
    and "fst ` set retries' \<subseteq> fst ` set (if out = FLAKE \<and> c < maxFlakeRetries cfg then retries @ [(job, c + 1)] else retries)
      \<union> fst ` set items" by simp_all
  then show ?case by (auto split: if_splits)
qed auto

text \<open>The loop either stops or runs one wave and goes on with less left to do.\<close>

lemma retryLoop_cases:
  assumes "retryLoop cfg operation budget pending used w = (used', w')"
  obtains "used' = used" and "w' = w" and "pending = [] \<or> budget \<le> used \<or> parallelWorkers cfg = 0"
  | batch deferred outs w1 used1 retries where "used < budget"
      and "takeWave (min (parallelWorkers cfg) (budget - used)) pending [] [] {} = (batch, deferred)"
      and "runParallelBatch operation (map fst batch) w = (outs, w1)"
      and "settleWave cfg batch outs used [] = (used1, retries)"
      and "retryLoop cfg operation budget (retries @ deferred) used1 w1 = (used', w')"
      and "weight cfg (retries @ deferred) < weight cfg pending"
proof -
  let ?c = "min (parallelWorkers cfg) (budget - used)"
  obtain batch deferred where t: "takeWave ?c pending [] [] {} = (batch, deferred)" by fastforce
  obtain outs w1 where b: "runParallelBatch operation (map fst batch) w = (outs, w1)" by fastforce
  obtain used1 retries where st: "settleWave cfg batch outs used [] = (used1, retries)" by fastforce
  note step = assms [unfolded retryLoop.simps [of cfg operation budget pending used w] t b st Let_def prod.case]
  show ?thesis
  proof (cases "pending \<noteq> [] \<and> used < budget \<and> batch \<noteq> []")
    case True
    have "weight cfg batch + weight cfg deferred = weight cfg pending"
      using takeWave_parts [OF t, of cfg] by simp
    then have "weight cfg (retries @ deferred) < weight cfg pending"
      using settleWave_shrinks [OF st] True by simp
    then show ?thesis using that(2) t b st step True by simp
  next
    case False
    then have "pending = [] \<or> budget \<le> used \<or> parallelWorkers cfg = 0"
      using takeWave_nonempty [OF t] by fastforce
    moreover have "used' = used \<and> w' = w" using step False by (auto split: if_splits)
    ultimately show ?thesis using that(1) by blast
  qed
qed

lemma runJobs_length: "runJobs operation rs w = (outs, w') \<Longrightarrow> length outs = length rs"
  by (induction rs arbitrary: w outs) (auto simp: Let_def split: prod.splits)

lemma runParallelBatch_length: "runParallelBatch operation rs w = (outs, w') \<Longrightarrow> length outs = length rs"
  by (auto simp: runParallelBatch_def dest: runJobs_length split: if_splits)

text \<open>Every attempt uses up one of the job's tries, so flakes cannot consume an unbounded budget.\<close>

lemma retryLoop_bounded:
  "retryLoop cfg operation budget pending used w = (used', w') \<Longrightarrow> used' \<le> used + weight cfg pending"
proof (induction "weight cfg pending" arbitrary: pending used w rule: less_induct)
  case less
  show ?case
  proof (cases rule: retryLoop_cases [OF less.prems])
    case (2 batch deferred outs w1 used1 retries)
    have len: "length batch = length outs" using runParallelBatch_length [OF 2(3)] by simp
    have "weight cfg retries + length outs \<le> weight cfg batch" using settleWave_weight [OF 2(4)] len by simp
    moreover have "used1 = used + started outs" using settleWave_used [OF len 2(4)] by simp
    moreover have "weight cfg batch + weight cfg deferred = weight cfg pending"
      using takeWave_parts [OF 2(2), of cfg] by simp
    moreover have "used' \<le> used1 + weight cfg (retries @ deferred)" using less.hyps [OF 2(6,5)] .
    ultimately show ?thesis using started_le [of outs] by simp
  qed simp
qed

lemma runRetryingBatch_bounded:
  assumes "runRetryingBatch cfg operation jobs budget w = (used, w')"
  shows "used \<le> length jobs * (maxFlakeRetries cfg + 1)"
proof -
  have "weight cfg (map (\<lambda>job. (job, 0)) jobs) = length jobs * (maxFlakeRetries cfg + 1)"
    by (induction jobs) (simp_all add: algebra_simps)
  then show ?thesis using retryLoop_bounded [OF assms [unfolded runRetryingBatch_def]] by simp
qed

section \<open>What a batch does to the world\<close>

text \<open>
  \<open>grown I legal rs n w w'\<close>: the world grew from \<open>w\<close> to \<open>w'\<close> by \<open>n\<close> simulator runs on legal layouts;
  only the individuals \<open>rs\<close> changed, their layouts did not, and they keep their invariant.
\<close>

definition grown ::
    "(Individual \<Rightarrow> bool) \<Rightarrow> (Obstacle list \<Rightarrow> bool) \<Rightarrow> ref set \<Rightarrow> nat \<Rightarrow> world \<Rightarrow> world \<Rightarrow> bool" where
  "grown I legal rs n w w' \<longleftrightarrow>
     length (w_heap w') = length (w_heap w) \<and>
     (\<forall>r \<in> rs. I (w_heap w' ! r)) \<and>
     (\<forall>r. r \<notin> rs \<longrightarrow> w_heap w' ! r = w_heap w ! r) \<and>
     (\<forall>r. same_layout (w_heap w ! r) (w_heap w' ! r)) \<and>
     (\<exists>ls. w_trace w' = w_trace w @ ls \<and> length ls = n \<and> (\<forall>l \<in> set ls. legal l))"

lemma same_layout_refl [simp]: "same_layout ind ind"
  by (simp add: same_layout_def)

lemma same_layout_trans: "same_layout a b \<Longrightarrow> same_layout b c \<Longrightarrow> same_layout a c"
  by (simp add: same_layout_def)

lemma grown_refl: "\<forall>r \<in> rs. I (w_heap w ! r) \<Longrightarrow> grown I legal rs 0 w w"
  by (simp add: grown_def)

lemma grown_trans:
  assumes "grown I legal rs n w w1" and "grown I legal rs m w1 w2"
  shows "grown I legal rs (n + m) w w2"
proof -
  obtain ls ls' where "w_trace w1 = w_trace w @ ls" "length ls = n" "\<forall>l \<in> set ls. legal l"
    "w_trace w2 = w_trace w1 @ ls'" "length ls' = m" "\<forall>l \<in> set ls'. legal l"
    using assms unfolding grown_def by blast
  then have "w_trace w2 = w_trace w @ ls @ ls'" "length (ls @ ls') = n + m" "\<forall>l \<in> set (ls @ ls'). legal l" by auto
  moreover have "\<forall>r. same_layout (w_heap w ! r) (w_heap w2 ! r)"
    using assms same_layout_trans unfolding grown_def by blast
  ultimately show ?thesis using assms unfolding grown_def by metis
qed

lemma grown_mono:
  assumes "grown I legal rs n w w'" and "rs \<subseteq> ss" and "\<forall>r \<in> ss. I (w_heap w ! r)"
  shows "grown I legal ss n w w'"
proof -
  have "I (w_heap w' ! r)" if "r \<in> ss" for r
    using assms that unfolding grown_def by metis
  then show ?thesis using assms(1,2) unfolding grown_def by blast
qed

text \<open>
  The interface between a batch and the operation it runs: the operation keeps an invariant of the
  individual and its layout, reports \<open>SKIPPED\<close> exactly when it starts no simulation, and starts one
  only on the individual's own, legal layout.
\<close>

locale attempt_operation =
  fixes operation :: operation and I :: "Individual \<Rightarrow> bool" and legal :: "Obstacle list \<Rightarrow> bool"
  assumes keeps: "operation k ind = (out, lay, ind') \<Longrightarrow> I ind \<Longrightarrow> I ind' \<and> same_layout ind ind'"
    and skipped: "operation k ind = (out, lay, ind') \<Longrightarrow> I ind \<Longrightarrow> out = SKIPPED \<longleftrightarrow> lay = None"
    and simulates: "operation k ind = (out, Some obs, ind') \<Longrightarrow> I ind \<Longrightarrow> obs = ind_obstacles ind \<and> legal obs"
begin

lemma runJob_grown:
  assumes "runJob operation r w = (out, w')" and "r < length (w_heap w)" and "I (w_heap w ! r)"
  shows "grown I legal {r} (if out = SKIPPED then 0 else 1) w w'"
proof -
  obtain lay ind where op: "operation (w_clock w) (w_heap w ! r) = (out, lay, ind)"
    and w': "w' = w\<lparr>w_heap := (w_heap w)[r := ind], w_clock := w_clock w + 1, w_trace := w_trace w @ layoutsOf lay\<rparr>"
    using assms(1) by (auto simp: runJob_def Let_def split: prod.splits)
  have "length (layoutsOf lay) = (if out = SKIPPED then 0 else 1) \<and> (\<forall>l \<in> set (layoutsOf lay). legal l)"
    using skipped [OF op assms(3)] simulates [of "w_clock w" "w_heap w ! r" out _ ind] op assms(3)
    by (cases lay) (auto simp: layoutsOf_def)
  moreover have "same_layout (w_heap w ! s) ((w_heap w)[r := ind] ! s)" for s
    using keeps [OF op assms(3)] assms(2) by (cases "s = r") auto
  ultimately show ?thesis using keeps [OF op assms(3)] assms(2) unfolding w' grown_def by simp
qed

lemma runJobs_grown:
  assumes "runJobs operation rs w = (outs, w')" and "refs_ok (w_heap w) rs" and "\<forall>r \<in> set rs. I (w_heap w ! r)"
  shows "length outs = length rs \<and> grown I legal (set rs) (started outs) w w'"
  using assms
proof (induction rs arbitrary: w outs)
  case (Cons r rs)
  obtain out w1 outs' where j: "runJob operation r w = (out, w1)" "runJobs operation rs w1 = (outs', w')"
    and outs: "outs = out # outs'"
    using Cons.prems(1) by (auto simp: Let_def split: prod.splits)
  have g: "grown I legal (set (r # rs)) (if out = SKIPPED then 0 else 1) w w1"
    by (rule grown_mono [OF runJob_grown [OF j(1)]]) (use Cons.prems in auto)
  have "refs_ok (w_heap w1) rs" using g Cons.prems(2) by (auto simp: grown_def intro: refs_ok_mono)
  moreover have inv: "\<forall>s \<in> set (r # rs). I (w_heap w1 ! s)" using g by (simp add: grown_def)
  ultimately have "length outs' = length rs" "grown I legal (set rs) (started outs') w1 w'"
    using Cons.IH [OF j(2)] by auto
  from this(2) have "grown I legal (set (r # rs)) (started outs') w1 w'"
    by (rule grown_mono) (use inv in auto)
  from grown_trans [OF g this] \<open>length outs' = length rs\<close> show ?case unfolding outs by simp
qed (simp add: grown_refl)

lemma runParallelBatch_grown:
  assumes "runParallelBatch operation rs w = (outs, w')" and "refs_ok (w_heap w) rs" and "\<forall>r \<in> set rs. I (w_heap w ! r)"
  shows "length outs = length rs \<and> grown I legal (set rs) (started outs) w w'"
  using assms runJobs_grown by (auto simp: runParallelBatch_def grown_refl split: if_splits)

text \<open>One wave of the loop, and what the loop may rely on when it goes on.\<close>

lemma wave_grown:
  assumes "used < budget" and "takeWave (min (parallelWorkers cfg) (budget - used)) pending [] [] {} = (batch, deferred)"
    and "runParallelBatch operation (map fst batch) w = (outs, w1)"
    and "settleWave cfg batch outs used [] = (used1, retries)"
    and "refs_ok (w_heap w) (map fst pending)" and "\<forall>r \<in> fst ` set pending. I (w_heap w ! r)"
  obtains "refs_ok (w_heap w) (map fst batch)" and "\<forall>r \<in> set (map fst batch). I (w_heap w ! r)"
    and "grown I legal (fst ` set batch) (started outs) w w1"
    and "grown I legal (fst ` set pending) (started outs) w w1"
    and "used1 = used + started outs" and "used1 \<le> budget"
    and "fst ` set (retries @ deferred) \<subseteq> fst ` set pending"
    and "refs_ok (w_heap w1) (map fst (retries @ deferred))"
    and "\<forall>r \<in> fst ` set (retries @ deferred). I (w_heap w1 ! r)"
    and "\<forall>r \<in> fst ` set pending. I (w_heap w1 ! r)"
proof -
  let ?P = "fst ` set pending"
  note wave = takeWave_start [OF assms(2)]
  have sub: "fst ` set batch \<subseteq> ?P" "fst ` set deferred \<subseteq> ?P" using wave by auto
  have refs: "refs_ok (w_heap w) (map fst batch)"
    by (rule refs_ok_subset [OF assms(5)]) (use sub(1) in simp)
  have inv: "\<forall>r \<in> set (map fst batch). I (w_heap w ! r)" using assms(6) sub(1) by (metis image_set subsetD)
  have len: "length batch = length outs" and g0: "grown I legal (fst ` set batch) (started outs) w w1"
    using runParallelBatch_grown [OF assms(3) refs inv] by simp_all
  have g: "grown I legal ?P (started outs) w w1" by (rule grown_mono [OF g0 sub(1) assms(6)])
  note st = settleWave_used [OF len assms(4)]
  have "fst ` set retries \<subseteq> fst ` set batch" using st by simp
  from subset_trans [OF this sub(1)] have "fst ` set retries \<subseteq> ?P" .
  then have sub1: "fst ` set (retries @ deferred) \<subseteq> ?P" using sub(2) by (simp add: image_Un)
  have "started outs \<le> budget - used" using started_le [of outs] len wave by linarith
  moreover have refs1: "refs_ok (w_heap w1) (map fst (retries @ deferred))"
    using assms(5) sub1 g refs_ok_subset refs_ok_mono by (metis grown_def image_set order_refl)
  moreover have inv1: "\<forall>r \<in> ?P. I (w_heap w1 ! r)" using g by (simp add: grown_def)
  moreover have inv2: "\<forall>r \<in> fst ` set (retries @ deferred). I (w_heap w1 ! r)" using inv1 sub1 by blast
  ultimately show ?thesis
    using that [OF refs inv g0 g _ _ sub1 refs1 inv2 inv1] st assms(1) by simp
qed

lemma retryLoop_grown:
  assumes "retryLoop cfg operation budget pending used w = (used', w')" and "used \<le> budget"
    and "refs_ok (w_heap w) (map fst pending)" and "\<forall>r \<in> fst ` set pending. I (w_heap w ! r)"
  shows "used \<le> used' \<and> used' \<le> budget \<and> grown I legal (fst ` set pending) (used' - used) w w'"
  using assms
proof (induction "weight cfg pending" arbitrary: pending used w rule: less_induct)
  case less
  let ?P = "fst ` set pending"
  show ?case
  proof (cases rule: retryLoop_cases [OF less.prems(1)])
    case 1
    then show ?thesis using less.prems by (simp add: grown_refl)
  next
    case (2 batch deferred outs w1 used1 retries)
    note wave = wave_grown [OF 2(1-4) less.prems(3,4)]
    have g: "grown I legal ?P (started outs) w w1" by (rule wave)
    have used1: "used1 = used + started outs" "used1 \<le> budget" by (rule wave, assumption)+
    have sub1: "fst ` set (retries @ deferred) \<subseteq> ?P" by (rule wave)
    have inv1: "\<forall>r \<in> ?P. I (w_heap w1 ! r)" by (rule wave)
    have refs1: "refs_ok (w_heap w1) (map fst (retries @ deferred))" by (rule wave)
    have invr: "\<forall>r \<in> fst ` set (retries @ deferred). I (w_heap w1 ! r)" by (rule wave)
    have "used1 \<le> used' \<and> used' \<le> budget \<and> grown I legal (fst ` set (retries @ deferred)) (used' - used1) w1 w'"
      by (rule less.hyps [OF 2(6) 2(5) used1(2) refs1 invr])
    then have le: "used1 \<le> used'" "used' \<le> budget" and "grown I legal ?P (used' - used1) w1 w'"
      using grown_mono [OF _ sub1 inv1] by blast+
    from grown_trans [OF g this(3)] show ?thesis using le used1 by simp
  qed
qed

lemma runRetryingBatch_grown:
  assumes "runRetryingBatch cfg operation jobs budget w = (used, w')"
    and "refs_ok (w_heap w) jobs" and "\<forall>r \<in> set jobs. I (w_heap w ! r)"
  shows "used \<le> budget \<and> grown I legal (set jobs) used w w'"
  using retryLoop_grown [of cfg budget "map (\<lambda>job. (job, 0)) jobs" 0 w used w'] assms
  by (simp add: runRetryingBatch_def image_image comp_def)

end


text \<open>
  A stronger contract, for operations that leave a mark on every individual they try: the mark is a
  transitive relation between the individual before and after. Then a batch that ends with budget
  left has tried every job.
\<close>

locale marking_operation = attempt_operation +
  fixes tried :: "Individual \<Rightarrow> Individual \<Rightarrow> bool"
  assumes marks: "operation k ind = (out, lay, ind') \<Longrightarrow> I ind \<Longrightarrow> tried ind ind'"
    and tried_trans: "tried a b \<Longrightarrow> tried b c \<Longrightarrow> tried a c"
begin

lemma runJobs_tried:
  assumes "runJobs operation rs w = (outs, w')" and "refs_ok (w_heap w) rs" and "\<forall>r \<in> set rs. I (w_heap w ! r)"
    and "distinct rs" and "r \<in> set rs"
  shows "tried (w_heap w ! r) (w_heap w' ! r)"
  using assms
proof (induction rs arbitrary: w outs)
  case (Cons s rs)
  obtain out w1 outs' where j: "runJob operation s w = (out, w1)" "runJobs operation rs w1 = (outs', w')"
    using Cons.prems(1) by (auto simp: Let_def split: prod.splits)
  have g: "grown I legal {s} (if out = SKIPPED then 0 else 1) w w1"
    using runJob_grown [OF j(1)] Cons.prems(2,3) by simp
  then have same: "w_heap w1 ! q = w_heap w ! q" if "q \<noteq> s" for q using that by (simp add: grown_def)
  have rest: "refs_ok (w_heap w1) rs" "\<forall>q \<in> set rs. I (w_heap w1 ! q)"
    using g Cons.prems(2,3,4) same by (auto simp: grown_def refs_ok_def) metis
  show ?case
  proof (cases "r = s")
    case True
    have "grown I legal (set rs) (started outs') w1 w'" using runJobs_grown [OF j(2) rest] by simp
    then have "w_heap w' ! s = w_heap w1 ! s" using Cons.prems(4) by (simp add: grown_def)
    moreover have "tried (w_heap w ! s) (w_heap w1 ! s)"
      using j(1) Cons.prems(2,3) marks by (auto simp: runJob_def Let_def split: prod.splits)
    ultimately show ?thesis using True by simp
  next
    case False
    then show ?thesis using Cons.IH [OF j(2) rest] Cons.prems(4,5) same [OF False] by simp
  qed
qed simp

lemma retryLoop_tried:
  assumes "retryLoop cfg operation budget pending used w = (used', w')" and "used' < budget"
    and "0 < parallelWorkers cfg" and "used \<le> budget"
    and "refs_ok (w_heap w) (map fst pending)" and "\<forall>r \<in> fst ` set pending. I (w_heap w ! r)"
    and "r \<in> fst ` set pending"
  shows "tried (w_heap w ! r) (w_heap w' ! r)"
  using assms
proof (induction "weight cfg pending" arbitrary: pending used w rule: less_induct)
  case less
  show ?case
  proof (cases rule: retryLoop_cases [OF less.prems(1)])
    case 1
    then show ?thesis using less.prems(2,3,7) by auto
  next
    case (2 batch deferred outs w1 used1 retries)
    note wave = wave_grown [OF 2(1-4) less.prems(5,6)]
    have used1: "used1 \<le> budget" by (rule wave)
    have refs1: "refs_ok (w_heap w1) (map fst (retries @ deferred))" by (rule wave)
    have inv1: "\<forall>r \<in> fst ` set (retries @ deferred). I (w_heap w1 ! r)" by (rule wave)
    have later: "tried (w_heap w1 ! r) (w_heap w' ! r)" if "r \<in> fst ` set (retries @ deferred)"
      by (rule less.hyps [OF 2(6) 2(5) less.prems(2,3) used1 refs1 inv1 that])
    have fin: "w_heap w' ! r = w_heap w1 ! r" if "r \<notin> fst ` set (retries @ deferred)"
      using retryLoop_grown [OF 2(5) used1 refs1 inv1] that by (simp add: grown_def)
    have start: "distinct (map fst batch)" "fst ` set pending = fst ` set batch \<union> fst ` set deferred"
      using takeWave_start [OF 2(2)] by (auto simp flip: image_Un)
    show ?thesis
    proof (cases "r \<in> fst ` set batch")
      case True
      then have run: "runJobs operation (map fst batch) w = (outs, w1)"
        using 2(3) by (auto simp: runParallelBatch_def split: if_splits)
      have "tried (w_heap w ! r) (w_heap w1 ! r)"
        by (rule wave, rule runJobs_tried [OF run _ _ start(1)]) (use True in auto)
      then show ?thesis using later fin tried_trans by metis
    next
      case False
      then have "r \<in> fst ` set (retries @ deferred)" using start(2) less.prems(7) by auto
      moreover have "grown I legal (fst ` set batch) (started outs) w w1" by (rule wave)
      then have "w_heap w1 ! r = w_heap w ! r" using False by (simp add: grown_def)
      ultimately show ?thesis using later by simp
    qed
  qed
qed

lemma runRetryingBatch_tried:
  assumes "runRetryingBatch cfg operation jobs budget w = (used, w')" and "used < budget"
    and "0 < parallelWorkers cfg" and "refs_ok (w_heap w) jobs" and "\<forall>r \<in> set jobs. I (w_heap w ! r)"
    and "r \<in> set jobs"
  shows "tried (w_heap w ! r) (w_heap w' ! r)"
  using retryLoop_tried [of cfg budget "map (\<lambda>job. (job, 0)) jobs" 0 w used w' r] assms
  by (simp add: runRetryingBatch_def image_image comp_def)

end

text \<open>Evaluation and rerun meet the contracts.\<close>

definition attempted :: "Individual \<Rightarrow> Individual \<Rightarrow> bool" where
  "attempted ind ind' \<longleftrightarrow> (ind_illegal ind \<longrightarrow> ind_illegal ind') \<and>
     (ind_illegal ind' \<or> ind_attempts ind < ind_attempts ind')"

lemma evaluate_attempted:
  assumes "evaluate isolated cfg g killAfter sim k ind = (out, lay, ind')" and "ind_scored cfg g ind"
  shows "attempted ind ind'"
proof (cases "layout_legal (placementBounds cfg) (ind_obstacles ind)")
  case True
  have ok: "ind_ok cfg g ind" using assms(2) by (simp add: ind_scored_def)
  show ?thesis
    by (cases rule: evaluate_cases [OF ok True, of isolated killAfter sim k])
      (use assms(1) in \<open>auto simp: attempted_def\<close>)
next
  case False
  then show ?thesis using assms evaluate_illegal by (auto simp: attempted_def)
qed

interpretation evaluation: marking_operation "evaluate isolated cfg goal killAfter sim" "ind_scored cfg goal"
    "layout_legal (placementBounds cfg)" attempted
  for isolated cfg goal killAfter sim
  by unfold_locales (use evaluate_keeps evaluate_attempted in \<open>blast+, auto simp: attempted_def\<close>)

interpretation rerunning: attempt_operation "rerun isolated cfg goal killAfter sim" "ind_rerunnable cfg goal"
    "layout_legal (placementBounds cfg)"
  for isolated cfg goal killAfter sim
  by unfold_locales (use rerun_keeps in blast)+


section \<open>The thread pool\<close>

text \<open>
  The pool runs the submitted jobs, numbered in the order of submission, in some order of its own;
  each operation runs to its end on the individual it owns, and its result is stored under its number.
\<close>

fun runOrder :: "operation \<Rightarrow> nat \<Rightarrow> (nat \<times> ref) list \<Rightarrow> heap \<Rightarrow> (nat \<times> AttemptOutcome) list \<times> heap" where
  "runOrder operation base [] h = ([], h)"
| "runOrder operation base ((i, r) # rest) h =
     (let (out, _, ind) = operation (base + i) (h ! r);
          (results, h2) = runOrder operation base rest (h[r := ind])
      in ((i, out) # results, h2))"

definition completed :: "nat \<Rightarrow> (nat \<times> AttemptOutcome) list \<Rightarrow> AttemptOutcome list" where
  "completed n results = map (\<lambda>i. the (map_of results i)) [0..<n]"

lemma runOrder_spec:
  assumes "runOrder op base order h = (results, h')" and "distinct (map snd order)"
    and "\<forall>r \<in> snd ` set order. r < length h"
  shows "map fst results = map fst order \<and> length h' = length h \<and>
    (\<forall>(i, r) \<in> set order. (i, fst (op (base + i) (h ! r))) \<in> set results \<and> h' ! r = snd (snd (op (base + i) (h ! r)))) \<and>
    (\<forall>r. r \<notin> snd ` set order \<longrightarrow> h' ! r = h ! r)"
  using assms
proof (induction op base order h arbitrary: results h' rule: runOrder.induct)
  case (2 op base i r rest h)
  obtain out lay ind where o: "op (base + i) (h ! r) = (out, lay, ind)" by (metis prod_cases3)
  obtain results2 where rest: "runOrder op base rest (h[r := ind]) = (results2, h')"
    and results: "results = (i, out) # results2"
    using "2.prems"(1) o by (auto simp: Let_def split: prod.splits)
  have rl: "r < length h" and nr: "r \<notin> snd ` set rest" using "2.prems"(2,3) by auto
  have ih: "map fst results2 = map fst rest \<and> length h' = length (h[r := ind]) \<and>
    (\<forall>(j, q) \<in> set rest. (j, fst (op (base + j) (h[r := ind] ! q))) \<in> set results2 \<and>
       h' ! q = snd (snd (op (base + j) (h[r := ind] ! q)))) \<and>
    (\<forall>q. q \<notin> snd ` set rest \<longrightarrow> h' ! q = h[r := ind] ! q)"
    using "2.IH" [OF o [symmetric] refl refl rest] "2.prems"(2,3) by simp
  have same: "h[r := ind] ! q = h ! q" if "(j, q) \<in> set rest" for j q
    using that nr by (metis image_eqI nth_list_update_neq snd_conv)
  have "\<forall>(j, q) \<in> set rest. (j, fst (op (base + j) (h ! q))) \<in> set results2 \<and> h' ! q = snd (snd (op (base + j) (h ! q)))"
    using ih same by (metis (no_types, lifting) case_prodD case_prodI2)
  then show ?case using ih nr rl o results by auto
qed simp

lemma runJobs_spec:
  assumes "runJobs op rs w = (outs, w')" and "distinct rs" and "refs_ok (w_heap w) rs"
  shows "length outs = length rs \<and> length (w_heap w') = length (w_heap w) \<and>
    (\<forall>i < length rs. outs ! i = fst (op (w_clock w + i) (w_heap w ! (rs ! i))) \<and>
       w_heap w' ! (rs ! i) = snd (snd (op (w_clock w + i) (w_heap w ! (rs ! i))))) \<and>
    (\<forall>r. r \<notin> set rs \<longrightarrow> w_heap w' ! r = w_heap w ! r)"
  using assms
proof (induction rs arbitrary: w outs)
  case (Cons r rs)
  obtain out lay ind where o: "op (w_clock w) (w_heap w ! r) = (out, lay, ind)" by (metis prod_cases3)
  define w1 where "w1 = w\<lparr>w_heap := (w_heap w)[r := ind], w_clock := w_clock w + 1, w_trace := w_trace w @ layoutsOf lay\<rparr>"
  obtain outs2 where rest: "runJobs op rs w1 = (outs2, w')" and outs: "outs = out # outs2"
    using Cons.prems(1) o by (auto simp: runJob_def Let_def w1_def split: prod.splits)
  have "refs_ok (w_heap w1) rs" using Cons.prems(3) by (auto simp: w1_def refs_ok_def)
  then have ih: "length outs2 = length rs" "length (w_heap w') = length (w_heap w1)"
    "\<And>i. i < length rs \<Longrightarrow> outs2 ! i = fst (op (w_clock w1 + i) (w_heap w1 ! (rs ! i))) \<and>
       w_heap w' ! (rs ! i) = snd (snd (op (w_clock w1 + i) (w_heap w1 ! (rs ! i))))"
    "\<And>q. q \<notin> set rs \<Longrightarrow> w_heap w' ! q = w_heap w1 ! q"
    using Cons.IH [OF rest] Cons.prems(2) by auto
  have "rs ! i \<noteq> r" if "i < length rs" for i using that Cons.prems(2) nth_mem by fastforce
  then have same: "(w_heap w)[r := ind] ! (rs ! i) = w_heap w ! (rs ! i)" if "i < length rs" for i
    using that by (metis nth_list_update_neq)
  have "outs ! i = fst (op (w_clock w + i) (w_heap w ! ((r # rs) ! i))) \<and>
       w_heap w' ! ((r # rs) ! i) = snd (snd (op (w_clock w + i) (w_heap w ! ((r # rs) ! i))))"
    if "i < length (r # rs)" for i
    using that ih(3) [of "i - 1"] ih(4) [of r] o Cons.prems(2,3) outs by (cases i) (simp_all add: w1_def same)
  then show ?case using ih outs by (auto simp: w1_def)
qed simp

section \<open>Properties\<close>

text \<open>
  C4. Running a wave in parallel changes nothing: whatever order the thread pool runs the jobs of a
  wave in, the results collected in submission order and the individuals afterwards are those of
  running the jobs one after the other, because no two jobs of a wave share an individual.
\<close>

theorem pool_order_irrelevant:
  assumes "distinct rs" and "refs_ok (w_heap w) rs" and "mset order = mset (zip [0..<length rs] rs)"
    and "runOrder operation (w_clock w) order (w_heap w) = (results, h')"
    and "runParallelBatch operation rs w = (outs, w')"
  shows "completed (length rs) results = outs \<and> h' = w_heap w'"
proof -
  let ?n = "length rs" and ?e = "\<lambda>i. operation (w_clock w + i) (w_heap w ! (rs ! i))"
  have so: "set order = set (zip [0..<?n] rs)" using assms(3) by (metis set_mset_mset)
  have ms: "mset (map snd order) = mset rs" "mset (map fst order) = mset [0..<?n]"
    using arg_cong [OF assms(3), of "image_mset snd"] arg_cong [OF assms(3), of "image_mset fst"]
    by (simp_all flip: mset_map del: mset_upt)
  then have d: "distinct (map snd order)" "distinct (map fst order)" "snd ` set order = set rs"
    using assms(1) by (metis mset_eq_imp_distinct_iff, metis distinct_upt mset_eq_imp_distinct_iff, metis image_set set_mset_mset)
  have "\<forall>r \<in> snd ` set order. r < length (w_heap w)" using d(3) assms(2) by (simp add: refs_ok_def)
  note o = runOrder_spec [OF assms(4) d(1) this]
  have mem: "(i, rs ! i) \<in> set order" if "i < ?n" for i
    using that so by (auto simp: in_set_zip intro!: exI [of _ i])
  have res: "map_of results i = Some (fst (?e i))" "h' ! (rs ! i) = snd (snd (?e i))" if "i < ?n" for i
    using o mem [OF that] d(2) map_of_is_SomeI [of results i "fst (?e i)"] by fastforce+
  have jobs: "runJobs operation rs w = (outs, w')" using assms(5) by (cases rs) (auto simp: runParallelBatch_def)
  note j = runJobs_spec [OF jobs assms(1,2)]
  have "completed ?n results = outs" using j res(1) by (intro nth_equalityI) (auto simp: completed_def)
  moreover have "h' = w_heap w'"
  proof (rule nth_equalityI)
    fix r assume "r < length h'"
    then show "h' ! r = w_heap w' ! r"
      using o j res(2) d(3) by (cases "r \<in> set rs") (auto simp: in_set_conv_nth)
  qed (use o j in simp)
  ultimately show ?thesis by blast
qed


definition sampleWorld :: world where
  "sampleWorld = \<lparr>w_heap = [newIndividual [sampleBox] None False, newIndividual [sampleBox] None False],
     w_clock = 0, w_trace = []\<rparr>"

abbreviation sampleEvaluate :: operation where
  "sampleEvaluate \<equiv> evaluate True defaultConfig (Some (10, 20)) 300 sampleSim"

lemma sampleWorld_ok:
  "refs_ok (w_heap sampleWorld) [0, 1]" "\<forall>r \<in> set [0, 1]. ind_scored defaultConfig goal (w_heap sampleWorld ! r)"
  by (simp_all add: sampleWorld_def newIndividual_scored)

theorem pool_order_irrelevant_witness:
  "completed 2 (fst (runOrder sampleEvaluate 0 [(1, 1), (0, 0)] (w_heap sampleWorld))) =
     fst (runParallelBatch sampleEvaluate [0, 1] sampleWorld)"
proof -
  have "mset [(1, 1), (0, 0)] = mset (zip [0..<length [0, 1 :: ref]] [0, 1 :: ref])" by (simp add: upt_rec)
  from pool_order_irrelevant [OF _ sampleWorld_ok(1) this, of sampleEvaluate]
  have "completed (length [0, 1 :: ref]) (fst (runOrder sampleEvaluate (w_clock sampleWorld) [(1, 1), (0, 0)] (w_heap sampleWorld))) =
      fst (runParallelBatch sampleEvaluate [0, 1] sampleWorld)"
    by (metis distinct_length_2_or_more distinct_singleton prod.collapse zero_neq_one)
  then show ?thesis by (simp add: sampleWorld_def numeral_2_eq_2)
qed

text \<open>
  C5. A batch of evaluations keeps its ledger: the number it returns is at most the budget and is exactly
  the number of simulations it started, every one of them on a legal layout, and no job is simulated
  more than once plus the allowed flake retries; it touches no other individual and no layout, and
  leaves every job scored on all its runs.
\<close>

theorem evaluation_batch_ledger:
  assumes "runRetryingBatch cfg (evaluate isolated cfg goal killAfter sim) jobs budget w = (used, w')"
    and "refs_ok (w_heap w) jobs" and "\<forall>r \<in> set jobs. ind_scored cfg goal (w_heap w ! r)"
  shows "used \<le> budget \<and> used \<le> length jobs * (maxFlakeRetries cfg + 1) \<and>
    (\<exists>layouts. w_trace w' = w_trace w @ layouts \<and> length layouts = used \<and>
       (\<forall>l \<in> set layouts. layout_legal (placementBounds cfg) l)) \<and>
    (\<forall>r. r \<notin> set jobs \<longrightarrow> w_heap w' ! r = w_heap w ! r) \<and>
    (\<forall>r \<in> set jobs. ind_scored cfg goal (w_heap w' ! r) \<and> ind_obstacles (w_heap w' ! r) = ind_obstacles (w_heap w ! r))"
  using evaluation.runRetryingBatch_grown [OF assms] runRetryingBatch_bounded [OF assms(1)] by (simp add: grown_def same_layout_def)

theorem evaluation_batch_ledger_witness:
  "fst (runRetryingBatch defaultConfig sampleEvaluate [0, 1] 5 sampleWorld) \<le> 5 \<and>
   length (w_trace (snd (runRetryingBatch defaultConfig sampleEvaluate [0, 1] 5 sampleWorld))) =
     fst (runRetryingBatch defaultConfig sampleEvaluate [0, 1] 5 sampleWorld)"
proof -
  obtain used w' where r: "runRetryingBatch defaultConfig sampleEvaluate [0, 1] 5 sampleWorld = (used, w')" by fastforce
  from evaluation_batch_ledger [OF r sampleWorld_ok] r show ?thesis by (auto simp: sampleWorld_def)
qed

text \<open>
  C6. No job starves: when a batch of evaluations ends with budget left, every job was tried, so its
  individual has one more attempt on record or turned out to be illegal.
\<close>

theorem evaluation_batch_tries_all:
  assumes "runRetryingBatch cfg (evaluate isolated cfg goal killAfter sim) jobs budget w = (used, w')"
    and "used < budget" and "0 < parallelWorkers cfg"
    and "refs_ok (w_heap w) jobs" and "\<forall>r \<in> set jobs. ind_scored cfg goal (w_heap w ! r)"
  shows "\<forall>r \<in> set jobs. ind_illegal (w_heap w' ! r) \<or> ind_attempts (w_heap w ! r) < ind_attempts (w_heap w' ! r)"
  using evaluation.runRetryingBatch_tried [OF assms] by (simp add: attempted_def)

theorem evaluation_batch_tries_all_witness:
  "ind_illegal (w_heap (snd (runRetryingBatch defaultConfig sampleEvaluate [0] 5 sampleWorld)) ! 0) \<or>
     0 < ind_attempts (w_heap (snd (runRetryingBatch defaultConfig sampleEvaluate [0] 5 sampleWorld)) ! 0)"
proof -
  obtain used w' where r: "runRetryingBatch defaultConfig sampleEvaluate [0] 5 sampleWorld = (used, w')" by fastforce
  have "used < 5" using runRetryingBatch_bounded [OF r] by (simp add: defaultConfig_def)
  from evaluation_batch_tries_all [OF r this] sampleWorld_ok r show ?thesis
    by (simp add: defaultConfig_def sampleWorld_def newIndividual_def)
qed

text \<open>
  A batch of reruns keeps the same ledger: at most the budget, one simulation of a legal layout per
  attempt counted, every rerun individual still valid with consistent runs, no other one touched.
\<close>

theorem rerun_batch_ledger:
  assumes "runRetryingBatch cfg (rerun isolated cfg goal killAfter sim) jobs budget w = (used, w')"
    and "refs_ok (w_heap w) jobs" and "\<forall>r \<in> set jobs. ind_rerunnable cfg goal (w_heap w ! r)"
  shows "used \<le> budget \<and>
    (\<exists>layouts. w_trace w' = w_trace w @ layouts \<and> length layouts = used \<and>
       (\<forall>l \<in> set layouts. layout_legal (placementBounds cfg) l)) \<and>
    (\<forall>r. r \<notin> set jobs \<longrightarrow> w_heap w' ! r = w_heap w ! r) \<and>
    (\<forall>r \<in> set jobs. ind_rerunnable cfg goal (w_heap w' ! r) \<and> ind_obstacles (w_heap w' ! r) = ind_obstacles (w_heap w ! r))"
  using rerunning.runRetryingBatch_grown [OF assms] by (simp add: grown_def same_layout_def)

theorem rerun_batch_ledger_witness:
  "fst (runRetryingBatch defaultConfig (rerun True defaultConfig (Some (10, 20)) 300 sampleSim) [0, 0] 5
     \<lparr>w_heap = [sampleMeasured], w_clock = 0, w_trace = []\<rparr>) \<le> 5"
proof -
  let ?w = "\<lparr>w_heap = [sampleMeasured], w_clock = 0, w_trace = []\<rparr>"
  obtain used w' where r: "runRetryingBatch defaultConfig (rerun True defaultConfig (Some (10, 20)) 300 sampleSim) [0, 0] 5 ?w = (used, w')"
    by fastforce
  from rerun_batch_ledger [OF r] sampleMeasured_ok r show ?thesis by simp
qed

text \<open>
  A wave is well formed: it runs pairwise different individuals, no more of them than there are
  workers or budget, loses and invents no job, and takes the first pending job whenever there is room.
\<close>

theorem takeWave_correct:
  assumes "takeWave capacity pending [] [] {} = (batch, deferred)"
  shows "distinct (map fst batch) \<and> length batch \<le> capacity \<and> mset (batch @ deferred) = mset pending \<and>
    (0 < capacity \<longrightarrow> pending \<noteq> [] \<longrightarrow> batch \<noteq> [])"
  using takeWave_spec [OF assms] takeWave_nonempty [OF assms] by simp

theorem takeWave_correct_witness:
  "takeWave 2 [(3, 0), (3, 0), (5, 1), (6, 0)] [] [] {} = ([(3, 0), (5, 1)], [(3, 0), (6, 0)]) \<and>
   distinct (map fst [(3 :: ref, 0 :: nat), (5, 1)]) \<and>
   mset ([(3, 0), (5, 1)] @ [(3, 0), (6, 0)]) = mset [(3 :: ref, 0 :: nat), (3, 0), (5, 1), (6, 0)]"
  using takeWave_correct [of 2 "[(3, 0), (3, 0), (5, 1), (6, 0)]" "[(3, 0), (5, 1)]" "[(3, 0), (6, 0)]"]
  by (simp add: numeral_2_eq_2)

end
