(* ===== verification/Suite.thy ===== *)
theory Suite
  imports Individuals "HOL-Library.Multiset"
begin

text \<open>
  \<open>suite.py\<close>: which tests are submitted. Trajectories are resampled and compared point by point,
  candidates are ranked by official score, and a greedy pass keeps those whose flights are far
  enough from every flight already kept, relaxing the threshold while the suite is not full. The
  functions that compare objects by identity take the heap and work on references.
\<close>

section \<open>Trajectories\<close>

definition RESAMPLE_POINTS :: nat where "RESAMPLE_POINTS = 50"
definition DEFAULT_THRESHOLD_M :: real where "DEFAULT_THRESHOLD_M = 3"
definition MIN_THRESHOLD_M :: real where "MIN_THRESHOLD_M = 1/10"

definition trajectoryPoints :: "trajectory \<Rightarrow> Point list" where
  "trajectoryPoints t = (case t of None \<Rightarrow> [] | Some ps \<Rightarrow> map (\<lambda>p. (p_x p, p_y p)) ps)"

fun cumulativeFrom :: "real \<Rightarrow> Point list \<Rightarrow> real list" where
  "cumulativeFrom acc (p # q # ps) = acc # cumulativeFrom (acc + pdist p q) (q # ps)"
| "cumulativeFrom acc ps = [acc]"

function advance :: "Point list \<Rightarrow> real list \<Rightarrow> real \<Rightarrow> nat \<Rightarrow> nat" where
  "advance points cumulative target segment =
     (if segment + 2 < length points \<and> cumulative ! (segment + 1) < target
      then advance points cumulative target (segment + 1)
      else segment)"
  by pat_completeness auto
termination
  by (relation "measure (\<lambda>(points, cumulative, target, segment). length points - segment)") auto

declare advance.simps [simp del]

fun resampleLoop :: "Point list \<Rightarrow> real list \<Rightarrow> real \<Rightarrow> nat \<Rightarrow> nat list \<Rightarrow> nat \<Rightarrow> Point list" where
  "resampleLoop points cumulative pathLen n [] segment = []"
| "resampleLoop points cumulative pathLen n (k # ks) segment =
     (let target = pathLen * real k / real (n - 1);
          segment' = advance points cumulative target segment;
          p = points ! segment'; q = points ! (segment' + 1);
          span = cumulative ! (segment' + 1) - cumulative ! segment';
          f = (if span > 0 then (target - cumulative ! segment') / span else 0)
      in (fst p + f * (fst q - fst p), snd p + f * (snd q - snd p)) #
           resampleLoop points cumulative pathLen n ks segment')"

text \<open>\<open>n\<close> is at least two at every call: the source only uses the default of fifty points.\<close>

definition resampleN :: "nat \<Rightarrow> Point list \<Rightarrow> Point list" where
  "resampleN n points =
     (if points = [] then []
      else if length points = 1 then replicate n (points ! 0)
      else let cumulative = cumulativeFrom 0 points; pathLen = last cumulative
           in if pathLen \<le> 0 then replicate n (points ! 0)
              else resampleLoop points cumulative pathLen n [0..<n] 0)"

definition resample :: "Point list \<Rightarrow> Point list" where
  "resample points = resampleN RESAMPLE_POINTS points"

text \<open>The resampled runs of an individual that recorded any position.\<close>

definition resampledRuns :: "Individual \<Rightarrow> Point list list" where
  "resampledRuns ind =
     filter (\<lambda>run. run \<noteq> []) (map (\<lambda>t. resample (trajectoryPoints t)) (ind_trajectories ind))"

definition meanTrajectory :: "Individual \<Rightarrow> Point list" where
  "meanTrajectory ind =
     (let runs = resampledRuns ind
      in if runs = [] then []
         else map (\<lambda>k. (fmean (map (\<lambda>run. fst (run ! k)) runs), fmean (map (\<lambda>run. snd (run ! k)) runs)))
           [0..<RESAMPLE_POINTS])"

definition trajectoryDistance :: "Point list \<Rightarrow> Point list \<Rightarrow> pyfloat" where
  "trajectoryDistance ps qs =
     (if ps = [] \<or> qs = [] then Inf else Fin (fmean (map (\<lambda>(p, q). pdist p q) (zip ps qs))))"

section \<open>The threshold\<close>

fun unFin :: "pyfloat \<Rightarrow> real" where
  "unFin (Fin v) = v"
| "unFin Inf = 0"

fun pairDistances :: "Point list list \<Rightarrow> pyfloat list" where
  "pairDistances [] = []"
| "pairDistances (run # runs) = map (trajectoryDistance run) runs @ pairDistances runs"

definition median :: "real list \<Rightarrow> real" where
  "median vs =
     (let s = sort vs; n = length vs
      in if odd n then s ! (n div 2) else (s ! (n div 2 - 1) + s ! (n div 2)) / 2)"

text \<open>
  The spreads are distances between non-empty resampled runs, so they are finite
  (\<open>spreads_finite\<close> below) and the threshold is a number.
\<close>

definition calibrateThreshold :: "heap \<Rightarrow> ref list \<Rightarrow> real" where
  "calibrateThreshold h evaluated =
     (let spreads = concat (map (\<lambda>r. pairDistances (resampledRuns (h ! r))) evaluated)
      in if spreads = [] then DEFAULT_THRESHOLD_M else median (map unFin spreads))"

section \<open>Ranking and selection\<close>

definition layoutSignature :: "Individual \<Rightarrow> (real \<times> real \<times> real \<times> real \<times> real \<times> real \<times> real) list" where
  "layoutSignature ind =
     sort (map (\<lambda>ob. (o_l ob, o_w ob, o_h ob, o_x ob, o_y ob, o_z ob, o_r ob)) (ind_obstacles ind))"

definition officialRank :: "Individual \<Rightarrow> real \<times> pyfloat" where
  "officialRank ind = (- ind_officialScore ind, meanOrInf (ind_distances ind))"

definition frameOf :: "Individual \<Rightarrow> (nat \<times> int) option" where
  "frameOf ind = map_option (\<lambda>g. (g_segment g, g_side g)) (ind_genes ind)"

fun greedyLoop ::
    "heap \<Rightarrow> nat \<Rightarrow> real \<Rightarrow> nat \<Rightarrow> ref list \<Rightarrow> ref list \<Rightarrow> Point list list \<Rightarrow> ((nat \<times> int) option \<Rightarrow> nat) \<Rightarrow> ref list" where
  "greedyLoop h k threshold mpf [] selected paths perFrame = selected"
| "greedyLoop h k threshold mpf (r # ranked) selected paths perFrame =
     (if length selected \<ge> k then selected
      else let fr = frameOf (h ! r)
           in if mpf \<noteq> 0 \<and> perFrame fr \<ge> mpf then greedyLoop h k threshold mpf ranked selected paths perFrame
              else let path = meanTrajectory (h ! r)
                   in if \<forall>other \<in> set paths. trajectoryDistance path other \<ge> Fin threshold
                      then greedyLoop h k threshold mpf ranked (selected @ [r]) (paths @ [path])
                             (perFrame(fr := perFrame fr + 1))
                      else greedyLoop h k threshold mpf ranked selected paths perFrame)"

definition greedyFill :: "heap \<Rightarrow> ref list \<Rightarrow> nat \<Rightarrow> real \<Rightarrow> nat \<Rightarrow> ref list" where
  "greedyFill h ranked k threshold mpf = greedyLoop h k threshold mpf ranked [] [] (\<lambda>_. 0)"

definition fillableCount :: "heap \<Rightarrow> ref list \<Rightarrow> nat \<Rightarrow> nat \<Rightarrow> nat" where
  "fillableCount h ranked k mpf =
     (if mpf = 0 then min k (length ranked)
      else let frames = map (\<lambda>r. frameOf (h ! r)) ranked
           in min k (sum_list (map (\<lambda>fr. min mpf (count_list frames fr)) (remdups frames))))"

text \<open>The filter of \<open>selectSuite\<close>: eligible layouts, first of each geometry.\<close>

definition eligible :: "Individual \<Rightarrow> bool" where
  "eligible ind \<longleftrightarrow> ind_valid ind \<and> \<not> ind_stuck ind \<and> ind_officialScore ind > 0"

fun dedupe :: "heap \<Rightarrow> ref list \<Rightarrow> (real \<times> real \<times> real \<times> real \<times> real \<times> real \<times> real) list set \<Rightarrow> ref list" where
  "dedupe h [] seen = []"
| "dedupe h (r # rs) seen =
     (if \<not> eligible (h ! r) then dedupe h rs seen
      else let signature = layoutSignature (h ! r)
           in if signature \<in> seen then dedupe h rs seen
              else r # dedupe h rs (insert signature seen))"

definition rankCandidates :: "GAConfig \<Rightarrow> heap \<Rightarrow> ref list \<Rightarrow> ref list" where
  "rankCandidates cfg h evaluated =
     (let ranked = dedupe h (sort_key (\<lambda>r. officialRank (h ! r)) evaluated) {}
      in if keepBestGate cfg
         then (case filter (\<lambda>r. length (ind_obstacles (h ! r)) = 2) ranked of
                 [] \<Rightarrow> ranked
               | g # _ \<Rightarrow> g # remove1 g ranked)
         else ranked)"

lemma halving_shrinks:
  fixes v :: real
  assumes "1 < v"
  shows "nat \<lceil>v / 2\<rceil> < nat \<lceil>v\<rceil>"
proof -
  have "of_int \<lceil>v / 2\<rceil> < v"
  proof (cases "v \<le> 2")
    case True
    then have "\<lceil>v / 2\<rceil> \<le> 1" by (simp add: ceiling_le_iff)
    then have "real_of_int \<lceil>v / 2\<rceil> \<le> 1" by simp
    then show ?thesis using assms by linarith
  next
    case False
    have "of_int \<lceil>v / 2\<rceil> < v / 2 + 1" by linarith
    then show ?thesis using False by linarith
  qed
  then have "\<lceil>v / 2\<rceil> < \<lceil>v\<rceil>" by (simp add: less_ceiling_iff)
  moreover have "0 < \<lceil>v\<rceil>" using assms by simp
  ultimately show ?thesis by linarith
qed

function relaxLoop :: "GAConfig \<Rightarrow> heap \<Rightarrow> ref list \<Rightarrow> nat \<Rightarrow> real \<Rightarrow> ref list \<times> real" where
  "relaxLoop cfg h ranked wanted threshold =
     (let suite = greedyFill h ranked (topK cfg) threshold (maxPerFrame cfg)
      in if length suite \<ge> wanted \<or> threshold \<le> MIN_THRESHOLD_M \<or> \<not> relaxSimilarity cfg
         then (sort_key (\<lambda>r. officialRank (h ! r)) suite, threshold)
         else relaxLoop cfg h ranked wanted (threshold * (1/2)))"
  by pat_completeness auto
termination
proof (relation "measure (\<lambda>(cfg, h, ranked, wanted, threshold). nat \<lceil>10 * threshold\<rceil>)", simp)
  fix cfg :: GAConfig and h :: heap and ranked :: "ref list" and wanted :: nat and threshold :: real
    and suite :: "ref list"
  assume "\<not> (wanted \<le> length suite \<or> threshold \<le> MIN_THRESHOLD_M \<or> \<not> relaxSimilarity cfg)"
  then have "1 < 10 * threshold" by (simp add: MIN_THRESHOLD_M_def)
  from halving_shrinks [OF this]
  show "((cfg, h, ranked, wanted, threshold * (1/2)), cfg, h, ranked, wanted, threshold)
    \<in> measure (\<lambda>(cfg, h, ranked, wanted, threshold). nat \<lceil>10 * threshold\<rceil>)" by simp
qed

declare relaxLoop.simps [simp del]

definition selectSuite :: "GAConfig \<Rightarrow> heap \<Rightarrow> ref list \<Rightarrow> real \<Rightarrow> ref list \<times> real" where
  "selectSuite cfg h evaluated threshold =
     (let ranked = rankCandidates cfg h evaluated;
          wanted = fillableCount h ranked (topK cfg) (maxPerFrame cfg)
      in relaxLoop cfg h ranked wanted threshold)"

fun minFloat :: "pyfloat list \<Rightarrow> pyfloat" where
  "minFloat [] = Inf"
| "minFloat (v # vs) = min v (minFloat vs)"

definition fmeanFloat :: "pyfloat list \<Rightarrow> pyfloat" where
  "fmeanFloat vs = (if Inf \<in> set vs then Inf else Fin (fmean (map unFin vs)))"

definition suiteDiversity :: "heap \<Rightarrow> ref list \<Rightarrow> pyfloat" where
  "suiteDiversity h suite =
     (let paths = map (\<lambda>r. meanTrajectory (h ! r)) suite; n = length paths
      in if n < 2 then Fin 0
         else fmeanFloat (map (\<lambda>i. minFloat (map (\<lambda>j. trajectoryDistance (paths ! i) (paths ! j))
                (filter (\<lambda>j. j \<noteq> i) [0..<n]))) [0..<n]))"

section \<open>Resampling\<close>

lemma cumulativeFrom_length: "points \<noteq> [] \<Longrightarrow> length (cumulativeFrom acc points) = length points"
  by (induction acc points rule: cumulativeFrom.induct) auto

lemma resampleLoop_length: "length (resampleLoop points cum tot n ks seg) = length ks"
  by (induction ks arbitrary: seg) (auto simp: Let_def)

lemma resampleN_length: "points \<noteq> [] \<Longrightarrow> length (resampleN n points) = n"
  by (simp add: resampleN_def resampleLoop_length Let_def)

lemma resample_length: "length (resample points) = (if points = [] then 0 else RESAMPLE_POINTS)"
  by (simp add: resample_def resampleN_length) (simp add: resampleN_def)

lemma resample_eq_Nil_iff: "resample points = [] \<longleftrightarrow> points = []"
proof -
  have "resample points = [] \<longleftrightarrow> length (resample points) = 0" by simp
  then show ?thesis by (simp add: resample_length RESAMPLE_POINTS_def)
qed

lemma resampledRuns_length: "run \<in> set (resampledRuns ind) \<Longrightarrow> length run = RESAMPLE_POINTS"
  by (auto simp: resampledRuns_def resample_length resample_eq_Nil_iff)

lemma meanTrajectory_length: "meanTrajectory ind \<noteq> [] \<Longrightarrow> length (meanTrajectory ind) = RESAMPLE_POINTS"
  by (auto simp: meanTrajectory_def Let_def split: if_splits)

lemma pairDistances_finite: "[] \<notin> set runs \<Longrightarrow> d \<in> set (pairDistances runs) \<Longrightarrow> \<exists>v. d = Fin v \<and> 0 \<le> v"
proof (induction runs)
  case (Cons run runs)
  have "\<exists>v. trajectoryDistance run other = Fin v \<and> 0 \<le> v" if "other \<in> set runs" for other
  proof -
    have "run \<noteq> []" "other \<noteq> []" using Cons.prems(1) that by auto
    then have "zip run other \<noteq> []" by (cases run; cases other) auto
    then have "0 \<le> fmean (map (\<lambda>(p, q). pdist p q) (zip run other))"
      by (simp add: fmean_def) (intro divide_nonneg_nonneg sum_list_nonneg, auto)
    then show ?thesis using \<open>run \<noteq> []\<close> \<open>other \<noteq> []\<close> by (simp add: trajectoryDistance_def)
  qed
  then show ?case using Cons by auto
qed simp

lemma spreads_finite:
  "d \<in> set (concat (map (\<lambda>r. pairDistances (resampledRuns (h ! r))) rs)) \<Longrightarrow> \<exists>v. d = Fin v \<and> 0 \<le> v"
  by (auto simp: resampledRuns_def intro: pairDistances_finite [rotated])

lemma median_nonneg:
  assumes "vs \<noteq> []" and "\<And>v. v \<in> set vs \<Longrightarrow> 0 \<le> v"
  shows "0 \<le> median vs"
proof -
  have "i < length vs \<Longrightarrow> 0 \<le> sort vs ! i" for i
    using assms(2) nth_mem [of i "sort vs"] by simp
  moreover have "length vs div 2 < length vs" "length vs div 2 - 1 < length vs"
    using assms(1) length_greater_0_conv [of vs] by linarith+
  ultimately show ?thesis by (simp add: median_def Let_def)
qed

lemma calibrateThreshold_nonneg: "0 \<le> calibrateThreshold h evaluated"
proof -
  let ?s = "concat (map (\<lambda>r. pairDistances (resampledRuns (h ! r))) evaluated)"
  have "0 \<le> median (map unFin ?s)" if "?s \<noteq> []"
    using that spreads_finite [of _ h evaluated] by (intro median_nonneg) (auto, fastforce)
  then show ?thesis by (auto simp: calibrateThreshold_def Let_def DEFAULT_THRESHOLD_M_def)
qed

text \<open>Cumulative lengths: one per point, growing by the distance of neighbouring points.\<close>

lemma cumulativeFrom_step:
  "i + 1 < length points \<Longrightarrow>
     cumulativeFrom acc points ! (i + 1) = cumulativeFrom acc points ! i + pdist (points ! i) (points ! (i + 1))"
proof (induction acc points arbitrary: i rule: cumulativeFrom.induct)
  case (1 acc p q ps)
  show ?case
  proof (cases i)
    case 0
    then show ?thesis by (cases ps) auto
  next
    case (Suc j)
    then show ?thesis using "1.IH" [of j] "1.prems" by simp
  qed
qed auto

lemma cumulativeFrom_0: "cumulativeFrom acc points ! 0 = acc"
  by (induction acc points rule: cumulativeFrom.induct) auto

lemma cumulativeFrom_mono:
  assumes "i \<le> j" and "j < length points"
  shows "cumulativeFrom acc points ! i \<le> cumulativeFrom acc points ! j"
  using assms
proof (induction j rule: dec_induct)
  case (step j)
  then show ?case using cumulativeFrom_step [of j points acc] by (simp add: add_increasing2)
qed simp

lemma cumulativeFrom_tail_same:
  assumes "i \<le> j" and "j < length points" and "cumulativeFrom acc points ! i = cumulativeFrom acc points ! j"
  shows "points ! i = points ! j"
  using assms
proof (induction j rule: dec_induct)
  case (step j)
  have le: "cumulativeFrom acc points ! i \<le> cumulativeFrom acc points ! j"
    using step by (intro cumulativeFrom_mono) auto
  have "cumulativeFrom acc points ! Suc j = cumulativeFrom acc points ! j + pdist (points ! j) (points ! Suc j)"
    using cumulativeFrom_step [of j points acc] step.prems(1) by simp
  then have "pdist (points ! j) (points ! Suc j) = 0" "cumulativeFrom acc points ! i = cumulativeFrom acc points ! j"
    using le step.prems(2) pdist_nonneg [of "points ! j" "points ! Suc j"] by linarith+
  then show ?case using step by simp
qed simp

lemma advance_spec:
  assumes "seg + 2 \<le> length points" and "cum ! seg \<le> target" and "target \<le> cum ! (length points - 1)"
    and "seg' = advance points cum target seg"
  shows "seg \<le> seg' \<and> seg' + 2 \<le> length points \<and> cum ! seg' \<le> target \<and> target \<le> cum ! (seg' + 1)"
  using assms
proof (induction points cum target seg rule: advance.induct)
  case (1 points cum target seg)
  show ?case
  proof (cases "seg + 2 < length points \<and> cum ! (seg + 1) < target")
    case True
    then have "seg' = advance points cum target (seg + 1)" using "1.prems"(4) by (simp add: advance.simps [of points cum target seg])
    then show ?thesis using "1.IH" [OF True] True "1.prems" by simp
  next
    case False
    then have "seg' = seg"
      using "1.prems"(4) by (simp only: advance.simps [of points cum target seg] if_not_P [OF False] if_False)
    moreover have "target \<le> cum ! (seg + 1)"
    proof (cases "seg + 2 < length points")
      case True
      then show ?thesis using False by simp
    next
      case F: False
      then have "length points - 1 = seg + 1" using "1.prems"(1) by simp
      then show ?thesis using "1.prems"(3) by simp
    qed
    ultimately show ?thesis using "1.prems" by simp
  qed
qed

text \<open>One output point of the resampling loop, and where it lies.\<close>

definition onPolyline :: "Point list \<Rightarrow> Point \<Rightarrow> bool" where
  "onPolyline points p \<longleftrightarrow>
     (\<exists>i f. i + 1 < length points \<and> 0 \<le> f \<and> f \<le> 1 \<and> p = segPoint (points ! i) (points ! (i + 1)) f)"

definition samplePoint :: "Point list \<Rightarrow> real list \<Rightarrow> real \<Rightarrow> nat \<Rightarrow> Point" where
  "samplePoint points cum target seg =
     segPoint (points ! seg) (points ! (seg + 1))
       (if cum ! (seg + 1) - cum ! seg > 0 then (target - cum ! seg) / (cum ! (seg + 1) - cum ! seg) else 0)"

lemma resampleLoop_Cons:
  "resampleLoop points cum tot n (k # ks) seg =
     (let target = tot * real k / real (n - 1); seg' = advance points cum target seg
      in samplePoint points cum target seg' # resampleLoop points cum tot n ks seg')"
  by (simp add: Let_def samplePoint_def segPoint_def)

lemma samplePoint_on:
  assumes "seg + 2 \<le> length points" and "cum ! seg \<le> target" and "target \<le> cum ! (seg + 1)"
  shows "onPolyline points (samplePoint points cum target seg)"
proof -
  let ?span = "cum ! (seg + 1) - cum ! seg"
  let ?f = "if ?span > 0 then (target - cum ! seg) / ?span else 0"
  have "0 \<le> ?f \<and> ?f \<le> 1" using assms(2,3) by (auto simp: divide_simps)
  then show ?thesis using assms(1) unfolding onPolyline_def samplePoint_def by (intro exI [of _ seg] exI [of _ ?f]) simp
qed

lemma resampleLoop_on:
  assumes "sorted ks" and "\<forall>k \<in> set ks. k < n" and "2 \<le> n" and "seg + 2 \<le> length points" and "0 \<le> tot"
    and "tot = cum ! (length points - 1)" and "\<forall>k \<in> set ks. cum ! seg \<le> tot * real k / real (n - 1)"
  shows "\<forall>p \<in> set (resampleLoop points cum tot n ks seg). onPolyline points p"
  using assms
proof (induction ks arbitrary: seg)
  case (Cons k ks)
  let ?t = "\<lambda>k. tot * real k / real (n - 1)"
  let ?seg = "advance points cum (?t k) seg"
  have "real k \<le> real (n - 1)" using Cons.prems(2,3) by simp
  then have "real k / real (n - 1) \<le> 1" using Cons.prems(3) by (simp add: divide_le_eq_1)
  then have "tot * (real k / real (n - 1)) \<le> tot" using Cons.prems(5) by (rule mult_left_le)
  then have "?t k \<le> cum ! (length points - 1)" using Cons.prems(6) by simp
  then have adv: "?seg + 2 \<le> length points" "cum ! ?seg \<le> ?t k" "?t k \<le> cum ! (?seg + 1)"
    using advance_spec [of seg points cum "?t k" ?seg] Cons.prems(4,7) by auto
  have "?t k \<le> ?t j" if "j \<in> set ks" for j
    using that Cons.prems(1,5) by (intro divide_right_mono mult_left_mono) auto
  then have "\<forall>j \<in> set ks. cum ! ?seg \<le> ?t j" using adv(2) by (meson order_trans)
  then have "\<forall>p \<in> set (resampleLoop points cum tot n ks ?seg). onPolyline points p"
    using Cons.prems adv(1) by (intro Cons.IH) auto
  then show ?case using samplePoint_on [OF adv] unfolding resampleLoop_Cons Let_def by simp
qed simp

lemma advance_0: "0 \<le> cum ! 1 \<Longrightarrow> advance points cum 0 0 = 0"
  by (subst advance.simps) simp

lemma samplePoint_end:
  assumes "seg + 2 \<le> length points" and "cum = cumulativeFrom 0 points" and "cum ! seg \<le> target"
    and "target \<le> cum ! (seg + 1)" and "target = cum ! (length points - 1)"
  shows "samplePoint points cum target seg = last points"
proof -
  have le: "cum ! (seg + 1) \<le> target"
    using assms(1,2,5) by (auto intro: cumulativeFrom_mono)
  then have eq: "cum ! (seg + 1) = target" using assms(4) by simp
  have last: "last points = points ! (length points - 1)" using assms(1) by (intro last_conv_nth) auto
  show ?thesis
  proof (cases "cum ! (seg + 1) - cum ! seg > 0")
    case True
    then have "samplePoint points cum target seg = points ! (seg + 1)" using eq by (simp add: samplePoint_def)
    moreover have "points ! (seg + 1) = points ! (length points - 1)"
      using assms(1,2,5) eq by (intro cumulativeFrom_tail_same [of _ _ _ 0]) auto
    ultimately show ?thesis using last by simp
  next
    case False
    then have "samplePoint points cum target seg = points ! seg" by (simp add: samplePoint_def)
    moreover have "points ! seg = points ! (length points - 1)"
      using assms(1,2,3,5) eq False by (intro cumulativeFrom_tail_same [of _ _ _ 0]) auto
    ultimately show ?thesis using last by simp
  qed
qed

lemma resampleLoop_last:
  assumes "sorted (ks @ [n - 1])" and "\<forall>k \<in> set ks. k < n" and "2 \<le> n" and "seg + 2 \<le> length points"
    and "cum = cumulativeFrom 0 points" and "tot = cum ! (length points - 1)" and "0 \<le> tot"
    and "\<forall>k \<in> set (ks @ [n - 1]). cum ! seg \<le> tot * real k / real (n - 1)"
  shows "last (resampleLoop points cum tot n (ks @ [n - 1]) seg) = last points"
  using assms
proof (induction ks arbitrary: seg)
  case Nil
  then have t: "tot * real (n - 1) / real (n - 1) = tot" by simp
  let ?seg = "advance points cum tot seg"
  have "?seg + 2 \<le> length points \<and> cum ! ?seg \<le> tot \<and> tot \<le> cum ! (?seg + 1)"
    using advance_spec [of seg points cum tot ?seg] Nil.prems(4,6,8) t by simp
  then show ?case
    using samplePoint_end [of ?seg points cum tot] Nil.prems(5,6) t by (simp only: append_Nil resampleLoop_Cons Let_def) simp
next
  case (Cons k ks)
  let ?t = "\<lambda>k. tot * real k / real (n - 1)"
  let ?seg = "advance points cum (?t k) seg"
  have mono: "?t k \<le> ?t j" if "j \<in> set (ks @ [n - 1])" for j
    using that Cons.prems(1,7) by (intro divide_right_mono mult_left_mono) (auto simp: sorted_append)
  have "?t (n - 1) = tot" using Cons.prems(3) by simp
  then have adv: "?seg + 2 \<le> length points" "cum ! ?seg \<le> ?t k"
    using advance_spec [of seg points cum "?t k" ?seg] Cons.prems(4,6,8) mono [of "n - 1"] by simp_all
  then have "\<forall>j \<in> set (ks @ [n - 1]). cum ! ?seg \<le> ?t j" using mono by (meson order_trans)
  then have "last (resampleLoop points cum tot n (ks @ [n - 1]) ?seg) = last points"
    using Cons.prems adv(1) by (intro Cons.IH) auto
  moreover have "resampleLoop points cum tot n (ks @ [n - 1]) ?seg \<noteq> []"
    using resampleLoop_length [of points cum tot n "ks @ [n - 1]" ?seg] by auto
  ultimately show ?case by (simp only: append_Cons resampleLoop_Cons Let_def) simp
qed

lemma resampleN_shape:
  assumes "2 \<le> length points" and "2 \<le> n"
  shows "hd (resampleN n points) = hd points \<and> last (resampleN n points) = last points \<and>
    (\<forall>p \<in> set (resampleN n points). onPolyline points p)"
proof -
  let ?c = "cumulativeFrom 0 points"
  have ne: "points \<noteq> []" "length points \<noteq> 1" using assms(1) by auto
  have c: "length ?c = length points" using ne by (simp add: cumulativeFrom_length)
  then have tot: "last ?c = ?c ! (length points - 1)" using ne(1) by (metis last_conv_nth length_0_conv)
  have nonneg: "0 \<le> last ?c" "0 \<le> ?c ! 1"
    using cumulativeFrom_mono [of 0 "length points - 1" points 0] cumulativeFrom_mono [of 0 1 points 0]
      assms(1) tot by (simp_all add: cumulativeFrom_0)
  have upt: "[0..<n] = [0..<n - 1] @ [n - 1]" "[0..<n] = 0 # [1..<n]"
    using assms(2) upt_Suc_append [of 0 "n - 1"] upt_conv_Cons [of 0 n] by simp_all
  show ?thesis
  proof (cases "last ?c \<le> 0")
    case True
    then have "?c ! 0 = ?c ! (length points - 1)" using nonneg tot by (simp add: cumulativeFrom_0)
    then have "points ! 0 = points ! (length points - 1)"
      using assms(1) by (intro cumulativeFrom_tail_same [of _ _ _ 0]) auto
    moreover have "resampleN n points = replicate n (points ! 0)"
      using True ne by (simp add: resampleN_def Let_def)
    moreover have "onPolyline points (points ! 0)"
      unfolding onPolyline_def using assms(1) by (intro exI [of _ 0] exI [of _ "0::real"]) simp
    ultimately show ?thesis using assms ne by (simp add: hd_conv_nth last_conv_nth)
  next
    case False
    have r: "resampleN n points = resampleLoop points ?c (last ?c) n [0..<n] 0"
      using False ne by (simp add: resampleN_def Let_def)
    have c0: "?c ! 0 = 0" by (rule cumulativeFrom_0)
    have start: "?c ! 0 \<le> last ?c * real k / real (n - 1)" for k
      unfolding c0 using nonneg(1) by simp
    note side = ballI [OF start]
    have "last (resampleLoop points ?c (last ?c) n ([0..<n - 1] @ [n - 1]) 0) = last points"
      by (rule resampleLoop_last; (rule side)?) (use assms nonneg tot in \<open>auto simp: sorted_append\<close>)
    moreover have "\<forall>p \<in> set (resampleLoop points ?c (last ?c) n [0..<n] 0). onPolyline points p"
      by (rule resampleLoop_on; (rule side)?) (use assms nonneg tot in auto)
    moreover have "hd (resampleLoop points ?c (last ?c) n (0 # [1..<n]) 0) = hd points"
      using nonneg(2) ne unfolding resampleLoop_Cons Let_def
      by (simp add: advance_0 samplePoint_def cumulativeFrom_0 hd_conv_nth)
    ultimately show ?thesis unfolding r by (metis upt)
  qed
qed

section \<open>Separated flights\<close>

text \<open>
  What the greedy pass needs of a distance is symmetry; then a list built by comparing every new
  path with the earlier ones is pairwise separated.
\<close>

locale separation =
  fixes pd :: "'p \<Rightarrow> 'p \<Rightarrow> pyfloat"
  assumes pd_sym: "pd p q = pd q p"
begin

lemma separated_all_pairs:
  assumes "sorted_wrt (\<lambda>p q. th \<le> pd q p) ps" and "i < length ps" and "j < length ps" and "i \<noteq> j"
  shows "th \<le> pd (ps ! i) (ps ! j)"
proof (cases "i < j")
  case True
  then show ?thesis using assms sorted_wrt_nth_less [OF assms(1) True] pd_sym by metis
next
  case False
  then have "j < i" using assms(4) by simp
  then show ?thesis using assms sorted_wrt_nth_less [OF assms(1) \<open>j < i\<close>] by simp
qed

lemma separated_map:
  assumes "sorted_wrt (\<lambda>p q. th \<le> pd q p) (map f rs)" and "r \<in> set rs" and "s \<in> set rs" and "r \<noteq> s"
  shows "th \<le> pd (f r) (f s)"
proof -
  obtain i j where "i < length rs" "j < length rs" "rs ! i = r" "rs ! j = s"
    using assms(2,3) by (auto simp: in_set_conv_nth)
  then show ?thesis
    using separated_all_pairs [OF assms(1), of i j] assms(4) by auto
qed

end

lemma trajectoryDistance_sym: "trajectoryDistance ps qs = trajectoryDistance qs ps"
proof -
  have "map (\<lambda>(p, q). pdist p q) (zip ps qs) = map (\<lambda>(p, q). pdist p q) (zip qs ps)"
    by (rule nth_equalityI) (auto simp: pdist_sym)
  then show ?thesis by (auto simp: trajectoryDistance_def)
qed

interpretation flights: separation trajectoryDistance
  by unfold_locales (rule trajectoryDistance_sym)

section \<open>The greedy pass\<close>

text \<open>The loop invariant: the paths of the selected tests, pairwise separated, and the frame counts.\<close>

definition frameCount :: "heap \<Rightarrow> ref list \<Rightarrow> (nat \<times> int) option \<Rightarrow> nat" where
  "frameCount h rs fr = count_list (map (\<lambda>r. frameOf (h ! r)) rs) fr"

definition greedy_inv ::
    "heap \<Rightarrow> nat \<Rightarrow> real \<Rightarrow> nat \<Rightarrow> ref list \<Rightarrow> Point list list \<Rightarrow> ((nat \<times> int) option \<Rightarrow> nat) \<Rightarrow> bool" where
  "greedy_inv h k th mpf sel paths pf \<longleftrightarrow>
     paths = map (\<lambda>r. meanTrajectory (h ! r)) sel \<and>
     sorted_wrt (\<lambda>p q. Fin th \<le> trajectoryDistance q p) paths \<and>
     length sel \<le> k \<and> pf = frameCount h sel \<and> (mpf \<noteq> 0 \<longrightarrow> (\<forall>fr. pf fr \<le> mpf))"

lemma greedy_inv_snoc:
  assumes "greedy_inv h k th mpf sel paths pf" and "length sel < k"
    and "\<not> (mpf \<noteq> 0 \<and> mpf \<le> pf (frameOf (h ! r)))"
    and "\<forall>other \<in> set paths. Fin th \<le> trajectoryDistance (meanTrajectory (h ! r)) other"
  shows "greedy_inv h k th mpf (sel @ [r]) (paths @ [meanTrajectory (h ! r)])
    (pf(frameOf (h ! r) := pf (frameOf (h ! r)) + 1))"
  using assms by (auto simp: greedy_inv_def sorted_wrt_append frameCount_def fun_eq_iff)

lemma greedyLoop_result:
  assumes "greedy_inv h k th mpf sel paths pf"
  shows "\<exists>ys paths' pf'. greedyLoop h k th mpf ranked sel paths pf = sel @ ys \<and> set ys \<subseteq> set ranked \<and>
    (distinct ranked \<longrightarrow> distinct ys) \<and> (\<forall>r. count_list ys r \<le> count_list ranked r) \<and>
    greedy_inv h k th mpf (sel @ ys) paths' pf'"
  using assms
proof (induction h k th mpf ranked sel paths pf rule: greedyLoop.induct)
  case (1 h k th mpf sel paths pf)
  then show ?case by auto
next
  case (2 h k th mpf r ranked sel paths pf)
  let ?skip = "mpf \<noteq> 0 \<and> mpf \<le> pf (frameOf (h ! r))"
  let ?far = "\<forall>other \<in> set paths. Fin th \<le> trajectoryDistance (meanTrajectory (h ! r)) other"
  have step: "\<exists>ys paths' pf'. sel @ ys = sel @ ys0 \<and> set ys \<subseteq> set (r # ranked) \<and>
      (distinct (r # ranked) \<longrightarrow> distinct ys) \<and> (\<forall>s. count_list ys s \<le> count_list (r # ranked) s) \<and>
      greedy_inv h k th mpf (sel @ ys) paths' pf'"
    if "set ys0 \<subseteq> set ranked" "distinct ranked \<longrightarrow> distinct ys0"
      "\<forall>s. count_list ys0 s \<le> count_list ranked s" "greedy_inv h k th mpf (sel @ ys0) p0 f0"
    for ys0 p0 f0
    using that by (intro exI [of _ ys0] exI [of _ p0] exI [of _ f0]) (auto simp: le_SucI)
  consider (full) "k \<le> length sel" | (quota) "\<not> k \<le> length sel" "?skip"
    | (near) "\<not> k \<le> length sel" "\<not> ?skip" "\<not> ?far" | (take) "\<not> k \<le> length sel" "\<not> ?skip" "?far" by blast
  then show ?case
  proof cases
    case full
    then show ?thesis using step [of "[]" paths pf] "2.prems" by auto
  next
    case quota
    then have eq: "greedyLoop h k th mpf (r # ranked) sel paths pf = greedyLoop h k th mpf ranked sel paths pf"
      by (simp add: Let_def)
    show ?thesis using "2.IH"(1) [OF quota(1) refl quota(2) "2.prems"] step unfolding eq by metis
  next
    case near
    then have eq: "greedyLoop h k th mpf (r # ranked) sel paths pf = greedyLoop h k th mpf ranked sel paths pf"
      by (auto simp: Let_def)
    show ?thesis using "2.IH"(3) [OF near(1) refl near(2) refl near(3) "2.prems"] step unfolding eq by metis
  next
    case take
    let ?fr = "frameOf (h ! r)" and ?path = "meanTrajectory (h ! r)"
    have eq: "greedyLoop h k th mpf (r # ranked) sel paths pf =
        greedyLoop h k th mpf ranked (sel @ [r]) (paths @ [?path]) (pf(?fr := pf ?fr + 1))"
      using take by (auto simp: Let_def)
    have "greedy_inv h k th mpf (sel @ [r]) (paths @ [?path]) (pf(?fr := pf ?fr + 1))"
      using take(1) by (intro greedy_inv_snoc [OF "2.prems" _ take(2,3)]) simp
    from "2.IH"(2) [OF take(1) refl take(2) refl take(3) this]
    obtain ys p f where ys: "greedyLoop h k th mpf (r # ranked) sel paths pf = (sel @ [r]) @ ys"
      "set ys \<subseteq> set ranked" "distinct ranked \<longrightarrow> distinct ys" "\<forall>s. count_list ys s \<le> count_list ranked s"
      "greedy_inv h k th mpf ((sel @ [r]) @ ys) p f"
      unfolding eq by blast
    then show ?thesis by (intro exI [of _ "r # ys"] exI [of _ p] exI [of _ f]) auto
  qed
qed

lemma greedyFill_inv:
  obtains paths pf where "greedy_inv h k th mpf (greedyFill h ranked k th mpf) paths pf"
    and "set (greedyFill h ranked k th mpf) \<subseteq> set ranked"
    and "distinct ranked \<Longrightarrow> distinct (greedyFill h ranked k th mpf)"
    and "\<And>r. count_list (greedyFill h ranked k th mpf) r \<le> count_list ranked r"
proof -
  have "greedy_inv h k th mpf [] [] (\<lambda>_. 0)" by (simp add: greedy_inv_def frameCount_def fun_eq_iff)
  from greedyLoop_result [OF this, of ranked] show ?thesis
    using that by (auto simp: greedyFill_def)
qed

lemma greedyLoop_prefix:
  assumes "greedy_inv h k th mpf sel paths pf"
  shows "\<exists>ys. greedyLoop h k th mpf ranked sel paths pf = sel @ ys"
  using greedyLoop_result [OF assms, of ranked] by blast

lemma greedyFill_takes_first:
  assumes "0 < k"
  shows "r \<in> set (greedyFill h (r # ranked) k th mpf)"
proof -
  have inv: "greedy_inv h k th mpf [] [] (\<lambda>_. 0)" by (simp add: greedy_inv_def frameCount_def fun_eq_iff)
  have "greedy_inv h k th mpf ([] @ [r]) ([] @ [meanTrajectory (h ! r)])
      ((\<lambda>_. 0)(frameOf (h ! r) := 0 + 1))"
    by (rule greedy_inv_snoc [OF inv]) (use assms in auto)
  from greedyLoop_prefix [OF this, of ranked] show ?thesis
    using assms by (auto simp: greedyFill_def Let_def)
qed

lemma frame_sum_bound:
  assumes "set rs \<subseteq> set ranked" and "\<And>fr. frameCount h rs fr \<le> mpf"
    and "\<And>fr. frameCount h rs fr \<le> frameCount h ranked fr"
  shows "length rs \<le> sum_list (map (\<lambda>fr. min mpf (count_list (map (\<lambda>r. frameOf (h ! r)) ranked) fr))
    (remdups (map (\<lambda>r. frameOf (h ! r)) ranked)))"
proof -
  let ?fs = "map (\<lambda>r. frameOf (h ! r))"
  have "length rs = (\<Sum>fr \<in> set (?fs ranked). count_list (?fs rs) fr)"
    using sum_count_set [of "?fs rs" "set (?fs ranked)"] assms(1) by (simp add: image_mono)
  also have "\<dots> \<le> (\<Sum>fr \<in> set (?fs ranked). min mpf (count_list (?fs ranked) fr))"
    using assms(2,3) by (intro sum_mono) (simp add: frameCount_def)
  also have "\<dots> = sum_list (map (\<lambda>fr. min mpf (count_list (?fs ranked) fr)) (remdups (?fs ranked)))"
    by (simp add: sum_list_distinct_conv_sum_set)
  finally show ?thesis .
qed

lemma count_list_map_le:
  assumes "\<And>r. count_list rs r \<le> count_list ss r"
  shows "count_list (map f rs) v \<le> count_list (map f ss) v"
proof -
  have "mset rs \<subseteq># mset ss" using assms by (simp add: mset_subset_eqI count_mset)
  then have "image_mset f (mset rs) \<subseteq># image_mset f (mset ss)" by (rule image_mset_subseteq_mono)
  then show ?thesis by (metis count_mset mset_map mset_subset_eq_count)
qed

lemma greedyFill_le_fillable: "length (greedyFill h ranked k th mpf) \<le> fillableCount h ranked k mpf"
proof -
  let ?s = "greedyFill h ranked k th mpf"
  obtain paths pf where inv: "greedy_inv h k th mpf ?s paths pf" and sub: "set ?s \<subseteq> set ranked"
    and cnt: "\<And>r. count_list ?s r \<le> count_list ranked r" using greedyFill_inv by metis
  have "mset ?s \<subseteq># mset ranked" using cnt by (simp add: mset_subset_eqI count_mset)
  then have "length ?s \<le> length ranked" using size_mset_mono by fastforce
  moreover have "length ?s \<le> k" using inv by (simp add: greedy_inv_def)
  moreover have "mpf \<noteq> 0 \<Longrightarrow> length ?s \<le> sum_list (map (\<lambda>fr. min mpf
      (count_list (map (\<lambda>r. frameOf (h ! r)) ranked) fr)) (remdups (map (\<lambda>r. frameOf (h ! r)) ranked)))"
    using inv by (intro frame_sum_bound sub) (auto simp: greedy_inv_def frameCount_def intro: count_list_map_le cnt)
  ultimately show ?thesis by (cases "mpf = 0") (simp_all add: fillableCount_def Let_def)
qed

section \<open>The relaxation loop and the ranking\<close>

lemma relaxLoop_result:
  "\<exists>n. relaxLoop cfg h ranked wanted th =
      (sort_key (\<lambda>r. officialRank (h ! r)) (greedyFill h ranked (topK cfg) (th / 2 ^ n) (maxPerFrame cfg)), th / 2 ^ n) \<and>
    (n = 0 \<or> MIN_THRESHOLD_M < th / 2 ^ (n - 1)) \<and>
    (length (greedyFill h ranked (topK cfg) (th / 2 ^ n) (maxPerFrame cfg)) \<ge> wanted \<or>
      th / 2 ^ n \<le> MIN_THRESHOLD_M \<or> \<not> relaxSimilarity cfg)"
proof (induction cfg h ranked wanted th rule: relaxLoop.induct)
  case (1 cfg h ranked wanted th)
  let ?stop = "wanted \<le> length (greedyFill h ranked (topK cfg) th (maxPerFrame cfg)) \<or>
    th \<le> MIN_THRESHOLD_M \<or> \<not> relaxSimilarity cfg"
  show ?case
  proof (cases ?stop)
    case True
    then show ?thesis by (intro exI [of _ 0]) (simp add: relaxLoop.simps [of cfg h ranked wanted th] Let_def)
  next
    case False
    then have eq: "relaxLoop cfg h ranked wanted th = relaxLoop cfg h ranked wanted (th * (1/2))"
      by (subst relaxLoop.simps) (simp add: Let_def)
    obtain n where n: "relaxLoop cfg h ranked wanted (th * (1/2)) =
        (sort_key (\<lambda>r. officialRank (h ! r))
          (greedyFill h ranked (topK cfg) (th * (1/2) / 2 ^ n) (maxPerFrame cfg)), th * (1/2) / 2 ^ n)"
      "n = 0 \<or> MIN_THRESHOLD_M < th * (1/2) / 2 ^ (n - 1)"
      "wanted \<le> length (greedyFill h ranked (topK cfg) (th * (1/2) / 2 ^ n) (maxPerFrame cfg)) \<or>
        th * (1/2) / 2 ^ n \<le> MIN_THRESHOLD_M \<or> \<not> relaxSimilarity cfg"
      using 1 [OF refl False] by blast
    have half: "th * (1/2) / 2 ^ n = th / 2 ^ Suc n" by simp
    have "MIN_THRESHOLD_M < th / 2 ^ (Suc n - 1)" using n(2) False by (cases n) auto
    note r2 = this and r1 = trans [OF eq n(1), unfolded half] and r3 = n(3) [unfolded half]
    show ?thesis by (rule exI [of _ "Suc n"], intro conjI, rule r1, rule disjI2, rule r2, rule r3)
  qed
qed

lemma dedupe_subset: "set (dedupe h rs seen) \<subseteq> set rs"
  by (induction h rs seen rule: dedupe.induct) (auto simp: Let_def)

lemma dedupe_eligible: "r \<in> set (dedupe h rs seen) \<Longrightarrow> eligible (h ! r)"
  by (induction h rs seen rule: dedupe.induct) (auto simp: Let_def split: if_splits)

lemma dedupe_unseen: "r \<in> set (dedupe h rs seen) \<Longrightarrow> layoutSignature (h ! r) \<notin> seen"
  by (induction h rs seen rule: dedupe.induct) (auto simp: Let_def split: if_splits)

lemma dedupe_distinct: "distinct (map (\<lambda>r. layoutSignature (h ! r)) (dedupe h rs seen))"
  by (induction h rs seen rule: dedupe.induct) (auto simp: Let_def dest: dedupe_unseen)

lemma dedupe_covers:
  "r \<in> set rs \<Longrightarrow> eligible (h ! r) \<Longrightarrow> layoutSignature (h ! r) \<notin> seen \<Longrightarrow>
     layoutSignature (h ! r) \<in> (\<lambda>s. layoutSignature (h ! s)) ` set (dedupe h rs seen)"
  by (induction h rs seen rule: dedupe.induct) (auto simp: Let_def)

lemma dedupe_sorted: "sorted (map f rs) \<Longrightarrow> sorted (map f (dedupe h rs seen))"
proof (induction h rs seen rule: dedupe.induct)
  case (2 h r rs seen)
  then show ?case using dedupe_subset [of h rs "insert (layoutSignature (h ! r)) seen"]
    by (auto simp: Let_def)
qed simp

lemma rankCandidates_props:
  "set (rankCandidates cfg h ev) \<subseteq> set ev \<and> (\<forall>r \<in> set (rankCandidates cfg h ev). eligible (h ! r)) \<and>
   distinct (map (\<lambda>r. layoutSignature (h ! r)) (rankCandidates cfg h ev))"
proof -
  let ?d = "dedupe h (sort_key (\<lambda>r. officialRank (h ! r)) ev) {}"
  have props: "distinct (map (\<lambda>r. layoutSignature (h ! r)) ?d)" "set ?d \<subseteq> set ev"
    using dedupe_distinct dedupe_subset [of h "sort_key (\<lambda>r. officialRank (h ! r)) ev" "{}"] by auto
  have mset: "mset (rankCandidates cfg h ev) = mset ?d"
  proof (cases "keepBestGate cfg")
    case True
    show ?thesis
    proof (cases "filter (\<lambda>r. length (ind_obstacles (h ! r)) = 2) ?d")
      case Nil
      then show ?thesis using True by (simp add: rankCandidates_def Let_def)
    next
      case (Cons g gs)
      then have "g \<in> set (filter (\<lambda>r. length (ind_obstacles (h ! r)) = 2) ?d)" by simp
      then have "g \<in> set ?d" by simp
      then show ?thesis using True Cons by (simp add: rankCandidates_def Let_def)
    qed
  qed (simp add: rankCandidates_def Let_def)
  then have "set (rankCandidates cfg h ev) = set ?d" by (metis set_mset_mset)
  moreover have "distinct (map (\<lambda>r. layoutSignature (h ! r)) (rankCandidates cfg h ev))"
    using props(1) mset by (metis mset_map mset_eq_imp_distinct_iff)
  ultimately show ?thesis using props(2) dedupe_eligible by auto
qed

section \<open>Properties\<close>

lemma selectSuite_cases:
  obtains n where "selectSuite cfg h ev th =
      (sort_key (\<lambda>r. officialRank (h ! r))
        (greedyFill h (rankCandidates cfg h ev) (topK cfg) (th / 2 ^ n) (maxPerFrame cfg)), th / 2 ^ n)"
    and "n = 0 \<or> MIN_THRESHOLD_M < th / 2 ^ (n - 1)"
    and "length (greedyFill h (rankCandidates cfg h ev) (topK cfg) (th / 2 ^ n) (maxPerFrame cfg)) \<ge>
        fillableCount h (rankCandidates cfg h ev) (topK cfg) (maxPerFrame cfg) \<or>
      th / 2 ^ n \<le> MIN_THRESHOLD_M \<or> \<not> relaxSimilarity cfg"
  using relaxLoop_result [of cfg h "rankCandidates cfg h ev"
      "fillableCount h (rankCandidates cfg h ev) (topK cfg) (maxPerFrame cfg)" th]
  unfolding selectSuite_def Let_def by blast

lemma selectSuite_ok:
  assumes "selectSuite cfg h ev th = (suite, th')"
  shows "set suite \<subseteq> set ev \<and>
    (\<forall>r \<in> set suite. ind_valid (h ! r) \<and> \<not> ind_stuck (h ! r) \<and> 0 < ind_officialScore (h ! r)) \<and>
    distinct (map (\<lambda>r. layoutSignature (h ! r)) suite) \<and> length suite \<le> topK cfg \<and>
    sorted (map (\<lambda>r. officialRank (h ! r)) suite)"
proof -
  obtain n where sel: "selectSuite cfg h ev th =
      (sort_key (\<lambda>r. officialRank (h ! r))
        (greedyFill h (rankCandidates cfg h ev) (topK cfg) (th / 2 ^ n) (maxPerFrame cfg)), th / 2 ^ n)"
    by (rule selectSuite_cases)
  let ?g = "greedyFill h (rankCandidates cfg h ev) (topK cfg) (th / 2 ^ n) (maxPerFrame cfg)"
  note rank = rankCandidates_props [of cfg h ev]
  have dr: "distinct (rankCandidates cfg h ev)" using rank distinct_map by blast
  obtain paths pf where inv: "greedy_inv h (topK cfg) (th / 2 ^ n) (maxPerFrame cfg) ?g paths pf"
    and sub: "set ?g \<subseteq> set (rankCandidates cfg h ev)" and dg: "distinct ?g"
    using greedyFill_inv dr by metis
  have s: "suite = sort_key (\<lambda>r. officialRank (h ! r)) ?g" using assms unfolding sel by (blast dest: Pair_inject)
  have "inj_on (\<lambda>r. layoutSignature (h ! r)) (set ?g)"
    using rank sub by (meson distinct_map inj_on_subset)
  then show ?thesis
    using rank sub dg inv s by (auto simp: eligible_def distinct_map greedy_inv_def)
qed

text \<open>
  C10. Every submitted test deserves its place: it was evaluated, ran to the goal with a valid
  measurement and a positive official score; no two submitted tests have the same geometry, there are
  at most \<open>topK\<close> of them, and they are ordered by official score and closest approach.
\<close>

theorem selectSuite_sound:
  assumes "selectSuite cfg h ev th = (suite, th')"
  shows "set suite \<subseteq> set ev \<and>
    (\<forall>r \<in> set suite. ind_valid (h ! r) \<and> \<not> ind_stuck (h ! r) \<and> 0 < ind_officialScore (h ! r)) \<and>
    distinct (map (\<lambda>r. layoutSignature (h ! r)) suite) \<and> length suite \<le> topK cfg \<and>
    sorted (map (\<lambda>r. officialRank (h ! r)) suite)"
  by (rule selectSuite_ok [OF assms])

definition sampleInd :: "real \<Rightarrow> Individual" where
  "sampleInd v = (newIndividual [] (Some (sampleGenes v)) False)\<lparr>ind_valid := True, ind_officialScore := 2,
     ind_distances := [v], ind_flightDurations := [60]\<rparr>"

theorem selectSuite_sound_witness:
  "set (fst (selectSuite defaultConfig [sampleInd (1/2)] [0] 3)) \<subseteq> set [0] \<and>
   length (fst (selectSuite defaultConfig [sampleInd (1/2)] [0] 3)) \<le> 20"
  using selectSuite_sound [of defaultConfig "[sampleInd (1/2)]" "[0]" 3
      "fst (selectSuite defaultConfig [sampleInd (1/2)] [0] 3)"
      "snd (selectSuite defaultConfig [sampleInd (1/2)] [0] 3)"]
  by (simp add: defaultConfig_def)

text \<open>
  C9. No two submitted flights can be told the same: the averaged trajectories of two different
  submitted tests are at least the returned threshold apart, and with a frame quota no segment and
  side is attacked more often than the quota allows.
\<close>

theorem selectSuite_diverse:
  assumes "selectSuite cfg h ev th = (suite, th')"
  shows "(\<forall>r \<in> set suite. \<forall>s \<in> set suite. r \<noteq> s \<longrightarrow>
      Fin th' \<le> trajectoryDistance (meanTrajectory (h ! r)) (meanTrajectory (h ! s))) \<and>
    (maxPerFrame cfg \<noteq> 0 \<longrightarrow>
      (\<forall>fr. length (filter (\<lambda>r. frameOf (h ! r) = fr) suite) \<le> maxPerFrame cfg))"
proof -
  obtain n where sel: "selectSuite cfg h ev th =
      (sort_key (\<lambda>r. officialRank (h ! r))
        (greedyFill h (rankCandidates cfg h ev) (topK cfg) (th / 2 ^ n) (maxPerFrame cfg)), th / 2 ^ n)"
    by (rule selectSuite_cases)
  let ?g = "greedyFill h (rankCandidates cfg h ev) (topK cfg) (th / 2 ^ n) (maxPerFrame cfg)"
  obtain paths pf where inv: "greedy_inv h (topK cfg) (th / 2 ^ n) (maxPerFrame cfg) ?g paths pf"
    using greedyFill_inv by metis
  have s: "suite = sort_key (\<lambda>r. officialRank (h ! r)) ?g" "th' = th / 2 ^ n"
    using assms unfolding sel by (blast dest: Pair_inject)+
  have sep: "sorted_wrt (\<lambda>p q. Fin (th / 2 ^ n) \<le> trajectoryDistance q p) (map (\<lambda>r. meanTrajectory (h ! r)) ?g)"
    using inv unfolding greedy_inv_def by blast
  have "Fin th' \<le> trajectoryDistance (meanTrajectory (h ! r)) (meanTrajectory (h ! r'))"
    if "r \<in> set suite" "r' \<in> set suite" "r \<noteq> r'" for r r'
    using that s flights.separated_map [of "Fin th'" "\<lambda>r. meanTrajectory (h ! r)" ?g r r']
    by (simp add: sep)
  moreover have "length (filter (\<lambda>r. frameOf (h ! r) = fr) suite) = frameCount h ?g fr" for fr
  proof -
    have "length (filter (\<lambda>r. frameOf (h ! r) = fr) suite) = size {#r \<in># mset suite. frameOf (h ! r) = fr#}"
      by (metis mset_filter size_mset)
    also have "\<dots> = length (filter (\<lambda>r. frameOf (h ! r) = fr) ?g)"
      unfolding s(1) mset_sort by (metis mset_filter size_mset)
    finally show ?thesis by (simp add: frameCount_def count_list_eq_length_filter filter_map comp_def eq_commute)
  qed
  ultimately show ?thesis using inv by (auto simp: greedy_inv_def)
qed

theorem selectSuite_diverse_witness:
  "case selectSuite defaultConfig [sampleInd (1/2), sampleInd (1/4)] [0, 1] 3 of (suite, th) \<Rightarrow>
     list_all (\<lambda>r. list_all (\<lambda>s. r = s \<or> Fin th \<le>
       trajectoryDistance (meanTrajectory ([sampleInd (1/2), sampleInd (1/4)] ! r))
         (meanTrajectory ([sampleInd (1/2), sampleInd (1/4)] ! s))) suite) suite"
proof -
  obtain suite th where r: "selectSuite defaultConfig [sampleInd (1/2), sampleInd (1/4)] [0, 1] 3 = (suite, th)"
    by fastforce
  show ?thesis using selectSuite_diverse [OF r] r by (auto simp: list_all_iff)
qed

text \<open>
  C20. The relaxation of the similarity threshold always ends, and for a good reason: the returned
  threshold is the given one halved finitely often, never below half the minimum unless it started
  there, and the loop stops with a suite of exactly the fillable size, at the minimum, or because
  relaxing is switched off.
\<close>

theorem selectSuite_threshold:
  "\<exists>n suite. selectSuite cfg h ev th = (suite, th / 2 ^ n) \<and>
    (n = 0 \<or> MIN_THRESHOLD_M / 2 < th / 2 ^ n) \<and>
    length suite \<le> fillableCount h (rankCandidates cfg h ev) (topK cfg) (maxPerFrame cfg) \<and>
    (length suite = fillableCount h (rankCandidates cfg h ev) (topK cfg) (maxPerFrame cfg) \<or>
      th / 2 ^ n \<le> MIN_THRESHOLD_M \<or> \<not> relaxSimilarity cfg)"
proof -
  obtain n where n: "selectSuite cfg h ev th =
      (sort_key (\<lambda>r. officialRank (h ! r))
        (greedyFill h (rankCandidates cfg h ev) (topK cfg) (th / 2 ^ n) (maxPerFrame cfg)), th / 2 ^ n)"
    "n = 0 \<or> MIN_THRESHOLD_M < th / 2 ^ (n - 1)"
    "length (greedyFill h (rankCandidates cfg h ev) (topK cfg) (th / 2 ^ n) (maxPerFrame cfg)) \<ge>
        fillableCount h (rankCandidates cfg h ev) (topK cfg) (maxPerFrame cfg) \<or>
      th / 2 ^ n \<le> MIN_THRESHOLD_M \<or> \<not> relaxSimilarity cfg"
    by (rule selectSuite_cases)
  have "n = 0 \<or> MIN_THRESHOLD_M / 2 < th / 2 ^ n" using n(2) by (cases n) (auto simp: field_simps)
  moreover note greedyFill_le_fillable [of h "rankCandidates cfg h ev" "topK cfg" "th / 2 ^ n" "maxPerFrame cfg"]
  moreover have "length (sort_key (\<lambda>r. officialRank (h ! r)) xs) = length xs" for xs by simp
  ultimately show ?thesis using n(1,3) by (metis le_antisym)
qed

theorem selectSuite_threshold_witness:
  "\<exists>n suite. selectSuite defaultConfig [sampleInd (1/2)] [0] 3 = (suite, 3 / 2 ^ n) \<and>
    (n = 0 \<or> MIN_THRESHOLD_M / 2 < 3 / 2 ^ n)"
  using selectSuite_threshold [of defaultConfig "[sampleInd (1/2)]" "[0]" 3] by blast

text \<open>
  Resampling keeps the flight: fifty points, the first and the last those of the recorded
  trajectory, and every one of them on the straight line between two consecutive recorded points.
\<close>

theorem resample_on_path:
  assumes "2 \<le> length points"
  shows "length (resample points) = 50 \<and> hd (resample points) = hd points \<and> last (resample points) = last points \<and>
    (\<forall>p \<in> set (resample points). onPolyline points p)"
proof -
  have "points \<noteq> []" using assms by auto
  then show ?thesis
    using resampleN_shape [OF assms, of RESAMPLE_POINTS] resample_length [of points]
    by (simp add: resample_def RESAMPLE_POINTS_def)
qed

theorem resample_on_path_witness:
  "length (resample [(0, 0), (3, 4), (6, 8)]) = 50 \<and> last (resample [(0, 0), (3, 4), (6, 8)]) = (6, 8)"
  using resample_on_path [of "[(0, 0), (3, 4), (6, 8)]"] by simp

end
