(* ===== verification/Generator.thy ===== *)
theory Generator
  imports Breeding Batch Suite
begin

text \<open>
  \<open>GeneticGenerator\<close> of \<open>generator.py\<close>: construction, discovery, refinement and the final selection.
  The state of a campaign is the world of the batches, the random generator and the variables the
  nested \<open>runDiscovery\<close> shares with \<open>generate\<close>. Logging is left out; it reads the state only.
\<close>

record GeneticGenerator =
  gg_config :: GAConfig
  gg_waypoints :: "Waypoint list"
  gg_segments :: "Segment list"
  gg_seedSegments :: "nat list"

text \<open>
  The constructor, from the configuration, the value of \<open>GA_EVOLVE\<close> and the mission's plan file; the
  seed only selects the random generator, which the campaign takes as an argument.
\<close>

definition seedSegmentsOf :: "Waypoint list \<Rightarrow> nat list" where
  "seedSegmentsOf waypoints =
     (let long = map seg_index (longSegments waypoints MIN_SEGMENT_LENGTH_M)
      in if long \<noteq> [] then long else map seg_index (allSegments waypoints))"

definition newGenerator :: "GAConfig \<Rightarrow> string \<Rightarrow> json result \<Rightarrow> GeneticGenerator result" where
  "newGenerator config envEvolve plan =
     (let cfg = (if envEvolve = ''0'' then config\<lparr>evolve := False\<rparr> else config)
      in bindE (parseWaypoints plan) (\<lambda>waypoints.
         Inr \<lparr>gg_config = cfg, gg_waypoints = waypoints, gg_segments = allSegments waypoints,
              gg_seedSegments = seedSegmentsOf waypoints\<rparr>))"

section \<open>The campaign\<close>

record campaign =
  c_world :: world
  c_rng :: rng
  c_pop :: "ref list"
  c_gen :: nat
  c_maxGood :: real
  c_evaluated :: "ref list"

text \<open>What \<open>generate\<close> and the simulator fix for the whole campaign.\<close>

record environment =
  s_isolated :: bool
  s_cfg :: GAConfig
  s_segments :: "Segment list"
  s_choices :: "nat list"
  s_goal :: Waypoint
  s_sim :: simulator

abbreviation c_heap :: "campaign \<Rightarrow> heap" where
  "c_heap st \<equiv> w_heap (c_world st)"

definition setHeap :: "heap \<Rightarrow> campaign \<Rightarrow> campaign" where
  "setHeap h st = st\<lparr>c_world := (c_world st)\<lparr>w_heap := h\<rparr>\<rparr>"

text \<open>A population of fresh seeds, one for every entry of the schedule.\<close>

fun freshAll :: "environment \<Rightarrow> nat list \<Rightarrow> heap \<Rightarrow> rng \<Rightarrow> (ref list \<times> heap \<times> rng) result" where
  "freshAll s [] h r = Inr ([], h, r)"
| "freshAll s (n # counts) h r =
     bindE (freshIndividual r (s_cfg s) (s_segments s) (s_choices s) n) (\<lambda>(ind, r1).
     bindE (freshAll s counts (h @ [ind]) r1) (\<lambda>(pop, h2, r2).
       Inr (length h # pop, h2, r2)))"

definition countsOf :: "environment \<Rightarrow> nat list" where
  "countsOf s = obstacleCountSchedule (popSize (s_cfg s)) (gateShare (s_cfg s))"

definition freeSlots :: "heap \<Rightarrow> ref list \<Rightarrow> nat list" where
  "freeSlots h pop =
     filter (\<lambda>idx. \<not> ind_valid (h ! (pop ! idx)) \<and> \<not> ind_illegal (h ! (pop ! idx))) [0..<length pop]"

text \<open>The head of a discovery round: a new generation when no slot is free.\<close>

definition advanceGeneration :: "environment \<Rightarrow> campaign \<Rightarrow> campaign result" where
  "advanceGeneration s st =
     (if freeSlots (c_heap st) (c_pop st) \<noteq> [] then Inr st
      else let gen = c_gen st + 1 in
        bindE (if evolve (s_cfg s)
               then nextGeneration (c_rng st) (s_cfg s) (c_heap st) (c_pop st) (s_segments s) (s_choices s)
                      (mutationScaleAt (s_cfg s) gen)
               else freshAll s (countsOf s) (c_heap st) (c_rng st)) (\<lambda>(pop, h, r).
          Inr ((setHeap h st)\<lparr>c_pop := pop, c_rng := r, c_gen := gen\<rparr>)))"

definition killAfterOf :: "environment \<Rightarrow> campaign \<Rightarrow> real" where
  "killAfterOf s st = max (minTimeout (s_cfg s)) (timeoutMul (s_cfg s) * c_maxGood st)"

fun rescoreAll :: "GAConfig \<Rightarrow> ref list \<Rightarrow> heap \<Rightarrow> heap result" where
  "rescoreAll cfg [] h = Inr h"
| "rescoreAll cfg (r # rs) h = bindE (rescore cfg (h ! r)) (\<lambda>ind. rescoreAll cfg rs (h[r := ind]))"

text \<open>The confirmation of carried-over elites; returns the attempts it used.\<close>

definition confirmElites :: "environment \<Rightarrow> nat \<Rightarrow> real \<Rightarrow> campaign \<Rightarrow> (nat \<times> campaign) result" where
  "confirmElites s remaining killAfter st =
     (let elites = (if rerunElites (s_cfg s) then filter (\<lambda>i. ind_valid (c_heap st ! i)) (c_pop st) else [])
      in if elites \<noteq> [] \<and> remaining > length elites
         then let (used, w) = runRetryingBatch (s_cfg s)
                    (rerun (s_isolated s) (s_cfg s) (Some (s_goal s)) killAfter (s_sim s)) elites (length elites) (c_world st)
              in bindE (rescoreAll (s_cfg s) elites (w_heap w)) (\<lambda>h.
                   Inr (used, st\<lparr>c_world := w\<lparr>w_heap := h\<rparr>\<rparr>))
         else Inr (0, st))"

text \<open>The loop over the evaluated candidates: record them, or give up on a slot that keeps failing.\<close>

fun settleSlots :: "environment \<Rightarrow> (nat \<times> ref) list \<Rightarrow> campaign \<Rightarrow> campaign result" where
  "settleSlots s [] st = Inr st"
| "settleSlots s ((slotIdx, i) # slots) st =
     (let ind = c_heap st ! i in
      if ind_valid ind \<and> i \<notin> set (c_evaluated st)
      then settleSlots s slots
        ((setHeap (heap_upd (c_heap st) i (ind_generation_update (\<lambda>_. c_gen st))) st)
           \<lparr>c_evaluated := c_evaluated st @ [i],
            c_maxGood := (if \<not> ind_stuck ind \<and> ind_duration ind > c_maxGood st then ind_duration ind else c_maxGood st)\<rparr>)
      else if \<not> ind_valid ind \<and> \<not> ind_illegal ind \<and> ind_attempts ind \<ge> maxRunFailures (s_cfg s)
      then bindE (freshIndividual (c_rng st) (s_cfg s) (s_segments s) (s_choices s) (nicheOf ind)) (\<lambda>(new, r).
        settleSlots s slots
          ((setHeap (c_heap st @ [new]) st)\<lparr>c_pop := (c_pop st)[slotIdx := length (c_heap st)], c_rng := r\<rparr>))
      else settleSlots s slots st)"

text \<open>
  One round of \<open>runDiscovery\<close> with \<open>remaining\<close> attempts left: the attempts of the elite confirmation,
  those of the evaluations, and the new state.
\<close>

definition discoveryRound :: "environment \<Rightarrow> nat \<Rightarrow> campaign \<Rightarrow> (nat \<times> nat \<times> campaign) result" where
  "discoveryRound s remaining st =
     bindE (advanceGeneration s st) (\<lambda>st1.
       let candidateSlots = take remaining (freeSlots (c_heap st1) (c_pop st1));
           killAfter = killAfterOf s st1
       in bindE (confirmElites s remaining killAfter st1) (\<lambda>(eliteUsed, st2).
            let remaining1 = remaining - eliteUsed;
                slots = take remaining1 candidateSlots;
                candidates = map ((!) (c_pop st1)) slots;
                (usedNow, w) = runRetryingBatch (s_cfg s)
                  (evaluate (s_isolated s) (s_cfg s) (Some (s_goal s)) killAfter (s_sim s)) candidates remaining1 (c_world st2)
            in bindE (settleSlots s (zip slots candidates) (st2\<lparr>c_world := w\<rparr>)) (\<lambda>st3.
                 Inr (eliteUsed, usedNow, st3))))"

definition noProgressLimit :: "GAConfig \<Rightarrow> nat" where
  "noProgressLimit cfg = max 3 (maxRetries cfg)"

function discoveryLoop :: "environment \<Rightarrow> nat \<Rightarrow> nat \<Rightarrow> nat \<Rightarrow> campaign \<Rightarrow> (nat \<times> campaign) result" where
  "discoveryLoop s budget used idle st =
     (if used < budget \<and> idle < noProgressLimit (s_cfg s)
      then (case discoveryRound s (budget - used) st of
              Inl e \<Rightarrow> Inl e
            | Inr (eliteUsed, usedNow, st1) \<Rightarrow>
                discoveryLoop s budget (used + eliteUsed + usedNow) (if usedNow = 0 then idle + 1 else 0) st1)
      else Inr (used, st))"
  by pat_completeness auto
termination
  by (relation "measures [\<lambda>(s, budget, used, idle, st). budget - used,
        \<lambda>(s, budget, used, idle, st). noProgressLimit (s_cfg s) - idle]") auto

declare discoveryLoop.simps [simp del]

definition runDiscovery :: "environment \<Rightarrow> nat \<Rightarrow> campaign \<Rightarrow> (nat \<times> campaign) result" where
  "runDiscovery s attemptBudget st = discoveryLoop s attemptBudget 0 0 st"

section \<open>Refinement\<close>

fun addReruns :: "heap \<Rightarrow> nat \<Rightarrow> nat \<Rightarrow> ref list \<Rightarrow> ref list \<Rightarrow> ref list" where
  "addReruns h budget rerunIndex [] jobs = jobs"
| "addReruns h budget rerunIndex (cand # cands) jobs =
     addReruns h budget rerunIndex cands
       (if length (ind_distances (h ! cand)) - 1 \<le> rerunIndex \<and> length jobs < budget then jobs @ [cand] else jobs)"

fun rerunRounds :: "heap \<Rightarrow> nat \<Rightarrow> ref list \<Rightarrow> nat list \<Rightarrow> ref list \<Rightarrow> ref list" where
  "rerunRounds h budget promising [] jobs = jobs"
| "rerunRounds h budget promising (rerunIndex # rest) jobs =
     (let jobs1 = addReruns h budget rerunIndex promising jobs
      in if length jobs1 \<ge> budget then jobs1 else rerunRounds h budget promising rest jobs1)"

definition promisingOf :: "GAConfig \<Rightarrow> heap \<Rightarrow> ref list \<Rightarrow> ref list" where
  "promisingOf cfg h evaluated =
     filter (\<lambda>i. ind_distances (h ! i) \<noteq> [] \<and> ind_distances (h ! i) ! 0 < refineThreshold cfg)
       (fst (selectSuite cfg h evaluated (calibrateThreshold h evaluated)))"

text \<open>The refinement phase of \<open>generate\<close>; returns the attempts it used.\<close>

definition refine :: "environment \<Rightarrow> nat \<Rightarrow> campaign \<Rightarrow> (nat \<times> campaign) result" where
  "refine s phase2Budget st =
     (let promising = promisingOf (s_cfg s) (c_heap st) (c_evaluated st);
          killAfter = killAfterOf s st;
          rerunJobs = rerunRounds (c_heap st) phase2Budget promising [0..<nReruns (s_cfg s)] [];
          (used, w) = (if rerunJobs \<noteq> []
             then runRetryingBatch (s_cfg s) (rerun (s_isolated s) (s_cfg s) (Some (s_goal s)) killAfter (s_sim s))
                    rerunJobs phase2Budget (c_world st)
             else (0, c_world st))
      in bindE (rescoreAll (s_cfg s) (filter (\<lambda>i. length (ind_distances (w_heap w ! i)) > 1) promising) (w_heap w)) (\<lambda>h.
           Inr (used, st\<lparr>c_world := w\<lparr>w_heap := h\<rparr>\<rparr>)))"

section \<open>The whole run\<close>

text \<open>The configuration \<open>generate\<close> works with: one worker unless isolated, a smaller population for a small budget.\<close>

definition effectiveConfig :: "bool \<Rightarrow> GAConfig \<Rightarrow> nat \<Rightarrow> GAConfig" where
  "effectiveConfig isolated config budget =
     (let cfg = (if parallelWorkers config > 1 \<and> \<not> isolated then config\<lparr>parallelWorkers := 1\<rparr> else config)
      in if budget < popSize cfg then cfg\<lparr>popSize := max 2 (nat (py_round (sqrt (real budget))))\<rparr> else cfg)"

definition phase1Budget :: "GAConfig \<Rightarrow> nat \<Rightarrow> nat" where
  "phase1Budget cfg budget =
     nat (min (int budget) (max (int (popSize cfg)) (py_int ((1 - refineFraction cfg) * real budget))))"

definition setupOf :: "bool \<Rightarrow> simulator \<Rightarrow> GeneticGenerator \<Rightarrow> nat \<Rightarrow> environment" where
  "setupOf isolated sim self budget =
     \<lparr>s_isolated = isolated, s_cfg = effectiveConfig isolated (gg_config self) budget,
      s_segments = gg_segments self, s_choices = gg_seedSegments self, s_goal = last (gg_waypoints self), s_sim = sim\<rparr>"

definition startCampaign :: "environment \<Rightarrow> rng \<Rightarrow> campaign result" where
  "startCampaign s r =
     bindE (freshAll s (countsOf s) [] r) (\<lambda>(pop, h, r1).
       Inr \<lparr>c_world = \<lparr>w_heap = h, w_clock = 0, w_trace = []\<rparr>, c_rng = r1, c_pop = pop, c_gen = 0, c_maxGood = 0,
            c_evaluated = []\<rparr>)"

text \<open>
  \<open>generate\<close>: the suite (references of the selected individuals, whose test cases the source returns)
  and the final state, or \<open>None\<close> for the empty answer to a budget that is not positive.
\<close>

definition generate ::
    "bool \<Rightarrow> simulator \<Rightarrow> GeneticGenerator \<Rightarrow> rng \<Rightarrow> int \<Rightarrow> (ref list \<times> campaign) option result" where
  "generate isolated sim self r budget =
     (if budget \<le> 0 then Inr None
      else
        let b = nat budget;
            s = setupOf isolated sim self b;
            phase1 = phase1Budget (s_cfg s) b
        in bindE (startCampaign s r) (\<lambda>st0.
           bindE (runDiscovery s phase1 st0) (\<lambda>(discovery, st1).
           bindE (refine s (b - phase1) st1) (\<lambda>(refinement, st2).
           bindE (if discovery + refinement < b then runDiscovery s (b - (discovery + refinement)) st2
                  else Inr (0, st2)) (\<lambda>(_, st3).
             Inr (Some (fst (selectSuite (s_cfg s) (c_heap st3) (c_evaluated st3)
                    (calibrateThreshold (c_heap st3) (c_evaluated st3))), st3)))))))"

definition returnedTests :: "(ref list \<times> campaign) option \<Rightarrow> nat option list" where
  "returnedTests res =
     (case res of None \<Rightarrow> [] | Some (selected, st) \<Rightarrow> map (\<lambda>i. ind_testCase (c_heap st ! i)) selected)"


section \<open>The campaign invariant\<close>

text \<open>
  Every individual of the heap is bred from legal genes and scored on all its runs, the population
  and the evaluated list refer to different individuals of the heap, everything evaluated is valid,
  and every layout that was ever simulated is legal.
\<close>

definition member_ok :: "environment \<Rightarrow> Individual \<Rightarrow> bool" where
  "member_ok s ind \<longleftrightarrow> ind_scored (s_cfg s) (Some (s_goal s)) ind \<and> bred (s_cfg s) (s_segments s) ind"

definition world_ok :: "environment \<Rightarrow> world \<Rightarrow> bool" where
  "world_ok s w \<longleftrightarrow> (\<forall>ind \<in> set (w_heap w). member_ok s ind) \<and>
     (\<forall>l \<in> set (w_trace w). layout_legal (placementBounds (s_cfg s)) l)"

definition evaluated_ok :: "heap \<Rightarrow> ref list \<Rightarrow> bool" where
  "evaluated_ok h evaluated \<longleftrightarrow> refs_ok h evaluated \<and> distinct evaluated \<and> (\<forall>i \<in> set evaluated. ind_valid (h ! i))"

definition campaign_ok :: "environment \<Rightarrow> campaign \<Rightarrow> bool" where
  "campaign_ok s st \<longleftrightarrow> world_ok s (c_world st) \<and> rng_ok (c_rng st) \<and>
     refs_ok (c_heap st) (c_pop st) \<and> distinct (c_pop st) \<and> evaluated_ok (c_heap st) (c_evaluated st)"

definition environment_ok :: "environment \<Rightarrow> bool" where
  "environment_ok s \<longleftrightarrow> setting_ok (s_cfg s) (s_segments s) (s_choices s)"

abbreviation runs :: "campaign \<Rightarrow> nat" where
  "runs st \<equiv> length (w_trace (c_world st))"

lemma seed_member_ok: "unrun ind \<and> bred (s_cfg s) (s_segments s) ind \<Longrightarrow> member_ok s ind"
  unfolding member_ok_def unrun_def using newIndividual_scored by metis

lemma evaluated_ok_append: "evaluated_ok h ev \<Longrightarrow> evaluated_ok (h @ new) ev"
  by (auto simp: evaluated_ok_def refs_ok_def nth_append)

lemma refs_ok_append: "refs_ok h rs \<Longrightarrow> refs_ok (h @ new) rs"
  by (auto simp: refs_ok_def)

lemma member_nth: "world_ok s w \<Longrightarrow> i < length (w_heap w) \<Longrightarrow> member_ok s (w_heap w ! i)"
  by (simp add: world_ok_def)

lemma campaign_pop_ok: "campaign_ok s st \<Longrightarrow> pop_ok (s_cfg s) (s_segments s) (c_heap st) (c_pop st)"
  using member_nth by (fastforce simp: campaign_ok_def pop_ok_def refs_ok_def member_ok_def)

lemma bred_niche: "bred cfg segments ind \<Longrightarrow> nicheOf ind = 1 \<or> nicheOf ind = 2"
  by (erule bredE) (auto simp: gene_count_def split: kind.splits)

lemma setHeap_simps [simp]:
  "c_heap (setHeap h st) = h" "w_trace (c_world (setHeap h st)) = w_trace (c_world st)"
  "w_clock (c_world (setHeap h st)) = w_clock (c_world st)"
  "c_pop (setHeap h st) = c_pop st" "c_rng (setHeap h st) = c_rng st" "c_evaluated (setHeap h st) = c_evaluated st"
  "c_gen (setHeap h st) = c_gen st" "c_maxGood (setHeap h st) = c_maxGood st"
  by (simp_all add: setHeap_def)

section \<open>Generations\<close>

lemma freshAll_ok:
  assumes "environment_ok s" and "rng_ok r" and "set counts \<subseteq> {1, 2}"
  obtains new r1 where "freshAll s counts h r = Inr ([length h..<length h + length counts], h @ new, r1)" and "rng_ok r1"
    and "length new = length counts" and "\<forall>ind \<in> set new. unrun ind \<and> bred (s_cfg s) (s_segments s) ind"
    and "map nicheOf new = counts"
  using assms(2,3)
proof (induction counts arbitrary: h r thesis)
  case (Cons n counts)
  have "n = 1 \<or> n = 2" using Cons.prems(3) by auto
  then obtain ind r1 where i: "freshIndividual r (s_cfg s) (s_segments s) (s_choices s) n = Inr (ind, r1)" "rng_ok r1"
    "seedling (s_cfg s) (s_segments s) n ind"
    using freshIndividual_ok assms(1) Cons.prems(2) unfolding environment_ok_def by metis
  obtain new r2 where rest: "freshAll s counts (h @ [ind]) r1 =
      Inr ([length (h @ [ind])..<length (h @ [ind]) + length counts], (h @ [ind]) @ new, r2)" "rng_ok r2"
    "length new = length counts" "\<forall>ind \<in> set new. unrun ind \<and> bred (s_cfg s) (s_segments s) ind" "map nicheOf new = counts"
    by (rule Cons.IH [OF _ i(2), of "h @ [ind]"]) (use Cons.prems(3) in auto)
  have "[length h..<length h + length (n # counts)] = length h # [length (h @ [ind])..<length (h @ [ind]) + length counts]"
    by (simp add: upt_conv_Cons del: upt_Suc)
  then show ?case using Cons.prems(1) [of "ind # new" r2] i rest by (simp add: seedling_def)
qed simp

text \<open>Appending seeds to the heap keeps the invariant, whatever population is chosen from it.\<close>

lemma campaign_grow:
  assumes "campaign_ok s st" and "\<forall>ind \<in> set new. unrun ind \<and> bred (s_cfg s) (s_segments s) ind"
    and "refs_ok (c_heap st @ new) pop" and "distinct pop" and "rng_ok r"
  shows "campaign_ok s ((setHeap (c_heap st @ new) st)\<lparr>c_pop := pop, c_rng := r, c_gen := g\<rparr>)"
  using assms seed_member_ok by (auto simp: campaign_ok_def world_ok_def evaluated_ok_append)

lemma advanceGeneration_ok:
  assumes "environment_ok s" and "campaign_ok s st"
  obtains st1 where "advanceGeneration s st = Inr st1" and "campaign_ok s st1" and "runs st1 = runs st"
proof (cases "freeSlots (c_heap st) (c_pop st) = []")
  case False
  then show ?thesis using that [of st] assms(2) by (simp add: advanceGeneration_def)
next
  case True
  let ?scale = "mutationScaleAt (s_cfg s) (c_gen st + 1)"
  have rng: "rng_ok (c_rng st)" and dp: "distinct (c_pop st)" using assms(2) by (simp_all add: campaign_ok_def)
  obtain pop new r where g: "(if evolve (s_cfg s)
       then nextGeneration (c_rng st) (s_cfg s) (c_heap st) (c_pop st) (s_segments s) (s_choices s) ?scale
       else freshAll s (countsOf s) (c_heap st) (c_rng st)) = Inr (pop, c_heap st @ new, r)" "rng_ok r"
    "refs_ok (c_heap st @ new) pop" "distinct pop" "\<forall>ind \<in> set new. unrun ind \<and> bred (s_cfg s) (s_segments s) ind"
  proof (cases "evolve (s_cfg s)")
    case True
    show ?thesis
      by (rule nextGeneration_ok [OF assms(1) [unfolded environment_ok_def] rng campaign_pop_ok [OF assms(2)] dp, of ?scale])
        (use that True in \<open>simp add: pop_ok_def\<close>)
  next
    case False
    have "set (countsOf s) \<subseteq> {1, 2}" using schedule_set by (simp add: countsOf_def)
    then obtain new r1 where f: "freshAll s (countsOf s) (c_heap st) (c_rng st) =
        Inr ([length (c_heap st)..<length (c_heap st) + length (countsOf s)], c_heap st @ new, r1)" "rng_ok r1"
      "length new = length (countsOf s)" "\<forall>ind \<in> set new. unrun ind \<and> bred (s_cfg s) (s_segments s) ind"
      by (rule freshAll_ok [OF assms(1) rng])
    have "refs_ok (c_heap st @ new) [length (c_heap st)..<length (c_heap st) + length (countsOf s)]"
      using f(3) by (simp add: refs_ok_def)
    moreover have "distinct [length (c_heap st)..<length (c_heap st) + length (countsOf s)]" by simp
    ultimately show ?thesis using that [OF trans [OF if_not_P [OF False] f(1)] f(2)] f(4) by blast
  qed
  let ?st = "(setHeap (c_heap st @ new) st)\<lparr>c_pop := pop, c_rng := r, c_gen := c_gen st + 1\<rparr>"
  have "advanceGeneration s st = Inr ?st" unfolding advanceGeneration_def Let_def g(1) using True by simp
  then show ?thesis using that campaign_grow [OF assms(2) g(5,3,4,2)] by simp
qed

section \<open>Batches of the campaign\<close>

lemma bred_step:
  "bred cfg segments ind \<Longrightarrow> same_layout ind ind' \<Longrightarrow> ind_illegal ind \<longrightarrow> ind_illegal ind' \<Longrightarrow> bred cfg segments ind'"
  by (auto simp: bred_def same_layout_def)

interpretation member_evaluation: attempt_operation "evaluate isolated cfg goal killAfter sim"
    "\<lambda>ind. ind_scored cfg goal ind \<and> bred cfg segments ind" "layout_legal (placementBounds cfg)"
  for isolated cfg goal killAfter sim segments
  by unfold_locales (use evaluate_keeps bred_step in blast)+

interpretation member_rerun: attempt_operation "rerun isolated cfg goal killAfter sim"
    "\<lambda>ind. ind_rerunnable cfg goal ind \<and> bred cfg segments ind" "layout_legal (placementBounds cfg)"
  for isolated cfg goal killAfter sim segments
  by unfold_locales (use rerun_keeps bred_step in blast)+

text \<open>A batch moves the world forward; individuals outside it and their validity stay.\<close>

lemma grown_world:
  assumes "grown I (layout_legal (placementBounds (s_cfg s))) rs n w w'" and "world_ok s w"
  shows "\<forall>l \<in> set (w_trace w'). layout_legal (placementBounds (s_cfg s)) l" and "length (w_trace w') = length (w_trace w) + n"
    and "i < length (w_heap w') \<Longrightarrow> i \<notin> rs \<Longrightarrow> member_ok s (w_heap w' ! i)"
  using assms member_nth by (auto simp: grown_def world_ok_def)

lemma rescoreAll_ok:
  assumes "refs_ok h rs" and "\<forall>r \<in> set rs. ind_ok cfg g (h ! r) \<and> ind_valid (h ! r)"
  obtains h' where "rescoreAll cfg rs h = Inr h'" and "length h' = length h"
    and "\<forall>r \<in> set rs. ind_scored cfg g (h' ! r)" and "\<forall>r. r \<notin> set rs \<longrightarrow> h' ! r = h ! r"
    and "\<forall>r. same_layout (h ! r) (h' ! r) \<and> ind_valid (h' ! r) = ind_valid (h ! r) \<and> ind_illegal (h' ! r) = ind_illegal (h ! r)"
  using assms
proof (induction rs arbitrary: h thesis)
  case Nil
  show ?case by (rule Nil.prems(1) [of h]) simp_all
next
  case (Cons r rs)
  obtain ind where i: "rescore cfg (h ! r) = Inr ind" "ind_scored cfg g ind" "same_layout (h ! r) ind" "ind_valid ind"
    "ind_illegal ind = ind_illegal (h ! r)"
    by (rule rescore_ok [of cfg g "h ! r"]) (use Cons.prems(3) in simp_all)
  have rl: "r < length h" using Cons.prems(2) by simp
  have ok: "ind_ok cfg g ind" using i(2) by (simp add: ind_scored_def)
  obtain h' where h': "rescoreAll cfg rs (h[r := ind]) = Inr h'" "length h' = length (h[r := ind])"
    "\<forall>q \<in> set rs. ind_scored cfg g (h' ! q)" "\<forall>q. q \<notin> set rs \<longrightarrow> h' ! q = h[r := ind] ! q"
    "\<forall>q. same_layout (h[r := ind] ! q) (h' ! q) \<and> ind_valid (h' ! q) = ind_valid (h[r := ind] ! q) \<and>
       ind_illegal (h' ! q) = ind_illegal (h[r := ind] ! q)"
    by (rule Cons.IH [of "h[r := ind]"]) (use Cons.prems(2,3) ok i(4) rl in \<open>auto simp: refs_ok_def nth_list_update\<close>)
  have "same_layout (h ! q) (h' ! q) \<and> ind_valid (h' ! q) = ind_valid (h ! q) \<and> ind_illegal (h' ! q) = ind_illegal (h ! q)" for q
    using h'(5) i(3,4,5) rl Cons.prems(3) same_layout_trans by (cases "q = r") (auto dest: spec [of _ q])
  moreover have "ind_scored cfg g (h' ! q)" if "q \<in> set (r # rs)" for q
    using that h'(3,4) i(2) rl by (cases "q \<in> set rs") auto
  ultimately show ?case using Cons.prems(1) [of h'] h'(1,2,4) i(1) by auto
qed


text \<open>A batch of reruns of valid individuals, followed by rescoring the ones with a second run.\<close>

lemma rerunnable_member: "member_ok s ind \<Longrightarrow> ind_valid ind \<Longrightarrow> ind_rerunnable (s_cfg s) (Some (s_goal s)) ind"
  by (simp add: member_ok_def ind_scored_def ind_rerunnable_def)

lemma rerun_rescore_ok:
  assumes "world_ok s w" and "refs_ok (w_heap w) jobs" and "\<forall>i \<in> set jobs. ind_valid (w_heap w ! i)"
    and "refs_ok (w_heap w) again" and "\<forall>i \<in> set again. ind_valid (w_heap w ! i)"
    and "runRetryingBatch (s_cfg s) (rerun (s_isolated s) (s_cfg s) (Some (s_goal s)) killAfter (s_sim s)) jobs budget w = (used, w1)"
    and "\<forall>i \<in> set jobs. i \<notin> set again \<longrightarrow> length (ind_distances (w_heap w1 ! i)) \<le> 1"
  obtains h where "rescoreAll (s_cfg s) again (w_heap w1) = Inr h" and "used \<le> budget"
    and "world_ok s (w1\<lparr>w_heap := h\<rparr>)" and "length (w_trace w1) = length (w_trace w) + used" and "length h = length (w_heap w)"
    and "\<forall>i. ind_valid (w_heap w ! i) \<longrightarrow> ind_valid (h ! i)"
proof -
  let ?g = "Some (s_goal s)" and ?cfg = "s_cfg s"
  let ?I = "\<lambda>ind. ind_rerunnable ?cfg ?g ind \<and> bred ?cfg (s_segments s) ind"
  have inv: "\<forall>i \<in> set jobs. ?I (w_heap w ! i)"
    using assms(2,3) member_nth [OF assms(1)] rerunnable_member by (auto simp: refs_ok_def member_ok_def)
  have used: "used \<le> budget" and gr: "grown ?I (layout_legal (placementBounds ?cfg)) (set jobs) used w w1"
    using member_rerun.runRetryingBatch_grown [OF assms(6,2) inv] by auto
  note wd = grown_world [OF gr assms(1)]
  have valid: "ind_valid (w_heap w1 ! i)" if "ind_valid (w_heap w ! i)" for i
    using gr that by (cases "i \<in> set jobs") (auto simp: grown_def ind_rerunnable_def)
  have len: "length (w_heap w1) = length (w_heap w)" using gr by (simp add: grown_def)
  have ok: "ind_ok ?cfg ?g (w_heap w1 ! i) \<and> bred ?cfg (s_segments s) (w_heap w1 ! i)" if "i < length (w_heap w)" for i
    using gr wd(3) [of i] that len by (cases "i \<in> set jobs") (auto simp: grown_def ind_rerunnable_def member_ok_def ind_scored_def)
  have refs: "refs_ok (w_heap w1) again" using assms(4) len by (simp add: refs_ok_def)
  have pre: "\<forall>i \<in> set again. ind_ok ?cfg ?g (w_heap w1 ! i) \<and> ind_valid (w_heap w1 ! i)"
    using assms(4,5) ok valid by (auto simp: refs_ok_def)
  obtain h where h: "rescoreAll ?cfg again (w_heap w1) = Inr h" "length h = length (w_heap w1)"
    "\<forall>r \<in> set again. ind_scored ?cfg ?g (h ! r)" "\<forall>r. r \<notin> set again \<longrightarrow> h ! r = w_heap w1 ! r"
    "\<forall>r. same_layout (w_heap w1 ! r) (h ! r) \<and> ind_valid (h ! r) = ind_valid (w_heap w1 ! r) \<and>
      ind_illegal (h ! r) = ind_illegal (w_heap w1 ! r)"
    by (rule rescoreAll_ok [OF refs pre])
  have "member_ok s (h ! i)" if "i < length h" for i
  proof -
    have "bred ?cfg (s_segments s) (h ! i)" using ok [of i] that h(2,5) len bred_step by metis
    moreover have "ind_scored ?cfg ?g (h ! i)"
    proof (cases "i \<in> set again")
      case False
      then show ?thesis using gr wd(3) [of i] h(2,4) assms(7) that
        by (cases "i \<in> set jobs") (auto simp: grown_def ind_rerunnable_def member_ok_def ind_scored_def)
    qed (use h(3) in blast)
    ultimately show ?thesis by (simp add: member_ok_def)
  qed
  then have "world_ok s (w1\<lparr>w_heap := h\<rparr>)" using wd(1) by (auto simp: world_ok_def in_set_conv_nth)
  then show ?thesis using that [OF h(1) used] wd(2) h(2,5) len valid by simp
qed

lemma confirmElites_ok:
  assumes "campaign_ok s st"
  obtains used st1 where "confirmElites s remaining killAfter st = Inr (used, st1)" and "campaign_ok s st1"
    and "used \<le> remaining" and "runs st1 = runs st + used" and "c_pop st1 = c_pop st"
    and "c_evaluated st1 = c_evaluated st" and "length (c_heap st1) = length (c_heap st)"
proof -
  define el where "el = (if rerunElites (s_cfg s) then filter (\<lambda>i. ind_valid (c_heap st ! i)) (c_pop st) else [])"
  have refs: "refs_ok (c_heap st) el" "\<forall>i \<in> set el. ind_valid (c_heap st ! i)"
    using assms by (auto simp: campaign_ok_def el_def intro: refs_ok_subset)
  show ?thesis
  proof (cases "el \<noteq> [] \<and> remaining > length el")
    case True
    obtain used w1 where b: "runRetryingBatch (s_cfg s) (rerun (s_isolated s) (s_cfg s) (Some (s_goal s)) killAfter (s_sim s))
        el (length el) (c_world st) = (used, w1)" by fastforce
    have wo: "world_ok s (c_world st)" using assms by (simp add: campaign_ok_def)
    obtain h where h: "rescoreAll (s_cfg s) el (w_heap w1) = Inr h" "used \<le> length el"
      "world_ok s (w1\<lparr>w_heap := h\<rparr>)" "length (w_trace w1) = runs st + used" "length h = length (c_heap st)"
      "\<forall>i. ind_valid (c_heap st ! i) \<longrightarrow> ind_valid (h ! i)"
      by (rule rerun_rescore_ok [OF wo refs refs b]) simp_all
    have "confirmElites s remaining killAfter st = Inr (used, st\<lparr>c_world := w1\<lparr>w_heap := h\<rparr>\<rparr>)"
      using True b h(1) by (simp add: confirmElites_def Let_def flip: el_def)
    moreover have "campaign_ok s (st\<lparr>c_world := w1\<lparr>w_heap := h\<rparr>\<rparr>)"
      using assms h(3,5,6) by (auto simp: campaign_ok_def evaluated_ok_def refs_ok_def)
    ultimately show ?thesis using that h(2,4,5) True by simp
  next
    case False
    then have "confirmElites s remaining killAfter st = Inr (0, st)"
      unfolding confirmElites_def Let_def el_def [symmetric] by (rule if_not_P)
    then show ?thesis using that assms by simp
  qed
qed

section \<open>Discovery\<close>

lemma member_ok_generation [simp]: "member_ok s (ind\<lparr>ind_generation := g\<rparr>) = member_ok s ind"
  by (simp add: member_ok_def ind_scored_def ind_ok_def bred_def scored_def officialOf_def searchOf_def)

lemma settleSlots_ok:
  assumes "environment_ok s" and "campaign_ok s st" and "\<forall>(idx, i) \<in> set slots. i < length (c_heap st)"
  obtains st1 where "settleSlots s slots st = Inr st1" and "campaign_ok s st1" and "runs st1 = runs st"
  using assms(2,3)
proof (induction slots arbitrary: st thesis)
  case (Cons slot slots)
  obtain idx i where slot: "slot = (idx, i)" by (cases slot)
  let ?ind = "c_heap st ! i"
  have il: "i < length (c_heap st)" using Cons.prems(3) slot by simp
  have later: "\<forall>(idx, i) \<in> set slots. i < length (c_heap st)" using Cons.prems(3) by simp
  have mem: "member_ok s ?ind" using Cons.prems(2) il member_nth by (simp add: campaign_ok_def)
  consider (store) "ind_valid ?ind \<and> i \<notin> set (c_evaluated st)"
    | (reseed) "\<not> (ind_valid ?ind \<and> i \<notin> set (c_evaluated st))"
        "\<not> ind_valid ?ind \<and> \<not> ind_illegal ?ind \<and> ind_attempts ?ind \<ge> maxRunFailures (s_cfg s)"
    | (keep) "\<not> (ind_valid ?ind \<and> i \<notin> set (c_evaluated st))"
        "\<not> (\<not> ind_valid ?ind \<and> \<not> ind_illegal ?ind \<and> ind_attempts ?ind \<ge> maxRunFailures (s_cfg s))"
    by blast
  then show ?case
  proof cases
    case store
    let ?h = "heap_upd (c_heap st) i (ind_generation_update (\<lambda>_. c_gen st))"
    let ?st = "(setHeap ?h st)\<lparr>c_evaluated := c_evaluated st @ [i],
        c_maxGood := (if \<not> ind_stuck ?ind \<and> ind_duration ?ind > c_maxGood st then ind_duration ?ind else c_maxGood st)\<rparr>"
    have "ind_valid (?h ! j) = ind_valid (c_heap st ! j)" if "j < length (c_heap st)" for j
      using that by (simp add: heap_upd_nth)
    then have "campaign_ok s ?st"
      using Cons.prems(2) store il mem
      by (auto simp: campaign_ok_def world_ok_def evaluated_ok_def refs_ok_def heap_upd_def dest!: set_update_subset_insert [THEN subsetD])
    moreover have "\<forall>(idx, i) \<in> set slots. i < length (c_heap ?st)" using later by simp
    ultimately obtain st1 where "settleSlots s slots ?st = Inr st1" "campaign_ok s st1" "runs st1 = runs ?st"
      by (rule Cons.IH [rotated])
    then show ?thesis using Cons.prems(1) [of st1] store slot by (simp add: Let_def)
  next
    case reseed
    have "bred (s_cfg s) (s_segments s) ?ind" using mem by (simp add: member_ok_def)
    then obtain new r where f: "freshIndividual (c_rng st) (s_cfg s) (s_segments s) (s_choices s) (nicheOf ?ind) = Inr (new, r)"
      "rng_ok r" "seedling (s_cfg s) (s_segments s) (nicheOf ?ind) new"
      using freshIndividual_ok [OF assms(1) [unfolded environment_ok_def] _ bred_niche] Cons.prems(2)
      unfolding campaign_ok_def by metis
    let ?pop = "(c_pop st)[idx := length (c_heap st)]"
    let ?st = "(setHeap (c_heap st @ [new]) st)\<lparr>c_pop := ?pop, c_rng := r\<rparr>"
    have refs: "refs_ok (c_heap st) (c_pop st)" "distinct (c_pop st)" using Cons.prems(2) by (simp_all add: campaign_ok_def)
    then have "length (c_heap st) \<notin> set (c_pop st)" by (auto simp: refs_ok_def)
    then have "distinct ?pop" using refs(2) by (simp add: distinct_list_update)
    moreover have "refs_ok (c_heap st @ [new]) ?pop"
      using refs(1) set_update_subset_insert [of "c_pop st" idx "length (c_heap st)"]
      by (fastforce simp: refs_ok_def)
    ultimately have "campaign_ok s ((setHeap (c_heap st @ [new]) st)\<lparr>c_pop := ?pop, c_rng := r, c_gen := c_gen st\<rparr>)"
      using campaign_grow [OF Cons.prems(2), of "[new]" ?pop r] f(2,3) by (simp add: seedling_def)
    then have "campaign_ok s ?st" by (simp add: campaign_ok_def)
    moreover have "\<forall>(idx, i) \<in> set slots. i < length (c_heap ?st)" using later by auto
    ultimately obtain st1 where "settleSlots s slots ?st = Inr st1" "campaign_ok s st1" "runs st1 = runs ?st"
      by (rule Cons.IH [rotated])
    then show ?thesis using Cons.prems(1) [of st1] reseed f(1) slot by (simp add: Let_def)
  next
    case keep
    obtain st1 where "settleSlots s slots st = Inr st1" "campaign_ok s st1" "runs st1 = runs st"
      using Cons.prems(2) later by (rule Cons.IH [rotated])
    then show ?thesis using Cons.prems(1) [of st1] keep slot by (auto simp: Let_def)
  qed
qed simp


lemma freeSlots_mem:
  "idx \<in> set (freeSlots h pop) \<longleftrightarrow> idx < length pop \<and> \<not> ind_valid (h ! (pop ! idx)) \<and> \<not> ind_illegal (h ! (pop ! idx))"
  by (auto simp: freeSlots_def)

lemma discoveryRound_ok:
  assumes "environment_ok s" and "campaign_ok s st"
  obtains eliteUsed usedNow st3 where "discoveryRound s remaining st = Inr (eliteUsed, usedNow, st3)"
    and "campaign_ok s st3" and "eliteUsed + usedNow \<le> remaining" and "runs st3 = runs st + eliteUsed + usedNow"
proof -
  let ?I = "\<lambda>ind. ind_scored (s_cfg s) (Some (s_goal s)) ind \<and> bred (s_cfg s) (s_segments s) ind"
  obtain st1 where st1: "advanceGeneration s st = Inr st1" "campaign_ok s st1" "runs st1 = runs st"
    using advanceGeneration_ok [OF assms] .
  obtain eliteUsed st2 where st2: "confirmElites s remaining (killAfterOf s st1) st1 = Inr (eliteUsed, st2)" "campaign_ok s st2"
    "eliteUsed \<le> remaining" "runs st2 = runs st1 + eliteUsed" "c_pop st2 = c_pop st1" "c_evaluated st2 = c_evaluated st1"
    "length (c_heap st2) = length (c_heap st1)"
    using confirmElites_ok [OF st1(2)] .
  define slots where "slots = take (remaining - eliteUsed) (take remaining (freeSlots (c_heap st1) (c_pop st1)))"
  define cands where "cands = map ((!) (c_pop st1)) slots"
  obtain usedNow w where b: "runRetryingBatch (s_cfg s)
      (evaluate (s_isolated s) (s_cfg s) (Some (s_goal s)) (killAfterOf s st1) (s_sim s)) cands (remaining - eliteUsed) (c_world st2) =
      (usedNow, w)" by fastforce
  have free: "idx \<in> set (freeSlots (c_heap st1) (c_pop st1))" if "idx \<in> set slots" for idx
    using that unfolding slots_def by (meson in_set_takeD)
  have cand: "i \<in> set (c_pop st1) \<and> \<not> ind_valid (c_heap st1 ! i)" if "i \<in> set cands" for i
    using that free by (auto simp: cands_def freeSlots_mem)
  have refs: "refs_ok (c_heap st2) cands"
    using st2(2,5) cand by (auto simp: campaign_ok_def refs_ok_def)
  have wo: "world_ok s (c_world st2)" using st2(2) by (simp add: campaign_ok_def)
  have inv: "\<forall>i \<in> set cands. ?I (c_heap st2 ! i)"
    using refs member_nth [OF wo] by (auto simp: refs_ok_def member_ok_def)
  have used: "usedNow \<le> remaining - eliteUsed"
    and gr: "grown ?I (layout_legal (placementBounds (s_cfg s))) (set cands) usedNow (c_world st2) w"
    using member_evaluation.runRetryingBatch_grown [OF b refs inv] by auto
  note wd = grown_world [OF gr wo]
  have len: "length (w_heap w) = length (c_heap st2)" using gr by (simp add: grown_def)
  have "member_ok s (w_heap w ! i)" if "i < length (w_heap w)" for i
    using wd(3) [OF that] gr by (cases "i \<in> set cands") (auto simp: grown_def member_ok_def)
  then have "world_ok s w" using wd(1) by (auto simp: world_ok_def in_set_conv_nth)
  moreover have "evaluated_ok (w_heap w) (c_evaluated st2)"
  proof -
    have "i \<notin> set cands" if "i \<in> set (c_evaluated st2)" for i
      using that cand st1(2) st2(6) by (auto simp: campaign_ok_def evaluated_ok_def)
    then have "w_heap w ! i = c_heap st2 ! i" if "i \<in> set (c_evaluated st2)" for i
      using that gr by (simp add: grown_def)
    then show ?thesis using st2(2) len by (auto simp: campaign_ok_def evaluated_ok_def refs_ok_def)
  qed
  ultimately have "campaign_ok s (st2\<lparr>c_world := w\<rparr>)" using st2(2) len by (simp add: campaign_ok_def refs_ok_def)
  moreover have "\<forall>(idx, i) \<in> set (zip slots cands). i < length (c_heap (st2\<lparr>c_world := w\<rparr>))"
    using refs len by (auto simp: refs_ok_def dest: set_zip_rightD)
  ultimately obtain st3 where st3: "settleSlots s (zip slots cands) (st2\<lparr>c_world := w\<rparr>) = Inr st3" "campaign_ok s st3"
    "runs st3 = runs (st2\<lparr>c_world := w\<rparr>)"
    by (rule settleSlots_ok [OF assms(1)])
  have "discoveryRound s remaining st = Inr (eliteUsed, usedNow, st3)"
    unfolding discoveryRound_def st1(1) bindE_simps Let_def st2(1) prod.case
      slots_def [symmetric] cands_def [symmetric] b st3(1) ..
  then show ?thesis using that st3(2,3) used st2(3,4) st1(3) wd(2) by simp
qed

lemma discoveryLoop_ok:
  assumes "environment_ok s" and "campaign_ok s st" and "used \<le> budget"
  obtains used1 st1 where "discoveryLoop s budget used idle st = Inr (used1, st1)" and "campaign_ok s st1"
    and "used \<le> used1" and "used1 \<le> budget" and "runs st1 = runs st + (used1 - used)"
  using assms
proof (induction s budget used idle st arbitrary: thesis rule: discoveryLoop.induct)
  case (1 s budget used idle st)
  show ?case
  proof (cases "used < budget \<and> idle < noProgressLimit (s_cfg s)")
    case True
    obtain e u st3 where r: "discoveryRound s (budget - used) st = Inr (e, u, st3)" "campaign_ok s st3"
      "e + u \<le> budget - used" "runs st3 = runs st + e + u"
      using discoveryRound_ok [OF "1.prems"(2,3)] .
    have le: "used + e + u \<le> budget" using r(3) conjunct1 [OF True] by linarith
    obtain used1 st1 where l: "discoveryLoop s budget (used + e + u) (if u = 0 then idle + 1 else 0) st3 = Inr (used1, st1)"
      "campaign_ok s st1" "used + e + u \<le> used1" "used1 \<le> budget" "runs st1 = runs st3 + (used1 - (used + e + u))"
      using "1.IH" [OF True r(1) refl refl _ "1.prems"(2) r(2) le] by blast
    have "discoveryLoop s budget used idle st = Inr (used1, st1)"
      unfolding discoveryLoop.simps [of s budget used idle st] using True r(1) l(1) by simp
    then show ?thesis using "1.prems"(1) [of used1 st1] l(2-5) r(4) by simp
  next
    case False
    then have "discoveryLoop s budget used idle st = Inr (used, st)"
      unfolding discoveryLoop.simps [of s budget used idle st] by (rule if_not_P)
    then show ?thesis using "1.prems" by simp
  qed
qed

lemma runDiscovery_ok:
  assumes "environment_ok s" and "campaign_ok s st"
  obtains used st1 where "runDiscovery s budget st = Inr (used, st1)" and "campaign_ok s st1"
    and "used \<le> budget" and "runs st1 = runs st + used"
  unfolding runDiscovery_def by (rule discoveryLoop_ok [OF assms, of 0 budget 0]) (simp_all add: that runDiscovery_def)


section \<open>Refinement\<close>

lemma addReruns_set:
  "set (addReruns h b i cands jobs) \<subseteq> set cands \<union> set jobs \<and> length (addReruns h b i cands jobs) \<le> max b (length jobs)"
proof (induction cands arbitrary: jobs)
  case (Cons c cs)
  let ?j = "if length (ind_distances (h ! c)) - 1 \<le> i \<and> length jobs < b then jobs @ [c] else jobs"
  have "set ?j \<subseteq> insert c (set jobs)" "length ?j \<le> max b (length jobs)" by auto
  then show ?case using Cons.IH [of ?j] by (simp only: addReruns.simps list.set) force
qed simp

lemma rerunRounds_set:
  "set (rerunRounds h b cands is jobs) \<subseteq> set cands \<union> set jobs"
proof (induction "is" arbitrary: jobs)
  case (Cons i ss)
  let ?j = "addReruns h b i cands jobs"
  have "set ?j \<subseteq> set cands \<union> set jobs" using addReruns_set by blast
  then show ?case using Cons.IH [of ?j] by (auto simp: Let_def)
qed simp

lemma runRetryingBatch_none: "runRetryingBatch cfg operation [] b w = (0, w)"
  by (simp add: runRetryingBatch_def retryLoop.simps)

lemma promising_evaluated: "set (promisingOf cfg h ev) \<subseteq> set ev"
  using selectSuite_ok [of cfg h ev "calibrateThreshold h ev" "fst (selectSuite cfg h ev (calibrateThreshold h ev))"
      "snd (selectSuite cfg h ev (calibrateThreshold h ev))"]
  by (auto simp: promisingOf_def)

lemma refine_ok:
  assumes "campaign_ok s st"
  obtains used st1 where "refine s budget st = Inr (used, st1)" and "campaign_ok s st1"
    and "used \<le> budget" and "runs st1 = runs st + used"
proof -
  define cands where "cands = promisingOf (s_cfg s) (c_heap st) (c_evaluated st)"
  define jobs where "jobs = rerunRounds (c_heap st) budget cands [0..<nReruns (s_cfg s)] []"
  have sub: "set cands \<subseteq> set (c_evaluated st)" "set jobs \<subseteq> set cands"
    using promising_evaluated rerunRounds_set [of "c_heap st" budget cands _ "[]"] by (auto simp: cands_def jobs_def)
  have ev: "refs_ok (c_heap st) (c_evaluated st)" "\<forall>i \<in> set (c_evaluated st). ind_valid (c_heap st ! i)"
    using assms by (simp_all add: campaign_ok_def evaluated_ok_def)
  obtain used w where b: "runRetryingBatch (s_cfg s) (rerun (s_isolated s) (s_cfg s) (Some (s_goal s)) (killAfterOf s st) (s_sim s))
      jobs budget (c_world st) = (used, w)" by fastforce
  define again where "again = filter (\<lambda>i. length (ind_distances (w_heap w ! i)) > 1) cands"
  have again: "set again \<subseteq> set (c_evaluated st)" using sub(1) by (auto simp: again_def)
  have wo: "world_ok s (c_world st)" using assms by (simp add: campaign_ok_def)
  obtain h where h: "rescoreAll (s_cfg s) again (w_heap w) = Inr h" "used \<le> budget"
    "world_ok s (w\<lparr>w_heap := h\<rparr>)" "length (w_trace w) = runs st + used" "length h = length (c_heap st)"
    "\<forall>i. ind_valid (c_heap st ! i) \<longrightarrow> ind_valid (h ! i)"
  proof (rule rerun_rescore_ok [OF wo _ _ _ _ b, of again])
    show "refs_ok (c_heap st) jobs" "refs_ok (c_heap st) again"
      using refs_ok_subset [OF ev(1)] sub again by (blast, blast)
    show "\<forall>i \<in> set jobs. ind_valid (c_heap st ! i)" "\<forall>i \<in> set again. ind_valid (c_heap st ! i)"
      using ev(2) sub again by blast+
    show "\<forall>i \<in> set jobs. i \<notin> set again \<longrightarrow> length (ind_distances (w_heap w ! i)) \<le> 1"
      using sub(2) by (auto simp: again_def)
  qed
  have "(if jobs \<noteq> [] then runRetryingBatch (s_cfg s) (rerun (s_isolated s) (s_cfg s) (Some (s_goal s)) (killAfterOf s st) (s_sim s))
      jobs budget (c_world st) else (0, c_world st)) = (used, w)"
    using b by (cases "jobs = []") (simp_all add: runRetryingBatch_none)
  then have "refine s budget st = Inr (used, st\<lparr>c_world := w\<lparr>w_heap := h\<rparr>\<rparr>)"
    unfolding refine_def Let_def cands_def [symmetric] jobs_def [symmetric]
    using h(1) by (simp add: again_def)
  moreover have "campaign_ok s (st\<lparr>c_world := w\<lparr>w_heap := h\<rparr>\<rparr>)"
    using assms h(3,5,6) by (auto simp: campaign_ok_def evaluated_ok_def refs_ok_def)
  ultimately show ?thesis using that h(2,4) by simp
qed

section \<open>The whole run\<close>

lemma effectiveConfig_fields [simp]:
  "seedSides (effectiveConfig isol cfg b) = seedSides cfg" "seedDraws (effectiveConfig isol cfg b) = seedDraws cfg"
  "tournamentK (effectiveConfig isol cfg b) = tournamentK cfg" "gateShare (effectiveConfig isol cfg b) = gateShare cfg"
  "placementBounds (effectiveConfig isol cfg b) = placementBounds cfg" "topK (effectiveConfig isol cfg b) = topK cfg"
  "goalTol (effectiveConfig isol cfg b) = goalTol cfg"
  by (simp_all add: effectiveConfig_def placementBounds_def Let_def)

lemma setupOf_ok:
  assumes "setting_ok (gg_config self) (gg_segments self) (gg_seedSegments self)"
  shows "environment_ok (setupOf isol sim self b)"
  using assms by (simp add: environment_ok_def setting_ok_def setupOf_def)

lemma startCampaign_ok:
  assumes "environment_ok s" and "rng_ok r"
  obtains st where "startCampaign s r = Inr st" and "campaign_ok s st" and "runs st = 0"
proof -
  have "set (countsOf s) \<subseteq> {1, 2}" using schedule_set by (simp add: countsOf_def)
  then obtain new r1 where f: "freshAll s (countsOf s) [] r = Inr ([length ([] :: heap)..<length ([] :: heap) + length (countsOf s)], [] @ new, r1)" "rng_ok r1"
    "length new = length (countsOf s)" "\<forall>ind \<in> set new. unrun ind \<and> bred (s_cfg s) (s_segments s) ind"
    by (rule freshAll_ok [OF assms])
  let ?st = "\<lparr>c_world = \<lparr>w_heap = new, w_clock = 0, w_trace = []\<rparr>, c_rng = r1, c_pop = [0..<length (countsOf s)], c_gen = 0,
      c_maxGood = 0, c_evaluated = []\<rparr>"
  have "startCampaign s r = Inr ?st" using f(1) by (simp add: startCampaign_def)
  moreover have "campaign_ok s ?st"
    using f(2-4) seed_member_ok by (auto simp: campaign_ok_def world_ok_def evaluated_ok_def refs_ok_def)
  ultimately show ?thesis using that by simp
qed

lemma phase1Budget_le: "phase1Budget cfg b \<le> b"
  by (simp add: phase1Budget_def nat_le_iff)

lemma generate_ok:
  assumes "setting_ok (gg_config self) (gg_segments self) (gg_seedSegments self)" and "rng_ok r" and "0 < budget"
  obtains selected st where "generate isolated sim self r budget = Inr (Some (selected, st))"
    and "campaign_ok (setupOf isolated sim self (nat budget)) st" and "runs st \<le> nat budget"
    and "selected = fst (selectSuite (effectiveConfig isolated (gg_config self) (nat budget)) (c_heap st) (c_evaluated st)
      (calibrateThreshold (c_heap st) (c_evaluated st)))"
proof -
  let ?b = "nat budget"
  define s where "s = setupOf isolated sim self ?b"
  define p1 where "p1 = phase1Budget (s_cfg s) ?b"
  have env: "environment_ok s" unfolding s_def by (rule setupOf_ok [OF assms(1)])
  obtain st0 where st0: "startCampaign s r = Inr st0" "campaign_ok s st0" "runs st0 = 0"
    by (rule startCampaign_ok [OF env assms(2)])
  obtain u1 st1 where st1: "runDiscovery s p1 st0 = Inr (u1, st1)" "campaign_ok s st1" "u1 \<le> p1" "runs st1 = runs st0 + u1"
    by (rule runDiscovery_ok [OF env st0(2)])
  obtain u2 st2 where st2: "refine s (?b - p1) st1 = Inr (u2, st2)" "campaign_ok s st2" "u2 \<le> ?b - p1" "runs st2 = runs st1 + u2"
    by (rule refine_ok [OF st1(2)])
  obtain u3 st3' where st3': "runDiscovery s (?b - (u1 + u2)) st2 = Inr (u3, st3')" "campaign_ok s st3'"
    "u3 \<le> ?b - (u1 + u2)" "runs st3' = runs st2 + u3"
    by (rule runDiscovery_ok [OF env st2(2)])
  have "u1 + u2 \<le> ?b" using st1(3) st2(3) phase1Budget_le [of "s_cfg s" ?b] unfolding p1_def by linarith
  then obtain st3 u where st3: "(if u1 + u2 < ?b then runDiscovery s (?b - (u1 + u2)) st2 else Inr (0, st2)) = Inr (u, st3)"
    "campaign_ok s st3" "runs st3 \<le> ?b"
    using st0(3) st1(4) st2(2,4) st3' by (cases "u1 + u2 < ?b") auto
  have "generate isolated sim self r budget = Inr (Some (fst (selectSuite (s_cfg s) (c_heap st3) (c_evaluated st3)
      (calibrateThreshold (c_heap st3) (c_evaluated st3))), st3))"
    using assms(3) st0(1) st1(1) st2(1) st3(1)
    unfolding generate_def Let_def s_def [symmetric] p1_def [symmetric] by simp
  then show ?thesis using that st3(2,3) by (simp add: s_def setupOf_def)
qed


section \<open>Properties\<close>

text \<open>The reruns a candidate already has.\<close>

definition existingReruns :: "heap \<Rightarrow> ref \<Rightarrow> nat" where
  "existingReruns h i = length (ind_distances (h ! i)) - 1"

lemma addReruns_count:
  assumes "distinct cands" and "length jobs \<le> b"
  shows "length jobs \<le> length (addReruns h b i cands jobs) \<and> length (addReruns h b i cands jobs) \<le> b \<and>
    count_list (addReruns h b i cands jobs) c \<le> count_list jobs c + (if c \<in> set cands \<and> existingReruns h c \<le> i then 1 else 0) \<and>
    (length (addReruns h b i cands jobs) < b \<longrightarrow>
      count_list (addReruns h b i cands jobs) c = count_list jobs c + (if c \<in> set cands \<and> existingReruns h c \<le> i then 1 else 0))"
  using assms
proof (induction cands arbitrary: jobs)
  case (Cons d cands)
  let ?j = "if existingReruns h d \<le> i \<and> length jobs < b then jobs @ [d] else jobs"
  have step: "addReruns h b i (d # cands) jobs = addReruns h b i cands ?j" by (simp add: existingReruns_def)
  have j: "length ?j \<le> b" "length jobs \<le> length ?j" using Cons.prems(2) by auto
  note ih = Cons.IH [OF _ j(1), of]
  show ?case
  proof (cases "c = d")
    case True
    then have "c \<notin> set cands" using Cons.prems(1) by auto
    then show ?thesis unfolding step using ih Cons.prems(1) j True by (auto split: if_splits)
  next
    case False
    then have "count_list ?j c = count_list jobs c" by simp
    then show ?thesis unfolding step using ih Cons.prems(1) j False by (auto split: if_splits)
  qed
qed simp

lemma rerunRounds_count:
  assumes "distinct cands" and "length jobs \<le> b"
  shows "length (rerunRounds h b cands js jobs) \<le> b \<and>
    count_list (rerunRounds h b cands js jobs) c \<le> count_list jobs c + (if c \<in> set cands then length (filter (\<lambda>i. existingReruns h c \<le> i) js) else 0) \<and>
    (length (rerunRounds h b cands js jobs) < b \<longrightarrow>
      count_list (rerunRounds h b cands js jobs) c = count_list jobs c + (if c \<in> set cands then length (filter (\<lambda>i. existingReruns h c \<le> i) js) else 0))"
  using assms
proof (induction js arbitrary: jobs)
  case (Cons i js)
  let ?j = "addReruns h b i cands jobs"
  note a = addReruns_count [OF Cons.prems, of h i c]
  show ?case
  proof (cases "length ?j \<ge> b")
    case True
    then have "rerunRounds h b cands (i # js) jobs = ?j" by (simp add: Let_def)
    then show ?thesis using a True by (auto split: if_splits)
  next
    case False
    then have "rerunRounds h b cands (i # js) jobs = rerunRounds h b cands js ?j" by (simp add: Let_def)
    then show ?thesis using a False Cons.IH [of ?j] Cons.prems(1) by (auto split: if_splits)
  qed
qed simp

text \<open>
  The refinement plan is bounded and complete: it never asks for more reruns than the budget, never
  brings a candidate beyond its configured number of reruns, and whenever it leaves budget unused it
  brings every promising candidate exactly to that number.
\<close>

theorem rerunRounds_correct:
  assumes "distinct cands"
  shows "length (rerunRounds h b cands [0..<n] []) \<le> b \<and> set (rerunRounds h b cands [0..<n] []) \<subseteq> set cands \<and>
    (\<forall>c \<in> set cands. count_list (rerunRounds h b cands [0..<n] []) c \<le> n - existingReruns h c) \<and>
    (length (rerunRounds h b cands [0..<n] []) < b \<longrightarrow>
      (\<forall>c \<in> set cands. count_list (rerunRounds h b cands [0..<n] []) c = n - existingReruns h c))"
proof -
  have f: "length (filter (\<lambda>i. e \<le> i) [0..<n]) = n - e" for e
    by (induction n) auto
  have "length (rerunRounds h b cands [0..<n] []) \<le> b \<and> (c \<in> set cands \<longrightarrow>
      count_list (rerunRounds h b cands [0..<n] []) c \<le> n - existingReruns h c \<and>
      (length (rerunRounds h b cands [0..<n] []) < b \<longrightarrow>
        count_list (rerunRounds h b cands [0..<n] []) c = n - existingReruns h c))" for c
    using rerunRounds_count [OF assms, of "[]" b h "[0..<n]" c] by (cases "c \<in> set cands") (simp_all add: f)
  then show ?thesis using rerunRounds_set [of h b cands "[0..<n]" "[]"] by simp
qed

theorem rerunRounds_correct_witness:
  "rerunRounds [sampleMeasured, sampleMeasured] 3 [0, 1] [0..<2] [] = [0, 1, 0] \<and>
   length (rerunRounds [sampleMeasured, sampleMeasured] 3 [0, 1] [0..<2] []) \<le> 3"
  using rerunRounds_correct [of "[0, 1]" "[sampleMeasured, sampleMeasured]" 3 2] sampleMeasured_ok
  by (simp add: upt_rec Let_def)

text \<open>
  The budget of a run is split soundly: the discovery phase gets no more than the budget and at
  least one whole population or all of it, outside an isolated agent at most one simulation runs
  at a time, and the population never outgrows both the budget and the minimum of two.
\<close>

theorem budget_split_correct:
  "phase1Budget cfg b \<le> b \<and> min b (popSize cfg) \<le> phase1Budget cfg b \<and>
   parallelWorkers (effectiveConfig False cfg b) \<le> 1 \<and>
   popSize (effectiveConfig isolated cfg b) \<le> max 2 b"
proof -
  have "py_round (sqrt (real b)) \<le> int b"
  proof (cases "b = 0")
    case False
    then have "sqrt (real b) \<le> real b" by (intro real_le_lsqrt) (auto simp: power2_eq_square)
    then show ?thesis using py_round_mono_bounds [of 0 "sqrt (real b)" "int b"] by simp
  qed (simp add: py_round_def)
  then have "nat (py_round (sqrt (real b))) \<le> b" by simp
  then show ?thesis using phase1Budget_le
    by (auto simp: effectiveConfig_def Let_def phase1Budget_def nat_le_iff le_nat_iff)
qed

end
