(* ===== verification/Provenance.thy ===== *)
theory Provenance
  imports Generator
begin

text \<open>
  Where the stored test cases of a campaign come from. An individual keeps the number of the simulator
  run whose test case it holds; this theory follows that number through every step of the campaign.
  The locale \<open>stored_run\<close> is the contract of a statement about the stored run: it holds as long as
  nothing is stored, it depends on the stored number and the layout only, and it is established by an
  attempt that measured and plotted its flight. Such a statement then holds of every individual that
  \<open>generate\<close> leaves in its heap, whatever the simulator and the random generator do.
\<close>

section \<open>Individuals that were never flown\<close>

abbreviation unflown :: "Individual list \<Rightarrow> bool" where
  "unflown \<equiv> list_all (\<lambda>ind. ind_testCase ind = None)"

lemma newIndividual_unflown [simp]: "ind_testCase (newIndividual obs g ill) = None"
  by (simp add: newIndividual_def)

lemma buildIndividual_unflown: "buildIndividual cfg g segs strict = Inr (Some ind) \<Longrightarrow> ind_testCase ind = None"
  by (auto simp: buildIndividual_def elim!: bindE_InrE split: if_splits)

lemma drawSeed_unflown: "drawSeed cfg segs ch k strict n d r = Inr (Some ind, d', r') \<Longrightarrow> ind_testCase ind = None"
proof (induction n arbitrary: d r)
  case (Suc n)
  then show ?case by (auto elim!: bindE_InrE split: option.splits dest: buildIndividual_unflown)
qed simp

lemma freshIndividual_unflown: "freshIndividual r cfg segs ch n = Inr (ind, r1) \<Longrightarrow> ind_testCase ind = None"
  unfolding freshIndividual_def bindE_Inr_iff by (auto split: option.splits dest!: drawSeed_unflown simp: bindE_Inr_iff)

lemma breedLoop_unflown: "breedLoop n r cfg h pop niche segs scale = Inr (Some ind, r1) \<Longrightarrow> ind_testCase ind = None"
proof (induction n arbitrary: r)
  case (Suc n)
  then show ?case
    by (auto simp: childOf_def Let_def elim!: bindE_InrE split: option.splits prod.splits dest: buildIndividual_unflown)
qed simp

lemma nicheChild_unflown:
  "nicheChild r cfg h pop niche segs ch scale = Inr (ind, r1) \<Longrightarrow> ind_testCase ind = None"
  by (auto simp: nicheChild_def elim!: bindE_InrE split: option.splits if_splits
      dest: breedLoop_unflown freshIndividual_unflown)

text \<open>Breeding only appends individuals to the heap, and none of them was flown.\<close>

lemma fillNiche_unflown:
  "fillNiche n r cfg pop niche quota imm segs ch scale cs h = Inr (cs', h', r') \<Longrightarrow> \<exists>new. h' = h @ new \<and> unflown new"
proof (induction n arbitrary: r cs h)
  case (Suc n)
  then obtain ind r1 where i: "ind_testCase ind = None"
    "fillNiche n r1 cfg pop niche quota imm segs ch scale (cs @ [length h]) (h @ [ind]) = Inr (cs', h', r')"
    by (auto elim!: bindE_InrE split: if_splits dest: freshIndividual_unflown nicheChild_unflown)
  obtain new where "h' = (h @ [ind]) @ new" "unflown new" using Suc.IH [OF i(2)] by blast
  then show ?case using i(1) by (intro exI [of _ "ind # new"]) simp
qed simp

lemma nicheGeneration_unflown:
  "nicheGeneration r cfg h pop niche quota segs ch scale = Inr (cs', h', r') \<Longrightarrow> \<exists>new. h' = h @ new \<and> unflown new"
  unfolding nicheGeneration_def Let_def by (rule fillNiche_unflown)

lemma nicheQueues_unflown:
  "nicheQueues niches r cfg h pop counts segs ch scale = Inr (qs, h', r') \<Longrightarrow> \<exists>new. h' = h @ new \<and> unflown new"
proof (induction niches arbitrary: r h qs)
  case (Cons niche niches)
  obtain x where x: "nicheGeneration r cfg h pop niche (count_list counts niche) segs ch scale = Inr x"
    and rest: "(case x of (q, h1, r1) \<Rightarrow> bindE (nicheQueues niches r1 cfg h1 pop counts segs ch scale)
        (\<lambda>(qs, h2, r2). Inr (qs(niche := q), h2, r2))) = Inr (qs, h', r')"
    using Cons.prems unfolding nicheQueues.simps by (rule bindE_InrE)
  obtain q h1 r1 where xs: "x = (q, h1, r1)" by (cases x)
  obtain qs' where g: "nicheGeneration r cfg h pop niche (count_list counts niche) segs ch scale = Inr (q, h1, r1)"
    "nicheQueues niches r1 cfg h1 pop counts segs ch scale = Inr (qs', h', r')"
    using x rest unfolding xs prod.case bindE_Inr_iff by auto
  obtain new where "h1 = h @ new" "unflown new" using nicheGeneration_unflown [OF g(1)] by blast
  moreover obtain new' where "h' = h1 @ new'" "unflown new'" using Cons.IH [OF g(2)] by blast
  ultimately show ?case by (intro exI [of _ "new @ new'"]) simp
qed simp

lemma nextGeneration_unflown:
  "nextGeneration r cfg h pop segs ch scale = Inr (pop', h', r') \<Longrightarrow> \<exists>new. h' = h @ new \<and> unflown new"
  by (auto simp: nextGeneration_def Let_def elim!: bindE_InrE dest!: nicheQueues_unflown)

lemma freshAll_unflown: "freshAll s counts h r = Inr (pop, h', r') \<Longrightarrow> \<exists>new. h' = h @ new \<and> unflown new"
proof (induction counts arbitrary: h r pop)
  case (Cons n counts)
  obtain ind r1 pop' where f: "freshIndividual r (s_cfg s) (s_segments s) (s_choices s) n = Inr (ind, r1)"
    "freshAll s counts (h @ [ind]) r1 = Inr (pop', h', r')"
    using Cons.prems by (auto elim!: bindE_InrE)
  obtain new where "h' = (h @ [ind]) @ new" "unflown new" using Cons.IH [OF f(2)] by blast
  then show ?case using freshIndividual_unflown [OF f(1)] by (intro exI [of _ "ind # new"]) simp
qed simp

section \<open>Batches\<close>

text \<open>What every job of a batch keeps of its individual, the batch keeps of the whole heap.\<close>

lemma list_all_update: "list_all P xs \<Longrightarrow> (i < length xs \<Longrightarrow> P (xs ! i) \<Longrightarrow> P x) \<Longrightarrow> list_all P (xs[i := x])"
  by (cases "i < length xs") (auto simp: list_all_length nth_list_update)

lemma runJob_heap:
  assumes "\<And>k ind out lay ind'. operation k ind = (out, lay, ind') \<Longrightarrow> J ind \<Longrightarrow> J ind'"
    and "runJob operation r w = (out, w')" and "list_all J (w_heap w)"
  shows "list_all J (w_heap w')"
  using assms by (auto simp: runJob_def Let_def split: prod.splits intro!: list_all_update)

lemma runJobs_heap:
  assumes "\<And>k ind out lay ind'. operation k ind = (out, lay, ind') \<Longrightarrow> J ind \<Longrightarrow> J ind'"
    and "runJobs operation rs w = (outs, w')" and "list_all J (w_heap w)"
  shows "list_all J (w_heap w')"
  using assms(2,3)
proof (induction rs arbitrary: w outs)
  case (Cons r rs)
  then show ?case using runJob_heap [OF assms(1)] by (auto simp: Let_def split: prod.splits)
qed simp

lemma retryLoop_heap:
  assumes "\<And>k ind out lay ind'. operation k ind = (out, lay, ind') \<Longrightarrow> J ind \<Longrightarrow> J ind'"
    and "retryLoop cfg operation budget pending used w = (used', w')" and "list_all J (w_heap w)"
  shows "list_all J (w_heap w')"
  using assms(2,3)
proof (induction "weight cfg pending" arbitrary: pending used w rule: less_induct)
  case less
  show ?case
  proof (cases rule: retryLoop_cases [OF less.prems(1)])
    case 1
    then show ?thesis using less.prems by auto
  next
    case (2 batch deferred outs w1 used1 retries)
    have "list_all J (w_heap w1)"
      using 2(3) runJobs_heap [OF assms(1)] less.prems(2) by (auto simp: runParallelBatch_def split: if_splits)
    then show ?thesis using less.hyps [OF 2(6) 2(5)] by blast
  qed
qed

lemma runRetryingBatch_heap:
  assumes "\<And>k ind out lay ind'. operation k ind = (out, lay, ind') \<Longrightarrow> J ind \<Longrightarrow> J ind'"
    and "runRetryingBatch cfg operation jobs budget w = (used, w')" and "list_all J (w_heap w)"
  shows "list_all J (w_heap w')"
  using retryLoop_heap [OF assms(1)] assms(2,3) by (auto simp: runRetryingBatch_def)

section \<open>Statements about the stored run\<close>

locale stored_run =
  fixes J :: "Individual \<Rightarrow> bool" and sim :: simulator
  assumes unstored: "ind_testCase ind = None \<Longrightarrow> J ind"
    and determined: "J ind \<Longrightarrow> ind_testCase ind' = ind_testCase ind \<Longrightarrow> ind_obstacles ind' = ind_obstacles ind \<Longrightarrow> J ind'"
    and stored: "measureRun (sim k (ind_obstacles ind)) (ind_obstacles ind) = Inr m \<Longrightarrow>
        sim_plot (sim k (ind_obstacles ind)) = Inr () \<Longrightarrow> ind_testCase ind = Some k \<Longrightarrow> J ind"
begin

lemma evaluateTry_keeps:
  assumes "evaluateTry cfg goal k (sim k (ind_obstacles ind)) ind = (res, ind')" and "J ind"
  shows "J ind' \<and> ind_obstacles ind' = ind_obstacles ind"
proof (cases "ind_testCase ind' = ind_testCase ind \<and> ind_obstacles ind' = ind_obstacles ind")
  case True
  then show ?thesis using determined [OF assms(2)] by blast
next
  case False
  then obtain m where "measureRun (sim k (ind_obstacles ind)) (ind_obstacles ind) = Inr m"
    "sim_plot (sim k (ind_obstacles ind)) = Inr ()" "ind_testCase ind' = Some k" "ind_obstacles ind' = ind_obstacles ind"
    using assms(1) by (auto simp: evaluateTry_def appendRun_def Let_def split: sum.splits prod.splits if_splits)
  then show ?thesis using stored [of k ind'] by simp
qed

lemma evaluate_keeps_run:
  assumes "evaluate isolated cfg goal killAfter sim k ind = (out, lay, ind')" and "J ind"
  shows "J ind'"
proof (cases "invalidLayout cfg (ind_obstacles ind)")
  case True
  then show ?thesis using assms determined [OF assms(2)] by (auto simp: evaluate_def)
next
  case False
  let ?ind = "ind\<lparr>ind_attempts := ind_attempts ind + 1\<rparr>"
  obtain res ind1 where t: "evaluateTry cfg goal k (sim k (ind_obstacles ?ind)) ?ind = (res, ind1)" by fastforce
  have "J ?ind" by (rule determined [OF assms(2)]) simp_all
  then have "J ind1" using evaluateTry_keeps [OF t] by blast
  moreover have "ind_testCase ind' = ind_testCase ind1" "ind_obstacles ind' = ind_obstacles ind1"
    using assms(1) False t by (auto simp: evaluate_def Let_def split: sum.splits)
  ultimately show ?thesis by (rule determined)
qed

lemma rerun_keeps_run:
  assumes "rerun isolated cfg goal killAfter sim k ind = (out, lay, ind')" and "J ind"
  shows "J ind'"
proof (cases "ind_testCase ind' = ind_testCase ind \<and> ind_obstacles ind' = ind_obstacles ind")
  case True
  then show ?thesis using determined [OF assms(2)] by blast
next
  case False
  then obtain m where "measureRun (sim k (ind_obstacles ind)) (ind_obstacles ind) = Inr m"
    "sim_plot (sim k (ind_obstacles ind)) = Inr ()" "ind_testCase ind' = Some k" "ind_obstacles ind' = ind_obstacles ind"
    using assms(1) by (auto simp: rerun_def rerunTry_def appendRun_def Let_def split: sum.splits prod.splits if_splits)
  then show ?thesis using stored [of k ind'] by simp
qed

lemma unflown_keeps: "unflown new \<Longrightarrow> list_all J new"
  by (auto simp: list_all_iff intro: unstored)

lemma rescoreAll_keeps: "rescoreAll cfg rs h = Inr h' \<Longrightarrow> list_all J h \<Longrightarrow> list_all J h'"
proof (induction rs arbitrary: h)
  case (Cons r rs)
  obtain ind where i: "rescore cfg (h ! r) = Inr ind" "rescoreAll cfg rs (h[r := ind]) = Inr h'"
    using Cons.prems(1) unfolding rescoreAll.simps by (rule bindE_InrE)
  have "ind_testCase ind = ind_testCase (h ! r)" "ind_obstacles ind = ind_obstacles (h ! r)"
    using i(1) by (auto simp: rescore_def bindE_Inr_iff)
  then have "list_all J (h[r := ind])" using Cons.prems(2) by (intro list_all_update) (blast intro: determined)+
  then show ?case by (rule Cons.IH [OF i(2)])
qed simp

lemma advanceGeneration_keeps:
  assumes "advanceGeneration s st = Inr st1" and "list_all J (c_heap st)"
  shows "list_all J (c_heap st1)"
proof -
  have "list_all J h'" if "h' = c_heap st @ new" "unflown new" for h' new
    using that unflown_keeps assms(2) by simp
  then show ?thesis
    using assms by (auto simp: advanceGeneration_def Let_def bindE_Inr_iff split: if_splits
        dest!: nextGeneration_unflown freshAll_unflown)
qed

lemma settleSlots_keeps: "settleSlots s slots st = Inr st1 \<Longrightarrow> list_all J (c_heap st) \<Longrightarrow> list_all J (c_heap st1)"
proof (induction s slots st rule: settleSlots.induct)
  case (2 s idx i slots st)
  let ?ind = "c_heap st ! i"
  consider (store) "ind_valid ?ind \<and> i \<notin> set (c_evaluated st)"
    | (reseed) "\<not> (ind_valid ?ind \<and> i \<notin> set (c_evaluated st))"
        "\<not> ind_valid ?ind \<and> \<not> ind_illegal ?ind \<and> ind_attempts ?ind \<ge> maxRunFailures (s_cfg s)"
    | (keep) "\<not> (ind_valid ?ind \<and> i \<notin> set (c_evaluated st))"
        "\<not> (\<not> ind_valid ?ind \<and> \<not> ind_illegal ?ind \<and> ind_attempts ?ind \<ge> maxRunFailures (s_cfg s))" by blast
  then show ?case
  proof cases
    case store
    have "list_all J (heap_upd (c_heap st) i (ind_generation_update (\<lambda>_. c_gen st)))"
      unfolding heap_upd_def using "2.prems"(2) by (rule list_all_update) (rule determined, simp_all)
    then show ?thesis using "2.IH"(1) [OF refl store] "2.prems"(1) store by (simp add: Let_def)
  next
    case reseed
    obtain new r where f: "freshIndividual (c_rng st) (s_cfg s) (s_segments s) (s_choices s) (nicheOf ?ind) = Inr (new, r)"
      "settleSlots s slots ((setHeap (c_heap st @ [new]) st)\<lparr>c_pop := (c_pop st)[idx := length (c_heap st)], c_rng := r\<rparr>) = Inr st1"
      using "2.prems"(1) reseed by (auto simp: Let_def bindE_Inr_iff)
    have "list_all J (c_heap st @ [new])" using "2.prems"(2) unstored [OF freshIndividual_unflown [OF f(1)]] by simp
    then show ?thesis using "2.IH"(2) [OF refl reseed f(2)] by simp
  next
    case keep
    then show ?thesis using "2.IH"(3) [OF refl keep] "2.prems" by (auto simp: Let_def)
  qed
qed simp

lemma confirmElites_keeps:
  assumes "confirmElites s remaining killAfter st = Inr (used, st1)" and "s_sim s = sim" and "list_all J (c_heap st)"
  shows "list_all J (c_heap st1)"
proof -
  define el where "el = (if rerunElites (s_cfg s) then filter (\<lambda>i. ind_valid (c_heap st ! i)) (c_pop st) else [])"
  obtain u w where b: "runRetryingBatch (s_cfg s) (rerun (s_isolated s) (s_cfg s) (Some (s_goal s)) killAfter (s_sim s))
      el (length el) (c_world st) = (u, w)" by fastforce
  have "list_all J (w_heap w)"
    by (rule runRetryingBatch_heap [OF _ b assms(3)]) (use rerun_keeps_run in \<open>simp add: assms(2)\<close>)
  then have "list_all J h" if "rescoreAll (s_cfg s) el (w_heap w) = Inr h" for h using rescoreAll_keeps [OF that] by blast
  then show ?thesis
    using assms(1,3) b by (auto simp: confirmElites_def Let_def bindE_Inr_iff simp flip: el_def split: if_splits)
qed

lemma discoveryRound_keeps:
  assumes "discoveryRound s remaining st = Inr (e, u, st3)" and "s_sim s = sim" and "list_all J (c_heap st)"
  shows "list_all J (c_heap st3)"
proof -
  obtain st1 where st1: "advanceGeneration s st = Inr st1" using assms(1) by (auto simp: discoveryRound_def bindE_Inr_iff)
  obtain e' st2 where st2: "confirmElites s remaining (killAfterOf s st1) st1 = Inr (e', st2)"
    using assms(1) unfolding discoveryRound_def st1 bindE_simps Let_def bindE_Inr_iff by auto
  define slots where "slots = take (remaining - e') (take remaining (freeSlots (c_heap st1) (c_pop st1)))"
  obtain u' w where b: "runRetryingBatch (s_cfg s)
      (evaluate (s_isolated s) (s_cfg s) (Some (s_goal s)) (killAfterOf s st1) (s_sim s)) (map ((!) (c_pop st1)) slots)
      (remaining - e') (c_world st2) = (u', w)" by fastforce
  have "list_all J (c_heap st2)" by (rule confirmElites_keeps [OF st2 assms(2) advanceGeneration_keeps [OF st1 assms(3)]])
  then have "list_all J (w_heap w)"
    using runRetryingBatch_heap [OF _ b] evaluate_keeps_run by (simp add: assms(2))
  moreover have "settleSlots s (zip slots (map ((!) (c_pop st1)) slots)) (st2\<lparr>c_world := w\<rparr>) = Inr st3"
    using assms(1) unfolding discoveryRound_def st1 bindE_simps Let_def st2 prod.case slots_def [symmetric] b bindE_Inr_iff by simp
  ultimately show ?thesis using settleSlots_keeps by simp
qed

lemma discoveryLoop_keeps:
  "discoveryLoop s budget used idle st = Inr (u, st1) \<Longrightarrow> s_sim s = sim \<Longrightarrow> list_all J (c_heap st) \<Longrightarrow> list_all J (c_heap st1)"
proof (induction s budget used idle st rule: discoveryLoop.induct)
  case (1 s budget used idle st)
  show ?case
  proof (cases "used < budget \<and> idle < noProgressLimit (s_cfg s)")
    case True
    then obtain e n st2 where r: "discoveryRound s (budget - used) st = Inr (e, n, st2)"
      "discoveryLoop s budget (used + e + n) (if n = 0 then idle + 1 else 0) st2 = Inr (u, st1)"
      using "1.prems"(1) unfolding discoveryLoop.simps [of s budget used] by (auto split: sum.splits)
    have "list_all J (c_heap st2)" by (rule discoveryRound_keeps [OF r(1) "1.prems"(2,3)])
    then show ?thesis using "1.IH" [OF True r(1) refl refl r(2) "1.prems"(2)] by blast
  next
    case False
    then have "discoveryLoop s budget used idle st = Inr (used, st)"
      unfolding discoveryLoop.simps [of s budget used] by (rule if_not_P)
    then show ?thesis using "1.prems" by simp
  qed
qed

lemma refine_keeps:
  assumes "refine s budget st = Inr (used, st1)" and "s_sim s = sim" and "list_all J (c_heap st)"
  shows "list_all J (c_heap st1)"
proof -
  define cands where "cands = promisingOf (s_cfg s) (c_heap st) (c_evaluated st)"
  define jobs where "jobs = rerunRounds (c_heap st) budget cands [0..<nReruns (s_cfg s)] []"
  obtain u w where b: "runRetryingBatch (s_cfg s) (rerun (s_isolated s) (s_cfg s) (Some (s_goal s)) (killAfterOf s st) (s_sim s))
      jobs budget (c_world st) = (u, w)" by fastforce
  then have c: "(if jobs \<noteq> [] then runRetryingBatch (s_cfg s) (rerun (s_isolated s) (s_cfg s) (Some (s_goal s)) (killAfterOf s st) (s_sim s))
      jobs budget (c_world st) else (0, c_world st)) = (u, w)"
    by (cases "jobs = []") (simp_all add: runRetryingBatch_none)
  obtain h where h: "rescoreAll (s_cfg s) (filter (\<lambda>i. length (ind_distances (w_heap w ! i)) > 1) cands) (w_heap w) = Inr h"
    "st1 = st\<lparr>c_world := w\<lparr>w_heap := h\<rparr>\<rparr>"
    using assms(1) unfolding refine_def Let_def cands_def [symmetric] jobs_def [symmetric] c prod.case bindE_Inr_iff by auto
  have "list_all J (w_heap w)"
    by (rule runRetryingBatch_heap [OF _ b assms(3)]) (use rerun_keeps_run in \<open>simp add: assms(2)\<close>)
  then show ?thesis using rescoreAll_keeps [OF h(1)] h(2) by simp
qed

text \<open>Every individual that a campaign leaves behind.\<close>

lemma generate_keeps:
  assumes "generate isolated sim self r budget = Inr (Some (selected, st))"
  shows "list_all J (c_heap st)"
proof -
  let ?b = "nat budget"
  define s where "s = setupOf isolated sim self ?b"
  define p1 where "p1 = phase1Budget (s_cfg s) ?b"
  have sim: "s_sim s = sim" by (simp add: s_def setupOf_def)
  have g: "bindE (startCampaign s r) (\<lambda>st0.
      bindE (runDiscovery s p1 st0) (\<lambda>(discovery, st1).
      bindE (refine s (?b - p1) st1) (\<lambda>(refinement, st2).
      bindE (if discovery + refinement < ?b then runDiscovery s (?b - (discovery + refinement)) st2 else Inr (0, st2)) (\<lambda>(_, st3).
        Inr (Some (fst (selectSuite (s_cfg s) (c_heap st3) (c_evaluated st3) (calibrateThreshold (c_heap st3) (c_evaluated st3))), st3)))))) =
      Inr (Some (selected, st))"
    using assms unfolding generate_def Let_def s_def [symmetric] p1_def [symmetric] by (simp split: if_splits)
  obtain st0 where s0: "startCampaign s r = Inr st0" using g by (rule bindE_InrE)
  obtain x1 where x1: "runDiscovery s p1 st0 = Inr x1" using g [unfolded s0 bindE_simps] by (rule bindE_InrE)
  obtain u1 st1 where "x1 = (u1, st1)" by (cases x1)
  note s1 = x1 [unfolded this]
  obtain x2 where x2: "refine s (?b - p1) st1 = Inr x2" using g [unfolded s0 s1 bindE_simps prod.case] by (rule bindE_InrE)
  obtain u2 st2 where "x2 = (u2, st2)" by (cases x2)
  note s2 = x2 [unfolded this]
  obtain x where s3: "(if u1 + u2 < ?b then runDiscovery s (?b - (u1 + u2)) st2 else Inr (0, st2)) = Inr x"
    and y: "(case x of (_, st3) \<Rightarrow> Inr (Some (fst (selectSuite (s_cfg s) (c_heap st3) (c_evaluated st3)
        (calibrateThreshold (c_heap st3) (c_evaluated st3))), st3))) = (Inr (Some (selected, st)) :: _ result)"
    using g [unfolded s0 s1 s2 bindE_simps prod.case] by (rule bindE_InrE)
  have "st = snd x" using y by (cases x) simp
  have steps: "startCampaign s r = Inr st0" "runDiscovery s p1 st0 = Inr (u1, st1)" "refine s (?b - p1) st1 = Inr (u2, st2)"
    "(if u1 + u2 < ?b then runDiscovery s (?b - (u1 + u2)) st2 else Inr (0, st2)) = Inr (fst x, st)"
    using s0 s1 s2 s3 \<open>st = snd x\<close> by simp_all
  obtain pop new r1 where "freshAll s (countsOf s) [] r = Inr (pop, new, r1)" "c_heap st0 = new"
    using steps(1) by (auto simp: startCampaign_def bindE_Inr_iff)
  then have "list_all J (c_heap st0)" using freshAll_unflown [of s "countsOf s" "[]"] unflown_keeps by auto
  then have "list_all J (c_heap st1)" by (rule discoveryLoop_keeps [OF steps(2) [unfolded runDiscovery_def] sim])
  then have j2: "list_all J (c_heap st2)" using refine_keeps [OF steps(3) sim] by blast
  show ?thesis
  proof (cases "u1 + u2 < ?b")
    case True
    then have "runDiscovery s (?b - (u1 + u2)) st2 = Inr (fst x, st)" using steps(4) by simp
    from discoveryLoop_keeps [OF this [unfolded runDiscovery_def] sim j2] show ?thesis .
  qed (use steps(4) j2 in simp)
qed

end

section \<open>The run behind a stored test case\<close>

text \<open>The stored run of an individual flew its layout, was measured, and was plotted.\<close>

definition flown :: "simulator \<Rightarrow> Individual \<Rightarrow> bool" where
  "flown sim ind =
     (case ind_testCase ind of
        None \<Rightarrow> True
      | Some k \<Rightarrow>
          (\<exists>m. measureRun (sim k (ind_obstacles ind)) (ind_obstacles ind) = Inr m) \<and>
          sim_plot (sim k (ind_obstacles ind)) = Inr ())"

interpretation flown: stored_run "flown sim" sim for sim
  by unfold_locales (auto simp: flown_def split: option.splits)

text \<open>
  A returned test belongs to a flight of its own layout: the run whose number it carries was measured and
  plotted without an exception.
\<close>

lemma generate_flown:
  assumes "generate isolated sim self r budget = Inr (Some (selected, st))" and "i < length (c_heap st)"
  shows "flown sim (c_heap st ! i)"
  using flown.generate_keeps [OF assms(1)] assms(2) by (simp add: list_all_length)

section \<open>The selected suite\<close>

text \<open>What a campaign promises of its answer, collected for the theorems on whole runs.\<close>

lemma generated_suite:
  assumes "setting_ok (gg_config self) (gg_segments self) (gg_seedSegments self)" and "rng_ok r" and "0 < budget"
  shows "\<exists>selected st. generate isolated sim self r budget = Inr (Some (selected, st)) \<and>
    length selected \<le> topK (gg_config self) \<and>
    distinct (map (\<lambda>i. layoutSignature (c_heap st ! i)) selected) \<and>
    (\<forall>i \<in> set selected. let ind = c_heap st ! i in
       layout_legal (placementBounds (gg_config self)) (ind_obstacles ind) \<and> ind_testCase ind \<noteq> None \<and>
       (\<forall>tr \<in> set (ind_trajectories ind). reachedGoal tr (last (gg_waypoints self)) (goalTol (gg_config self))) \<and>
       0 < ind_officialScore ind \<and> officialOf ind = Inr (ind_officialScore ind)) \<and>
    runs st \<le> nat budget \<and> (\<forall>i \<in> set selected. flown sim (c_heap st ! i))"
proof -
  obtain selected st where g: "generate isolated sim self r budget = Inr (Some (selected, st))"
    "campaign_ok (setupOf isolated sim self (nat budget)) st" "runs st \<le> nat budget"
    and sel: "selected = fst (selectSuite (effectiveConfig isolated (gg_config self) (nat budget)) (c_heap st) (c_evaluated st)
      (calibrateThreshold (c_heap st) (c_evaluated st)))"
    using generate_ok [OF assms] by blast
  let ?s = "setupOf isolated sim self (nat budget)" and ?th = "calibrateThreshold (c_heap st) (c_evaluated st)"
  obtain th where ss: "selectSuite (effectiveConfig isolated (gg_config self) (nat budget)) (c_heap st) (c_evaluated st) ?th =
      (selected, th)" using sel by (metis prod.collapse)
  have so: "set selected \<subseteq> set (c_evaluated st)"
    "\<forall>i \<in> set selected. ind_valid (c_heap st ! i) \<and> \<not> ind_stuck (c_heap st ! i) \<and> 0 < ind_officialScore (c_heap st ! i)"
    "distinct (map (\<lambda>i. layoutSignature (c_heap st ! i)) selected)" "length selected \<le> topK (gg_config self)"
    using selectSuite_ok [OF ss] by simp_all
  have s: "s_goal ?s = last (gg_waypoints self)" "goalTol (s_cfg ?s) = goalTol (gg_config self)"
    "placementBounds (s_cfg ?s) = placementBounds (gg_config self)" by (simp_all add: setupOf_def)
  have w: "world_ok ?s (c_world st)" "refs_ok (c_heap st) (c_evaluated st)"
    using g(2) by (simp_all add: campaign_ok_def evaluated_ok_def)
  have len: "i < length (c_heap st)" if "i \<in> set selected" for i using that so(1) w(2) by (auto simp: refs_ok_def)
  then have "member_ok ?s (c_heap st ! i)" if "i \<in> set selected" for i using that member_nth [OF w(1)] by blast
  then have "let ind = c_heap st ! i in
       layout_legal (placementBounds (gg_config self)) (ind_obstacles ind) \<and> ind_testCase ind \<noteq> None \<and>
       (\<forall>tr \<in> set (ind_trajectories ind). reachedGoal tr (last (gg_waypoints self)) (goalTol (gg_config self))) \<and>
       0 < ind_officialScore ind \<and> officialOf ind = Inr (ind_officialScore ind)" if "i \<in> set selected" for i
    using that so(2) s by (simp add: member_ok_def ind_scored_def ind_ok_def scored_def missedGoal_def Let_def)
  moreover have "flown sim (c_heap st ! i)" if "i \<in> set selected" for i by (rule generate_flown [OF g(1) len [OF that]])
  ultimately show ?thesis using g(1,3) so(3,4) by blast
qed

end
