(* ===== verification/Py_Strings.thy ===== *)
theory Py_Strings
  imports GA_Prelude "HOL-Library.Sublist"
begin

text \<open>
  The Python string operations that the container side of the program uses: \<open>in\<close>, \<open>replace\<close> (all
  occurrences, or the first only), \<open>startswith\<close>, \<open>strip\<close>, \<open>partition\<close>, \<open>splitlines\<close>. A string is the
  list of its characters. The substring to be replaced is a non-empty constant of the source
  everywhere, so the meaning Python gives to replacing the empty string does not arise.

  The lemmas relate each scanning loop to a specification without a scan: \<open>in\<close> to sublists, \<open>replace\<close>
  to splitting at the occurrences and joining the parts again, \<open>splitlines\<close> to joining lines.
\<close>

section \<open>Membership and prefixes\<close>

fun py_in :: "string \<Rightarrow> string \<Rightarrow> bool" where
  "py_in pat [] = (pat = [])"
| "py_in pat (c # cs) = (prefix pat (c # cs) \<or> py_in pat cs)"

definition py_startswith :: "string \<Rightarrow> string \<Rightarrow> bool" where
  "py_startswith s pat = prefix pat s"

lemma py_in_sublist: "py_in pat s \<longleftrightarrow> sublist pat s"
  by (induction s) (auto simp: sublist_Cons_right)

lemma sublist_trans_append: "sublist p q \<Longrightarrow> sublist p (u @ q @ v)"
  by (auto simp: sublist_append)

section \<open>Replacing\<close>

text \<open>\<open>s.replace(old, new, 1)\<close>\<close>

fun py_replace1 :: "string \<Rightarrow> string \<Rightarrow> string \<Rightarrow> string" where
  "py_replace1 old new [] = []"
| "py_replace1 old new (c # cs) =
     (if prefix old (c # cs) then new @ drop (length old) (c # cs) else c # py_replace1 old new cs)"

text \<open>\<open>s.replace(old, new)\<close>: from left to right, continuing behind each occurrence.\<close>

function py_replace :: "string \<Rightarrow> string \<Rightarrow> string \<Rightarrow> string" where
  "py_replace old new s =
     (if s = [] then []
      else if prefix old s \<and> old \<noteq> [] then new @ py_replace old new (drop (length old) s)
      else hd s # py_replace old new (tl s))"
  by pat_completeness auto
termination
  by (relation "measure (\<lambda>(old, new, s). length s)") auto

declare py_replace.simps [simp del]

text \<open>
  The parts between the occurrences that \<open>replace\<close> meets, and their concatenation with a separator
  (\<open>s.split(old)\<close> and \<open>sep.join(parts)\<close>): the specification of \<open>replace\<close>.
\<close>

function split_at :: "string \<Rightarrow> string \<Rightarrow> string list" where
  "split_at old s =
     (if s = [] then [[]]
      else if prefix old s \<and> old \<noteq> [] then [] # split_at old (drop (length old) s)
      else (case split_at old (tl s) of [] \<Rightarrow> [[hd s]] | p # ps \<Rightarrow> (hd s # p) # ps))"
  by pat_completeness auto
termination
  by (relation "measure (\<lambda>(old, s). length s)") auto

declare split_at.simps [simp del]

fun join :: "string \<Rightarrow> string list \<Rightarrow> string" where
  "join sep [] = []"
| "join sep [p] = p"
| "join sep (p # q # ps) = p @ sep @ join sep (q # ps)"

lemma split_at_nonempty: "split_at old s \<noteq> []"
  by (subst split_at.simps) (auto split: list.splits)

lemma join_Cons: "ps \<noteq> [] \<Longrightarrow> join sep (p # ps) = p @ sep @ join sep ps"
  by (cases ps) auto

lemma join_Cons_hd: "join sep ((c # p) # ps) = c # join sep (p # ps)"
  by (cases ps) auto

lemma join_split: "join old (split_at old s) = s"
proof (induction old s rule: split_at.induct)
  case (1 old s)
  consider "s = []" | "s \<noteq> []" "prefix old s" "old \<noteq> []" | "s \<noteq> []" "\<not> (prefix old s \<and> old \<noteq> [])" by blast
  then show ?case
  proof cases
    case 1 then show ?thesis by (simp add: split_at.simps)
  next
    case 2
    then have "split_at old s = [] # split_at old (drop (length old) s)" by (subst split_at.simps) simp
    then show ?thesis
      using "1.IH"(1) 2 by (auto simp: join_Cons split_at_nonempty elim!: prefixE)
  next
    case 3
    obtain p ps where p: "split_at old (tl s) = p # ps" using split_at_nonempty by (metis list.exhaust)
    then have "split_at old s = (hd s # p) # ps" using 3 by (subst split_at.simps) auto
    then show ?thesis using "1.IH"(2) 3 p by (auto simp: join_Cons_hd)
  qed
qed

lemma replace_join_split: "py_replace old new s = join new (split_at old s)"
proof (induction old new s rule: py_replace.induct)
  case (1 old new s)
  obtain p ps where p: "split_at old (tl s) = p # ps" using split_at_nonempty by (metis list.exhaust)
  show ?case
    using "1.IH" p
    by (subst py_replace.simps, subst split_at.simps) (auto simp: join_Cons split_at_nonempty join_Cons_hd)
qed

lemma replace1_absent: "\<not> py_in old s \<Longrightarrow> py_replace1 old new s = s"
  by (induction s) auto

text \<open>The first occurrence, and nothing else, is exchanged.\<close>

lemma replace1_first:
  assumes "py_in old s" and "old \<noteq> []"
  shows "\<exists>u v. s = u @ old @ v \<and> py_replace1 old new s = u @ new @ v \<and>
               (\<forall>u' v'. s = u' @ old @ v' \<longrightarrow> length u \<le> length u')"
  using assms
proof (induction s)
  case (Cons c cs)
  show ?case
  proof (cases "prefix old (c # cs)")
    case True
    then obtain v where v: "c # cs = old @ v" by (auto elim: prefixE)
    have "py_replace1 old new (c # cs) = new @ drop (length old) (c # cs)" using True by simp
    also have "drop (length old) (c # cs) = v" unfolding v by simp
    finally have "py_replace1 old new (c # cs) = new @ v" .
    then show ?thesis using v by (intro exI [of _ "[]"] exI [of _ v]) simp
  next
    case False
    then obtain u v where uv: "cs = u @ old @ v" "py_replace1 old new cs = u @ new @ v"
      and first: "\<forall>u' v'. cs = u' @ old @ v' \<longrightarrow> length u \<le> length u'"
      using Cons by auto
    have "length (c # u) \<le> length u'" if "c # cs = u' @ old @ v'" for u' v'
      using that False first by (cases u') (auto simp: prefix_def)
    with uv False show ?thesis by (intro exI [of _ "c # u"] exI [of _ v]) auto
  qed
qed simp

lemma replace1_leftmost:
  assumes "py_in old s" and "old \<noteq> []"
  obtains u v where "s = u @ old @ v" "py_replace1 old new s = u @ new @ v" "\<not> py_in old (u @ butlast old)"
proof -
  obtain u v where uv: "s = u @ old @ v" "py_replace1 old new s = u @ new @ v"
    and first: "\<And>u' v'. s = u' @ old @ v' \<Longrightarrow> length u \<le> length u'"
    using replace1_first [OF assms] by metis
  have "\<not> py_in old (u @ butlast old)"
  proof
    assume "py_in old (u @ butlast old)"
    then obtain u' v' where o: "u @ butlast old = u' @ old @ v'"
      by (auto simp: py_in_sublist sublist_def)
    then have "s = u' @ old @ (v' @ [last old] @ v)"
      using uv(1) assms(2) by (metis append_assoc append_butlast_last_id)
    then have "length u \<le> length u'" by (rule first)
    moreover have "length u + length (butlast old) = length u' + length old + length v'"
      using arg_cong [OF o, of length] by simp
    moreover have "length (butlast old) < length old" using assms(2) by simp
    ultimately show False by linarith
  qed
  with uv show thesis using that by blast
qed

text \<open>What is part of the new text is part of the result of a replacement that takes place.\<close>

lemma replace1_contains: "py_in old s \<Longrightarrow> old \<noteq> [] \<Longrightarrow> sublist p new \<Longrightarrow> py_in p (py_replace1 old new s)"
  by (drule (1) replace1_first [where new = new]) (auto simp: py_in_sublist sublist_trans_append)

lemma split_at_present: "py_in old s \<Longrightarrow> old \<noteq> [] \<Longrightarrow> 2 \<le> length (split_at old s)"
proof (induction old s rule: split_at.induct)
  case (1 old s)
  obtain p ps where p: "split_at old (tl s) = p # ps" using split_at_nonempty by (metis list.exhaust)
  have s: "s \<noteq> []" using 1 by auto
  show ?case
  proof (cases "prefix old s")
    case True
    then show ?thesis
      using s 1 split_at_nonempty [of old "drop (length old) s"]
      by (subst split_at.simps) (auto simp: Suc_le_eq)
  next
    case False
    then have "py_in old (tl s)" using s 1 by (cases s) auto
    then have "2 \<le> length (p # ps)" using "1.IH"(2) 1 False s p by metis
    then show ?thesis using False s p by (subst split_at.simps) auto
  qed
qed

lemma replace_contains:
  assumes "py_in old s" and "old \<noteq> []" and "sublist p new"
  shows "py_in p (py_replace old new s)"
proof -
  obtain a b ps where "split_at old s = a # b # ps"
    using split_at_present [OF assms(1,2)] by (cases "split_at old s"; cases "tl (split_at old s)") auto
  then show ?thesis
    using assms(3) by (simp add: replace_join_split py_in_sublist sublist_trans_append)
qed

text \<open>
  When neither string is inside the other and no end of one is a beginning of the other, replacing
  leaves no occurrence: none can be formed with the characters of the replacement.
\<close>

fun detached :: "string \<Rightarrow> string \<Rightarrow> bool" where
  "detached [] q = True"
| "detached (c # cs) q = (\<not> prefix (c # cs) q \<and> detached cs q)"

definition separate :: "string \<Rightarrow> string \<Rightarrow> bool" where
  "separate old new = (detached old new \<and> detached new old \<and> \<not> py_in old new \<and> \<not> py_in new old)"

lemma detachedD: "detached p q \<Longrightarrow> suffix s p \<Longrightarrow> prefix s q \<Longrightarrow> s = []"
  by (induction p) (auto simp: suffix_Cons)

lemma split_parts_free: "old \<noteq> [] \<Longrightarrow> p \<in> set (split_at old s) \<Longrightarrow> \<not> sublist old p"
proof (induction old s arbitrary: p rule: split_at.induct)
  case (1 old s)
  consider "s = []" | "s \<noteq> []" "prefix old s" | "s \<noteq> []" "\<not> prefix old s" by blast
  then show ?case
  proof cases
    case 1 then show ?thesis using "1.prems" by (auto simp: split_at.simps)
  next
    case 2
    then have "split_at old s = [] # split_at old (drop (length old) s)"
      using "1.prems" by (subst split_at.simps) simp
    then show ?thesis using "1.IH"(1) "1.prems" 2 by auto
  next
    case 3
    obtain q qs where q: "split_at old (tl s) = q # qs" using split_at_nonempty by (metis list.exhaust)
    then have "split_at old s = (hd s # q) # qs" using 3 by (subst split_at.simps) auto
    then have p: "p = hd s # q \<or> p \<in> set qs" using "1.prems" by simp
    have free: "\<not> sublist old r" if "r \<in> set (q # qs)" for r
      using "1.IH"(2) "1.prems"(1) 3 that q by auto
    have "prefix (hd s # q) s"
      using join_split [of old "tl s"] q 3 by (cases s; cases qs) (auto simp: prefix_def)
    then have "\<not> prefix old (hd s # q)" using 3 prefix_order.trans by blast
    then show ?thesis using p free by (auto simp: sublist_Cons_right)
  qed
qed

lemma join_free:
  assumes "separate old new" and "old \<noteq> []" and "\<forall>p \<in> set ps. \<not> sublist old p"
  shows "\<not> sublist old (join new ps)"
  using assms(3)
proof (induction ps rule: induct_list012)
  case (3 p q ps)
  have rest: "\<not> sublist old (new @ join new (q # ps))"
  proof
    assume "sublist old (new @ join new (q # ps))"
    then obtain a b where "old = a @ b" "suffix a new" "prefix b (join new (q # ps))"
      using 3 assms by (auto simp: sublist_append separate_def py_in_sublist)
    then show False
      using assms(1) 3 detachedD [of new old a] by (auto simp: separate_def)
  qed
  show ?case
  proof
    assume "sublist old (join new (p # q # ps))"
    then have "sublist old (p @ (new @ join new (q # ps)))" by simp
    moreover have "\<not> sublist old p" using 3 by simp
    ultimately obtain a b where ab: "old = a @ b" "suffix a p" "prefix b (new @ join new (q # ps))"
      using rest sublist_append [of old p "new @ join new (q # ps)"] by metis
    from ab(3) have "prefix b new \<or> prefix new b" by (auto simp: prefix_append)
    moreover have "\<not> prefix new b"
      using assms(1) unfolding ab(1) separate_def py_in_sublist
      by (metis prefix_imp_sublist sublist_append)
    ultimately have "b = []"
      using assms(1) ab(1) detachedD [of old new b] by (simp add: separate_def suffix_def)
    then show False using ab 3 by simp
  qed
qed (use assms in auto)

lemma replace_removes: "separate old new \<Longrightarrow> old \<noteq> [] \<Longrightarrow> \<not> py_in old (py_replace old new s)"
  unfolding replace_join_split py_in_sublist by (rule join_free) (auto dest: split_parts_free)

section \<open>Stripping and splitting\<close>

text \<open>The characters of \<open>str.isspace\<close> and of \<open>str.splitlines\<close> among the first 256.\<close>

definition is_space :: "char \<Rightarrow> bool" where
  "is_space c = (of_char c \<in> {9 .. 13::nat} \<union> {28 .. 32} \<union> {133, 160})"

definition is_break :: "char \<Rightarrow> bool" where
  "is_break c = (of_char c \<in> {10 .. 13::nat} \<union> {28 .. 30} \<union> {133})"

definition py_strip :: "string \<Rightarrow> string" where
  "py_strip s = rev (dropWhile is_space (rev (dropWhile is_space s)))"

text \<open>\<open>s.partition(sep)\<close>: the text before the first separator, the separator, the text behind it.\<close>

fun py_partition :: "string \<Rightarrow> string \<Rightarrow> string \<times> string \<times> string" where
  "py_partition sep [] = ([], [], [])"
| "py_partition sep (c # cs) =
     (if prefix sep (c # cs) then ([], sep, drop (length sep) (c # cs))
      else (let (a, m, b) = py_partition sep cs in (c # a, m, b)))"

text \<open>A line ends at a line break, of which carriage return and line feed together are one.\<close>

definition after_break :: "string \<Rightarrow> string" where
  "after_break s = (if prefix [CHR 0x0D, CHR 0x0A] s then drop 2 s else drop 1 s)"

function py_splitlines :: "string \<Rightarrow> string list" where
  "py_splitlines s =
     (if s = [] then []
      else takeWhile (\<lambda>c. \<not> is_break c) s #
           py_splitlines (after_break (dropWhile (\<lambda>c. \<not> is_break c) s)))"
  by pat_completeness auto
termination
proof (relation "measure length")
  fix s :: string
  assume "s \<noteq> []"
  then have "length (dropWhile (\<lambda>c. \<not> is_break c) s) - Suc n < length s" for n
    using length_dropWhile_le [of "\<lambda>c. \<not> is_break c" s] by (cases s) (simp_all add: less_Suc_eq_le)
  from this [of 0] this [of 1] show "(after_break (dropWhile (\<lambda>c. \<not> is_break c) s), s) \<in> measure length"
    by (simp add: after_break_def numeral_2_eq_2)
qed simp

declare py_splitlines.simps [simp del]

lemma partition_first:
  assumes "\<not> py_in sep u" and "sep = [c]"
  shows "py_partition sep (u @ sep @ v) = (u, sep, v)"
  using assms by (induction u) auto

lemma splitlines_lines:
  assumes "\<forall>l \<in> set ls. \<forall>c \<in> set l. \<not> is_break c"
  shows "py_splitlines (concat (map (\<lambda>l. l @ [CHR 0x0A]) ls)) = ls"
  using assms
proof (induction ls)
  case (Cons l ls)
  let ?rest = "concat (map (\<lambda>l. l @ [CHR 0x0A]) ls)"
  have brk: "is_break (CHR 0x0A)" by (simp add: is_break_def)
  have "takeWhile (\<lambda>c. \<not> is_break c) (l @ CHR 0x0A # ?rest) = l"
    "dropWhile (\<lambda>c. \<not> is_break c) (l @ CHR 0x0A # ?rest) = CHR 0x0A # ?rest"
    using Cons brk by (simp_all add: takeWhile_append2 dropWhile_append2)
  then show ?case using Cons by (subst py_splitlines.simps) (simp add: after_break_def)
qed (simp add: py_splitlines.simps)

lemma strip_ends:
  assumes "py_strip s = c # cs"
  shows "\<not> is_space c" and "\<not> is_space (last (c # cs))"
proof -
  define t where "t = dropWhile is_space (rev (dropWhile is_space s))"
  have t: "rev t = c # cs" "t \<noteq> []" using assms by (auto simp: py_strip_def t_def)
  have "\<not> is_space (hd t)" using t(2) unfolding t_def by (rule hd_dropWhile)
  then show "\<not> is_space (last (c # cs))" using t by (metis last_rev)
  have "suffix t (rev (dropWhile is_space s))" unfolding t_def by (rule suffix_dropWhile)
  then obtain u where "dropWhile is_space s = c # u"
    using t(1) by (auto simp: suffix_to_prefix prefix_def)
  then show "\<not> is_space c" by (metis hd_dropWhile list.sel(1) list.distinct(1))
qed

section \<open>Numbers\<close>

text \<open>
  \<open>float(s)\<close> on decimal literals with an optional sign, fraction, exponent and single underscores
  between digits; every other string is a ValueError. (Python also reads the words for infinity and
  for not-a-number, which are outside the model's floats.)
\<close>

definition is_digit :: "char \<Rightarrow> bool" where
  "is_digit c = (of_char c \<in> {48 .. 57::nat})"

fun digits_value :: "nat \<Rightarrow> string \<Rightarrow> nat" where
  "digits_value acc [] = acc"
| "digits_value acc (c # cs) =
     (if is_digit c then digits_value (10 * acc + (of_char c - 48)) cs else digits_value acc cs)"

fun digit_part :: "string \<Rightarrow> bool" where
  "digit_part [] = False"
| "digit_part [c] = is_digit c"
| "digit_part (c # d # cs) =
     (is_digit c \<and> (if d = CHR ''_'' then digit_part cs else digit_part (d # cs)))"

definition py_sign :: "string \<Rightarrow> real \<times> string" where
  "py_sign s =
     (case s of [] \<Rightarrow> (1, [])
      | c # cs \<Rightarrow> if c = CHR ''-'' then (-1, cs) else if c = CHR ''+'' then (1, cs) else (1, s))"

definition float_mantissa :: "string \<Rightarrow> real option" where
  "float_mantissa s =
     (let (a, dot, b) = py_partition ''.'' s;
          valid = (if dot = [] then digit_part a
                   else (a = [] \<or> digit_part a) \<and> (b = [] \<or> digit_part b) \<and> \<not> (a = [] \<and> b = []))
      in if valid
         then Some (real (digits_value 0 a) +
                    real (digits_value 0 b) / 10 ^ length (filter is_digit b))
         else None)"

definition float_exponent :: "string \<Rightarrow> real option" where
  "float_exponent s =
     (case s of [] \<Rightarrow> Some 1
      | _ # cs \<Rightarrow>
          let (sg, ds) = py_sign cs
          in if digit_part ds
             then Some (if sg < 0 then 1 / 10 ^ digits_value 0 ds else 10 ^ digits_value 0 ds)
             else None)"

definition py_float :: "string \<Rightarrow> real result" where
  "py_float s =
     (let (sg, u) = py_sign (py_strip s);
          mant = takeWhile (\<lambda>c. c \<noteq> CHR ''e'' \<and> c \<noteq> CHR ''E'') u;
          expo = dropWhile (\<lambda>c. c \<noteq> CHR ''e'' \<and> c \<noteq> CHR ''E'') u
      in (case (float_mantissa mant, float_exponent expo) of
            (Some v, Some e) \<Rightarrow> Inr (sg * v * e)
          | _ \<Rightarrow> Inl ValueError))"

lemmas float_simps =
  py_float_def py_strip_def py_sign_def float_mantissa_def float_exponent_def is_space_def is_digit_def

lemma float_examples:
  "py_float '' 1700000000.25 '' = Inr (1700000000 + 1/4)"
  "py_float ''-1_0e-1'' = Inr (-1)"
  "py_float ''.'' = Inl ValueError"
  "py_float '''' = Inl ValueError"
  by (simp_all add: float_simps)

end
