(* ===== verification/Test_Case.thy ===== *)
theory Test_Case
  imports Attempts Py_Strings
begin

text \<open>
  \<open>testcase.py\<close>, the wrapper around one flight, and \<open>random_generator.py\<close>, the sample generator of
  the competition, which drives it in a plain loop. What the Aerialist package does (its agents, its
  distance computation, its plots) is the parameter \<open>ae\<close>: every call may return or raise. Of its test
  description only the attributes the source reads or writes are fields. An attribute that a method
  sets is optional: \<open>None\<close> until it is set, and reading it then is an AttributeError.
\<close>

section \<open>The test case\<close>

datatype engine = LOCAL | DOCKER | K8S | OTHER string

record agent_config =
  ac_engine :: engine
  ac_path :: string
  ac_id :: string

record aerialist_test =
  simulation_obstacles :: "Obstacle list"
  simulation_speed :: real
  mission_speed :: "real option"
  test_agent :: "agent_config option"

record test_result =
  result_record :: trajectory
  result_log_file :: string

record aerialist =
  agent_run :: "engine \<Rightarrow> aerialist_test \<Rightarrow> test_result list result"
  min_distance_to_obstacles :: "trajectory \<Rightarrow> Obstacle list \<Rightarrow> real result"
  plot_test :: "aerialist_test \<Rightarrow> test_result list \<Rightarrow> string \<Rightarrow> string result"

record TestCase =
  tc_test :: aerialist_test
  tc_test_results :: "test_result list option"
  tc_trajectory :: "trajectory option"
  tc_log_file :: "string option"
  tc_plot_file :: "string option"

text \<open>The settings \<open>AGENT\<close>, \<open>SIM_WORKER_SPEED\<close> and \<open>LOGS_COPY_DIR\<close>.\<close>

record case_config =
  AGENT :: engine
  SIM_WORKER_SPEED :: string
  LOGS_COPY_DIR :: string

definition is_isolated_execution :: "case_config \<Rightarrow> bool" where
  "is_isolated_execution cc = (AGENT cc \<in> {DOCKER, K8S})"

definition limit_speed :: "string \<Rightarrow> aerialist_test \<Rightarrow> aerialist_test result" where
  "limit_speed worker_speed t =
     (if worker_speed = [] then Inr t
      else bindE (py_float worker_speed) (\<lambda>v.
        let t1 = t\<lparr>simulation_speed := min (simulation_speed t) v\<rparr>
        in Inr (if mission_speed t1 \<noteq> None then t1\<lparr>mission_speed := Some (simulation_speed t1)\<rparr> else t1)))"

text \<open>The constructor; \<open>hex\<close> is the text of the fresh UUID.\<close>

definition TestCase_init :: "case_config \<Rightarrow> string \<Rightarrow> aerialist_test \<Rightarrow> Obstacle list \<Rightarrow> TestCase result" where
  "TestCase_init cc hex casestudy obstacles =
     (let t = casestudy\<lparr>simulation_obstacles := obstacles\<rparr>;
          new = (\<lambda>t. \<lparr>tc_test = t, tc_test_results = None, tc_trajectory = None, tc_log_file = None,
                      tc_plot_file = None\<rparr>)
      in if AGENT cc = DOCKER
         then bindE (limit_speed (SIM_WORKER_SPEED cc) t) (\<lambda>t1.
                Inr (new (t1\<lparr>test_agent := Some \<lparr>ac_engine = DOCKER, ac_path = LOGS_COPY_DIR cc,
                                                ac_id = ''ga-'' @ take 12 hex\<rparr>\<rparr>)))
         else Inr (new t))"

text \<open>An engine that is none of the three leaves the local variable \<open>agent\<close> unset.\<close>

definition start_agent :: "case_config \<Rightarrow> aerialist \<Rightarrow> aerialist_test \<Rightarrow> test_result list result" where
  "start_agent cc ae t =
     (case AGENT cc of OTHER _ \<Rightarrow> Inl UnboundLocalError | e \<Rightarrow> agent_run ae e t)"

definition TestCase_execute :: "case_config \<Rightarrow> aerialist \<Rightarrow> TestCase \<Rightarrow> trajectory result \<times> TestCase" where
  "TestCase_execute cc ae tc =
     (case start_agent cc ae (tc_test tc) of
        Inl e \<Rightarrow> (Inl e, tc)
      | Inr rs \<Rightarrow>
          let tc1 = tc\<lparr>tc_test_results := Some rs\<rparr>
          in (case rs of
                [] \<Rightarrow> (Inl IndexError, tc1)
              | r # _ \<Rightarrow> (Inr (result_record r),
                  tc1\<lparr>tc_trajectory := Some (result_record r), tc_log_file := Some (result_log_file r)\<rparr>)))"

definition TestCase_get_distances :: "aerialist \<Rightarrow> TestCase \<Rightarrow> real list result" where
  "TestCase_get_distances ae tc =
     mapE (\<lambda>obst. case tc_trajectory tc of
             None \<Rightarrow> Inl AttributeError
           | Some tr \<Rightarrow> min_distance_to_obstacles ae tr [obst])
       (simulation_obstacles (tc_test tc))"

definition TestCase_plot :: "aerialist \<Rightarrow> string \<Rightarrow> TestCase \<Rightarrow> unit result \<times> TestCase" where
  "TestCase_plot ae hex tc =
     (case tc_test_results tc of
        None \<Rightarrow> (Inl AttributeError, tc)
      | Some rs \<Rightarrow>
          (case plot_test ae (tc_test tc) rs (''plot-'' @ take 12 hex) of
             Inl e \<Rightarrow> (Inl e, tc)
           | Inr file \<Rightarrow> (Inr (), tc\<lparr>tc_plot_file := Some file\<rparr>)))"

section \<open>The flight as the search sees it\<close>

text \<open>
  The steps the search relies on, performed on a test case. With them every Aerialist is a simulator
  in the sense of the attempts; \<open>slow\<close> and \<open>secs\<close> are what its clock shows.
\<close>

definition run_of ::
    "case_config \<Rightarrow> aerialist \<Rightarrow> string \<Rightarrow> string \<Rightarrow> aerialist_test \<Rightarrow> bool \<Rightarrow> real \<Rightarrow> Obstacle list \<Rightarrow> sim_run" where
  "run_of cc ae hex hex' casestudy slow secs obstacles =
     (let flown = bindE (TestCase_init cc hex casestudy obstacles) (\<lambda>tc.
                    case TestCase_execute cc ae tc of (res, tc1) \<Rightarrow> bindE res (\<lambda>tr. Inr (tr, tc1)))
      in \<lparr>sim_trajectory = bindE flown (\<lambda>(tr, tc1). Inr tr),
          sim_minDistance = (\<lambda>obst. bindE flown (\<lambda>(tr, tc1). min_distance_to_obstacles ae tr [obst])),
          sim_plot = bindE flown (\<lambda>(tr, tc1). fst (TestCase_plot ae hex' tc1)),
          sim_overran = slow, sim_elapsed = secs\<rparr>)"

lemma TestCase_init_obstacles:
  "TestCase_init cc hex cs obs = Inr tc \<Longrightarrow> simulation_obstacles (tc_test tc) = obs"
  by (auto simp: TestCase_init_def limit_speed_def Let_def bindE_Inr_iff split: if_splits)

lemma TestCase_execute_trajectory:
  "TestCase_execute cc ae tc = (Inr tr, tc1) \<Longrightarrow>
     tc_trajectory tc1 = Some tr \<and> tc_test tc1 = tc_test tc \<and> tc_test_results tc1 \<noteq> None \<and> tc_log_file tc1 \<noteq> None"
  by (auto simp: TestCase_execute_def Let_def split: sum.splits list.splits)

lemma get_distances_flown:
  assumes "TestCase_init cc hex cs obs = Inr tc" and "TestCase_execute cc ae tc = (Inr tr, tc1)"
  shows "TestCase_get_distances ae tc1 = get_distances (run_of cc ae hex hex' cs slow secs obs) obs"
  using TestCase_execute_trajectory [OF assms(2)] TestCase_init_obstacles [OF assms(1)] assms
  by (simp add: TestCase_get_distances_def get_distances_def run_of_def)


text \<open>
  The constructor puts in the obstacles and, for container workers only, lowers the speed to the
  worker's and keeps the mission at the speed of the simulation; a worker speed that is no number is
  the only reason for it to fail.
\<close>

theorem TestCase_init_correct:
  "case TestCase_init cc hex cs obs of
     Inl e \<Rightarrow> AGENT cc = DOCKER \<and> SIM_WORKER_SPEED cc \<noteq> [] \<and> py_float (SIM_WORKER_SPEED cc) = Inl e
   | Inr tc \<Rightarrow>
       simulation_obstacles (tc_test tc) = obs \<and>
       simulation_speed (tc_test tc) \<le> simulation_speed cs \<and>
       (mission_speed (tc_test tc) = None) = (mission_speed cs = None) \<and>
       (if AGENT cc = DOCKER \<and> SIM_WORKER_SPEED cc \<noteq> []
        then mission_speed cs = None \<or> mission_speed (tc_test tc) = Some (simulation_speed (tc_test tc))
        else simulation_speed (tc_test tc) = simulation_speed cs \<and> mission_speed (tc_test tc) = mission_speed cs) \<and>
       (if AGENT cc = DOCKER
        then \<exists>ac. test_agent (tc_test tc) = Some ac \<and> ac_engine ac = DOCKER \<and> length (ac_id ac) \<le> 15
        else test_agent (tc_test tc) = test_agent cs)"
  by (auto simp: TestCase_init_def limit_speed_def Let_def bindE_def split: sum.split)

section \<open>The random generator\<close>

definition min_size :: "real \<times> real \<times> real" where
  "min_size = (2, 2, 15)"

definition max_size :: "real \<times> real \<times> real" where
  "max_size = (20, 20, 25)"

definition min_position :: "real \<times> real \<times> real \<times> real" where
  "min_position = (-40, 10, 0, 0)"

definition max_position :: "real \<times> real \<times> real \<times> real" where
  "max_position = (30, 40, 0, 90)"

text \<open>The six draws of one round, in the order of the source.\<close>

definition drawObstacle :: "rng \<Rightarrow> Obstacle \<times> rng" where
  "drawObstacle g =
     (case (min_size, max_size, min_position, max_position) of
        ((l0, w0, h0), (l1, w1, h1), (x0, y0, z0, r0), (x1, y1, z1, r1)) \<Rightarrow>
      let (l, g1) = py_uniform l0 l1 g;
          (w, g2) = py_uniform w0 w1 g1;
          (h, g3) = py_uniform h0 h1 g2;
          (x, g4) = py_uniform x0 x1 g3;
          (y, g5) = py_uniform y0 y1 g4;
          (r, g6) = py_uniform r0 r1 g5
      in (\<lparr>o_l = l, o_w = w, o_h = h, o_x = x, o_y = y, o_z = 0, o_r = r\<rparr>, g6))"

text \<open>The \<open>try\<close> block: execute, measure, report the minimum, plot.\<close>

definition attempt :: "case_config \<Rightarrow> aerialist \<Rightarrow> string \<Rightarrow> TestCase \<Rightarrow> unit result \<times> TestCase" where
  "attempt cc ae hex tc =
     (case TestCase_execute cc ae tc of
        (Inl e, tc1) \<Rightarrow> (Inl e, tc1)
      | (Inr _, tc1) \<Rightarrow>
          (case TestCase_get_distances ae tc1 of
             Inl e \<Rightarrow> (Inl e, tc1)
           | Inr distances \<Rightarrow> if distances = [] then (Inl ValueError, tc1) else TestCase_plot ae hex tc1))"

text \<open>
  The loop of \<open>generate\<close>. The \<open>i\<close>-th round meets its own behaviour of the package, \<open>ae i\<close>, and its own
  UUIDs. The constructor is called outside the \<open>try\<close>: its exception ends the loop.
\<close>

fun random_rounds ::
    "case_config \<Rightarrow> (nat \<Rightarrow> aerialist) \<Rightarrow> (nat \<Rightarrow> string) \<Rightarrow> aerialist_test \<Rightarrow> nat \<Rightarrow> nat \<Rightarrow> rng \<Rightarrow>
     TestCase list \<Rightarrow> TestCase list result" where
  "random_rounds cc ae uuid cs 0 i g test_cases = Inr test_cases"
| "random_rounds cc ae uuid cs (Suc n) i g test_cases =
     (let (obstacle, g1) = drawObstacle g
      in bindE (TestCase_init cc (uuid (2 * i)) cs [obstacle]) (\<lambda>test.
           case attempt cc (ae i) (uuid (2 * i + 1)) test of
             (Inl e, _) \<Rightarrow> random_rounds cc ae uuid cs n (Suc i) g1 test_cases
           | (Inr _, test1) \<Rightarrow> random_rounds cc ae uuid cs n (Suc i) g1 (test_cases @ [test1])))"

definition random_generate ::
    "case_config \<Rightarrow> (nat \<Rightarrow> aerialist) \<Rightarrow> (nat \<Rightarrow> string) \<Rightarrow> aerialist_test \<Rightarrow> rng \<Rightarrow> int \<Rightarrow> TestCase list result" where
  "random_generate cc ae uuid cs g budget = random_rounds cc ae uuid cs (nat budget) 0 g []"

text \<open>What a test of the random generator looks like: flown, logged, plotted, in the sampled box.\<close>

definition in_box :: "Obstacle \<Rightarrow> bool" where
  "in_box o1 = (o_l o1 \<in> {2 .. 20} \<and> o_w o1 \<in> {2 .. 20} \<and> o_h o1 \<in> {15 .. 25} \<and>
     o_x o1 \<in> {-40 .. 30} \<and> o_y o1 \<in> {10 .. 40} \<and> o_z o1 = 0 \<and> o_r o1 \<in> {0 .. 90})"

definition complete_test :: "TestCase \<Rightarrow> bool" where
  "complete_test tc =
     (tc_trajectory tc \<noteq> None \<and> tc_log_file tc \<noteq> None \<and> tc_plot_file tc \<noteq> None \<and>
      (\<exists>o1. simulation_obstacles (tc_test tc) = [o1] \<and> in_box o1))"

lemma drawObstacle_in_box:
  assumes "rng_ok g" and "drawObstacle g = (o1, g')"
  shows "in_box o1 \<and> rng_ok g'"
proof -
  obtain l g1 where 1: "py_uniform 2 20 g = (l, g1)" by fastforce
  obtain w g2 where 2: "py_uniform 2 20 g1 = (w, g2)" by fastforce
  obtain h g3 where 3: "py_uniform 15 25 g2 = (h, g3)" by fastforce
  obtain x g4 where 4: "py_uniform (-40) 30 g3 = (x, g4)" by fastforce
  obtain y g5 where 5: "py_uniform 10 40 g4 = (y, g5)" by fastforce
  obtain r g6 where 6: "py_uniform 0 90 g5 = (r, g6)" by fastforce
  note c1 = py_uniform_ok [OF assms(1) _ 1, simplified]
  note c2 = py_uniform_ok [OF _ _ 2, simplified]
  note c3 = py_uniform_ok [OF _ _ 3, simplified]
  note c4 = py_uniform_ok [OF _ _ 4, simplified]
  note c5 = py_uniform_ok [OF _ _ 5, simplified]
  note c6 = py_uniform_ok [OF _ _ 6, simplified]
  have "o1 = \<lparr>o_l = l, o_w = w, o_h = h, o_x = x, o_y = y, o_z = 0, o_r = r\<rparr>" "g' = g6"
    using assms(2) 1 2 3 4 5 6
    by (simp_all add: drawObstacle_def min_size_def max_size_def min_position_def max_position_def)
  then show ?thesis using c1 c2 c3 c4 c5 c6 by (simp add: in_box_def)
qed

lemma attempt_complete:
  assumes "TestCase_init cc hex cs [o1] = Inr tc" and "in_box o1" and "attempt cc ae hex' tc = (Inr u, tc')"
  shows "complete_test tc'"
  using assms TestCase_init_obstacles [OF assms(1)]
  by (auto simp: attempt_def complete_test_def TestCase_plot_def dest: TestCase_execute_trajectory
      split: prod.splits sum.splits if_splits option.splits)

text \<open>The rounds that count, in order: those whose attempt succeeds.\<close>

definition round_test ::
    "case_config \<Rightarrow> (nat \<Rightarrow> aerialist) \<Rightarrow> (nat \<Rightarrow> string) \<Rightarrow> aerialist_test \<Rightarrow> nat \<Rightarrow> rng \<Rightarrow> TestCase list" where
  "round_test cc ae uuid cs i g =
     (case TestCase_init cc (uuid (2 * i)) cs [fst (drawObstacle g)] of
        Inl _ \<Rightarrow> []
      | Inr tc \<Rightarrow> (case attempt cc (ae i) (uuid (2 * i + 1)) tc of (Inl _, _) \<Rightarrow> [] | (Inr _, tc1) \<Rightarrow> [tc1]))"

fun draws :: "nat \<Rightarrow> rng \<Rightarrow> rng" where
  "draws 0 g = g"
| "draws (Suc n) g = draws n (snd (drawObstacle g))"

lemma drawn_ok:
  assumes "rng_ok g"
  shows "in_box (fst (drawObstacle g))" and "rng_ok (snd (drawObstacle g))"
  using drawObstacle_in_box [OF assms, of "fst (drawObstacle g)" "snd (drawObstacle g)"] by simp_all

lemma draws_ok: "rng_ok g \<Longrightarrow> rng_ok (draws n g)"
  by (induction n arbitrary: g) (simp_all add: drawn_ok)

lemma round_test_complete: "rng_ok g \<Longrightarrow> tc \<in> set (round_test cc ae uuid cs i g) \<Longrightarrow> complete_test tc"
  by (auto simp: round_test_def split: sum.splits prod.splits dest!: sym [of "Inr _"] sym [of "(_, _)"]
      intro: attempt_complete drawn_ok(1))

lemma init_failure_constant: "TestCase_init cc hex cs obs = Inl e \<Longrightarrow> TestCase_init cc hex' cs obs' = Inl e"
  by (auto simp: TestCase_init_def limit_speed_def bindE_def Let_def split: if_splits sum.splits)

lemma random_rounds_tests:
  assumes "TestCase_init cc hex cs [] = Inr tc0"
  shows "random_rounds cc ae uuid cs n i g acc =
     Inr (acc @ concat (map (\<lambda>j. round_test cc ae uuid cs (i + j) (draws j g)) [0..<n]))"
proof (induction n arbitrary: i g acc)
  case (Suc n)
  obtain o1 g1 where d: "drawObstacle g = (o1, g1)" by fastforce
  obtain tc where t: "TestCase_init cc (uuid (2 * i)) cs [o1] = Inr tc"
    using assms init_failure_constant [of cc "uuid (2 * i)" cs "[o1]" _ hex "[]"]
    by (cases "TestCase_init cc (uuid (2 * i)) cs [o1]") auto
  obtain out tc1 where a: "attempt cc (ae i) (uuid (2 * i + 1)) tc = (out, tc1)" by fastforce
  have r: "round_test cc ae uuid cs i g = (case out of Inl _ \<Rightarrow> [] | Inr _ \<Rightarrow> [tc1])"
    using d t a by (simp add: round_test_def)
  have "map (\<lambda>j. round_test cc ae uuid cs (i + j) (draws j g)) [0..<Suc n] =
      round_test cc ae uuid cs i g # map (\<lambda>j. round_test cc ae uuid cs (Suc i + j) (draws j g1)) [0..<n]"
    using d by (simp add: map_upt_Suc del: upt_Suc)
  then show ?case using d t a r Suc [of "Suc i" g1] by (cases out) simp_all
qed simp

text \<open>
  C16. The random generator: unless the worker speed is malformed it returns for every behaviour of the
  simulator and of the plots, with at most one test per unit of budget, the tests of the successful
  rounds in order. Every returned test has one obstacle inside the sampled box, a trajectory, a log
  and a plot. With a malformed speed it raises, as soon as there is a round.
\<close>

theorem random_generate_correct:
  assumes "rng_ok g"
  shows "case TestCase_init cc [] cs [] of
      Inl e \<Rightarrow> random_generate cc ae uuid cs g budget = (if budget \<le> 0 then Inr [] else Inl e)
    | Inr _ \<Rightarrow> \<exists>tests. random_generate cc ae uuid cs g budget = Inr tests \<and>
        int (length tests) \<le> max 0 budget \<and> list_all complete_test tests \<and>
        tests = concat (map (\<lambda>i. round_test cc ae uuid cs i (draws i g)) [0..<nat budget])"
proof (cases "TestCase_init cc [] cs []")
  case (Inl e)
  have "nat budget = Suc (nat budget - 1)" if "0 < budget" using that by simp
  then show ?thesis
    using Inl init_failure_constant [OF Inl] by (cases "budget \<le> 0"; cases "nat budget")
      (auto simp: random_generate_def split: prod.split)
next
  case (Inr tc)
  let ?rounds = "map (\<lambda>i. round_test cc ae uuid cs i (draws i g)) [0..<nat budget]"
  have "length (round_test cc ae uuid cs i h) \<le> 1" for i h
    by (simp add: round_test_def split: sum.split prod.split)
  then have "length (concat (map (\<lambda>i. round_test cc ae uuid cs i (draws i g)) is)) \<le> length is" for "is"
    by (induction "is") (auto simp: add_le_mono [of _ 1, simplified])
  then have "length (concat ?rounds) \<le> nat budget" by (metis length_upt minus_nat.diff_0)
  moreover have "list_all complete_test (concat ?rounds)"
    by (auto simp: list_all_iff intro: round_test_complete [OF draws_ok [OF assms]])
  ultimately show ?thesis
    using Inr random_rounds_tests [OF Inr, of ae uuid "nat budget" 0 g "[]"]
    by (auto simp: random_generate_def)
qed

definition sampleAerialist :: aerialist where
  "sampleAerialist =
     \<lparr>agent_run = (\<lambda>e t. Inr [\<lparr>result_record = Some [], result_log_file = ''log.ulg''\<rparr>]),
      min_distance_to_obstacles = (\<lambda>tr obs. Inr 1),
      plot_test = (\<lambda>t rs name. Inr (name @ ''.png''))\<rparr>"

definition sampleStudy :: aerialist_test where
  "sampleStudy = \<lparr>simulation_obstacles = [], simulation_speed = 2, mission_speed = Some 2, test_agent = None\<rparr>"

definition sampleCase :: case_config where
  "sampleCase = \<lparr>AGENT = DOCKER, SIM_WORKER_SPEED = ''1.5'', LOGS_COPY_DIR = ''results/logs/''\<rparr>"

theorem random_generate_correct_witness:
  "\<exists>tests. random_generate sampleCase (\<lambda>i. sampleAerialist) (\<lambda>i. []) sampleStudy rng_fixed 2 = Inr tests \<and>
     int (length tests) \<le> 2 \<and> list_all complete_test tests"
proof -
  obtain tc where "TestCase_init sampleCase [] sampleStudy [] = Inr tc"
    by (simp add: TestCase_init_def limit_speed_def sampleCase_def sampleStudy_def float_simps)
  with random_generate_correct [OF rng_fixed_ok, where cc = sampleCase and cs = sampleStudy and
      ae = "\<lambda>i. sampleAerialist" and uuid = "\<lambda>i. []" and budget = 2]
  show ?thesis by auto
qed

end
