(* ===== verification/Patches.thy ===== *)
theory Patches
  imports Py_Strings
begin

text \<open>
  \<open>patchAerialist.py\<close>: the three textual patches applied to the installed Aerialist package when a
  container starts. The files are a map from paths to texts; an operation returns the line it reports
  and the files it leaves. Reading and writing do not fail in the model: a path is either absent or a
  readable and writable text file.

  The contract the three operations share is the locale \<open>text_patch\<close>: a marker that says whether the
  patch is in, an anchor that says where it goes, and an edit that leaves the marker behind.
\<close>

type_synonym files = "string \<rightharpoonup> string"

abbreviation newline :: string where
  "newline \<equiv> [CHR 0x0A]"

section \<open>Paths and texts\<close>

definition LAUNCH_PATH :: string where
  "LAUNCH_PATH = ''/src/aerialist/aerialist/resources/simulation/collision_prevention.launch''"

definition SIMULATOR_PATH :: string where
  "SIMULATOR_PATH = ''/src/aerialist/aerialist/px4/simulator.py''"

definition DRONE_PATH :: string where
  "DRONE_PATH = ''/src/aerialist/aerialist/px4/drone.py''"

definition LAUNCH_OLD :: string where
  "LAUNCH_OLD =
     ''    <include file=\"$(find px4)/launch/px4.launch\">'' @ newline @
     ''        <arg name=\"vehicle\" value=\"$(arg vehicle)\"/>'' @ newline @
     ''    </include>''"

definition LAUNCH_NEW :: string where
  "LAUNCH_NEW =
     ''    <include file=\"$(find px4)/launch/px4.launch\">'' @ newline @
     ''        <arg name=\"vehicle\" value=\"$(arg vehicle)\"/>'' @ newline @
     ''        <arg name=\"interactive\" value=\"false\"/>'' @ newline @
     ''    </include>''"

definition LAUNCH_MARKER :: string where
  "LAUNCH_MARKER = ''interactive\" value=\"false\"''"

definition SIM_ANCHOR :: string where
  "SIM_ANCHOR = ''            sim_command += f\"exec roslaunch {self.AVOIDANCE_LAUNCH}''"

definition SIM_MARKER :: string where
  "SIM_MARKER = ''sim_command += f\"export PX4_SIM_SPEED_FACTOR={self.config.speed};''"

definition SIM_EXPORT :: string where
  "SIM_EXPORT =
     ''            if self.config.speed != 1:'' @ newline @
     ''                sim_command += f\"export PX4_SIM_SPEED_FACTOR={self.config.speed}; \"'' @ newline"

definition DRONE_MARKER :: string where
  "DRONE_MARKER = ''is_home_position_ok''"

definition DRONE_OLD :: string where
  "DRONE_OLD =
     ''        # Checking if Global Position Estimate is ok'' @ newline @
     ''        async for global_lock in self.drone.telemetry.health():'' @ newline @
     ''            if global_lock.is_global_position_ok:'' @ newline"

definition DRONE_NEW :: string where
  "DRONE_NEW =
     ''        # Checking if Global Position Estimate is ok'' @ newline @
     ''        async for global_lock in self.drone.telemetry.health():'' @ newline @
     ''            if global_lock.is_global_position_ok and global_lock.is_home_position_ok:'' @ newline"

lemmas patch_texts =
  LAUNCH_OLD_def LAUNCH_NEW_def LAUNCH_MARKER_def SIM_ANCHOR_def SIM_MARKER_def SIM_EXPORT_def
  DRONE_MARKER_def DRONE_OLD_def DRONE_NEW_def

section \<open>The operations\<close>

definition patchLaunch :: "files \<Rightarrow> string \<times> files" where
  "patchLaunch fs =
     (case fs LAUNCH_PATH of
        None \<Rightarrow> (''launch: missing ('' @ LAUNCH_PATH @ '')'', fs)
      | Some contents \<Rightarrow>
          if py_in LAUNCH_MARKER contents then (''launch: already patched'', fs)
          else if \<not> py_in LAUNCH_OLD contents then (''launch: anchor not found'', fs)
          else (''launch: patched'',
                fs(LAUNCH_PATH \<mapsto> py_replace LAUNCH_OLD LAUNCH_NEW contents)))"

definition patchSimulator :: "files \<Rightarrow> string \<times> files" where
  "patchSimulator fs =
     (case fs SIMULATOR_PATH of
        None \<Rightarrow> (''simulator: missing ('' @ SIMULATOR_PATH @ '')'', fs)
      | Some contents \<Rightarrow>
          if py_in SIM_MARKER contents then (''simulator: already patched'', fs)
          else if \<not> py_in SIM_ANCHOR contents then (''simulator: anchor not found'', fs)
          else (''simulator: patched'',
                fs(SIMULATOR_PATH \<mapsto> py_replace1 SIM_ANCHOR (SIM_EXPORT @ SIM_ANCHOR) contents)))"

definition patchDrone :: "files \<Rightarrow> string \<times> files" where
  "patchDrone fs =
     (case fs DRONE_PATH of
        None \<Rightarrow> (''drone: missing ('' @ DRONE_PATH @ '')'', fs)
      | Some contents \<Rightarrow>
          if py_in DRONE_MARKER contents then (''drone: already patched'', fs)
          else if \<not> py_in DRONE_OLD contents then (''drone: anchor not found'', fs)
          else (''drone: patched'',
                fs(DRONE_PATH \<mapsto> py_replace1 DRONE_OLD DRONE_NEW contents)))"

text \<open>The printed lines, in order, and the files.\<close>

definition applyPatches :: "files \<Rightarrow> string list \<times> files" where
  "applyPatches fs =
     (let (launch, fs1) = patchLaunch fs;
          (simulator, fs2) = patchSimulator fs1;
          (drone, fs3) = patchDrone fs2
      in ([launch, simulator, drone], fs3))"

section \<open>The shared contract\<close>

locale text_patch =
  fixes op :: "files \<Rightarrow> string \<times> files"
    and name path marker anchor :: string
    and edit :: "string \<Rightarrow> string"
  assumes op_missing: "fs path = None \<Longrightarrow> op fs = (name @ '': missing ('' @ path @ '')'', fs)"
    and op_marked: "fs path = Some s \<Longrightarrow> py_in marker s \<Longrightarrow> op fs = (name @ '': already patched'', fs)"
    and op_astray: "fs path = Some s \<Longrightarrow> \<not> py_in marker s \<Longrightarrow> \<not> py_in anchor s \<Longrightarrow>
          op fs = (name @ '': anchor not found'', fs)"
    and op_edit: "fs path = Some s \<Longrightarrow> \<not> py_in marker s \<Longrightarrow> py_in anchor s \<Longrightarrow>
          op fs = (name @ '': patched'', fs(path \<mapsto> edit s))"
    and edit_marks: "py_in anchor s \<Longrightarrow> py_in marker (edit s)"
begin

lemma op_cases:
  obtains "fs path = None" "op fs = (name @ '': missing ('' @ path @ '')'', fs)"
  | s where "fs path = Some s" "py_in marker s" "op fs = (name @ '': already patched'', fs)"
  | s where "fs path = Some s" "\<not> py_in marker s" "\<not> py_in anchor s"
      "op fs = (name @ '': anchor not found'', fs)"
  | s where "fs path = Some s" "\<not> py_in marker s" "py_in anchor s"
      "op fs = (name @ '': patched'', fs(path \<mapsto> edit s))"
  by (meson op_missing op_marked op_astray op_edit not_Some_eq)

text \<open>Nothing but the patched file changes, and no file appears or disappears.\<close>

lemma frame: "q \<noteq> path \<Longrightarrow> snd (op fs) q = fs q"
  by (rule op_cases [of fs]) auto

lemma same_dom: "dom (snd (op fs)) = dom fs"
  by (rule op_cases [of fs]) auto

text \<open>The report and the new text depend on the patched file alone.\<close>

lemma local_effect: "fs path = fs' path \<Longrightarrow> fst (op fs) = fst (op fs') \<and> snd (op fs) path = snd (op fs') path"
  by (rule op_cases [of fs]; rule op_cases [of fs']) auto

lemma changes_iff: "fst (op fs) = name @ '': patched'' \<longleftrightarrow>
    (\<exists>s. fs path = Some s \<and> \<not> py_in marker s \<and> py_in anchor s)"
  by (rule op_cases [of fs]) auto

lemma unchanged: "fst (op fs) \<noteq> name @ '': patched'' \<Longrightarrow> snd (op fs) = fs"
  by (rule op_cases [of fs]) auto

lemma again:
  assumes "snd (op fs) path = fs' path"
  shows "snd (op fs') = fs'"
    and "fst (op fs') = (if fst (op fs) = name @ '': patched'' then name @ '': already patched'' else fst (op fs))"
proof -
  have "op fs' = (if fst (op fs) = name @ '': patched'' then name @ '': already patched'' else fst (op fs), fs')"
    by (rule op_cases [of fs]; rule op_cases [of fs']) (use assms edit_marks in auto)
  then show "snd (op fs') = fs'"
    and "fst (op fs') = (if fst (op fs) = name @ '': patched'' then name @ '': already patched'' else fst (op fs))"
    by auto
qed

end

lemma patch_texts_nonempty: "LAUNCH_OLD \<noteq> []" "SIM_ANCHOR \<noteq> []" "DRONE_OLD \<noteq> []"
  by (simp_all add: patch_texts)

lemma patch_texts_marked:
  "py_in LAUNCH_MARKER LAUNCH_NEW" "py_in SIM_MARKER (SIM_EXPORT @ SIM_ANCHOR)" "py_in DRONE_MARKER DRONE_NEW"
  by (simp_all add: patch_texts)

lemma launch_separate: "separate LAUNCH_OLD LAUNCH_NEW"
  by (simp add: separate_def patch_texts)

interpretation launch: text_patch patchLaunch "''launch''" LAUNCH_PATH LAUNCH_MARKER LAUNCH_OLD
  "py_replace LAUNCH_OLD LAUNCH_NEW"
  by unfold_locales
    (auto simp: patchLaunch_def patch_texts_nonempty patch_texts_marked [unfolded py_in_sublist]
      intro: replace_contains)

interpretation simulator: text_patch patchSimulator "''simulator''" SIMULATOR_PATH SIM_MARKER SIM_ANCHOR
  "py_replace1 SIM_ANCHOR (SIM_EXPORT @ SIM_ANCHOR)"
  by unfold_locales
    (auto simp: patchSimulator_def patch_texts_nonempty patch_texts_marked [unfolded py_in_sublist]
      intro: replace1_contains)

interpretation drone: text_patch patchDrone "''drone''" DRONE_PATH DRONE_MARKER DRONE_OLD
  "py_replace1 DRONE_OLD DRONE_NEW"
  by unfold_locales
    (auto simp: patchDrone_def patch_texts_nonempty patch_texts_marked [unfolded py_in_sublist]
      intro: replace1_contains)

section \<open>The sequence of the three\<close>

lemmas patch_paths = LAUNCH_PATH_def SIMULATOR_PATH_def DRONE_PATH_def

lemma patch_paths_distinct [simp]:
  "LAUNCH_PATH \<noteq> SIMULATOR_PATH" "SIMULATOR_PATH \<noteq> LAUNCH_PATH" "LAUNCH_PATH \<noteq> DRONE_PATH"
  "DRONE_PATH \<noteq> LAUNCH_PATH" "SIMULATOR_PATH \<noteq> DRONE_PATH" "DRONE_PATH \<noteq> SIMULATOR_PATH"
  by (simp_all add: patch_paths)

lemma applyPatches_files: "snd (applyPatches fs) = snd (patchDrone (snd (patchSimulator (snd (patchLaunch fs)))))"
  by (simp add: applyPatches_def split: prod.split)

text \<open>Each operation sees the file the others leave alone, so the sequence acts on the files one by one.\<close>

lemma applyPatches_at:
  "snd (applyPatches fs) LAUNCH_PATH = snd (patchLaunch fs) LAUNCH_PATH"
  "snd (applyPatches fs) SIMULATOR_PATH = snd (patchSimulator fs) SIMULATOR_PATH"
  "snd (applyPatches fs) DRONE_PATH = snd (patchDrone fs) DRONE_PATH"
  using simulator.local_effect [of "snd (patchLaunch fs)" fs]
    drone.local_effect [of "snd (patchSimulator (snd (patchLaunch fs)))" fs]
  by (simp_all add: applyPatches_files launch.frame simulator.frame drone.frame)

lemma applyPatches_report:
  "fst (applyPatches fs) = [fst (patchLaunch fs), fst (patchSimulator fs), fst (patchDrone fs)]"
  using simulator.local_effect [of "snd (patchLaunch fs)" fs]
    drone.local_effect [of "snd (patchSimulator (snd (patchLaunch fs)))" fs]
  by (simp add: applyPatches_def case_prod_beta Let_def launch.frame simulator.frame)

text \<open>
  C13. Running the patches twice is running them once: the second run changes no file and reports
  ``already patched'' where the first reported ``patched'' and otherwise what the first reported.
  No run creates or deletes a file or touches any other than the three named ones.
\<close>

theorem applyPatches_idempotent:
  fixes fs :: files
  defines "fs' \<equiv> snd (applyPatches fs)"
  shows "applyPatches fs' =
           (map2 (\<lambda>name line. if line = name @ '': patched'' then name @ '': already patched'' else line)
              [''launch'', ''simulator'', ''drone''] (fst (applyPatches fs)), fs') \<and>
         dom fs' = dom fs \<and>
         fs' |` (- {LAUNCH_PATH, SIMULATOR_PATH, DRONE_PATH}) =
           fs |` (- {LAUNCH_PATH, SIMULATOR_PATH, DRONE_PATH})"
proof -
  note at = applyPatches_at [of fs, folded fs'_def]
  note l = launch.again [of fs fs', OF at(1) [symmetric]]
  note s = simulator.again [of fs fs', OF at(2) [symmetric]]
  note d = drone.again [of fs fs', OF at(3) [symmetric]]
  have "snd (applyPatches fs') = fs'" by (simp add: applyPatches_files l s d)
  moreover have "fst (applyPatches fs') =
      map2 (\<lambda>name line. if line = name @ '': patched'' then name @ '': already patched'' else line)
        [''launch'', ''simulator'', ''drone''] (fst (applyPatches fs))"
    unfolding applyPatches_report l(2) s(2) d(2) by simp
  moreover have "dom fs' = dom fs"
    by (simp add: fs'_def applyPatches_files launch.same_dom simulator.same_dom drone.same_dom)
  moreover have "fs' |` (- {LAUNCH_PATH, SIMULATOR_PATH, DRONE_PATH}) =
      fs |` (- {LAUNCH_PATH, SIMULATOR_PATH, DRONE_PATH})"
    by (auto simp: restrict_map_def fs'_def applyPatches_files launch.frame simulator.frame drone.frame)
  ultimately show ?thesis by (simp add: prod_eq_iff)
qed

text \<open>
  What the patches do to unpatched files that have the expected text. In the launch file every
  include of the simulator is exchanged and none without the new argument is left; in the two Python
  files the first anchor is exchanged and the rest of the text stays as it is. Afterwards every file
  carries its marker.
\<close>

theorem applyPatches_effect:
  assumes "fs LAUNCH_PATH = Some launchText" and "\<not> py_in LAUNCH_MARKER launchText"
    and "py_in LAUNCH_OLD launchText"
    and "fs SIMULATOR_PATH = Some simText" and "\<not> py_in SIM_MARKER simText" and "py_in SIM_ANCHOR simText"
    and "fs DRONE_PATH = Some droneText" and "\<not> py_in DRONE_MARKER droneText"
    and "py_in DRONE_OLD droneText"
  shows "\<exists>fs' parts u v u' v'.
     applyPatches fs = ([''launch: patched'', ''simulator: patched'', ''drone: patched''], fs') \<and>
     launchText = join LAUNCH_OLD parts \<and> 2 \<le> length parts \<and>
     fs' LAUNCH_PATH = Some (join LAUNCH_NEW parts) \<and>
     \<not> py_in LAUNCH_OLD (join LAUNCH_NEW parts) \<and> py_in LAUNCH_MARKER (join LAUNCH_NEW parts) \<and>
     simText = u @ SIM_ANCHOR @ v \<and> \<not> py_in SIM_ANCHOR (u @ butlast SIM_ANCHOR) \<and>
     fs' SIMULATOR_PATH = Some (u @ SIM_EXPORT @ SIM_ANCHOR @ v) \<and>
     droneText = u' @ DRONE_OLD @ v' \<and> \<not> py_in DRONE_OLD (u' @ butlast DRONE_OLD) \<and>
     fs' DRONE_PATH = Some (u' @ DRONE_NEW @ v')"
proof -
  let ?parts = "split_at LAUNCH_OLD launchText"
  obtain u v where sim: "simText = u @ SIM_ANCHOR @ v" "\<not> py_in SIM_ANCHOR (u @ butlast SIM_ANCHOR)"
    "py_replace1 SIM_ANCHOR (SIM_EXPORT @ SIM_ANCHOR) simText = u @ (SIM_EXPORT @ SIM_ANCHOR) @ v"
    using replace1_leftmost [OF assms(6) patch_texts_nonempty(2)] by metis
  obtain u' v' where drone: "droneText = u' @ DRONE_OLD @ v'" "\<not> py_in DRONE_OLD (u' @ butlast DRONE_OLD)"
    "py_replace1 DRONE_OLD DRONE_NEW droneText = u' @ DRONE_NEW @ v'"
    using replace1_leftmost [OF assms(9) patch_texts_nonempty(3)] by metis
  note ops = launch.op_edit [of fs, OF assms(1-3)] simulator.op_edit [of fs, OF assms(4-6)]
    drone.op_edit [of fs, OF assms(7-9)]
  have "applyPatches fs =
      ([''launch: patched'', ''simulator: patched'', ''drone: patched''], snd (applyPatches fs))"
    using applyPatches_report [of fs] by (simp add: ops prod_eq_iff)
  moreover have "snd (applyPatches fs) LAUNCH_PATH = Some (join LAUNCH_NEW ?parts)"
    by (simp add: applyPatches_at ops replace_join_split)
  moreover have "snd (applyPatches fs) SIMULATOR_PATH = Some (u @ SIM_EXPORT @ SIM_ANCHOR @ v)"
    "snd (applyPatches fs) DRONE_PATH = Some (u' @ DRONE_NEW @ v')"
    by (simp_all add: applyPatches_at ops sim(3) drone(3))
  moreover have "\<not> py_in LAUNCH_OLD (join LAUNCH_NEW ?parts)"
    using replace_removes [OF launch_separate patch_texts_nonempty(1)] by (simp add: replace_join_split)
  moreover have "py_in LAUNCH_MARKER (join LAUNCH_NEW ?parts)"
    using launch.edit_marks [OF assms(3)] by (simp add: replace_join_split)
  ultimately show ?thesis
    using sim(1,2) drone(1,2) join_split [of LAUNCH_OLD launchText]
      split_at_present [OF assms(3) patch_texts_nonempty(1)]
    by metis
qed

definition sampleLaunch :: string where
  "sampleLaunch = ''<launch>'' @ newline @ LAUNCH_OLD @ newline @ LAUNCH_OLD @ ''</launch>''"

definition sampleSimulator :: string where
  "sampleSimulator = ''if ros:'' @ newline @ SIM_ANCHOR"

definition sampleDrone :: string where
  "sampleDrone = DRONE_OLD @ ''break''"

definition sampleFiles :: files where
  "sampleFiles =
     [LAUNCH_PATH \<mapsto> sampleLaunch, SIMULATOR_PATH \<mapsto> sampleSimulator, DRONE_PATH \<mapsto> sampleDrone]"

theorem applyPatches_effect_witness:
  "fst (applyPatches sampleFiles) = [''launch: patched'', ''simulator: patched'', ''drone: patched'']"
proof -
  have at: "sampleFiles LAUNCH_PATH = Some sampleLaunch" "sampleFiles SIMULATOR_PATH = Some sampleSimulator"
    "sampleFiles DRONE_PATH = Some sampleDrone"
    by (simp_all add: sampleFiles_def)
  have fresh: "\<not> py_in LAUNCH_MARKER sampleLaunch" "\<not> py_in SIM_MARKER sampleSimulator"
    "\<not> py_in DRONE_MARKER sampleDrone"
    by (simp_all add: sampleLaunch_def sampleSimulator_def sampleDrone_def patch_texts)
  have anchored: "py_in LAUNCH_OLD sampleLaunch" "py_in SIM_ANCHOR sampleSimulator" "py_in DRONE_OLD sampleDrone"
    by (simp_all add: sampleLaunch_def sampleSimulator_def sampleDrone_def patch_texts)
  show ?thesis
    using applyPatches_effect [of sampleFiles, OF at(1) fresh(1) anchored(1) at(2) fresh(2) anchored(2)
        at(3) fresh(3) anchored(3)]
    by auto
qed

end
