(* ===== verification/Docker_Agent.thy ===== *)
theory Docker_Agent
  imports Py_Strings "HOL-Library.List_Lexorder" "HOL-Library.Char_ord"
begin

text \<open>
  \<open>parallel_docker_agent.py\<close>: one simulator in a disposable worker container. What \<open>subprocess.run\<close>
  answers is the parameter \<open>sp\<close>, a function of the commands issued so far and the new one, which may
  also raise; the base class's \<open>process_output\<close> is a parameter too, free to change the agent and to
  raise. The agent records every command it issues, in order, so that what it does to the container
  engine is visible in its state. Log lines are not modelled.
\<close>

section \<open>Processes\<close>

record completed =
  returncode :: int
  stdout :: string
  stderr :: string

datatype command = Argv "string list" | Shell string

datatype raised = RuntimeErr string | FileNotFoundError | Other pyerr

type_synonym subprocess = "command list \<Rightarrow> command \<Rightarrow> raised + completed"

text \<open>The configuration read by \<open>decouple.config\<close>, and the agent's attributes.\<close>

record worker_config =
  DOCKER_IMG :: string
  USE_GPU :: bool
  SECURITY_OPT :: string

record 'r agent =
  container_id :: "string option"
  docker_cmd :: string
  results :: 'r
  issued :: "command list"

type_synonym 'r process_output = "int \<Rightarrow> string \<Rightarrow> string \<Rightarrow> bool \<Rightarrow> 'r agent \<Rightarrow> (raised + unit) \<times> 'r agent"

definition CPU_CMD :: string where
  "CPU_CMD =
     ''xvfb-run -a -s '' @ [CHR 0x27] @ ''-screen 0 1280x720x24'' @ [CHR 0x27] @ '' '' @
     ''env LIBGL_ALWAYS_INDIRECT=0 LIBGL_ALWAYS_SOFTWARE=1 '' @
     ''aerialist exec --test {test_file}''"

definition GPU_CMD :: string where
  "GPU_CMD = ''aerialist exec --test {test_file}''"

definition CMD :: "worker_config \<Rightarrow> string" where
  "CMD cfg = (if USE_GPU cfg then GPU_CMD else CPU_CMD)"

definition DOCKER_CMD :: string where
  "DOCKER_CMD = ''docker exec {id} {cmd}''"

text \<open>\<open>subprocess.run\<close>\<close>

definition subprocess_run :: "subprocess \<Rightarrow> command \<Rightarrow> 'r agent \<Rightarrow> (raised + completed) \<times> 'r agent" where
  "subprocess_run sp c a = (sp (issued a) c, a\<lparr>issued := issued a @ [c]\<rparr>)"

definition environ_get :: "(string \<rightharpoonup> string) \<Rightarrow> string \<Rightarrow> string \<Rightarrow> string" where
  "environ_get env key dflt = (case env key of None \<Rightarrow> dflt | Some v \<Rightarrow> v)"

definition or_default :: "string \<Rightarrow> string \<Rightarrow> string" where
  "or_default s dflt = (if s = [] then dflt else s)"

section \<open>Creating the container\<close>

definition gpu_options :: "(string \<rightharpoonup> string) \<Rightarrow> string list" where
  "gpu_options env =
     [''--gpus'', ''all'',
      ''-e'', ''DISPLAY='' @ environ_get env ''DISPLAY'' '':0'',
      ''-e'', ''XAUTHORITY=/tmp/.Xauthority'',
      ''-e'', ''NVIDIA_DRIVER_CAPABILITIES=all,graphics,display,compute,utility'',
      ''-e'', ''__NV_PRIME_RENDER_OFFLOAD=1'',
      ''-e'', ''__GLX_VENDOR_LIBRARY_NAME=nvidia'',
      ''-v'', ''/tmp/.X11-unix:/tmp/.X11-unix:rw'']"

definition create_command :: "worker_config \<Rightarrow> (string \<rightharpoonup> string) \<Rightarrow> command" where
  "create_command cfg env =
     Argv ([''docker'', ''run'', ''--rm'', ''-td'', ''--shm-size=2g''] @
           (if SECURITY_OPT cfg \<noteq> [] then [''--security-opt'', SECURITY_OPT cfg] else []) @
           (if USE_GPU cfg then gpu_options env else []) @
           [DOCKER_IMG cfg])"

definition copy_command :: "(string \<rightharpoonup> string) \<Rightarrow> string \<Rightarrow> command" where
  "copy_command env cid =
     Argv [''docker'', ''cp'', environ_get env ''XAUTHORITY'' ''/tmp/.Xauthority'', cid @ '':/tmp/.Xauthority'']"

definition remove_command :: "string \<Rightarrow> command" where
  "remove_command cid = Argv [''docker'', ''rm'', ''-f'', cid]"

definition create_container ::
    "worker_config \<Rightarrow> (string \<rightharpoonup> string) \<Rightarrow> subprocess \<Rightarrow> 'r agent \<Rightarrow> (raised + bool) \<times> 'r agent" where
  "create_container cfg env sp a =
     (case subprocess_run sp (create_command cfg env) a of
        (Inl e, a1) \<Rightarrow> (Inl e, a1)
      | (Inr created, a1) \<Rightarrow>
          if returncode created \<noteq> 0
          then (Inl (RuntimeErr (or_default (py_strip (stderr created)) ''failed to create simulator worker'')), a1)
          else
            let cid = py_strip (stdout created);
                a2 = a1\<lparr>container_id := Some cid\<rparr>
            in if USE_GPU cfg
               then (case subprocess_run sp (copy_command env cid) a2 of
                       (Inl e, a3) \<Rightarrow> (Inl e, a3)
                     | (Inr copied, a3) \<Rightarrow>
                         if returncode copied \<noteq> 0
                         then (case subprocess_run sp (remove_command cid) a3 of
                                 (Inl e, a4) \<Rightarrow> (Inl e, a4)
                               | (Inr _, a4) \<Rightarrow>
                                   (Inl (RuntimeErr (or_default (py_strip (stderr copied))
                                      ''failed to copy worker Xauthority'')), a4))
                         else (Inr True, a3))
               else (Inr True, a2))"

section \<open>Running the test\<close>

definition find_command :: "string \<Rightarrow> command" where
  "find_command cid =
     Argv [''docker'', ''exec'', cid, ''find'', ''/root/.ros/log'', ''-type'', ''f'', ''-name'', ''*.ulg'',
           ''-printf'', ''%T@ %p'' @ [CHR 0x5C, CHR ''n'']]"

text \<open>The loop over the lines \<open>find\<close> printed: a line without a space is passed over.\<close>

fun collect_logs :: "string list \<Rightarrow> (real \<times> string) list result" where
  "collect_logs [] = Inr []"
| "collect_logs (line # ls) =
     (let (timestamp, separator, path) = py_partition '' '' line
      in if separator \<noteq> []
         then bindE (py_float timestamp) (\<lambda>t. bindE (collect_logs ls) (\<lambda>logs. Inr ((t, path) # logs)))
         else collect_logs ls)"

text \<open>\<open>max\<close> of a non-empty list of pairs.\<close>

definition py_max :: "(real \<times> string) list \<Rightarrow> real \<times> string" where
  "py_max logs = foldl (\<lambda>m v. if m < v then v else m) (hd logs) (tl logs)"

definition log_line :: "(real \<times> string) list \<Rightarrow> string" where
  "log_line logs =
     (if logs = [] then []
      else [CHR 0x0A] @ ''logging started:'' @ snd (py_max logs) @ [CHR 0x0A])"

text \<open>
  The attribute \<open>container_id\<close> is read here without a default: it is an AttributeError when the
  container was never created.
\<close>

definition locate_log :: "subprocess \<Rightarrow> string \<Rightarrow> 'r agent \<Rightarrow> (raised + string) \<times> 'r agent" where
  "locate_log sp out a =
     (if \<not> py_in ''LOG:'' out \<and> \<not> py_in ''logging started:'' out
      then (case container_id a of
              None \<Rightarrow> (Inl (Other AttributeError), a)
            | Some cid \<Rightarrow>
                (case subprocess_run sp (find_command cid) a of
                   (Inl e, a1) \<Rightarrow> (Inl e, a1)
                 | (Inr found, a1) \<Rightarrow>
                     (case collect_logs (py_splitlines (stdout found)) of
                        Inl e \<Rightarrow> (Inl (Other e), a1)
                      | Inr logs \<Rightarrow> (Inr (out @ log_line logs), a1))))
      else (Inr out, a))"

text \<open>The body of the \<open>try\<close> statement of \<open>run\<close>.\<close>

definition run_body :: "subprocess \<Rightarrow> 'r process_output \<Rightarrow> 'r agent \<Rightarrow> (raised + 'r) \<times> 'r agent" where
  "run_body sp process_output a =
     (case subprocess_run sp (Shell (docker_cmd a)) a of
        (Inl e, a1) \<Rightarrow> (Inl e, a1)
      | (Inr executed, a1) \<Rightarrow>
          (case locate_log sp (stdout executed) a1 of
             (Inl e, a2) \<Rightarrow> (Inl e, a2)
           | (Inr out, a2) \<Rightarrow>
               (case process_output (returncode executed) out (stderr executed) True a2 of
                  (Inl e, a3) \<Rightarrow> (Inl e, a3)
                | (Inr _, a3) \<Rightarrow> (Inr (results a3), a3))))"

text \<open>\<open>run\<close>: the body and its \<open>finally\<close>, whose own exception replaces the outcome.\<close>

definition run_agent :: "subprocess \<Rightarrow> 'r process_output \<Rightarrow> 'r agent \<Rightarrow> (raised + 'r) \<times> 'r agent" where
  "run_agent sp process_output a =
     (let (outcome, a1) = run_body sp process_output a
      in (case container_id a1 of
            None \<Rightarrow> (outcome, a1)
          | Some cid \<Rightarrow>
              if cid = [] then (outcome, a1)
              else (case subprocess_run sp (remove_command cid) a1 of
                      (Inl e, a2) \<Rightarrow> (Inl e, a2)
                    | (Inr _, a2) \<Rightarrow> (outcome, a2))))"

section \<open>The worker is removed\<close>

text \<open>What is relied on of the base class: it neither forgets the container nor unissues a command.\<close>

definition keeps_worker :: "'r process_output \<Rightarrow> bool" where
  "keeps_worker process_output =
     (\<forall>code out err verbose a. let a' = snd (process_output code out err verbose a) in
        container_id a' = container_id a \<and> prefix (issued a) (issued a'))"

lemma keeps_workerD:
  assumes "keeps_worker po" and "po code out err verbose a = (r, a')"
  shows "container_id a' = container_id a" and "prefix (issued a) (issued a')"
  using assms unfolding keeps_worker_def Let_def by (metis snd_conv)+

lemma subprocess_run_issued:
  "subprocess_run sp c a = (r, a') \<Longrightarrow>
     issued a' = issued a @ [c] \<and> container_id a' = container_id a \<and> docker_cmd a' = docker_cmd a"
  by (auto simp: subprocess_run_def)

lemma locate_log_issued:
  "locate_log sp out a = (r, a') \<Longrightarrow> prefix (issued a) (issued a') \<and> container_id a' = container_id a"
  by (auto simp: locate_log_def dest!: subprocess_run_issued
      split: if_splits option.splits sum.splits prod.splits)

lemma run_body_issued:
  assumes "keeps_worker po" and "run_body sp po a = (r, a')"
  shows "prefix (issued a @ [Shell (docker_cmd a)]) (issued a') \<and> container_id a' = container_id a"
proof -
  obtain r1 a1 where s1: "subprocess_run sp (Shell (docker_cmd a)) a = (r1, a1)" by fastforce
  note i1 = subprocess_run_issued [OF s1]
  show ?thesis
  proof (cases r1)
    case (Inl e)
    then show ?thesis using assms(2) s1 i1 by (simp add: run_body_def)
  next
    case (Inr executed)
    obtain r2 a2 where s2: "locate_log sp (stdout executed) a1 = (r2, a2)" by fastforce
    note i2 = locate_log_issued [OF s2]
    show ?thesis
    proof (cases r2)
      case (Inl e)
      then show ?thesis using assms(2) s1 s2 i1 i2 Inr by (simp add: run_body_def)
    next
      case (Inr out)
      obtain r3 a3 where s3: "po (returncode executed) out (stderr executed) True a2 = (r3, a3)" by fastforce
      have "a' = a3"
        using assms(2) s1 s2 s3 Inr \<open>r1 = Inr executed\<close> by (simp add: run_body_def split: sum.splits)
      then show ?thesis using keeps_workerD [OF assms(1) s3] i1 i2 prefix_order.trans by metis
    qed
  qed
qed

lemma run_agent_removes:
  assumes "container_id a = Some cid" and "cid \<noteq> []" and "keeps_worker po"
  shows "\<exists>cmds. issued (snd (run_agent sp po a)) = issued a @ [Shell (docker_cmd a)] @ cmds @ [remove_command cid] \<and>
     fst (run_agent sp po a) =
       (case sp (issued a @ [Shell (docker_cmd a)] @ cmds) (remove_command cid) of
          Inl e \<Rightarrow> Inl e | Inr _ \<Rightarrow> fst (run_body sp po a))"
proof -
  obtain r a1 where b: "run_body sp po a = (r, a1)" by fastforce
  have "container_id a1 = Some cid" and "prefix (issued a @ [Shell (docker_cmd a)]) (issued a1)"
    using run_body_issued [OF assms(3) b] assms(1) by simp_all
  then obtain cmds where "issued a1 = issued a @ [Shell (docker_cmd a)] @ cmds"
    by (auto simp: prefix_def)
  then show ?thesis
    using b \<open>container_id a1 = Some cid\<close> assms(2)
    by (intro exI [of _ cmds]) (simp add: run_agent_def subprocess_run_def split: sum.split)
qed


definition sampleAgent :: "string agent" where
  "sampleAgent = \<lparr>container_id = Some ''c0ffee'', docker_cmd = ''docker exec c0ffee aerialist'',
     results = [], issued = []\<rparr>"

definition sampleEngine :: subprocess where
  "sampleEngine h c =
     (case c of Shell _ \<Rightarrow> Inr \<lparr>returncode = 1, stdout = ''crash'', stderr = []\<rparr>
      | Argv _ \<Rightarrow> Inr \<lparr>returncode = 0, stdout = ''c0ffee'', stderr = []\<rparr>)"

definition sampleOutput :: "string process_output" where
  "sampleOutput code out err verbose a = (Inl (Other IndexError), a)"

lemma sampleOutput_keeps: "keeps_worker sampleOutput"
  by (simp add: keeps_worker_def sampleOutput_def)



definition sampleConfig :: worker_config where
  "sampleConfig = \<lparr>DOCKER_IMG = ''docker-uav-testing'', USE_GPU = True, SECURITY_OPT = []\<rparr>"


section \<open>The newest log\<close>

lemma py_max_greatest: "logs \<noteq> [] \<Longrightarrow> py_max logs \<in> set logs \<and> (\<forall>v \<in> set logs. v \<le> py_max logs)"
proof -
  have fold: "foldl (\<lambda>m v. if m < v then v else m) w vs \<in> set (w # vs) \<and>
      (\<forall>v \<in> set (w # vs). v \<le> foldl (\<lambda>m v. if m < v then v else m) w vs)" for w :: "real \<times> string" and vs
  proof (induction vs arbitrary: w)
    case (Cons v vs)
    show ?case using Cons [of v] Cons [of w] by (cases "w < v") (auto simp: not_less intro: order.trans)
  qed simp
  assume "logs \<noteq> []"
  then show ?thesis using fold [of "hd logs" "tl logs"] by (simp add: py_max_def)
qed

text \<open>What \<open>find -printf\<close> prints for files with the given timestamps and paths.\<close>

definition printed :: "(string \<times> string) list \<Rightarrow> string" where
  "printed es = concat (map (\<lambda>l. l @ [CHR 0x0A]) (map (\<lambda>(ts, p). ts @ '' '' @ p) es))"

definition printable :: "(string \<times> string) list \<Rightarrow> bool" where
  "printable es = list_all (\<lambda>(ts, p). list_all (\<lambda>c. \<not> is_break c) (ts @ p) \<and> CHR '' '' \<notin> set ts) es"

lemma space_in: "py_in '' '' s \<longleftrightarrow> CHR '' '' \<in> set s"
  by (induction s) auto

lemma collect_printed:
  assumes "printable es" and "list_all (\<lambda>(ts, p). py_float ts = Inr (stamp ts)) es"
  shows "collect_logs (py_splitlines (printed es)) = Inr (map (\<lambda>(ts, p). (stamp ts, p)) es)"
proof -
  have "\<not> is_break (CHR '' '')" by (simp add: is_break_def)
  then have "py_splitlines (printed es) = map (\<lambda>(ts, p). ts @ '' '' @ p) es"
    unfolding printed_def using assms(1)
    by (intro splitlines_lines) (auto simp: printable_def list_all_iff)
  moreover have "collect_logs (map (\<lambda>(ts, p). ts @ '' '' @ p) es) = Inr (map (\<lambda>(ts, p). (stamp ts, p)) es)"
    using assms
  proof (induction es)
    case (Cons e es)
    obtain ts p where e: "e = (ts, p)" by fastforce
    have "py_partition '' '' (ts @ '' '' @ p) = (ts, '' '', p)"
      using Cons(2) e by (intro partition_first) (auto simp: printable_def space_in)
    then show ?case using Cons e by (simp add: printable_def)
  qed simp
  ultimately show ?thesis by simp
qed

text \<open>
  When the test command printed no log path, the path handed to \<open>process_output\<close> is that of the
  log with the newest timestamp among those \<open>find\<close> lists, of several the one whose path is greatest;
  when there is no log the output is handed on unchanged.
\<close>

theorem newest_log_located:
  assumes "container_id a = Some cid" and "\<not> py_in ''LOG:'' out" and "\<not> py_in ''logging started:'' out"
    and "sp (issued a) (find_command cid) = Inr found" and "stdout found = printed es"
    and "printable es" and "list_all (\<lambda>(ts, p). py_float ts = Inr (stamp ts)) es"
  shows "if es = [] then fst (locate_log sp out a) = Inr out
         else \<exists>ts p. (ts, p) \<in> set es \<and>
           fst (locate_log sp out a) = Inr (out @ [CHR 0x0A] @ ''logging started:'' @ p @ [CHR 0x0A]) \<and>
           list_all (\<lambda>(ts', p'). stamp ts' < stamp ts \<or> stamp ts' = stamp ts \<and> p' \<le> p) es"
proof -
  let ?logs = "map (\<lambda>(ts, p). (stamp ts, p)) es"
  have l: "fst (locate_log sp out a) = Inr (out @ log_line ?logs)"
    using assms(1-5) collect_printed [OF assms(6,7)] by (simp add: locate_log_def subprocess_run_def)
  show ?thesis
  proof (cases "es = []")
    case True
    then show ?thesis using l by (simp add: log_line_def)
  next
    case False
    then have m: "py_max ?logs \<in> set ?logs" "\<forall>v \<in> set ?logs. v \<le> py_max ?logs"
      using py_max_greatest [of ?logs] by simp_all
    then obtain ts p where e: "(ts, p) \<in> set es" "py_max ?logs = (stamp ts, p)" by auto
    have "list_all (\<lambda>(ts', p'). stamp ts' < stamp ts \<or> stamp ts' = stamp ts \<and> p' \<le> p) es"
      using m(2) unfolding e(2) by (auto simp: list_all_iff less_eq_prod_def)
    then show ?thesis using l e False by (auto simp: log_line_def)
  qed
qed

definition sampleLogs :: "(string \<times> string) list" where
  "sampleLogs = [(''10.5'', ''/b.ulg''), (''9.75'', ''/z.ulg''), (''10.5'', ''/c.ulg'')]"

definition sampleFind :: subprocess where
  "sampleFind h c = Inr \<lparr>returncode = 0, stdout = printed sampleLogs, stderr = []\<rparr>"

definition sampleStamp :: "string \<Rightarrow> real" where
  "sampleStamp ts = (if ts = ''10.5'' then 21/2 else 39/4)"

theorem newest_log_located_witness:
  "fst (locate_log sampleFind ''done'' sampleAgent) =
     Inr (''done'' @ [CHR 0x0A] @ ''logging started:'' @ ''/c.ulg'' @ [CHR 0x0A])"
proof -
  have "printable sampleLogs" by (simp add: printable_def sampleLogs_def is_break_def)
  moreover have "list_all (\<lambda>(ts, p). py_float ts = Inr (sampleStamp ts)) sampleLogs"
    by (simp add: sampleLogs_def sampleStamp_def float_simps)
  moreover have "\<not> py_in ''LOG:'' ''done''" "\<not> py_in ''logging started:'' ''done''" by simp_all
  ultimately show ?thesis
    using newest_log_located [of sampleAgent "''c0ffee''" "''done''" sampleFind
        "\<lparr>returncode = 0, stdout = printed sampleLogs, stderr = []\<rparr>" sampleLogs sampleStamp]
    by (auto simp: sampleAgent_def sampleFind_def sampleLogs_def sampleStamp_def less_char_def less_eq_char_def)
qed

end
