(* ===== verification/Command_Line.thy ===== *)
theory Command_Line
  imports Test_Case Patches Docker_Agent
begin

text \<open>
  \<open>cli.py\<close>: the entry point. It patches the installed package, provides a display, runs a generator
  and copies what the generator returned to the output folder. The state is the machine the program
  sees: its files, its environment, the printed lines and the processes it started. Parameters are
  what is outside the repository (starting a process, the parsed command line, writing YAML) and the
  generator, of which the source selects one of two by a constant; both return test cases or raise.
  Folders, the log configuration and log lines are not modelled, paths are compared as they are written.
\<close>

record machine =
  m_files :: files
  m_env :: "string \<rightharpoonup> string"
  m_printed :: "string list"
  m_processes :: "string list list"

section \<open>The display\<close>

type_synonym popen = "string list \<Rightarrow> raised + unit"

definition xvfb_command :: "string list" where
  "xvfb_command = [''Xvfb'', '':99'', ''-screen'', ''0'', ''1280x720x24'']"

definition display_environ :: "(string \<rightharpoonup> string) \<Rightarrow> (string \<rightharpoonup> string)" where
  "display_environ env =
     env(''DISPLAY'' \<mapsto> '':99'', ''LIBGL_ALWAYS_INDIRECT'' \<mapsto> ''0'', ''LIBGL_ALWAYS_SOFTWARE'' \<mapsto> ''1'',
         ''AERIALIST_VIRTUAL_DISPLAY'' \<mapsto> ''started'')"

definition ensure_virtual_display :: "popen \<Rightarrow> machine \<Rightarrow> (raised + unit) \<times> machine" where
  "ensure_virtual_display popen m =
     (let display = environ_get (m_env m) ''DISPLAY'' []
      in if py_startswith display '':'' then (Inr (), m)
         else if m_env m ''AERIALIST_VIRTUAL_DISPLAY'' = Some ''started'' then (Inr (), m)
         else (case popen xvfb_command of
                 Inr _ \<Rightarrow> (Inr (),
                   m\<lparr>m_processes := m_processes m @ [xvfb_command],
                     m_env := display_environ (m_env m),
                     m_printed := m_printed m @ [''virtual display: started Xvfb on :99 with software OpenGL'']\<rparr>)
               | Inl FileNotFoundError \<Rightarrow> (Inr (),
                   m\<lparr>m_printed := m_printed m @ [''virtual display: Xvfb not found, keeping DISPLAY='' @ display]\<rparr>)
               | Inl e \<Rightarrow> (Inl e, m)))"

text \<open>
  Providing a display is done once: it keeps a local display as it is; where it starts a server it
  starts one, and a second call changes nothing; without the server program the environment stays as it was.
  Files are never touched, and no variable other than the four named ones changes.
\<close>

theorem virtual_display_once:
  "case ensure_virtual_display popen m of (r, m') \<Rightarrow>
     m_files m' = m_files m \<and>
     m_env m' |` (- {''DISPLAY'', ''LIBGL_ALWAYS_INDIRECT'', ''LIBGL_ALWAYS_SOFTWARE'', ''AERIALIST_VIRTUAL_DISPLAY''}) =
       m_env m |` (- {''DISPLAY'', ''LIBGL_ALWAYS_INDIRECT'', ''LIBGL_ALWAYS_SOFTWARE'', ''AERIALIST_VIRTUAL_DISPLAY''}) \<and>
     (if m_processes m' = m_processes m then m_env m' = m_env m
      else r = Inr () \<and> m_processes m' = m_processes m @ [xvfb_command] \<and>
           \<not> py_startswith (environ_get (m_env m) ''DISPLAY'' []) '':'' \<and>
           m_env m' ''DISPLAY'' = Some '':99'' \<and> ensure_virtual_display popen m' = (Inr (), m'))"
proof (cases "py_startswith (environ_get (m_env m) ''DISPLAY'' []) '':'' \<or>
    m_env m ''AERIALIST_VIRTUAL_DISPLAY'' = Some ''started''")
  case True
  then have "ensure_virtual_display popen m = (Inr (), m)" by (auto simp: ensure_virtual_display_def Let_def)
  then show ?thesis by simp
next
  case False
  have again: "ensure_virtual_display popen m' = (Inr (), m')" if "m_env m' ''DISPLAY'' = Some '':99''" for m'
    using that by (simp add: ensure_virtual_display_def environ_get_def py_startswith_def)
  show ?thesis
  proof (cases "popen xvfb_command")
    case (Inl e)
    then show ?thesis using False by (cases e) (simp_all add: ensure_virtual_display_def Let_def)
  next
    case (Inr u)
    then show ?thesis
      using False by (simp add: ensure_virtual_display_def [of popen m] Let_def again display_environ_def)
  qed
qed

section \<open>The output folder\<close>

fun py_str :: "nat \<Rightarrow> string" where
  "py_str n = (if n < 10 then [char_of (48 + n)] else py_str (n div 10) @ [char_of (48 + n mod 10)])"

declare py_str.simps [simp del]

type_synonym yaml = "aerialist_test \<Rightarrow> raised + string"

definition out_path :: "string \<Rightarrow> nat \<Rightarrow> string \<Rightarrow> string" where
  "out_path tests_fld i ext = tests_fld @ ''/test_'' @ py_str i @ ext"

text \<open>\<open>shutil.copy2\<close> of the file an attribute names.\<close>

definition copy_attribute :: "string option \<Rightarrow> string \<Rightarrow> files \<Rightarrow> (raised + unit) \<times> files" where
  "copy_attribute src dst fs =
     (case src of
        None \<Rightarrow> (Inl (Other AttributeError), fs)
      | Some p \<Rightarrow> (case fs p of
                    None \<Rightarrow> (Inl FileNotFoundError, fs)
                  | Some contents \<Rightarrow> (Inr (), fs(dst \<mapsto> contents))))"

definition export_test :: "yaml \<Rightarrow> string \<Rightarrow> nat \<Rightarrow> TestCase \<Rightarrow> files \<Rightarrow> (raised + unit) \<times> files" where
  "export_test to_yaml fld i tc fs =
     (case to_yaml (tc_test tc) of
        Inl e \<Rightarrow> (Inl e, fs)
      | Inr contents \<Rightarrow>
          (case copy_attribute (tc_log_file tc) (out_path fld i ''.ulg'') (fs(out_path fld i ''.yaml'' \<mapsto> contents)) of
             (Inl e, fs1) \<Rightarrow> (Inl e, fs1)
           | (Inr _, fs1) \<Rightarrow> copy_attribute (tc_plot_file tc) (out_path fld i ''.png'') fs1))"

fun export_tests :: "yaml \<Rightarrow> string \<Rightarrow> nat \<Rightarrow> TestCase list \<Rightarrow> files \<Rightarrow> (raised + unit) \<times> files" where
  "export_tests to_yaml fld i [] fs = (Inr (), fs)"
| "export_tests to_yaml fld i (tc # tcs) fs =
     (case export_test to_yaml fld i tc fs of
        (Inl e, fs1) \<Rightarrow> (Inl e, fs1)
      | (Inr _, fs1) \<Rightarrow> export_tests to_yaml fld (Suc i) tcs fs1)"

section \<open>The program\<close>

text \<open>
  What \<open>argparse\<close> makes of the command line: it ends the program itself (help, usage error), or it
  accepts; without the subcommand the result has no attribute \<open>test\<close>, which is an error in the \<open>try\<close>.
\<close>

datatype cmdline = Exits int | NoCommand | Generate string int

type_synonym generator = "string \<Rightarrow> int \<Rightarrow> files \<Rightarrow> (raised + TestCase list) \<times> files"

definition main_try ::
    "yaml \<Rightarrow> string \<Rightarrow> cmdline \<Rightarrow> generator \<Rightarrow> machine \<Rightarrow> int \<times> machine" where
  "main_try to_yaml tests_fld args gen m =
     (case args of
        Exits code \<Rightarrow> (code, m)
      | NoCommand \<Rightarrow> (1, m)
      | Generate test budget \<Rightarrow>
          (case gen test budget (m_files m) of
             (Inl e, fs1) \<Rightarrow> (1, m\<lparr>m_files := fs1\<rparr>)
           | (Inr test_cases, fs1) \<Rightarrow>
               (case export_tests to_yaml tests_fld 0 test_cases fs1 of
                  (Inl e, fs2) \<Rightarrow> (1, m\<lparr>m_files := fs2\<rparr>)
                | (Inr _, fs2) \<Rightarrow>
                    (0, m\<lparr>m_files := fs2,
                          m_printed := m_printed m @
                            [py_str (length test_cases) @ '' test cases generated'', ''output folder: '' @ tests_fld]\<rparr>))))"

text \<open>The exit status and the machine the program leaves; an uncaught exception is status 1.\<close>

definition main ::
    "popen \<Rightarrow> yaml \<Rightarrow> string \<Rightarrow> cmdline \<Rightarrow> generator \<Rightarrow> machine \<Rightarrow> int \<times> machine" where
  "main popen to_yaml tests_fld args gen m =
     (let (report, fs) = applyPatches (m_files m);
          m1 = m\<lparr>m_files := fs, m_printed := m_printed m @ report\<rparr>
      in (case ensure_virtual_display popen m1 of
            (Inl e, m2) \<Rightarrow> (1, m2)
          | (Inr _, m2) \<Rightarrow> main_try to_yaml tests_fld args gen m2))"

section \<open>What is exported\<close>

lemma digits_value_append: "digits_value acc (s @ t) = digits_value (digits_value acc s) t"
  by (induction s arbitrary: acc) auto

lemma digit_char: "d < 10 \<Longrightarrow> is_digit (char_of (48 + d)) \<and> of_char (char_of (48 + d) :: char) = (48 + d :: nat)"
  by (simp add: is_digit_def)

lemma py_str_value: "digits_value 0 (py_str n) = n"
proof (induction n rule: py_str.induct)
  case (1 n)
  show ?case
  proof (cases "n < 10")
    case True
    then show ?thesis using digit_char [of n] by (simp add: py_str.simps)
  next
    case False
    then show ?thesis using 1 digit_char [of "n mod 10"] by (simp add: py_str.simps [of n] digits_value_append)
  qed
qed

lemma py_str_inject [simp]: "py_str n = py_str k \<longleftrightarrow> n = k"
  by (metis py_str_value)

lemma py_str_digits: "c \<in> set (py_str n) \<Longrightarrow> is_digit c"
proof (induction n rule: py_str.induct)
  case (1 n)
  then show ?case
    using digit_char [of n] digit_char [of "n mod 10"] by (auto simp: py_str.simps [of n] split: if_splits)
qed

abbreviation extensions :: "string set" where
  "extensions \<equiv> {''.yaml'', ''.ulg'', ''.png''}"

lemma out_path_inject:
  assumes "e \<in> extensions" and "e' \<in> extensions"
  shows "out_path fld i e = out_path fld j e' \<longleftrightarrow> i = j \<and> e = e'"
proof -
  have stop: "takeWhile (\<lambda>c. c \<noteq> CHR ''.'') (py_str n @ x) = py_str n" if "x \<in> extensions" for n x
  proof -
    have "\<not> is_digit (CHR ''.'')" by (simp add: is_digit_def)
    then have "c \<noteq> CHR ''.''" if "c \<in> set (py_str n)" for c using py_str_digits [OF that] by blast
    then have "takeWhile (\<lambda>c. c \<noteq> CHR ''.'') (py_str n @ x) = py_str n @ takeWhile (\<lambda>c. c \<noteq> CHR ''.'') x"
      by (rule takeWhile_append2)
    moreover have "takeWhile (\<lambda>c. c \<noteq> CHR ''.'') x = []" using that by auto
    ultimately show ?thesis by simp
  qed
  have "i = j \<and> e = e'" if eq: "py_str i @ e = py_str j @ e'"
  proof -
    have "py_str i = py_str j" using stop [OF assms(1), of i] stop [OF assms(2), of j] eq by simp
    then show ?thesis using eq by simp
  qed
  then show ?thesis by (auto simp: out_path_def)
qed

text \<open>A path outside the set of output files, and the files a test case needs.\<close>

definition outside :: "string \<Rightarrow> string \<Rightarrow> bool" where
  "outside fld p = (\<not> prefix (fld @ ''/test_'') p)"

definition sources_outside :: "string \<Rightarrow> TestCase \<Rightarrow> bool" where
  "sources_outside fld tc =
     (pred_option (outside fld) (tc_log_file tc) \<and> pred_option (outside fld) (tc_plot_file tc))"

definition exportable :: "yaml \<Rightarrow> files \<Rightarrow> TestCase \<Rightarrow> bool" where
  "exportable to_yaml fs tc =
     (case (to_yaml (tc_test tc), tc_log_file tc, tc_plot_file tc) of
        (Inr _, Some lp, Some pp) \<Rightarrow> fs lp \<noteq> None \<and> fs pp \<noteq> None
      | _ \<Rightarrow> False)"

text \<open>Test \<open>i\<close> in the folder: its description, its log and its plot.\<close>

definition exported :: "yaml \<Rightarrow> string \<Rightarrow> files \<Rightarrow> files \<Rightarrow> nat \<Rightarrow> TestCase \<Rightarrow> bool" where
  "exported to_yaml fld fs fs' i tc =
     (exportable to_yaml fs tc \<and>
      Inr (the (fs' (out_path fld i ''.yaml''))) = to_yaml (tc_test tc) \<and>
      fs' (out_path fld i ''.yaml'') \<noteq> None \<and>
      fs' (out_path fld i ''.ulg'') = fs (the (tc_log_file tc)) \<and>
      fs' (out_path fld i ''.png'') = fs (the (tc_plot_file tc)))"

lemma outside_out_path: "outside fld p \<Longrightarrow> p \<noteq> out_path fld i e"
  by (auto simp: outside_def out_path_def)

lemma export_test_outcome:
  assumes "sources_outside fld tc"
  shows "if exportable to_yaml fs tc
    then \<exists>yaml. to_yaml (tc_test tc) = Inr yaml \<and>
      export_test to_yaml fld i tc fs =
        (Inr (), fs(out_path fld i ''.yaml'' \<mapsto> yaml,
                    out_path fld i ''.ulg'' := fs (the (tc_log_file tc)),
                    out_path fld i ''.png'' := fs (the (tc_plot_file tc))))
    else \<exists>e fs1. export_test to_yaml fld i tc fs = (Inl e, fs1)"
proof (cases "to_yaml (tc_test tc)")
  case (Inl e)
  then show ?thesis by (simp add: exportable_def export_test_def)
next
  case (Inr yaml)
  then show ?thesis
    using assms
    by (cases "tc_log_file tc"; cases "tc_plot_file tc")
      (auto simp: exportable_def export_test_def copy_attribute_def sources_outside_def
        outside_out_path outside_out_path [symmetric] split: option.split)
qed

lemma export_test_exported:
  assumes "sources_outside fld tc" and "export_test to_yaml fld i tc fs = (Inr u, fs1)"
  shows "exported to_yaml fld fs fs1 i tc"
    and "outside fld p \<Longrightarrow> fs1 p = fs p"
    and "j \<noteq> i \<Longrightarrow> e \<in> extensions \<Longrightarrow> fs1 (out_path fld j e) = fs (out_path fld j e)"
  using export_test_outcome [OF assms(1), of to_yaml fs i] assms(2)
  by (auto simp: exported_def out_path_inject outside_out_path split: if_splits)

lemma exportable_cong:
  assumes "sources_outside fld tc" and "\<And>p. outside fld p \<Longrightarrow> fs1 p = fs p"
  shows "exportable to_yaml fs1 tc = exportable to_yaml fs tc"
  using assms by (auto simp: exportable_def sources_outside_def split: sum.splits option.splits)

lemma exported_cong:
  assumes "sources_outside fld tc" and "\<And>p. outside fld p \<Longrightarrow> fs1 p = fs p"
  shows "exported to_yaml fld fs1 fs' i tc = exported to_yaml fld fs fs' i tc"
proof (cases "exportable to_yaml fs tc")
  case True
  then show ?thesis
    using assms exportable_cong [of fld tc fs1 fs to_yaml, OF assms]
    by (auto simp: exported_def exportable_def sources_outside_def split: sum.splits option.splits)
next
  case False
  then show ?thesis using exportable_cong [of fld tc fs1 fs to_yaml, OF assms] by (simp add: exported_def)
qed

lemma export_tests_exported:
  assumes "list_all (sources_outside fld) tcs" and "export_tests to_yaml fld i tcs fs = (Inr u, fs')"
  shows "(\<forall>k < length tcs. exported to_yaml fld fs fs' (i + k) (tcs ! k)) \<and>
     (\<forall>p. outside fld p \<longrightarrow> fs' p = fs p) \<and>
     (\<forall>j < i. \<forall>e \<in> extensions. fs' (out_path fld j e) = fs (out_path fld j e))"
  using assms
proof (induction tcs arbitrary: i fs)
  case (Cons tc tcs)
  have src: "sources_outside fld tc" using Cons.prems by simp
  obtain v fs1 where x: "export_test to_yaml fld i tc fs = (Inr v, fs1)"
    and rest: "export_tests to_yaml fld (Suc i) tcs fs1 = (Inr u, fs')"
    using Cons.prems(2) by (auto split: prod.splits sum.splits)
  note one = export_test_exported [OF src x]
  have ih: "\<forall>k < length tcs. exported to_yaml fld fs1 fs' (Suc i + k) (tcs ! k)"
    "\<forall>p. outside fld p \<longrightarrow> fs' p = fs1 p"
    "\<forall>j < Suc i. \<forall>e \<in> extensions. fs' (out_path fld j e) = fs1 (out_path fld j e)"
    using Cons.IH [OF _ rest] Cons.prems(1) by simp_all
  have head: "exported to_yaml fld fs fs' i tc" using one(1) ih(3) by (simp add: exported_def)
  have tail: "exported to_yaml fld fs fs' (i + Suc k) (tcs ! k)" if "k < length tcs" for k
  proof -
    have "sources_outside fld (tcs ! k)" using Cons.prems(1) that by (simp add: list_all_iff)
    then have "exported to_yaml fld fs1 fs' (Suc i + k) (tcs ! k) = exported to_yaml fld fs fs' (Suc i + k) (tcs ! k)"
      using one(2) by (rule exported_cong)
    then show ?thesis using ih(1) that by simp
  qed
  have "exported to_yaml fld fs fs' (i + k) ((tc # tcs) ! k)" if "k < length (tc # tcs)" for k
    using head tail that by (cases k) auto
  then show ?case using one(2,3) ih(2,3) by (auto simp: less_Suc_eq)
qed simp

lemma export_tests_status:
  assumes "list_all (sources_outside fld) tcs"
  shows "(\<exists>fs'. export_tests to_yaml fld i tcs fs = (Inr (), fs')) \<longleftrightarrow> list_all (exportable to_yaml fs) tcs"
  using assms
proof (induction tcs arbitrary: i fs)
  case (Cons tc tcs)
  obtain r fs1 where x: "export_test to_yaml fld i tc fs = (r, fs1)" by fastforce
  have src: "sources_outside fld tc" using Cons.prems by simp
  show ?case
  proof (cases r)
    case (Inl e)
    then show ?thesis using x export_test_outcome [OF src, of to_yaml fs i] by (auto split: if_splits)
  next
    case (Inr v)
    then have "exportable to_yaml fs tc" and same: "\<And>p. outside fld p \<Longrightarrow> fs1 p = fs p"
      using export_test_exported [OF src x [unfolded Inr]] by (auto simp: exported_def)
    moreover have "list_all (exportable to_yaml fs1) tcs = list_all (exportable to_yaml fs) tcs"
      using exportable_cong [of fld _ fs1 fs to_yaml] same Cons.prems by (auto simp: list_all_iff)
    ultimately show ?thesis using x Inr Cons by simp
  qed
qed simp

lemma ensure_virtual_display_files: "ensure_virtual_display popen m = (r, m') \<Longrightarrow> m_files m' = m_files m"
  by (auto simp: ensure_virtual_display_def Let_def split: if_splits sum.splits raised.splits)

text \<open>The main block, from the patches to the printed folder name.\<close>

lemma main_exports:
  assumes "\<And>m. fst (ensure_virtual_display popen m) = Inr ()"
    and "\<And>fs tests fs'. gen test budget fs = (Inr tests, fs') \<Longrightarrow> list_all (sources_outside fld) tests"
  shows "case gen test budget (snd (applyPatches (m_files m))) of
      (Inl e, fs) \<Rightarrow> fst (main popen to_yaml fld (Generate test budget) gen m) = 1
    | (Inr tests, fs) \<Rightarrow>
        if list_all (exportable to_yaml fs) tests
        then \<exists>m'. main popen to_yaml fld (Generate test budget) gen m = (0, m') \<and>
               (\<forall>k < length tests. exported to_yaml fld fs (m_files m') k (tests ! k)) \<and>
               (\<forall>p. outside fld p \<longrightarrow> m_files m' p = fs p) \<and>
               (py_str (length tests) @ '' test cases generated'') \<in> set (m_printed m')
        else fst (main popen to_yaml fld (Generate test budget) gen m) = 1"
proof -
  obtain report fs0 where p: "applyPatches (m_files m) = (report, fs0)" by fastforce
  define m1 where "m1 = m\<lparr>m_files := fs0, m_printed := m_printed m @ report\<rparr>"
  obtain m2 where d: "ensure_virtual_display popen m1 = (Inr (), m2)"
    using assms(1) [of m1] by (cases "ensure_virtual_display popen m1") auto
  have f: "m_files m2 = fs0" using ensure_virtual_display_files [OF d] by (simp add: m1_def)
  have main: "main popen to_yaml fld (Generate test budget) gen m = main_try to_yaml fld (Generate test budget) gen m2"
    using p d by (simp add: main_def m1_def)
  obtain r fs where g: "gen test budget fs0 = (r, fs)" by fastforce
  show ?thesis
  proof (cases r)
    case (Inl e)
    then show ?thesis using p g f main by (simp add: main_try_def)
  next
    case (Inr tests)
    obtain x fs2 where x: "export_tests to_yaml fld 0 tests fs = (x, fs2)" by fastforce
    have src: "list_all (sources_outside fld) tests" using assms(2) g Inr by blast
    have "(\<exists>v. x = Inr v) = list_all (exportable to_yaml fs) tests"
      using export_tests_status [OF src, of to_yaml 0 fs] x by auto
    moreover have "(\<forall>k < length tests. exported to_yaml fld fs fs2 k (tests ! k)) \<and> (\<forall>p. outside fld p \<longrightarrow> fs2 p = fs p)"
      if "x = Inr v" for v
      using export_tests_exported [OF src x [unfolded that]] by simp
    ultimately show ?thesis
      using p g f main x Inr by (cases x) (auto simp: main_try_def)
  qed
qed

text \<open>
  C14. The program ends with status 0 exactly when its generator returned, from the patched files, tests
  whose description can be written and whose log and plot exist. Then the output folder holds for
  every test, under its number, its description, its log and its plot, every file outside it is as
  the generator left it, and the number of tests is reported.
\<close>

theorem main_exports_tests:
  assumes "\<And>m. fst (ensure_virtual_display popen m) = Inr ()"
    and "\<And>fs tests fs'. gen test budget fs = (Inr tests, fs') \<Longrightarrow> list_all (sources_outside fld) tests"
  shows "case gen test budget (snd (applyPatches (m_files m))) of
      (Inl e, fs) \<Rightarrow> fst (main popen to_yaml fld (Generate test budget) gen m) = 1
    | (Inr tests, fs) \<Rightarrow>
        if list_all (exportable to_yaml fs) tests
        then \<exists>m'. main popen to_yaml fld (Generate test budget) gen m = (0, m') \<and>
               (\<forall>k < length tests. exported to_yaml fld fs (m_files m') k (tests ! k)) \<and>
               (\<forall>p. outside fld p \<longrightarrow> m_files m' p = fs p) \<and>
               (py_str (length tests) @ '' test cases generated'') \<in> set (m_printed m')
        else fst (main popen to_yaml fld (Generate test budget) gen m) = 1"
  using assms by (rule main_exports)

definition sampleMachine :: machine where
  "sampleMachine = \<lparr>m_files = [''log.ulg'' \<mapsto> ''L'', ''p.png'' \<mapsto> ''P''], m_env = Map.empty, m_printed = [], m_processes = []\<rparr>"

definition sampleTest :: TestCase where
  "sampleTest = \<lparr>tc_test = sampleStudy, tc_test_results = Some [], tc_trajectory = Some None,
     tc_log_file = Some ''log.ulg'', tc_plot_file = Some ''p.png''\<rparr>"

theorem main_exports_tests_witness:
  "\<exists>m'. main (\<lambda>argv. Inl FileNotFoundError) (\<lambda>t. Inr ''Y'') ''out/'' (Generate ''m.yaml'' 5)
      (\<lambda>test budget fs. (Inr [sampleTest], fs)) sampleMachine = (0, m') \<and>
     (\<forall>k < length [sampleTest]. exported (\<lambda>t. Inr ''Y'') ''out/'' (m_files sampleMachine) (m_files m') k ([sampleTest] ! k))"
proof -
  have a: "applyPatches (m_files sampleMachine) =
      ([''launch: missing ('' @ LAUNCH_PATH @ '')'', ''simulator: missing ('' @ SIMULATOR_PATH @ '')'',
        ''drone: missing ('' @ DRONE_PATH @ '')''], m_files sampleMachine)"
    by (simp add: applyPatches_def patchLaunch_def patchSimulator_def patchDrone_def sampleMachine_def patch_paths)
  have d: "fst (ensure_virtual_display (\<lambda>argv. Inl FileNotFoundError) m) = Inr ()" for m
    by (simp add: ensure_virtual_display_def Let_def)
  have "exportable (\<lambda>t. Inr ''Y'') (m_files sampleMachine) sampleTest"
    "sources_outside ''out/'' sampleTest"
    by (simp_all add: exportable_def sampleMachine_def sampleTest_def sources_outside_def outside_def)
  then show ?thesis
    using main_exports_tests [where popen = "\<lambda>argv. Inl FileNotFoundError" and fld = "''out/''" and m = sampleMachine
        and test = "''m.yaml''" and budget = 5 and to_yaml = "\<lambda>t. Inr ''Y''"
        and gen = "\<lambda>test budget fs. (Inr [sampleTest], fs)", OF d] a
    by auto
qed

end
