(* ===== verification/Whole_Program.thy ===== *)
theory Whole_Program
  imports Provenance Command_Line
begin

text \<open>
  The parts put together as \<open>cli.py\<close> puts them together: the generator that the constant \<open>GENERATOR\<close> names,
  its simulator being the test case wrapper, its answer being the test case objects that the main
  block exports. Parameters are, as in the parts, what is outside the repository: the reader of test
  descriptions (with the plan file they name), the Aerialist package, the UUIDs, the clock, and the
  files that simulations and plots leave behind.
\<close>

section \<open>Flights of the search\<close>

text \<open>What is outside of one campaign: attempt \<open>k\<close> is given its own Aerialist, its two UUIDs and its clock.\<close>

record flights =
  fl_config :: case_config
  fl_aerialist :: "nat \<Rightarrow> aerialist"
  fl_hex :: "nat \<Rightarrow> string"
  fl_plot_hex :: "nat \<Rightarrow> string"
  fl_overran :: "nat \<Rightarrow> bool"
  fl_elapsed :: "nat \<Rightarrow> real"

definition simulator_of :: "flights \<Rightarrow> aerialist_test \<Rightarrow> simulator" where
  "simulator_of fl casestudy k obstacles =
     run_of (fl_config fl) (fl_aerialist fl k) (fl_hex fl k) (fl_plot_hex fl k) casestudy (fl_overran fl k) (fl_elapsed fl k) obstacles"

text \<open>The object \<open>tc\<close> of an attempt after \<open>TestCase(...)\<close>, \<open>execute\<close> and \<open>plot\<close>.\<close>

definition flown_case :: "flights \<Rightarrow> aerialist_test \<Rightarrow> nat \<Rightarrow> Obstacle list \<Rightarrow> TestCase result" where
  "flown_case fl casestudy k obstacles =
     bindE (TestCase_init (fl_config fl) (fl_hex fl k) casestudy obstacles) (\<lambda>tc.
       case TestCase_execute (fl_config fl) (fl_aerialist fl k) tc of (flight, tc1) \<Rightarrow>
       bindE flight (\<lambda>_.
         case TestCase_plot (fl_aerialist fl k) (fl_plot_hex fl k) tc1 of (plotted, tc2) \<Rightarrow>
         bindE plotted (\<lambda>_. Inr tc2)))"

text \<open>
  The attribute \<open>testCase\<close> of a selected individual. Without one the main block could not export it,
  which is an AttributeError; the theorem on the whole program shows that this does not happen.
\<close>

definition stored_case :: "flights \<Rightarrow> aerialist_test \<Rightarrow> Individual \<Rightarrow> TestCase result" where
  "stored_case fl casestudy ind =
     (case ind_testCase ind of
        None \<Rightarrow> Inl AttributeError
      | Some k \<Rightarrow> flown_case fl casestudy k (ind_obstacles ind))"

section \<open>The two generators\<close>

type_synonym description_reader = "string \<Rightarrow> (aerialist_test \<times> json result) result"

text \<open>\<open>GeneticGenerator(args.test).generate(args.budget)\<close>; \<open>left\<close> is what the flights make of the files.\<close>

definition genetic_generator ::
    "GAConfig \<Rightarrow> string \<Rightarrow> flights \<Rightarrow> rng \<Rightarrow> description_reader \<Rightarrow> (files \<Rightarrow> files) \<Rightarrow> generator" where
  "genetic_generator config envEvolve fl r from_yaml left test budget fs =
     (case bindE (from_yaml test) (\<lambda>(casestudy, plan).
             bindE (newGenerator config envEvolve plan) (\<lambda>self. Inr (casestudy, self))) of
        Inl e \<Rightarrow> (Inl (Other e), fs)
      | Inr (casestudy, self) \<Rightarrow>
          (case bindE (generate (is_isolated_execution (fl_config fl)) (simulator_of fl casestudy) self r budget) (\<lambda>res.
                  case res of
                    None \<Rightarrow> Inr []
                  | Some (selected, st) \<Rightarrow> mapE (\<lambda>i. stored_case fl casestudy (c_heap st ! i)) selected) of
             Inl e \<Rightarrow> (Inl (Other e), left fs)
           | Inr tests \<Rightarrow> (Inr tests, left fs)))"

text \<open>\<open>RandomGenerator(args.test).generate(args.budget)\<close>.\<close>

definition random_generator ::
    "case_config \<Rightarrow> (nat \<Rightarrow> aerialist) \<Rightarrow> (nat \<Rightarrow> string) \<Rightarrow> rng \<Rightarrow> description_reader \<Rightarrow> (files \<Rightarrow> files) \<Rightarrow> generator" where
  "random_generator cc ae uuid g from_yaml left test budget fs =
     (case from_yaml test of
        Inl e \<Rightarrow> (Inl (Other e), fs)
      | Inr (casestudy, _) \<Rightarrow>
          (case random_generate cc ae uuid casestudy g budget of
             Inl e \<Rightarrow> (Inl (Other e), left fs)
           | Inr tests \<Rightarrow> (Inr tests, left fs)))"

definition GENERATOR :: string where
  "GENERATOR = ''ga''"

text \<open>The import at the head of the module; an unknown name is an error before the main block starts.\<close>

definition choose_generator :: "string \<Rightarrow> generator \<Rightarrow> generator \<Rightarrow> generator result" where
  "choose_generator name ga rnd =
     (if name = ''ga'' then Inr ga else if name = ''random'' then Inr rnd else Inl ValueError)"

definition program ::
    "string \<Rightarrow> generator \<Rightarrow> generator \<Rightarrow> popen \<Rightarrow> yaml \<Rightarrow> string \<Rightarrow> cmdline \<Rightarrow> machine \<Rightarrow> int \<times> machine" where
  "program name ga rnd popen to_yaml tests_fld args m =
     (case choose_generator name ga rnd of
        Inl e \<Rightarrow> (1, m)
      | Inr gen \<Rightarrow> main popen to_yaml tests_fld args gen m)"

section \<open>Flown test cases\<close>

text \<open>
  What the export relies on: a description can be written as YAML, and the log an agent names and
  the plot file exist, outside the numbered files of the output folder.
\<close>

definition results_left :: "flights \<Rightarrow> yaml \<Rightarrow> string \<Rightarrow> files \<Rightarrow> bool" where
  "results_left fl to_yaml fld fs \<longleftrightarrow>
     (\<forall>t. \<exists>c. to_yaml t = Inr c) \<and>
     (\<forall>k e t x xs. agent_run (fl_aerialist fl k) e t = Inr (x # xs) \<longrightarrow>
        fs (result_log_file x) \<noteq> None \<and> outside fld (result_log_file x)) \<and>
     (\<forall>k t xs name file. plot_test (fl_aerialist fl k) t xs name = Inr file \<longrightarrow> fs file \<noteq> None \<and> outside fld file)"

lemma flown_case_steps:
  assumes "flown_case fl cs k obs = Inr tc"
  obtains tc0 tr tc1 where "TestCase_init (fl_config fl) (fl_hex fl k) cs obs = Inr tc0"
    and "TestCase_execute (fl_config fl) (fl_aerialist fl k) tc0 = (Inr tr, tc1)"
    and "TestCase_plot (fl_aerialist fl k) (fl_plot_hex fl k) tc1 = (Inr (), tc)"
proof -
  obtain tc0 where "TestCase_init (fl_config fl) (fl_hex fl k) cs obs = Inr tc0"
    "(case TestCase_execute (fl_config fl) (fl_aerialist fl k) tc0 of (flight, tc1) \<Rightarrow>
       bindE flight (\<lambda>_. case TestCase_plot (fl_aerialist fl k) (fl_plot_hex fl k) tc1 of (plotted, tc2) \<Rightarrow>
         bindE plotted (\<lambda>_. Inr tc2))) = Inr tc"
    using assms unfolding flown_case_def by (rule bindE_InrE)
  then show ?thesis using that by (auto simp: bindE_Inr_iff split: prod.splits)
qed

text \<open>A run that was measured and plotted is a test case that was constructed, executed and plotted.\<close>

lemma flown_stored_case:
  assumes "flown (simulator_of fl cs) ind" and "ind_testCase ind = Some k"
  obtains tc where "flown_case fl cs k (ind_obstacles ind) = Inr tc" and "stored_case fl cs ind = Inr tc"
proof -
  obtain m where m: "measureRun (simulator_of fl cs k (ind_obstacles ind)) (ind_obstacles ind) = Inr m"
    and p: "sim_plot (simulator_of fl cs k (ind_obstacles ind)) = Inr ()"
    using assms by (auto simp: flown_def)
  obtain tc where "flown_case fl cs k (ind_obstacles ind) = Inr tc"
    using p by (auto simp: simulator_of_def run_of_def flown_case_def Let_def bindE_Inr_iff case_prod_unfold)
  then show ?thesis using that assms(2) by (simp add: stored_case_def)
qed

lemma flown_case_obstacles: "flown_case fl cs k obs = Inr tc \<Longrightarrow> simulation_obstacles (tc_test tc) = obs"
  by (erule flown_case_steps)
    (auto simp: TestCase_plot_def dest!: TestCase_execute_trajectory TestCase_init_obstacles split: option.splits sum.splits)

lemma flown_case_exportable:
  assumes "flown_case fl cs k obs = Inr tc" and "results_left fl to_yaml fld fs"
  shows "exportable to_yaml fs tc \<and> sources_outside fld tc"
proof -
  obtain tc0 tr tc1 where steps: "TestCase_init (fl_config fl) (fl_hex fl k) cs obs = Inr tc0"
    "TestCase_execute (fl_config fl) (fl_aerialist fl k) tc0 = (Inr tr, tc1)"
    "TestCase_plot (fl_aerialist fl k) (fl_plot_hex fl k) tc1 = (Inr (), tc)"
    using assms(1) by (rule flown_case_steps)
  obtain x xs where run: "start_agent (fl_config fl) (fl_aerialist fl k) (tc_test tc0) = Inr (x # xs)"
    and log: "tc_log_file tc1 = Some (result_log_file x)"
    using steps(2) by (auto simp: TestCase_execute_def Let_def split: sum.splits list.splits)
  have "agent_run (fl_aerialist fl k) (AGENT (fl_config fl)) (tc_test tc0) = Inr (x # xs)"
    using run by (simp add: start_agent_def split: engine.splits)
  then have l: "fs (result_log_file x) \<noteq> None \<and> outside fld (result_log_file x)"
    using assms(2) unfolding results_left_def by blast
  obtain f rs name where plot: "plot_test (fl_aerialist fl k) (tc_test tc1) rs name = Inr f"
    and tc: "tc = tc1\<lparr>tc_plot_file := Some f\<rparr>"
    using steps(3) by (auto simp: TestCase_plot_def split: option.splits sum.splits)
  have "fs f \<noteq> None \<and> outside fld f" using plot assms(2) unfolding results_left_def by blast
  moreover obtain c where "to_yaml (tc_test tc) = Inr c" using assms(2) unfolding results_left_def by blast
  ultimately show ?thesis using l log by (simp add: tc exportable_def sources_outside_def)
qed

lemma mapE_all: "(\<And>x. x \<in> set xs \<Longrightarrow> \<exists>y. f x = Inr y \<and> P x y) \<Longrightarrow> \<exists>ys. mapE f xs = Inr ys \<and> list_all2 P xs ys"
proof (induction xs)
  case (Cons x xs)
  then obtain y ys where "f x = Inr y" "P x y" "mapE f xs = Inr ys" "list_all2 P xs ys" by (metis list.set_intros)
  then show ?case by simp
qed simp

text \<open>
  The search as the main block sees it: the generator returns, and its answer is, test by test, the flown
  test case of the selected individuals.
\<close>

lemma genetic_generator_answers:
  assumes "from_yaml test = Inr (casestudy, plan)" and "newGenerator config envEvolve plan = Inr self"
    and "generate (is_isolated_execution (fl_config fl)) (simulator_of fl casestudy) self r budget = Inr (Some (selected, st))"
    and "\<forall>i \<in> set selected. flown (simulator_of fl casestudy) (c_heap st ! i) \<and> ind_testCase (c_heap st ! i) \<noteq> None"
  obtains tests where "\<forall>fs. genetic_generator config envEvolve fl r from_yaml left test budget fs = (Inr tests, left fs)"
    and "list_all2 (\<lambda>i tc. \<exists>k. ind_testCase (c_heap st ! i) = Some k \<and>
        flown_case fl casestudy k (ind_obstacles (c_heap st ! i)) = Inr tc) selected tests"
proof -
  let ?P = "\<lambda>i tc. \<exists>k. ind_testCase (c_heap st ! i) = Some k \<and> flown_case fl casestudy k (ind_obstacles (c_heap st ! i)) = Inr tc"
  have "\<exists>tc. stored_case fl casestudy (c_heap st ! i) = Inr tc \<and> ?P i tc" if i: "i \<in> set selected" for i
  proof -
    obtain k where k: "ind_testCase (c_heap st ! i) = Some k" using assms(4) i by auto
    show ?thesis by (rule flown_stored_case [OF _ k]) (use assms(4) i k in auto)
  qed
  from mapE_all [of selected "\<lambda>i. stored_case fl casestudy (c_heap st ! i)" ?P, OF this]
  obtain tests where t: "mapE (\<lambda>i. stored_case fl casestudy (c_heap st ! i)) selected = Inr tests" "list_all2 ?P selected tests"
    by blast
  then show ?thesis using that [of tests] assms(1-3) by (simp add: genetic_generator_def)
qed

end
