(* ===== verification/C_Integers.thy ===== *)
theory C_Integers
  imports Main "HOL-Library.Word"
begin

unbundle bit_operations_syntax

text \<open>
  The C integers of the system headers. Every operand narrower than \<open>int\<close> is promoted before an
  operator is applied (\<open>prom\<close>) and a store truncates to the width of the object (\<open>lo8\<close>, \<open>lo16\<close>), so a
  C expression is written as it stands over 32-bit words. A C string is the list of its bytes up to
  the terminating zero. The lemmas are the leaf facts of the codecs: byte splitting and joining,
  binary coded decimals and bit fields.
\<close>

type_synonym u8 = "8 word"
type_synonym u16 = "16 word"
type_synonym u32 = "32 word"
type_synonym u64 = "64 word"

named_theorems c_field \<open>what a decoder reads back from a field its encoder stored\<close>

definition prom :: "'a::len word \<Rightarrow> u32" where
  "prom x = ucast x"

definition lo8 :: "u32 \<Rightarrow> u8" where
  "lo8 x = ucast x"

definition lo16 :: "u32 \<Rightarrow> u16" where
  "lo16 x = ucast x"

lemmas c_convert_defs = prom_def lo8_def lo16_def

text \<open>\<open>memcpy (dst + i, src, n)\<close> byte by byte, and \<open>strlen\<close> of a buffer that holds a terminator.\<close>

fun memcpy :: "'a list \<Rightarrow> nat \<Rightarrow> 'a list \<Rightarrow> nat \<Rightarrow> nat \<Rightarrow> 'a list" where
  "memcpy dst i src j 0 = dst"
| "memcpy dst i src j (Suc n) = memcpy (dst[i := src ! j]) (Suc i) src (Suc j) n"

definition strlen :: "u8 list \<Rightarrow> nat" where
  "strlen s = length (takeWhile (\<lambda>c. c \<noteq> 0) s)"

subsection \<open>Copying\<close>

lemma length_memcpy [simp]: "length (memcpy dst i src j n) = length dst"
  by (induction dst i src j n rule: memcpy.induct) simp_all

lemma nth_memcpy:
  "k < length dst \<Longrightarrow> i + n \<le> length dst \<Longrightarrow>
    memcpy dst i src j n ! k = (if i \<le> k \<and> k < i + n then src ! (j + (k - i)) else dst ! k)"
proof (induction dst i src j n rule: memcpy.induct)
  case (2 dst i src j n)
  have "memcpy dst i src j (Suc n) ! k =
      (if Suc i \<le> k \<and> k < Suc i + n then src ! (Suc j + (k - Suc i)) else dst[i := src ! j] ! k)"
    using 2 by simp
  then show ?case using 2 by (cases "k = i") (auto simp: Suc_diff_Suc)
qed auto

lemma memcpy_below: "k < i \<Longrightarrow> memcpy dst i src j n ! k = dst ! k"
  by (induction dst i src j n rule: memcpy.induct) simp_all

lemma memcpy_read_back:
  assumes "i + n \<le> length dst" and "n \<le> length src"
  shows "take n (drop i (memcpy dst i src 0 n)) = take n src"
  using assms by (intro nth_equalityI) (auto simp: nth_memcpy)

lemma take_strlen: "take (strlen s) s = takeWhile (\<lambda>c. c \<noteq> 0) s"
  by (simp add: strlen_def takeWhile_eq_take [symmetric])

lemma strlen_le [simp]: "strlen s \<le> length s"
  by (simp add: strlen_def length_takeWhile_le)

subsection \<open>Promotion and truncation\<close>

lemma lo8_prom [simp]: "lo8 (prom (x :: u8)) = x"
  by (rule bit_word_eqI) (simp add: c_convert_defs bit_simps)

lemma lo16_prom [simp]: "lo16 (prom (x :: u16)) = x"
  by (rule bit_word_eqI) (simp add: c_convert_defs bit_simps)

lemma unat_u8: "unat (x :: u8) < 256"
proof -
  have "unat x < 2 ^ LENGTH(8)" by (rule unsigned_less)
  then show ?thesis by simp
qed

lemma unat_u16: "unat (x :: u16) < 65536"
proof -
  have "unat x < 2 ^ LENGTH(16)" by (rule unsigned_less)
  then show ?thesis by simp
qed

lemma unat_prom8 [simp]: "unat (prom (x :: u8)) = unat x"
  using unat_u8 [of x] by (simp add: prom_def unsigned_ucast_eq take_bit_nat_eq_self_iff)

lemma unat_prom16 [simp]: "unat (prom (x :: u16)) = unat x"
  using unat_u16 [of x] by (simp add: prom_def unsigned_ucast_eq take_bit_nat_eq_self_iff)

lemma convert_0_1 [simp]:
  "prom (0 :: 'a::len word) = 0" "prom (1 :: 'a word) = 1" "lo8 0 = 0" "lo8 1 = 1" "lo16 0 = 0" "lo16 1 = 1"
  by (simp_all add: c_convert_defs)

lemma bit_below:
  fixes x :: "'a::len word"
  assumes "unat x < 2 ^ k" and "bit x n"
  shows "n < k"
proof (rule ccontr)
  assume "\<not> n < k"
  have "take_bit k (unat x) = unat x" using assms(1) by (simp add: take_bit_nat_eq_self_iff)
  moreover have "bit (unat x) n" using assms(2) by (simp add: bit_unsigned_iff)
  ultimately show False using \<open>\<not> n < k\<close> by (metis bit_take_bit_iff)
qed

lemma below_word:
  fixes x :: "'a::len word"
  assumes "x < 2 ^ k"
  shows "unat x < 2 ^ k"
proof (cases "k < LENGTH('a)")
  case True
  have "unat (2 ^ k :: 'a word) = 2 ^ k"
    using True by (metis of_nat_numeral of_nat_power power_strict_increasing_iff one_less_numeral_iff semiring_norm(76)
      take_bit_nat_eq_self unsigned_of_nat)
  then show ?thesis using assms by (simp add: word_less_nat_alt)
next
  case False
  then have "unat x < 2 ^ LENGTH('a)" "(2 :: nat) ^ LENGTH('a) \<le> 2 ^ k" by (auto intro: power_increasing)
  then show ?thesis by (rule order_less_le_trans)
qed

lemma bit_above: "(x :: 'a::len word) < 2 ^ k \<Longrightarrow> k \<le> n \<Longrightarrow> \<not> bit x n"
  using bit_below [OF below_word] by fastforce

lemma u8_eqI:
  fixes a b :: u8
  assumes "bit a 0 = bit b 0" "bit a 1 = bit b 1" "bit a 2 = bit b 2" "bit a 3 = bit b 3"
    and "bit a 4 = bit b 4" "bit a 5 = bit b 5" "bit a 6 = bit b 6" "bit a 7 = bit b 7"
  shows "a = b"
proof (rule bit_word_eqI)
  fix n assume "n < LENGTH(8)"
  then have "n = 0 \<or> n = 1 \<or> n = 2 \<or> n = 3 \<or> n = 4 \<or> n = 5 \<or> n = 6 \<or> n = 7" by auto
  then show "bit a n = bit b n" using assms by (elim disjE) simp_all
qed

text \<open>The masks the headers write as hexadecimal numerals.\<close>

lemma c_masks:
  "(x :: u32) AND 0xff = take_bit 8 x" "(x :: u32) AND 0x7f = take_bit 7 x" "(x :: u32) AND 0x3f = take_bit 6 x"
  "(x :: u32) AND 0xf = take_bit 4 x" "(x :: u32) AND 3 = take_bit 2 x"
  by (simp_all add: take_bit_eq_mask mask_numeral)

lemma lo8_take_bit8 [simp]: "lo8 (take_bit 8 x) = lo8 x"
  by (rule bit_word_eqI) (simp add: lo8_def bit_simps)

subsection \<open>Bytes of a wider integer\<close>

lemma join16 [c_field]:
  "lo16 (push_bit 8 (prom (lo8 (drop_bit 8 (prom (x :: u16))))) OR prom (lo8 (prom x))) = x"
  by (rule bit_word_eqI) (auto simp: c_convert_defs bit_simps)

lemma join24 [c_field]:
  "push_bit 16 (prom (lo8 (drop_bit 16 x))) OR push_bit 8 (prom (lo8 (drop_bit 8 x))) OR prom (lo8 x) =
    take_bit 24 (x :: u32)"
proof (rule bit_word_eqI)
  fix n assume "n < LENGTH(32)"
  show "bit (push_bit 16 (prom (lo8 (drop_bit 16 x))) OR push_bit 8 (prom (lo8 (drop_bit 8 x))) OR prom (lo8 x)) n =
    bit (take_bit 24 x) n"
    by (cases "n < 8"; cases "n < 16"; cases "n < 24") (auto simp: c_convert_defs bit_simps)
qed

subsection \<open>Two bit fields in a byte\<close>

lemma high_field [c_field]:
  fixes a b :: u8
  assumes "a < 2 ^ (8 - k)" and "b < 2 ^ k" and "k \<le> 8"
  shows "lo8 (drop_bit k (prom (lo8 (push_bit k (prom a) OR prom b)))) = a"
proof (rule bit_word_eqI)
  fix n assume "n < LENGTH(8)"
  show "bit (lo8 (drop_bit k (prom (lo8 (push_bit k (prom a) OR prom b))))) n = bit a n"
    using bit_below [OF below_word [OF assms(1)], of n] bit_below [OF below_word [OF assms(2)], of "k + n"] \<open>k \<le> 8\<close>
    by (auto simp: c_convert_defs bit_simps)
qed

lemma low_field [c_field]:
  fixes a b :: u8
  assumes "b < 2 ^ k" and "k \<le> 8"
  shows "lo8 (take_bit k (prom (lo8 (push_bit k (prom a) OR prom b)))) = b"
proof (rule bit_word_eqI)
  fix n assume "n < LENGTH(8)"
  show "bit (lo8 (take_bit k (prom (lo8 (push_bit k (prom a) OR prom b))))) n = bit b n"
    using bit_below [OF below_word [OF assms(1)], of n] \<open>k \<le> 8\<close>
    by (auto simp: c_convert_defs bit_simps)
qed

text \<open>The status byte of a timer: one bit, two bits, a marker bit and a four-bit code.\<close>

lemma status_byte:
  fixes w m c :: u8 and p :: bool
  assumes "w < 2" "m < 4" "c < 16"
  defines "b \<equiv> lo8 (push_bit 7 (prom w) OR push_bit 5 (prom m) OR (if p then 0x10 else 0) OR prom c)"
  shows "lo8 (drop_bit 7 (prom b)) = w" and "lo8 (take_bit 2 (drop_bit 5 (prom b))) = m"
    and "lo8 (take_bit 4 (prom b)) = c" and "prom b AND 0x10 = 0 \<longleftrightarrow> \<not> p"
proof -
  have bits: "1 \<le> n \<Longrightarrow> \<not> bit w n" "2 \<le> n \<Longrightarrow> \<not> bit m n" "4 \<le> n \<Longrightarrow> \<not> bit c n" for n
    using bit_above [of w 1 n] bit_above [of m 2 n] bit_above [of c 4 n] assms(1-3) by simp_all
  have mark: "bit (if p then 0x10 else 0 :: u32) n \<longleftrightarrow> p \<and> n = 4" for n
    using bit_push_bit_iff [of 4 "1 :: u32" n] by (auto simp: bit_1_iff)
  show "lo8 (drop_bit 7 (prom b)) = w"
    by (rule u8_eqI) (simp_all add: b_def c_convert_defs bit_simps bits mark)
  show "lo8 (take_bit 2 (drop_bit 5 (prom b))) = m"
    by (rule u8_eqI) (simp_all add: b_def c_convert_defs bit_simps bits mark)
  show "lo8 (take_bit 4 (prom b)) = c"
    by (rule u8_eqI) (simp_all add: b_def c_convert_defs bit_simps bits mark)
  have "prom b AND 0x10 = 0 \<longleftrightarrow> \<not> bit (prom b) 4"
    using and_exp_eq_0_iff_not_bit [of "prom b" 4] by simp
  then show "prom b AND 0x10 = 0 \<longleftrightarrow> \<not> p"
    by (simp add: b_def c_convert_defs bit_simps bits mark)
qed

subsection \<open>Binary coded decimals\<close>

lemma bcd_fields:
  fixes q r :: u32
  assumes "q < 16" and "r < 16"
  shows "drop_bit 4 (prom (lo8 (push_bit 4 q OR r))) = q" and "take_bit 4 (prom (lo8 (push_bit 4 q OR r))) = r"
proof -
  have q: "bit q n \<Longrightarrow> n < 4" and r: "bit r n \<Longrightarrow> n < 4" for n
    using bit_below [of q 4 n] bit_below [of r 4 n] assms by (simp_all add: word_less_nat_alt)
  show "drop_bit 4 (prom (lo8 (push_bit 4 q OR r))) = q"
    by (rule bit_word_eqI) (use q r in \<open>fastforce simp: c_convert_defs bit_simps\<close>)
  show "take_bit 4 (prom (lo8 (push_bit 4 q OR r))) = r"
    by (rule bit_word_eqI) (use q r in \<open>fastforce simp: c_convert_defs bit_simps\<close>)
qed

lemma bcd_round_trip [c_field]:
  fixes x :: u8
  assumes "x < 160"
  shows "lo8 (drop_bit 4 (prom (lo8 (push_bit 4 (prom x div 10) OR prom x mod 10))) * 10 +
    take_bit 4 (prom (lo8 (push_bit 4 (prom x div 10) OR prom x mod 10)))) = x"
proof -
  have "prom x div 10 < 16" "prom x mod 10 < 16"
    using assms by (simp_all add: word_less_nat_alt unat_div unat_mod less_trans [OF mod_less_divisor] div_less_iff_less_mult)
  then show ?thesis by (simp add: bcd_fields div_mult_mod_eq)
qed

end
