(* ===== verification/CEC_Header.thy ===== *)
theory CEC_Header
  imports C_Integers
begin

text \<open>
  \<open>linux/cec.h\<close> of the sysroot: the message structure, its inline accessors, the logical address
  masks, and every numeric constant of the protocol in source order. The ioctl numbers and the driver's
  capability and event structures are not modelled: nothing in the header computes with them. A C
  \<open>int\<close> is a 32-bit word. The facts at the end read and write single bytes of a message.
\<close>

named_theorems cec_const \<open>values of the constants\<close>
named_theorems cec_byte \<open>reading a message after a write\<close>

definition CEC_MAX_MSG_SIZE :: nat where
  [cec_const]: "CEC_MAX_MSG_SIZE = 16"

record cec_msg =
  cm_tx_ts :: u64
  cm_rx_ts :: u64
  cm_len :: u32
  cm_timeout :: u32
  cm_sequence :: u32
  cm_flags :: u32
  cm_msg :: "u8 list"
  cm_reply :: u8
  cm_rx_status :: u8
  cm_tx_status :: u8
  cm_tx_arb_lost_cnt :: u8
  cm_tx_nack_cnt :: u8
  cm_tx_low_drive_cnt :: u8
  cm_tx_error_cnt :: u8

text \<open>\<open>msg->msg[i]\<close>, the store \<open>msg->msg[i] = v\<close> and the append \<open>msg->msg[msg->len++] = v\<close>.\<close>

definition byte_at :: "cec_msg \<Rightarrow> nat \<Rightarrow> u8" where
  "byte_at msg i = cm_msg msg ! i"

definition put :: "nat \<Rightarrow> u8 \<Rightarrow> cec_msg \<Rightarrow> cec_msg" where
  "put i v msg = msg\<lparr>cm_msg := (cm_msg msg)[i := v]\<rparr>"

definition msg_append :: "u8 \<Rightarrow> cec_msg \<Rightarrow> cec_msg" where
  "msg_append v msg = (put (unat (cm_len msg)) v msg)\<lparr>cm_len := cm_len msg + 1\<rparr>"

definition cec_msg_initiator :: "cec_msg \<Rightarrow> u8" where
  "cec_msg_initiator msg = lo8 (drop_bit 4 (prom (byte_at msg 0)))"

definition cec_msg_destination :: "cec_msg \<Rightarrow> u8" where
  "cec_msg_destination msg = lo8 (prom (byte_at msg 0) AND 0xf)"

definition cec_msg_opcode :: "cec_msg \<Rightarrow> u32" where
  "cec_msg_opcode msg = (if cm_len msg > 1 then prom (byte_at msg 1) else - 1)"

definition cec_msg_is_broadcast :: "cec_msg \<Rightarrow> bool" where
  "cec_msg_is_broadcast msg \<longleftrightarrow> prom (byte_at msg 0) AND 0xf = 0xf"

text \<open>\<open>memset (msg, 0, sizeof (*msg))\<close>.\<close>

definition zeroed :: cec_msg where
  "zeroed = \<lparr>cm_tx_ts = 0, cm_rx_ts = 0, cm_len = 0, cm_timeout = 0, cm_sequence = 0, cm_flags = 0,
    cm_msg = replicate CEC_MAX_MSG_SIZE 0, cm_reply = 0, cm_rx_status = 0, cm_tx_status = 0,
    cm_tx_arb_lost_cnt = 0, cm_tx_nack_cnt = 0, cm_tx_low_drive_cnt = 0, cm_tx_error_cnt = 0\<rparr>"

definition cec_msg_init :: "cec_msg \<Rightarrow> u8 \<Rightarrow> u8 \<Rightarrow> cec_msg" where
  "cec_msg_init msg initiator destination =
    (let msg = zeroed;
         msg = put 0 (lo8 (push_bit 4 (prom initiator) OR prom destination)) msg;
         msg = msg\<lparr>cm_len := 1\<rparr>
     in msg)"

definition cec_msg_set_reply_to :: "cec_msg \<Rightarrow> cec_msg \<Rightarrow> cec_msg" where
  "cec_msg_set_reply_to msg orig =
    (let msg = put 0 (lo8 (push_bit 4 (prom (cec_msg_destination orig)) OR prom (cec_msg_initiator orig))) msg;
         msg = msg\<lparr>cm_timeout := 0, cm_reply := 0\<rparr>
     in msg)"

definition CEC_MSG_FL_REPLY_TO_FOLLOWERS :: u32 where
  [cec_const]: "CEC_MSG_FL_REPLY_TO_FOLLOWERS = push_bit 0 1"

definition CEC_TX_STATUS_OK :: u32 where
  [cec_const]: "CEC_TX_STATUS_OK = push_bit 0 1"

definition CEC_TX_STATUS_ARB_LOST :: u32 where
  [cec_const]: "CEC_TX_STATUS_ARB_LOST = push_bit 1 1"

definition CEC_TX_STATUS_NACK :: u32 where
  [cec_const]: "CEC_TX_STATUS_NACK = push_bit 2 1"

definition CEC_TX_STATUS_LOW_DRIVE :: u32 where
  [cec_const]: "CEC_TX_STATUS_LOW_DRIVE = push_bit 3 1"

definition CEC_TX_STATUS_ERROR :: u32 where
  [cec_const]: "CEC_TX_STATUS_ERROR = push_bit 4 1"

definition CEC_TX_STATUS_MAX_RETRIES :: u32 where
  [cec_const]: "CEC_TX_STATUS_MAX_RETRIES = push_bit 5 1"

definition CEC_TX_STATUS_ABORTED :: u32 where
  [cec_const]: "CEC_TX_STATUS_ABORTED = push_bit 6 1"

definition CEC_TX_STATUS_TIMEOUT :: u32 where
  [cec_const]: "CEC_TX_STATUS_TIMEOUT = push_bit 7 1"

definition CEC_RX_STATUS_OK :: u32 where
  [cec_const]: "CEC_RX_STATUS_OK = push_bit 0 1"

definition CEC_RX_STATUS_TIMEOUT :: u32 where
  [cec_const]: "CEC_RX_STATUS_TIMEOUT = push_bit 1 1"

definition CEC_RX_STATUS_FEATURE_ABORT :: u32 where
  [cec_const]: "CEC_RX_STATUS_FEATURE_ABORT = push_bit 2 1"

definition CEC_RX_STATUS_ABORTED :: u32 where
  [cec_const]: "CEC_RX_STATUS_ABORTED = push_bit 3 1"

definition cec_msg_status_is_ok :: "cec_msg \<Rightarrow> bool" where
  "cec_msg_status_is_ok msg =
    (if cm_tx_status msg \<noteq> 0 \<and> \<not> (prom (cm_tx_status msg) AND CEC_TX_STATUS_OK \<noteq> 0) then False
     else if cm_rx_status msg \<noteq> 0 \<and> \<not> (prom (cm_rx_status msg) AND CEC_RX_STATUS_OK \<noteq> 0) then False
     else if \<not> cm_tx_status msg \<noteq> 0 \<and> \<not> cm_rx_status msg \<noteq> 0 then False
     else \<not> (prom (cm_rx_status msg) AND CEC_RX_STATUS_FEATURE_ABORT \<noteq> 0))"

definition CEC_LOG_ADDR_INVALID :: u32 where
  [cec_const]: "CEC_LOG_ADDR_INVALID = 0xff"

definition CEC_PHYS_ADDR_INVALID :: u32 where
  [cec_const]: "CEC_PHYS_ADDR_INVALID = 0xffff"

definition CEC_MAX_LOG_ADDRS :: u32 where
  [cec_const]: "CEC_MAX_LOG_ADDRS = 4"

definition CEC_LOG_ADDR_TV :: u32 where
  [cec_const]: "CEC_LOG_ADDR_TV = 0"

definition CEC_LOG_ADDR_RECORD_1 :: u32 where
  [cec_const]: "CEC_LOG_ADDR_RECORD_1 = 1"

definition CEC_LOG_ADDR_RECORD_2 :: u32 where
  [cec_const]: "CEC_LOG_ADDR_RECORD_2 = 2"

definition CEC_LOG_ADDR_TUNER_1 :: u32 where
  [cec_const]: "CEC_LOG_ADDR_TUNER_1 = 3"

definition CEC_LOG_ADDR_PLAYBACK_1 :: u32 where
  [cec_const]: "CEC_LOG_ADDR_PLAYBACK_1 = 4"

definition CEC_LOG_ADDR_AUDIOSYSTEM :: u32 where
  [cec_const]: "CEC_LOG_ADDR_AUDIOSYSTEM = 5"

definition CEC_LOG_ADDR_TUNER_2 :: u32 where
  [cec_const]: "CEC_LOG_ADDR_TUNER_2 = 6"

definition CEC_LOG_ADDR_TUNER_3 :: u32 where
  [cec_const]: "CEC_LOG_ADDR_TUNER_3 = 7"

definition CEC_LOG_ADDR_PLAYBACK_2 :: u32 where
  [cec_const]: "CEC_LOG_ADDR_PLAYBACK_2 = 8"

definition CEC_LOG_ADDR_RECORD_3 :: u32 where
  [cec_const]: "CEC_LOG_ADDR_RECORD_3 = 9"

definition CEC_LOG_ADDR_TUNER_4 :: u32 where
  [cec_const]: "CEC_LOG_ADDR_TUNER_4 = 10"

definition CEC_LOG_ADDR_PLAYBACK_3 :: u32 where
  [cec_const]: "CEC_LOG_ADDR_PLAYBACK_3 = 11"

definition CEC_LOG_ADDR_BACKUP_1 :: u32 where
  [cec_const]: "CEC_LOG_ADDR_BACKUP_1 = 12"

definition CEC_LOG_ADDR_BACKUP_2 :: u32 where
  [cec_const]: "CEC_LOG_ADDR_BACKUP_2 = 13"

definition CEC_LOG_ADDR_SPECIFIC :: u32 where
  [cec_const]: "CEC_LOG_ADDR_SPECIFIC = 14"

definition CEC_LOG_ADDR_UNREGISTERED :: u32 where
  [cec_const]: "CEC_LOG_ADDR_UNREGISTERED = 15"

definition CEC_LOG_ADDR_BROADCAST :: u32 where
  [cec_const]: "CEC_LOG_ADDR_BROADCAST = 15"

definition CEC_LOG_ADDR_TYPE_TV :: u32 where
  [cec_const]: "CEC_LOG_ADDR_TYPE_TV = 0"

definition CEC_LOG_ADDR_TYPE_RECORD :: u32 where
  [cec_const]: "CEC_LOG_ADDR_TYPE_RECORD = 1"

definition CEC_LOG_ADDR_TYPE_TUNER :: u32 where
  [cec_const]: "CEC_LOG_ADDR_TYPE_TUNER = 2"

definition CEC_LOG_ADDR_TYPE_PLAYBACK :: u32 where
  [cec_const]: "CEC_LOG_ADDR_TYPE_PLAYBACK = 3"

definition CEC_LOG_ADDR_TYPE_AUDIOSYSTEM :: u32 where
  [cec_const]: "CEC_LOG_ADDR_TYPE_AUDIOSYSTEM = 4"

definition CEC_LOG_ADDR_TYPE_SPECIFIC :: u32 where
  [cec_const]: "CEC_LOG_ADDR_TYPE_SPECIFIC = 5"

definition CEC_LOG_ADDR_TYPE_UNREGISTERED :: u32 where
  [cec_const]: "CEC_LOG_ADDR_TYPE_UNREGISTERED = 6"

definition CEC_LOG_ADDR_MASK_TV :: u32 where
  [cec_const]: "CEC_LOG_ADDR_MASK_TV = push_bit (unat CEC_LOG_ADDR_TV) 1"

definition CEC_LOG_ADDR_MASK_RECORD :: u32 where
  [cec_const]: "CEC_LOG_ADDR_MASK_RECORD = push_bit (unat CEC_LOG_ADDR_RECORD_1) 1
    OR push_bit (unat CEC_LOG_ADDR_RECORD_2) 1
    OR push_bit (unat CEC_LOG_ADDR_RECORD_3) 1"

definition CEC_LOG_ADDR_MASK_TUNER :: u32 where
  [cec_const]: "CEC_LOG_ADDR_MASK_TUNER = push_bit (unat CEC_LOG_ADDR_TUNER_1) 1
    OR push_bit (unat CEC_LOG_ADDR_TUNER_2) 1
    OR push_bit (unat CEC_LOG_ADDR_TUNER_3) 1
    OR push_bit (unat CEC_LOG_ADDR_TUNER_4) 1"

definition CEC_LOG_ADDR_MASK_PLAYBACK :: u32 where
  [cec_const]: "CEC_LOG_ADDR_MASK_PLAYBACK = push_bit (unat CEC_LOG_ADDR_PLAYBACK_1) 1
    OR push_bit (unat CEC_LOG_ADDR_PLAYBACK_2) 1
    OR push_bit (unat CEC_LOG_ADDR_PLAYBACK_3) 1"

definition CEC_LOG_ADDR_MASK_AUDIOSYSTEM :: u32 where
  [cec_const]: "CEC_LOG_ADDR_MASK_AUDIOSYSTEM = push_bit (unat CEC_LOG_ADDR_AUDIOSYSTEM) 1"

definition CEC_LOG_ADDR_MASK_BACKUP :: u32 where
  [cec_const]: "CEC_LOG_ADDR_MASK_BACKUP = push_bit (unat CEC_LOG_ADDR_BACKUP_1) 1
    OR push_bit (unat CEC_LOG_ADDR_BACKUP_2) 1"

definition CEC_LOG_ADDR_MASK_SPECIFIC :: u32 where
  [cec_const]: "CEC_LOG_ADDR_MASK_SPECIFIC = push_bit (unat CEC_LOG_ADDR_SPECIFIC) 1"

definition CEC_LOG_ADDR_MASK_UNREGISTERED :: u32 where
  [cec_const]: "CEC_LOG_ADDR_MASK_UNREGISTERED = push_bit (unat CEC_LOG_ADDR_UNREGISTERED) 1"

definition cec_has_tv :: "u16 \<Rightarrow> u32" where
  "cec_has_tv log_addr_mask = prom log_addr_mask AND CEC_LOG_ADDR_MASK_TV"

definition cec_has_record :: "u16 \<Rightarrow> u32" where
  "cec_has_record log_addr_mask = prom log_addr_mask AND CEC_LOG_ADDR_MASK_RECORD"

definition cec_has_tuner :: "u16 \<Rightarrow> u32" where
  "cec_has_tuner log_addr_mask = prom log_addr_mask AND CEC_LOG_ADDR_MASK_TUNER"

definition cec_has_playback :: "u16 \<Rightarrow> u32" where
  "cec_has_playback log_addr_mask = prom log_addr_mask AND CEC_LOG_ADDR_MASK_PLAYBACK"

definition cec_has_audiosystem :: "u16 \<Rightarrow> u32" where
  "cec_has_audiosystem log_addr_mask = prom log_addr_mask AND CEC_LOG_ADDR_MASK_AUDIOSYSTEM"

definition cec_has_backup :: "u16 \<Rightarrow> u32" where
  "cec_has_backup log_addr_mask = prom log_addr_mask AND CEC_LOG_ADDR_MASK_BACKUP"

definition cec_has_specific :: "u16 \<Rightarrow> u32" where
  "cec_has_specific log_addr_mask = prom log_addr_mask AND CEC_LOG_ADDR_MASK_SPECIFIC"

definition cec_is_unregistered :: "u16 \<Rightarrow> u32" where
  "cec_is_unregistered log_addr_mask = prom log_addr_mask AND CEC_LOG_ADDR_MASK_UNREGISTERED"

definition cec_is_unconfigured :: "u16 \<Rightarrow> bool" where
  "cec_is_unconfigured log_addr_mask \<longleftrightarrow> log_addr_mask = 0"

definition CEC_VENDOR_ID_NONE :: u32 where
  [cec_const]: "CEC_VENDOR_ID_NONE = 0xffffffff"

definition CEC_MODE_NO_INITIATOR :: u32 where
  [cec_const]: "CEC_MODE_NO_INITIATOR = push_bit 0 0x0"

definition CEC_MODE_INITIATOR :: u32 where
  [cec_const]: "CEC_MODE_INITIATOR = push_bit 0 0x1"

definition CEC_MODE_EXCL_INITIATOR :: u32 where
  [cec_const]: "CEC_MODE_EXCL_INITIATOR = push_bit 0 0x2"

definition CEC_MODE_INITIATOR_MSK :: u32 where
  [cec_const]: "CEC_MODE_INITIATOR_MSK = 0x0f"

definition CEC_MODE_NO_FOLLOWER :: u32 where
  [cec_const]: "CEC_MODE_NO_FOLLOWER = push_bit 4 0x0"

definition CEC_MODE_FOLLOWER :: u32 where
  [cec_const]: "CEC_MODE_FOLLOWER = push_bit 4 0x1"

definition CEC_MODE_EXCL_FOLLOWER :: u32 where
  [cec_const]: "CEC_MODE_EXCL_FOLLOWER = push_bit 4 0x2"

definition CEC_MODE_EXCL_FOLLOWER_PASSTHRU :: u32 where
  [cec_const]: "CEC_MODE_EXCL_FOLLOWER_PASSTHRU = push_bit 4 0x3"

definition CEC_MODE_MONITOR_PIN :: u32 where
  [cec_const]: "CEC_MODE_MONITOR_PIN = push_bit 4 0xd"

definition CEC_MODE_MONITOR :: u32 where
  [cec_const]: "CEC_MODE_MONITOR = push_bit 4 0xe"

definition CEC_MODE_MONITOR_ALL :: u32 where
  [cec_const]: "CEC_MODE_MONITOR_ALL = push_bit 4 0xf"

definition CEC_MODE_FOLLOWER_MSK :: u32 where
  [cec_const]: "CEC_MODE_FOLLOWER_MSK = 0xf0"

definition CEC_CAP_PHYS_ADDR :: u32 where
  [cec_const]: "CEC_CAP_PHYS_ADDR = push_bit 0 1"

definition CEC_CAP_LOG_ADDRS :: u32 where
  [cec_const]: "CEC_CAP_LOG_ADDRS = push_bit 1 1"

definition CEC_CAP_TRANSMIT :: u32 where
  [cec_const]: "CEC_CAP_TRANSMIT = push_bit 2 1"

definition CEC_CAP_PASSTHROUGH :: u32 where
  [cec_const]: "CEC_CAP_PASSTHROUGH = push_bit 3 1"

definition CEC_CAP_RC :: u32 where
  [cec_const]: "CEC_CAP_RC = push_bit 4 1"

definition CEC_CAP_MONITOR_ALL :: u32 where
  [cec_const]: "CEC_CAP_MONITOR_ALL = push_bit 5 1"

definition CEC_CAP_NEEDS_HPD :: u32 where
  [cec_const]: "CEC_CAP_NEEDS_HPD = push_bit 6 1"

definition CEC_CAP_MONITOR_PIN :: u32 where
  [cec_const]: "CEC_CAP_MONITOR_PIN = push_bit 7 1"

record cec_log_addrs =
  la_log_addr :: "u8 list"
  la_log_addr_mask :: u16
  la_cec_version :: u8
  la_num_log_addrs :: u8
  la_vendor_id :: u32
  la_flags :: u32
  la_osd_name :: "u8 list"
  la_primary_device_type :: "u8 list"
  la_log_addr_type :: "u8 list"
  la_all_device_types :: "u8 list"
  la_features :: "u8 list list"

definition CEC_LOG_ADDRS_FL_ALLOW_UNREG_FALLBACK :: u32 where
  [cec_const]: "CEC_LOG_ADDRS_FL_ALLOW_UNREG_FALLBACK = push_bit 0 1"

definition CEC_LOG_ADDRS_FL_ALLOW_RC_PASSTHRU :: u32 where
  [cec_const]: "CEC_LOG_ADDRS_FL_ALLOW_RC_PASSTHRU = push_bit 1 1"

definition CEC_LOG_ADDRS_FL_CDC_ONLY :: u32 where
  [cec_const]: "CEC_LOG_ADDRS_FL_CDC_ONLY = push_bit 2 1"

definition CEC_EVENT_STATE_CHANGE :: u32 where
  [cec_const]: "CEC_EVENT_STATE_CHANGE = 1"

definition CEC_EVENT_LOST_MSGS :: u32 where
  [cec_const]: "CEC_EVENT_LOST_MSGS = 2"

definition CEC_EVENT_PIN_CEC_LOW :: u32 where
  [cec_const]: "CEC_EVENT_PIN_CEC_LOW = 3"

definition CEC_EVENT_PIN_CEC_HIGH :: u32 where
  [cec_const]: "CEC_EVENT_PIN_CEC_HIGH = 4"

definition CEC_EVENT_PIN_HPD_LOW :: u32 where
  [cec_const]: "CEC_EVENT_PIN_HPD_LOW = 5"

definition CEC_EVENT_PIN_HPD_HIGH :: u32 where
  [cec_const]: "CEC_EVENT_PIN_HPD_HIGH = 6"

definition CEC_EVENT_PIN_5V_LOW :: u32 where
  [cec_const]: "CEC_EVENT_PIN_5V_LOW = 7"

definition CEC_EVENT_PIN_5V_HIGH :: u32 where
  [cec_const]: "CEC_EVENT_PIN_5V_HIGH = 8"

definition CEC_EVENT_FL_INITIAL_STATE :: u32 where
  [cec_const]: "CEC_EVENT_FL_INITIAL_STATE = push_bit 0 1"

definition CEC_EVENT_FL_DROPPED_EVENTS :: u32 where
  [cec_const]: "CEC_EVENT_FL_DROPPED_EVENTS = push_bit 1 1"

definition CEC_MSG_ACTIVE_SOURCE :: u32 where
  [cec_const]: "CEC_MSG_ACTIVE_SOURCE = 0x82"

definition CEC_MSG_IMAGE_VIEW_ON :: u32 where
  [cec_const]: "CEC_MSG_IMAGE_VIEW_ON = 0x04"

definition CEC_MSG_TEXT_VIEW_ON :: u32 where
  [cec_const]: "CEC_MSG_TEXT_VIEW_ON = 0x0d"

definition CEC_MSG_INACTIVE_SOURCE :: u32 where
  [cec_const]: "CEC_MSG_INACTIVE_SOURCE = 0x9d"

definition CEC_MSG_REQUEST_ACTIVE_SOURCE :: u32 where
  [cec_const]: "CEC_MSG_REQUEST_ACTIVE_SOURCE = 0x85"

definition CEC_MSG_ROUTING_CHANGE :: u32 where
  [cec_const]: "CEC_MSG_ROUTING_CHANGE = 0x80"

definition CEC_MSG_ROUTING_INFORMATION :: u32 where
  [cec_const]: "CEC_MSG_ROUTING_INFORMATION = 0x81"

definition CEC_MSG_SET_STREAM_PATH :: u32 where
  [cec_const]: "CEC_MSG_SET_STREAM_PATH = 0x86"

definition CEC_MSG_STANDBY :: u32 where
  [cec_const]: "CEC_MSG_STANDBY = 0x36"

definition CEC_MSG_RECORD_OFF :: u32 where
  [cec_const]: "CEC_MSG_RECORD_OFF = 0x0b"

definition CEC_MSG_RECORD_ON :: u32 where
  [cec_const]: "CEC_MSG_RECORD_ON = 0x09"

definition CEC_OP_RECORD_SRC_OWN :: u32 where
  [cec_const]: "CEC_OP_RECORD_SRC_OWN = 1"

definition CEC_OP_RECORD_SRC_DIGITAL :: u32 where
  [cec_const]: "CEC_OP_RECORD_SRC_DIGITAL = 2"

definition CEC_OP_RECORD_SRC_ANALOG :: u32 where
  [cec_const]: "CEC_OP_RECORD_SRC_ANALOG = 3"

definition CEC_OP_RECORD_SRC_EXT_PLUG :: u32 where
  [cec_const]: "CEC_OP_RECORD_SRC_EXT_PLUG = 4"

definition CEC_OP_RECORD_SRC_EXT_PHYS_ADDR :: u32 where
  [cec_const]: "CEC_OP_RECORD_SRC_EXT_PHYS_ADDR = 5"

definition CEC_OP_SERVICE_ID_METHOD_BY_DIG_ID :: u32 where
  [cec_const]: "CEC_OP_SERVICE_ID_METHOD_BY_DIG_ID = 0"

definition CEC_OP_SERVICE_ID_METHOD_BY_CHANNEL :: u32 where
  [cec_const]: "CEC_OP_SERVICE_ID_METHOD_BY_CHANNEL = 1"

definition CEC_OP_DIG_SERVICE_BCAST_SYSTEM_ARIB_GEN :: u32 where
  [cec_const]: "CEC_OP_DIG_SERVICE_BCAST_SYSTEM_ARIB_GEN = 0x00"

definition CEC_OP_DIG_SERVICE_BCAST_SYSTEM_ATSC_GEN :: u32 where
  [cec_const]: "CEC_OP_DIG_SERVICE_BCAST_SYSTEM_ATSC_GEN = 0x01"

definition CEC_OP_DIG_SERVICE_BCAST_SYSTEM_DVB_GEN :: u32 where
  [cec_const]: "CEC_OP_DIG_SERVICE_BCAST_SYSTEM_DVB_GEN = 0x02"

definition CEC_OP_DIG_SERVICE_BCAST_SYSTEM_ARIB_BS :: u32 where
  [cec_const]: "CEC_OP_DIG_SERVICE_BCAST_SYSTEM_ARIB_BS = 0x08"

definition CEC_OP_DIG_SERVICE_BCAST_SYSTEM_ARIB_CS :: u32 where
  [cec_const]: "CEC_OP_DIG_SERVICE_BCAST_SYSTEM_ARIB_CS = 0x09"

definition CEC_OP_DIG_SERVICE_BCAST_SYSTEM_ARIB_T :: u32 where
  [cec_const]: "CEC_OP_DIG_SERVICE_BCAST_SYSTEM_ARIB_T = 0x0a"

definition CEC_OP_DIG_SERVICE_BCAST_SYSTEM_ATSC_CABLE :: u32 where
  [cec_const]: "CEC_OP_DIG_SERVICE_BCAST_SYSTEM_ATSC_CABLE = 0x10"

definition CEC_OP_DIG_SERVICE_BCAST_SYSTEM_ATSC_SAT :: u32 where
  [cec_const]: "CEC_OP_DIG_SERVICE_BCAST_SYSTEM_ATSC_SAT = 0x11"

definition CEC_OP_DIG_SERVICE_BCAST_SYSTEM_ATSC_T :: u32 where
  [cec_const]: "CEC_OP_DIG_SERVICE_BCAST_SYSTEM_ATSC_T = 0x12"

definition CEC_OP_DIG_SERVICE_BCAST_SYSTEM_DVB_C :: u32 where
  [cec_const]: "CEC_OP_DIG_SERVICE_BCAST_SYSTEM_DVB_C = 0x18"

definition CEC_OP_DIG_SERVICE_BCAST_SYSTEM_DVB_S :: u32 where
  [cec_const]: "CEC_OP_DIG_SERVICE_BCAST_SYSTEM_DVB_S = 0x19"

definition CEC_OP_DIG_SERVICE_BCAST_SYSTEM_DVB_S2 :: u32 where
  [cec_const]: "CEC_OP_DIG_SERVICE_BCAST_SYSTEM_DVB_S2 = 0x1a"

definition CEC_OP_DIG_SERVICE_BCAST_SYSTEM_DVB_T :: u32 where
  [cec_const]: "CEC_OP_DIG_SERVICE_BCAST_SYSTEM_DVB_T = 0x1b"

definition CEC_OP_ANA_BCAST_TYPE_CABLE :: u32 where
  [cec_const]: "CEC_OP_ANA_BCAST_TYPE_CABLE = 0"

definition CEC_OP_ANA_BCAST_TYPE_SATELLITE :: u32 where
  [cec_const]: "CEC_OP_ANA_BCAST_TYPE_SATELLITE = 1"

definition CEC_OP_ANA_BCAST_TYPE_TERRESTRIAL :: u32 where
  [cec_const]: "CEC_OP_ANA_BCAST_TYPE_TERRESTRIAL = 2"

definition CEC_OP_BCAST_SYSTEM_PAL_BG :: u32 where
  [cec_const]: "CEC_OP_BCAST_SYSTEM_PAL_BG = 0x00"

definition CEC_OP_BCAST_SYSTEM_SECAM_LQ :: u32 where
  [cec_const]: "CEC_OP_BCAST_SYSTEM_SECAM_LQ = 0x01"

definition CEC_OP_BCAST_SYSTEM_PAL_M :: u32 where
  [cec_const]: "CEC_OP_BCAST_SYSTEM_PAL_M = 0x02"

definition CEC_OP_BCAST_SYSTEM_NTSC_M :: u32 where
  [cec_const]: "CEC_OP_BCAST_SYSTEM_NTSC_M = 0x03"

definition CEC_OP_BCAST_SYSTEM_PAL_I :: u32 where
  [cec_const]: "CEC_OP_BCAST_SYSTEM_PAL_I = 0x04"

definition CEC_OP_BCAST_SYSTEM_SECAM_DK :: u32 where
  [cec_const]: "CEC_OP_BCAST_SYSTEM_SECAM_DK = 0x05"

definition CEC_OP_BCAST_SYSTEM_SECAM_BG :: u32 where
  [cec_const]: "CEC_OP_BCAST_SYSTEM_SECAM_BG = 0x06"

definition CEC_OP_BCAST_SYSTEM_SECAM_L :: u32 where
  [cec_const]: "CEC_OP_BCAST_SYSTEM_SECAM_L = 0x07"

definition CEC_OP_BCAST_SYSTEM_PAL_DK :: u32 where
  [cec_const]: "CEC_OP_BCAST_SYSTEM_PAL_DK = 0x08"

definition CEC_OP_BCAST_SYSTEM_OTHER :: u32 where
  [cec_const]: "CEC_OP_BCAST_SYSTEM_OTHER = 0x1f"

definition CEC_OP_CHANNEL_NUMBER_FMT_1_PART :: u32 where
  [cec_const]: "CEC_OP_CHANNEL_NUMBER_FMT_1_PART = 0x01"

definition CEC_OP_CHANNEL_NUMBER_FMT_2_PART :: u32 where
  [cec_const]: "CEC_OP_CHANNEL_NUMBER_FMT_2_PART = 0x02"

definition CEC_MSG_RECORD_STATUS :: u32 where
  [cec_const]: "CEC_MSG_RECORD_STATUS = 0x0a"

definition CEC_OP_RECORD_STATUS_CUR_SRC :: u32 where
  [cec_const]: "CEC_OP_RECORD_STATUS_CUR_SRC = 0x01"

definition CEC_OP_RECORD_STATUS_DIG_SERVICE :: u32 where
  [cec_const]: "CEC_OP_RECORD_STATUS_DIG_SERVICE = 0x02"

definition CEC_OP_RECORD_STATUS_ANA_SERVICE :: u32 where
  [cec_const]: "CEC_OP_RECORD_STATUS_ANA_SERVICE = 0x03"

definition CEC_OP_RECORD_STATUS_EXT_INPUT :: u32 where
  [cec_const]: "CEC_OP_RECORD_STATUS_EXT_INPUT = 0x04"

definition CEC_OP_RECORD_STATUS_NO_DIG_SERVICE :: u32 where
  [cec_const]: "CEC_OP_RECORD_STATUS_NO_DIG_SERVICE = 0x05"

definition CEC_OP_RECORD_STATUS_NO_ANA_SERVICE :: u32 where
  [cec_const]: "CEC_OP_RECORD_STATUS_NO_ANA_SERVICE = 0x06"

definition CEC_OP_RECORD_STATUS_NO_SERVICE :: u32 where
  [cec_const]: "CEC_OP_RECORD_STATUS_NO_SERVICE = 0x07"

definition CEC_OP_RECORD_STATUS_INVALID_EXT_PLUG :: u32 where
  [cec_const]: "CEC_OP_RECORD_STATUS_INVALID_EXT_PLUG = 0x09"

definition CEC_OP_RECORD_STATUS_INVALID_EXT_PHYS_ADDR :: u32 where
  [cec_const]: "CEC_OP_RECORD_STATUS_INVALID_EXT_PHYS_ADDR = 0x0a"

definition CEC_OP_RECORD_STATUS_UNSUP_CA :: u32 where
  [cec_const]: "CEC_OP_RECORD_STATUS_UNSUP_CA = 0x0b"

definition CEC_OP_RECORD_STATUS_NO_CA_ENTITLEMENTS :: u32 where
  [cec_const]: "CEC_OP_RECORD_STATUS_NO_CA_ENTITLEMENTS = 0x0c"

definition CEC_OP_RECORD_STATUS_CANT_COPY_SRC :: u32 where
  [cec_const]: "CEC_OP_RECORD_STATUS_CANT_COPY_SRC = 0x0d"

definition CEC_OP_RECORD_STATUS_NO_MORE_COPIES :: u32 where
  [cec_const]: "CEC_OP_RECORD_STATUS_NO_MORE_COPIES = 0x0e"

definition CEC_OP_RECORD_STATUS_NO_MEDIA :: u32 where
  [cec_const]: "CEC_OP_RECORD_STATUS_NO_MEDIA = 0x10"

definition CEC_OP_RECORD_STATUS_PLAYING :: u32 where
  [cec_const]: "CEC_OP_RECORD_STATUS_PLAYING = 0x11"

definition CEC_OP_RECORD_STATUS_ALREADY_RECORDING :: u32 where
  [cec_const]: "CEC_OP_RECORD_STATUS_ALREADY_RECORDING = 0x12"

definition CEC_OP_RECORD_STATUS_MEDIA_PROT :: u32 where
  [cec_const]: "CEC_OP_RECORD_STATUS_MEDIA_PROT = 0x13"

definition CEC_OP_RECORD_STATUS_NO_SIGNAL :: u32 where
  [cec_const]: "CEC_OP_RECORD_STATUS_NO_SIGNAL = 0x14"

definition CEC_OP_RECORD_STATUS_MEDIA_PROBLEM :: u32 where
  [cec_const]: "CEC_OP_RECORD_STATUS_MEDIA_PROBLEM = 0x15"

definition CEC_OP_RECORD_STATUS_NO_SPACE :: u32 where
  [cec_const]: "CEC_OP_RECORD_STATUS_NO_SPACE = 0x16"

definition CEC_OP_RECORD_STATUS_PARENTAL_LOCK :: u32 where
  [cec_const]: "CEC_OP_RECORD_STATUS_PARENTAL_LOCK = 0x17"

definition CEC_OP_RECORD_STATUS_TERMINATED_OK :: u32 where
  [cec_const]: "CEC_OP_RECORD_STATUS_TERMINATED_OK = 0x1a"

definition CEC_OP_RECORD_STATUS_ALREADY_TERM :: u32 where
  [cec_const]: "CEC_OP_RECORD_STATUS_ALREADY_TERM = 0x1b"

definition CEC_OP_RECORD_STATUS_OTHER :: u32 where
  [cec_const]: "CEC_OP_RECORD_STATUS_OTHER = 0x1f"

definition CEC_MSG_RECORD_TV_SCREEN :: u32 where
  [cec_const]: "CEC_MSG_RECORD_TV_SCREEN = 0x0f"

definition CEC_MSG_CLEAR_ANALOGUE_TIMER :: u32 where
  [cec_const]: "CEC_MSG_CLEAR_ANALOGUE_TIMER = 0x33"

definition CEC_OP_REC_SEQ_SUNDAY :: u32 where
  [cec_const]: "CEC_OP_REC_SEQ_SUNDAY = 0x01"

definition CEC_OP_REC_SEQ_MONDAY :: u32 where
  [cec_const]: "CEC_OP_REC_SEQ_MONDAY = 0x02"

definition CEC_OP_REC_SEQ_TUESDAY :: u32 where
  [cec_const]: "CEC_OP_REC_SEQ_TUESDAY = 0x04"

definition CEC_OP_REC_SEQ_WEDNESDAY :: u32 where
  [cec_const]: "CEC_OP_REC_SEQ_WEDNESDAY = 0x08"

definition CEC_OP_REC_SEQ_THURSDAY :: u32 where
  [cec_const]: "CEC_OP_REC_SEQ_THURSDAY = 0x10"

definition CEC_OP_REC_SEQ_FRIDAY :: u32 where
  [cec_const]: "CEC_OP_REC_SEQ_FRIDAY = 0x20"

definition CEC_OP_REC_SEQ_SATERDAY :: u32 where
  [cec_const]: "CEC_OP_REC_SEQ_SATERDAY = 0x40"

definition CEC_OP_REC_SEQ_ONCE_ONLY :: u32 where
  [cec_const]: "CEC_OP_REC_SEQ_ONCE_ONLY = 0x00"

definition CEC_MSG_CLEAR_DIGITAL_TIMER :: u32 where
  [cec_const]: "CEC_MSG_CLEAR_DIGITAL_TIMER = 0x99"

definition CEC_MSG_CLEAR_EXT_TIMER :: u32 where
  [cec_const]: "CEC_MSG_CLEAR_EXT_TIMER = 0xa1"

definition CEC_OP_EXT_SRC_PLUG :: u32 where
  [cec_const]: "CEC_OP_EXT_SRC_PLUG = 0x04"

definition CEC_OP_EXT_SRC_PHYS_ADDR :: u32 where
  [cec_const]: "CEC_OP_EXT_SRC_PHYS_ADDR = 0x05"

definition CEC_MSG_SET_ANALOGUE_TIMER :: u32 where
  [cec_const]: "CEC_MSG_SET_ANALOGUE_TIMER = 0x34"

definition CEC_MSG_SET_DIGITAL_TIMER :: u32 where
  [cec_const]: "CEC_MSG_SET_DIGITAL_TIMER = 0x97"

definition CEC_MSG_SET_EXT_TIMER :: u32 where
  [cec_const]: "CEC_MSG_SET_EXT_TIMER = 0xa2"

definition CEC_MSG_SET_TIMER_PROGRAM_TITLE :: u32 where
  [cec_const]: "CEC_MSG_SET_TIMER_PROGRAM_TITLE = 0x67"

definition CEC_MSG_TIMER_CLEARED_STATUS :: u32 where
  [cec_const]: "CEC_MSG_TIMER_CLEARED_STATUS = 0x43"

definition CEC_OP_TIMER_CLR_STAT_RECORDING :: u32 where
  [cec_const]: "CEC_OP_TIMER_CLR_STAT_RECORDING = 0x00"

definition CEC_OP_TIMER_CLR_STAT_NO_MATCHING :: u32 where
  [cec_const]: "CEC_OP_TIMER_CLR_STAT_NO_MATCHING = 0x01"

definition CEC_OP_TIMER_CLR_STAT_NO_INFO :: u32 where
  [cec_const]: "CEC_OP_TIMER_CLR_STAT_NO_INFO = 0x02"

definition CEC_OP_TIMER_CLR_STAT_CLEARED :: u32 where
  [cec_const]: "CEC_OP_TIMER_CLR_STAT_CLEARED = 0x80"

definition CEC_MSG_TIMER_STATUS :: u32 where
  [cec_const]: "CEC_MSG_TIMER_STATUS = 0x35"

definition CEC_OP_TIMER_OVERLAP_WARNING_NO_OVERLAP :: u32 where
  [cec_const]: "CEC_OP_TIMER_OVERLAP_WARNING_NO_OVERLAP = 0"

definition CEC_OP_TIMER_OVERLAP_WARNING_OVERLAP :: u32 where
  [cec_const]: "CEC_OP_TIMER_OVERLAP_WARNING_OVERLAP = 1"

definition CEC_OP_MEDIA_INFO_UNPROT_MEDIA :: u32 where
  [cec_const]: "CEC_OP_MEDIA_INFO_UNPROT_MEDIA = 0"

definition CEC_OP_MEDIA_INFO_PROT_MEDIA :: u32 where
  [cec_const]: "CEC_OP_MEDIA_INFO_PROT_MEDIA = 1"

definition CEC_OP_MEDIA_INFO_NO_MEDIA :: u32 where
  [cec_const]: "CEC_OP_MEDIA_INFO_NO_MEDIA = 2"

definition CEC_OP_PROG_IND_NOT_PROGRAMMED :: u32 where
  [cec_const]: "CEC_OP_PROG_IND_NOT_PROGRAMMED = 0"

definition CEC_OP_PROG_IND_PROGRAMMED :: u32 where
  [cec_const]: "CEC_OP_PROG_IND_PROGRAMMED = 1"

definition CEC_OP_PROG_INFO_ENOUGH_SPACE :: u32 where
  [cec_const]: "CEC_OP_PROG_INFO_ENOUGH_SPACE = 0x08"

definition CEC_OP_PROG_INFO_NOT_ENOUGH_SPACE :: u32 where
  [cec_const]: "CEC_OP_PROG_INFO_NOT_ENOUGH_SPACE = 0x09"

definition CEC_OP_PROG_INFO_MIGHT_NOT_BE_ENOUGH_SPACE :: u32 where
  [cec_const]: "CEC_OP_PROG_INFO_MIGHT_NOT_BE_ENOUGH_SPACE = 0x0b"

definition CEC_OP_PROG_INFO_NONE_AVAILABLE :: u32 where
  [cec_const]: "CEC_OP_PROG_INFO_NONE_AVAILABLE = 0x0a"

definition CEC_OP_PROG_ERROR_NO_FREE_TIMER :: u32 where
  [cec_const]: "CEC_OP_PROG_ERROR_NO_FREE_TIMER = 0x01"

definition CEC_OP_PROG_ERROR_DATE_OUT_OF_RANGE :: u32 where
  [cec_const]: "CEC_OP_PROG_ERROR_DATE_OUT_OF_RANGE = 0x02"

definition CEC_OP_PROG_ERROR_REC_SEQ_ERROR :: u32 where
  [cec_const]: "CEC_OP_PROG_ERROR_REC_SEQ_ERROR = 0x03"

definition CEC_OP_PROG_ERROR_INV_EXT_PLUG :: u32 where
  [cec_const]: "CEC_OP_PROG_ERROR_INV_EXT_PLUG = 0x04"

definition CEC_OP_PROG_ERROR_INV_EXT_PHYS_ADDR :: u32 where
  [cec_const]: "CEC_OP_PROG_ERROR_INV_EXT_PHYS_ADDR = 0x05"

definition CEC_OP_PROG_ERROR_CA_UNSUPP :: u32 where
  [cec_const]: "CEC_OP_PROG_ERROR_CA_UNSUPP = 0x06"

definition CEC_OP_PROG_ERROR_INSUF_CA_ENTITLEMENTS :: u32 where
  [cec_const]: "CEC_OP_PROG_ERROR_INSUF_CA_ENTITLEMENTS = 0x07"

definition CEC_OP_PROG_ERROR_RESOLUTION_UNSUPP :: u32 where
  [cec_const]: "CEC_OP_PROG_ERROR_RESOLUTION_UNSUPP = 0x08"

definition CEC_OP_PROG_ERROR_PARENTAL_LOCK :: u32 where
  [cec_const]: "CEC_OP_PROG_ERROR_PARENTAL_LOCK = 0x09"

definition CEC_OP_PROG_ERROR_CLOCK_FAILURE :: u32 where
  [cec_const]: "CEC_OP_PROG_ERROR_CLOCK_FAILURE = 0x0a"

definition CEC_OP_PROG_ERROR_DUPLICATE :: u32 where
  [cec_const]: "CEC_OP_PROG_ERROR_DUPLICATE = 0x0e"

definition CEC_MSG_CEC_VERSION :: u32 where
  [cec_const]: "CEC_MSG_CEC_VERSION = 0x9e"

definition CEC_OP_CEC_VERSION_1_3A :: u32 where
  [cec_const]: "CEC_OP_CEC_VERSION_1_3A = 4"

definition CEC_OP_CEC_VERSION_1_4 :: u32 where
  [cec_const]: "CEC_OP_CEC_VERSION_1_4 = 5"

definition CEC_OP_CEC_VERSION_2_0 :: u32 where
  [cec_const]: "CEC_OP_CEC_VERSION_2_0 = 6"

definition CEC_MSG_GET_CEC_VERSION :: u32 where
  [cec_const]: "CEC_MSG_GET_CEC_VERSION = 0x9f"

definition CEC_MSG_GIVE_PHYSICAL_ADDR :: u32 where
  [cec_const]: "CEC_MSG_GIVE_PHYSICAL_ADDR = 0x83"

definition CEC_MSG_GET_MENU_LANGUAGE :: u32 where
  [cec_const]: "CEC_MSG_GET_MENU_LANGUAGE = 0x91"

definition CEC_MSG_REPORT_PHYSICAL_ADDR :: u32 where
  [cec_const]: "CEC_MSG_REPORT_PHYSICAL_ADDR = 0x84"

definition CEC_OP_PRIM_DEVTYPE_TV :: u32 where
  [cec_const]: "CEC_OP_PRIM_DEVTYPE_TV = 0"

definition CEC_OP_PRIM_DEVTYPE_RECORD :: u32 where
  [cec_const]: "CEC_OP_PRIM_DEVTYPE_RECORD = 1"

definition CEC_OP_PRIM_DEVTYPE_TUNER :: u32 where
  [cec_const]: "CEC_OP_PRIM_DEVTYPE_TUNER = 3"

definition CEC_OP_PRIM_DEVTYPE_PLAYBACK :: u32 where
  [cec_const]: "CEC_OP_PRIM_DEVTYPE_PLAYBACK = 4"

definition CEC_OP_PRIM_DEVTYPE_AUDIOSYSTEM :: u32 where
  [cec_const]: "CEC_OP_PRIM_DEVTYPE_AUDIOSYSTEM = 5"

definition CEC_OP_PRIM_DEVTYPE_SWITCH :: u32 where
  [cec_const]: "CEC_OP_PRIM_DEVTYPE_SWITCH = 6"

definition CEC_OP_PRIM_DEVTYPE_PROCESSOR :: u32 where
  [cec_const]: "CEC_OP_PRIM_DEVTYPE_PROCESSOR = 7"

definition CEC_MSG_SET_MENU_LANGUAGE :: u32 where
  [cec_const]: "CEC_MSG_SET_MENU_LANGUAGE = 0x32"

definition CEC_MSG_REPORT_FEATURES :: u32 where
  [cec_const]: "CEC_MSG_REPORT_FEATURES = 0xa6"

definition CEC_OP_ALL_DEVTYPE_TV :: u32 where
  [cec_const]: "CEC_OP_ALL_DEVTYPE_TV = 0x80"

definition CEC_OP_ALL_DEVTYPE_RECORD :: u32 where
  [cec_const]: "CEC_OP_ALL_DEVTYPE_RECORD = 0x40"

definition CEC_OP_ALL_DEVTYPE_TUNER :: u32 where
  [cec_const]: "CEC_OP_ALL_DEVTYPE_TUNER = 0x20"

definition CEC_OP_ALL_DEVTYPE_PLAYBACK :: u32 where
  [cec_const]: "CEC_OP_ALL_DEVTYPE_PLAYBACK = 0x10"

definition CEC_OP_ALL_DEVTYPE_AUDIOSYSTEM :: u32 where
  [cec_const]: "CEC_OP_ALL_DEVTYPE_AUDIOSYSTEM = 0x08"

definition CEC_OP_ALL_DEVTYPE_SWITCH :: u32 where
  [cec_const]: "CEC_OP_ALL_DEVTYPE_SWITCH = 0x04"

definition CEC_OP_FEAT_EXT :: u32 where
  [cec_const]: "CEC_OP_FEAT_EXT = 0x80"

definition CEC_OP_FEAT_RC_TV_PROFILE_NONE :: u32 where
  [cec_const]: "CEC_OP_FEAT_RC_TV_PROFILE_NONE = 0x00"

definition CEC_OP_FEAT_RC_TV_PROFILE_1 :: u32 where
  [cec_const]: "CEC_OP_FEAT_RC_TV_PROFILE_1 = 0x02"

definition CEC_OP_FEAT_RC_TV_PROFILE_2 :: u32 where
  [cec_const]: "CEC_OP_FEAT_RC_TV_PROFILE_2 = 0x06"

definition CEC_OP_FEAT_RC_TV_PROFILE_3 :: u32 where
  [cec_const]: "CEC_OP_FEAT_RC_TV_PROFILE_3 = 0x0a"

definition CEC_OP_FEAT_RC_TV_PROFILE_4 :: u32 where
  [cec_const]: "CEC_OP_FEAT_RC_TV_PROFILE_4 = 0x0e"

definition CEC_OP_FEAT_RC_SRC_HAS_DEV_ROOT_MENU :: u32 where
  [cec_const]: "CEC_OP_FEAT_RC_SRC_HAS_DEV_ROOT_MENU = 0x50"

definition CEC_OP_FEAT_RC_SRC_HAS_DEV_SETUP_MENU :: u32 where
  [cec_const]: "CEC_OP_FEAT_RC_SRC_HAS_DEV_SETUP_MENU = 0x48"

definition CEC_OP_FEAT_RC_SRC_HAS_CONTENTS_MENU :: u32 where
  [cec_const]: "CEC_OP_FEAT_RC_SRC_HAS_CONTENTS_MENU = 0x44"

definition CEC_OP_FEAT_RC_SRC_HAS_MEDIA_TOP_MENU :: u32 where
  [cec_const]: "CEC_OP_FEAT_RC_SRC_HAS_MEDIA_TOP_MENU = 0x42"

definition CEC_OP_FEAT_RC_SRC_HAS_MEDIA_CONTEXT_MENU :: u32 where
  [cec_const]: "CEC_OP_FEAT_RC_SRC_HAS_MEDIA_CONTEXT_MENU = 0x41"

definition CEC_OP_FEAT_DEV_HAS_RECORD_TV_SCREEN :: u32 where
  [cec_const]: "CEC_OP_FEAT_DEV_HAS_RECORD_TV_SCREEN = 0x40"

definition CEC_OP_FEAT_DEV_HAS_SET_OSD_STRING :: u32 where
  [cec_const]: "CEC_OP_FEAT_DEV_HAS_SET_OSD_STRING = 0x20"

definition CEC_OP_FEAT_DEV_HAS_DECK_CONTROL :: u32 where
  [cec_const]: "CEC_OP_FEAT_DEV_HAS_DECK_CONTROL = 0x10"

definition CEC_OP_FEAT_DEV_HAS_SET_AUDIO_RATE :: u32 where
  [cec_const]: "CEC_OP_FEAT_DEV_HAS_SET_AUDIO_RATE = 0x08"

definition CEC_OP_FEAT_DEV_SINK_HAS_ARC_TX :: u32 where
  [cec_const]: "CEC_OP_FEAT_DEV_SINK_HAS_ARC_TX = 0x04"

definition CEC_OP_FEAT_DEV_SOURCE_HAS_ARC_RX :: u32 where
  [cec_const]: "CEC_OP_FEAT_DEV_SOURCE_HAS_ARC_RX = 0x02"

definition CEC_MSG_GIVE_FEATURES :: u32 where
  [cec_const]: "CEC_MSG_GIVE_FEATURES = 0xa5"

definition CEC_MSG_DECK_CONTROL :: u32 where
  [cec_const]: "CEC_MSG_DECK_CONTROL = 0x42"

definition CEC_OP_DECK_CTL_MODE_SKIP_FWD :: u32 where
  [cec_const]: "CEC_OP_DECK_CTL_MODE_SKIP_FWD = 1"

definition CEC_OP_DECK_CTL_MODE_SKIP_REV :: u32 where
  [cec_const]: "CEC_OP_DECK_CTL_MODE_SKIP_REV = 2"

definition CEC_OP_DECK_CTL_MODE_STOP :: u32 where
  [cec_const]: "CEC_OP_DECK_CTL_MODE_STOP = 3"

definition CEC_OP_DECK_CTL_MODE_EJECT :: u32 where
  [cec_const]: "CEC_OP_DECK_CTL_MODE_EJECT = 4"

definition CEC_MSG_DECK_STATUS :: u32 where
  [cec_const]: "CEC_MSG_DECK_STATUS = 0x1b"

definition CEC_OP_DECK_INFO_PLAY :: u32 where
  [cec_const]: "CEC_OP_DECK_INFO_PLAY = 0x11"

definition CEC_OP_DECK_INFO_RECORD :: u32 where
  [cec_const]: "CEC_OP_DECK_INFO_RECORD = 0x12"

definition CEC_OP_DECK_INFO_PLAY_REV :: u32 where
  [cec_const]: "CEC_OP_DECK_INFO_PLAY_REV = 0x13"

definition CEC_OP_DECK_INFO_STILL :: u32 where
  [cec_const]: "CEC_OP_DECK_INFO_STILL = 0x14"

definition CEC_OP_DECK_INFO_SLOW :: u32 where
  [cec_const]: "CEC_OP_DECK_INFO_SLOW = 0x15"

definition CEC_OP_DECK_INFO_SLOW_REV :: u32 where
  [cec_const]: "CEC_OP_DECK_INFO_SLOW_REV = 0x16"

definition CEC_OP_DECK_INFO_FAST_FWD :: u32 where
  [cec_const]: "CEC_OP_DECK_INFO_FAST_FWD = 0x17"

definition CEC_OP_DECK_INFO_FAST_REV :: u32 where
  [cec_const]: "CEC_OP_DECK_INFO_FAST_REV = 0x18"

definition CEC_OP_DECK_INFO_NO_MEDIA :: u32 where
  [cec_const]: "CEC_OP_DECK_INFO_NO_MEDIA = 0x19"

definition CEC_OP_DECK_INFO_STOP :: u32 where
  [cec_const]: "CEC_OP_DECK_INFO_STOP = 0x1a"

definition CEC_OP_DECK_INFO_SKIP_FWD :: u32 where
  [cec_const]: "CEC_OP_DECK_INFO_SKIP_FWD = 0x1b"

definition CEC_OP_DECK_INFO_SKIP_REV :: u32 where
  [cec_const]: "CEC_OP_DECK_INFO_SKIP_REV = 0x1c"

definition CEC_OP_DECK_INFO_INDEX_SEARCH_FWD :: u32 where
  [cec_const]: "CEC_OP_DECK_INFO_INDEX_SEARCH_FWD = 0x1d"

definition CEC_OP_DECK_INFO_INDEX_SEARCH_REV :: u32 where
  [cec_const]: "CEC_OP_DECK_INFO_INDEX_SEARCH_REV = 0x1e"

definition CEC_OP_DECK_INFO_OTHER :: u32 where
  [cec_const]: "CEC_OP_DECK_INFO_OTHER = 0x1f"

definition CEC_MSG_GIVE_DECK_STATUS :: u32 where
  [cec_const]: "CEC_MSG_GIVE_DECK_STATUS = 0x1a"

definition CEC_OP_STATUS_REQ_ON :: u32 where
  [cec_const]: "CEC_OP_STATUS_REQ_ON = 1"

definition CEC_OP_STATUS_REQ_OFF :: u32 where
  [cec_const]: "CEC_OP_STATUS_REQ_OFF = 2"

definition CEC_OP_STATUS_REQ_ONCE :: u32 where
  [cec_const]: "CEC_OP_STATUS_REQ_ONCE = 3"

definition CEC_MSG_PLAY :: u32 where
  [cec_const]: "CEC_MSG_PLAY = 0x41"

definition CEC_OP_PLAY_MODE_PLAY_FWD :: u32 where
  [cec_const]: "CEC_OP_PLAY_MODE_PLAY_FWD = 0x24"

definition CEC_OP_PLAY_MODE_PLAY_REV :: u32 where
  [cec_const]: "CEC_OP_PLAY_MODE_PLAY_REV = 0x20"

definition CEC_OP_PLAY_MODE_PLAY_STILL :: u32 where
  [cec_const]: "CEC_OP_PLAY_MODE_PLAY_STILL = 0x25"

definition CEC_OP_PLAY_MODE_PLAY_FAST_FWD_MIN :: u32 where
  [cec_const]: "CEC_OP_PLAY_MODE_PLAY_FAST_FWD_MIN = 0x05"

definition CEC_OP_PLAY_MODE_PLAY_FAST_FWD_MED :: u32 where
  [cec_const]: "CEC_OP_PLAY_MODE_PLAY_FAST_FWD_MED = 0x06"

definition CEC_OP_PLAY_MODE_PLAY_FAST_FWD_MAX :: u32 where
  [cec_const]: "CEC_OP_PLAY_MODE_PLAY_FAST_FWD_MAX = 0x07"

definition CEC_OP_PLAY_MODE_PLAY_FAST_REV_MIN :: u32 where
  [cec_const]: "CEC_OP_PLAY_MODE_PLAY_FAST_REV_MIN = 0x09"

definition CEC_OP_PLAY_MODE_PLAY_FAST_REV_MED :: u32 where
  [cec_const]: "CEC_OP_PLAY_MODE_PLAY_FAST_REV_MED = 0x0a"

definition CEC_OP_PLAY_MODE_PLAY_FAST_REV_MAX :: u32 where
  [cec_const]: "CEC_OP_PLAY_MODE_PLAY_FAST_REV_MAX = 0x0b"

definition CEC_OP_PLAY_MODE_PLAY_SLOW_FWD_MIN :: u32 where
  [cec_const]: "CEC_OP_PLAY_MODE_PLAY_SLOW_FWD_MIN = 0x15"

definition CEC_OP_PLAY_MODE_PLAY_SLOW_FWD_MED :: u32 where
  [cec_const]: "CEC_OP_PLAY_MODE_PLAY_SLOW_FWD_MED = 0x16"

definition CEC_OP_PLAY_MODE_PLAY_SLOW_FWD_MAX :: u32 where
  [cec_const]: "CEC_OP_PLAY_MODE_PLAY_SLOW_FWD_MAX = 0x17"

definition CEC_OP_PLAY_MODE_PLAY_SLOW_REV_MIN :: u32 where
  [cec_const]: "CEC_OP_PLAY_MODE_PLAY_SLOW_REV_MIN = 0x19"

definition CEC_OP_PLAY_MODE_PLAY_SLOW_REV_MED :: u32 where
  [cec_const]: "CEC_OP_PLAY_MODE_PLAY_SLOW_REV_MED = 0x1a"

definition CEC_OP_PLAY_MODE_PLAY_SLOW_REV_MAX :: u32 where
  [cec_const]: "CEC_OP_PLAY_MODE_PLAY_SLOW_REV_MAX = 0x1b"

definition CEC_MSG_GIVE_TUNER_DEVICE_STATUS :: u32 where
  [cec_const]: "CEC_MSG_GIVE_TUNER_DEVICE_STATUS = 0x08"

definition CEC_MSG_SELECT_ANALOGUE_SERVICE :: u32 where
  [cec_const]: "CEC_MSG_SELECT_ANALOGUE_SERVICE = 0x92"

definition CEC_MSG_SELECT_DIGITAL_SERVICE :: u32 where
  [cec_const]: "CEC_MSG_SELECT_DIGITAL_SERVICE = 0x93"

definition CEC_MSG_TUNER_DEVICE_STATUS :: u32 where
  [cec_const]: "CEC_MSG_TUNER_DEVICE_STATUS = 0x07"

definition CEC_OP_REC_FLAG_NOT_USED :: u32 where
  [cec_const]: "CEC_OP_REC_FLAG_NOT_USED = 0"

definition CEC_OP_REC_FLAG_USED :: u32 where
  [cec_const]: "CEC_OP_REC_FLAG_USED = 1"

definition CEC_OP_TUNER_DISPLAY_INFO_DIGITAL :: u32 where
  [cec_const]: "CEC_OP_TUNER_DISPLAY_INFO_DIGITAL = 0"

definition CEC_OP_TUNER_DISPLAY_INFO_NONE :: u32 where
  [cec_const]: "CEC_OP_TUNER_DISPLAY_INFO_NONE = 1"

definition CEC_OP_TUNER_DISPLAY_INFO_ANALOGUE :: u32 where
  [cec_const]: "CEC_OP_TUNER_DISPLAY_INFO_ANALOGUE = 2"

definition CEC_MSG_TUNER_STEP_DECREMENT :: u32 where
  [cec_const]: "CEC_MSG_TUNER_STEP_DECREMENT = 0x06"

definition CEC_MSG_TUNER_STEP_INCREMENT :: u32 where
  [cec_const]: "CEC_MSG_TUNER_STEP_INCREMENT = 0x05"

definition CEC_MSG_DEVICE_VENDOR_ID :: u32 where
  [cec_const]: "CEC_MSG_DEVICE_VENDOR_ID = 0x87"

definition CEC_MSG_GIVE_DEVICE_VENDOR_ID :: u32 where
  [cec_const]: "CEC_MSG_GIVE_DEVICE_VENDOR_ID = 0x8c"

definition CEC_MSG_VENDOR_COMMAND :: u32 where
  [cec_const]: "CEC_MSG_VENDOR_COMMAND = 0x89"

definition CEC_MSG_VENDOR_COMMAND_WITH_ID :: u32 where
  [cec_const]: "CEC_MSG_VENDOR_COMMAND_WITH_ID = 0xa0"

definition CEC_MSG_VENDOR_REMOTE_BUTTON_DOWN :: u32 where
  [cec_const]: "CEC_MSG_VENDOR_REMOTE_BUTTON_DOWN = 0x8a"

definition CEC_MSG_VENDOR_REMOTE_BUTTON_UP :: u32 where
  [cec_const]: "CEC_MSG_VENDOR_REMOTE_BUTTON_UP = 0x8b"

definition CEC_MSG_SET_OSD_STRING :: u32 where
  [cec_const]: "CEC_MSG_SET_OSD_STRING = 0x64"

definition CEC_OP_DISP_CTL_DEFAULT :: u32 where
  [cec_const]: "CEC_OP_DISP_CTL_DEFAULT = 0x00"

definition CEC_OP_DISP_CTL_UNTIL_CLEARED :: u32 where
  [cec_const]: "CEC_OP_DISP_CTL_UNTIL_CLEARED = 0x40"

definition CEC_OP_DISP_CTL_CLEAR :: u32 where
  [cec_const]: "CEC_OP_DISP_CTL_CLEAR = 0x80"

definition CEC_MSG_GIVE_OSD_NAME :: u32 where
  [cec_const]: "CEC_MSG_GIVE_OSD_NAME = 0x46"

definition CEC_MSG_SET_OSD_NAME :: u32 where
  [cec_const]: "CEC_MSG_SET_OSD_NAME = 0x47"

definition CEC_MSG_MENU_REQUEST :: u32 where
  [cec_const]: "CEC_MSG_MENU_REQUEST = 0x8d"

definition CEC_OP_MENU_REQUEST_ACTIVATE :: u32 where
  [cec_const]: "CEC_OP_MENU_REQUEST_ACTIVATE = 0x00"

definition CEC_OP_MENU_REQUEST_DEACTIVATE :: u32 where
  [cec_const]: "CEC_OP_MENU_REQUEST_DEACTIVATE = 0x01"

definition CEC_OP_MENU_REQUEST_QUERY :: u32 where
  [cec_const]: "CEC_OP_MENU_REQUEST_QUERY = 0x02"

definition CEC_MSG_MENU_STATUS :: u32 where
  [cec_const]: "CEC_MSG_MENU_STATUS = 0x8e"

definition CEC_OP_MENU_STATE_ACTIVATED :: u32 where
  [cec_const]: "CEC_OP_MENU_STATE_ACTIVATED = 0x00"

definition CEC_OP_MENU_STATE_DEACTIVATED :: u32 where
  [cec_const]: "CEC_OP_MENU_STATE_DEACTIVATED = 0x01"

definition CEC_MSG_USER_CONTROL_PRESSED :: u32 where
  [cec_const]: "CEC_MSG_USER_CONTROL_PRESSED = 0x44"

definition CEC_OP_UI_BCAST_TYPE_TOGGLE_ALL :: u32 where
  [cec_const]: "CEC_OP_UI_BCAST_TYPE_TOGGLE_ALL = 0x00"

definition CEC_OP_UI_BCAST_TYPE_TOGGLE_DIG_ANA :: u32 where
  [cec_const]: "CEC_OP_UI_BCAST_TYPE_TOGGLE_DIG_ANA = 0x01"

definition CEC_OP_UI_BCAST_TYPE_ANALOGUE :: u32 where
  [cec_const]: "CEC_OP_UI_BCAST_TYPE_ANALOGUE = 0x10"

definition CEC_OP_UI_BCAST_TYPE_ANALOGUE_T :: u32 where
  [cec_const]: "CEC_OP_UI_BCAST_TYPE_ANALOGUE_T = 0x20"

definition CEC_OP_UI_BCAST_TYPE_ANALOGUE_CABLE :: u32 where
  [cec_const]: "CEC_OP_UI_BCAST_TYPE_ANALOGUE_CABLE = 0x30"

definition CEC_OP_UI_BCAST_TYPE_ANALOGUE_SAT :: u32 where
  [cec_const]: "CEC_OP_UI_BCAST_TYPE_ANALOGUE_SAT = 0x40"

definition CEC_OP_UI_BCAST_TYPE_DIGITAL :: u32 where
  [cec_const]: "CEC_OP_UI_BCAST_TYPE_DIGITAL = 0x50"

definition CEC_OP_UI_BCAST_TYPE_DIGITAL_T :: u32 where
  [cec_const]: "CEC_OP_UI_BCAST_TYPE_DIGITAL_T = 0x60"

definition CEC_OP_UI_BCAST_TYPE_DIGITAL_CABLE :: u32 where
  [cec_const]: "CEC_OP_UI_BCAST_TYPE_DIGITAL_CABLE = 0x70"

definition CEC_OP_UI_BCAST_TYPE_DIGITAL_SAT :: u32 where
  [cec_const]: "CEC_OP_UI_BCAST_TYPE_DIGITAL_SAT = 0x80"

definition CEC_OP_UI_BCAST_TYPE_DIGITAL_COM_SAT :: u32 where
  [cec_const]: "CEC_OP_UI_BCAST_TYPE_DIGITAL_COM_SAT = 0x90"

definition CEC_OP_UI_BCAST_TYPE_DIGITAL_COM_SAT2 :: u32 where
  [cec_const]: "CEC_OP_UI_BCAST_TYPE_DIGITAL_COM_SAT2 = 0x91"

definition CEC_OP_UI_BCAST_TYPE_IP :: u32 where
  [cec_const]: "CEC_OP_UI_BCAST_TYPE_IP = 0xa0"

definition CEC_OP_UI_SND_PRES_CTL_DUAL_MONO :: u32 where
  [cec_const]: "CEC_OP_UI_SND_PRES_CTL_DUAL_MONO = 0x10"

definition CEC_OP_UI_SND_PRES_CTL_KARAOKE :: u32 where
  [cec_const]: "CEC_OP_UI_SND_PRES_CTL_KARAOKE = 0x20"

definition CEC_OP_UI_SND_PRES_CTL_DOWNMIX :: u32 where
  [cec_const]: "CEC_OP_UI_SND_PRES_CTL_DOWNMIX = 0x80"

definition CEC_OP_UI_SND_PRES_CTL_REVERB :: u32 where
  [cec_const]: "CEC_OP_UI_SND_PRES_CTL_REVERB = 0x90"

definition CEC_OP_UI_SND_PRES_CTL_EQUALIZER :: u32 where
  [cec_const]: "CEC_OP_UI_SND_PRES_CTL_EQUALIZER = 0xa0"

definition CEC_OP_UI_SND_PRES_CTL_BASS_UP :: u32 where
  [cec_const]: "CEC_OP_UI_SND_PRES_CTL_BASS_UP = 0xb1"

definition CEC_OP_UI_SND_PRES_CTL_BASS_NEUTRAL :: u32 where
  [cec_const]: "CEC_OP_UI_SND_PRES_CTL_BASS_NEUTRAL = 0xb2"

definition CEC_OP_UI_SND_PRES_CTL_BASS_DOWN :: u32 where
  [cec_const]: "CEC_OP_UI_SND_PRES_CTL_BASS_DOWN = 0xb3"

definition CEC_OP_UI_SND_PRES_CTL_TREBLE_UP :: u32 where
  [cec_const]: "CEC_OP_UI_SND_PRES_CTL_TREBLE_UP = 0xc1"

definition CEC_OP_UI_SND_PRES_CTL_TREBLE_NEUTRAL :: u32 where
  [cec_const]: "CEC_OP_UI_SND_PRES_CTL_TREBLE_NEUTRAL = 0xc2"

definition CEC_OP_UI_SND_PRES_CTL_TREBLE_DOWN :: u32 where
  [cec_const]: "CEC_OP_UI_SND_PRES_CTL_TREBLE_DOWN = 0xc3"

definition CEC_MSG_USER_CONTROL_RELEASED :: u32 where
  [cec_const]: "CEC_MSG_USER_CONTROL_RELEASED = 0x45"

definition CEC_MSG_GIVE_DEVICE_POWER_STATUS :: u32 where
  [cec_const]: "CEC_MSG_GIVE_DEVICE_POWER_STATUS = 0x8f"

definition CEC_MSG_REPORT_POWER_STATUS :: u32 where
  [cec_const]: "CEC_MSG_REPORT_POWER_STATUS = 0x90"

definition CEC_OP_POWER_STATUS_ON :: u32 where
  [cec_const]: "CEC_OP_POWER_STATUS_ON = 0"

definition CEC_OP_POWER_STATUS_STANDBY :: u32 where
  [cec_const]: "CEC_OP_POWER_STATUS_STANDBY = 1"

definition CEC_OP_POWER_STATUS_TO_ON :: u32 where
  [cec_const]: "CEC_OP_POWER_STATUS_TO_ON = 2"

definition CEC_OP_POWER_STATUS_TO_STANDBY :: u32 where
  [cec_const]: "CEC_OP_POWER_STATUS_TO_STANDBY = 3"

definition CEC_MSG_FEATURE_ABORT :: u32 where
  [cec_const]: "CEC_MSG_FEATURE_ABORT = 0x00"

definition CEC_OP_ABORT_UNRECOGNIZED_OP :: u32 where
  [cec_const]: "CEC_OP_ABORT_UNRECOGNIZED_OP = 0"

definition CEC_OP_ABORT_INCORRECT_MODE :: u32 where
  [cec_const]: "CEC_OP_ABORT_INCORRECT_MODE = 1"

definition CEC_OP_ABORT_NO_SOURCE :: u32 where
  [cec_const]: "CEC_OP_ABORT_NO_SOURCE = 2"

definition CEC_OP_ABORT_INVALID_OP :: u32 where
  [cec_const]: "CEC_OP_ABORT_INVALID_OP = 3"

definition CEC_OP_ABORT_REFUSED :: u32 where
  [cec_const]: "CEC_OP_ABORT_REFUSED = 4"

definition CEC_OP_ABORT_UNDETERMINED :: u32 where
  [cec_const]: "CEC_OP_ABORT_UNDETERMINED = 5"

definition CEC_MSG_ABORT :: u32 where
  [cec_const]: "CEC_MSG_ABORT = 0xff"

definition CEC_MSG_GIVE_AUDIO_STATUS :: u32 where
  [cec_const]: "CEC_MSG_GIVE_AUDIO_STATUS = 0x71"

definition CEC_MSG_GIVE_SYSTEM_AUDIO_MODE_STATUS :: u32 where
  [cec_const]: "CEC_MSG_GIVE_SYSTEM_AUDIO_MODE_STATUS = 0x7d"

definition CEC_MSG_REPORT_AUDIO_STATUS :: u32 where
  [cec_const]: "CEC_MSG_REPORT_AUDIO_STATUS = 0x7a"

definition CEC_OP_AUD_MUTE_STATUS_OFF :: u32 where
  [cec_const]: "CEC_OP_AUD_MUTE_STATUS_OFF = 0"

definition CEC_OP_AUD_MUTE_STATUS_ON :: u32 where
  [cec_const]: "CEC_OP_AUD_MUTE_STATUS_ON = 1"

definition CEC_MSG_REPORT_SHORT_AUDIO_DESCRIPTOR :: u32 where
  [cec_const]: "CEC_MSG_REPORT_SHORT_AUDIO_DESCRIPTOR = 0xa3"

definition CEC_MSG_REQUEST_SHORT_AUDIO_DESCRIPTOR :: u32 where
  [cec_const]: "CEC_MSG_REQUEST_SHORT_AUDIO_DESCRIPTOR = 0xa4"

definition CEC_MSG_SET_SYSTEM_AUDIO_MODE :: u32 where
  [cec_const]: "CEC_MSG_SET_SYSTEM_AUDIO_MODE = 0x72"

definition CEC_OP_SYS_AUD_STATUS_OFF :: u32 where
  [cec_const]: "CEC_OP_SYS_AUD_STATUS_OFF = 0"

definition CEC_OP_SYS_AUD_STATUS_ON :: u32 where
  [cec_const]: "CEC_OP_SYS_AUD_STATUS_ON = 1"

definition CEC_MSG_SYSTEM_AUDIO_MODE_REQUEST :: u32 where
  [cec_const]: "CEC_MSG_SYSTEM_AUDIO_MODE_REQUEST = 0x70"

definition CEC_MSG_SYSTEM_AUDIO_MODE_STATUS :: u32 where
  [cec_const]: "CEC_MSG_SYSTEM_AUDIO_MODE_STATUS = 0x7e"

definition CEC_OP_AUD_FMT_ID_CEA861 :: u32 where
  [cec_const]: "CEC_OP_AUD_FMT_ID_CEA861 = 0"

definition CEC_OP_AUD_FMT_ID_CEA861_CXT :: u32 where
  [cec_const]: "CEC_OP_AUD_FMT_ID_CEA861_CXT = 1"

definition CEC_MSG_SET_AUDIO_RATE :: u32 where
  [cec_const]: "CEC_MSG_SET_AUDIO_RATE = 0x9a"

definition CEC_OP_AUD_RATE_OFF :: u32 where
  [cec_const]: "CEC_OP_AUD_RATE_OFF = 0"

definition CEC_OP_AUD_RATE_WIDE_STD :: u32 where
  [cec_const]: "CEC_OP_AUD_RATE_WIDE_STD = 1"

definition CEC_OP_AUD_RATE_WIDE_FAST :: u32 where
  [cec_const]: "CEC_OP_AUD_RATE_WIDE_FAST = 2"

definition CEC_OP_AUD_RATE_WIDE_SLOW :: u32 where
  [cec_const]: "CEC_OP_AUD_RATE_WIDE_SLOW = 3"

definition CEC_OP_AUD_RATE_NARROW_STD :: u32 where
  [cec_const]: "CEC_OP_AUD_RATE_NARROW_STD = 4"

definition CEC_OP_AUD_RATE_NARROW_FAST :: u32 where
  [cec_const]: "CEC_OP_AUD_RATE_NARROW_FAST = 5"

definition CEC_OP_AUD_RATE_NARROW_SLOW :: u32 where
  [cec_const]: "CEC_OP_AUD_RATE_NARROW_SLOW = 6"

definition CEC_MSG_INITIATE_ARC :: u32 where
  [cec_const]: "CEC_MSG_INITIATE_ARC = 0xc0"

definition CEC_MSG_REPORT_ARC_INITIATED :: u32 where
  [cec_const]: "CEC_MSG_REPORT_ARC_INITIATED = 0xc1"

definition CEC_MSG_REPORT_ARC_TERMINATED :: u32 where
  [cec_const]: "CEC_MSG_REPORT_ARC_TERMINATED = 0xc2"

definition CEC_MSG_REQUEST_ARC_INITIATION :: u32 where
  [cec_const]: "CEC_MSG_REQUEST_ARC_INITIATION = 0xc3"

definition CEC_MSG_REQUEST_ARC_TERMINATION :: u32 where
  [cec_const]: "CEC_MSG_REQUEST_ARC_TERMINATION = 0xc4"

definition CEC_MSG_TERMINATE_ARC :: u32 where
  [cec_const]: "CEC_MSG_TERMINATE_ARC = 0xc5"

definition CEC_MSG_REQUEST_CURRENT_LATENCY :: u32 where
  [cec_const]: "CEC_MSG_REQUEST_CURRENT_LATENCY = 0xa7"

definition CEC_MSG_REPORT_CURRENT_LATENCY :: u32 where
  [cec_const]: "CEC_MSG_REPORT_CURRENT_LATENCY = 0xa8"

definition CEC_OP_LOW_LATENCY_MODE_OFF :: u32 where
  [cec_const]: "CEC_OP_LOW_LATENCY_MODE_OFF = 0"

definition CEC_OP_LOW_LATENCY_MODE_ON :: u32 where
  [cec_const]: "CEC_OP_LOW_LATENCY_MODE_ON = 1"

definition CEC_OP_AUD_OUT_COMPENSATED_NA :: u32 where
  [cec_const]: "CEC_OP_AUD_OUT_COMPENSATED_NA = 0"

definition CEC_OP_AUD_OUT_COMPENSATED_DELAY :: u32 where
  [cec_const]: "CEC_OP_AUD_OUT_COMPENSATED_DELAY = 1"

definition CEC_OP_AUD_OUT_COMPENSATED_NO_DELAY :: u32 where
  [cec_const]: "CEC_OP_AUD_OUT_COMPENSATED_NO_DELAY = 2"

definition CEC_OP_AUD_OUT_COMPENSATED_PARTIAL_DELAY :: u32 where
  [cec_const]: "CEC_OP_AUD_OUT_COMPENSATED_PARTIAL_DELAY = 3"

definition CEC_MSG_CDC_MESSAGE :: u32 where
  [cec_const]: "CEC_MSG_CDC_MESSAGE = 0xf8"

definition CEC_MSG_CDC_HEC_INQUIRE_STATE :: u32 where
  [cec_const]: "CEC_MSG_CDC_HEC_INQUIRE_STATE = 0x00"

definition CEC_MSG_CDC_HEC_REPORT_STATE :: u32 where
  [cec_const]: "CEC_MSG_CDC_HEC_REPORT_STATE = 0x01"

definition CEC_OP_HEC_FUNC_STATE_NOT_SUPPORTED :: u32 where
  [cec_const]: "CEC_OP_HEC_FUNC_STATE_NOT_SUPPORTED = 0"

definition CEC_OP_HEC_FUNC_STATE_INACTIVE :: u32 where
  [cec_const]: "CEC_OP_HEC_FUNC_STATE_INACTIVE = 1"

definition CEC_OP_HEC_FUNC_STATE_ACTIVE :: u32 where
  [cec_const]: "CEC_OP_HEC_FUNC_STATE_ACTIVE = 2"

definition CEC_OP_HEC_FUNC_STATE_ACTIVATION_FIELD :: u32 where
  [cec_const]: "CEC_OP_HEC_FUNC_STATE_ACTIVATION_FIELD = 3"

definition CEC_OP_HOST_FUNC_STATE_NOT_SUPPORTED :: u32 where
  [cec_const]: "CEC_OP_HOST_FUNC_STATE_NOT_SUPPORTED = 0"

definition CEC_OP_HOST_FUNC_STATE_INACTIVE :: u32 where
  [cec_const]: "CEC_OP_HOST_FUNC_STATE_INACTIVE = 1"

definition CEC_OP_HOST_FUNC_STATE_ACTIVE :: u32 where
  [cec_const]: "CEC_OP_HOST_FUNC_STATE_ACTIVE = 2"

definition CEC_OP_ENC_FUNC_STATE_EXT_CON_NOT_SUPPORTED :: u32 where
  [cec_const]: "CEC_OP_ENC_FUNC_STATE_EXT_CON_NOT_SUPPORTED = 0"

definition CEC_OP_ENC_FUNC_STATE_EXT_CON_INACTIVE :: u32 where
  [cec_const]: "CEC_OP_ENC_FUNC_STATE_EXT_CON_INACTIVE = 1"

definition CEC_OP_ENC_FUNC_STATE_EXT_CON_ACTIVE :: u32 where
  [cec_const]: "CEC_OP_ENC_FUNC_STATE_EXT_CON_ACTIVE = 2"

definition CEC_OP_CDC_ERROR_CODE_NONE :: u32 where
  [cec_const]: "CEC_OP_CDC_ERROR_CODE_NONE = 0"

definition CEC_OP_CDC_ERROR_CODE_CAP_UNSUPPORTED :: u32 where
  [cec_const]: "CEC_OP_CDC_ERROR_CODE_CAP_UNSUPPORTED = 1"

definition CEC_OP_CDC_ERROR_CODE_WRONG_STATE :: u32 where
  [cec_const]: "CEC_OP_CDC_ERROR_CODE_WRONG_STATE = 2"

definition CEC_OP_CDC_ERROR_CODE_OTHER :: u32 where
  [cec_const]: "CEC_OP_CDC_ERROR_CODE_OTHER = 3"

definition CEC_OP_HEC_SUPPORT_NO :: u32 where
  [cec_const]: "CEC_OP_HEC_SUPPORT_NO = 0"

definition CEC_OP_HEC_SUPPORT_YES :: u32 where
  [cec_const]: "CEC_OP_HEC_SUPPORT_YES = 1"

definition CEC_OP_HEC_ACTIVATION_ON :: u32 where
  [cec_const]: "CEC_OP_HEC_ACTIVATION_ON = 0"

definition CEC_OP_HEC_ACTIVATION_OFF :: u32 where
  [cec_const]: "CEC_OP_HEC_ACTIVATION_OFF = 1"

definition CEC_MSG_CDC_HEC_SET_STATE_ADJACENT :: u32 where
  [cec_const]: "CEC_MSG_CDC_HEC_SET_STATE_ADJACENT = 0x02"

definition CEC_MSG_CDC_HEC_SET_STATE :: u32 where
  [cec_const]: "CEC_MSG_CDC_HEC_SET_STATE = 0x03"

definition CEC_OP_HEC_SET_STATE_DEACTIVATE :: u32 where
  [cec_const]: "CEC_OP_HEC_SET_STATE_DEACTIVATE = 0"

definition CEC_OP_HEC_SET_STATE_ACTIVATE :: u32 where
  [cec_const]: "CEC_OP_HEC_SET_STATE_ACTIVATE = 1"

definition CEC_MSG_CDC_HEC_REQUEST_DEACTIVATION :: u32 where
  [cec_const]: "CEC_MSG_CDC_HEC_REQUEST_DEACTIVATION = 0x04"

definition CEC_MSG_CDC_HEC_NOTIFY_ALIVE :: u32 where
  [cec_const]: "CEC_MSG_CDC_HEC_NOTIFY_ALIVE = 0x05"

definition CEC_MSG_CDC_HEC_DISCOVER :: u32 where
  [cec_const]: "CEC_MSG_CDC_HEC_DISCOVER = 0x06"

definition CEC_MSG_CDC_HPD_SET_STATE :: u32 where
  [cec_const]: "CEC_MSG_CDC_HPD_SET_STATE = 0x10"

definition CEC_OP_HPD_STATE_CP_EDID_DISABLE :: u32 where
  [cec_const]: "CEC_OP_HPD_STATE_CP_EDID_DISABLE = 0"

definition CEC_OP_HPD_STATE_CP_EDID_ENABLE :: u32 where
  [cec_const]: "CEC_OP_HPD_STATE_CP_EDID_ENABLE = 1"

definition CEC_OP_HPD_STATE_CP_EDID_DISABLE_ENABLE :: u32 where
  [cec_const]: "CEC_OP_HPD_STATE_CP_EDID_DISABLE_ENABLE = 2"

definition CEC_OP_HPD_STATE_EDID_DISABLE :: u32 where
  [cec_const]: "CEC_OP_HPD_STATE_EDID_DISABLE = 3"

definition CEC_OP_HPD_STATE_EDID_ENABLE :: u32 where
  [cec_const]: "CEC_OP_HPD_STATE_EDID_ENABLE = 4"

definition CEC_OP_HPD_STATE_EDID_DISABLE_ENABLE :: u32 where
  [cec_const]: "CEC_OP_HPD_STATE_EDID_DISABLE_ENABLE = 5"

definition CEC_MSG_CDC_HPD_REPORT_STATE :: u32 where
  [cec_const]: "CEC_MSG_CDC_HPD_REPORT_STATE = 0x11"

definition CEC_OP_HPD_ERROR_NONE :: u32 where
  [cec_const]: "CEC_OP_HPD_ERROR_NONE = 0"

definition CEC_OP_HPD_ERROR_INITIATOR_NOT_CAPABLE :: u32 where
  [cec_const]: "CEC_OP_HPD_ERROR_INITIATOR_NOT_CAPABLE = 1"

definition CEC_OP_HPD_ERROR_INITIATOR_WRONG_STATE :: u32 where
  [cec_const]: "CEC_OP_HPD_ERROR_INITIATOR_WRONG_STATE = 2"

definition CEC_OP_HPD_ERROR_OTHER :: u32 where
  [cec_const]: "CEC_OP_HPD_ERROR_OTHER = 3"

definition CEC_OP_HPD_ERROR_NONE_NO_VIDEO :: u32 where
  [cec_const]: "CEC_OP_HPD_ERROR_NONE_NO_VIDEO = 4"

definition cec_is_2nd_tv :: "cec_log_addrs \<Rightarrow> bool" where
  "cec_is_2nd_tv las \<longleftrightarrow> la_num_log_addrs las \<noteq> 0 \<and>
    prom (la_log_addr las ! 0) \<ge> CEC_LOG_ADDR_SPECIFIC \<and>
    prom (la_primary_device_type las ! 0) = CEC_OP_PRIM_DEVTYPE_TV"

definition cec_is_processor :: "cec_log_addrs \<Rightarrow> bool" where
  "cec_is_processor las \<longleftrightarrow> la_num_log_addrs las \<noteq> 0 \<and>
    prom (la_log_addr las ! 0) \<ge> CEC_LOG_ADDR_BACKUP_1 \<and>
    prom (la_primary_device_type las ! 0) = CEC_OP_PRIM_DEVTYPE_PROCESSOR"

definition cec_is_switch :: "cec_log_addrs \<Rightarrow> bool" where
  "cec_is_switch las \<longleftrightarrow> la_num_log_addrs las = 1 \<and>
    prom (la_log_addr las ! 0) = CEC_LOG_ADDR_UNREGISTERED \<and>
    prom (la_primary_device_type las ! 0) = CEC_OP_PRIM_DEVTYPE_SWITCH \<and>
    \<not> (la_flags las AND CEC_LOG_ADDRS_FL_CDC_ONLY \<noteq> 0)"

definition cec_is_cdc_only :: "cec_log_addrs \<Rightarrow> bool" where
  "cec_is_cdc_only las \<longleftrightarrow> la_num_log_addrs las = 1 \<and>
    prom (la_log_addr las ! 0) = CEC_LOG_ADDR_UNREGISTERED \<and>
    prom (la_primary_device_type las ! 0) = CEC_OP_PRIM_DEVTYPE_SWITCH \<and>
    la_flags las AND CEC_LOG_ADDRS_FL_CDC_ONLY \<noteq> 0"

subsection \<open>Bytes of a message\<close>

text \<open>The payload array has its declared size, which every store keeps.\<close>

definition msg_ok :: "cec_msg \<Rightarrow> bool" where
  "msg_ok msg \<longleftrightarrow> length (cm_msg msg) = CEC_MAX_MSG_SIZE"

lemma msg_ok_length: "msg_ok msg \<Longrightarrow> length (cm_msg msg) = 16"
  by (simp add: msg_ok_def cec_const)

lemma msg_ok_update [cec_byte]:
  "msg_ok (put i v msg) = msg_ok msg" "msg_ok (msg\<lparr>cm_len := n\<rparr>) = msg_ok msg"
  "msg_ok (msg\<lparr>cm_reply := r\<rparr>) = msg_ok msg" "msg_ok (msg\<lparr>cm_timeout := n\<rparr>) = msg_ok msg"
  "length bytes = length (cm_msg msg) \<Longrightarrow> msg_ok (msg\<lparr>cm_msg := bytes\<rparr>) = msg_ok msg"
  by (simp_all add: msg_ok_def put_def)

lemma put_fields [cec_byte]:
  "cm_len (put i v msg) = cm_len msg" "cm_reply (put i v msg) = cm_reply msg"
  "length (cm_msg (put i v msg)) = length (cm_msg msg)"
  by (simp_all add: put_def)

lemma byte_at_put [cec_byte]:
  "msg_ok msg \<Longrightarrow> i < 16 \<Longrightarrow> byte_at (put j v msg) i = (if i = j then v else byte_at msg i)"
  by (auto simp: byte_at_def put_def msg_ok_length)

lemma byte_at_fields [cec_byte]:
  "byte_at (msg\<lparr>cm_len := n\<rparr>) i = byte_at msg i" "byte_at (msg\<lparr>cm_reply := r\<rparr>) i = byte_at msg i"
  "byte_at (msg\<lparr>cm_timeout := n\<rparr>) i = byte_at msg i" "byte_at (msg\<lparr>cm_msg := bytes\<rparr>) i = bytes ! i"
  by (simp_all add: byte_at_def)

lemma nth_cm_msg: "cm_msg msg ! i = byte_at msg i"
  by (simp add: byte_at_def)

lemma msg_append_simps [cec_byte]:
  "msg_ok (msg_append v msg) = msg_ok msg" "cm_len (msg_append v msg) = cm_len msg + 1"
  "msg_ok msg \<Longrightarrow> i < 16 \<Longrightarrow> byte_at (msg_append v msg) i = (if i = unat (cm_len msg) then v else byte_at msg i)"
  by (simp_all add: msg_append_def msg_ok_update put_fields byte_at_fields byte_at_put)

lemma zeroed_ok [cec_byte]: "msg_ok zeroed" "cm_len zeroed = 0" "i < 16 \<Longrightarrow> byte_at zeroed i = 0"
  by (simp_all add: zeroed_def msg_ok_def byte_at_def cec_const)

subsection \<open>Encoders and decoders\<close>

text \<open>
  The contract of a pair of message functions: the encoder keeps the payload array, and the decoder
  reads back what was encoded, whatever the message held before.
\<close>

locale message_codec =
  fixes build :: "cec_msg \<Rightarrow> 'a \<Rightarrow> cec_msg"
    and parse :: "cec_msg \<Rightarrow> 'a"
    and valid :: "'a \<Rightarrow> bool"
  assumes build_ok: "msg_ok m \<Longrightarrow> msg_ok (build m a)"
    and parse_build: "msg_ok m \<Longrightarrow> valid a \<Longrightarrow> parse (build m a) = a"
begin

lemma build_inject:
  assumes "build m a = build m' b" and "msg_ok m" "msg_ok m'" and "valid a" "valid b"
  shows "a = b"
  using assms parse_build [of m a] parse_build [of m' b] by simp

lemma rebuild:
  assumes "msg_ok m" and "valid b"
  shows "parse (build (build m a) b) = b"
  using assms by (simp add: build_ok parse_build)

end

subsection \<open>Initialising and answering\<close>

lemma nibbles:
  fixes a b :: u8
  assumes "a < 16" and "b < 16"
  shows "lo8 (drop_bit 4 (prom (lo8 (push_bit 4 (prom a) OR prom b)))) = a"
    and "lo8 (take_bit 4 (prom (lo8 (push_bit 4 (prom a) OR prom b)))) = b"
  using assms by (simp_all add: high_field low_field)

lemma address_bounds: "cec_msg_initiator msg < 16" "cec_msg_destination msg < 16"
proof -
  have "unat (lo8 (drop_bit 4 (prom x))) < 16" "unat (lo8 (take_bit 4 (prom x))) < 16" for x :: u8
  proof -
    have "lo8 (drop_bit 4 (prom x)) = drop_bit 4 x" "lo8 (take_bit 4 (prom x)) = take_bit 4 x"
      by (rule bit_word_eqI; auto simp: c_convert_defs bit_simps)+
    then show "unat (lo8 (drop_bit 4 (prom x))) < 16" "unat (lo8 (take_bit 4 (prom x))) < 16"
      using unat_u8 [of x] by (simp_all add: drop_bit_eq_div take_bit_eq_mod unat_div unat_mod)
  qed
  then show "cec_msg_initiator msg < 16" "cec_msg_destination msg < 16"
    by (simp_all add: cec_msg_initiator_def cec_msg_destination_def word_less_nat_alt c_masks)
qed

lemma is_broadcast_iff: "cec_msg_is_broadcast msg \<longleftrightarrow> cec_msg_destination msg = 15"
proof -
  have "prom (lo8 (take_bit 4 (prom x))) = take_bit 4 (prom x)" for x :: u8
    by (rule bit_word_eqI) (auto simp: c_convert_defs bit_simps)
  moreover have "prom (15 :: u8) = 15" "lo8 15 = 15" by (simp_all add: c_convert_defs)
  ultimately show ?thesis
    unfolding cec_msg_is_broadcast_def cec_msg_destination_def c_masks by metis
qed

lemma init_bytes:
  "msg_ok (cec_msg_init msg i d)" "cm_len (cec_msg_init msg i d) = 1"
  "byte_at (cec_msg_init msg i d) 0 = lo8 (push_bit 4 (prom i) OR prom d)"
  by (simp_all add: cec_msg_init_def cec_byte Let_def)

lemma reply_to_bytes [cec_byte]:
  "msg_ok (cec_msg_set_reply_to msg orig) = msg_ok msg"
  "msg_ok msg \<Longrightarrow> byte_at (cec_msg_set_reply_to msg orig) 0 =
    lo8 (push_bit 4 (prom (cec_msg_destination orig)) OR prom (cec_msg_initiator orig))"
  "msg_ok msg \<Longrightarrow> 0 < i \<Longrightarrow> i < 16 \<Longrightarrow> byte_at (cec_msg_set_reply_to msg orig) i = byte_at msg i"
  "cm_reply (cec_msg_set_reply_to msg orig) = 0" "cm_timeout (cec_msg_set_reply_to msg orig) = 0"
  by (simp_all add: cec_msg_set_reply_to_def cec_byte Let_def)

lemma addresses_of_byte:
  assumes "byte_at m 0 = lo8 (push_bit 4 (prom i) OR prom d)" and "i < 16" "d < 16"
  shows "cec_msg_initiator m = i" and "cec_msg_destination m = d"
  using assms by (simp_all add: cec_msg_initiator_def cec_msg_destination_def c_masks nibbles)

text \<open>
  A fresh message and a reply to it are addressed correctly: after initialisation the initiator and
  destination read back, the message is a poll without opcode, and it is a broadcast exactly for
  destination 15; the reply, also when it is built in place, swaps the two and asks for no reply.
\<close>
theorem addressing_round_trip:
  fixes junk r :: cec_msg
  assumes "initiator < 16" and "destination < 16" and "msg_ok r"
  defines "m \<equiv> cec_msg_init junk initiator destination"
  shows "msg_ok m \<and> cec_msg_initiator m = initiator \<and> cec_msg_destination m = destination \<and>
    cec_msg_opcode m = - 1 \<and> cec_msg_is_broadcast m = (destination = 15) \<and>
    cec_msg_initiator (cec_msg_set_reply_to r m) = destination \<and>
    cec_msg_destination (cec_msg_set_reply_to r m) = initiator \<and>
    cec_msg_initiator (cec_msg_set_reply_to m m) = destination \<and>
    cec_msg_destination (cec_msg_set_reply_to m m) = initiator \<and>
    cm_reply (cec_msg_set_reply_to r m) = 0 \<and> cm_timeout (cec_msg_set_reply_to r m) = 0"
proof -
  note m = init_bytes [of junk initiator destination, folded m_def]
  note addr = addresses_of_byte [OF m(3) assms(1,2)]
  have reply: "cec_msg_initiator (cec_msg_set_reply_to r' m) = destination"
      "cec_msg_destination (cec_msg_set_reply_to r' m) = initiator" if "msg_ok r'" for r'
    using addresses_of_byte [OF reply_to_bytes(2) [OF that]] assms(1,2) by (simp_all add: addr)
  show ?thesis
    using m addr reply [OF assms(3)] reply [OF m(1)]
    by (simp add: cec_msg_opcode_def is_broadcast_iff reply_to_bytes)
qed

theorem addressing_round_trip_witness:
  "cec_msg_initiator (cec_msg_set_reply_to zeroed (cec_msg_init zeroed 4 15)) = 15 \<and>
   cec_msg_destination (cec_msg_set_reply_to zeroed (cec_msg_init zeroed 4 15)) = 4 \<and>
   cec_msg_is_broadcast (cec_msg_init zeroed 4 15)"
  using addressing_round_trip [of 4 15 zeroed zeroed] by (simp add: cec_byte)

text \<open>
  When a message counts as delivered: exactly when it was transmitted or received, every direction
  that reports a status reports success, and the answer is not a feature abort.
\<close>

theorem status_is_ok_iff:
  "cec_msg_status_is_ok msg \<longleftrightarrow>
    \<not> (cm_tx_status msg = 0 \<and> cm_rx_status msg = 0) \<and> (cm_tx_status msg = 0 \<or> bit (cm_tx_status msg) 0) \<and>
    (cm_rx_status msg = 0 \<or> bit (cm_rx_status msg) 0 \<and> \<not> bit (cm_rx_status msg) 2)"
proof -
  have flag: "prom (x :: u8) AND push_bit n 1 \<noteq> 0 \<longleftrightarrow> bit x n" if "n < 8" for x n
    using that by (simp add: prom_def push_bit_of_1 and_exp_eq_0_iff_not_bit bit_simps )
  show ?thesis
    using flag [of 0] flag [of 2] by (auto simp: cec_msg_status_is_ok_def cec_const)
qed

text \<open>
  The special devices exclude each other: no claimed address is at once a second television, a
  processor, a switch and a device for capability discovery only; the two unregistered kinds are told
  apart by the flag alone.
\<close>

theorem special_devices_exclusive:
  "\<not> (cec_is_2nd_tv las \<and> cec_is_processor las) \<and> \<not> (cec_is_2nd_tv las \<and> (cec_is_switch las \<or> cec_is_cdc_only las)) \<and>
   \<not> (cec_is_processor las \<and> (cec_is_switch las \<or> cec_is_cdc_only las)) \<and> \<not> (cec_is_switch las \<and> cec_is_cdc_only las)"
  by (auto simp: cec_is_2nd_tv_def cec_is_processor_def cec_is_switch_def cec_is_cdc_only_def cec_const)

end
