(* ===== verification/CEC_Recording.thy ===== *)
theory CEC_Recording
  imports CEC_Header
begin

unbundle bit_operations_syntax

text \<open>
  \<open>linux/cec-funcs.h\<close>, first part: One Touch Play, Routing Control, Standby, One Touch Record and
  Timer Programming. Every inline function is one definition, its assignments in source order as
  successive bindings of \<open>msg\<close>; a \<open>cec_ops\<close> function returns the tuple of its output arguments, and takes
  the old contents of a structure or buffer it only partly writes.
\<close>

named_theorems cec_fun \<open>the message functions\<close>

subsection \<open>One Touch Play Feature\<close>

definition cec_msg_active_source :: "cec_msg \<Rightarrow> u16 \<Rightarrow> cec_msg" where
  [cec_fun]: "cec_msg_active_source msg phys_addr =
    (let msg = msg\<lparr>cm_len := 4\<rparr>;
         msg = put 0 (lo8 (prom (byte_at msg 0) OR 0xf)) msg;
         msg = put 1 (lo8 CEC_MSG_ACTIVE_SOURCE) msg;
         msg = put 2 (lo8 (drop_bit 8 (prom phys_addr))) msg;
         msg = put 3 (lo8 (prom phys_addr AND 0xff)) msg
     in msg)"

definition cec_ops_active_source :: "cec_msg \<Rightarrow> u16" where
  [cec_fun]: "cec_ops_active_source msg = lo16 (push_bit 8 (prom (byte_at msg 2)) OR prom (byte_at msg 3))"

definition cec_msg_image_view_on :: "cec_msg \<Rightarrow> cec_msg" where
  [cec_fun]: "cec_msg_image_view_on msg =
    (let msg = msg\<lparr>cm_len := 2\<rparr>;
         msg = put 1 (lo8 CEC_MSG_IMAGE_VIEW_ON) msg
     in msg)"

definition cec_msg_text_view_on :: "cec_msg \<Rightarrow> cec_msg" where
  [cec_fun]: "cec_msg_text_view_on msg =
    (let msg = msg\<lparr>cm_len := 2\<rparr>;
         msg = put 1 (lo8 CEC_MSG_TEXT_VIEW_ON) msg
     in msg)"

subsection \<open>Routing Control Feature\<close>

definition cec_msg_inactive_source :: "cec_msg \<Rightarrow> u16 \<Rightarrow> cec_msg" where
  [cec_fun]: "cec_msg_inactive_source msg phys_addr =
    (let msg = msg\<lparr>cm_len := 4\<rparr>;
         msg = put 1 (lo8 CEC_MSG_INACTIVE_SOURCE) msg;
         msg = put 2 (lo8 (drop_bit 8 (prom phys_addr))) msg;
         msg = put 3 (lo8 (prom phys_addr AND 0xff)) msg
     in msg)"

definition cec_ops_inactive_source :: "cec_msg \<Rightarrow> u16" where
  [cec_fun]: "cec_ops_inactive_source msg = lo16 (push_bit 8 (prom (byte_at msg 2)) OR prom (byte_at msg 3))"

definition cec_msg_request_active_source :: "cec_msg \<Rightarrow> u32 \<Rightarrow> cec_msg" where
  [cec_fun]: "cec_msg_request_active_source msg reply =
    (let msg = msg\<lparr>cm_len := 2\<rparr>;
         msg = put 0 (lo8 (prom (byte_at msg 0) OR 0xf)) msg;
         msg = put 1 (lo8 CEC_MSG_REQUEST_ACTIVE_SOURCE) msg;
         msg = msg\<lparr>cm_reply := lo8 (if reply \<noteq> 0 then CEC_MSG_ACTIVE_SOURCE else 0)\<rparr>
     in msg)"

definition cec_msg_routing_information :: "cec_msg \<Rightarrow> u16 \<Rightarrow> cec_msg" where
  [cec_fun]: "cec_msg_routing_information msg phys_addr =
    (let msg = msg\<lparr>cm_len := 4\<rparr>;
         msg = put 0 (lo8 (prom (byte_at msg 0) OR 0xf)) msg;
         msg = put 1 (lo8 CEC_MSG_ROUTING_INFORMATION) msg;
         msg = put 2 (lo8 (drop_bit 8 (prom phys_addr))) msg;
         msg = put 3 (lo8 (prom phys_addr AND 0xff)) msg
     in msg)"

definition cec_ops_routing_information :: "cec_msg \<Rightarrow> u16" where
  [cec_fun]: "cec_ops_routing_information msg = lo16 (push_bit 8 (prom (byte_at msg 2)) OR prom (byte_at msg 3))"

definition cec_msg_routing_change ::
  "cec_msg \<Rightarrow> u32 \<Rightarrow> u16 \<Rightarrow> u16 \<Rightarrow> cec_msg" where
  [cec_fun]: "cec_msg_routing_change msg reply orig_phys_addr new_phys_addr =
    (let msg = msg\<lparr>cm_len := 6\<rparr>;
         msg = put 0 (lo8 (prom (byte_at msg 0) OR 0xf)) msg;
         msg = put 1 (lo8 CEC_MSG_ROUTING_CHANGE) msg;
         msg = put 2 (lo8 (drop_bit 8 (prom orig_phys_addr))) msg;
         msg = put 3 (lo8 (prom orig_phys_addr AND 0xff)) msg;
         msg = put 4 (lo8 (drop_bit 8 (prom new_phys_addr))) msg;
         msg = put 5 (lo8 (prom new_phys_addr AND 0xff)) msg;
         msg = msg\<lparr>cm_reply := lo8 (if reply \<noteq> 0 then CEC_MSG_ROUTING_INFORMATION else 0)\<rparr>
     in msg)"

definition cec_ops_routing_change :: "cec_msg \<Rightarrow> u16 \<times> u16" where
  [cec_fun]: "cec_ops_routing_change msg =
    (lo16 (push_bit 8 (prom (byte_at msg 2)) OR prom (byte_at msg 3)),
     lo16 (push_bit 8 (prom (byte_at msg 4)) OR prom (byte_at msg 5)))"

definition cec_msg_set_stream_path :: "cec_msg \<Rightarrow> u16 \<Rightarrow> cec_msg" where
  [cec_fun]: "cec_msg_set_stream_path msg phys_addr =
    (let msg = msg\<lparr>cm_len := 4\<rparr>;
         msg = put 0 (lo8 (prom (byte_at msg 0) OR 0xf)) msg;
         msg = put 1 (lo8 CEC_MSG_SET_STREAM_PATH) msg;
         msg = put 2 (lo8 (drop_bit 8 (prom phys_addr))) msg;
         msg = put 3 (lo8 (prom phys_addr AND 0xff)) msg
     in msg)"

definition cec_ops_set_stream_path :: "cec_msg \<Rightarrow> u16" where
  [cec_fun]: "cec_ops_set_stream_path msg = lo16 (push_bit 8 (prom (byte_at msg 2)) OR prom (byte_at msg 3))"

subsection \<open>Standby Feature\<close>

definition cec_msg_standby :: "cec_msg \<Rightarrow> cec_msg" where
  [cec_fun]: "cec_msg_standby msg =
    (let msg = msg\<lparr>cm_len := 2\<rparr>;
         msg = put 1 (lo8 CEC_MSG_STANDBY) msg
     in msg)"

subsection \<open>One Touch Record Feature\<close>

definition cec_msg_record_off :: "cec_msg \<Rightarrow> u32 \<Rightarrow> cec_msg" where
  [cec_fun]: "cec_msg_record_off msg reply =
    (let msg = msg\<lparr>cm_len := 2\<rparr>;
         msg = put 1 (lo8 CEC_MSG_RECORD_OFF) msg;
         msg = msg\<lparr>cm_reply := lo8 (if reply \<noteq> 0 then CEC_MSG_RECORD_STATUS else 0)\<rparr>
     in msg)"

text \<open>
  The members of the union inside \<open>cec_op_digital_service_id\<close> overlay three 16-bit slots: \<open>arib\<close> and
  \<open>dvb\<close> use all of them, \<open>atsc\<close> the first two, and \<open>channel\<close> has its number format in the low byte of
  the first slot (the targets are little-endian), then \<open>major\<close> and \<open>minor\<close>.
\<close>

record cec_op_digital_service_id =
  ds_service_id_method :: u8
  ds_dig_bcast_system :: u8
  ds_slot0 :: u16
  ds_slot1 :: u16
  ds_slot2 :: u16

definition arib_transport_id :: "cec_op_digital_service_id \<Rightarrow> u16" where
  "arib_transport_id digital = ds_slot0 digital"

definition arib_service_id :: "cec_op_digital_service_id \<Rightarrow> u16" where
  "arib_service_id digital = ds_slot1 digital"

definition arib_orig_network_id :: "cec_op_digital_service_id \<Rightarrow> u16" where
  "arib_orig_network_id digital = ds_slot2 digital"

definition atsc_transport_id :: "cec_op_digital_service_id \<Rightarrow> u16" where
  "atsc_transport_id digital = ds_slot0 digital"

definition atsc_program_number :: "cec_op_digital_service_id \<Rightarrow> u16" where
  "atsc_program_number digital = ds_slot1 digital"

definition dvb_transport_id :: "cec_op_digital_service_id \<Rightarrow> u16" where
  "dvb_transport_id digital = ds_slot0 digital"

definition dvb_service_id :: "cec_op_digital_service_id \<Rightarrow> u16" where
  "dvb_service_id digital = ds_slot1 digital"

definition dvb_orig_network_id :: "cec_op_digital_service_id \<Rightarrow> u16" where
  "dvb_orig_network_id digital = ds_slot2 digital"

definition channel_number_fmt :: "cec_op_digital_service_id \<Rightarrow> u8" where
  "channel_number_fmt digital = lo8 (prom (ds_slot0 digital))"

definition channel_major :: "cec_op_digital_service_id \<Rightarrow> u16" where
  "channel_major digital = ds_slot1 digital"

definition channel_minor :: "cec_op_digital_service_id \<Rightarrow> u16" where
  "channel_minor digital = ds_slot2 digital"

definition set_channel_number_fmt :: "u8 \<Rightarrow> cec_op_digital_service_id \<Rightarrow> cec_op_digital_service_id" where
  "set_channel_number_fmt v digital =
    digital\<lparr>ds_slot0 := lo16 ((prom (ds_slot0 digital) AND 0xff00) OR prom v)\<rparr>"

lemmas digital_members = arib_transport_id_def arib_service_id_def arib_orig_network_id_def
  atsc_transport_id_def atsc_program_number_def dvb_transport_id_def dvb_service_id_def
  dvb_orig_network_id_def channel_number_fmt_def channel_major_def channel_minor_def set_channel_number_fmt_def

text \<open>
  A record source. The members of its union are only read under the tag they were written for, so
  each has its own field.
\<close>

record cec_op_record_src =
  rs_type :: u8
  rs_digital :: cec_op_digital_service_id
  rs_ana_bcast_type :: u8
  rs_ana_freq :: u16
  rs_bcast_system :: u8
  rs_plug :: u8
  rs_phys_addr :: u16

definition cec_set_digital_service_id :: "u8 list \<Rightarrow> nat \<Rightarrow> cec_op_digital_service_id \<Rightarrow> u8 list" where
  "cec_set_digital_service_id msg p digital =
    (let msg = msg[p := lo8 (push_bit 7 (prom (ds_service_id_method digital)) OR prom (ds_dig_bcast_system digital))]
     in if prom (ds_service_id_method digital) = CEC_OP_SERVICE_ID_METHOD_BY_CHANNEL then
       (let msg = msg[p + 1 := lo8 (push_bit 2 (prom (channel_number_fmt digital)) OR drop_bit 8 (prom (channel_major digital)))];
            msg = msg[p + 2 := lo8 (prom (channel_major digital) AND 0xff)];
            msg = msg[p + 3 := lo8 (drop_bit 8 (prom (channel_minor digital)))];
            msg = msg[p + 4 := lo8 (prom (channel_minor digital) AND 0xff)];
            msg = msg[p + 5 := 0];
            msg = msg[p + 6 := 0]
        in msg)
     else if prom (ds_dig_bcast_system digital) = CEC_OP_DIG_SERVICE_BCAST_SYSTEM_ATSC_GEN \<or>
         prom (ds_dig_bcast_system digital) = CEC_OP_DIG_SERVICE_BCAST_SYSTEM_ATSC_CABLE \<or>
         prom (ds_dig_bcast_system digital) = CEC_OP_DIG_SERVICE_BCAST_SYSTEM_ATSC_SAT \<or>
         prom (ds_dig_bcast_system digital) = CEC_OP_DIG_SERVICE_BCAST_SYSTEM_ATSC_T then
       (let msg = msg[p + 1 := lo8 (drop_bit 8 (prom (atsc_transport_id digital)))];
            msg = msg[p + 2 := lo8 (prom (atsc_transport_id digital) AND 0xff)];
            msg = msg[p + 3 := lo8 (drop_bit 8 (prom (atsc_program_number digital)))];
            msg = msg[p + 4 := lo8 (prom (atsc_program_number digital) AND 0xff)];
            msg = msg[p + 5 := 0];
            msg = msg[p + 6 := 0]
        in msg)
     else
       (let msg = msg[p + 1 := lo8 (drop_bit 8 (prom (dvb_transport_id digital)))];
            msg = msg[p + 2 := lo8 (prom (dvb_transport_id digital) AND 0xff)];
            msg = msg[p + 3 := lo8 (drop_bit 8 (prom (dvb_service_id digital)))];
            msg = msg[p + 4 := lo8 (prom (dvb_service_id digital) AND 0xff)];
            msg = msg[p + 5 := lo8 (drop_bit 8 (prom (dvb_orig_network_id digital)))];
            msg = msg[p + 6 := lo8 (prom (dvb_orig_network_id digital) AND 0xff)]
        in msg))"

definition cec_get_digital_service_id :: "u8 list \<Rightarrow> nat \<Rightarrow> cec_op_digital_service_id \<Rightarrow> cec_op_digital_service_id" where
  "cec_get_digital_service_id msg p digital =
    (let digital = digital\<lparr>ds_service_id_method := lo8 (drop_bit 7 (prom (msg ! p)))\<rparr>;
         digital = digital\<lparr>ds_dig_bcast_system := lo8 (prom (msg ! p) AND 0x7f)\<rparr>
     in if prom (ds_service_id_method digital) = CEC_OP_SERVICE_ID_METHOD_BY_CHANNEL then
       (let digital = set_channel_number_fmt (lo8 (drop_bit 2 (prom (msg ! (p + 1))))) digital;
            digital = digital\<lparr>ds_slot1 := lo16 (push_bit 6 (prom (msg ! (p + 1)) AND 3) OR prom (msg ! (p + 2)))\<rparr>;
            digital = digital\<lparr>ds_slot2 := lo16 (push_bit 8 (prom (msg ! (p + 3))) OR prom (msg ! (p + 4)))\<rparr>
        in digital)
     else
       (let digital = digital\<lparr>ds_slot0 := lo16 (push_bit 8 (prom (msg ! (p + 1))) OR prom (msg ! (p + 2)))\<rparr>;
            digital = digital\<lparr>ds_slot1 := lo16 (push_bit 8 (prom (msg ! (p + 3))) OR prom (msg ! (p + 4)))\<rparr>;
            digital = digital\<lparr>ds_slot2 := lo16 (push_bit 8 (prom (msg ! (p + 5))) OR prom (msg ! (p + 6)))\<rparr>
        in digital))"

definition cec_msg_record_on_own :: "cec_msg \<Rightarrow> cec_msg" where
  [cec_fun]: "cec_msg_record_on_own msg =
    (let msg = msg\<lparr>cm_len := 3\<rparr>;
         msg = put 1 (lo8 CEC_MSG_RECORD_ON) msg;
         msg = put 2 (lo8 CEC_OP_RECORD_SRC_OWN) msg
     in msg)"

definition cec_msg_record_on_digital :: "cec_msg \<Rightarrow> cec_op_digital_service_id \<Rightarrow> cec_msg" where
  [cec_fun]: "cec_msg_record_on_digital msg digital =
    (let msg = msg\<lparr>cm_len := 10\<rparr>;
         msg = put 1 (lo8 CEC_MSG_RECORD_ON) msg;
         msg = put 2 (lo8 CEC_OP_RECORD_SRC_DIGITAL) msg;
         msg = msg\<lparr>cm_msg := cec_set_digital_service_id (cm_msg msg) 3 digital\<rparr>
     in msg)"

definition cec_msg_record_on_analog ::
  "cec_msg \<Rightarrow> u8 \<Rightarrow> u16 \<Rightarrow> u8 \<Rightarrow> cec_msg" where
  [cec_fun]: "cec_msg_record_on_analog msg ana_bcast_type ana_freq bcast_system =
    (let msg = msg\<lparr>cm_len := 7\<rparr>;
         msg = put 1 (lo8 CEC_MSG_RECORD_ON) msg;
         msg = put 2 (lo8 CEC_OP_RECORD_SRC_ANALOG) msg;
         msg = put 3 ana_bcast_type msg;
         msg = put 4 (lo8 (drop_bit 8 (prom ana_freq))) msg;
         msg = put 5 (lo8 (prom ana_freq AND 0xff)) msg;
         msg = put 6 bcast_system msg
     in msg)"

definition cec_msg_record_on_plug :: "cec_msg \<Rightarrow> u8 \<Rightarrow> cec_msg" where
  [cec_fun]: "cec_msg_record_on_plug msg plug =
    (let msg = msg\<lparr>cm_len := 4\<rparr>;
         msg = put 1 (lo8 CEC_MSG_RECORD_ON) msg;
         msg = put 2 (lo8 CEC_OP_RECORD_SRC_EXT_PLUG) msg;
         msg = put 3 plug msg
     in msg)"

definition cec_msg_record_on_phys_addr :: "cec_msg \<Rightarrow> u16 \<Rightarrow> cec_msg" where
  [cec_fun]: "cec_msg_record_on_phys_addr msg phys_addr =
    (let msg = msg\<lparr>cm_len := 5\<rparr>;
         msg = put 1 (lo8 CEC_MSG_RECORD_ON) msg;
         msg = put 2 (lo8 CEC_OP_RECORD_SRC_EXT_PHYS_ADDR) msg;
         msg = put 3 (lo8 (drop_bit 8 (prom phys_addr))) msg;
         msg = put 4 (lo8 (prom phys_addr AND 0xff)) msg
     in msg)"

definition cec_msg_record_on :: "cec_msg \<Rightarrow> u32 \<Rightarrow> cec_op_record_src \<Rightarrow> cec_msg" where
  [cec_fun]: "cec_msg_record_on msg reply rec_src =
    (let msg =
       (if prom (rs_type rec_src) = CEC_OP_RECORD_SRC_OWN then cec_msg_record_on_own msg
        else if prom (rs_type rec_src) = CEC_OP_RECORD_SRC_DIGITAL then cec_msg_record_on_digital msg (rs_digital rec_src)
        else if prom (rs_type rec_src) = CEC_OP_RECORD_SRC_ANALOG then
          cec_msg_record_on_analog msg (rs_ana_bcast_type rec_src) (rs_ana_freq rec_src) (rs_bcast_system rec_src)
        else if prom (rs_type rec_src) = CEC_OP_RECORD_SRC_EXT_PLUG then cec_msg_record_on_plug msg (rs_plug rec_src)
        else if prom (rs_type rec_src) = CEC_OP_RECORD_SRC_EXT_PHYS_ADDR then
          cec_msg_record_on_phys_addr msg (rs_phys_addr rec_src)
        else msg);
         msg = msg\<lparr>cm_reply := lo8 (if reply \<noteq> 0 then CEC_MSG_RECORD_STATUS else 0)\<rparr>
     in msg)"

definition cec_ops_record_on :: "cec_msg \<Rightarrow> cec_op_record_src \<Rightarrow> cec_op_record_src" where
  [cec_fun]: "cec_ops_record_on msg rec_src =
    (let rec_src = rec_src\<lparr>rs_type := byte_at msg 2\<rparr>
     in if prom (rs_type rec_src) = CEC_OP_RECORD_SRC_OWN then rec_src
     else if prom (rs_type rec_src) = CEC_OP_RECORD_SRC_DIGITAL then
       rec_src\<lparr>rs_digital := cec_get_digital_service_id (cm_msg msg) 3 (rs_digital rec_src)\<rparr>
     else if prom (rs_type rec_src) = CEC_OP_RECORD_SRC_ANALOG then
       (let rec_src = rec_src\<lparr>rs_ana_bcast_type := byte_at msg 3\<rparr>;
            rec_src = rec_src\<lparr>rs_ana_freq := lo16 (push_bit 8 (prom (byte_at msg 4)) OR prom (byte_at msg 5))\<rparr>;
            rec_src = rec_src\<lparr>rs_bcast_system := byte_at msg 6\<rparr>
        in rec_src)
     else if prom (rs_type rec_src) = CEC_OP_RECORD_SRC_EXT_PLUG then rec_src\<lparr>rs_plug := byte_at msg 3\<rparr>
     else if prom (rs_type rec_src) = CEC_OP_RECORD_SRC_EXT_PHYS_ADDR then
       rec_src\<lparr>rs_phys_addr := lo16 (push_bit 8 (prom (byte_at msg 3)) OR prom (byte_at msg 4))\<rparr>
     else rec_src)"

definition cec_msg_record_status :: "cec_msg \<Rightarrow> u8 \<Rightarrow> cec_msg" where
  [cec_fun]: "cec_msg_record_status msg rec_status =
    (let msg = msg\<lparr>cm_len := 3\<rparr>;
         msg = put 1 (lo8 CEC_MSG_RECORD_STATUS) msg;
         msg = put 2 rec_status msg
     in msg)"

definition cec_ops_record_status :: "cec_msg \<Rightarrow> u8" where
  [cec_fun]: "cec_ops_record_status msg = byte_at msg 2"

definition cec_msg_record_tv_screen :: "cec_msg \<Rightarrow> u32 \<Rightarrow> cec_msg" where
  [cec_fun]: "cec_msg_record_tv_screen msg reply =
    (let msg = msg\<lparr>cm_len := 2\<rparr>;
         msg = put 1 (lo8 CEC_MSG_RECORD_TV_SCREEN) msg;
         msg = msg\<lparr>cm_reply := lo8 (if reply \<noteq> 0 then CEC_MSG_RECORD_ON else 0)\<rparr>
     in msg)"

subsection \<open>Timer Programming Feature\<close>

definition cec_msg_timer_status :: "cec_msg \<Rightarrow> u8 \<Rightarrow> u8 \<Rightarrow> u8 \<Rightarrow> u8 \<Rightarrow> u8 \<Rightarrow> u8 \<Rightarrow> cec_msg" where
  [cec_fun]: "cec_msg_timer_status msg timer_overlap_warning media_info prog_info prog_error duration_hr duration_min =
    (let msg = msg\<lparr>cm_len := 3\<rparr>;
         msg = put 1 (lo8 CEC_MSG_TIMER_STATUS) msg;
         msg = put 2 (lo8 (push_bit 7 (prom timer_overlap_warning) OR push_bit 5 (prom media_info) OR
           (if prog_info \<noteq> 0 then 0x10 else 0) OR (if prog_info \<noteq> 0 then prom prog_info else prom prog_error))) msg
     in if prom prog_info = CEC_OP_PROG_INFO_NOT_ENOUGH_SPACE \<or>
         prom prog_info = CEC_OP_PROG_INFO_MIGHT_NOT_BE_ENOUGH_SPACE \<or>
         prom prog_error = CEC_OP_PROG_ERROR_DUPLICATE then
       (let msg = msg\<lparr>cm_len := cm_len msg + 2\<rparr>;
            msg = put 3 (lo8 (push_bit 4 (prom duration_hr div 10) OR (prom duration_hr mod 10))) msg;
            msg = put 4 (lo8 (push_bit 4 (prom duration_min div 10) OR (prom duration_min mod 10))) msg
        in msg)
     else msg)"

definition cec_ops_timer_status :: "cec_msg \<Rightarrow> u8 \<times> u8 \<times> u8 \<times> u8 \<times> u8 \<times> u8" where
  [cec_fun]: "cec_ops_timer_status msg =
    (let timer_overlap_warning = lo8 (drop_bit 7 (prom (byte_at msg 2)));
         media_info = lo8 (drop_bit 5 (prom (byte_at msg 2)) AND 3);
         (prog_info, prog_error) =
           (if prom (byte_at msg 2) AND 0x10 \<noteq> 0 then (lo8 (prom (byte_at msg 2) AND 0xf), 0)
            else (0, lo8 (prom (byte_at msg 2) AND 0xf)));
         (duration_hr, duration_min) =
           (if prom prog_info = CEC_OP_PROG_INFO_NOT_ENOUGH_SPACE \<or>
               prom prog_info = CEC_OP_PROG_INFO_MIGHT_NOT_BE_ENOUGH_SPACE \<or>
               prom prog_error = CEC_OP_PROG_ERROR_DUPLICATE
            then (lo8 ((drop_bit 4 (prom (byte_at msg 3)) * 10) + (prom (byte_at msg 3) AND 0xf)),
                  lo8 ((drop_bit 4 (prom (byte_at msg 4)) * 10) + (prom (byte_at msg 4) AND 0xf)))
            else (0, 0))
     in (timer_overlap_warning, media_info, prog_info, prog_error, duration_hr, duration_min))"

definition cec_msg_timer_cleared_status :: "cec_msg \<Rightarrow> u8 \<Rightarrow> cec_msg" where
  [cec_fun]: "cec_msg_timer_cleared_status msg timer_cleared_status =
    (let msg = msg\<lparr>cm_len := 3\<rparr>;
         msg = put 1 (lo8 CEC_MSG_TIMER_CLEARED_STATUS) msg;
         msg = put 2 timer_cleared_status msg
     in msg)"

definition cec_ops_timer_cleared_status :: "cec_msg \<Rightarrow> u8" where
  [cec_fun]: "cec_ops_timer_cleared_status msg = byte_at msg 2"

definition cec_msg_clear_analogue_timer ::
  "cec_msg \<Rightarrow> u32 \<Rightarrow> u8 \<Rightarrow> u8 \<Rightarrow> u8 \<Rightarrow> u8 \<Rightarrow> u8 \<Rightarrow> u8 \<Rightarrow> u8 \<Rightarrow> u8 \<Rightarrow> u16 \<Rightarrow> u8 \<Rightarrow> cec_msg" where
  [cec_fun]: "cec_msg_clear_analogue_timer msg reply day month start_hr start_min duration_hr duration_min recording_seq ana_bcast_type ana_freq bcast_system =
    (let msg = msg\<lparr>cm_len := 13\<rparr>;
         msg = put 1 (lo8 CEC_MSG_CLEAR_ANALOGUE_TIMER) msg;
         msg = put 2 day msg;
         msg = put 3 month msg;
         msg = put 4 (lo8 (push_bit 4 (prom start_hr div 10) OR (prom start_hr mod 10))) msg;
         msg = put 5 (lo8 (push_bit 4 (prom start_min div 10) OR (prom start_min mod 10))) msg;
         msg = put 6 (lo8 (push_bit 4 (prom duration_hr div 10) OR (prom duration_hr mod 10))) msg;
         msg = put 7 (lo8 (push_bit 4 (prom duration_min div 10) OR (prom duration_min mod 10))) msg;
         msg = put 8 recording_seq msg;
         msg = put 9 ana_bcast_type msg;
         msg = put 10 (lo8 (drop_bit 8 (prom ana_freq))) msg;
         msg = put 11 (lo8 (prom ana_freq AND 0xff)) msg;
         msg = put 12 bcast_system msg;
         msg = msg\<lparr>cm_reply := lo8 (if reply \<noteq> 0 then CEC_MSG_TIMER_CLEARED_STATUS else 0)\<rparr>
     in msg)"

definition cec_ops_clear_analogue_timer ::
  "cec_msg \<Rightarrow> u8 \<times> u8 \<times> u8 \<times> u8 \<times> u8 \<times> u8 \<times> u8 \<times> u8 \<times> u16 \<times> u8" where
  [cec_fun]: "cec_ops_clear_analogue_timer msg =
    (byte_at msg 2,
     byte_at msg 3,
     lo8 ((drop_bit 4 (prom (byte_at msg 4)) * 10) + (prom (byte_at msg 4) AND 0xf)),
     lo8 ((drop_bit 4 (prom (byte_at msg 5)) * 10) + (prom (byte_at msg 5) AND 0xf)),
     lo8 ((drop_bit 4 (prom (byte_at msg 6)) * 10) + (prom (byte_at msg 6) AND 0xf)),
     lo8 ((drop_bit 4 (prom (byte_at msg 7)) * 10) + (prom (byte_at msg 7) AND 0xf)),
     byte_at msg 8,
     byte_at msg 9,
     lo16 (push_bit 8 (prom (byte_at msg 10)) OR prom (byte_at msg 11)),
     byte_at msg 12)"

definition cec_msg_clear_digital_timer :: "cec_msg \<Rightarrow> u32 \<Rightarrow> u8 \<Rightarrow> u8 \<Rightarrow> u8 \<Rightarrow> u8 \<Rightarrow> u8 \<Rightarrow> u8 \<Rightarrow> u8 \<Rightarrow> cec_op_digital_service_id \<Rightarrow> cec_msg" where
  [cec_fun]: "cec_msg_clear_digital_timer msg reply day month start_hr start_min duration_hr duration_min recording_seq digital =
    (let msg = msg\<lparr>cm_len := 16\<rparr>;
         msg = msg\<lparr>cm_reply := lo8 (if reply \<noteq> 0 then CEC_MSG_TIMER_CLEARED_STATUS else 0)\<rparr>;
         msg = put 1 (lo8 CEC_MSG_CLEAR_DIGITAL_TIMER) msg;
         msg = put 2 day msg;
         msg = put 3 month msg;
         msg = put 4 (lo8 (push_bit 4 (prom start_hr div 10) OR (prom start_hr mod 10))) msg;
         msg = put 5 (lo8 (push_bit 4 (prom start_min div 10) OR (prom start_min mod 10))) msg;
         msg = put 6 (lo8 (push_bit 4 (prom duration_hr div 10) OR (prom duration_hr mod 10))) msg;
         msg = put 7 (lo8 (push_bit 4 (prom duration_min div 10) OR (prom duration_min mod 10))) msg;
         msg = put 8 recording_seq msg;
         msg = msg\<lparr>cm_msg := cec_set_digital_service_id (cm_msg msg) 9 digital\<rparr>
     in msg)"

definition cec_ops_clear_digital_timer ::
  "cec_msg \<Rightarrow> cec_op_digital_service_id \<Rightarrow> u8 \<times> u8 \<times> u8 \<times> u8 \<times> u8 \<times> u8 \<times> u8 \<times> cec_op_digital_service_id" where
  [cec_fun]: "cec_ops_clear_digital_timer msg digital =
    (byte_at msg 2,
     byte_at msg 3,
     lo8 ((drop_bit 4 (prom (byte_at msg 4)) * 10) + (prom (byte_at msg 4) AND 0xf)),
     lo8 ((drop_bit 4 (prom (byte_at msg 5)) * 10) + (prom (byte_at msg 5) AND 0xf)),
     lo8 ((drop_bit 4 (prom (byte_at msg 6)) * 10) + (prom (byte_at msg 6) AND 0xf)),
     lo8 ((drop_bit 4 (prom (byte_at msg 7)) * 10) + (prom (byte_at msg 7) AND 0xf)),
     byte_at msg 8,
     cec_get_digital_service_id (cm_msg msg) 9 digital)"

definition cec_msg_clear_ext_timer ::
  "cec_msg \<Rightarrow> u32 \<Rightarrow> u8 \<Rightarrow> u8 \<Rightarrow> u8 \<Rightarrow> u8 \<Rightarrow> u8 \<Rightarrow> u8 \<Rightarrow> u8 \<Rightarrow> u8 \<Rightarrow> u8 \<Rightarrow> u16 \<Rightarrow> cec_msg" where
  [cec_fun]: "cec_msg_clear_ext_timer msg reply day month start_hr start_min duration_hr duration_min recording_seq ext_src_spec plug phys_addr =
    (let msg = msg\<lparr>cm_len := 13\<rparr>;
         msg = put 1 (lo8 CEC_MSG_CLEAR_EXT_TIMER) msg;
         msg = put 2 day msg;
         msg = put 3 month msg;
         msg = put 4 (lo8 (push_bit 4 (prom start_hr div 10) OR (prom start_hr mod 10))) msg;
         msg = put 5 (lo8 (push_bit 4 (prom start_min div 10) OR (prom start_min mod 10))) msg;
         msg = put 6 (lo8 (push_bit 4 (prom duration_hr div 10) OR (prom duration_hr mod 10))) msg;
         msg = put 7 (lo8 (push_bit 4 (prom duration_min div 10) OR (prom duration_min mod 10))) msg;
         msg = put 8 recording_seq msg;
         msg = put 9 ext_src_spec msg;
         msg = put 10 plug msg;
         msg = put 11 (lo8 (drop_bit 8 (prom phys_addr))) msg;
         msg = put 12 (lo8 (prom phys_addr AND 0xff)) msg;
         msg = msg\<lparr>cm_reply := lo8 (if reply \<noteq> 0 then CEC_MSG_TIMER_CLEARED_STATUS else 0)\<rparr>
     in msg)"

definition cec_ops_clear_ext_timer ::
  "cec_msg \<Rightarrow> u8 \<times> u8 \<times> u8 \<times> u8 \<times> u8 \<times> u8 \<times> u8 \<times> u8 \<times> u8 \<times> u16" where
  [cec_fun]: "cec_ops_clear_ext_timer msg =
    (byte_at msg 2,
     byte_at msg 3,
     lo8 ((drop_bit 4 (prom (byte_at msg 4)) * 10) + (prom (byte_at msg 4) AND 0xf)),
     lo8 ((drop_bit 4 (prom (byte_at msg 5)) * 10) + (prom (byte_at msg 5) AND 0xf)),
     lo8 ((drop_bit 4 (prom (byte_at msg 6)) * 10) + (prom (byte_at msg 6) AND 0xf)),
     lo8 ((drop_bit 4 (prom (byte_at msg 7)) * 10) + (prom (byte_at msg 7) AND 0xf)),
     byte_at msg 8,
     byte_at msg 9,
     byte_at msg 10,
     lo16 (push_bit 8 (prom (byte_at msg 11)) OR prom (byte_at msg 12)))"

definition cec_msg_set_analogue_timer ::
  "cec_msg \<Rightarrow> u32 \<Rightarrow> u8 \<Rightarrow> u8 \<Rightarrow> u8 \<Rightarrow> u8 \<Rightarrow> u8 \<Rightarrow> u8 \<Rightarrow> u8 \<Rightarrow> u8 \<Rightarrow> u16 \<Rightarrow> u8 \<Rightarrow> cec_msg" where
  [cec_fun]: "cec_msg_set_analogue_timer msg reply day month start_hr start_min duration_hr duration_min recording_seq ana_bcast_type ana_freq bcast_system =
    (let msg = msg\<lparr>cm_len := 13\<rparr>;
         msg = put 1 (lo8 CEC_MSG_SET_ANALOGUE_TIMER) msg;
         msg = put 2 day msg;
         msg = put 3 month msg;
         msg = put 4 (lo8 (push_bit 4 (prom start_hr div 10) OR (prom start_hr mod 10))) msg;
         msg = put 5 (lo8 (push_bit 4 (prom start_min div 10) OR (prom start_min mod 10))) msg;
         msg = put 6 (lo8 (push_bit 4 (prom duration_hr div 10) OR (prom duration_hr mod 10))) msg;
         msg = put 7 (lo8 (push_bit 4 (prom duration_min div 10) OR (prom duration_min mod 10))) msg;
         msg = put 8 recording_seq msg;
         msg = put 9 ana_bcast_type msg;
         msg = put 10 (lo8 (drop_bit 8 (prom ana_freq))) msg;
         msg = put 11 (lo8 (prom ana_freq AND 0xff)) msg;
         msg = put 12 bcast_system msg;
         msg = msg\<lparr>cm_reply := lo8 (if reply \<noteq> 0 then CEC_MSG_TIMER_STATUS else 0)\<rparr>
     in msg)"

definition cec_ops_set_analogue_timer ::
  "cec_msg \<Rightarrow> u8 \<times> u8 \<times> u8 \<times> u8 \<times> u8 \<times> u8 \<times> u8 \<times> u8 \<times> u16 \<times> u8" where
  [cec_fun]: "cec_ops_set_analogue_timer msg =
    (byte_at msg 2,
     byte_at msg 3,
     lo8 ((drop_bit 4 (prom (byte_at msg 4)) * 10) + (prom (byte_at msg 4) AND 0xf)),
     lo8 ((drop_bit 4 (prom (byte_at msg 5)) * 10) + (prom (byte_at msg 5) AND 0xf)),
     lo8 ((drop_bit 4 (prom (byte_at msg 6)) * 10) + (prom (byte_at msg 6) AND 0xf)),
     lo8 ((drop_bit 4 (prom (byte_at msg 7)) * 10) + (prom (byte_at msg 7) AND 0xf)),
     byte_at msg 8,
     byte_at msg 9,
     lo16 (push_bit 8 (prom (byte_at msg 10)) OR prom (byte_at msg 11)),
     byte_at msg 12)"

definition cec_msg_set_digital_timer :: "cec_msg \<Rightarrow> u32 \<Rightarrow> u8 \<Rightarrow> u8 \<Rightarrow> u8 \<Rightarrow> u8 \<Rightarrow> u8 \<Rightarrow> u8 \<Rightarrow> u8 \<Rightarrow> cec_op_digital_service_id \<Rightarrow> cec_msg" where
  [cec_fun]: "cec_msg_set_digital_timer msg reply day month start_hr start_min duration_hr duration_min recording_seq digital =
    (let msg = msg\<lparr>cm_len := 16\<rparr>;
         msg = msg\<lparr>cm_reply := lo8 (if reply \<noteq> 0 then CEC_MSG_TIMER_STATUS else 0)\<rparr>;
         msg = put 1 (lo8 CEC_MSG_SET_DIGITAL_TIMER) msg;
         msg = put 2 day msg;
         msg = put 3 month msg;
         msg = put 4 (lo8 (push_bit 4 (prom start_hr div 10) OR (prom start_hr mod 10))) msg;
         msg = put 5 (lo8 (push_bit 4 (prom start_min div 10) OR (prom start_min mod 10))) msg;
         msg = put 6 (lo8 (push_bit 4 (prom duration_hr div 10) OR (prom duration_hr mod 10))) msg;
         msg = put 7 (lo8 (push_bit 4 (prom duration_min div 10) OR (prom duration_min mod 10))) msg;
         msg = put 8 recording_seq msg;
         msg = msg\<lparr>cm_msg := cec_set_digital_service_id (cm_msg msg) 9 digital\<rparr>
     in msg)"

definition cec_ops_set_digital_timer ::
  "cec_msg \<Rightarrow> cec_op_digital_service_id \<Rightarrow> u8 \<times> u8 \<times> u8 \<times> u8 \<times> u8 \<times> u8 \<times> u8 \<times> cec_op_digital_service_id" where
  [cec_fun]: "cec_ops_set_digital_timer msg digital =
    (byte_at msg 2,
     byte_at msg 3,
     lo8 ((drop_bit 4 (prom (byte_at msg 4)) * 10) + (prom (byte_at msg 4) AND 0xf)),
     lo8 ((drop_bit 4 (prom (byte_at msg 5)) * 10) + (prom (byte_at msg 5) AND 0xf)),
     lo8 ((drop_bit 4 (prom (byte_at msg 6)) * 10) + (prom (byte_at msg 6) AND 0xf)),
     lo8 ((drop_bit 4 (prom (byte_at msg 7)) * 10) + (prom (byte_at msg 7) AND 0xf)),
     byte_at msg 8,
     cec_get_digital_service_id (cm_msg msg) 9 digital)"

definition cec_msg_set_ext_timer ::
  "cec_msg \<Rightarrow> u32 \<Rightarrow> u8 \<Rightarrow> u8 \<Rightarrow> u8 \<Rightarrow> u8 \<Rightarrow> u8 \<Rightarrow> u8 \<Rightarrow> u8 \<Rightarrow> u8 \<Rightarrow> u8 \<Rightarrow> u16 \<Rightarrow> cec_msg" where
  [cec_fun]: "cec_msg_set_ext_timer msg reply day month start_hr start_min duration_hr duration_min recording_seq ext_src_spec plug phys_addr =
    (let msg = msg\<lparr>cm_len := 13\<rparr>;
         msg = put 1 (lo8 CEC_MSG_SET_EXT_TIMER) msg;
         msg = put 2 day msg;
         msg = put 3 month msg;
         msg = put 4 (lo8 (push_bit 4 (prom start_hr div 10) OR (prom start_hr mod 10))) msg;
         msg = put 5 (lo8 (push_bit 4 (prom start_min div 10) OR (prom start_min mod 10))) msg;
         msg = put 6 (lo8 (push_bit 4 (prom duration_hr div 10) OR (prom duration_hr mod 10))) msg;
         msg = put 7 (lo8 (push_bit 4 (prom duration_min div 10) OR (prom duration_min mod 10))) msg;
         msg = put 8 recording_seq msg;
         msg = put 9 ext_src_spec msg;
         msg = put 10 plug msg;
         msg = put 11 (lo8 (drop_bit 8 (prom phys_addr))) msg;
         msg = put 12 (lo8 (prom phys_addr AND 0xff)) msg;
         msg = msg\<lparr>cm_reply := lo8 (if reply \<noteq> 0 then CEC_MSG_TIMER_STATUS else 0)\<rparr>
     in msg)"

definition cec_ops_set_ext_timer ::
  "cec_msg \<Rightarrow> u8 \<times> u8 \<times> u8 \<times> u8 \<times> u8 \<times> u8 \<times> u8 \<times> u8 \<times> u8 \<times> u16" where
  [cec_fun]: "cec_ops_set_ext_timer msg =
    (byte_at msg 2,
     byte_at msg 3,
     lo8 ((drop_bit 4 (prom (byte_at msg 4)) * 10) + (prom (byte_at msg 4) AND 0xf)),
     lo8 ((drop_bit 4 (prom (byte_at msg 5)) * 10) + (prom (byte_at msg 5) AND 0xf)),
     lo8 ((drop_bit 4 (prom (byte_at msg 6)) * 10) + (prom (byte_at msg 6) AND 0xf)),
     lo8 ((drop_bit 4 (prom (byte_at msg 7)) * 10) + (prom (byte_at msg 7) AND 0xf)),
     byte_at msg 8,
     byte_at msg 9,
     byte_at msg 10,
     lo16 (push_bit 8 (prom (byte_at msg 11)) OR prom (byte_at msg 12)))"

definition cec_msg_set_timer_program_title :: "cec_msg \<Rightarrow> u8 list \<Rightarrow> cec_msg" where
  [cec_fun]: "cec_msg_set_timer_program_title msg prog_title =
    (let len = word_of_nat (strlen prog_title) :: u32;
         len = (if len > 14 then 14 else len);
         msg = msg\<lparr>cm_len := 2 + len\<rparr>;
         msg = put 1 (lo8 CEC_MSG_SET_TIMER_PROGRAM_TITLE) msg;
         msg = msg\<lparr>cm_msg := memcpy (cm_msg msg) 2 prog_title 0 (unat len)\<rparr>
     in msg)"

definition cec_ops_set_timer_program_title :: "cec_msg \<Rightarrow> u8 list \<Rightarrow> u8 list" where
  [cec_fun]: "cec_ops_set_timer_program_title msg prog_title =
    (let len = (if cm_len msg > 2 then cm_len msg - 2 else 0);
         len = (if len > 14 then 14 else len);
         prog_title = memcpy prog_title 0 (cm_msg msg) 2 (unat len);
         prog_title = prog_title[unat len := 0]
     in prog_title)"

section \<open>Round trips\<close>

subsection \<open>Digital service identifiers\<close>

lemma length_set_digital [simp]: "length (cec_set_digital_service_id msg p digital) = length msg"
  by (simp add: cec_set_digital_service_id_def Let_def)

lemma nth_set_digital_below [cec_byte]:
  "k < p \<Longrightarrow> cec_set_digital_service_id msg p digital ! k = msg ! k"
  by (simp add: cec_set_digital_service_id_def Let_def)

lemmas cec_simps = cec_fun cec_byte c_masks c_field Let_def

text \<open>What the decoder makes of the ten-bit major channel number: it shifts the upper two bits to 6, not to 8.\<close>

definition decoded_major :: "u16 \<Rightarrow> u16" where
  "decoded_major major = lo16 (push_bit 6 (drop_bit 8 (prom major)) OR prom (lo8 (prom major)))"

lemma channel_fields:
  fixes f :: u8 and major :: u16
  assumes "f < 64" and "major < 1024"
  shows "lo8 (drop_bit 2 (prom (lo8 (push_bit 2 (prom f) OR drop_bit 8 (prom major))))) = f"
    and "take_bit 2 (prom (lo8 (push_bit 2 (prom f) OR drop_bit 8 (prom major)))) = drop_bit 8 (prom major)"
proof -
  have f: "bit f n \<Longrightarrow> n < 6" and m: "bit major n \<Longrightarrow> n < 10" for n
    using bit_below [of f 6 n] bit_below [of major 10 n] assms by (simp_all add: word_less_nat_alt)
  show "lo8 (drop_bit 2 (prom (lo8 (push_bit 2 (prom f) OR drop_bit 8 (prom major))))) = f"
    by (rule bit_word_eqI) (use f m in \<open>fastforce simp: c_convert_defs bit_simps\<close>)
  show "take_bit 2 (prom (lo8 (push_bit 2 (prom f) OR drop_bit 8 (prom major)))) = drop_bit 8 (prom major)"
    by (rule bit_word_eqI) (use f m in \<open>fastforce simp: c_convert_defs bit_simps\<close>)
qed

lemma decoded_major_below: "major < 1024 \<Longrightarrow> decoded_major major < 256"
proof -
  assume "major < 1024"
  then have m: "bit major n \<Longrightarrow> n < 10" for n using bit_below [of major 10 n] by (simp add: word_less_nat_alt)
  have "take_bit 8 (decoded_major major) = decoded_major major"
    by (rule bit_word_eqI) (use m in \<open>fastforce simp: decoded_major_def c_convert_defs bit_simps\<close>)
  moreover have "take_bit 8 x < 256" for x :: u16 by (simp add: take_bit_eq_mod word_less_nat_alt unat_mod)
  ultimately show ?thesis by metis
qed

lemma decoded_major_iff:
  assumes "major < 1024"
  shows "decoded_major major = major \<longleftrightarrow> major < 256"
proof
  show "decoded_major major = major \<Longrightarrow> major < 256" using decoded_major_below [OF assms] by simp
  assume "major < 256"
  then have "bit major n \<Longrightarrow> n < 8" for n using bit_below [of major 8 n] by (simp add: word_less_nat_alt)
  then show "decoded_major major = major"
    by (intro bit_word_eqI) (fastforce simp: decoded_major_def c_convert_defs bit_simps)
qed

lemma low_byte_kept:
  fixes x :: u16 and v :: u8
  shows "lo8 (prom (lo16 ((prom x AND 0xff00) OR prom v))) = v"
proof (rule bit_word_eqI)
  fix n assume "n < LENGTH(8)"
  then have "\<not> bit (0xff00 :: u32) n" by (auto simp: less_Suc_eq numeral_eq_Suc bit_numeral_rec)
  then show "bit (lo8 (prom (lo16 ((prom x AND 0xff00) OR prom v)))) n = bit v n"
    using \<open>n < LENGTH(8)\<close> by (simp add: c_convert_defs bit_simps)
qed

definition atsc_system :: "u8 \<Rightarrow> bool" where
  "atsc_system s \<longleftrightarrow> s = 0x01 \<or> s = 0x10 \<or> s = 0x11 \<or> s = 0x12"

lemma digital_head:
  fixes i s :: u8
  assumes "i < 2" and "s < 128"
  shows "lo8 (drop_bit 7 (prom (lo8 (push_bit 7 (prom i) OR prom s)))) = i"
    and "lo8 (take_bit 7 (prom (lo8 (push_bit 7 (prom i) OR prom s)))) = s"
  using assms high_field [of i 7 s] low_field [of s 7 i] by simp_all

lemma atsc_switch:
  "prom s = CEC_OP_DIG_SERVICE_BCAST_SYSTEM_ATSC_GEN \<or> prom s = CEC_OP_DIG_SERVICE_BCAST_SYSTEM_ATSC_CABLE \<or>
    prom s = CEC_OP_DIG_SERVICE_BCAST_SYSTEM_ATSC_SAT \<or> prom s = CEC_OP_DIG_SERVICE_BCAST_SYSTEM_ATSC_T \<longleftrightarrow>
    atsc_system s" for s :: u8
  by (simp add: atsc_system_def cec_const word_unat_eq_iff)

lemmas digital_head_cases = digital_head [of 0, simplified] digital_head [of 1, simplified]

lemma set_digital_by_id:
  assumes "p + 6 < length msg" and "ds_service_id_method digital = 0"
    and "atsc_system (ds_dig_bcast_system digital) \<Longrightarrow> ds_slot2 digital = 0"
  defines "m \<equiv> cec_set_digital_service_id msg p digital"
  shows "m ! p = lo8 (push_bit 7 (prom 0) OR prom (ds_dig_bcast_system digital))"
    and "m ! (p + 1) = lo8 (drop_bit 8 (prom (ds_slot0 digital)))" and "m ! (p + 2) = lo8 (prom (ds_slot0 digital))"
    and "m ! (p + 3) = lo8 (drop_bit 8 (prom (ds_slot1 digital)))" and "m ! (p + 4) = lo8 (prom (ds_slot1 digital))"
    and "m ! (p + 5) = lo8 (drop_bit 8 (prom (ds_slot2 digital)))" and "m ! (p + 6) = lo8 (prom (ds_slot2 digital))"
  using assms(1-3)
  by (cases "atsc_system (ds_dig_bcast_system digital)";
    simp add: m_def cec_set_digital_service_id_def Let_def atsc_switch CEC_OP_SERVICE_ID_METHOD_BY_CHANNEL_def digital_members c_masks;
    simp add: c_convert_defs)+

lemma digital_by_id:
  assumes "p + 6 < length msg" and "ds_service_id_method digital = 0" and "ds_dig_bcast_system digital < 128"
    and "atsc_system (ds_dig_bcast_system digital) \<Longrightarrow> ds_slot2 digital = 0"
  shows "cec_get_digital_service_id (cec_set_digital_service_id msg p digital) p d = digital"
  using set_digital_by_id [OF assms(1,2,4)] assms(2,3)
  by (simp add: cec_get_digital_service_id_def Let_def c_masks digital_head_cases join16 CEC_OP_SERVICE_ID_METHOD_BY_CHANNEL_def)

lemma digital_by_channel:
  fixes d :: cec_op_digital_service_id
  assumes "p + 6 < length msg" and "ds_service_id_method digital = 1" and "ds_dig_bcast_system digital < 128"
    and "channel_number_fmt digital < 64" and "channel_major digital < 1024"
  defines "d' \<equiv> cec_get_digital_service_id (cec_set_digital_service_id msg p digital) p d"
  shows "ds_service_id_method d' = 1" and "ds_dig_bcast_system d' = ds_dig_bcast_system digital"
    and "channel_number_fmt d' = channel_number_fmt digital" and "channel_minor d' = channel_minor digital"
    and "channel_major d' = decoded_major (channel_major digital)"
proof -
  let ?m = "cec_set_digital_service_id msg p digital"
  have m: "?m ! p = lo8 (push_bit 7 (prom 1) OR prom (ds_dig_bcast_system digital))"
    "?m ! (p + 1) = lo8 (push_bit 2 (prom (channel_number_fmt digital)) OR drop_bit 8 (prom (channel_major digital)))"
    "?m ! (p + 2) = lo8 (prom (channel_major digital))"
    "?m ! (p + 3) = lo8 (drop_bit 8 (prom (channel_minor digital)))" "?m ! (p + 4) = lo8 (prom (channel_minor digital))"
    using assms(1,2) by (simp_all add: cec_set_digital_service_id_def Let_def CEC_OP_SERVICE_ID_METHOD_BY_CHANNEL_def c_masks)
  have d': "d' = set_channel_number_fmt (channel_number_fmt digital)
      (d\<lparr>ds_service_id_method := 1, ds_dig_bcast_system := ds_dig_bcast_system digital\<rparr>)
      \<lparr>ds_slot1 := decoded_major (channel_major digital), ds_slot2 := channel_minor digital\<rparr>"
    using m assms(3-5)
    by (simp add: d'_def cec_get_digital_service_id_def Let_def c_masks digital_head_cases CEC_OP_SERVICE_ID_METHOD_BY_CHANNEL_def decoded_major_def
      channel_fields join16)
  show "ds_service_id_method d' = 1" "ds_dig_bcast_system d' = ds_dig_bcast_system digital"
    "channel_number_fmt d' = channel_number_fmt digital" "channel_minor d' = channel_minor digital"
    "channel_major d' = decoded_major (channel_major digital)"
    by (simp_all add: d' channel_number_fmt_def channel_minor_def channel_major_def set_channel_number_fmt_def
      low_byte_kept)
qed

subsection \<open>Strings\<close>

text \<open>The text part of a message: at most \<open>limit\<close> bytes of the string behind \<open>base\<close> header bytes.\<close>

lemma text_round_trip:
  fixes s buf bytes :: "u8 list"
  assumes "length s < 2 ^ 32" and "base + limit = 16" and "length bytes = 16" and "limit < length buf"
  defines "len \<equiv> (if (word_of_nat (strlen s) :: u32) > word_of_nat limit then word_of_nat limit else word_of_nat (strlen s) :: u32)"
  shows "unat len = min (strlen s) limit"
    and "take (unat len) (memcpy buf 0 (memcpy bytes base s 0 (unat len)) base (unat len)) = take limit (takeWhile (\<lambda>c. c \<noteq> 0) s)"
proof -
  have small: "strlen s < 2 ^ 32" "limit < 2 ^ 32" using order_le_less_trans [OF strlen_le assms(1)] assms(2) by simp_all
  then have "unat (word_of_nat (strlen s) :: u32) = strlen s" "unat (word_of_nat limit :: u32) = limit"
    by (simp_all add: unsigned_of_nat take_bit_nat_eq_self_iff)
  then show len: "unat len = min (strlen s) limit"
    by (auto simp: len_def word_less_nat_alt)
  have "take (unat len) (memcpy buf 0 (memcpy bytes base s 0 (unat len)) base (unat len)) = take (unat len) s"
    using assms(2-4) by (intro nth_equalityI) (auto simp: nth_memcpy len min.absorb2 min.coboundedI1)
  also have "\<dots> = take limit (takeWhile (\<lambda>c. c \<noteq> 0) s)"
    by (simp add: len min.commute flip: take_strlen take_take)
  finally show "take (unat len) (memcpy buf 0 (memcpy bytes base s 0 (unat len)) base (unat len)) =
    take limit (takeWhile (\<lambda>c. c \<noteq> 0) s)" .
qed

subsection \<open>Properties\<close>

text \<open>
  Addresses survive every routing message: what a source, route or stream path message was built
  with is what its decoder returns, whatever the message buffer held before.
\<close>

theorem routing_round_trip:
  assumes "msg_ok msg"
  shows "cec_ops_active_source (cec_msg_active_source msg phys_addr) = phys_addr \<and>
    cec_ops_inactive_source (cec_msg_inactive_source msg phys_addr) = phys_addr \<and>
    cec_ops_routing_information (cec_msg_routing_information msg phys_addr) = phys_addr \<and>
    cec_ops_set_stream_path (cec_msg_set_stream_path msg phys_addr) = phys_addr \<and>
    cec_ops_routing_change (cec_msg_routing_change msg reply orig_addr new_addr) = (orig_addr, new_addr)"
  using assms by (simp add: cec_simps)

theorem routing_round_trip_witness:
  "cec_ops_routing_change (cec_msg_routing_change zeroed 1 0x1000 0x2100) = (0x1000, 0x2100)"
  using routing_round_trip [of zeroed] by (simp add: cec_byte)

text \<open>
  Timer blocks survive their binary coded decimals: for hours and minutes up to 159 the decoders of
  the six timer messages return exactly the arguments of the encoders; the digital ones return the
  service identifier for every identification by number.
\<close>

theorem timer_round_trip:
  assumes "msg_ok msg" and "start_hr < 160" "start_min < 160" "duration_hr < 160" "duration_min < 160"
    and "ds_service_id_method digital = 0" "ds_dig_bcast_system digital < 128"
    and "atsc_system (ds_dig_bcast_system digital) \<Longrightarrow> ds_slot2 digital = 0"
  shows "cec_ops_clear_analogue_timer (cec_msg_clear_analogue_timer msg reply day month start_hr start_min
        duration_hr duration_min recording_seq ana_bcast_type ana_freq bcast_system) =
      (day, month, start_hr, start_min, duration_hr, duration_min, recording_seq, ana_bcast_type, ana_freq, bcast_system) \<and>
    cec_ops_set_analogue_timer (cec_msg_set_analogue_timer msg reply day month start_hr start_min
        duration_hr duration_min recording_seq ana_bcast_type ana_freq bcast_system) =
      (day, month, start_hr, start_min, duration_hr, duration_min, recording_seq, ana_bcast_type, ana_freq, bcast_system) \<and>
    cec_ops_clear_ext_timer (cec_msg_clear_ext_timer msg reply day month start_hr start_min
        duration_hr duration_min recording_seq ext_src_spec plug phys_addr) =
      (day, month, start_hr, start_min, duration_hr, duration_min, recording_seq, ext_src_spec, plug, phys_addr) \<and>
    cec_ops_set_ext_timer (cec_msg_set_ext_timer msg reply day month start_hr start_min
        duration_hr duration_min recording_seq ext_src_spec plug phys_addr) =
      (day, month, start_hr, start_min, duration_hr, duration_min, recording_seq, ext_src_spec, plug, phys_addr) \<and>
    cec_ops_clear_digital_timer (cec_msg_clear_digital_timer msg reply day month start_hr start_min
        duration_hr duration_min recording_seq digital) d =
      (day, month, start_hr, start_min, duration_hr, duration_min, recording_seq, digital) \<and>
    cec_ops_set_digital_timer (cec_msg_set_digital_timer msg reply day month start_hr start_min
        duration_hr duration_min recording_seq digital) d =
      (day, month, start_hr, start_min, duration_hr, duration_min, recording_seq, digital)"
proof -
  note digital = digital_by_id [OF _ assms(6,7) assms(8)]
  show ?thesis
    using assms(1-5) by (simp add: cec_simps digital msg_ok_length nth_cm_msg)
qed

definition sample_service :: cec_op_digital_service_id where
  "sample_service = \<lparr>ds_service_id_method = 0, ds_dig_bcast_system = 0x1b, ds_slot0 = 0x1234, ds_slot1 = 7, ds_slot2 = 0x2114\<rparr>"

theorem timer_round_trip_witness:
  "cec_ops_set_digital_timer (cec_msg_set_digital_timer zeroed 1 24 12 20 15 1 45 0 sample_service) sample_service =
    (24, 12, 20, 15, 1, 45, 0, sample_service)"
  using timer_round_trip [of zeroed 20 15 1 45 sample_service]
  by (simp add: cec_byte sample_service_def atsc_system_def)

text \<open>
  A recording source survives the record message: for each of the five source kinds the decoder sets
  the kind and the data of that kind, leaves the rest of the caller's structure alone, and the
  encoder asks for the record status exactly when a reply is wanted.
\<close>

theorem record_on_round_trip:
  assumes "msg_ok msg" and "rs_type src = k" and "ds_service_id_method (rs_digital src) = 0"
    and "ds_dig_bcast_system (rs_digital src) < 128"
    and "atsc_system (ds_dig_bcast_system (rs_digital src)) \<Longrightarrow> ds_slot2 (rs_digital src) = 0"
  shows "cm_reply (cec_msg_record_on msg reply src) = (if reply = 0 then 0 else lo8 CEC_MSG_RECORD_STATUS) \<and>
    (k = 1 \<longrightarrow> cec_ops_record_on (cec_msg_record_on msg reply src) old = old\<lparr>rs_type := 1\<rparr>) \<and>
    (k = 2 \<longrightarrow> cec_ops_record_on (cec_msg_record_on msg reply src) old = old\<lparr>rs_type := 2, rs_digital := rs_digital src\<rparr>) \<and>
    (k = 3 \<longrightarrow> cec_ops_record_on (cec_msg_record_on msg reply src) old = old\<lparr>rs_type := 3,
      rs_ana_bcast_type := rs_ana_bcast_type src, rs_ana_freq := rs_ana_freq src, rs_bcast_system := rs_bcast_system src\<rparr>) \<and>
    (k = 4 \<longrightarrow> cec_ops_record_on (cec_msg_record_on msg reply src) old = old\<lparr>rs_type := 4, rs_plug := rs_plug src\<rparr>) \<and>
    (k = 5 \<longrightarrow> cec_ops_record_on (cec_msg_record_on msg reply src) old = old\<lparr>rs_type := 5, rs_phys_addr := rs_phys_addr src\<rparr>)"
proof -
  note digital = digital_by_id [OF _ assms(3,4) assms(5)]
  note kinds = CEC_OP_RECORD_SRC_OWN_def CEC_OP_RECORD_SRC_DIGITAL_def CEC_OP_RECORD_SRC_ANALOG_def
    CEC_OP_RECORD_SRC_EXT_PLUG_def CEC_OP_RECORD_SRC_EXT_PHYS_ADDR_def
  have num: "prom (2 :: u8) = 2" "prom (3 :: u8) = 3" "prom (4 :: u8) = 4" "prom (5 :: u8) = 5"
    "lo8 2 = 2" "lo8 3 = 3" "lo8 4 = 4" "lo8 5 = 5" by (simp_all add: c_convert_defs)
  have "cm_reply (cec_msg_record_on msg reply src) = (if reply = 0 then 0 else lo8 CEC_MSG_RECORD_STATUS)"
    by (simp add: cec_msg_record_on_def Let_def)
  moreover have "k = 1 \<Longrightarrow> cec_ops_record_on (cec_msg_record_on msg reply src) old = old\<lparr>rs_type := 1\<rparr>"
    using assms(1,2) by (simp add: cec_simps kinds num)
  moreover have "k = 2 \<Longrightarrow> cec_ops_record_on (cec_msg_record_on msg reply src) old =
      old\<lparr>rs_type := 2, rs_digital := rs_digital src\<rparr>"
    using assms(1,2) by (simp add: cec_simps kinds num digital msg_ok_length nth_cm_msg)
  moreover have "k = 3 \<Longrightarrow> cec_ops_record_on (cec_msg_record_on msg reply src) old = old\<lparr>rs_type := 3,
      rs_ana_bcast_type := rs_ana_bcast_type src, rs_ana_freq := rs_ana_freq src, rs_bcast_system := rs_bcast_system src\<rparr>"
    using assms(1,2) by (simp add: cec_simps kinds num)
  moreover have "k = 4 \<Longrightarrow> cec_ops_record_on (cec_msg_record_on msg reply src) old = old\<lparr>rs_type := 4, rs_plug := rs_plug src\<rparr>"
    using assms(1,2) by (simp add: cec_simps kinds num)
  moreover have "k = 5 \<Longrightarrow> cec_ops_record_on (cec_msg_record_on msg reply src) old =
      old\<lparr>rs_type := 5, rs_phys_addr := rs_phys_addr src\<rparr>"
    using assms(1,2) by (simp add: cec_simps kinds num)
  ultimately show ?thesis by blast
qed

definition sample_source :: "u8 \<Rightarrow> cec_op_record_src" where
  "sample_source k = \<lparr>rs_type = k, rs_digital = sample_service, rs_ana_bcast_type = 1, rs_ana_freq = 0x1f40,
    rs_bcast_system = 4, rs_plug = 3, rs_phys_addr = 0x1200\<rparr>"

theorem record_on_round_trip_witness:
  "rs_digital (cec_ops_record_on (cec_msg_record_on zeroed 1 (sample_source 2)) (sample_source 0)) = sample_service \<and>
   rs_ana_freq (cec_ops_record_on (cec_msg_record_on zeroed 1 (sample_source 3)) (sample_source 0)) = 0x1f40"
  using record_on_round_trip [of zeroed "sample_source 2" 2 1 "sample_source 0"]
    record_on_round_trip [of zeroed "sample_source 3" 3 1 "sample_source 0"]
  by (simp add: cec_byte sample_source_def sample_service_def atsc_system_def)

text \<open>
  The status of a timer survives: the warning, the media state and the programme result, which is
  either an information or an error code, are read back, and the free time exactly when the code
  carries one.
\<close>

theorem timer_status_round_trip:
  assumes "msg_ok msg" and "timer_overlap_warning < 2" "media_info < 4" "prog_info < 16" "prog_error < 16"
    and "prog_info = 0 \<or> prog_error = 0" and "duration_hr < 160" "duration_min < 160"
  defines "timed \<equiv> prog_info = 0x9 \<or> prog_info = 0xb \<or> prog_error = 0xe"
  shows "cec_ops_timer_status
      (cec_msg_timer_status msg timer_overlap_warning media_info prog_info prog_error duration_hr duration_min) =
    (timer_overlap_warning, media_info, prog_info, prog_error,
     if timed then duration_hr else 0, if timed then duration_min else 0)"
proof -
  let ?c = "if prog_info \<noteq> 0 then prog_info else prog_error"
  have code: "?c < 16" using assms(4,5) by simp
  have select: "(if prog_info \<noteq> 0 then prom prog_info else prom prog_error) = prom ?c" by simp
  have timed: "timed \<longleftrightarrow> prom prog_info = CEC_OP_PROG_INFO_NOT_ENOUGH_SPACE \<or>
      prom prog_info = CEC_OP_PROG_INFO_MIGHT_NOT_BE_ENOUGH_SPACE \<or> prom prog_error = CEC_OP_PROG_ERROR_DUPLICATE"
    by (simp add: timed_def cec_const word_unat_eq_iff)
  define b where "b = lo8 (push_bit 7 (prom timer_overlap_warning) OR push_bit 5 (prom media_info) OR
    (if prog_info \<noteq> 0 then 0x10 else 0) OR prom ?c)"
  note byte = status_byte [OF assms(2,3) code, of "prog_info \<noteq> 0", folded b_def]
  define m where "m = cec_msg_timer_status msg timer_overlap_warning media_info prog_info prog_error duration_hr duration_min"
  have m: "m = (let m = put 2 b (put 1 (lo8 CEC_MSG_TIMER_STATUS) (msg\<lparr>cm_len := 3\<rparr>)) in
      if timed then put 4 (lo8 (push_bit 4 (prom duration_min div 10) OR (prom duration_min mod 10)))
        (put 3 (lo8 (push_bit 4 (prom duration_hr div 10) OR (prom duration_hr mod 10))) (m\<lparr>cm_len := cm_len m + 2\<rparr>)) else m)"
    unfolding m_def cec_msg_timer_status_def Let_def select b_def [symmetric] timed [symmetric] ..
  have "byte_at m 2 = b" using assms(1) by (simp add: m Let_def cec_byte)
  moreover have "timed \<Longrightarrow> byte_at m 3 = lo8 (push_bit 4 (prom duration_hr div 10) OR (prom duration_hr mod 10)) \<and>
      byte_at m 4 = lo8 (push_bit 4 (prom duration_min div 10) OR (prom duration_min mod 10))"
    using assms(1) by (simp add: m Let_def cec_byte)
  ultimately show ?thesis unfolding m_def [symmetric]
    using assms(6-8)
    by (cases "prog_info = 0"; cases timed) (simp_all add: cec_ops_timer_status_def c_masks byte timed bcd_round_trip)
qed

theorem timer_status_round_trip_witness:
  "cec_ops_timer_status (cec_msg_timer_status zeroed 1 2 9 0 3 30) = (1, 2, 9, 0, 3, 30)"
  using timer_status_round_trip [of zeroed 1 2 9 0 3 30] by (simp add: cec_byte)

text \<open>
  C29. A channel number loses its upper part: of a service identified by channel the decoder returns the
  system, the number format and the minor number, but the major number only below 256, because it
  shifts its two upper bits by 6 places instead of 8. From 256 on it returns a different channel.
\<close>

theorem channel_major_decoding:
  fixes d :: cec_op_digital_service_id
  assumes "p + 6 < length msg" and "ds_service_id_method digital = 1" and "ds_dig_bcast_system digital < 128"
    and "channel_number_fmt digital < 64" and "channel_major digital < 1024"
  defines "d' \<equiv> cec_get_digital_service_id (cec_set_digital_service_id msg p digital) p d"
  shows "ds_service_id_method d' = 1 \<and> ds_dig_bcast_system d' = ds_dig_bcast_system digital \<and>
    channel_number_fmt d' = channel_number_fmt digital \<and> channel_minor d' = channel_minor digital \<and>
    channel_major d' < 256 \<and> (channel_major d' = channel_major digital \<longleftrightarrow> channel_major digital < 256)"
  unfolding d'_def using digital_by_channel [OF assms(1-5)] decoded_major_iff [OF assms(5)] decoded_major_below [OF assms(5)]
  by simp

theorem channel_major_decoding_witness:
  "channel_major (cec_get_digital_service_id (cec_set_digital_service_id (replicate 16 0) 2
     (sample_service\<lparr>ds_service_id_method := 1, ds_slot0 := 2, ds_slot1 := 300\<rparr>)) 2 sample_service) \<noteq> 300"
  using channel_major_decoding [of 2 "replicate 16 0" "sample_service\<lparr>ds_service_id_method := 1, ds_slot0 := 2, ds_slot1 := 300\<rparr>"
    sample_service]
  by (simp add: sample_service_def channel_number_fmt_def channel_major_def c_convert_defs)

subsection \<open>The codec contract\<close>

interpretation active_source: message_codec cec_msg_active_source cec_ops_active_source "\<lambda>_. True"
  by unfold_locales (simp_all add: cec_simps)

interpretation routing_change: message_codec
  "\<lambda>msg (orig_addr, new_addr). cec_msg_routing_change msg reply orig_addr new_addr" cec_ops_routing_change "\<lambda>_. True"
  for reply
  by unfold_locales (auto simp: cec_simps)

definition timer_times_ok :: "u8 \<times> u8 \<times> u8 \<times> u8 \<times> u8 \<times> u8 \<times> 'a \<Rightarrow> bool" where
  "timer_times_ok = (\<lambda>(day, month, start_hr, start_min, duration_hr, duration_min, rest).
    start_hr < 160 \<and> start_min < 160 \<and> duration_hr < 160 \<and> duration_min < 160)"

interpretation analogue_timer: message_codec
  "\<lambda>msg (day, month, sh, sm, dh, dm, sequence, ana_bcast_type, ana_freq, bcast_system).
     cec_msg_set_analogue_timer msg reply day month sh sm dh dm sequence ana_bcast_type ana_freq bcast_system"
  cec_ops_set_analogue_timer timer_times_ok for reply
  by unfold_locales (auto simp: timer_times_ok_def cec_simps)

interpretation ext_timer: message_codec
  "\<lambda>msg (day, month, sh, sm, dh, dm, sequence, ext_src_spec, plug, phys_addr).
     cec_msg_set_ext_timer msg reply day month sh sm dh dm sequence ext_src_spec plug phys_addr"
  cec_ops_set_ext_timer timer_times_ok for reply
  by unfold_locales (auto simp: timer_times_ok_def cec_simps)

end
