(* ===== verification/CEC_Devices.thy ===== *)
theory CEC_Devices
  imports CEC_Recording
begin

unbundle bit_operations_syntax

text \<open>
  \<open>linux/cec-funcs.h\<close>, second part: system information, deck, tuner, vendor commands, on-screen
  text, menus and remote control, power status, and the general protocol messages.
\<close>

subsection \<open>System Information Feature\<close>

definition cec_msg_cec_version :: "cec_msg \<Rightarrow> u8 \<Rightarrow> cec_msg" where
  [cec_fun]: "cec_msg_cec_version msg cec_version =
    (let msg = msg\<lparr>cm_len := 3\<rparr>;
         msg = put 1 (lo8 CEC_MSG_CEC_VERSION) msg;
         msg = put 2 cec_version msg
     in msg)"

definition cec_ops_cec_version :: "cec_msg \<Rightarrow> u8" where
  [cec_fun]: "cec_ops_cec_version msg = byte_at msg 2"

definition cec_msg_get_cec_version :: "cec_msg \<Rightarrow> u32 \<Rightarrow> cec_msg" where
  [cec_fun]: "cec_msg_get_cec_version msg reply =
    (let msg = msg\<lparr>cm_len := 2\<rparr>;
         msg = put 1 (lo8 CEC_MSG_GET_CEC_VERSION) msg;
         msg = msg\<lparr>cm_reply := lo8 (if reply \<noteq> 0 then CEC_MSG_CEC_VERSION else 0)\<rparr>
     in msg)"

definition cec_msg_report_physical_addr :: "cec_msg \<Rightarrow> u16 \<Rightarrow> u8 \<Rightarrow> cec_msg" where
  [cec_fun]: "cec_msg_report_physical_addr msg phys_addr prim_devtype =
    (let msg = msg\<lparr>cm_len := 5\<rparr>;
         msg = put 0 (lo8 (prom (byte_at msg 0) OR 0xf)) msg;
         msg = put 1 (lo8 CEC_MSG_REPORT_PHYSICAL_ADDR) msg;
         msg = put 2 (lo8 (drop_bit 8 (prom phys_addr))) msg;
         msg = put 3 (lo8 (prom phys_addr AND 0xff)) msg;
         msg = put 4 prim_devtype msg
     in msg)"

definition cec_ops_report_physical_addr :: "cec_msg \<Rightarrow> u16 \<times> u8" where
  [cec_fun]: "cec_ops_report_physical_addr msg =
    (lo16 (push_bit 8 (prom (byte_at msg 2)) OR prom (byte_at msg 3)),
     byte_at msg 4)"

definition cec_msg_give_physical_addr :: "cec_msg \<Rightarrow> u32 \<Rightarrow> cec_msg" where
  [cec_fun]: "cec_msg_give_physical_addr msg reply =
    (let msg = msg\<lparr>cm_len := 2\<rparr>;
         msg = put 1 (lo8 CEC_MSG_GIVE_PHYSICAL_ADDR) msg;
         msg = msg\<lparr>cm_reply := lo8 (if reply \<noteq> 0 then CEC_MSG_REPORT_PHYSICAL_ADDR else 0)\<rparr>
     in msg)"

definition cec_msg_set_menu_language :: "cec_msg \<Rightarrow> u8 list \<Rightarrow> cec_msg" where
  [cec_fun]: "cec_msg_set_menu_language msg language =
    (let msg = msg\<lparr>cm_len := 5\<rparr>;
         msg = put 0 (lo8 (prom (byte_at msg 0) OR 0xf)) msg;
         msg = put 1 (lo8 CEC_MSG_SET_MENU_LANGUAGE) msg;
         msg = msg\<lparr>cm_msg := memcpy (cm_msg msg) 2 language 0 3\<rparr>
     in msg)"

definition cec_ops_set_menu_language :: "cec_msg \<Rightarrow> u8 list \<Rightarrow> u8 list" where
  [cec_fun]: "cec_ops_set_menu_language msg language =
    (let language = memcpy language 0 (cm_msg msg) 2 3;
         language = language[3 := 0]
     in language)"

definition cec_msg_get_menu_language :: "cec_msg \<Rightarrow> u32 \<Rightarrow> cec_msg" where
  [cec_fun]: "cec_msg_get_menu_language msg reply =
    (let msg = msg\<lparr>cm_len := 2\<rparr>;
         msg = put 1 (lo8 CEC_MSG_GET_MENU_LANGUAGE) msg;
         msg = msg\<lparr>cm_reply := lo8 (if reply \<noteq> 0 then CEC_MSG_SET_MENU_LANGUAGE else 0)\<rparr>
     in msg)"

definition cec_msg_report_features ::
  "cec_msg \<Rightarrow> u8 \<Rightarrow> u8 \<Rightarrow> u8 \<Rightarrow> u8 \<Rightarrow> cec_msg" where
  [cec_fun]: "cec_msg_report_features msg cec_version all_device_types rc_profile dev_features =
    (let msg = msg\<lparr>cm_len := 6\<rparr>;
         msg = put 0 (lo8 (prom (byte_at msg 0) OR 0xf)) msg;
         msg = put 1 (lo8 CEC_MSG_REPORT_FEATURES) msg;
         msg = put 2 cec_version msg;
         msg = put 3 all_device_types msg;
         msg = put 4 rc_profile msg;
         msg = put 5 dev_features msg
     in msg)"

text \<open>
  A pointer into the payload is its index, \<open>NULL\<close> is \<open>None\<close>; \<open>skip_ext\<close> is the loop
  \<open>while (p < &msg->msg[limit] && (*p & CEC_OP_FEAT_EXT)) p++\<close>.
\<close>

function skip_ext :: "cec_msg \<Rightarrow> nat \<Rightarrow> nat \<Rightarrow> nat" where
  "skip_ext msg limit p =
    (if p < limit \<and> prom (byte_at msg p) AND CEC_OP_FEAT_EXT \<noteq> 0 then skip_ext msg limit (p + 1) else p)"
  by pat_completeness auto
termination
  by (relation "measure (\<lambda>(msg, limit, p). limit - p)") auto

declare skip_ext.simps [simp del]

definition cec_ops_report_features :: "cec_msg \<Rightarrow> u8 \<times> u8 \<times> nat option \<times> nat option" where
  [cec_fun]: "cec_ops_report_features msg =
    (let p = 4;
         cec_version = byte_at msg 2;
         all_device_types = byte_at msg 3;
         rc_profile = Some p;
         dev_features = None;
         p = skip_ext msg 14 p;
         (p, dev_features) =
           (if \<not> (prom (byte_at msg p) AND CEC_OP_FEAT_EXT \<noteq> 0) then (skip_ext msg 15 p, Some (p + 1))
            else (p, dev_features));
         (rc_profile, dev_features) =
           (if prom (byte_at msg p) AND CEC_OP_FEAT_EXT \<noteq> 0 then (None, None) else (rc_profile, dev_features))
     in (cec_version, all_device_types, rc_profile, dev_features))"

definition cec_msg_give_features :: "cec_msg \<Rightarrow> u32 \<Rightarrow> cec_msg" where
  [cec_fun]: "cec_msg_give_features msg reply =
    (let msg = msg\<lparr>cm_len := 2\<rparr>;
         msg = put 1 (lo8 CEC_MSG_GIVE_FEATURES) msg;
         msg = msg\<lparr>cm_reply := lo8 (if reply \<noteq> 0 then CEC_MSG_REPORT_FEATURES else 0)\<rparr>
     in msg)"

subsection \<open>Deck Control Feature\<close>

definition cec_msg_deck_control :: "cec_msg \<Rightarrow> u8 \<Rightarrow> cec_msg" where
  [cec_fun]: "cec_msg_deck_control msg deck_control_mode =
    (let msg = msg\<lparr>cm_len := 3\<rparr>;
         msg = put 1 (lo8 CEC_MSG_DECK_CONTROL) msg;
         msg = put 2 deck_control_mode msg
     in msg)"

definition cec_ops_deck_control :: "cec_msg \<Rightarrow> u8" where
  [cec_fun]: "cec_ops_deck_control msg = byte_at msg 2"

definition cec_msg_deck_status :: "cec_msg \<Rightarrow> u8 \<Rightarrow> cec_msg" where
  [cec_fun]: "cec_msg_deck_status msg deck_info =
    (let msg = msg\<lparr>cm_len := 3\<rparr>;
         msg = put 1 (lo8 CEC_MSG_DECK_STATUS) msg;
         msg = put 2 deck_info msg
     in msg)"

definition cec_ops_deck_status :: "cec_msg \<Rightarrow> u8" where
  [cec_fun]: "cec_ops_deck_status msg = byte_at msg 2"

definition cec_msg_give_deck_status :: "cec_msg \<Rightarrow> u32 \<Rightarrow> u8 \<Rightarrow> cec_msg" where
  [cec_fun]: "cec_msg_give_deck_status msg reply status_req =
    (let msg = msg\<lparr>cm_len := 3\<rparr>;
         msg = put 1 (lo8 CEC_MSG_GIVE_DECK_STATUS) msg;
         msg = put 2 status_req msg;
         msg = msg\<lparr>cm_reply := lo8 (if reply \<noteq> 0 \<and> prom status_req \<noteq> CEC_OP_STATUS_REQ_OFF then CEC_MSG_DECK_STATUS else 0)\<rparr>
     in msg)"

definition cec_ops_give_deck_status :: "cec_msg \<Rightarrow> u8" where
  [cec_fun]: "cec_ops_give_deck_status msg = byte_at msg 2"

definition cec_msg_play :: "cec_msg \<Rightarrow> u8 \<Rightarrow> cec_msg" where
  [cec_fun]: "cec_msg_play msg play_mode =
    (let msg = msg\<lparr>cm_len := 3\<rparr>;
         msg = put 1 (lo8 CEC_MSG_PLAY) msg;
         msg = put 2 play_mode msg
     in msg)"

definition cec_ops_play :: "cec_msg \<Rightarrow> u8" where
  [cec_fun]: "cec_ops_play msg = byte_at msg 2"

subsection \<open>Tuner Control Feature\<close>

record cec_op_tuner_device_info =
  td_rec_flag :: u8
  td_tuner_display_info :: u8
  td_is_analog :: u8
  td_digital :: cec_op_digital_service_id
  td_ana_bcast_type :: u8
  td_ana_freq :: u16
  td_bcast_system :: u8

definition cec_msg_tuner_device_status_analog ::
  "cec_msg \<Rightarrow> u8 \<Rightarrow> u8 \<Rightarrow> u8 \<Rightarrow> u16 \<Rightarrow> u8 \<Rightarrow> cec_msg" where
  [cec_fun]: "cec_msg_tuner_device_status_analog msg rec_flag tuner_display_info ana_bcast_type ana_freq bcast_system =
    (let msg = msg\<lparr>cm_len := 7\<rparr>;
         msg = put 1 (lo8 CEC_MSG_TUNER_DEVICE_STATUS) msg;
         msg = put 2 (lo8 (push_bit 7 (prom rec_flag) OR prom tuner_display_info)) msg;
         msg = put 3 ana_bcast_type msg;
         msg = put 4 (lo8 (drop_bit 8 (prom ana_freq))) msg;
         msg = put 5 (lo8 (prom ana_freq AND 0xff)) msg;
         msg = put 6 bcast_system msg
     in msg)"

definition cec_msg_tuner_device_status_digital :: "cec_msg \<Rightarrow> u8 \<Rightarrow> u8 \<Rightarrow> cec_op_digital_service_id \<Rightarrow> cec_msg" where
  [cec_fun]: "cec_msg_tuner_device_status_digital msg rec_flag tuner_display_info digital =
    (let msg = msg\<lparr>cm_len := 10\<rparr>;
         msg = put 1 (lo8 CEC_MSG_TUNER_DEVICE_STATUS) msg;
         msg = put 2 (lo8 (push_bit 7 (prom rec_flag) OR prom tuner_display_info)) msg;
         msg = msg\<lparr>cm_msg := cec_set_digital_service_id (cm_msg msg) 3 digital\<rparr>
     in msg)"

definition cec_msg_tuner_device_status :: "cec_msg \<Rightarrow> cec_op_tuner_device_info \<Rightarrow> cec_msg" where
  [cec_fun]: "cec_msg_tuner_device_status msg tuner_dev_info =
    (if td_is_analog tuner_dev_info \<noteq> 0 then
       cec_msg_tuner_device_status_analog msg (td_rec_flag tuner_dev_info) (td_tuner_display_info tuner_dev_info)
         (td_ana_bcast_type tuner_dev_info) (td_ana_freq tuner_dev_info) (td_bcast_system tuner_dev_info)
     else
       cec_msg_tuner_device_status_digital msg (td_rec_flag tuner_dev_info) (td_tuner_display_info tuner_dev_info)
         (td_digital tuner_dev_info))"

definition cec_ops_tuner_device_status :: "cec_msg \<Rightarrow> cec_op_tuner_device_info \<Rightarrow> cec_op_tuner_device_info" where
  [cec_fun]: "cec_ops_tuner_device_status msg tuner_dev_info =
    (let tuner_dev_info = tuner_dev_info\<lparr>td_is_analog := of_bool (cm_len msg < 10)\<rparr>;
         tuner_dev_info = tuner_dev_info\<lparr>td_rec_flag := lo8 (drop_bit 7 (prom (byte_at msg 2)))\<rparr>;
         tuner_dev_info = tuner_dev_info\<lparr>td_tuner_display_info := lo8 (prom (byte_at msg 2) AND 0x7f)\<rparr>
     in if td_is_analog tuner_dev_info \<noteq> 0 then
       (let tuner_dev_info = tuner_dev_info\<lparr>td_ana_bcast_type := byte_at msg 3\<rparr>;
            tuner_dev_info = tuner_dev_info\<lparr>td_ana_freq := lo16 (push_bit 8 (prom (byte_at msg 4)) OR prom (byte_at msg 5))\<rparr>;
            tuner_dev_info = tuner_dev_info\<lparr>td_bcast_system := byte_at msg 6\<rparr>
        in tuner_dev_info)
     else tuner_dev_info\<lparr>td_digital := cec_get_digital_service_id (cm_msg msg) 3 (td_digital tuner_dev_info)\<rparr>)"

definition cec_msg_give_tuner_device_status ::
  "cec_msg \<Rightarrow> u32 \<Rightarrow> u8 \<Rightarrow> cec_msg" where
  [cec_fun]: "cec_msg_give_tuner_device_status msg reply status_req =
    (let msg = msg\<lparr>cm_len := 3\<rparr>;
         msg = put 1 (lo8 CEC_MSG_GIVE_TUNER_DEVICE_STATUS) msg;
         msg = put 2 status_req msg;
         msg = msg\<lparr>cm_reply := lo8 (if reply \<noteq> 0 \<and> prom status_req \<noteq> CEC_OP_STATUS_REQ_OFF then CEC_MSG_TUNER_DEVICE_STATUS else 0)\<rparr>
     in msg)"

definition cec_ops_give_tuner_device_status :: "cec_msg \<Rightarrow> u8" where
  [cec_fun]: "cec_ops_give_tuner_device_status msg = byte_at msg 2"

definition cec_msg_select_analogue_service ::
  "cec_msg \<Rightarrow> u8 \<Rightarrow> u16 \<Rightarrow> u8 \<Rightarrow> cec_msg" where
  [cec_fun]: "cec_msg_select_analogue_service msg ana_bcast_type ana_freq bcast_system =
    (let msg = msg\<lparr>cm_len := 6\<rparr>;
         msg = put 1 (lo8 CEC_MSG_SELECT_ANALOGUE_SERVICE) msg;
         msg = put 2 ana_bcast_type msg;
         msg = put 3 (lo8 (drop_bit 8 (prom ana_freq))) msg;
         msg = put 4 (lo8 (prom ana_freq AND 0xff)) msg;
         msg = put 5 bcast_system msg
     in msg)"

definition cec_ops_select_analogue_service :: "cec_msg \<Rightarrow> u8 \<times> u16 \<times> u8" where
  [cec_fun]: "cec_ops_select_analogue_service msg =
    (byte_at msg 2,
     lo16 (push_bit 8 (prom (byte_at msg 3)) OR prom (byte_at msg 4)),
     byte_at msg 5)"

definition cec_msg_select_digital_service :: "cec_msg \<Rightarrow> cec_op_digital_service_id \<Rightarrow> cec_msg" where
  [cec_fun]: "cec_msg_select_digital_service msg digital =
    (let msg = msg\<lparr>cm_len := 9\<rparr>;
         msg = put 1 (lo8 CEC_MSG_SELECT_DIGITAL_SERVICE) msg;
         msg = msg\<lparr>cm_msg := cec_set_digital_service_id (cm_msg msg) 2 digital\<rparr>
     in msg)"

definition cec_ops_select_digital_service ::
  "cec_msg \<Rightarrow> cec_op_digital_service_id \<Rightarrow> cec_op_digital_service_id" where
  [cec_fun]: "cec_ops_select_digital_service msg digital = cec_get_digital_service_id (cm_msg msg) 2 digital"

definition cec_msg_tuner_step_decrement :: "cec_msg \<Rightarrow> cec_msg" where
  [cec_fun]: "cec_msg_tuner_step_decrement msg =
    (let msg = msg\<lparr>cm_len := 2\<rparr>;
         msg = put 1 (lo8 CEC_MSG_TUNER_STEP_DECREMENT) msg
     in msg)"

definition cec_msg_tuner_step_increment :: "cec_msg \<Rightarrow> cec_msg" where
  [cec_fun]: "cec_msg_tuner_step_increment msg =
    (let msg = msg\<lparr>cm_len := 2\<rparr>;
         msg = put 1 (lo8 CEC_MSG_TUNER_STEP_INCREMENT) msg
     in msg)"

subsection \<open>Vendor Specific Commands Feature\<close>

definition cec_msg_device_vendor_id :: "cec_msg \<Rightarrow> u32 \<Rightarrow> cec_msg" where
  [cec_fun]: "cec_msg_device_vendor_id msg vendor_id =
    (let msg = msg\<lparr>cm_len := 5\<rparr>;
         msg = put 0 (lo8 (prom (byte_at msg 0) OR 0xf)) msg;
         msg = put 1 (lo8 CEC_MSG_DEVICE_VENDOR_ID) msg;
         msg = put 2 (lo8 (drop_bit 16 vendor_id)) msg;
         msg = put 3 (lo8 (drop_bit 8 vendor_id AND 0xff)) msg;
         msg = put 4 (lo8 (vendor_id AND 0xff)) msg
     in msg)"

definition cec_ops_device_vendor_id :: "cec_msg \<Rightarrow> u32" where
  [cec_fun]: "cec_ops_device_vendor_id msg = push_bit 16 (prom (byte_at msg 2)) OR push_bit 8 (prom (byte_at msg 3)) OR prom (byte_at msg 4)"

definition cec_msg_give_device_vendor_id :: "cec_msg \<Rightarrow> u32 \<Rightarrow> cec_msg" where
  [cec_fun]: "cec_msg_give_device_vendor_id msg reply =
    (let msg = msg\<lparr>cm_len := 2\<rparr>;
         msg = put 1 (lo8 CEC_MSG_GIVE_DEVICE_VENDOR_ID) msg;
         msg = msg\<lparr>cm_reply := lo8 (if reply \<noteq> 0 then CEC_MSG_DEVICE_VENDOR_ID else 0)\<rparr>
     in msg)"

definition cec_msg_vendor_command :: "cec_msg \<Rightarrow> u8 \<Rightarrow> u8 list \<Rightarrow> cec_msg" where
  [cec_fun]: "cec_msg_vendor_command msg sz vendor_cmd =
    (let sz = (if prom sz > 14 then 14 else sz);
         msg = msg\<lparr>cm_len := 2 + prom sz\<rparr>;
         msg = put 1 (lo8 CEC_MSG_VENDOR_COMMAND) msg;
         msg = msg\<lparr>cm_msg := memcpy (cm_msg msg) 2 vendor_cmd 0 (unat sz)\<rparr>
     in msg)"

definition cec_ops_vendor_command :: "cec_msg \<Rightarrow> u8 \<times> nat" where
  [cec_fun]: "cec_ops_vendor_command msg =
    (let sz = lo8 (cm_len msg - 2);
         sz = (if prom sz > 14 then 14 else sz)
     in (sz, 2))"

definition cec_msg_vendor_command_with_id :: "cec_msg \<Rightarrow> u32 \<Rightarrow> u8 \<Rightarrow> u8 list \<Rightarrow> cec_msg" where
  [cec_fun]: "cec_msg_vendor_command_with_id msg vendor_id sz vendor_cmd =
    (let sz = (if prom sz > 11 then 11 else sz);
         msg = msg\<lparr>cm_len := 5 + prom sz\<rparr>;
         msg = put 1 (lo8 CEC_MSG_VENDOR_COMMAND_WITH_ID) msg;
         msg = put 2 (lo8 (drop_bit 16 vendor_id)) msg;
         msg = put 3 (lo8 (drop_bit 8 vendor_id AND 0xff)) msg;
         msg = put 4 (lo8 (vendor_id AND 0xff)) msg;
         msg = msg\<lparr>cm_msg := memcpy (cm_msg msg) 5 vendor_cmd 0 (unat sz)\<rparr>
     in msg)"

definition cec_ops_vendor_command_with_id :: "cec_msg \<Rightarrow> u32 \<times> u8 \<times> nat" where
  [cec_fun]: "cec_ops_vendor_command_with_id msg =
    (let sz = lo8 (cm_len msg - 5);
         sz = (if prom sz > 11 then 11 else sz);
         vendor_id = push_bit 16 (prom (byte_at msg 2)) OR push_bit 8 (prom (byte_at msg 3)) OR prom (byte_at msg 4)
     in (vendor_id, sz, 5))"

definition cec_msg_vendor_remote_button_down :: "cec_msg \<Rightarrow> u8 \<Rightarrow> u8 list \<Rightarrow> cec_msg" where
  [cec_fun]: "cec_msg_vendor_remote_button_down msg sz rc_code =
    (let sz = (if prom sz > 14 then 14 else sz);
         msg = msg\<lparr>cm_len := 2 + prom sz\<rparr>;
         msg = put 1 (lo8 CEC_MSG_VENDOR_REMOTE_BUTTON_DOWN) msg;
         msg = msg\<lparr>cm_msg := memcpy (cm_msg msg) 2 rc_code 0 (unat sz)\<rparr>
     in msg)"

definition cec_ops_vendor_remote_button_down :: "cec_msg \<Rightarrow> u8 \<times> nat" where
  [cec_fun]: "cec_ops_vendor_remote_button_down msg =
    (let sz = lo8 (cm_len msg - 2);
         sz = (if prom sz > 14 then 14 else sz)
     in (sz, 2))"

definition cec_msg_vendor_remote_button_up :: "cec_msg \<Rightarrow> cec_msg" where
  [cec_fun]: "cec_msg_vendor_remote_button_up msg =
    (let msg = msg\<lparr>cm_len := 2\<rparr>;
         msg = put 1 (lo8 CEC_MSG_VENDOR_REMOTE_BUTTON_UP) msg
     in msg)"

subsection \<open>OSD Display Feature\<close>

definition cec_msg_set_osd_string :: "cec_msg \<Rightarrow> u8 \<Rightarrow> u8 list \<Rightarrow> cec_msg" where
  [cec_fun]: "cec_msg_set_osd_string msg disp_ctl osd =
    (let len = word_of_nat (strlen osd) :: u32;
         len = (if len > 13 then 13 else len);
         msg = msg\<lparr>cm_len := 3 + len\<rparr>;
         msg = put 1 (lo8 CEC_MSG_SET_OSD_STRING) msg;
         msg = put 2 disp_ctl msg;
         msg = msg\<lparr>cm_msg := memcpy (cm_msg msg) 3 osd 0 (unat len)\<rparr>
     in msg)"

definition cec_ops_set_osd_string :: "cec_msg \<Rightarrow> u8 list \<Rightarrow> u8 \<times> u8 list" where
  [cec_fun]: "cec_ops_set_osd_string msg osd =
    (let len = (if cm_len msg > 3 then cm_len msg - 3 else 0);
         len = (if len > 13 then 13 else len);
         osd = memcpy osd 0 (cm_msg msg) 3 (unat len);
         osd = osd[unat len := 0]
     in (byte_at msg 2, osd))"

subsection \<open>Device OSD Transfer Feature\<close>

definition cec_msg_set_osd_name :: "cec_msg \<Rightarrow> u8 list \<Rightarrow> cec_msg" where
  [cec_fun]: "cec_msg_set_osd_name msg name =
    (let len = word_of_nat (strlen name) :: u32;
         len = (if len > 14 then 14 else len);
         msg = msg\<lparr>cm_len := 2 + len\<rparr>;
         msg = put 1 (lo8 CEC_MSG_SET_OSD_NAME) msg;
         msg = msg\<lparr>cm_msg := memcpy (cm_msg msg) 2 name 0 (unat len)\<rparr>
     in msg)"

definition cec_ops_set_osd_name :: "cec_msg \<Rightarrow> u8 list \<Rightarrow> u8 list" where
  [cec_fun]: "cec_ops_set_osd_name msg name =
    (let len = (if cm_len msg > 2 then cm_len msg - 2 else 0);
         len = (if len > 14 then 14 else len);
         name = memcpy name 0 (cm_msg msg) 2 (unat len);
         name = name[unat len := 0]
     in name)"

definition cec_msg_give_osd_name :: "cec_msg \<Rightarrow> u32 \<Rightarrow> cec_msg" where
  [cec_fun]: "cec_msg_give_osd_name msg reply =
    (let msg = msg\<lparr>cm_len := 2\<rparr>;
         msg = put 1 (lo8 CEC_MSG_GIVE_OSD_NAME) msg;
         msg = msg\<lparr>cm_reply := lo8 (if reply \<noteq> 0 then CEC_MSG_SET_OSD_NAME else 0)\<rparr>
     in msg)"

subsection \<open>Device Menu Control Feature\<close>

definition cec_msg_menu_status :: "cec_msg \<Rightarrow> u8 \<Rightarrow> cec_msg" where
  [cec_fun]: "cec_msg_menu_status msg menu_state =
    (let msg = msg\<lparr>cm_len := 3\<rparr>;
         msg = put 1 (lo8 CEC_MSG_MENU_STATUS) msg;
         msg = put 2 menu_state msg
     in msg)"

definition cec_ops_menu_status :: "cec_msg \<Rightarrow> u8" where
  [cec_fun]: "cec_ops_menu_status msg = byte_at msg 2"

definition cec_msg_menu_request :: "cec_msg \<Rightarrow> u32 \<Rightarrow> u8 \<Rightarrow> cec_msg" where
  [cec_fun]: "cec_msg_menu_request msg reply menu_req =
    (let msg = msg\<lparr>cm_len := 3\<rparr>;
         msg = put 1 (lo8 CEC_MSG_MENU_REQUEST) msg;
         msg = put 2 menu_req msg;
         msg = msg\<lparr>cm_reply := lo8 (if reply \<noteq> 0 then CEC_MSG_MENU_STATUS else 0)\<rparr>
     in msg)"

definition cec_ops_menu_request :: "cec_msg \<Rightarrow> u8" where
  [cec_fun]: "cec_ops_menu_request msg = byte_at msg 2"

text \<open>The one-byte members of the union share the field \<open>ui_play_mode\<close>.\<close>

record cec_op_channel_data =
  cd_channel_number_fmt :: u8
  cd_major :: u16
  cd_minor :: u16

record cec_op_ui_command =
  ui_ui_cmd :: u8
  ui_has_opt_arg :: u8
  ui_channel_identifier :: cec_op_channel_data
  ui_play_mode :: u8

definition cec_msg_user_control_pressed :: "cec_msg \<Rightarrow> cec_op_ui_command \<Rightarrow> cec_msg" where
  [cec_fun]: "cec_msg_user_control_pressed msg ui_cmd =
    (let msg = msg\<lparr>cm_len := 3\<rparr>;
         msg = put 1 (lo8 CEC_MSG_USER_CONTROL_PRESSED) msg;
         msg = put 2 (ui_ui_cmd ui_cmd) msg
     in if \<not> ui_has_opt_arg ui_cmd \<noteq> 0 then msg
     else if ui_ui_cmd ui_cmd \<in> {0x56, 0x57, 0x60, 0x68, 0x69, 0x6a} then
       (let msg = msg\<lparr>cm_len := cm_len msg + 1\<rparr>;
            msg = put 3 (ui_play_mode ui_cmd) msg
        in msg)
     else if ui_ui_cmd ui_cmd = 0x67 then
       (let ch = ui_channel_identifier ui_cmd;
            msg = msg\<lparr>cm_len := cm_len msg + 4\<rparr>;
            msg = put 3 (lo8 (push_bit 2 (prom (cd_channel_number_fmt ch)) OR drop_bit 8 (prom (cd_major ch)))) msg;
            msg = put 4 (lo8 (prom (cd_major ch) AND 0xff)) msg;
            msg = put 5 (lo8 (drop_bit 8 (prom (cd_minor ch)))) msg;
            msg = put 6 (lo8 (prom (cd_minor ch) AND 0xff)) msg
        in msg)
     else msg)"

definition cec_ops_user_control_pressed :: "cec_msg \<Rightarrow> cec_op_ui_command \<Rightarrow> cec_op_ui_command" where
  [cec_fun]: "cec_ops_user_control_pressed msg ui_cmd =
    (let ui_cmd = ui_cmd\<lparr>ui_ui_cmd := byte_at msg 2\<rparr>;
         ui_cmd = ui_cmd\<lparr>ui_has_opt_arg := 0\<rparr>
     in if cm_len msg = 3 then ui_cmd
     else if ui_ui_cmd ui_cmd \<in> {0x56, 0x57, 0x60, 0x68, 0x69, 0x6a} then
       (let ui_cmd = ui_cmd\<lparr>ui_play_mode := byte_at msg 3\<rparr>;
            ui_cmd = ui_cmd\<lparr>ui_has_opt_arg := 1\<rparr>
        in ui_cmd)
     else if ui_ui_cmd ui_cmd = 0x67 then
       (if cm_len msg < 7 then ui_cmd
        else
          (let ui_cmd = ui_cmd\<lparr>ui_has_opt_arg := 1\<rparr>;
               ch = ui_channel_identifier ui_cmd;
               ch = ch\<lparr>cd_channel_number_fmt := lo8 (drop_bit 2 (prom (byte_at msg 3)))\<rparr>;
               ch = ch\<lparr>cd_major := lo16 (push_bit 6 (prom (byte_at msg 3) AND 3) OR prom (byte_at msg 4))\<rparr>;
               ch = ch\<lparr>cd_minor := lo16 (push_bit 8 (prom (byte_at msg 5)) OR prom (byte_at msg 6))\<rparr>
           in ui_cmd\<lparr>ui_channel_identifier := ch\<rparr>))
     else ui_cmd)"

definition cec_msg_user_control_released :: "cec_msg \<Rightarrow> cec_msg" where
  [cec_fun]: "cec_msg_user_control_released msg =
    (let msg = msg\<lparr>cm_len := 2\<rparr>;
         msg = put 1 (lo8 CEC_MSG_USER_CONTROL_RELEASED) msg
     in msg)"

subsection \<open>Power Status Feature\<close>

definition cec_msg_report_power_status :: "cec_msg \<Rightarrow> u8 \<Rightarrow> cec_msg" where
  [cec_fun]: "cec_msg_report_power_status msg pwr_state =
    (let msg = msg\<lparr>cm_len := 3\<rparr>;
         msg = put 1 (lo8 CEC_MSG_REPORT_POWER_STATUS) msg;
         msg = put 2 pwr_state msg
     in msg)"

definition cec_ops_report_power_status :: "cec_msg \<Rightarrow> u8" where
  [cec_fun]: "cec_ops_report_power_status msg = byte_at msg 2"

definition cec_msg_give_device_power_status :: "cec_msg \<Rightarrow> u32 \<Rightarrow> cec_msg" where
  [cec_fun]: "cec_msg_give_device_power_status msg reply =
    (let msg = msg\<lparr>cm_len := 2\<rparr>;
         msg = put 1 (lo8 CEC_MSG_GIVE_DEVICE_POWER_STATUS) msg;
         msg = msg\<lparr>cm_reply := lo8 (if reply \<noteq> 0 then CEC_MSG_REPORT_POWER_STATUS else 0)\<rparr>
     in msg)"

subsection \<open>General Protocol Messages\<close>

definition cec_msg_feature_abort :: "cec_msg \<Rightarrow> u8 \<Rightarrow> u8 \<Rightarrow> cec_msg" where
  [cec_fun]: "cec_msg_feature_abort msg abort_msg reason =
    (let msg = msg\<lparr>cm_len := 4\<rparr>;
         msg = put 1 (lo8 CEC_MSG_FEATURE_ABORT) msg;
         msg = put 2 abort_msg msg;
         msg = put 3 reason msg
     in msg)"

definition cec_ops_feature_abort :: "cec_msg \<Rightarrow> u8 \<times> u8" where
  [cec_fun]: "cec_ops_feature_abort msg =
    (byte_at msg 2,
     byte_at msg 3)"

definition cec_msg_reply_feature_abort :: "cec_msg \<Rightarrow> u8 \<Rightarrow> cec_msg" where
  [cec_fun]: "cec_msg_reply_feature_abort msg reason =
    (let msg = cec_msg_set_reply_to msg msg;
         msg = msg\<lparr>cm_len := 4\<rparr>;
         msg = put 2 (byte_at msg 1) msg;
         msg = put 3 reason msg;
         msg = put 1 (lo8 CEC_MSG_FEATURE_ABORT) msg
     in msg)"

definition cec_msg_abort :: "cec_msg \<Rightarrow> cec_msg" where
  [cec_fun]: "cec_msg_abort msg =
    (let msg = msg\<lparr>cm_len := 2\<rparr>;
         msg = put 1 (lo8 CEC_MSG_ABORT) msg
     in msg)"

section \<open>Round trips\<close>

lemmas device_simps = cec_fun cec_byte c_masks c_field Let_def

subsection \<open>Text\<close>

text \<open>A buffer holds a string: its bytes, then a terminator.\<close>

definition holds_string :: "u8 list \<Rightarrow> u8 list \<Rightarrow> bool" where
  "holds_string buf t \<longleftrightarrow> length t < length buf \<and> take (length t) buf = t \<and> buf ! length t = 0"

lemma text_length:
  fixes len base limit :: u32
  assumes "len \<le> limit" and "unat base + unat limit \<le> 16"
  shows "(if (if base + len > base then base + len - base else 0) > limit then limit
    else if base + len > base then base + len - base else 0) = len"
proof -
  have "unat len \<le> unat limit" using assms(1) by (simp add: word_le_nat_alt)
  then have "unat (base + len) = unat base + unat len" using assms(2) by (simp add: unat_word_ariths)
  then have "base + len > base \<longleftrightarrow> len \<noteq> 0" by (simp add: word_less_nat_alt unat_gt_0)
  then show ?thesis using assms(1) by (auto simp: not_less)
qed

text \<open>The common part of the text messages, with \<open>base\<close> header bytes and at most \<open>limit\<close> bytes of text.\<close>

lemma text_decoded:
  fixes s buf bytes :: "u8 list" and base limit :: u32
  assumes "length s < 2 ^ 32" and "unat base + unat limit = 16" and "length bytes = 16" and "unat limit < length buf"
  defines "len \<equiv> (if (word_of_nat (strlen s) :: u32) > limit then limit else word_of_nat (strlen s))"
  defines "sent \<equiv> memcpy bytes (unat base) s 0 (unat len)"
  defines "got \<equiv> (if (if base + len > base then base + len - base else 0) > limit then limit
    else if base + len > base then base + len - base else 0)"
  shows "holds_string ((memcpy buf 0 sent (unat base) (unat got))[unat got := 0])
    (take (unat limit) (takeWhile (\<lambda>c. c \<noteq> 0) s))"
proof -
  have "limit = word_of_nat (unat limit)" by simp
  note str = text_round_trip [OF assms(1,2,3,4), folded this, folded len_def]
  have "len \<le> limit" by (auto simp: len_def)
  then have got: "got = len" using text_length [of len limit base] assms(2) by (simp add: got_def)
  have len: "length (take (unat limit) (takeWhile (\<lambda>c. c \<noteq> 0) s)) = unat len"
    by (simp add: str(1) strlen_def min.commute)
  show ?thesis
    using str(1,2) assms(4) unfolding holds_string_def len got sent_def by auto
qed

text \<open>
  Text survives up to the room in a message: titles, names and on-screen strings come back as the
  first 14 (or 13) bytes before the terminator of the string that was sent, and are terminated again;
  the three letters of a menu language come back unchanged.
\<close>

theorem text_messages_round_trip:
  assumes "msg_ok msg" and "length s < 2 ^ 32" and "14 < length buf" and "length language = 3"
  defines "txt \<equiv> takeWhile (\<lambda>c. c \<noteq> 0) s"
  shows "holds_string (cec_ops_set_timer_program_title (cec_msg_set_timer_program_title msg s) buf) (take 14 txt) \<and>
    holds_string (cec_ops_set_osd_name (cec_msg_set_osd_name msg s) buf) (take 14 txt) \<and>
    fst (cec_ops_set_osd_string (cec_msg_set_osd_string msg disp_ctl s) buf) = disp_ctl \<and>
    holds_string (snd (cec_ops_set_osd_string (cec_msg_set_osd_string msg disp_ctl s) buf)) (take 13 txt) \<and>
    holds_string (cec_ops_set_menu_language (cec_msg_set_menu_language msg language) buf) language"
proof -
  have 16: "length (cm_msg msg) = 16" using assms(1) by (rule msg_ok_length)
  note str = text_decoded [OF assms(2), folded txt_def]
  have "holds_string (cec_ops_set_timer_program_title (cec_msg_set_timer_program_title msg s) buf) (take 14 txt)"
    using str [of 2 14 "cm_msg (put 1 (lo8 CEC_MSG_SET_TIMER_PROGRAM_TITLE) msg)" buf] assms(3) 16
    by (simp add: cec_fun Let_def put_def split del: if_split cong: if_cong)
  moreover have "holds_string (cec_ops_set_osd_name (cec_msg_set_osd_name msg s) buf) (take 14 txt)"
    using str [of 2 14 "cm_msg (put 1 (lo8 CEC_MSG_SET_OSD_NAME) msg)" buf] assms(3) 16
    by (simp add: cec_fun Let_def put_def split del: if_split cong: if_cong)
  moreover have "holds_string (snd (cec_ops_set_osd_string (cec_msg_set_osd_string msg disp_ctl s) buf)) (take 13 txt)"
    using str [of 3 13 "cm_msg (put 2 disp_ctl (put 1 (lo8 CEC_MSG_SET_OSD_STRING) msg))" buf] assms(3) 16
    by (simp add: cec_fun Let_def put_def split del: if_split cong: if_cong)
  moreover have "fst (cec_ops_set_osd_string (cec_msg_set_osd_string msg disp_ctl s) buf) = disp_ctl"
    using 16 by (simp add: cec_fun Let_def put_def byte_at_def memcpy_below)
  moreover have "holds_string (cec_ops_set_menu_language (cec_msg_set_menu_language msg language) buf) language"
    using assms(3,4) 16 by (auto simp: cec_fun Let_def put_def holds_string_def nth_memcpy intro!: nth_equalityI)
  ultimately show ?thesis by blast
qed

theorem text_messages_round_trip_witness:
  "holds_string (cec_ops_set_osd_name (cec_msg_set_osd_name zeroed [84, 86, 0, 1]) (replicate 15 7)) [84, 86]"
  using text_messages_round_trip [of zeroed "[84, 86, 0, 1]" "replicate 15 7" "[101, 110, 103]"] by (simp add: cec_byte)

subsection \<open>Vendor commands\<close>

lemma clamp_size:
  fixes sz :: u8 and limit :: u32
  assumes "unat limit < 256"
  shows "unat (if prom sz > limit then lo8 limit else sz) = min (unat sz) (unat limit)"
  using assms by (auto simp: word_less_nat_alt lo8_def unsigned_ucast_eq take_bit_nat_eq_self_iff)

lemma size_read_back:
  fixes sz :: u8 and base :: u32
  shows "lo8 (base + prom sz - base) = sz"
  by simp

text \<open>
  Vendor data survives up to the room in a message: the decoders return the vendor id, the number of
  bytes that fitted and a pointer at which exactly the first bytes of the data are found.
\<close>

theorem vendor_round_trip:
  assumes "msg_ok msg" and "unat sz \<le> length cmd" and "vendor_id < 2 ^ 24"
  shows "(\<exists>p n. cec_ops_vendor_command (cec_msg_vendor_command msg sz cmd) = (n, p) \<and> unat n = min (unat sz) 14 \<and>
      take (unat n) (drop p (cm_msg (cec_msg_vendor_command msg sz cmd))) = take (unat n) cmd) \<and>
    (\<exists>p n. cec_ops_vendor_remote_button_down (cec_msg_vendor_remote_button_down msg sz cmd) = (n, p) \<and>
      unat n = min (unat sz) 14 \<and>
      take (unat n) (drop p (cm_msg (cec_msg_vendor_remote_button_down msg sz cmd))) = take (unat n) cmd) \<and>
    (\<exists>p n. cec_ops_vendor_command_with_id (cec_msg_vendor_command_with_id msg vendor_id sz cmd) = (vendor_id, n, p) \<and>
      unat n = min (unat sz) 11 \<and>
      take (unat n) (drop p (cm_msg (cec_msg_vendor_command_with_id msg vendor_id sz cmd))) = take (unat n) cmd)"
proof -
  have 16: "length (cm_msg msg) = 16" using assms(1) by (rule msg_ok_length)
  have num: "lo8 14 = 14" "lo8 11 = 11" by (simp_all add: lo8_def)
  define n where "n = (if prom sz > 14 then 14 else sz)"
  define k where "k = (if prom sz > 11 then 11 else sz)"
  have n: "unat n = min (unat sz) 14" using clamp_size [of 14 sz, unfolded num] by (simp add: n_def)
  have k: "unat k = min (unat sz) 11" using clamp_size [of 11 sz, unfolded num] by (simp add: k_def)
  have again: "(if prom n > 14 then 14 else n) = n" "(if prom k > 11 then 11 else k) = k"
    using n k by (auto simp: word_less_nat_alt)
  have id: "take_bit 24 vendor_id = vendor_id"
    using assms(3) by (simp add: take_bit_eq_mod word_less_nat_alt word_unat_eq_iff unat_mod)
  have copy: "take (unat m) (drop base (memcpy bytes base cmd 0 (unat m))) = take (unat m) cmd"
    if "unat m \<le> unat sz" "base + unat m \<le> 16" "length bytes = 16" for m :: u8 and base and bytes :: "u8 list"
    using that assms(2) by (intro memcpy_read_back) simp_all
  have "cec_ops_vendor_command (cec_msg_vendor_command msg sz cmd) = (n, 2)"
    by (simp add: cec_fun Let_def put_def n_def [symmetric] size_read_back again)
  moreover have "take (unat n) (drop 2 (cm_msg (cec_msg_vendor_command msg sz cmd))) = take (unat n) cmd"
    using copy [of n 2] n 16 by (simp add: cec_fun Let_def put_def n_def [symmetric])
  moreover have "cec_ops_vendor_remote_button_down (cec_msg_vendor_remote_button_down msg sz cmd) = (n, 2)"
    by (simp add: cec_fun Let_def put_def n_def [symmetric] size_read_back again)
  moreover have "take (unat n) (drop 2 (cm_msg (cec_msg_vendor_remote_button_down msg sz cmd))) = take (unat n) cmd"
    using copy [of n 2] n 16 by (simp add: cec_fun Let_def put_def n_def [symmetric])
  moreover have "cec_ops_vendor_command_with_id (cec_msg_vendor_command_with_id msg vendor_id sz cmd) = (vendor_id, k, 5)"
    using 16 by (simp add: cec_fun Let_def put_def k_def [symmetric] size_read_back again byte_at_def memcpy_below
      c_masks c_field id)
  moreover have "take (unat k) (drop 5 (cm_msg (cec_msg_vendor_command_with_id msg vendor_id sz cmd))) = take (unat k) cmd"
    using copy [of k 5] k 16 by (simp add: cec_fun Let_def put_def k_def [symmetric])
  ultimately show ?thesis using n k by auto
qed

theorem vendor_round_trip_witness:
  "\<exists>p n. cec_ops_vendor_command_with_id (cec_msg_vendor_command_with_id zeroed 0x1f0a 2 [7, 9]) = (0x1f0a, n, p) \<and>
     unat n = 2 \<and> take (unat n) (drop p (cm_msg (cec_msg_vendor_command_with_id zeroed 0x1f0a 2 [7, 9]))) = [7, 9]"
  using vendor_round_trip [of zeroed 2 "[7, 9]" "0x1f0a"] by (auto simp: cec_byte)

text \<open>
  The size of a vendor command is trusted below the header: on a message shorter than its two header
  bytes, such as a poll, the subtraction wraps around and fourteen bytes of data are reported.
\<close>

theorem vendor_command_size_wraps:
  "cm_len msg = 1 \<Longrightarrow> cec_ops_vendor_command msg = (14, 2)"
proof -
  assume "cm_len msg = 1"
  moreover have "lo8 (- 1) = - 1" by (rule bit_word_eqI) (simp add: lo8_def bit_simps)
  moreover have "prom (- 1 :: u8) > 14"
    by (simp add: word_less_nat_alt unsigned_minus_1_eq_mask mask_eq_exp_minus_1)
  ultimately show ?thesis by (simp add: cec_fun Let_def)
qed

theorem vendor_command_size_wraps_witness:
  "cec_ops_vendor_command (cec_msg_init zeroed 4 0) = (14, 2)"
  using vendor_command_size_wraps [of "cec_msg_init zeroed 4 0"] by (simp add: init_bytes)

subsection \<open>Device features\<close>

definition is_ext :: "cec_msg \<Rightarrow> nat \<Rightarrow> bool" where
  "is_ext msg p \<longleftrightarrow> prom (byte_at msg p) AND CEC_OP_FEAT_EXT \<noteq> 0"

lemma is_ext_iff: "is_ext msg p \<longleftrightarrow> bit (byte_at msg p) 7"
  using and_exp_eq_0_iff_not_bit [of "prom (byte_at msg p)" 7]
  by (simp add: is_ext_def cec_const prom_def bit_simps)

lemma skip_ext_stops: "\<not> is_ext msg p \<Longrightarrow> skip_ext msg limit p = p"
  by (subst skip_ext.simps) (simp add: is_ext_def)

lemma skip_ext_result:
  assumes "p \<le> limit"
  shows "p \<le> skip_ext msg limit p \<and> skip_ext msg limit p \<le> limit \<and> (\<forall>i \<in> {p..<skip_ext msg limit p}. is_ext msg i) \<and>
    (skip_ext msg limit p < limit \<longrightarrow> \<not> is_ext msg (skip_ext msg limit p))"
  using assms
proof (induction msg limit p rule: skip_ext.induct)
  case (1 msg limit p)
  show ?case
  proof (cases "p < limit \<and> is_ext msg p")
    case True
    then have step: "skip_ext msg limit p = skip_ext msg limit (p + 1)"
      by (subst skip_ext.simps) (simp add: is_ext_def)
    have ih: "p + 1 \<le> skip_ext msg limit (p + 1) \<and> skip_ext msg limit (p + 1) \<le> limit \<and>
        (\<forall>i \<in> {p + 1..<skip_ext msg limit (p + 1)}. is_ext msg i) \<and>
        (skip_ext msg limit (p + 1) < limit \<longrightarrow> \<not> is_ext msg (skip_ext msg limit (p + 1)))"
      using 1 True by (simp add: is_ext_def)
    have "{p..<skip_ext msg limit (p + 1)} = insert p {p + 1..<skip_ext msg limit (p + 1)}"
      using ih by auto
    then show ?thesis unfolding step using ih True by auto
  next
    case False
    then have "skip_ext msg limit p = p" by (subst skip_ext.simps) (auto simp: is_ext_def)
    then show ?thesis using 1(2) False by auto
  qed
qed

text \<open>
  The pointers of a features message: the decoder returns both or neither. It returns them exactly
  when one of the bytes 4 to 14 ends the profile list, they stay inside the message, and the
  device features begin behind the first byte without extension bit. It never looks at the device
  features: its loop over them starts on the byte that already ended the profile list.
\<close>

theorem report_features_pointers:
  "\<exists>p. 4 \<le> p \<and> p \<le> 14 \<and> list_all (\<lambda>i. bit (byte_at msg i) 7) [4..<p] \<and> \<not> (p < 14 \<and> bit (byte_at msg p) 7) \<and>
    cec_ops_report_features msg = (byte_at msg 2, byte_at msg 3,
      if bit (byte_at msg p) 7 then None else Some 4, if bit (byte_at msg p) 7 then None else Some (p + 1))"
proof (intro exI conjI)
  let ?p = "skip_ext msg 14 4"
  note p = skip_ext_result [of 4 14 msg]
  show "4 \<le> ?p" "?p \<le> 14" using p by auto
  show "list_all (\<lambda>i. bit (byte_at msg i) 7) [4..<?p]" using p by (simp add: list_all_iff flip: is_ext_iff)
  show "\<not> (?p < 14 \<and> bit (byte_at msg ?p) 7)" using p by (auto simp flip: is_ext_iff)
  show "cec_ops_report_features msg = (byte_at msg 2, byte_at msg 3,
      if bit (byte_at msg ?p) 7 then None else Some 4, if bit (byte_at msg ?p) 7 then None else Some (?p + 1))"
    by (cases "is_ext msg ?p")
      (simp_all add: cec_ops_report_features_def Let_def skip_ext_stops flip: is_ext_def is_ext_iff)
qed

text \<open>
  One profile byte and one features byte, the only kind the encoder builds, are found by the decoder.
\<close>

theorem report_features_round_trip:
  fixes ver types dev_features :: u8
  assumes "msg_ok msg" and "rc_profile < 128"
  defines "m \<equiv> cec_msg_report_features msg ver types rc_profile dev_features"
  shows "cec_ops_report_features m = (ver, types, Some 4, Some 5) \<and> byte_at m 4 = rc_profile \<and> byte_at m 5 = dev_features"
proof -
  have m: "byte_at m 2 = ver" "byte_at m 3 = types" "byte_at m 4 = rc_profile" "byte_at m 5 = dev_features"
    using assms(1) by (simp_all add: m_def device_simps)
  have "\<not> is_ext m 4" using bit_above [of rc_profile 7 7] assms(2) by (simp add: is_ext_iff m)
  then show ?thesis using m
    by (simp add: cec_ops_report_features_def Let_def skip_ext_stops flip: is_ext_def)
qed

theorem report_features_round_trip_witness:
  "cec_ops_report_features (cec_msg_report_features zeroed 6 0x10 2 4) = (6, 0x10, Some 4, Some 5)"
  using report_features_round_trip [of zeroed 2 6 "0x10" 4] by (simp add: cec_byte)

subsection \<open>Tuner, remote control and answers\<close>

text \<open>
  The state of a tuner survives: flag, display information and the analogue or digital service, told
  apart by the length of the message; the member of the other kind is left as it was.
\<close>

theorem tuner_status_round_trip:
  assumes "msg_ok msg" and "td_rec_flag info < 2" and "td_tuner_display_info info < 128"
    and "ds_service_id_method (td_digital info) = 0" and "ds_dig_bcast_system (td_digital info) < 128"
    and "atsc_system (ds_dig_bcast_system (td_digital info)) \<Longrightarrow> ds_slot2 (td_digital info) = 0"
  shows "cec_ops_tuner_device_status (cec_msg_tuner_device_status msg info) old =
    (if td_is_analog info = 0
     then info\<lparr>td_ana_bcast_type := td_ana_bcast_type old, td_ana_freq := td_ana_freq old, td_bcast_system := td_bcast_system old\<rparr>
     else info\<lparr>td_is_analog := 1, td_digital := td_digital old\<rparr>)"
proof -
  note digital = digital_by_id [OF _ assms(4,5) assms(6)]
  show ?thesis using assms(1-3)
    by (cases "td_is_analog info = 0")
      (simp_all add: device_simps digital_head digital msg_ok_length nth_cm_msg)
qed

definition sample_tuner :: cec_op_tuner_device_info where
  "sample_tuner = \<lparr>td_rec_flag = 1, td_tuner_display_info = 2, td_is_analog = 0, td_digital = sample_service,
    td_ana_bcast_type = 0, td_ana_freq = 0, td_bcast_system = 0\<rparr>"

theorem tuner_status_round_trip_witness:
  "cec_ops_tuner_device_status (cec_msg_tuner_device_status zeroed sample_tuner) sample_tuner = sample_tuner"
  using tuner_status_round_trip [of zeroed sample_tuner sample_tuner]
  by (simp add: cec_byte sample_tuner_def sample_service_def atsc_system_def)

text \<open>
  A key press survives with its operand: a key with a one-byte operand and a key without one come
  back exactly; for the channel key the major channel number comes back only below 256, as in a
  service identifier.
\<close>

theorem user_control_round_trip:
  assumes "msg_ok msg" and "cd_channel_number_fmt (ui_channel_identifier ui) < 64"
    and "cd_major (ui_channel_identifier ui) < 1024"
  defines "got \<equiv> cec_ops_user_control_pressed (cec_msg_user_control_pressed msg ui) ui"
  shows "ui_ui_cmd got = ui_ui_cmd ui \<and> ui_play_mode got = ui_play_mode ui \<and>
    ui_has_opt_arg got =
      (if ui_has_opt_arg ui = 0 then 0 else of_bool (ui_ui_cmd ui \<in> {0x56, 0x57, 0x60, 0x67, 0x68, 0x69, 0x6a})) \<and>
    (got = ui\<lparr>ui_has_opt_arg := ui_has_opt_arg got\<rparr> \<longleftrightarrow>
      \<not> (ui_has_opt_arg ui \<noteq> 0 \<and> ui_ui_cmd ui = 0x67 \<and> cd_major (ui_channel_identifier ui) \<ge> 256))"
proof -
  let ?ch = "ui_channel_identifier ui"
  have major: "decoded_major (cd_major ?ch) = cd_major ?ch \<longleftrightarrow> cd_major ?ch < 256"
    by (rule decoded_major_iff [OF assms(3)])
  consider "ui_has_opt_arg ui = 0" | "ui_has_opt_arg ui \<noteq> 0" "ui_ui_cmd ui \<in> {0x56, 0x57, 0x60, 0x68, 0x69, 0x6a}"
    | "ui_has_opt_arg ui \<noteq> 0" "ui_ui_cmd ui = 0x67"
    | "ui_has_opt_arg ui \<noteq> 0" "ui_ui_cmd ui \<notin> {0x56, 0x57, 0x60, 0x68, 0x69, 0x6a, 0x67}" by blast
  then show ?thesis
  proof cases
    case 3
    have "got = ui\<lparr>ui_has_opt_arg := 1, ui_channel_identifier := ?ch\<lparr>cd_major := decoded_major (cd_major ?ch)\<rparr>\<rparr>"
      using assms(1-3) 3 by (simp add: got_def device_simps channel_fields decoded_major_def)
    moreover have "ui\<lparr>ui_has_opt_arg := 1, ui_channel_identifier := ?ch\<lparr>cd_major := decoded_major (cd_major ?ch)\<rparr>\<rparr> =
        ui\<lparr>ui_has_opt_arg := 1\<rparr> \<longleftrightarrow> decoded_major (cd_major ?ch) = cd_major ?ch"
      by (cases ui; cases ?ch) auto
    ultimately show ?thesis using 3 by (simp add: major not_le)
  qed (use assms(1) in \<open>auto simp: got_def device_simps\<close>)
qed

definition sample_key :: "u8 \<Rightarrow> cec_op_ui_command" where
  "sample_key cmd = \<lparr>ui_ui_cmd = cmd, ui_has_opt_arg = 1,
    ui_channel_identifier = \<lparr>cd_channel_number_fmt = 1, cd_major = 300, cd_minor = 5\<rparr>, ui_play_mode = 0x24\<rparr>"

theorem user_control_round_trip_witness:
  "cec_ops_user_control_pressed (cec_msg_user_control_pressed zeroed (sample_key 0x60)) (sample_key 0x60) = sample_key 0x60 \<and>
   cec_ops_user_control_pressed (cec_msg_user_control_pressed zeroed (sample_key 0x67)) (sample_key 0x67) \<noteq> sample_key 0x67"
proof -
  have key: "cd_channel_number_fmt (ui_channel_identifier (sample_key c)) < 64"
    "cd_major (ui_channel_identifier (sample_key c)) < 1024" "\<not> cd_major (ui_channel_identifier (sample_key c)) < 256"
    "ui_has_opt_arg (sample_key c) = 1" "(sample_key c)\<lparr>ui_has_opt_arg := 1\<rparr> = sample_key c" "ui_ui_cmd (sample_key c) = c" for c
    by (simp_all add: sample_key_def)
  show ?thesis
    using user_control_round_trip [of zeroed "sample_key 0x60", OF zeroed_ok(1) key(1) key(2)]
      user_control_round_trip [of zeroed "sample_key 0x67", OF zeroed_ok(1) key(1) key(2)]
    by (simp add: key not_less [symmetric]) (metis key(5))
qed

text \<open>
  A message turns into its own refusal: the feature abort goes back to the initiator of the message,
  names the refused opcode and the reason, and asks for no reply.
\<close>

theorem reply_feature_abort_correct:
  fixes reason :: u8
  assumes "msg_ok msg" and "1 < cm_len msg"
  defines "m \<equiv> cec_msg_reply_feature_abort msg reason"
  shows "msg_ok m \<and> cm_len m = 4 \<and> cec_msg_opcode m = CEC_MSG_FEATURE_ABORT \<and> cm_reply m = 0 \<and>
    cec_ops_feature_abort m = (lo8 (cec_msg_opcode msg), reason) \<and>
    cec_msg_initiator m = cec_msg_destination msg \<and> cec_msg_destination m = cec_msg_initiator msg"
proof -
  have m: "byte_at m 0 = lo8 (push_bit 4 (prom (cec_msg_destination msg)) OR prom (cec_msg_initiator msg))"
    using assms(1) by (simp add: m_def device_simps)
  note addr = addresses_of_byte [OF m address_bounds(2) address_bounds(1)]
  show ?thesis using assms(1,2) addr
    by (simp add: m_def device_simps cec_msg_opcode_def) (simp add: cec_const c_convert_defs)
qed

theorem reply_feature_abort_correct_witness:
  "cec_ops_feature_abort (cec_msg_reply_feature_abort (cec_msg_standby zeroed) 4) = (lo8 CEC_MSG_STANDBY, 4)"
  using reply_feature_abort_correct [of "cec_msg_standby zeroed" 4]
  by (simp add: device_simps cec_msg_opcode_def)

end
