(* ===== verification/CEC_Audio.thy ===== *)
theory CEC_Audio
  imports CEC_Devices
begin

unbundle bit_operations_syntax

text \<open>
  \<open>linux/cec-funcs.h\<close>, third part: system audio, audio rate, audio return channel, lip sync and the
  capability discovery messages.
\<close>

subsection \<open>System Audio Control Feature\<close>

definition cec_msg_report_audio_status :: "cec_msg \<Rightarrow> u8 \<Rightarrow> u8 \<Rightarrow> cec_msg" where
  [cec_fun]: "cec_msg_report_audio_status msg aud_mute_status aud_vol_status =
    (let msg = msg\<lparr>cm_len := 3\<rparr>;
         msg = put 1 (lo8 CEC_MSG_REPORT_AUDIO_STATUS) msg;
         msg = put 2 (lo8 (push_bit 7 (prom aud_mute_status) OR (prom aud_vol_status AND 0x7f))) msg
     in msg)"

definition cec_ops_report_audio_status :: "cec_msg \<Rightarrow> u8 \<times> u8" where
  [cec_fun]: "cec_ops_report_audio_status msg =
    (lo8 (drop_bit 7 (prom (byte_at msg 2))),
     lo8 (prom (byte_at msg 2) AND 0x7f))"

definition cec_msg_give_audio_status :: "cec_msg \<Rightarrow> u32 \<Rightarrow> cec_msg" where
  [cec_fun]: "cec_msg_give_audio_status msg reply =
    (let msg = msg\<lparr>cm_len := 2\<rparr>;
         msg = put 1 (lo8 CEC_MSG_GIVE_AUDIO_STATUS) msg;
         msg = msg\<lparr>cm_reply := lo8 (if reply \<noteq> 0 then CEC_MSG_REPORT_AUDIO_STATUS else 0)\<rparr>
     in msg)"

definition cec_msg_set_system_audio_mode :: "cec_msg \<Rightarrow> u8 \<Rightarrow> cec_msg" where
  [cec_fun]: "cec_msg_set_system_audio_mode msg sys_aud_status =
    (let msg = msg\<lparr>cm_len := 3\<rparr>;
         msg = put 1 (lo8 CEC_MSG_SET_SYSTEM_AUDIO_MODE) msg;
         msg = put 2 sys_aud_status msg
     in msg)"

definition cec_ops_set_system_audio_mode :: "cec_msg \<Rightarrow> u8" where
  [cec_fun]: "cec_ops_set_system_audio_mode msg = byte_at msg 2"

definition cec_msg_system_audio_mode_request ::
  "cec_msg \<Rightarrow> u32 \<Rightarrow> u16 \<Rightarrow> cec_msg" where
  [cec_fun]: "cec_msg_system_audio_mode_request msg reply phys_addr =
    (let msg = msg\<lparr>cm_len := if prom phys_addr = 0xffff then 2 else 4\<rparr>;
         msg = put 1 (lo8 CEC_MSG_SYSTEM_AUDIO_MODE_REQUEST) msg;
         msg = put 2 (lo8 (drop_bit 8 (prom phys_addr))) msg;
         msg = put 3 (lo8 (prom phys_addr AND 0xff)) msg;
         msg = msg\<lparr>cm_reply := lo8 (if reply \<noteq> 0 then CEC_MSG_SET_SYSTEM_AUDIO_MODE else 0)\<rparr>
     in msg)"

definition cec_ops_system_audio_mode_request :: "cec_msg \<Rightarrow> u16" where
  [cec_fun]: "cec_ops_system_audio_mode_request msg =
    (if cm_len msg < 4 then 0xffff else lo16 (push_bit 8 (prom (byte_at msg 2)) OR prom (byte_at msg 3)))"

definition cec_msg_system_audio_mode_status :: "cec_msg \<Rightarrow> u8 \<Rightarrow> cec_msg" where
  [cec_fun]: "cec_msg_system_audio_mode_status msg sys_aud_status =
    (let msg = msg\<lparr>cm_len := 3\<rparr>;
         msg = put 1 (lo8 CEC_MSG_SYSTEM_AUDIO_MODE_STATUS) msg;
         msg = put 2 sys_aud_status msg
     in msg)"

definition cec_ops_system_audio_mode_status :: "cec_msg \<Rightarrow> u8" where
  [cec_fun]: "cec_ops_system_audio_mode_status msg = byte_at msg 2"

definition cec_msg_give_system_audio_mode_status :: "cec_msg \<Rightarrow> u32 \<Rightarrow> cec_msg" where
  [cec_fun]: "cec_msg_give_system_audio_mode_status msg reply =
    (let msg = msg\<lparr>cm_len := 2\<rparr>;
         msg = put 1 (lo8 CEC_MSG_GIVE_SYSTEM_AUDIO_MODE_STATUS) msg;
         msg = msg\<lparr>cm_reply := lo8 (if reply \<noteq> 0 then CEC_MSG_SYSTEM_AUDIO_MODE_STATUS else 0)\<rparr>
     in msg)"

definition cec_msg_report_short_audio_descriptor :: "cec_msg \<Rightarrow> u8 \<Rightarrow> u32 list \<Rightarrow> cec_msg" where
  [cec_fun]: "cec_msg_report_short_audio_descriptor msg num_descriptors descriptors =
    (let num_descriptors = (if prom num_descriptors > 4 then 4 else num_descriptors);
         msg = msg\<lparr>cm_len := 2 + prom num_descriptors * 3\<rparr>;
         msg = put 1 (lo8 CEC_MSG_REPORT_SHORT_AUDIO_DESCRIPTOR) msg
     in foldl (\<lambda>msg i.
         (let msg = put (2 + i * 3) (lo8 (drop_bit 16 (descriptors ! i) AND 0xff)) msg;
              msg = put (3 + i * 3) (lo8 (drop_bit 8 (descriptors ! i) AND 0xff)) msg;
              msg = put (4 + i * 3) (lo8 (descriptors ! i AND 0xff)) msg
          in msg)) msg [0..<unat num_descriptors])"

definition cec_ops_report_short_audio_descriptor :: "cec_msg \<Rightarrow> u32 list \<Rightarrow> u8 \<times> u32 list" where
  [cec_fun]: "cec_ops_report_short_audio_descriptor msg descriptors =
    (let num_descriptors = lo8 ((cm_len msg - 2) div 3);
         num_descriptors = (if prom num_descriptors > 4 then 4 else num_descriptors)
     in (num_descriptors,
         foldl (\<lambda>descriptors i.
           descriptors[i := push_bit 16 (prom (byte_at msg (2 + i * 3))) OR
             push_bit 8 (prom (byte_at msg (3 + i * 3))) OR prom (byte_at msg (4 + i * 3))])
           descriptors [0..<unat num_descriptors]))"

definition cec_msg_request_short_audio_descriptor ::
  "cec_msg \<Rightarrow> u32 \<Rightarrow> u8 \<Rightarrow> u8 list \<Rightarrow> u8 list \<Rightarrow> cec_msg" where
  [cec_fun]: "cec_msg_request_short_audio_descriptor msg reply num_descriptors audio_format_id audio_format_code =
    (let num_descriptors = (if prom num_descriptors > 4 then 4 else num_descriptors);
         msg = msg\<lparr>cm_len := 2 + prom num_descriptors\<rparr>;
         msg = put 1 (lo8 CEC_MSG_REQUEST_SHORT_AUDIO_DESCRIPTOR) msg;
         msg = msg\<lparr>cm_reply := lo8 (if reply \<noteq> 0 then CEC_MSG_REPORT_SHORT_AUDIO_DESCRIPTOR else 0)\<rparr>
     in foldl (\<lambda>msg i.
         put (2 + i) (lo8 (push_bit 6 (prom (audio_format_id ! i)) OR (prom (audio_format_code ! i) AND 0x3f))) msg)
         msg [0..<unat num_descriptors])"

definition cec_ops_request_short_audio_descriptor ::
  "cec_msg \<Rightarrow> u8 list \<Rightarrow> u8 list \<Rightarrow> u8 \<times> u8 list \<times> u8 list" where
  [cec_fun]: "cec_ops_request_short_audio_descriptor msg audio_format_id audio_format_code =
    (let num_descriptors = lo8 (cm_len msg - 2);
         num_descriptors = (if prom num_descriptors > 4 then 4 else num_descriptors)
     in (num_descriptors,
         foldl (\<lambda>(audio_format_id, audio_format_code) i.
           (audio_format_id[i := lo8 (drop_bit 6 (prom (byte_at msg (2 + i))))],
            audio_format_code[i := lo8 (prom (byte_at msg (2 + i)) AND 0x3f)]))
           (audio_format_id, audio_format_code) [0..<unat num_descriptors]))"

subsection \<open>Audio Rate Control Feature\<close>

definition cec_msg_set_audio_rate :: "cec_msg \<Rightarrow> u8 \<Rightarrow> cec_msg" where
  [cec_fun]: "cec_msg_set_audio_rate msg audio_rate =
    (let msg = msg\<lparr>cm_len := 3\<rparr>;
         msg = put 1 (lo8 CEC_MSG_SET_AUDIO_RATE) msg;
         msg = put 2 audio_rate msg
     in msg)"

definition cec_ops_set_audio_rate :: "cec_msg \<Rightarrow> u8" where
  [cec_fun]: "cec_ops_set_audio_rate msg = byte_at msg 2"

subsection \<open>Audio Return Channel Control Feature\<close>

definition cec_msg_report_arc_initiated :: "cec_msg \<Rightarrow> cec_msg" where
  [cec_fun]: "cec_msg_report_arc_initiated msg =
    (let msg = msg\<lparr>cm_len := 2\<rparr>;
         msg = put 1 (lo8 CEC_MSG_REPORT_ARC_INITIATED) msg
     in msg)"

definition cec_msg_initiate_arc :: "cec_msg \<Rightarrow> u32 \<Rightarrow> cec_msg" where
  [cec_fun]: "cec_msg_initiate_arc msg reply =
    (let msg = msg\<lparr>cm_len := 2\<rparr>;
         msg = put 1 (lo8 CEC_MSG_INITIATE_ARC) msg;
         msg = msg\<lparr>cm_reply := lo8 (if reply \<noteq> 0 then CEC_MSG_REPORT_ARC_INITIATED else 0)\<rparr>
     in msg)"

definition cec_msg_request_arc_initiation :: "cec_msg \<Rightarrow> u32 \<Rightarrow> cec_msg" where
  [cec_fun]: "cec_msg_request_arc_initiation msg reply =
    (let msg = msg\<lparr>cm_len := 2\<rparr>;
         msg = put 1 (lo8 CEC_MSG_REQUEST_ARC_INITIATION) msg;
         msg = msg\<lparr>cm_reply := lo8 (if reply \<noteq> 0 then CEC_MSG_INITIATE_ARC else 0)\<rparr>
     in msg)"

definition cec_msg_report_arc_terminated :: "cec_msg \<Rightarrow> cec_msg" where
  [cec_fun]: "cec_msg_report_arc_terminated msg =
    (let msg = msg\<lparr>cm_len := 2\<rparr>;
         msg = put 1 (lo8 CEC_MSG_REPORT_ARC_TERMINATED) msg
     in msg)"

definition cec_msg_terminate_arc :: "cec_msg \<Rightarrow> u32 \<Rightarrow> cec_msg" where
  [cec_fun]: "cec_msg_terminate_arc msg reply =
    (let msg = msg\<lparr>cm_len := 2\<rparr>;
         msg = put 1 (lo8 CEC_MSG_TERMINATE_ARC) msg;
         msg = msg\<lparr>cm_reply := lo8 (if reply \<noteq> 0 then CEC_MSG_REPORT_ARC_TERMINATED else 0)\<rparr>
     in msg)"

definition cec_msg_request_arc_termination :: "cec_msg \<Rightarrow> u32 \<Rightarrow> cec_msg" where
  [cec_fun]: "cec_msg_request_arc_termination msg reply =
    (let msg = msg\<lparr>cm_len := 2\<rparr>;
         msg = put 1 (lo8 CEC_MSG_REQUEST_ARC_TERMINATION) msg;
         msg = msg\<lparr>cm_reply := lo8 (if reply \<noteq> 0 then CEC_MSG_TERMINATE_ARC else 0)\<rparr>
     in msg)"

subsection \<open>Dynamic Audio Lipsync Feature\<close>

definition cec_msg_report_current_latency :: "cec_msg \<Rightarrow> u16 \<Rightarrow> u8 \<Rightarrow> u8 \<Rightarrow> u8 \<Rightarrow> u8 \<Rightarrow> cec_msg" where
  [cec_fun]: "cec_msg_report_current_latency msg phys_addr video_latency low_latency_mode audio_out_compensated audio_out_delay =
    (let msg = msg\<lparr>cm_len := 6\<rparr>;
         msg = put 0 (lo8 (prom (byte_at msg 0) OR 0xf)) msg;
         msg = put 1 (lo8 CEC_MSG_REPORT_CURRENT_LATENCY) msg;
         msg = put 2 (lo8 (drop_bit 8 (prom phys_addr))) msg;
         msg = put 3 (lo8 (prom phys_addr AND 0xff)) msg;
         msg = put 4 video_latency msg;
         msg = put 5 (lo8 (push_bit 2 (prom low_latency_mode) OR prom audio_out_compensated)) msg
     in if prom audio_out_compensated = 3 then msg_append audio_out_delay msg else msg)"

definition cec_ops_report_current_latency :: "cec_msg \<Rightarrow> u16 \<times> u8 \<times> u8 \<times> u8 \<times> u8" where
  [cec_fun]: "cec_ops_report_current_latency msg =
    (let phys_addr = lo16 (push_bit 8 (prom (byte_at msg 2)) OR prom (byte_at msg 3));
         video_latency = byte_at msg 4;
         low_latency_mode = lo8 (drop_bit 2 (prom (byte_at msg 5)) AND 1);
         audio_out_compensated = lo8 (prom (byte_at msg 5) AND 3);
         audio_out_delay = (if prom audio_out_compensated = 3 \<and> cm_len msg \<ge> 7 then byte_at msg 6 else 0)
     in (phys_addr, video_latency, low_latency_mode, audio_out_compensated, audio_out_delay))"

definition cec_msg_request_current_latency ::
  "cec_msg \<Rightarrow> u32 \<Rightarrow> u16 \<Rightarrow> cec_msg" where
  [cec_fun]: "cec_msg_request_current_latency msg reply phys_addr =
    (let msg = msg\<lparr>cm_len := 4\<rparr>;
         msg = put 0 (lo8 (prom (byte_at msg 0) OR 0xf)) msg;
         msg = put 1 (lo8 CEC_MSG_REQUEST_CURRENT_LATENCY) msg;
         msg = put 2 (lo8 (drop_bit 8 (prom phys_addr))) msg;
         msg = put 3 (lo8 (prom phys_addr AND 0xff)) msg;
         msg = msg\<lparr>cm_reply := lo8 (if reply \<noteq> 0 then CEC_MSG_REPORT_CURRENT_LATENCY else 0)\<rparr>
     in msg)"

definition cec_ops_request_current_latency :: "cec_msg \<Rightarrow> u16" where
  [cec_fun]: "cec_ops_request_current_latency msg = lo16 (push_bit 8 (prom (byte_at msg 2)) OR prom (byte_at msg 3))"

subsection \<open>Capability Discovery and Control Feature\<close>

definition cec_msg_cdc_hec_inquire_state :: "cec_msg \<Rightarrow> u16 \<Rightarrow> u16 \<Rightarrow> cec_msg" where
  [cec_fun]: "cec_msg_cdc_hec_inquire_state msg phys_addr1 phys_addr2 =
    (let msg = msg\<lparr>cm_len := 9\<rparr>;
         msg = put 0 (lo8 (prom (byte_at msg 0) OR 0xf)) msg;
         msg = put 1 (lo8 CEC_MSG_CDC_MESSAGE) msg;
         msg = put 4 (lo8 CEC_MSG_CDC_HEC_INQUIRE_STATE) msg;
         msg = put 5 (lo8 (drop_bit 8 (prom phys_addr1))) msg;
         msg = put 6 (lo8 (prom phys_addr1 AND 0xff)) msg;
         msg = put 7 (lo8 (drop_bit 8 (prom phys_addr2))) msg;
         msg = put 8 (lo8 (prom phys_addr2 AND 0xff)) msg
     in msg)"

definition cec_ops_cdc_hec_inquire_state :: "cec_msg \<Rightarrow> u16 \<times> u16 \<times> u16" where
  [cec_fun]: "cec_ops_cdc_hec_inquire_state msg =
    (lo16 (push_bit 8 (prom (byte_at msg 2)) OR prom (byte_at msg 3)),
     lo16 (push_bit 8 (prom (byte_at msg 5)) OR prom (byte_at msg 6)),
     lo16 (push_bit 8 (prom (byte_at msg 7)) OR prom (byte_at msg 8)))"

definition cec_msg_cdc_hec_report_state ::
  "cec_msg \<Rightarrow> u16 \<Rightarrow> u8 \<Rightarrow> u8 \<Rightarrow> u8 \<Rightarrow> u8 \<Rightarrow> u8 \<Rightarrow> u16 \<Rightarrow> cec_msg" where
  [cec_fun]: "cec_msg_cdc_hec_report_state msg target_phys_addr hec_func_state host_func_state enc_func_state
      cdc_errcode has_field hec_field =
    (let msg = msg\<lparr>cm_len := if has_field \<noteq> 0 then 10 else 8\<rparr>;
         msg = put 0 (lo8 (prom (byte_at msg 0) OR 0xf)) msg;
         msg = put 1 (lo8 CEC_MSG_CDC_MESSAGE) msg;
         msg = put 4 (lo8 CEC_MSG_CDC_HEC_REPORT_STATE) msg;
         msg = put 5 (lo8 (drop_bit 8 (prom target_phys_addr))) msg;
         msg = put 6 (lo8 (prom target_phys_addr AND 0xff)) msg;
         msg = put 7 (lo8 (push_bit 6 (prom hec_func_state) OR push_bit 4 (prom host_func_state) OR
           push_bit 2 (prom enc_func_state) OR prom cdc_errcode)) msg
     in if has_field \<noteq> 0 then
       (let msg = put 8 (lo8 (drop_bit 8 (prom hec_field))) msg;
            msg = put 9 (lo8 (prom hec_field AND 0xff)) msg
        in msg)
     else msg)"

definition cec_ops_cdc_hec_report_state :: "cec_msg \<Rightarrow> u16 \<times> u16 \<times> u8 \<times> u8 \<times> u8 \<times> u8 \<times> u8 \<times> u16" where
  [cec_fun]: "cec_ops_cdc_hec_report_state msg =
    (let phys_addr = lo16 (push_bit 8 (prom (byte_at msg 2)) OR prom (byte_at msg 3));
         target_phys_addr = lo16 (push_bit 8 (prom (byte_at msg 5)) OR prom (byte_at msg 6));
         hec_func_state = lo8 (drop_bit 6 (prom (byte_at msg 7)));
         host_func_state = lo8 (drop_bit 4 (prom (byte_at msg 7)) AND 3);
         enc_func_state = lo8 (drop_bit 4 (prom (byte_at msg 7)) AND 3);
         cdc_errcode = lo8 (prom (byte_at msg 7) AND 3);
         has_field = of_bool (cm_len msg \<ge> 10);
         hec_field = (if has_field \<noteq> 0 then lo16 (push_bit 8 (prom (byte_at msg 8)) OR prom (byte_at msg 9)) else 0)
     in (phys_addr, target_phys_addr, hec_func_state, host_func_state, enc_func_state, cdc_errcode, has_field, hec_field))"

definition cec_msg_cdc_hec_set_state ::
  "cec_msg \<Rightarrow> u16 \<Rightarrow> u16 \<Rightarrow> u8 \<Rightarrow> u16 \<Rightarrow> u16 \<Rightarrow> u16 \<Rightarrow> cec_msg" where
  [cec_fun]: "cec_msg_cdc_hec_set_state msg phys_addr1 phys_addr2 hec_set_state phys_addr3 phys_addr4 phys_addr5 =
    (let msg = msg\<lparr>cm_len := 10\<rparr>;
         msg = put 0 (lo8 (prom (byte_at msg 0) OR 0xf)) msg;
         msg = put 1 (lo8 CEC_MSG_CDC_MESSAGE) msg;
         msg = put 4 (lo8 CEC_MSG_CDC_HEC_INQUIRE_STATE) msg;
         msg = put 5 (lo8 (drop_bit 8 (prom phys_addr1))) msg;
         msg = put 6 (lo8 (prom phys_addr1 AND 0xff)) msg;
         msg = put 7 (lo8 (drop_bit 8 (prom phys_addr2))) msg;
         msg = put 8 (lo8 (prom phys_addr2 AND 0xff)) msg;
         msg = put 9 hec_set_state msg
     in if prom phys_addr3 \<noteq> CEC_PHYS_ADDR_INVALID then
       (let msg = msg_append (lo8 (drop_bit 8 (prom phys_addr3))) msg;
            msg = msg_append (lo8 (prom phys_addr3 AND 0xff)) msg
        in if prom phys_addr4 \<noteq> CEC_PHYS_ADDR_INVALID then
          (let msg = msg_append (lo8 (drop_bit 8 (prom phys_addr4))) msg;
               msg = msg_append (lo8 (prom phys_addr4 AND 0xff)) msg
           in if prom phys_addr5 \<noteq> CEC_PHYS_ADDR_INVALID then
             (let msg = msg_append (lo8 (drop_bit 8 (prom phys_addr5))) msg;
                  msg = msg_append (lo8 (prom phys_addr5 AND 0xff)) msg
              in msg)
           else msg)
        else msg)
     else msg)"

definition cec_ops_cdc_hec_set_state :: "cec_msg \<Rightarrow> u16 \<times> u16 \<times> u16 \<times> u8 \<times> u16 \<times> u16 \<times> u16" where
  [cec_fun]: "cec_ops_cdc_hec_set_state msg =
    (let phys_addr = lo16 (push_bit 8 (prom (byte_at msg 2)) OR prom (byte_at msg 3));
         phys_addr1 = lo16 (push_bit 8 (prom (byte_at msg 5)) OR prom (byte_at msg 6));
         phys_addr2 = lo16 (push_bit 8 (prom (byte_at msg 7)) OR prom (byte_at msg 8));
         hec_set_state = byte_at msg 9;
         phys_addr5 = lo16 CEC_PHYS_ADDR_INVALID;
         phys_addr4 = phys_addr5;
         phys_addr3 = phys_addr4;
         phys_addr3 =
           (if cm_len msg \<ge> 12 then lo16 (push_bit 8 (prom (byte_at msg 10)) OR prom (byte_at msg 11)) else phys_addr3);
         phys_addr4 =
           (if cm_len msg \<ge> 14 then lo16 (push_bit 8 (prom (byte_at msg 12)) OR prom (byte_at msg 13)) else phys_addr4);
         phys_addr5 =
           (if cm_len msg \<ge> 16 then lo16 (push_bit 8 (prom (byte_at msg 14)) OR prom (byte_at msg 15)) else phys_addr5)
     in (phys_addr, phys_addr1, phys_addr2, hec_set_state, phys_addr3, phys_addr4, phys_addr5))"

definition cec_msg_cdc_hec_set_state_adjacent ::
  "cec_msg \<Rightarrow> u16 \<Rightarrow> u8 \<Rightarrow> cec_msg" where
  [cec_fun]: "cec_msg_cdc_hec_set_state_adjacent msg phys_addr1 hec_set_state =
    (let msg = msg\<lparr>cm_len := 8\<rparr>;
         msg = put 0 (lo8 (prom (byte_at msg 0) OR 0xf)) msg;
         msg = put 1 (lo8 CEC_MSG_CDC_MESSAGE) msg;
         msg = put 4 (lo8 CEC_MSG_CDC_HEC_SET_STATE_ADJACENT) msg;
         msg = put 5 (lo8 (drop_bit 8 (prom phys_addr1))) msg;
         msg = put 6 (lo8 (prom phys_addr1 AND 0xff)) msg;
         msg = put 7 hec_set_state msg
     in msg)"

definition cec_ops_cdc_hec_set_state_adjacent :: "cec_msg \<Rightarrow> u16 \<times> u16 \<times> u8" where
  [cec_fun]: "cec_ops_cdc_hec_set_state_adjacent msg =
    (lo16 (push_bit 8 (prom (byte_at msg 2)) OR prom (byte_at msg 3)),
     lo16 (push_bit 8 (prom (byte_at msg 5)) OR prom (byte_at msg 6)),
     byte_at msg 7)"

definition cec_msg_cdc_hec_request_deactivation ::
  "cec_msg \<Rightarrow> u16 \<Rightarrow> u16 \<Rightarrow> u16 \<Rightarrow> cec_msg" where
  [cec_fun]: "cec_msg_cdc_hec_request_deactivation msg phys_addr1 phys_addr2 phys_addr3 =
    (let msg = msg\<lparr>cm_len := 11\<rparr>;
         msg = put 0 (lo8 (prom (byte_at msg 0) OR 0xf)) msg;
         msg = put 1 (lo8 CEC_MSG_CDC_MESSAGE) msg;
         msg = put 4 (lo8 CEC_MSG_CDC_HEC_REQUEST_DEACTIVATION) msg;
         msg = put 5 (lo8 (drop_bit 8 (prom phys_addr1))) msg;
         msg = put 6 (lo8 (prom phys_addr1 AND 0xff)) msg;
         msg = put 7 (lo8 (drop_bit 8 (prom phys_addr2))) msg;
         msg = put 8 (lo8 (prom phys_addr2 AND 0xff)) msg;
         msg = put 9 (lo8 (drop_bit 8 (prom phys_addr3))) msg;
         msg = put 10 (lo8 (prom phys_addr3 AND 0xff)) msg
     in msg)"

definition cec_ops_cdc_hec_request_deactivation ::
  "cec_msg \<Rightarrow> u16 \<times> u16 \<times> u16 \<times> u16" where
  [cec_fun]: "cec_ops_cdc_hec_request_deactivation msg =
    (lo16 (push_bit 8 (prom (byte_at msg 2)) OR prom (byte_at msg 3)),
     lo16 (push_bit 8 (prom (byte_at msg 5)) OR prom (byte_at msg 6)),
     lo16 (push_bit 8 (prom (byte_at msg 7)) OR prom (byte_at msg 8)),
     lo16 (push_bit 8 (prom (byte_at msg 9)) OR prom (byte_at msg 10)))"

definition cec_msg_cdc_hec_notify_alive :: "cec_msg \<Rightarrow> cec_msg" where
  [cec_fun]: "cec_msg_cdc_hec_notify_alive msg =
    (let msg = msg\<lparr>cm_len := 5\<rparr>;
         msg = put 0 (lo8 (prom (byte_at msg 0) OR 0xf)) msg;
         msg = put 1 (lo8 CEC_MSG_CDC_MESSAGE) msg;
         msg = put 4 (lo8 CEC_MSG_CDC_HEC_NOTIFY_ALIVE) msg
     in msg)"

definition cec_ops_cdc_hec_notify_alive :: "cec_msg \<Rightarrow> u16" where
  [cec_fun]: "cec_ops_cdc_hec_notify_alive msg = lo16 (push_bit 8 (prom (byte_at msg 2)) OR prom (byte_at msg 3))"

definition cec_msg_cdc_hec_discover :: "cec_msg \<Rightarrow> cec_msg" where
  [cec_fun]: "cec_msg_cdc_hec_discover msg =
    (let msg = msg\<lparr>cm_len := 5\<rparr>;
         msg = put 0 (lo8 (prom (byte_at msg 0) OR 0xf)) msg;
         msg = put 1 (lo8 CEC_MSG_CDC_MESSAGE) msg;
         msg = put 4 (lo8 CEC_MSG_CDC_HEC_DISCOVER) msg
     in msg)"

definition cec_ops_cdc_hec_discover :: "cec_msg \<Rightarrow> u16" where
  [cec_fun]: "cec_ops_cdc_hec_discover msg = lo16 (push_bit 8 (prom (byte_at msg 2)) OR prom (byte_at msg 3))"

definition cec_msg_cdc_hpd_set_state :: "cec_msg \<Rightarrow> u8 \<Rightarrow> u8 \<Rightarrow> cec_msg" where
  [cec_fun]: "cec_msg_cdc_hpd_set_state msg input_port hpd_state =
    (let msg = msg\<lparr>cm_len := 6\<rparr>;
         msg = put 0 (lo8 (prom (byte_at msg 0) OR 0xf)) msg;
         msg = put 1 (lo8 CEC_MSG_CDC_MESSAGE) msg;
         msg = put 4 (lo8 CEC_MSG_CDC_HPD_SET_STATE) msg;
         msg = put 5 (lo8 (push_bit 4 (prom input_port) OR prom hpd_state)) msg
     in msg)"

definition cec_ops_cdc_hpd_set_state :: "cec_msg \<Rightarrow> u16 \<times> u8 \<times> u8" where
  [cec_fun]: "cec_ops_cdc_hpd_set_state msg =
    (lo16 (push_bit 8 (prom (byte_at msg 2)) OR prom (byte_at msg 3)),
     lo8 (drop_bit 4 (prom (byte_at msg 5))),
     lo8 (prom (byte_at msg 5) AND 0xf))"

definition cec_msg_cdc_hpd_report_state :: "cec_msg \<Rightarrow> u8 \<Rightarrow> u8 \<Rightarrow> cec_msg" where
  [cec_fun]: "cec_msg_cdc_hpd_report_state msg hpd_state hpd_error =
    (let msg = msg\<lparr>cm_len := 6\<rparr>;
         msg = put 0 (lo8 (prom (byte_at msg 0) OR 0xf)) msg;
         msg = put 1 (lo8 CEC_MSG_CDC_MESSAGE) msg;
         msg = put 4 (lo8 CEC_MSG_CDC_HPD_REPORT_STATE) msg;
         msg = put 5 (lo8 (push_bit 4 (prom hpd_state) OR prom hpd_error)) msg
     in msg)"

definition cec_ops_cdc_hpd_report_state :: "cec_msg \<Rightarrow> u16 \<times> u8 \<times> u8" where
  [cec_fun]: "cec_ops_cdc_hpd_report_state msg =
    (lo16 (push_bit 8 (prom (byte_at msg 2)) OR prom (byte_at msg 3)),
     lo8 (drop_bit 4 (prom (byte_at msg 5))),
     lo8 (prom (byte_at msg 5) AND 0xf))"

section \<open>Round trips\<close>

lemmas audio_simps = cec_fun cec_byte c_masks c_field Let_def

subsection \<open>Audio descriptors\<close>

text \<open>The descriptor counts are clamped to four, so the loops run at most four times.\<close>

lemma descriptor_count:
  fixes n :: u8
  obtains k where "k \<in> {0, 1, 2, 3, 4}" and "(if prom n > 4 then 4 else n) = k" and "unat k = min (unat n) 4"
proof -
  let ?k = "if prom n > 4 then 4 else n"
  have "unat ?k = min (unat n) 4" by (auto simp: word_less_nat_alt)
  moreover from this have "unat ?k = 0 \<or> unat ?k = 1 \<or> unat ?k = 2 \<or> unat ?k = 3 \<or> unat ?k = 4" by linarith
  then have "?k \<in> {0, 1, 2, 3, 4}" by (simp only: insert_iff empty_iff word_unat_eq_iff) simp
  ultimately show thesis using that by blast
qed

lemma count_read_back:
  fixes k :: u8
  assumes "k \<in> {0, 1, 2, 3, 4}"
  shows "lo8 (prom k * 3 div 3) = k" and "\<not> prom k > 4"
  using assms by (auto simp: c_convert_defs)

lemma fold_update:
  "k \<le> length buf \<Longrightarrow> length (foldl (\<lambda>xs i. xs[i := f i]) buf [0..<k]) = length buf \<and>
    (\<forall>j. foldl (\<lambda>xs i. xs[i := f i]) buf [0..<k] ! j = (if j < k then f j else buf ! j))"
  by (induction k) (auto simp: nth_list_update)

lemma fold_update_pair:
  "foldl (\<lambda>(xs, ys) i. (xs[i := f i], ys[i := g i])) (buf, buf') ks =
    (foldl (\<lambda>xs i. xs[i := f i]) buf ks, foldl (\<lambda>ys i. ys[i := g i]) buf' ks)"
  by (induction ks arbitrary: buf buf') simp_all

lemma fold_put:
  fixes a :: "nat \<Rightarrow> u8"
  assumes "k \<le> 4" and "msg_ok msg"
  defines "m \<equiv> foldl (\<lambda>m i. put (2 + i) (a i) m) msg [0..<k]"
  shows "msg_ok m \<and> cm_len m = cm_len msg \<and> (\<forall>j < k. byte_at m (2 + j) = a j) \<and> (\<forall>j < 2. byte_at m j = byte_at msg j)"
  unfolding m_def using assms(1)
proof (induction k)
  case (Suc k)
  then show ?case by (auto simp: cec_byte less_Suc_eq)
qed (simp add: assms(2))

lemma fold_put3:
  fixes a b c :: "nat \<Rightarrow> u8"
  assumes "k \<le> 4" and "msg_ok msg"
  defines "m \<equiv> foldl (\<lambda>m i. put (4 + i * 3) (c i) (put (3 + i * 3) (b i) (put (2 + i * 3) (a i) m))) msg [0..<k]"
  shows "msg_ok m \<and> cm_len m = cm_len msg \<and>
    (\<forall>j < k. byte_at m (2 + j * 3) = a j \<and> byte_at m (3 + j * 3) = b j \<and> byte_at m (4 + j * 3) = c j) \<and>
    (\<forall>j < 2. byte_at m j = byte_at msg j)"
  unfolding m_def using assms(1)
proof (induction k)
  case (Suc k)
  let ?m = "foldl (\<lambda>m i. put (4 + i * 3) (c i) (put (3 + i * 3) (b i) (put (2 + i * 3) (a i) m))) msg [0..<k]"
  have ok: "msg_ok ?m" using Suc by simp
  have far: "2 + j * 3 \<noteq> 4 + k * 3" "2 + j * 3 \<noteq> 3 + k * 3" "3 + j * 3 \<noteq> 2 + k * 3" "3 + j * 3 \<noteq> 4 + k * 3"
    "4 + j * 3 \<noteq> 2 + k * 3" "4 + j * 3 \<noteq> 3 + k * 3" for j by presburger+
  show ?case using Suc ok by (auto simp: cec_byte less_Suc_eq far)
qed (simp add: assms(2))

text \<open>
  Audio descriptors survive, four at most: the decoder reports how many fitted and fills exactly
  those entries, each with the low three bytes of what was sent, or with the format id and code.
\<close>

theorem audio_descriptors_round_trip:
  fixes reply :: u32
  assumes "msg_ok msg" and "4 \<le> length buf" "4 \<le> length ids'" "4 \<le> length codes'" and "i < min (unat n) 4"
    and "ids ! i < 4" and "codes ! i < 64"
  shows "(\<exists>k out. cec_ops_report_short_audio_descriptor (cec_msg_report_short_audio_descriptor msg n ds) buf = (k, out) \<and>
      unat k = min (unat n) 4 \<and> out ! i = take_bit 24 (ds ! i) \<and> drop (unat k) out = drop (unat k) buf) \<and>
    (\<exists>k oids ocodes. cec_ops_request_short_audio_descriptor
        (cec_msg_request_short_audio_descriptor msg reply n ids codes) ids' codes' = (k, oids, ocodes) \<and>
      unat k = min (unat n) 4 \<and> oids ! i = ids ! i \<and> ocodes ! i = codes ! i)"
proof -
  obtain k where k: "k \<in> {0, 1, 2, 3, 4}" "(if prom n > 4 then 4 else n) = k" "unat k = min (unat n) 4"
    by (rule descriptor_count)
  have i: "i < unat k" using assms(5) k(3) by simp
  have k4: "unat k \<le> 4" using k(3) by simp
  let ?start = "put 1 (lo8 CEC_MSG_REPORT_SHORT_AUDIO_DESCRIPTOR) (msg\<lparr>cm_len := 2 + prom k * 3\<rparr>)"
  let ?m = "cec_msg_report_short_audio_descriptor msg n ds"
  have "?m = foldl (\<lambda>m i. put (4 + i * 3) (lo8 (ds ! i)) (put (3 + i * 3) (lo8 (drop_bit 8 (ds ! i)))
      (put (2 + i * 3) (lo8 (drop_bit 16 (ds ! i))) m))) ?start [0..<unat k]"
    by (simp add: cec_msg_report_short_audio_descriptor_def Let_def k(2) c_masks)
  with fold_put3 [OF k4, of ?start] assms(1) have m: "cm_len ?m = 2 + prom k * 3"
    "\<And>j. j < unat k \<Longrightarrow> byte_at ?m (2 + j * 3) = lo8 (drop_bit 16 (ds ! j))"
    "\<And>j. j < unat k \<Longrightarrow> byte_at ?m (3 + j * 3) = lo8 (drop_bit 8 (ds ! j))"
    "\<And>j. j < unat k \<Longrightarrow> byte_at ?m (4 + j * 3) = lo8 (ds ! j)"
    by (simp_all add: cec_byte)
  define out where "out = foldl (\<lambda>ds i. ds[i := push_bit 16 (prom (byte_at ?m (2 + i * 3))) OR
    push_bit 8 (prom (byte_at ?m (3 + i * 3))) OR prom (byte_at ?m (4 + i * 3))]) buf [0..<unat k]"
  have out: "cec_ops_report_short_audio_descriptor ?m buf = (k, out)"
    by (simp add: cec_ops_report_short_audio_descriptor_def Let_def m(1) count_read_back [OF k(1)] out_def)
  have upd: "length out = length buf \<and> (\<forall>j. out ! j = (if j < unat k then take_bit 24 (ds ! j) else buf ! j))"
    using fold_update [of "unat k" buf] k4 assms(2) by (simp add: out_def m c_field del: add_2_eq_Suc)
  have report: "out ! i = take_bit 24 (ds ! i)" "drop (unat k) out = drop (unat k) buf"
    using upd i by (auto intro: nth_equalityI)
  let ?r = "cec_msg_request_short_audio_descriptor msg reply n ids codes"
  let ?rstart = "(put 1 (lo8 CEC_MSG_REQUEST_SHORT_AUDIO_DESCRIPTOR) (msg\<lparr>cm_len := 2 + prom k\<rparr>))
    \<lparr>cm_reply := lo8 (if reply \<noteq> 0 then CEC_MSG_REPORT_SHORT_AUDIO_DESCRIPTOR else 0)\<rparr>"
  have "?r = foldl (\<lambda>m i. put (2 + i) (lo8 (push_bit 6 (prom (ids ! i)) OR take_bit 6 (prom (codes ! i)))) m)
      ?rstart [0..<unat k]"
    by (simp add: cec_msg_request_short_audio_descriptor_def Let_def k(2) c_masks)
  with fold_put [OF k4, of ?rstart] assms(1) have r: "cm_len ?r = 2 + prom k"
    "byte_at ?r (2 + i) = lo8 (push_bit 6 (prom (ids ! i)) OR take_bit 6 (prom (codes ! i)))"
    using i by (simp_all add: cec_byte)
  have code: "take_bit 6 (prom (codes ! i)) = prom (codes ! i)"
    using assms(7) by (simp add: take_bit_eq_mod word_less_nat_alt word_unat_eq_iff unat_mod)
  show ?thesis
    using out report k(3) assms(3,4) i k4 fold_update [of "unat k" ids'] fold_update [of "unat k" codes']
      high_field [of "ids ! i" 6 "codes ! i"] low_field [of "codes ! i" 6 "ids ! i"] assms(6,7)
    by (simp add: cec_ops_request_short_audio_descriptor_def Let_def r count_read_back [OF k(1)] fold_update_pair
      c_masks code del: add_2_eq_Suc)
qed

theorem audio_descriptors_round_trip_witness:
  "\<exists>k out. cec_ops_report_short_audio_descriptor
     (cec_msg_report_short_audio_descriptor zeroed 2 [0x090707, 0x150750]) [0, 0, 0, 0] = (k, out) \<and>
     unat k = 2 \<and> out ! 1 = 0x150750"
  using audio_descriptors_round_trip [of zeroed "[0, 0, 0, 0]" "[0, 0, 0, 0]" "[0, 0, 0, 0]" 1 2 "[0, 1]" "[0, 1]"
    "[0x090707, 0x150750]" 0] by (auto simp: cec_byte)

subsection \<open>Audio state and latency\<close>

lemma latency_byte:
  fixes l c :: u8
  assumes "l < 2" "c < 4"
  defines "b \<equiv> lo8 (push_bit 2 (prom l) OR prom c)"
  shows "lo8 (drop_bit 2 (prom b) AND 1) = l" and "lo8 (take_bit 2 (prom b)) = c"
proof -
  have bits: "1 \<le> n \<Longrightarrow> \<not> bit l n" "2 \<le> n \<Longrightarrow> \<not> bit c n" for n
    using bit_above [of l 1 n] bit_above [of c 2 n] assms(1,2) by simp_all
  show "lo8 (drop_bit 2 (prom b) AND 1) = l"
    by (rule u8_eqI) (simp_all add: b_def c_convert_defs bit_simps bits del: and_one_eq)
  show "lo8 (take_bit 2 (prom b)) = c"
    by (rule u8_eqI) (simp_all add: b_def c_convert_defs bit_simps bits)
qed

lemma prom_3: "prom (c :: u8) = 3 \<longleftrightarrow> c = 3"
  by (simp add: word_unat_eq_iff)

text \<open>
  The audio state survives: mute flag and volume, the address an audio mode is requested for, where
  the missing address stands for itself, and the latency report, whose delay is sent exactly when the
  compensation is partial.
\<close>

theorem audio_state_round_trip:
  assumes "msg_ok msg" and "aud_mute_status < 2" "aud_vol_status < 128" "low_latency_mode < 2" "audio_out_compensated < 4"
  shows "cec_ops_report_audio_status (cec_msg_report_audio_status msg aud_mute_status aud_vol_status) =
      (aud_mute_status, aud_vol_status) \<and>
    cec_ops_system_audio_mode_request (cec_msg_system_audio_mode_request msg reply phys_addr) = phys_addr \<and>
    cec_ops_report_current_latency (cec_msg_report_current_latency msg phys_addr video_latency low_latency_mode
        audio_out_compensated audio_out_delay) =
      (phys_addr, video_latency, low_latency_mode, audio_out_compensated,
       if audio_out_compensated = 3 then audio_out_delay else 0)"
proof (intro conjI)
  have "take_bit 7 (prom aud_vol_status) = prom aud_vol_status"
    using assms(3) by (simp add: take_bit_eq_mod word_less_nat_alt word_unat_eq_iff unat_mod)
  then show "cec_ops_report_audio_status (cec_msg_report_audio_status msg aud_mute_status aud_vol_status) =
      (aud_mute_status, aud_vol_status)"
    using assms(1-3) by (simp add: audio_simps digital_head)
  have "prom phys_addr = 0xffff \<longleftrightarrow> phys_addr = 0xffff" by (simp add: word_unat_eq_iff)
  then show "cec_ops_system_audio_mode_request (cec_msg_system_audio_mode_request msg reply phys_addr) = phys_addr"
    using assms(1) by (cases "phys_addr = 0xffff") (simp_all add: audio_simps)
  show "cec_ops_report_current_latency (cec_msg_report_current_latency msg phys_addr video_latency low_latency_mode
        audio_out_compensated audio_out_delay) =
      (phys_addr, video_latency, low_latency_mode, audio_out_compensated,
       if audio_out_compensated = 3 then audio_out_delay else 0)"
    using assms(1) latency_byte [OF assms(4,5)]
    by (cases "audio_out_compensated = 3") (simp_all add: audio_simps prom_3)
qed

theorem audio_state_round_trip_witness:
  "cec_ops_report_current_latency (cec_msg_report_current_latency zeroed 0x1000 20 1 3 7) = (0x1000, 20, 1, 3, 7)"
  using audio_state_round_trip [of zeroed 0 0 1 3 0 "0x1000" 20 7] by (simp add: cec_byte)

subsection \<open>Capability discovery\<close>

lemma hec_byte:
  fixes h t e c :: u8
  assumes "h < 4" "t < 4" "e < 4" "c < 4"
  defines "b \<equiv> lo8 (push_bit 6 (prom h) OR push_bit 4 (prom t) OR push_bit 2 (prom e) OR prom c)"
  shows "lo8 (drop_bit 6 (prom b)) = h" and "lo8 (take_bit 2 (drop_bit 4 (prom b))) = t" and "lo8 (take_bit 2 (prom b)) = c"
proof -
  have bits: "2 \<le> n \<Longrightarrow> \<not> bit h n" "2 \<le> n \<Longrightarrow> \<not> bit t n" "2 \<le> n \<Longrightarrow> \<not> bit e n" "2 \<le> n \<Longrightarrow> \<not> bit c n" for n
    using bit_above [of h 2 n] bit_above [of t 2 n] bit_above [of e 2 n] bit_above [of c 2 n] assms(1-4) by simp_all
  show "lo8 (drop_bit 6 (prom b)) = h" "lo8 (take_bit 2 (drop_bit 4 (prom b))) = t" "lo8 (take_bit 2 (prom b)) = c"
    by (rule u8_eqI; simp add: b_def c_convert_defs bit_simps bits)+
qed

text \<open>
  A report of the Ethernet channel loses one of its states: the decoder returns the target, the
  channel and host state, the error code and the optional field that were sent, but in place of the
  state of the network controller it returns the host state a second time.
\<close>

theorem hec_report_state_decoding:
  assumes "msg_ok msg" and "hec_func_state < 4" "host_func_state < 4" "enc_func_state < 4" "cdc_errcode < 4"
  shows "snd (cec_ops_cdc_hec_report_state (cec_msg_cdc_hec_report_state msg target_phys_addr hec_func_state host_func_state
      enc_func_state cdc_errcode has_field hec_field)) =
    (target_phys_addr, hec_func_state, host_func_state, host_func_state, cdc_errcode,
     of_bool (has_field \<noteq> 0), if has_field = 0 then 0 else hec_field)"
  using assms(1) hec_byte [OF assms(2-5)]
  by (cases "has_field = 0") (simp_all add: audio_simps)

theorem hec_report_state_decoding_witness:
  "fst (snd (snd (snd (snd (cec_ops_cdc_hec_report_state
     (cec_msg_cdc_hec_report_state zeroed 0x1100 1 2 3 0 1 0x8000)))))) = 2"
  using hec_report_state_decoding [of zeroed 1 2 3 0 "0x1100" 1 "0x8000"] by (simp add: cec_byte prod_eq_iff)

text \<open>
  Setting the Ethernet channel state sends the wrong opcode: the message carries the two terminators,
  the wanted state and up to three further addresses, all of which its own decoder reads back, an
  address being sent only if no earlier one is missing; but its opcode is the one of the inquiry.
\<close>

theorem hec_set_state_decoding:
  fixes phys_addr1 phys_addr2 phys_addr3 phys_addr4 phys_addr5 :: u16 and hec_set_state :: u8
  assumes "msg_ok msg"
  defines "m \<equiv> cec_msg_cdc_hec_set_state msg phys_addr1 phys_addr2 hec_set_state phys_addr3 phys_addr4 phys_addr5"
  shows "snd (cec_ops_cdc_hec_set_state m) = (phys_addr1, phys_addr2, hec_set_state, phys_addr3,
      if phys_addr3 = 0xffff then 0xffff else phys_addr4,
      if phys_addr3 = 0xffff \<or> phys_addr4 = 0xffff then 0xffff else phys_addr5) \<and>
    cm_len m \<le> 16 \<and> prom (byte_at m 4) = CEC_MSG_CDC_HEC_INQUIRE_STATE \<and> prom (byte_at m 4) \<noteq> CEC_MSG_CDC_HEC_SET_STATE"
proof -
  have inv: "prom x = CEC_PHYS_ADDR_INVALID \<longleftrightarrow> x = 0xffff" for x :: u16
    by (simp add: cec_const word_unat_eq_iff)
  have lo: "lo16 CEC_PHYS_ADDR_INVALID = 0xffff" by (simp add: cec_const lo16_def)
  have decoded: "snd (cec_ops_cdc_hec_set_state m) = (phys_addr1, phys_addr2, hec_set_state, phys_addr3,
      if phys_addr3 = 0xffff then 0xffff else phys_addr4,
      if phys_addr3 = 0xffff \<or> phys_addr4 = 0xffff then 0xffff else phys_addr5) \<and> cm_len m \<le> 16 \<and>
      byte_at m 4 = lo8 CEC_MSG_CDC_HEC_INQUIRE_STATE"
    using assms(1)
    by (cases "phys_addr3 = 0xffff"; cases "phys_addr4 = 0xffff"; cases "phys_addr5 = 0xffff")
      (simp_all add: m_def audio_simps inv lo)
  moreover have "prom (lo8 CEC_MSG_CDC_HEC_INQUIRE_STATE) = CEC_MSG_CDC_HEC_INQUIRE_STATE"
    "CEC_MSG_CDC_HEC_INQUIRE_STATE \<noteq> CEC_MSG_CDC_HEC_SET_STATE"
    by (simp_all add: cec_const c_convert_defs)
  ultimately show ?thesis by simp
qed

theorem hec_set_state_decoding_witness:
  "snd (cec_ops_cdc_hec_set_state (cec_msg_cdc_hec_set_state zeroed 0x1000 0x2000 1 0x1100 0xffff 0x1200)) =
    (0x1000, 0x2000, 1, 0x1100, 0xffff, 0xffff)"
  using hec_set_state_decoding [of zeroed "0x1000" "0x2000" 1 "0x1100" "0xffff" "0x1200"] by (simp add: cec_byte)

text \<open>
  The other discovery messages survive: the addresses of an inquiry, of a state change of an adjacent
  device and of a deactivation request, and the port, state and error of the hot plug messages.
\<close>

theorem cdc_round_trip:
  assumes "msg_ok msg" and "input_port < 16" "hpd_state < 16" "hpd_error < 16"
  shows "snd (cec_ops_cdc_hec_inquire_state (cec_msg_cdc_hec_inquire_state msg phys_addr1 phys_addr2)) =
      (phys_addr1, phys_addr2) \<and>
    snd (cec_ops_cdc_hec_set_state_adjacent (cec_msg_cdc_hec_set_state_adjacent msg phys_addr1 hec_set_state)) =
      (phys_addr1, hec_set_state) \<and>
    snd (cec_ops_cdc_hec_request_deactivation (cec_msg_cdc_hec_request_deactivation msg phys_addr1 phys_addr2 phys_addr3)) =
      (phys_addr1, phys_addr2, phys_addr3) \<and>
    snd (cec_ops_cdc_hpd_set_state (cec_msg_cdc_hpd_set_state msg input_port hpd_state)) = (input_port, hpd_state) \<and>
    snd (cec_ops_cdc_hpd_report_state (cec_msg_cdc_hpd_report_state msg hpd_state hpd_error)) = (hpd_state, hpd_error)"
  using assms by (simp add: audio_simps nibbles)

theorem cdc_round_trip_witness:
  "snd (cec_ops_cdc_hpd_set_state (cec_msg_cdc_hpd_set_state zeroed 2 4)) = (2, 4)"
  using cdc_round_trip [of zeroed 2 4 0] by (simp add: cec_byte)

end
