(* ===== verification/CEC_Protocol.thy ===== *)
theory CEC_Protocol
  imports CEC_Audio
begin

unbundle bit_operations_syntax

text \<open>
  The message functions together: \<open>cec_call\<close> is one call of a function that builds a message, with the
  opcode it builds, \<open>reachable\<close> the messages a program can hold after any sequence of calls. Every call
  keeps the array, sets a legal length and its opcode, and leaves the initiator alone.
\<close>

inductive cec_call :: "u32 \<Rightarrow> cec_msg \<Rightarrow> cec_msg \<Rightarrow> bool" where
  active_source: "cec_call CEC_MSG_ACTIVE_SOURCE msg (cec_msg_active_source msg phys_addr)"
| image_view_on: "cec_call CEC_MSG_IMAGE_VIEW_ON msg (cec_msg_image_view_on msg)"
| text_view_on: "cec_call CEC_MSG_TEXT_VIEW_ON msg (cec_msg_text_view_on msg)"
| inactive_source: "cec_call CEC_MSG_INACTIVE_SOURCE msg (cec_msg_inactive_source msg phys_addr)"
| request_active_source: "cec_call CEC_MSG_REQUEST_ACTIVE_SOURCE msg (cec_msg_request_active_source msg reply)"
| routing_information: "cec_call CEC_MSG_ROUTING_INFORMATION msg (cec_msg_routing_information msg phys_addr)"
| routing_change: "cec_call CEC_MSG_ROUTING_CHANGE msg (cec_msg_routing_change msg reply orig_phys_addr new_phys_addr)"
| set_stream_path: "cec_call CEC_MSG_SET_STREAM_PATH msg (cec_msg_set_stream_path msg phys_addr)"
| standby_msg: "cec_call CEC_MSG_STANDBY msg (cec_msg_standby msg)"
| record_off: "cec_call CEC_MSG_RECORD_OFF msg (cec_msg_record_off msg reply)"
| record_on_own: "cec_call CEC_MSG_RECORD_ON msg (cec_msg_record_on_own msg)"
| record_on_digital: "cec_call CEC_MSG_RECORD_ON msg (cec_msg_record_on_digital msg digital)"
| record_on_analog: "cec_call CEC_MSG_RECORD_ON msg (cec_msg_record_on_analog msg ana_bcast_type ana_freq bcast_system)"
| record_on_plug: "cec_call CEC_MSG_RECORD_ON msg (cec_msg_record_on_plug msg plug)"
| record_on_phys_addr: "cec_call CEC_MSG_RECORD_ON msg (cec_msg_record_on_phys_addr msg phys_addr)"
| record_on: "rs_type src \<in> {1, 2, 3, 4, 5} \<Longrightarrow> cec_call CEC_MSG_RECORD_ON msg (cec_msg_record_on msg reply src)"
| record_status: "cec_call CEC_MSG_RECORD_STATUS msg (cec_msg_record_status msg rec_status)"
| record_tv_screen: "cec_call CEC_MSG_RECORD_TV_SCREEN msg (cec_msg_record_tv_screen msg reply)"
| timer_status: "cec_call CEC_MSG_TIMER_STATUS msg (cec_msg_timer_status msg timer_overlap_warning media_info prog_info prog_error duration_hr duration_min)"
| timer_cleared_status: "cec_call CEC_MSG_TIMER_CLEARED_STATUS msg (cec_msg_timer_cleared_status msg timer_cleared_status)"
| clear_analogue_timer: "cec_call CEC_MSG_CLEAR_ANALOGUE_TIMER msg (cec_msg_clear_analogue_timer msg reply day month start_hr start_min duration_hr duration_min recording_seq ana_bcast_type ana_freq bcast_system)"
| clear_digital_timer: "cec_call CEC_MSG_CLEAR_DIGITAL_TIMER msg (cec_msg_clear_digital_timer msg reply day month start_hr start_min duration_hr duration_min recording_seq digital)"
| clear_ext_timer: "cec_call CEC_MSG_CLEAR_EXT_TIMER msg (cec_msg_clear_ext_timer msg reply day month start_hr start_min duration_hr duration_min recording_seq ext_src_spec plug phys_addr)"
| set_analogue_timer: "cec_call CEC_MSG_SET_ANALOGUE_TIMER msg (cec_msg_set_analogue_timer msg reply day month start_hr start_min duration_hr duration_min recording_seq ana_bcast_type ana_freq bcast_system)"
| set_digital_timer: "cec_call CEC_MSG_SET_DIGITAL_TIMER msg (cec_msg_set_digital_timer msg reply day month start_hr start_min duration_hr duration_min recording_seq digital)"
| set_ext_timer: "cec_call CEC_MSG_SET_EXT_TIMER msg (cec_msg_set_ext_timer msg reply day month start_hr start_min duration_hr duration_min recording_seq ext_src_spec plug phys_addr)"
| set_timer_program_title: "cec_call CEC_MSG_SET_TIMER_PROGRAM_TITLE msg (cec_msg_set_timer_program_title msg prog_title)"
| cec_version: "cec_call CEC_MSG_CEC_VERSION msg (cec_msg_cec_version msg cec_version)"
| get_cec_version: "cec_call CEC_MSG_GET_CEC_VERSION msg (cec_msg_get_cec_version msg reply)"
| report_physical_addr: "cec_call CEC_MSG_REPORT_PHYSICAL_ADDR msg (cec_msg_report_physical_addr msg phys_addr prim_devtype)"
| give_physical_addr: "cec_call CEC_MSG_GIVE_PHYSICAL_ADDR msg (cec_msg_give_physical_addr msg reply)"
| set_menu_language: "cec_call CEC_MSG_SET_MENU_LANGUAGE msg (cec_msg_set_menu_language msg language)"
| get_menu_language: "cec_call CEC_MSG_GET_MENU_LANGUAGE msg (cec_msg_get_menu_language msg reply)"
| report_features: "cec_call CEC_MSG_REPORT_FEATURES msg (cec_msg_report_features msg cec_version all_device_types rc_profile dev_features)"
| give_features: "cec_call CEC_MSG_GIVE_FEATURES msg (cec_msg_give_features msg reply)"
| deck_control: "cec_call CEC_MSG_DECK_CONTROL msg (cec_msg_deck_control msg deck_control_mode)"
| deck_status: "cec_call CEC_MSG_DECK_STATUS msg (cec_msg_deck_status msg deck_info)"
| give_deck_status: "cec_call CEC_MSG_GIVE_DECK_STATUS msg (cec_msg_give_deck_status msg reply status_req)"
| play_msg: "cec_call CEC_MSG_PLAY msg (cec_msg_play msg play_mode)"
| tuner_device_status_analog: "cec_call CEC_MSG_TUNER_DEVICE_STATUS msg (cec_msg_tuner_device_status_analog msg rec_flag tuner_display_info ana_bcast_type ana_freq bcast_system)"
| tuner_device_status_digital: "cec_call CEC_MSG_TUNER_DEVICE_STATUS msg (cec_msg_tuner_device_status_digital msg rec_flag tuner_display_info digital)"
| tuner_device_status: "cec_call CEC_MSG_TUNER_DEVICE_STATUS msg (cec_msg_tuner_device_status msg info)"
| give_tuner_device_status: "cec_call CEC_MSG_GIVE_TUNER_DEVICE_STATUS msg (cec_msg_give_tuner_device_status msg reply status_req)"
| select_analogue_service: "cec_call CEC_MSG_SELECT_ANALOGUE_SERVICE msg (cec_msg_select_analogue_service msg ana_bcast_type ana_freq bcast_system)"
| select_digital_service: "cec_call CEC_MSG_SELECT_DIGITAL_SERVICE msg (cec_msg_select_digital_service msg digital)"
| tuner_step_decrement: "cec_call CEC_MSG_TUNER_STEP_DECREMENT msg (cec_msg_tuner_step_decrement msg)"
| tuner_step_increment: "cec_call CEC_MSG_TUNER_STEP_INCREMENT msg (cec_msg_tuner_step_increment msg)"
| device_vendor_id: "cec_call CEC_MSG_DEVICE_VENDOR_ID msg (cec_msg_device_vendor_id msg vendor_id)"
| give_device_vendor_id: "cec_call CEC_MSG_GIVE_DEVICE_VENDOR_ID msg (cec_msg_give_device_vendor_id msg reply)"
| vendor_command: "cec_call CEC_MSG_VENDOR_COMMAND msg (cec_msg_vendor_command msg sz vendor_cmd)"
| vendor_command_with_id: "cec_call CEC_MSG_VENDOR_COMMAND_WITH_ID msg (cec_msg_vendor_command_with_id msg vendor_id sz vendor_cmd)"
| vendor_remote_button_down: "cec_call CEC_MSG_VENDOR_REMOTE_BUTTON_DOWN msg (cec_msg_vendor_remote_button_down msg sz rc_code)"
| vendor_remote_button_up: "cec_call CEC_MSG_VENDOR_REMOTE_BUTTON_UP msg (cec_msg_vendor_remote_button_up msg)"
| set_osd_string: "cec_call CEC_MSG_SET_OSD_STRING msg (cec_msg_set_osd_string msg disp_ctl osd)"
| set_osd_name: "cec_call CEC_MSG_SET_OSD_NAME msg (cec_msg_set_osd_name msg name)"
| give_osd_name: "cec_call CEC_MSG_GIVE_OSD_NAME msg (cec_msg_give_osd_name msg reply)"
| menu_status: "cec_call CEC_MSG_MENU_STATUS msg (cec_msg_menu_status msg menu_state)"
| menu_request: "cec_call CEC_MSG_MENU_REQUEST msg (cec_msg_menu_request msg reply menu_req)"
| user_control_pressed: "cec_call CEC_MSG_USER_CONTROL_PRESSED msg (cec_msg_user_control_pressed msg ui_cmd)"
| user_control_released: "cec_call CEC_MSG_USER_CONTROL_RELEASED msg (cec_msg_user_control_released msg)"
| report_power_status: "cec_call CEC_MSG_REPORT_POWER_STATUS msg (cec_msg_report_power_status msg pwr_state)"
| give_device_power_status: "cec_call CEC_MSG_GIVE_DEVICE_POWER_STATUS msg (cec_msg_give_device_power_status msg reply)"
| feature_abort: "cec_call CEC_MSG_FEATURE_ABORT msg (cec_msg_feature_abort msg abort_msg reason)"
| abort_msg: "cec_call CEC_MSG_ABORT msg (cec_msg_abort msg)"
| report_audio_status: "cec_call CEC_MSG_REPORT_AUDIO_STATUS msg (cec_msg_report_audio_status msg aud_mute_status aud_vol_status)"
| give_audio_status: "cec_call CEC_MSG_GIVE_AUDIO_STATUS msg (cec_msg_give_audio_status msg reply)"
| set_system_audio_mode: "cec_call CEC_MSG_SET_SYSTEM_AUDIO_MODE msg (cec_msg_set_system_audio_mode msg sys_aud_status)"
| system_audio_mode_request: "cec_call CEC_MSG_SYSTEM_AUDIO_MODE_REQUEST msg (cec_msg_system_audio_mode_request msg reply phys_addr)"
| system_audio_mode_status: "cec_call CEC_MSG_SYSTEM_AUDIO_MODE_STATUS msg (cec_msg_system_audio_mode_status msg sys_aud_status)"
| give_system_audio_mode_status: "cec_call CEC_MSG_GIVE_SYSTEM_AUDIO_MODE_STATUS msg (cec_msg_give_system_audio_mode_status msg reply)"
| report_short_audio_descriptor: "cec_call CEC_MSG_REPORT_SHORT_AUDIO_DESCRIPTOR msg (cec_msg_report_short_audio_descriptor msg num_descriptors descriptors)"
| request_short_audio_descriptor: "cec_call CEC_MSG_REQUEST_SHORT_AUDIO_DESCRIPTOR msg (cec_msg_request_short_audio_descriptor msg reply num_descriptors audio_format_id audio_format_code)"
| set_audio_rate: "cec_call CEC_MSG_SET_AUDIO_RATE msg (cec_msg_set_audio_rate msg audio_rate)"
| report_arc_initiated: "cec_call CEC_MSG_REPORT_ARC_INITIATED msg (cec_msg_report_arc_initiated msg)"
| initiate_arc: "cec_call CEC_MSG_INITIATE_ARC msg (cec_msg_initiate_arc msg reply)"
| request_arc_initiation: "cec_call CEC_MSG_REQUEST_ARC_INITIATION msg (cec_msg_request_arc_initiation msg reply)"
| report_arc_terminated: "cec_call CEC_MSG_REPORT_ARC_TERMINATED msg (cec_msg_report_arc_terminated msg)"
| terminate_arc: "cec_call CEC_MSG_TERMINATE_ARC msg (cec_msg_terminate_arc msg reply)"
| request_arc_termination: "cec_call CEC_MSG_REQUEST_ARC_TERMINATION msg (cec_msg_request_arc_termination msg reply)"
| report_current_latency: "cec_call CEC_MSG_REPORT_CURRENT_LATENCY msg (cec_msg_report_current_latency msg phys_addr video_latency low_latency_mode audio_out_compensated audio_out_delay)"
| request_current_latency: "cec_call CEC_MSG_REQUEST_CURRENT_LATENCY msg (cec_msg_request_current_latency msg reply phys_addr)"
| cdc_hec_inquire_state: "cec_call CEC_MSG_CDC_MESSAGE msg (cec_msg_cdc_hec_inquire_state msg phys_addr1 phys_addr2)"
| cdc_hec_report_state: "cec_call CEC_MSG_CDC_MESSAGE msg (cec_msg_cdc_hec_report_state msg target_phys_addr hec_func_state host_func_state enc_func_state cdc_errcode has_field hec_field)"
| cdc_hec_set_state: "cec_call CEC_MSG_CDC_MESSAGE msg (cec_msg_cdc_hec_set_state msg phys_addr1 phys_addr2 hec_set_state phys_addr3 phys_addr4 phys_addr5)"
| cdc_hec_set_state_adjacent: "cec_call CEC_MSG_CDC_MESSAGE msg (cec_msg_cdc_hec_set_state_adjacent msg phys_addr1 hec_set_state)"
| cdc_hec_request_deactivation: "cec_call CEC_MSG_CDC_MESSAGE msg (cec_msg_cdc_hec_request_deactivation msg phys_addr1 phys_addr2 phys_addr3)"
| cdc_hec_notify_alive: "cec_call CEC_MSG_CDC_MESSAGE msg (cec_msg_cdc_hec_notify_alive msg)"
| cdc_hec_discover: "cec_call CEC_MSG_CDC_MESSAGE msg (cec_msg_cdc_hec_discover msg)"
| cdc_hpd_set_state: "cec_call CEC_MSG_CDC_MESSAGE msg (cec_msg_cdc_hpd_set_state msg input_port hpd_state)"
| cdc_hpd_report_state: "cec_call CEC_MSG_CDC_MESSAGE msg (cec_msg_cdc_hpd_report_state msg hpd_state hpd_error)"

inductive reachable :: "cec_msg \<Rightarrow> bool" where
  init: "reachable (cec_msg_init junk initiator destination)"
| reply_to: "reachable msg \<Longrightarrow> reachable orig \<Longrightarrow> reachable (cec_msg_set_reply_to msg orig)"
| reply_abort: "reachable msg \<Longrightarrow> reachable (cec_msg_reply_feature_abort msg reason)"
| call: "reachable msg \<Longrightarrow> cec_call op msg msg' \<Longrightarrow> reachable msg'"

text \<open>What a call that builds the message \<open>op\<close> makes of a message.\<close>

definition sends :: "u32 \<Rightarrow> cec_msg \<Rightarrow> cec_msg \<Rightarrow> bool" where
  "sends op msg msg' \<longleftrightarrow> msg_ok msg' \<and> 2 \<le> cm_len msg' \<and> cm_len msg' \<le> 16 \<and> cec_msg_opcode msg' = op \<and>
    cec_msg_initiator msg' = cec_msg_initiator msg \<and>
    (cec_msg_destination msg' = cec_msg_destination msg \<or> cec_msg_destination msg' = 15)"

lemma broadcast_byte:
  fixes b :: u8
  shows "lo8 (drop_bit 4 (prom (lo8 (prom b OR 0xf)))) = lo8 (drop_bit 4 (prom b))"
    and "lo8 (take_bit 4 (prom (lo8 (prom b OR 0xf)))) = 15"
proof -
  have m: "bit (0xf :: u32) n \<longleftrightarrow> n < 4" "bit (15 :: u8) n \<longleftrightarrow> n < 4" for n
    using bit_mask_iff [of 4 n, where 'a = "32 word"] bit_mask_iff [of 4 n, where 'a = "8 word"]
    by (auto simp: mask_numeral)
  have above: "8 \<le> n \<Longrightarrow> \<not> bit b n" for n using bit_imp_le_length [of b n] by auto
  show "lo8 (drop_bit 4 (prom (lo8 (prom b OR 0xf)))) = lo8 (drop_bit 4 (prom b))"
    "lo8 (take_bit 4 (prom (lo8 (prom b OR 0xf)))) = 15"
    by (rule u8_eqI; simp add: c_convert_defs bit_simps m above)+
qed

lemma sendsI:
  assumes "byte_at msg' 0 = byte_at msg 0 \<or> byte_at msg' 0 = lo8 (prom (byte_at msg 0) OR 0xf)"
    and "byte_at msg' 1 = lo8 op" "prom (lo8 op) = op" and "msg_ok msg'" "2 \<le> cm_len msg'" "cm_len msg' \<le> 16"
  shows "sends op msg msg'"
proof -
  have "1 < cm_len msg'" using assms(5) by (simp add: word_le_nat_alt word_less_nat_alt)
  then show ?thesis using assms broadcast_byte [of "byte_at msg 0"]
    by (auto simp: sends_def cec_msg_opcode_def cec_msg_initiator_def cec_msg_destination_def c_masks)
qed

text \<open>Every opcode fits in the byte it is stored in.\<close>

lemma opcode_byte:
  "prom (lo8 CEC_MSG_ACTIVE_SOURCE) = CEC_MSG_ACTIVE_SOURCE"
  "prom (lo8 CEC_MSG_IMAGE_VIEW_ON) = CEC_MSG_IMAGE_VIEW_ON"
  "prom (lo8 CEC_MSG_TEXT_VIEW_ON) = CEC_MSG_TEXT_VIEW_ON"
  "prom (lo8 CEC_MSG_INACTIVE_SOURCE) = CEC_MSG_INACTIVE_SOURCE"
  "prom (lo8 CEC_MSG_REQUEST_ACTIVE_SOURCE) = CEC_MSG_REQUEST_ACTIVE_SOURCE"
  "prom (lo8 CEC_MSG_ROUTING_INFORMATION) = CEC_MSG_ROUTING_INFORMATION"
  "prom (lo8 CEC_MSG_ROUTING_CHANGE) = CEC_MSG_ROUTING_CHANGE"
  "prom (lo8 CEC_MSG_SET_STREAM_PATH) = CEC_MSG_SET_STREAM_PATH"
  "prom (lo8 CEC_MSG_STANDBY) = CEC_MSG_STANDBY"
  "prom (lo8 CEC_MSG_RECORD_OFF) = CEC_MSG_RECORD_OFF"
  "prom (lo8 CEC_MSG_RECORD_ON) = CEC_MSG_RECORD_ON"
  "prom (lo8 CEC_MSG_RECORD_STATUS) = CEC_MSG_RECORD_STATUS"
  "prom (lo8 CEC_MSG_RECORD_TV_SCREEN) = CEC_MSG_RECORD_TV_SCREEN"
  "prom (lo8 CEC_MSG_TIMER_STATUS) = CEC_MSG_TIMER_STATUS"
  "prom (lo8 CEC_MSG_TIMER_CLEARED_STATUS) = CEC_MSG_TIMER_CLEARED_STATUS"
  "prom (lo8 CEC_MSG_CLEAR_ANALOGUE_TIMER) = CEC_MSG_CLEAR_ANALOGUE_TIMER"
  "prom (lo8 CEC_MSG_CLEAR_DIGITAL_TIMER) = CEC_MSG_CLEAR_DIGITAL_TIMER"
  "prom (lo8 CEC_MSG_CLEAR_EXT_TIMER) = CEC_MSG_CLEAR_EXT_TIMER"
  "prom (lo8 CEC_MSG_SET_ANALOGUE_TIMER) = CEC_MSG_SET_ANALOGUE_TIMER"
  "prom (lo8 CEC_MSG_SET_DIGITAL_TIMER) = CEC_MSG_SET_DIGITAL_TIMER"
  "prom (lo8 CEC_MSG_SET_EXT_TIMER) = CEC_MSG_SET_EXT_TIMER"
  "prom (lo8 CEC_MSG_SET_TIMER_PROGRAM_TITLE) = CEC_MSG_SET_TIMER_PROGRAM_TITLE"
  "prom (lo8 CEC_MSG_CEC_VERSION) = CEC_MSG_CEC_VERSION"
  "prom (lo8 CEC_MSG_GET_CEC_VERSION) = CEC_MSG_GET_CEC_VERSION"
  "prom (lo8 CEC_MSG_REPORT_PHYSICAL_ADDR) = CEC_MSG_REPORT_PHYSICAL_ADDR"
  "prom (lo8 CEC_MSG_GIVE_PHYSICAL_ADDR) = CEC_MSG_GIVE_PHYSICAL_ADDR"
  "prom (lo8 CEC_MSG_SET_MENU_LANGUAGE) = CEC_MSG_SET_MENU_LANGUAGE"
  "prom (lo8 CEC_MSG_GET_MENU_LANGUAGE) = CEC_MSG_GET_MENU_LANGUAGE"
  "prom (lo8 CEC_MSG_REPORT_FEATURES) = CEC_MSG_REPORT_FEATURES"
  "prom (lo8 CEC_MSG_GIVE_FEATURES) = CEC_MSG_GIVE_FEATURES"
  "prom (lo8 CEC_MSG_DECK_CONTROL) = CEC_MSG_DECK_CONTROL"
  "prom (lo8 CEC_MSG_DECK_STATUS) = CEC_MSG_DECK_STATUS"
  "prom (lo8 CEC_MSG_GIVE_DECK_STATUS) = CEC_MSG_GIVE_DECK_STATUS"
  "prom (lo8 CEC_MSG_PLAY) = CEC_MSG_PLAY"
  "prom (lo8 CEC_MSG_TUNER_DEVICE_STATUS) = CEC_MSG_TUNER_DEVICE_STATUS"
  "prom (lo8 CEC_MSG_GIVE_TUNER_DEVICE_STATUS) = CEC_MSG_GIVE_TUNER_DEVICE_STATUS"
  "prom (lo8 CEC_MSG_SELECT_ANALOGUE_SERVICE) = CEC_MSG_SELECT_ANALOGUE_SERVICE"
  "prom (lo8 CEC_MSG_SELECT_DIGITAL_SERVICE) = CEC_MSG_SELECT_DIGITAL_SERVICE"
  "prom (lo8 CEC_MSG_TUNER_STEP_DECREMENT) = CEC_MSG_TUNER_STEP_DECREMENT"
  "prom (lo8 CEC_MSG_TUNER_STEP_INCREMENT) = CEC_MSG_TUNER_STEP_INCREMENT"
  "prom (lo8 CEC_MSG_DEVICE_VENDOR_ID) = CEC_MSG_DEVICE_VENDOR_ID"
  "prom (lo8 CEC_MSG_GIVE_DEVICE_VENDOR_ID) = CEC_MSG_GIVE_DEVICE_VENDOR_ID"
  "prom (lo8 CEC_MSG_VENDOR_COMMAND) = CEC_MSG_VENDOR_COMMAND"
  "prom (lo8 CEC_MSG_VENDOR_COMMAND_WITH_ID) = CEC_MSG_VENDOR_COMMAND_WITH_ID"
  "prom (lo8 CEC_MSG_VENDOR_REMOTE_BUTTON_DOWN) = CEC_MSG_VENDOR_REMOTE_BUTTON_DOWN"
  "prom (lo8 CEC_MSG_VENDOR_REMOTE_BUTTON_UP) = CEC_MSG_VENDOR_REMOTE_BUTTON_UP"
  "prom (lo8 CEC_MSG_SET_OSD_STRING) = CEC_MSG_SET_OSD_STRING"
  "prom (lo8 CEC_MSG_SET_OSD_NAME) = CEC_MSG_SET_OSD_NAME"
  "prom (lo8 CEC_MSG_GIVE_OSD_NAME) = CEC_MSG_GIVE_OSD_NAME"
  "prom (lo8 CEC_MSG_MENU_STATUS) = CEC_MSG_MENU_STATUS"
  "prom (lo8 CEC_MSG_MENU_REQUEST) = CEC_MSG_MENU_REQUEST"
  "prom (lo8 CEC_MSG_USER_CONTROL_PRESSED) = CEC_MSG_USER_CONTROL_PRESSED"
  "prom (lo8 CEC_MSG_USER_CONTROL_RELEASED) = CEC_MSG_USER_CONTROL_RELEASED"
  "prom (lo8 CEC_MSG_REPORT_POWER_STATUS) = CEC_MSG_REPORT_POWER_STATUS"
  "prom (lo8 CEC_MSG_GIVE_DEVICE_POWER_STATUS) = CEC_MSG_GIVE_DEVICE_POWER_STATUS"
  "prom (lo8 CEC_MSG_FEATURE_ABORT) = CEC_MSG_FEATURE_ABORT"
  "prom (lo8 CEC_MSG_ABORT) = CEC_MSG_ABORT"
  "prom (lo8 CEC_MSG_REPORT_AUDIO_STATUS) = CEC_MSG_REPORT_AUDIO_STATUS"
  "prom (lo8 CEC_MSG_GIVE_AUDIO_STATUS) = CEC_MSG_GIVE_AUDIO_STATUS"
  "prom (lo8 CEC_MSG_SET_SYSTEM_AUDIO_MODE) = CEC_MSG_SET_SYSTEM_AUDIO_MODE"
  "prom (lo8 CEC_MSG_SYSTEM_AUDIO_MODE_REQUEST) = CEC_MSG_SYSTEM_AUDIO_MODE_REQUEST"
  "prom (lo8 CEC_MSG_SYSTEM_AUDIO_MODE_STATUS) = CEC_MSG_SYSTEM_AUDIO_MODE_STATUS"
  "prom (lo8 CEC_MSG_GIVE_SYSTEM_AUDIO_MODE_STATUS) = CEC_MSG_GIVE_SYSTEM_AUDIO_MODE_STATUS"
  "prom (lo8 CEC_MSG_REPORT_SHORT_AUDIO_DESCRIPTOR) = CEC_MSG_REPORT_SHORT_AUDIO_DESCRIPTOR"
  "prom (lo8 CEC_MSG_REQUEST_SHORT_AUDIO_DESCRIPTOR) = CEC_MSG_REQUEST_SHORT_AUDIO_DESCRIPTOR"
  "prom (lo8 CEC_MSG_SET_AUDIO_RATE) = CEC_MSG_SET_AUDIO_RATE"
  "prom (lo8 CEC_MSG_REPORT_ARC_INITIATED) = CEC_MSG_REPORT_ARC_INITIATED"
  "prom (lo8 CEC_MSG_INITIATE_ARC) = CEC_MSG_INITIATE_ARC"
  "prom (lo8 CEC_MSG_REQUEST_ARC_INITIATION) = CEC_MSG_REQUEST_ARC_INITIATION"
  "prom (lo8 CEC_MSG_REPORT_ARC_TERMINATED) = CEC_MSG_REPORT_ARC_TERMINATED"
  "prom (lo8 CEC_MSG_TERMINATE_ARC) = CEC_MSG_TERMINATE_ARC"
  "prom (lo8 CEC_MSG_REQUEST_ARC_TERMINATION) = CEC_MSG_REQUEST_ARC_TERMINATION"
  "prom (lo8 CEC_MSG_REPORT_CURRENT_LATENCY) = CEC_MSG_REPORT_CURRENT_LATENCY"
  "prom (lo8 CEC_MSG_REQUEST_CURRENT_LATENCY) = CEC_MSG_REQUEST_CURRENT_LATENCY"
  "prom (lo8 CEC_MSG_CDC_MESSAGE) = CEC_MSG_CDC_MESSAGE"
  by (simp_all add: cec_const c_convert_defs)

text \<open>The functions with optional operands, and those that copy.\<close>

lemma small_len:
  fixes len base limit :: u32
  assumes "len \<le> limit" and "unat base + unat limit \<le> 16" and "2 \<le> unat base"
  shows "2 \<le> base + len" and "base + len \<le> 16"
proof -
  have "unat len \<le> unat limit" using assms(1) by (simp add: word_le_nat_alt)
  then have "unat (base + len) = unat base + unat len" using assms(2) by (simp add: unat_word_ariths)
  then show "2 \<le> base + len" "base + len \<le> 16"
    using assms(2,3) \<open>unat len \<le> unat limit\<close> by (simp_all add: word_le_nat_alt)
qed

lemma clamped_len:
  fixes x :: u32 and n :: u8
  shows "2 \<le> 2 + (if 14 < x then 14 else x)" "2 + (if 14 < x then 14 else x) \<le> 16"
    and "2 \<le> 3 + (if 13 < x then 13 else x)" "3 + (if 13 < x then 13 else x) \<le> 16"
    and "2 \<le> 2 + prom (if 14 < prom n then 14 else n)" "2 + prom (if 14 < prom n then 14 else n) \<le> 16"
    and "2 \<le> 5 + prom (if 11 < prom n then 11 else n)" "5 + prom (if 11 < prom n then 11 else n) \<le> 16"
proof -
  show "2 \<le> 2 + (if 14 < x then 14 else x)" "2 + (if 14 < x then 14 else x) \<le> 16"
    by (rule small_len [of _ 14]; simp add: not_less)+
  show "2 \<le> 3 + (if 13 < x then 13 else x)" "3 + (if 13 < x then 13 else x) \<le> 16"
    by (rule small_len [of _ 13]; simp add: not_less)+
  have n: "prom (if 14 < prom n then 14 else n) \<le> 14" "prom (if 11 < prom n then 11 else n) \<le> 11"
    by (auto simp: not_less prom_def)
  show "2 \<le> 2 + prom (if 14 < prom n then 14 else n)" "2 + prom (if 14 < prom n then 14 else n) \<le> 16"
    by (rule small_len [OF n(1)]; simp)+
  show "2 \<le> 5 + prom (if 11 < prom n then 11 else n)" "5 + prom (if 11 < prom n then 11 else n) \<le> 16"
    by (rule small_len [OF n(2)]; simp)+
qed

lemmas byte_simps = nth_cm_msg memcpy_below opcode_byte

lemma sends_copying:
  assumes "msg_ok msg"
  shows "sends CEC_MSG_SET_TIMER_PROGRAM_TITLE msg (cec_msg_set_timer_program_title msg s)"
    and "sends CEC_MSG_SET_OSD_NAME msg (cec_msg_set_osd_name msg s)"
    and "sends CEC_MSG_SET_OSD_STRING msg (cec_msg_set_osd_string msg d s)"
    and "sends CEC_MSG_VENDOR_COMMAND msg (cec_msg_vendor_command msg n s)"
    and "sends CEC_MSG_VENDOR_COMMAND_WITH_ID msg (cec_msg_vendor_command_with_id msg vendor_id n s)"
    and "sends CEC_MSG_VENDOR_REMOTE_BUTTON_DOWN msg (cec_msg_vendor_remote_button_down msg n s)"
  by (rule sendsI; use assms in \<open>simp add: audio_simps byte_simps clamped_len split del: if_split\<close>)+

lemma sends_descriptors:
  assumes "msg_ok msg"
  shows "sends CEC_MSG_REPORT_SHORT_AUDIO_DESCRIPTOR msg (cec_msg_report_short_audio_descriptor msg n ds)"
    and "sends CEC_MSG_REQUEST_SHORT_AUDIO_DESCRIPTOR msg (cec_msg_request_short_audio_descriptor msg reply n ids codes)"
proof -
  obtain k where k: "k \<in> {0, 1, 2, 3, 4}" "(if prom n > 4 then 4 else n) = k" "unat k = min (unat n) 4"
    by (rule descriptor_count)
  have len: "2 \<le> 2 + prom k * 3" "2 + prom k * 3 \<le> 16" "2 \<le> 2 + prom k" "2 + prom k \<le> 16"
    using k(1) by (auto simp: prom_def)
  have k4: "unat k \<le> 4" using k(3) by simp
  show "sends CEC_MSG_REPORT_SHORT_AUDIO_DESCRIPTOR msg (cec_msg_report_short_audio_descriptor msg n ds)"
    unfolding cec_msg_report_short_audio_descriptor_def Let_def k(2)
    by (rule sendsI) (use assms len in \<open>simp_all add: fold_put3 [OF k4] cec_byte opcode_byte del: add_2_eq_Suc\<close>)
  show "sends CEC_MSG_REQUEST_SHORT_AUDIO_DESCRIPTOR msg (cec_msg_request_short_audio_descriptor msg reply n ids codes)"
    unfolding cec_msg_request_short_audio_descriptor_def Let_def k(2)
    by (rule sendsI) (use assms len in \<open>simp_all add: fold_put [OF k4] cec_byte opcode_byte del: add_2_eq_Suc\<close>)
qed

lemma sends_optional:
  assumes "msg_ok msg"
  shows "rs_type src \<in> {1, 2, 3, 4, 5} \<Longrightarrow> sends CEC_MSG_RECORD_ON msg (cec_msg_record_on msg reply src)"
    and "sends CEC_MSG_TIMER_STATUS msg (cec_msg_timer_status msg w m pi pe dh dm)"
    and "sends CEC_MSG_TUNER_DEVICE_STATUS msg (cec_msg_tuner_device_status msg info)"
    and "sends CEC_MSG_USER_CONTROL_PRESSED msg (cec_msg_user_control_pressed msg ui)"
    and "sends CEC_MSG_SYSTEM_AUDIO_MODE_REQUEST msg (cec_msg_system_audio_mode_request msg reply pa)"
    and "sends CEC_MSG_REPORT_CURRENT_LATENCY msg (cec_msg_report_current_latency msg pa vl ll oc od)"
    and "sends CEC_MSG_CDC_MESSAGE msg (cec_msg_cdc_hec_report_state msg ta hs hos es ce hf fl)"
    and "sends CEC_MSG_CDC_MESSAGE msg (cec_msg_cdc_hec_set_state msg p1 p2 st p3 p4 p5)"
  subgoal using assms by (intro sendsI) (auto simp: audio_simps byte_simps cec_const c_convert_defs)
  by (rule sendsI; use assms in \<open>simp add: audio_simps byte_simps\<close>)+

lemma call_sends: "cec_call op msg msg' \<Longrightarrow> msg_ok msg \<Longrightarrow> sends op msg msg'"
proof (induction rule: cec_call.induct)
qed (((rule sends_copying sends_descriptors sends_optional); assumption) |
  (rule sendsI; simp add: audio_simps byte_simps; fail))+

subsection \<open>Properties\<close>

text \<open>
  Every message function builds a legal message of its kind: whatever its arguments, the payload array
  keeps its size, the length lies between 2 and 16 bytes, the opcode is the one of the function, the
  initiator is untouched and the destination is untouched or the broadcast address.
\<close>

theorem call_builds_legal_message:
  assumes "cec_call op msg msg'" and "msg_ok msg"
  shows "msg_ok msg' \<and> 2 \<le> cm_len msg' \<and> cm_len msg' \<le> 16 \<and> cec_msg_opcode msg' = op \<and>
    cec_msg_initiator msg' = cec_msg_initiator msg \<and>
    (cec_msg_destination msg' = cec_msg_destination msg \<or> cec_msg_is_broadcast msg')"
  using call_sends [OF assms] by (simp add: sends_def is_broadcast_iff)

theorem call_builds_legal_message_witness:
  "cec_msg_opcode (cec_msg_set_osd_name (cec_msg_init zeroed 4 0) (replicate 40 65)) = CEC_MSG_SET_OSD_NAME \<and>
   cm_len (cec_msg_set_osd_name (cec_msg_init zeroed 4 0) (replicate 40 65)) \<le> 16"
  using call_builds_legal_message [OF cec_call.set_osd_name [of "cec_msg_init zeroed 4 0" "replicate 40 65"]]
  by (simp add: init_bytes)



text \<open>
  The kind of a message can be told from its bytes: a message built by two calls was built with the
  same opcode, and two routing changes, or two timers within the decimal range, that give the same
  message have the same arguments.
\<close>

theorem message_determines_call:
  assumes "msg_ok msg" and "msg_ok other"
  shows "(cec_call op msg m \<and> cec_call op' other m \<longrightarrow> op = op') \<and>
    (cec_msg_active_source msg a = cec_msg_active_source other b \<longrightarrow> a = b) \<and>
    (cec_msg_routing_change msg reply a1 a2 = cec_msg_routing_change other reply b1 b2 \<longrightarrow> a1 = b1 \<and> a2 = b2) \<and>
    (sh < 160 \<and> sm < 160 \<and> dh < 160 \<and> dm < 160 \<and> sh' < 160 \<and> sm' < 160 \<and> dh' < 160 \<and> dm' < 160 \<and>
      cec_msg_set_ext_timer msg reply d mo sh sm dh dm s x p pa =
        cec_msg_set_ext_timer other reply d' mo' sh' sm' dh' dm' s' x' p' pa' \<longrightarrow>
      (d, mo, sh, sm, dh, dm, s, x, p, pa) = (d', mo', sh', sm', dh', dm', s', x', p', pa'))"
  using assms call_sends [of op msg m] call_sends [of op' other m]
    active_source.build_inject [of msg a other b] 
    routing_change.build_inject [where m = msg and m' = other and reply = reply and a = "(a1, a2)" and b = "(b1, b2)"]
    ext_timer.build_inject [where m = msg and m' = other and reply = reply and
      a = "(d, mo, sh, sm, dh, dm, s, x, p, pa)" and b = "(d', mo', sh', sm', dh', dm', s', x', p', pa')"]
  by (auto simp: sends_def timer_times_ok_def)

theorem message_determines_call_witness:
  "cec_msg_active_source zeroed 0x1000 \<noteq> cec_msg_active_source zeroed 0x2000"
  using message_determines_call [where msg = zeroed and other = zeroed and a = "0x1000" and b = "0x2000"] by (auto simp: cec_byte)

end
