(* ===== verification/Queue_Macros.thy ===== *)
theory Queue_Macros
  imports Main
begin

text \<open>
  \<open>sys/queue.h\<close> of the sysroot: lists, singly-linked lists, singly-linked tail queues, simple queues
  and tail queues, over an explicit heap. Both a queue head and the link field of an element are a
  \<open>slot\<close>: a word that points at an element, followed by a word that holds the address of a slot
  (\<open>tqh_first\<close> and \<open>tqh_last\<close>, or \<open>tqe_next\<close> and \<open>tqe_prev\<close>), so the casts of the tail queue macros
  between a link field and a head are reads of the second word. \<open>NULL\<close> is \<open>None\<close>; an operation that
  dereferences it, or a loop that runs off the list or forever, returns \<open>None\<close>. Every macro is one
  definition; the lemmas relate each to a functional list. The structure declarations carry no
  operation, and the circular queues are in their own theory.
\<close>

section \<open>The heap\<close>

datatype slot = Head nat | Entry nat

record queue_heap =
  q_ptr :: "slot \<Rightarrow> nat option"
  q_back :: "slot \<Rightarrow> slot"

definition set_ptr :: "queue_heap \<Rightarrow> slot \<Rightarrow> nat option \<Rightarrow> queue_heap" where
  "set_ptr m s v = m\<lparr>q_ptr := (q_ptr m)(s := v)\<rparr>"

definition set_back :: "queue_heap \<Rightarrow> slot \<Rightarrow> slot \<Rightarrow> queue_heap" where
  "set_back m s v = m\<lparr>q_back := (q_back m)(s := v)\<rparr>"

text \<open>
  The loops: the elements a \<open>for\<close> loop visits forwards and backwards, and the search for the element
  before \<open>elm\<close> (\<open>while (curelm->next != elm) curelm = curelm->next\<close>).
\<close>

partial_function (option) walk :: "queue_heap \<Rightarrow> nat option \<Rightarrow> nat list option" where
  "walk m var = (case var of None \<Rightarrow> Some []
    | Some x \<Rightarrow> Option.bind (walk m (q_ptr m (Entry x))) (\<lambda>xs. Some (x # xs)))"

partial_function (option) walk_back :: "queue_heap \<Rightarrow> nat option \<Rightarrow> nat list option" where
  "walk_back m var = (case var of None \<Rightarrow> Some []
    | Some x \<Rightarrow> Option.bind (walk_back m (q_ptr m (q_back m (q_back m (Entry x))))) (\<lambda>xs. Some (x # xs)))"

partial_function (option) before :: "queue_heap \<Rightarrow> nat option \<Rightarrow> nat \<Rightarrow> nat option" where
  "before m curelm elm = (case curelm of None \<Rightarrow> None
    | Some c \<Rightarrow> if q_ptr m (Entry c) = Some elm then Some c else before m (q_ptr m (Entry c)) elm)"

section \<open>The macros\<close>

subsection \<open>Lists\<close>

definition LIST_HEAD_INITIALIZER :: "nat option" where
  "LIST_HEAD_INITIALIZER = None"

definition LIST_INIT :: "queue_heap \<Rightarrow> nat \<Rightarrow> queue_heap" where
  "LIST_INIT m head = set_ptr m (Head head) None"

definition LIST_INSERT_AFTER :: "queue_heap \<Rightarrow> nat \<Rightarrow> nat \<Rightarrow> queue_heap" where
  "LIST_INSERT_AFTER m listelm elm =
    (let m = set_ptr m (Entry elm) (q_ptr m (Entry listelm));
         m = (if q_ptr m (Entry elm) \<noteq> None
           then set_back m (Entry (the (q_ptr m (Entry listelm)))) (Entry elm) else m);
         m = set_ptr m (Entry listelm) (Some elm);
         m = set_back m (Entry elm) (Entry listelm)
     in m)"

definition LIST_INSERT_BEFORE :: "queue_heap \<Rightarrow> nat \<Rightarrow> nat \<Rightarrow> queue_heap" where
  "LIST_INSERT_BEFORE m listelm elm =
    (let m = set_back m (Entry elm) (q_back m (Entry listelm));
         m = set_ptr m (Entry elm) (Some listelm);
         m = set_ptr m (q_back m (Entry listelm)) (Some elm);
         m = set_back m (Entry listelm) (Entry elm)
     in m)"

definition LIST_INSERT_HEAD :: "queue_heap \<Rightarrow> nat \<Rightarrow> nat \<Rightarrow> queue_heap" where
  "LIST_INSERT_HEAD m head elm =
    (let m = set_ptr m (Entry elm) (q_ptr m (Head head));
         m = (if q_ptr m (Entry elm) \<noteq> None
           then set_back m (Entry (the (q_ptr m (Head head)))) (Entry elm) else m);
         m = set_ptr m (Head head) (Some elm);
         m = set_back m (Entry elm) (Head head)
     in m)"

definition LIST_REMOVE :: "queue_heap \<Rightarrow> nat \<Rightarrow> queue_heap" where
  "LIST_REMOVE m elm =
    (let m = (if q_ptr m (Entry elm) \<noteq> None
           then set_back m (Entry (the (q_ptr m (Entry elm)))) (q_back m (Entry elm)) else m);
         m = set_ptr m (q_back m (Entry elm)) (q_ptr m (Entry elm))
     in m)"

definition LIST_FOREACH :: "queue_heap \<Rightarrow> nat \<Rightarrow> nat list option" where
  "LIST_FOREACH m head = walk m (q_ptr m (Head head))"

definition LIST_EMPTY :: "queue_heap \<Rightarrow> nat \<Rightarrow> bool" where
  "LIST_EMPTY m head \<longleftrightarrow> q_ptr m (Head head) = None"

definition LIST_FIRST :: "queue_heap \<Rightarrow> nat \<Rightarrow> nat option" where
  "LIST_FIRST m head = q_ptr m (Head head)"

definition LIST_NEXT :: "queue_heap \<Rightarrow> nat \<Rightarrow> nat option" where
  "LIST_NEXT m elm = q_ptr m (Entry elm)"

subsection \<open>Singly-linked lists\<close>

definition SLIST_HEAD_INITIALIZER :: "nat option" where
  "SLIST_HEAD_INITIALIZER = None"

definition SLIST_INIT :: "queue_heap \<Rightarrow> nat \<Rightarrow> queue_heap" where
  "SLIST_INIT m head = set_ptr m (Head head) None"

definition SLIST_INSERT_AFTER :: "queue_heap \<Rightarrow> nat \<Rightarrow> nat \<Rightarrow> queue_heap" where
  "SLIST_INSERT_AFTER m slistelm elm =
    (let m = set_ptr m (Entry elm) (q_ptr m (Entry slistelm));
         m = set_ptr m (Entry slistelm) (Some elm)
     in m)"

definition SLIST_INSERT_HEAD :: "queue_heap \<Rightarrow> nat \<Rightarrow> nat \<Rightarrow> queue_heap" where
  "SLIST_INSERT_HEAD m head elm =
    (let m = set_ptr m (Entry elm) (q_ptr m (Head head));
         m = set_ptr m (Head head) (Some elm)
     in m)"

definition SLIST_REMOVE_HEAD :: "queue_heap \<Rightarrow> nat \<Rightarrow> queue_heap option" where
  "SLIST_REMOVE_HEAD m head =
    (case q_ptr m (Head head) of None \<Rightarrow> None
     | Some first \<Rightarrow> Some (set_ptr m (Head head) (q_ptr m (Entry first))))"

definition SLIST_REMOVE :: "queue_heap \<Rightarrow> nat \<Rightarrow> nat \<Rightarrow> queue_heap option" where
  "SLIST_REMOVE m head elm =
    (if q_ptr m (Head head) = Some elm then SLIST_REMOVE_HEAD m head
     else case before m (q_ptr m (Head head)) elm of None \<Rightarrow> None
     | Some curelm \<Rightarrow> Some (set_ptr m (Entry curelm) (q_ptr m (Entry (the (q_ptr m (Entry curelm)))))))"

definition SLIST_FOREACH :: "queue_heap \<Rightarrow> nat \<Rightarrow> nat list option" where
  "SLIST_FOREACH m head = walk m (q_ptr m (Head head))"

definition SLIST_EMPTY :: "queue_heap \<Rightarrow> nat \<Rightarrow> bool" where
  "SLIST_EMPTY m head \<longleftrightarrow> q_ptr m (Head head) = None"

definition SLIST_FIRST :: "queue_heap \<Rightarrow> nat \<Rightarrow> nat option" where
  "SLIST_FIRST m head = q_ptr m (Head head)"

definition SLIST_NEXT :: "queue_heap \<Rightarrow> nat \<Rightarrow> nat option" where
  "SLIST_NEXT m elm = q_ptr m (Entry elm)"

subsection \<open>Singly-linked tail queues\<close>

definition STAILQ_HEAD_INITIALIZER :: "nat \<Rightarrow> nat option \<times> slot" where
  "STAILQ_HEAD_INITIALIZER head = (None, Head head)"

definition STAILQ_INIT :: "queue_heap \<Rightarrow> nat \<Rightarrow> queue_heap" where
  "STAILQ_INIT m head =
    (let m = set_ptr m (Head head) None;
         m = set_back m (Head head) (Head head)
     in m)"

definition STAILQ_INSERT_HEAD :: "queue_heap \<Rightarrow> nat \<Rightarrow> nat \<Rightarrow> queue_heap" where
  "STAILQ_INSERT_HEAD m head elm =
    (let m = set_ptr m (Entry elm) (q_ptr m (Head head));
         m = (if q_ptr m (Entry elm) = None then set_back m (Head head) (Entry elm) else m);
         m = set_ptr m (Head head) (Some elm)
     in m)"

definition STAILQ_INSERT_TAIL :: "queue_heap \<Rightarrow> nat \<Rightarrow> nat \<Rightarrow> queue_heap" where
  "STAILQ_INSERT_TAIL m head elm =
    (let m = set_ptr m (Entry elm) None;
         m = set_ptr m (q_back m (Head head)) (Some elm);
         m = set_back m (Head head) (Entry elm)
     in m)"

definition STAILQ_INSERT_AFTER :: "queue_heap \<Rightarrow> nat \<Rightarrow> nat \<Rightarrow> nat \<Rightarrow> queue_heap" where
  "STAILQ_INSERT_AFTER m head listelm elm =
    (let m = set_ptr m (Entry elm) (q_ptr m (Entry listelm));
         m = (if q_ptr m (Entry elm) = None then set_back m (Head head) (Entry elm) else m);
         m = set_ptr m (Entry listelm) (Some elm)
     in m)"

definition STAILQ_REMOVE_HEAD :: "queue_heap \<Rightarrow> nat \<Rightarrow> queue_heap option" where
  "STAILQ_REMOVE_HEAD m head =
    (case q_ptr m (Head head) of None \<Rightarrow> None
     | Some first \<Rightarrow>
       Some (let m = set_ptr m (Head head) (q_ptr m (Entry first))
             in if q_ptr m (Head head) = None then set_back m (Head head) (Head head) else m))"

definition STAILQ_REMOVE :: "queue_heap \<Rightarrow> nat \<Rightarrow> nat \<Rightarrow> queue_heap option" where
  "STAILQ_REMOVE m head elm =
    (if q_ptr m (Head head) = Some elm then STAILQ_REMOVE_HEAD m head
     else case before m (q_ptr m (Head head)) elm of None \<Rightarrow> None
     | Some curelm \<Rightarrow>
       Some (let m = set_ptr m (Entry curelm) (q_ptr m (Entry (the (q_ptr m (Entry curelm)))))
             in if q_ptr m (Entry curelm) = None then set_back m (Head head) (Entry curelm) else m))"

definition STAILQ_FOREACH :: "queue_heap \<Rightarrow> nat \<Rightarrow> nat list option" where
  "STAILQ_FOREACH m head = walk m (q_ptr m (Head head))"

definition STAILQ_EMPTY :: "queue_heap \<Rightarrow> nat \<Rightarrow> bool" where
  "STAILQ_EMPTY m head \<longleftrightarrow> q_ptr m (Head head) = None"

definition STAILQ_FIRST :: "queue_heap \<Rightarrow> nat \<Rightarrow> nat option" where
  "STAILQ_FIRST m head = q_ptr m (Head head)"

definition STAILQ_NEXT :: "queue_heap \<Rightarrow> nat \<Rightarrow> nat option" where
  "STAILQ_NEXT m elm = q_ptr m (Entry elm)"

definition STAILQ_CONCAT :: "queue_heap \<Rightarrow> nat \<Rightarrow> nat \<Rightarrow> queue_heap" where
  "STAILQ_CONCAT m head1 head2 =
    (if \<not> STAILQ_EMPTY m head2 then
       (let m = set_ptr m (q_back m (Head head1)) (q_ptr m (Head head2));
            m = set_back m (Head head1) (q_back m (Head head2));
            m = STAILQ_INIT m head2
        in m)
     else m)"

subsection \<open>Simple queues\<close>

definition SIMPLEQ_HEAD_INITIALIZER :: "nat \<Rightarrow> nat option \<times> slot" where
  "SIMPLEQ_HEAD_INITIALIZER head = (None, Head head)"

definition SIMPLEQ_INIT :: "queue_heap \<Rightarrow> nat \<Rightarrow> queue_heap" where
  "SIMPLEQ_INIT m head =
    (let m = set_ptr m (Head head) None;
         m = set_back m (Head head) (Head head)
     in m)"

definition SIMPLEQ_INSERT_HEAD :: "queue_heap \<Rightarrow> nat \<Rightarrow> nat \<Rightarrow> queue_heap" where
  "SIMPLEQ_INSERT_HEAD m head elm =
    (let m = set_ptr m (Entry elm) (q_ptr m (Head head));
         m = (if q_ptr m (Entry elm) = None then set_back m (Head head) (Entry elm) else m);
         m = set_ptr m (Head head) (Some elm)
     in m)"

definition SIMPLEQ_INSERT_TAIL :: "queue_heap \<Rightarrow> nat \<Rightarrow> nat \<Rightarrow> queue_heap" where
  "SIMPLEQ_INSERT_TAIL m head elm =
    (let m = set_ptr m (Entry elm) None;
         m = set_ptr m (q_back m (Head head)) (Some elm);
         m = set_back m (Head head) (Entry elm)
     in m)"

definition SIMPLEQ_INSERT_AFTER :: "queue_heap \<Rightarrow> nat \<Rightarrow> nat \<Rightarrow> nat \<Rightarrow> queue_heap" where
  "SIMPLEQ_INSERT_AFTER m head listelm elm =
    (let m = set_ptr m (Entry elm) (q_ptr m (Entry listelm));
         m = (if q_ptr m (Entry elm) = None then set_back m (Head head) (Entry elm) else m);
         m = set_ptr m (Entry listelm) (Some elm)
     in m)"

definition SIMPLEQ_REMOVE_HEAD :: "queue_heap \<Rightarrow> nat \<Rightarrow> queue_heap option" where
  "SIMPLEQ_REMOVE_HEAD m head =
    (case q_ptr m (Head head) of None \<Rightarrow> None
     | Some first \<Rightarrow>
       Some (let m = set_ptr m (Head head) (q_ptr m (Entry first))
             in if q_ptr m (Head head) = None then set_back m (Head head) (Head head) else m))"

definition SIMPLEQ_REMOVE :: "queue_heap \<Rightarrow> nat \<Rightarrow> nat \<Rightarrow> queue_heap option" where
  "SIMPLEQ_REMOVE m head elm =
    (if q_ptr m (Head head) = Some elm then SIMPLEQ_REMOVE_HEAD m head
     else case before m (q_ptr m (Head head)) elm of None \<Rightarrow> None
     | Some curelm \<Rightarrow>
       Some (let m = set_ptr m (Entry curelm) (q_ptr m (Entry (the (q_ptr m (Entry curelm)))))
             in if q_ptr m (Entry curelm) = None then set_back m (Head head) (Entry curelm) else m))"

definition SIMPLEQ_FOREACH :: "queue_heap \<Rightarrow> nat \<Rightarrow> nat list option" where
  "SIMPLEQ_FOREACH m head = walk m (q_ptr m (Head head))"

definition SIMPLEQ_EMPTY :: "queue_heap \<Rightarrow> nat \<Rightarrow> bool" where
  "SIMPLEQ_EMPTY m head \<longleftrightarrow> q_ptr m (Head head) = None"

definition SIMPLEQ_FIRST :: "queue_heap \<Rightarrow> nat \<Rightarrow> nat option" where
  "SIMPLEQ_FIRST m head = q_ptr m (Head head)"

definition SIMPLEQ_NEXT :: "queue_heap \<Rightarrow> nat \<Rightarrow> nat option" where
  "SIMPLEQ_NEXT m elm = q_ptr m (Entry elm)"

subsection \<open>Tail queues\<close>

definition TAILQ_HEAD_INITIALIZER :: "nat \<Rightarrow> nat option \<times> slot" where
  "TAILQ_HEAD_INITIALIZER head = (None, Head head)"

definition TAILQ_INIT :: "queue_heap \<Rightarrow> nat \<Rightarrow> queue_heap" where
  "TAILQ_INIT m head =
    (let m = set_ptr m (Head head) None;
         m = set_back m (Head head) (Head head)
     in m)"

definition TAILQ_INSERT_HEAD :: "queue_heap \<Rightarrow> nat \<Rightarrow> nat \<Rightarrow> queue_heap" where
  "TAILQ_INSERT_HEAD m head elm =
    (let m = set_ptr m (Entry elm) (q_ptr m (Head head));
         m = (if q_ptr m (Entry elm) \<noteq> None
           then set_back m (Entry (the (q_ptr m (Head head)))) (Entry elm)
           else set_back m (Head head) (Entry elm));
         m = set_ptr m (Head head) (Some elm);
         m = set_back m (Entry elm) (Head head)
     in m)"

definition TAILQ_INSERT_TAIL :: "queue_heap \<Rightarrow> nat \<Rightarrow> nat \<Rightarrow> queue_heap" where
  "TAILQ_INSERT_TAIL m head elm =
    (let m = set_ptr m (Entry elm) None;
         m = set_back m (Entry elm) (q_back m (Head head));
         m = set_ptr m (q_back m (Head head)) (Some elm);
         m = set_back m (Head head) (Entry elm)
     in m)"

definition TAILQ_INSERT_AFTER :: "queue_heap \<Rightarrow> nat \<Rightarrow> nat \<Rightarrow> nat \<Rightarrow> queue_heap" where
  "TAILQ_INSERT_AFTER m head listelm elm =
    (let m = set_ptr m (Entry elm) (q_ptr m (Entry listelm));
         m = (if q_ptr m (Entry elm) \<noteq> None
           then set_back m (Entry (the (q_ptr m (Entry elm)))) (Entry elm)
           else set_back m (Head head) (Entry elm));
         m = set_ptr m (Entry listelm) (Some elm);
         m = set_back m (Entry elm) (Entry listelm)
     in m)"

definition TAILQ_INSERT_BEFORE :: "queue_heap \<Rightarrow> nat \<Rightarrow> nat \<Rightarrow> queue_heap" where
  "TAILQ_INSERT_BEFORE m listelm elm =
    (let m = set_back m (Entry elm) (q_back m (Entry listelm));
         m = set_ptr m (Entry elm) (Some listelm);
         m = set_ptr m (q_back m (Entry listelm)) (Some elm);
         m = set_back m (Entry listelm) (Entry elm)
     in m)"

definition TAILQ_REMOVE :: "queue_heap \<Rightarrow> nat \<Rightarrow> nat \<Rightarrow> queue_heap" where
  "TAILQ_REMOVE m head elm =
    (let m = (if q_ptr m (Entry elm) \<noteq> None
           then set_back m (Entry (the (q_ptr m (Entry elm)))) (q_back m (Entry elm))
           else set_back m (Head head) (q_back m (Entry elm)));
         m = set_ptr m (q_back m (Entry elm)) (q_ptr m (Entry elm))
     in m)"

definition TAILQ_FOREACH :: "queue_heap \<Rightarrow> nat \<Rightarrow> nat list option" where
  "TAILQ_FOREACH m head = walk m (q_ptr m (Head head))"

text \<open>The cast of a slot address to a head structure reads the second word behind the slot.\<close>

definition TAILQ_FOREACH_REVERSE :: "queue_heap \<Rightarrow> nat \<Rightarrow> nat list option" where
  "TAILQ_FOREACH_REVERSE m head = walk_back m (q_ptr m (q_back m (q_back m (Head head))))"

definition TAILQ_EMPTY :: "queue_heap \<Rightarrow> nat \<Rightarrow> bool" where
  "TAILQ_EMPTY m head \<longleftrightarrow> q_ptr m (Head head) = None"

definition TAILQ_CONCAT :: "queue_heap \<Rightarrow> nat \<Rightarrow> nat \<Rightarrow> queue_heap" where
  "TAILQ_CONCAT m head1 head2 =
    (if \<not> TAILQ_EMPTY m head2 then
       (let m = set_ptr m (q_back m (Head head1)) (q_ptr m (Head head2));
            m = set_back m (Entry (the (q_ptr m (Head head2)))) (q_back m (Head head1));
            m = set_back m (Head head1) (q_back m (Head head2));
            m = TAILQ_INIT m head2
        in m)
     else m)"

definition TAILQ_FIRST :: "queue_heap \<Rightarrow> nat \<Rightarrow> nat option" where
  "TAILQ_FIRST m head = q_ptr m (Head head)"

definition TAILQ_NEXT :: "queue_heap \<Rightarrow> nat \<Rightarrow> nat option" where
  "TAILQ_NEXT m elm = q_ptr m (Entry elm)"

definition TAILQ_LAST :: "queue_heap \<Rightarrow> nat \<Rightarrow> nat option" where
  "TAILQ_LAST m head = q_ptr m (q_back m (q_back m (Head head)))"

definition TAILQ_PREV :: "queue_heap \<Rightarrow> nat \<Rightarrow> nat option" where
  "TAILQ_PREV m elm = q_ptr m (q_back m (q_back m (Entry elm)))"

section \<open>Chains of elements\<close>

text \<open>
  \<open>seg d m s xs\<close>: starting at the slot \<open>s\<close> the links lead through the elements \<open>xs\<close>; with \<open>d\<close> each element
  also points back at the slot that points at it. \<open>end_slot s xs\<close> is the slot behind them.
\<close>

fun seg :: "bool \<Rightarrow> queue_heap \<Rightarrow> slot \<Rightarrow> nat list \<Rightarrow> bool" where
  "seg d m s [] \<longleftrightarrow> True"
| "seg d m s (x # xs) \<longleftrightarrow> q_ptr m s = Some x \<and> (d \<longrightarrow> q_back m (Entry x) = s) \<and> seg d m (Entry x) xs"

fun end_slot :: "slot \<Rightarrow> nat list \<Rightarrow> slot" where
  "end_slot s [] = s"
| "end_slot s (x # xs) = end_slot (Entry x) xs"

lemma end_slot_append [simp]: "end_slot s (xs @ ys) = end_slot (end_slot s xs) ys"
  by (induction xs arbitrary: s) simp_all

lemma end_slot_in: "end_slot s xs = s \<and> xs = [] \<or> (\<exists>x \<in> set xs. end_slot s xs = Entry x)"
  by (induction xs arbitrary: s) auto

lemma seg_append [simp]: "seg d m s (xs @ ys) \<longleftrightarrow> seg d m s xs \<and> seg d m (end_slot s xs) ys"
  by (induction xs arbitrary: s) auto

lemma heap_simps [simp]:
  "q_ptr (set_ptr m s v) = (q_ptr m)(s := v)" "q_back (set_ptr m s v) = q_back m"
  "q_ptr (set_back m s t) = q_ptr m" "q_back (set_back m s t) = (q_back m)(s := t)"
  by (simp_all add: set_ptr_def set_back_def)

text \<open>Writes outside a chain leave it alone; its last link is outside.\<close>

lemma slot_image [simp]: "Entry x \<in> Entry ` A \<longleftrightarrow> x \<in> A" "Head h \<notin> Entry ` A"
  by auto

lemma seg_set_ptr [simp]: "t \<noteq> s \<Longrightarrow> t \<notin> Entry ` set xs \<Longrightarrow> seg d (set_ptr m t v) s xs = seg d m s xs"
  by (induction xs arbitrary: s) auto

lemma seg_set_back [simp]: "t \<notin> Entry ` set xs \<Longrightarrow> seg d (set_back m t v) s xs = seg d m s xs"
  by (induction xs arbitrary: s) auto

lemma end_slot_not_entry [simp]: "e \<notin> set xs \<Longrightarrow> s \<noteq> Entry e \<Longrightarrow> end_slot s xs \<noteq> Entry e"
  by (induction xs arbitrary: s) auto

lemmas entry_not_end_slot [simp] = not_sym [OF end_slot_not_entry]

lemma end_slot_not_head [simp]: "end_slot (Entry y) ys \<noteq> Head h" "xs \<noteq> [] \<Longrightarrow> end_slot s xs \<noteq> Head h"
  using end_slot_in [of "Entry y" ys] end_slot_in [of s xs] by auto

lemma end_slot_other_head [simp]: "g \<noteq> h \<Longrightarrow> end_slot (Head g) zs \<noteq> Head h"
  using end_slot_in [of "Head g" zs] by auto

lemma seg_set_end [simp]:
  "distinct xs \<Longrightarrow> s \<notin> Entry ` set xs \<Longrightarrow> seg d (set_ptr m (end_slot s xs) v) s xs = seg d m s xs"
proof (induction xs arbitrary: s)
  case (Cons x xs)
  have "end_slot (Entry x) xs \<noteq> s" using Cons.prems end_slot_in [of "Entry x" xs] by auto
  then show ?case using Cons by auto
qed simp

lemma seg_set_other_end [simp]:
  assumes "y \<notin> set xs" and "set xs \<inter> set ys = {}"
  shows "seg d (set_ptr m (end_slot (Head h) xs) v) (Entry y) ys = seg d m (Entry y) ys"
  using end_slot_in [of "Head h" xs] assms by (intro seg_set_ptr) auto

subsection \<open>What the heads represent\<close>

definition is_list :: "queue_heap \<Rightarrow> nat \<Rightarrow> nat list \<Rightarrow> bool" where
  "is_list m h xs \<longleftrightarrow> distinct xs \<and> seg True m (Head h) xs \<and> q_ptr m (end_slot (Head h) xs) = None"

definition is_slist :: "queue_heap \<Rightarrow> nat \<Rightarrow> nat list \<Rightarrow> bool" where
  "is_slist m h xs \<longleftrightarrow> distinct xs \<and> seg False m (Head h) xs \<and> q_ptr m (end_slot (Head h) xs) = None"

definition is_stailq :: "queue_heap \<Rightarrow> nat \<Rightarrow> nat list \<Rightarrow> bool" where
  "is_stailq m h xs \<longleftrightarrow> is_slist m h xs \<and> q_back m (Head h) = end_slot (Head h) xs"

definition is_tailq :: "queue_heap \<Rightarrow> nat \<Rightarrow> nat list \<Rightarrow> bool" where
  "is_tailq m h xs \<longleftrightarrow> is_list m h xs \<and> q_back m (Head h) = end_slot (Head h) xs"

lemma seg_first: "seg d m s xs \<Longrightarrow> q_ptr m (end_slot s xs) = None \<Longrightarrow>
    q_ptr m s = (case xs of [] \<Rightarrow> None | x # _ \<Rightarrow> Some x)"
  by (cases xs) auto

lemmas rep_defs = is_list_def is_slist_def is_stailq_def is_tailq_def Let_def

subsection \<open>Inserting in front\<close>

lemma LIST_INSERT_HEAD_ok: "is_list m h xs \<Longrightarrow> e \<notin> set xs \<Longrightarrow> is_list (LIST_INSERT_HEAD m h e) h (e # xs)"
  by (cases xs) (auto simp: rep_defs LIST_INSERT_HEAD_def)

lemma SLIST_INSERT_HEAD_ok: "is_slist m h xs \<Longrightarrow> e \<notin> set xs \<Longrightarrow> is_slist (SLIST_INSERT_HEAD m h e) h (e # xs)"
  by (cases xs) (auto simp: rep_defs SLIST_INSERT_HEAD_def)

lemma STAILQ_INSERT_HEAD_ok: "is_stailq m h xs \<Longrightarrow> e \<notin> set xs \<Longrightarrow> is_stailq (STAILQ_INSERT_HEAD m h e) h (e # xs)"
  by (cases xs) (auto simp: rep_defs STAILQ_INSERT_HEAD_def)

lemma TAILQ_INSERT_HEAD_ok: "is_tailq m h xs \<Longrightarrow> e \<notin> set xs \<Longrightarrow> is_tailq (TAILQ_INSERT_HEAD m h e) h (e # xs)"
  by (cases xs) (auto simp: rep_defs TAILQ_INSERT_HEAD_def)

subsection \<open>Inserting at the end\<close>

lemma STAILQ_INSERT_TAIL_ok: "is_stailq m h xs \<Longrightarrow> e \<notin> set xs \<Longrightarrow> is_stailq (STAILQ_INSERT_TAIL m h e) h (xs @ [e])"
  by (auto simp: rep_defs STAILQ_INSERT_TAIL_def)

lemma TAILQ_INSERT_TAIL_ok: "is_tailq m h xs \<Longrightarrow> e \<notin> set xs \<Longrightarrow> is_tailq (TAILQ_INSERT_TAIL m h e) h (xs @ [e])"
  by (auto simp: rep_defs TAILQ_INSERT_TAIL_def)

subsection \<open>Inserting beside an element\<close>

lemma LIST_INSERT_AFTER_ok:
  "is_list m h (xs @ l # ys) \<Longrightarrow> e \<notin> set (xs @ l # ys) \<Longrightarrow> is_list (LIST_INSERT_AFTER m l e) h (xs @ l # e # ys)"
  by (cases ys) (auto simp: rep_defs LIST_INSERT_AFTER_def)

lemma SLIST_INSERT_AFTER_ok:
  "is_slist m h (xs @ l # ys) \<Longrightarrow> e \<notin> set (xs @ l # ys) \<Longrightarrow> is_slist (SLIST_INSERT_AFTER m l e) h (xs @ l # e # ys)"
  by (cases ys) (auto simp: rep_defs SLIST_INSERT_AFTER_def)

lemma STAILQ_INSERT_AFTER_ok:
  "is_stailq m h (xs @ l # ys) \<Longrightarrow> e \<notin> set (xs @ l # ys) \<Longrightarrow> is_stailq (STAILQ_INSERT_AFTER m h l e) h (xs @ l # e # ys)"
  by (cases ys) (auto simp: rep_defs STAILQ_INSERT_AFTER_def)

lemma TAILQ_INSERT_AFTER_ok:
  "is_tailq m h (xs @ l # ys) \<Longrightarrow> e \<notin> set (xs @ l # ys) \<Longrightarrow> is_tailq (TAILQ_INSERT_AFTER m h l e) h (xs @ l # e # ys)"
  by (cases ys) (auto simp: rep_defs TAILQ_INSERT_AFTER_def)

lemma LIST_INSERT_BEFORE_ok:
  "is_list m h (xs @ l # ys) \<Longrightarrow> e \<notin> set (xs @ l # ys) \<Longrightarrow> is_list (LIST_INSERT_BEFORE m l e) h (xs @ e # l # ys)"
  by (auto simp: rep_defs LIST_INSERT_BEFORE_def)

lemma TAILQ_INSERT_BEFORE_ok:
  "is_tailq m h (xs @ l # ys) \<Longrightarrow> e \<notin> set (xs @ l # ys) \<Longrightarrow> is_tailq (TAILQ_INSERT_BEFORE m l e) h (xs @ e # l # ys)"
  by (auto simp: rep_defs TAILQ_INSERT_BEFORE_def)

subsection \<open>Removing\<close>

lemma LIST_REMOVE_ok: "is_list m h (xs @ e # ys) \<Longrightarrow> is_list (LIST_REMOVE m e) h (xs @ ys)"
  by (cases ys) (auto simp: rep_defs LIST_REMOVE_def)

lemma TAILQ_REMOVE_ok: "is_tailq m h (xs @ e # ys) \<Longrightarrow> is_tailq (TAILQ_REMOVE m h e) h (xs @ ys)"
  by (cases ys) (auto simp: rep_defs TAILQ_REMOVE_def)

lemma before_ok:
  "seg d m (Entry c) (xs @ [p, e]) \<Longrightarrow> e \<notin> set (c # xs) \<Longrightarrow> e \<noteq> p \<Longrightarrow> before m (Some c) e = Some p"
  by (induction xs arbitrary: c) (subst before.simps, simp add: before.simps)+

lemma before_member:
  assumes "seg d m (Head h) (xs @ p # e # ys)" and "distinct (xs @ p # e # ys)"
  shows "before m (q_ptr m (Head h)) e = Some p"
proof (cases xs)
  case Nil
  then show ?thesis using assms by (simp add: before.simps)
next
  case (Cons c cs)
  have "seg d m (Entry c) (cs @ [p, e])" using assms(1) Cons by simp
  then show ?thesis using before_ok [of d m c cs p e] assms Cons by auto
qed

lemma SLIST_REMOVE_ok:
  assumes "is_slist m h (xs @ e # ys)"
  shows "\<exists>m'. SLIST_REMOVE m h e = Some m' \<and> is_slist m' h (xs @ ys)"
proof (cases xs rule: rev_cases)
  case Nil
  then show ?thesis using assms by (cases ys) (auto simp: rep_defs SLIST_REMOVE_def SLIST_REMOVE_HEAD_def)
next
  case (snoc zs p)
  have s: "seg False m (Head h) (zs @ p # e # ys)" "distinct (zs @ p # e # ys)" using assms snoc by (simp_all add: rep_defs)
  have "q_ptr m (Head h) \<noteq> Some e" using s by (cases zs) auto
  then show ?thesis using assms s snoc before_member [OF s]
    by (cases ys) (auto simp: rep_defs SLIST_REMOVE_def)
qed

lemma STAILQ_REMOVE_ok:
  assumes "is_stailq m h (xs @ e # ys)"
  shows "\<exists>m'. STAILQ_REMOVE m h e = Some m' \<and> is_stailq m' h (xs @ ys)"
proof (cases xs rule: rev_cases)
  case Nil
  then show ?thesis using assms by (cases ys) (auto simp: rep_defs STAILQ_REMOVE_def STAILQ_REMOVE_HEAD_def)
next
  case (snoc zs p)
  have s: "seg False m (Head h) (zs @ p # e # ys)" "distinct (zs @ p # e # ys)" using assms snoc by (simp_all add: rep_defs)
  have "q_ptr m (Head h) \<noteq> Some e" using s by (cases zs) auto
  then show ?thesis using assms s snoc before_member [OF s]
    by (cases ys) (auto simp: rep_defs STAILQ_REMOVE_def)
qed

subsection \<open>Traversing\<close>

lemma walk_seg: "seg d m s xs \<Longrightarrow> q_ptr m (end_slot s xs) = None \<Longrightarrow> walk m (q_ptr m s) = Some xs"
  by (induction xs arbitrary: s) (simp_all add: walk.simps)

lemma walk_back_seg:
  "seg True m (Head h) ps \<Longrightarrow> q_ptr m (q_back m (Head h)) = None \<Longrightarrow>
   walk_back m (q_ptr m (q_back m (end_slot (Head h) ps))) = Some (rev ps)"
  by (induction ps rule: rev_induct) (simp_all add: walk_back.simps)

lemma prev_of:
  assumes "seg True m (Head h) (xs @ x # ys)" and "q_ptr m (q_back m (Head h)) = None"
  shows "q_ptr m (q_back m (q_back m (Entry x))) = (if xs = [] then None else Some (last xs))"
  using assms by (cases xs rule: rev_cases) auto

subsection \<open>Joining\<close>

lemma end_slot_entry: "ys \<noteq> [] \<Longrightarrow> end_slot s ys = Entry (last ys)"
  by (induction ys arbitrary: s) auto

lemma STAILQ_CONCAT_ok:
  assumes "is_stailq m h xs" and "is_stailq m g ys" and "h \<noteq> g" and "set xs \<inter> set ys = {}"
  shows "is_stailq (STAILQ_CONCAT m h g) h (xs @ ys) \<and> is_stailq (STAILQ_CONCAT m h g) g []"
proof (cases ys)
  case Nil
  then show ?thesis using assms by (simp add: rep_defs STAILQ_CONCAT_def STAILQ_EMPTY_def)
next
  case (Cons y zs)
  then have "end_slot (Entry y) zs \<noteq> end_slot (Head h) xs"
    using end_slot_in [of "Head h" xs] end_slot_entry [of ys "Head g"] assms(4) last_in_set [of ys] by auto
  then show ?thesis using assms Cons
    by (auto simp: rep_defs STAILQ_CONCAT_def STAILQ_EMPTY_def STAILQ_INIT_def)
qed

lemma TAILQ_CONCAT_ok:
  assumes "is_tailq m h xs" and "is_tailq m g ys" and "h \<noteq> g" and "set xs \<inter> set ys = {}"
  shows "is_tailq (TAILQ_CONCAT m h g) h (xs @ ys) \<and> is_tailq (TAILQ_CONCAT m h g) g []"
proof (cases ys)
  case Nil
  then show ?thesis using assms by (simp add: rep_defs TAILQ_CONCAT_def TAILQ_EMPTY_def)
next
  case (Cons y zs)
  then have "end_slot (Entry y) zs \<noteq> end_slot (Head h) xs"
    using end_slot_in [of "Head h" xs] end_slot_entry [of ys "Head g"] assms(4) last_in_set [of ys] by auto
  then show ?thesis using assms Cons
    by (auto simp: rep_defs TAILQ_CONCAT_def TAILQ_EMPTY_def TAILQ_INIT_def)
qed

subsection \<open>Other queues\<close>

lemma TAILQ_INSERT_HEAD_frame:
  assumes "is_tailq m h xs" and "is_tailq m g zs" and "g \<noteq> h" and "e \<notin> set zs" and "set xs \<inter> set zs = {}"
  shows "is_tailq (TAILQ_INSERT_HEAD m h e) g zs"
  using assms by (cases xs) (auto simp: rep_defs TAILQ_INSERT_HEAD_def)

lemma TAILQ_REMOVE_frame:
  assumes "is_tailq m h (xs @ e # ys)" and "is_tailq m g zs" and "g \<noteq> h" and "set (xs @ e # ys) \<inter> set zs = {}"
  shows "is_tailq (TAILQ_REMOVE m h e) g zs"
proof -
  have "end_slot (Head h) xs \<noteq> Head g" "end_slot (Head h) xs \<notin> Entry ` set zs"
    "end_slot (Head g) zs \<noteq> end_slot (Head h) xs"
    using end_slot_in [of "Head h" xs] end_slot_in [of "Head g" zs] assms(3,4) by auto
  then show ?thesis using assms by (cases ys) (auto simp: rep_defs TAILQ_REMOVE_def)
qed

lemma LIST_INSERT_HEAD_frame:
  assumes "is_list m h xs" and "is_list m g zs" and "g \<noteq> h" and "e \<notin> set zs" and "set xs \<inter> set zs = {}"
  shows "is_list (LIST_INSERT_HEAD m h e) g zs"
  using assms by (cases xs) (auto simp: rep_defs LIST_INSERT_HEAD_def)

lemma LIST_REMOVE_frame:
  assumes "is_list m h (xs @ e # ys)" and "is_list m g zs" and "g \<noteq> h" and "set (xs @ e # ys) \<inter> set zs = {}"
  shows "is_list (LIST_REMOVE m e) g zs"
proof -
  have "end_slot (Head h) xs \<noteq> Head g" "end_slot (Head h) xs \<notin> Entry ` set zs"
    "end_slot (Head g) zs \<noteq> end_slot (Head h) xs"
    using end_slot_in [of "Head h" xs] end_slot_in [of "Head g" zs] assms(3,4) by auto
  then show ?thesis using assms by (cases ys) (auto simp: rep_defs LIST_REMOVE_def)
qed

section \<open>The contract of a list head\<close>

text \<open>
  What a program relies on: a new element goes to the front of its own list, a member can be removed,
  and neither touches a list under another head with other members.
\<close>

locale member_list =
  fixes rep :: "queue_heap \<Rightarrow> nat \<Rightarrow> nat list \<Rightarrow> bool"
    and insert_head :: "queue_heap \<Rightarrow> nat \<Rightarrow> nat \<Rightarrow> queue_heap"
    and remove :: "queue_heap \<Rightarrow> nat \<Rightarrow> nat \<Rightarrow> queue_heap"
  assumes rep_distinct: "rep m h xs \<Longrightarrow> distinct xs"
    and rep_insert: "rep m h xs \<Longrightarrow> e \<notin> set xs \<Longrightarrow> rep (insert_head m h e) h (e # xs)"
    and rep_remove: "rep m h (xs @ e # ys) \<Longrightarrow> rep (remove m h e) h (xs @ ys)"
    and insert_frame: "rep m h xs \<Longrightarrow> rep m g zs \<Longrightarrow> g \<noteq> h \<Longrightarrow> e \<notin> set zs \<Longrightarrow> set xs \<inter> set zs = {} \<Longrightarrow>
      rep (insert_head m h e) g zs"
    and remove_frame: "rep m h (xs @ e # ys) \<Longrightarrow> rep m g zs \<Longrightarrow> g \<noteq> h \<Longrightarrow> set (xs @ e # ys) \<inter> set zs = {} \<Longrightarrow>
      rep (remove m h e) g zs"
begin

lemma remove1: "rep m h xs \<Longrightarrow> e \<in> set xs \<Longrightarrow> rep (remove m h e) h (remove1 e xs)"
  by (metis rep_remove remove1_append remove1.simps(2) split_list_first)

text \<open>Moving a member from one list to the front of another, as a scheduler moves a task.\<close>

lemma move:
  assumes "rep m h xs" and "rep m g zs" and "g \<noteq> h" and "set xs \<inter> set zs = {}" and "e \<in> set xs"
  shows "rep (insert_head (remove m h e) g e) g (e # zs) \<and> rep (insert_head (remove m h e) g e) h (remove1 e xs)"
proof -
  obtain as bs where xs: "xs = as @ e # bs" "e \<notin> set as" using split_list_first [OF assms(5)] by blast
  have r1: "remove1 e xs = as @ bs" using xs by (simp add: remove1_append)
  have e: "e \<notin> set bs" using rep_distinct [OF assms(1)] xs(1) by simp
  have h: "rep (remove m h e) h (as @ bs)" using assms(1) rep_remove xs by simp
  have g: "rep (remove m h e) g zs" using remove_frame assms(1-4) xs(1) by blast
  have "e \<notin> set zs" using assms(4,5) by auto
  then have "rep (insert_head (remove m h e) g e) g (e # zs)" using g rep_insert by blast
  moreover have "rep (insert_head (remove m h e) g e) h (as @ bs)"
    using insert_frame [OF g h] assms(3,4) xs e by auto
  ultimately show ?thesis by (simp add: r1)
qed

end

interpretation tailq: member_list is_tailq TAILQ_INSERT_HEAD TAILQ_REMOVE
proof unfold_locales
  show "is_tailq m h xs \<Longrightarrow> distinct xs" for m h xs by (simp add: rep_defs)
qed (simp_all add: TAILQ_INSERT_HEAD_ok TAILQ_REMOVE_ok TAILQ_INSERT_HEAD_frame TAILQ_REMOVE_frame)

interpretation le_list: member_list is_list LIST_INSERT_HEAD "\<lambda>m h e. LIST_REMOVE m e"
proof unfold_locales
  show "is_list m h xs \<Longrightarrow> distinct xs" for m h xs by (simp add: rep_defs)
qed (simp_all add: LIST_INSERT_HEAD_ok LIST_REMOVE_ok LIST_INSERT_HEAD_frame LIST_REMOVE_frame)

section \<open>Properties\<close>


definition empty_heap :: queue_heap where
  "empty_heap = \<lparr>q_ptr = (\<lambda>_. None), q_back = (\<lambda>s. s)\<rparr>"

lemma empty_heap_rep: "is_tailq empty_heap h []" "is_stailq empty_heap h []" "is_list empty_heap h []" "is_slist empty_heap h []"
  by (simp_all add: rep_defs empty_heap_def)

lemma singletons:
  "is_tailq (TAILQ_INSERT_HEAD empty_heap 0 7) 0 [7]" "is_stailq (STAILQ_INSERT_HEAD empty_heap 0 7) 0 [7]"
  "is_list (LIST_INSERT_HEAD empty_heap 0 7) 0 [7]" "is_slist (SLIST_INSERT_HEAD empty_heap 0 7) 0 [7]"
  using TAILQ_INSERT_HEAD_ok [OF empty_heap_rep(1), of 7] STAILQ_INSERT_HEAD_ok [OF empty_heap_rep(2), of 7]
    LIST_INSERT_HEAD_ok [OF empty_heap_rep(3), of 7] SLIST_INSERT_HEAD_ok [OF empty_heap_rep(4), of 7] by simp_all


text \<open>
  The singly-linked and the doubly-linked lists are lists too: inserting, removing a member and
  traversing do to the list what their names say, and removal, whose loop could run off the end,
  finds every member.
\<close>

theorem lists_refine_list:
  assumes "e \<notin> set (xs @ l # ys)"
  shows "(is_list m h (xs @ l # ys) \<longrightarrow>
      is_list (LIST_INSERT_HEAD m h e) h (e # xs @ l # ys) \<and> is_list (LIST_INSERT_AFTER m l e) h (xs @ l # e # ys) \<and>
      is_list (LIST_INSERT_BEFORE m l e) h (xs @ e # l # ys) \<and> is_list (LIST_REMOVE m l) h (xs @ ys) \<and>
      LIST_FOREACH m h = Some (xs @ l # ys)) \<and>
    (is_slist m h (xs @ l # ys) \<longrightarrow>
      is_slist (SLIST_INSERT_HEAD m h e) h (e # xs @ l # ys) \<and> is_slist (SLIST_INSERT_AFTER m l e) h (xs @ l # e # ys) \<and>
      (\<exists>m'. SLIST_REMOVE m h l = Some m' \<and> is_slist m' h (xs @ ys)) \<and> SLIST_FOREACH m h = Some (xs @ l # ys)) \<and>
    is_list (LIST_INIT m h) h [] \<and> is_slist (SLIST_INIT m h) h []"
proof (intro conjI impI)
  assume q: "is_list m h (xs @ l # ys)"
  show "LIST_FOREACH m h = Some (xs @ l # ys)"
    unfolding LIST_FOREACH_def using q by (intro walk_seg [of True]) (simp_all add: rep_defs)
  show "is_list (LIST_INSERT_HEAD m h e) h (e # xs @ l # ys)" by (rule LIST_INSERT_HEAD_ok [OF q assms])
  show "is_list (LIST_INSERT_AFTER m l e) h (xs @ l # e # ys)" by (rule LIST_INSERT_AFTER_ok [OF q assms])
  show "is_list (LIST_INSERT_BEFORE m l e) h (xs @ e # l # ys)" by (rule LIST_INSERT_BEFORE_ok [OF q assms])
  show "is_list (LIST_REMOVE m l) h (xs @ ys)" by (rule LIST_REMOVE_ok [OF q])
next
  assume q: "is_slist m h (xs @ l # ys)"
  show "SLIST_FOREACH m h = Some (xs @ l # ys)"
    unfolding SLIST_FOREACH_def using q by (intro walk_seg [of False]) (simp_all add: rep_defs)
  show "is_slist (SLIST_INSERT_HEAD m h e) h (e # xs @ l # ys)" by (rule SLIST_INSERT_HEAD_ok [OF q assms])
  show "is_slist (SLIST_INSERT_AFTER m l e) h (xs @ l # e # ys)" by (rule SLIST_INSERT_AFTER_ok [OF q assms])
  show "\<exists>m'. SLIST_REMOVE m h l = Some m' \<and> is_slist m' h (xs @ ys)" by (rule SLIST_REMOVE_ok [OF q])
qed (simp_all add: rep_defs LIST_INIT_def SLIST_INIT_def)

theorem lists_refine_list_witness:
  "LIST_FOREACH (LIST_INSERT_HEAD empty_heap 0 7) 0 = Some [7] \<and>
   is_list (LIST_INSERT_AFTER (LIST_INSERT_HEAD empty_heap 0 7) 7 3) 0 [7, 3]"
  using lists_refine_list [of 3 "[]" 7 "[]" "LIST_INSERT_HEAD empty_heap 0 7" 0] singletons(3) by simp

text \<open>
  Queues keep their tail: a singly-linked tail queue behaves as the list it stands for under all its
  operations, also when the last element is removed and when two queues are joined; the operations
  named for simple queues are the same operations.
\<close>

theorem stailq_refines_list:
  assumes "is_stailq m h (xs @ l # ys)" and "e \<notin> set (xs @ l # ys)"
    and "is_stailq m g zs" "g \<noteq> h" "set (xs @ l # ys) \<inter> set zs = {}"
  shows "is_stailq (STAILQ_INSERT_HEAD m h e) h (e # xs @ l # ys) \<and> is_stailq (STAILQ_INSERT_TAIL m h e) h (xs @ l # ys @ [e]) \<and>
    is_stailq (STAILQ_INSERT_AFTER m h l e) h (xs @ l # e # ys) \<and>
    (\<exists>m'. STAILQ_REMOVE m h l = Some m' \<and> is_stailq m' h (xs @ ys)) \<and>
    is_stailq (STAILQ_CONCAT m h g) h (xs @ l # ys @ zs) \<and> is_stailq (STAILQ_CONCAT m h g) g [] \<and>
    STAILQ_FOREACH m h = Some (xs @ l # ys) \<and>
    SIMPLEQ_INSERT_HEAD m h e = STAILQ_INSERT_HEAD m h e \<and> SIMPLEQ_INSERT_TAIL m h e = STAILQ_INSERT_TAIL m h e \<and>
    SIMPLEQ_INSERT_AFTER m h l e = STAILQ_INSERT_AFTER m h l e \<and> SIMPLEQ_REMOVE m h l = STAILQ_REMOVE m h l \<and>
    SIMPLEQ_INIT m h = STAILQ_INIT m h \<and> SIMPLEQ_FOREACH m h = STAILQ_FOREACH m h"
proof -
  have "SIMPLEQ_INSERT_HEAD m h e = STAILQ_INSERT_HEAD m h e \<and> SIMPLEQ_INSERT_TAIL m h e = STAILQ_INSERT_TAIL m h e \<and>
    SIMPLEQ_INSERT_AFTER m h l e = STAILQ_INSERT_AFTER m h l e \<and> SIMPLEQ_REMOVE m h l = STAILQ_REMOVE m h l \<and>
    SIMPLEQ_INIT m h = STAILQ_INIT m h \<and> SIMPLEQ_FOREACH m h = STAILQ_FOREACH m h"
    by (simp add: SIMPLEQ_INSERT_HEAD_def STAILQ_INSERT_HEAD_def SIMPLEQ_INSERT_TAIL_def STAILQ_INSERT_TAIL_def
      SIMPLEQ_INSERT_AFTER_def STAILQ_INSERT_AFTER_def SIMPLEQ_REMOVE_def STAILQ_REMOVE_def SIMPLEQ_REMOVE_HEAD_def
      STAILQ_REMOVE_HEAD_def SIMPLEQ_INIT_def STAILQ_INIT_def SIMPLEQ_FOREACH_def STAILQ_FOREACH_def)
  moreover have "STAILQ_FOREACH m h = Some (xs @ l # ys)"
    unfolding STAILQ_FOREACH_def using assms(1) by (intro walk_seg [of False]) (simp_all add: rep_defs)
  ultimately show ?thesis
    using STAILQ_INSERT_HEAD_ok [OF assms(1,2)] STAILQ_INSERT_TAIL_ok [OF assms(1,2)] STAILQ_INSERT_AFTER_ok [OF assms(1,2)]
      STAILQ_REMOVE_ok [OF assms(1)] STAILQ_CONCAT_ok [OF assms(1,3) assms(4) [symmetric] assms(5)] by simp
qed

lemma sample_stailqs:
  "is_stailq (STAILQ_INSERT_HEAD empty_heap 0 7) 1 []"
  by (simp add: STAILQ_INSERT_HEAD_def rep_defs empty_heap_def)

theorem stailq_refines_list_witness:
  "is_stailq (STAILQ_INSERT_TAIL (STAILQ_INSERT_HEAD empty_heap 0 7) 0 3) 0 [7, 3] \<and>
   (\<exists>m'. STAILQ_REMOVE (STAILQ_INSERT_HEAD empty_heap 0 7) 0 7 = Some m' \<and> is_stailq m' 0 [])"
  using stailq_refines_list [of "STAILQ_INSERT_HEAD empty_heap 0 7" 0 "[]" 7 "[]" 3 1 "[]"] singletons(2) sample_stailqs
  by simp

text \<open>
  Moving an element between two tail queues affects nothing else: it leaves the source without it, in
  unchanged order, and the target with it in front.
\<close>

theorem tailq_move:
  assumes "is_tailq m h xs" and "is_tailq m g zs" and "g \<noteq> h" and "set xs \<inter> set zs = {}" and "e \<in> set xs"
  shows "is_tailq (TAILQ_INSERT_HEAD (TAILQ_REMOVE m h e) g e) g (e # zs) \<and>
    is_tailq (TAILQ_INSERT_HEAD (TAILQ_REMOVE m h e) g e) h (remove1 e xs)"
  by (rule tailq.move [OF assms])

theorem tailq_move_witness:
  "is_tailq (TAILQ_INSERT_HEAD (TAILQ_REMOVE (TAILQ_INSERT_HEAD empty_heap 0 7) 0 7) 1 7) 1 [7]"
  using tailq_move [OF singletons(1) TAILQ_INSERT_HEAD_frame [OF empty_heap_rep(1) empty_heap_rep(1)], of 1 7] by simp

end
