(* ===== verification/Queue_Circular.thy ===== *)
theory Queue_Circular
  imports Main
begin

text \<open>
  The circular queues of \<open>sys/queue.h\<close>. A pointer is the address of a head, cast to an element pointer, or
  of an element; a head and the link field of an element are both a pair of a forward and a backward
  pointer (\<open>cqh_first\<close> and \<open>cqh_last\<close>, or \<open>cqe_next\<close> and \<open>cqe_prev\<close>). Every macro is one definition; a
  traversal that never comes back to its head returns \<open>None\<close>.
\<close>

datatype cptr = QHead nat | Elem nat

record circle_heap =
  cq_next :: "cptr \<Rightarrow> cptr"
  cq_prev :: "cptr \<Rightarrow> cptr"

definition set_next :: "circle_heap \<Rightarrow> cptr \<Rightarrow> cptr \<Rightarrow> circle_heap" where
  "set_next m p v = m\<lparr>cq_next := (cq_next m)(p := v)\<rparr>"

definition set_prev :: "circle_heap \<Rightarrow> cptr \<Rightarrow> cptr \<Rightarrow> circle_heap" where
  "set_prev m p v = m\<lparr>cq_prev := (cq_prev m)(p := v)\<rparr>"

definition CIRCLEQ_HEAD_INITIALIZER :: "nat \<Rightarrow> cptr \<times> cptr" where
  "CIRCLEQ_HEAD_INITIALIZER head = (QHead head, QHead head)"

definition CIRCLEQ_INIT :: "circle_heap \<Rightarrow> nat \<Rightarrow> circle_heap" where
  "CIRCLEQ_INIT m head =
    (let m = set_next m (QHead head) (QHead head);
         m = set_prev m (QHead head) (QHead head)
     in m)"

definition CIRCLEQ_INSERT_AFTER :: "circle_heap \<Rightarrow> nat \<Rightarrow> nat \<Rightarrow> nat \<Rightarrow> circle_heap" where
  "CIRCLEQ_INSERT_AFTER m head listelm elm =
    (let m = set_next m (Elem elm) (cq_next m (Elem listelm));
         m = set_prev m (Elem elm) (Elem listelm);
         m = (if cq_next m (Elem listelm) = QHead head then set_prev m (QHead head) (Elem elm)
              else set_prev m (cq_next m (Elem listelm)) (Elem elm));
         m = set_next m (Elem listelm) (Elem elm)
     in m)"

definition CIRCLEQ_INSERT_BEFORE :: "circle_heap \<Rightarrow> nat \<Rightarrow> nat \<Rightarrow> nat \<Rightarrow> circle_heap" where
  "CIRCLEQ_INSERT_BEFORE m head listelm elm =
    (let m = set_next m (Elem elm) (Elem listelm);
         m = set_prev m (Elem elm) (cq_prev m (Elem listelm));
         m = (if cq_prev m (Elem listelm) = QHead head then set_next m (QHead head) (Elem elm)
              else set_next m (cq_prev m (Elem listelm)) (Elem elm));
         m = set_prev m (Elem listelm) (Elem elm)
     in m)"

definition CIRCLEQ_INSERT_HEAD :: "circle_heap \<Rightarrow> nat \<Rightarrow> nat \<Rightarrow> circle_heap" where
  "CIRCLEQ_INSERT_HEAD m head elm =
    (let m = set_next m (Elem elm) (cq_next m (QHead head));
         m = set_prev m (Elem elm) (QHead head);
         m = (if cq_prev m (QHead head) = QHead head then set_prev m (QHead head) (Elem elm)
              else set_prev m (cq_next m (QHead head)) (Elem elm));
         m = set_next m (QHead head) (Elem elm)
     in m)"

definition CIRCLEQ_INSERT_TAIL :: "circle_heap \<Rightarrow> nat \<Rightarrow> nat \<Rightarrow> circle_heap" where
  "CIRCLEQ_INSERT_TAIL m head elm =
    (let m = set_next m (Elem elm) (QHead head);
         m = set_prev m (Elem elm) (cq_prev m (QHead head));
         m = (if cq_next m (QHead head) = QHead head then set_next m (QHead head) (Elem elm)
              else set_next m (cq_prev m (QHead head)) (Elem elm));
         m = set_prev m (QHead head) (Elem elm)
     in m)"

definition CIRCLEQ_REMOVE :: "circle_heap \<Rightarrow> nat \<Rightarrow> nat \<Rightarrow> circle_heap" where
  "CIRCLEQ_REMOVE m head elm =
    (let m = (if cq_next m (Elem elm) = QHead head then set_prev m (QHead head) (cq_prev m (Elem elm))
              else set_prev m (cq_next m (Elem elm)) (cq_prev m (Elem elm)));
         m = (if cq_prev m (Elem elm) = QHead head then set_next m (QHead head) (cq_next m (Elem elm))
              else set_next m (cq_prev m (Elem elm)) (cq_next m (Elem elm)))
     in m)"

text \<open>The loops \<open>for (var = first; var != head; var = next)\<close>; meeting another head would be a type error.\<close>

partial_function (option) CIRCLEQ_FOREACH :: "circle_heap \<Rightarrow> nat \<Rightarrow> cptr \<Rightarrow> nat list option" where
  "CIRCLEQ_FOREACH m head var = (if var = QHead head then Some []
    else case var of QHead _ \<Rightarrow> None
    | Elem x \<Rightarrow> Option.bind (CIRCLEQ_FOREACH m head (cq_next m (Elem x))) (\<lambda>xs. Some (x # xs)))"

partial_function (option) CIRCLEQ_FOREACH_REVERSE :: "circle_heap \<Rightarrow> nat \<Rightarrow> cptr \<Rightarrow> nat list option" where
  "CIRCLEQ_FOREACH_REVERSE m head var = (if var = QHead head then Some []
    else case var of QHead _ \<Rightarrow> None
    | Elem x \<Rightarrow> Option.bind (CIRCLEQ_FOREACH_REVERSE m head (cq_prev m (Elem x))) (\<lambda>xs. Some (x # xs)))"

definition CIRCLEQ_EMPTY :: "circle_heap \<Rightarrow> nat \<Rightarrow> bool" where
  "CIRCLEQ_EMPTY m head \<longleftrightarrow> cq_next m (QHead head) = QHead head"

definition CIRCLEQ_FIRST :: "circle_heap \<Rightarrow> nat \<Rightarrow> cptr" where
  "CIRCLEQ_FIRST m head = cq_next m (QHead head)"

definition CIRCLEQ_LAST :: "circle_heap \<Rightarrow> nat \<Rightarrow> cptr" where
  "CIRCLEQ_LAST m head = cq_prev m (QHead head)"

definition CIRCLEQ_NEXT :: "circle_heap \<Rightarrow> nat \<Rightarrow> cptr" where
  "CIRCLEQ_NEXT m elm = cq_next m (Elem elm)"

definition CIRCLEQ_PREV :: "circle_heap \<Rightarrow> nat \<Rightarrow> cptr" where
  "CIRCLEQ_PREV m elm = cq_prev m (Elem elm)"

definition CIRCLEQ_LOOP_NEXT :: "circle_heap \<Rightarrow> nat \<Rightarrow> nat \<Rightarrow> cptr" where
  "CIRCLEQ_LOOP_NEXT m head elm =
    (if cq_next m (Elem elm) = QHead head then cq_next m (QHead head) else cq_next m (Elem elm))"

definition CIRCLEQ_LOOP_PREV :: "circle_heap \<Rightarrow> nat \<Rightarrow> nat \<Rightarrow> cptr" where
  "CIRCLEQ_LOOP_PREV m head elm =
    (if cq_prev m (Elem elm) = QHead head then cq_prev m (QHead head) else cq_prev m (Elem elm))"

section \<open>Rings\<close>

text \<open>\<open>links m a xs b\<close>: from \<open>a\<close> through the elements \<open>xs\<close> to \<open>b\<close>, with every step linked both ways.\<close>

fun links :: "circle_heap \<Rightarrow> cptr \<Rightarrow> nat list \<Rightarrow> cptr \<Rightarrow> bool" where
  "links m a [] b \<longleftrightarrow> cq_next m a = b \<and> cq_prev m b = a"
| "links m a (x # xs) b \<longleftrightarrow> cq_next m a = Elem x \<and> cq_prev m (Elem x) = a \<and> links m (Elem x) xs b"

definition is_circleq :: "circle_heap \<Rightarrow> nat \<Rightarrow> nat list \<Rightarrow> bool" where
  "is_circleq m h xs \<longleftrightarrow> distinct xs \<and> links m (QHead h) xs (QHead h)"

lemma circle_simps [simp]:
  "cq_next (set_next m p v) = (cq_next m)(p := v)" "cq_prev (set_next m p v) = cq_prev m"
  "cq_next (set_prev m p v) = cq_next m" "cq_prev (set_prev m p v) = (cq_prev m)(p := v)"
  by (simp_all add: set_next_def set_prev_def)

lemma links_append [simp]: "links m a (xs @ x # ys) b \<longleftrightarrow> links m a xs (Elem x) \<and> links m (Elem x) ys b"
  by (induction xs arbitrary: a) auto

lemma links_last: "links m (Elem a) xs b \<Longrightarrow> cq_prev m b = Elem (last (a # xs))"
  by (induction xs arbitrary: a) auto

lemma links_next: "links m a xs b \<Longrightarrow> cq_next m a = (if xs = [] then b else Elem (hd xs))"
  by (cases xs) auto

lemma links_prev: "links m a xs b \<Longrightarrow> cq_prev m b = (if xs = [] then a else Elem (last xs))"
  by (cases xs) (auto dest: links_last)

lemma cptr_image [simp]: "Elem x \<in> Elem ` A \<longleftrightarrow> x \<in> A" "QHead h \<notin> Elem ` A"
  by auto

lemma links_set_next [simp]: "t \<noteq> a \<Longrightarrow> t \<notin> Elem ` set xs \<Longrightarrow> links (set_next m t v) a xs b = links m a xs b"
  by (induction xs arbitrary: a) auto

lemma links_set_prev [simp]: "t \<noteq> b \<Longrightarrow> t \<notin> Elem ` set xs \<Longrightarrow> links (set_prev m t v) a xs b = links m a xs b"
  by (induction xs arbitrary: a) auto

lemmas circle_defs = is_circleq_def Let_def

subsection \<open>Operations\<close>

lemma CIRCLEQ_INSERT_HEAD_ok: "is_circleq m h xs \<Longrightarrow> e \<notin> set xs \<Longrightarrow> is_circleq (CIRCLEQ_INSERT_HEAD m h e) h (e # xs)"
  by (cases xs) (auto simp: circle_defs CIRCLEQ_INSERT_HEAD_def dest: links_last)

lemma CIRCLEQ_INSERT_TAIL_ok: "is_circleq m h xs \<Longrightarrow> e \<notin> set xs \<Longrightarrow> is_circleq (CIRCLEQ_INSERT_TAIL m h e) h (xs @ [e])"
  by (cases xs rule: rev_cases) (auto simp: circle_defs CIRCLEQ_INSERT_TAIL_def links_next split: if_splits)

lemma CIRCLEQ_INSERT_AFTER_ok:
  "is_circleq m h (xs @ l # ys) \<Longrightarrow> e \<notin> set (xs @ l # ys) \<Longrightarrow> is_circleq (CIRCLEQ_INSERT_AFTER m h l e) h (xs @ l # e # ys)"
  by (cases ys) (auto simp: circle_defs CIRCLEQ_INSERT_AFTER_def)

lemma CIRCLEQ_INSERT_BEFORE_ok:
  "is_circleq m h (xs @ l # ys) \<Longrightarrow> e \<notin> set (xs @ l # ys) \<Longrightarrow> is_circleq (CIRCLEQ_INSERT_BEFORE m h l e) h (xs @ e # l # ys)"
  by (cases xs rule: rev_cases) (auto simp: circle_defs CIRCLEQ_INSERT_BEFORE_def)

lemma CIRCLEQ_REMOVE_ok: "is_circleq m h (xs @ e # ys) \<Longrightarrow> is_circleq (CIRCLEQ_REMOVE m h e) h (xs @ ys)"
  by (cases xs rule: rev_cases; cases ys) (auto simp: circle_defs CIRCLEQ_REMOVE_def)

lemma CIRCLEQ_FOREACH_ok: "links m a xs (QHead h) \<Longrightarrow> CIRCLEQ_FOREACH m h (cq_next m a) = Some xs"
  by (induction xs arbitrary: a) (simp_all add: CIRCLEQ_FOREACH.simps)

lemma CIRCLEQ_FOREACH_REVERSE_ok: "links m (QHead h) xs b \<Longrightarrow> CIRCLEQ_FOREACH_REVERSE m h (cq_prev m b) = Some (rev xs)"
  by (induction xs arbitrary: b rule: rev_induct) (simp_all add: CIRCLEQ_FOREACH_REVERSE.simps)

text \<open>
  Circular queues are lists that close: every operation does to the list of elements what its name
  says, both traversals come back to the head after visiting it in order and in reverse order, and
  the looping accessors continue at the other end.
\<close>

theorem circleq_refines_list:
  assumes "is_circleq m h (xs @ l # ys)" and "e \<notin> set (xs @ l # ys)"
  shows "is_circleq (CIRCLEQ_INIT m g) g [] \<and> is_circleq (CIRCLEQ_INSERT_HEAD m h e) h (e # xs @ l # ys) \<and>
    is_circleq (CIRCLEQ_INSERT_TAIL m h e) h (xs @ l # ys @ [e]) \<and>
    is_circleq (CIRCLEQ_INSERT_AFTER m h l e) h (xs @ l # e # ys) \<and>
    is_circleq (CIRCLEQ_INSERT_BEFORE m h l e) h (xs @ e # l # ys) \<and> is_circleq (CIRCLEQ_REMOVE m h l) h (xs @ ys) \<and>
    CIRCLEQ_FOREACH m h (CIRCLEQ_FIRST m h) = Some (xs @ l # ys) \<and>
    CIRCLEQ_FOREACH_REVERSE m h (CIRCLEQ_LAST m h) = Some (rev (xs @ l # ys)) \<and> \<not> CIRCLEQ_EMPTY m h \<and>
    CIRCLEQ_LOOP_NEXT m h l = Elem (hd (ys @ xs @ [l])) \<and> CIRCLEQ_LOOP_PREV m h l = Elem (last (l # ys @ xs))"
proof -
  have q: "links m (QHead h) xs (Elem l)" "links m (Elem l) ys (QHead h)" "links m (QHead h) (xs @ l # ys) (QHead h)"
    using assms(1) by (simp_all add: is_circleq_def)
  have "is_circleq (CIRCLEQ_INIT m g) g []" by (simp add: circle_defs CIRCLEQ_INIT_def)
  moreover have "CIRCLEQ_FOREACH m h (CIRCLEQ_FIRST m h) = Some (xs @ l # ys)"
    using CIRCLEQ_FOREACH_ok [OF q(3)] by (simp add: CIRCLEQ_FIRST_def)
  moreover have "CIRCLEQ_FOREACH_REVERSE m h (CIRCLEQ_LAST m h) = Some (rev (xs @ l # ys))"
    using CIRCLEQ_FOREACH_REVERSE_ok [OF q(3)] by (simp add: CIRCLEQ_LAST_def)
  moreover have "\<not> CIRCLEQ_EMPTY m h" using links_next [OF q(3)] by (simp add: CIRCLEQ_EMPTY_def)
  moreover have "CIRCLEQ_LOOP_NEXT m h l = Elem (hd (ys @ xs @ [l]))"
    using links_next [OF q(2)] links_next [OF q(3)] by (simp add: CIRCLEQ_LOOP_NEXT_def hd_append)
  moreover have "CIRCLEQ_LOOP_PREV m h l = Elem (last (l # ys @ xs))"
    using links_prev [OF q(1)] links_last [OF q(2)] by (simp add: CIRCLEQ_LOOP_PREV_def)
  ultimately show ?thesis
    using CIRCLEQ_INSERT_HEAD_ok [OF assms] CIRCLEQ_INSERT_TAIL_ok [OF assms] CIRCLEQ_INSERT_AFTER_ok [OF assms]
      CIRCLEQ_INSERT_BEFORE_ok [OF assms] CIRCLEQ_REMOVE_ok [OF assms(1)] by simp
qed

definition empty_ring :: circle_heap where
  "empty_ring = \<lparr>cq_next = (\<lambda>p. p), cq_prev = (\<lambda>p. p)\<rparr>"

lemma one_ring: "is_circleq (CIRCLEQ_INSERT_HEAD empty_ring 0 7) 0 [7]"
  by (rule CIRCLEQ_INSERT_HEAD_ok) (simp_all add: is_circleq_def empty_ring_def)

theorem circleq_refines_list_witness:
  "is_circleq (CIRCLEQ_INSERT_BEFORE (CIRCLEQ_INSERT_HEAD empty_ring 0 7) 0 7 3) 0 [3, 7] \<and>
   CIRCLEQ_LOOP_NEXT (CIRCLEQ_INSERT_HEAD empty_ring 0 7) 0 7 = Elem 7"
  using circleq_refines_list [of "CIRCLEQ_INSERT_HEAD empty_ring 0 7" 0 "[]" 7 "[]" 3] one_ring by simp

end
