(* ===== verification/Byte_Swap.thy ===== *)
theory Byte_Swap
  imports C_Integers
begin

unbundle bit_operations_syntax

text \<open>
  \<open>linux/swab.h\<close>, \<open>asm/swab.h\<close> and \<open>bits/byteswap.h\<close> of the sysroot: byte and half-word swapping. The
  leading underscores of the names are dropped. The macros that ask whether
  the compiler has a byte swap builtin and whether their argument is constant take the answer \<open>k\<close> as an
  argument; \<open>__fswab64\<close> takes the branch the preprocessor selects. The x86 instructions \<open>bswapl\<close> and
  \<open>bswapq\<close> and the compiler's builtins reverse the bytes of their operand; \<open>__swab\<close> takes the size of \<open>long\<close>. A pointer argument is an address in a memory of values of its type.
\<close>

section \<open>Model\<close>

text \<open>Byte \<open>k\<close> of a word, from the least significant one, and the word of four or eight bytes.\<close>

definition byte :: "nat \<Rightarrow> 'a::len word \<Rightarrow> u8" where
  "byte k x = ucast (drop_bit (8 * k) x)"

definition word4 :: "u8 \<Rightarrow> u8 \<Rightarrow> u8 \<Rightarrow> u8 \<Rightarrow> u32" where
  "word4 b0 b1 b2 b3 = ucast b0 OR push_bit 8 (ucast b1) OR push_bit 16 (ucast b2) OR push_bit 24 (ucast b3)"

definition word8 :: "u8 \<Rightarrow> u8 \<Rightarrow> u8 \<Rightarrow> u8 \<Rightarrow> u8 \<Rightarrow> u8 \<Rightarrow> u8 \<Rightarrow> u8 \<Rightarrow> u64" where
  "word8 b0 b1 b2 b3 b4 b5 b6 b7 = ucast b0 OR push_bit 8 (ucast b1) OR push_bit 16 (ucast b2) OR push_bit 24 (ucast b3) OR
    push_bit 32 (ucast b4) OR push_bit 40 (ucast b5) OR push_bit 48 (ucast b6) OR push_bit 56 (ucast b7)"

definition constant_swab16 :: "u16 \<Rightarrow> u16" where
  "constant_swab16 x = lo16 (push_bit 8 (prom (x AND 0x00ff)) OR drop_bit 8 (prom (x AND 0xff00)))"

definition constant_swab32 :: "u32 \<Rightarrow> u32" where
  "constant_swab32 x = push_bit 24 (x AND 0x000000ff) OR push_bit 8 (x AND 0x0000ff00) OR
    drop_bit 8 (x AND 0x00ff0000) OR drop_bit 24 (x AND 0xff000000)"

definition constant_swab64 :: "u64 \<Rightarrow> u64" where
  "constant_swab64 x = push_bit 56 (x AND 0x00000000000000ff) OR push_bit 40 (x AND 0x000000000000ff00) OR
    push_bit 24 (x AND 0x0000000000ff0000) OR push_bit 8 (x AND 0x00000000ff000000) OR
    drop_bit 8 (x AND 0x000000ff00000000) OR drop_bit 24 (x AND 0x0000ff0000000000) OR
    drop_bit 40 (x AND 0x00ff000000000000) OR drop_bit 56 (x AND 0xff00000000000000)"

definition constant_swahw32 :: "u32 \<Rightarrow> u32" where
  "constant_swahw32 x = push_bit 16 (x AND 0x0000ffff) OR drop_bit 16 (x AND 0xffff0000)"

definition constant_swahb32 :: "u32 \<Rightarrow> u32" where
  "constant_swahb32 x = push_bit 8 (x AND 0x00ff00ff) OR drop_bit 8 (x AND 0xff00ff00)"

text \<open>
  The x86 instructions and the compiler's builtins. On a 32-bit host \<open>__arch_swab64\<close> swaps the halves \<open>a\<close>
  (low) and \<open>b\<close> of its argument and exchanges them.
\<close>

definition bswapl :: "u32 \<Rightarrow> u32" where
  "bswapl x = word4 (byte 3 x) (byte 2 x) (byte 1 x) (byte 0 x)"

definition bswapq :: "u64 \<Rightarrow> u64" where
  "bswapq x = word8 (byte 7 x) (byte 6 x) (byte 5 x) (byte 4 x) (byte 3 x) (byte 2 x) (byte 1 x) (byte 0 x)"

definition builtin_bswap16 :: "u16 \<Rightarrow> u16" where
  "builtin_bswap16 x = lo16 (prom (byte 1 x) OR push_bit 8 (prom (byte 0 x)))"

definition builtin_bswap32 :: "u32 \<Rightarrow> u32" where
  "builtin_bswap32 x = bswapl x"

definition builtin_bswap64 :: "u64 \<Rightarrow> u64" where
  "builtin_bswap64 x = bswapq x"

datatype swab_choice = Builtin_Bswap | Constant_Argument | Run_Time_Argument

definition arch_swab32 :: "u32 \<Rightarrow> u32" where
  "arch_swab32 val = bswapl val"

definition arch_swab64 :: "bool \<Rightarrow> u64 \<Rightarrow> u64" where
  "arch_swab64 i386 val =
    (if i386 then
       let a = ucast val :: u32; b = ucast (drop_bit 32 val) :: u32;
           a' = bswapl a; b' = bswapl b;
           (a'', b'') = (b', a')
       in ucast a'' OR push_bit 32 (ucast b'')
     else bswapq val)"

definition fswab16 :: "u16 \<Rightarrow> u16" where
  "fswab16 val = constant_swab16 val"

definition fswab32 :: "u32 \<Rightarrow> u32" where
  "fswab32 val = arch_swab32 val"

datatype swab64_branch = Arch_Swab64 bool | Swab_64_Thru_32 | Constant_Swab64

definition fswab64 :: "swab64_branch \<Rightarrow> u64 \<Rightarrow> u64" where
  "fswab64 branch val = (case branch of Arch_Swab64 i386 \<Rightarrow> arch_swab64 i386 val
    | Swab_64_Thru_32 \<Rightarrow>
        (let h = ucast (drop_bit 32 val) :: u32;
             l = ucast (val AND (push_bit 32 1 - 1)) :: u32
         in push_bit 32 (ucast (fswab32 l)) OR ucast (fswab32 h))
    | Constant_Swab64 \<Rightarrow> constant_swab64 val)"

definition fswahw32 :: "u32 \<Rightarrow> u32" where
  "fswahw32 val = constant_swahw32 val"

definition fswahb32 :: "u32 \<Rightarrow> u32" where
  "fswahb32 val = constant_swahb32 val"

definition swab16 :: "swab_choice \<Rightarrow> u16 \<Rightarrow> u16" where
  "swab16 k x = (case k of Builtin_Bswap \<Rightarrow> builtin_bswap16 x | Constant_Argument \<Rightarrow> constant_swab16 x
    | Run_Time_Argument \<Rightarrow> fswab16 x)"

definition swab32 :: "swab_choice \<Rightarrow> u32 \<Rightarrow> u32" where
  "swab32 k x = (case k of Builtin_Bswap \<Rightarrow> builtin_bswap32 x | Constant_Argument \<Rightarrow> constant_swab32 x
    | Run_Time_Argument \<Rightarrow> fswab32 x)"

definition swab64 :: "swab_choice \<Rightarrow> u64 \<Rightarrow> u64" where
  "swab64 k x = (case k of Builtin_Bswap \<Rightarrow> builtin_bswap64 x | Constant_Argument \<Rightarrow> constant_swab64 x
    | Run_Time_Argument \<Rightarrow> fswab64 (Arch_Swab64 False) x)"

definition swab :: "bool \<Rightarrow> swab_choice \<Rightarrow> u64 \<Rightarrow> u64" where
  "swab long64 k y = (if long64 then swab64 k y else ucast (swab32 k (ucast y)))"

definition swahw32 :: "swab_choice \<Rightarrow> u32 \<Rightarrow> u32" where
  "swahw32 k x = (if k = Constant_Argument then constant_swahw32 x else fswahw32 x)"

definition swahb32 :: "swab_choice \<Rightarrow> u32 \<Rightarrow> u32" where
  "swahb32 k x = (if k = Constant_Argument then constant_swahb32 x else fswahb32 x)"

definition swab16p :: "swab_choice \<Rightarrow> (nat \<Rightarrow> u16) \<Rightarrow> nat \<Rightarrow> u16" where
  "swab16p k mem p = swab16 k (mem p)"

definition swab32p :: "swab_choice \<Rightarrow> (nat \<Rightarrow> u32) \<Rightarrow> nat \<Rightarrow> u32" where
  "swab32p k mem p = swab32 k (mem p)"

definition swab64p :: "swab_choice \<Rightarrow> (nat \<Rightarrow> u64) \<Rightarrow> nat \<Rightarrow> u64" where
  "swab64p k mem p = swab64 k (mem p)"

definition swahw32p :: "swab_choice \<Rightarrow> (nat \<Rightarrow> u32) \<Rightarrow> nat \<Rightarrow> u32" where
  "swahw32p k mem p = swahw32 k (mem p)"

definition swahb32p :: "swab_choice \<Rightarrow> (nat \<Rightarrow> u32) \<Rightarrow> nat \<Rightarrow> u32" where
  "swahb32p k mem p = swahb32 k (mem p)"

definition swab16s :: "swab_choice \<Rightarrow> (nat \<Rightarrow> u16) \<Rightarrow> nat \<Rightarrow> (nat \<Rightarrow> u16)" where
  "swab16s k mem p = mem(p := swab16p k mem p)"

definition swab32s :: "swab_choice \<Rightarrow> (nat \<Rightarrow> u32) \<Rightarrow> nat \<Rightarrow> (nat \<Rightarrow> u32)" where
  "swab32s k mem p = mem(p := swab32p k mem p)"

definition swab64s :: "swab_choice \<Rightarrow> (nat \<Rightarrow> u64) \<Rightarrow> nat \<Rightarrow> (nat \<Rightarrow> u64)" where
  "swab64s k mem p = mem(p := swab64p k mem p)"

definition swahw32s :: "swab_choice \<Rightarrow> (nat \<Rightarrow> u32) \<Rightarrow> nat \<Rightarrow> (nat \<Rightarrow> u32)" where
  "swahw32s k mem p = mem(p := swahw32p k mem p)"

definition swahb32s :: "swab_choice \<Rightarrow> (nat \<Rightarrow> u32) \<Rightarrow> nat \<Rightarrow> (nat \<Rightarrow> u32)" where
  "swahb32s k mem p = mem(p := swahb32p k mem p)"

text \<open>\<open>bits/byteswap.h\<close>: the constant macros, and the functions through the compiler's builtin.\<close>

definition bswap_constant_16 :: "u16 \<Rightarrow> u16" where
  "bswap_constant_16 x = lo16 ((drop_bit 8 (prom x) AND 0xff) OR push_bit 8 (prom x AND 0xff))"

definition bswap_constant_32 :: "u32 \<Rightarrow> u32" where
  "bswap_constant_32 x = drop_bit 24 (x AND 0xff000000) OR drop_bit 8 (x AND 0x00ff0000) OR
    push_bit 8 (x AND 0x0000ff00) OR push_bit 24 (x AND 0x000000ff)"

definition bswap_constant_64 :: "u64 \<Rightarrow> u64" where
  "bswap_constant_64 x = drop_bit 56 (x AND 0xff00000000000000) OR drop_bit 40 (x AND 0x00ff000000000000) OR
    drop_bit 24 (x AND 0x0000ff0000000000) OR drop_bit 8 (x AND 0x000000ff00000000) OR
    push_bit 8 (x AND 0x00000000ff000000) OR push_bit 24 (x AND 0x0000000000ff0000) OR
    push_bit 40 (x AND 0x000000000000ff00) OR push_bit 56 (x AND 0x00000000000000ff)"

definition bswap_16 :: "bool \<Rightarrow> u16 \<Rightarrow> u16" where
  "bswap_16 builtin x = (if builtin then builtin_bswap16 x else bswap_constant_16 x)"

definition bswap_32 :: "bool \<Rightarrow> u32 \<Rightarrow> u32" where
  "bswap_32 builtin x = (if builtin then builtin_bswap32 x else bswap_constant_32 x)"

definition bswap_64 :: "bool \<Rightarrow> u64 \<Rightarrow> u64" where
  "bswap_64 builtin x = (if builtin then builtin_bswap64 x else bswap_constant_64 x)"

section \<open>Bytes\<close>

lemma bit_byte: "bit (byte k x) n \<longleftrightarrow> n < 8 \<and> bit x (8 * k + n)"
  by (auto simp: byte_def bit_simps)

lemma mask_bits16: "bit (0x00ff :: u16) n \<longleftrightarrow> n < 8" "bit (0xff00 :: u16) n \<longleftrightarrow> 8 \<le> n \<and> n < 16"
proof -
  have m: "(0x00ff :: u16) = mask 8" "(0xff00 :: u16) = push_bit 8 (mask 8)" by (simp_all add: mask_numeral)
  show "bit (0x00ff :: u16) n \<longleftrightarrow> n < 8" "bit (0xff00 :: u16) n \<longleftrightarrow> 8 \<le> n \<and> n < 16"
    unfolding m by (auto simp: bit_simps)
qed

lemma mask_bits32:
  "bit (0x000000ff :: u32) n \<longleftrightarrow> n < 8" "bit (0x0000ff00 :: u32) n \<longleftrightarrow> 8 \<le> n \<and> n < 16"
  "bit (0x00ff0000 :: u32) n \<longleftrightarrow> 16 \<le> n \<and> n < 24" "bit (0xff000000 :: u32) n \<longleftrightarrow> 24 \<le> n \<and> n < 32"
  "bit (0x0000ffff :: u32) n \<longleftrightarrow> n < 16" "bit (0xffff0000 :: u32) n \<longleftrightarrow> 16 \<le> n \<and> n < 32"
proof -
  have m: "(0x000000ff :: u32) = mask 8" "(0x0000ff00 :: u32) = push_bit 8 (mask 8)"
    "(0x00ff0000 :: u32) = push_bit 16 (mask 8)" "(0xff000000 :: u32) = push_bit 24 (mask 8)"
    "(0x0000ffff :: u32) = mask 16" "(0xffff0000 :: u32) = push_bit 16 (mask 16)" by (simp_all add: mask_numeral)
  show "bit (0x000000ff :: u32) n \<longleftrightarrow> n < 8" "bit (0x0000ff00 :: u32) n \<longleftrightarrow> 8 \<le> n \<and> n < 16"
    "bit (0x00ff0000 :: u32) n \<longleftrightarrow> 16 \<le> n \<and> n < 24" "bit (0xff000000 :: u32) n \<longleftrightarrow> 24 \<le> n \<and> n < 32"
    "bit (0x0000ffff :: u32) n \<longleftrightarrow> n < 16" "bit (0xffff0000 :: u32) n \<longleftrightarrow> 16 \<le> n \<and> n < 32"
    unfolding m by (auto simp: bit_simps)
qed

lemma mask_bits32_alternating:
  "bit (0x00ff00ff :: u32) n \<longleftrightarrow> n < 8 \<or> 16 \<le> n \<and> n < 24"
  "bit (0xff00ff00 :: u32) n \<longleftrightarrow> 8 \<le> n \<and> n < 16 \<or> 24 \<le> n \<and> n < 32"
proof -
  have m: "(0x00ff00ff :: u32) = mask 8 OR push_bit 16 (mask 8)"
    "(0xff00ff00 :: u32) = push_bit 8 (mask 8) OR push_bit 24 (mask 8)" by (simp_all add: mask_numeral)
  show "bit (0x00ff00ff :: u32) n \<longleftrightarrow> n < 8 \<or> 16 \<le> n \<and> n < 24"
    "bit (0xff00ff00 :: u32) n \<longleftrightarrow> 8 \<le> n \<and> n < 16 \<or> 24 \<le> n \<and> n < 32"
    unfolding m by (auto simp: bit_simps)
qed

lemma mask_bits64:
  "bit (0x00000000000000ff :: u64) n \<longleftrightarrow> n < 8" "bit (0x000000000000ff00 :: u64) n \<longleftrightarrow> 8 \<le> n \<and> n < 16"
  "bit (0x0000000000ff0000 :: u64) n \<longleftrightarrow> 16 \<le> n \<and> n < 24" "bit (0x00000000ff000000 :: u64) n \<longleftrightarrow> 24 \<le> n \<and> n < 32"
  "bit (0x000000ff00000000 :: u64) n \<longleftrightarrow> 32 \<le> n \<and> n < 40" "bit (0x0000ff0000000000 :: u64) n \<longleftrightarrow> 40 \<le> n \<and> n < 48"
  "bit (0x00ff000000000000 :: u64) n \<longleftrightarrow> 48 \<le> n \<and> n < 56" "bit (0xff00000000000000 :: u64) n \<longleftrightarrow> 56 \<le> n \<and> n < 64"
proof -
  have m: "(0x00000000000000ff :: u64) = mask 8" "(0x000000000000ff00 :: u64) = push_bit 8 (mask 8)"
    "(0x0000000000ff0000 :: u64) = push_bit 16 (mask 8)" "(0x00000000ff000000 :: u64) = push_bit 24 (mask 8)"
    "(0x000000ff00000000 :: u64) = push_bit 32 (mask 8)" "(0x0000ff0000000000 :: u64) = push_bit 40 (mask 8)"
    "(0x00ff000000000000 :: u64) = push_bit 48 (mask 8)" "(0xff00000000000000 :: u64) = push_bit 56 (mask 8)"
    by (simp_all add: mask_numeral)
  show "bit (0x00000000000000ff :: u64) n \<longleftrightarrow> n < 8" "bit (0x000000000000ff00 :: u64) n \<longleftrightarrow> 8 \<le> n \<and> n < 16"
    "bit (0x0000000000ff0000 :: u64) n \<longleftrightarrow> 16 \<le> n \<and> n < 24" "bit (0x00000000ff000000 :: u64) n \<longleftrightarrow> 24 \<le> n \<and> n < 32"
    "bit (0x000000ff00000000 :: u64) n \<longleftrightarrow> 32 \<le> n \<and> n < 40" "bit (0x0000ff0000000000 :: u64) n \<longleftrightarrow> 40 \<le> n \<and> n < 48"
    "bit (0x00ff000000000000 :: u64) n \<longleftrightarrow> 48 \<le> n \<and> n < 56" "bit (0xff00000000000000 :: u64) n \<longleftrightarrow> 56 \<le> n \<and> n < 64"
    unfolding m by (auto simp: bit_simps)
qed

lemma word_lengths: "LENGTH(8) = 8" "LENGTH(16) = 16" "LENGTH(32) = 32" "LENGTH(64) = 64"
  by simp_all

lemmas operator_bits = bit_and_iff bit_or_iff bit_push_bit_iff bit_drop_bit_eq comp_def bit_unsigned_iff possible_bit_word word_lengths

lemma bit_constant_swab16:
  "bit (constant_swab16 x) n \<longleftrightarrow> (if n < 8 then bit x (8 + n) else n < 16 \<and> bit x (n - 8))"
  unfolding constant_swab16_def c_convert_defs operator_bits mask_bits16 by auto

lemma bit_constant_swab32:
  "bit (constant_swab32 x) n \<longleftrightarrow>
    (if n < 8 then bit x (24 + n) else if n < 16 then bit x (8 + n) else if n < 24 then bit x (n - 8)
     else n < 32 \<and> bit x (n - 24))"
  unfolding constant_swab32_def operator_bits mask_bits32 by auto

lemma bit_constant_swab64:
  "bit (constant_swab64 x) n \<longleftrightarrow>
    (if n < 8 then bit x (56 + n) else if n < 16 then bit x (40 + n) else if n < 24 then bit x (24 + n)
     else if n < 32 then bit x (8 + n) else if n < 40 then bit x (n - 8) else if n < 48 then bit x (n - 24)
     else if n < 56 then bit x (n - 40) else n < 64 \<and> bit x (n - 56))"
proof -
  consider "n < 8" | "8 \<le> n" "n < 16" | "16 \<le> n" "n < 24" | "24 \<le> n" "n < 32" | "32 \<le> n" "n < 40"
    | "40 \<le> n" "n < 48" | "48 \<le> n" "n < 56" | "56 \<le> n" "n < 64" | "64 \<le> n" by linarith
  then show ?thesis
    unfolding constant_swab64_def operator_bits mask_bits64 by cases (auto dest!: le_Suc_ex)
qed

text \<open>The position of a bit by its byte, and the words as their bytes.\<close>

lemma octet_cases:
  fixes n :: nat
  assumes "n < 64"
  obtains m where "m < 8" "n = m" | m where "m < 8" "n = 8 + m" | m where "m < 8" "n = 16 + m"
    | m where "m < 8" "n = 24 + m" | m where "m < 8" "n = 32 + m" | m where "m < 8" "n = 40 + m"
    | m where "m < 8" "n = 48 + m" | m where "m < 8" "n = 56 + m"
proof -
  consider "n < 8" | "8 \<le> n" "n < 16" | "16 \<le> n" "n < 24" | "24 \<le> n" "n < 32" | "32 \<le> n" "n < 40"
    | "40 \<le> n" "n < 48" | "48 \<le> n" "n < 56" | "56 \<le> n" using assms by linarith
  then show thesis using that assms by cases (auto dest!: le_Suc_ex)
qed

lemma bit_bswapq:
  assumes "m < 8"
  shows "bit (bswapq x) m = bit x (56 + m)" "bit (bswapq x) (8 + m) = bit x (48 + m)"
    "bit (bswapq x) (16 + m) = bit x (40 + m)" "bit (bswapq x) (24 + m) = bit x (32 + m)"
    "bit (bswapq x) (32 + m) = bit x (24 + m)" "bit (bswapq x) (40 + m) = bit x (16 + m)"
    "bit (bswapq x) (48 + m) = bit x (8 + m)" "bit (bswapq x) (56 + m) = bit x m"
  unfolding bswapq_def word8_def operator_bits bit_byte using assms by simp_all

lemma bit_bswapl:
  assumes "m < 8"
  shows "bit (bswapl x) m = bit x (24 + m)" "bit (bswapl x) (8 + m) = bit x (16 + m)"
    "bit (bswapl x) (16 + m) = bit x (8 + m)" "bit (bswapl x) (24 + m) = bit x m"
  unfolding bswapl_def word4_def operator_bits bit_byte using assms by simp_all

lemma u32_eqI:
  fixes a b :: u32
  assumes "\<And>m. m < 8 \<Longrightarrow> bit a m = bit b m" "\<And>m. m < 8 \<Longrightarrow> bit a (8 + m) = bit b (8 + m)"
    and "\<And>m. m < 8 \<Longrightarrow> bit a (16 + m) = bit b (16 + m)" "\<And>m. m < 8 \<Longrightarrow> bit a (24 + m) = bit b (24 + m)"
  shows "a = b"
proof (rule bit_word_eqI)
  fix n assume "n < LENGTH(32)"
  then have "n < 64" "n < 32" by simp_all
  then show "bit a n = bit b n" by (cases n rule: octet_cases) (simp_all add: assms)
qed

lemma u64_eqI:
  fixes a b :: u64
  assumes "\<And>m. m < 8 \<Longrightarrow> bit a m = bit b m" "\<And>m. m < 8 \<Longrightarrow> bit a (8 + m) = bit b (8 + m)"
    and "\<And>m. m < 8 \<Longrightarrow> bit a (16 + m) = bit b (16 + m)" "\<And>m. m < 8 \<Longrightarrow> bit a (24 + m) = bit b (24 + m)"
    and "\<And>m. m < 8 \<Longrightarrow> bit a (32 + m) = bit b (32 + m)" "\<And>m. m < 8 \<Longrightarrow> bit a (40 + m) = bit b (40 + m)"
    and "\<And>m. m < 8 \<Longrightarrow> bit a (48 + m) = bit b (48 + m)" "\<And>m. m < 8 \<Longrightarrow> bit a (56 + m) = bit b (56 + m)"
  shows "a = b"
proof (rule bit_word_eqI)
  fix n assume "n < LENGTH(64)"
  then have "n < 64" by simp
  then show "bit a n = bit b n" by (cases n rule: octet_cases) (simp_all add: assms)
qed

section \<open>The swapping functions\<close>

lemma constant_swab16_eq_builtin: "constant_swab16 x = builtin_bswap16 x"
  by (rule bit_word_eqI)
    (auto simp: bit_constant_swab16 builtin_bswap16_def c_convert_defs operator_bits bit_byte)

lemma constant_swab32_eq_bswapl: "constant_swab32 x = bswapl x"
  by (rule u32_eqI) (simp_all add: bit_constant_swab32 bit_bswapl)

lemma constant_swab64_eq_bswapq: "constant_swab64 x = bswapq x"
  by (rule u64_eqI) (simp_all add: bit_constant_swab64 bit_bswapq)

lemma no_bit_above_u32: "32 \<le> n \<Longrightarrow> \<not> bit (a :: u32) n"
  by (auto dest: bit_imp_le_length)

lemma halves_swab: "push_bit 32 (ucast (bswapl (ucast x))) OR ucast (bswapl (ucast (drop_bit 32 x))) = bswapq (x :: u64)"
  by (rule u64_eqI; unfold operator_bits; simp add: bit_bswapq bit_bswapl operator_bits no_bit_above_u32)

lemma low_half_mask: "ucast (x AND 0xffffffff) = (ucast (x :: u64) :: u32)"
proof -
  have m: "0xffffffff = (mask 32 :: u64)" by (simp add: mask_numeral)
  show ?thesis unfolding m by (rule bit_word_eqI) (simp add: bit_simps)
qed

lemma arch_swab64_eq: "arch_swab64 i386 x = bswapq x"
  by (cases i386) (simp_all add: arch_swab64_def halves_swab or.commute Let_def)

lemma fswab64_eq: "fswab64 branch x = bswapq x"
  by (cases branch)
    (simp_all add: fswab64_def arch_swab64_eq fswab32_def arch_swab32_def low_half_mask halves_swab Let_def
      constant_swab64_eq_bswapq)

lemma bswapl_bswapl [simp]: "bswapl (bswapl x) = x"
  by (rule u32_eqI) (simp_all add: bit_bswapl)

lemma bswapq_bswapq [simp]: "bswapq (bswapq x) = x"
  by (rule u64_eqI) (simp_all add: bit_bswapq)

lemma builtin_bswap16_twice [simp]: "builtin_bswap16 (builtin_bswap16 x) = x"
  unfolding constant_swab16_eq_builtin [symmetric] by (rule bit_word_eqI) (auto simp: bit_constant_swab16)

lemma swab_eq [simp]: "swab16 k x = builtin_bswap16 x" "swab32 k y = bswapl y" "swab64 k z = bswapq z"
  by (cases k; simp add: swab16_def swab32_def swab64_def fswab16_def fswab32_def arch_swab32_def
      constant_swab16_eq_builtin constant_swab32_eq_bswapl constant_swab64_eq_bswapq fswab64_eq
      builtin_bswap32_def builtin_bswap64_def)+

lemma bswap_eq [simp]: "bswap_16 builtin x = builtin_bswap16 x" "bswap_32 builtin y = bswapl y"
    "bswap_64 builtin z = bswapq z"
proof -
  have "bswap_constant_16 x = builtin_bswap16 x"
    unfolding constant_swab16_eq_builtin [symmetric]
    by (rule bit_word_eqI) (auto simp: bit_constant_swab16 bswap_constant_16_def c_convert_defs c_masks bit_simps)
  moreover have "bswap_constant_32 y = constant_swab32 y" "bswap_constant_64 z = constant_swab64 z"
    by (simp_all add: bswap_constant_32_def bswap_constant_64_def constant_swab32_def constant_swab64_def ac_simps)
  ultimately show "bswap_16 builtin x = builtin_bswap16 x" "bswap_32 builtin y = bswapl y" "bswap_64 builtin z = bswapq z"
    by (simp_all add: bswap_16_def bswap_32_def bswap_64_def builtin_bswap32_def builtin_bswap64_def
        constant_swab32_eq_bswapl constant_swab64_eq_bswapq)
qed

lemma bit_swahw32:
  assumes "m < 8"
  shows "bit (constant_swahw32 x) m = bit x (16 + m)" "bit (constant_swahw32 x) (8 + m) = bit x (24 + m)"
    "bit (constant_swahw32 x) (16 + m) = bit x m" "bit (constant_swahw32 x) (24 + m) = bit x (8 + m)"
  unfolding constant_swahw32_def operator_bits mask_bits32 using assms by simp_all

lemma bit_swahb32:
  assumes "m < 8"
  shows "bit (constant_swahb32 x) m = bit x (8 + m)" "bit (constant_swahb32 x) (8 + m) = bit x m"
    "bit (constant_swahb32 x) (16 + m) = bit x (24 + m)" "bit (constant_swahb32 x) (24 + m) = bit x (16 + m)"
  unfolding constant_swahb32_def operator_bits mask_bits32_alternating using assms by simp_all

lemma swah_eq [simp]: "swahw32 k x = constant_swahw32 x" "swahb32 k x = constant_swahb32 x"
  by (simp_all add: swahw32_def swahb32_def fswahw32_def fswahb32_def)

lemma swah_twice [simp]:
  "constant_swahw32 (constant_swahw32 x) = x" "constant_swahb32 (constant_swahb32 x) = x"
  by (rule u32_eqI; simp add: bit_swahw32 bit_swahb32)+

lemma byte_eqI:
  assumes "\<And>m. m < 8 \<Longrightarrow> bit a (8 * i + m) = bit b (8 * j + m)"
  shows "byte i a = byte j b"
  by (rule bit_word_eqI) (simp add: bit_byte assms)

lemma byte_bswap16: "byte 0 (builtin_bswap16 x) = byte 1 x" "byte 1 (builtin_bswap16 x) = byte 0 x"
  unfolding constant_swab16_eq_builtin [symmetric] by (rule byte_eqI; simp add: bit_constant_swab16)+

lemma byte_bswapl: "byte 0 (bswapl x) = byte 3 x" "byte 1 (bswapl x) = byte 2 x"
    "byte 2 (bswapl x) = byte 1 x" "byte 3 (bswapl x) = byte 0 x"
  by (rule byte_eqI; simp add: bit_bswapl)+

lemma byte_bswapq: "byte 0 (bswapq x) = byte 7 x" "byte 1 (bswapq x) = byte 6 x"
    "byte 2 (bswapq x) = byte 5 x" "byte 3 (bswapq x) = byte 4 x" "byte 4 (bswapq x) = byte 3 x"
    "byte 5 (bswapq x) = byte 2 x" "byte 6 (bswapq x) = byte 1 x" "byte 7 (bswapq x) = byte 0 x"
  by (rule byte_eqI; simp add: bit_bswapq)+

lemma byte_swah: "byte 0 (constant_swahw32 x) = byte 2 x" "byte 1 (constant_swahw32 x) = byte 3 x"
    "byte 2 (constant_swahw32 x) = byte 0 x" "byte 3 (constant_swahw32 x) = byte 1 x"
    "byte 0 (constant_swahb32 x) = byte 1 x" "byte 1 (constant_swahb32 x) = byte 0 x"
    "byte 2 (constant_swahb32 x) = byte 3 x" "byte 3 (constant_swahb32 x) = byte 2 x"
  by (rule byte_eqI; simp add: bit_swahw32 bit_swahb32)+

section \<open>Properties\<close>

text \<open>
  Every way the headers swap the bytes of a value is the same function, the one that reverses the
  list of its bytes: the constant macro, the x86 instruction and the compiler's builtin behind
  \<open>__swab16\<close>, \<open>__swab32\<close> and \<open>__swab64\<close>, the three bodies of \<open>__fswab64\<close> (on 32-bit hosts too), and the
  \<open>__bswap\<close> functions with or without the builtin. \<open>__swahw32\<close> exchanges the 16-bit halves and \<open>__swahb32\<close>
  the bytes within each.
\<close>

theorem swab_reverses_bytes:
  "map (\<lambda>i. byte i (swab16 k x)) [0, 1] = rev (map (\<lambda>i. byte i x) [0, 1]) \<and>
   map (\<lambda>i. byte i (swab32 k y)) [0, 1, 2, 3] = rev (map (\<lambda>i. byte i y) [0, 1, 2, 3]) \<and>
   map (\<lambda>i. byte i (swab64 k z)) [0, 1, 2, 3, 4, 5, 6, 7] = rev (map (\<lambda>i. byte i z) [0, 1, 2, 3, 4, 5, 6, 7]) \<and>
   fswab64 branch z = swab64 k z \<and> swab True k z = swab64 k' z \<and>
   bswap_16 builtin x = swab16 k x \<and> bswap_32 builtin y = swab32 k y \<and> bswap_64 builtin z = swab64 k z \<and>
   map (\<lambda>i. byte i (swahw32 k y)) [0, 1, 2, 3] = map (\<lambda>i. byte i y) [2, 3, 0, 1] \<and>
   map (\<lambda>i. byte i (swahb32 k y)) [0, 1, 2, 3] = map (\<lambda>i. byte i y) [1, 0, 3, 2]"
  by (simp add: byte_bswap16 byte_bswapl byte_bswapq byte_swah fswab64_eq swab_def One_nat_def [symmetric]
      del: One_nat_def)

text \<open>
  The in-place variants change only the word at their address, and applying one twice, through any
  of its implementations, restores the memory.
\<close>

theorem swab_in_place_round_trip:
  "swab16s k' (swab16s k m16 p) p = m16 \<and> swab32s k' (swab32s k m32 p) p = m32 \<and>
   swab64s k' (swab64s k m64 p) p = m64 \<and> swahw32s k' (swahw32s k m32 p) p = m32 \<and>
   swahb32s k' (swahb32s k m32 p) p = m32 \<and> swab64s k m64 p = m64(p := swab64p k' m64 p) \<and>
   swab32 k' (swab32 k x) = x \<and> swahb32 k (swahw32 k x) = swab32 k x"
proof -
  have "constant_swahb32 (constant_swahw32 x) = bswapl x"
    by (rule u32_eqI) (simp_all add: bit_swahw32 bit_swahb32 bit_bswapl)
  then show ?thesis
    by (simp add: swab16s_def swab32s_def swab64s_def swahw32s_def swahb32s_def swab16p_def swab32p_def swab64p_def
        swahw32p_def swahb32p_def)
qed

end
