(* ===== verification/Byte_Order.thy ===== *)
theory Byte_Order
  imports Byte_Swap
begin

text \<open>
  \<open>linux/byteorder/little_endian.h\<close> and \<open>linux/byteorder/big_endian.h\<close> of the sysroot: the conversions between
  the host's byte order and a fixed one, by value (the constant macros and the ones that pick the
  fastest swap), from a pointer and in place. A definition carries the prefix of its header, LE or BE,
  since the two headers define the same names; casts between \<open>__u32\<close>, \<open>__le32\<close> and \<open>__be32\<close> do not change
  the value. The host's own layout of a word in memory is \<open>le_bytes\<close> or \<open>be_bytes\<close>.
\<close>

section \<open>Layouts\<close>

definition le_bytes :: "nat \<Rightarrow> 'a::len word \<Rightarrow> u8 list" where
  "le_bytes n x = map (\<lambda>i. byte i x) [0..<n]"

definition be_bytes :: "nat \<Rightarrow> 'a::len word \<Rightarrow> u8 list" where
  "be_bytes n x = rev (le_bytes n x)"

section \<open>Little-endian hosts: \<open>linux/byteorder/little_endian.h\<close>\<close>

definition LE_constant_htonl :: "u32 \<Rightarrow> u32" where
  "LE_constant_htonl x = constant_swab32 x"

definition LE_constant_ntohl :: "u32 \<Rightarrow> u32" where
  "LE_constant_ntohl x = constant_swab32 x"

definition LE_constant_htons :: "u16 \<Rightarrow> u16" where
  "LE_constant_htons x = constant_swab16 x"

definition LE_constant_ntohs :: "u16 \<Rightarrow> u16" where
  "LE_constant_ntohs x = constant_swab16 x"

definition LE_constant_cpu_to_le64 :: "u64 \<Rightarrow> u64" where
  "LE_constant_cpu_to_le64 x = x"

definition LE_constant_le64_to_cpu :: "u64 \<Rightarrow> u64" where
  "LE_constant_le64_to_cpu x = x"

definition LE_constant_cpu_to_le32 :: "u32 \<Rightarrow> u32" where
  "LE_constant_cpu_to_le32 x = x"

definition LE_constant_le32_to_cpu :: "u32 \<Rightarrow> u32" where
  "LE_constant_le32_to_cpu x = x"

definition LE_constant_cpu_to_le16 :: "u16 \<Rightarrow> u16" where
  "LE_constant_cpu_to_le16 x = x"

definition LE_constant_le16_to_cpu :: "u16 \<Rightarrow> u16" where
  "LE_constant_le16_to_cpu x = x"

definition LE_constant_cpu_to_be64 :: "u64 \<Rightarrow> u64" where
  "LE_constant_cpu_to_be64 x = constant_swab64 x"

definition LE_constant_be64_to_cpu :: "u64 \<Rightarrow> u64" where
  "LE_constant_be64_to_cpu x = constant_swab64 x"

definition LE_constant_cpu_to_be32 :: "u32 \<Rightarrow> u32" where
  "LE_constant_cpu_to_be32 x = constant_swab32 x"

definition LE_constant_be32_to_cpu :: "u32 \<Rightarrow> u32" where
  "LE_constant_be32_to_cpu x = constant_swab32 x"

definition LE_constant_cpu_to_be16 :: "u16 \<Rightarrow> u16" where
  "LE_constant_cpu_to_be16 x = constant_swab16 x"

definition LE_constant_be16_to_cpu :: "u16 \<Rightarrow> u16" where
  "LE_constant_be16_to_cpu x = constant_swab16 x"

definition LE_cpu_to_le64 :: "swab_choice \<Rightarrow> u64 \<Rightarrow> u64" where
  "LE_cpu_to_le64 k x = x"

definition LE_le64_to_cpu :: "swab_choice \<Rightarrow> u64 \<Rightarrow> u64" where
  "LE_le64_to_cpu k x = x"

definition LE_cpu_to_le32 :: "swab_choice \<Rightarrow> u32 \<Rightarrow> u32" where
  "LE_cpu_to_le32 k x = x"

definition LE_le32_to_cpu :: "swab_choice \<Rightarrow> u32 \<Rightarrow> u32" where
  "LE_le32_to_cpu k x = x"

definition LE_cpu_to_le16 :: "swab_choice \<Rightarrow> u16 \<Rightarrow> u16" where
  "LE_cpu_to_le16 k x = x"

definition LE_le16_to_cpu :: "swab_choice \<Rightarrow> u16 \<Rightarrow> u16" where
  "LE_le16_to_cpu k x = x"

definition LE_cpu_to_be64 :: "swab_choice \<Rightarrow> u64 \<Rightarrow> u64" where
  "LE_cpu_to_be64 k x = swab64 k x"

definition LE_be64_to_cpu :: "swab_choice \<Rightarrow> u64 \<Rightarrow> u64" where
  "LE_be64_to_cpu k x = swab64 k x"

definition LE_cpu_to_be32 :: "swab_choice \<Rightarrow> u32 \<Rightarrow> u32" where
  "LE_cpu_to_be32 k x = swab32 k x"

definition LE_be32_to_cpu :: "swab_choice \<Rightarrow> u32 \<Rightarrow> u32" where
  "LE_be32_to_cpu k x = swab32 k x"

definition LE_cpu_to_be16 :: "swab_choice \<Rightarrow> u16 \<Rightarrow> u16" where
  "LE_cpu_to_be16 k x = swab16 k x"

definition LE_be16_to_cpu :: "swab_choice \<Rightarrow> u16 \<Rightarrow> u16" where
  "LE_be16_to_cpu k x = swab16 k x"

definition LE_cpu_to_le64p :: "swab_choice \<Rightarrow> (nat \<Rightarrow> u64) \<Rightarrow> nat \<Rightarrow> u64" where
  "LE_cpu_to_le64p k mem p = mem p"

definition LE_le64_to_cpup :: "swab_choice \<Rightarrow> (nat \<Rightarrow> u64) \<Rightarrow> nat \<Rightarrow> u64" where
  "LE_le64_to_cpup k mem p = mem p"

definition LE_cpu_to_le32p :: "swab_choice \<Rightarrow> (nat \<Rightarrow> u32) \<Rightarrow> nat \<Rightarrow> u32" where
  "LE_cpu_to_le32p k mem p = mem p"

definition LE_le32_to_cpup :: "swab_choice \<Rightarrow> (nat \<Rightarrow> u32) \<Rightarrow> nat \<Rightarrow> u32" where
  "LE_le32_to_cpup k mem p = mem p"

definition LE_cpu_to_le16p :: "swab_choice \<Rightarrow> (nat \<Rightarrow> u16) \<Rightarrow> nat \<Rightarrow> u16" where
  "LE_cpu_to_le16p k mem p = mem p"

definition LE_le16_to_cpup :: "swab_choice \<Rightarrow> (nat \<Rightarrow> u16) \<Rightarrow> nat \<Rightarrow> u16" where
  "LE_le16_to_cpup k mem p = mem p"

definition LE_cpu_to_be64p :: "swab_choice \<Rightarrow> (nat \<Rightarrow> u64) \<Rightarrow> nat \<Rightarrow> u64" where
  "LE_cpu_to_be64p k mem p = swab64p k mem p"

definition LE_be64_to_cpup :: "swab_choice \<Rightarrow> (nat \<Rightarrow> u64) \<Rightarrow> nat \<Rightarrow> u64" where
  "LE_be64_to_cpup k mem p = swab64p k mem p"

definition LE_cpu_to_be32p :: "swab_choice \<Rightarrow> (nat \<Rightarrow> u32) \<Rightarrow> nat \<Rightarrow> u32" where
  "LE_cpu_to_be32p k mem p = swab32p k mem p"

definition LE_be32_to_cpup :: "swab_choice \<Rightarrow> (nat \<Rightarrow> u32) \<Rightarrow> nat \<Rightarrow> u32" where
  "LE_be32_to_cpup k mem p = swab32p k mem p"

definition LE_cpu_to_be16p :: "swab_choice \<Rightarrow> (nat \<Rightarrow> u16) \<Rightarrow> nat \<Rightarrow> u16" where
  "LE_cpu_to_be16p k mem p = swab16p k mem p"

definition LE_be16_to_cpup :: "swab_choice \<Rightarrow> (nat \<Rightarrow> u16) \<Rightarrow> nat \<Rightarrow> u16" where
  "LE_be16_to_cpup k mem p = swab16p k mem p"

definition LE_cpu_to_le64s :: "swab_choice \<Rightarrow> (nat \<Rightarrow> u64) \<Rightarrow> nat \<Rightarrow> (nat \<Rightarrow> u64)" where
  "LE_cpu_to_le64s k mem x = mem"

definition LE_le64_to_cpus :: "swab_choice \<Rightarrow> (nat \<Rightarrow> u64) \<Rightarrow> nat \<Rightarrow> (nat \<Rightarrow> u64)" where
  "LE_le64_to_cpus k mem x = mem"

definition LE_cpu_to_le32s :: "swab_choice \<Rightarrow> (nat \<Rightarrow> u32) \<Rightarrow> nat \<Rightarrow> (nat \<Rightarrow> u32)" where
  "LE_cpu_to_le32s k mem x = mem"

definition LE_le32_to_cpus :: "swab_choice \<Rightarrow> (nat \<Rightarrow> u32) \<Rightarrow> nat \<Rightarrow> (nat \<Rightarrow> u32)" where
  "LE_le32_to_cpus k mem x = mem"

definition LE_cpu_to_le16s :: "swab_choice \<Rightarrow> (nat \<Rightarrow> u16) \<Rightarrow> nat \<Rightarrow> (nat \<Rightarrow> u16)" where
  "LE_cpu_to_le16s k mem x = mem"

definition LE_le16_to_cpus :: "swab_choice \<Rightarrow> (nat \<Rightarrow> u16) \<Rightarrow> nat \<Rightarrow> (nat \<Rightarrow> u16)" where
  "LE_le16_to_cpus k mem x = mem"

definition LE_cpu_to_be64s :: "swab_choice \<Rightarrow> (nat \<Rightarrow> u64) \<Rightarrow> nat \<Rightarrow> (nat \<Rightarrow> u64)" where
  "LE_cpu_to_be64s k mem x = swab64s k mem x"

definition LE_be64_to_cpus :: "swab_choice \<Rightarrow> (nat \<Rightarrow> u64) \<Rightarrow> nat \<Rightarrow> (nat \<Rightarrow> u64)" where
  "LE_be64_to_cpus k mem x = swab64s k mem x"

definition LE_cpu_to_be32s :: "swab_choice \<Rightarrow> (nat \<Rightarrow> u32) \<Rightarrow> nat \<Rightarrow> (nat \<Rightarrow> u32)" where
  "LE_cpu_to_be32s k mem x = swab32s k mem x"

definition LE_be32_to_cpus :: "swab_choice \<Rightarrow> (nat \<Rightarrow> u32) \<Rightarrow> nat \<Rightarrow> (nat \<Rightarrow> u32)" where
  "LE_be32_to_cpus k mem x = swab32s k mem x"

definition LE_cpu_to_be16s :: "swab_choice \<Rightarrow> (nat \<Rightarrow> u16) \<Rightarrow> nat \<Rightarrow> (nat \<Rightarrow> u16)" where
  "LE_cpu_to_be16s k mem x = swab16s k mem x"

definition LE_be16_to_cpus :: "swab_choice \<Rightarrow> (nat \<Rightarrow> u16) \<Rightarrow> nat \<Rightarrow> (nat \<Rightarrow> u16)" where
  "LE_be16_to_cpus k mem x = swab16s k mem x"

section \<open>Big-endian hosts: \<open>linux/byteorder/big_endian.h\<close>\<close>

definition BE_constant_htonl :: "u32 \<Rightarrow> u32" where
  "BE_constant_htonl x = x"

definition BE_constant_ntohl :: "u32 \<Rightarrow> u32" where
  "BE_constant_ntohl x = x"

definition BE_constant_htons :: "u16 \<Rightarrow> u16" where
  "BE_constant_htons x = x"

definition BE_constant_ntohs :: "u16 \<Rightarrow> u16" where
  "BE_constant_ntohs x = x"

definition BE_constant_cpu_to_le64 :: "u64 \<Rightarrow> u64" where
  "BE_constant_cpu_to_le64 x = constant_swab64 x"

definition BE_constant_le64_to_cpu :: "u64 \<Rightarrow> u64" where
  "BE_constant_le64_to_cpu x = constant_swab64 x"

definition BE_constant_cpu_to_le32 :: "u32 \<Rightarrow> u32" where
  "BE_constant_cpu_to_le32 x = constant_swab32 x"

definition BE_constant_le32_to_cpu :: "u32 \<Rightarrow> u32" where
  "BE_constant_le32_to_cpu x = constant_swab32 x"

definition BE_constant_cpu_to_le16 :: "u16 \<Rightarrow> u16" where
  "BE_constant_cpu_to_le16 x = constant_swab16 x"

definition BE_constant_le16_to_cpu :: "u16 \<Rightarrow> u16" where
  "BE_constant_le16_to_cpu x = constant_swab16 x"

definition BE_constant_cpu_to_be64 :: "u64 \<Rightarrow> u64" where
  "BE_constant_cpu_to_be64 x = x"

definition BE_constant_be64_to_cpu :: "u64 \<Rightarrow> u64" where
  "BE_constant_be64_to_cpu x = x"

definition BE_constant_cpu_to_be32 :: "u32 \<Rightarrow> u32" where
  "BE_constant_cpu_to_be32 x = x"

definition BE_constant_be32_to_cpu :: "u32 \<Rightarrow> u32" where
  "BE_constant_be32_to_cpu x = x"

definition BE_constant_cpu_to_be16 :: "u16 \<Rightarrow> u16" where
  "BE_constant_cpu_to_be16 x = x"

definition BE_constant_be16_to_cpu :: "u16 \<Rightarrow> u16" where
  "BE_constant_be16_to_cpu x = x"

definition BE_cpu_to_le64 :: "swab_choice \<Rightarrow> u64 \<Rightarrow> u64" where
  "BE_cpu_to_le64 k x = swab64 k x"

definition BE_le64_to_cpu :: "swab_choice \<Rightarrow> u64 \<Rightarrow> u64" where
  "BE_le64_to_cpu k x = swab64 k x"

definition BE_cpu_to_le32 :: "swab_choice \<Rightarrow> u32 \<Rightarrow> u32" where
  "BE_cpu_to_le32 k x = swab32 k x"

definition BE_le32_to_cpu :: "swab_choice \<Rightarrow> u32 \<Rightarrow> u32" where
  "BE_le32_to_cpu k x = swab32 k x"

definition BE_cpu_to_le16 :: "swab_choice \<Rightarrow> u16 \<Rightarrow> u16" where
  "BE_cpu_to_le16 k x = swab16 k x"

definition BE_le16_to_cpu :: "swab_choice \<Rightarrow> u16 \<Rightarrow> u16" where
  "BE_le16_to_cpu k x = swab16 k x"

definition BE_cpu_to_be64 :: "swab_choice \<Rightarrow> u64 \<Rightarrow> u64" where
  "BE_cpu_to_be64 k x = x"

definition BE_be64_to_cpu :: "swab_choice \<Rightarrow> u64 \<Rightarrow> u64" where
  "BE_be64_to_cpu k x = x"

definition BE_cpu_to_be32 :: "swab_choice \<Rightarrow> u32 \<Rightarrow> u32" where
  "BE_cpu_to_be32 k x = x"

definition BE_be32_to_cpu :: "swab_choice \<Rightarrow> u32 \<Rightarrow> u32" where
  "BE_be32_to_cpu k x = x"

definition BE_cpu_to_be16 :: "swab_choice \<Rightarrow> u16 \<Rightarrow> u16" where
  "BE_cpu_to_be16 k x = x"

definition BE_be16_to_cpu :: "swab_choice \<Rightarrow> u16 \<Rightarrow> u16" where
  "BE_be16_to_cpu k x = x"

definition BE_cpu_to_le64p :: "swab_choice \<Rightarrow> (nat \<Rightarrow> u64) \<Rightarrow> nat \<Rightarrow> u64" where
  "BE_cpu_to_le64p k mem p = swab64p k mem p"

definition BE_le64_to_cpup :: "swab_choice \<Rightarrow> (nat \<Rightarrow> u64) \<Rightarrow> nat \<Rightarrow> u64" where
  "BE_le64_to_cpup k mem p = swab64p k mem p"

definition BE_cpu_to_le32p :: "swab_choice \<Rightarrow> (nat \<Rightarrow> u32) \<Rightarrow> nat \<Rightarrow> u32" where
  "BE_cpu_to_le32p k mem p = swab32p k mem p"

definition BE_le32_to_cpup :: "swab_choice \<Rightarrow> (nat \<Rightarrow> u32) \<Rightarrow> nat \<Rightarrow> u32" where
  "BE_le32_to_cpup k mem p = swab32p k mem p"

definition BE_cpu_to_le16p :: "swab_choice \<Rightarrow> (nat \<Rightarrow> u16) \<Rightarrow> nat \<Rightarrow> u16" where
  "BE_cpu_to_le16p k mem p = swab16p k mem p"

definition BE_le16_to_cpup :: "swab_choice \<Rightarrow> (nat \<Rightarrow> u16) \<Rightarrow> nat \<Rightarrow> u16" where
  "BE_le16_to_cpup k mem p = swab16p k mem p"

definition BE_cpu_to_be64p :: "swab_choice \<Rightarrow> (nat \<Rightarrow> u64) \<Rightarrow> nat \<Rightarrow> u64" where
  "BE_cpu_to_be64p k mem p = mem p"

definition BE_be64_to_cpup :: "swab_choice \<Rightarrow> (nat \<Rightarrow> u64) \<Rightarrow> nat \<Rightarrow> u64" where
  "BE_be64_to_cpup k mem p = mem p"

definition BE_cpu_to_be32p :: "swab_choice \<Rightarrow> (nat \<Rightarrow> u32) \<Rightarrow> nat \<Rightarrow> u32" where
  "BE_cpu_to_be32p k mem p = mem p"

definition BE_be32_to_cpup :: "swab_choice \<Rightarrow> (nat \<Rightarrow> u32) \<Rightarrow> nat \<Rightarrow> u32" where
  "BE_be32_to_cpup k mem p = mem p"

definition BE_cpu_to_be16p :: "swab_choice \<Rightarrow> (nat \<Rightarrow> u16) \<Rightarrow> nat \<Rightarrow> u16" where
  "BE_cpu_to_be16p k mem p = mem p"

definition BE_be16_to_cpup :: "swab_choice \<Rightarrow> (nat \<Rightarrow> u16) \<Rightarrow> nat \<Rightarrow> u16" where
  "BE_be16_to_cpup k mem p = mem p"

definition BE_cpu_to_le64s :: "swab_choice \<Rightarrow> (nat \<Rightarrow> u64) \<Rightarrow> nat \<Rightarrow> (nat \<Rightarrow> u64)" where
  "BE_cpu_to_le64s k mem x = swab64s k mem x"

definition BE_le64_to_cpus :: "swab_choice \<Rightarrow> (nat \<Rightarrow> u64) \<Rightarrow> nat \<Rightarrow> (nat \<Rightarrow> u64)" where
  "BE_le64_to_cpus k mem x = swab64s k mem x"

definition BE_cpu_to_le32s :: "swab_choice \<Rightarrow> (nat \<Rightarrow> u32) \<Rightarrow> nat \<Rightarrow> (nat \<Rightarrow> u32)" where
  "BE_cpu_to_le32s k mem x = swab32s k mem x"

definition BE_le32_to_cpus :: "swab_choice \<Rightarrow> (nat \<Rightarrow> u32) \<Rightarrow> nat \<Rightarrow> (nat \<Rightarrow> u32)" where
  "BE_le32_to_cpus k mem x = swab32s k mem x"

definition BE_cpu_to_le16s :: "swab_choice \<Rightarrow> (nat \<Rightarrow> u16) \<Rightarrow> nat \<Rightarrow> (nat \<Rightarrow> u16)" where
  "BE_cpu_to_le16s k mem x = swab16s k mem x"

definition BE_le16_to_cpus :: "swab_choice \<Rightarrow> (nat \<Rightarrow> u16) \<Rightarrow> nat \<Rightarrow> (nat \<Rightarrow> u16)" where
  "BE_le16_to_cpus k mem x = swab16s k mem x"

definition BE_cpu_to_be64s :: "swab_choice \<Rightarrow> (nat \<Rightarrow> u64) \<Rightarrow> nat \<Rightarrow> (nat \<Rightarrow> u64)" where
  "BE_cpu_to_be64s k mem x = mem"

definition BE_be64_to_cpus :: "swab_choice \<Rightarrow> (nat \<Rightarrow> u64) \<Rightarrow> nat \<Rightarrow> (nat \<Rightarrow> u64)" where
  "BE_be64_to_cpus k mem x = mem"

definition BE_cpu_to_be32s :: "swab_choice \<Rightarrow> (nat \<Rightarrow> u32) \<Rightarrow> nat \<Rightarrow> (nat \<Rightarrow> u32)" where
  "BE_cpu_to_be32s k mem x = mem"

definition BE_be32_to_cpus :: "swab_choice \<Rightarrow> (nat \<Rightarrow> u32) \<Rightarrow> nat \<Rightarrow> (nat \<Rightarrow> u32)" where
  "BE_be32_to_cpus k mem x = mem"

definition BE_cpu_to_be16s :: "swab_choice \<Rightarrow> (nat \<Rightarrow> u16) \<Rightarrow> nat \<Rightarrow> (nat \<Rightarrow> u16)" where
  "BE_cpu_to_be16s k mem x = mem"

definition BE_be16_to_cpus :: "swab_choice \<Rightarrow> (nat \<Rightarrow> u16) \<Rightarrow> nat \<Rightarrow> (nat \<Rightarrow> u16)" where
  "BE_be16_to_cpus k mem x = mem"

section \<open>Lemmas\<close>

lemma le_bytes_swapped [simp]:
  "le_bytes 2 (builtin_bswap16 x) = be_bytes 2 x" "le_bytes 4 (bswapl y) = be_bytes 4 y" "le_bytes 8 (bswapq z) = be_bytes 8 z"
  by (simp_all add: be_bytes_def le_bytes_def byte_bswap16 byte_bswapl byte_bswapq upt_rec One_nat_def [symmetric]
      del: One_nat_def)

lemma be_bytes_swapped [simp]:
  "be_bytes 2 (builtin_bswap16 x) = le_bytes 2 x" "be_bytes 4 (bswapl y) = le_bytes 4 y" "be_bytes 8 (bswapq z) = le_bytes 8 z"
  using le_bytes_swapped(1) [of "builtin_bswap16 x"] le_bytes_swapped(2) [of "bswapl y"] le_bytes_swapped(3) [of "bswapq z"]
  by simp_all

lemmas by_value_defs =
  LE_cpu_to_le64_def LE_le64_to_cpu_def LE_cpu_to_le32_def LE_le32_to_cpu_def LE_cpu_to_le16_def
  LE_le16_to_cpu_def LE_cpu_to_be64_def LE_be64_to_cpu_def LE_cpu_to_be32_def LE_be32_to_cpu_def
  LE_cpu_to_be16_def LE_be16_to_cpu_def BE_cpu_to_le64_def BE_le64_to_cpu_def BE_cpu_to_le32_def
  BE_le32_to_cpu_def BE_cpu_to_le16_def BE_le16_to_cpu_def BE_cpu_to_be64_def BE_be64_to_cpu_def
  BE_cpu_to_be32_def BE_be32_to_cpu_def BE_cpu_to_be16_def BE_be16_to_cpu_def

lemmas constant_defs =
  LE_constant_htonl_def LE_constant_ntohl_def LE_constant_htons_def LE_constant_ntohs_def
  LE_constant_cpu_to_le64_def LE_constant_le64_to_cpu_def LE_constant_cpu_to_le32_def
  LE_constant_le32_to_cpu_def LE_constant_cpu_to_le16_def LE_constant_le16_to_cpu_def
  LE_constant_cpu_to_be64_def LE_constant_be64_to_cpu_def LE_constant_cpu_to_be32_def
  LE_constant_be32_to_cpu_def LE_constant_cpu_to_be16_def LE_constant_be16_to_cpu_def BE_constant_htonl_def
  BE_constant_ntohl_def BE_constant_htons_def BE_constant_ntohs_def BE_constant_cpu_to_le64_def
  BE_constant_le64_to_cpu_def BE_constant_cpu_to_le32_def BE_constant_le32_to_cpu_def
  BE_constant_cpu_to_le16_def BE_constant_le16_to_cpu_def BE_constant_cpu_to_be64_def
  BE_constant_be64_to_cpu_def BE_constant_cpu_to_be32_def BE_constant_be32_to_cpu_def
  BE_constant_cpu_to_be16_def BE_constant_be16_to_cpu_def
  constant_swab16_eq_builtin constant_swab32_eq_bswapl constant_swab64_eq_bswapq

lemmas from_pointer_defs =
  LE_cpu_to_le64p_def LE_le64_to_cpup_def LE_cpu_to_le32p_def LE_le32_to_cpup_def LE_cpu_to_le16p_def
  LE_le16_to_cpup_def LE_cpu_to_be64p_def LE_be64_to_cpup_def LE_cpu_to_be32p_def LE_be32_to_cpup_def
  LE_cpu_to_be16p_def LE_be16_to_cpup_def BE_cpu_to_le64p_def BE_le64_to_cpup_def BE_cpu_to_le32p_def
  BE_le32_to_cpup_def BE_cpu_to_le16p_def BE_le16_to_cpup_def BE_cpu_to_be64p_def BE_be64_to_cpup_def
  BE_cpu_to_be32p_def BE_be32_to_cpup_def BE_cpu_to_be16p_def BE_be16_to_cpup_def
  swab16p_def swab32p_def swab64p_def

lemmas in_place_defs =
  LE_cpu_to_le64s_def LE_le64_to_cpus_def LE_cpu_to_le32s_def LE_le32_to_cpus_def LE_cpu_to_le16s_def
  LE_le16_to_cpus_def LE_cpu_to_be64s_def LE_be64_to_cpus_def LE_cpu_to_be32s_def LE_be32_to_cpus_def
  LE_cpu_to_be16s_def LE_be16_to_cpus_def BE_cpu_to_le64s_def BE_le64_to_cpus_def BE_cpu_to_le32s_def
  BE_le32_to_cpus_def BE_cpu_to_le16s_def BE_le16_to_cpus_def BE_cpu_to_be64s_def BE_be64_to_cpus_def
  BE_cpu_to_be32s_def BE_be32_to_cpus_def BE_cpu_to_be16s_def BE_be16_to_cpus_def
  swab16s_def swab32s_def swab64s_def

section \<open>Properties\<close>

text \<open>
  A value converted by a \<open>cpu_to_be\<close> or \<open>cpu_to_le\<close> macro has the same bytes in memory on both kinds of
  host: most significant byte first for \<open>be\<close>, least significant first for \<open>le\<close>, at every width and through
  every implementation of the swap. The constant \<open>htons\<close> and \<open>htonl\<close> macros are the big-endian conversions.
\<close>

theorem wire_order_host_independent:
  "le_bytes 2 (LE_cpu_to_be16 k x) = be_bytes 2 x \<and>
   be_bytes 2 (BE_cpu_to_be16 k x) = be_bytes 2 x \<and>
   le_bytes 2 (LE_cpu_to_le16 k x) = le_bytes 2 x \<and>
   be_bytes 2 (BE_cpu_to_le16 k x) = le_bytes 2 x \<and>
   le_bytes 4 (LE_cpu_to_be32 k y) = be_bytes 4 y \<and>
   be_bytes 4 (BE_cpu_to_be32 k y) = be_bytes 4 y \<and>
   le_bytes 4 (LE_cpu_to_le32 k y) = le_bytes 4 y \<and>
   be_bytes 4 (BE_cpu_to_le32 k y) = le_bytes 4 y \<and>
   le_bytes 8 (LE_cpu_to_be64 k z) = be_bytes 8 z \<and>
   be_bytes 8 (BE_cpu_to_be64 k z) = be_bytes 8 z \<and>
   le_bytes 8 (LE_cpu_to_le64 k z) = le_bytes 8 z \<and>
   be_bytes 8 (BE_cpu_to_le64 k z) = le_bytes 8 z \<and>
   LE_constant_htons x = LE_cpu_to_be16 k x \<and>
   LE_constant_htonl y = LE_cpu_to_be32 k y \<and>
   BE_constant_htons x = BE_cpu_to_be16 k x \<and>
   BE_constant_htonl y = BE_cpu_to_be32 k y"
  by (simp add: by_value_defs constant_defs)

text \<open>
  Converting a value to a byte order and back gives the value, on both kinds of host, for every
  width, order and implementation of the swap.
\<close>

theorem conversion_round_trip:
  "LE_be16_to_cpu k' (LE_cpu_to_be16 k x) = x \<and>
   LE_constant_be16_to_cpu (LE_constant_cpu_to_be16 x) = x \<and>
   LE_le16_to_cpu k' (LE_cpu_to_le16 k x) = x \<and>
   LE_constant_le16_to_cpu (LE_constant_cpu_to_le16 x) = x \<and>
   LE_be32_to_cpu k' (LE_cpu_to_be32 k y) = y \<and>
   LE_constant_be32_to_cpu (LE_constant_cpu_to_be32 y) = y \<and>
   LE_le32_to_cpu k' (LE_cpu_to_le32 k y) = y \<and>
   LE_constant_le32_to_cpu (LE_constant_cpu_to_le32 y) = y \<and>
   LE_be64_to_cpu k' (LE_cpu_to_be64 k z) = z \<and>
   LE_constant_be64_to_cpu (LE_constant_cpu_to_be64 z) = z \<and>
   LE_le64_to_cpu k' (LE_cpu_to_le64 k z) = z \<and>
   LE_constant_le64_to_cpu (LE_constant_cpu_to_le64 z) = z \<and>
   LE_constant_ntohl (LE_constant_htonl y) = y \<and>
   LE_constant_ntohs (LE_constant_htons x) = x \<and>
   BE_be16_to_cpu k' (BE_cpu_to_be16 k x) = x \<and>
   BE_constant_be16_to_cpu (BE_constant_cpu_to_be16 x) = x \<and>
   BE_le16_to_cpu k' (BE_cpu_to_le16 k x) = x \<and>
   BE_constant_le16_to_cpu (BE_constant_cpu_to_le16 x) = x \<and>
   BE_be32_to_cpu k' (BE_cpu_to_be32 k y) = y \<and>
   BE_constant_be32_to_cpu (BE_constant_cpu_to_be32 y) = y \<and>
   BE_le32_to_cpu k' (BE_cpu_to_le32 k y) = y \<and>
   BE_constant_le32_to_cpu (BE_constant_cpu_to_le32 y) = y \<and>
   BE_be64_to_cpu k' (BE_cpu_to_be64 k z) = z \<and>
   BE_constant_be64_to_cpu (BE_constant_cpu_to_be64 z) = z \<and>
   BE_le64_to_cpu k' (BE_cpu_to_le64 k z) = z \<and>
   BE_constant_le64_to_cpu (BE_constant_cpu_to_le64 z) = z \<and>
   BE_constant_ntohl (BE_constant_htonl y) = y \<and>
   BE_constant_ntohs (BE_constant_htons x) = x"
  by (simp add: by_value_defs constant_defs)

text \<open>
  The pointer and in-place variants do what the value macros do to the word at the address, and the
  in-place ones leave every other address alone: all forty-eight of them.
\<close>

theorem pointer_variants_agree:
  "LE_cpu_to_be16s k m16 p = m16(p := LE_cpu_to_be16 k' (m16 p)) \<and>
   LE_cpu_to_be16p k m16 p = LE_constant_cpu_to_be16 (m16 p) \<and>
   LE_be16_to_cpus k m16 p = m16(p := LE_be16_to_cpu k' (m16 p)) \<and>
   LE_be16_to_cpup k m16 p = LE_constant_be16_to_cpu (m16 p) \<and>
   LE_cpu_to_le16s k m16 p = m16(p := LE_cpu_to_le16 k' (m16 p)) \<and>
   LE_cpu_to_le16p k m16 p = LE_constant_cpu_to_le16 (m16 p) \<and>
   LE_le16_to_cpus k m16 p = m16(p := LE_le16_to_cpu k' (m16 p)) \<and>
   LE_le16_to_cpup k m16 p = LE_constant_le16_to_cpu (m16 p) \<and>
   LE_cpu_to_be32s k m32 p = m32(p := LE_cpu_to_be32 k' (m32 p)) \<and>
   LE_cpu_to_be32p k m32 p = LE_constant_cpu_to_be32 (m32 p) \<and>
   LE_be32_to_cpus k m32 p = m32(p := LE_be32_to_cpu k' (m32 p)) \<and>
   LE_be32_to_cpup k m32 p = LE_constant_be32_to_cpu (m32 p) \<and>
   LE_cpu_to_le32s k m32 p = m32(p := LE_cpu_to_le32 k' (m32 p)) \<and>
   LE_cpu_to_le32p k m32 p = LE_constant_cpu_to_le32 (m32 p) \<and>
   LE_le32_to_cpus k m32 p = m32(p := LE_le32_to_cpu k' (m32 p)) \<and>
   LE_le32_to_cpup k m32 p = LE_constant_le32_to_cpu (m32 p) \<and>
   LE_cpu_to_be64s k m64 p = m64(p := LE_cpu_to_be64 k' (m64 p)) \<and>
   LE_cpu_to_be64p k m64 p = LE_constant_cpu_to_be64 (m64 p) \<and>
   LE_be64_to_cpus k m64 p = m64(p := LE_be64_to_cpu k' (m64 p)) \<and>
   LE_be64_to_cpup k m64 p = LE_constant_be64_to_cpu (m64 p) \<and>
   LE_cpu_to_le64s k m64 p = m64(p := LE_cpu_to_le64 k' (m64 p)) \<and>
   LE_cpu_to_le64p k m64 p = LE_constant_cpu_to_le64 (m64 p) \<and>
   LE_le64_to_cpus k m64 p = m64(p := LE_le64_to_cpu k' (m64 p)) \<and>
   LE_le64_to_cpup k m64 p = LE_constant_le64_to_cpu (m64 p) \<and>
   BE_cpu_to_be16s k m16 p = m16(p := BE_cpu_to_be16 k' (m16 p)) \<and>
   BE_cpu_to_be16p k m16 p = BE_constant_cpu_to_be16 (m16 p) \<and>
   BE_be16_to_cpus k m16 p = m16(p := BE_be16_to_cpu k' (m16 p)) \<and>
   BE_be16_to_cpup k m16 p = BE_constant_be16_to_cpu (m16 p) \<and>
   BE_cpu_to_le16s k m16 p = m16(p := BE_cpu_to_le16 k' (m16 p)) \<and>
   BE_cpu_to_le16p k m16 p = BE_constant_cpu_to_le16 (m16 p) \<and>
   BE_le16_to_cpus k m16 p = m16(p := BE_le16_to_cpu k' (m16 p)) \<and>
   BE_le16_to_cpup k m16 p = BE_constant_le16_to_cpu (m16 p) \<and>
   BE_cpu_to_be32s k m32 p = m32(p := BE_cpu_to_be32 k' (m32 p)) \<and>
   BE_cpu_to_be32p k m32 p = BE_constant_cpu_to_be32 (m32 p) \<and>
   BE_be32_to_cpus k m32 p = m32(p := BE_be32_to_cpu k' (m32 p)) \<and>
   BE_be32_to_cpup k m32 p = BE_constant_be32_to_cpu (m32 p) \<and>
   BE_cpu_to_le32s k m32 p = m32(p := BE_cpu_to_le32 k' (m32 p)) \<and>
   BE_cpu_to_le32p k m32 p = BE_constant_cpu_to_le32 (m32 p) \<and>
   BE_le32_to_cpus k m32 p = m32(p := BE_le32_to_cpu k' (m32 p)) \<and>
   BE_le32_to_cpup k m32 p = BE_constant_le32_to_cpu (m32 p) \<and>
   BE_cpu_to_be64s k m64 p = m64(p := BE_cpu_to_be64 k' (m64 p)) \<and>
   BE_cpu_to_be64p k m64 p = BE_constant_cpu_to_be64 (m64 p) \<and>
   BE_be64_to_cpus k m64 p = m64(p := BE_be64_to_cpu k' (m64 p)) \<and>
   BE_be64_to_cpup k m64 p = BE_constant_be64_to_cpu (m64 p) \<and>
   BE_cpu_to_le64s k m64 p = m64(p := BE_cpu_to_le64 k' (m64 p)) \<and>
   BE_cpu_to_le64p k m64 p = BE_constant_cpu_to_le64 (m64 p) \<and>
   BE_le64_to_cpus k m64 p = m64(p := BE_le64_to_cpu k' (m64 p)) \<and>
   BE_le64_to_cpup k m64 p = BE_constant_le64_to_cpu (m64 p)"
  by (simp add: by_value_defs constant_defs from_pointer_defs in_place_defs)

end
