(* ===== verification/C_Library.thy ===== *)
theory C_Library
  imports C_Integers
begin

unbundle bit_operations_syntax

text \<open>
  Inline functions of the C library headers: binary search (\<open>bits/stdlib-bsearch.h\<close>), device numbers
  (\<open>bits/sysmacros.h\<close>) and time values (\<open>sys/time.h\<close>). Sizes and addresses are 64-bit words. The loop of
  \<open>bsearch\<close> may run forever when its indices wrap around, so it is a partial function with \<open>None\<close> for
  that; its comparison function, already applied to the key, is a parameter. The seconds and
  microseconds of a time value are integers: overflow of the signed C type is undefined.
\<close>

section \<open>Model\<close>

partial_function (option) bsearch_loop ::
    "(u64 \<Rightarrow> int) \<Rightarrow> u64 \<Rightarrow> u64 \<Rightarrow> u64 \<Rightarrow> u64 \<Rightarrow> u64 option option" where
  "bsearch_loop compar base sz l u =
    (if l < u then
       let idx = (l + u) div 2;
           p = base + idx * sz;
           comparison = compar p
       in if comparison < 0 then bsearch_loop compar base sz l idx
          else if comparison > 0 then bsearch_loop compar base sz (idx + 1) u
          else Some (Some p)
     else Some None)"

definition bsearch :: "(u64 \<Rightarrow> int) \<Rightarrow> u64 \<Rightarrow> u64 \<Rightarrow> u64 \<Rightarrow> u64 option option" where
  "bsearch compar base nmemb sz = bsearch_loop compar base sz 0 nmemb"

definition gnu_dev_major :: "u64 \<Rightarrow> u32" where
  "gnu_dev_major dev =
    (let major = ucast (drop_bit 8 (dev AND 0x00000000000fff00)) :: u32
     in ucast (ucast major OR drop_bit 32 (dev AND 0xfffff00000000000)))"

definition gnu_dev_minor :: "u64 \<Rightarrow> u32" where
  "gnu_dev_minor dev =
    (let minor = ucast (drop_bit 0 (dev AND 0x00000000000000ff)) :: u32
     in ucast (ucast minor OR drop_bit 12 (dev AND 0x00000ffffff00000)))"

definition gnu_dev_makedev :: "u32 \<Rightarrow> u32 \<Rightarrow> u64" where
  "gnu_dev_makedev major minor =
    (let dev = push_bit 8 (ucast (major AND 0x00000fff));
         dev = dev OR push_bit 32 (ucast (major AND 0xfffff000));
         dev = dev OR push_bit 0 (ucast (minor AND 0x000000ff));
         dev = dev OR push_bit 12 (ucast (minor AND 0xffffff00))
     in dev)"

text \<open>Time values live in a store, since the result of an addition may be one of its operands.\<close>

record timeval =
  tv_sec :: int
  tv_usec :: int

definition timerisset :: "timeval \<Rightarrow> bool" where
  "timerisset tvp \<longleftrightarrow> tv_sec tvp \<noteq> 0 \<or> tv_usec tvp \<noteq> 0"

definition timerclear :: "(nat \<Rightarrow> timeval) \<Rightarrow> nat \<Rightarrow> (nat \<Rightarrow> timeval)" where
  "timerclear mem tvp =
    (let mem = mem(tvp := (mem tvp)\<lparr>tv_usec := 0\<rparr>) in mem(tvp := (mem tvp)\<lparr>tv_sec := 0\<rparr>))"

definition timercmp :: "timeval \<Rightarrow> timeval \<Rightarrow> (int \<Rightarrow> int \<Rightarrow> bool) \<Rightarrow> bool" where
  "timercmp a b CMP = (if tv_sec a = tv_sec b then CMP (tv_usec a) (tv_usec b) else CMP (tv_sec a) (tv_sec b))"

definition timeradd :: "(nat \<Rightarrow> timeval) \<Rightarrow> nat \<Rightarrow> nat \<Rightarrow> nat \<Rightarrow> (nat \<Rightarrow> timeval)" where
  "timeradd mem a b result =
    (let mem = mem(result := (mem result)\<lparr>tv_sec := tv_sec (mem a) + tv_sec (mem b)\<rparr>);
         mem = mem(result := (mem result)\<lparr>tv_usec := tv_usec (mem a) + tv_usec (mem b)\<rparr>)
     in if tv_usec (mem result) \<ge> 1000000 then
          let mem = mem(result := (mem result)\<lparr>tv_sec := tv_sec (mem result) + 1\<rparr>)
          in mem(result := (mem result)\<lparr>tv_usec := tv_usec (mem result) - 1000000\<rparr>)
        else mem)"

definition timersub :: "(nat \<Rightarrow> timeval) \<Rightarrow> nat \<Rightarrow> nat \<Rightarrow> nat \<Rightarrow> (nat \<Rightarrow> timeval)" where
  "timersub mem a b result =
    (let mem = mem(result := (mem result)\<lparr>tv_sec := tv_sec (mem a) - tv_sec (mem b)\<rparr>);
         mem = mem(result := (mem result)\<lparr>tv_usec := tv_usec (mem a) - tv_usec (mem b)\<rparr>)
     in if tv_usec (mem result) < 0 then
          let mem = mem(result := (mem result)\<lparr>tv_sec := tv_sec (mem result) - 1\<rparr>)
          in mem(result := (mem result)\<lparr>tv_usec := tv_usec (mem result) + 1000000\<rparr>)
        else mem)"

section \<open>Binary search\<close>

text \<open>Element \<open>i\<close> of the array, and the order the comparison has to respect.\<close>

definition elem_addr :: "u64 \<Rightarrow> u64 \<Rightarrow> nat \<Rightarrow> u64" where
  "elem_addr base sz i = base + of_nat i * sz"

definition ordered_by :: "(u64 \<Rightarrow> int) \<Rightarrow> u64 \<Rightarrow> u64 \<Rightarrow> nat \<Rightarrow> bool" where
  "ordered_by compar base sz n \<longleftrightarrow>
    (\<forall>i j. i \<le> j \<longrightarrow> j < n \<longrightarrow>
      (compar (elem_addr base sz i) < 0 \<longrightarrow> compar (elem_addr base sz j) < 0) \<and>
      (compar (elem_addr base sz j) > 0 \<longrightarrow> compar (elem_addr base sz i) > 0))"

lemma middle:
  fixes l u :: u64
  assumes "l < u" and "unat u \<le> 2 ^ 63"
  shows "unat ((l + u) div 2) = (unat l + unat u) div 2"
proof -
  have "unat l < unat u" using assms(1) by (simp add: word_less_nat_alt)
  then have "unat (l + u) = unat l + unat u" using assms(2) by (simp add: unat_word_ariths)
  then show ?thesis by (simp add: unat_div)
qed

text \<open>The elements outside of the interval that is left are known to be different from the key.\<close>

definition excluded :: "(u64 \<Rightarrow> int) \<Rightarrow> u64 \<Rightarrow> u64 \<Rightarrow> nat \<Rightarrow> u64 \<Rightarrow> u64 \<Rightarrow> bool" where
  "excluded compar base sz n l u \<longleftrightarrow>
    (\<forall>i. (i < unat l \<longrightarrow> compar (elem_addr base sz i) > 0) \<and> (unat u \<le> i \<and> i < n \<longrightarrow> compar (elem_addr base sz i) < 0))"

lemma excluded_all:
  assumes "excluded compar base sz n l u" and "\<not> l < u" and "i < n"
  shows "compar (elem_addr base sz i) \<noteq> 0"
proof (cases "i < unat l")
  case False
  then have "unat u \<le> i" using assms(2) by (simp add: word_less_nat_alt)
  then show ?thesis using assms(1,3) unfolding excluded_def by force
qed (use assms(1) in \<open>force simp: excluded_def\<close>)

lemma excluded_step:
  assumes "excluded compar base sz n l u" and "ordered_by compar base sz n" and "unat idx < n"
  shows "compar (elem_addr base sz (unat idx)) < 0 \<Longrightarrow> excluded compar base sz n l idx"
    and "compar (elem_addr base sz (unat idx)) > 0 \<Longrightarrow> unat (idx + 1) = unat idx + 1 \<Longrightarrow> excluded compar base sz n (idx + 1) u"
  using assms unfolding excluded_def ordered_by_def by (meson, metis less_Suc_eq_le Suc_eq_plus1)

definition search_result :: "(u64 \<Rightarrow> int) \<Rightarrow> u64 \<Rightarrow> u64 \<Rightarrow> nat \<Rightarrow> u64 \<Rightarrow> u64 \<Rightarrow> u64 option \<Rightarrow> bool" where
  "search_result compar base sz n l u r \<longleftrightarrow>
    (\<forall>p. r = Some p \<longrightarrow> (\<exists>i < n. p = elem_addr base sz i \<and> compar p = 0)) \<and>
    (r = None \<and> ordered_by compar base sz n \<and> excluded compar base sz n l u \<longrightarrow>
      (\<forall>i < n. compar (elem_addr base sz i) \<noteq> 0))"

lemma search_result_weaken:
  assumes "search_result compar base sz n l' u' r"
    and "excluded compar base sz n l u \<Longrightarrow> ordered_by compar base sz n \<Longrightarrow> excluded compar base sz n l' u'"
  shows "search_result compar base sz n l u r"
  using assms by (auto simp: search_result_def)

lemma bsearch_loop_correct:
  assumes "unat u \<le> n" "n \<le> 2 ^ 63"
  shows "\<exists>r. bsearch_loop compar base sz l u = Some r \<and> search_result compar base sz n l u r"
  using assms
proof (induction "unat u - unat l" arbitrary: l u rule: less_induct)
  case less
  let ?idx = "(l + u) div 2"
  let ?p = "base + ?idx * sz"
  show ?case
  proof (cases "l < u")
    case False
    then have "bsearch_loop compar base sz l u = Some None" by (subst bsearch_loop.simps) simp
    moreover have "search_result compar base sz n l u None"
      using False by (auto simp: search_result_def dest: excluded_all)
    ultimately show ?thesis by blast
  next
    case True
    then have lu: "unat l < unat u" by (simp add: word_less_nat_alt)
    have idx: "unat ?idx = (unat l + unat u) div 2" using middle [OF True] less.prems by simp
    then have bounds: "unat l \<le> unat ?idx" "unat ?idx < unat u" using lu by auto
    have p: "?p = elem_addr base sz (unat ?idx)" by (simp add: elem_addr_def)
    have suc: "unat (?idx + 1) = unat ?idx + 1"
      using bounds(2) by (simp add: unat_word_ariths)
    have step: "bsearch_loop compar base sz l u =
        (if compar ?p < 0 then bsearch_loop compar base sz l ?idx
         else if compar ?p > 0 then bsearch_loop compar base sz (?idx + 1) u else Some (Some ?p))"
      using True by (subst bsearch_loop.simps) (simp add: Let_def)
    have n: "unat ?idx < n" using bounds(2) less.prems(1) by simp
    have out: "excluded compar base sz n l u \<Longrightarrow> ordered_by compar base sz n \<Longrightarrow> compar ?p < 0 \<Longrightarrow> excluded compar base sz n l ?idx"
      "excluded compar base sz n l u \<Longrightarrow> ordered_by compar base sz n \<Longrightarrow> compar ?p > 0 \<Longrightarrow> excluded compar base sz n (?idx + 1) u"
      using excluded_step [of compar base sz n l u ?idx] n suc unfolding p by blast+
    consider "compar ?p < 0" | "compar ?p > 0" | "compar ?p = 0" by linarith
    then show ?thesis
    proof cases
      case 1
      have "unat ?idx - unat l < unat u - unat l" "unat ?idx \<le> n" using bounds lu n by simp_all
      from less.hyps [OF this less.prems(2)] obtain r where
        r: "bsearch_loop compar base sz l ?idx = Some r" "search_result compar base sz n l ?idx r" by blast
      have "search_result compar base sz n l u r" by (rule search_result_weaken [OF r(2) out(1)]) (simp_all add: 1)
      with r(1) step 1 show ?thesis by auto
    next
      case 2
      have "unat u - unat (?idx + 1) < unat u - unat l" using bounds suc by simp
      from less.hyps [OF this less.prems] obtain r where
        r: "bsearch_loop compar base sz (?idx + 1) u = Some r" "search_result compar base sz n (?idx + 1) u r" by blast
      have "search_result compar base sz n l u r" by (rule search_result_weaken [OF r(2) out(2)]) (simp_all add: 2)
      with r(1) step 2 show ?thesis by auto
    next
      case 3
      then have "bsearch_loop compar base sz l u = Some (Some ?p)" using step by simp
      moreover have "search_result compar base sz n l u (Some ?p)" using 3 n p by (auto simp: search_result_def)
      ultimately show ?thesis by blast
    qed
  qed
qed

section \<open>Device numbers\<close>

lemma dev_mask_bits:
  "bit (0x00000000000fff00 :: u64) n \<longleftrightarrow> 8 \<le> n \<and> n < 20" "bit (0xfffff00000000000 :: u64) n \<longleftrightarrow> 44 \<le> n \<and> n < 64"
  "bit (0x00000000000000ff :: u64) n \<longleftrightarrow> n < 8" "bit (0x00000ffffff00000 :: u64) n \<longleftrightarrow> 20 \<le> n \<and> n < 44"
  "bit (0x00000fff :: u32) n \<longleftrightarrow> n < 12" "bit (0xfffff000 :: u32) n \<longleftrightarrow> 12 \<le> n \<and> n < 32"
  "bit (0x000000ff :: u32) n \<longleftrightarrow> n < 8" "bit (0xffffff00 :: u32) n \<longleftrightarrow> 8 \<le> n \<and> n < 32"
proof -
  have m: "(0x00000000000fff00 :: u64) = push_bit 8 (mask 12)" "(0xfffff00000000000 :: u64) = push_bit 44 (mask 20)"
    "(0x00000000000000ff :: u64) = mask 8" "(0x00000ffffff00000 :: u64) = push_bit 20 (mask 24)"
    "(0x00000fff :: u32) = mask 12" "(0xfffff000 :: u32) = push_bit 12 (mask 20)"
    "(0x000000ff :: u32) = mask 8" "(0xffffff00 :: u32) = push_bit 8 (mask 24)" by (simp_all add: mask_numeral)
  show "bit (0x00000000000fff00 :: u64) n \<longleftrightarrow> 8 \<le> n \<and> n < 20" "bit (0xfffff00000000000 :: u64) n \<longleftrightarrow> 44 \<le> n \<and> n < 64"
    "bit (0x00000000000000ff :: u64) n \<longleftrightarrow> n < 8" "bit (0x00000ffffff00000 :: u64) n \<longleftrightarrow> 20 \<le> n \<and> n < 44"
    "bit (0x00000fff :: u32) n \<longleftrightarrow> n < 12" "bit (0xfffff000 :: u32) n \<longleftrightarrow> 12 \<le> n \<and> n < 32"
    "bit (0x000000ff :: u32) n \<longleftrightarrow> n < 8" "bit (0xffffff00 :: u32) n \<longleftrightarrow> 8 \<le> n \<and> n < 32"
    unfolding m by (auto simp: bit_simps)
qed

lemma dev_lengths: "LENGTH(32) = 32" "LENGTH(64) = 64"
  by simp_all

lemmas dev_bits = bit_and_iff bit_or_iff bit_push_bit_iff bit_drop_bit_eq comp_def bit_unsigned_iff possible_bit_word
  dev_lengths dev_mask_bits

lemma bit_gnu_dev_major:
  "bit (gnu_dev_major dev) n \<longleftrightarrow> (if n < 12 then bit dev (8 + n) else n < 32 \<and> bit dev (32 + n))"
  unfolding gnu_dev_major_def Let_def dev_bits by auto

lemma bit_gnu_dev_minor:
  "bit (gnu_dev_minor dev) n \<longleftrightarrow> (if n < 8 then bit dev n else n < 32 \<and> bit dev (12 + n))"
  unfolding gnu_dev_minor_def Let_def dev_bits by auto

lemma bit_gnu_dev_makedev:
  "bit (gnu_dev_makedev major minor) n \<longleftrightarrow>
    (if n < 8 then bit minor n else if n < 20 then bit major (n - 8) else if n < 44 then bit minor (n - 12)
     else n < 64 \<and> bit major (n - 32))"
proof -
  consider "n < 8" | "8 \<le> n" "n < 20" | "20 \<le> n" "n < 44" | "44 \<le> n" "n < 64" | "64 \<le> n" by linarith
  then show ?thesis unfolding gnu_dev_makedev_def Let_def dev_bits by cases auto
qed

section \<open>Time values\<close>

definition micros :: "timeval \<Rightarrow> int" where
  "micros t = 1000000 * tv_sec t + tv_usec t"

definition normal :: "timeval \<Rightarrow> bool" where
  "normal t \<longleftrightarrow> 0 \<le> tv_usec t \<and> tv_usec t < 1000000"

lemma normal_parts: "normal t \<Longrightarrow> tv_sec t = micros t div 1000000 \<and> tv_usec t = micros t mod 1000000"
  by (simp add: normal_def micros_def)

lemma timeval_eqI: "normal s \<Longrightarrow> normal t \<Longrightarrow> micros s = micros t \<Longrightarrow> s = t"
  by (rule timeval.equality) (simp_all add: normal_parts)

lemma timeradd_eq:
  "timeradd mem a b c = mem(c := (let s = tv_sec (mem a) + tv_sec (mem b); u = tv_usec (mem a) + tv_usec (mem b)
     in if u \<ge> 1000000 then \<lparr>tv_sec = s + 1, tv_usec = u - 1000000\<rparr> else \<lparr>tv_sec = s, tv_usec = u\<rparr>))"
  by (cases "mem c"; cases "a = c"; cases "b = c") (simp_all add: timeradd_def Let_def fun_eq_iff)

lemma timersub_eq:
  "timersub mem a b c = mem(c := (let s = tv_sec (mem a) - tv_sec (mem b); u = tv_usec (mem a) - tv_usec (mem b)
     in if u < 0 then \<lparr>tv_sec = s - 1, tv_usec = u + 1000000\<rparr> else \<lparr>tv_sec = s, tv_usec = u\<rparr>))"
  by (cases "mem c"; cases "a = c"; cases "b = c") (simp_all add: timersub_def Let_def fun_eq_iff)

lemma timeradd_ok:
  assumes "normal (mem a)" and "normal (mem b)"
  shows "normal (timeradd mem a b c c)" and "micros (timeradd mem a b c c) = micros (mem a) + micros (mem b)"
  using assms by (simp_all add: timeradd_eq Let_def normal_def micros_def)

lemma timersub_ok:
  assumes "normal (mem a)" and "normal (mem b)"
  shows "normal (timersub mem a b c c)" and "micros (timersub mem a b c c) = micros (mem a) - micros (mem b)"
  using assms by (simp_all add: timersub_eq Let_def normal_def micros_def)

lemma timercmp_micros:
  assumes "normal s" and "normal t"
  shows "timercmp s t (<) \<longleftrightarrow> micros s < micros t" and "timercmp s t (=) \<longleftrightarrow> micros s = micros t"
  using assms by (auto simp: timercmp_def normal_def micros_def)

lemma timerisset_micros: "normal t \<Longrightarrow> timerisset t \<longleftrightarrow> micros t \<noteq> 0"
  using normal_parts [of t] by (cases "micros t = 0") (auto simp: timerisset_def micros_def)

section \<open>Properties\<close>

text \<open>
  C30. Binary search returns for every comparison function, on every array of at most \<open>2^63\<close> elements,
  where its indices cannot wrap around. An address it returns is the one of an element that compares
  equal; when the comparison respects the order of the array and no address is returned, no element
  compares equal.
\<close>

theorem bsearch_correct:
  assumes "unat nmemb \<le> 2 ^ 63"
  shows "\<exists>r. bsearch compar base nmemb sz = Some r \<and>
    (\<forall>p. r = Some p \<longrightarrow> (\<exists>i < unat nmemb. p = elem_addr base sz i \<and> compar p = 0)) \<and>
    (r = None \<and> ordered_by compar base sz (unat nmemb) \<longrightarrow>
      (\<forall>i < unat nmemb. compar (elem_addr base sz i) \<noteq> 0))"
  using bsearch_loop_correct [OF order_refl assms, of compar base sz 0] by (simp add: bsearch_def excluded_def search_result_def)

theorem bsearch_correct_witness:
  "bsearch (\<lambda>p. if p < 108 then 1 else if p > 108 then - 1 else 0) 100 4 4 = Some (Some 108) \<and>
   (\<exists>r. bsearch (\<lambda>p. if p < 108 then 1 else if p > 108 then - 1 else 0) 100 4 4 = Some r)"
proof -
  have "unat (4 :: u64) \<le> 2 ^ 63" by simp
  from bsearch_correct [OF this, of "\<lambda>p. if p < 108 then 1 else if p > 108 then - 1 else 0" 100 4]
  have "\<exists>r. bsearch (\<lambda>p. if p < 108 then 1 else if p > 108 then - 1 else 0) 100 4 4 = Some r" by blast
  moreover have "bsearch (\<lambda>p. if p < 108 then 1 else if p > 108 then - 1 else 0) 100 4 4 = Some (Some 108)"
    by (simp add: bsearch_def bsearch_loop.simps)
  ultimately show ?thesis by blast
qed

text \<open>
  Device numbers are a bijective encoding: every pair of 32-bit major and minor numbers is read back
  from the 64-bit number made of it, and every 64-bit number is made of its major and minor numbers.
\<close>

theorem device_number_round_trip:
  "gnu_dev_major (gnu_dev_makedev major minor) = major \<and> gnu_dev_minor (gnu_dev_makedev major minor) = minor \<and>
   gnu_dev_makedev (gnu_dev_major dev) (gnu_dev_minor dev) = dev"
proof (intro conjI)
  show "gnu_dev_major (gnu_dev_makedev major minor) = major"
    by (rule bit_word_eqI) (simp add: bit_gnu_dev_major bit_gnu_dev_makedev)
  show "gnu_dev_minor (gnu_dev_makedev major minor) = minor"
    by (rule bit_word_eqI) (simp add: bit_gnu_dev_minor bit_gnu_dev_makedev)
  show "gnu_dev_makedev (gnu_dev_major dev) (gnu_dev_minor dev) = dev"
    by (rule bit_word_eqI) (auto simp: bit_gnu_dev_major bit_gnu_dev_minor bit_gnu_dev_makedev)
qed

text \<open>
  Time arithmetic is exact: adding or subtracting two normal time values stores the normal value of
  their sum or difference in microseconds at the result, also when the result is one of the operands,
  and leaves every other value alone; subtracting what was added restores the value; the comparison
  macro with \<open>==\<close> or a strict comparison compares microseconds.
\<close>

theorem timeval_arithmetic:
  assumes "normal (mem a)" and "normal (mem b)"
  shows "normal (timeradd mem a b c c) \<and> micros (timeradd mem a b c c) = micros (mem a) + micros (mem b) \<and>
    normal (timersub mem a b c c) \<and> micros (timersub mem a b c c) = micros (mem a) - micros (mem b) \<and>
    (timeradd mem a b c)(c := mem c) = mem \<and> (timersub mem a b c)(c := mem c) = mem \<and>
    (b \<noteq> c \<longrightarrow> timersub (timeradd mem a b c) c b c c = mem a) \<and>
    (timercmp (mem a) (mem b) (<) \<longleftrightarrow> micros (mem a) < micros (mem b)) \<and>
    (timercmp (mem a) (mem b) (=) \<longleftrightarrow> micros (mem a) = micros (mem b)) \<and>
    (timerisset (mem a) \<longleftrightarrow> micros (mem a) \<noteq> 0) \<and> \<not> timerisset (timerclear mem a a)"
proof -
  have "timersub (timeradd mem a b c) c b c c = mem a" if "b \<noteq> c"
  proof (rule timeval_eqI)
    have b: "timeradd mem a b c b = mem b" using that by (simp add: timeradd_eq)
    show "normal (timersub (timeradd mem a b c) c b c c)"
      and "micros (timersub (timeradd mem a b c) c b c c) = micros (mem a)"
      using timersub_ok [of "timeradd mem a b c" c b c] timeradd_ok [OF assms, of c] assms(2) b by simp_all
  qed (rule assms(1))
  moreover have "(timeradd mem a b c)(c := mem c) = mem" "(timersub mem a b c)(c := mem c) = mem"
    by (simp_all add: timeradd_eq timersub_eq)
  moreover have "\<not> timerisset (timerclear mem a a)" by (simp add: timerisset_def timerclear_def Let_def)
  ultimately show ?thesis
    using timeradd_ok [OF assms] timersub_ok [OF assms] timercmp_micros [OF assms] timerisset_micros [OF assms(1)] by simp
qed

theorem timeval_arithmetic_witness:
  "timeradd (\<lambda>_. \<lparr>tv_sec = 1, tv_usec = 700000\<rparr>) 0 1 0 0 = \<lparr>tv_sec = 3, tv_usec = 400000\<rparr> \<and>
   micros (timeradd (\<lambda>_. \<lparr>tv_sec = 1, tv_usec = 700000\<rparr>) 0 1 0 0) = 3400000"
  using timeval_arithmetic [of "\<lambda>_. \<lparr>tv_sec = 1, tv_usec = 700000\<rparr>" 0 1 0]
  by (simp add: normal_def micros_def timeradd_def Let_def)

end
