(* ===== verification/Bit_Sets.thy ===== *)
theory Bit_Sets
  imports C_Integers
begin

unbundle bit_operations_syntax

text \<open>
  Sets of small numbers as arrays of words: processor sets (\<open>bits/cpu-set.h\<close>, \<open>sched.h\<close>), file descriptor
  sets (\<open>sys/select.h\<close>, \<open>bits/select.h\<close>) and chunk maps (\<open>linux/netfilter/xt_sctp.h\<close>). A name with leading
  underscores carries the prefix us. The macros with a body for GNU C and one for other compilers take
  the choice as an argument; \<open>memset\<close> and \<open>memcmp\<close> act on the bytes of the words, the least significant
  one first. The results of the macro expressions that only store are not used. The locale \<open>bit_set\<close> is
  the interface the three families share.
\<close>

section \<open>Processor sets\<close>

definition us_CPU_SETSIZE :: nat where
  "us_CPU_SETSIZE = 1024"

definition us_NCPUBITS :: nat where
  "us_NCPUBITS = 8 * 8"

definition us_CPUELT :: "nat \<Rightarrow> nat" where
  "us_CPUELT cpu = cpu div us_NCPUBITS"

definition us_CPUMASK :: "nat \<Rightarrow> u64" where
  "us_CPUMASK cpu = push_bit (cpu mod us_NCPUBITS) 1"

definition sizeof_cpu_set_t :: nat where
  "sizeof_cpu_set_t = (us_CPU_SETSIZE div us_NCPUBITS) * 8"

definition us_CPU_ZERO_S :: "bool \<Rightarrow> nat \<Rightarrow> u64 list \<Rightarrow> u64 list" where
  "us_CPU_ZERO_S gnuc setsize bits =
    (if gnuc then map (\<lambda>i. bits ! i AND NOT (mask (8 * (setsize - 8 * i)))) [0..<length bits]
     else fold (\<lambda>i bits. bits[i := 0]) [0..<setsize div 8] bits)"

definition us_CPU_SET_S :: "nat \<Rightarrow> nat \<Rightarrow> u64 list \<Rightarrow> u64 list" where
  "us_CPU_SET_S cpu setsize bits =
    (if cpu div 8 < setsize then bits[us_CPUELT cpu := bits ! us_CPUELT cpu OR us_CPUMASK cpu] else bits)"

definition us_CPU_CLR_S :: "nat \<Rightarrow> nat \<Rightarrow> u64 list \<Rightarrow> u64 list" where
  "us_CPU_CLR_S cpu setsize bits =
    (if cpu div 8 < setsize then bits[us_CPUELT cpu := bits ! us_CPUELT cpu AND NOT (us_CPUMASK cpu)] else bits)"

definition us_CPU_ISSET_S :: "nat \<Rightarrow> nat \<Rightarrow> u64 list \<Rightarrow> bool" where
  "us_CPU_ISSET_S cpu setsize bits \<longleftrightarrow>
    (if cpu div 8 < setsize then bits ! us_CPUELT cpu AND us_CPUMASK cpu \<noteq> 0 else False)"

definition us_CPU_EQUAL_S :: "bool \<Rightarrow> nat \<Rightarrow> u64 list \<Rightarrow> u64 list \<Rightarrow> bool" where
  "us_CPU_EQUAL_S gnuc setsize arr1 arr2 \<longleftrightarrow>
    (if gnuc then
       list_all (\<lambda>i. take_bit (8 * (setsize - 8 * i)) (arr1 ! i) = take_bit (8 * (setsize - 8 * i)) (arr2 ! i))
         [0..<(setsize + 7) div 8]
     else
       let imax = setsize div 8;
           i = length (takeWhile (\<lambda>i. \<not> arr1 ! i \<noteq> arr2 ! i) [0..<imax])
       in i = imax)"

text \<open>The three sets of an operation may be the same, so they are addresses in a store.\<close>

definition us_CPU_OP_S ::
    "(nat \<Rightarrow> u64 list) \<Rightarrow> nat \<Rightarrow> nat \<Rightarrow> nat \<Rightarrow> nat \<Rightarrow> (u64 \<Rightarrow> u64 \<Rightarrow> u64) \<Rightarrow> (nat \<Rightarrow> u64 list)" where
  "us_CPU_OP_S mem setsize destset srcset1 srcset2 op =
    (let imax = setsize div 8
     in fold (\<lambda>i mem. mem(destset := (mem destset)[i := op (mem srcset1 ! i) (mem srcset2 ! i)])) [0..<imax] mem)"

definition us_CPU_ALLOC_SIZE :: "nat \<Rightarrow> nat" where
  "us_CPU_ALLOC_SIZE count = ((count + us_NCPUBITS - 1) div us_NCPUBITS) * 8"

definition CPU_SET :: "nat \<Rightarrow> u64 list \<Rightarrow> u64 list" where
  "CPU_SET cpu cpusetp = us_CPU_SET_S cpu sizeof_cpu_set_t cpusetp"

definition CPU_CLR :: "nat \<Rightarrow> u64 list \<Rightarrow> u64 list" where
  "CPU_CLR cpu cpusetp = us_CPU_CLR_S cpu sizeof_cpu_set_t cpusetp"

definition CPU_ISSET :: "nat \<Rightarrow> u64 list \<Rightarrow> bool" where
  "CPU_ISSET cpu cpusetp = us_CPU_ISSET_S cpu sizeof_cpu_set_t cpusetp"

definition CPU_ZERO :: "bool \<Rightarrow> u64 list \<Rightarrow> u64 list" where
  "CPU_ZERO gnuc cpusetp = us_CPU_ZERO_S gnuc sizeof_cpu_set_t cpusetp"

definition CPU_EQUAL :: "bool \<Rightarrow> u64 list \<Rightarrow> u64 list \<Rightarrow> bool" where
  "CPU_EQUAL gnuc cpusetp1 cpusetp2 = us_CPU_EQUAL_S gnuc sizeof_cpu_set_t cpusetp1 cpusetp2"

definition CPU_AND :: "(nat \<Rightarrow> u64 list) \<Rightarrow> nat \<Rightarrow> nat \<Rightarrow> nat \<Rightarrow> (nat \<Rightarrow> u64 list)" where
  "CPU_AND mem destset srcset1 srcset2 = us_CPU_OP_S mem sizeof_cpu_set_t destset srcset1 srcset2 (AND)"

definition CPU_OR :: "(nat \<Rightarrow> u64 list) \<Rightarrow> nat \<Rightarrow> nat \<Rightarrow> nat \<Rightarrow> (nat \<Rightarrow> u64 list)" where
  "CPU_OR mem destset srcset1 srcset2 = us_CPU_OP_S mem sizeof_cpu_set_t destset srcset1 srcset2 (OR)"

definition CPU_XOR :: "(nat \<Rightarrow> u64 list) \<Rightarrow> nat \<Rightarrow> nat \<Rightarrow> nat \<Rightarrow> (nat \<Rightarrow> u64 list)" where
  "CPU_XOR mem destset srcset1 srcset2 = us_CPU_OP_S mem sizeof_cpu_set_t destset srcset1 srcset2 (XOR)"

definition CPU_AND_S :: "(nat \<Rightarrow> u64 list) \<Rightarrow> nat \<Rightarrow> nat \<Rightarrow> nat \<Rightarrow> nat \<Rightarrow> (nat \<Rightarrow> u64 list)" where
  "CPU_AND_S mem setsize destset srcset1 srcset2 = us_CPU_OP_S mem setsize destset srcset1 srcset2 (AND)"

definition CPU_OR_S :: "(nat \<Rightarrow> u64 list) \<Rightarrow> nat \<Rightarrow> nat \<Rightarrow> nat \<Rightarrow> nat \<Rightarrow> (nat \<Rightarrow> u64 list)" where
  "CPU_OR_S mem setsize destset srcset1 srcset2 = us_CPU_OP_S mem setsize destset srcset1 srcset2 (OR)"

definition CPU_XOR_S :: "(nat \<Rightarrow> u64 list) \<Rightarrow> nat \<Rightarrow> nat \<Rightarrow> nat \<Rightarrow> nat \<Rightarrow> (nat \<Rightarrow> u64 list)" where
  "CPU_XOR_S mem setsize destset srcset1 srcset2 = us_CPU_OP_S mem setsize destset srcset1 srcset2 (XOR)"

section \<open>File descriptor sets\<close>

definition us_NFDBITS :: nat where
  "us_NFDBITS = 8 * 8"

definition us_FD_SETSIZE :: nat where
  "us_FD_SETSIZE = 1024"

definition us_FD_ELT :: "nat \<Rightarrow> nat" where
  "us_FD_ELT d = d div us_NFDBITS"

definition us_FD_MASK :: "nat \<Rightarrow> u64" where
  "us_FD_MASK d = push_bit (d mod us_NFDBITS) 1"

definition us_FD_ZERO :: "u64 list \<Rightarrow> u64 list" where
  "us_FD_ZERO arr = fold (\<lambda>i arr. arr[i := 0]) [0..<us_FD_SETSIZE div us_NFDBITS] arr"

definition us_FD_SET :: "nat \<Rightarrow> u64 list \<Rightarrow> u64 list" where
  "us_FD_SET d arr = arr[us_FD_ELT d := arr ! us_FD_ELT d OR us_FD_MASK d]"

definition us_FD_CLR :: "nat \<Rightarrow> u64 list \<Rightarrow> u64 list" where
  "us_FD_CLR d arr = arr[us_FD_ELT d := arr ! us_FD_ELT d AND NOT (us_FD_MASK d)]"

definition us_FD_ISSET :: "nat \<Rightarrow> u64 list \<Rightarrow> bool" where
  "us_FD_ISSET d arr \<longleftrightarrow> arr ! us_FD_ELT d AND us_FD_MASK d \<noteq> 0"

section \<open>Chunk maps\<close>

definition chunkmap_words :: nat where
  "chunkmap_words = 256 div 4"

definition bits_of_u32 :: nat where
  "bits_of_u32 = 4 * 8"

definition SCTP_CHUNKMAP_SET :: "u32 list \<Rightarrow> nat \<Rightarrow> u32 list" where
  "SCTP_CHUNKMAP_SET chunkmap ty =
    chunkmap[ty div bits_of_u32 := chunkmap ! (ty div bits_of_u32) OR push_bit (ty mod bits_of_u32) 1]"

definition SCTP_CHUNKMAP_CLEAR :: "u32 list \<Rightarrow> nat \<Rightarrow> u32 list" where
  "SCTP_CHUNKMAP_CLEAR chunkmap ty =
    chunkmap[ty div bits_of_u32 := chunkmap ! (ty div bits_of_u32) AND NOT (push_bit (ty mod bits_of_u32) 1)]"

definition SCTP_CHUNKMAP_IS_SET :: "u32 list \<Rightarrow> nat \<Rightarrow> bool" where
  "SCTP_CHUNKMAP_IS_SET chunkmap ty \<longleftrightarrow>
    chunkmap ! (ty div bits_of_u32) AND push_bit (ty mod bits_of_u32) 1 \<noteq> 0"

definition SCTP_CHUNKMAP_RESET :: "u32 list \<Rightarrow> u32 list" where
  "SCTP_CHUNKMAP_RESET chunkmap = map (\<lambda>_. 0) chunkmap"

definition SCTP_CHUNKMAP_SET_ALL :: "u32 list \<Rightarrow> u32 list" where
  "SCTP_CHUNKMAP_SET_ALL chunkmap = map (\<lambda>_. - 1) chunkmap"

definition SCTP_CHUNKMAP_COPY :: "u32 list \<Rightarrow> u32 list \<Rightarrow> u32 list" where
  "SCTP_CHUNKMAP_COPY destmap srcmap = memcpy destmap 0 srcmap 0 (length srcmap)"

fun sctp_chunkmap_is_clear :: "u32 list \<Rightarrow> nat \<Rightarrow> nat \<Rightarrow> bool" where
  "sctp_chunkmap_is_clear chunkmap i 0 = True"
| "sctp_chunkmap_is_clear chunkmap i (Suc n) =
    (if chunkmap ! i \<noteq> 0 then False else sctp_chunkmap_is_clear chunkmap (Suc i) n)"

fun sctp_chunkmap_is_all_set :: "u32 list \<Rightarrow> nat \<Rightarrow> nat \<Rightarrow> bool" where
  "sctp_chunkmap_is_all_set chunkmap i 0 = True"
| "sctp_chunkmap_is_all_set chunkmap i (Suc n) =
    (if chunkmap ! i \<noteq> - 1 then False else sctp_chunkmap_is_all_set chunkmap (Suc i) n)"

definition SCTP_CHUNKMAP_IS_CLEAR :: "u32 list \<Rightarrow> bool" where
  "SCTP_CHUNKMAP_IS_CLEAR chunkmap = sctp_chunkmap_is_clear chunkmap 0 (length chunkmap)"

definition SCTP_CHUNKMAP_IS_ALL_SET :: "u32 list \<Rightarrow> bool" where
  "SCTP_CHUNKMAP_IS_ALL_SET chunkmap = sctp_chunkmap_is_all_set chunkmap 0 (length chunkmap)"

section \<open>Words as sets\<close>

definition word_members :: "'a::len word list \<Rightarrow> nat set" where
  "word_members ws = {d. d div LENGTH('a) < length ws \<and> bit (ws ! (d div LENGTH('a))) (d mod LENGTH('a))}"

lemma bit_one_at: "bit (2 ^ k :: 'a::len word) n \<longleftrightarrow> n = k \<and> k < LENGTH('a)"
  by (auto simp: bit_exp_iff)

lemma mask_test: "k < LENGTH('a) \<Longrightarrow> (w :: 'a::len word) AND push_bit k 1 \<noteq> 0 \<longleftrightarrow> bit w k"
  by (simp add: push_bit_of_1 and_exp_eq_0_iff_not_bit)

lemma same_position:
  fixes n :: nat
  shows "c div n = d div n \<Longrightarrow> c mod n = d mod n \<Longrightarrow> c = d"
  by (metis div_mult_mod_eq)

lemma word_members_add:
  fixes ws :: "'a::len word list"
  assumes "c div LENGTH('a) < length ws"
  shows "word_members (ws[c div LENGTH('a) := ws ! (c div LENGTH('a)) OR push_bit (c mod LENGTH('a)) 1]) =
    insert c (word_members ws)"
  using assms
  by (auto simp: word_members_def nth_list_update bit_or_iff bit_one_at split: if_splits dest: same_position)

lemma word_members_del:
  fixes ws :: "'a::len word list"
  assumes "c div LENGTH('a) < length ws"
  shows "word_members (ws[c div LENGTH('a) := ws ! (c div LENGTH('a)) AND NOT (push_bit (c mod LENGTH('a)) 1)]) =
    word_members ws - {c}"
  using assms
  by (auto simp: word_members_def nth_list_update bit_and_iff bit_not_iff bit_one_at split: if_splits dest: same_position)

lemma word_members_test:
  fixes ws :: "'a::len word list"
  assumes "c div LENGTH('a) < length ws"
  shows "ws ! (c div LENGTH('a)) AND push_bit (c mod LENGTH('a)) 1 \<noteq> 0 \<longleftrightarrow> c \<in> word_members ws"
  using assms by (subst mask_test) (simp_all add: word_members_def)

lemma fold_zero: "n \<le> length ws \<Longrightarrow> fold (\<lambda>i ws. ws[i := 0]) [0..<n] ws = replicate n 0 @ drop n ws"
proof (induction n)
  case (Suc n)
  then have "drop n ws = ws ! n # drop (Suc n) ws" by (simp add: Cons_nth_drop_Suc)
  then show ?case using Suc by (simp add: list_update_append replicate_append_same)
qed simp

lemma nth_fold_zero:
  "n \<le> length ws \<Longrightarrow> i < length ws \<Longrightarrow> fold (\<lambda>i ws. ws[i := 0]) [0..<n] ws ! i = (if i < n then 0 else ws ! i)"
  by (simp add: fold_zero nth_append)

definition store_word :: "nat \<Rightarrow> nat \<Rightarrow> nat \<Rightarrow> ('a \<Rightarrow> 'a \<Rightarrow> 'a) \<Rightarrow> nat \<Rightarrow> (nat \<Rightarrow> 'a list) \<Rightarrow> (nat \<Rightarrow> 'a list)" where
  "store_word d a b f i mem = mem(d := (mem d)[i := f (mem a ! i) (mem b ! i)])"

lemma fold_pointwise:
  assumes "n \<le> length (mem d)"
  shows "fold (store_word d a b f) [0..<n] mem = mem(d := map (\<lambda>i. f (mem a ! i) (mem b ! i)) [0..<n] @ drop n (mem d))"
  using assms
proof (induction n)
  case (Suc n)
  let ?m = "mem(d := map (\<lambda>i. f (mem a ! i) (mem b ! i)) [0..<n] @ drop n (mem d))"
  have later: "?m s ! n = mem s ! n" for s using Suc.prems by (auto simp: nth_append)
  have "drop n (mem d) = mem d ! n # drop (Suc n) (mem d)" using Suc.prems by (simp add: Cons_nth_drop_Suc)
  then have upd: "(?m d)[n := v] = map (\<lambda>i. f (mem a ! i) (mem b ! i)) [0..<n] @ v # drop (Suc n) (mem d)" for v
    by (simp add: list_update_append)
  have "fold (store_word d a b f) [0..<Suc n] mem = store_word d a b f n (fold (store_word d a b f) [0..<n] mem)"
    by simp
  also have "\<dots> = store_word d a b f n ?m" using Suc by (simp only: Suc_leD)
  also have "\<dots> = mem(d := map (\<lambda>i. f (mem a ! i) (mem b ! i)) [0..<Suc n] @ drop (Suc n) (mem d))"
    unfolding store_word_def later upd by simp
  finally show ?case .
qed simp

section \<open>The common interface\<close>

locale bit_set =
  fixes members :: "'m \<Rightarrow> nat set" and ok :: "'m \<Rightarrow> bool" and limit :: nat
    and add :: "nat \<Rightarrow> 'm \<Rightarrow> 'm" and del :: "nat \<Rightarrow> 'm \<Rightarrow> 'm" and test :: "nat \<Rightarrow> 'm \<Rightarrow> bool"
  assumes ok_add: "ok m \<Longrightarrow> c < limit \<Longrightarrow> ok (add c m)"
    and ok_del: "ok m \<Longrightarrow> c < limit \<Longrightarrow> ok (del c m)"
    and members_add: "ok m \<Longrightarrow> c < limit \<Longrightarrow> members (add c m) = insert c (members m)"
    and members_del: "ok m \<Longrightarrow> c < limit \<Longrightarrow> members (del c m) = members m - {c}"
    and test_iff: "ok m \<Longrightarrow> c < limit \<Longrightarrow> test c m \<longleftrightarrow> c \<in> members m"
begin

lemma add_all:
  "ok m \<Longrightarrow> set cs \<subseteq> {..<limit} \<Longrightarrow> ok (fold add cs m) \<and> members (fold add cs m) = set cs \<union> members m"
  by (induction cs arbitrary: m) (auto simp: ok_add members_add)

lemma del_all:
  "ok m \<Longrightarrow> set cs \<subseteq> {..<limit} \<Longrightarrow> ok (fold del cs m) \<and> members (fold del cs m) = members m - set cs"
  by (induction cs arbitrary: m) (auto simp: ok_del members_del)

lemma test_add_del:
  assumes "ok m" and "set cs \<subseteq> {..<limit}" and "set ds \<subseteq> {..<limit}" and "c < limit"
  shows "test c (fold del ds (fold add cs m)) \<longleftrightarrow> c \<notin> set ds \<and> (c \<in> set cs \<or> c \<in> members m)"
  using assms add_all [OF assms(1,2)] del_all [of "fold add cs m" ds] by (auto simp: test_iff)

end

definition cpus :: "nat \<Rightarrow> u64 list \<Rightarrow> nat set" where
  "cpus setsize bits = {c \<in> word_members bits. c div 8 < setsize}"

lemmas cpu_defs = us_CPU_SET_S_def us_CPU_CLR_S_def us_CPU_ISSET_S_def us_CPUELT_def us_CPUMASK_def us_NCPUBITS_def

lemma cpu_room: "n \<le> 8 * length bits \<Longrightarrow> c div 8 < n \<Longrightarrow> c div 64 < length (bits :: u64 list)"
  by auto

lemma cpus_set: "n \<le> 8 * length bits \<Longrightarrow> c div 8 < n \<Longrightarrow> cpus n (us_CPU_SET_S c n bits) = insert c (cpus n bits)"
  using word_members_add [of c bits] cpu_room [of n bits c] by (auto simp: cpu_defs cpus_def)

lemma cpus_clr: "n \<le> 8 * length bits \<Longrightarrow> c div 8 < n \<Longrightarrow> cpus n (us_CPU_CLR_S c n bits) = cpus n bits - {c}"
  using word_members_del [of c bits] cpu_room [of n bits c] by (auto simp: cpu_defs cpus_def)

lemma cpus_isset: "n \<le> 8 * length bits \<Longrightarrow> us_CPU_ISSET_S c n bits \<longleftrightarrow> c \<in> cpus n bits"
  using word_members_test [of c bits] cpu_room [of n bits c] by (auto simp: cpu_defs cpus_def)

interpretation cpu_bits: bit_set "cpus n" "\<lambda>bits. n \<le> 8 * length bits" "8 * n"
    "\<lambda>c. us_CPU_SET_S c n" "\<lambda>c. us_CPU_CLR_S c n" "\<lambda>c. us_CPU_ISSET_S c n" for n
proof
  fix bits :: "u64 list" and c :: nat
  assume n: "n \<le> 8 * length bits" "c < 8 * n"
  then have "c div 8 < n" by auto
  with n(1) show "cpus n (us_CPU_SET_S c n bits) = insert c (cpus n bits)"
    "cpus n (us_CPU_CLR_S c n bits) = cpus n bits - {c}" "us_CPU_ISSET_S c n bits \<longleftrightarrow> c \<in> cpus n bits"
    by (simp_all add: cpus_set cpus_clr cpus_isset)
qed (simp_all add: cpu_defs)

lemmas fd_defs = us_FD_SET_def us_FD_CLR_def us_FD_ISSET_def us_FD_ELT_def us_FD_MASK_def us_NFDBITS_def us_FD_SETSIZE_def

lemma fd_room: "length arr = 16 \<Longrightarrow> d < 1024 \<Longrightarrow> d div 64 < length (arr :: u64 list)"
  by auto

interpretation fd_bits: bit_set word_members "\<lambda>arr. length arr = 16" us_FD_SETSIZE us_FD_SET us_FD_CLR us_FD_ISSET
proof
  fix arr :: "u64 list" and d :: nat
  assume a: "length arr = 16" "d < us_FD_SETSIZE"
  note room = fd_room [OF a(1), of d]
  show "word_members (us_FD_SET d arr) = insert d (word_members arr)"
    "word_members (us_FD_CLR d arr) = word_members arr - {d}" "us_FD_ISSET d arr \<longleftrightarrow> d \<in> word_members arr"
    using word_members_add [of d arr] word_members_del [of d arr] word_members_test [of d arr] room a(2)
    by (simp_all add: fd_defs)
qed (simp_all add: fd_defs)

lemmas chunk_defs = SCTP_CHUNKMAP_SET_def SCTP_CHUNKMAP_CLEAR_def SCTP_CHUNKMAP_IS_SET_def bits_of_u32_def chunkmap_words_def

interpretation chunk_bits: bit_set word_members "\<lambda>m. length m = chunkmap_words" 256
    "\<lambda>ty m. SCTP_CHUNKMAP_SET m ty" "\<lambda>ty m. SCTP_CHUNKMAP_CLEAR m ty" "\<lambda>ty m. SCTP_CHUNKMAP_IS_SET m ty"
proof
  fix m :: "u32 list" and ty :: nat
  assume a: "length m = chunkmap_words" "ty < (256 :: nat)"
  then have room: "ty div 32 < length m" by (simp add: chunkmap_words_def) 
  show "word_members (SCTP_CHUNKMAP_SET m ty) = insert ty (word_members m)"
    "word_members (SCTP_CHUNKMAP_CLEAR m ty) = word_members m - {ty}" "SCTP_CHUNKMAP_IS_SET m ty \<longleftrightarrow> ty \<in> word_members m"
    using word_members_add [of ty m] word_members_del [of ty m] word_members_test [of ty m] room
    by (simp_all add: chunk_defs)
qed (simp_all add: chunk_defs)

section \<open>Whole sets\<close>

lemma in_cpus: "c \<in> cpus n bits \<longleftrightarrow> c div 64 < length bits \<and> bit (bits ! (c div 64)) (c mod 64) \<and> c div 8 < n"
  by (auto simp: cpus_def word_members_def)

lemma cpu_word: "i < k \<Longrightarrow> m < 64 \<Longrightarrow> (64 * i + m) div 64 = i \<and> (64 * i + m) mod 64 = m \<and> (64 * i + m) div 8 < 8 * (k :: nat)"
  by auto

lemma cpus_zero:
  assumes "n = 8 * k" and "k \<le> length bits"
  shows "cpus n (us_CPU_ZERO_S gnuc n bits) = {}"
proof -
  have "\<not> bit (us_CPU_ZERO_S gnuc n bits ! (c div 64)) (c mod 64)" if "c div 64 < length bits" "c div 8 < n" for c
  proof (cases gnuc)
    case True
    have "c div 64 < k" using that(2) assms(1) by auto
    then have "8 * (n - 8 * (c div 64)) \<ge> 64" using assms(1) by (simp add: diff_mult_distrib2 [symmetric])
    then have "c mod 64 < 8 * (n - 8 * (c div 64))" using mod_less_divisor [of 64 c] by linarith
    then show ?thesis using that(1) True by (simp add: us_CPU_ZERO_S_def bit_and_iff bit_not_iff bit_mask_iff)
  next
    case False
    have "c div 64 < k" using that(2) assms(1) by auto
    then show ?thesis using False assms that(1) by (simp add: us_CPU_ZERO_S_def nth_fold_zero)
  qed
  moreover have "length (us_CPU_ZERO_S gnuc n bits) = length bits"
    using assms by (cases gnuc) (simp_all add: us_CPU_ZERO_S_def fold_zero)
  ultimately show ?thesis by (auto simp: in_cpus)
qed

lemma cpus_eq_iff:
  assumes "n = 8 * k" and "k \<le> length a" "k \<le> length b"
  shows "cpus n a = cpus n b \<longleftrightarrow> (\<forall>i < k. a ! i = b ! i)"
proof
  assume eq: "cpus n a = cpus n b"
  show "\<forall>i < k. a ! i = b ! i"
  proof (intro allI impI)
    fix i assume i: "i < k"
    show "a ! i = b ! i"
    proof (rule bit_word_eqI)
      fix m assume "m < LENGTH(64)"
      then have "m < 64" by simp
      note pos = cpu_word [OF i this]
      have "64 * i + m \<in> cpus n a \<longleftrightarrow> 64 * i + m \<in> cpus n b" using eq by simp
      then show "bit (a ! i) m = bit (b ! i) m" using pos i assms unfolding in_cpus by simp
    qed
  qed
next
  assume eq: "\<forall>i < k. a ! i = b ! i"
  have word: "c div 64 < k" if "c div 8 < n" for c using that assms(1) by auto
  have "c \<in> cpus n a \<longleftrightarrow> c \<in> cpus n b" for c
    using eq word [of c] assms(2,3) unfolding in_cpus by auto
  then show "cpus n a = cpus n b" by blast
qed

lemma cpu_equal:
  assumes "n = 8 * k"
  shows "us_CPU_EQUAL_S gnuc n a b \<longleftrightarrow> (\<forall>i < k. a ! i = b ! i)"
proof (cases gnuc)
  case True
  have "take_bit (8 * (n - 8 * i)) w = w" if "i < k" for i and w :: u64
    using that assms by (intro bit_word_eqI) (auto simp: bit_take_bit_iff)
  moreover have "(n + 7) div 8 = k" using assms by simp
  ultimately show ?thesis using True by (auto simp: us_CPU_EQUAL_S_def list_all_iff)
next
  case False
  have "length (takeWhile (\<lambda>i. a ! i = b ! i) [0..<k]) = k \<longleftrightarrow> (\<forall>i < k. a ! i = b ! i)"
    using takeWhile_eq_all_conv [of "\<lambda>i. a ! i = b ! i" "[0..<k]"]
    by (metis (no_types, lifting) atLeastLessThan_iff atLeastLessThan_upt diff_zero le0 length_upt takeWhile_eq_take take_all_iff order_refl)
  then show ?thesis using False assms by (simp add: us_CPU_EQUAL_S_def)
qed

lemma cpus_op:
  assumes "n = 8 * k" and "k \<le> length (mem d)" "k \<le> length (mem a)" "k \<le> length (mem b)"
    and "\<And>x y m. m < 64 \<Longrightarrow> bit (f x y) m \<longleftrightarrow> g (bit x m) (bit y m)"
  shows "cpus n (us_CPU_OP_S mem n d a b f d) = {c. c div 8 < n \<and> g (c \<in> cpus n (mem a)) (c \<in> cpus n (mem b))}"
    and "(us_CPU_OP_S mem n d a b f)(d := mem d) = mem"
proof -
  have op: "us_CPU_OP_S mem n d a b f = mem(d := map (\<lambda>i. f (mem a ! i) (mem b ! i)) [0..<k] @ drop k (mem d))"
    using fold_pointwise [of k mem d a b f] assms(1,2) by (simp add: us_CPU_OP_S_def store_word_def [abs_def])
  have word: "c div 64 < k" if "c div 8 < n" for c using that assms(1) by auto
  show "cpus n (us_CPU_OP_S mem n d a b f d) = {c. c div 8 < n \<and> g (c \<in> cpus n (mem a)) (c \<in> cpus n (mem b))}"
  proof (rule set_eqI)
    fix c
    show "c \<in> cpus n (us_CPU_OP_S mem n d a b f d) \<longleftrightarrow>
        c \<in> {c. c div 8 < n \<and> g (c \<in> cpus n (mem a)) (c \<in> cpus n (mem b))}"
    proof (cases "c div 8 < n")
      case True
      then show ?thesis using word [OF True] assms(2-4) unfolding op by (simp add: in_cpus nth_append assms(5))
    qed (simp add: in_cpus)
  qed
  show "(us_CPU_OP_S mem n d a b f)(d := mem d) = mem" unfolding op by simp
qed

lemma range_first:
  "(\<forall>j. i \<le> j \<and> j < i + Suc n \<longrightarrow> P j) \<longleftrightarrow> P i \<and> (\<forall>j. Suc i \<le> j \<and> j < Suc i + n \<longrightarrow> P j)"
  by (auto simp: Suc_le_eq) (metis le_neq_implies_less)

lemma is_clear_iff: "sctp_chunkmap_is_clear m i n \<longleftrightarrow> (\<forall>j. i \<le> j \<and> j < i + n \<longrightarrow> m ! j = 0)"
  by (induction m i n rule: sctp_chunkmap_is_clear.induct) (auto simp: range_first simp del: add_Suc_right)

lemma is_all_set_iff: "sctp_chunkmap_is_all_set m i n \<longleftrightarrow> (\<forall>j. i \<le> j \<and> j < i + n \<longrightarrow> m ! j = - 1)"
  by (induction m i n rule: sctp_chunkmap_is_all_set.induct) (auto simp: range_first simp del: add_Suc_right)

lemma word_members_reset: "word_members (map (\<lambda>_. 0 :: 'a::len word) m) = {}"
  by (auto simp: word_members_def)

lemma fd_zero: "length arr = 16 \<Longrightarrow> length (us_FD_ZERO arr) = 16 \<and> word_members (us_FD_ZERO arr) = {}"
  by (simp add: us_FD_ZERO_def us_FD_SETSIZE_def us_NFDBITS_def fold_zero word_members_def)

section \<open>Properties\<close>



text \<open>
  A descriptor set remembers exactly what was put in: after clearing the set, adding some descriptors
  and then removing others, a descriptor below the limit tests positive exactly when it was added and
  not removed.
\<close>

theorem fd_set_history:
  assumes "length arr = 16" and "list_all (\<lambda>d. d < us_FD_SETSIZE) (d # cs @ ds)"
  shows "us_FD_ISSET d (fold us_FD_CLR ds (fold us_FD_SET cs (us_FD_ZERO arr))) \<longleftrightarrow> d \<in> set cs \<and> d \<notin> set ds"
  using fd_bits.test_add_del [of "us_FD_ZERO arr" cs ds d] fd_zero [OF assms(1)] assms(2)
  by (auto simp: list_all_iff subset_iff)

theorem fd_set_history_witness:
  "us_FD_ISSET 70 (fold us_FD_CLR [3] (fold us_FD_SET [3, 70] (us_FD_ZERO (replicate 16 (- 1))))) \<and>
   \<not> us_FD_ISSET 3 (fold us_FD_CLR [3] (fold us_FD_SET [3, 70] (us_FD_ZERO (replicate 16 (- 1)))))"
  using fd_set_history [of "replicate 16 (- 1)" 70 "[3, 70]" "[3]"] fd_set_history [of "replicate 16 (- 1)" 3 "[3, 70]" "[3]"]
  by (simp add: us_FD_SETSIZE_def)

text \<open>
  A chunk map in which every one of the 256 chunk types has been set is not recognised as such: each
  type tests as set, but the test for all of them fails, because the array has room for 2048 types and
  the test looks at all of it. It holds after the macro that sets all.
\<close>

theorem chunkmap_all_types:
  assumes "length m = chunkmap_words"
  shows "list_all (SCTP_CHUNKMAP_IS_SET (fold (\<lambda>ty m. SCTP_CHUNKMAP_SET m ty) [0..<256] (SCTP_CHUNKMAP_RESET m))) [0..<256] \<and>
    \<not> SCTP_CHUNKMAP_IS_ALL_SET (fold (\<lambda>ty m. SCTP_CHUNKMAP_SET m ty) [0..<256] (SCTP_CHUNKMAP_RESET m)) \<and>
    SCTP_CHUNKMAP_IS_CLEAR (SCTP_CHUNKMAP_RESET m) \<and> SCTP_CHUNKMAP_IS_ALL_SET (SCTP_CHUNKMAP_SET_ALL m)"
proof -
  let ?all = "fold (\<lambda>ty m. SCTP_CHUNKMAP_SET m ty) [0..<256] (SCTP_CHUNKMAP_RESET m)"
  have r: "length (SCTP_CHUNKMAP_RESET m) = chunkmap_words" "word_members (SCTP_CHUNKMAP_RESET m) = {}"
    using assms by (simp_all add: SCTP_CHUNKMAP_RESET_def word_members_reset)
  have all: "length ?all = chunkmap_words" "word_members ?all = {0..<256}"
    using chunk_bits.add_all [of "SCTP_CHUNKMAP_RESET m" "[0..<256]"] r by (auto simp: subset_iff)
  have "list_all (SCTP_CHUNKMAP_IS_SET ?all) [0..<256]"
    using chunk_bits.test_iff [OF all(1)] all(2) by (simp add: list_all_iff)
  moreover have "\<not> SCTP_CHUNKMAP_IS_ALL_SET ?all"
  proof
    assume "SCTP_CHUNKMAP_IS_ALL_SET ?all"
    then have "?all ! 8 = - 1" using all(1) by (simp add: SCTP_CHUNKMAP_IS_ALL_SET_def is_all_set_iff chunkmap_words_def)
    then have "256 \<in> word_members ?all" using all(1) by (simp add: word_members_def chunkmap_words_def)
    then show False by (simp add: all(2))
  qed
  moreover have "SCTP_CHUNKMAP_IS_CLEAR (SCTP_CHUNKMAP_RESET m)" "SCTP_CHUNKMAP_IS_ALL_SET (SCTP_CHUNKMAP_SET_ALL m)"
    by (simp_all add: SCTP_CHUNKMAP_IS_CLEAR_def SCTP_CHUNKMAP_RESET_def SCTP_CHUNKMAP_IS_ALL_SET_def SCTP_CHUNKMAP_SET_ALL_def
        is_clear_iff is_all_set_iff)
  ultimately show ?thesis by blast
qed

theorem chunkmap_all_types_witness:
  "\<not> SCTP_CHUNKMAP_IS_ALL_SET (fold (\<lambda>ty m. SCTP_CHUNKMAP_SET m ty) [0..<256] (SCTP_CHUNKMAP_RESET (replicate 64 0))) \<and>
   SCTP_CHUNKMAP_IS_ALL_SET (SCTP_CHUNKMAP_SET_ALL (replicate 64 0))"
proof -
  have "length (replicate 64 (0 :: u32)) = chunkmap_words" by (simp add: chunkmap_words_def)
  from chunkmap_all_types [OF this] show ?thesis by blast
qed

end
