(* ===== verification/TIPC_Config.thy ===== *)
theory TIPC_Config
  imports Byte_Swap
begin

text \<open>
  \<open>linux/tipc_config.h\<close> of the sysroot: configuration messages as sequences of type-length-value items.
  Memory is a list of bytes and a pointer an index into it; the payload to copy is a buffer of its own,
  or \<open>None\<close> for the null pointer. The fields are stored in network byte order by a little-endian host,
  through the conversions of \<open>netinet/in.h\<close>. Sizes are 64-bit words, as \<open>sizeof\<close> makes them; what is stored
  or passed as a 16-bit value is truncated.
\<close>

unbundle bit_operations_syntax

section \<open>Model\<close>

definition ntohs :: "u16 \<Rightarrow> u16" where
  "ntohs x = bswap_16 True x"

definition htons :: "u16 \<Rightarrow> u16" where
  "htons x = bswap_16 True x"

definition htonl :: "u32 \<Rightarrow> u32" where
  "htonl x = bswap_32 True x"

text \<open>Loads and stores of the host, and \<open>memset\<close>.\<close>

definition load16 :: "u8 list \<Rightarrow> nat \<Rightarrow> u16" where
  "load16 mem p = lo16 (prom (mem ! p) OR push_bit 8 (prom (mem ! (p + 1))))"

definition store16 :: "u8 list \<Rightarrow> nat \<Rightarrow> u16 \<Rightarrow> u8 list" where
  "store16 mem p v = mem[p := byte 0 v, p + 1 := byte 1 v]"

definition store32 :: "u8 list \<Rightarrow> nat \<Rightarrow> u32 \<Rightarrow> u8 list" where
  "store32 mem p v = mem[p := byte 0 v, p + 1 := byte 1 v, p + 2 := byte 2 v, p + 3 := byte 3 v]"

fun memset :: "u8 list \<Rightarrow> nat \<Rightarrow> u8 \<Rightarrow> nat \<Rightarrow> u8 list" where
  "memset mem i v 0 = mem"
| "memset mem i v (Suc n) = memset (mem[i := v]) (Suc i) v n"

definition TLV_ALIGNTO :: u64 where
  "TLV_ALIGNTO = 4"

definition TLV_ALIGN :: "u64 \<Rightarrow> u64" where
  "TLV_ALIGN datalen = (datalen + (TLV_ALIGNTO - 1)) AND NOT (TLV_ALIGNTO - 1)"

definition TLV_LENGTH :: "u64 \<Rightarrow> u64" where
  "TLV_LENGTH datalen = 4 + datalen"

definition TLV_SPACE :: "u64 \<Rightarrow> u64" where
  "TLV_SPACE datalen = TLV_ALIGN (TLV_LENGTH datalen)"

definition TLV_DATA :: "nat \<Rightarrow> nat" where
  "TLV_DATA tlv = tlv + unat (TLV_LENGTH 0)"

text \<open>The fields of \<open>struct tlv_desc\<close> at an address.\<close>

definition tlv_len :: "u8 list \<Rightarrow> nat \<Rightarrow> u16" where
  "tlv_len mem tlv = load16 mem tlv"

definition tlv_type :: "u8 list \<Rightarrow> nat \<Rightarrow> u16" where
  "tlv_type mem tlv = load16 mem (tlv + 2)"

definition TLV_OK :: "u8 list \<Rightarrow> nat \<Rightarrow> u16 \<Rightarrow> bool" where
  "TLV_OK mem tlv space \<longleftrightarrow> ucast space \<ge> TLV_SPACE 0 \<and> ntohs (tlv_len mem tlv) \<le> space"

definition TLV_CHECK :: "u8 list \<Rightarrow> nat \<Rightarrow> u16 \<Rightarrow> u16 \<Rightarrow> bool" where
  "TLV_CHECK mem tlv space exp_type \<longleftrightarrow> TLV_OK mem tlv space \<and> ntohs (tlv_type mem tlv) = exp_type"

definition TLV_GET_LEN :: "u8 list \<Rightarrow> nat \<Rightarrow> u32" where
  "TLV_GET_LEN mem tlv = prom (ntohs (tlv_len mem tlv))"

definition TLV_SET_LEN :: "u8 list \<Rightarrow> nat \<Rightarrow> u16 \<Rightarrow> u8 list" where
  "TLV_SET_LEN mem tlv len = store16 mem tlv (htons len)"

definition TLV_CHECK_TYPE :: "u8 list \<Rightarrow> nat \<Rightarrow> u16 \<Rightarrow> bool" where
  "TLV_CHECK_TYPE mem tlv ty \<longleftrightarrow> ntohs (tlv_type mem tlv) = ty"

definition TLV_SET_TYPE :: "u8 list \<Rightarrow> nat \<Rightarrow> u16 \<Rightarrow> u8 list" where
  "TLV_SET_TYPE mem tlv ty = store16 mem (tlv + 2) (htons ty)"

definition TLV_SET :: "u8 list \<Rightarrow> nat \<Rightarrow> u16 \<Rightarrow> u8 list option \<Rightarrow> u16 \<Rightarrow> u8 list \<times> u64" where
  "TLV_SET mem tlv ty data len =
    (let length' = TLV_LENGTH (ucast len);
         mem = store16 mem (tlv + 2) (htons ty);
         mem = store16 mem tlv (htons (ucast length'));
         mem = (case data of None \<Rightarrow> mem
           | Some src \<Rightarrow>
               if len = 0 then mem
               else let mem = memcpy mem (TLV_DATA tlv) src 0 (unat len)
                    in memset mem (TLV_DATA tlv + unat len) 0 (unat (TLV_SPACE (ucast len) - length')))
     in (mem, TLV_SPACE (ucast len)))"

record tlv_list_desc =
  tlv_ptr :: nat
  tlv_space :: u32

definition TLV_LIST_INIT :: "nat \<Rightarrow> u32 \<Rightarrow> tlv_list_desc" where
  "TLV_LIST_INIT data space = \<lparr>tlv_ptr = data, tlv_space = space\<rparr>"

definition TLV_LIST_EMPTY :: "tlv_list_desc \<Rightarrow> bool" where
  "TLV_LIST_EMPTY l \<longleftrightarrow> tlv_space l = 0"

definition TLV_LIST_CHECK :: "u8 list \<Rightarrow> tlv_list_desc \<Rightarrow> u16 \<Rightarrow> bool" where
  "TLV_LIST_CHECK mem l exp_type = TLV_CHECK mem (tlv_ptr l) (ucast (tlv_space l)) exp_type"

definition TLV_LIST_DATA :: "tlv_list_desc \<Rightarrow> nat" where
  "TLV_LIST_DATA l = TLV_DATA (tlv_ptr l)"

definition TLV_LIST_STEP :: "u8 list \<Rightarrow> tlv_list_desc \<Rightarrow> tlv_list_desc" where
  "TLV_LIST_STEP mem l =
    (let space = ucast (TLV_ALIGN (ucast (ntohs (tlv_len mem (tlv_ptr l))))) :: u16;
         l = l\<lparr>tlv_ptr := tlv_ptr l + unat space\<rparr>
     in l\<lparr>tlv_space := tlv_space l - prom space\<rparr>)"

definition TCM_ALIGN :: "u64 \<Rightarrow> u64" where
  "TCM_ALIGN datalen = (datalen + 3) AND NOT 3"

definition TCM_LENGTH :: "u64 \<Rightarrow> u64" where
  "TCM_LENGTH datalen = 16 + datalen"

definition TCM_SPACE :: "u64 \<Rightarrow> u64" where
  "TCM_SPACE datalen = TCM_ALIGN (TCM_LENGTH datalen)"

definition TCM_DATA :: "nat \<Rightarrow> nat" where
  "TCM_DATA tcm_hdr = tcm_hdr + unat (TCM_LENGTH 0)"

definition TCM_SET :: "u8 list \<Rightarrow> nat \<Rightarrow> u16 \<Rightarrow> u16 \<Rightarrow> u8 list option \<Rightarrow> u16 \<Rightarrow> u8 list \<times> u64" where
  "TCM_SET mem msg cmd flags data data_len =
    (let msg_len = TCM_LENGTH (ucast data_len);
         mem = store32 mem msg (htonl (ucast msg_len));
         mem = store16 mem (msg + 4) (htons cmd);
         mem = store16 mem (msg + 6) (htons flags);
         mem = (case data of None \<Rightarrow> mem
           | Some src \<Rightarrow>
               if data_len = 0 then mem
               else let mem = memcpy mem (TCM_DATA msg) src 0 (unat data_len)
                    in memset mem (TCM_DATA msg + unat data_len) 0 (unat (TCM_SPACE (ucast data_len) - msg_len)))
     in (mem, TCM_SPACE (ucast data_len)))"

section \<open>Memory\<close>

lemma length_memset [simp]: "length (memset mem i v n) = length mem"
  by (induction mem i v n rule: memset.induct) simp_all

lemma nth_memset: "j < length mem \<Longrightarrow> memset mem i v n ! j = (if i \<le> j \<and> j < i + n then v else mem ! j)"
  by (induction mem i v n rule: memset.induct) (auto simp: nth_list_update)

lemma length_store [simp]: "length (store16 mem p v) = length mem" "length (store32 mem p w) = length mem"
  by (simp_all add: store16_def store32_def)

lemma load_store16 [simp]: "p + 1 < length mem \<Longrightarrow> load16 (store16 mem p v) p = v"
  by (auto simp: load16_def store16_def c_convert_defs bit_simps bit_byte intro!: bit_word_eqI)

lemma hton_ntoh [simp]: "ntohs (htons x) = x"
  by (simp add: ntohs_def htons_def)

text \<open>Alignment rounds up to a multiple of four.\<close>

lemma align_value:
  fixes x :: u64
  assumes "unat x < 2 ^ 32"
  shows "unat ((x + 3) AND - 4) = (unat x + 3) div 4 * 4"
proof -
  have m: "(- 4 :: u64) = NOT (mask 2)" by (simp add: mask_numeral)
  have sum: "unat (x + 3) = unat x + 3" using assms by (simp add: unat_word_ariths)
  have "(x + 3) AND - 4 = push_bit 2 (drop_bit 2 (x + 3))"
    unfolding m by (rule bit_word_eqI) (auto simp: bit_simps simp del: add_2_eq_Suc)
  also have "unat \<dots> = take_bit 64 (push_bit 2 (unat (drop_bit 2 (x + 3))))"
    by (simp add: unsigned_push_bit_eq)
  also have "unat (drop_bit 2 (x + 3)) = (unat x + 3) div 4" by (simp add: unat_div sum drop_bit_eq_div)
  finally show ?thesis using assms by (simp add: push_bit_eq_mult take_bit_nat_eq_self_iff mult.commute)
qed

lemma unat_extend [simp]: "unat (ucast (x :: u16) :: u64) = unat x"
  using unat_u16 [of x] by (simp add: unsigned_ucast_eq take_bit_nat_eq_self_iff)

lemma tlv_sizes:
  "unat (TLV_LENGTH (ucast (len :: u16))) = unat len + 4" "unat (TLV_SPACE (ucast len)) = (unat len + 7) div 4 * 4"
  "unat (TLV_SPACE (ucast len) - TLV_LENGTH (ucast len)) = (unat len + 7) div 4 * 4 - (unat len + 4)"
proof -
  show l: "unat (TLV_LENGTH (ucast len)) = unat len + 4"
    using unat_u16 [of len] by (simp add: TLV_LENGTH_def unat_word_ariths)
  then show s: "unat (TLV_SPACE (ucast len)) = (unat len + 7) div 4 * 4"
    using unat_u16 [of len] by (simp add: TLV_SPACE_def TLV_ALIGN_def TLV_ALIGNTO_def align_value)
  have "TLV_LENGTH (ucast len) \<le> TLV_SPACE (ucast len)" using l s by (simp add: word_le_nat_alt)
  then show "unat (TLV_SPACE (ucast len) - TLV_LENGTH (ucast len)) = (unat len + 7) div 4 * 4 - (unat len + 4)"
    using l s by (simp add: unat_sub)
qed

lemma tlv_data [simp]: "TLV_DATA tlv = tlv + 4"
  by (simp add: TLV_DATA_def TLV_LENGTH_def)

text \<open>The memory after an item of length \<open>n\<close> and alignment \<open>s\<close> was written behind a header of \<open>h\<close> bytes.\<close>

definition written :: "u8 list \<Rightarrow> nat \<Rightarrow> nat \<Rightarrow> u8 list \<Rightarrow> nat \<Rightarrow> nat \<Rightarrow> u8 list" where
  "written mem p h src n s = memset (memcpy mem (p + h) src 0 n) (p + h + n) 0 (s - (n + h))"

lemma length_written [simp]: "length (written mem p h src n s) = length mem"
  by (simp add: written_def)

lemma nth_written:
  assumes "p + s \<le> length mem" and "n + h \<le> s" and "j < length mem"
  shows "written mem p h src n s ! j =
    (if p + h \<le> j \<and> j < p + h + n then src ! (j - (p + h)) else if p + h + n \<le> j \<and> j < p + s then 0 else mem ! j)"
  using assms by (auto simp: written_def nth_memset nth_memcpy)

lemma written_parts:
  assumes "p + s \<le> length mem" and "n + h \<le> s" and "n \<le> length src"
  shows "take n (drop (p + h) (written mem p h src n s)) = take n src"
    and "take (s - (n + h)) (drop (p + h + n) (written mem p h src n s)) = replicate (s - (n + h)) 0"
    and "take (p + h) (written mem p h src n s) = take (p + h) mem" "drop (p + s) (written mem p h src n s) = drop (p + s) mem"
  using assms by (auto intro!: nth_equalityI simp: nth_written)

lemma TLV_SET_written:
  assumes "0 < unat len"
  shows "TLV_SET mem tlv ty (Some src) len =
    (written (store16 (store16 mem (tlv + 2) (htons ty)) tlv (htons (ucast (TLV_LENGTH (ucast len))))) tlv 4 src (unat len)
       ((unat len + 7) div 4 * 4), TLV_SPACE (ucast len))"
proof -
  have "len \<noteq> 0" using assms by auto
  then show ?thesis by (simp add: TLV_SET_def Let_def written_def tlv_sizes add.assoc)
qed

lemma load16_cong: "mem ! p = mem' ! p \<Longrightarrow> mem ! (p + 1) = mem' ! (p + 1) \<Longrightarrow> load16 mem p = load16 mem' p"
  by (simp add: load16_def)

lemma load16_prefix: "take n mem = take n mem' \<Longrightarrow> p + 1 < n \<Longrightarrow> load16 mem p = load16 mem' p"
  by (rule load16_cong) (metis add_lessD1 nth_take, metis nth_take)

lemma load_other16:
  "p + 1 < q \<or> q + 1 < p \<Longrightarrow> load16 (store16 mem q v) p = load16 mem p"
  by (auto simp: load16_def store16_def nth_list_update)

lemma step_size:
  assumes "unat (ntohs (tlv_len mem (tlv_ptr l))) \<le> 65532"
  shows "unat (ucast (TLV_ALIGN (ucast (ntohs (tlv_len mem (tlv_ptr l))))) :: u16) =
    (unat (ntohs (tlv_len mem (tlv_ptr l))) + 3) div 4 * 4"
proof -
  let ?n = "ntohs (tlv_len mem (tlv_ptr l))"
  have "unat (TLV_ALIGN (ucast ?n)) = (unat ?n + 3) div 4 * 4"
    using unat_u16 [of ?n] by (simp add: TLV_ALIGN_def TLV_ALIGNTO_def align_value)
  moreover have "(unat ?n + 3) div 4 * 4 < 65536" using assms by auto
  ultimately show ?thesis by (simp add: unsigned_ucast_eq take_bit_nat_eq_self_iff)
qed

section \<open>Walking a list\<close>

text \<open>A region from \<open>p\<close> to \<open>q\<close> that holds items of the given lengths, each short enough for its aligned length.\<close>

fun tlv_chain :: "u8 list \<Rightarrow> nat \<Rightarrow> nat list \<Rightarrow> nat \<Rightarrow> bool" where
  "tlv_chain mem p [] q \<longleftrightarrow> p = q"
| "tlv_chain mem p (n # ns) q \<longleftrightarrow>
    unat (ntohs (tlv_len mem p)) = n \<and> 4 \<le> n \<and> n \<le> 65532 \<and> tlv_chain mem (p + (n + 3) div 4 * 4) ns q"

definition item_addr :: "nat \<Rightarrow> nat list \<Rightarrow> nat \<Rightarrow> nat" where
  "item_addr p ns i = p + (\<Sum>n \<leftarrow> take i ns. (n + 3) div 4 * 4)"

lemma chain_le: "tlv_chain mem p ns q \<Longrightarrow> p \<le> q \<and> (ns \<noteq> [] \<longrightarrow> p < q)"
proof (induction ns arbitrary: p)
  case (Cons n ns)
  then have "4 \<le> n" "p + (n + 3) div 4 * 4 \<le> q" by auto
  then show ?case by auto
qed simp

lemma step_chain:
  assumes "tlv_chain mem p (n # ns) q"
  shows "TLV_LIST_STEP mem (TLV_LIST_INIT p (of_nat (q - p))) =
    TLV_LIST_INIT (p + (n + 3) div 4 * 4) (of_nat (q - (p + (n + 3) div 4 * 4)))"
proof -
  let ?a = "(n + 3) div 4 * 4"
  let ?l = "TLV_LIST_INIT p (of_nat (q - p))"
  let ?w = "ucast (TLV_ALIGN (ucast (ntohs (tlv_len mem (tlv_ptr ?l))))) :: u16"
  have n: "unat (ntohs (tlv_len mem (tlv_ptr ?l))) = n" "n \<le> 65532" and q: "p + ?a \<le> q"
    using assms chain_le [of mem "p + ?a" ns q] by (auto simp: TLV_LIST_INIT_def)
  have w: "unat ?w = ?a" using step_size [of mem ?l] n by simp
  then have "?a < 65536" using unat_u16 [of ?w] by simp
  then have "prom ?w = of_nat ?a" using w by (simp add: word_unat_eq_iff unat_of_nat del: of_nat_mult of_nat_add)
  moreover have "(of_nat (q - p) :: u32) - of_nat ?a = of_nat (q - (p + ?a))" using q by (simp add: of_nat_diff)
  ultimately show ?thesis using w by (simp add: TLV_LIST_STEP_def TLV_LIST_INIT_def Let_def)
qed

lemma walk_chain:
  assumes "tlv_chain mem p ns q" and "i \<le> length ns"
  shows "(TLV_LIST_STEP mem ^^ i) (TLV_LIST_INIT p (of_nat (q - p))) =
      TLV_LIST_INIT (item_addr p ns i) (of_nat (q - item_addr p ns i)) \<and> tlv_chain mem (item_addr p ns i) (drop i ns) q"
  using assms
proof (induction i arbitrary: p ns)
  case (Suc i)
  then obtain n ms where ns: "ns = n # ms" by (cases ns) auto
  let ?p = "p + (n + 3) div 4 * 4"
  have "tlv_chain mem ?p ms q" "i \<le> length ms" using Suc.prems ns by auto
  note ih = Suc.IH [OF this]
  have "item_addr ?p ms i = item_addr p ns (Suc i)" by (simp add: item_addr_def ns)
  then show ?case
    using ih step_chain [of mem p n ms q] Suc.prems(1) unfolding ns funpow_Suc_right comp_def by simp
qed (simp add: item_addr_def)

section \<open>Properties\<close>

text \<open>
  C32. An item written with a payload that leaves room for its descriptor in 16 bits is read back: it
  passes the check of its type for every space it fits, its length counts the descriptor, the payload
  and then zeros up to the next multiple of four follow, which is the returned size, and no other byte
  of memory changes.
\<close>

theorem tlv_round_trip:
  fixes len ty space :: u16
  assumes "0 < unat len" "unat len \<le> 65531" and "unat len \<le> length src" and "tlv + (unat len + 7) div 4 * 4 \<le> length mem"
    and "unat len + 4 \<le> unat space"
  defines "mem' \<equiv> fst (TLV_SET mem tlv ty (Some src) len)" and "n \<equiv> unat (snd (TLV_SET mem tlv ty (Some src) len))"
  shows "TLV_CHECK mem' tlv space ty \<and> TLV_CHECK_TYPE mem' tlv ty \<and> unat (TLV_GET_LEN mem' tlv) = unat len + 4 \<and>
    n mod 4 = 0 \<and> unat len + 4 \<le> n \<and> n < unat len + 8 \<and>
    take (unat len) (drop (TLV_DATA tlv) mem') = take (unat len) src \<and>
    take (n - (unat len + 4)) (drop (TLV_DATA tlv + unat len) mem') = replicate (n - (unat len + 4)) 0 \<and>
    take tlv mem' = take tlv mem \<and> drop (tlv + n) mem' = drop (tlv + n) mem"
proof -
  let ?len = "ucast (TLV_LENGTH (ucast len)) :: u16"
  let ?hdr = "store16 (store16 mem (tlv + 2) (htons ty)) tlv (htons ?len)"
  let ?s = "(unat len + 7) div 4 * 4"
  have m: "mem' = written ?hdr tlv 4 src (unat len) ?s" and n: "n = ?s"
    by (simp_all add: mem'_def n_def TLV_SET_written [OF assms(1)] tlv_sizes)
  have s: "unat len + 4 \<le> ?s" "?s mod 4 = 0" "?s < unat len + 8" by auto
  note parts = written_parts [of tlv ?s ?hdr "unat len" 4 src, folded m, OF _ s(1) assms(3)]
  have room: "tlv + ?s \<le> length ?hdr" using assms(4) by simp
  have hdr: "load16 mem' p = load16 ?hdr p" if "p + 1 < tlv + 4" for p
    by (rule load16_prefix [OF parts(3) [OF room] that])
  have l: "unat ?len = unat len + 4"
    using assms(2) tlv_sizes(1) [of len] by (simp add: unsigned_ucast_eq take_bit_nat_eq_self_iff)
  have "tlv_len mem' tlv = htons ?len" "tlv_type mem' tlv = htons ty"
    using hdr [of tlv] hdr [of "tlv + 2"] assms(4) s(1) by (simp_all add: tlv_len_def tlv_type_def load_other16)
  then have "TLV_CHECK mem' tlv space ty" "TLV_CHECK_TYPE mem' tlv ty" "unat (TLV_GET_LEN mem' tlv) = unat len + 4"
    using assms(5) l tlv_sizes(2) [of 0]
    by (simp_all add: TLV_CHECK_def TLV_CHECK_TYPE_def TLV_OK_def TLV_GET_LEN_def word_le_nat_alt)
  moreover have "take tlv mem' = take tlv mem" "drop (tlv + ?s) mem' = drop (tlv + ?s) mem"
  proof -
    have "take tlv (take (tlv + 4) mem') = take tlv (take (tlv + 4) ?hdr)" by (simp only: parts(3) [OF room])
    then show "take tlv mem' = take tlv mem" by (simp add: store16_def)
    show "drop (tlv + ?s) mem' = drop (tlv + ?s) mem" unfolding parts(4) [OF room] using s(1) by (simp add: store16_def)
  qed
  ultimately show ?thesis using parts(1,2) [OF room] s unfolding n by simp
qed

theorem tlv_round_trip_witness:
  "TLV_CHECK (fst (TLV_SET (replicate 16 7) 4 9 (Some [1, 2, 3]) 3)) 4 8 9 \<and>
   take 3 (drop (TLV_DATA 4) (fst (TLV_SET (replicate 16 7) 4 9 (Some [1, 2, 3]) 3))) = [1, 2, 3]"
  using tlv_round_trip [of 3 "[1, 2, 3]" 4 "replicate 16 7" 8 9] by simp

text \<open>
  Stepping through a region of consecutive items visits each of them once, in order, and ends: after
  \<open>i\<close> steps the list descriptor is at item \<open>i\<close>, and it is empty exactly behind the last one.
\<close>

theorem tlv_list_walk:
  assumes "tlv_chain mem p ns q" and "q - p < 2 ^ 32" and "i \<le> length ns"
  shows "tlv_ptr ((TLV_LIST_STEP mem ^^ i) (TLV_LIST_INIT p (of_nat (q - p)))) = item_addr p ns i \<and>
    (TLV_LIST_EMPTY ((TLV_LIST_STEP mem ^^ i) (TLV_LIST_INIT p (of_nat (q - p)))) \<longleftrightarrow> i = length ns)"
proof -
  note w = walk_chain [OF assms(1,3)]
  have "q - item_addr p ns i < 2 ^ 32" using assms(2) by (simp add: item_addr_def)
  then have "unat (of_nat (q - item_addr p ns i) :: u32) = q - item_addr p ns i"
    by (simp add: unat_of_nat)
  then have "(of_nat (q - item_addr p ns i) :: u32) = 0 \<longleftrightarrow> q - item_addr p ns i = 0" by (metis unat_0 unat_eq_zero)
  moreover have "q - item_addr p ns i = 0 \<longleftrightarrow> i = length ns"
    using chain_le [of mem "item_addr p ns i" "drop i ns" q] w assms(3) by (cases "drop i ns") auto
  ultimately show ?thesis using w by (simp add: TLV_LIST_EMPTY_def TLV_LIST_INIT_def)
qed

theorem tlv_list_walk_witness:
  "TLV_LIST_EMPTY ((TLV_LIST_STEP [0, 5, 0, 1, 9, 0, 0, 0, 0, 4, 0, 2] ^^ 2) (TLV_LIST_INIT 0 (of_nat (12 - 0))))"
  using tlv_list_walk [of "[0, 5, 0, 1, 9, 0, 0, 0, 0, 4, 0, 2]" 0 "[5, 4]" 12 2]
  by (simp add: tlv_len_def load16_def ntohs_def builtin_bswap16_def byte_def c_convert_defs)

text \<open>
  An item with a length of 65533 or more stops a walk: the aligned length does not fit the 16 bits it
  is stored in, so a step stays where it is, although the item passes the check, and the list never
  becomes empty.
\<close>

theorem tlv_step_stuck:
  assumes "unat (ntohs (tlv_len mem p)) \<ge> 65533" and "ntohs (tlv_type mem p) = ty"
  shows "TLV_LIST_CHECK mem (TLV_LIST_INIT p 65535) ty \<and>
    (TLV_LIST_STEP mem ^^ i) (TLV_LIST_INIT p 65535) = TLV_LIST_INIT p 65535 \<and>
    \<not> TLV_LIST_EMPTY ((TLV_LIST_STEP mem ^^ i) (TLV_LIST_INIT p 65535))"
proof -
  let ?n = "ntohs (tlv_len mem p)"
  have n: "unat ?n < 65536" by (rule unat_u16)
  have "(unat ?n + 3) div 4 * 4 = 65536" using assms(1) n by auto
  then have "unat (TLV_ALIGN (ucast ?n)) = 65536"
    using n by (simp add: TLV_ALIGN_def TLV_ALIGNTO_def align_value)
  then have "(ucast (TLV_ALIGN (ucast ?n)) :: u16) = 0"
    by (simp add: word_unat_eq_iff unsigned_ucast_eq take_bit_eq_mod)
  then have step: "TLV_LIST_STEP mem (TLV_LIST_INIT p 65535) = TLV_LIST_INIT p 65535"
    by (simp add: TLV_LIST_STEP_def TLV_LIST_INIT_def Let_def)
  have "(TLV_LIST_STEP mem ^^ i) (TLV_LIST_INIT p 65535) = TLV_LIST_INIT p 65535" by (induction i) (simp_all add: step)
  moreover have "TLV_LIST_CHECK mem (TLV_LIST_INIT p 65535) ty"
    using assms(2) n tlv_sizes(2) [of 0]
    by (simp add: TLV_LIST_CHECK_def TLV_LIST_INIT_def TLV_CHECK_def TLV_OK_def word_le_nat_alt)
  ultimately show ?thesis by (simp add: TLV_LIST_EMPTY_def TLV_LIST_INIT_def)
qed

theorem tlv_step_stuck_witness:
  "TLV_LIST_STEP [0xff, 0xfd, 0, 1] (TLV_LIST_INIT 0 65535) = TLV_LIST_INIT 0 65535"
  using tlv_step_stuck [of "[0xff, 0xfd, 0, 1]" 0 1 1]
  by (simp add: tlv_len_def tlv_type_def load16_def ntohs_def builtin_bswap16_def byte_def c_convert_defs)

lemma tcm_sizes:
  "unat (TCM_LENGTH (ucast (len :: u16))) = unat len + 16" "unat (TCM_SPACE (ucast len)) = (unat len + 19) div 4 * 4"
  "unat (TCM_SPACE (ucast len) - TCM_LENGTH (ucast len)) = (unat len + 19) div 4 * 4 - (unat len + 16)"
proof -
  show l: "unat (TCM_LENGTH (ucast len)) = unat len + 16"
    using unat_u16 [of len] by (simp add: TCM_LENGTH_def unat_word_ariths)
  then show s: "unat (TCM_SPACE (ucast len)) = (unat len + 19) div 4 * 4"
    using unat_u16 [of len] by (simp add: TCM_SPACE_def TCM_ALIGN_def align_value)
  have "TCM_LENGTH (ucast len) \<le> TCM_SPACE (ucast len)" using l s by (simp add: word_le_nat_alt)
  then show "unat (TCM_SPACE (ucast len) - TCM_LENGTH (ucast len)) = (unat len + 19) div 4 * 4 - (unat len + 16)"
    using l s by (simp add: unat_sub)
qed

text \<open>
  A configuration message is written as its header demands: the payload follows the sixteen
  header bytes and zeros fill up to the returned size.
\<close>

theorem tcm_payload:
  fixes len cmd flags :: u16
  assumes "0 < unat len" "unat len \<le> length src" and "msg + (unat len + 19) div 4 * 4 \<le> length mem"
  defines "mem' \<equiv> fst (TCM_SET mem msg cmd flags (Some src) len)" and "n \<equiv> unat (snd (TCM_SET mem msg cmd flags (Some src) len))"
  shows "n = (unat len + 19) div 4 * 4 \<and> take (unat len) (drop (TCM_DATA msg) mem') = take (unat len) src \<and>
    take (n - (unat len + 16)) (drop (TCM_DATA msg + unat len) mem') = replicate (n - (unat len + 16)) 0"
proof -
  have "len \<noteq> 0" using assms(1) by auto
  have d: "TCM_DATA msg = msg + 16" by (simp add: TCM_DATA_def TCM_LENGTH_def)
  let ?hdr = "store16 (store16 (store32 mem msg (htonl (ucast (TCM_LENGTH (ucast len))))) (msg + 4) (htons cmd)) (msg + 6) (htons flags)"
  have "mem' = written ?hdr msg 16 src (unat len) ((unat len + 19) div 4 * 4)" "n = (unat len + 19) div 4 * 4"
    using \<open>len \<noteq> 0\<close> by (simp_all add: mem'_def n_def TCM_SET_def Let_def written_def tcm_sizes d add.assoc)
  then show ?thesis using written_parts(1,2) [of msg "(unat len + 19) div 4 * 4" ?hdr "unat len" 16 src] assms(2,3) d by simp
qed

end
