(* ===== verification/USB_Descriptors.thy ===== *)
theory USB_Descriptors
  imports C_Integers "HOL-Library.Monad_Syntax"
begin

unbundle bit_operations_syntax

text \<open>
  \<open>linux/usb/ch9.h\<close> and \<open>linux/usb/audio.h\<close> of the sysroot: what the inline functions read from USB
  descriptors. An endpoint descriptor is a record. The audio unit descriptors have fields whose
  positions depend on earlier bytes, so they are the bytes in memory; a pointer into one is an index,
  \<open>Some None\<close> is the null pointer, and the outer \<open>None\<close> is an access outside of the descriptor's memory.
  The layouts of the audio class specification, which the functions have to follow, are the builders
  at the end.
\<close>

named_theorems usb_const \<open>constants of the USB headers\<close>

section \<open>Endpoint descriptors\<close>

definition USB_DIR_OUT :: u32 where
  [usb_const]: "USB_DIR_OUT = 0"

definition USB_DIR_IN :: u32 where
  [usb_const]: "USB_DIR_IN = 0x80"

definition USB_ENDPOINT_NUMBER_MASK :: u32 where
  [usb_const]: "USB_ENDPOINT_NUMBER_MASK = 0x0f"

definition USB_ENDPOINT_DIR_MASK :: u32 where
  [usb_const]: "USB_ENDPOINT_DIR_MASK = 0x80"

definition USB_ENDPOINT_XFERTYPE_MASK :: u32 where
  [usb_const]: "USB_ENDPOINT_XFERTYPE_MASK = 0x03"

definition USB_ENDPOINT_XFER_CONTROL :: u32 where
  [usb_const]: "USB_ENDPOINT_XFER_CONTROL = 0"

definition USB_ENDPOINT_XFER_ISOC :: u32 where
  [usb_const]: "USB_ENDPOINT_XFER_ISOC = 1"

definition USB_ENDPOINT_XFER_BULK :: u32 where
  [usb_const]: "USB_ENDPOINT_XFER_BULK = 2"

definition USB_ENDPOINT_XFER_INT :: u32 where
  [usb_const]: "USB_ENDPOINT_XFER_INT = 3"

definition USB_ENDPOINT_MAX_ADJUSTABLE :: u32 where
  [usb_const]: "USB_ENDPOINT_MAX_ADJUSTABLE = 0x80"

definition USB_ENDPOINT_MAXP_MASK :: u32 where
  [usb_const]: "USB_ENDPOINT_MAXP_MASK = 0x07ff"

definition USB_ENDPOINT_INTRTYPE :: u32 where
  [usb_const]: "USB_ENDPOINT_INTRTYPE = 0x30"

definition USB_ENDPOINT_INTR_PERIODIC :: u32 where
  [usb_const]: "USB_ENDPOINT_INTR_PERIODIC = push_bit 4 0"

definition USB_ENDPOINT_INTR_NOTIFICATION :: u32 where
  [usb_const]: "USB_ENDPOINT_INTR_NOTIFICATION = push_bit 4 1"

definition USB_ENDPOINT_SYNCTYPE :: u32 where
  [usb_const]: "USB_ENDPOINT_SYNCTYPE = 0x0c"

definition USB_ENDPOINT_SYNC_NONE :: u32 where
  [usb_const]: "USB_ENDPOINT_SYNC_NONE = push_bit 2 0"

definition USB_ENDPOINT_SYNC_ASYNC :: u32 where
  [usb_const]: "USB_ENDPOINT_SYNC_ASYNC = push_bit 2 1"

definition USB_ENDPOINT_SYNC_ADAPTIVE :: u32 where
  [usb_const]: "USB_ENDPOINT_SYNC_ADAPTIVE = push_bit 2 2"

definition USB_ENDPOINT_SYNC_SYNC :: u32 where
  [usb_const]: "USB_ENDPOINT_SYNC_SYNC = push_bit 2 3"

definition USB_ENDPOINT_USAGE_MASK :: u32 where
  [usb_const]: "USB_ENDPOINT_USAGE_MASK = 0x30"

definition USB_ENDPOINT_USAGE_DATA :: u32 where
  [usb_const]: "USB_ENDPOINT_USAGE_DATA = 0x00"

definition USB_ENDPOINT_USAGE_FEEDBACK :: u32 where
  [usb_const]: "USB_ENDPOINT_USAGE_FEEDBACK = 0x10"

definition USB_ENDPOINT_USAGE_IMPLICIT_FB :: u32 where
  [usb_const]: "USB_ENDPOINT_USAGE_IMPLICIT_FB = 0x20"

definition USB_EP_MAXP_MULT_SHIFT :: nat where
  [usb_const]: "USB_EP_MAXP_MULT_SHIFT = 11"

definition USB_EP_MAXP_MULT_MASK :: u32 where
  [usb_const]: "USB_EP_MAXP_MULT_MASK = push_bit USB_EP_MAXP_MULT_SHIFT 3"

definition USB_EP_MAXP_MULT :: "u32 \<Rightarrow> u32" where
  "USB_EP_MAXP_MULT m = drop_bit USB_EP_MAXP_MULT_SHIFT (m AND USB_EP_MAXP_MULT_MASK)"

text \<open>The packet size is kept as the two bytes it has in the descriptor, the low one first.\<close>

record usb_endpoint_descriptor =
  bLength :: u8
  bDescriptorType :: u8
  bEndpointAddress :: u8
  bmAttributes :: u8
  wMaxPacketSize :: "u8 \<times> u8"
  bInterval :: u8
  bRefresh :: u8
  bSynchAddress :: u8

definition le16_field :: "u8 \<times> u8 \<Rightarrow> u32" where
  "le16_field b = prom (fst b) OR push_bit 8 (prom (snd b))"

definition usb_endpoint_num :: "usb_endpoint_descriptor \<Rightarrow> u32" where
  "usb_endpoint_num epd = prom (bEndpointAddress epd) AND USB_ENDPOINT_NUMBER_MASK"

definition usb_endpoint_type :: "usb_endpoint_descriptor \<Rightarrow> u32" where
  "usb_endpoint_type epd = prom (bmAttributes epd) AND USB_ENDPOINT_XFERTYPE_MASK"

definition usb_endpoint_dir_in :: "usb_endpoint_descriptor \<Rightarrow> bool" where
  "usb_endpoint_dir_in epd \<longleftrightarrow> prom (bEndpointAddress epd) AND USB_ENDPOINT_DIR_MASK = USB_DIR_IN"

definition usb_endpoint_dir_out :: "usb_endpoint_descriptor \<Rightarrow> bool" where
  "usb_endpoint_dir_out epd \<longleftrightarrow> prom (bEndpointAddress epd) AND USB_ENDPOINT_DIR_MASK = USB_DIR_OUT"

definition usb_endpoint_xfer_bulk :: "usb_endpoint_descriptor \<Rightarrow> bool" where
  "usb_endpoint_xfer_bulk epd \<longleftrightarrow>
    prom (bmAttributes epd) AND USB_ENDPOINT_XFERTYPE_MASK = USB_ENDPOINT_XFER_BULK"

definition usb_endpoint_xfer_control :: "usb_endpoint_descriptor \<Rightarrow> bool" where
  "usb_endpoint_xfer_control epd \<longleftrightarrow>
    prom (bmAttributes epd) AND USB_ENDPOINT_XFERTYPE_MASK = USB_ENDPOINT_XFER_CONTROL"

definition usb_endpoint_xfer_int :: "usb_endpoint_descriptor \<Rightarrow> bool" where
  "usb_endpoint_xfer_int epd \<longleftrightarrow>
    prom (bmAttributes epd) AND USB_ENDPOINT_XFERTYPE_MASK = USB_ENDPOINT_XFER_INT"

definition usb_endpoint_xfer_isoc :: "usb_endpoint_descriptor \<Rightarrow> bool" where
  "usb_endpoint_xfer_isoc epd \<longleftrightarrow>
    prom (bmAttributes epd) AND USB_ENDPOINT_XFERTYPE_MASK = USB_ENDPOINT_XFER_ISOC"

definition usb_endpoint_is_bulk_in :: "usb_endpoint_descriptor \<Rightarrow> bool" where
  "usb_endpoint_is_bulk_in epd \<longleftrightarrow> usb_endpoint_xfer_bulk epd \<and> usb_endpoint_dir_in epd"

definition usb_endpoint_is_bulk_out :: "usb_endpoint_descriptor \<Rightarrow> bool" where
  "usb_endpoint_is_bulk_out epd \<longleftrightarrow> usb_endpoint_xfer_bulk epd \<and> usb_endpoint_dir_out epd"

definition usb_endpoint_is_int_in :: "usb_endpoint_descriptor \<Rightarrow> bool" where
  "usb_endpoint_is_int_in epd \<longleftrightarrow> usb_endpoint_xfer_int epd \<and> usb_endpoint_dir_in epd"

definition usb_endpoint_is_int_out :: "usb_endpoint_descriptor \<Rightarrow> bool" where
  "usb_endpoint_is_int_out epd \<longleftrightarrow> usb_endpoint_xfer_int epd \<and> usb_endpoint_dir_out epd"

definition usb_endpoint_is_isoc_in :: "usb_endpoint_descriptor \<Rightarrow> bool" where
  "usb_endpoint_is_isoc_in epd \<longleftrightarrow> usb_endpoint_xfer_isoc epd \<and> usb_endpoint_dir_in epd"

definition usb_endpoint_is_isoc_out :: "usb_endpoint_descriptor \<Rightarrow> bool" where
  "usb_endpoint_is_isoc_out epd \<longleftrightarrow> usb_endpoint_xfer_isoc epd \<and> usb_endpoint_dir_out epd"

definition usb_endpoint_maxp :: "usb_endpoint_descriptor \<Rightarrow> u32" where
  "usb_endpoint_maxp epd = le16_field (wMaxPacketSize epd) AND USB_ENDPOINT_MAXP_MASK"

definition usb_endpoint_maxp_mult :: "usb_endpoint_descriptor \<Rightarrow> u32" where
  "usb_endpoint_maxp_mult epd =
    (let maxp = le16_field (wMaxPacketSize epd) in USB_EP_MAXP_MULT maxp + 1)"

definition usb_endpoint_interrupt_type :: "usb_endpoint_descriptor \<Rightarrow> u32" where
  "usb_endpoint_interrupt_type epd = prom (bmAttributes epd) AND USB_ENDPOINT_INTRTYPE"

record usb_ss_ep_comp_descriptor =
  ss_bLength :: u8
  ss_bDescriptorType :: u8
  ss_bMaxBurst :: u8
  ss_bmAttributes :: u8
  ss_wBytesPerInterval :: "u8 \<times> u8"

definition usb_ss_max_streams :: "usb_ss_ep_comp_descriptor option \<Rightarrow> u32" where
  "usb_ss_max_streams companion =
    (case companion of None \<Rightarrow> 0
     | Some c \<Rightarrow>
         let max_streams = prom (ss_bmAttributes c) AND 0x1f
         in if max_streams = 0 then 0 else push_bit (unat max_streams) 1)"

definition USB_SS_MULT :: "u32 \<Rightarrow> u32" where
  "USB_SS_MULT p = 1 + (p AND 0x3)"

definition USB_SS_SSP_ISOC_COMP :: "u32 \<Rightarrow> u32" where
  "USB_SS_SSP_ISOC_COMP p = p AND push_bit 7 1"

section \<open>Audio unit descriptors\<close>

definition rd :: "u8 list \<Rightarrow> nat \<Rightarrow> u8 option" where
  "rd raw i = (if i < length raw then Some (raw ! i) else None)"

text \<open>\<open>desc->baSourceID[desc->bNrInPins + k]\<close> of a mixer and of a processing unit, and the addresses of these bytes.\<close>

definition mixer_source :: "u8 list \<Rightarrow> nat \<Rightarrow> u8 option" where
  "mixer_source raw k = do { n \<leftarrow> rd raw 4; rd raw (5 + unat n + k) }"

definition mixer_source_addr :: "u8 list \<Rightarrow> nat \<Rightarrow> nat option" where
  "mixer_source_addr raw k = do { n \<leftarrow> rd raw 4; Some (5 + unat n + k) }"

definition unit_source :: "u8 list \<Rightarrow> nat \<Rightarrow> u8 option" where
  "unit_source raw k = do { n \<leftarrow> rd raw 6; rd raw (7 + unat n + k) }"

definition unit_source_addr :: "u8 list \<Rightarrow> nat \<Rightarrow> nat option" where
  "unit_source_addr raw k = do { n \<leftarrow> rd raw 6; Some (7 + unat n + k) }"

definition last_byte :: "u8 list \<Rightarrow> u8 option" where
  "last_byte raw = do { l \<leftarrow> rd raw 0; if l = 0 then None else rd raw (unat l - 1) }"

definition UAC_VERSION_1 :: u32 where
  [usb_const]: "UAC_VERSION_1 = 0x00"

definition UAC_VERSION_2 :: u32 where
  [usb_const]: "UAC_VERSION_2 = 0x20"

definition UAC_VERSION_3 :: u32 where
  [usb_const]: "UAC_VERSION_3 = 0x30"

definition uac_mixer_unit_bNrChannels :: "u8 list \<Rightarrow> u8 option" where
  "uac_mixer_unit_bNrChannels raw = mixer_source raw 0"

definition uac_mixer_unit_wChannelConfig :: "u8 list \<Rightarrow> u32 \<Rightarrow> u32 option" where
  "uac_mixer_unit_wChannelConfig raw protocol =
    (if protocol = UAC_VERSION_1 then
       do { b2 \<leftarrow> mixer_source raw 2; b1 \<leftarrow> mixer_source raw 1; Some (push_bit 8 (prom b2) OR prom b1) }
     else
       do { b4 \<leftarrow> mixer_source raw 4; b3 \<leftarrow> mixer_source raw 3; b2 \<leftarrow> mixer_source raw 2; b1 \<leftarrow> mixer_source raw 1;
            Some (push_bit 24 (prom b4) OR push_bit 16 (prom b3) OR push_bit 8 (prom b2) OR prom b1) })"

definition uac_mixer_unit_iChannelNames :: "u8 list \<Rightarrow> u32 \<Rightarrow> u8 option" where
  "uac_mixer_unit_iChannelNames raw protocol =
    (if protocol = UAC_VERSION_1 then mixer_source raw 3 else mixer_source raw 5)"

definition uac_mixer_unit_bmControls :: "u8 list \<Rightarrow> u32 \<Rightarrow> nat option option" where
  "uac_mixer_unit_bmControls raw protocol =
    (if protocol = UAC_VERSION_1 then map_option Some (mixer_source_addr raw 4)
     else if protocol = UAC_VERSION_2 then map_option Some (mixer_source_addr raw 6)
     else if protocol = UAC_VERSION_3 then map_option Some (mixer_source_addr raw 2)
     else Some None)"

definition uac3_mixer_unit_wClusterDescrID :: "u8 list \<Rightarrow> u16 option" where
  "uac3_mixer_unit_wClusterDescrID raw =
    do { b1 \<leftarrow> mixer_source raw 1; b0 \<leftarrow> mixer_source raw 0; Some (lo16 (push_bit 8 (prom b1) OR prom b0)) }"

definition uac_mixer_unit_iMixer :: "u8 list \<Rightarrow> u8 option" where
  "uac_mixer_unit_iMixer raw = last_byte raw"

definition uac_selector_unit_iSelector :: "u8 list \<Rightarrow> u8 option" where
  "uac_selector_unit_iSelector raw = last_byte raw"

definition uac_feature_unit_iFeature :: "u8 list \<Rightarrow> u8 option" where
  "uac_feature_unit_iFeature raw = last_byte raw"

definition uac_processing_unit_bNrChannels :: "u8 list \<Rightarrow> u8 option" where
  "uac_processing_unit_bNrChannels raw = unit_source raw 0"

definition uac_processing_unit_wChannelConfig :: "u8 list \<Rightarrow> u32 \<Rightarrow> u32 option" where
  "uac_processing_unit_wChannelConfig raw protocol =
    (if protocol = UAC_VERSION_1 then
       do { b2 \<leftarrow> unit_source raw 2; b1 \<leftarrow> unit_source raw 1; Some (push_bit 8 (prom b2) OR prom b1) }
     else
       do { b4 \<leftarrow> unit_source raw 4; b3 \<leftarrow> unit_source raw 3; b2 \<leftarrow> unit_source raw 2; b1 \<leftarrow> unit_source raw 1;
            Some (push_bit 24 (prom b4) OR push_bit 16 (prom b3) OR push_bit 8 (prom b2) OR prom b1) })"

definition uac_processing_unit_iChannelNames :: "u8 list \<Rightarrow> u32 \<Rightarrow> u8 option" where
  "uac_processing_unit_iChannelNames raw protocol =
    (if protocol = UAC_VERSION_1 then unit_source raw 3 else unit_source raw 5)"

definition uac_processing_unit_bControlSize :: "u8 list \<Rightarrow> u32 \<Rightarrow> u8 option" where
  "uac_processing_unit_bControlSize raw protocol =
    (if protocol = UAC_VERSION_1 then unit_source raw 4
     else if protocol = UAC_VERSION_2 then Some 2
     else if protocol = UAC_VERSION_3 then Some 4
     else Some 1)"

definition uac_processing_unit_bmControls :: "u8 list \<Rightarrow> u32 \<Rightarrow> nat option option" where
  "uac_processing_unit_bmControls raw protocol =
    (if protocol = UAC_VERSION_1 then map_option Some (unit_source_addr raw 5)
     else if protocol = UAC_VERSION_2 then map_option Some (unit_source_addr raw 6)
     else if protocol = UAC_VERSION_3 then map_option Some (unit_source_addr raw 2)
     else Some None)"

text \<open>Arithmetic on and access through a null pointer is a fault.\<close>

definition deref_at :: "u8 list \<Rightarrow> nat option \<Rightarrow> nat \<Rightarrow> u8 option" where
  "deref_at raw p k = (case p of None \<Rightarrow> None | Some a \<Rightarrow> rd raw (a + k))"

definition ptr_add :: "nat option \<Rightarrow> nat \<Rightarrow> nat option" where
  "ptr_add p k = (case p of None \<Rightarrow> None | Some a \<Rightarrow> Some (a + k))"

definition uac_processing_unit_iProcessing :: "u8 list \<Rightarrow> u32 \<Rightarrow> u8 option" where
  "uac_processing_unit_iProcessing raw protocol =
    do { control_size \<leftarrow> uac_processing_unit_bControlSize raw protocol;
         if protocol = UAC_VERSION_3 then Some 0
         else do { p \<leftarrow> uac_processing_unit_bmControls raw protocol; deref_at raw p (unat control_size) } }"

definition uac_processing_unit_specific :: "u8 list \<Rightarrow> u32 \<Rightarrow> nat option" where
  "uac_processing_unit_specific raw protocol =
    do { control_size \<leftarrow> uac_processing_unit_bControlSize raw protocol;
         p \<leftarrow> uac_processing_unit_bmControls raw protocol;
         if protocol = UAC_VERSION_3 then ptr_add p (unat control_size) else ptr_add p (unat control_size + 1) }"

definition uac_extension_unit_bControlSize :: "u8 list \<Rightarrow> u32 \<Rightarrow> u8 option" where
  "uac_extension_unit_bControlSize raw protocol =
    (if protocol = UAC_VERSION_1 then unit_source raw 4
     else if protocol = UAC_VERSION_2 then Some 1
     else if protocol = UAC_VERSION_3 then Some 4
     else Some 1)"

definition uac_extension_unit_iExtension :: "u8 list \<Rightarrow> u32 \<Rightarrow> u8 option" where
  "uac_extension_unit_iExtension raw protocol =
    do { control_size \<leftarrow> uac_extension_unit_bControlSize raw protocol;
         if protocol = UAC_VERSION_3 then Some 0
         else do { p \<leftarrow> uac_processing_unit_bmControls raw protocol; deref_at raw p (unat control_size) } }"

section \<open>Layouts\<close>

definition mixer_unit :: "u8 \<Rightarrow> u8 list \<Rightarrow> u8 list \<Rightarrow> u8 list" where
  "mixer_unit unit_id sources tail =
    [of_nat (5 + length sources + length tail), 0x24, 4, unit_id, of_nat (length sources)] @ sources @ tail"

definition processing_unit :: "u8 \<Rightarrow> u8 \<Rightarrow> u8 \<times> u8 \<Rightarrow> u8 list \<Rightarrow> u8 list \<Rightarrow> u8 list" where
  "processing_unit subtype unit_id ptype sources tail =
    [of_nat (7 + length sources + length tail), 0x24, subtype, unit_id, fst ptype, snd ptype, of_nat (length sources)]
      @ sources @ tail"

lemma unat_count: "n < 256 \<Longrightarrow> unat (of_nat n :: u8) = n"
  by (simp add: unat_of_nat)

lemma mixer_source_tail:
  "length sources < 256 \<Longrightarrow> mixer_source (mixer_unit i sources tail) k = rd tail k"
  by (simp add: mixer_source_def mixer_unit_def rd_def unat_count nth_append)

lemma mixer_source_addr_tail:
  "length sources < 256 \<Longrightarrow> mixer_source_addr (mixer_unit i sources tail) k = Some (5 + length sources + k)"
  by (simp add: mixer_source_addr_def mixer_unit_def rd_def unat_count)

lemma unit_source_tail:
  "length sources < 256 \<Longrightarrow> unit_source (processing_unit s i p sources tail) k = rd tail k"
  by (simp add: unit_source_def processing_unit_def rd_def unat_count nth_append)

lemma unit_source_addr_tail:
  "length sources < 256 \<Longrightarrow> unit_source_addr (processing_unit s i p sources tail) k = Some (7 + length sources + k)"
  by (simp add: unit_source_addr_def processing_unit_def rd_def unat_count)

lemma rd_processing_unit: "rd (processing_unit s i p sources tail) (7 + length sources + k) = rd tail k"
  by (simp add: processing_unit_def rd_def nth_append)

lemma last_byte_last:
  assumes "raw ! 0 = of_nat (length raw)" and "0 < length raw" "length raw < 256"
  shows "last_byte raw = Some (last raw)"
proof -
  have l: "unat (raw ! 0) = length raw" using assms(1,3) by (simp add: unat_count)
  then have "raw ! 0 \<noteq> 0" using assms(2) by (metis less_irrefl unat_0)
  then show ?thesis using l assms(2) by (simp add: last_byte_def rd_def last_conv_nth)
qed

lemma last_byte_mixer:
  "6 + length sources + length tail < 256 \<Longrightarrow> last_byte (mixer_unit i sources (tail @ [b])) = Some b"
  by (subst last_byte_last) (simp_all add: mixer_unit_def)

lemma rd_more: "rd (x # xs) (Suc k) = rd xs k" "rd (x # xs) 0 = Some x" "rd (xs @ y # ys) (length xs) = Some y"
  by (simp_all add: rd_def)

lemma rd_numeral: "rd (x # xs) (numeral k) = rd xs (pred_numeral k)"
  by (simp add: rd_def numeral_eq_Suc)

lemmas rd_simps = rd_more rd_numeral

lemma rd_append: "rd (h @ t) (length h + k) = rd t k"
  by (simp add: rd_def nth_append)

lemma low_bits: "(x :: u32) AND 3 = 0 \<or> x AND 3 = 1 \<or> x AND 3 = 2 \<or> x AND 3 = 3"
proof -
  have "unat (x AND 3) < 4"
    using take_bit_nat_less_exp [of 2 "unat x"] by (simp add: c_masks unsigned_take_bit_eq)
  then have "unat (x AND 3) = 0 \<or> unat (x AND 3) = 1 \<or> unat (x AND 3) = 2 \<or> unat (x AND 3) = 3" by linarith
  then show ?thesis by (simp add: word_unat_eq_iff)
qed

lemma rd_behind: "rd (a # b # c # d # e # xs @ y # ys) (5 + length xs) = Some y"
  by (simp add: rd_def numeral_eq_Suc)

section \<open>Properties\<close>

text \<open>
  The accessors of a mixer unit find the fields of the three audio class layouts, for any number of
  inputs and controls that fits a descriptor: the channel count, the channel configuration of two or
  four bytes, the name index, the controls and the index at the end, and the cluster descriptor of
  version 3. For any other protocol number the controls pointer is null.
\<close>

theorem mixer_unit_fields:
  fixes sources controls :: "u8 list" and i nr c0 c1 c2 c3 names d0 d1 m :: u8
  assumes "length sources + length controls < 240"
  defines "raw1 \<equiv> mixer_unit i sources ([nr, c0, c1, names] @ controls @ [m])"
    and "raw2 \<equiv> mixer_unit i sources ([nr, c0, c1, c2, c3, names] @ controls @ [m])"
    and "raw3 \<equiv> mixer_unit i sources ([d0, d1] @ controls)"
  shows "uac_mixer_unit_bNrChannels raw1 = Some nr \<and> uac_mixer_unit_bNrChannels raw2 = Some nr \<and>
    uac_mixer_unit_wChannelConfig raw1 UAC_VERSION_1 = Some (push_bit 8 (prom c1) OR prom c0) \<and>
    uac_mixer_unit_wChannelConfig raw2 UAC_VERSION_2 =
      Some (push_bit 24 (prom c3) OR push_bit 16 (prom c2) OR push_bit 8 (prom c1) OR prom c0) \<and>
    uac_mixer_unit_iChannelNames raw1 UAC_VERSION_1 = Some names \<and> uac_mixer_unit_iChannelNames raw2 UAC_VERSION_2 = Some names \<and>
    (\<exists>p. uac_mixer_unit_bmControls raw1 UAC_VERSION_1 = Some (Some p) \<and> drop p raw1 = controls @ [m]) \<and>
    (\<exists>p. uac_mixer_unit_bmControls raw2 UAC_VERSION_2 = Some (Some p) \<and> drop p raw2 = controls @ [m]) \<and>
    (\<exists>p. uac_mixer_unit_bmControls raw3 UAC_VERSION_3 = Some (Some p) \<and> drop p raw3 = controls) \<and>
    uac3_mixer_unit_wClusterDescrID raw3 = Some (lo16 (push_bit 8 (prom d1) OR prom d0)) \<and>
    uac_mixer_unit_iMixer raw1 = Some m \<and> uac_mixer_unit_iMixer raw2 = Some m \<and>
    uac_mixer_unit_bmControls raw1 7 = Some None"
proof -
  have n: "length sources < 256" using assms(1) by simp
  note at = mixer_source_tail [OF n] mixer_source_addr_tail [OF n]
  have "last_byte raw1 = Some m" "last_byte raw2 = Some m"
    using last_byte_mixer [of sources "[nr, c0, c1, names] @ controls" i m]
      last_byte_mixer [of sources "[nr, c0, c1, c2, c3, names] @ controls" i m] assms(1) by (simp_all add: raw1_def raw2_def)
  moreover have "drop (9 + length sources) raw1 = controls @ [m]" "drop (11 + length sources) raw2 = controls @ [m]"
    "drop (7 + length sources) raw3 = controls"
    by (simp_all add: raw1_def raw2_def raw3_def mixer_unit_def numeral_eq_Suc)
  ultimately show ?thesis
    unfolding raw1_def raw2_def raw3_def
    by (simp add: at rd_simps usb_const uac_mixer_unit_bNrChannels_def uac_mixer_unit_wChannelConfig_def
        uac_mixer_unit_iChannelNames_def uac_mixer_unit_bmControls_def uac3_mixer_unit_wClusterDescrID_def
        uac_mixer_unit_iMixer_def)
qed

theorem mixer_unit_fields_witness:
  "uac_mixer_unit_bNrChannels (mixer_unit 9 [1, 2] ([6, 0x3f, 0, 11] @ [0xff] @ [12])) = Some 6 \<and>
   uac_mixer_unit_iMixer (mixer_unit 9 [1, 2] ([6, 0x3f, 0, 11] @ [0xff] @ [12])) = Some 12"
  using mixer_unit_fields [of "[1, 2]" "[0xff]" 9 6 "0x3f" 0 11 12] by simp

text \<open>
  The accessors of processing and extension units find the fields of the three layouts: the size of
  the controls, the controls, the string index behind them and the data specific to the process. The
  control size differs between the two kinds in version 2 only. For any other protocol number the
  string index is read through a null pointer.
\<close>

theorem processing_unit_fields:
  fixes sources controls controls2 controls3 rest :: "u8 list" and s i nr c0 c1 c2 c3 names d0 d1 ctl idx :: u8
    and t :: "u8 \<times> u8"
  assumes "length sources < 256" and "length controls < 256" and "length controls2 = 2" and "length controls3 = 4"
    and "protocol \<noteq> UAC_VERSION_1" "protocol \<noteq> UAC_VERSION_2" "protocol \<noteq> UAC_VERSION_3"
  defines "raw1 \<equiv> processing_unit s i t sources ([nr, c0, c1, names, of_nat (length controls)] @ controls @ idx # rest)"
    and "raw2 \<equiv> processing_unit s i t sources ([nr, c0, c1, c2, c3, names] @ controls2 @ idx # rest)"
    and "ext2 \<equiv> processing_unit s i t sources ([nr, c0, c1, c2, c3, names, ctl, idx])"
    and "raw3 \<equiv> processing_unit s i t sources ([d0, d1] @ controls3 @ rest)"
  shows "uac_processing_unit_bNrChannels raw1 = Some nr \<and>
    uac_processing_unit_bControlSize raw1 UAC_VERSION_1 = Some (of_nat (length controls)) \<and>
    uac_processing_unit_iProcessing raw1 UAC_VERSION_1 = Some idx \<and> uac_processing_unit_iProcessing raw2 UAC_VERSION_2 = Some idx \<and>
    uac_extension_unit_iExtension raw1 UAC_VERSION_1 = Some idx \<and> uac_extension_unit_iExtension ext2 UAC_VERSION_2 = Some idx \<and>
    (\<exists>p. uac_processing_unit_specific raw1 UAC_VERSION_1 = Some p \<and> drop p raw1 = rest) \<and>
    (\<exists>p. uac_processing_unit_specific raw2 UAC_VERSION_2 = Some p \<and> drop p raw2 = rest) \<and>
    (\<exists>p. uac_processing_unit_specific raw3 UAC_VERSION_3 = Some p \<and> drop p raw3 = rest) \<and>
    uac_processing_unit_iProcessing raw1 protocol = None"
proof -
  note at = unit_source_tail [OF assms(1)] unit_source_addr_tail [OF assms(1)] unat_count [OF assms(2)]
  note defs = usb_const uac_processing_unit_bNrChannels_def uac_processing_unit_bControlSize_def
    uac_processing_unit_bmControls_def uac_processing_unit_iProcessing_def uac_processing_unit_specific_def
    uac_extension_unit_bControlSize_def uac_extension_unit_iExtension_def deref_at_def ptr_add_def rd_simps
  have "rd raw1 (12 + (length sources + length controls)) = Some idx"
    using rd_processing_unit [of s i t sources _ "5 + length controls"] by (simp add: raw1_def rd_behind)
  moreover have "rd raw2 (15 + length sources) = Some idx"
    using rd_processing_unit [of s i t sources _ 8] rd_append [of "[nr, c0, c1, c2, c3, names] @ controls2" "idx # rest" 0] assms(3)
    by (simp add: raw2_def rd_simps)
  moreover have "rd ext2 (14 + length sources) = Some idx"
    using rd_processing_unit [of s i t sources _ 7] by (simp add: ext2_def rd_simps)
  moreover have "drop (13 + (length sources + length controls)) raw1 = rest" "drop (16 + length sources) raw2 = rest"
    "drop (13 + length sources) raw3 = rest"
    using assms(3,4) by (simp_all add: raw1_def raw2_def raw3_def processing_unit_def numeral_eq_Suc)
  ultimately show ?thesis
    using assms(5-7) unfolding raw1_def raw2_def raw3_def ext2_def by (simp add: at defs add.assoc)
qed

theorem processing_unit_fields_witness:
  "uac_processing_unit_iProcessing (processing_unit 7 9 (1, 0) [3] ([2, 3, 0, 0, of_nat (length [0x0f :: u8])] @ [0x0f] @ 8 # [])) UAC_VERSION_1 =
     Some 8 \<and>
   uac_processing_unit_iProcessing (processing_unit 7 9 (1, 0) [3] ([2, 3, 0, 0, of_nat (length [0x0f :: u8])] @ [0x0f] @ 8 # [])) 5 = None"
  using processing_unit_fields [of "[3]" "[0x0f]" "[1, 2]" "[1, 2, 3, 4]" 5 7 9 "(1, 0)" 2 3 0 0 8 "[]"]
  by (simp add: usb_const)

text \<open>
  An endpoint has exactly one transfer type and one direction, the combined tests follow, its number
  is below 16, its packet size below 2048 and its multiplier between 1 and 4, and the size and the
  multiplier determine the low 13 bits of the packet size field.
\<close>

theorem endpoint_classification:
  "length (filter (\<lambda>p. p epd) [usb_endpoint_xfer_control, usb_endpoint_xfer_isoc, usb_endpoint_xfer_bulk, usb_endpoint_xfer_int]) = 1 \<and>
   length (filter (\<lambda>p. p epd) [usb_endpoint_dir_in, usb_endpoint_dir_out]) = 1 \<and>
   (usb_endpoint_is_bulk_in epd \<longleftrightarrow> usb_endpoint_type epd = USB_ENDPOINT_XFER_BULK \<and> bit (bEndpointAddress epd) 7) \<and>
   usb_endpoint_num epd < 16 \<and> usb_endpoint_maxp epd < 2048 \<and>
   1 \<le> usb_endpoint_maxp_mult epd \<and> usb_endpoint_maxp_mult epd \<le> 4 \<and>
   usb_endpoint_maxp epd OR push_bit 11 (usb_endpoint_maxp_mult epd - 1) = take_bit 13 (le16_field (wMaxPacketSize epd))"
proof -
  let ?w = "le16_field (wMaxPacketSize epd)"
  have dir: "prom (bEndpointAddress epd) AND 0x80 = (if bit (bEndpointAddress epd) 7 then 0x80 else 0)"
  proof -
    have "(0x80 :: u32) = 2 ^ 7" by simp
    then have b: "bit (0x80 :: u32) n \<longleftrightarrow> n = 7" for n by (simp only: bit_exp_iff) auto
    show ?thesis
    proof (rule bit_word_eqI)
      fix n
      show "bit (prom (bEndpointAddress epd) AND 0x80) n = bit (if bit (bEndpointAddress epd) 7 then 0x80 else 0 :: u32) n"
        unfolding bit_and_iff b by (cases "bit (bEndpointAddress epd) 7") (simp_all add: b prom_def bit_unsigned_iff del: bit_numeral_word_iff, auto)
    qed
  qed
  have "length (filter (\<lambda>p. p epd) [usb_endpoint_xfer_control, usb_endpoint_xfer_isoc, usb_endpoint_xfer_bulk, usb_endpoint_xfer_int]) = 1"
    using low_bits [of "prom (bmAttributes epd)"]
    by (auto simp: usb_const usb_endpoint_xfer_control_def usb_endpoint_xfer_isoc_def usb_endpoint_xfer_bulk_def usb_endpoint_xfer_int_def)
  moreover have "length (filter (\<lambda>p. p epd) [usb_endpoint_dir_in, usb_endpoint_dir_out]) = 1"
    by (simp add: usb_const usb_endpoint_dir_in_def usb_endpoint_dir_out_def dir)
  moreover have "usb_endpoint_is_bulk_in epd \<longleftrightarrow> usb_endpoint_type epd = USB_ENDPOINT_XFER_BULK \<and> bit (bEndpointAddress epd) 7"
    by (simp add: usb_const usb_endpoint_is_bulk_in_def usb_endpoint_xfer_bulk_def usb_endpoint_type_def usb_endpoint_dir_in_def dir)
  moreover have num: "usb_endpoint_num epd = take_bit 4 (prom (bEndpointAddress epd))" "usb_endpoint_maxp epd = take_bit 11 ?w"
    "usb_endpoint_maxp_mult epd = take_bit 2 (drop_bit 11 ?w) + 1"
    by (simp_all add: usb_const usb_endpoint_num_def usb_endpoint_maxp_def usb_endpoint_maxp_mult_def USB_EP_MAXP_MULT_def
        Let_def take_bit_eq_mask mask_numeral)
  moreover have "take_bit 11 ?w OR push_bit 11 (take_bit 2 (drop_bit 11 ?w)) = take_bit 13 ?w"
    by (rule bit_word_eqI) (auto simp: bit_simps)
  moreover have "take_bit 4 (prom (bEndpointAddress epd)) < 16" "take_bit 11 ?w < 2048"
    using take_bit_nat_less_exp [of 4 "unat (prom (bEndpointAddress epd))"] take_bit_nat_less_exp [of 11 "unat ?w"]
    by (simp_all add: word_less_nat_alt unsigned_take_bit_eq)
  moreover have "1 \<le> take_bit 2 (drop_bit 11 ?w) + 1" "take_bit 2 (drop_bit 11 ?w) + 1 \<le> 4"
    using low_bits [of "drop_bit 11 ?w"] by (auto simp: c_masks)
  ultimately show ?thesis by simp
qed

end
