(* ===== verification/Fortify_Base.thy ===== *)
theory Fortify_Base
  imports C_Integers
begin

text \<open>
  The fortification headers of the C library replace a function that fills a buffer by an inline
  wrapper. The wrapper asks the compiler for the size of the buffer (\<open>__bos\<close>, all ones when it is not
  known) and whether a length is a compile-time constant, and then calls the function itself under an
  alias, a checking variant that aborts the program when the buffer is too small, or the checking
  variant under a name whose use the compiler warns about.

  A wrapper is modelled by the call it makes. The names it uses are redirected by declarations in the
  same header, which are lists here. What the called functions do is a parameter.

  The locale \<open>fortified_call\<close> is the contract of a wrapper, \<open>vetted_call\<close> extends it by what holds when
  the compiler can decide the check; both are interpreted on the wrappers of the headers.
\<close>

section \<open>Calls\<close>

datatype carg = CPtr u64 | CSize u64 | CInt u32 | COff u64 | CWide u32 | CVarargs "carg list"

datatype fcall = Fcall string "carg list"

text \<open>\<open>__REDIRECT\<close> and \<open>__warnattr\<close>: declared name, name that is linked, warning.\<close>

type_synonym redirects = "(string \<times> string \<times> string option) list"

definition resolve :: "redirects \<Rightarrow> string \<Rightarrow> string" where
  "resolve rd f = (case map_of rd f of None \<Rightarrow> f | Some (target, _) \<Rightarrow> target)"

definition warning :: "redirects \<Rightarrow> fcall \<Rightarrow> string option" where
  "warning rd c = (case c of Fcall f _ \<Rightarrow> (case map_of rd f of None \<Rightarrow> None | Some (_, w) \<Rightarrow> w))"

definition linked :: "redirects \<Rightarrow> fcall \<Rightarrow> fcall" where
  "linked rd c = (case c of Fcall f args \<Rightarrow> Fcall (resolve rd f) args)"

lemma linked_simps [simp]: "linked rd (Fcall f args) = Fcall (resolve rd f) args"
  by (simp add: linked_def)

lemma warning_simps [simp]: "warning rd (Fcall f args) = (case map_of rd f of None \<Rightarrow> None | Some (_, w) \<Rightarrow> w)"
  by (simp add: warning_def)

text \<open>What a call does: it aborts the program or has some other effect.\<close>

datatype 'o outcome = Abort | Done 'o

text \<open>
  The checking function of a pair does what the plain one does, except that it aborts when the bytes
  that are needed are more than the size it was given.
\<close>

definition checks ::
    "(fcall \<Rightarrow> 'o outcome) \<Rightarrow> ('a \<Rightarrow> fcall) \<Rightarrow> (u64 \<Rightarrow> 'a \<Rightarrow> fcall) \<Rightarrow> ('a \<Rightarrow> nat) \<Rightarrow> bool" where
  "checks lib plain checked need =
     (\<forall>b a. lib (checked b a) = (if unat b < need a then Abort else lib (plain a)))"

text \<open>A wrapper is the plain function with an abort exactly where a buffer of known size would overflow.\<close>

definition guards ::
    "(fcall \<Rightarrow> 'o outcome) \<Rightarrow> redirects \<Rightarrow> ('c \<Rightarrow> (u64 \<Rightarrow> u64) \<Rightarrow> 'a \<Rightarrow> fcall) \<Rightarrow> ('a \<Rightarrow> fcall) \<Rightarrow>
     (u64 \<Rightarrow> 'a \<Rightarrow> fcall) \<Rightarrow> ('a \<Rightarrow> u64) \<Rightarrow> ('a \<Rightarrow> nat) \<Rightarrow> bool" where
  "guards lib rd wrapper plain checked obj need =
     (checks lib plain checked need \<longrightarrow>
      (\<forall>c bos a. lib (linked rd (wrapper c bos a)) =
         (if bos (obj a) \<noteq> -1 \<and> unat (bos (obj a)) < need a then Abort else lib (plain a))))"

text \<open>The assumption can be met: reading, with a checked variant of it.\<close>

fun sampleLibrary :: "fcall \<Rightarrow> nat outcome" where
  "sampleLibrary (Fcall f [CInt fd, CPtr buf, CSize n]) = Done (unat n)"
| "sampleLibrary (Fcall f [CInt fd, CPtr buf, CSize n, CSize b]) = (if b < n then Abort else Done (unat n))"
| "sampleLibrary _ = Abort"

lemma sampleLibrary_checks:
  "checks sampleLibrary (\<lambda>(fd, buf, n). Fcall ''read'' [CInt fd, CPtr buf, CSize n])
     (\<lambda>b (fd, buf, n). Fcall ''__read_chk'' [CInt fd, CPtr buf, CSize n, CSize b]) (\<lambda>(fd, buf, n). unat n)"
  by (auto simp: checks_def word_less_nat_alt)

section \<open>The contract of a wrapper\<close>

locale fortified_call =
  fixes rd :: redirects
    and wrapper :: "'c \<Rightarrow> (u64 \<Rightarrow> u64) \<Rightarrow> 'a \<Rightarrow> fcall"
    and plain :: "'a \<Rightarrow> fcall"
    and checked :: "u64 \<Rightarrow> 'a \<Rightarrow> fcall"
    and obj :: "'a \<Rightarrow> u64"
    and need :: "'a \<Rightarrow> nat"
  assumes either: "linked rd (wrapper c bos a) = plain a \<or> linked rd (wrapper c bos a) = checked (bos (obj a)) a"
    and caught: "bos (obj a) \<noteq> -1 \<Longrightarrow> unat (bos (obj a)) < need a \<Longrightarrow>
          linked rd (wrapper c bos a) = checked (bos (obj a)) a"
    and unknown: "bos (obj a) = -1 \<Longrightarrow> linked rd (wrapper c bos a) = plain a \<or> need a < 2 ^ 64"
begin

lemma guarded: "guards lib rd wrapper plain checked obj need"
proof -
  have "lib (linked rd (wrapper c bos a)) =
      (if bos (obj a) \<noteq> -1 \<and> unat (bos (obj a)) < need a then Abort else lib (plain a))"
    if chk: "checks lib plain checked need" for c bos a
  proof (cases "linked rd (wrapper c bos a) = plain a")
    case True
    show ?thesis
    proof (cases "bos (obj a) \<noteq> -1 \<and> unat (bos (obj a)) < need a")
      case overflow: True
      then have "lib (plain a) = lib (checked (bos (obj a)) a)" using caught [of bos a c] True by simp
      with chk overflow have "lib (plain a) = Abort" unfolding checks_def by simp
      with True overflow show ?thesis by simp
    next
      case False
      with True show ?thesis by auto
    qed
  next
    case False
    then have w: "linked rd (wrapper c bos a) = checked (bos (obj a)) a" using either by blast
    have top: "unat (bos (obj a)) = 2 ^ 64 - 1" if "bos (obj a) = -1"
      using that by (simp add: unsigned_minus_1_eq_mask mask_eq_exp_minus_1)
    show ?thesis
    proof (cases "bos (obj a) = -1")
      case True
      then have "\<not> unat (bos (obj a)) < need a" using unknown [of bos a c] False top by auto
      then show ?thesis using chk w unfolding checks_def by simp
    next
      case False
      then show ?thesis using chk w unfolding checks_def by simp
    qed
  qed
  then show ?thesis unfolding guards_def by blast
qed

text \<open>A buffer that is too small is never filled.\<close>

lemma no_overflow:
  assumes "checks lib plain checked need" and "bos (obj a) \<noteq> -1" and "unat (bos (obj a)) < need a"
  shows "lib (linked rd (wrapper c bos a)) = Abort"
  using guarded [of lib] assms unfolding guards_def by simp

end

text \<open>When the compiler knows the lengths it leaves no check behind, and it warns where one would fail.\<close>

locale vetted_call = fortified_call +
  fixes vetted :: "'c \<Rightarrow> 'a \<Rightarrow> bool"
  assumes direct: "vetted c a \<Longrightarrow> bos (obj a) \<noteq> -1 \<Longrightarrow> need a \<le> unat (bos (obj a)) \<Longrightarrow>
          linked rd (wrapper c bos a) = plain a \<and> warning rd (wrapper c bos a) = None"
    and warned: "vetted c a \<Longrightarrow> bos (obj a) \<noteq> -1 \<Longrightarrow> unat (bos (obj a)) < need a \<Longrightarrow>
          warning rd (wrapper c bos a) \<noteq> None"
begin

lemma verdict:
  assumes "vetted c a" and "bos (obj a) \<noteq> -1"
  shows "warning rd (wrapper c bos a) \<noteq> None \<longleftrightarrow> unat (bos (obj a)) < need a"
  using direct [of c a bos] warned [of c a bos] assms by (cases "unat (bos (obj a)) < need a") auto

end

definition vets ::
    "redirects \<Rightarrow> ('c \<Rightarrow> (u64 \<Rightarrow> u64) \<Rightarrow> 'a \<Rightarrow> fcall) \<Rightarrow> ('a \<Rightarrow> u64) \<Rightarrow> ('a \<Rightarrow> nat) \<Rightarrow> ('c \<Rightarrow> 'a \<Rightarrow> bool) \<Rightarrow> bool" where
  "vets rd wrapper obj need vetted =
     (\<forall>c bos a. vetted c a \<and> bos (obj a) \<noteq> -1 \<longrightarrow>
        (warning rd (wrapper c bos a) \<noteq> None \<longleftrightarrow> unat (bos (obj a)) < need a))"

context vetted_call
begin

lemma vetted: "vets rd wrapper obj need vetted"
  using verdict unfolding vets_def by blast

end

section \<open>Comparing sizes\<close>

named_theorems size_simps \<open>comparisons of sizes over the naturals\<close>

lemma size_less [size_simps]: "(x :: u64) < y \<longleftrightarrow> unat x < unat y"
  by (rule word_less_nat_alt)

lemma size_le [size_simps]: "(x :: u64) \<le> y \<longleftrightarrow> unat x \<le> unat y"
  by (rule word_le_nat_alt)

lemma unat_top [size_simps]: "unat (-1 :: u64) = 2 ^ 64 - 1"
  by (simp add: unsigned_minus_1_eq_mask mask_eq_exp_minus_1)

lemma unat_below: "unat (x :: u64) < 2 ^ 64"
  using unsigned_less [where w = x and ?'a = nat] by simp

lemmas unat_below64 [size_simps] = unat_below [simplified]

text \<open>Comparing a count with a size divided by the element size is comparing bytes.\<close>

lemma div_less_count: "0 < k \<Longrightarrow> b div k < n \<longleftrightarrow> b < k * (n :: nat)"
  by (simp add: div_less_iff_less_mult mult.commute)

lemma elements_less [size_simps]:
  "unat ((b :: u64) div 4) < n \<longleftrightarrow> unat b < 4 * n"
  "unat ((b :: u64) div 8) < n \<longleftrightarrow> unat b < 8 * n"
  by (simp_all add: unat_div div_less_count)

text \<open>A positive \<open>int\<close> converted to \<open>size_t\<close> keeps its value.\<close>

lemma unat_scast_pos: "0 \<le> sint (n :: u32) \<Longrightarrow> unat (scast n :: u64) = nat (sint n)"
proof -
  assume "0 \<le> sint n"
  moreover have "sint n < 2 ^ 64" using sint_lt [of n] by simp
  ultimately have "take_bit 64 (sint n) = sint n" by (rule take_bit_int_eq_self)
  moreover have "unat (scast n :: u64) = nat (take_bit 64 (sint n))"
    unfolding scast_eq unsigned_of_int by simp
  ultimately show ?thesis by simp
qed

text \<open>Two factors below \<open>2 ^ 32\<close> do not overflow.\<close>

lemma or_below:
  assumes "(x OR y :: u64) < 2 ^ 32"
  shows "unat x < 2 ^ 32" and "unat y < 2 ^ 32"
proof -
  have "z \<le> z OR z'" for z z' :: u64 by (simp add: word_le_def unsigned_or_eq or_greater_eq)
  from this [of x y] this [of y x] have "x \<le> x OR y" "y \<le> x OR y" by (simp_all add: or.commute)
  with assms have "x < 2 ^ 32" "y < 2 ^ 32" by (simp_all add: le_less_trans)
  then show "unat x < 2 ^ 32" "unat y < 2 ^ 32" by (simp_all add: word_less_nat_alt)
qed

lemma small_product: "(x OR y :: u64) < 2 ^ 32 \<Longrightarrow> unat (x * y) = unat x * unat y"
proof -
  assume a: "(x OR y :: u64) < 2 ^ 32"
  have "unat x * unat y < 2 ^ 32 * 2 ^ 32" using or_below [OF a] by (intro mult_strict_mono) auto
  then show ?thesis by (simp add: unat_word_ariths)
qed

lemmas fortify_simps = resolve_def size_simps unat_scast_pos or_below small_product

end
