(* ===== verification/Fortify_System.thy ===== *)
theory Fortify_System
  imports Fortify_Base
begin

text \<open>
  The fortified wrappers of \<open>bits/unistd.h\<close>, \<open>bits/socket2.h\<close>, \<open>bits/poll2.h\<close> and \<open>bits/stdlib.h\<close>, with
  the declarations that redirect the names they use. A length the source leaves to the called
  function is the parameter \<open>k\<close>. \<open>PATH_MAX\<close> is taken to be defined.
\<close>

section \<open>\<open>bits/unistd.h\<close>\<close>

definition redirect_read :: redirects where
  "redirect_read =
     [(''__read_alias'', ''read'', None),
      (''__read_chk_warn'', ''__read_chk'', Some ''read called with bigger length than size of the destination buffer'')]"

definition fortify_read :: "(u64 \<Rightarrow> u64) \<Rightarrow> bool \<Rightarrow> u32 \<Rightarrow> u64 \<Rightarrow> u64 \<Rightarrow> fcall" where
  "fortify_read bos0 const_nbytes fd buf nbytes =
    (if bos0 buf \<noteq> -1
    then if \<not> const_nbytes
       then Fcall ''__read_chk'' [CInt fd, CPtr buf, CSize nbytes, CSize (bos0 buf)]
       else if nbytes > bos0 buf
       then Fcall ''__read_chk_warn'' [CInt fd, CPtr buf, CSize nbytes, CSize (bos0 buf)]
       else Fcall ''__read_alias'' [CInt fd, CPtr buf, CSize nbytes]
    else Fcall ''__read_alias'' [CInt fd, CPtr buf, CSize nbytes])"

definition redirect_pread :: redirects where
  "redirect_pread =
     [(''__pread_alias'', ''pread'', None),
      (''__pread64_alias'', ''pread64'', None),
      (''__pread_chk_warn'', ''__pread_chk'', Some ''pread called with bigger length than size of the destination buffer''),
      (''__pread64_chk_warn'', ''__pread64_chk'', Some ''pread64 called with bigger length than size of the destination buffer'')]"

definition fortify_pread :: "(u64 \<Rightarrow> u64) \<Rightarrow> bool \<Rightarrow> u32 \<Rightarrow> u64 \<Rightarrow> u64 \<Rightarrow> u64 \<Rightarrow> fcall" where
  "fortify_pread bos0 const_nbytes fd buf nbytes offset =
    (if bos0 buf \<noteq> -1
    then if \<not> const_nbytes
       then Fcall ''__pread_chk'' [CInt fd, CPtr buf, CSize nbytes, COff offset, CSize (bos0 buf)]
       else if nbytes > bos0 buf
       then Fcall ''__pread_chk_warn'' [CInt fd, CPtr buf, CSize nbytes, COff offset, CSize (bos0 buf)]
       else Fcall ''__pread_alias'' [CInt fd, CPtr buf, CSize nbytes, COff offset]
    else Fcall ''__pread_alias'' [CInt fd, CPtr buf, CSize nbytes, COff offset])"

definition fortify_pread_off64 :: "(u64 \<Rightarrow> u64) \<Rightarrow> bool \<Rightarrow> u32 \<Rightarrow> u64 \<Rightarrow> u64 \<Rightarrow> u64 \<Rightarrow> fcall" where
  "fortify_pread_off64 bos0 const_nbytes fd buf nbytes offset =
    (if bos0 buf \<noteq> -1
    then if \<not> const_nbytes
       then Fcall ''__pread64_chk'' [CInt fd, CPtr buf, CSize nbytes, COff offset, CSize (bos0 buf)]
       else if nbytes > bos0 buf
       then Fcall ''__pread64_chk_warn'' [CInt fd, CPtr buf, CSize nbytes, COff offset, CSize (bos0 buf)]
       else Fcall ''__pread64_alias'' [CInt fd, CPtr buf, CSize nbytes, COff offset]
    else Fcall ''__pread64_alias'' [CInt fd, CPtr buf, CSize nbytes, COff offset])"

definition fortify_pread64 :: "(u64 \<Rightarrow> u64) \<Rightarrow> bool \<Rightarrow> u32 \<Rightarrow> u64 \<Rightarrow> u64 \<Rightarrow> u64 \<Rightarrow> fcall" where
  "fortify_pread64 bos0 const_nbytes fd buf nbytes offset =
    (if bos0 buf \<noteq> -1
    then if \<not> const_nbytes
       then Fcall ''__pread64_chk'' [CInt fd, CPtr buf, CSize nbytes, COff offset, CSize (bos0 buf)]
       else if nbytes > bos0 buf
       then Fcall ''__pread64_chk_warn'' [CInt fd, CPtr buf, CSize nbytes, COff offset, CSize (bos0 buf)]
       else Fcall ''__pread64_alias'' [CInt fd, CPtr buf, CSize nbytes, COff offset]
    else Fcall ''__pread64_alias'' [CInt fd, CPtr buf, CSize nbytes, COff offset])"

definition redirect_readlink :: redirects where
  "redirect_readlink =
     [(''__readlink_alias'', ''readlink'', None),
      (''__readlink_chk_warn'', ''__readlink_chk'', Some ''readlink called with bigger length than size of destination buffer'')]"

definition fortify_readlink :: "(u64 \<Rightarrow> u64) \<Rightarrow> bool \<Rightarrow> u64 \<Rightarrow> u64 \<Rightarrow> u64 \<Rightarrow> fcall" where
  "fortify_readlink bos const_len path buf len =
    (if bos buf \<noteq> -1
    then if \<not> const_len
       then Fcall ''__readlink_chk'' [CPtr path, CPtr buf, CSize len, CSize (bos buf)]
       else if len > bos buf
       then Fcall ''__readlink_chk_warn'' [CPtr path, CPtr buf, CSize len, CSize (bos buf)]
       else Fcall ''__readlink_alias'' [CPtr path, CPtr buf, CSize len]
    else Fcall ''__readlink_alias'' [CPtr path, CPtr buf, CSize len])"

definition redirect_readlinkat :: redirects where
  "redirect_readlinkat =
     [(''__readlinkat_alias'', ''readlinkat'', None),
      (''__readlinkat_chk_warn'', ''__readlinkat_chk'', Some ''readlinkat called with bigger length than size of destination buffer'')]"

definition fortify_readlinkat :: "(u64 \<Rightarrow> u64) \<Rightarrow> bool \<Rightarrow> u32 \<Rightarrow> u64 \<Rightarrow> u64 \<Rightarrow> u64 \<Rightarrow> fcall" where
  "fortify_readlinkat bos const_len fd path buf len =
    (if bos buf \<noteq> -1
    then if \<not> const_len
       then Fcall ''__readlinkat_chk'' [CInt fd, CPtr path, CPtr buf, CSize len, CSize (bos buf)]
       else if len > bos buf
       then Fcall ''__readlinkat_chk_warn'' [CInt fd, CPtr path, CPtr buf, CSize len, CSize (bos buf)]
       else Fcall ''__readlinkat_alias'' [CInt fd, CPtr path, CPtr buf, CSize len]
    else Fcall ''__readlinkat_alias'' [CInt fd, CPtr path, CPtr buf, CSize len])"

definition redirect_getcwd :: redirects where
  "redirect_getcwd =
     [(''__getcwd_alias'', ''getcwd'', None),
      (''__getcwd_chk_warn'', ''__getcwd_chk'', Some ''getcwd caller with bigger length than size of destination buffer'')]"

definition fortify_getcwd :: "(u64 \<Rightarrow> u64) \<Rightarrow> bool \<Rightarrow> u64 \<Rightarrow> u64 \<Rightarrow> fcall" where
  "fortify_getcwd bos const_size1 buf size1 =
    (if bos buf \<noteq> -1
    then if \<not> const_size1
       then Fcall ''__getcwd_chk'' [CPtr buf, CSize size1, CSize (bos buf)]
       else if size1 > bos buf
       then Fcall ''__getcwd_chk_warn'' [CPtr buf, CSize size1, CSize (bos buf)]
       else Fcall ''__getcwd_alias'' [CPtr buf, CSize size1]
    else Fcall ''__getcwd_alias'' [CPtr buf, CSize size1])"

definition redirect_getwd :: redirects where
  "redirect_getwd =
     [(''__getwd_warn'', ''getwd'', Some (''please use getcwd instead, as getwd doesn'' @ [CHR 0x27] @ ''t specify buffer size''))]"

definition fortify_getwd :: "(u64 \<Rightarrow> u64) \<Rightarrow> u64 \<Rightarrow> fcall" where
  "fortify_getwd bos buf =
    (if bos buf \<noteq> -1
    then Fcall ''__getwd_chk'' [CPtr buf, CSize (bos buf)]
    else Fcall ''__getwd_warn'' [CPtr buf])"

definition redirect_confstr :: redirects where
  "redirect_confstr =
     [(''__confstr_alias'', ''confstr'', None),
      (''__confstr_chk_warn'', ''__confstr_chk'', Some ''confstr called with bigger length than size of destination buffer'')]"

definition fortify_confstr :: "(u64 \<Rightarrow> u64) \<Rightarrow> bool \<Rightarrow> u32 \<Rightarrow> u64 \<Rightarrow> u64 \<Rightarrow> fcall" where
  "fortify_confstr bos const_len name buf len =
    (if bos buf \<noteq> -1
    then if \<not> const_len
       then Fcall ''__confstr_chk'' [CInt name, CPtr buf, CSize len, CSize (bos buf)]
       else if bos buf < len
       then Fcall ''__confstr_chk_warn'' [CInt name, CPtr buf, CSize len, CSize (bos buf)]
       else Fcall ''__confstr_alias'' [CInt name, CPtr buf, CSize len]
    else Fcall ''__confstr_alias'' [CInt name, CPtr buf, CSize len])"

definition redirect_getgroups :: redirects where
  "redirect_getgroups =
     [(''__getgroups_alias'', ''getgroups'', None),
      (''__getgroups_chk_warn'', ''__getgroups_chk'', Some ''getgroups called with bigger group count than what can fit into destination buffer'')]"

definition fortify_getgroups :: "(u64 \<Rightarrow> u64) \<Rightarrow> bool \<Rightarrow> u32 \<Rightarrow> u64 \<Rightarrow> fcall" where
  "fortify_getgroups bos const_size1 size1 list =
    (if bos list \<noteq> -1
    then if \<not> const_size1 \<or> sint size1 < 0
       then Fcall ''__getgroups_chk'' [CInt size1, CPtr list, CSize (bos list)]
       else if scast size1 * 4 > bos list
       then Fcall ''__getgroups_chk_warn'' [CInt size1, CPtr list, CSize (bos list)]
       else Fcall ''__getgroups_alias'' [CInt size1, CPtr list]
    else Fcall ''__getgroups_alias'' [CInt size1, CPtr list])"

definition redirect_ttyname_r :: redirects where
  "redirect_ttyname_r =
     [(''__ttyname_r_alias'', ''ttyname_r'', None),
      (''__ttyname_r_chk_warn'', ''__ttyname_r_chk'', Some ''ttyname_r called with bigger buflen than size of destination buffer'')]"

definition fortify_ttyname_r :: "(u64 \<Rightarrow> u64) \<Rightarrow> bool \<Rightarrow> u32 \<Rightarrow> u64 \<Rightarrow> u64 \<Rightarrow> fcall" where
  "fortify_ttyname_r bos const_buflen fd buf buflen =
    (if bos buf \<noteq> -1
    then if \<not> const_buflen
       then Fcall ''__ttyname_r_chk'' [CInt fd, CPtr buf, CSize buflen, CSize (bos buf)]
       else if buflen > bos buf
       then Fcall ''__ttyname_r_chk_warn'' [CInt fd, CPtr buf, CSize buflen, CSize (bos buf)]
       else Fcall ''__ttyname_r_alias'' [CInt fd, CPtr buf, CSize buflen]
    else Fcall ''__ttyname_r_alias'' [CInt fd, CPtr buf, CSize buflen])"

definition redirect_getlogin_r :: redirects where
  "redirect_getlogin_r =
     [(''__getlogin_r_alias'', ''getlogin_r'', None),
      (''__getlogin_r_chk_warn'', ''__getlogin_r_chk'', Some ''getlogin_r called with bigger buflen than size of destination buffer'')]"

definition fortify_getlogin_r :: "(u64 \<Rightarrow> u64) \<Rightarrow> bool \<Rightarrow> u64 \<Rightarrow> u64 \<Rightarrow> fcall" where
  "fortify_getlogin_r bos const_buflen buf buflen =
    (if bos buf \<noteq> -1
    then if \<not> const_buflen
       then Fcall ''__getlogin_r_chk'' [CPtr buf, CSize buflen, CSize (bos buf)]
       else if buflen > bos buf
       then Fcall ''__getlogin_r_chk_warn'' [CPtr buf, CSize buflen, CSize (bos buf)]
       else Fcall ''__getlogin_r_alias'' [CPtr buf, CSize buflen]
    else Fcall ''__getlogin_r_alias'' [CPtr buf, CSize buflen])"

definition redirect_gethostname :: redirects where
  "redirect_gethostname =
     [(''__gethostname_alias'', ''gethostname'', None),
      (''__gethostname_chk_warn'', ''__gethostname_chk'', Some ''gethostname called with bigger buflen than size of destination buffer'')]"

definition fortify_gethostname :: "(u64 \<Rightarrow> u64) \<Rightarrow> bool \<Rightarrow> u64 \<Rightarrow> u64 \<Rightarrow> fcall" where
  "fortify_gethostname bos const_buflen buf buflen =
    (if bos buf \<noteq> -1
    then if \<not> const_buflen
       then Fcall ''__gethostname_chk'' [CPtr buf, CSize buflen, CSize (bos buf)]
       else if buflen > bos buf
       then Fcall ''__gethostname_chk_warn'' [CPtr buf, CSize buflen, CSize (bos buf)]
       else Fcall ''__gethostname_alias'' [CPtr buf, CSize buflen]
    else Fcall ''__gethostname_alias'' [CPtr buf, CSize buflen])"

definition redirect_getdomainname :: redirects where
  "redirect_getdomainname =
     [(''__getdomainname_alias'', ''getdomainname'', None),
      (''__getdomainname_chk_warn'', ''__getdomainname_chk'', Some ''getdomainname called with bigger buflen than size of destination buffer'')]"

definition fortify_getdomainname :: "(u64 \<Rightarrow> u64) \<Rightarrow> bool \<Rightarrow> u64 \<Rightarrow> u64 \<Rightarrow> fcall" where
  "fortify_getdomainname bos const_buflen buf buflen =
    (if bos buf \<noteq> -1
    then if \<not> const_buflen
       then Fcall ''__getdomainname_chk'' [CPtr buf, CSize buflen, CSize (bos buf)]
       else if buflen > bos buf
       then Fcall ''__getdomainname_chk_warn'' [CPtr buf, CSize buflen, CSize (bos buf)]
       else Fcall ''__getdomainname_alias'' [CPtr buf, CSize buflen]
    else Fcall ''__getdomainname_alias'' [CPtr buf, CSize buflen])"

section \<open>\<open>bits/socket2.h\<close>\<close>

definition redirect_recv :: redirects where
  "redirect_recv =
     [(''__recv_alias'', ''recv'', None),
      (''__recv_chk_warn'', ''__recv_chk'', Some ''recv called with bigger length than size of destination buffer'')]"

definition fortify_recv :: "(u64 \<Rightarrow> u64) \<Rightarrow> bool \<Rightarrow> u32 \<Rightarrow> u64 \<Rightarrow> u64 \<Rightarrow> u32 \<Rightarrow> fcall" where
  "fortify_recv bos0 const_n fd buf n flags =
    (if bos0 buf \<noteq> -1
    then if \<not> const_n
       then Fcall ''__recv_chk'' [CInt fd, CPtr buf, CSize n, CSize (bos0 buf), CInt flags]
       else if n > bos0 buf
       then Fcall ''__recv_chk_warn'' [CInt fd, CPtr buf, CSize n, CSize (bos0 buf), CInt flags]
       else Fcall ''__recv_alias'' [CInt fd, CPtr buf, CSize n, CInt flags]
    else Fcall ''__recv_alias'' [CInt fd, CPtr buf, CSize n, CInt flags])"

definition redirect_recvfrom :: redirects where
  "redirect_recvfrom =
     [(''__recvfrom_alias'', ''recvfrom'', None),
      (''__recvfrom_chk_warn'', ''__recvfrom_chk'', Some ''recvfrom called with bigger length than size of destination buffer'')]"

definition fortify_recvfrom :: "(u64 \<Rightarrow> u64) \<Rightarrow> bool \<Rightarrow> u32 \<Rightarrow> u64 \<Rightarrow> u64 \<Rightarrow> u32 \<Rightarrow> u64 \<Rightarrow> u64 \<Rightarrow> fcall" where
  "fortify_recvfrom bos0 const_n fd buf n flags addr addr_len =
    (if bos0 buf \<noteq> -1
    then if \<not> const_n
       then Fcall ''__recvfrom_chk'' [CInt fd, CPtr buf, CSize n, CSize (bos0 buf), CInt flags, CPtr addr, CPtr addr_len]
       else if n > bos0 buf
       then Fcall ''__recvfrom_chk_warn'' [CInt fd, CPtr buf, CSize n, CSize (bos0 buf), CInt flags, CPtr addr, CPtr addr_len]
       else Fcall ''__recvfrom_alias'' [CInt fd, CPtr buf, CSize n, CInt flags, CPtr addr, CPtr addr_len]
    else Fcall ''__recvfrom_alias'' [CInt fd, CPtr buf, CSize n, CInt flags, CPtr addr, CPtr addr_len])"

section \<open>\<open>bits/poll2.h\<close>\<close>

definition redirect_poll :: redirects where
  "redirect_poll =
     [(''__poll_alias'', ''poll'', None),
      (''__poll_chk_warn'', ''__poll_chk'', Some ''poll called with fds buffer too small file nfds entries'')]"

definition fortify_poll :: "(u64 \<Rightarrow> u64) \<Rightarrow> bool \<Rightarrow> u64 \<Rightarrow> u64 \<Rightarrow> u32 \<Rightarrow> fcall" where
  "fortify_poll bos const_nfds fds nfds timeout =
    (if bos fds \<noteq> -1
    then if \<not> const_nfds
       then Fcall ''__poll_chk'' [CPtr fds, CSize nfds, CInt timeout, CSize (bos fds)]
       else if bos fds div 8 < nfds
       then Fcall ''__poll_chk_warn'' [CPtr fds, CSize nfds, CInt timeout, CSize (bos fds)]
       else Fcall ''__poll_alias'' [CPtr fds, CSize nfds, CInt timeout]
    else Fcall ''__poll_alias'' [CPtr fds, CSize nfds, CInt timeout])"

definition redirect_ppoll :: redirects where
  "redirect_ppoll =
     [(''__ppoll_alias'', ''ppoll'', None),
      (''__ppoll_chk_warn'', ''__ppoll_chk'', Some ''ppoll called with fds buffer too small file nfds entries'')]"

definition fortify_ppoll :: "(u64 \<Rightarrow> u64) \<Rightarrow> bool \<Rightarrow> u64 \<Rightarrow> u64 \<Rightarrow> u64 \<Rightarrow> u64 \<Rightarrow> fcall" where
  "fortify_ppoll bos const_nfds fds nfds timeout ss =
    (if bos fds \<noteq> -1
    then if \<not> const_nfds
       then Fcall ''__ppoll_chk'' [CPtr fds, CSize nfds, CPtr timeout, CPtr ss, CSize (bos fds)]
       else if bos fds div 8 < nfds
       then Fcall ''__ppoll_chk_warn'' [CPtr fds, CSize nfds, CPtr timeout, CPtr ss, CSize (bos fds)]
       else Fcall ''__ppoll_alias'' [CPtr fds, CSize nfds, CPtr timeout, CPtr ss]
    else Fcall ''__ppoll_alias'' [CPtr fds, CSize nfds, CPtr timeout, CPtr ss])"

section \<open>\<open>bits/stdlib.h\<close>\<close>

definition redirect_realpath :: redirects where
  "redirect_realpath =
     [(''__realpath_alias'', ''realpath'', None),
      (''__realpath_chk_warn'', ''__realpath_chk'', Some ''second argument of realpath must be either NULL or at least PATH_MAX bytes long buffer'')]"

definition fortify_realpath :: "(u64 \<Rightarrow> u64) \<Rightarrow> u64 \<Rightarrow> u64 \<Rightarrow> u64 \<Rightarrow> fcall" where
  "fortify_realpath bos PATH_MAX name resolved =
    (if bos resolved \<noteq> -1
    then if bos resolved < PATH_MAX
       then Fcall ''__realpath_chk_warn'' [CPtr name, CPtr resolved, CSize (bos resolved)]
       else Fcall ''__realpath_chk'' [CPtr name, CPtr resolved, CSize (bos resolved)]
    else Fcall ''__realpath_alias'' [CPtr name, CPtr resolved])"

definition redirect_ptsname_r :: redirects where
  "redirect_ptsname_r =
     [(''__ptsname_r_alias'', ''ptsname_r'', None),
      (''__ptsname_r_chk_warn'', ''__ptsname_r_chk'', Some ''ptsname_r called with buflen bigger than size of buf'')]"

definition fortify_ptsname_r :: "(u64 \<Rightarrow> u64) \<Rightarrow> bool \<Rightarrow> u32 \<Rightarrow> u64 \<Rightarrow> u64 \<Rightarrow> fcall" where
  "fortify_ptsname_r bos const_buflen fd buf buflen =
    (if bos buf \<noteq> -1
    then if \<not> const_buflen
       then Fcall ''__ptsname_r_chk'' [CInt fd, CPtr buf, CSize buflen, CSize (bos buf)]
       else if buflen > bos buf
       then Fcall ''__ptsname_r_chk_warn'' [CInt fd, CPtr buf, CSize buflen, CSize (bos buf)]
       else Fcall ''__ptsname_r_alias'' [CInt fd, CPtr buf, CSize buflen]
    else Fcall ''__ptsname_r_alias'' [CInt fd, CPtr buf, CSize buflen])"

definition redirect_wctomb :: redirects where
  "redirect_wctomb =
     [(''__wctomb_alias'', ''wctomb'', None)]"

definition fortify_wctomb :: "(u64 \<Rightarrow> u64) \<Rightarrow> u64 \<Rightarrow> u32 \<Rightarrow> fcall" where
  "fortify_wctomb bos s wchar =
    (if bos s \<noteq> -1 \<and> 16 > bos s
    then Fcall ''__wctomb_chk'' [CPtr s, CWide wchar, CSize (bos s)]
    else Fcall ''__wctomb_alias'' [CPtr s, CWide wchar])"

definition redirect_mbstowcs :: redirects where
  "redirect_mbstowcs =
     [(''__mbstowcs_alias'', ''mbstowcs'', None),
      (''__mbstowcs_chk_warn'', ''__mbstowcs_chk'', Some ''mbstowcs called with dst buffer smaller than len * sizeof (wchar_t)'')]"

definition fortify_mbstowcs :: "(u64 \<Rightarrow> u64) \<Rightarrow> bool \<Rightarrow> u64 \<Rightarrow> u64 \<Rightarrow> u64 \<Rightarrow> fcall" where
  "fortify_mbstowcs bos const_len dst src len =
    (if bos dst \<noteq> -1
    then if \<not> const_len
       then Fcall ''__mbstowcs_chk'' [CPtr dst, CPtr src, CSize len, CSize (bos dst div 4)]
       else if len > bos dst div 4
       then Fcall ''__mbstowcs_chk_warn'' [CPtr dst, CPtr src, CSize len, CSize (bos dst div 4)]
       else Fcall ''__mbstowcs_alias'' [CPtr dst, CPtr src, CSize len]
    else Fcall ''__mbstowcs_alias'' [CPtr dst, CPtr src, CSize len])"

definition redirect_wcstombs :: redirects where
  "redirect_wcstombs =
     [(''__wcstombs_alias'', ''wcstombs'', None),
      (''__wcstombs_chk_warn'', ''__wcstombs_chk'', Some ''wcstombs called with dst buffer smaller than len'')]"

definition fortify_wcstombs :: "(u64 \<Rightarrow> u64) \<Rightarrow> bool \<Rightarrow> u64 \<Rightarrow> u64 \<Rightarrow> u64 \<Rightarrow> fcall" where
  "fortify_wcstombs bos const_len dst src len =
    (if bos dst \<noteq> -1
    then if \<not> const_len
       then Fcall ''__wcstombs_chk'' [CPtr dst, CPtr src, CSize len, CSize (bos dst)]
       else if len > bos dst
       then Fcall ''__wcstombs_chk_warn'' [CPtr dst, CPtr src, CSize len, CSize (bos dst)]
       else Fcall ''__wcstombs_alias'' [CPtr dst, CPtr src, CSize len]
    else Fcall ''__wcstombs_alias'' [CPtr dst, CPtr src, CSize len])"

section \<open>The wrappers keep the contract\<close>

interpretation read_call: vetted_call redirect_read
  "(\<lambda>c bos (fd, buf, nbytes). fortify_read bos c fd buf nbytes)"
  "(\<lambda>(fd, buf, nbytes). Fcall ''read'' [CInt fd, CPtr buf, CSize nbytes])"
  "(\<lambda>b (fd, buf, nbytes). Fcall ''__read_chk'' [CInt fd, CPtr buf, CSize nbytes, CSize b])"
  "(\<lambda>(fd, buf, nbytes). buf)"
  "(\<lambda>(fd, buf, nbytes). unat nbytes)"
  "(\<lambda>c (fd, buf, nbytes). c)"
  by unfold_locales (auto simp: fortify_read_def redirect_read_def fortify_simps split: if_splits)

interpretation pread_call: vetted_call redirect_pread
  "(\<lambda>c bos (fd, buf, nbytes, offset). fortify_pread bos c fd buf nbytes offset)"
  "(\<lambda>(fd, buf, nbytes, offset). Fcall ''pread'' [CInt fd, CPtr buf, CSize nbytes, COff offset])"
  "(\<lambda>b (fd, buf, nbytes, offset). Fcall ''__pread_chk'' [CInt fd, CPtr buf, CSize nbytes, COff offset, CSize b])"
  "(\<lambda>(fd, buf, nbytes, offset). buf)"
  "(\<lambda>(fd, buf, nbytes, offset). unat nbytes)"
  "(\<lambda>c (fd, buf, nbytes, offset). c)"
  by unfold_locales (auto simp: fortify_pread_def redirect_pread_def fortify_simps split: if_splits)

interpretation pread_off64_call: vetted_call redirect_pread
  "(\<lambda>c bos (fd, buf, nbytes, offset). fortify_pread_off64 bos c fd buf nbytes offset)"
  "(\<lambda>(fd, buf, nbytes, offset). Fcall ''pread64'' [CInt fd, CPtr buf, CSize nbytes, COff offset])"
  "(\<lambda>b (fd, buf, nbytes, offset). Fcall ''__pread64_chk'' [CInt fd, CPtr buf, CSize nbytes, COff offset, CSize b])"
  "(\<lambda>(fd, buf, nbytes, offset). buf)"
  "(\<lambda>(fd, buf, nbytes, offset). unat nbytes)"
  "(\<lambda>c (fd, buf, nbytes, offset). c)"
  by unfold_locales (auto simp: fortify_pread_off64_def redirect_pread_def fortify_simps split: if_splits)

interpretation pread64_call: vetted_call redirect_pread
  "(\<lambda>c bos (fd, buf, nbytes, offset). fortify_pread64 bos c fd buf nbytes offset)"
  "(\<lambda>(fd, buf, nbytes, offset). Fcall ''pread64'' [CInt fd, CPtr buf, CSize nbytes, COff offset])"
  "(\<lambda>b (fd, buf, nbytes, offset). Fcall ''__pread64_chk'' [CInt fd, CPtr buf, CSize nbytes, COff offset, CSize b])"
  "(\<lambda>(fd, buf, nbytes, offset). buf)"
  "(\<lambda>(fd, buf, nbytes, offset). unat nbytes)"
  "(\<lambda>c (fd, buf, nbytes, offset). c)"
  by unfold_locales (auto simp: fortify_pread64_def redirect_pread_def fortify_simps split: if_splits)

interpretation readlink_call: vetted_call redirect_readlink
  "(\<lambda>c bos (path, buf, len). fortify_readlink bos c path buf len)"
  "(\<lambda>(path, buf, len). Fcall ''readlink'' [CPtr path, CPtr buf, CSize len])"
  "(\<lambda>b (path, buf, len). Fcall ''__readlink_chk'' [CPtr path, CPtr buf, CSize len, CSize b])"
  "(\<lambda>(path, buf, len). buf)"
  "(\<lambda>(path, buf, len). unat len)"
  "(\<lambda>c (path, buf, len). c)"
  by unfold_locales (auto simp: fortify_readlink_def redirect_readlink_def fortify_simps split: if_splits)

interpretation readlinkat_call: vetted_call redirect_readlinkat
  "(\<lambda>c bos (fd, path, buf, len). fortify_readlinkat bos c fd path buf len)"
  "(\<lambda>(fd, path, buf, len). Fcall ''readlinkat'' [CInt fd, CPtr path, CPtr buf, CSize len])"
  "(\<lambda>b (fd, path, buf, len). Fcall ''__readlinkat_chk'' [CInt fd, CPtr path, CPtr buf, CSize len, CSize b])"
  "(\<lambda>(fd, path, buf, len). buf)"
  "(\<lambda>(fd, path, buf, len). unat len)"
  "(\<lambda>c (fd, path, buf, len). c)"
  by unfold_locales (auto simp: fortify_readlinkat_def redirect_readlinkat_def fortify_simps split: if_splits)

interpretation getcwd_call: vetted_call redirect_getcwd
  "(\<lambda>c bos (buf, size1). fortify_getcwd bos c buf size1)"
  "(\<lambda>(buf, size1). Fcall ''getcwd'' [CPtr buf, CSize size1])"
  "(\<lambda>b (buf, size1). Fcall ''__getcwd_chk'' [CPtr buf, CSize size1, CSize b])"
  "(\<lambda>(buf, size1). buf)"
  "(\<lambda>(buf, size1). unat size1)"
  "(\<lambda>c (buf, size1). c)"
  by unfold_locales (auto simp: fortify_getcwd_def redirect_getcwd_def fortify_simps split: if_splits)

interpretation getwd_call: fortified_call redirect_getwd
  "(\<lambda>(c :: unit) bos buf. fortify_getwd bos buf)"
  "(\<lambda>buf. Fcall ''getwd'' [CPtr buf])"
  "(\<lambda>b buf. Fcall ''__getwd_chk'' [CPtr buf, CSize b])"
  "(\<lambda>buf. buf)"
  "(\<lambda>buf. (k buf))"
  for k
  by unfold_locales (auto simp: fortify_getwd_def redirect_getwd_def fortify_simps split: if_splits)

interpretation confstr_call: vetted_call redirect_confstr
  "(\<lambda>c bos (name, buf, len). fortify_confstr bos c name buf len)"
  "(\<lambda>(name, buf, len). Fcall ''confstr'' [CInt name, CPtr buf, CSize len])"
  "(\<lambda>b (name, buf, len). Fcall ''__confstr_chk'' [CInt name, CPtr buf, CSize len, CSize b])"
  "(\<lambda>(name, buf, len). buf)"
  "(\<lambda>(name, buf, len). unat len)"
  "(\<lambda>c (name, buf, len). c)"
  by unfold_locales (auto simp: fortify_confstr_def redirect_confstr_def fortify_simps split: if_splits)

interpretation getgroups_call: vetted_call redirect_getgroups
  "(\<lambda>c bos (size1, list). fortify_getgroups bos c size1 list)"
  "(\<lambda>(size1, list). Fcall ''getgroups'' [CInt size1, CPtr list])"
  "(\<lambda>b (size1, list). Fcall ''__getgroups_chk'' [CInt size1, CPtr list, CSize b])"
  "(\<lambda>(size1, list). list)"
  "(\<lambda>(size1, list). unat (scast size1 * 4 :: u64))"
  "(\<lambda>c (size1, list). c \<and> 0 \<le> sint size1)"
  by unfold_locales (auto simp: fortify_getgroups_def redirect_getgroups_def fortify_simps split: if_splits)

interpretation ttyname_r_call: vetted_call redirect_ttyname_r
  "(\<lambda>c bos (fd, buf, buflen). fortify_ttyname_r bos c fd buf buflen)"
  "(\<lambda>(fd, buf, buflen). Fcall ''ttyname_r'' [CInt fd, CPtr buf, CSize buflen])"
  "(\<lambda>b (fd, buf, buflen). Fcall ''__ttyname_r_chk'' [CInt fd, CPtr buf, CSize buflen, CSize b])"
  "(\<lambda>(fd, buf, buflen). buf)"
  "(\<lambda>(fd, buf, buflen). unat buflen)"
  "(\<lambda>c (fd, buf, buflen). c)"
  by unfold_locales (auto simp: fortify_ttyname_r_def redirect_ttyname_r_def fortify_simps split: if_splits)

interpretation getlogin_r_call: vetted_call redirect_getlogin_r
  "(\<lambda>c bos (buf, buflen). fortify_getlogin_r bos c buf buflen)"
  "(\<lambda>(buf, buflen). Fcall ''getlogin_r'' [CPtr buf, CSize buflen])"
  "(\<lambda>b (buf, buflen). Fcall ''__getlogin_r_chk'' [CPtr buf, CSize buflen, CSize b])"
  "(\<lambda>(buf, buflen). buf)"
  "(\<lambda>(buf, buflen). unat buflen)"
  "(\<lambda>c (buf, buflen). c)"
  by unfold_locales (auto simp: fortify_getlogin_r_def redirect_getlogin_r_def fortify_simps split: if_splits)

interpretation gethostname_call: vetted_call redirect_gethostname
  "(\<lambda>c bos (buf, buflen). fortify_gethostname bos c buf buflen)"
  "(\<lambda>(buf, buflen). Fcall ''gethostname'' [CPtr buf, CSize buflen])"
  "(\<lambda>b (buf, buflen). Fcall ''__gethostname_chk'' [CPtr buf, CSize buflen, CSize b])"
  "(\<lambda>(buf, buflen). buf)"
  "(\<lambda>(buf, buflen). unat buflen)"
  "(\<lambda>c (buf, buflen). c)"
  by unfold_locales (auto simp: fortify_gethostname_def redirect_gethostname_def fortify_simps split: if_splits)

interpretation getdomainname_call: vetted_call redirect_getdomainname
  "(\<lambda>c bos (buf, buflen). fortify_getdomainname bos c buf buflen)"
  "(\<lambda>(buf, buflen). Fcall ''getdomainname'' [CPtr buf, CSize buflen])"
  "(\<lambda>b (buf, buflen). Fcall ''__getdomainname_chk'' [CPtr buf, CSize buflen, CSize b])"
  "(\<lambda>(buf, buflen). buf)"
  "(\<lambda>(buf, buflen). unat buflen)"
  "(\<lambda>c (buf, buflen). c)"
  by unfold_locales (auto simp: fortify_getdomainname_def redirect_getdomainname_def fortify_simps split: if_splits)

interpretation recv_call: vetted_call redirect_recv
  "(\<lambda>c bos (fd, buf, n, flags). fortify_recv bos c fd buf n flags)"
  "(\<lambda>(fd, buf, n, flags). Fcall ''recv'' [CInt fd, CPtr buf, CSize n, CInt flags])"
  "(\<lambda>b (fd, buf, n, flags). Fcall ''__recv_chk'' [CInt fd, CPtr buf, CSize n, CSize b, CInt flags])"
  "(\<lambda>(fd, buf, n, flags). buf)"
  "(\<lambda>(fd, buf, n, flags). unat n)"
  "(\<lambda>c (fd, buf, n, flags). c)"
  by unfold_locales (auto simp: fortify_recv_def redirect_recv_def fortify_simps split: if_splits)

interpretation recvfrom_call: vetted_call redirect_recvfrom
  "(\<lambda>c bos (fd, buf, n, flags, addr, addr_len). fortify_recvfrom bos c fd buf n flags addr addr_len)"
  "(\<lambda>(fd, buf, n, flags, addr, addr_len). Fcall ''recvfrom'' [CInt fd, CPtr buf, CSize n, CInt flags, CPtr addr, CPtr addr_len])"
  "(\<lambda>b (fd, buf, n, flags, addr, addr_len). Fcall ''__recvfrom_chk'' [CInt fd, CPtr buf, CSize n, CSize b, CInt flags, CPtr addr, CPtr addr_len])"
  "(\<lambda>(fd, buf, n, flags, addr, addr_len). buf)"
  "(\<lambda>(fd, buf, n, flags, addr, addr_len). unat n)"
  "(\<lambda>c (fd, buf, n, flags, addr, addr_len). c)"
  by unfold_locales (auto simp: fortify_recvfrom_def redirect_recvfrom_def fortify_simps split: if_splits)

interpretation poll_call: vetted_call redirect_poll
  "(\<lambda>c bos (fds, nfds, timeout). fortify_poll bos c fds nfds timeout)"
  "(\<lambda>(fds, nfds, timeout). Fcall ''poll'' [CPtr fds, CSize nfds, CInt timeout])"
  "(\<lambda>b (fds, nfds, timeout). Fcall ''__poll_chk'' [CPtr fds, CSize nfds, CInt timeout, CSize b])"
  "(\<lambda>(fds, nfds, timeout). fds)"
  "(\<lambda>(fds, nfds, timeout). 8 * unat nfds)"
  "(\<lambda>c (fds, nfds, timeout). c)"
  by unfold_locales (auto simp: fortify_poll_def redirect_poll_def fortify_simps split: if_splits)

interpretation ppoll_call: vetted_call redirect_ppoll
  "(\<lambda>c bos (fds, nfds, timeout, ss). fortify_ppoll bos c fds nfds timeout ss)"
  "(\<lambda>(fds, nfds, timeout, ss). Fcall ''ppoll'' [CPtr fds, CSize nfds, CPtr timeout, CPtr ss])"
  "(\<lambda>b (fds, nfds, timeout, ss). Fcall ''__ppoll_chk'' [CPtr fds, CSize nfds, CPtr timeout, CPtr ss, CSize b])"
  "(\<lambda>(fds, nfds, timeout, ss). fds)"
  "(\<lambda>(fds, nfds, timeout, ss). 8 * unat nfds)"
  "(\<lambda>c (fds, nfds, timeout, ss). c)"
  by unfold_locales (auto simp: fortify_ppoll_def redirect_ppoll_def fortify_simps split: if_splits)

interpretation realpath_call: fortified_call redirect_realpath
  "(\<lambda>(c :: unit) bos (name, resolved). fortify_realpath bos PATH_MAX name resolved)"
  "(\<lambda>(name, resolved). Fcall ''realpath'' [CPtr name, CPtr resolved])"
  "(\<lambda>b (name, resolved). Fcall ''__realpath_chk'' [CPtr name, CPtr resolved, CSize b])"
  "(\<lambda>(name, resolved). resolved)"
  "(\<lambda>(name, resolved). unat PATH_MAX)"
  for PATH_MAX
  by unfold_locales (auto simp: fortify_realpath_def redirect_realpath_def fortify_simps split: if_splits)

interpretation ptsname_r_call: vetted_call redirect_ptsname_r
  "(\<lambda>c bos (fd, buf, buflen). fortify_ptsname_r bos c fd buf buflen)"
  "(\<lambda>(fd, buf, buflen). Fcall ''ptsname_r'' [CInt fd, CPtr buf, CSize buflen])"
  "(\<lambda>b (fd, buf, buflen). Fcall ''__ptsname_r_chk'' [CInt fd, CPtr buf, CSize buflen, CSize b])"
  "(\<lambda>(fd, buf, buflen). buf)"
  "(\<lambda>(fd, buf, buflen). unat buflen)"
  "(\<lambda>c (fd, buf, buflen). c)"
  by unfold_locales (auto simp: fortify_ptsname_r_def redirect_ptsname_r_def fortify_simps split: if_splits)

interpretation wctomb_call: fortified_call redirect_wctomb
  "(\<lambda>(c :: unit) bos (s, wchar). fortify_wctomb bos s wchar)"
  "(\<lambda>(s, wchar). Fcall ''wctomb'' [CPtr s, CWide wchar])"
  "(\<lambda>b (s, wchar). Fcall ''__wctomb_chk'' [CPtr s, CWide wchar, CSize b])"
  "(\<lambda>(s, wchar). s)"
  "(\<lambda>(s, wchar). min 16 (k (s, wchar)))"
  for k
  by unfold_locales (auto simp: fortify_wctomb_def redirect_wctomb_def fortify_simps split: if_splits)

interpretation mbstowcs_call: vetted_call redirect_mbstowcs
  "(\<lambda>c bos (dst, src, len). fortify_mbstowcs bos c dst src len)"
  "(\<lambda>(dst, src, len). Fcall ''mbstowcs'' [CPtr dst, CPtr src, CSize len])"
  "(\<lambda>b (dst, src, len). Fcall ''__mbstowcs_chk'' [CPtr dst, CPtr src, CSize len, CSize (b div 4)])"
  "(\<lambda>(dst, src, len). dst)"
  "(\<lambda>(dst, src, len). 4 * unat len)"
  "(\<lambda>c (dst, src, len). c)"
  by unfold_locales (auto simp: fortify_mbstowcs_def redirect_mbstowcs_def fortify_simps split: if_splits)

interpretation wcstombs_call: vetted_call redirect_wcstombs
  "(\<lambda>c bos (dst, src, len). fortify_wcstombs bos c dst src len)"
  "(\<lambda>(dst, src, len). Fcall ''wcstombs'' [CPtr dst, CPtr src, CSize len])"
  "(\<lambda>b (dst, src, len). Fcall ''__wcstombs_chk'' [CPtr dst, CPtr src, CSize len, CSize b])"
  "(\<lambda>(dst, src, len). dst)"
  "(\<lambda>(dst, src, len). unat len)"
  "(\<lambda>c (dst, src, len). c)"
  by unfold_locales (auto simp: fortify_wcstombs_def redirect_wcstombs_def fortify_simps split: if_splits)

lemmas fortify_system_guarded =
  read_call.guarded
  pread_call.guarded
  pread_off64_call.guarded
  pread64_call.guarded
  readlink_call.guarded
  readlinkat_call.guarded
  getcwd_call.guarded
  getwd_call.guarded
  confstr_call.guarded
  getgroups_call.guarded
  ttyname_r_call.guarded
  getlogin_r_call.guarded
  gethostname_call.guarded
  getdomainname_call.guarded
  recv_call.guarded
  recvfrom_call.guarded
  poll_call.guarded
  ppoll_call.guarded
  realpath_call.guarded
  ptsname_r_call.guarded
  wctomb_call.guarded
  mbstowcs_call.guarded
  wcstombs_call.guarded

lemmas fortify_system_vetted =
  read_call.vetted
  pread_call.vetted
  pread_off64_call.vetted
  pread64_call.vetted
  readlink_call.vetted
  readlinkat_call.vetted
  getcwd_call.vetted
  confstr_call.vetted
  getgroups_call.vetted
  ttyname_r_call.vetted
  getlogin_r_call.vetted
  gethostname_call.vetted
  getdomainname_call.vetted
  recv_call.vetted
  recvfrom_call.vetted
  poll_call.vetted
  ppoll_call.vetted
  ptsname_r_call.vetted
  mbstowcs_call.vetted
  wcstombs_call.vetted

text \<open>
  Every wrapper of the system interface behaves as the function it replaces, except that the program
  is aborted exactly when the object size is known and smaller than what the call would fill;
  whether lengths are compile-time constants makes no difference to this.
\<close>

theorem system_calls_guarded:
  fixes lib :: "fcall \<Rightarrow> 'o outcome"
  shows
    "(guards lib redirect_read
       (\<lambda>c bos (fd, buf, nbytes). fortify_read bos c fd buf nbytes)
       (\<lambda>(fd, buf, nbytes). Fcall ''read'' [CInt fd, CPtr buf, CSize nbytes])
       (\<lambda>b (fd, buf, nbytes). Fcall ''__read_chk'' [CInt fd, CPtr buf, CSize nbytes, CSize b])
       (\<lambda>(fd, buf, nbytes). buf)
       (\<lambda>(fd, buf, nbytes). unat nbytes)) \<and>
     (guards lib redirect_pread
       (\<lambda>c bos (fd, buf, nbytes, offset). fortify_pread bos c fd buf nbytes offset)
       (\<lambda>(fd, buf, nbytes, offset). Fcall ''pread'' [CInt fd, CPtr buf, CSize nbytes, COff offset])
       (\<lambda>b (fd, buf, nbytes, offset). Fcall ''__pread_chk'' [CInt fd, CPtr buf, CSize nbytes, COff offset, CSize b])
       (\<lambda>(fd, buf, nbytes, offset). buf)
       (\<lambda>(fd, buf, nbytes, offset). unat nbytes)) \<and>
     (guards lib redirect_pread
       (\<lambda>c bos (fd, buf, nbytes, offset). fortify_pread_off64 bos c fd buf nbytes offset)
       (\<lambda>(fd, buf, nbytes, offset). Fcall ''pread64'' [CInt fd, CPtr buf, CSize nbytes, COff offset])
       (\<lambda>b (fd, buf, nbytes, offset). Fcall ''__pread64_chk'' [CInt fd, CPtr buf, CSize nbytes, COff offset, CSize b])
       (\<lambda>(fd, buf, nbytes, offset). buf)
       (\<lambda>(fd, buf, nbytes, offset). unat nbytes)) \<and>
     (guards lib redirect_pread
       (\<lambda>c bos (fd, buf, nbytes, offset). fortify_pread64 bos c fd buf nbytes offset)
       (\<lambda>(fd, buf, nbytes, offset). Fcall ''pread64'' [CInt fd, CPtr buf, CSize nbytes, COff offset])
       (\<lambda>b (fd, buf, nbytes, offset). Fcall ''__pread64_chk'' [CInt fd, CPtr buf, CSize nbytes, COff offset, CSize b])
       (\<lambda>(fd, buf, nbytes, offset). buf)
       (\<lambda>(fd, buf, nbytes, offset). unat nbytes)) \<and>
     (guards lib redirect_readlink
       (\<lambda>c bos (path, buf, len). fortify_readlink bos c path buf len)
       (\<lambda>(path, buf, len). Fcall ''readlink'' [CPtr path, CPtr buf, CSize len])
       (\<lambda>b (path, buf, len). Fcall ''__readlink_chk'' [CPtr path, CPtr buf, CSize len, CSize b])
       (\<lambda>(path, buf, len). buf)
       (\<lambda>(path, buf, len). unat len)) \<and>
     (guards lib redirect_readlinkat
       (\<lambda>c bos (fd, path, buf, len). fortify_readlinkat bos c fd path buf len)
       (\<lambda>(fd, path, buf, len). Fcall ''readlinkat'' [CInt fd, CPtr path, CPtr buf, CSize len])
       (\<lambda>b (fd, path, buf, len). Fcall ''__readlinkat_chk'' [CInt fd, CPtr path, CPtr buf, CSize len, CSize b])
       (\<lambda>(fd, path, buf, len). buf)
       (\<lambda>(fd, path, buf, len). unat len)) \<and>
     (guards lib redirect_getcwd
       (\<lambda>c bos (buf, size1). fortify_getcwd bos c buf size1)
       (\<lambda>(buf, size1). Fcall ''getcwd'' [CPtr buf, CSize size1])
       (\<lambda>b (buf, size1). Fcall ''__getcwd_chk'' [CPtr buf, CSize size1, CSize b])
       (\<lambda>(buf, size1). buf)
       (\<lambda>(buf, size1). unat size1)) \<and>
     (\<forall>k. guards lib redirect_getwd
       (\<lambda>(c :: unit) bos buf. fortify_getwd bos buf)
       (\<lambda>buf. Fcall ''getwd'' [CPtr buf])
       (\<lambda>b buf. Fcall ''__getwd_chk'' [CPtr buf, CSize b])
       (\<lambda>buf. buf)
       (\<lambda>buf. (k buf))) \<and>
     (guards lib redirect_confstr
       (\<lambda>c bos (name, buf, len). fortify_confstr bos c name buf len)
       (\<lambda>(name, buf, len). Fcall ''confstr'' [CInt name, CPtr buf, CSize len])
       (\<lambda>b (name, buf, len). Fcall ''__confstr_chk'' [CInt name, CPtr buf, CSize len, CSize b])
       (\<lambda>(name, buf, len). buf)
       (\<lambda>(name, buf, len). unat len)) \<and>
     (guards lib redirect_getgroups
       (\<lambda>c bos (size1, list). fortify_getgroups bos c size1 list)
       (\<lambda>(size1, list). Fcall ''getgroups'' [CInt size1, CPtr list])
       (\<lambda>b (size1, list). Fcall ''__getgroups_chk'' [CInt size1, CPtr list, CSize b])
       (\<lambda>(size1, list). list)
       (\<lambda>(size1, list). unat (scast size1 * 4 :: u64))) \<and>
     (guards lib redirect_ttyname_r
       (\<lambda>c bos (fd, buf, buflen). fortify_ttyname_r bos c fd buf buflen)
       (\<lambda>(fd, buf, buflen). Fcall ''ttyname_r'' [CInt fd, CPtr buf, CSize buflen])
       (\<lambda>b (fd, buf, buflen). Fcall ''__ttyname_r_chk'' [CInt fd, CPtr buf, CSize buflen, CSize b])
       (\<lambda>(fd, buf, buflen). buf)
       (\<lambda>(fd, buf, buflen). unat buflen)) \<and>
     (guards lib redirect_getlogin_r
       (\<lambda>c bos (buf, buflen). fortify_getlogin_r bos c buf buflen)
       (\<lambda>(buf, buflen). Fcall ''getlogin_r'' [CPtr buf, CSize buflen])
       (\<lambda>b (buf, buflen). Fcall ''__getlogin_r_chk'' [CPtr buf, CSize buflen, CSize b])
       (\<lambda>(buf, buflen). buf)
       (\<lambda>(buf, buflen). unat buflen)) \<and>
     (guards lib redirect_gethostname
       (\<lambda>c bos (buf, buflen). fortify_gethostname bos c buf buflen)
       (\<lambda>(buf, buflen). Fcall ''gethostname'' [CPtr buf, CSize buflen])
       (\<lambda>b (buf, buflen). Fcall ''__gethostname_chk'' [CPtr buf, CSize buflen, CSize b])
       (\<lambda>(buf, buflen). buf)
       (\<lambda>(buf, buflen). unat buflen)) \<and>
     (guards lib redirect_getdomainname
       (\<lambda>c bos (buf, buflen). fortify_getdomainname bos c buf buflen)
       (\<lambda>(buf, buflen). Fcall ''getdomainname'' [CPtr buf, CSize buflen])
       (\<lambda>b (buf, buflen). Fcall ''__getdomainname_chk'' [CPtr buf, CSize buflen, CSize b])
       (\<lambda>(buf, buflen). buf)
       (\<lambda>(buf, buflen). unat buflen)) \<and>
     (guards lib redirect_recv
       (\<lambda>c bos (fd, buf, n, flags). fortify_recv bos c fd buf n flags)
       (\<lambda>(fd, buf, n, flags). Fcall ''recv'' [CInt fd, CPtr buf, CSize n, CInt flags])
       (\<lambda>b (fd, buf, n, flags). Fcall ''__recv_chk'' [CInt fd, CPtr buf, CSize n, CSize b, CInt flags])
       (\<lambda>(fd, buf, n, flags). buf)
       (\<lambda>(fd, buf, n, flags). unat n)) \<and>
     (guards lib redirect_recvfrom
       (\<lambda>c bos (fd, buf, n, flags, addr, addr_len). fortify_recvfrom bos c fd buf n flags addr addr_len)
       (\<lambda>(fd, buf, n, flags, addr, addr_len). Fcall ''recvfrom'' [CInt fd, CPtr buf, CSize n, CInt flags, CPtr addr, CPtr addr_len])
       (\<lambda>b (fd, buf, n, flags, addr, addr_len). Fcall ''__recvfrom_chk'' [CInt fd, CPtr buf, CSize n, CSize b, CInt flags, CPtr addr, CPtr addr_len])
       (\<lambda>(fd, buf, n, flags, addr, addr_len). buf)
       (\<lambda>(fd, buf, n, flags, addr, addr_len). unat n)) \<and>
     (guards lib redirect_poll
       (\<lambda>c bos (fds, nfds, timeout). fortify_poll bos c fds nfds timeout)
       (\<lambda>(fds, nfds, timeout). Fcall ''poll'' [CPtr fds, CSize nfds, CInt timeout])
       (\<lambda>b (fds, nfds, timeout). Fcall ''__poll_chk'' [CPtr fds, CSize nfds, CInt timeout, CSize b])
       (\<lambda>(fds, nfds, timeout). fds)
       (\<lambda>(fds, nfds, timeout). 8 * unat nfds)) \<and>
     (guards lib redirect_ppoll
       (\<lambda>c bos (fds, nfds, timeout, ss). fortify_ppoll bos c fds nfds timeout ss)
       (\<lambda>(fds, nfds, timeout, ss). Fcall ''ppoll'' [CPtr fds, CSize nfds, CPtr timeout, CPtr ss])
       (\<lambda>b (fds, nfds, timeout, ss). Fcall ''__ppoll_chk'' [CPtr fds, CSize nfds, CPtr timeout, CPtr ss, CSize b])
       (\<lambda>(fds, nfds, timeout, ss). fds)
       (\<lambda>(fds, nfds, timeout, ss). 8 * unat nfds)) \<and>
     (\<forall>PATH_MAX. guards lib redirect_realpath
       (\<lambda>(c :: unit) bos (name, resolved). fortify_realpath bos PATH_MAX name resolved)
       (\<lambda>(name, resolved). Fcall ''realpath'' [CPtr name, CPtr resolved])
       (\<lambda>b (name, resolved). Fcall ''__realpath_chk'' [CPtr name, CPtr resolved, CSize b])
       (\<lambda>(name, resolved). resolved)
       (\<lambda>(name, resolved). unat PATH_MAX)) \<and>
     (guards lib redirect_ptsname_r
       (\<lambda>c bos (fd, buf, buflen). fortify_ptsname_r bos c fd buf buflen)
       (\<lambda>(fd, buf, buflen). Fcall ''ptsname_r'' [CInt fd, CPtr buf, CSize buflen])
       (\<lambda>b (fd, buf, buflen). Fcall ''__ptsname_r_chk'' [CInt fd, CPtr buf, CSize buflen, CSize b])
       (\<lambda>(fd, buf, buflen). buf)
       (\<lambda>(fd, buf, buflen). unat buflen)) \<and>
     (\<forall>k. guards lib redirect_wctomb
       (\<lambda>(c :: unit) bos (s, wchar). fortify_wctomb bos s wchar)
       (\<lambda>(s, wchar). Fcall ''wctomb'' [CPtr s, CWide wchar])
       (\<lambda>b (s, wchar). Fcall ''__wctomb_chk'' [CPtr s, CWide wchar, CSize b])
       (\<lambda>(s, wchar). s)
       (\<lambda>(s, wchar). min 16 (k (s, wchar)))) \<and>
     (guards lib redirect_mbstowcs
       (\<lambda>c bos (dst, src, len). fortify_mbstowcs bos c dst src len)
       (\<lambda>(dst, src, len). Fcall ''mbstowcs'' [CPtr dst, CPtr src, CSize len])
       (\<lambda>b (dst, src, len). Fcall ''__mbstowcs_chk'' [CPtr dst, CPtr src, CSize len, CSize (b div 4)])
       (\<lambda>(dst, src, len). dst)
       (\<lambda>(dst, src, len). 4 * unat len)) \<and>
     (guards lib redirect_wcstombs
       (\<lambda>c bos (dst, src, len). fortify_wcstombs bos c dst src len)
       (\<lambda>(dst, src, len). Fcall ''wcstombs'' [CPtr dst, CPtr src, CSize len])
       (\<lambda>b (dst, src, len). Fcall ''__wcstombs_chk'' [CPtr dst, CPtr src, CSize len, CSize b])
       (\<lambda>(dst, src, len). dst)
       (\<lambda>(dst, src, len). unat len))"
  by (intro conjI allI fortify_system_guarded)

theorem system_calls_guarded_vetted:
  "vets redirect_read
       (\<lambda>c bos (fd, buf, nbytes). fortify_read bos c fd buf nbytes)
       (\<lambda>(fd, buf, nbytes). buf)
       (\<lambda>(fd, buf, nbytes). unat nbytes)
       (\<lambda>c (fd, buf, nbytes). c) \<and>
   vets redirect_pread
       (\<lambda>c bos (fd, buf, nbytes, offset). fortify_pread bos c fd buf nbytes offset)
       (\<lambda>(fd, buf, nbytes, offset). buf)
       (\<lambda>(fd, buf, nbytes, offset). unat nbytes)
       (\<lambda>c (fd, buf, nbytes, offset). c) \<and>
   vets redirect_pread
       (\<lambda>c bos (fd, buf, nbytes, offset). fortify_pread_off64 bos c fd buf nbytes offset)
       (\<lambda>(fd, buf, nbytes, offset). buf)
       (\<lambda>(fd, buf, nbytes, offset). unat nbytes)
       (\<lambda>c (fd, buf, nbytes, offset). c) \<and>
   vets redirect_pread
       (\<lambda>c bos (fd, buf, nbytes, offset). fortify_pread64 bos c fd buf nbytes offset)
       (\<lambda>(fd, buf, nbytes, offset). buf)
       (\<lambda>(fd, buf, nbytes, offset). unat nbytes)
       (\<lambda>c (fd, buf, nbytes, offset). c) \<and>
   vets redirect_readlink
       (\<lambda>c bos (path, buf, len). fortify_readlink bos c path buf len)
       (\<lambda>(path, buf, len). buf)
       (\<lambda>(path, buf, len). unat len)
       (\<lambda>c (path, buf, len). c) \<and>
   vets redirect_readlinkat
       (\<lambda>c bos (fd, path, buf, len). fortify_readlinkat bos c fd path buf len)
       (\<lambda>(fd, path, buf, len). buf)
       (\<lambda>(fd, path, buf, len). unat len)
       (\<lambda>c (fd, path, buf, len). c) \<and>
   vets redirect_getcwd
       (\<lambda>c bos (buf, size1). fortify_getcwd bos c buf size1)
       (\<lambda>(buf, size1). buf)
       (\<lambda>(buf, size1). unat size1)
       (\<lambda>c (buf, size1). c) \<and>
   vets redirect_confstr
       (\<lambda>c bos (name, buf, len). fortify_confstr bos c name buf len)
       (\<lambda>(name, buf, len). buf)
       (\<lambda>(name, buf, len). unat len)
       (\<lambda>c (name, buf, len). c) \<and>
   vets redirect_getgroups
       (\<lambda>c bos (size1, list). fortify_getgroups bos c size1 list)
       (\<lambda>(size1, list). list)
       (\<lambda>(size1, list). unat (scast size1 * 4 :: u64))
       (\<lambda>c (size1, list). c \<and> 0 \<le> sint size1) \<and>
   vets redirect_ttyname_r
       (\<lambda>c bos (fd, buf, buflen). fortify_ttyname_r bos c fd buf buflen)
       (\<lambda>(fd, buf, buflen). buf)
       (\<lambda>(fd, buf, buflen). unat buflen)
       (\<lambda>c (fd, buf, buflen). c) \<and>
   vets redirect_getlogin_r
       (\<lambda>c bos (buf, buflen). fortify_getlogin_r bos c buf buflen)
       (\<lambda>(buf, buflen). buf)
       (\<lambda>(buf, buflen). unat buflen)
       (\<lambda>c (buf, buflen). c) \<and>
   vets redirect_gethostname
       (\<lambda>c bos (buf, buflen). fortify_gethostname bos c buf buflen)
       (\<lambda>(buf, buflen). buf)
       (\<lambda>(buf, buflen). unat buflen)
       (\<lambda>c (buf, buflen). c) \<and>
   vets redirect_getdomainname
       (\<lambda>c bos (buf, buflen). fortify_getdomainname bos c buf buflen)
       (\<lambda>(buf, buflen). buf)
       (\<lambda>(buf, buflen). unat buflen)
       (\<lambda>c (buf, buflen). c) \<and>
   vets redirect_recv
       (\<lambda>c bos (fd, buf, n, flags). fortify_recv bos c fd buf n flags)
       (\<lambda>(fd, buf, n, flags). buf)
       (\<lambda>(fd, buf, n, flags). unat n)
       (\<lambda>c (fd, buf, n, flags). c) \<and>
   vets redirect_recvfrom
       (\<lambda>c bos (fd, buf, n, flags, addr, addr_len). fortify_recvfrom bos c fd buf n flags addr addr_len)
       (\<lambda>(fd, buf, n, flags, addr, addr_len). buf)
       (\<lambda>(fd, buf, n, flags, addr, addr_len). unat n)
       (\<lambda>c (fd, buf, n, flags, addr, addr_len). c) \<and>
   vets redirect_poll
       (\<lambda>c bos (fds, nfds, timeout). fortify_poll bos c fds nfds timeout)
       (\<lambda>(fds, nfds, timeout). fds)
       (\<lambda>(fds, nfds, timeout). 8 * unat nfds)
       (\<lambda>c (fds, nfds, timeout). c) \<and>
   vets redirect_ppoll
       (\<lambda>c bos (fds, nfds, timeout, ss). fortify_ppoll bos c fds nfds timeout ss)
       (\<lambda>(fds, nfds, timeout, ss). fds)
       (\<lambda>(fds, nfds, timeout, ss). 8 * unat nfds)
       (\<lambda>c (fds, nfds, timeout, ss). c) \<and>
   vets redirect_ptsname_r
       (\<lambda>c bos (fd, buf, buflen). fortify_ptsname_r bos c fd buf buflen)
       (\<lambda>(fd, buf, buflen). buf)
       (\<lambda>(fd, buf, buflen). unat buflen)
       (\<lambda>c (fd, buf, buflen). c) \<and>
   vets redirect_mbstowcs
       (\<lambda>c bos (dst, src, len). fortify_mbstowcs bos c dst src len)
       (\<lambda>(dst, src, len). dst)
       (\<lambda>(dst, src, len). 4 * unat len)
       (\<lambda>c (dst, src, len). c) \<and>
   vets redirect_wcstombs
       (\<lambda>c bos (dst, src, len). fortify_wcstombs bos c dst src len)
       (\<lambda>(dst, src, len). dst)
       (\<lambda>(dst, src, len). unat len)
       (\<lambda>c (dst, src, len). c)"
  by (intro conjI fortify_system_vetted)

end
