(* ===== verification/Fortify_Wide.thy ===== *)
theory Fortify_Wide
  imports Fortify_Base
begin

text \<open>
  The fortified wrappers of \<open>bits/wchar2.h\<close>. Lengths count wide characters of four bytes, object sizes
  count bytes; the formatted output functions, which also take the fortification level, are left out.
\<close>

section \<open>\<open>bits/wchar2.h\<close>\<close>

definition redirect_wmemcpy :: redirects where
  "redirect_wmemcpy =
     [(''__wmemcpy_alias'', ''wmemcpy'', None),
      (''__wmemcpy_chk_warn'', ''__wmemcpy_chk'', Some ''wmemcpy called with length bigger than size of destination buffer'')]"

definition fortify_wmemcpy :: "(u64 \<Rightarrow> u64) \<Rightarrow> bool \<Rightarrow> u64 \<Rightarrow> u64 \<Rightarrow> u64 \<Rightarrow> fcall" where
  "fortify_wmemcpy bos0 const_n s1 s2 n =
    (if bos0 s1 \<noteq> -1
    then if \<not> const_n
       then Fcall ''__wmemcpy_chk'' [CPtr s1, CPtr s2, CSize n, CSize (bos0 s1 div 4)]
       else if n > bos0 s1 div 4
       then Fcall ''__wmemcpy_chk_warn'' [CPtr s1, CPtr s2, CSize n, CSize (bos0 s1 div 4)]
       else Fcall ''__wmemcpy_alias'' [CPtr s1, CPtr s2, CSize n]
    else Fcall ''__wmemcpy_alias'' [CPtr s1, CPtr s2, CSize n])"

definition redirect_wmemmove :: redirects where
  "redirect_wmemmove =
     [(''__wmemmove_alias'', ''wmemmove'', None),
      (''__wmemmove_chk_warn'', ''__wmemmove_chk'', Some ''wmemmove called with length bigger than size of destination buffer'')]"

definition fortify_wmemmove :: "(u64 \<Rightarrow> u64) \<Rightarrow> bool \<Rightarrow> u64 \<Rightarrow> u64 \<Rightarrow> u64 \<Rightarrow> fcall" where
  "fortify_wmemmove bos0 const_n s1 s2 n =
    (if bos0 s1 \<noteq> -1
    then if \<not> const_n
       then Fcall ''__wmemmove_chk'' [CPtr s1, CPtr s2, CSize n, CSize (bos0 s1 div 4)]
       else if n > bos0 s1 div 4
       then Fcall ''__wmemmove_chk_warn'' [CPtr s1, CPtr s2, CSize n, CSize (bos0 s1 div 4)]
       else Fcall ''__wmemmove_alias'' [CPtr s1, CPtr s2, CSize n]
    else Fcall ''__wmemmove_alias'' [CPtr s1, CPtr s2, CSize n])"

definition redirect_wmempcpy :: redirects where
  "redirect_wmempcpy =
     [(''__wmempcpy_alias'', ''wmempcpy'', None),
      (''__wmempcpy_chk_warn'', ''__wmempcpy_chk'', Some ''wmempcpy called with length bigger than size of destination buffer'')]"

definition fortify_wmempcpy :: "(u64 \<Rightarrow> u64) \<Rightarrow> bool \<Rightarrow> u64 \<Rightarrow> u64 \<Rightarrow> u64 \<Rightarrow> fcall" where
  "fortify_wmempcpy bos0 const_n s1 s2 n =
    (if bos0 s1 \<noteq> -1
    then if \<not> const_n
       then Fcall ''__wmempcpy_chk'' [CPtr s1, CPtr s2, CSize n, CSize (bos0 s1 div 4)]
       else if n > bos0 s1 div 4
       then Fcall ''__wmempcpy_chk_warn'' [CPtr s1, CPtr s2, CSize n, CSize (bos0 s1 div 4)]
       else Fcall ''__wmempcpy_alias'' [CPtr s1, CPtr s2, CSize n]
    else Fcall ''__wmempcpy_alias'' [CPtr s1, CPtr s2, CSize n])"

definition redirect_wmemset :: redirects where
  "redirect_wmemset =
     [(''__wmemset_alias'', ''wmemset'', None),
      (''__wmemset_chk_warn'', ''__wmemset_chk'', Some ''wmemset called with length bigger than size of destination buffer'')]"

definition fortify_wmemset :: "(u64 \<Rightarrow> u64) \<Rightarrow> bool \<Rightarrow> u64 \<Rightarrow> u32 \<Rightarrow> u64 \<Rightarrow> fcall" where
  "fortify_wmemset bos0 const_n s wc n =
    (if bos0 s \<noteq> -1
    then if \<not> const_n
       then Fcall ''__wmemset_chk'' [CPtr s, CWide wc, CSize n, CSize (bos0 s div 4)]
       else if n > bos0 s div 4
       then Fcall ''__wmemset_chk_warn'' [CPtr s, CWide wc, CSize n, CSize (bos0 s div 4)]
       else Fcall ''__wmemset_alias'' [CPtr s, CWide wc, CSize n]
    else Fcall ''__wmemset_alias'' [CPtr s, CWide wc, CSize n])"

definition redirect_wcscpy :: redirects where
  "redirect_wcscpy =
     [(''__wcscpy_alias'', ''wcscpy'', None)]"

definition fortify_wcscpy :: "(u64 \<Rightarrow> u64) \<Rightarrow> u64 \<Rightarrow> u64 \<Rightarrow> fcall" where
  "fortify_wcscpy bos dest src =
    (if bos dest \<noteq> -1
    then Fcall ''__wcscpy_chk'' [CPtr dest, CPtr src, CSize (bos dest div 4)]
    else Fcall ''__wcscpy_alias'' [CPtr dest, CPtr src])"

definition redirect_wcpcpy :: redirects where
  "redirect_wcpcpy =
     [(''__wcpcpy_alias'', ''wcpcpy'', None)]"

definition fortify_wcpcpy :: "(u64 \<Rightarrow> u64) \<Rightarrow> u64 \<Rightarrow> u64 \<Rightarrow> fcall" where
  "fortify_wcpcpy bos dest src =
    (if bos dest \<noteq> -1
    then Fcall ''__wcpcpy_chk'' [CPtr dest, CPtr src, CSize (bos dest div 4)]
    else Fcall ''__wcpcpy_alias'' [CPtr dest, CPtr src])"

definition redirect_wcsncpy :: redirects where
  "redirect_wcsncpy =
     [(''__wcsncpy_alias'', ''wcsncpy'', None),
      (''__wcsncpy_chk_warn'', ''__wcsncpy_chk'', Some ''wcsncpy called with length bigger than size of destination buffer'')]"

definition fortify_wcsncpy :: "(u64 \<Rightarrow> u64) \<Rightarrow> bool \<Rightarrow> u64 \<Rightarrow> u64 \<Rightarrow> u64 \<Rightarrow> fcall" where
  "fortify_wcsncpy bos const_n dest src n =
    (if bos dest \<noteq> -1
    then if \<not> const_n
       then Fcall ''__wcsncpy_chk'' [CPtr dest, CPtr src, CSize n, CSize (bos dest div 4)]
       else if n > bos dest div 4
       then Fcall ''__wcsncpy_chk_warn'' [CPtr dest, CPtr src, CSize n, CSize (bos dest div 4)]
       else Fcall ''__wcsncpy_alias'' [CPtr dest, CPtr src, CSize n]
    else Fcall ''__wcsncpy_alias'' [CPtr dest, CPtr src, CSize n])"

definition redirect_wcpncpy :: redirects where
  "redirect_wcpncpy =
     [(''__wcpncpy_alias'', ''wcpncpy'', None),
      (''__wcpncpy_chk_warn'', ''__wcpncpy_chk'', Some ''wcpncpy called with length bigger than size of destination buffer'')]"

definition fortify_wcpncpy :: "(u64 \<Rightarrow> u64) \<Rightarrow> bool \<Rightarrow> u64 \<Rightarrow> u64 \<Rightarrow> u64 \<Rightarrow> fcall" where
  "fortify_wcpncpy bos const_n dest src n =
    (if bos dest \<noteq> -1
    then if \<not> const_n
       then Fcall ''__wcpncpy_chk'' [CPtr dest, CPtr src, CSize n, CSize (bos dest div 4)]
       else if n > bos dest div 4
       then Fcall ''__wcpncpy_chk_warn'' [CPtr dest, CPtr src, CSize n, CSize (bos dest div 4)]
       else Fcall ''__wcpncpy_alias'' [CPtr dest, CPtr src, CSize n]
    else Fcall ''__wcpncpy_alias'' [CPtr dest, CPtr src, CSize n])"

definition redirect_wcscat :: redirects where
  "redirect_wcscat =
     [(''__wcscat_alias'', ''wcscat'', None)]"

definition fortify_wcscat :: "(u64 \<Rightarrow> u64) \<Rightarrow> u64 \<Rightarrow> u64 \<Rightarrow> fcall" where
  "fortify_wcscat bos dest src =
    (if bos dest \<noteq> -1
    then Fcall ''__wcscat_chk'' [CPtr dest, CPtr src, CSize (bos dest div 4)]
    else Fcall ''__wcscat_alias'' [CPtr dest, CPtr src])"

definition redirect_wcsncat :: redirects where
  "redirect_wcsncat =
     [(''__wcsncat_alias'', ''wcsncat'', None)]"

definition fortify_wcsncat :: "(u64 \<Rightarrow> u64) \<Rightarrow> u64 \<Rightarrow> u64 \<Rightarrow> u64 \<Rightarrow> fcall" where
  "fortify_wcsncat bos dest src n =
    (if bos dest \<noteq> -1
    then Fcall ''__wcsncat_chk'' [CPtr dest, CPtr src, CSize n, CSize (bos dest div 4)]
    else Fcall ''__wcsncat_alias'' [CPtr dest, CPtr src, CSize n])"

definition redirect_fgetws :: redirects where
  "redirect_fgetws =
     [(''__fgetws_alias'', ''fgetws'', None),
      (''__fgetws_chk_warn'', ''__fgetws_chk'', Some ''fgetws called with bigger size than length of destination buffer'')]"

definition fortify_fgetws :: "(u64 \<Rightarrow> u64) \<Rightarrow> bool \<Rightarrow> u64 \<Rightarrow> u32 \<Rightarrow> u64 \<Rightarrow> fcall" where
  "fortify_fgetws bos const_n s n stream =
    (if bos s \<noteq> -1
    then if \<not> const_n \<or> sint n \<le> 0
       then Fcall ''__fgetws_chk'' [CPtr s, CSize (bos s div 4), CInt n, CPtr stream]
       else if scast n > bos s div 4
       then Fcall ''__fgetws_chk_warn'' [CPtr s, CSize (bos s div 4), CInt n, CPtr stream]
       else Fcall ''__fgetws_alias'' [CPtr s, CInt n, CPtr stream]
    else Fcall ''__fgetws_alias'' [CPtr s, CInt n, CPtr stream])"

definition redirect_fgetws_unlocked :: redirects where
  "redirect_fgetws_unlocked =
     [(''__fgetws_unlocked_alias'', ''fgetws_unlocked'', None),
      (''__fgetws_unlocked_chk_warn'', ''__fgetws_unlocked_chk'', Some ''fgetws_unlocked called with bigger size than length of destination buffer'')]"

definition fortify_fgetws_unlocked :: "(u64 \<Rightarrow> u64) \<Rightarrow> bool \<Rightarrow> u64 \<Rightarrow> u32 \<Rightarrow> u64 \<Rightarrow> fcall" where
  "fortify_fgetws_unlocked bos const_n s n stream =
    (if bos s \<noteq> -1
    then if \<not> const_n \<or> sint n \<le> 0
       then Fcall ''__fgetws_unlocked_chk'' [CPtr s, CSize (bos s div 4), CInt n, CPtr stream]
       else if scast n > bos s div 4
       then Fcall ''__fgetws_unlocked_chk_warn'' [CPtr s, CSize (bos s div 4), CInt n, CPtr stream]
       else Fcall ''__fgetws_unlocked_alias'' [CPtr s, CInt n, CPtr stream]
    else Fcall ''__fgetws_unlocked_alias'' [CPtr s, CInt n, CPtr stream])"

definition redirect_wcrtomb :: redirects where
  "redirect_wcrtomb =
     [(''__wcrtomb_alias'', ''wcrtomb'', None)]"

definition fortify_wcrtomb :: "(u64 \<Rightarrow> u64) \<Rightarrow> u64 \<Rightarrow> u32 \<Rightarrow> u64 \<Rightarrow> fcall" where
  "fortify_wcrtomb bos s wchar ps =
    (if bos s \<noteq> -1 \<and> 16 > bos s
    then Fcall ''__wcrtomb_chk'' [CPtr s, CWide wchar, CPtr ps, CSize (bos s)]
    else Fcall ''__wcrtomb_alias'' [CPtr s, CWide wchar, CPtr ps])"

definition redirect_mbsrtowcs :: redirects where
  "redirect_mbsrtowcs =
     [(''__mbsrtowcs_alias'', ''mbsrtowcs'', None),
      (''__mbsrtowcs_chk_warn'', ''__mbsrtowcs_chk'', Some ''mbsrtowcs called with dst buffer smaller than len * sizeof (wchar_t)'')]"

definition fortify_mbsrtowcs :: "(u64 \<Rightarrow> u64) \<Rightarrow> bool \<Rightarrow> u64 \<Rightarrow> u64 \<Rightarrow> u64 \<Rightarrow> u64 \<Rightarrow> fcall" where
  "fortify_mbsrtowcs bos const_len dst src len ps =
    (if bos dst \<noteq> -1
    then if \<not> const_len
       then Fcall ''__mbsrtowcs_chk'' [CPtr dst, CPtr src, CSize len, CPtr ps, CSize (bos dst div 4)]
       else if len > bos dst div 4
       then Fcall ''__mbsrtowcs_chk_warn'' [CPtr dst, CPtr src, CSize len, CPtr ps, CSize (bos dst div 4)]
       else Fcall ''__mbsrtowcs_alias'' [CPtr dst, CPtr src, CSize len, CPtr ps]
    else Fcall ''__mbsrtowcs_alias'' [CPtr dst, CPtr src, CSize len, CPtr ps])"

definition redirect_wcsrtombs :: redirects where
  "redirect_wcsrtombs =
     [(''__wcsrtombs_alias'', ''wcsrtombs'', None),
      (''__wcsrtombs_chk_warn'', ''__wcsrtombs_chk'', Some ''wcsrtombs called with dst buffer smaller than len'')]"

definition fortify_wcsrtombs :: "(u64 \<Rightarrow> u64) \<Rightarrow> bool \<Rightarrow> u64 \<Rightarrow> u64 \<Rightarrow> u64 \<Rightarrow> u64 \<Rightarrow> fcall" where
  "fortify_wcsrtombs bos const_len dst src len ps =
    (if bos dst \<noteq> -1
    then if \<not> const_len
       then Fcall ''__wcsrtombs_chk'' [CPtr dst, CPtr src, CSize len, CPtr ps, CSize (bos dst)]
       else if len > bos dst
       then Fcall ''__wcsrtombs_chk_warn'' [CPtr dst, CPtr src, CSize len, CPtr ps, CSize (bos dst)]
       else Fcall ''__wcsrtombs_alias'' [CPtr dst, CPtr src, CSize len, CPtr ps]
    else Fcall ''__wcsrtombs_alias'' [CPtr dst, CPtr src, CSize len, CPtr ps])"

definition redirect_mbsnrtowcs :: redirects where
  "redirect_mbsnrtowcs =
     [(''__mbsnrtowcs_alias'', ''mbsnrtowcs'', None),
      (''__mbsnrtowcs_chk_warn'', ''__mbsnrtowcs_chk'', Some ''mbsnrtowcs called with dst buffer smaller than len * sizeof (wchar_t)'')]"

definition fortify_mbsnrtowcs :: "(u64 \<Rightarrow> u64) \<Rightarrow> bool \<Rightarrow> u64 \<Rightarrow> u64 \<Rightarrow> u64 \<Rightarrow> u64 \<Rightarrow> u64 \<Rightarrow> fcall" where
  "fortify_mbsnrtowcs bos const_len dst src nmc len ps =
    (if bos dst \<noteq> -1
    then if \<not> const_len
       then Fcall ''__mbsnrtowcs_chk'' [CPtr dst, CPtr src, CSize nmc, CSize len, CPtr ps, CSize (bos dst div 4)]
       else if len > bos dst div 4
       then Fcall ''__mbsnrtowcs_chk_warn'' [CPtr dst, CPtr src, CSize nmc, CSize len, CPtr ps, CSize (bos dst div 4)]
       else Fcall ''__mbsnrtowcs_alias'' [CPtr dst, CPtr src, CSize nmc, CSize len, CPtr ps]
    else Fcall ''__mbsnrtowcs_alias'' [CPtr dst, CPtr src, CSize nmc, CSize len, CPtr ps])"

definition redirect_wcsnrtombs :: redirects where
  "redirect_wcsnrtombs =
     [(''__wcsnrtombs_alias'', ''wcsnrtombs'', None),
      (''__wcsnrtombs_chk_warn'', ''__wcsnrtombs_chk'', Some ''wcsnrtombs called with dst buffer smaller than len'')]"

definition fortify_wcsnrtombs :: "(u64 \<Rightarrow> u64) \<Rightarrow> bool \<Rightarrow> u64 \<Rightarrow> u64 \<Rightarrow> u64 \<Rightarrow> u64 \<Rightarrow> u64 \<Rightarrow> fcall" where
  "fortify_wcsnrtombs bos const_len dst src nwc len ps =
    (if bos dst \<noteq> -1
    then if \<not> const_len
       then Fcall ''__wcsnrtombs_chk'' [CPtr dst, CPtr src, CSize nwc, CSize len, CPtr ps, CSize (bos dst)]
       else if len > bos dst
       then Fcall ''__wcsnrtombs_chk_warn'' [CPtr dst, CPtr src, CSize nwc, CSize len, CPtr ps, CSize (bos dst)]
       else Fcall ''__wcsnrtombs_alias'' [CPtr dst, CPtr src, CSize nwc, CSize len, CPtr ps]
    else Fcall ''__wcsnrtombs_alias'' [CPtr dst, CPtr src, CSize nwc, CSize len, CPtr ps])"

section \<open>The wrappers keep the contract\<close>

interpretation wmemcpy_call: vetted_call redirect_wmemcpy
  "(\<lambda>c bos (s1, s2, n). fortify_wmemcpy bos c s1 s2 n)"
  "(\<lambda>(s1, s2, n). Fcall ''wmemcpy'' [CPtr s1, CPtr s2, CSize n])"
  "(\<lambda>b (s1, s2, n). Fcall ''__wmemcpy_chk'' [CPtr s1, CPtr s2, CSize n, CSize (b div 4)])"
  "(\<lambda>(s1, s2, n). s1)"
  "(\<lambda>(s1, s2, n). 4 * unat n)"
  "(\<lambda>c (s1, s2, n). c)"
  by unfold_locales (auto simp: fortify_wmemcpy_def redirect_wmemcpy_def fortify_simps split: if_splits)

interpretation wmemmove_call: vetted_call redirect_wmemmove
  "(\<lambda>c bos (s1, s2, n). fortify_wmemmove bos c s1 s2 n)"
  "(\<lambda>(s1, s2, n). Fcall ''wmemmove'' [CPtr s1, CPtr s2, CSize n])"
  "(\<lambda>b (s1, s2, n). Fcall ''__wmemmove_chk'' [CPtr s1, CPtr s2, CSize n, CSize (b div 4)])"
  "(\<lambda>(s1, s2, n). s1)"
  "(\<lambda>(s1, s2, n). 4 * unat n)"
  "(\<lambda>c (s1, s2, n). c)"
  by unfold_locales (auto simp: fortify_wmemmove_def redirect_wmemmove_def fortify_simps split: if_splits)

interpretation wmempcpy_call: vetted_call redirect_wmempcpy
  "(\<lambda>c bos (s1, s2, n). fortify_wmempcpy bos c s1 s2 n)"
  "(\<lambda>(s1, s2, n). Fcall ''wmempcpy'' [CPtr s1, CPtr s2, CSize n])"
  "(\<lambda>b (s1, s2, n). Fcall ''__wmempcpy_chk'' [CPtr s1, CPtr s2, CSize n, CSize (b div 4)])"
  "(\<lambda>(s1, s2, n). s1)"
  "(\<lambda>(s1, s2, n). 4 * unat n)"
  "(\<lambda>c (s1, s2, n). c)"
  by unfold_locales (auto simp: fortify_wmempcpy_def redirect_wmempcpy_def fortify_simps split: if_splits)

interpretation wmemset_call: vetted_call redirect_wmemset
  "(\<lambda>c bos (s, wc, n). fortify_wmemset bos c s wc n)"
  "(\<lambda>(s, wc, n). Fcall ''wmemset'' [CPtr s, CWide wc, CSize n])"
  "(\<lambda>b (s, wc, n). Fcall ''__wmemset_chk'' [CPtr s, CWide wc, CSize n, CSize (b div 4)])"
  "(\<lambda>(s, wc, n). s)"
  "(\<lambda>(s, wc, n). 4 * unat n)"
  "(\<lambda>c (s, wc, n). c)"
  by unfold_locales (auto simp: fortify_wmemset_def redirect_wmemset_def fortify_simps split: if_splits)

interpretation wcscpy_call: fortified_call redirect_wcscpy
  "(\<lambda>(c :: unit) bos (dest, src). fortify_wcscpy bos dest src)"
  "(\<lambda>(dest, src). Fcall ''wcscpy'' [CPtr dest, CPtr src])"
  "(\<lambda>b (dest, src). Fcall ''__wcscpy_chk'' [CPtr dest, CPtr src, CSize (b div 4)])"
  "(\<lambda>(dest, src). dest)"
  "(\<lambda>(dest, src). 4 * (k (dest, src)))"
  for k
  by unfold_locales (auto simp: fortify_wcscpy_def redirect_wcscpy_def fortify_simps split: if_splits)

interpretation wcpcpy_call: fortified_call redirect_wcpcpy
  "(\<lambda>(c :: unit) bos (dest, src). fortify_wcpcpy bos dest src)"
  "(\<lambda>(dest, src). Fcall ''wcpcpy'' [CPtr dest, CPtr src])"
  "(\<lambda>b (dest, src). Fcall ''__wcpcpy_chk'' [CPtr dest, CPtr src, CSize (b div 4)])"
  "(\<lambda>(dest, src). dest)"
  "(\<lambda>(dest, src). 4 * (k (dest, src)))"
  for k
  by unfold_locales (auto simp: fortify_wcpcpy_def redirect_wcpcpy_def fortify_simps split: if_splits)

interpretation wcsncpy_call: vetted_call redirect_wcsncpy
  "(\<lambda>c bos (dest, src, n). fortify_wcsncpy bos c dest src n)"
  "(\<lambda>(dest, src, n). Fcall ''wcsncpy'' [CPtr dest, CPtr src, CSize n])"
  "(\<lambda>b (dest, src, n). Fcall ''__wcsncpy_chk'' [CPtr dest, CPtr src, CSize n, CSize (b div 4)])"
  "(\<lambda>(dest, src, n). dest)"
  "(\<lambda>(dest, src, n). 4 * unat n)"
  "(\<lambda>c (dest, src, n). c)"
  by unfold_locales (auto simp: fortify_wcsncpy_def redirect_wcsncpy_def fortify_simps split: if_splits)

interpretation wcpncpy_call: vetted_call redirect_wcpncpy
  "(\<lambda>c bos (dest, src, n). fortify_wcpncpy bos c dest src n)"
  "(\<lambda>(dest, src, n). Fcall ''wcpncpy'' [CPtr dest, CPtr src, CSize n])"
  "(\<lambda>b (dest, src, n). Fcall ''__wcpncpy_chk'' [CPtr dest, CPtr src, CSize n, CSize (b div 4)])"
  "(\<lambda>(dest, src, n). dest)"
  "(\<lambda>(dest, src, n). 4 * unat n)"
  "(\<lambda>c (dest, src, n). c)"
  by unfold_locales (auto simp: fortify_wcpncpy_def redirect_wcpncpy_def fortify_simps split: if_splits)

interpretation wcscat_call: fortified_call redirect_wcscat
  "(\<lambda>(c :: unit) bos (dest, src). fortify_wcscat bos dest src)"
  "(\<lambda>(dest, src). Fcall ''wcscat'' [CPtr dest, CPtr src])"
  "(\<lambda>b (dest, src). Fcall ''__wcscat_chk'' [CPtr dest, CPtr src, CSize (b div 4)])"
  "(\<lambda>(dest, src). dest)"
  "(\<lambda>(dest, src). 4 * (k (dest, src)))"
  for k
  by unfold_locales (auto simp: fortify_wcscat_def redirect_wcscat_def fortify_simps split: if_splits)

interpretation wcsncat_call: fortified_call redirect_wcsncat
  "(\<lambda>(c :: unit) bos (dest, src, n). fortify_wcsncat bos dest src n)"
  "(\<lambda>(dest, src, n). Fcall ''wcsncat'' [CPtr dest, CPtr src, CSize n])"
  "(\<lambda>b (dest, src, n). Fcall ''__wcsncat_chk'' [CPtr dest, CPtr src, CSize n, CSize (b div 4)])"
  "(\<lambda>(dest, src, n). dest)"
  "(\<lambda>(dest, src, n). 4 * (k (dest, src, n)))"
  for k
  by unfold_locales (auto simp: fortify_wcsncat_def redirect_wcsncat_def fortify_simps split: if_splits)

interpretation fgetws_call: vetted_call redirect_fgetws
  "(\<lambda>c bos (s, n, stream). fortify_fgetws bos c s n stream)"
  "(\<lambda>(s, n, stream). Fcall ''fgetws'' [CPtr s, CInt n, CPtr stream])"
  "(\<lambda>b (s, n, stream). Fcall ''__fgetws_chk'' [CPtr s, CSize (b div 4), CInt n, CPtr stream])"
  "(\<lambda>(s, n, stream). s)"
  "(\<lambda>(s, n, stream). 4 * nat (sint n))"
  "(\<lambda>c (s, n, stream). c \<and> 0 < sint n)"
  by unfold_locales (auto simp: fortify_fgetws_def redirect_fgetws_def fortify_simps split: if_splits)

interpretation fgetws_unlocked_call: vetted_call redirect_fgetws_unlocked
  "(\<lambda>c bos (s, n, stream). fortify_fgetws_unlocked bos c s n stream)"
  "(\<lambda>(s, n, stream). Fcall ''fgetws_unlocked'' [CPtr s, CInt n, CPtr stream])"
  "(\<lambda>b (s, n, stream). Fcall ''__fgetws_unlocked_chk'' [CPtr s, CSize (b div 4), CInt n, CPtr stream])"
  "(\<lambda>(s, n, stream). s)"
  "(\<lambda>(s, n, stream). 4 * nat (sint n))"
  "(\<lambda>c (s, n, stream). c \<and> 0 < sint n)"
  by unfold_locales (auto simp: fortify_fgetws_unlocked_def redirect_fgetws_unlocked_def fortify_simps split: if_splits)

interpretation wcrtomb_call: fortified_call redirect_wcrtomb
  "(\<lambda>(c :: unit) bos (s, wchar, ps). fortify_wcrtomb bos s wchar ps)"
  "(\<lambda>(s, wchar, ps). Fcall ''wcrtomb'' [CPtr s, CWide wchar, CPtr ps])"
  "(\<lambda>b (s, wchar, ps). Fcall ''__wcrtomb_chk'' [CPtr s, CWide wchar, CPtr ps, CSize b])"
  "(\<lambda>(s, wchar, ps). s)"
  "(\<lambda>(s, wchar, ps). min 16 (k (s, wchar, ps)))"
  for k
  by unfold_locales (auto simp: fortify_wcrtomb_def redirect_wcrtomb_def fortify_simps split: if_splits)

interpretation mbsrtowcs_call: vetted_call redirect_mbsrtowcs
  "(\<lambda>c bos (dst, src, len, ps). fortify_mbsrtowcs bos c dst src len ps)"
  "(\<lambda>(dst, src, len, ps). Fcall ''mbsrtowcs'' [CPtr dst, CPtr src, CSize len, CPtr ps])"
  "(\<lambda>b (dst, src, len, ps). Fcall ''__mbsrtowcs_chk'' [CPtr dst, CPtr src, CSize len, CPtr ps, CSize (b div 4)])"
  "(\<lambda>(dst, src, len, ps). dst)"
  "(\<lambda>(dst, src, len, ps). 4 * unat len)"
  "(\<lambda>c (dst, src, len, ps). c)"
  by unfold_locales (auto simp: fortify_mbsrtowcs_def redirect_mbsrtowcs_def fortify_simps split: if_splits)

interpretation wcsrtombs_call: vetted_call redirect_wcsrtombs
  "(\<lambda>c bos (dst, src, len, ps). fortify_wcsrtombs bos c dst src len ps)"
  "(\<lambda>(dst, src, len, ps). Fcall ''wcsrtombs'' [CPtr dst, CPtr src, CSize len, CPtr ps])"
  "(\<lambda>b (dst, src, len, ps). Fcall ''__wcsrtombs_chk'' [CPtr dst, CPtr src, CSize len, CPtr ps, CSize b])"
  "(\<lambda>(dst, src, len, ps). dst)"
  "(\<lambda>(dst, src, len, ps). unat len)"
  "(\<lambda>c (dst, src, len, ps). c)"
  by unfold_locales (auto simp: fortify_wcsrtombs_def redirect_wcsrtombs_def fortify_simps split: if_splits)

interpretation mbsnrtowcs_call: vetted_call redirect_mbsnrtowcs
  "(\<lambda>c bos (dst, src, nmc, len, ps). fortify_mbsnrtowcs bos c dst src nmc len ps)"
  "(\<lambda>(dst, src, nmc, len, ps). Fcall ''mbsnrtowcs'' [CPtr dst, CPtr src, CSize nmc, CSize len, CPtr ps])"
  "(\<lambda>b (dst, src, nmc, len, ps). Fcall ''__mbsnrtowcs_chk'' [CPtr dst, CPtr src, CSize nmc, CSize len, CPtr ps, CSize (b div 4)])"
  "(\<lambda>(dst, src, nmc, len, ps). dst)"
  "(\<lambda>(dst, src, nmc, len, ps). 4 * unat len)"
  "(\<lambda>c (dst, src, nmc, len, ps). c)"
  by unfold_locales (auto simp: fortify_mbsnrtowcs_def redirect_mbsnrtowcs_def fortify_simps split: if_splits)

interpretation wcsnrtombs_call: vetted_call redirect_wcsnrtombs
  "(\<lambda>c bos (dst, src, nwc, len, ps). fortify_wcsnrtombs bos c dst src nwc len ps)"
  "(\<lambda>(dst, src, nwc, len, ps). Fcall ''wcsnrtombs'' [CPtr dst, CPtr src, CSize nwc, CSize len, CPtr ps])"
  "(\<lambda>b (dst, src, nwc, len, ps). Fcall ''__wcsnrtombs_chk'' [CPtr dst, CPtr src, CSize nwc, CSize len, CPtr ps, CSize b])"
  "(\<lambda>(dst, src, nwc, len, ps). dst)"
  "(\<lambda>(dst, src, nwc, len, ps). unat len)"
  "(\<lambda>c (dst, src, nwc, len, ps). c)"
  by unfold_locales (auto simp: fortify_wcsnrtombs_def redirect_wcsnrtombs_def fortify_simps split: if_splits)

lemmas fortify_wide_guarded =
  wmemcpy_call.guarded
  wmemmove_call.guarded
  wmempcpy_call.guarded
  wmemset_call.guarded
  wcscpy_call.guarded
  wcpcpy_call.guarded
  wcsncpy_call.guarded
  wcpncpy_call.guarded
  wcscat_call.guarded
  wcsncat_call.guarded
  fgetws_call.guarded
  fgetws_unlocked_call.guarded
  wcrtomb_call.guarded
  mbsrtowcs_call.guarded
  wcsrtombs_call.guarded
  mbsnrtowcs_call.guarded
  wcsnrtombs_call.guarded

lemmas fortify_wide_vetted =
  wmemcpy_call.vetted
  wmemmove_call.vetted
  wmempcpy_call.vetted
  wmemset_call.vetted
  wcsncpy_call.vetted
  wcpncpy_call.vetted
  fgetws_call.vetted
  fgetws_unlocked_call.vetted
  mbsrtowcs_call.vetted
  wcsrtombs_call.vetted
  mbsnrtowcs_call.vetted
  wcsnrtombs_call.vetted

text \<open>
  Every wrapper for wide characters behaves as the function it replaces, except that the program is
  aborted exactly when the object size is known and has fewer bytes than the wide characters need;
  dividing the object size by the size of a character loses nothing.
\<close>

theorem wide_calls_guarded:
  fixes lib :: "fcall \<Rightarrow> 'o outcome"
  shows
    "(guards lib redirect_wmemcpy
       (\<lambda>c bos (s1, s2, n). fortify_wmemcpy bos c s1 s2 n)
       (\<lambda>(s1, s2, n). Fcall ''wmemcpy'' [CPtr s1, CPtr s2, CSize n])
       (\<lambda>b (s1, s2, n). Fcall ''__wmemcpy_chk'' [CPtr s1, CPtr s2, CSize n, CSize (b div 4)])
       (\<lambda>(s1, s2, n). s1)
       (\<lambda>(s1, s2, n). 4 * unat n)) \<and>
     (guards lib redirect_wmemmove
       (\<lambda>c bos (s1, s2, n). fortify_wmemmove bos c s1 s2 n)
       (\<lambda>(s1, s2, n). Fcall ''wmemmove'' [CPtr s1, CPtr s2, CSize n])
       (\<lambda>b (s1, s2, n). Fcall ''__wmemmove_chk'' [CPtr s1, CPtr s2, CSize n, CSize (b div 4)])
       (\<lambda>(s1, s2, n). s1)
       (\<lambda>(s1, s2, n). 4 * unat n)) \<and>
     (guards lib redirect_wmempcpy
       (\<lambda>c bos (s1, s2, n). fortify_wmempcpy bos c s1 s2 n)
       (\<lambda>(s1, s2, n). Fcall ''wmempcpy'' [CPtr s1, CPtr s2, CSize n])
       (\<lambda>b (s1, s2, n). Fcall ''__wmempcpy_chk'' [CPtr s1, CPtr s2, CSize n, CSize (b div 4)])
       (\<lambda>(s1, s2, n). s1)
       (\<lambda>(s1, s2, n). 4 * unat n)) \<and>
     (guards lib redirect_wmemset
       (\<lambda>c bos (s, wc, n). fortify_wmemset bos c s wc n)
       (\<lambda>(s, wc, n). Fcall ''wmemset'' [CPtr s, CWide wc, CSize n])
       (\<lambda>b (s, wc, n). Fcall ''__wmemset_chk'' [CPtr s, CWide wc, CSize n, CSize (b div 4)])
       (\<lambda>(s, wc, n). s)
       (\<lambda>(s, wc, n). 4 * unat n)) \<and>
     (\<forall>k. guards lib redirect_wcscpy
       (\<lambda>(c :: unit) bos (dest, src). fortify_wcscpy bos dest src)
       (\<lambda>(dest, src). Fcall ''wcscpy'' [CPtr dest, CPtr src])
       (\<lambda>b (dest, src). Fcall ''__wcscpy_chk'' [CPtr dest, CPtr src, CSize (b div 4)])
       (\<lambda>(dest, src). dest)
       (\<lambda>(dest, src). 4 * (k (dest, src)))) \<and>
     (\<forall>k. guards lib redirect_wcpcpy
       (\<lambda>(c :: unit) bos (dest, src). fortify_wcpcpy bos dest src)
       (\<lambda>(dest, src). Fcall ''wcpcpy'' [CPtr dest, CPtr src])
       (\<lambda>b (dest, src). Fcall ''__wcpcpy_chk'' [CPtr dest, CPtr src, CSize (b div 4)])
       (\<lambda>(dest, src). dest)
       (\<lambda>(dest, src). 4 * (k (dest, src)))) \<and>
     (guards lib redirect_wcsncpy
       (\<lambda>c bos (dest, src, n). fortify_wcsncpy bos c dest src n)
       (\<lambda>(dest, src, n). Fcall ''wcsncpy'' [CPtr dest, CPtr src, CSize n])
       (\<lambda>b (dest, src, n). Fcall ''__wcsncpy_chk'' [CPtr dest, CPtr src, CSize n, CSize (b div 4)])
       (\<lambda>(dest, src, n). dest)
       (\<lambda>(dest, src, n). 4 * unat n)) \<and>
     (guards lib redirect_wcpncpy
       (\<lambda>c bos (dest, src, n). fortify_wcpncpy bos c dest src n)
       (\<lambda>(dest, src, n). Fcall ''wcpncpy'' [CPtr dest, CPtr src, CSize n])
       (\<lambda>b (dest, src, n). Fcall ''__wcpncpy_chk'' [CPtr dest, CPtr src, CSize n, CSize (b div 4)])
       (\<lambda>(dest, src, n). dest)
       (\<lambda>(dest, src, n). 4 * unat n)) \<and>
     (\<forall>k. guards lib redirect_wcscat
       (\<lambda>(c :: unit) bos (dest, src). fortify_wcscat bos dest src)
       (\<lambda>(dest, src). Fcall ''wcscat'' [CPtr dest, CPtr src])
       (\<lambda>b (dest, src). Fcall ''__wcscat_chk'' [CPtr dest, CPtr src, CSize (b div 4)])
       (\<lambda>(dest, src). dest)
       (\<lambda>(dest, src). 4 * (k (dest, src)))) \<and>
     (\<forall>k. guards lib redirect_wcsncat
       (\<lambda>(c :: unit) bos (dest, src, n). fortify_wcsncat bos dest src n)
       (\<lambda>(dest, src, n). Fcall ''wcsncat'' [CPtr dest, CPtr src, CSize n])
       (\<lambda>b (dest, src, n). Fcall ''__wcsncat_chk'' [CPtr dest, CPtr src, CSize n, CSize (b div 4)])
       (\<lambda>(dest, src, n). dest)
       (\<lambda>(dest, src, n). 4 * (k (dest, src, n)))) \<and>
     (guards lib redirect_fgetws
       (\<lambda>c bos (s, n, stream). fortify_fgetws bos c s n stream)
       (\<lambda>(s, n, stream). Fcall ''fgetws'' [CPtr s, CInt n, CPtr stream])
       (\<lambda>b (s, n, stream). Fcall ''__fgetws_chk'' [CPtr s, CSize (b div 4), CInt n, CPtr stream])
       (\<lambda>(s, n, stream). s)
       (\<lambda>(s, n, stream). 4 * nat (sint n))) \<and>
     (guards lib redirect_fgetws_unlocked
       (\<lambda>c bos (s, n, stream). fortify_fgetws_unlocked bos c s n stream)
       (\<lambda>(s, n, stream). Fcall ''fgetws_unlocked'' [CPtr s, CInt n, CPtr stream])
       (\<lambda>b (s, n, stream). Fcall ''__fgetws_unlocked_chk'' [CPtr s, CSize (b div 4), CInt n, CPtr stream])
       (\<lambda>(s, n, stream). s)
       (\<lambda>(s, n, stream). 4 * nat (sint n))) \<and>
     (\<forall>k. guards lib redirect_wcrtomb
       (\<lambda>(c :: unit) bos (s, wchar, ps). fortify_wcrtomb bos s wchar ps)
       (\<lambda>(s, wchar, ps). Fcall ''wcrtomb'' [CPtr s, CWide wchar, CPtr ps])
       (\<lambda>b (s, wchar, ps). Fcall ''__wcrtomb_chk'' [CPtr s, CWide wchar, CPtr ps, CSize b])
       (\<lambda>(s, wchar, ps). s)
       (\<lambda>(s, wchar, ps). min 16 (k (s, wchar, ps)))) \<and>
     (guards lib redirect_mbsrtowcs
       (\<lambda>c bos (dst, src, len, ps). fortify_mbsrtowcs bos c dst src len ps)
       (\<lambda>(dst, src, len, ps). Fcall ''mbsrtowcs'' [CPtr dst, CPtr src, CSize len, CPtr ps])
       (\<lambda>b (dst, src, len, ps). Fcall ''__mbsrtowcs_chk'' [CPtr dst, CPtr src, CSize len, CPtr ps, CSize (b div 4)])
       (\<lambda>(dst, src, len, ps). dst)
       (\<lambda>(dst, src, len, ps). 4 * unat len)) \<and>
     (guards lib redirect_wcsrtombs
       (\<lambda>c bos (dst, src, len, ps). fortify_wcsrtombs bos c dst src len ps)
       (\<lambda>(dst, src, len, ps). Fcall ''wcsrtombs'' [CPtr dst, CPtr src, CSize len, CPtr ps])
       (\<lambda>b (dst, src, len, ps). Fcall ''__wcsrtombs_chk'' [CPtr dst, CPtr src, CSize len, CPtr ps, CSize b])
       (\<lambda>(dst, src, len, ps). dst)
       (\<lambda>(dst, src, len, ps). unat len)) \<and>
     (guards lib redirect_mbsnrtowcs
       (\<lambda>c bos (dst, src, nmc, len, ps). fortify_mbsnrtowcs bos c dst src nmc len ps)
       (\<lambda>(dst, src, nmc, len, ps). Fcall ''mbsnrtowcs'' [CPtr dst, CPtr src, CSize nmc, CSize len, CPtr ps])
       (\<lambda>b (dst, src, nmc, len, ps). Fcall ''__mbsnrtowcs_chk'' [CPtr dst, CPtr src, CSize nmc, CSize len, CPtr ps, CSize (b div 4)])
       (\<lambda>(dst, src, nmc, len, ps). dst)
       (\<lambda>(dst, src, nmc, len, ps). 4 * unat len)) \<and>
     (guards lib redirect_wcsnrtombs
       (\<lambda>c bos (dst, src, nwc, len, ps). fortify_wcsnrtombs bos c dst src nwc len ps)
       (\<lambda>(dst, src, nwc, len, ps). Fcall ''wcsnrtombs'' [CPtr dst, CPtr src, CSize nwc, CSize len, CPtr ps])
       (\<lambda>b (dst, src, nwc, len, ps). Fcall ''__wcsnrtombs_chk'' [CPtr dst, CPtr src, CSize nwc, CSize len, CPtr ps, CSize b])
       (\<lambda>(dst, src, nwc, len, ps). dst)
       (\<lambda>(dst, src, nwc, len, ps). unat len))"
  by (intro conjI allI fortify_wide_guarded)

theorem wide_calls_guarded_vetted:
  "vets redirect_wmemcpy
       (\<lambda>c bos (s1, s2, n). fortify_wmemcpy bos c s1 s2 n)
       (\<lambda>(s1, s2, n). s1)
       (\<lambda>(s1, s2, n). 4 * unat n)
       (\<lambda>c (s1, s2, n). c) \<and>
   vets redirect_wmemmove
       (\<lambda>c bos (s1, s2, n). fortify_wmemmove bos c s1 s2 n)
       (\<lambda>(s1, s2, n). s1)
       (\<lambda>(s1, s2, n). 4 * unat n)
       (\<lambda>c (s1, s2, n). c) \<and>
   vets redirect_wmempcpy
       (\<lambda>c bos (s1, s2, n). fortify_wmempcpy bos c s1 s2 n)
       (\<lambda>(s1, s2, n). s1)
       (\<lambda>(s1, s2, n). 4 * unat n)
       (\<lambda>c (s1, s2, n). c) \<and>
   vets redirect_wmemset
       (\<lambda>c bos (s, wc, n). fortify_wmemset bos c s wc n)
       (\<lambda>(s, wc, n). s)
       (\<lambda>(s, wc, n). 4 * unat n)
       (\<lambda>c (s, wc, n). c) \<and>
   vets redirect_wcsncpy
       (\<lambda>c bos (dest, src, n). fortify_wcsncpy bos c dest src n)
       (\<lambda>(dest, src, n). dest)
       (\<lambda>(dest, src, n). 4 * unat n)
       (\<lambda>c (dest, src, n). c) \<and>
   vets redirect_wcpncpy
       (\<lambda>c bos (dest, src, n). fortify_wcpncpy bos c dest src n)
       (\<lambda>(dest, src, n). dest)
       (\<lambda>(dest, src, n). 4 * unat n)
       (\<lambda>c (dest, src, n). c) \<and>
   vets redirect_fgetws
       (\<lambda>c bos (s, n, stream). fortify_fgetws bos c s n stream)
       (\<lambda>(s, n, stream). s)
       (\<lambda>(s, n, stream). 4 * nat (sint n))
       (\<lambda>c (s, n, stream). c \<and> 0 < sint n) \<and>
   vets redirect_fgetws_unlocked
       (\<lambda>c bos (s, n, stream). fortify_fgetws_unlocked bos c s n stream)
       (\<lambda>(s, n, stream). s)
       (\<lambda>(s, n, stream). 4 * nat (sint n))
       (\<lambda>c (s, n, stream). c \<and> 0 < sint n) \<and>
   vets redirect_mbsrtowcs
       (\<lambda>c bos (dst, src, len, ps). fortify_mbsrtowcs bos c dst src len ps)
       (\<lambda>(dst, src, len, ps). dst)
       (\<lambda>(dst, src, len, ps). 4 * unat len)
       (\<lambda>c (dst, src, len, ps). c) \<and>
   vets redirect_wcsrtombs
       (\<lambda>c bos (dst, src, len, ps). fortify_wcsrtombs bos c dst src len ps)
       (\<lambda>(dst, src, len, ps). dst)
       (\<lambda>(dst, src, len, ps). unat len)
       (\<lambda>c (dst, src, len, ps). c) \<and>
   vets redirect_mbsnrtowcs
       (\<lambda>c bos (dst, src, nmc, len, ps). fortify_mbsnrtowcs bos c dst src nmc len ps)
       (\<lambda>(dst, src, nmc, len, ps). dst)
       (\<lambda>(dst, src, nmc, len, ps). 4 * unat len)
       (\<lambda>c (dst, src, nmc, len, ps). c) \<and>
   vets redirect_wcsnrtombs
       (\<lambda>c bos (dst, src, nwc, len, ps). fortify_wcsnrtombs bos c dst src nwc len ps)
       (\<lambda>(dst, src, nwc, len, ps). dst)
       (\<lambda>(dst, src, nwc, len, ps). unat len)
       (\<lambda>c (dst, src, nwc, len, ps). c)"
  by (intro conjI fortify_wide_vetted)

end
