(* ===== verification/Fortify_Strings.thy ===== *)
theory Fortify_Strings
  imports Fortify_Base
begin

text \<open>
  The fortified wrappers of \<open>bits/stdio2.h\<close> for input, and of \<open>bits/string_fortified.h\<close> and
  \<open>bits/strings_fortified.h\<close>, which leave every decision to the compiler's checking builtins.
\<close>

section \<open>\<open>bits/stdio2.h\<close>\<close>

definition redirect_gets :: redirects where
  "redirect_gets =
     [(''__gets_warn'', ''gets'', Some (''please use fgets or getline instead, gets can'' @ [CHR 0x27] @ ''t specify buffer size''))]"

definition fortify_gets :: "(u64 \<Rightarrow> u64) \<Rightarrow> u64 \<Rightarrow> fcall" where
  "fortify_gets bos str1 =
    (if bos str1 \<noteq> -1
    then Fcall ''__gets_chk'' [CPtr str1, CSize (bos str1)]
    else Fcall ''__gets_warn'' [CPtr str1])"

definition redirect_fgets :: redirects where
  "redirect_fgets =
     [(''__fgets_alias'', ''fgets'', None),
      (''__fgets_chk_warn'', ''__fgets_chk'', Some ''fgets called with bigger size than length of destination buffer'')]"

definition fortify_fgets :: "(u64 \<Rightarrow> u64) \<Rightarrow> bool \<Rightarrow> u64 \<Rightarrow> u32 \<Rightarrow> u64 \<Rightarrow> fcall" where
  "fortify_fgets bos const_n s n stream =
    (if bos s \<noteq> -1
    then if \<not> const_n \<or> sint n \<le> 0
       then Fcall ''__fgets_chk'' [CPtr s, CSize (bos s), CInt n, CPtr stream]
       else if scast n > bos s
       then Fcall ''__fgets_chk_warn'' [CPtr s, CSize (bos s), CInt n, CPtr stream]
       else Fcall ''__fgets_alias'' [CPtr s, CInt n, CPtr stream]
    else Fcall ''__fgets_alias'' [CPtr s, CInt n, CPtr stream])"

definition redirect_fread :: redirects where
  "redirect_fread =
     [(''__fread_alias'', ''fread'', None),
      (''__fread_chk_warn'', ''__fread_chk'', Some ''fread called with bigger size * nmemb than length of destination buffer'')]"

definition fortify_fread :: "(u64 \<Rightarrow> u64) \<Rightarrow> bool \<Rightarrow> bool \<Rightarrow> u64 \<Rightarrow> u64 \<Rightarrow> u64 \<Rightarrow> u64 \<Rightarrow> fcall" where
  "fortify_fread bos0 const_size1 const_n ptr size1 n stream =
    (if bos0 ptr \<noteq> -1
    then if \<not> const_size1 \<or> \<not> const_n \<or> (size1 OR n) \<ge> (push_bit ((8 * 8 div 2)) (1))
       then Fcall ''__fread_chk'' [CPtr ptr, CSize (bos0 ptr), CSize size1, CSize n, CPtr stream]
       else if size1 * n > bos0 ptr
       then Fcall ''__fread_chk_warn'' [CPtr ptr, CSize (bos0 ptr), CSize size1, CSize n, CPtr stream]
       else Fcall ''__fread_alias'' [CPtr ptr, CSize size1, CSize n, CPtr stream]
    else Fcall ''__fread_alias'' [CPtr ptr, CSize size1, CSize n, CPtr stream])"

definition redirect_fgets_unlocked :: redirects where
  "redirect_fgets_unlocked =
     [(''__fgets_unlocked_alias'', ''fgets_unlocked'', None),
      (''__fgets_unlocked_chk_warn'', ''__fgets_unlocked_chk'', Some ''fgets_unlocked called with bigger size than length of destination buffer'')]"

definition fortify_fgets_unlocked :: "(u64 \<Rightarrow> u64) \<Rightarrow> bool \<Rightarrow> u64 \<Rightarrow> u32 \<Rightarrow> u64 \<Rightarrow> fcall" where
  "fortify_fgets_unlocked bos const_n s n stream =
    (if bos s \<noteq> -1
    then if \<not> const_n \<or> sint n \<le> 0
       then Fcall ''__fgets_unlocked_chk'' [CPtr s, CSize (bos s), CInt n, CPtr stream]
       else if scast n > bos s
       then Fcall ''__fgets_unlocked_chk_warn'' [CPtr s, CSize (bos s), CInt n, CPtr stream]
       else Fcall ''__fgets_unlocked_alias'' [CPtr s, CInt n, CPtr stream]
    else Fcall ''__fgets_unlocked_alias'' [CPtr s, CInt n, CPtr stream])"

section \<open>\<open>bits/string_fortified.h\<close>\<close>

definition fortify_memcpy :: "(u64 \<Rightarrow> u64) \<Rightarrow> u64 \<Rightarrow> u64 \<Rightarrow> u64 \<Rightarrow> fcall" where
  "fortify_memcpy bos0 dest src len =
    (Fcall ''__builtin___memcpy_chk'' [CPtr dest, CPtr src, CSize len, CSize (bos0 dest)])"

definition fortify_memmove :: "(u64 \<Rightarrow> u64) \<Rightarrow> u64 \<Rightarrow> u64 \<Rightarrow> u64 \<Rightarrow> fcall" where
  "fortify_memmove bos0 dest src len =
    (Fcall ''__builtin___memmove_chk'' [CPtr dest, CPtr src, CSize len, CSize (bos0 dest)])"

definition fortify_mempcpy :: "(u64 \<Rightarrow> u64) \<Rightarrow> u64 \<Rightarrow> u64 \<Rightarrow> u64 \<Rightarrow> fcall" where
  "fortify_mempcpy bos0 dest src len =
    (Fcall ''__builtin___mempcpy_chk'' [CPtr dest, CPtr src, CSize len, CSize (bos0 dest)])"

definition fortify_memset :: "bool \<Rightarrow> (u64 \<Rightarrow> u64) \<Rightarrow> bool \<Rightarrow> bool \<Rightarrow> u64 \<Rightarrow> u32 \<Rightarrow> u64 \<Rightarrow> fcall + u64" where
  "fortify_memset gcc5 bos0 const_len const_ch dest ch len =
    (if \<not> gcc5 \<and> const_len \<and> len = 0 \<and> (\<not> const_ch \<or> ch \<noteq> 0)
     then Inr dest
     else Inl (Fcall ''__builtin___memset_chk'' [CPtr dest, CInt ch, CSize len, CSize (bos0 dest)]))"

definition fortify_explicit_bzero :: "(u64 \<Rightarrow> u64) \<Rightarrow> u64 \<Rightarrow> u64 \<Rightarrow> fcall" where
  "fortify_explicit_bzero bos0 dest len =
    (Fcall ''__explicit_bzero_chk'' [CPtr dest, CSize len, CSize (bos0 dest)])"

definition fortify_strcpy :: "(u64 \<Rightarrow> u64) \<Rightarrow> u64 \<Rightarrow> u64 \<Rightarrow> fcall" where
  "fortify_strcpy bos dest src =
    (Fcall ''__builtin___strcpy_chk'' [CPtr dest, CPtr src, CSize (bos dest)])"

definition fortify_stpcpy :: "(u64 \<Rightarrow> u64) \<Rightarrow> u64 \<Rightarrow> u64 \<Rightarrow> fcall" where
  "fortify_stpcpy bos dest src =
    (Fcall ''__builtin___stpcpy_chk'' [CPtr dest, CPtr src, CSize (bos dest)])"

definition fortify_strncpy :: "(u64 \<Rightarrow> u64) \<Rightarrow> u64 \<Rightarrow> u64 \<Rightarrow> u64 \<Rightarrow> fcall" where
  "fortify_strncpy bos dest src len =
    (Fcall ''__builtin___strncpy_chk'' [CPtr dest, CPtr src, CSize len, CSize (bos dest)])"

definition redirect_stpncpy :: redirects where
  "redirect_stpncpy =
     [(''__stpncpy_alias'', ''stpncpy'', None)]"

definition fortify_stpncpy :: "(u64 \<Rightarrow> u64) \<Rightarrow> bool \<Rightarrow> u64 \<Rightarrow> u64 \<Rightarrow> u64 \<Rightarrow> fcall" where
  "fortify_stpncpy bos const_n dest src n =
    (if bos dest \<noteq> -1 \<and> (\<not> const_n \<or> n > bos dest)
    then Fcall ''__stpncpy_chk'' [CPtr dest, CPtr src, CSize n, CSize (bos dest)]
    else Fcall ''__stpncpy_alias'' [CPtr dest, CPtr src, CSize n])"

definition fortify_strcat :: "(u64 \<Rightarrow> u64) \<Rightarrow> u64 \<Rightarrow> u64 \<Rightarrow> fcall" where
  "fortify_strcat bos dest src =
    (Fcall ''__builtin___strcat_chk'' [CPtr dest, CPtr src, CSize (bos dest)])"

definition fortify_strncat :: "(u64 \<Rightarrow> u64) \<Rightarrow> u64 \<Rightarrow> u64 \<Rightarrow> u64 \<Rightarrow> fcall" where
  "fortify_strncat bos dest src len =
    (Fcall ''__builtin___strncat_chk'' [CPtr dest, CPtr src, CSize len, CSize (bos dest)])"

section \<open>\<open>bits/strings_fortified.h\<close>\<close>

definition fortify_bcopy :: "(u64 \<Rightarrow> u64) \<Rightarrow> u64 \<Rightarrow> u64 \<Rightarrow> u64 \<Rightarrow> fcall" where
  "fortify_bcopy bos0 src dest len =
    (Fcall ''__builtin___memmove_chk'' [CPtr dest, CPtr src, CSize len, CSize (bos0 dest)])"

definition fortify_bzero :: "(u64 \<Rightarrow> u64) \<Rightarrow> u64 \<Rightarrow> u64 \<Rightarrow> fcall" where
  "fortify_bzero bos0 dest len =
    (Fcall ''__builtin___memset_chk'' [CPtr dest, CInt 0, CSize len, CSize (bos0 dest)])"

section \<open>The wrappers keep the contract\<close>

interpretation gets_call: fortified_call redirect_gets
  "(\<lambda>(c :: unit) bos str1. fortify_gets bos str1)"
  "(\<lambda>str1. Fcall ''gets'' [CPtr str1])"
  "(\<lambda>b str1. Fcall ''__gets_chk'' [CPtr str1, CSize b])"
  "(\<lambda>str1. str1)"
  "(\<lambda>str1. (k str1))"
  for k
  by unfold_locales (auto simp: fortify_gets_def redirect_gets_def fortify_simps split: if_splits)

interpretation fgets_call: vetted_call redirect_fgets
  "(\<lambda>c bos (s, n, stream). fortify_fgets bos c s n stream)"
  "(\<lambda>(s, n, stream). Fcall ''fgets'' [CPtr s, CInt n, CPtr stream])"
  "(\<lambda>b (s, n, stream). Fcall ''__fgets_chk'' [CPtr s, CSize b, CInt n, CPtr stream])"
  "(\<lambda>(s, n, stream). s)"
  "(\<lambda>(s, n, stream). nat (sint n))"
  "(\<lambda>c (s, n, stream). c \<and> 0 < sint n)"
  by unfold_locales (auto simp: fortify_fgets_def redirect_fgets_def fortify_simps split: if_splits)

interpretation fread_call: vetted_call redirect_fread
  "(\<lambda>c bos (ptr, size1, n, stream). fortify_fread bos (fst c) (snd c) ptr size1 n stream)"
  "(\<lambda>(ptr, size1, n, stream). Fcall ''fread'' [CPtr ptr, CSize size1, CSize n, CPtr stream])"
  "(\<lambda>b (ptr, size1, n, stream). Fcall ''__fread_chk'' [CPtr ptr, CSize b, CSize size1, CSize n, CPtr stream])"
  "(\<lambda>(ptr, size1, n, stream). ptr)"
  "(\<lambda>(ptr, size1, n, stream). unat size1 * unat n)"
  "(\<lambda>c (ptr, size1, n, stream). fst c \<and> snd c \<and> (size1 OR n) < 2 ^ 32)"
  by unfold_locales (auto simp: fortify_fread_def redirect_fread_def fortify_simps split: if_splits)

interpretation fgets_unlocked_call: vetted_call redirect_fgets_unlocked
  "(\<lambda>c bos (s, n, stream). fortify_fgets_unlocked bos c s n stream)"
  "(\<lambda>(s, n, stream). Fcall ''fgets_unlocked'' [CPtr s, CInt n, CPtr stream])"
  "(\<lambda>b (s, n, stream). Fcall ''__fgets_unlocked_chk'' [CPtr s, CSize b, CInt n, CPtr stream])"
  "(\<lambda>(s, n, stream). s)"
  "(\<lambda>(s, n, stream). nat (sint n))"
  "(\<lambda>c (s, n, stream). c \<and> 0 < sint n)"
  by unfold_locales (auto simp: fortify_fgets_unlocked_def redirect_fgets_unlocked_def fortify_simps split: if_splits)

interpretation memcpy_call: fortified_call "[]"
  "(\<lambda>(c :: unit) bos (dest, src, len). fortify_memcpy bos dest src len)"
  "(\<lambda>(dest, src, len). Fcall ''memcpy'' [CPtr dest, CPtr src, CSize len])"
  "(\<lambda>b (dest, src, len). Fcall ''__builtin___memcpy_chk'' [CPtr dest, CPtr src, CSize len, CSize b])"
  "(\<lambda>(dest, src, len). dest)"
  "(\<lambda>(dest, src, len). unat len)"
  by unfold_locales (auto simp: fortify_memcpy_def fortify_simps split: if_splits)

interpretation memmove_call: fortified_call "[]"
  "(\<lambda>(c :: unit) bos (dest, src, len). fortify_memmove bos dest src len)"
  "(\<lambda>(dest, src, len). Fcall ''memmove'' [CPtr dest, CPtr src, CSize len])"
  "(\<lambda>b (dest, src, len). Fcall ''__builtin___memmove_chk'' [CPtr dest, CPtr src, CSize len, CSize b])"
  "(\<lambda>(dest, src, len). dest)"
  "(\<lambda>(dest, src, len). unat len)"
  by unfold_locales (auto simp: fortify_memmove_def fortify_simps split: if_splits)

interpretation mempcpy_call: fortified_call "[]"
  "(\<lambda>(c :: unit) bos (dest, src, len). fortify_mempcpy bos dest src len)"
  "(\<lambda>(dest, src, len). Fcall ''mempcpy'' [CPtr dest, CPtr src, CSize len])"
  "(\<lambda>b (dest, src, len). Fcall ''__builtin___mempcpy_chk'' [CPtr dest, CPtr src, CSize len, CSize b])"
  "(\<lambda>(dest, src, len). dest)"
  "(\<lambda>(dest, src, len). unat len)"
  by unfold_locales (auto simp: fortify_mempcpy_def fortify_simps split: if_splits)

interpretation memset_call: fortified_call "[]"
  "(\<lambda>(c :: unit) bos (dest, ch, len). projl (fortify_memset True bos False False dest ch len))"
  "(\<lambda>(dest, ch, len). Fcall ''memset'' [CPtr dest, CInt ch, CSize len])"
  "(\<lambda>b (dest, ch, len). Fcall ''__builtin___memset_chk'' [CPtr dest, CInt ch, CSize len, CSize b])"
  "(\<lambda>(dest, ch, len). dest)"
  "(\<lambda>(dest, ch, len). unat len)"
  by unfold_locales (auto simp: fortify_memset_def fortify_simps split: if_splits)

interpretation explicit_bzero_call: fortified_call "[]"
  "(\<lambda>(c :: unit) bos (dest, len). fortify_explicit_bzero bos dest len)"
  "(\<lambda>(dest, len). Fcall ''explicit_bzero'' [CPtr dest, CSize len])"
  "(\<lambda>b (dest, len). Fcall ''__explicit_bzero_chk'' [CPtr dest, CSize len, CSize b])"
  "(\<lambda>(dest, len). dest)"
  "(\<lambda>(dest, len). unat len)"
  by unfold_locales (auto simp: fortify_explicit_bzero_def fortify_simps split: if_splits)

interpretation strcpy_call: fortified_call "[]"
  "(\<lambda>(c :: unit) bos (dest, src). fortify_strcpy bos dest src)"
  "(\<lambda>(dest, src). Fcall ''strcpy'' [CPtr dest, CPtr src])"
  "(\<lambda>b (dest, src). Fcall ''__builtin___strcpy_chk'' [CPtr dest, CPtr src, CSize b])"
  "(\<lambda>(dest, src). dest)"
  "(\<lambda>(dest, src). min (2 ^ 64 - 1) (k (dest, src)))"
  for k
  by unfold_locales (auto simp: fortify_strcpy_def fortify_simps split: if_splits)

interpretation stpcpy_call: fortified_call "[]"
  "(\<lambda>(c :: unit) bos (dest, src). fortify_stpcpy bos dest src)"
  "(\<lambda>(dest, src). Fcall ''stpcpy'' [CPtr dest, CPtr src])"
  "(\<lambda>b (dest, src). Fcall ''__builtin___stpcpy_chk'' [CPtr dest, CPtr src, CSize b])"
  "(\<lambda>(dest, src). dest)"
  "(\<lambda>(dest, src). min (2 ^ 64 - 1) (k (dest, src)))"
  for k
  by unfold_locales (auto simp: fortify_stpcpy_def fortify_simps split: if_splits)

interpretation strncpy_call: fortified_call "[]"
  "(\<lambda>(c :: unit) bos (dest, src, len). fortify_strncpy bos dest src len)"
  "(\<lambda>(dest, src, len). Fcall ''strncpy'' [CPtr dest, CPtr src, CSize len])"
  "(\<lambda>b (dest, src, len). Fcall ''__builtin___strncpy_chk'' [CPtr dest, CPtr src, CSize len, CSize b])"
  "(\<lambda>(dest, src, len). dest)"
  "(\<lambda>(dest, src, len). unat len)"
  by unfold_locales (auto simp: fortify_strncpy_def fortify_simps split: if_splits)

interpretation stpncpy_call: fortified_call redirect_stpncpy
  "(\<lambda>c bos (dest, src, n). fortify_stpncpy bos c dest src n)"
  "(\<lambda>(dest, src, n). Fcall ''stpncpy'' [CPtr dest, CPtr src, CSize n])"
  "(\<lambda>b (dest, src, n). Fcall ''__stpncpy_chk'' [CPtr dest, CPtr src, CSize n, CSize b])"
  "(\<lambda>(dest, src, n). dest)"
  "(\<lambda>(dest, src, n). unat n)"
  by unfold_locales (auto simp: fortify_stpncpy_def redirect_stpncpy_def fortify_simps split: if_splits)

interpretation strcat_call: fortified_call "[]"
  "(\<lambda>(c :: unit) bos (dest, src). fortify_strcat bos dest src)"
  "(\<lambda>(dest, src). Fcall ''strcat'' [CPtr dest, CPtr src])"
  "(\<lambda>b (dest, src). Fcall ''__builtin___strcat_chk'' [CPtr dest, CPtr src, CSize b])"
  "(\<lambda>(dest, src). dest)"
  "(\<lambda>(dest, src). min (2 ^ 64 - 1) (k (dest, src)))"
  for k
  by unfold_locales (auto simp: fortify_strcat_def fortify_simps split: if_splits)

interpretation strncat_call: fortified_call "[]"
  "(\<lambda>(c :: unit) bos (dest, src, len). fortify_strncat bos dest src len)"
  "(\<lambda>(dest, src, len). Fcall ''strncat'' [CPtr dest, CPtr src, CSize len])"
  "(\<lambda>b (dest, src, len). Fcall ''__builtin___strncat_chk'' [CPtr dest, CPtr src, CSize len, CSize b])"
  "(\<lambda>(dest, src, len). dest)"
  "(\<lambda>(dest, src, len). min (2 ^ 64 - 1) (k (dest, src, len)))"
  for k
  by unfold_locales (auto simp: fortify_strncat_def fortify_simps split: if_splits)

interpretation bcopy_call: fortified_call "[]"
  "(\<lambda>(c :: unit) bos (src, dest, len). fortify_bcopy bos src dest len)"
  "(\<lambda>(src, dest, len). Fcall ''memmove'' [CPtr dest, CPtr src, CSize len])"
  "(\<lambda>b (src, dest, len). Fcall ''__builtin___memmove_chk'' [CPtr dest, CPtr src, CSize len, CSize b])"
  "(\<lambda>(src, dest, len). dest)"
  "(\<lambda>(src, dest, len). unat len)"
  by unfold_locales (auto simp: fortify_bcopy_def fortify_simps split: if_splits)

interpretation bzero_call: fortified_call "[]"
  "(\<lambda>(c :: unit) bos (dest, len). fortify_bzero bos dest len)"
  "(\<lambda>(dest, len). Fcall ''memset'' [CPtr dest, CInt 0, CSize len])"
  "(\<lambda>b (dest, len). Fcall ''__builtin___memset_chk'' [CPtr dest, CInt 0, CSize len, CSize b])"
  "(\<lambda>(dest, len). dest)"
  "(\<lambda>(dest, len). unat len)"
  by unfold_locales (auto simp: fortify_bzero_def fortify_simps split: if_splits)

lemmas fortify_strings_guarded =
  gets_call.guarded
  fgets_call.guarded
  fread_call.guarded
  fgets_unlocked_call.guarded
  memcpy_call.guarded
  memmove_call.guarded
  mempcpy_call.guarded
  memset_call.guarded
  explicit_bzero_call.guarded
  strcpy_call.guarded
  stpcpy_call.guarded
  strncpy_call.guarded
  stpncpy_call.guarded
  strcat_call.guarded
  strncat_call.guarded
  bcopy_call.guarded
  bzero_call.guarded

lemmas fortify_strings_vetted =
  fgets_call.vetted
  fread_call.vetted
  fgets_unlocked_call.vetted


theorem string_calls_guarded_vetted:
  "vets redirect_fgets
       (\<lambda>c bos (s, n, stream). fortify_fgets bos c s n stream)
       (\<lambda>(s, n, stream). s)
       (\<lambda>(s, n, stream). nat (sint n))
       (\<lambda>c (s, n, stream). c \<and> 0 < sint n) \<and>
   vets redirect_fread
       (\<lambda>c bos (ptr, size1, n, stream). fortify_fread bos (fst c) (snd c) ptr size1 n stream)
       (\<lambda>(ptr, size1, n, stream). ptr)
       (\<lambda>(ptr, size1, n, stream). unat size1 * unat n)
       (\<lambda>c (ptr, size1, n, stream). fst c \<and> snd c \<and> (size1 OR n) < 2 ^ 32) \<and>
   vets redirect_fgets_unlocked
       (\<lambda>c bos (s, n, stream). fortify_fgets_unlocked bos c s n stream)
       (\<lambda>(s, n, stream). s)
       (\<lambda>(s, n, stream). nat (sint n))
       (\<lambda>c (s, n, stream). c \<and> 0 < sint n)"
  by (intro conjI fortify_strings_vetted)

section \<open>Reading blocks without locking\<close>

text \<open>
  \<open>fread_unlocked\<close> also reads blocks of up to eight bytes itself, character by character. The characters
  are the answers of successive calls of \<open>getc_unlocked\<close>; the effect is the returned count and the
  bytes written to the start of the block.
\<close>

definition redirect_fread_unlocked :: redirects where
  "redirect_fread_unlocked =
     [(''__fread_unlocked_alias'', ''fread_unlocked'', None),
      (''__fread_unlocked_chk_warn'', ''__fread_unlocked_chk'',
        Some ''fread_unlocked called with bigger size * nmemb than length of destination buffer'')]"

datatype block_read = Calls fcall | Inlined u64 "u8 list"

fun getc_loop :: "(nat \<Rightarrow> u32) \<Rightarrow> nat \<Rightarrow> nat \<Rightarrow> u8 list" where
  "getc_loop getc i 0 = []"
| "getc_loop getc i (Suc cnt) =
     (if getc i = -1 then [] else ucast (getc i) # getc_loop getc (Suc i) cnt)"

definition fortify_fread_unlocked ::
    "bool \<Rightarrow> (u64 \<Rightarrow> u64) \<Rightarrow> bool \<Rightarrow> bool \<Rightarrow> (nat \<Rightarrow> u32) \<Rightarrow> u64 \<Rightarrow> u64 \<Rightarrow> u64 \<Rightarrow> u64 \<Rightarrow> block_read" where
  "fortify_fread_unlocked extern_inlines bos0 const_size1 const_n getc ptr size1 n stream =
    (if bos0 ptr \<noteq> -1 \<and> (\<not> const_size1 \<or> \<not> const_n \<or> (size1 OR n) \<ge> push_bit (8 * 8 div 2) 1)
     then Calls (Fcall ''__fread_unlocked_chk'' [CPtr ptr, CSize (bos0 ptr), CSize size1, CSize n, CPtr stream])
     else if bos0 ptr \<noteq> -1 \<and> size1 * n > bos0 ptr
     then Calls (Fcall ''__fread_unlocked_chk_warn'' [CPtr ptr, CSize (bos0 ptr), CSize size1, CSize n, CPtr stream])
     else if extern_inlines \<and> const_size1 \<and> const_n \<and> (size1 OR n) < push_bit (8 * 8 div 2) 1 \<and> size1 * n \<le> 8
     then (if size1 * n = 0 then Inlined 0 []
           else let bytes = getc_loop getc 0 (unat (size1 * n))
                in Inlined (of_nat (length bytes) div size1) bytes)
     else Calls (Fcall ''__fread_unlocked_alias'' [CPtr ptr, CSize size1, CSize n, CPtr stream]))"

lemma getc_loop_bytes:
  "getc_loop getc i cnt = map (\<lambda>j. ucast (getc j)) (takeWhile (\<lambda>j. getc j \<noteq> -1) [i ..< i + cnt])"
proof (induction getc i cnt rule: getc_loop.induct)
  case (2 getc i cnt)
  have "[i ..< i + Suc cnt] = i # [Suc i ..< Suc i + cnt]" by (simp add: upt_conv_Cons del: upt_Suc)
  then show ?case using 2 by simp
qed simp

text \<open>
  When a block is read inline, the bytes written are the characters before the first end of file,
  at most size times count of them and never more than the block has room for where its size is known,
  and the returned number is that of the complete items among them.
\<close>

theorem inline_block_read:
  assumes "fortify_fread_unlocked extern_inlines bos0 const_size1 const_n getc ptr size1 n stream = Inlined r bytes"
  shows "length bytes \<le> unat size1 * unat n \<and>
     (bos0 ptr = -1 \<or> length bytes \<le> unat (bos0 ptr)) \<and>
     bytes = map (\<lambda>j. ucast (getc j)) (takeWhile (\<lambda>j. getc j \<noteq> -1) [0 ..< unat size1 * unat n]) \<and>
     unat r = length bytes div unat size1 \<and> r \<le> n"
proof -
  have small: "(size1 OR n) < 2 ^ 32" "unat (size1 * n) \<le> 8"
    and room: "bos0 ptr \<noteq> -1 \<Longrightarrow> unat (size1 * n) \<le> unat (bos0 ptr)"
    using assms by (auto simp: fortify_fread_unlocked_def Let_def word_le_nat_alt not_less split: if_splits)
  have prod: "unat (size1 * n) = unat size1 * unat n" by (rule small_product [OF small(1)])
  show ?thesis
  proof (cases "size1 * n = 0")
    case True
    then have "r = 0" "bytes = []"
      using assms by (auto simp: fortify_fread_unlocked_def Let_def split: if_splits)
    then show ?thesis using True prod by simp
  next
    case False
    then have b: "bytes = getc_loop getc 0 (unat (size1 * n))" and r: "r = of_nat (length bytes) div size1"
      using assms by (auto simp: fortify_fread_unlocked_def Let_def split: if_splits)
    have bytes: "bytes = map (\<lambda>j. ucast (getc j)) (takeWhile (\<lambda>j. getc j \<noteq> -1) [0 ..< unat size1 * unat n])"
      by (simp add: b getc_loop_bytes prod)
    have len: "length bytes \<le> unat size1 * unat n"
      using length_takeWhile_le [of _ "[0 ..< unat size1 * unat n]"] by (simp add: bytes)
    then have "unat (of_nat (length bytes) :: u64) = length bytes"
      using small(2) prod by (simp add: unsigned_of_nat take_bit_nat_eq_self)
    then have ur: "unat r = length bytes div unat size1" by (simp add: r unat_div)
    have "length bytes div unat size1 \<le> unat n"
      using div_le_mono [OF len, of "unat size1"] by (cases "unat size1 = 0") auto
    moreover have "bos0 ptr = -1 \<or> length bytes \<le> unat (bos0 ptr)" using len room prod by fastforce
    ultimately show ?thesis using len ur bytes by (simp add: word_le_nat_alt)
  qed
qed

theorem inline_block_read_witness:
  "length [65, 66 :: u8] \<le> unat (2 :: u64) * unat (2 :: u64) \<and> unat (1 :: u64) = length [65, 66 :: u8] div unat (2 :: u64)"
proof -
  have "fortify_fread_unlocked True (\<lambda>p. 8) True True (\<lambda>j. [65, 66, -1] ! j) 0 2 2 0 = Inlined 1 [65, 66]"
  proof -
    have four: "(4 :: nat) = Suc (Suc (Suc (Suc 0)))" by simp
    have "getc_loop (\<lambda>j. [65, 66, -1] ! j) 0 4 = [65, 66]" unfolding four by simp
    then show ?thesis by (simp add: fortify_fread_unlocked_def)
  qed
  from inline_block_read [OF this] show ?thesis by blast
qed

end
