(* ===== verification/Fortify_Open.thy ===== *)
theory Fortify_Open
  imports Fortify_Base
begin

text \<open>
  \<open>bits/fcntl2.h\<close> and \<open>bits/mqueue2.h\<close>: opening a file or a queue takes a mode only when it may create
  one. The wrappers reject, when the program is compiled, a wrong number of arguments and a missing
  mode, by calling a function whose declaration makes that an error; when the flags are not constant
  they call a variant that checks at run time. A wrapper is the list of the errors and the call.
  The locale \<open>mode_checked\<close> is the contract, interpreted on all five.
\<close>

section \<open>Flags\<close>

definition O_CREAT :: u32 where
  "O_CREAT = 0x40"

definition us_O_DIRECTORY :: u32 where
  "us_O_DIRECTORY = 0x10000"

definition us_O_TMPFILE :: u32 where
  "us_O_TMPFILE = 0x400000 OR us_O_DIRECTORY"

definition us_OPEN_NEEDS_MODE :: "u32 \<Rightarrow> bool" where
  "us_OPEN_NEEDS_MODE oflag = ((oflag AND O_CREAT) \<noteq> 0 \<or> (oflag AND us_O_TMPFILE) = us_O_TMPFILE)"

section \<open>The wrappers\<close>

definition errors_open :: "(string \<times> string) list" where
  "errors_open =
     [(''__open_too_many_args'', ''open can be called either with 2 or 3 arguments, not more''),
      (''__open_missing_mode'', ''open with O_CREAT or O_TMPFILE in second argument needs 3 arguments'')]"

definition fortify_open :: "bool \<Rightarrow> u64 \<Rightarrow> u32 \<Rightarrow> carg list \<Rightarrow> string list \<times> fcall" where
  "fortify_open const_oflag path oflag va =
     (let errs = (if length va > 1 then [''__open_too_many_args''] else [])
      in if const_oflag
         then if us_OPEN_NEEDS_MODE oflag \<and> length va < 1
              then (errs @ [''__open_missing_mode''], Fcall ''__open_2'' [CPtr path, CInt oflag])
              else (errs, Fcall ''__open_alias'' [CPtr path, CInt oflag, CVarargs va])
         else if length va < 1
              then (errs, Fcall ''__open_2'' [CPtr path, CInt oflag])
              else (errs, Fcall ''__open_alias'' [CPtr path, CInt oflag, CVarargs va]))"

definition errors_open64 :: "(string \<times> string) list" where
  "errors_open64 =
     [(''__open64_too_many_args'', ''open64 can be called either with 2 or 3 arguments, not more''),
      (''__open64_missing_mode'', ''open64 with O_CREAT or O_TMPFILE in second argument needs 3 arguments'')]"

definition fortify_open64 :: "bool \<Rightarrow> u64 \<Rightarrow> u32 \<Rightarrow> carg list \<Rightarrow> string list \<times> fcall" where
  "fortify_open64 const_oflag path oflag va =
     (let errs = (if length va > 1 then [''__open64_too_many_args''] else [])
      in if const_oflag
         then if us_OPEN_NEEDS_MODE oflag \<and> length va < 1
              then (errs @ [''__open64_missing_mode''], Fcall ''__open64_2'' [CPtr path, CInt oflag])
              else (errs, Fcall ''__open64_alias'' [CPtr path, CInt oflag, CVarargs va])
         else if length va < 1
              then (errs, Fcall ''__open64_2'' [CPtr path, CInt oflag])
              else (errs, Fcall ''__open64_alias'' [CPtr path, CInt oflag, CVarargs va]))"

definition errors_openat :: "(string \<times> string) list" where
  "errors_openat =
     [(''__openat_too_many_args'', ''openat can be called either with 3 or 4 arguments, not more''),
      (''__openat_missing_mode'', ''openat with O_CREAT or O_TMPFILE in third argument needs 4 arguments'')]"

definition fortify_openat :: "bool \<Rightarrow> u32 \<Rightarrow> u64 \<Rightarrow> u32 \<Rightarrow> carg list \<Rightarrow> string list \<times> fcall" where
  "fortify_openat const_oflag fd path oflag va =
     (let errs = (if length va > 1 then [''__openat_too_many_args''] else [])
      in if const_oflag
         then if us_OPEN_NEEDS_MODE oflag \<and> length va < 1
              then (errs @ [''__openat_missing_mode''], Fcall ''__openat_2'' [CInt fd, CPtr path, CInt oflag])
              else (errs, Fcall ''__openat_alias'' [CInt fd, CPtr path, CInt oflag, CVarargs va])
         else if length va < 1
              then (errs, Fcall ''__openat_2'' [CInt fd, CPtr path, CInt oflag])
              else (errs, Fcall ''__openat_alias'' [CInt fd, CPtr path, CInt oflag, CVarargs va]))"

definition errors_openat64 :: "(string \<times> string) list" where
  "errors_openat64 =
     [(''__openat64_too_many_args'', ''openat64 can be called either with 3 or 4 arguments, not more''),
      (''__openat64_missing_mode'', ''openat64 with O_CREAT or O_TMPFILE in third argument needs 4 arguments'')]"

definition fortify_openat64 :: "bool \<Rightarrow> u32 \<Rightarrow> u64 \<Rightarrow> u32 \<Rightarrow> carg list \<Rightarrow> string list \<times> fcall" where
  "fortify_openat64 const_oflag fd path oflag va =
     (let errs = (if length va > 1 then [''__openat64_too_many_args''] else [])
      in if const_oflag
         then if us_OPEN_NEEDS_MODE oflag \<and> length va < 1
              then (errs @ [''__openat64_missing_mode''], Fcall ''__openat64_2'' [CInt fd, CPtr path, CInt oflag])
              else (errs, Fcall ''__openat64_alias'' [CInt fd, CPtr path, CInt oflag, CVarargs va])
         else if length va < 1
              then (errs, Fcall ''__openat64_2'' [CInt fd, CPtr path, CInt oflag])
              else (errs, Fcall ''__openat64_alias'' [CInt fd, CPtr path, CInt oflag, CVarargs va]))"

definition redirect_open :: redirects where
  "redirect_open = [(''__open_alias'', ''open'', None)]"

definition redirect_open_off64 :: redirects where
  "redirect_open_off64 = [(''__open_2'', ''__open64_2'', None), (''__open_alias'', ''open64'', None)]"

definition redirect_open64 :: redirects where
  "redirect_open64 = [(''__open64_alias'', ''open64'', None)]"

definition redirect_openat :: redirects where
  "redirect_openat = [(''__openat_alias'', ''openat'', None)]"

definition redirect_openat_off64 :: redirects where
  "redirect_openat_off64 = [(''__openat_2'', ''__openat64_2'', None), (''__openat_alias'', ''openat64'', None)]"

definition redirect_openat64 :: redirects where
  "redirect_openat64 = [(''__openat64_alias'', ''openat64'', None)]"

definition redirect_mq_open :: redirects where
  "redirect_mq_open = [(''__mq_open_alias'', ''mq_open'', None)]"

definition errors_mq_open :: "(string \<times> string) list" where
  "errors_mq_open =
     [(''__mq_open_wrong_number_of_args'', ''mq_open can be called either with 2 or 4 arguments''),
      (''__mq_open_missing_mode_and_attr'', ''mq_open with O_CREAT in second argument needs 4 arguments'')]"

definition fortify_mq_open :: "bool \<Rightarrow> u64 \<Rightarrow> u32 \<Rightarrow> carg list \<Rightarrow> string list \<times> fcall" where
  "fortify_mq_open const_oflag name oflag va =
     (let errs = (if length va \<noteq> 0 \<and> length va \<noteq> 2 then [''__mq_open_wrong_number_of_args''] else [])
      in if const_oflag
         then if (oflag AND O_CREAT) \<noteq> 0 \<and> length va = 0
              then (errs @ [''__mq_open_missing_mode_and_attr''], Fcall ''__mq_open_2'' [CPtr name, CInt oflag])
              else (errs, Fcall ''__mq_open_alias'' [CPtr name, CInt oflag, CVarargs va])
         else if length va = 0
              then (errs, Fcall ''__mq_open_2'' [CPtr name, CInt oflag])
              else (errs, Fcall ''__mq_open_alias'' [CPtr name, CInt oflag, CVarargs va]))"

section \<open>The contract\<close>

text \<open>
  Whether the compiler accepts a call, and which function an accepted call reaches: the plain
  function never without a mode when the flags ask for one.
\<close>

definition accepts :: "nat set \<Rightarrow> (u32 \<Rightarrow> bool) \<Rightarrow> bool \<Rightarrow> u32 \<Rightarrow> carg list \<Rightarrow> bool" where
  "accepts arities needs const_oflag oflag va =
     (length va \<in> arities \<and> \<not> (const_oflag \<and> needs oflag \<and> va = []))"

definition opens ::
    "redirects \<Rightarrow> (string \<times> string) list \<Rightarrow> (bool \<Rightarrow> 'a \<Rightarrow> u32 \<Rightarrow> carg list \<Rightarrow> string list \<times> fcall) \<Rightarrow>
     ('a \<Rightarrow> u32 \<Rightarrow> carg list \<Rightarrow> fcall) \<Rightarrow> ('a \<Rightarrow> u32 \<Rightarrow> fcall) \<Rightarrow> nat set \<Rightarrow> (u32 \<Rightarrow> bool) \<Rightarrow> bool" where
  "opens rd errors wrapper plain two arities needs =
     (\<forall>c a oflag va. case wrapper c a oflag va of (errs, call) \<Rightarrow>
        set errs \<subseteq> fst ` set errors \<and>
        (errs = [] \<longleftrightarrow> accepts arities needs c oflag va) \<and>
        (errs = [] \<and> needs oflag \<and> va = [] \<longrightarrow> linked rd call = two a oflag) \<and>
        linked rd call \<in> (if va = [] then {plain a oflag va, two a oflag} else {plain a oflag va}))"

locale mode_checked =
  fixes rd :: redirects
    and errors :: "(string \<times> string) list"
    and wrapper :: "bool \<Rightarrow> 'a \<Rightarrow> u32 \<Rightarrow> carg list \<Rightarrow> string list \<times> fcall"
    and plain :: "'a \<Rightarrow> u32 \<Rightarrow> carg list \<Rightarrow> fcall"
    and two :: "'a \<Rightarrow> u32 \<Rightarrow> fcall"
    and arities :: "nat set"
    and needs :: "u32 \<Rightarrow> bool"
  assumes declared: "wrapper c a f va = (errs, call) \<Longrightarrow> set errs \<subseteq> fst ` set errors"
    and accepted: "wrapper c a f va = (errs, call) \<Longrightarrow> errs = [] \<longleftrightarrow> accepts arities needs c f va"
    and with_mode: "wrapper c a f va = (errs, call) \<Longrightarrow> va \<noteq> [] \<Longrightarrow> linked rd call = plain a f va"
    and fixed_flags: "wrapper True a f [] = (errs, call) \<Longrightarrow>
          linked rd call = (if needs f then two a f else plain a f [])"
    and dynamic: "wrapper False a f [] = (errs, call) \<Longrightarrow> linked rd call = two a f"
begin

lemma opens: "opens rd errors wrapper plain two arities needs"
proof -
  have "set errs \<subseteq> fst ` set errors \<and> (errs = [] \<longleftrightarrow> accepts arities needs c f va) \<and>
        (errs = [] \<and> needs f \<and> va = [] \<longrightarrow> linked rd call = two a f) \<and>
        linked rd call \<in> (if va = [] then {plain a f va, two a f} else {plain a f va})"
    if w: "wrapper c a f va = (errs, call)" for c a f va errs call
    using declared [OF w] accepted [OF w] with_mode [OF w] fixed_flags [of a f errs call] dynamic [of a f errs call] w
    by (cases c; cases "va = []") auto
  then show ?thesis unfolding opens_def by (intro allI case_prodI2) blast
qed

end

interpretation open_mode: mode_checked redirect_open
  errors_open
  fortify_open
  "\<lambda>a f va. Fcall ''open'' [CPtr a, CInt f, CVarargs va]"
  "\<lambda>a f. Fcall ''__open_2'' [CPtr a, CInt f]"
  "{0, 1}"
  us_OPEN_NEEDS_MODE
  by unfold_locales
    (auto simp: fortify_open_def redirect_open_def errors_open_def accepts_def resolve_def Let_def less_Suc_eq_le le_Suc_eq not_less
       numeral_2_eq_2 split: if_splits)

interpretation open_off64_mode: mode_checked redirect_open_off64
  errors_open
  fortify_open
  "\<lambda>a f va. Fcall ''open64'' [CPtr a, CInt f, CVarargs va]"
  "\<lambda>a f. Fcall ''__open64_2'' [CPtr a, CInt f]"
  "{0, 1}"
  us_OPEN_NEEDS_MODE
  by unfold_locales
    (auto simp: fortify_open_def redirect_open_off64_def errors_open_def accepts_def resolve_def Let_def less_Suc_eq_le le_Suc_eq not_less
       numeral_2_eq_2 split: if_splits)

interpretation open64_mode: mode_checked redirect_open64
  errors_open64
  fortify_open64
  "\<lambda>a f va. Fcall ''open64'' [CPtr a, CInt f, CVarargs va]"
  "\<lambda>a f. Fcall ''__open64_2'' [CPtr a, CInt f]"
  "{0, 1}"
  us_OPEN_NEEDS_MODE
  by unfold_locales
    (auto simp: fortify_open64_def redirect_open64_def errors_open64_def accepts_def resolve_def Let_def less_Suc_eq_le le_Suc_eq not_less
       numeral_2_eq_2 split: if_splits)

interpretation openat_mode: mode_checked redirect_openat
  errors_openat
  "\<lambda>c a f va. fortify_openat c (fst a) (snd a) f va"
  "\<lambda>a f va. Fcall ''openat'' [CInt (fst a), CPtr (snd a), CInt f, CVarargs va]"
  "\<lambda>a f. Fcall ''__openat_2'' [CInt (fst a), CPtr (snd a), CInt f]"
  "{0, 1}"
  us_OPEN_NEEDS_MODE
  by unfold_locales
    (auto simp: fortify_openat_def redirect_openat_def errors_openat_def accepts_def resolve_def Let_def less_Suc_eq_le le_Suc_eq not_less
       numeral_2_eq_2 split: if_splits)

interpretation openat_off64_mode: mode_checked redirect_openat_off64
  errors_openat
  "\<lambda>c a f va. fortify_openat c (fst a) (snd a) f va"
  "\<lambda>a f va. Fcall ''openat64'' [CInt (fst a), CPtr (snd a), CInt f, CVarargs va]"
  "\<lambda>a f. Fcall ''__openat64_2'' [CInt (fst a), CPtr (snd a), CInt f]"
  "{0, 1}"
  us_OPEN_NEEDS_MODE
  by unfold_locales
    (auto simp: fortify_openat_def redirect_openat_off64_def errors_openat_def accepts_def resolve_def Let_def less_Suc_eq_le le_Suc_eq not_less
       numeral_2_eq_2 split: if_splits)

interpretation openat64_mode: mode_checked redirect_openat64
  errors_openat64
  "\<lambda>c a f va. fortify_openat64 c (fst a) (snd a) f va"
  "\<lambda>a f va. Fcall ''openat64'' [CInt (fst a), CPtr (snd a), CInt f, CVarargs va]"
  "\<lambda>a f. Fcall ''__openat64_2'' [CInt (fst a), CPtr (snd a), CInt f]"
  "{0, 1}"
  us_OPEN_NEEDS_MODE
  by unfold_locales
    (auto simp: fortify_openat64_def redirect_openat64_def errors_openat64_def accepts_def resolve_def Let_def less_Suc_eq_le le_Suc_eq not_less
       numeral_2_eq_2 split: if_splits)

interpretation mq_open_mode: mode_checked redirect_mq_open
  errors_mq_open
  fortify_mq_open
  "\<lambda>a f va. Fcall ''mq_open'' [CPtr a, CInt f, CVarargs va]"
  "\<lambda>a f. Fcall ''__mq_open_2'' [CPtr a, CInt f]"
  "{0, 2}"
  "\<lambda>f. (f AND O_CREAT) \<noteq> 0"
  by unfold_locales
    (auto simp: fortify_mq_open_def redirect_mq_open_def errors_mq_open_def accepts_def resolve_def Let_def less_Suc_eq_le le_Suc_eq not_less
       numeral_2_eq_2 split: if_splits)

text \<open>
  Opening with checked arguments: the compiler accepts a call exactly when the number of arguments
  is one of the two allowed and, for constant flags that may create a file, the mode is given; an accepted
  call reaches the plain function with its arguments, and never without a mode when the flags ask for
  one: then it reaches the variant that checks at run time.
\<close>

theorem open_arguments_checked:
  "opens redirect_open
       errors_open
       fortify_open
       (\<lambda>a f va. Fcall ''open'' [CPtr a, CInt f, CVarargs va])
       (\<lambda>a f. Fcall ''__open_2'' [CPtr a, CInt f])
       {0, 1}
       us_OPEN_NEEDS_MODE \<and>
   opens redirect_open_off64
       errors_open
       fortify_open
       (\<lambda>a f va. Fcall ''open64'' [CPtr a, CInt f, CVarargs va])
       (\<lambda>a f. Fcall ''__open64_2'' [CPtr a, CInt f])
       {0, 1}
       us_OPEN_NEEDS_MODE \<and>
   opens redirect_open64
       errors_open64
       fortify_open64
       (\<lambda>a f va. Fcall ''open64'' [CPtr a, CInt f, CVarargs va])
       (\<lambda>a f. Fcall ''__open64_2'' [CPtr a, CInt f])
       {0, 1}
       us_OPEN_NEEDS_MODE \<and>
   opens redirect_openat
       errors_openat
       (\<lambda>c a f va. fortify_openat c (fst a) (snd a) f va)
       (\<lambda>a f va. Fcall ''openat'' [CInt (fst a), CPtr (snd a), CInt f, CVarargs va])
       (\<lambda>a f. Fcall ''__openat_2'' [CInt (fst a), CPtr (snd a), CInt f])
       {0, 1}
       us_OPEN_NEEDS_MODE \<and>
   opens redirect_openat_off64
       errors_openat
       (\<lambda>c a f va. fortify_openat c (fst a) (snd a) f va)
       (\<lambda>a f va. Fcall ''openat64'' [CInt (fst a), CPtr (snd a), CInt f, CVarargs va])
       (\<lambda>a f. Fcall ''__openat64_2'' [CInt (fst a), CPtr (snd a), CInt f])
       {0, 1}
       us_OPEN_NEEDS_MODE \<and>
   opens redirect_openat64
       errors_openat64
       (\<lambda>c a f va. fortify_openat64 c (fst a) (snd a) f va)
       (\<lambda>a f va. Fcall ''openat64'' [CInt (fst a), CPtr (snd a), CInt f, CVarargs va])
       (\<lambda>a f. Fcall ''__openat64_2'' [CInt (fst a), CPtr (snd a), CInt f])
       {0, 1}
       us_OPEN_NEEDS_MODE \<and>
   opens redirect_mq_open
       errors_mq_open
       fortify_mq_open
       (\<lambda>a f va. Fcall ''mq_open'' [CPtr a, CInt f, CVarargs va])
       (\<lambda>a f. Fcall ''__mq_open_2'' [CPtr a, CInt f])
       {0, 2}
       (\<lambda>f. (f AND O_CREAT) \<noteq> 0)"
  by (intro conjI open_mode.opens open_off64_mode.opens open64_mode.opens openat_mode.opens openat_off64_mode.opens openat64_mode.opens mq_open_mode.opens)

end
