(* ===== verification/Sequencer.thy ===== *)
theory Sequencer
  imports C_Integers "HOL-Library.Monad_Syntax" "HOL-Library.Signed_Division"
begin

text \<open>
  The event macros of \<open>linux/soundcard.h\<close>: a program formats sequencer events into a buffer and hands the
  buffer to \<open>seqbuf_dump\<close>, which the program provides, when the next event does not fit. The state is the
  buffer with its length and fill pointer and the bytes that went to the device. \<open>seqbuf_dump\<close> is the
  parameter \<open>dump\<close>, with what the header asks of it (it writes the filled part and empties the buffer) as
  the hypothesis \<open>dump_ok\<close>. A store outside the buffer is \<open>None\<close>. Macro arguments are C \<open>int\<close> values.

  The abstraction is the stream of bytes: what went out followed by what is buffered. Every macro
  appends its event to the stream, whatever the fill of the buffer.
\<close>

section \<open>The buffer\<close>

record sequencer =
  us_seqbuf :: "u8 list"
  us_seqbuflen :: nat
  us_seqbufptr :: nat
  device :: "u8 list"

type_synonym dumper = "sequencer \<Rightarrow> sequencer"

definition SEQ_DEFINEBUF :: "nat \<Rightarrow> sequencer" where
  "SEQ_DEFINEBUF len = \<lparr>us_seqbuf = replicate len 0, us_seqbuflen = len, us_seqbufptr = 0, device = []\<rparr>"

definition us_SEQ_NEEDBUF :: "dumper \<Rightarrow> nat \<Rightarrow> sequencer \<Rightarrow> sequencer" where
  "us_SEQ_NEEDBUF dump len s = (if us_seqbufptr s + len > us_seqbuflen s then dump s else s)"

definition us_SEQ_ADVBUF :: "nat \<Rightarrow> sequencer \<Rightarrow> sequencer" where
  "us_SEQ_ADVBUF len s = s\<lparr>us_seqbufptr := us_seqbufptr s + len\<rparr>"

definition SEQ_DUMPBUF :: "dumper \<Rightarrow> sequencer \<Rightarrow> sequencer" where
  "SEQ_DUMPBUF dump s = dump s"

text \<open>\<open>_seqbuf[_seqbufptr + off] = v\<close>\<close>

definition store :: "int \<Rightarrow> u8 \<Rightarrow> sequencer \<Rightarrow> sequencer option" where
  "store off v s =
     (let i = int (us_seqbufptr s) + off
      in if 0 \<le> i \<and> i < int (length (us_seqbuf s)) then Some (s\<lparr>us_seqbuf := (us_seqbuf s)[nat i := v]\<rparr>) else None)"

fun stores :: "(int \<times> u8) list \<Rightarrow> sequencer \<Rightarrow> sequencer option" where
  "stores [] s = Some s"
| "stores ((off, v) # vs) s = store off v s \<bind> stores vs"

text \<open>Bytes stored one behind the other, and the bytes of a \<open>short\<close> and of an \<open>int\<close> on a little-endian host.\<close>

definition row :: "u8 list \<Rightarrow> (int \<times> u8) list" where
  "row vs = zip (map int [0 ..< length vs]) vs"

definition byte :: "int \<Rightarrow> u8" where
  "byte v = word_of_int v"

definition short_bytes :: "int \<Rightarrow> u8 list" where
  "short_bytes v = [byte v, byte (drop_bit 8 v)]"

definition int_bytes :: "int \<Rightarrow> u8 list" where
  "int_bytes v = [byte v, byte (drop_bit 8 v), byte (drop_bit 16 v), byte (drop_bit 24 v)]"

section \<open>Event codes\<close>

definition SEQ_MIDIPUTC :: int where
  "SEQ_MIDIPUTC = 5"

definition SEQ_CONTROLLER :: int where
  "SEQ_CONTROLLER = 10"

definition SEQ_VOLMODE :: int where
  "SEQ_VOLMODE = 12"

definition SEQ_EXTENDED :: int where
  "SEQ_EXTENDED = 0xff"

definition EV_SEQ_LOCAL :: int where
  "EV_SEQ_LOCAL = 0x80"

definition EV_TIMING :: int where
  "EV_TIMING = 0x81"

definition EV_CHN_COMMON :: int where
  "EV_CHN_COMMON = 0x92"

definition EV_CHN_VOICE :: int where
  "EV_CHN_VOICE = 0x93"

definition EV_SYSEX :: int where
  "EV_SYSEX = 0x94"

definition MIDI_NOTEOFF :: int where
  "MIDI_NOTEOFF = 0x80"

definition MIDI_NOTEON :: int where
  "MIDI_NOTEON = 0x90"

definition MIDI_KEY_PRESSURE :: int where
  "MIDI_KEY_PRESSURE = 0xA0"

definition MIDI_CTL_CHANGE :: int where
  "MIDI_CTL_CHANGE = 0xB0"

definition MIDI_PGM_CHANGE :: int where
  "MIDI_PGM_CHANGE = 0xC0"

definition MIDI_CHN_PRESSURE :: int where
  "MIDI_CHN_PRESSURE = 0xD0"

definition MIDI_PITCH_BEND :: int where
  "MIDI_PITCH_BEND = 0xE0"

definition TMR_WAIT_REL :: int where
  "TMR_WAIT_REL = 1"

definition TMR_WAIT_ABS :: int where
  "TMR_WAIT_ABS = 2"

definition TMR_STOP :: int where
  "TMR_STOP = 3"

definition TMR_START :: int where
  "TMR_START = 4"

definition TMR_CONTINUE :: int where
  "TMR_CONTINUE = 5"

definition TMR_TEMPO :: int where
  "TMR_TEMPO = 6"

definition TMR_ECHO :: int where
  "TMR_ECHO = 8"

definition TMR_SPP :: int where
  "TMR_SPP = 10"

definition TMR_TIMESIG :: int where
  "TMR_TIMESIG = 11"

definition LOCL_STARTAUDIO :: int where
  "LOCL_STARTAUDIO = 1"

definition CTRL_PITCH_BENDER :: int where
  "CTRL_PITCH_BENDER = 255"

definition CTRL_PITCH_BENDER_RANGE :: int where
  "CTRL_PITCH_BENDER_RANGE = 254"

definition CTL_EXPRESSION :: int where
  "CTL_EXPRESSION = 0x0b"

definition CTL_MAIN_VOLUME :: int where
  "CTL_MAIN_VOLUME = 0x07"

definition CTL_PAN :: int where
  "CTL_PAN = 0x0a"

lemmas seq_codes =
  SEQ_MIDIPUTC_def SEQ_CONTROLLER_def SEQ_VOLMODE_def SEQ_EXTENDED_def EV_SEQ_LOCAL_def
  EV_TIMING_def EV_CHN_COMMON_def EV_CHN_VOICE_def EV_SYSEX_def MIDI_NOTEOFF_def
  MIDI_NOTEON_def MIDI_KEY_PRESSURE_def MIDI_CTL_CHANGE_def MIDI_PGM_CHANGE_def MIDI_CHN_PRESSURE_def
  MIDI_PITCH_BEND_def TMR_WAIT_REL_def TMR_WAIT_ABS_def TMR_STOP_def TMR_START_def
  TMR_CONTINUE_def TMR_TEMPO_def TMR_ECHO_def TMR_SPP_def TMR_TIMESIG_def
  LOCL_STARTAUDIO_def CTRL_PITCH_BENDER_def CTRL_PITCH_BENDER_RANGE_def CTL_EXPRESSION_def CTL_MAIN_VOLUME_def
  CTL_PAN_def

section \<open>The macros\<close>

definition emit :: "dumper \<Rightarrow> u8 list \<Rightarrow> sequencer \<Rightarrow> sequencer option" where
  "emit dump vs s =
     do { s1 \<leftarrow> stores (row vs) (us_SEQ_NEEDBUF dump (length vs) s); Some (us_SEQ_ADVBUF (length vs) s1) }"

definition SEQ_VOLUME_MODE :: "dumper \<Rightarrow> int \<Rightarrow> int \<Rightarrow> sequencer \<Rightarrow> sequencer option" where
  "SEQ_VOLUME_MODE dump dev mode =
     emit dump [byte SEQ_EXTENDED, byte SEQ_VOLMODE, byte dev, byte mode, 0, 0, 0, 0]"

definition us_CHN_VOICE :: "dumper \<Rightarrow> int \<Rightarrow> int \<Rightarrow> int \<Rightarrow> int \<Rightarrow> int \<Rightarrow> sequencer \<Rightarrow> sequencer option" where
  "us_CHN_VOICE dump dev event chn note parm =
     emit dump [byte EV_CHN_VOICE, byte dev, byte event, byte chn, byte note, byte parm, 0, 0]"

definition us_CHN_COMMON :: "dumper \<Rightarrow> int \<Rightarrow> int \<Rightarrow> int \<Rightarrow> int \<Rightarrow> int \<Rightarrow> int \<Rightarrow> sequencer \<Rightarrow> sequencer option" where
  "us_CHN_COMMON dump dev event chn p1 p2 w14 =
     emit dump ([byte EV_CHN_COMMON, byte dev, byte event, byte chn, byte p1, byte p2] @ short_bytes w14)"

text \<open>The two loops of \<open>SEQ_SYSEX\<close> run over \<open>int\<close> indices; reading behind the data is outside the model.\<close>

definition SEQ_SYSEX :: "dumper \<Rightarrow> int \<Rightarrow> u8 list \<Rightarrow> int \<Rightarrow> sequencer \<Rightarrow> sequencer option" where
  "SEQ_SYSEX dump dev buf len s =
     (let ll = (if len > 6 then 6 else len)
      in if ll > int (length buf) then None
         else do {
           s1 \<leftarrow> stores ([(0, byte EV_SYSEX), (1, byte dev)] @
                  map (\<lambda>ii. (ii + 2, buf ! nat ii)) [0 .. ll - 1] @
                  map (\<lambda>ii. (ii + 2, 0xff)) [ll .. 5]) (us_SEQ_NEEDBUF dump 8 s);
           Some (us_SEQ_ADVBUF 8 s1) })"

definition SEQ_V2_X_CONTROL :: "dumper \<Rightarrow> int \<Rightarrow> int \<Rightarrow> int \<Rightarrow> int \<Rightarrow> sequencer \<Rightarrow> sequencer option" where
  "SEQ_V2_X_CONTROL dump dev voice controller value =
     emit dump [byte SEQ_EXTENDED, byte SEQ_CONTROLLER, byte dev, byte voice, byte controller,
                byte (value AND 0xff), byte (drop_bit 8 value AND 0xff), 0]"

definition us_TIMER_EVENT :: "dumper \<Rightarrow> int \<Rightarrow> int \<Rightarrow> sequencer \<Rightarrow> sequencer option" where
  "us_TIMER_EVENT dump ev parm = emit dump ([byte EV_TIMING, byte ev, 0, 0] @ int_bytes parm)"

definition us_LOCAL_EVENT :: "dumper \<Rightarrow> int \<Rightarrow> int \<Rightarrow> sequencer \<Rightarrow> sequencer option" where
  "us_LOCAL_EVENT dump ev parm = emit dump ([byte EV_SEQ_LOCAL, byte ev, 0, 0] @ int_bytes parm)"

definition SEQ_MIDIOUT :: "dumper \<Rightarrow> int \<Rightarrow> int \<Rightarrow> sequencer \<Rightarrow> sequencer option" where
  "SEQ_MIDIOUT dump device1 byte1 = emit dump [byte SEQ_MIDIPUTC, byte byte1, byte device1, 0]"

definition SEQ_START_NOTE :: "dumper \<Rightarrow> int \<Rightarrow> int \<Rightarrow> int \<Rightarrow> int \<Rightarrow> sequencer \<Rightarrow> sequencer option" where
  "SEQ_START_NOTE dump dev chn note vol = us_CHN_VOICE dump dev MIDI_NOTEON chn note vol"

definition SEQ_STOP_NOTE :: "dumper \<Rightarrow> int \<Rightarrow> int \<Rightarrow> int \<Rightarrow> int \<Rightarrow> sequencer \<Rightarrow> sequencer option" where
  "SEQ_STOP_NOTE dump dev chn note vol = us_CHN_VOICE dump dev MIDI_NOTEOFF chn note vol"

definition SEQ_KEY_PRESSURE :: "dumper \<Rightarrow> int \<Rightarrow> int \<Rightarrow> int \<Rightarrow> int \<Rightarrow> sequencer \<Rightarrow> sequencer option" where
  "SEQ_KEY_PRESSURE dump dev chn note pressure = us_CHN_VOICE dump dev MIDI_KEY_PRESSURE chn note pressure"

definition SEQ_CHN_PRESSURE :: "dumper \<Rightarrow> int \<Rightarrow> int \<Rightarrow> int \<Rightarrow> sequencer \<Rightarrow> sequencer option" where
  "SEQ_CHN_PRESSURE dump dev chn pressure = us_CHN_COMMON dump dev MIDI_CHN_PRESSURE chn pressure 0 0"

definition SEQ_PGM_CHANGE :: "dumper \<Rightarrow> int \<Rightarrow> int \<Rightarrow> int \<Rightarrow> sequencer \<Rightarrow> sequencer option" where
  "SEQ_PGM_CHANGE dump dev chn patch = us_CHN_COMMON dump dev MIDI_PGM_CHANGE chn patch 0 0"

definition SEQ_SET_PATCH :: "dumper \<Rightarrow> int \<Rightarrow> int \<Rightarrow> int \<Rightarrow> sequencer \<Rightarrow> sequencer option" where
  "SEQ_SET_PATCH dump dev chn patch = SEQ_PGM_CHANGE dump dev chn patch"

definition SEQ_CONTROL :: "dumper \<Rightarrow> int \<Rightarrow> int \<Rightarrow> int \<Rightarrow> int \<Rightarrow> sequencer \<Rightarrow> sequencer option" where
  "SEQ_CONTROL dump dev chn controller val1 = us_CHN_COMMON dump dev MIDI_CTL_CHANGE chn controller 0 val1"

definition SEQ_BENDER :: "dumper \<Rightarrow> int \<Rightarrow> int \<Rightarrow> int \<Rightarrow> sequencer \<Rightarrow> sequencer option" where
  "SEQ_BENDER dump dev chn val1 = us_CHN_COMMON dump dev MIDI_PITCH_BEND chn 0 0 val1"

definition SEQ_PITCHBEND :: "dumper \<Rightarrow> int \<Rightarrow> int \<Rightarrow> int \<Rightarrow> sequencer \<Rightarrow> sequencer option" where
  "SEQ_PITCHBEND dump dev voice val1 = SEQ_V2_X_CONTROL dump dev voice CTRL_PITCH_BENDER val1"

definition SEQ_BENDER_RANGE :: "dumper \<Rightarrow> int \<Rightarrow> int \<Rightarrow> int \<Rightarrow> sequencer \<Rightarrow> sequencer option" where
  "SEQ_BENDER_RANGE dump dev voice val1 = SEQ_V2_X_CONTROL dump dev voice CTRL_PITCH_BENDER_RANGE val1"

definition SEQ_EXPRESSION :: "dumper \<Rightarrow> int \<Rightarrow> int \<Rightarrow> int \<Rightarrow> sequencer \<Rightarrow> sequencer option" where
  "SEQ_EXPRESSION dump dev voice val1 = SEQ_CONTROL dump dev voice CTL_EXPRESSION (val1 * 128)"

definition SEQ_MAIN_VOLUME :: "dumper \<Rightarrow> int \<Rightarrow> int \<Rightarrow> int \<Rightarrow> sequencer \<Rightarrow> sequencer option" where
  "SEQ_MAIN_VOLUME dump dev voice val1 = SEQ_CONTROL dump dev voice CTL_MAIN_VOLUME ((val1 * 16383) sdiv 100)"

definition SEQ_PANNING :: "dumper \<Rightarrow> int \<Rightarrow> int \<Rightarrow> int \<Rightarrow> sequencer \<Rightarrow> sequencer option" where
  "SEQ_PANNING dump dev voice pos = SEQ_CONTROL dump dev voice CTL_PAN ((pos + 128) sdiv 2)"

definition SEQ_START_TIMER :: "dumper \<Rightarrow> sequencer \<Rightarrow> sequencer option" where
  "SEQ_START_TIMER dump = us_TIMER_EVENT dump TMR_START 0"

definition SEQ_STOP_TIMER :: "dumper \<Rightarrow> sequencer \<Rightarrow> sequencer option" where
  "SEQ_STOP_TIMER dump = us_TIMER_EVENT dump TMR_STOP 0"

definition SEQ_CONTINUE_TIMER :: "dumper \<Rightarrow> sequencer \<Rightarrow> sequencer option" where
  "SEQ_CONTINUE_TIMER dump = us_TIMER_EVENT dump TMR_CONTINUE 0"

definition SEQ_WAIT_TIME :: "dumper \<Rightarrow> int \<Rightarrow> sequencer \<Rightarrow> sequencer option" where
  "SEQ_WAIT_TIME dump ticks = us_TIMER_EVENT dump TMR_WAIT_ABS ticks"

definition SEQ_DELTA_TIME :: "dumper \<Rightarrow> int \<Rightarrow> sequencer \<Rightarrow> sequencer option" where
  "SEQ_DELTA_TIME dump ticks = us_TIMER_EVENT dump TMR_WAIT_REL ticks"

definition SEQ_ECHO_BACK :: "dumper \<Rightarrow> int \<Rightarrow> sequencer \<Rightarrow> sequencer option" where
  "SEQ_ECHO_BACK dump key = us_TIMER_EVENT dump TMR_ECHO key"

definition SEQ_SET_TEMPO :: "dumper \<Rightarrow> int \<Rightarrow> sequencer \<Rightarrow> sequencer option" where
  "SEQ_SET_TEMPO dump val1 = us_TIMER_EVENT dump TMR_TEMPO val1"

definition SEQ_SONGPOS :: "dumper \<Rightarrow> int \<Rightarrow> sequencer \<Rightarrow> sequencer option" where
  "SEQ_SONGPOS dump pos = us_TIMER_EVENT dump TMR_SPP pos"

definition SEQ_TIME_SIGNATURE :: "dumper \<Rightarrow> int \<Rightarrow> sequencer \<Rightarrow> sequencer option" where
  "SEQ_TIME_SIGNATURE dump sig = us_TIMER_EVENT dump TMR_TIMESIG sig"

definition SEQ_PLAYAUDIO :: "dumper \<Rightarrow> int \<Rightarrow> sequencer \<Rightarrow> sequencer option" where
  "SEQ_PLAYAUDIO dump devmask = us_LOCAL_EVENT dump LOCL_STARTAUDIO devmask"

text \<open>Patches go to the device directly, behind the events that are still buffered.\<close>

definition write_device :: "u8 list \<Rightarrow> sequencer \<Rightarrow> sequencer" where
  "write_device vs s = s\<lparr>device := device s @ vs\<rparr>"

definition SEQ_WRPATCH :: "dumper \<Rightarrow> u8 list \<Rightarrow> nat \<Rightarrow> sequencer \<Rightarrow> sequencer" where
  "SEQ_WRPATCH dump patchx len s =
     write_device (take len patchx) (if us_seqbufptr s \<noteq> 0 then SEQ_DUMPBUF dump s else s)"

definition SEQ_WRPATCH2 :: "dumper \<Rightarrow> u8 list \<Rightarrow> nat \<Rightarrow> sequencer \<Rightarrow> sequencer" where
  "SEQ_WRPATCH2 dump patchx len s = write_device (take len patchx) (SEQ_DUMPBUF dump s)"

lemmas seq_macros =
  SEQ_VOLUME_MODE_def us_CHN_VOICE_def us_CHN_COMMON_def SEQ_V2_X_CONTROL_def us_TIMER_EVENT_def us_LOCAL_EVENT_def
  SEQ_MIDIOUT_def SEQ_START_NOTE_def SEQ_STOP_NOTE_def SEQ_KEY_PRESSURE_def SEQ_CHN_PRESSURE_def
  SEQ_PGM_CHANGE_def SEQ_SET_PATCH_def SEQ_CONTROL_def SEQ_BENDER_def
  SEQ_PITCHBEND_def SEQ_BENDER_RANGE_def SEQ_EXPRESSION_def SEQ_MAIN_VOLUME_def
  SEQ_PANNING_def SEQ_START_TIMER_def SEQ_STOP_TIMER_def SEQ_CONTINUE_TIMER_def
  SEQ_WAIT_TIME_def SEQ_DELTA_TIME_def SEQ_ECHO_BACK_def SEQ_SET_TEMPO_def
  SEQ_SONGPOS_def SEQ_TIME_SIGNATURE_def SEQ_PLAYAUDIO_def

section \<open>The stream\<close>

definition seq_ok :: "sequencer \<Rightarrow> bool" where
  "seq_ok s = (length (us_seqbuf s) = us_seqbuflen s \<and> us_seqbufptr s \<le> us_seqbuflen s \<and> 8 \<le> us_seqbuflen s)"

definition stream :: "sequencer \<Rightarrow> u8 list" where
  "stream s = device s @ take (us_seqbufptr s) (us_seqbuf s)"

text \<open>What the header asks of \<open>seqbuf_dump\<close>.\<close>

definition dump_ok :: "dumper \<Rightarrow> bool" where
  "dump_ok dump = (\<forall>s. us_seqbufptr (dump s) = 0 \<and> us_seqbuflen (dump s) = us_seqbuflen s \<and>
     length (us_seqbuf (dump s)) = length (us_seqbuf s) \<and>
     device (dump s) = device s @ take (us_seqbufptr s) (us_seqbuf s))"

definition sample_dump :: dumper where
  "sample_dump s = s\<lparr>us_seqbufptr := 0,
     device := device s @ (if us_seqbufptr s \<noteq> 0 then take (us_seqbufptr s) (us_seqbuf s) else [])\<rparr>"

lemma sample_dump_ok: "dump_ok sample_dump"
  by (simp add: dump_ok_def sample_dump_def)

lemma stores_inside:
  assumes "\<forall>(off, v) \<in> set vs. 0 \<le> off \<and> us_seqbufptr s + nat off < length (us_seqbuf s)"
  shows "\<exists>b. stores vs s = Some (s\<lparr>us_seqbuf := b\<rparr>) \<and> length b = length (us_seqbuf s) \<and>
     b = foldl (\<lambda>b (off, v). b[us_seqbufptr s + nat off := v]) (us_seqbuf s) vs"
  using assms
proof (induction vs arbitrary: s)
  case (Cons ov vs)
  obtain off v where ov: "ov = (off, v)" by fastforce
  have n: "nat (int (us_seqbufptr s) + off) = us_seqbufptr s + nat off"
    using Cons.prems ov by (simp add: nat_add_distrib)
  let ?s = "s\<lparr>us_seqbuf := (us_seqbuf s)[us_seqbufptr s + nat off := v]\<rparr>"
  have "store off v s = Some ?s" using Cons.prems ov n by (auto simp: store_def Let_def)
  moreover have "\<exists>b. stores vs ?s = Some (?s\<lparr>us_seqbuf := b\<rparr>) \<and> length b = length (us_seqbuf ?s) \<and>
      b = foldl (\<lambda>b (off, v). b[us_seqbufptr ?s + nat off := v]) (us_seqbuf ?s) vs"
    using Cons.prems by (intro Cons.IH) auto
  ultimately show ?case using ov by auto
qed simp

text \<open>A row of stores overwrites a stretch of the buffer.\<close>

lemma row_append: "row (vs @ [v]) = row vs @ [(int (length vs), v)]"
  by (simp add: row_def)

lemma foldl_row:
  "p + length vs \<le> length b \<Longrightarrow>
     foldl (\<lambda>b (off, v). b[p + nat off := v]) b (row vs) = take p b @ vs @ drop (p + length vs) b"
proof (induction vs rule: rev_induct)
  case (snoc v vs)
  have d: "drop (p + length vs) b = b ! (p + length vs) # drop (Suc (p + length vs)) b"
    using snoc.prems by (intro Cons_nth_drop_Suc [symmetric]) simp
  then show ?case using snoc by (simp add: row_append list_update_append)
qed (simp add: row_def)

lemma row_inside: "(off, v) \<in> set (row vs) \<Longrightarrow> 0 \<le> off \<and> nat off < length vs"
  by (auto simp: row_def in_set_zip)

lemma stores_row:
  assumes "us_seqbufptr s + length vs \<le> length (us_seqbuf s)"
  shows "stores (row vs) s = Some (s\<lparr>us_seqbuf := take (us_seqbufptr s) (us_seqbuf s) @ vs @
           drop (us_seqbufptr s + length vs) (us_seqbuf s)\<rparr>)"
proof -
  have "\<forall>(off, v) \<in> set (row vs). 0 \<le> off \<and> us_seqbufptr s + nat off < length (us_seqbuf s)"
    using row_inside assms by fastforce
  from stores_inside [OF this] show ?thesis using foldl_row [OF assms] by auto
qed

lemma needbuf_room:
  assumes "seq_ok s" and "dump_ok dump" and "n \<le> 8"
  defines "s1 \<equiv> us_SEQ_NEEDBUF dump n s"
  shows "seq_ok s1" and "us_seqbufptr s1 + n \<le> length (us_seqbuf s1)" and "stream s1 = stream s"
  using assms by (auto simp: us_SEQ_NEEDBUF_def seq_ok_def stream_def dump_ok_def)

text \<open>Storing an event of at most eight bytes succeeds and appends it to the stream.\<close>

lemma event_stream:
  assumes "seq_ok s" and "dump_ok dump" and "length vs \<le> 8"
  shows "\<exists>s'. do { s1 \<leftarrow> stores (row vs) (us_SEQ_NEEDBUF dump (length vs) s); Some (us_SEQ_ADVBUF (length vs) s1) } = Some s' \<and>
     seq_ok s' \<and> stream s' = stream s @ vs"
proof -
  let ?s = "us_SEQ_NEEDBUF dump (length vs) s"
  note room = needbuf_room [OF assms]
  let ?b = "take (us_seqbufptr ?s) (us_seqbuf ?s) @ vs @ drop (us_seqbufptr ?s + length vs) (us_seqbuf ?s)"
  have "stores (row vs) ?s = Some (?s\<lparr>us_seqbuf := ?b\<rparr>)" by (rule stores_row [OF room(2)])
  moreover have "seq_ok (us_SEQ_ADVBUF (length vs) (?s\<lparr>us_seqbuf := ?b\<rparr>))"
    using room(1,2) by (simp add: seq_ok_def us_SEQ_ADVBUF_def)
  moreover have "stream (us_SEQ_ADVBUF (length vs) (?s\<lparr>us_seqbuf := ?b\<rparr>)) = stream ?s @ vs"
    using room(2) by (simp add: stream_def us_SEQ_ADVBUF_def)
  ultimately show ?thesis using room(3) by simp
qed

text \<open>A system exclusive message of up to six bytes, padded.\<close>

definition sysex_bytes :: "int \<Rightarrow> u8 list \<Rightarrow> int \<Rightarrow> u8 list" where
  "sysex_bytes dev buf len =
     (let n = nat (min len 6) in [byte EV_SYSEX, byte dev] @ take n buf @ replicate (6 - n) 0xff)"

lemma sysex_row:
  assumes "0 \<le> ll" and "ll \<le> 6" and "ll \<le> int (length buf)"
  shows "[(0, x), (1, y)] @ map (\<lambda>ii. (ii + 2, buf ! nat ii)) [0 .. ll - 1] @ map (\<lambda>ii. (ii + 2, z)) [ll .. 5] =
     row ([x, y] @ take (nat ll) buf @ replicate (6 - nat ll) z)" (is "?l = row ?vs")
proof -
  obtain n where n: "ll = int n" "n \<le> 6" "n \<le> length buf"
    using assms by (metis zero_le_imp_eq_int of_nat_le_iff of_nat_numeral)
  have t: "take n buf = map ((!) buf) [0 ..< n]" using n by (intro nth_equalityI) auto
  have "n \<in> {0, 1, 2, 3, 4, 5, 6}" using n by auto
  then show ?thesis
    unfolding n(1) nat_int t by (elim insertE emptyE) (simp_all add: row_def upto.simps numeral_eq_Suc upt_rec)
qed

section \<open>Sequences of calls\<close>

datatype seq_call =
    Volume_Mode int int
  | Chn_Voice int int int int int
  | Chn_Common int int int int int int
  | Sysex int "u8 list" int
  | X_Control int int int int
  | Timer_Event int int
  | Local_Event int int
  | Midi_Out int int
  | Write_Patch "u8 list" nat
  | Write_Patch2 "u8 list" nat

fun do_call :: "dumper \<Rightarrow> seq_call \<Rightarrow> sequencer \<Rightarrow> sequencer option" where
  "do_call dump (Volume_Mode dev mode) s = SEQ_VOLUME_MODE dump dev mode s"
| "do_call dump (Chn_Voice dev event chn note parm) s = us_CHN_VOICE dump dev event chn note parm s"
| "do_call dump (Chn_Common dev event chn p1 p2 w14) s = us_CHN_COMMON dump dev event chn p1 p2 w14 s"
| "do_call dump (Sysex dev buf len) s = SEQ_SYSEX dump dev buf len s"
| "do_call dump (X_Control dev voice controller v) s = SEQ_V2_X_CONTROL dump dev voice controller v s"
| "do_call dump (Timer_Event ev parm) s = us_TIMER_EVENT dump ev parm s"
| "do_call dump (Local_Event ev parm) s = us_LOCAL_EVENT dump ev parm s"
| "do_call dump (Midi_Out dev v) s = SEQ_MIDIOUT dump dev v s"
| "do_call dump (Write_Patch vs len) s = Some (SEQ_WRPATCH dump vs len s)"
| "do_call dump (Write_Patch2 vs len) s = Some (SEQ_WRPATCH2 dump vs len s)"

fun do_calls :: "dumper \<Rightarrow> seq_call list \<Rightarrow> sequencer \<Rightarrow> sequencer option" where
  "do_calls dump [] s = Some s"
| "do_calls dump (c # cs) s = do_call dump c s \<bind> do_calls dump cs"

text \<open>The bytes of a call, and when the header allows it.\<close>

fun call_bytes :: "seq_call \<Rightarrow> u8 list" where
  "call_bytes (Volume_Mode dev mode) = [byte SEQ_EXTENDED, byte SEQ_VOLMODE, byte dev, byte mode, 0, 0, 0, 0]"
| "call_bytes (Chn_Voice dev event chn note parm) =
     [byte EV_CHN_VOICE, byte dev, byte event, byte chn, byte note, byte parm, 0, 0]"
| "call_bytes (Chn_Common dev event chn p1 p2 w14) =
     [byte EV_CHN_COMMON, byte dev, byte event, byte chn, byte p1, byte p2] @ short_bytes w14"
| "call_bytes (Sysex dev buf len) = sysex_bytes dev buf len"
| "call_bytes (X_Control dev voice controller v) =
     [byte SEQ_EXTENDED, byte SEQ_CONTROLLER, byte dev, byte voice, byte controller,
      byte (v AND 0xff), byte (drop_bit 8 v AND 0xff), 0]"
| "call_bytes (Timer_Event ev parm) = [byte EV_TIMING, byte ev, 0, 0] @ int_bytes parm"
| "call_bytes (Local_Event ev parm) = [byte EV_SEQ_LOCAL, byte ev, 0, 0] @ int_bytes parm"
| "call_bytes (Midi_Out dev v) = [byte SEQ_MIDIPUTC, byte v, byte dev, 0]"
| "call_bytes (Write_Patch vs len) = take len vs"
| "call_bytes (Write_Patch2 vs len) = take len vs"

fun call_ok :: "seq_call \<Rightarrow> bool" where
  "call_ok (Sysex dev buf len) = (0 \<le> len \<and> min len 6 \<le> int (length buf))"
| "call_ok _ = True"

lemma emit_stream:
  assumes "seq_ok s" and "dump_ok dump" and "length vs \<le> 8"
  shows "\<exists>s'. emit dump vs s = Some s' \<and> seq_ok s' \<and> stream s' = stream s @ vs"
  using event_stream [OF assms] by (simp add: emit_def)

lemma sysex_stream:
  assumes "seq_ok s" and "dump_ok dump" and "0 \<le> len" and "min len 6 \<le> int (length buf)"
  shows "\<exists>s'. SEQ_SYSEX dump dev buf len s = Some s' \<and> seq_ok s' \<and> stream s' = stream s @ sysex_bytes dev buf len"
proof -
  let ?ll = "min len 6" and ?vs = "sysex_bytes dev buf len"
  have ll: "(if len > 6 then 6 else len) = ?ll" by auto
  have len8: "length ?vs = 8" using assms(3,4) by (auto simp: sysex_bytes_def Let_def min_def)
  have r: "[(0, byte EV_SYSEX), (1, byte dev)] @ map (\<lambda>ii. (ii + 2, buf ! nat ii)) [0 .. ?ll - 1] @
      map (\<lambda>ii. (ii + 2, 0xff)) [?ll .. 5] = row ?vs"
    unfolding sysex_bytes_def Let_def using assms(3,4) by (intro sysex_row) auto
  have fits: "(?ll > int (length buf)) = False" using assms(4) by (simp only: not_less [symmetric] simp_thms)
  show ?thesis
    using event_stream [OF assms(1,2), of ?vs] unfolding SEQ_SYSEX_def ll r Let_def len8 fits if_False by simp
qed

lemma patch_stream:
  assumes "seq_ok s" and "dump_ok dump"
  shows "seq_ok (SEQ_WRPATCH dump vs n s) \<and> stream (SEQ_WRPATCH dump vs n s) = stream s @ take n vs"
    and "seq_ok (SEQ_WRPATCH2 dump vs n s) \<and> stream (SEQ_WRPATCH2 dump vs n s) = stream s @ take n vs"
  using assms
  by (auto simp: SEQ_WRPATCH_def SEQ_WRPATCH2_def SEQ_DUMPBUF_def write_device_def seq_ok_def stream_def dump_ok_def)

lemma call_stream:
  assumes "seq_ok s" and "dump_ok dump" and "call_ok c"
  shows "\<exists>s'. do_call dump c s = Some s' \<and> seq_ok s' \<and> stream s' = stream s @ call_bytes c"
  using assms patch_stream [OF assms(1,2)] sysex_stream [OF assms(1,2)]
  by (cases c) (simp_all add: seq_macros emit_stream short_bytes_def int_bytes_def)

text \<open>
  C27. Buffering is invisible: for every sequence of calls the header allows, starting from any fill of
  any buffer of at least eight bytes, no store leaves the buffer, and the bytes that have reached the
  device followed by those in the buffer are the events of the calls, complete and in order, however
  often the buffer had to be dumped in between.
\<close>

theorem sequencer_refines_stream:
  assumes "dump_ok dump" and "seq_ok s" and "list_all call_ok cs"
  shows "\<exists>s'. do_calls dump cs s = Some s' \<and> seq_ok s' \<and> stream s' = stream s @ concat (map call_bytes cs)"
  using assms(2,3)
proof (induction cs arbitrary: s)
  case (Cons c cs)
  obtain s1 where "do_call dump c s = Some s1" "seq_ok s1" "stream s1 = stream s @ call_bytes c"
    using call_stream [OF Cons.prems(1) assms(1), of c] Cons.prems(2) by auto
  then show ?case using Cons.IH [of s1] Cons.prems(2) by auto
qed simp

theorem sequencer_refines_stream_witness:
  "\<exists>s'. do_calls sample_dump [Sysex 1 [0xf0, 0xf7] 2, Midi_Out 3 4, Timer_Event TMR_START 0] (SEQ_DEFINEBUF 12) = Some s' \<and>
     stream s' = [0x94, 1, 0xf0, 0xf7, 0xff, 0xff, 0xff, 0xff, 5, 4, 3, 0, 0x81, 4, 0, 0, 0, 0, 0, 0]"
proof -
  have "seq_ok (SEQ_DEFINEBUF 12)" by (simp add: seq_ok_def SEQ_DEFINEBUF_def)
  moreover have "stream (SEQ_DEFINEBUF 12) @
      concat (map call_bytes [Sysex 1 [0xf0, 0xf7] 2, Midi_Out 3 4, Timer_Event TMR_START 0]) =
      [0x94, 1, 0xf0, 0xf7, 0xff, 0xff, 0xff, 0xff, 5, 4, 3, 0, 0x81, 4, 0, 0, 0, 0, 0, 0]"
    by (simp add: stream_def SEQ_DEFINEBUF_def sysex_bytes_def byte_def int_bytes_def seq_codes numeral_eq_Suc)
  ultimately show ?thesis
    using sequencer_refines_stream [OF sample_dump_ok, of "SEQ_DEFINEBUF 12"
        "[Sysex 1 [0xf0, 0xf7] 2, Midi_Out 3 4, Timer_Event TMR_START 0]"] by auto
qed

end
