(* ===== verification/Obstack.thy ===== *)
theory Obstack
  imports C_Integers
begin

text \<open>
  \<open>obstack.h\<close>: stacks of objects that are built up at the end of a chunk of memory. The header holds the
  fast paths as macros, in one version for GNU C (statement expressions, lengths in an \<open>int\<close>) and one for
  other compilers (comma expressions, lengths in the field \<open>temp\<close>); the slow paths, getting a new chunk and
  freeing across chunks, are library functions and parameters here.

  Addresses are integers and the memory maps them to bytes. The chunks that belong to the stack, newest
  first, are a list of their bounds; in C they are linked through their headers of sixteen bytes. The
  data a macro copies from is given by its bytes.

  The lemmas relate the macros to the object under construction as a list of bytes. An address is
  protected when it lies in an older chunk, or in the current one below the object under
  construction: that is where the finished objects are, and no macro changes a protected byte.
\<close>

section \<open>State\<close>

record obstack =
  chunk_size :: int
  chunk :: int
  object_base :: int
  next_free :: int
  chunk_limit :: int
  temp :: int
  alignment_mask :: int
  maybe_empty_object :: bool
  mem :: "int \<Rightarrow> u8"
  chunks :: "(int \<times> int) list"

type_synonym newchunk = "obstack \<Rightarrow> int \<Rightarrow> obstack"

definition us_BPTR_ALIGN :: "int \<Rightarrow> int \<Rightarrow> int \<Rightarrow> int" where
  "us_BPTR_ALIGN B P A = B + ((P - B + A) AND NOT A)"

text \<open>On hosts where a pointer difference is as wide as a pointer, alignment is relative to zero.\<close>

definition us_PTR_ALIGN :: "bool \<Rightarrow> int \<Rightarrow> int \<Rightarrow> int \<Rightarrow> int" where
  "us_PTR_ALIGN narrow B P A = us_BPTR_ALIGN (if narrow then B else 0) P A"

text \<open>\<open>int __len = (length)\<close> and \<open>(unsigned)\<close> of a pointer difference.\<close>

definition c_int :: "int \<Rightarrow> int" where
  "c_int v = signed_take_bit 31 v"

definition c_unsigned :: "int \<Rightarrow> int" where
  "c_unsigned v = take_bit 32 v"

fun write_bytes :: "int \<Rightarrow> u8 list \<Rightarrow> (int \<Rightarrow> u8) \<Rightarrow> (int \<Rightarrow> u8)" where
  "write_bytes a [] m = m"
| "write_bytes a (v # vs) m = write_bytes (a + 1) vs (m(a := v))"

definition read_bytes :: "int \<Rightarrow> nat \<Rightarrow> (int \<Rightarrow> u8) \<Rightarrow> u8 list" where
  "read_bytes a n m = map (\<lambda>i. m (a + int i)) [0 ..< n]"

text \<open>Sixty-four bit pointers and thirty-two bit integers on a little-endian host.\<close>

definition word_bytes :: "nat \<Rightarrow> int \<Rightarrow> u8 list" where
  "word_bytes n v = map (\<lambda>i. word_of_int (drop_bit (8 * i) v)) [0 ..< n]"

section \<open>Accessors and unchecked growth\<close>

definition obstack_base :: "obstack \<Rightarrow> int" where
  "obstack_base h = object_base h"

definition obstack_chunk_size :: "obstack \<Rightarrow> int" where
  "obstack_chunk_size h = chunk_size h"

definition obstack_next_free :: "obstack \<Rightarrow> int" where
  "obstack_next_free h = next_free h"

definition obstack_alignment_mask :: "obstack \<Rightarrow> int" where
  "obstack_alignment_mask h = alignment_mask h"

definition obstack_1grow_fast :: "obstack \<Rightarrow> u8 \<Rightarrow> obstack" where
  "obstack_1grow_fast h achar = h\<lparr>mem := (mem h)(next_free h := achar), next_free := next_free h + 1\<rparr>"

definition obstack_blank_fast :: "obstack \<Rightarrow> int \<Rightarrow> obstack" where
  "obstack_blank_fast h n = h\<lparr>next_free := next_free h + n\<rparr>"

definition copy_in :: "obstack \<Rightarrow> u8 list \<Rightarrow> int \<Rightarrow> obstack" where
  "copy_in h data len =
     h\<lparr>mem := write_bytes (next_free h) (take (nat len) data) (mem h), next_free := next_free h + len\<rparr>"

section \<open>The macros for GNU C\<close>

definition obstack_object_size :: "obstack \<Rightarrow> int" where
  "obstack_object_size h = c_unsigned (next_free h - object_base h)"

definition obstack_room :: "obstack \<Rightarrow> int" where
  "obstack_room h = c_unsigned (chunk_limit h - next_free h)"

definition obstack_make_room :: "newchunk \<Rightarrow> obstack \<Rightarrow> int \<Rightarrow> obstack" where
  "obstack_make_room us_obstack_newchunk h length1 =
     (let len = c_int length1
      in if chunk_limit h - next_free h < len then us_obstack_newchunk h len else h)"

definition obstack_empty_p :: "bool \<Rightarrow> obstack \<Rightarrow> bool" where
  "obstack_empty_p narrow h =
     (tl (chunks h) = [] \<and> next_free h = us_PTR_ALIGN narrow (chunk h) (chunk h + 16) (alignment_mask h))"

definition obstack_grow :: "newchunk \<Rightarrow> obstack \<Rightarrow> u8 list \<Rightarrow> int \<Rightarrow> obstack" where
  "obstack_grow us_obstack_newchunk h data length1 =
     (let len = c_int length1;
          h1 = (if next_free h + len > chunk_limit h then us_obstack_newchunk h len else h)
      in copy_in h1 data len)"

definition obstack_grow0 :: "newchunk \<Rightarrow> obstack \<Rightarrow> u8 list \<Rightarrow> int \<Rightarrow> obstack" where
  "obstack_grow0 us_obstack_newchunk h data length1 =
     (let len = c_int length1;
          h1 = (if next_free h + len + 1 > chunk_limit h then us_obstack_newchunk h (len + 1) else h)
      in obstack_1grow_fast (copy_in h1 data len) 0)"

definition obstack_1grow :: "newchunk \<Rightarrow> obstack \<Rightarrow> u8 \<Rightarrow> obstack" where
  "obstack_1grow us_obstack_newchunk h datum =
     (let h1 = (if next_free h + 1 > chunk_limit h then us_obstack_newchunk h 1 else h)
      in obstack_1grow_fast h1 datum)"

definition obstack_ptr_grow_fast :: "obstack \<Rightarrow> int \<Rightarrow> obstack" where
  "obstack_ptr_grow_fast h aptr =
     h\<lparr>mem := write_bytes (next_free h) (word_bytes 8 aptr) (mem h), next_free := next_free h + 8\<rparr>"

definition obstack_int_grow_fast :: "obstack \<Rightarrow> int \<Rightarrow> obstack" where
  "obstack_int_grow_fast h aint =
     h\<lparr>mem := write_bytes (next_free h) (word_bytes 4 aint) (mem h), next_free := next_free h + 4\<rparr>"

definition obstack_ptr_grow :: "newchunk \<Rightarrow> obstack \<Rightarrow> int \<Rightarrow> obstack" where
  "obstack_ptr_grow us_obstack_newchunk h datum =
     (let h1 = (if next_free h + 8 > chunk_limit h then us_obstack_newchunk h 8 else h)
      in obstack_ptr_grow_fast h1 datum)"

definition obstack_int_grow :: "newchunk \<Rightarrow> obstack \<Rightarrow> int \<Rightarrow> obstack" where
  "obstack_int_grow us_obstack_newchunk h datum =
     (let h1 = (if next_free h + 4 > chunk_limit h then us_obstack_newchunk h 4 else h)
      in obstack_int_grow_fast h1 datum)"

definition obstack_blank :: "newchunk \<Rightarrow> obstack \<Rightarrow> int \<Rightarrow> obstack" where
  "obstack_blank us_obstack_newchunk h length1 =
     (let len = c_int length1;
          h1 = (if chunk_limit h - next_free h < len then us_obstack_newchunk h len else h)
      in obstack_blank_fast h1 len)"

definition obstack_finish :: "bool \<Rightarrow> obstack \<Rightarrow> int \<times> obstack" where
  "obstack_finish narrow h =
     (let v = object_base h;
          h1 = (if next_free h = v then h\<lparr>maybe_empty_object := True\<rparr> else h);
          h2 = h1\<lparr>next_free := us_PTR_ALIGN narrow (object_base h1) (next_free h1) (alignment_mask h1)\<rparr>;
          h3 = (if next_free h2 - chunk h2 > chunk_limit h2 - chunk h2 then h2\<lparr>next_free := chunk_limit h2\<rparr> else h2)
      in (v, h3\<lparr>object_base := next_free h3\<rparr>))"

definition obstack_alloc :: "bool \<Rightarrow> newchunk \<Rightarrow> obstack \<Rightarrow> int \<Rightarrow> int \<times> obstack" where
  "obstack_alloc narrow us_obstack_newchunk h length1 = obstack_finish narrow (obstack_blank us_obstack_newchunk h length1)"

definition obstack_copy :: "bool \<Rightarrow> newchunk \<Rightarrow> obstack \<Rightarrow> u8 list \<Rightarrow> int \<Rightarrow> int \<times> obstack" where
  "obstack_copy narrow us_obstack_newchunk h data length1 =
     obstack_finish narrow (obstack_grow us_obstack_newchunk h data length1)"

definition obstack_copy0 :: "bool \<Rightarrow> newchunk \<Rightarrow> obstack \<Rightarrow> u8 list \<Rightarrow> int \<Rightarrow> int \<times> obstack" where
  "obstack_copy0 narrow us_obstack_newchunk h data length1 =
     obstack_finish narrow (obstack_grow0 us_obstack_newchunk h data length1)"

definition obstack_free :: "(obstack \<Rightarrow> int \<Rightarrow> obstack) \<Rightarrow> obstack \<Rightarrow> int \<Rightarrow> obstack" where
  "obstack_free us_obstack_free h obj =
     (if obj > chunk h \<and> obj < chunk_limit h then h\<lparr>next_free := obj, object_base := obj\<rparr>
      else us_obstack_free h obj)"

section \<open>The macros for other compilers\<close>

definition trad_obstack_object_size :: "obstack \<Rightarrow> int" where
  "trad_obstack_object_size h = c_unsigned (next_free h - object_base h)"

definition trad_obstack_room :: "obstack \<Rightarrow> int" where
  "trad_obstack_room h = c_unsigned (chunk_limit h - next_free h)"

definition trad_obstack_empty_p :: "bool \<Rightarrow> obstack \<Rightarrow> bool" where
  "trad_obstack_empty_p narrow h =
     (tl (chunks h) = [] \<and> next_free h = us_PTR_ALIGN narrow (chunk h) (chunk h + 16) (alignment_mask h))"

definition trad_obstack_make_room :: "newchunk \<Rightarrow> obstack \<Rightarrow> int \<Rightarrow> obstack" where
  "trad_obstack_make_room us_obstack_newchunk h length1 =
     (let h1 = h\<lparr>temp := length1\<rparr>
      in if next_free h1 + temp h1 > chunk_limit h1 then us_obstack_newchunk h1 (temp h1) else h1)"

definition trad_obstack_grow :: "newchunk \<Rightarrow> obstack \<Rightarrow> u8 list \<Rightarrow> int \<Rightarrow> obstack" where
  "trad_obstack_grow us_obstack_newchunk h data length1 =
     (let h1 = h\<lparr>temp := length1\<rparr>;
          h2 = (if next_free h1 + temp h1 > chunk_limit h1 then us_obstack_newchunk h1 (temp h1) else h1)
      in copy_in h2 data (temp h2))"

definition trad_obstack_grow0 :: "newchunk \<Rightarrow> obstack \<Rightarrow> u8 list \<Rightarrow> int \<Rightarrow> obstack" where
  "trad_obstack_grow0 us_obstack_newchunk h data length1 =
     (let h1 = h\<lparr>temp := length1\<rparr>;
          h2 = (if next_free h1 + temp h1 + 1 > chunk_limit h1 then us_obstack_newchunk h1 (temp h1 + 1) else h1)
      in obstack_1grow_fast (copy_in h2 data (temp h2)) 0)"

definition trad_obstack_1grow :: "newchunk \<Rightarrow> obstack \<Rightarrow> u8 \<Rightarrow> obstack" where
  "trad_obstack_1grow us_obstack_newchunk h datum =
     (let h1 = (if next_free h + 1 > chunk_limit h then us_obstack_newchunk h 1 else h)
      in obstack_1grow_fast h1 datum)"

definition trad_obstack_ptr_grow_fast :: "obstack \<Rightarrow> int \<Rightarrow> obstack" where
  "trad_obstack_ptr_grow_fast h aptr =
     (let h1 = h\<lparr>next_free := next_free h + 8\<rparr>
      in h1\<lparr>mem := write_bytes (next_free h1 - 8) (word_bytes 8 aptr) (mem h1)\<rparr>)"

definition trad_obstack_int_grow_fast :: "obstack \<Rightarrow> int \<Rightarrow> obstack" where
  "trad_obstack_int_grow_fast h aint =
     (let h1 = h\<lparr>next_free := next_free h + 4\<rparr>
      in h1\<lparr>mem := write_bytes (next_free h1 - 4) (word_bytes 4 aint) (mem h1)\<rparr>)"

definition trad_obstack_ptr_grow :: "newchunk \<Rightarrow> obstack \<Rightarrow> int \<Rightarrow> obstack" where
  "trad_obstack_ptr_grow us_obstack_newchunk h datum =
     (let h1 = (if next_free h + 8 > chunk_limit h then us_obstack_newchunk h 8 else h)
      in trad_obstack_ptr_grow_fast h1 datum)"

definition trad_obstack_int_grow :: "newchunk \<Rightarrow> obstack \<Rightarrow> int \<Rightarrow> obstack" where
  "trad_obstack_int_grow us_obstack_newchunk h datum =
     (let h1 = (if next_free h + 4 > chunk_limit h then us_obstack_newchunk h 4 else h)
      in trad_obstack_int_grow_fast h1 datum)"

definition trad_obstack_blank :: "newchunk \<Rightarrow> obstack \<Rightarrow> int \<Rightarrow> obstack" where
  "trad_obstack_blank us_obstack_newchunk h length1 =
     (let h1 = h\<lparr>temp := length1\<rparr>;
          h2 = (if chunk_limit h1 - next_free h1 < temp h1 then us_obstack_newchunk h1 (temp h1) else h1)
      in obstack_blank_fast h2 (temp h2))"

definition trad_obstack_finish :: "bool \<Rightarrow> obstack \<Rightarrow> int \<times> obstack" where
  "trad_obstack_finish narrow h =
     (let h1 = (if next_free h = object_base h then h\<lparr>maybe_empty_object := True\<rparr> else h);
          h2 = h1\<lparr>temp := object_base h1\<rparr>;
          h3 = h2\<lparr>next_free := us_PTR_ALIGN narrow (object_base h2) (next_free h2) (alignment_mask h2)\<rparr>;
          h4 = (if next_free h3 - chunk h3 > chunk_limit h3 - chunk h3 then h3\<lparr>next_free := chunk_limit h3\<rparr> else h3);
          h5 = h4\<lparr>object_base := next_free h4\<rparr>
      in (temp h5, h5))"

definition trad_obstack_alloc :: "bool \<Rightarrow> newchunk \<Rightarrow> obstack \<Rightarrow> int \<Rightarrow> int \<times> obstack" where
  "trad_obstack_alloc narrow us_obstack_newchunk h length1 =
     trad_obstack_finish narrow (trad_obstack_blank us_obstack_newchunk h length1)"

definition trad_obstack_copy :: "bool \<Rightarrow> newchunk \<Rightarrow> obstack \<Rightarrow> u8 list \<Rightarrow> int \<Rightarrow> int \<times> obstack" where
  "trad_obstack_copy narrow us_obstack_newchunk h data length1 =
     trad_obstack_finish narrow (trad_obstack_grow us_obstack_newchunk h data length1)"

definition trad_obstack_copy0 :: "bool \<Rightarrow> newchunk \<Rightarrow> obstack \<Rightarrow> u8 list \<Rightarrow> int \<Rightarrow> int \<times> obstack" where
  "trad_obstack_copy0 narrow us_obstack_newchunk h data length1 =
     trad_obstack_finish narrow (trad_obstack_grow0 us_obstack_newchunk h data length1)"

definition trad_obstack_free :: "(obstack \<Rightarrow> int \<Rightarrow> obstack) \<Rightarrow> obstack \<Rightarrow> int \<Rightarrow> obstack" where
  "trad_obstack_free us_obstack_free h obj =
     (let h1 = h\<lparr>temp := obj - chunk h\<rparr>
      in if temp h1 > 0 \<and> temp h1 < chunk_limit h1 - chunk h1
         then h1\<lparr>next_free := temp h1 + chunk h1, object_base := temp h1 + chunk h1\<rparr>
         else us_obstack_free h1 (temp h1 + chunk h1))"

section \<open>Alignment\<close>

lemma and_not_mask: "(a :: int) AND NOT (mask k) = a - a mod 2 ^ k"
proof -
  have "a AND NOT (mask k) = push_bit k (drop_bit k a)"
    by (rule bit_eqI) (auto simp: bit_simps)
  also have "\<dots> = a - take_bit k a" using bits_ident [of k a] by simp
  finally show ?thesis by (simp add: take_bit_eq_mod)
qed

text \<open>Rounding up to the next multiple of a power of two, counted from the base.\<close>

lemma BPTR_ALIGN_bounds:
  assumes "A = 2 ^ k - 1"
  shows "P \<le> us_BPTR_ALIGN B P A" and "us_BPTR_ALIGN B P A < P + 2 ^ k"
    and "(us_BPTR_ALIGN B P A - B) mod 2 ^ k = 0"
proof -
  define x where "x = P - B + A"
  have e: "us_BPTR_ALIGN B P A = B + (x - x mod 2 ^ k)"
    using and_not_mask [of x k] assms by (simp add: us_BPTR_ALIGN_def mask_eq_exp_minus_1 x_def)
  have m: "0 \<le> x mod 2 ^ k" "x mod 2 ^ k < 2 ^ k" by simp_all
  show "P \<le> us_BPTR_ALIGN B P A" "us_BPTR_ALIGN B P A < P + 2 ^ k"
    using e m assms unfolding x_def by linarith+
  show "(us_BPTR_ALIGN B P A - B) mod 2 ^ k = 0" by (simp add: e minus_mod_eq_mult_div)
qed

section \<open>Memory\<close>

lemma write_bytes_apply:
  "write_bytes a vs m x = (if a \<le> x \<and> x < a + int (length vs) then vs ! nat (x - a) else m x)"
proof (induction vs arbitrary: a m x)
  case (Cons v vs)
  have "nat (x - a) = Suc (nat (x - (a + 1)))" if "a + 1 \<le> x" using that by simp
  then show ?case by (cases "x = a") (simp_all add: Cons.IH)
qed auto

lemma length_read_bytes [simp]: "length (read_bytes a n m) = n"
  by (simp add: read_bytes_def)

lemma read_bytes_cong: "(\<And>x. a \<le> x \<Longrightarrow> x < a + int n \<Longrightarrow> m x = m' x) \<Longrightarrow> read_bytes a n m = read_bytes a n m'"
  by (simp add: read_bytes_def)

lemma read_bytes_append: "read_bytes a (n + k) m = read_bytes a n m @ read_bytes (a + int n) k m"
proof -
  have "[0 ..< n + k] = [0 ..< n] @ [n ..< n + k]" by (rule upt_add_eq_append) simp
  moreover have "[n ..< n + k] = map (\<lambda>i. i + n) [0 ..< k]" by (simp add: map_add_upt add.commute)
  ultimately show ?thesis by (simp add: read_bytes_def comp_def add.assoc add.commute [of "int n"])
qed

lemma read_write_bytes: "read_bytes a (length vs) (write_bytes a vs m) = vs"
  by (rule nth_equalityI) (auto simp: read_bytes_def write_bytes_apply)

section \<open>The object under construction\<close>

definition obstack_ok :: "obstack \<Rightarrow> bool" where
  "obstack_ok h =
     (chunk h + 16 \<le> object_base h \<and> object_base h \<le> next_free h \<and> next_free h \<le> chunk_limit h \<and>
      (\<exists>k. alignment_mask h = 2 ^ k - 1) \<and>
      (\<exists>rest. chunks h = (chunk h, chunk_limit h) # rest \<and>
         (\<forall>(c, l) \<in> set rest. l \<le> chunk h \<or> chunk_limit h \<le> c)))"

definition object :: "obstack \<Rightarrow> u8 list" where
  "object h = read_bytes (object_base h) (nat (next_free h - object_base h)) (mem h)"

definition protected :: "obstack \<Rightarrow> int \<Rightarrow> bool" where
  "protected h a =
     ((\<exists>(c, l) \<in> set (tl (chunks h)). c \<le> a \<and> a < l) \<or> chunk h + 16 \<le> a \<and> a < object_base h)"

definition keeps :: "obstack \<Rightarrow> obstack \<Rightarrow> bool" where
  "keeps h h' = (\<forall>a. protected h a \<longrightarrow> protected h' a \<and> mem h' a = mem h a)"

definition extends :: "obstack \<Rightarrow> u8 list \<Rightarrow> obstack \<Rightarrow> bool" where
  "extends h vs h' = (obstack_ok h' \<and> object h' = object h @ vs \<and> keeps h h' \<and> alignment_mask h' = alignment_mask h)"

text \<open>
  What is relied on of \<open>_obstack_newchunk\<close>: it moves the object under construction to a chunk with the
  requested room and disturbs no finished object.
\<close>

definition newchunk_ok :: "newchunk \<Rightarrow> bool" where
  "newchunk_ok nc =
     (\<forall>h n. obstack_ok h \<and> 0 \<le> n \<longrightarrow>
        extends h [] (nc h n) \<and> next_free (nc h n) + n \<le> chunk_limit (nc h n) \<and>
        (\<forall>t. nc (h\<lparr>temp := t\<rparr>) n = (nc h n)\<lparr>temp := t\<rparr>))"

lemma keeps_refl [simp]: "keeps h h"
  by (simp add: keeps_def)

lemma keeps_trans: "keeps h h1 \<Longrightarrow> keeps h1 h2 \<Longrightarrow> keeps h h2"
  by (simp add: keeps_def)

lemma extends_refl: "obstack_ok h \<Longrightarrow> extends h [] h"
  by (simp add: extends_def)

lemma extends_trans: "extends h vs h1 \<Longrightarrow> extends h1 ws h2 \<Longrightarrow> extends h (vs @ ws) h2"
  by (auto simp: extends_def intro: keeps_trans)

lemma protected_outside:
  assumes "obstack_ok h" and "protected h a"
  shows "a < object_base h \<or> chunk_limit h \<le> a"
proof -
  obtain rest where "chunks h = (chunk h, chunk_limit h) # rest"
    and "\<forall>(c, l) \<in> set rest. l \<le> chunk h \<or> chunk_limit h \<le> c"
    using assms(1) by (auto simp: obstack_ok_def)
  then show ?thesis using assms by (fastforce simp: obstack_ok_def protected_def)
qed

text \<open>Writing behind the object, inside the chunk.\<close>

lemma extends_write:
  assumes "obstack_ok h" and "next_free h + int (length vs) \<le> chunk_limit h"
  shows "extends h vs (h\<lparr>mem := write_bytes (next_free h) vs (mem h), next_free := next_free h + int (length vs)\<rparr>)"
    (is "extends h vs ?h")
proof -
  let ?n = "nat (next_free h - object_base h)"
  have order: "object_base h \<le> next_free h" using assms(1) by (simp add: obstack_ok_def)
  have "read_bytes (object_base h) ?n (mem ?h) = read_bytes (object_base h) ?n (mem h)"
    using order by (intro read_bytes_cong) (simp add: write_bytes_apply)
  moreover have "nat (next_free ?h - object_base ?h) = ?n + length vs" using order by simp
  moreover have "object_base h + int ?n = next_free h" using order by simp
  ultimately have "object ?h = object h @ vs"
    by (simp add: object_def read_bytes_append read_write_bytes)
  moreover have "obstack_ok ?h" using assms by (simp add: obstack_ok_def)
  moreover have "keeps h ?h"
    using protected_outside [OF assms(1)] assms(2) order
    by (fastforce simp: keeps_def write_bytes_apply protected_def)
  ultimately show ?thesis by (simp add: extends_def)
qed

lemma room_then_write:
  assumes "obstack_ok h" and "newchunk_ok nc" and "need = int (length vs)"
  defines "h1 \<equiv> if next_free h + need > chunk_limit h then nc h need else h"
  shows "extends h vs (h1\<lparr>mem := write_bytes (next_free h1) vs (mem h1), next_free := next_free h1 + need\<rparr>)"
proof -
  have e: "extends h [] h1" and r: "next_free h1 + need \<le> chunk_limit h1"
    using assms(1,2) unfolding h1_def by (auto simp: newchunk_ok_def assms(3) extends_refl)
  have "obstack_ok h1" using e by (simp add: extends_def)
  from extends_trans [OF e extends_write [OF this]] show ?thesis using r by (simp add: assms(3))
qed

lemma c_int_id: "0 \<le> n \<Longrightarrow> n < 2 ^ 31 \<Longrightarrow> c_int n = n"
  by (simp add: c_int_def signed_take_bit_int_eq_self)

lemma write_bytes_snoc: "write_bytes a (vs @ [v]) m = (write_bytes a vs m)(a + int (length vs) := v)"
  by (rule ext) (auto simp: write_bytes_apply nth_append)

section \<open>Growth and finishing\<close>

lemma obstack_grow_extends:
  assumes "obstack_ok h" and "newchunk_ok nc" and "length data < 2 ^ 31"
  shows "extends h data (obstack_grow nc h data (int (length data)))"
proof -
  have "c_int (int (length data)) = int (length data)" using assms(3) by (intro c_int_id) simp_all
  then show ?thesis
    using room_then_write [OF assms(1,2), of "int (length data)" data]
    by (simp add: obstack_grow_def copy_in_def Let_def)
qed

lemma obstack_grow0_extends:
  assumes "obstack_ok h" and "newchunk_ok nc" and "length data < 2 ^ 31"
  shows "extends h (data @ [0]) (obstack_grow0 nc h data (int (length data)))"
proof -
  have "c_int (int (length data)) = int (length data)" using assms(3) by (intro c_int_id) simp_all
  then show ?thesis
    using room_then_write [OF assms(1,2), of "int (length data) + 1" "data @ [0]"]
    by (simp add: obstack_grow0_def copy_in_def obstack_1grow_fast_def Let_def write_bytes_snoc add.assoc)
qed

lemma length_word_bytes [simp]: "length (word_bytes n v) = n"
  by (simp add: word_bytes_def)

lemma obstack_datum_extends:
  assumes "obstack_ok h" and "newchunk_ok nc"
  shows "extends h [c] (obstack_1grow nc h c)"
    and "extends h (word_bytes 8 p) (obstack_ptr_grow nc h p)"
    and "extends h (word_bytes 4 i) (obstack_int_grow nc h i)"
  using room_then_write [OF assms, of 1 "[c]"] room_then_write [OF assms, of 8 "word_bytes 8 p"]
    room_then_write [OF assms, of 4 "word_bytes 4 i"]
  by (simp_all add: obstack_1grow_def obstack_1grow_fast_def obstack_ptr_grow_def obstack_ptr_grow_fast_def
      obstack_int_grow_def obstack_int_grow_fast_def Let_def)

lemma obstack_blank_extends:
  assumes "obstack_ok h" and "newchunk_ok nc" and "n < 2 ^ 31"
  shows "\<exists>vs. length vs = n \<and> extends h vs (obstack_blank nc h (int n))"
proof -
  have n: "c_int (int n) = int n" using assms(3) by (intro c_int_id) simp_all
  define h1 where "h1 = (if chunk_limit h - next_free h < int n then nc h (int n) else h)"
  have e: "extends h [] h1" and r: "next_free h1 + int n \<le> chunk_limit h1"
    using assms(1,2) unfolding h1_def by (auto simp: newchunk_ok_def extends_refl)
  define vs where "vs = read_bytes (next_free h1) n (mem h1)"
  have "write_bytes (next_free h1) vs (mem h1) = mem h1"
    by (rule ext) (auto simp: write_bytes_apply vs_def read_bytes_def)
  moreover have "extends h1 vs (h1\<lparr>mem := write_bytes (next_free h1) vs (mem h1), next_free := next_free h1 + int (length vs)\<rparr>)"
    using e r by (intro extends_write) (simp_all add: extends_def vs_def)
  ultimately have "extends h1 vs (h1\<lparr>next_free := next_free h1 + int n\<rparr>)" by (simp add: vs_def)
  from extends_trans [OF e this] show ?thesis
    by (intro exI [of _ vs]) (simp add: vs_def obstack_blank_def n obstack_blank_fast_def h1_def Let_def)
qed

text \<open>Finishing: the object becomes protected, and the next one starts behind it.\<close>

definition finished :: "obstack \<Rightarrow> int \<Rightarrow> u8 list \<Rightarrow> bool" where
  "finished h v vs = (read_bytes v (length vs) (mem h) = vs \<and> (\<forall>i < length vs. protected h (v + int i)))"

lemma finished_keeps: "finished h v vs \<Longrightarrow> keeps h h' \<Longrightarrow> finished h' v vs"
proof -
  assume f: "finished h v vs" and k: "keeps h h'"
  have "mem h' (v + int i) = mem h (v + int i) \<and> protected h' (v + int i)" if "i < length vs" for i
    using f k that by (simp add: finished_def keeps_def)
  then have "read_bytes v (length vs) (mem h') = read_bytes v (length vs) (mem h)"
    "\<forall>i < length vs. protected h' (v + int i)"
    by (simp_all add: read_bytes_def)
  then show ?thesis using f by (simp add: finished_def)
qed

lemma obstack_finish_finished:
  assumes "obstack_ok h" and "obstack_finish narrow h = (v, h')"
  shows "v = object_base h" and "obstack_ok h'" and "object h' = []" and "keeps h h'"
    and "finished h' v (object h)" and "alignment_mask h' = alignment_mask h"
    and "object_base h' = chunk_limit h' \<or>
         (object_base h' - (if narrow then object_base h else 0)) mod (alignment_mask h + 1) = 0"
proof -
  obtain k where k: "alignment_mask h = 2 ^ k - 1" using assms(1) by (auto simp: obstack_ok_def)
  define p where "p = us_PTR_ALIGN narrow (object_base h) (next_free h) (alignment_mask h)"
  define q where "q = (if p > chunk_limit h then chunk_limit h else p)"
  have p: "next_free h \<le> p" "(p - (if narrow then object_base h else 0)) mod 2 ^ k = 0"
    using BPTR_ALIGN_bounds [OF k] unfolding p_def us_PTR_ALIGN_def by auto
  have order: "chunk h + 16 \<le> object_base h" "object_base h \<le> next_free h" "next_free h \<le> chunk_limit h"
    using assms(1) by (simp_all add: obstack_ok_def)
  have q: "next_free h \<le> q" "q \<le> chunk_limit h" using p order by (auto simp: q_def)
  have h': "v = object_base h" "h' = (if next_free h = v then h\<lparr>maybe_empty_object := True\<rparr> else h)\<lparr>next_free := q, object_base := q\<rparr>"
    using assms(2) by (auto simp: obstack_finish_def Let_def p_def q_def)
  have fields: "mem h' = mem h" "chunk h' = chunk h" "chunks h' = chunks h" "chunk_limit h' = chunk_limit h"
    "next_free h' = q" "object_base h' = q" "alignment_mask h' = alignment_mask h"
    by (simp_all add: h')
  show "v = object_base h" by (rule h')
  show "alignment_mask h' = alignment_mask h" by (rule fields)
  show "obstack_ok h'" using assms(1) q order by (auto simp: obstack_ok_def fields)
  show "object h' = []" by (simp add: object_def fields read_bytes_def)
  show "keeps h h'" using q order by (auto simp: keeps_def protected_def fields)
  show "finished h' v (object h)"
    using q order by (auto simp: finished_def object_def fields h'(1) protected_def)
  show "object_base h' = chunk_limit h' \<or>
      (object_base h' - (if narrow then object_base h else 0)) mod (alignment_mask h + 1) = 0"
    using p(2) by (simp add: fields q_def k)
qed

section \<open>Building objects\<close>

datatype piece = Bytes "u8 list" | Bytes0 "u8 list" | Char u8 | Pointer int | Integer int

fun add_piece :: "newchunk \<Rightarrow> obstack \<Rightarrow> piece \<Rightarrow> obstack" where
  "add_piece nc h (Bytes data) = obstack_grow nc h data (int (length data))"
| "add_piece nc h (Bytes0 data) = obstack_grow0 nc h data (int (length data))"
| "add_piece nc h (Char c) = obstack_1grow nc h c"
| "add_piece nc h (Pointer p) = obstack_ptr_grow nc h p"
| "add_piece nc h (Integer i) = obstack_int_grow nc h i"

fun piece_bytes :: "piece \<Rightarrow> u8 list" where
  "piece_bytes (Bytes data) = data"
| "piece_bytes (Bytes0 data) = data @ [0]"
| "piece_bytes (Char c) = [c]"
| "piece_bytes (Pointer p) = word_bytes 8 p"
| "piece_bytes (Integer i) = word_bytes 4 i"

definition piece_ok :: "piece \<Rightarrow> bool" where
  "piece_ok p = (length (piece_bytes p) < 2 ^ 31)"

fun build_objects :: "bool \<Rightarrow> newchunk \<Rightarrow> piece list list \<Rightarrow> obstack \<Rightarrow> int list \<times> obstack" where
  "build_objects narrow nc [] h = ([], h)"
| "build_objects narrow nc (ps # objs) h =
     (let (v, h1) = obstack_finish narrow (foldl (add_piece nc) h ps);
          (vs, h2) = build_objects narrow nc objs h1
      in (v # vs, h2))"

lemma add_piece_extends:
  "obstack_ok h \<Longrightarrow> newchunk_ok nc \<Longrightarrow> piece_ok p \<Longrightarrow> extends h (piece_bytes p) (add_piece nc h p)"
  by (cases p) (auto simp: piece_ok_def obstack_grow_extends obstack_grow0_extends obstack_datum_extends)

lemma add_pieces_extends:
  assumes "newchunk_ok nc" and "list_all piece_ok ps" and "obstack_ok h"
  shows "extends h (concat (map piece_bytes ps)) (foldl (add_piece nc) h ps)"
  using assms(2,3)
proof (induction ps arbitrary: h)
  case (Cons p ps)
  have e: "extends h (piece_bytes p) (add_piece nc h p)"
    using Cons.prems assms(1) by (simp add: add_piece_extends)
  moreover have "obstack_ok (add_piece nc h p)" using e by (simp add: extends_def)
  ultimately show ?case using extends_trans [OF e Cons.IH] Cons.prems by simp
qed (simp add: extends_refl)

lemma build_objects_finished:
  assumes "newchunk_ok nc" and "list_all (list_all piece_ok) objs"
    and "obstack_ok h" and "object h = []" and "build_objects narrow nc objs h = (vs, h')"
  shows "obstack_ok h' \<and> object h' = [] \<and> keeps h h' \<and>
     list_all2 (\<lambda>v ps. finished h' v (concat (map piece_bytes ps))) vs objs"
  using assms(2-)
proof (induction objs arbitrary: h vs)
  case (Cons ps objs)
  let ?h = "foldl (add_piece nc) h ps"
  have e: "extends h (concat (map piece_bytes ps)) ?h"
    using add_pieces_extends [OF assms(1)] Cons.prems by simp
  obtain v h1 where f: "obstack_finish narrow ?h = (v, h1)" by fastforce
  obtain ws where b: "build_objects narrow nc objs h1 = (ws, h')" "vs = v # ws"
    using Cons.prems(4) f by (auto split: prod.splits)
  have "obstack_ok ?h" using e by (simp add: extends_def)
  note fin = obstack_finish_finished [OF this f]
  have ih: "obstack_ok h' \<and> object h' = [] \<and> keeps h1 h' \<and>
      list_all2 (\<lambda>v ps. finished h' v (concat (map piece_bytes ps))) ws objs"
    using Cons.IH [OF _ fin(2,3) b(1)] Cons.prems(1) by simp
  have "object ?h = concat (map piece_bytes ps)" using e Cons.prems(3) by (simp add: extends_def)
  then have "finished h' v (concat (map piece_bytes ps))" using finished_keeps [OF fin(5)] ih by simp
  moreover have "keeps h h'" using e fin(4) ih keeps_trans by (metis extends_def)
  ultimately show ?case using ih b(2) by simp
qed auto


text \<open>
  The two versions of the macros compute the same: for lengths an \<open>int\<close> can hold, every macro for
  other compilers leaves the state of the one for GNU C, apart from the field \<open>temp\<close> it uses.
\<close>

theorem obstack_versions_agree:
  assumes "newchunk_ok nc" and "obstack_ok h" and "0 \<le> len" and "len < 2 ^ 31"
  shows "trad_obstack_make_room nc h len = (obstack_make_room nc h len)\<lparr>temp := len\<rparr> \<and>
     trad_obstack_grow nc h data len = (obstack_grow nc h data len)\<lparr>temp := len\<rparr> \<and>
     trad_obstack_grow0 nc h data len = (obstack_grow0 nc h data len)\<lparr>temp := len\<rparr> \<and>
     trad_obstack_blank nc h len = (obstack_blank nc h len)\<lparr>temp := len\<rparr> \<and>
     trad_obstack_1grow nc h c = obstack_1grow nc h c \<and>
     trad_obstack_ptr_grow nc h p = obstack_ptr_grow nc h p \<and>
     trad_obstack_int_grow nc h i = obstack_int_grow nc h i \<and>
     trad_obstack_finish narrow h =
       (case obstack_finish narrow h of (v, h') \<Rightarrow> (v, h'\<lparr>temp := v\<rparr>)) \<and>
     trad_obstack_object_size h = obstack_object_size h \<and> trad_obstack_room h = obstack_room h \<and>
     trad_obstack_empty_p narrow h = obstack_empty_p narrow h"
proof -
  have n: "c_int len = len" using assms by (simp add: c_int_id)
  have t: "nc (h\<lparr>temp := t\<rparr>) k = (nc h k)\<lparr>temp := t\<rparr>" if "0 \<le> k" for t k
    using assms(1,2) that by (simp add: newchunk_ok_def)
  have room: "trad_obstack_make_room nc h len = (obstack_make_room nc h len)\<lparr>temp := len\<rparr>"
    using assms(3) by (auto simp: trad_obstack_make_room_def obstack_make_room_def n t Let_def)
  have grow: "trad_obstack_grow nc h data len = (obstack_grow nc h data len)\<lparr>temp := len\<rparr>"
    using assms(3) by (auto simp: trad_obstack_grow_def obstack_grow_def n t Let_def copy_in_def)
  have grow0: "trad_obstack_grow0 nc h data len = (obstack_grow0 nc h data len)\<lparr>temp := len\<rparr>"
    using assms(3) by (auto simp: trad_obstack_grow0_def obstack_grow0_def n t Let_def copy_in_def obstack_1grow_fast_def)
  have blank: "trad_obstack_blank nc h len = (obstack_blank nc h len)\<lparr>temp := len\<rparr>"
    using assms(3) by (auto simp: trad_obstack_blank_def obstack_blank_def n t Let_def obstack_blank_fast_def)
  have fin: "trad_obstack_finish narrow h = (case obstack_finish narrow h of (v, h') \<Rightarrow> (v, h'\<lparr>temp := v\<rparr>))"
    by (auto simp: trad_obstack_finish_def obstack_finish_def Let_def)
  have data: "trad_obstack_1grow nc h c = obstack_1grow nc h c" "trad_obstack_ptr_grow nc h p = obstack_ptr_grow nc h p"
    "trad_obstack_int_grow nc h i = obstack_int_grow nc h i"
    by (simp_all add: trad_obstack_1grow_def obstack_1grow_def trad_obstack_ptr_grow_def obstack_ptr_grow_def
        trad_obstack_int_grow_def obstack_int_grow_def trad_obstack_ptr_grow_fast_def obstack_ptr_grow_fast_def
        trad_obstack_int_grow_fast_def obstack_int_grow_fast_def Let_def)
  show ?thesis
    using room grow grow0 blank fin data
    by (simp add: trad_obstack_object_size_def obstack_object_size_def trad_obstack_room_def obstack_room_def
        trad_obstack_empty_p_def obstack_empty_p_def)
qed

section \<open>Freeing\<close>

text \<open>
  Freeing the object that was finished last gives its space back to the object under construction and
  leaves the objects below it alone; both versions of the macro agree.
\<close>

theorem obstack_free_last:
  assumes "obstack_ok h" and "obstack_finish narrow h = (v, h')" and "v < chunk_limit h"
  shows "obstack_ok (obstack_free uof h' v) \<and> object (obstack_free uof h' v) = [] \<and>
     object_base (obstack_free uof h' v) = object_base h \<and> keeps h (obstack_free uof h' v) \<and>
     trad_obstack_free uof h' v = (obstack_free uof h' v)\<lparr>temp := v - chunk h'\<rparr>"
proof -
  note fin = obstack_finish_finished [OF assms(1,2)]
  have order: "chunk h + 16 \<le> object_base h" "object_base h \<le> chunk_limit h" using assms(1) by (simp_all add: obstack_ok_def)
  have same: "chunk h' = chunk h" "chunks h' = chunks h" "chunk_limit h' = chunk_limit h" "mem h' = mem h"
    using assms(2) by (auto simp: obstack_finish_def Let_def split: if_splits)
  have f: "obstack_free uof h' v = h'\<lparr>next_free := v, object_base := v\<rparr>"
    using assms(3) order fin(1) same by (simp add: obstack_free_def)
  have "obstack_ok (h'\<lparr>next_free := v, object_base := v\<rparr>)"
    using assms(1,3) order fin(1,6) same by (auto simp: obstack_ok_def)
  moreover have "object (h'\<lparr>next_free := v, object_base := v\<rparr>) = []" by (simp add: object_def read_bytes_def)
  moreover have "keeps h (h'\<lparr>next_free := v, object_base := v\<rparr>)"
    using fin(1) same by (simp add: keeps_def protected_def)
  moreover have "trad_obstack_free uof h' v = (h'\<lparr>next_free := v, object_base := v\<rparr>)\<lparr>temp := v - chunk h'\<rparr>"
    using assms(3) order fin(1) same by (simp add: trad_obstack_free_def Let_def)
  ultimately show ?thesis using fin(1) unfolding f by simp
qed

section \<open>A library function that meets the assumption\<close>

text \<open>The new chunk is put above everything the stack owns.\<close>

definition highest :: "obstack \<Rightarrow> int" where
  "highest h = foldr max (map snd (chunks h)) (chunk_limit h)"

definition sample_newchunk :: newchunk where
  "sample_newchunk h n =
     (let size1 = next_free h - object_base h;
          base = highest h + 16
      in h\<lparr>chunk := highest h, object_base := base, next_free := base + size1, chunk_limit := base + size1 + n + 64,
           mem := write_bytes base (object h) (mem h),
           chunks := (highest h, base + size1 + n + 64) # chunks h\<rparr>)"

lemma highest_above: "(c, l) \<in> set (chunks h) \<Longrightarrow> l \<le> highest h" "chunk_limit h \<le> highest h"
proof -
  have fold: "x \<le> foldr max xs x \<and> (\<forall>y \<in> set xs. y \<le> foldr max xs x)" for x :: int and xs
    by (induction xs) (auto simp: le_max_iff_disj)
  show "(c, l) \<in> set (chunks h) \<Longrightarrow> l \<le> highest h" "chunk_limit h \<le> highest h"
    using fold [of "chunk_limit h" "map snd (chunks h)"] by (force simp: highest_def)+
qed

lemma sample_newchunk_ok: "newchunk_ok sample_newchunk"
proof -
  have "extends h [] (sample_newchunk h n) \<and> next_free (sample_newchunk h n) + n \<le> chunk_limit (sample_newchunk h n)"
    if ok: "obstack_ok h" and n: "0 \<le> n" for h n
  proof -
    let ?h = "sample_newchunk h n"
    obtain rest where c: "chunks h = (chunk h, chunk_limit h) # rest" using ok by (auto simp: obstack_ok_def)
    have order: "chunk h + 16 \<le> object_base h" "object_base h \<le> next_free h" "next_free h \<le> chunk_limit h"
      "\<exists>k. alignment_mask h = 2 ^ k - 1" using ok by (simp_all add: obstack_ok_def)
    have len: "nat (next_free ?h - object_base ?h) = length (object h)"
      by (simp add: sample_newchunk_def Let_def object_def)
    have "obstack_ok ?h"
      using order n highest_above(1) [of _ _ h] by (auto simp: obstack_ok_def sample_newchunk_def Let_def)
    moreover have "object ?h = object h"
      unfolding object_def [of ?h] len by (simp add: sample_newchunk_def Let_def read_write_bytes)
    moreover have "keeps h ?h"
      unfolding keeps_def
    proof (intro allI impI)
      fix a assume "protected h a"
      then have "\<exists>(c, l) \<in> set (chunks h). c \<le> a \<and> a < l"
        using order by (fastforce simp: protected_def c)
      moreover from this have "a < highest h" using highest_above(1) [of _ _ h] by fastforce
      ultimately show "protected ?h a \<and> mem ?h a = mem h a"
        by (auto simp: protected_def sample_newchunk_def Let_def write_bytes_apply)
    qed
    ultimately show ?thesis by (simp add: extends_def sample_newchunk_def Let_def)
  qed
  moreover have "sample_newchunk (h\<lparr>temp := t\<rparr>) n = (sample_newchunk h n)\<lparr>temp := t\<rparr>" for h n t
    by (simp add: sample_newchunk_def Let_def highest_def object_def)
  ultimately show ?thesis by (simp add: newchunk_ok_def)
qed

definition sample_obstack :: obstack where
  "sample_obstack = \<lparr>chunk_size = 64, chunk = 1000, object_base = 1024, next_free = 1024, chunk_limit = 1030,
     temp = 0, alignment_mask = 15, maybe_empty_object = False, mem = (\<lambda>_. 7), chunks = [(1000, 1030)]\<rparr>"

lemma sample_obstack_ok: "obstack_ok sample_obstack" "object sample_obstack = []" "finished sample_obstack 1020 [7, 7]"
proof -
  have "\<exists>k. (15 :: int) = 2 ^ k - 1" by (rule exI [of _ 4]) simp
  then show "obstack_ok sample_obstack" by (simp add: obstack_ok_def sample_obstack_def)
  show "object sample_obstack = []" by (simp add: object_def sample_obstack_def read_bytes_def)
  show "finished sample_obstack 1020 [7, 7]"
    by (auto simp: finished_def sample_obstack_def read_bytes_def protected_def)
qed


theorem obstack_versions_agree_witness:
  "trad_obstack_grow sample_newchunk sample_obstack [1, 2, 3, 4, 5, 6, 7, 8] 8 =
     (obstack_grow sample_newchunk sample_obstack [1, 2, 3, 4, 5, 6, 7, 8] 8)\<lparr>temp := 8\<rparr>"
proof -
  have "(0 :: int) \<le> 8" "(8 :: int) < 2 ^ 31" by simp_all
  from obstack_versions_agree [OF sample_newchunk_ok sample_obstack_ok(1) this] show ?thesis by blast
qed

theorem obstack_free_last_witness:
  "obstack_ok (obstack_free (\<lambda>h v. h) (snd (obstack_finish False sample_obstack)) 1024)"
proof -
  have "obstack_finish False sample_obstack = (1024, snd (obstack_finish False sample_obstack))"
    by (simp add: obstack_finish_def sample_obstack_def Let_def)
  moreover have "1024 < chunk_limit sample_obstack" by (simp add: sample_obstack_def)
  ultimately show ?thesis using obstack_free_last [OF sample_obstack_ok(1)] by blast
qed

end
