(* ===== verification/C_Loops.thy ===== *)
theory C_Loops
  imports C_Integers
begin

text \<open>
  The \<open>for\<close> loops of the C headers that walk over records of varying length in memory. The loop may
  not end, since the records say themselves how long they are; not ending is the value \<open>None\<close>. The body
  may change a state of its own and leaves the loop by a result other than zero. The locale
  \<open>length_walk\<close> is the contract of the macros that check a record against the bytes left and step over
  it: for these the loop always ends, inside the buffer.
\<close>

unbundle bit_operations_syntax

section \<open>The loop\<close>

text \<open>The result, the position at which the loop was left, and the state.\<close>

partial_function (option) c_for ::
    "('i \<Rightarrow> bool) \<Rightarrow> ('i \<Rightarrow> 'i) \<Rightarrow> ('i \<Rightarrow> 's \<Rightarrow> u32 \<times> 's) \<Rightarrow> 'i \<Rightarrow> 's \<Rightarrow> (u32 \<times> 'i \<times> 's) option" where
  "c_for cond step body i s =
     (if cond i
      then (case body i s of (r, s1) \<Rightarrow> if r \<noteq> 0 then Some (r, i, s1) else c_for cond step body (step i) s1)
      else Some (0, i, s))"

text \<open>The specification: the positions in order, until a result other than zero.\<close>

fun visit :: "('i \<Rightarrow> 's \<Rightarrow> u32 \<times> 's) \<Rightarrow> 'i list \<Rightarrow> 'i \<Rightarrow> 's \<Rightarrow> u32 \<times> 'i \<times> 's" where
  "visit body [] final s = (0, final, s)"
| "visit body (i # is) final s =
     (case body i s of (r, s1) \<Rightarrow> if r \<noteq> 0 then (r, i, s1) else visit body is final s1)"

fun chain :: "('i \<Rightarrow> bool) \<Rightarrow> ('i \<Rightarrow> 'i) \<Rightarrow> 'i \<Rightarrow> 'i list \<Rightarrow> 'i \<Rightarrow> bool" where
  "chain cond step i [] final = (i = final \<and> \<not> cond i)"
| "chain cond step i (x # xs) final = (x = i \<and> cond i \<and> chain cond step (step i) xs final)"

lemma c_for_chain: "chain cond step i is final \<Longrightarrow> c_for cond step body i s = Some (visit body is final s)"
proof (induction "is" arbitrary: i s)
  case Nil
  then show ?case by (subst c_for.simps) auto
next
  case (Cons x xs)
  then show ?case by (subst c_for.simps) (auto split: prod.split)
qed

text \<open>A loop whose positions stay in a set where the condition holds and the body does not stop never ends.\<close>

lemma c_for_leaves:
  "c_for cond step body j t = Some res \<Longrightarrow>
     (\<forall>i. I i \<longrightarrow> cond i \<and> I (step i) \<and> (\<forall>s. fst (body i s) = 0)) \<longrightarrow> \<not> I j"
proof (rule c_for.raw_induct [of "\<lambda>cond step body j t res.
    (\<forall>i. I i \<longrightarrow> cond i \<and> I (step i) \<and> (\<forall>s. fst (body i s) = 0)) \<longrightarrow> \<not> I j"])
  fix loop :: "('a \<Rightarrow> bool) \<Rightarrow> ('a \<Rightarrow> 'a) \<Rightarrow> ('a \<Rightarrow> 'b \<Rightarrow> u32 \<times> 'b) \<Rightarrow> 'a \<Rightarrow> 'b \<Rightarrow> (u32 \<times> 'a \<times> 'b) option"
    and cond step body j t res
  assume ih: "\<And>cond step body j t res. loop cond step body j t = Some res \<Longrightarrow>
        (\<forall>i. I i \<longrightarrow> cond i \<and> I (step i) \<and> (\<forall>s. fst (body i s) = 0)) \<longrightarrow> \<not> I j"
    and unfold: "(if cond j then case body j t of (r, s1) \<Rightarrow> if r \<noteq> 0 then Some (r, j, s1) else loop cond step body (step j) s1
             else Some (0, j, t)) = Some res"
  show "(\<forall>i. I i \<longrightarrow> cond i \<and> I (step i) \<and> (\<forall>s. fst (body i s) = 0)) \<longrightarrow> \<not> I j"
  proof (intro impI notI)
    assume inv: "\<forall>i. I i \<longrightarrow> cond i \<and> I (step i) \<and> (\<forall>s. fst (body i s) = 0)" and "I j"
    then obtain s1 where "body j t = (0, s1)" by (metis prod.collapse)
    with unfold inv \<open>I j\<close> have "loop cond step body (step j) s1 = Some res" by simp
    from ih [OF this] inv \<open>I j\<close> show False by blast
  qed
qed

lemma c_for_diverges:
  assumes "I i" and "\<And>i. I i \<Longrightarrow> cond i \<and> I (step i) \<and> (\<forall>s. fst (body i s) = 0)"
  shows "c_for cond step body i s = None"
  using c_for_leaves [of cond step body i s _ I] assms by (cases "c_for cond step body i s") auto

lemma c_for_stuck:
  assumes "cond i" and "step i = i" and "\<And>s. fst (body i s) = 0"
  shows "c_for cond step body i s = None"
  using c_for_diverges [of "\<lambda>j. j = i" i cond step body s] assms by simp

text \<open>A body that collects what it sees, and never leaves the loop.\<close>

definition collect :: "('i \<Rightarrow> 'a) \<Rightarrow> 'i \<Rightarrow> 'a list \<Rightarrow> u32 \<times> 'a list" where
  "collect f i xs = (0, xs @ [f i])"

lemma visit_collect: "visit (collect f) is final xs = (0, final, xs @ map f is)"
  by (induction "is" arbitrary: xs) (auto simp: collect_def)

section \<open>Memory\<close>

type_synonym memory = "u64 \<Rightarrow> u8"

text \<open>A little-endian load of \<open>n\<close> bytes.\<close>

definition load :: "memory \<Rightarrow> nat \<Rightarrow> u64 \<Rightarrow> 'a::len word" where
  "load mem n p = word_of_int (horner_sum uint 256 (map (\<lambda>i. mem (p + of_nat i)) [0..<n]))"

lemma ucast_down_diff: "(ucast (x - y :: u64) :: u32) = ucast x - ucast y"
proof -
  have "take_bit 32 (take_bit 64 (k - l)) = take_bit 32 (take_bit 64 k - take_bit 64 l)" for k l :: int
    using take_bit_diff [of 32 "take_bit 64 k" "take_bit 64 l"] take_bit_diff [of 32 k l] by simp
  then show ?thesis by transfer simp
qed

lemma ucast_down_add: "(ucast (x + y :: u64) :: u32) = ucast x + ucast y"
proof -
  have "take_bit 32 (take_bit 64 (k + l)) = take_bit 32 (take_bit 64 k + take_bit 64 l)" for k l :: int
    using take_bit_add [of 32 "take_bit 64 k" "take_bit 64 l"] take_bit_add [of 32 k l] by simp
  then show ?thesis by transfer simp
qed

lemma ucast_up_down [simp]: "(ucast (ucast (x :: u32) :: u64) :: u32) = x"
  by (rule bit_word_eqI) (auto simp: bit_simps)

text \<open>The size of a record rounded up to a multiple of \<open>m\<close>.\<close>

definition round_up :: "nat \<Rightarrow> nat \<Rightarrow> nat" where
  "round_up m n = (n + (m - 1)) div m * m"

lemma round_up_bounds: "0 < m \<Longrightarrow> n \<le> round_up m n" "0 < m \<Longrightarrow> round_up m n < n + m"
proof -
  assume m: "0 < m"
  have "(n + (m - 1)) div m * m + (n + (m - 1)) mod m = n + (m - 1)" by simp
  moreover have "(n + (m - 1)) mod m < m" using m by simp
  ultimately show "n \<le> round_up m n" "round_up m n < n + m" unfolding round_up_def using m by linarith+
qed

lemma round_up_dvd: "m dvd round_up m n"
  by (simp add: round_up_def)

lemma round_up_id:
  assumes "m dvd n"
  shows "round_up m n = n"
proof (cases "m = 0")
  case False
  obtain k where "n = m * k" using assms by blast
  moreover from this False have "(n + (m - 1)) div m = k" using div_mult_self2 [of m "m - 1" k] by (simp add: add.commute)
  ultimately show ?thesis by (simp add: round_up_def)
qed (use assms in \<open>simp add: round_up_def\<close>)

lemma mask_round_up:
  fixes x :: "'a::len word"
  assumes "unat x + 2 ^ k \<le> 2 ^ LENGTH('a)" and "k < LENGTH('a)"
  shows "unat ((x + (2 ^ k - 1)) AND NOT (mask k)) = round_up (2 ^ k) (unat x)"
proof -
  have 1: "unat (2 ^ k - 1 :: 'a word) = 2 ^ k - 1"
    using assms(2) uint_mask_eq [where 'a = 'a and n = k]
    by (simp add: mask_eq_exp_minus_1 unat_eq_nat_uint nat_diff_distrib nat_power_eq)
  have "unat (x + (2 ^ k - 1)) = unat x + (2 ^ k - 1)"
    unfolding unat_word_ariths 1 using assms by (intro mod_less) (auto simp: add_diff_eq [symmetric] intro: less_le_trans)
  moreover have "x + (2 ^ k - 1) AND NOT (mask k) = push_bit k (drop_bit k (x + (2 ^ k - 1)))"
    by (rule bit_word_eqI) (auto simp: bit_simps)
  moreover have "take_bit LENGTH('a) (push_bit k (drop_bit k n)) = push_bit k (drop_bit k n)"
    if "n < 2 ^ LENGTH('a)" for n :: nat
    using that by (intro take_bit_nat_eq_self) (auto simp: push_bit_eq_mult drop_bit_eq_div intro: le_less_trans [OF div_times_less_eq_dividend])
  moreover have "unat x + (2 ^ k - 1) < 2 ^ LENGTH('a)"
    using assms(1) zero_less_power [of "2 :: nat" k] by linarith
  ultimately have "unat (x + (2 ^ k - 1) AND NOT (mask k)) = push_bit k (drop_bit k (unat x + (2 ^ k - 1)))"
    by (simp only: unsigned_push_bit_eq unsigned_drop_bit_eq drop_bit_take_bit take_bit_nat_eq_self)
  then show ?thesis by (simp only: push_bit_eq_mult drop_bit_eq_div round_up_def)
qed

section \<open>Walks over records that carry their length\<close>

text \<open>Records of the given lengths behind each other, where they start, and the bytes they need.\<close>

fun placed :: "('p::len word \<Rightarrow> nat) \<Rightarrow> (nat \<Rightarrow> nat) \<Rightarrow> 'p word \<Rightarrow> nat list \<Rightarrow> bool" where
  "placed len_at stride p [] = True"
| "placed len_at stride p (n # ns) = (len_at p = n \<and> placed len_at stride (p + of_nat (stride n)) ns)"

fun starts :: "(nat \<Rightarrow> nat) \<Rightarrow> 'p::len word \<Rightarrow> nat list \<Rightarrow> 'p word list" where
  "starts stride p [] = []"
| "starts stride p (n # ns) = p # starts stride (p + of_nat (stride n)) ns"

fun needed :: "(nat \<Rightarrow> nat) \<Rightarrow> nat list \<Rightarrow> nat" where
  "needed stride [] = 0"
| "needed stride [n] = n"
| "needed stride (n # m # ns) = stride n + needed stride (m # ns)"

lemma starts_map: "starts stride p (map f ns) = starts (\<lambda>n. stride (f n)) p ns"
  by (induction ns arbitrary: p) auto

lemma starts_cong: "(\<And>n. n \<in> set ns \<Longrightarrow> stride n = stride' n) \<Longrightarrow> starts stride p ns = starts stride' p ns"
  by (induction ns arbitrary: p) auto

lemma needed_Cons: "needed stride (n # ns) = (if ns = [] then n else stride n + needed stride ns)"
  by (cases ns) auto

lemma needed_le:
  assumes "\<And>n. n \<le> stride n"
  shows "needed stride ns \<le> sum_list (map stride ns)"
  by (induction ns) (auto simp: needed_Cons assms)

lemma length_starts [simp]: "length (starts stride p ns) = length ns"
  by (induction ns arbitrary: p) auto

lemma sum_positive:
  assumes "list_all (\<lambda>n. 0 < n) (ns :: nat list)"
  shows "length ns \<le> sum_list ns" "ns \<noteq> [] \<Longrightarrow> sum_list (butlast ns) < sum_list ns"
proof -
  show "length ns \<le> sum_list ns" using assms by (induction ns) auto
  show "sum_list (butlast ns) < sum_list ns" if "ns \<noteq> []"
    using assms that by (induction ns rule: rev_induct) auto
qed

lemma placed_starts: "placed len_at stride p ns \<Longrightarrow> map len_at (starts stride p ns) = ns"
  by (induction ns arbitrary: p) auto

text \<open>The visited records lie one behind the other in the buffer; with each goes the number of bytes left.\<close>

definition inside :: "(u64 \<Rightarrow> nat) \<Rightarrow> nat \<Rightarrow> (nat \<Rightarrow> nat) \<Rightarrow> u64 \<Rightarrow> int \<Rightarrow> (u64 \<times> 'l::len word) list \<Rightarrow> bool" where
  "inside len_at hdr stride p n is \<longleftrightarrow>
     list_all (\<lambda>(q, k). unat p \<le> unat q \<and> hdr \<le> len_at q \<and> int (unat q + len_at q) \<le> int (unat p) + n \<and>
                       int (unat q) + sint k = int (unat p) + n) is \<and>
     sorted_wrt (\<lambda>(q, _) (q', _). unat q + stride (len_at q) \<le> unat q') is"

text \<open>
  The contract: \<open>ok\<close> accepts a record that is not shorter than its header and not longer than the bytes
  left, a signed number; \<open>succ\<close> steps over it, padding included, and subtracts what it stepped over.
\<close>

abbreviation walk ::
    "(memory \<Rightarrow> u64 \<Rightarrow> 'l \<Rightarrow> bool) \<Rightarrow> (memory \<Rightarrow> u64 \<Rightarrow> 'l \<Rightarrow> u64 \<times> 'l) \<Rightarrow> memory \<Rightarrow> u64 \<times> 'l \<Rightarrow> (u64 \<times> 'l) list \<Rightarrow> u64 \<times> 'l \<Rightarrow> bool" where
  "walk ok succ mem \<equiv> chain (\<lambda>(p, l). ok mem p l) (\<lambda>(p, l). succ mem p l)"

lemma sint_diff_of_nat:
  fixes x :: "'a::len word"
  assumes "- (2 ^ (LENGTH('a) - 1)) \<le> sint x - int n"
  shows "sint (x - of_nat n) = sint x - int n"
proof -
  have "x - of_nat n = word_of_int (sint x - int n)" by simp
  moreover have "sint x < 2 ^ (LENGTH('a) - 1)" by (rule sint_lt)
  ultimately show ?thesis
    using assms by (simp only: sint_sbintrunc' signed_take_bit_int_eq_self)
qed

lemma sint_unat:
  fixes x :: "'a::len word"
  assumes "0 \<le> sint x"
  shows "sint x = int (unat x)"
proof -
  have "sint x < 2 ^ LENGTH('a)" by (rule less_le_trans [OF sint_lt]) (simp add: power_increasing)
  then have "uint (word_of_int (sint x) :: 'a word) = sint x"
    using assms by (simp only: uint_word_of_int_eq take_bit_int_eq_self)
  then show ?thesis by simp
qed

lemma unat_sint:
  fixes x :: "'a::len word"
  assumes "unat x < 2 ^ (LENGTH('a) - 1)"
  shows "sint x = int (unat x)"
proof -
  have "int (unat x) < 2 ^ (LENGTH('a) - 1)" using assms by (metis of_nat_less_iff of_nat_numeral of_nat_power)
  moreover have "x = word_of_int (int (unat x))" by simp
  moreover have "- (2 ^ (LENGTH('a) - 1)) \<le> int (unat x)" by (rule order_trans [of _ 0]) simp_all
  ultimately show ?thesis by (metis sint_sbintrunc' signed_take_bit_int_eq_self)
qed

locale length_walk =
  fixes ok :: "memory \<Rightarrow> u64 \<Rightarrow> 'l::len word \<Rightarrow> bool"
    and succ :: "memory \<Rightarrow> u64 \<Rightarrow> 'l word \<Rightarrow> u64 \<times> 'l word"
    and len_at :: "memory \<Rightarrow> u64 \<Rightarrow> nat"
    and hdr :: nat
    and stride :: "nat \<Rightarrow> nat"
  assumes hdr_pos: "0 < hdr"
    and stride_ge: "n \<le> stride n"
    and ok_iff: "ok mem p l \<longleftrightarrow> hdr \<le> len_at mem p \<and> int (len_at mem p) \<le> sint l"
    and succ_fst: "ok mem p l \<Longrightarrow> fst (succ mem p l) = p + of_nat (stride (len_at mem p))"
    and succ_snd: "ok mem p l \<Longrightarrow> sint (snd (succ mem p l)) = sint l - int (stride (len_at mem p))"
begin

lemma succ_step:
  assumes "ok mem p l"
  obtains l' where "succ mem p l = (p + of_nat (stride (len_at mem p)), l')"
    and "sint l' = sint l - int (stride (len_at mem p))"
  using succ_fst [OF assms] succ_snd [OF assms] by (metis prod.collapse)

lemma next_start:
  assumes "sint l' = sint l - int (stride (len_at mem p))" and "ok mem q l'" and "int (unat p) + sint l \<le> 2 ^ 64"
  shows "unat (p + of_nat (stride (len_at mem p))) = unat p + stride (len_at mem p)"
proof -
  have "0 < sint l'" using assms(2) hdr_pos by (auto simp: ok_iff)
  then have "int (unat p + stride (len_at mem p)) < int (2 ^ 64)" using assms by simp
  then have "unat p + stride (len_at mem p) < 2 ^ LENGTH(64)" unfolding of_nat_less_iff by simp
  then show ?thesis by (simp add: unat_word_ariths unat_of_nat)
qed

lemma walk_ends: "\<exists>is final. walk ok succ mem (p, l) is final"
proof (induction "nat (sint l)" arbitrary: p l rule: less_induct)
  case less
  show ?case
  proof (cases "ok mem p l")
    case True
    then obtain l' where s: "succ mem p l = (p + of_nat (stride (len_at mem p)), l')"
      and l': "sint l' = sint l - int (stride (len_at mem p))" by (rule succ_step)
    have "0 < stride (len_at mem p)" "0 < sint l" using True hdr_pos stride_ge [of "len_at mem p"] by (auto simp: ok_iff)
    then have "nat (sint l') < nat (sint l)" using l' by linarith
    from less [OF this, of "p + of_nat (stride (len_at mem p))"] obtain "is" final where
      "walk ok succ mem (p + of_nat (stride (len_at mem p)), l') is final" by blast
    with True s have "walk ok succ mem (p, l) ((p, l) # is) final" by simp
    then show ?thesis by blast
  next
    case False
    then have "walk ok succ mem (p, l) [] (p, l)" by simp
    then show ?thesis by blast
  qed
qed

lemma walk_stays:
  assumes "walk ok succ mem (p, l) is final"
    and "int (unat p) + sint l \<le> 2 ^ 64" and "(q, k) \<in> set is"
  shows "unat p \<le> unat q \<and> int (unat q) + sint k = int (unat p) + sint l \<and> ok mem q k \<and>
     ((q, k) = hd is \<or> unat p + stride (len_at mem p) \<le> unat q)"
  using assms
proof (induction "is" arbitrary: p l)
  case (Cons x xs)
  then have ok: "ok mem p l" and x: "x = (p, l)" by auto
  then obtain l' where s: "succ mem p l = (p + of_nat (stride (len_at mem p)), l')"
    and l': "sint l' = sint l - int (stride (len_at mem p))" by (metis succ_step)
  let ?p = "p + of_nat (stride (len_at mem p))"
  show ?case
  proof (cases "(q, k) = (p, l)")
    case False
    then have mem: "(q, k) \<in> set xs" and ch: "walk ok succ mem (?p, l') xs final"
      using Cons.prems x s by auto
    then have "ok mem ?p l'" by (cases xs) auto
    then have "unat ?p = unat p + stride (len_at mem p)" using next_start [OF l'] Cons.prems(2) by blast
    then show ?thesis using Cons.IH [OF ch _ mem] l' Cons.prems(2) by auto
  qed (use ok x in auto)
qed simp

lemma walk_separate:
  assumes "walk ok succ mem (p, l) is final"
    and "int (unat p) + sint l \<le> 2 ^ 64"
  shows "sorted_wrt (\<lambda>(q, _) (q', _). unat q + stride (len_at mem q) \<le> unat q') is"
  using assms
proof (induction "is" arbitrary: p l)
  case (Cons x xs)
  then have ok: "ok mem p l" and x: "x = (p, l)" by auto
  then obtain l' where s: "succ mem p l = (p + of_nat (stride (len_at mem p)), l')"
    and l': "sint l' = sint l - int (stride (len_at mem p))" by (metis succ_step)
  let ?p = "p + of_nat (stride (len_at mem p))"
  have ch: "walk ok succ mem (?p, l') xs final" using Cons.prems x s by auto
  show ?case
  proof (cases xs)
    case (Cons y ys)
    then have "ok mem ?p l'" using ch by auto
    then have "unat ?p = unat p + stride (len_at mem p)" using next_start [OF l'] Cons.prems(2) by blast
    then show ?thesis
      using Cons.IH [OF ch] walk_stays [OF ch] l' Cons.prems(2) x by auto
  qed (simp add: x)
qed simp

lemma walk_inside:
  assumes "int (unat p) + sint l \<le> 2 ^ 64"
  shows "\<exists>is final. (\<forall>body s. c_for (\<lambda>(p, l). ok mem p l) (\<lambda>(p, l). succ mem p l) body (p, l) s = Some (visit body is final s)) \<and>
     inside (len_at mem) hdr stride p (sint l) is"
proof -
  obtain "is" final where w: "walk ok succ mem (p, l) is final" using walk_ends by blast
  have "inside (len_at mem) hdr stride p (sint l) is"
    using walk_stays [OF w assms] walk_separate [OF w assms] unfolding inside_def list_all_iff ok_iff by fastforce
  with c_for_chain [OF w] show ?thesis by blast
qed

lemma walk_all:
  assumes "placed (len_at mem) stride p ns" and "list_all (\<lambda>n. hdr \<le> n) ns"
    and "int (needed stride ns) \<le> sint l" and "sint l < int (sum_list (map stride ns)) + int hdr"
  shows "\<exists>is final. walk ok succ mem (p, l) is final \<and> map fst is = starts stride p ns"
  using assms
proof (induction ns arbitrary: p l)
  case Nil
  then have "walk ok succ mem (p, l) [] (p, l)" by (auto simp: ok_iff)
  then show ?case by fastforce
next
  case (Cons n ns)
  then have n: "len_at mem p = n" "hdr \<le> n" "int n \<le> sint l"
    using stride_ge [of n] by (auto simp: needed_Cons split: if_splits)
  then have ok: "ok mem p l" by (simp add: ok_iff)
  obtain l' where s: "succ mem p l = (p + of_nat (stride n), l')" and l': "sint l' = sint l - int (stride n)"
    using succ_step [OF ok] n(1) by metis
  have "\<exists>is final. walk ok succ mem (p + of_nat (stride n), l') is final \<and>
      map fst is = starts stride (p + of_nat (stride n)) ns"
  proof (cases "ns = []")
    case True
    then have "sint l' < int hdr" using Cons.prems(4) l' by simp
    then have "walk ok succ mem (p + of_nat (stride n), l') [] (p + of_nat (stride n), l')"
      by (auto simp: ok_iff)
    then show ?thesis using True by fastforce
  next
    case False
    then show ?thesis using Cons.IH [of "p + of_nat (stride n)" l'] Cons.prems l' by (simp add: needed_Cons)
  qed
  then obtain "is" final where "walk ok succ mem (p + of_nat (stride n), l') is final"
    and "map fst is = starts stride (p + of_nat (stride n)) ns" by blast
  then have "walk ok succ mem (p, l) ((p, l) # is) final \<and>
      map fst ((p, l) # is) = starts stride p (n # ns)" using ok s by simp
  then show ?case by blast
qed

end

section \<open>Loops over offsets\<close>

text \<open>
  The other contract: the loop runs while the offset is below a limit and adds the size that the
  record at the offset has in the context (memory and base address). Sizes are not checked.
\<close>

locale offset_loop =
  fixes size_at :: "'c \<Rightarrow> 'p::len word \<Rightarrow> nat"
    and advance :: "'c \<Rightarrow> 'p word \<Rightarrow> 'p word"
  assumes advance: "advance c i = i + of_nat (size_at c i)"
begin

lemma chain_offsets:
  assumes "placed (size_at c) id i ns" and "list_all (\<lambda>n. 0 < n) ns"
    and "unat i + sum_list ns < 2 ^ LENGTH('p)" and "unat lim \<le> unat i + sum_list ns"
    and "ns \<noteq> [] \<Longrightarrow> unat i + sum_list (butlast ns) < unat lim"
  shows "chain (\<lambda>i. i < lim) (advance c) i (starts id i ns) (i + of_nat (sum_list ns))"
  using assms
proof (induction ns arbitrary: i)
  case (Cons n ns)
  let ?i = "i + of_nat n"
  have u: "unat ?i = unat i + n" using Cons.prems(3) by (simp add: unat_word_ariths unat_of_nat)
  have "i < lim" using Cons.prems(5) by (simp add: word_less_nat_alt)
  moreover have "advance c i = ?i" using Cons.prems(1) by (simp add: advance)
  moreover have "chain (\<lambda>i. i < lim) (advance c) ?i (starts id ?i ns) (?i + of_nat (sum_list ns))"
    using Cons.prems u by (intro Cons.IH) (auto simp: word_less_nat_alt)
  ultimately show ?case by (simp add: add.assoc id_def)
qed (simp add: word_le_nat_alt not_less)

lemma offsets_exist:
  assumes "\<And>j. i \<le> j \<Longrightarrow> j < lim \<Longrightarrow> 0 < size_at c j \<and> size_at c j \<le> b" and "unat lim + b < 2 ^ LENGTH('p)"
  shows "\<exists>ns. placed (size_at c) id i ns \<and> list_all (\<lambda>n. 0 < n) ns \<and> (unat i \<le> unat lim \<longrightarrow> unat i + sum_list ns < 2 ^ LENGTH('p)) \<and>
     unat lim \<le> unat i + sum_list ns \<and> (ns \<noteq> [] \<longrightarrow> unat i + sum_list (butlast ns) < unat lim)"
  using assms(1)
proof (induction "unat lim - unat i" arbitrary: i rule: less_induct)
  case less
  show ?case
  proof (cases "i < lim")
    case True
    let ?n = "size_at c i" and ?i = "i + of_nat (size_at c i)"
    have n: "0 < ?n" "?n \<le> b" using less.prems [of i] True by auto
    have lim: "unat i < unat lim" using True by (simp add: word_less_nat_alt)
    have u: "unat ?i = unat i + ?n" using n(2) assms(2) lim by (simp add: unat_word_ariths unat_of_nat)
    show ?thesis
    proof (cases "?i < lim")
      case True
      have "unat lim - unat ?i < unat lim - unat i" using u n lim by simp
      moreover have "0 < size_at c j \<and> size_at c j \<le> b" if "?i \<le> j" "j < lim" for j
        using that less.prems [of j] u by (simp add: word_le_nat_alt)
      ultimately obtain ns where ns: "placed (size_at c) id ?i ns" "list_all (\<lambda>n. 0 < n) ns"
        "unat ?i + sum_list ns < 2 ^ LENGTH('p)" "unat lim \<le> unat ?i + sum_list ns"
        "ns \<noteq> [] \<longrightarrow> unat ?i + sum_list (butlast ns) < unat lim"
        using less.hyps [of ?i] True by (auto simp: word_less_nat_alt)
      then have "ns \<noteq> []" using True by (auto simp: word_less_nat_alt)
      with ns u n show ?thesis by (intro exI [of _ "?n # ns"]) auto
    next
      case False
      then have "unat lim \<le> unat i + ?n" using u by (simp add: word_less_nat_alt)
      then show ?thesis using n u lim assms(2) by (intro exI [of _ "[?n]"]) auto
    qed
  next
    case False
    then have "unat lim \<le> unat i" by (simp add: word_less_nat_alt)
    then show ?thesis by (intro exI [of _ "[]"]) auto
  qed
qed

end

text \<open>A counter beside the position, and a body that skips the first positions.\<close>

fun numbered :: "u32 \<Rightarrow> 'i list \<Rightarrow> ('i \<times> u32) list" where
  "numbered k [] = []"
| "numbered k (i # is) = (i, k) # numbered (k + 1) is"

lemma chain_numbered:
  "chain cond step i is final \<Longrightarrow>
     chain (\<lambda>(i, k). cond i) (\<lambda>(i, k). (step i, k + 1)) (i, k) (numbered k is) (final, k + of_nat (length is))"
proof (induction "is" arbitrary: i k)
  case (Cons a "is")
  then show ?case using Cons.IH [of "step i" "k + 1"] by (simp add: add.assoc)
qed simp

lemma visit_numbered:
  assumes "unat k + length is \<le> 2 ^ 32"
  shows "(case visit (\<lambda>(i, k) s. if k < n then (0, s) else f i s) (numbered k is) (final, m) s of (r, j, s') \<Rightarrow> (r, s')) =
     (case visit f (drop (unat n - unat k) is) final s of (r, j, s') \<Rightarrow> (r, s'))"
  using assms
proof (induction "is" arbitrary: k s)
  case (Cons i "is")
  show ?case
  proof (cases "length is = 0")
    case True
    then show ?thesis by (cases "unat n - unat k") (auto simp: word_less_nat_alt split: prod.split)
  next
    case False
    then have "1 \<le> length is" by linarith
    then have "unat k + 1 < 2 ^ 32" using Cons.prems by simp
    then have "unat (k + 1) = unat k + 1" by (simp add: unat_word_ariths)
    moreover have "drop (unat n - unat k) (i # is) = (if k < n then drop (unat n - (unat k + 1)) is else i # is)"
      by (cases "unat n - unat k") (auto simp: word_less_nat_alt Suc_diff_Suc intro!: arg_cong2 [where f = drop])
    moreover have "\<not> k < n \<Longrightarrow> unat n - (unat k + 1) = 0" by (simp add: word_less_nat_alt)
    ultimately show ?thesis using Cons.IH [of "k + 1"] Cons.prems False by (auto split: prod.split)
  qed
qed simp

text \<open>Offsets and addresses: 32-bit offsets from a 64-bit base.\<close>

lemma visit_map:
  "visit f (map g is) (g final) s = (case visit (\<lambda>i. f (g i)) is final s of (r, j, s') \<Rightarrow> (r, g j, s'))"
  by (induction "is" arbitrary: s) (auto split: prod.split)

lemma unat_u32: "unat (x :: u32) < 2 ^ 32"
proof -
  have "unat x < 2 ^ LENGTH(32)" by (rule unsigned_less)
  then show ?thesis by simp
qed

lemma unat_ucast_u32 [simp]: "unat (ucast (x :: u32) :: u64) = unat x"
  using unat_u32 [of x] by (simp add: unsigned_ucast_eq take_bit_nat_eq_self)

lemma ucast_plus_of_nat:
  assumes "unat (i :: u32) + n < 2 ^ 32"
  shows "(ucast (i + of_nat n) :: u64) = ucast i + of_nat n"
proof -
  have "unat (i + of_nat n) = unat i + n" using assms by (simp add: unat_word_ariths unat_of_nat)
  then have "(of_nat (unat (i + of_nat n)) :: u64) = of_nat (unat i) + of_nat n" by (simp only: of_nat_add)
  then show ?thesis by simp
qed

lemma starts_base:
  "unat (i :: u32) + sum_list ns < 2 ^ 32 \<Longrightarrow> map (\<lambda>i. e + ucast i) (starts id i ns) = starts id (e + ucast i :: u64) ns"
proof (induction ns arbitrary: i)
  case (Cons n ns)
  have "unat (i + of_nat n) = unat i + n" using Cons.prems by (simp add: unat_word_ariths unat_of_nat)
  then show ?case using Cons.IH [of "i + of_nat n"] Cons.prems by (simp add: ucast_plus_of_nat add.assoc id_def)
qed simp

lemma placed_base:
  "unat (i :: u32) + sum_list ns < 2 ^ 32 \<Longrightarrow>
     placed (\<lambda>i. f (e + ucast i)) id i ns = placed f id (e + ucast i :: u64) ns"
proof (induction ns arbitrary: i)
  case (Cons n ns)
  have "unat (i + of_nat n) = unat i + n" using Cons.prems by (simp add: unat_word_ariths unat_of_nat)
  then show ?case using Cons.IH [of "i + of_nat n"] Cons.prems by (simp add: ucast_plus_of_nat add.assoc id_def)
qed simp

text \<open>The last contract: a 32-bit index into memory at a base address; the size depends on the address.\<close>

locale address_loop =
  fixes size_of :: "'c \<Rightarrow> u64 \<Rightarrow> nat"
    and advance :: "'c \<times> u64 \<Rightarrow> u32 \<Rightarrow> u32"
  assumes advance_base: "advance (c, e) i = i + of_nat (size_of c (e + ucast i))"

sublocale address_loop \<subseteq> offset_loop "\<lambda>(c, e) i. size_of c (e + ucast i)" advance
  by unfold_locales (auto simp: advance_base)

context address_loop
begin

lemma chain_addresses:
  assumes "placed (size_of c) id (e + ucast i) ns" and "list_all (\<lambda>n. 0 < n) ns"
    and "unat i + sum_list ns < 2 ^ 32" and "unat lim \<le> unat i + sum_list ns"
    and "ns \<noteq> [] \<Longrightarrow> unat i + sum_list (butlast ns) < unat lim"
  shows "chain (\<lambda>i. i < lim) (advance (c, e)) i (starts id i ns) (i + of_nat (sum_list ns))"
  using chain_offsets [of "(c, e)" i ns lim] placed_base [OF assms(3), of "size_of c" e] assms by simp

lemma loop_ends:
  assumes "\<And>j. i \<le> j \<Longrightarrow> j < lim \<Longrightarrow> 0 < size_of c (e + ucast j) \<and> size_of c (e + ucast j) \<le> b"
    and "unat lim + b < 2 ^ 32" and "i \<le> lim"
  shows "\<exists>ns. chain (\<lambda>i. i < lim) (advance (c, e)) i (starts id i ns) (i + of_nat (sum_list ns)) \<and>
     placed (size_of c) id (e + ucast i) ns"
proof -
  have "unat i \<le> unat lim" using assms(3) by (simp add: word_le_nat_alt)
  then obtain ns where "placed (\<lambda>i. size_of c (e + ucast i)) id i ns" "list_all (\<lambda>n. 0 < n) ns"
    "unat i + sum_list ns < 2 ^ 32" "unat lim \<le> unat i + sum_list ns" "ns \<noteq> [] \<longrightarrow> unat i + sum_list (butlast ns) < unat lim"
    using offsets_exist [of i lim "(c, e)" b] assms(1,2) by auto
  then show ?thesis
    using chain_addresses [of c e i ns lim] placed_base [of i ns "size_of c" e] by blast
qed

end

end
