(* ===== verification/Netlink.thy ===== *)
theory Netlink
  imports C_Loops
begin

text \<open>
  Messages and attributes that carry their length: \<open>linux/netlink.h\<close>, \<open>linux/rtnetlink.h\<close>,
  \<open>linux/netfilter/nfnetlink_compat.h\<close> and \<open>linux/fanotify.h\<close> of the sysroot. Memory maps 64-bit addresses to
  bytes. The bytes left are an \<open>int\<close> of the caller, as the casts of the macros expect (a \<open>long\<close> for
  \<open>fanotify.h\<close>); comparisons are signed or unsigned as the usual conversions make them. An alignment
  macro is used at two widths and is polymorphic: its mask has 32 bits, zero extended where it is
  unsigned and sign extended where it is an \<open>int\<close>. The sizes of the structures are those of x86-64.
\<close>

unbundle bit_operations_syntax

section \<open>Messages: \<open>linux/netlink.h\<close>\<close>

definition nlmsg_len :: "memory \<Rightarrow> u64 \<Rightarrow> u32" where
  "nlmsg_len mem nlh = load mem 4 nlh"

definition NLMSG_ALIGNTO :: u32 where
  "NLMSG_ALIGNTO = 4"

definition NLMSG_ALIGN :: "'a::len word \<Rightarrow> 'a word" where
  "NLMSG_ALIGN len = (len + ucast NLMSG_ALIGNTO - 1) AND ucast (NOT (NLMSG_ALIGNTO - 1))"

definition NLMSG_HDRLEN :: u32 where
  "NLMSG_HDRLEN = ucast (NLMSG_ALIGN (16 :: u64))"

definition NLMSG_LENGTH :: "u64 \<Rightarrow> u64" where
  "NLMSG_LENGTH len = len + scast NLMSG_HDRLEN"

definition NLMSG_SPACE :: "u64 \<Rightarrow> u64" where
  "NLMSG_SPACE len = NLMSG_ALIGN (NLMSG_LENGTH len)"

definition NLMSG_DATA :: "u64 \<Rightarrow> u64" where
  "NLMSG_DATA nlh = nlh + NLMSG_LENGTH 0"

definition NLMSG_NEXT :: "memory \<Rightarrow> u64 \<Rightarrow> u32 \<Rightarrow> u64 \<times> u32" where
  "NLMSG_NEXT mem nlh len =
     (let len1 = len - NLMSG_ALIGN (nlmsg_len mem nlh)
      in (nlh + ucast (NLMSG_ALIGN (nlmsg_len mem nlh)), len1))"

definition NLMSG_OK :: "memory \<Rightarrow> u64 \<Rightarrow> u32 \<Rightarrow> bool" where
  "NLMSG_OK mem nlh len \<longleftrightarrow>
     16 \<le>s len \<and> (16 :: u64) \<le> ucast (nlmsg_len mem nlh) \<and> nlmsg_len mem nlh \<le> len"

definition NLMSG_PAYLOAD :: "memory \<Rightarrow> u64 \<Rightarrow> u64 \<Rightarrow> u64" where
  "NLMSG_PAYLOAD mem nlh len = ucast (nlmsg_len mem nlh) - NLMSG_SPACE len"

definition NLA_ALIGNTO :: u32 where
  "NLA_ALIGNTO = 4"

definition NLA_ALIGN :: "'a::len word \<Rightarrow> 'a word" where
  "NLA_ALIGN len = (len + scast NLA_ALIGNTO - 1) AND scast (NOT (NLA_ALIGNTO - 1))"

definition NLA_HDRLEN :: u32 where
  "NLA_HDRLEN = ucast (NLA_ALIGN (4 :: u64))"

section \<open>Route attributes: \<open>linux/rtnetlink.h\<close>\<close>

definition rta_len :: "memory \<Rightarrow> u64 \<Rightarrow> u16" where
  "rta_len mem rta = load mem 2 rta"

definition RTA_ALIGNTO :: u32 where
  "RTA_ALIGNTO = 4"

definition RTA_ALIGN :: "'a::len word \<Rightarrow> 'a word" where
  "RTA_ALIGN len = (len + ucast RTA_ALIGNTO - 1) AND ucast (NOT (RTA_ALIGNTO - 1))"

definition RTA_OK :: "memory \<Rightarrow> u64 \<Rightarrow> u32 \<Rightarrow> bool" where
  "RTA_OK mem rta len \<longleftrightarrow>
     4 \<le>s len \<and> (4 :: u64) \<le> ucast (prom (rta_len mem rta)) \<and> prom (rta_len mem rta) \<le>s len"

definition RTA_NEXT :: "memory \<Rightarrow> u64 \<Rightarrow> u32 \<Rightarrow> u64 \<times> u32" where
  "RTA_NEXT mem rta attrlen =
     (let attrlen1 = attrlen - RTA_ALIGN (prom (rta_len mem rta))
      in (rta + ucast (RTA_ALIGN (prom (rta_len mem rta))), attrlen1))"

definition RTA_LENGTH :: "u64 \<Rightarrow> u64" where
  "RTA_LENGTH len = RTA_ALIGN 4 + len"

definition RTA_SPACE :: "u64 \<Rightarrow> u64" where
  "RTA_SPACE len = RTA_ALIGN (RTA_LENGTH len)"

definition RTA_DATA :: "u64 \<Rightarrow> u64" where
  "RTA_DATA rta = rta + RTA_LENGTH 0"

definition RTA_PAYLOAD :: "memory \<Rightarrow> u64 \<Rightarrow> u64" where
  "RTA_PAYLOAD mem rta = scast (prom (rta_len mem rta)) - RTA_LENGTH 0"

text \<open>The attributes behind the fixed part of a message, and the bytes left for them.\<close>

definition RTM_RTA :: "u64 \<Rightarrow> u64" where
  "RTM_RTA r = r + NLMSG_ALIGN 12"

definition RTM_PAYLOAD :: "memory \<Rightarrow> u64 \<Rightarrow> u64" where
  "RTM_PAYLOAD mem n = NLMSG_PAYLOAD mem n 12"

definition TCA_RTA :: "u64 \<Rightarrow> u64" where
  "TCA_RTA r = r + NLMSG_ALIGN 20"

definition TCA_PAYLOAD :: "memory \<Rightarrow> u64 \<Rightarrow> u64" where
  "TCA_PAYLOAD mem n = NLMSG_PAYLOAD mem n 20"

definition TA_RTA :: "u64 \<Rightarrow> u64" where
  "TA_RTA r = r + NLMSG_ALIGN 4"

definition TA_PAYLOAD :: "memory \<Rightarrow> u64 \<Rightarrow> u64" where
  "TA_PAYLOAD mem n = NLMSG_PAYLOAD mem n 4"

definition IFA_RTA :: "u64 \<Rightarrow> u64" where
  "IFA_RTA r = r + NLMSG_ALIGN 8"

definition IFA_PAYLOAD :: "memory \<Rightarrow> u64 \<Rightarrow> u64" where
  "IFA_PAYLOAD mem n = NLMSG_PAYLOAD mem n 8"

definition IFLA_RTA :: "u64 \<Rightarrow> u64" where
  "IFLA_RTA r = r + NLMSG_ALIGN 16"

definition IFLA_PAYLOAD :: "memory \<Rightarrow> u64 \<Rightarrow> u64" where
  "IFLA_PAYLOAD mem n = NLMSG_PAYLOAD mem n 16"

text \<open>Next hops.\<close>

definition rtnh_len :: "memory \<Rightarrow> u64 \<Rightarrow> u16" where
  "rtnh_len mem rtnh = load mem 2 rtnh"

definition RTNH_ALIGNTO :: u32 where
  "RTNH_ALIGNTO = 4"

definition RTNH_ALIGN :: "'a::len word \<Rightarrow> 'a word" where
  "RTNH_ALIGN len = (len + scast RTNH_ALIGNTO - 1) AND scast (NOT (RTNH_ALIGNTO - 1))"

definition RTNH_OK :: "memory \<Rightarrow> u64 \<Rightarrow> u32 \<Rightarrow> bool" where
  "RTNH_OK mem rtnh len \<longleftrightarrow> (8 :: u64) \<le> ucast (prom (rtnh_len mem rtnh)) \<and> prom (rtnh_len mem rtnh) \<le>s len"

definition RTNH_NEXT :: "memory \<Rightarrow> u64 \<Rightarrow> u64" where
  "RTNH_NEXT mem rtnh = rtnh + scast (RTNH_ALIGN (prom (rtnh_len mem rtnh)))"

definition RTNH_LENGTH :: "u64 \<Rightarrow> u64" where
  "RTNH_LENGTH len = RTNH_ALIGN 8 + len"

definition RTNH_SPACE :: "u64 \<Rightarrow> u64" where
  "RTNH_SPACE len = RTNH_ALIGN (RTNH_LENGTH len)"

definition RTNH_DATA :: "u64 \<Rightarrow> u64" where
  "RTNH_DATA rtnh = rtnh + RTNH_LENGTH 0"

section \<open>Netfilter attributes: \<open>linux/netfilter/nfnetlink_compat.h\<close>\<close>

definition nfa_len :: "memory \<Rightarrow> u64 \<Rightarrow> u16" where
  "nfa_len mem nfa = load mem 2 nfa"

definition nfa_type :: "memory \<Rightarrow> u64 \<Rightarrow> u16" where
  "nfa_type mem nfa = load mem 2 (nfa + 2)"

definition NFNL_NFA_NEST :: u32 where
  "NFNL_NFA_NEST = 0x8000"

definition NFA_TYPE :: "memory \<Rightarrow> u64 \<Rightarrow> u32" where
  "NFA_TYPE mem attr = prom (nfa_type mem attr) AND 0x7fff"

definition NFA_ALIGNTO :: u32 where
  "NFA_ALIGNTO = 4"

definition NFA_ALIGN :: "'a::len word \<Rightarrow> 'a word" where
  "NFA_ALIGN len = (len + scast NFA_ALIGNTO - 1) AND scast (NOT (NFA_ALIGNTO - 1))"

definition NFA_OK :: "memory \<Rightarrow> u64 \<Rightarrow> u32 \<Rightarrow> bool" where
  "NFA_OK mem nfa len \<longleftrightarrow>
     0 <s len \<and> (4 :: u64) \<le> ucast (prom (nfa_len mem nfa)) \<and> prom (nfa_len mem nfa) \<le>s len"

definition NFA_NEXT :: "memory \<Rightarrow> u64 \<Rightarrow> u32 \<Rightarrow> u64 \<times> u32" where
  "NFA_NEXT mem nfa attrlen =
     (let attrlen1 = attrlen - NFA_ALIGN (prom (nfa_len mem nfa))
      in (nfa + scast (NFA_ALIGN (prom (nfa_len mem nfa))), attrlen1))"

definition NFA_LENGTH :: "u64 \<Rightarrow> u64" where
  "NFA_LENGTH len = NFA_ALIGN 4 + len"

definition NFA_SPACE :: "u64 \<Rightarrow> u64" where
  "NFA_SPACE len = NFA_ALIGN (NFA_LENGTH len)"

definition NFA_DATA :: "u64 \<Rightarrow> u64" where
  "NFA_DATA nfa = nfa + NFA_LENGTH 0"

definition NFA_PAYLOAD :: "memory \<Rightarrow> u64 \<Rightarrow> u64" where
  "NFA_PAYLOAD mem nfa = scast (prom (nfa_len mem nfa)) - NFA_LENGTH 0"

definition NFM_NFA :: "u64 \<Rightarrow> u64" where
  "NFM_NFA n = n + NLMSG_ALIGN 4"

definition NFM_PAYLOAD :: "memory \<Rightarrow> u64 \<Rightarrow> u64" where
  "NFM_PAYLOAD mem n = NLMSG_PAYLOAD mem n 4"

section \<open>File system events: \<open>linux/fanotify.h\<close>\<close>

definition event_len :: "memory \<Rightarrow> u64 \<Rightarrow> u32" where
  "event_len mem meta = load mem 4 meta"

definition FAN_EVENT_METADATA_LEN :: u64 where
  "FAN_EVENT_METADATA_LEN = 24"

definition FAN_EVENT_NEXT :: "memory \<Rightarrow> u64 \<Rightarrow> u64 \<Rightarrow> u64 \<times> u64" where
  "FAN_EVENT_NEXT mem meta len =
     (let len1 = len - ucast (event_len mem meta) in (meta + ucast (event_len mem meta), len1))"

definition FAN_EVENT_OK :: "memory \<Rightarrow> u64 \<Rightarrow> u64 \<Rightarrow> bool" where
  "FAN_EVENT_OK mem meta len \<longleftrightarrow>
     FAN_EVENT_METADATA_LEN \<le>s len \<and> FAN_EVENT_METADATA_LEN \<le>s ucast (event_len mem meta) \<and>
     ucast (event_len mem meta) \<le>s len"

section \<open>The contract of the walks\<close>

lemmas align_defs = NLMSG_ALIGN_def NLMSG_ALIGNTO_def RTA_ALIGN_def RTA_ALIGNTO_def NFA_ALIGN_def NFA_ALIGNTO_def
  RTNH_ALIGN_def RTNH_ALIGNTO_def NLA_ALIGN_def NLA_ALIGNTO_def

lemma align_u32:
  fixes x :: u32
  assumes "unat x + 4 \<le> 2 ^ 32"
  shows "unat (NLMSG_ALIGN x) = round_up 4 (unat x)" "unat (RTA_ALIGN x) = round_up 4 (unat x)"
    "unat (NFA_ALIGN x) = round_up 4 (unat x)" "unat (RTNH_ALIGN x) = round_up 4 (unat x)"
proof -
  have "unat (3 + x AND - 4) = round_up 4 (unat x)"
    using mask_round_up [of x 2] assms by (simp add: mask_eq_exp_minus_1 add.commute [of 3 x])
  then show "unat (NLMSG_ALIGN x) = round_up 4 (unat x)" "unat (RTA_ALIGN x) = round_up 4 (unat x)"
    "unat (NFA_ALIGN x) = round_up 4 (unat x)" "unat (RTNH_ALIGN x) = round_up 4 (unat x)"
    by (simp_all add: align_defs)
qed

text \<open>An aligned length as a word of either width.\<close>

lemma align_of_nat:
  fixes x :: u32
  assumes "unat x < 2 ^ 31"
  shows "NLMSG_ALIGN x = of_nat (round_up 4 (unat x))" "RTA_ALIGN x = of_nat (round_up 4 (unat x))"
    "NFA_ALIGN x = of_nat (round_up 4 (unat x))"
    "(ucast (NLMSG_ALIGN x) :: u64) = of_nat (round_up 4 (unat x))"
    "(ucast (RTA_ALIGN x) :: u64) = of_nat (round_up 4 (unat x))"
proof -
  have "unat x + 4 \<le> 2 ^ 32" using assms by simp
  note a = align_u32 [OF this]
  show "NLMSG_ALIGN x = of_nat (round_up 4 (unat x))" "(ucast (NLMSG_ALIGN x) :: u64) = of_nat (round_up 4 (unat x))"
    by (simp_all flip: a(1))
  show "RTA_ALIGN x = of_nat (round_up 4 (unat x))" "(ucast (RTA_ALIGN x) :: u64) = of_nat (round_up 4 (unat x))"
    by (simp_all flip: a(2))
  show "NFA_ALIGN x = of_nat (round_up 4 (unat x))" by (simp flip: a(3))
qed

lemma scast_small: "unat (x :: u32) < 2 ^ 31 \<Longrightarrow> (scast x :: u64) = of_nat (unat x)"
  using unat_sint [of x] by (simp add: scast_eq)

lemma sint_prom16: "sint (prom (x :: u16)) = int (unat x)"
  using unat_sint [of "prom x"] unat_u16 [of x] by simp

lemma round_up_4: "n \<le> round_up 4 n" "round_up 4 n \<le> n + 3"
  using round_up_bounds [of 4 n] by simp_all

lemma sint_left:
  fixes l :: u32
  assumes "int n \<le> sint l"
  shows "sint (l - of_nat (round_up 4 n)) = sint l - int (round_up 4 n)"
  by (rule sint_diff_of_nat) (use assms round_up_4 [of n] in simp)

lemma sint_u32: "sint (x :: u32) < 2 ^ 31"
  using sint_lt [of x] by simp

interpretation nlmsg: length_walk NLMSG_OK NLMSG_NEXT "\<lambda>mem p. unat (nlmsg_len mem p)" 16 "round_up 4"
proof
  fix mem p and l :: u32
  let ?n = "nlmsg_len mem p"
  show ok: "NLMSG_OK mem p l \<longleftrightarrow> 16 \<le> unat ?n \<and> int (unat ?n) \<le> sint l"
    using sint_unat [of l] by (auto simp: NLMSG_OK_def word_sle_eq word_le_nat_alt simp del: of_nat_unat)
  assume "NLMSG_OK mem p l"
  then have l: "int (unat ?n) \<le> sint l" by (simp add: ok)
  then have "int (unat ?n) < 2 ^ 31" using sint_u32 [of l] by linarith
  then have "unat ?n < 2 ^ 31" by (simp del: of_nat_unat)
  note a = align_of_nat [OF this]
  show "fst (NLMSG_NEXT mem p l) = p + of_nat (round_up 4 (unat ?n))"
    by (simp add: NLMSG_NEXT_def a(4))
  show "sint (snd (NLMSG_NEXT mem p l)) = sint l - int (round_up 4 (unat ?n))"
    by (simp add: NLMSG_NEXT_def a(1) sint_left [OF l])
qed (simp_all add: round_up_4)

interpretation rta: length_walk RTA_OK RTA_NEXT "\<lambda>mem p. unat (rta_len mem p)" 4 "round_up 4"
proof
  fix mem p and l :: u32
  let ?n = "rta_len mem p"
  show ok: "RTA_OK mem p l \<longleftrightarrow> 4 \<le> unat ?n \<and> int (unat ?n) \<le> sint l"
    by (auto simp: RTA_OK_def word_sle_eq word_le_nat_alt sint_prom16 simp del: of_nat_unat)
  assume "RTA_OK mem p l"
  then have l: "int (unat ?n) \<le> sint l" by (simp add: ok)
  have "unat (prom ?n) < 2 ^ 31" using unat_u16 [of ?n] by simp
  note a = align_of_nat [OF this]
  show "fst (RTA_NEXT mem p l) = p + of_nat (round_up 4 (unat ?n))"
    by (simp add: RTA_NEXT_def a(5))
  show "sint (snd (RTA_NEXT mem p l)) = sint l - int (round_up 4 (unat ?n))"
    by (simp add: RTA_NEXT_def a(2) sint_left [OF l])
qed (simp_all add: round_up_4)

interpretation nfa: length_walk NFA_OK NFA_NEXT "\<lambda>mem p. unat (nfa_len mem p)" 4 "round_up 4"
proof
  fix mem p and l :: u32
  let ?n = "nfa_len mem p"
  show ok: "NFA_OK mem p l \<longleftrightarrow> 4 \<le> unat ?n \<and> int (unat ?n) \<le> sint l"
    by (auto simp: NFA_OK_def word_sle_eq word_sless_alt word_le_nat_alt sint_prom16 simp del: of_nat_unat)
  assume "NFA_OK mem p l"
  then have l: "int (unat ?n) \<le> sint l" by (simp add: ok)
  have n: "unat (prom ?n) < 2 ^ 31" using unat_u16 [of ?n] by simp
  note a = align_of_nat [OF this]
  have "unat (NFA_ALIGN (prom ?n)) = round_up 4 (unat ?n)" using align_u32(3) [of "prom ?n"] n by simp
  moreover from this have "unat (NFA_ALIGN (prom ?n)) < 2 ^ 31" using round_up_4(2) [of "unat ?n"] unat_u16 [of ?n] by simp
  ultimately show "fst (NFA_NEXT mem p l) = p + of_nat (round_up 4 (unat ?n))"
    by (simp add: NFA_NEXT_def scast_small)
  show "sint (snd (NFA_NEXT mem p l)) = sint l - int (round_up 4 (unat ?n))"
    by (simp add: NFA_NEXT_def a(3) sint_left [OF l])
qed (simp_all add: round_up_4)

interpretation fan: length_walk FAN_EVENT_OK FAN_EVENT_NEXT "\<lambda>mem p. unat (event_len mem p)" 24 id
proof
  fix mem p and l :: u64
  let ?n = "event_len mem p"
  have "unat ?n < 2 ^ LENGTH(32)" by (rule unsigned_less)
  then have n: "sint (ucast ?n :: u64) = int (unat ?n)"
    using unat_sint [of "ucast ?n :: u64"] unsigned_less [of ?n] by (simp_all add:)
  show ok: "FAN_EVENT_OK mem p l \<longleftrightarrow> 24 \<le> unat ?n \<and> int (unat ?n) \<le> sint l"
    by (auto simp: FAN_EVENT_OK_def FAN_EVENT_METADATA_LEN_def word_sle_eq n simp del: of_nat_unat)
  assume "FAN_EVENT_OK mem p l"
  then have l: "int (unat ?n) \<le> sint l" by (simp add: ok)
  show "fst (FAN_EVENT_NEXT mem p l) = p + of_nat (id (unat ?n))"
    by (simp add: FAN_EVENT_NEXT_def)
  have "sint (l - of_nat (unat ?n)) = sint l - int (unat ?n)" by (rule sint_diff_of_nat) (use l in simp)
  then show "sint (snd (FAN_EVENT_NEXT mem p l)) = sint l - int (id (unat ?n))"
    by (simp add: FAN_EVENT_NEXT_def)
qed simp_all

section \<open>What the walks visit\<close>

lemma header_sizes [simp]: "NLMSG_HDRLEN = 16" "NLMSG_ALIGN (12 :: u64) = 12" "RTA_ALIGN (4 :: u64) = 4" "NFA_ALIGN (4 :: u64) = 4"
  "NLMSG_SPACE 12 = 28"
  by (simp_all add: NLMSG_HDRLEN_def NLMSG_SPACE_def NLMSG_LENGTH_def align_defs)

text \<open>
  C33. Walking over a buffer with the macros ends for every content of the buffer and every loop body,
  for messages, route attributes, netfilter attributes and file system events. The records visited lie in the buffer,
  complete with their header, one behind the other, and at each the number of bytes left is exact.
\<close>

theorem netlink_walks_end:
  fixes len :: u32 and n :: u64
  assumes "int (unat p) + sint len \<le> 2 ^ 64" and "int (unat p) + sint n \<le> 2 ^ 64"
  shows "(\<exists>is final. (\<forall>body (s :: 's). c_for (\<lambda>(p, l). NLMSG_OK mem p l) (\<lambda>(p, l). NLMSG_NEXT mem p l) body (p, len) s =
              Some (visit body is final s)) \<and>
            inside (\<lambda>q. unat (nlmsg_len mem q)) 16 (round_up 4) p (sint len) is) \<and>
         (\<exists>is final. (\<forall>body (s :: 's). c_for (\<lambda>(p, l). RTA_OK mem p l) (\<lambda>(p, l). RTA_NEXT mem p l) body (p, len) s =
              Some (visit body is final s)) \<and>
            inside (\<lambda>q. unat (rta_len mem q)) 4 (round_up 4) p (sint len) is) \<and>
         (\<exists>is final. (\<forall>body (s :: 's). c_for (\<lambda>(p, l). NFA_OK mem p l) (\<lambda>(p, l). NFA_NEXT mem p l) body (p, len) s =
              Some (visit body is final s)) \<and>
            inside (\<lambda>q. unat (nfa_len mem q)) 4 (round_up 4) p (sint len) is) \<and>
         (\<exists>is final. (\<forall>body (s :: 's). c_for (\<lambda>(p, l). FAN_EVENT_OK mem p l) (\<lambda>(p, l). FAN_EVENT_NEXT mem p l) body (p, n) s =
              Some (visit body is final s)) \<and>
            inside (\<lambda>q. unat (event_len mem q)) 24 id p (sint n) is)"
  using nlmsg.walk_inside [OF assms(1)] rta.walk_inside [OF assms(1)] nfa.walk_inside [OF assms(1)] fan.walk_inside [OF assms(2)]
  by (intro conjI) blast+

text \<open>Attributes in a message: where they start and how many bytes there are.\<close>

lemma route_payload:
  assumes "unat (nlmsg_len mem q) < 2 ^ 31"
  shows "sint (ucast (RTM_PAYLOAD mem q) :: u32) = int (unat (nlmsg_len mem q)) - 28"
proof -
  let ?n = "nlmsg_len mem q"
  have "(ucast (RTM_PAYLOAD mem q) :: u32) = ?n - of_nat 28"
    by (simp add: RTM_PAYLOAD_def NLMSG_PAYLOAD_def ucast_down_diff)
  moreover have "sint ?n = int (unat ?n)" using unat_sint [of ?n] assms by simp
  ultimately show ?thesis using sint_diff_of_nat [of ?n 28] by (simp del: of_nat_unat)
qed

text \<open>
  C34. Nested walks compose: in a message that the outer macros accept, the walk over its route
  attributes ends and every attribute lies behind the fixed part of the message and inside it. A
  message too short for the fixed part has no attributes, although its payload size wraps around.
\<close>

theorem route_attributes_in_message:
  assumes "NLMSG_OK mem q len" and "int (unat q) + sint len \<le> 2 ^ 64"
  shows "\<exists>attrs final.
     (\<forall>body (s :: 's). c_for (\<lambda>(p, l). RTA_OK mem p l) (\<lambda>(p, l). RTA_NEXT mem p l) body
         (RTM_RTA (NLMSG_DATA q), ucast (RTM_PAYLOAD mem q)) s = Some (visit body attrs final s)) \<and>
     list_all (\<lambda>(a, _). unat q + 28 \<le> unat a \<and> 4 \<le> unat (rta_len mem a) \<and>
        unat a + unat (rta_len mem a) \<le> unat q + unat (nlmsg_len mem q)) attrs \<and>
     (unat (nlmsg_len mem q) < 28 \<longrightarrow> attrs = [])"
proof -
  let ?n = "unat (nlmsg_len mem q)" and ?a = "q + 28"
  have n: "16 \<le> ?n" "int ?n \<le> sint len" using assms(1) by (simp_all only: nlmsg.ok_iff)
  then have "?n < 2 ^ 31" using sint_u32 [of len] by (simp del: of_nat_unat)
  note l = route_payload [OF this]
  have start: "RTM_RTA (NLMSG_DATA q) = ?a" by (simp add: RTM_RTA_def NLMSG_DATA_def NLMSG_LENGTH_def)
  show ?thesis
  proof (cases "?n < 32")
    case True
    then have "\<not> RTA_OK mem ?a (ucast (RTM_PAYLOAD mem q))" using l by (simp add: rta.ok_iff del: of_nat_unat)
    then have "walk RTA_OK RTA_NEXT mem (?a, ucast (RTM_PAYLOAD mem q)) [] (?a, ucast (RTM_PAYLOAD mem q))" by simp
    from c_for_chain [OF this] show ?thesis unfolding start by fastforce
  next
    case False
    have "int (unat q + 28) < 2 ^ 64" using False n assms(2) by (simp del: of_nat_unat)
    then have "unat q + 28 < 2 ^ LENGTH(64)" by (simp del: of_nat_unat)
    then have a: "unat ?a = unat q + 28" by (simp add: unat_word_ariths)
    have "int (unat ?a) + sint (ucast (RTM_PAYLOAD mem q) :: u32) \<le> 2 ^ 64"
      using a l n assms(2) by (simp del: of_nat_unat)
    from rta.walk_inside [OF this, of mem] obtain attrs final where
      loop: "\<forall>body (s :: 's). c_for (\<lambda>(p, l). RTA_OK mem p l) (\<lambda>(p, l). RTA_NEXT mem p l) body
         (?a, ucast (RTM_PAYLOAD mem q)) s = Some (visit body attrs final s)"
      and ins: "inside (\<lambda>q. unat (rta_len mem q)) 4 (round_up 4) ?a (sint (ucast (RTM_PAYLOAD mem q) :: u32)) attrs"
      by blast
    have "unat q + 28 \<le> unat b \<and> 4 \<le> unat (rta_len mem b) \<and> unat b + unat (rta_len mem b) \<le> unat q + ?n"
      if "(b, k) \<in> set attrs" for b k
    proof -
      have "unat ?a \<le> unat b \<and> 4 \<le> unat (rta_len mem b) \<and>
          int (unat b + unat (rta_len mem b)) \<le> int (unat ?a) + sint (ucast (RTM_PAYLOAD mem q) :: u32)"
        using bspec [OF conjunct1 [OF ins [unfolded inside_def list_all_iff]] that] by (simp only: prod.case)
      then show ?thesis unfolding a l by linarith
    qed
    then have "list_all (\<lambda>(b, _). unat q + 28 \<le> unat b \<and> 4 \<le> unat (rta_len mem b) \<and>
        unat b + unat (rta_len mem b) \<le> unat q + ?n) attrs"
      by (auto simp: list_all_iff)
    then show ?thesis
      unfolding start using loop False by (intro exI [of _ attrs] exI [of _ final] conjI) simp_all
  qed
qed

lemma align_u64:
  assumes "unat (x :: u64) + 4 \<le> 2 ^ 32"
  shows "unat (RTA_ALIGN x) = round_up 4 (unat x)"
proof -
  let ?y = "x + 3"
  have y: "unat ?y = unat x + 3" using assms by (simp add: unat_word_ariths)
  then have "take_bit 32 (unat ?y) = unat ?y" using assms by (intro take_bit_nat_eq_self) simp
  then have "unat (take_bit 32 ?y) = unat ?y" by (simp only: unsigned_take_bit_eq)
  then have "take_bit 32 ?y = ?y" by (simp only: word_unat_eq_iff)
  moreover have "(4294967292 :: u64) = mask 32 AND NOT (mask 2)" by (simp add: mask_eq_exp_minus_1)
  ultimately have "?y AND 4294967292 = ?y AND NOT (mask 2)"
    by (simp only: and.assoc [symmetric] take_bit_eq_mask [symmetric])
  then show ?thesis
    using mask_round_up [of x 2] assms by (simp add: RTA_ALIGN_def RTA_ALIGNTO_def mask_eq_exp_minus_1 add.commute [of 3 x])
qed

lemma attribute_sizes:
  assumes "n \<le> 65531"
  shows "unat (RTA_LENGTH (of_nat n)) = n + 4" "unat (RTA_SPACE (of_nat n)) = round_up 4 (n + 4)"
proof -
  show l: "unat (RTA_LENGTH (of_nat n)) = n + 4"
    using assms by (simp add: RTA_LENGTH_def unat_word_ariths unat_of_nat)
  show "unat (RTA_SPACE (of_nat n)) = round_up 4 (n + 4)"
    using align_u64 [of "RTA_LENGTH (of_nat n)"] l assms by (simp add: RTA_SPACE_def)
qed

lemma payload_of_length: "RTA_PAYLOAD mem q = of_nat (unat (rta_len mem q)) - 4"
  using scast_small [of "prom (rta_len mem q)"] unat_u16 [of "rta_len mem q"]
  by (simp add: RTA_PAYLOAD_def RTA_LENGTH_def)

text \<open>
  Attributes are read back as they were laid out: for payloads of any sizes an attribute can
  have, in records whose length field holds \<open>RTA_LENGTH\<close> of the size and which follow each other at
  distances of \<open>RTA_SPACE\<close>, the walk finds exactly the payloads, at \<open>RTA_DATA\<close> and with their size.
\<close>

theorem attributes_read_back:
  assumes "list_all (\<lambda>n. n \<le> 65531) ns"
    and "placed (\<lambda>q. unat (rta_len mem q)) (round_up 4) p (map (\<lambda>n. unat (RTA_LENGTH (of_nat n))) ns)"
    and "sint len = int (sum_list (map (\<lambda>n. unat (RTA_SPACE (of_nat n))) ns))"
  shows "\<exists>final. c_for (\<lambda>(p, l). RTA_OK mem p l) (\<lambda>(p, l). RTA_NEXT mem p l)
       (collect (\<lambda>(q, _). (RTA_DATA q, RTA_PAYLOAD mem q))) (p, len) [] =
     Some (0, final, zip (map RTA_DATA (starts (\<lambda>n. unat (RTA_SPACE (of_nat n))) p ns)) (map of_nat ns))"
proof -
  let ?ns = "map (\<lambda>n. n + 4) ns"
  have sizes: "map (\<lambda>n. unat (RTA_LENGTH (of_nat n))) ns = ?ns" "map (\<lambda>n. unat (RTA_SPACE (of_nat n))) ns = map (round_up 4) ?ns"
    using assms(1) attribute_sizes by (auto simp: list_all_iff)
  have st: "starts (\<lambda>n. unat (RTA_SPACE (of_nat n))) p ns = starts (round_up 4) p ?ns"
    using assms(1) attribute_sizes by (auto simp: list_all_iff starts_map intro!: starts_cong)
  have "needed (round_up 4) ?ns \<le> sum_list (map (round_up 4) ?ns)" by (rule needed_le) (rule round_up_4)
  then obtain "is" final where w: "walk RTA_OK RTA_NEXT mem (p, len) is final" and "is": "map fst is = starts (round_up 4) p ?ns"
    using rta.walk_all [OF assms(2) [unfolded sizes], of len] assms(3) [unfolded sizes] by (auto simp: list_all_iff)
  have "map (\<lambda>(q, _). (RTA_DATA q, RTA_PAYLOAD mem q)) is = map (\<lambda>q. (RTA_DATA q, RTA_PAYLOAD mem q)) (map fst is)"
    by (simp add: case_prod_unfold)
  also have "\<dots> = zip (map RTA_DATA (starts (round_up 4) p ?ns)) (map (RTA_PAYLOAD mem) (starts (round_up 4) p ?ns))"
    unfolding "is" by (simp add: zip_map_map zip_same_conv_map)
  also have "map (RTA_PAYLOAD mem) (starts (round_up 4) p ?ns) = map (\<lambda>m. of_nat m - 4) (map (\<lambda>q. unat (rta_len mem q)) (starts (round_up 4) p ?ns))"
    by (simp add: payload_of_length)
  also have "\<dots> = map of_nat ns"
    unfolding placed_starts [OF assms(2) [unfolded sizes]] by simp
  finally show ?thesis unfolding c_for_chain [OF w] visit_collect st by simp
qed

section \<open>Examples\<close>

text \<open>A route message of 40 bytes at address 64 with attributes of 4 and 8 bytes at 92 and 96.\<close>

definition sampleMessage :: memory where
  "sampleMessage = (\<lambda>_. 0)(64 := 40, 92 := 4, 96 := 8)"

lemma sample_lengths:
  "nlmsg_len sampleMessage 64 = 40" "rta_len sampleMessage 92 = 4" "rta_len sampleMessage 96 = 8"
  by (simp_all add: nlmsg_len_def rta_len_def load_def sampleMessage_def upt_rec)

theorem netlink_walks_end_witness:
  "\<exists>is final. (\<forall>body (s :: nat). c_for (\<lambda>(p, l). RTA_OK sampleMessage p l) (\<lambda>(p, l). RTA_NEXT sampleMessage p l) body (92, 12) s =
        Some (visit body is final s)) \<and>
     inside (\<lambda>q. unat (rta_len sampleMessage q)) 4 (round_up 4) 92 12 is"
  using netlink_walks_end [of 92 12 12 sampleMessage, where 's = nat] by simp

theorem route_attributes_in_message_witness:
  "\<exists>attrs final.
     (\<forall>body (s :: nat). c_for (\<lambda>(p, l). RTA_OK sampleMessage p l) (\<lambda>(p, l). RTA_NEXT sampleMessage p l) body
         (RTM_RTA (NLMSG_DATA 64), ucast (RTM_PAYLOAD sampleMessage 64)) s = Some (visit body attrs final s)) \<and>
     list_all (\<lambda>(a, _). 92 \<le> unat a \<and> unat a + unat (rta_len sampleMessage a) \<le> 104) attrs"
proof -
  have "NLMSG_OK sampleMessage 64 40" by (simp add: NLMSG_OK_def sample_lengths)
  from route_attributes_in_message [OF this, where 's = nat] show ?thesis
    by (fastforce simp: sample_lengths list_all_iff)
qed

theorem attributes_read_back_witness:
  "\<exists>final. c_for (\<lambda>(p, l). RTA_OK sampleMessage p l) (\<lambda>(p, l). RTA_NEXT sampleMessage p l)
       (collect (\<lambda>(q, _). (RTA_DATA q, RTA_PAYLOAD sampleMessage q))) (92, 12) [] =
     Some (0, final, [(96, 0), (100, 4)])"
proof -
  have "unat (RTA_SPACE 0) = 4" "unat (RTA_SPACE 4) = 8" "unat (RTA_LENGTH 0) = 4" "unat (RTA_LENGTH 4) = 8"
    by (simp_all add: RTA_SPACE_def RTA_LENGTH_def align_defs)
  then show ?thesis
    using attributes_read_back [of "[0, 4]" sampleMessage 92 12] sample_lengths
    by (simp add: round_up_def RTA_DATA_def RTA_LENGTH_def)
qed

end
