(* ===== verification/Ancillary_Data.thy ===== *)
theory Ancillary_Data
  imports C_Loops
begin

text \<open>
  Ancillary data of sockets, \<open>bits/socket.h\<close> of the sysroot: the macros \<open>CMSG_*\<close> and the inline function
  \<open>__cmsg_nxthdr\<close>, over memory with 64-bit addresses, where a pointer sum wraps around. Of the message
  header the two fields that the macros read are modelled. Which of the two bodies \<open>CMSG_DATA\<close> has is an
  argument. The walk of the theorems is \<open>for (c = CMSG_FIRSTHDR(m); c; c = CMSG_NXTHDR(m, c))\<close>.
\<close>

unbundle bit_operations_syntax

section \<open>Model\<close>

record msghdr =
  msg_control :: u64
  msg_controllen :: u64

definition sizeof_cmsghdr :: u64 where
  "sizeof_cmsghdr = 16"

definition cmsg_len :: "memory \<Rightarrow> u64 \<Rightarrow> u64" where
  "cmsg_len mem cmsg = load mem 8 cmsg"

definition CMSG_DATA :: "bool \<Rightarrow> u64 \<Rightarrow> u64" where
  "CMSG_DATA flexarr cmsg = (if flexarr then cmsg + 16 else cmsg + 1 * sizeof_cmsghdr)"

definition CMSG_FIRSTHDR :: "msghdr \<Rightarrow> u64" where
  "CMSG_FIRSTHDR mhdr = (if sizeof_cmsghdr \<le> msg_controllen mhdr then msg_control mhdr else 0)"

definition CMSG_ALIGN :: "u64 \<Rightarrow> u64" where
  "CMSG_ALIGN len = (len + 8 - 1) AND NOT (8 - 1)"

definition CMSG_SPACE :: "u64 \<Rightarrow> u64" where
  "CMSG_SPACE len = CMSG_ALIGN len + CMSG_ALIGN sizeof_cmsghdr"

definition CMSG_LEN :: "u64 \<Rightarrow> u64" where
  "CMSG_LEN len = CMSG_ALIGN sizeof_cmsghdr + len"

definition cmsg_nxthdr :: "memory \<Rightarrow> msghdr \<Rightarrow> u64 \<Rightarrow> u64" where
  "cmsg_nxthdr mem mhdr cmsg =
     (if cmsg_len mem cmsg < sizeof_cmsghdr then 0
      else
        let cmsg1 = cmsg + CMSG_ALIGN (cmsg_len mem cmsg)
        in if cmsg1 + sizeof_cmsghdr > msg_control mhdr + msg_controllen mhdr \<or>
              cmsg1 + CMSG_ALIGN (cmsg_len mem cmsg1) > msg_control mhdr + msg_controllen mhdr
           then 0
           else cmsg1)"

definition CMSG_NXTHDR :: "memory \<Rightarrow> msghdr \<Rightarrow> u64 \<Rightarrow> u64" where
  "CMSG_NXTHDR mem mhdr cmsg = cmsg_nxthdr mem mhdr cmsg"

section \<open>Steps\<close>

text \<open>
  What the macros rely on: the buffer lies in the lower quarter of the address space, not at the null
  pointer, and no length field in it is as large as that quarter.
\<close>

definition plausible :: "memory \<Rightarrow> msghdr \<Rightarrow> bool" where
  "plausible mem mhdr \<longleftrightarrow>
     msg_control mhdr \<noteq> 0 \<and> unat (msg_control mhdr) + unat (msg_controllen mhdr) < 2 ^ 62 \<and>
     (\<forall>q. msg_control mhdr \<le> q \<and> q < msg_control mhdr + msg_controllen mhdr \<longrightarrow> unat (cmsg_len mem q) < 2 ^ 62)"

abbreviation buffer_end :: "msghdr \<Rightarrow> nat" where
  "buffer_end mhdr \<equiv> unat (msg_control mhdr) + unat (msg_controllen mhdr)"

lemma cmsg_align: "unat x < 2 ^ 63 \<Longrightarrow> unat (CMSG_ALIGN x) = round_up 8 (unat x)"
  using mask_round_up [of x 3] by (simp add: CMSG_ALIGN_def mask_eq_exp_minus_1 add.commute [of 7 x])

lemma round_up_8: "n \<le> round_up 8 n" "round_up 8 n \<le> n + 7"
  using round_up_bounds [of 8 n] by simp_all

lemma unat_sum: "unat x + unat y < 2 ^ 64 \<Longrightarrow> unat (x + y :: u64) = unat x + unat y"
  by (simp add: unat_word_ariths)

lemma nxthdr_step:
  assumes "plausible mem mhdr" and "msg_control mhdr \<le> c" and "unat c + 16 \<le> buffer_end mhdr"
    and "cmsg_nxthdr mem mhdr c = d" and "d \<noteq> 0"
  shows "16 \<le> unat (cmsg_len mem c) \<and> unat d = unat c + round_up 8 (unat (cmsg_len mem c)) \<and>
     unat d + 16 \<le> buffer_end mhdr \<and> unat d + unat (cmsg_len mem d) \<le> buffer_end mhdr"
proof -
  let ?n = "cmsg_len mem c" and ?e = "msg_control mhdr + msg_controllen mhdr"
  have e: "unat ?e = buffer_end mhdr" "buffer_end mhdr < 2 ^ 62"
    using assms(1) by (simp_all add: plausible_def unat_sum)
  have "c < ?e" using assms(3) e by (simp add: word_less_nat_alt)
  then have n: "unat ?n < 2 ^ 62" using assms(1,2) by (simp add: plausible_def)
  have d: "d = c + CMSG_ALIGN ?n" "16 \<le> unat ?n" "d + 16 \<le> ?e" "d + CMSG_ALIGN (cmsg_len mem d) \<le> ?e"
    using assms(4,5) by (auto simp: cmsg_nxthdr_def Let_def sizeof_cmsghdr_def word_less_nat_alt word_le_nat_alt not_less split: if_splits)
  have a: "unat (CMSG_ALIGN ?n) = round_up 8 (unat ?n)" using cmsg_align [of ?n] n by simp
  have ud: "unat d = unat c + round_up 8 (unat ?n)"
    unfolding d(1) using a round_up_8(2) [of "unat ?n"] n assms(3) e by (subst unat_sum) simp_all
  moreover have "unat (d + 16) = unat d + 16"
    using ud round_up_8(2) [of "unat ?n"] n assms(3) e by (subst unat_sum) simp_all
  moreover from this have d16: "unat d + 16 \<le> buffer_end mhdr" using d(3) e by (simp add: word_le_nat_alt)
  moreover have "unat d + unat (cmsg_len mem d) \<le> buffer_end mhdr"
  proof -
    have "d < ?e" "msg_control mhdr \<le> d" using d16 e ud assms(2) by (simp_all add: word_less_nat_alt word_le_nat_alt)
    then have n': "unat (cmsg_len mem d) < 2 ^ 62" using assms(1) by (simp add: plausible_def)
    then have "unat (CMSG_ALIGN (cmsg_len mem d)) = round_up 8 (unat (cmsg_len mem d))" using cmsg_align by simp
    moreover from this have "unat (d + CMSG_ALIGN (cmsg_len mem d)) = unat d + round_up 8 (unat (cmsg_len mem d))"
      using round_up_8(2) [of "unat (cmsg_len mem d)"] n' d16 e by (subst unat_sum) simp_all
    ultimately show ?thesis using d(4) e round_up_8(1) [of "unat (cmsg_len mem d)"] by (simp add: word_le_nat_alt)
  qed
  ultimately show ?thesis using d(2) by simp
qed

section \<open>The walk\<close>

text \<open>The headers from \<open>c\<close> on: in the buffer, complete from the second on, one behind the other.\<close>

definition headers_ok :: "memory \<Rightarrow> msghdr \<Rightarrow> u64 list \<Rightarrow> bool" where
  "headers_ok mem mhdr is \<longleftrightarrow>
     list_all (\<lambda>c. unat (msg_control mhdr) \<le> unat c \<and> unat c + 16 \<le> buffer_end mhdr) is \<and>
     list_all (\<lambda>c. unat c + unat (cmsg_len mem c) \<le> buffer_end mhdr) (tl is) \<and>
     sorted_wrt (\<lambda>c d. unat c + unat (cmsg_len mem c) \<le> unat d) is"

lemma cmsg_chain:
  assumes "plausible mem mhdr" and "msg_control mhdr \<le> c" and "unat c + 16 \<le> buffer_end mhdr" and "c \<noteq> 0"
  shows "\<exists>is. chain (\<lambda>c. c \<noteq> 0) (CMSG_NXTHDR mem mhdr) c (c # is) 0 \<and>
     list_all (\<lambda>d. unat c + unat (cmsg_len mem c) \<le> unat d) is \<and> headers_ok mem mhdr (c # is)"
  using assms(2-)
proof (induction "buffer_end mhdr - unat c" arbitrary: c rule: less_induct)
  case less
  let ?d = "CMSG_NXTHDR mem mhdr c"
  have c: "headers_ok mem mhdr [c]" using less.prems by (simp add: headers_ok_def word_le_nat_alt)
  show ?case
  proof (cases "?d = 0")
    case True
    then have "chain (\<lambda>c. c \<noteq> 0) (CMSG_NXTHDR mem mhdr) c [c] 0" using less.prems by simp
    with c show ?thesis by fastforce
  next
    case False
    then have d: "16 \<le> unat (cmsg_len mem c)" "unat ?d = unat c + round_up 8 (unat (cmsg_len mem c))"
      "unat ?d + 16 \<le> buffer_end mhdr" "unat ?d + unat (cmsg_len mem ?d) \<le> buffer_end mhdr"
      using nxthdr_step [OF assms(1) less.prems(1,2)] by (auto simp: CMSG_NXTHDR_def)
    have le: "unat c + unat (cmsg_len mem c) \<le> unat ?d" using d(2) round_up_8(1) [of "unat (cmsg_len mem c)"] by simp
    have "buffer_end mhdr - unat ?d < buffer_end mhdr - unat c" "msg_control mhdr \<le> ?d"
      using le d less.prems by (simp_all add: word_le_nat_alt)
    from less.hyps [OF this d(3) False] obtain "is" where
      ch: "chain (\<lambda>c. c \<noteq> 0) (CMSG_NXTHDR mem mhdr) ?d (?d # is) 0"
      and "is": "list_all (\<lambda>d'. unat ?d + unat (cmsg_len mem ?d) \<le> unat d') is" "headers_ok mem mhdr (?d # is)" by blast
    have "list_all (\<lambda>d. unat c + unat (cmsg_len mem c) \<le> unat d) (?d # is)"
      using le "is"(1) by (auto simp: list_all_iff)
    moreover from this have "headers_ok mem mhdr (c # ?d # is)"
      using "is"(2) c d(4) by (auto simp: headers_ok_def list_all_iff)
    moreover have "chain (\<lambda>c. c \<noteq> 0) (CMSG_NXTHDR mem mhdr) c (c # ?d # is) 0" using ch less.prems by simp
    ultimately show ?thesis by blast
  qed
qed


text \<open>
  With a length field of \<open>2^64 - 7\<close> or more the rounded length is zero: the macro returns the header
  it was given, and a walk whose body does not stop by itself never ends.
\<close>

theorem cmsg_walk_stuck:
  assumes "2 ^ 64 - 7 \<le> unat (cmsg_len mem (msg_control mhdr))" and "msg_control mhdr \<noteq> 0"
    and "16 \<le> unat (msg_controllen mhdr)" and "buffer_end mhdr < 2 ^ 64"
    and "\<And>s. fst (body (msg_control mhdr) s) = 0"
  shows "CMSG_NXTHDR mem mhdr (msg_control mhdr) = msg_control mhdr \<and>
     c_for (\<lambda>c. c \<noteq> 0) (CMSG_NXTHDR mem mhdr) body (CMSG_FIRSTHDR mhdr) s = None"
proof -
  let ?n = "cmsg_len mem (msg_control mhdr)" and ?c = "msg_control mhdr"
  have n: "unat ?n < 2 ^ LENGTH(64)" by (rule unsigned_less)
  have "unat (?n + 7) = (unat ?n + 7) mod 2 ^ 64" by (simp add: unat_word_ariths)
  also have "\<dots> = unat ?n + 7 - 2 ^ 64" using assms(1) n by (subst le_mod_geq) simp_all
  finally have "?n + 7 < 2 ^ 3" using n by (simp add: word_less_nat_alt)
  then have "\<not> bit (?n + 7) k" if "3 \<le> k" for k using that by (rule bit_above)
  then have "?n + 7 AND NOT (mask 3) = 0"
    by (intro bit_word_eqI) (metis bit_0_eq bit_and_iff bit_mask_iff bit_not_iff bot_apply bot_bool_def not_le)
  then have z: "CMSG_ALIGN ?n = 0" by (simp add: CMSG_ALIGN_def mask_eq_exp_minus_1 add.commute [of 7])
  have "unat (?c + msg_controllen mhdr) = buffer_end mhdr" "unat (?c + 16) = unat ?c + 16"
    using assms(3,4) by (simp_all add: unat_sum)
  then have nxt: "CMSG_NXTHDR mem mhdr ?c = ?c"
    using z assms(1,3) by (simp add: CMSG_NXTHDR_def cmsg_nxthdr_def sizeof_cmsghdr_def word_less_nat_alt)
  have "CMSG_FIRSTHDR mhdr = ?c" using assms(3) by (simp add: CMSG_FIRSTHDR_def sizeof_cmsghdr_def word_le_nat_alt)
  with nxt c_for_stuck [of "\<lambda>c. c \<noteq> 0" ?c "CMSG_NXTHDR mem mhdr" body s] assms show ?thesis by simp
qed

section \<open>Data laid out with the macros\<close>

lemma cmsg_sizes:
  assumes "n < 2 ^ 62"
  shows "unat (CMSG_LEN (of_nat n)) = n + 16" "unat (CMSG_SPACE (of_nat n)) = round_up 8 (n + 16)"
proof -
  have h: "CMSG_ALIGN sizeof_cmsghdr = 16" by (simp add: CMSG_ALIGN_def sizeof_cmsghdr_def)
  have n: "unat (of_nat n :: u64) = n" using assms by (simp add: unat_of_nat)
  show "unat (CMSG_LEN (of_nat n)) = n + 16" using assms n by (simp add: CMSG_LEN_def h unat_sum)
  have "round_up 8 (n + 16) = round_up 8 n + 16" by (simp add: round_up_def) presburger
  then show "unat (CMSG_SPACE (of_nat n)) = round_up 8 (n + 16)"
    using assms n cmsg_align [of "of_nat n"] round_up_8(2) [of n] by (simp add: CMSG_SPACE_def h unat_sum)
qed

lemma nxthdr_placed:
  assumes "cmsg_len mem c = of_nat m" and "16 \<le> m" and "unat c + round_up 8 m \<le> buffer_end mhdr" and "buffer_end mhdr < 2 ^ 62"
  shows "CMSG_NXTHDR mem mhdr c =
     (let d = c + of_nat (round_up 8 m)
      in if unat d + 16 > buffer_end mhdr \<or> unat (d + CMSG_ALIGN (cmsg_len mem d)) > buffer_end mhdr then 0 else d)"
proof -
  let ?d = "c + of_nat (round_up 8 m)"
  have m: "unat (of_nat m :: u64) = m" "m < 2 ^ 62" using assms(3,4) round_up_8(1) [of m] by (simp_all add: unat_of_nat)
  then have "unat (CMSG_ALIGN (of_nat m)) = round_up 8 m" using cmsg_align [of "of_nat m"] by simp
  then have a: "CMSG_ALIGN (of_nat m) = of_nat (round_up 8 m)"
    using assms(3,4) by (simp add: word_unat_eq_iff unat_of_nat)
  have "unat ?d = unat c + round_up 8 m" using assms(3,4) by (simp add: unat_word_ariths unat_of_nat)
  then have "unat (?d + 16) = unat ?d + 16" using assms(3,4) by (subst unat_sum) simp_all
  moreover have "unat (msg_control mhdr + msg_controllen mhdr) = buffer_end mhdr" using assms(4) by (simp add: unat_sum)
  ultimately show ?thesis
    using assms(1,2) a m by (simp add: CMSG_NXTHDR_def cmsg_nxthdr_def sizeof_cmsghdr_def Let_def word_less_nat_alt)
qed

lemma chain_placed:
  assumes "placed (\<lambda>q. unat (cmsg_len mem q)) (round_up 8) p ms" and "list_all (\<lambda>m. 16 \<le> m) ms" and "ms \<noteq> []"
    and "p \<noteq> 0" and "unat p + sum_list (map (round_up 8) ms) = buffer_end mhdr" and "buffer_end mhdr < 2 ^ 62"
  shows "chain (\<lambda>c. c \<noteq> 0) (CMSG_NXTHDR mem mhdr) p (starts (round_up 8) p ms) 0"
  using assms(1-5)
proof (induction ms arbitrary: p)
  case (Cons m ms)
  let ?d = "p + of_nat (round_up 8 m)"
  have len: "cmsg_len mem p = of_nat m" using Cons.prems(1) by auto
  have ud: "unat ?d = unat p + round_up 8 m" using Cons.prems(5) assms(6) by (simp add: unat_word_ariths unat_of_nat)
  note nxt = nxthdr_placed [OF len, of mhdr] 
  show ?case
  proof (cases ms)
    case Nil
    then have "CMSG_NXTHDR mem mhdr p = 0" using nxt Cons.prems ud assms(6) by (simp add: Let_def)
    then show ?thesis using Nil Cons.prems by simp
  next
    case (Cons m' ms')
    have len': "unat (cmsg_len mem ?d) = m'" "16 \<le> m'" using Cons.prems Cons by auto
    have fits: "unat p + round_up 8 m + round_up 8 m' \<le> buffer_end mhdr" using Cons.prems(5) Cons by simp
    then have "m' < 2 ^ 62" using round_up_8(1) [of m'] assms(6) by simp
    then have "unat (CMSG_ALIGN (cmsg_len mem ?d)) = round_up 8 m'" using cmsg_align [of "cmsg_len mem ?d"] len' by simp
    then have "unat (?d + CMSG_ALIGN (cmsg_len mem ?d)) \<le> buffer_end mhdr"
      using fits ud assms(6) by (subst unat_sum) simp_all
    then have "CMSG_NXTHDR mem mhdr p = ?d"
      using nxt Cons.prems ud fits assms(6) len'(2) round_up_8(1) [of m'] by (simp add: Let_def)
    moreover have "?d \<noteq> 0" using ud Cons.prems(4) by (metis add_is_0 unat_0 unat_eq_zero)
    then have "chain (\<lambda>c. c \<noteq> 0) (CMSG_NXTHDR mem mhdr) ?d (starts (round_up 8) ?d ms) 0"
      using Cons.IH [of ?d] Cons.prems ud Cons by simp
    ultimately show ?thesis using Cons.prems by simp
  qed
qed simp

text \<open>
  Ancillary data comes back as it was laid out: payloads of any sizes behind headers whose length
  is \<open>CMSG_LEN\<close> of the size, at distances of \<open>CMSG_SPACE\<close>, in a buffer of exactly that length, are found by
  the walk in order, at \<open>CMSG_DATA\<close> of each header and with their size.
\<close>

theorem cmsg_read_back:
  assumes "placed (\<lambda>q. unat (cmsg_len mem q)) (round_up 8) (msg_control mhdr) (map (\<lambda>n. unat (CMSG_LEN (of_nat n))) ns)"
    and "ns \<noteq> []" and "list_all (\<lambda>n. n < 2 ^ 62) ns" and "msg_control mhdr \<noteq> 0"
    and "unat (msg_controllen mhdr) = sum_list (map (\<lambda>n. unat (CMSG_SPACE (of_nat n))) ns)"
    and "unat (msg_control mhdr) + unat (msg_controllen mhdr) < 2 ^ 62"
  shows "c_for (\<lambda>c. c \<noteq> 0) (CMSG_NXTHDR mem mhdr)
       (collect (\<lambda>c. (CMSG_DATA flexarr c, cmsg_len mem c - CMSG_LEN 0))) (CMSG_FIRSTHDR mhdr) [] =
     Some (0, 0, zip (map (\<lambda>c. c + 16) (starts (\<lambda>n. unat (CMSG_SPACE (of_nat n))) (msg_control mhdr) ns)) (map of_nat ns))"
proof -
  let ?ns = "map (\<lambda>n. n + 16) ns" and ?p = "msg_control mhdr"
  have sizes: "map (\<lambda>n. unat (CMSG_LEN (of_nat n))) ns = ?ns" "map (\<lambda>n. unat (CMSG_SPACE (of_nat n))) ns = map (round_up 8) ?ns"
    using assms(3) cmsg_sizes by (auto simp: list_all_iff)
  have st: "starts (\<lambda>n. unat (CMSG_SPACE (of_nat n))) ?p ns = starts (round_up 8) ?p ?ns"
    using assms(3) cmsg_sizes by (auto simp: list_all_iff starts_map intro!: starts_cong)
  have ch: "chain (\<lambda>c. c \<noteq> 0) (CMSG_NXTHDR mem mhdr) ?p (starts (round_up 8) ?p ?ns) 0"
    using chain_placed [OF assms(1) [unfolded sizes]] assms(2,4,6) assms(5) [unfolded sizes] by (simp add: list_all_iff)
  obtain n ns' where "ns = n # ns'" using assms(2) by (cases ns) auto
  then have "16 \<le> unat (msg_controllen mhdr)"
    using assms(5) [unfolded sizes] round_up_8(1) [of "n + 16"] by simp
  then have first: "CMSG_FIRSTHDR mhdr = ?p" by (simp add: CMSG_FIRSTHDR_def sizeof_cmsghdr_def word_le_nat_alt)
  let ?st = "starts (round_up 8) ?p ?ns"
  have "cmsg_len mem c - CMSG_LEN 0 = of_nat (unat (cmsg_len mem c)) - 16" "CMSG_DATA flexarr c = c + 16" for c
    by (simp_all add: CMSG_LEN_def CMSG_DATA_def CMSG_ALIGN_def sizeof_cmsghdr_def)
  then have "map (\<lambda>c. (CMSG_DATA flexarr c, cmsg_len mem c - CMSG_LEN 0)) ?st =
      zip (map (\<lambda>c. c + 16) ?st) (map (\<lambda>m. of_nat m - 16) (map (\<lambda>c. unat (cmsg_len mem c)) ?st))"
    by (simp add: zip_map_map zip_same_conv_map)
  also have "map (\<lambda>m. of_nat m - 16 :: u64) (map (\<lambda>c. unat (cmsg_len mem c)) ?st) = map of_nat ns"
    unfolding placed_starts [OF assms(1) [unfolded sizes]] by simp
  finally show ?thesis unfolding first c_for_chain [OF ch] visit_collect st by simp
qed

section \<open>Examples\<close>

text \<open>Two objects, of 4 and 0 bytes, in 40 bytes at address 4096; and one with an absurd length.\<close>

definition sampleControl :: memory where
  "sampleControl = (\<lambda>_. 0)(4096 := 20, 4120 := 16)"

definition sampleHeader :: msghdr where
  "sampleHeader = \<lparr>msg_control = 4096, msg_controllen = 40\<rparr>"

lemma sampleControl_len: "cmsg_len sampleControl 4096 = 20" "cmsg_len sampleControl 4120 = 16"
  by (simp_all add: cmsg_len_def load_def sampleControl_def upt_rec)

theorem cmsg_read_back_witness:
  "c_for (\<lambda>c. c \<noteq> 0) (CMSG_NXTHDR sampleControl sampleHeader)
     (collect (\<lambda>c. (CMSG_DATA True c, cmsg_len sampleControl c - CMSG_LEN 0))) (CMSG_FIRSTHDR sampleHeader) [] =
   Some (0, 0, [(4112, 4), (4136, 0)])"
proof -
  have "unat (CMSG_LEN 4) = 20" "unat (CMSG_LEN 0) = 16" "unat (CMSG_SPACE 4) = 24" "unat (CMSG_SPACE 0) = 16"
    by (simp_all add: CMSG_LEN_def CMSG_SPACE_def CMSG_ALIGN_def sizeof_cmsghdr_def)
  then show ?thesis
    using cmsg_read_back [of sampleControl sampleHeader "[4, 0]" True] sampleControl_len
    by (simp add: sampleHeader_def round_up_def)
qed

theorem cmsg_walk_stuck_witness:
  "c_for (\<lambda>c. c \<noteq> 0) (CMSG_NXTHDR (\<lambda>_. 255) sampleHeader) (\<lambda>c n. (0, Suc n)) (CMSG_FIRSTHDR sampleHeader) 0 = None"
proof -
  have "cmsg_len (\<lambda>_. 255) q = -1" for q by (simp add: cmsg_len_def load_def upt_rec)
  then have "unat (cmsg_len (\<lambda>_. 255) q) = 2 ^ 64 - 1" for q by (simp add: unsigned_minus_1_eq_mask mask_eq_exp_minus_1)
  then show ?thesis
    using cmsg_walk_stuck [of "\<lambda>_. 255" sampleHeader "\<lambda>c n. (0, Suc n)" 0] by (simp add: sampleHeader_def)
qed


end
