(* ===== verification/Table_Entries.thy ===== *)
theory Table_Entries
  imports C_Loops
begin

text \<open>
  Packet filter tables in memory: the iteration macros of \<open>linux/netfilter/x_tables.h\<close> with their instances
  for IPv4, IPv6 and ARP, and those of \<open>linux/netfilter_bridge/ebtables.h\<close>. A table is a sequence of entries
  that say how far the next one is; an entry holds matches that say how long they are. The macro
  argument that is a structure type is a record of its size and the offsets of the fields used (x86-64).
  The function applied to every element takes its address and a state and leaves the table itself
  unchanged. Loop indices are 32-bit words.
\<close>

unbundle bit_operations_syntax

section \<open>Fields\<close>

record entry_type =
  sizeof_entry :: u64
  at_target_offset :: u64
  at_next_offset :: u64

definition ipt_entry :: entry_type where
  "ipt_entry = \<lparr>sizeof_entry = 112, at_target_offset = 88, at_next_offset = 90\<rparr>"

definition ip6t_entry :: entry_type where
  "ip6t_entry = \<lparr>sizeof_entry = 168, at_target_offset = 140, at_next_offset = 142\<rparr>"

definition arpt_entry :: entry_type where
  "arpt_entry = \<lparr>sizeof_entry = 192, at_target_offset = 164, at_next_offset = 166\<rparr>"

definition target_offset :: "entry_type \<Rightarrow> memory \<Rightarrow> u64 \<Rightarrow> u16" where
  "target_offset ty mem e = load mem 2 (e + at_target_offset ty)"

definition next_offset :: "entry_type \<Rightarrow> memory \<Rightarrow> u64 \<Rightarrow> u16" where
  "next_offset ty mem e = load mem 2 (e + at_next_offset ty)"

definition match_size :: "memory \<Rightarrow> u64 \<Rightarrow> u16" where
  "match_size mem m = load mem 2 m"

section \<open>The macros of \<open>x_tables.h\<close>\<close>

definition us_ALIGN_KERNEL_MASK :: "u64 \<Rightarrow> u64 \<Rightarrow> u64" where
  "us_ALIGN_KERNEL_MASK x m = (x + m) AND NOT m"

definition us_ALIGN_KERNEL :: "u64 \<Rightarrow> u64 \<Rightarrow> u64" where
  "us_ALIGN_KERNEL x a = us_ALIGN_KERNEL_MASK x (a - 1)"

definition XT_ALIGN :: "u64 \<Rightarrow> u64" where
  "XT_ALIGN s = us_ALIGN_KERNEL s 8"

record xt_counters =
  pcnt :: u64
  bcnt :: u64

definition SET_COUNTER :: "xt_counters \<Rightarrow> u64 \<Rightarrow> u64 \<Rightarrow> xt_counters" where
  "SET_COUNTER c b p = (let c1 = c\<lparr>bcnt := b\<rparr> in c1\<lparr>pcnt := p\<rparr>)"

definition ADD_COUNTER :: "xt_counters \<Rightarrow> u64 \<Rightarrow> u64 \<Rightarrow> xt_counters" where
  "ADD_COUNTER c b p = (let c1 = c\<lparr>bcnt := bcnt c + b\<rparr> in c1\<lparr>pcnt := pcnt c1 + p\<rparr>)"

text \<open>The value of a statement expression that ends in \<open>__ret\<close>, with the state of the function.\<close>

definition returned :: "(u32 \<times> 'i \<times> 's) option \<Rightarrow> (u32 \<times> 's) option" where
  "returned = map_option (\<lambda>(ret, i, s). (ret, s))"

definition XT_MATCH_ITERATE ::
    "entry_type \<Rightarrow> memory \<Rightarrow> u64 \<Rightarrow> (u64 \<Rightarrow> 's \<Rightarrow> u32 \<times> 's) \<Rightarrow> 's \<Rightarrow> (u32 \<times> 's) option" where
  "XT_MATCH_ITERATE ty mem e fn s =
     returned (c_for
       (\<lambda>i. i < prom (target_offset ty mem e))
       (\<lambda>i. i + prom (match_size mem (e + ucast i)))
       (\<lambda>i. fn (e + ucast i))
       (ucast (sizeof_entry ty) :: u32) s)"

definition XT_ENTRY_ITERATE_CONTINUE ::
    "entry_type \<Rightarrow> memory \<Rightarrow> u64 \<Rightarrow> u32 \<Rightarrow> u32 \<Rightarrow> (u64 \<Rightarrow> 's \<Rightarrow> u32 \<times> 's) \<Rightarrow> 's \<Rightarrow> (u32 \<times> 's) option" where
  "XT_ENTRY_ITERATE_CONTINUE ty mem entries sz n fn s =
     returned (c_for
       (\<lambda>(i, k). i < sz)
       (\<lambda>(i, k). (i + prom (next_offset ty mem (entries + ucast i)), k + 1))
       (\<lambda>(i, k) s. if k < n then (0, s) else fn (entries + ucast i) s)
       (0 :: u32, 0 :: u32) s)"

definition XT_ENTRY_ITERATE ::
    "entry_type \<Rightarrow> memory \<Rightarrow> u64 \<Rightarrow> u32 \<Rightarrow> (u64 \<Rightarrow> 's \<Rightarrow> u32 \<times> 's) \<Rightarrow> 's \<Rightarrow> (u32 \<times> 's) option" where
  "XT_ENTRY_ITERATE ty mem entries sz fn s = XT_ENTRY_ITERATE_CONTINUE ty mem entries sz 0 fn s"

text \<open>The loop headers; the statement that follows is the argument \<open>body\<close>.\<close>

definition xt_entry_foreach ::
    "entry_type \<Rightarrow> memory \<Rightarrow> u64 \<Rightarrow> u64 \<Rightarrow> (u64 \<Rightarrow> 's \<Rightarrow> u32 \<times> 's) \<Rightarrow> 's \<Rightarrow> (u32 \<times> u64 \<times> 's) option" where
  "xt_entry_foreach ty mem ehead esize body s =
     c_for (\<lambda>pos. pos < ehead + esize) (\<lambda>pos. pos + ucast (next_offset ty mem pos)) body ehead s"

definition xt_ematch_foreach ::
    "entry_type \<Rightarrow> memory \<Rightarrow> u64 \<Rightarrow> (u64 \<Rightarrow> 's \<Rightarrow> u32 \<times> 's) \<Rightarrow> 's \<Rightarrow> (u32 \<times> u64 \<times> 's) option" where
  "xt_ematch_foreach ty mem entry body s =
     c_for (\<lambda>pos. pos < entry + ucast (target_offset ty mem entry)) (\<lambda>pos. pos + ucast (match_size mem pos))
       body (entry + sizeof_entry ty) s"

section \<open>The instances\<close>

definition IPT_MATCH_ITERATE :: "memory \<Rightarrow> u64 \<Rightarrow> (u64 \<Rightarrow> 's \<Rightarrow> u32 \<times> 's) \<Rightarrow> 's \<Rightarrow> (u32 \<times> 's) option" where
  "IPT_MATCH_ITERATE mem e fn s = XT_MATCH_ITERATE ipt_entry mem e fn s"

definition IPT_ENTRY_ITERATE :: "memory \<Rightarrow> u64 \<Rightarrow> u32 \<Rightarrow> (u64 \<Rightarrow> 's \<Rightarrow> u32 \<times> 's) \<Rightarrow> 's \<Rightarrow> (u32 \<times> 's) option" where
  "IPT_ENTRY_ITERATE mem entries sz fn s = XT_ENTRY_ITERATE ipt_entry mem entries sz fn s"

definition ipt_get_target :: "memory \<Rightarrow> u64 \<Rightarrow> u64" where
  "ipt_get_target mem e = e + ucast (target_offset ipt_entry mem e)"

definition IP6T_MATCH_ITERATE :: "memory \<Rightarrow> u64 \<Rightarrow> (u64 \<Rightarrow> 's \<Rightarrow> u32 \<times> 's) \<Rightarrow> 's \<Rightarrow> (u32 \<times> 's) option" where
  "IP6T_MATCH_ITERATE mem e fn s = XT_MATCH_ITERATE ip6t_entry mem e fn s"

definition IP6T_ENTRY_ITERATE :: "memory \<Rightarrow> u64 \<Rightarrow> u32 \<Rightarrow> (u64 \<Rightarrow> 's \<Rightarrow> u32 \<times> 's) \<Rightarrow> 's \<Rightarrow> (u32 \<times> 's) option" where
  "IP6T_ENTRY_ITERATE mem entries sz fn s = XT_ENTRY_ITERATE ip6t_entry mem entries sz fn s"

definition ip6t_get_target :: "memory \<Rightarrow> u64 \<Rightarrow> u64" where
  "ip6t_get_target mem e = e + ucast (target_offset ip6t_entry mem e)"

definition ARPT_ENTRY_ITERATE :: "memory \<Rightarrow> u64 \<Rightarrow> u32 \<Rightarrow> (u64 \<Rightarrow> 's \<Rightarrow> u32 \<times> 's) \<Rightarrow> 's \<Rightarrow> (u32 \<times> 's) option" where
  "ARPT_ENTRY_ITERATE mem entries sz fn s = XT_ENTRY_ITERATE arpt_entry mem entries sz fn s"

definition arpt_get_target :: "memory \<Rightarrow> u64 \<Rightarrow> u64" where
  "arpt_get_target mem e = e + ucast (target_offset arpt_entry mem e)"

section \<open>The macros of \<open>ebtables.h\<close>\<close>

definition EINVAL :: u32 where
  "EINVAL = 22"

definition sizeof_ebt_entry :: u64 where
  "sizeof_ebt_entry = 112"

definition sizeof_ebt_entries :: u64 where
  "sizeof_ebt_entries = 48"

definition sizeof_ebt_entry_match :: u64 where
  "sizeof_ebt_entry_match = 40"

definition sizeof_ebt_entry_watcher :: u64 where
  "sizeof_ebt_entry_watcher = 40"

definition ebt_bitmask :: "memory \<Rightarrow> u64 \<Rightarrow> u32" where
  "ebt_bitmask mem e = load mem 4 e"

definition ebt_watchers_offset :: "memory \<Rightarrow> u64 \<Rightarrow> u32" where
  "ebt_watchers_offset mem e = load mem 4 (e + 100)"

definition ebt_target_offset :: "memory \<Rightarrow> u64 \<Rightarrow> u32" where
  "ebt_target_offset mem e = load mem 4 (e + 104)"

definition ebt_next_offset :: "memory \<Rightarrow> u64 \<Rightarrow> u32" where
  "ebt_next_offset mem e = load mem 4 (e + 108)"

definition ebt_match_size :: "memory \<Rightarrow> u64 \<Rightarrow> u32" where
  "ebt_match_size mem m = load mem 4 (m + 32)"

definition ebt_watcher_size :: "memory \<Rightarrow> u64 \<Rightarrow> u32" where
  "ebt_watcher_size mem w = load mem 4 (w + 32)"

definition ebt_get_target :: "memory \<Rightarrow> u64 \<Rightarrow> u64" where
  "ebt_get_target mem e = e + ucast (ebt_target_offset mem e)"

text \<open>After the loop: a result of zero stands only if the index has met the limit exactly.\<close>

definition exactly :: "u32 \<Rightarrow> (u32 \<times> u32 \<times> 's) option \<Rightarrow> (u32 \<times> 's) option" where
  "exactly limit = map_option (\<lambda>(ret, i, s). (if ret = 0 then if i \<noteq> limit then - EINVAL else ret else ret, s))"

definition EBT_MATCH_ITERATE :: "memory \<Rightarrow> u64 \<Rightarrow> (u64 \<Rightarrow> 's \<Rightarrow> u32 \<times> 's) \<Rightarrow> 's \<Rightarrow> (u32 \<times> 's) option" where
  "EBT_MATCH_ITERATE mem e fn s =
     exactly (ebt_watchers_offset mem e) (c_for
       (\<lambda>i. i < ebt_watchers_offset mem e)
       (\<lambda>i. ucast (ucast i + (ucast (ebt_match_size mem (e + ucast i)) + sizeof_ebt_entry_match)))
       (\<lambda>i. fn (e + ucast i))
       (ucast sizeof_ebt_entry) s)"

definition EBT_WATCHER_ITERATE :: "memory \<Rightarrow> u64 \<Rightarrow> (u64 \<Rightarrow> 's \<Rightarrow> u32 \<times> 's) \<Rightarrow> 's \<Rightarrow> (u32 \<times> 's) option" where
  "EBT_WATCHER_ITERATE mem e fn s =
     exactly (ebt_target_offset mem e) (c_for
       (\<lambda>i. i < ebt_target_offset mem e)
       (\<lambda>i. ucast (ucast i + (ucast (ebt_watcher_size mem (e + ucast i)) + sizeof_ebt_entry_watcher)))
       (\<lambda>i. fn (e + ucast i))
       (ebt_watchers_offset mem e) s)"

definition EBT_ENTRY_ITERATE :: "memory \<Rightarrow> u64 \<Rightarrow> u32 \<Rightarrow> (u64 \<Rightarrow> 's \<Rightarrow> u32 \<times> 's) \<Rightarrow> 's \<Rightarrow> (u32 \<times> 's) option" where
  "EBT_ENTRY_ITERATE mem entries sz fn s =
     exactly sz (c_for
       (\<lambda>i. i < sz)
       (\<lambda>i. if ebt_bitmask mem (entries + ucast i) \<noteq> 0 then i + ebt_next_offset mem (entries + ucast i)
            else ucast (ucast i + sizeof_ebt_entries))
       (\<lambda>i. fn (entries + ucast i))
       0 s)"

section \<open>The contract of the loops\<close>

interpretation entry: address_loop
  "\<lambda>(ty, mem) q. unat (next_offset ty mem q)"
  "\<lambda>((ty, mem), entries) i. i + prom (next_offset ty mem (entries + ucast i))"
  by unfold_locales (auto simp: prom_def)

interpretation match: address_loop
  "\<lambda>mem q. unat (match_size mem q)" "\<lambda>(mem, e) i. i + prom (match_size mem (e + ucast i))"
  by unfold_locales (auto simp: prom_def)

interpretation entry_pointer: offset_loop
  "\<lambda>(ty, mem) p. unat (next_offset ty mem p)" "\<lambda>(ty, mem) p. p + ucast (next_offset ty mem p) :: u64"
  by unfold_locales (auto simp: prom_def)

interpretation match_pointer: offset_loop "\<lambda>mem p. unat (match_size mem p)" "\<lambda>mem p. p + ucast (match_size mem p) :: u64"
  by unfold_locales (auto simp: prom_def)

interpretation ebt_match: address_loop
  "\<lambda>mem q. unat (ebt_match_size mem q) + 40"
  "\<lambda>(mem, e) i. ucast (ucast i + (ucast (ebt_match_size mem (e + ucast i)) + sizeof_ebt_entry_match))"
  by unfold_locales (auto simp: ucast_down_add sizeof_ebt_entry_match_def)

interpretation ebt_watcher: address_loop
  "\<lambda>mem q. unat (ebt_watcher_size mem q) + 40"
  "\<lambda>(mem, e) i. ucast (ucast i + (ucast (ebt_watcher_size mem (e + ucast i)) + sizeof_ebt_entry_watcher))"
  by unfold_locales (auto simp: ucast_down_add sizeof_ebt_entry_watcher_def)

definition ebt_entry_size :: "memory \<Rightarrow> u64 \<Rightarrow> nat" where
  "ebt_entry_size mem e = (if ebt_bitmask mem e \<noteq> 0 then unat (ebt_next_offset mem e) else 48)"

interpretation ebt_entry: address_loop
  ebt_entry_size
  "\<lambda>(mem, entries) i. if ebt_bitmask mem (entries + ucast i) \<noteq> 0 then i + ebt_next_offset mem (entries + ucast i)
     else ucast (ucast i + sizeof_ebt_entries)"
  by unfold_locales (auto simp: ebt_entry_size_def ucast_down_add sizeof_ebt_entries_def)

section \<open>What the loops visit\<close>

definition result :: "u32 \<times> 'i \<times> 's \<Rightarrow> u32 \<times> 's" where
  "result = (\<lambda>(ret, i, s). (ret, s))"

lemma result_visit_map: "result (visit (\<lambda>i. f (g i)) is final s) = result (visit f (map g is) (g final) s)"
  by (auto simp: visit_map result_def split: prod.split)

lemma unat_ucast_u16: "unat (ucast (x :: u16) :: u64) = unat x"
  using unat_u16 [of x] by (simp add: unsigned_ucast_eq take_bit_nat_eq_self)

lemma ucast_prom: "(ucast (prom (x :: u16)) :: u64) = ucast x"
  by (rule bit_word_eqI) (auto simp: prom_def bit_simps dest: bit_imp_le_length)

lemma result_base:
  assumes "unat (i :: u32) + sum_list ns < 2 ^ 32"
  shows "result (visit (\<lambda>i. fn (e + ucast i :: u64)) (drop k (starts id i ns)) final s) =
     result (visit fn (drop k (starts id (e + ucast i) ns)) (e + ucast final) s)"
  using starts_base [OF assms, of e] by (simp add: result_visit_map [of fn "\<lambda>i. e + ucast i"] drop_map [symmetric])

text \<open>
  C36. Iterating over the entries of a table visits them in order: for entries of positive sizes that
  fill the table, the function is called on each entry from the \<open>n\<close>-th on until it returns a value
  other than zero, which is the result; the loop header does the same with pointers and leaves
  its variable at the end of the table.
\<close>

theorem table_entries_visited:
  assumes "placed (\<lambda>q. unat (next_offset ty mem q)) id entries ns" and "list_all (\<lambda>n. 0 < n) ns"
    and "sum_list ns = unat sz" and "unat entries + unat sz < 2 ^ 64"
  shows "XT_ENTRY_ITERATE_CONTINUE ty mem entries sz n fn s =
       Some (result (visit fn (drop (unat n) (starts id entries ns)) (entries + ucast sz) s)) \<and>
     xt_entry_foreach ty mem entries (ucast sz) fn s = Some (visit fn (starts id entries ns) (entries + ucast sz) s)"
proof
  have sz: "unat sz < 2 ^ 32" by (rule unat_u32)
  note less = sum_positive [OF assms(2)]
  have "chain (\<lambda>i. i < sz) (\<lambda>i. i + prom (next_offset ty mem (entries + ucast i))) 0 (starts id 0 ns) sz"
    using entry.chain_addresses [of "(ty, mem)" entries 0 ns sz] assms sz less by simp
  note ch = chain_numbered [OF this, of 0]
  have "length (starts id (0 :: u32) ns) \<le> 2 ^ 32" using less(1) assms(3) sz by simp
  then have "result (visit (\<lambda>(i, k) s. if k < n then (0, s) else fn (entries + ucast i) s) (numbered 0 (starts id 0 ns))
        (sz, 0 + of_nat (length (starts id (0 :: u32) ns))) s) =
      result (visit (\<lambda>i. fn (entries + ucast i)) (drop (unat n) (starts id 0 ns)) sz s)"
    using visit_numbered [of 0 "starts id (0 :: u32) ns" n "\<lambda>i. fn (entries + ucast i)" sz _ s] by (simp add: result_def)
  also have "\<dots> = result (visit fn (drop (unat n) (starts id entries ns)) (entries + ucast sz) s)"
    using result_base [of 0 ns fn entries] assms(3) sz by simp
  finally show "XT_ENTRY_ITERATE_CONTINUE ty mem entries sz n fn s =
       Some (result (visit fn (drop (unat n) (starts id entries ns)) (entries + ucast sz) s))"
    unfolding XT_ENTRY_ITERATE_CONTINUE_def c_for_chain [OF ch] returned_def by (simp add: result_def)
  have "unat (entries + ucast sz) = unat entries + unat sz" "of_nat (sum_list ns) = (ucast sz :: u64)"
    using assms(3,4) by (simp_all add: unat_word_ariths unsigned_ucast_eq)
  then have "chain (\<lambda>pos. pos < entries + ucast sz) (\<lambda>pos. pos + ucast (next_offset ty mem pos)) entries (starts id entries ns) (entries + ucast sz)"
    using entry_pointer.chain_offsets [of "(ty, mem)" entries ns "entries + ucast sz"] assms less by simp
  then show "xt_entry_foreach ty mem entries (ucast sz) fn s = Some (visit fn (starts id entries ns) (entries + ucast sz) s)"
    unfolding xt_entry_foreach_def by (rule c_for_chain)
qed

text \<open>
  Iterating over the matches of an entry visits them in order, with both macros, when the matches
  have positive sizes and reach from the end of the entry structure to its target; the loop
  header leaves its variable at the target.
\<close>

theorem table_matches_visited:
  assumes "placed (\<lambda>q. unat (match_size mem q)) id (e + sizeof_entry ty) ns" and "list_all (\<lambda>n. 0 < n) ns"
    and "unat (sizeof_entry ty) + sum_list ns = unat (target_offset ty mem e)"
    and "unat e + unat (target_offset ty mem e) < 2 ^ 64"
  shows "XT_MATCH_ITERATE ty mem e fn s =
       Some (result (visit fn (starts id (e + sizeof_entry ty) ns) (e + ucast (target_offset ty mem e)) s)) \<and>
     xt_ematch_foreach ty mem e fn s =
       Some (visit fn (starts id (e + sizeof_entry ty) ns) (e + ucast (target_offset ty mem e)) s)"
proof
  let ?t = "target_offset ty mem e" and ?i = "ucast (sizeof_entry ty) :: u32"
  have less: "unat (sizeof_entry ty) + sum_list (butlast ns) < unat ?t" if "ns \<noteq> []"
    using sum_positive(2) [OF assms(2) that] assms(3) by simp
  have i: "unat ?i = unat (sizeof_entry ty)"
    using assms(3) unat_u16 [of ?t] by (simp add: unsigned_ucast_eq take_bit_nat_eq_self)
  then have i': "(ucast ?i :: u64) = sizeof_entry ty" by (simp only: word_unat_eq_iff unat_ucast_u32)
  have t: "unat ?i + sum_list ns < 2 ^ 32" using assms(3) i unat_u16 [of ?t] by simp
  have "?i + of_nat (sum_list ns) = prom ?t"
    using assms(3) i t by (simp add: word_unat_eq_iff unat_word_ariths unat_of_nat)
  then have ch: "chain (\<lambda>i. i < prom ?t) (\<lambda>i. i + prom (match_size mem (e + ucast i))) ?i (starts id ?i ns) (prom ?t)"
    using match.chain_addresses [of mem e ?i ns "prom ?t"] assms(1-3) i i' t less by simp
  show "XT_MATCH_ITERATE ty mem e fn s = Some (result (visit fn (starts id (e + sizeof_entry ty) ns) (e + ucast ?t) s))"
    unfolding XT_MATCH_ITERATE_def c_for_chain [OF ch] returned_def
    using result_base [OF t, of fn e 0 "prom ?t" s] i' by (simp add: result_def ucast_prom)
  have "unat (e + sizeof_entry ty) = unat e + unat (sizeof_entry ty)" "unat (e + ucast ?t) = unat e + unat ?t"
    using assms(3,4) by (simp_all add: unat_word_ariths unat_ucast_u16)
  moreover from this have "e + sizeof_entry ty + of_nat (sum_list ns) = e + ucast ?t"
    using assms(3,4) by (simp add: word_unat_eq_iff unat_word_ariths unat_of_nat)
  ultimately have "chain (\<lambda>pos. pos < e + ucast ?t) (\<lambda>pos. pos + ucast (match_size mem pos)) (e + sizeof_entry ty)
      (starts id (e + sizeof_entry ty) ns) (e + ucast ?t)"
    using match_pointer.chain_offsets [of mem "e + sizeof_entry ty" ns "e + ucast ?t"] assms less by (simp add: add.assoc)
  then show "xt_ematch_foreach ty mem e fn s = Some (visit fn (starts id (e + sizeof_entry ty) ns) (e + ucast ?t) s)"
    unfolding xt_ematch_foreach_def by (rule c_for_chain)
qed

lemma visit_final: "visit body is final s = (0, j, s') \<Longrightarrow> j = final"
  by (induction "is" arbitrary: s) (auto split: prod.splits if_splits)

lemma exactly_visit:
  "exactly lim (Some (visit body is final s)) =
     Some (case result (visit body is final s) of (r, s') \<Rightarrow> (if r = 0 \<and> final \<noteq> lim then - EINVAL else r, s'))"
  using visit_final [of body "is" final s] by (auto simp: exactly_def result_def split: prod.split)

text \<open>What the bridge macros return for records of the given sizes from index \<open>i\<close> to the limit.\<close>

definition bridge_result ::
    "u64 \<Rightarrow> u32 \<Rightarrow> u32 \<Rightarrow> nat list \<Rightarrow> (u64 \<Rightarrow> 's \<Rightarrow> u32 \<times> 's) \<Rightarrow> 's \<Rightarrow> u32 \<times> 's" where
  "bridge_result e i lim ns fn s =
     (case result (visit fn (starts id (e + ucast i) ns) 0 s) of
        (r, s') \<Rightarrow> (if r = 0 \<and> unat i + sum_list ns \<noteq> unat lim then - EINVAL else r, s'))"

lemma result_visit_final: "result (visit body is final s) = result (visit body is final' s)"
proof (induction "is" arbitrary: s)
  case (Cons i "is")
  obtain r s1 where "body i s = (r, s1)" by fastforce
  then show ?case using Cons.IH [of s1] by (cases "r = 0") (simp_all add: result_def)
qed (simp add: result_def)

lemma exactly_loop:
  assumes "chain (\<lambda>i. i < lim) step i (starts id i ns) (i + of_nat (sum_list ns))" and "unat i + sum_list ns < 2 ^ 32"
  shows "exactly lim (c_for (\<lambda>i. i < lim) step (\<lambda>i. fn (e + ucast i)) i s) = Some (bridge_result e i lim ns fn s)"
proof -
  have "i + of_nat (sum_list ns) = lim \<longleftrightarrow> unat i + sum_list ns = unat lim"
    using assms(2) by (simp add: word_unat_eq_iff unat_word_ariths unat_of_nat)
  moreover have "result (visit (\<lambda>i. fn (e + ucast i)) (starts id i ns) final s) = result (visit fn (starts id (e + ucast i) ns) 0 s)" for final
    using result_base [OF assms(2), of fn e 0 final s] result_visit_final [of fn _ _ s 0] by (metis drop0)
  ultimately show ?thesis unfolding c_for_chain [OF assms(1)] exactly_visit bridge_result_def by auto
qed

text \<open>
  The bridge macros visit matches, watchers and entries in order, and report as an invalid
  argument every table whose last record reaches beyond the limit, unless the function stopped
  before; when the records end exactly at the limit the result is that of the function.
\<close>

theorem bridge_tables_checked:
  assumes "list_all (\<lambda>n. 0 < n) ns" and "unat i + sum_list ns < 2 ^ 32" and "unat lim \<le> unat i + sum_list ns"
    and "ns \<noteq> [] \<Longrightarrow> unat i + sum_list (butlast ns) < unat lim"
  shows "(placed (\<lambda>q. unat (ebt_match_size mem q) + 40) id (e + ucast i) ns \<and> i = 112 \<and> ebt_watchers_offset mem e = lim \<longrightarrow>
        EBT_MATCH_ITERATE mem e fn s = Some (bridge_result e i lim ns fn s)) \<and>
     (placed (\<lambda>q. unat (ebt_watcher_size mem q) + 40) id (e + ucast i) ns \<and> ebt_watchers_offset mem e = i \<and>
        ebt_target_offset mem e = lim \<longrightarrow>
        EBT_WATCHER_ITERATE mem e fn s = Some (bridge_result e i lim ns fn s)) \<and>
     (placed (ebt_entry_size mem) id (e + ucast i) ns \<and> i = 0 \<longrightarrow>
        EBT_ENTRY_ITERATE mem e lim fn s = Some (bridge_result e i lim ns fn s))"
proof (intro conjI impI)
  assume a: "placed (\<lambda>q. unat (ebt_match_size mem q) + 40) id (e + ucast i) ns \<and> i = 112 \<and> ebt_watchers_offset mem e = lim"
  show "EBT_MATCH_ITERATE mem e fn s = Some (bridge_result e i lim ns fn s)"
    unfolding EBT_MATCH_ITERATE_def using ebt_match.chain_addresses [of mem e i ns lim] a assms
    by (auto simp: sizeof_ebt_entry_def intro!: exactly_loop)
next
  assume a: "placed (\<lambda>q. unat (ebt_watcher_size mem q) + 40) id (e + ucast i) ns \<and> ebt_watchers_offset mem e = i \<and>
        ebt_target_offset mem e = lim"
  show "EBT_WATCHER_ITERATE mem e fn s = Some (bridge_result e i lim ns fn s)"
    unfolding EBT_WATCHER_ITERATE_def using ebt_watcher.chain_addresses [of mem e i ns lim] a assms
    by (auto intro!: exactly_loop)
next
  assume a: "placed (ebt_entry_size mem) id (e + ucast i) ns \<and> i = 0"
  show "EBT_ENTRY_ITERATE mem e lim fn s = Some (bridge_result e i lim ns fn s)"
    unfolding EBT_ENTRY_ITERATE_def using ebt_entry.chain_addresses [of mem e i ns lim] a assms
    by (auto intro!: exactly_loop [where i = 0, simplified])
qed

text \<open>
  When the loops end: iterating over the entries of a table ends for every function if no entry in it
  says zero for the distance to the next and the table is not within 64 kilobytes of the largest
  size; if the first entry says zero, iterating with a function that does not stop never ends.
\<close>

theorem table_iteration_ends:
  "((\<forall>i. i < sz \<longrightarrow> next_offset ty mem (entries + ucast i) \<noteq> 0) \<and> unat sz + 65536 \<le> 2 ^ 32 \<longrightarrow>
      (\<exists>res. XT_ENTRY_ITERATE_CONTINUE ty mem entries sz n fn s = Some res)) \<and>
   (0 < sz \<and> next_offset ty mem entries = 0 \<and> (\<forall>s. fst (fn entries s) = 0) \<longrightarrow>
      XT_ENTRY_ITERATE_CONTINUE ty mem entries sz n fn s = None)"
proof (intro conjI impI)
  assume a: "(\<forall>i. i < sz \<longrightarrow> next_offset ty mem (entries + ucast i) \<noteq> 0) \<and> unat sz + 65536 \<le> 2 ^ 32"
  have "0 < unat (next_offset ty mem (entries + ucast j)) \<and> unat (next_offset ty mem (entries + ucast j)) \<le> 65535"
    if "j < sz" for j
    using a that unat_u16 [of "next_offset ty mem (entries + ucast j)"] by (simp add: unat_gt_0)
  then obtain ns where ch: "chain (\<lambda>i. i < sz) (\<lambda>i. i + prom (next_offset ty mem (entries + ucast i))) 0 (starts id 0 ns) (of_nat (sum_list ns))"
    using entry.loop_ends [of 0 sz "(ty, mem)" entries 65535] a by auto
  show "\<exists>res. XT_ENTRY_ITERATE_CONTINUE ty mem entries sz n fn s = Some res"
    unfolding XT_ENTRY_ITERATE_CONTINUE_def returned_def c_for_chain [OF chain_numbered [OF ch, of 0]] by simp
next
  assume "0 < sz \<and> next_offset ty mem entries = 0 \<and> (\<forall>s. fst (fn entries s) = 0)"
  then have "c_for (\<lambda>(i, k). i < sz) (\<lambda>(i, k). (i + prom (next_offset ty mem (entries + ucast i)), k + 1))
       (\<lambda>(i, k) s. if k < n then (0, s) else fn (entries + ucast i) s) (0 :: u32, 0 :: u32) s = None"
    by (intro c_for_diverges [of "\<lambda>(i, k). i = 0"]) (auto simp: prom_def)
  then show "XT_ENTRY_ITERATE_CONTINUE ty mem entries sz n fn s = None"
    by (simp add: XT_ENTRY_ITERATE_CONTINUE_def returned_def)
qed

section \<open>Examples\<close>

text \<open>
  At address 4096 a table of two IPv4 rules of 152 and 112 bytes, the first with a match of 40 bytes;
  at 8192 a bridge rule with a match of 40 bytes and two more of data, whose watchers start behind 152.
\<close>

definition sampleTable :: memory where
  "sampleTable = (\<lambda>_. 0)(4096 + 88 := 152, 4096 + 90 := 152, 4096 + 112 := 40, 4248 + 90 := 112,
                        8192 + 100 := 152, 8192 + 112 + 32 := 2)"

definition calls :: "u64 \<Rightarrow> u64 list \<Rightarrow> u32 \<times> u64 list" where
  "calls = collect id"

theorem table_entries_visited_witness:
  "XT_ENTRY_ITERATE_CONTINUE ipt_entry sampleTable 4096 264 1 calls [] = Some (0, [4248]) \<and>
   xt_entry_foreach ipt_entry sampleTable 4096 264 calls [] = Some (0, 4360, [4096, 4248])"
proof -
  have "next_offset ipt_entry sampleTable 4096 = 152" "next_offset ipt_entry sampleTable 4248 = 112"
    by (simp_all add: next_offset_def ipt_entry_def load_def sampleTable_def upt_rec)
  then show ?thesis
    using table_entries_visited [of ipt_entry sampleTable 4096 "[152, 112]" 264 1 calls "[]"]
    by (simp add: result_def calls_def collect_def)
qed

theorem table_matches_visited_witness:
  "XT_MATCH_ITERATE ipt_entry sampleTable 4096 calls [] = Some (0, [4208]) \<and>
   xt_ematch_foreach ipt_entry sampleTable 4096 calls [] = Some (0, ipt_get_target sampleTable 4096, [4208])"
proof -
  have "match_size sampleTable 4208 = 40" "target_offset ipt_entry sampleTable 4096 = 152" "sizeof_entry ipt_entry = 112"
    by (simp_all add: match_size_def target_offset_def ipt_entry_def load_def sampleTable_def upt_rec)
  then show ?thesis
    using table_matches_visited [of sampleTable 4096 ipt_entry "[40]" calls "[]"]
    by (simp add: result_def calls_def collect_def ipt_get_target_def)
qed

theorem bridge_tables_checked_witness:
  "EBT_MATCH_ITERATE sampleTable 8192 calls [] = Some (- EINVAL, [8304])"
proof -
  have "ebt_match_size sampleTable 8304 = 2" "ebt_watchers_offset sampleTable 8192 = 152"
    by (simp_all add: ebt_match_size_def ebt_watchers_offset_def load_def sampleTable_def upt_rec)
  then show ?thesis
    using bridge_tables_checked [of "[42]" 112 152 sampleTable 8192 calls "[]"]
    by (simp add: bridge_result_def result_def calls_def collect_def)
qed

theorem table_iteration_ends_witness:
  "XT_ENTRY_ITERATE_CONTINUE ipt_entry (\<lambda>_. 0) 4096 112 0 calls [] = None \<and>
   (\<exists>res. XT_ENTRY_ITERATE_CONTINUE ipt_entry (\<lambda>_. 1) 4096 112 0 calls [] = Some res)"
proof -
  have "next_offset ipt_entry (\<lambda>_. 0) q = 0" "next_offset ipt_entry (\<lambda>_. 1) q = 257" for q
    by (simp_all add: next_offset_def load_def upt_rec)
  then show ?thesis
    using table_iteration_ends [of 112 ipt_entry "\<lambda>_. 0" 4096 0 calls "[]"]
      table_iteration_ends [of 112 ipt_entry "\<lambda>_. 1" 4096 0 calls "[]"]
    by (simp add: calls_def collect_def)
qed

end
