(* ===== verification/Packed_Fields.thy ===== *)
theory Packed_Fields
  imports C_Integers
begin

text \<open>
  Several values packed into one word: the keys and the superblock of \<open>linux/bcache.h\<close>. The header's macro \<open>BITMASK\<close> defines a reading and a writing function for a
  field of a structure; the locale \<open>packed_field\<close> is its contract, \<open>disjoint_fields\<close> that of two fields in
  the same word. A flexible array is a function of its index.
\<close>

unbundle bit_operations_syntax

section \<open>Keys: \<open>linux/bcache.h\<close>\<close>

text \<open>The two functions that \<open>BITMASK\<close> and \<open>PTR_FIELD\<close> define, on the value of the member.\<close>

definition bitmask_get :: "u64 \<Rightarrow> nat \<Rightarrow> nat \<Rightarrow> u64" where
  "bitmask_get field offset sz = drop_bit offset field AND NOT (push_bit sz (NOT 0))"

definition bitmask_set :: "u64 \<Rightarrow> nat \<Rightarrow> nat \<Rightarrow> u64 \<Rightarrow> u64" where
  "bitmask_set field offset sz v =
     (let field1 = field AND NOT (push_bit offset (NOT (push_bit sz (NOT 0))))
      in field1 OR push_bit offset (v AND NOT (push_bit sz (NOT 0))))"

record bkey =
  high :: u64
  low :: u64
  ptr :: "u32 \<Rightarrow> u64"

definition KEY_SIZE_BITS :: nat where
  "KEY_SIZE_BITS = 16"

definition KEY_PTRS :: "bkey \<Rightarrow> u64" where
  "KEY_PTRS k = bitmask_get (high k) 60 3"

definition SET_KEY_PTRS :: "bkey \<Rightarrow> u64 \<Rightarrow> bkey" where
  "SET_KEY_PTRS k v = k\<lparr>high := bitmask_set (high k) 60 3 v\<rparr>"

definition HEADER_SIZE :: "bkey \<Rightarrow> u64" where
  "HEADER_SIZE k = bitmask_get (high k) 58 2"

definition SET_HEADER_SIZE :: "bkey \<Rightarrow> u64 \<Rightarrow> bkey" where
  "SET_HEADER_SIZE k v = k\<lparr>high := bitmask_set (high k) 58 2 v\<rparr>"

definition KEY_CSUM :: "bkey \<Rightarrow> u64" where
  "KEY_CSUM k = bitmask_get (high k) 56 2"

definition SET_KEY_CSUM :: "bkey \<Rightarrow> u64 \<Rightarrow> bkey" where
  "SET_KEY_CSUM k v = k\<lparr>high := bitmask_set (high k) 56 2 v\<rparr>"

definition KEY_PINNED :: "bkey \<Rightarrow> u64" where
  "KEY_PINNED k = bitmask_get (high k) 55 1"

definition SET_KEY_PINNED :: "bkey \<Rightarrow> u64 \<Rightarrow> bkey" where
  "SET_KEY_PINNED k v = k\<lparr>high := bitmask_set (high k) 55 1 v\<rparr>"

definition KEY_DIRTY :: "bkey \<Rightarrow> u64" where
  "KEY_DIRTY k = bitmask_get (high k) 36 1"

definition SET_KEY_DIRTY :: "bkey \<Rightarrow> u64 \<Rightarrow> bkey" where
  "SET_KEY_DIRTY k v = k\<lparr>high := bitmask_set (high k) 36 1 v\<rparr>"

definition KEY_SIZE :: "bkey \<Rightarrow> u64" where
  "KEY_SIZE k = bitmask_get (high k) 20 KEY_SIZE_BITS"

definition SET_KEY_SIZE :: "bkey \<Rightarrow> u64 \<Rightarrow> bkey" where
  "SET_KEY_SIZE k v = k\<lparr>high := bitmask_set (high k) 20 KEY_SIZE_BITS v\<rparr>"

definition KEY_INODE :: "bkey \<Rightarrow> u64" where
  "KEY_INODE k = bitmask_get (high k) 0 20"

definition SET_KEY_INODE :: "bkey \<Rightarrow> u64 \<Rightarrow> bkey" where
  "SET_KEY_INODE k v = k\<lparr>high := bitmask_set (high k) 0 20 v\<rparr>"

definition KEY_OFFSET :: "bkey \<Rightarrow> u64" where
  "KEY_OFFSET k = low k"

definition SET_KEY_OFFSET :: "bkey \<Rightarrow> u64 \<Rightarrow> bkey" where
  "SET_KEY_OFFSET k v = k\<lparr>low := v\<rparr>"

definition KEY :: "u64 \<Rightarrow> u64 \<Rightarrow> u64 \<Rightarrow> bkey" where
  "KEY inode offset sz = \<lparr>high = push_bit 63 1 OR push_bit 20 sz OR inode, low = offset, ptr = (\<lambda>_. 0)\<rparr>"

definition ZERO_KEY :: bkey where
  "ZERO_KEY = KEY 0 0 0"

definition MAX_KEY_INODE :: u32 where
  "MAX_KEY_INODE = NOT (push_bit 20 (NOT 0))"

definition MAX_KEY_OFFSET :: u64 where
  "MAX_KEY_OFFSET = drop_bit 1 (NOT 0)"

definition MAX_KEY :: bkey where
  "MAX_KEY = KEY (scast MAX_KEY_INODE) MAX_KEY_OFFSET 0"

definition KEY_START :: "bkey \<Rightarrow> u64" where
  "KEY_START k = KEY_OFFSET k - KEY_SIZE k"

definition START_KEY :: "bkey \<Rightarrow> bkey" where
  "START_KEY k = KEY (KEY_INODE k) (KEY_START k) 0"

definition PTR_DEV_BITS :: nat where
  "PTR_DEV_BITS = 12"

definition PTR_DEV :: "bkey \<Rightarrow> u32 \<Rightarrow> u64" where
  "PTR_DEV k i = bitmask_get (ptr k i) 51 PTR_DEV_BITS"

definition SET_PTR_DEV :: "bkey \<Rightarrow> u32 \<Rightarrow> u64 \<Rightarrow> bkey" where
  "SET_PTR_DEV k i v = k\<lparr>ptr := (ptr k)(i := bitmask_set (ptr k i) 51 PTR_DEV_BITS v)\<rparr>"

definition PTR_OFFSET :: "bkey \<Rightarrow> u32 \<Rightarrow> u64" where
  "PTR_OFFSET k i = bitmask_get (ptr k i) 8 43"

definition SET_PTR_OFFSET :: "bkey \<Rightarrow> u32 \<Rightarrow> u64 \<Rightarrow> bkey" where
  "SET_PTR_OFFSET k i v = k\<lparr>ptr := (ptr k)(i := bitmask_set (ptr k i) 8 43 v)\<rparr>"

definition PTR_GEN :: "bkey \<Rightarrow> u32 \<Rightarrow> u64" where
  "PTR_GEN k i = bitmask_get (ptr k i) 0 8"

definition SET_PTR_GEN :: "bkey \<Rightarrow> u32 \<Rightarrow> u64 \<Rightarrow> bkey" where
  "SET_PTR_GEN k i v = k\<lparr>ptr := (ptr k)(i := bitmask_set (ptr k i) 0 8 v)\<rparr>"

definition MAKE_PTR :: "u64 \<Rightarrow> u64 \<Rightarrow> u64 \<Rightarrow> u64" where
  "MAKE_PTR gen offset dev = push_bit 51 dev OR push_bit 8 offset OR gen"

definition bkey_u64s :: "bkey \<Rightarrow> u64" where
  "bkey_u64s k = 16 div 8 + KEY_PTRS k"

definition bkey_bytes :: "bkey \<Rightarrow> u64" where
  "bkey_bytes k = bkey_u64s k * 8"

text \<open>\<open>memcpy\<close> of as many bytes as the source has: the two words and the pointers it counts.\<close>

definition bkey_copy :: "bkey \<Rightarrow> bkey \<Rightarrow> bkey" where
  "bkey_copy dest src =
     dest\<lparr>high := high src, low := low src,
          ptr := (\<lambda>i. if 16 + 8 * unat i < unat (bkey_bytes src) then ptr src i else ptr dest i)\<rparr>"

definition bkey_copy_key :: "bkey \<Rightarrow> bkey \<Rightarrow> bkey" where
  "bkey_copy_key dest src =
     (let dest1 = SET_KEY_INODE dest (KEY_INODE src) in SET_KEY_OFFSET dest1 (KEY_OFFSET src))"

text \<open>Addresses: the key \<open>kv\<close> at address \<open>k\<close>.\<close>

definition bkey_next :: "bkey \<Rightarrow> u64 \<Rightarrow> u64" where
  "bkey_next kv k = k + 8 * bkey_u64s kv"

definition bkey_idx :: "u64 \<Rightarrow> u32 \<Rightarrow> u64" where
  "bkey_idx k nr_keys = k + 8 * ucast nr_keys"

text \<open>The superblock: of its members those that functions use.\<close>

record cache_sb =
  version :: u64
  set_magic :: u64
  flags :: u64

definition BCACHE_SB_VERSION_BDEV :: u64 where
  "BCACHE_SB_VERSION_BDEV = 1"

definition BCACHE_SB_VERSION_BDEV_WITH_OFFSET :: u64 where
  "BCACHE_SB_VERSION_BDEV_WITH_OFFSET = 4"

definition SB_IS_BDEV :: "cache_sb \<Rightarrow> bool" where
  "SB_IS_BDEV sb \<longleftrightarrow> version sb = BCACHE_SB_VERSION_BDEV \<or> version sb = BCACHE_SB_VERSION_BDEV_WITH_OFFSET"

definition CACHE_SYNC :: "cache_sb \<Rightarrow> u64" where
  "CACHE_SYNC k = bitmask_get (flags k) 0 1"

definition SET_CACHE_SYNC :: "cache_sb \<Rightarrow> u64 \<Rightarrow> cache_sb" where
  "SET_CACHE_SYNC k v = k\<lparr>flags := bitmask_set (flags k) 0 1 v\<rparr>"

definition CACHE_DISCARD :: "cache_sb \<Rightarrow> u64" where
  "CACHE_DISCARD k = bitmask_get (flags k) 1 1"

definition SET_CACHE_DISCARD :: "cache_sb \<Rightarrow> u64 \<Rightarrow> cache_sb" where
  "SET_CACHE_DISCARD k v = k\<lparr>flags := bitmask_set (flags k) 1 1 v\<rparr>"

definition CACHE_REPLACEMENT :: "cache_sb \<Rightarrow> u64" where
  "CACHE_REPLACEMENT k = bitmask_get (flags k) 2 3"

definition SET_CACHE_REPLACEMENT :: "cache_sb \<Rightarrow> u64 \<Rightarrow> cache_sb" where
  "SET_CACHE_REPLACEMENT k v = k\<lparr>flags := bitmask_set (flags k) 2 3 v\<rparr>"

definition BDEV_CACHE_MODE :: "cache_sb \<Rightarrow> u64" where
  "BDEV_CACHE_MODE k = bitmask_get (flags k) 0 4"

definition SET_BDEV_CACHE_MODE :: "cache_sb \<Rightarrow> u64 \<Rightarrow> cache_sb" where
  "SET_BDEV_CACHE_MODE k v = k\<lparr>flags := bitmask_set (flags k) 0 4 v\<rparr>"

definition BDEV_STATE :: "cache_sb \<Rightarrow> u64" where
  "BDEV_STATE k = bitmask_get (flags k) 61 2"

definition SET_BDEV_STATE :: "cache_sb \<Rightarrow> u64 \<Rightarrow> cache_sb" where
  "SET_BDEV_STATE k v = k\<lparr>flags := bitmask_set (flags k) 61 2 v\<rparr>"

definition JSET_MAGIC :: u64 where
  "JSET_MAGIC = 0x245235c1a3625032"

definition PSET_MAGIC :: u64 where
  "PSET_MAGIC = 0x6750e15f87337f91"

definition BSET_MAGIC :: u64 where
  "BSET_MAGIC = 0x90135c78b99e07f5"

definition jset_magic :: "cache_sb \<Rightarrow> u64" where
  "jset_magic sb = set_magic sb XOR JSET_MAGIC"

definition pset_magic :: "cache_sb \<Rightarrow> u64" where
  "pset_magic sb = set_magic sb XOR PSET_MAGIC"

definition bset_magic :: "cache_sb \<Rightarrow> u64" where
  "bset_magic sb = set_magic sb XOR BSET_MAGIC"

section \<open>The contract of a field\<close>

lemma bit_bitmask_get: "bit (bitmask_get x off w) n \<longleftrightarrow> n < w \<and> bit x (off + n)"
  by (auto simp: bitmask_get_def bit_simps dest: bit_imp_le_length)

lemma bit_bitmask_set:
  "bit (bitmask_set x off w v) n \<longleftrightarrow>
     (if off \<le> n \<and> n < off + w then n < 64 \<and> bit v (n - off) else bit x n)"
  by (auto simp: bitmask_set_def bit_simps dest: bit_imp_le_length)

lemma bitmask_get_take_bit: "bitmask_get x off w = take_bit w (drop_bit off x)"
  by (rule bit_word_eqI) (auto simp: bit_bitmask_get bit_simps)

text \<open>
  A structure with a member that holds the field: \<open>member\<close> reads it and \<open>store\<close> replaces it.
\<close>

locale packed_field =
  fixes get :: "'s \<Rightarrow> u64" and put :: "'s \<Rightarrow> u64 \<Rightarrow> 's"
    and member :: "'s \<Rightarrow> u64" and store :: "'s \<Rightarrow> u64 \<Rightarrow> 's"
    and off :: nat and width :: nat
  assumes get: "get s = bitmask_get (member s) off width"
    and put: "put s v = store s (bitmask_set (member s) off width v)"
    and member_store: "member (store s x) = x"
    and store_store: "store (store s x) y = store s y"
    and store_member: "store s (member s) = s"
    and fits: "off + width \<le> 64"
begin

lemma get_put: "get (put s v) = take_bit width v"
  by (rule bit_word_eqI) (use fits in \<open>auto simp: get put member_store bit_bitmask_get bit_bitmask_set bit_simps\<close>)

lemma put_get: "put s (get s) = s"
proof -
  have "bitmask_set (member s) off width (get s) = member s"
    by (rule bit_word_eqI) (auto simp: get bit_bitmask_get bit_bitmask_set)
  then show ?thesis by (simp add: put store_member)
qed

lemma put_put: "put (put s u) v = put s v"
proof -
  have "bitmask_set (bitmask_set (member s) off width u) off width v = bitmask_set (member s) off width v"
    by (rule bit_word_eqI) (auto simp: bit_bitmask_set)
  then show ?thesis by (simp add: put member_store store_store)
qed

end

locale disjoint_fields =
  a: packed_field get_a put_a member store off_a width_a + b: packed_field get_b put_b member store off_b width_b
  for get_a put_a get_b put_b and member :: "'s \<Rightarrow> u64" and store off_a width_a off_b width_b +
  assumes disjoint: "off_a + width_a \<le> off_b \<or> off_b + width_b \<le> off_a"
begin

lemma get_other: "get_b (put_a s v) = get_b s" "get_a (put_b s v) = get_a s"
  by (rule bit_word_eqI, use disjoint in \<open>force simp: a.get a.put b.get b.put a.member_store bit_bitmask_get bit_bitmask_set\<close>)+

lemma put_commute: "put_a (put_b s u) v = put_b (put_a s v) u"
proof -
  have "bitmask_set (bitmask_set (member s) off_b width_b u) off_a width_a v =
      bitmask_set (bitmask_set (member s) off_a width_a v) off_b width_b u"
    by (rule bit_word_eqI) (use disjoint in \<open>force simp: bit_bitmask_set\<close>)
  then show ?thesis by (simp add: a.put b.put a.member_store a.store_store)
qed

end

section \<open>The fields of a key\<close>

definition store_high :: "bkey \<Rightarrow> u64 \<Rightarrow> bkey" where
  "store_high k x = k\<lparr>high := x\<rparr>"

lemmas key_field_defs = KEY_PTRS_def SET_KEY_PTRS_def HEADER_SIZE_def SET_HEADER_SIZE_def KEY_CSUM_def SET_KEY_CSUM_def
  KEY_PINNED_def SET_KEY_PINNED_def KEY_DIRTY_def SET_KEY_DIRTY_def KEY_SIZE_def SET_KEY_SIZE_def KEY_INODE_def
  SET_KEY_INODE_def KEY_SIZE_BITS_def

definition key_fields :: "((bkey \<Rightarrow> u64) \<times> (bkey \<Rightarrow> u64 \<Rightarrow> bkey) \<times> nat \<times> nat) list" where
  "key_fields =
     [(KEY_PTRS, SET_KEY_PTRS, 60, 3), (HEADER_SIZE, SET_HEADER_SIZE, 58, 2), (KEY_CSUM, SET_KEY_CSUM, 56, 2),
      (KEY_PINNED, SET_KEY_PINNED, 55, 1), (KEY_DIRTY, SET_KEY_DIRTY, 36, 1), (KEY_SIZE, SET_KEY_SIZE, 20, 16),
      (KEY_INODE, SET_KEY_INODE, 0, 20)]"

lemma key_field: "(get, put, off, width) \<in> set key_fields \<Longrightarrow> packed_field get put high store_high off width"
  by unfold_locales (auto simp: key_fields_def key_field_defs store_high_def)

interpretation size_inode: disjoint_fields KEY_SIZE SET_KEY_SIZE KEY_INODE SET_KEY_INODE high store_high 20 16 0 20
  by unfold_locales (auto simp: key_field_defs store_high_def)

interpretation ptr_dev: packed_field "\<lambda>(k, i). PTR_DEV k i" "\<lambda>(k, i) v. (SET_PTR_DEV k i v, i)"
  "\<lambda>(k, i). ptr k i" "\<lambda>(k, i) x. (k\<lparr>ptr := (ptr k)(i := x)\<rparr>, i)" 51 12
  by unfold_locales (auto simp: PTR_DEV_def SET_PTR_DEV_def PTR_DEV_BITS_def)

interpretation ptr_offset: packed_field "\<lambda>(k, i). PTR_OFFSET k i" "\<lambda>(k, i) v. (SET_PTR_OFFSET k i v, i)"
  "\<lambda>(k, i). ptr k i" "\<lambda>(k, i) x. (k\<lparr>ptr := (ptr k)(i := x)\<rparr>, i)" 8 43
  by unfold_locales (auto simp: PTR_OFFSET_def SET_PTR_OFFSET_def)

interpretation ptr_gen: packed_field "\<lambda>(k, i). PTR_GEN k i" "\<lambda>(k, i) v. (SET_PTR_GEN k i v, i)"
  "\<lambda>(k, i). ptr k i" "\<lambda>(k, i) x. (k\<lparr>ptr := (ptr k)(i := x)\<rparr>, i)" 0 8
  by unfold_locales (auto simp: PTR_GEN_def SET_PTR_GEN_def)

text \<open>
  C37. The seven fields packed into the first word of a key are independent: reading a field after
  writing it gives the value truncated to the field, writing back what was read changes nothing,
  and writing leaves the other six fields, the offset and the pointers of the key as they were.
\<close>

theorem key_fields_independent:
  assumes "(get, put, off, width) \<in> set key_fields"
  shows "get (put k v) = take_bit width v \<and> put k (get k) = k \<and> KEY_OFFSET (put k v) = KEY_OFFSET k \<and> ptr (put k v) = ptr k \<and>
     (\<forall>(get', put', off', width') \<in> set key_fields. off' \<noteq> off \<longrightarrow> get' (put k v) = get' k)"
proof -
  note f = key_field [OF assms]
  have "get' (put k v) = get' k" if g: "(get', put', off', width') \<in> set key_fields" and "off' \<noteq> off" for get' put' off' width'
  proof -
    have "off + width \<le> off' \<or> off' + width' \<le> off"
      using assms g \<open>off' \<noteq> off\<close> by (auto simp: key_fields_def)
    then have "disjoint_fields get put get' put' high store_high off width off' width'"
      using f key_field [OF g] by (simp add: disjoint_fields_def disjoint_fields_axioms_def)
    then show ?thesis by (rule disjoint_fields.get_other)
  qed
  moreover have "low (put k v) = low k \<and> ptr (put k v) = ptr k"
    using packed_field.put [OF f, of k v] by (simp add: store_high_def)
  ultimately show ?thesis
    using packed_field.get_put [OF f, of k v] packed_field.put_get [OF f, of k] by (auto simp: KEY_OFFSET_def)
qed

theorem key_fields_independent_witness:
  "KEY_SIZE (SET_KEY_SIZE ZERO_KEY 70000) = 4464 \<and> KEY_INODE (SET_KEY_SIZE ZERO_KEY 70000) = KEY_INODE ZERO_KEY"
proof -
  have "(KEY_SIZE, SET_KEY_SIZE, 20, 16) \<in> set key_fields" by (simp add: key_fields_def)
  from key_fields_independent [OF this, of ZERO_KEY 70000] show ?thesis by (auto simp: key_fields_def take_bit_eq_mod)
qed

text \<open>Reading a field of a word that was put together from shifted values.\<close>

lemma not_bit_above: "(x :: 'a::len word) < 2 ^ k \<Longrightarrow> bit x n \<Longrightarrow> n < k"
  using bit_above [of x k n] by (meson not_le)

lemma take_bit_below: "(x :: 'a::len word) < 2 ^ n \<Longrightarrow> take_bit n x = x"
  by (rule bit_word_eqI) (auto simp: bit_simps dest: not_bit_above)

lemma field_or: "bitmask_get (x OR y) off w = bitmask_get x off w OR bitmask_get y off w"
  by (rule bit_word_eqI) (auto simp: bit_bitmask_get bit_simps)

lemma field_same: "off + w \<le> 64 \<Longrightarrow> v < 2 ^ w \<Longrightarrow> bitmask_get (push_bit off v) off w = v"
  by (rule bit_word_eqI) (auto simp: bit_bitmask_get bit_simps dest: not_bit_above)

lemma field_above: "off + w \<le> k \<Longrightarrow> bitmask_get (push_bit k v) off w = 0"
  by (rule bit_word_eqI) (auto simp: bit_bitmask_get bit_simps)

lemma field_below: "v < 2 ^ m \<Longrightarrow> k + m \<le> off \<Longrightarrow> bitmask_get (push_bit k v) off w = 0"
  by (rule bit_word_eqI) (auto simp: bit_bitmask_get bit_simps dest: not_bit_above)

lemmas field_zero = field_same [of 0, simplified] field_below [of _ _ 0, simplified]

text \<open>
  A key built from an inode, an offset and a size that fit is taken apart again, its other fields
  are zero and it occupies two words; the start of the range it describes is the offset less the size.
  A pointer built from a generation, an offset and a device that fit is taken apart again.
\<close>

theorem key_round_trip:
  assumes "inode < 2 ^ 20" and "sz < 2 ^ 16" and "gen < 2 ^ 8" and "sector < 2 ^ 43" and "dev < 2 ^ 12"
  shows "KEY_INODE (KEY inode offset sz) = inode \<and> KEY_SIZE (KEY inode offset sz) = sz \<and> KEY_OFFSET (KEY inode offset sz) = offset \<and>
     KEY_PTRS (KEY inode offset sz) = 0 \<and> KEY_DIRTY (KEY inode offset sz) = 0 \<and> KEY_CSUM (KEY inode offset sz) = 0 \<and>
     bkey_bytes (KEY inode offset sz) = 16 \<and> KEY_START (KEY inode offset sz) = offset - sz \<and>
     (ptr k i = MAKE_PTR gen sector dev \<longrightarrow> PTR_GEN k i = gen \<and> PTR_OFFSET k i = sector \<and> PTR_DEV k i = dev)"
proof -
  have h: "bitmask_get (push_bit 63 t OR push_bit 20 sz OR inode) 0 20 = inode"
    "bitmask_get (push_bit 63 t OR push_bit 20 sz OR inode) 20 16 = sz"
    "bitmask_get (push_bit 63 t OR push_bit 20 sz OR inode) 60 3 = 0"
    "bitmask_get (push_bit 63 t OR push_bit 20 sz OR inode) 36 1 = 0"
    "bitmask_get (push_bit 63 t OR push_bit 20 sz OR inode) 56 2 = 0" for t
    using assms(1,2) by (simp_all add: field_or field_above field_same field_below [of sz 16] field_zero(1) field_zero(2) [of inode 20])
  have f: "KEY_INODE (KEY inode offset sz) = inode" "KEY_SIZE (KEY inode offset sz) = sz" "KEY_PTRS (KEY inode offset sz) = 0"
    "KEY_DIRTY (KEY inode offset sz) = 0" "KEY_CSUM (KEY inode offset sz) = 0"
    by (simp_all only: KEY_def key_field_defs bkey.simps h)
  moreover have "PTR_GEN k i = gen" "PTR_OFFSET k i = sector" "PTR_DEV k i = dev" if "ptr k i = MAKE_PTR gen sector dev"
    using that assms by (simp_all add: MAKE_PTR_def PTR_GEN_def PTR_OFFSET_def PTR_DEV_def PTR_DEV_BITS_def
        field_or field_above field_same field_below [of sector 43] field_zero(1) field_zero(2) [of gen 8])
  ultimately show ?thesis
    by (simp add: KEY_OFFSET_def KEY_START_def bkey_bytes_def bkey_u64s_def) (simp add: KEY_def)
qed

theorem key_round_trip_witness:
  "KEY_INODE (KEY 7 4096 64) = 7 \<and> KEY_SIZE (KEY 7 4096 64) = 64 \<and> KEY_START (KEY 7 4096 64) = 4032 \<and>
   PTR_DEV (SET_PTR_GEN (KEY 7 4096 64) 0 0) 0 = 0"
  using key_round_trip [of 7 64 3 4096 2 4096 "KEY 7 4096 64" 0]
    key_round_trip [of 7 64 0 0 0 4096 "SET_PTR_GEN (KEY 7 4096 64) 0 0" 0]
  by (simp add: SET_PTR_GEN_def MAKE_PTR_def KEY_def bitmask_set_def)

end
