(* ===== verification/Packed_Numbers.thy ===== *)
theory Packed_Numbers
  imports Packed_Fields
begin

text \<open>
  Numbers put together from parts and taken apart again: request numbers (\<open>asm-generic/ioctl.h\<close>),
  Phonet and TIPC addresses (\<open>linux/phonet.h\<close>, \<open>linux/tipc.h\<close>) and the word that holds length and opcode of
  a command (\<open>linux/target_core_user.h\<close>). A request number is 64 bits wide where the size argument is a
  \<open>sizeof\<close> and 32 bits where it is an \<open>int\<close>; the parts before it are joined in 32 bits.
\<close>

unbundle bit_operations_syntax

section \<open>Request numbers: \<open>asm-generic/ioctl.h\<close>\<close>

definition us_IOC_NRBITS :: nat where
  "us_IOC_NRBITS = 8"

definition us_IOC_TYPEBITS :: nat where
  "us_IOC_TYPEBITS = 8"

definition us_IOC_SIZEBITS :: nat where
  "us_IOC_SIZEBITS = 14"

definition us_IOC_DIRBITS :: nat where
  "us_IOC_DIRBITS = 2"

definition us_IOC_NRMASK :: u32 where
  "us_IOC_NRMASK = push_bit us_IOC_NRBITS 1 - 1"

definition us_IOC_TYPEMASK :: u32 where
  "us_IOC_TYPEMASK = push_bit us_IOC_TYPEBITS 1 - 1"

definition us_IOC_SIZEMASK :: u32 where
  "us_IOC_SIZEMASK = push_bit us_IOC_SIZEBITS 1 - 1"

definition us_IOC_DIRMASK :: u32 where
  "us_IOC_DIRMASK = push_bit us_IOC_DIRBITS 1 - 1"

definition us_IOC_NRSHIFT :: nat where
  "us_IOC_NRSHIFT = 0"

definition us_IOC_TYPESHIFT :: nat where
  "us_IOC_TYPESHIFT = us_IOC_NRSHIFT + us_IOC_NRBITS"

definition us_IOC_SIZESHIFT :: nat where
  "us_IOC_SIZESHIFT = us_IOC_TYPESHIFT + us_IOC_TYPEBITS"

definition us_IOC_DIRSHIFT :: nat where
  "us_IOC_DIRSHIFT = us_IOC_SIZESHIFT + us_IOC_SIZEBITS"

definition us_IOC_NONE :: u32 where
  "us_IOC_NONE = 0"

definition us_IOC_WRITE :: u32 where
  "us_IOC_WRITE = 1"

definition us_IOC_READ :: u32 where
  "us_IOC_READ = 2"

definition us_IOC :: "u32 \<Rightarrow> u32 \<Rightarrow> u32 \<Rightarrow> 'w::len word \<Rightarrow> 'w word" where
  "us_IOC dir ty nr sz =
     ucast (push_bit us_IOC_DIRSHIFT dir OR push_bit us_IOC_TYPESHIFT ty OR push_bit us_IOC_NRSHIFT nr) OR
     push_bit us_IOC_SIZESHIFT sz"

text \<open>The argument of \<open>_IOR\<close> and its like is a type; here it is its size.\<close>

definition us_IO :: "u32 \<Rightarrow> u32 \<Rightarrow> u32" where
  "us_IO ty nr = us_IOC us_IOC_NONE ty nr 0"

definition us_IOR :: "u32 \<Rightarrow> u32 \<Rightarrow> u64 \<Rightarrow> u64" where
  "us_IOR ty nr sz = us_IOC us_IOC_READ ty nr sz"

definition us_IOW :: "u32 \<Rightarrow> u32 \<Rightarrow> u64 \<Rightarrow> u64" where
  "us_IOW ty nr sz = us_IOC us_IOC_WRITE ty nr sz"

definition us_IOWR :: "u32 \<Rightarrow> u32 \<Rightarrow> u64 \<Rightarrow> u64" where
  "us_IOWR ty nr sz = us_IOC (us_IOC_READ OR us_IOC_WRITE) ty nr sz"

definition us_IOC_DIR :: "u32 \<Rightarrow> u32" where
  "us_IOC_DIR nr = drop_bit us_IOC_DIRSHIFT nr AND us_IOC_DIRMASK"

definition us_IOC_TYPE :: "u32 \<Rightarrow> u32" where
  "us_IOC_TYPE nr = drop_bit us_IOC_TYPESHIFT nr AND us_IOC_TYPEMASK"

definition us_IOC_NR :: "u32 \<Rightarrow> u32" where
  "us_IOC_NR nr = drop_bit us_IOC_NRSHIFT nr AND us_IOC_NRMASK"

definition us_IOC_SIZE :: "u32 \<Rightarrow> u32" where
  "us_IOC_SIZE nr = drop_bit us_IOC_SIZESHIFT nr AND us_IOC_SIZEMASK"

definition IOC_IN :: u32 where
  "IOC_IN = push_bit us_IOC_DIRSHIFT us_IOC_WRITE"

definition IOC_OUT :: u32 where
  "IOC_OUT = push_bit us_IOC_DIRSHIFT us_IOC_READ"

definition IOC_INOUT :: u32 where
  "IOC_INOUT = push_bit us_IOC_DIRSHIFT (us_IOC_WRITE OR us_IOC_READ)"

definition IOCSIZE_MASK :: u32 where
  "IOCSIZE_MASK = push_bit us_IOC_SIZESHIFT us_IOC_SIZEMASK"

section \<open>Phonet addresses: \<open>linux/phonet.h\<close>\<close>

record sockaddr_pn =
  spn_obj :: u8
  spn_dev :: u8
  spn_resource :: u8

definition pn_object :: "u8 \<Rightarrow> u16 \<Rightarrow> u16" where
  "pn_object addr port = lo16 (push_bit 8 (prom addr) OR (prom port AND 0x3ff))"

definition pn_obj :: "u16 \<Rightarrow> u8" where
  "pn_obj handle = lo8 (prom handle AND 0xff)"

definition pn_dev :: "u16 \<Rightarrow> u8" where
  "pn_dev handle = lo8 (drop_bit 8 (prom handle))"

definition pn_port :: "u16 \<Rightarrow> u16" where
  "pn_port handle = lo16 (prom handle AND 0x3ff)"

definition pn_addr :: "u16 \<Rightarrow> u8" where
  "pn_addr handle = lo8 (drop_bit 8 (prom handle) AND 0xfc)"

definition pn_sockaddr_set_addr :: "sockaddr_pn \<Rightarrow> u8 \<Rightarrow> sockaddr_pn" where
  "pn_sockaddr_set_addr spn addr =
     (let spn1 = spn\<lparr>spn_dev := lo8 (prom (spn_dev spn) AND 0x03)\<rparr>
      in spn1\<lparr>spn_dev := lo8 (prom (spn_dev spn1) OR (prom addr AND 0xfc))\<rparr>)"

definition pn_sockaddr_set_port :: "sockaddr_pn \<Rightarrow> u16 \<Rightarrow> sockaddr_pn" where
  "pn_sockaddr_set_port spn port =
     (let spn1 = spn\<lparr>spn_dev := lo8 (prom (spn_dev spn) AND 0xfc)\<rparr>;
          spn2 = spn1\<lparr>spn_dev := lo8 (prom (spn_dev spn1) OR (drop_bit 8 (prom port) AND 0x03))\<rparr>
      in spn2\<lparr>spn_obj := lo8 (prom port AND 0xff)\<rparr>)"

definition pn_sockaddr_set_object :: "sockaddr_pn \<Rightarrow> u16 \<Rightarrow> sockaddr_pn" where
  "pn_sockaddr_set_object spn handle =
     (let spn1 = spn\<lparr>spn_dev := pn_dev handle\<rparr> in spn1\<lparr>spn_obj := pn_obj handle\<rparr>)"

definition pn_sockaddr_set_resource :: "sockaddr_pn \<Rightarrow> u8 \<Rightarrow> sockaddr_pn" where
  "pn_sockaddr_set_resource spn resource = spn\<lparr>spn_resource := resource\<rparr>"

definition pn_sockaddr_get_addr :: "sockaddr_pn \<Rightarrow> u8" where
  "pn_sockaddr_get_addr spn = lo8 (prom (spn_dev spn) AND 0xfc)"

definition pn_sockaddr_get_port :: "sockaddr_pn \<Rightarrow> u16" where
  "pn_sockaddr_get_port spn = lo16 (push_bit 8 (prom (spn_dev spn) AND 0x03) OR prom (spn_obj spn))"

definition pn_sockaddr_get_object :: "sockaddr_pn \<Rightarrow> u16" where
  "pn_sockaddr_get_object spn = pn_object (spn_dev spn) (ucast (spn_obj spn))"

definition pn_sockaddr_get_resource :: "sockaddr_pn \<Rightarrow> u8" where
  "pn_sockaddr_get_resource spn = spn_resource spn"

section \<open>TIPC addresses: \<open>linux/tipc.h\<close>\<close>

definition TIPC_NODE_BITS :: nat where
  "TIPC_NODE_BITS = 12"

definition TIPC_CLUSTER_BITS :: nat where
  "TIPC_CLUSTER_BITS = 12"

definition TIPC_ZONE_BITS :: nat where
  "TIPC_ZONE_BITS = 8"

definition TIPC_NODE_OFFSET :: nat where
  "TIPC_NODE_OFFSET = 0"

definition TIPC_CLUSTER_OFFSET :: nat where
  "TIPC_CLUSTER_OFFSET = TIPC_NODE_BITS"

definition TIPC_ZONE_OFFSET :: nat where
  "TIPC_ZONE_OFFSET = TIPC_CLUSTER_OFFSET + TIPC_CLUSTER_BITS"

definition TIPC_NODE_SIZE :: u64 where
  "TIPC_NODE_SIZE = push_bit TIPC_NODE_BITS 1 - 1"

definition TIPC_CLUSTER_SIZE :: u64 where
  "TIPC_CLUSTER_SIZE = push_bit TIPC_CLUSTER_BITS 1 - 1"

definition TIPC_ZONE_SIZE :: u64 where
  "TIPC_ZONE_SIZE = push_bit TIPC_ZONE_BITS 1 - 1"

definition TIPC_NODE_MASK :: u64 where
  "TIPC_NODE_MASK = push_bit TIPC_NODE_OFFSET TIPC_NODE_SIZE"

definition TIPC_CLUSTER_MASK :: u64 where
  "TIPC_CLUSTER_MASK = push_bit TIPC_CLUSTER_OFFSET TIPC_CLUSTER_SIZE"

definition TIPC_ZONE_MASK :: u64 where
  "TIPC_ZONE_MASK = push_bit TIPC_ZONE_OFFSET TIPC_ZONE_SIZE"

definition TIPC_ZONE_CLUSTER_MASK :: u64 where
  "TIPC_ZONE_CLUSTER_MASK = TIPC_ZONE_MASK OR TIPC_CLUSTER_MASK"

definition tipc_addr :: "u32 \<Rightarrow> u32 \<Rightarrow> u32 \<Rightarrow> u32" where
  "tipc_addr zone cluster node = push_bit TIPC_ZONE_OFFSET zone OR push_bit TIPC_CLUSTER_OFFSET cluster OR node"

definition tipc_zone :: "u32 \<Rightarrow> u32" where
  "tipc_zone addr = drop_bit TIPC_ZONE_OFFSET addr"

definition tipc_cluster :: "u32 \<Rightarrow> u32" where
  "tipc_cluster addr = ucast (drop_bit TIPC_CLUSTER_OFFSET (ucast addr AND TIPC_CLUSTER_MASK))"

definition tipc_node :: "u32 \<Rightarrow> u32" where
  "tipc_node addr = ucast (ucast addr AND TIPC_NODE_MASK)"

section \<open>Command headers: \<open>linux/target_core_user.h\<close>\<close>

definition TCMU_OP_MASK :: u32 where
  "TCMU_OP_MASK = 0x7"

definition tcmu_hdr_get_op :: "u32 \<Rightarrow> u32" where
  "tcmu_hdr_get_op len_op = len_op AND TCMU_OP_MASK"

definition tcmu_hdr_set_op :: "u32 \<Rightarrow> u32 \<Rightarrow> u32" where
  "tcmu_hdr_set_op len_op opcode =
     (let len_op1 = len_op AND NOT TCMU_OP_MASK in len_op1 OR (opcode AND TCMU_OP_MASK))"

definition tcmu_hdr_get_len :: "u32 \<Rightarrow> u32" where
  "tcmu_hdr_get_len len_op = len_op AND NOT TCMU_OP_MASK"

definition tcmu_hdr_set_len :: "u32 \<Rightarrow> u32 \<Rightarrow> u32" where
  "tcmu_hdr_set_len len_op len =
     (let len_op1 = len_op AND TCMU_OP_MASK in len_op1 OR len)"

section \<open>Round trips\<close>

text \<open>Parts of a word of any width.\<close>

lemma part_same:
  "off + w \<le> LENGTH('a) \<Longrightarrow> v < 2 ^ w \<Longrightarrow> take_bit w (drop_bit off (push_bit off v)) = (v :: 'a::len word)"
  by (rule bit_word_eqI) (auto simp: bit_simps dest: not_bit_above)

lemma part_above: "off + w \<le> k \<Longrightarrow> take_bit w (drop_bit off (push_bit k v)) = (0 :: 'a::len word)"
  by (rule bit_word_eqI) (auto simp: bit_simps)

lemma part_below:
  "v < 2 ^ m \<Longrightarrow> k + m \<le> off \<Longrightarrow> take_bit w (drop_bit off (push_bit k v)) = (0 :: 'a::len word)"
  by (rule bit_word_eqI) (auto simp: bit_simps dest: not_bit_above)

lemma and_low_mask: "x AND (push_bit n 1 - 1) = take_bit n (x :: 'a::len word)"
  by (simp add: take_bit_eq_mask mask_eq_exp_minus_1)

lemmas ioc_defs = us_IOC_NRBITS_def us_IOC_TYPEBITS_def us_IOC_SIZEBITS_def us_IOC_DIRBITS_def us_IOC_NRSHIFT_def us_IOC_TYPESHIFT_def
  us_IOC_SIZESHIFT_def us_IOC_DIRSHIFT_def

lemma ioc_parts:
  "us_IOC_DIR x = take_bit 2 (drop_bit 30 x)" "us_IOC_TYPE x = take_bit 8 (drop_bit 8 x)"
  "us_IOC_NR x = take_bit 8 (drop_bit 0 x)" "us_IOC_SIZE x = take_bit 14 (drop_bit 16 x)"
  unfolding us_IOC_DIR_def us_IOC_DIRMASK_def us_IOC_TYPE_def us_IOC_TYPEMASK_def us_IOC_NR_def us_IOC_NRMASK_def
    us_IOC_SIZE_def us_IOC_SIZEMASK_def and_low_mask by (simp_all add: ioc_defs)

text \<open>
  Request numbers are decoded to what they were made of: direction, type, number and size, for
  sizes below 16 kilobytes, whether the number was computed in 32 or in 64 bits; so two different
  requests have different numbers.
\<close>

theorem ioctl_round_trip:
  assumes "dir < 4" and "ty < 256" and "nr < 256" and "sz < 2 ^ 14"
  shows "(let x = us_IOC dir ty nr sz in us_IOC_DIR x = dir \<and> us_IOC_TYPE x = ty \<and> us_IOC_NR x = nr \<and> us_IOC_SIZE x = sz) \<and>
     ucast (us_IOC dir ty nr (ucast sz :: u64)) = us_IOC dir ty nr sz"
proof
  have b: "dir < 2 ^ 2" "ty < 2 ^ 8" "nr < 2 ^ 8" using assms by simp_all
  have x: "us_IOC dir ty nr sz = push_bit 30 dir OR push_bit 8 ty OR push_bit 0 nr OR push_bit 16 sz"
    by (simp add: us_IOC_def ioc_defs or.assoc)
  show "let x = us_IOC dir ty nr sz in us_IOC_DIR x = dir \<and> us_IOC_TYPE x = ty \<and> us_IOC_NR x = nr \<and> us_IOC_SIZE x = sz"
    unfolding Let_def ioc_parts x take_bit_or drop_bit_or
    using b assms(4) by (simp add: part_same part_above part_below [of ty 8] part_below [of nr 8 0, simplified] part_below [of sz 14]
        part_same [of 0, simplified] part_above [of 0, simplified] take_bit_below)
  show "ucast (us_IOC dir ty nr (ucast sz :: u64)) = us_IOC dir ty nr sz"
    by (rule bit_word_eqI) (auto simp: us_IOC_def bit_simps)
qed

theorem ioctl_round_trip_witness:
  "us_IOC_TYPE (us_IOC 2 0x54 3 36) = 0x54 \<and> us_IOC_SIZE (us_IOC 2 0x54 3 36) = 36"
  using ioctl_round_trip [of 2 "0x54" 3 36] by (simp add: Let_def)

lemma Suc_Suc_minus: "2 \<le> n \<Longrightarrow> Suc (Suc (n - 2)) = n"
  by simp

lemma pn_masks:
  "(x :: u32) AND 0x3ff = take_bit 10 x" "(x :: u32) AND 0xff = take_bit 8 x" "(x :: u32) AND 0x03 = take_bit 2 x"
  "(x :: u32) AND 0xfc = push_bit 2 (take_bit 6 (drop_bit 2 x))" "(y :: u8) AND 0xfc = push_bit 2 (take_bit 6 (drop_bit 2 y))"
proof -
  have "(0x3ff :: u32) = mask 10" "(0xff :: u32) = mask 8" "(0x03 :: u32) = mask 2" "(0xfc :: u32) = push_bit 2 (mask 6)"
    "(0xfc :: u8) = push_bit 2 (mask 6)"
    by (simp_all add: mask_eq_exp_minus_1)
  note m = this
  show "(x :: u32) AND 0x3ff = take_bit 10 x" "(x :: u32) AND 0xff = take_bit 8 x" "(x :: u32) AND 0x03 = take_bit 2 x"
    "(x :: u32) AND 0xfc = push_bit 2 (take_bit 6 (drop_bit 2 x))" "(y :: u8) AND 0xfc = push_bit 2 (take_bit 6 (drop_bit 2 y))"
    unfolding m take_bit_eq_mask by (rule bit_word_eqI, simp only: bit_simps, auto simp: Suc_Suc_minus)+
qed

lemmas pn_defs = pn_object_def pn_obj_def pn_dev_def pn_port_def pn_addr_def pn_sockaddr_set_addr_def pn_sockaddr_set_port_def
  pn_sockaddr_set_object_def pn_sockaddr_get_addr_def pn_sockaddr_get_port_def pn_sockaddr_get_object_def Let_def c_convert_defs

text \<open>
  A Phonet address holds a device, in steps of four, and a port of ten bits. Setting either in a socket
  address changes that part only; reading gives what was set, truncated to the part. A handle set
  as a whole is read back unchanged, and a handle made of a device and a port has these parts.
\<close>

theorem phonet_round_trip:
  "pn_sockaddr_get_port (pn_sockaddr_set_port spn port) = take_bit 10 port \<and>
   pn_sockaddr_get_addr (pn_sockaddr_set_port spn port) = pn_sockaddr_get_addr spn \<and>
   pn_sockaddr_get_addr (pn_sockaddr_set_addr spn addr) = addr AND 0xfc \<and>
   pn_sockaddr_get_port (pn_sockaddr_set_addr spn addr) = pn_sockaddr_get_port spn \<and>
   pn_sockaddr_get_object (pn_sockaddr_set_object spn handle) = handle \<and>
   pn_sockaddr_get_resource (pn_sockaddr_set_addr (pn_sockaddr_set_port (pn_sockaddr_set_resource spn res) port) addr) = res \<and>
   (take_bit 2 addr = 0 \<longrightarrow> pn_addr (pn_object addr port) = addr \<and> pn_port (pn_object addr port) = take_bit 10 port)"
proof (intro conjI impI)
  show "pn_sockaddr_get_port (pn_sockaddr_set_port spn port) = take_bit 10 port"
    by (rule bit_word_eqI) (auto simp: pn_defs bit_simps pn_masks)
  show "pn_sockaddr_get_addr (pn_sockaddr_set_port spn port) = pn_sockaddr_get_addr spn"
    by (rule bit_word_eqI) (auto simp: pn_defs bit_simps pn_masks)
  show "pn_sockaddr_get_addr (pn_sockaddr_set_addr spn addr) = addr AND 0xfc"
    by (rule bit_word_eqI) (auto simp: pn_defs bit_simps pn_masks)
  show "pn_sockaddr_get_port (pn_sockaddr_set_addr spn addr) = pn_sockaddr_get_port spn"
    by (rule bit_word_eqI) (auto simp: pn_defs bit_simps pn_masks)
  show "pn_sockaddr_get_object (pn_sockaddr_set_object spn handle) = handle"
    by (rule bit_word_eqI) (auto simp: pn_defs bit_simps pn_masks)
  show "pn_sockaddr_get_resource (pn_sockaddr_set_addr (pn_sockaddr_set_port (pn_sockaddr_set_resource spn res) port) addr) = res"
    by (simp add: pn_sockaddr_get_resource_def pn_sockaddr_set_resource_def pn_sockaddr_set_addr_def pn_sockaddr_set_port_def Let_def)
next
  assume "take_bit 2 addr = 0"
  then have low: "2 \<le> n" if "bit addr n" for n
    using that by (metis bit_0_eq bit_take_bit_iff bot_apply bot_bool_def not_le)
  then have high: "10 \<le> n" if "bit addr (n - 8)" "8 \<le> n" for n using low [OF that(1)] that(2) by simp
  show "pn_addr (pn_object addr port) = addr"
    by (rule bit_word_eqI) (auto simp: pn_defs bit_simps pn_masks Suc_Suc_minus [OF low] Suc_Suc_minus dest: low)
  show "pn_port (pn_object addr port) = take_bit 10 port"
    by (rule bit_word_eqI) (auto simp: pn_defs bit_simps pn_masks dest: high)
qed

theorem phonet_round_trip_witness:
  "pn_addr (pn_object 0x6c 0x3a5) = 0x6c \<and> pn_port (pn_object 0x6c 0x3a5) = 0x3a5"
  using phonet_round_trip [of \<open>\<lparr>spn_obj = 0, spn_dev = 0, spn_resource = 0\<rparr>\<close> "0x3a5" "0x6c"]
  by (simp add: take_bit_eq_mod)

lemmas tipc_defs = TIPC_NODE_BITS_def TIPC_CLUSTER_BITS_def TIPC_NODE_OFFSET_def TIPC_CLUSTER_OFFSET_def TIPC_ZONE_OFFSET_def
  TIPC_NODE_SIZE_def TIPC_CLUSTER_SIZE_def TIPC_NODE_MASK_def TIPC_CLUSTER_MASK_def

lemma tipc_parts:
  "tipc_cluster addr = take_bit 12 (drop_bit 12 addr)" "tipc_node addr = take_bit 12 (drop_bit 0 addr)"
  "tipc_zone addr = take_bit 8 (drop_bit 24 addr)"
proof -
  have m: "push_bit 12 1 - 1 = (mask 12 :: u64)" by (simp add: mask_eq_exp_minus_1)
  show "tipc_cluster addr = take_bit 12 (drop_bit 12 addr)"
    by (rule bit_word_eqI) (auto simp: tipc_cluster_def tipc_defs m bit_simps simp del: push_bit_of_1)
  show "tipc_node addr = take_bit 12 (drop_bit 0 addr)"
    by (rule bit_word_eqI) (auto simp: tipc_node_def tipc_defs m bit_simps simp del: push_bit_of_1)
  show "tipc_zone addr = take_bit 8 (drop_bit 24 addr)"
    by (rule bit_word_eqI) (auto simp: tipc_zone_def tipc_defs bit_simps dest: bit_imp_le_length)
qed

text \<open>
  Network addresses of TIPC are a bijective encoding of zone, cluster and node: parts that fit are
  read back, and every address is the encoding of its parts. In the header word of a command, length
  and opcode do not disturb each other, provided that the length is a multiple of eight.
\<close>

theorem tipc_tcmu_round_trip:
  "(zone < 2 ^ 8 \<and> cluster < 2 ^ 12 \<and> node < 2 ^ 12 \<longrightarrow>
      tipc_zone (tipc_addr zone cluster node) = zone \<and> tipc_cluster (tipc_addr zone cluster node) = cluster \<and>
      tipc_node (tipc_addr zone cluster node) = node) \<and>
   tipc_addr (tipc_zone addr) (tipc_cluster addr) (tipc_node addr) = addr \<and>
   tcmu_hdr_get_op (tcmu_hdr_set_op x opcode) = take_bit 3 opcode \<and>
   tcmu_hdr_get_len (tcmu_hdr_set_op x opcode) = tcmu_hdr_get_len x \<and>
   (take_bit 3 len = 0 \<longrightarrow>
      tcmu_hdr_get_len (tcmu_hdr_set_len x len) = len \<and> tcmu_hdr_get_op (tcmu_hdr_set_len x len) = tcmu_hdr_get_op x)"
proof (intro conjI impI)
  assume z: "zone < 2 ^ 8 \<and> cluster < 2 ^ 12 \<and> node < 2 ^ 12"
  have a: "tipc_addr zone cluster node = push_bit 24 zone OR push_bit 12 cluster OR push_bit 0 node"
    by (simp add: tipc_addr_def tipc_defs)
  show "tipc_zone (tipc_addr zone cluster node) = zone" "tipc_cluster (tipc_addr zone cluster node) = cluster"
    "tipc_node (tipc_addr zone cluster node) = node"
    unfolding tipc_parts a take_bit_or drop_bit_or
    using z by (simp_all add: part_same part_above part_below [of cluster 12] part_below [of node 12 0, simplified]
        part_above [of 0, simplified] take_bit_below)
next
  show "tipc_addr (tipc_zone addr) (tipc_cluster addr) (tipc_node addr) = addr"
  proof (rule bit_word_eqI)
    fix n
    assume "n < LENGTH(32)"
    then show "bit (tipc_addr (tipc_zone addr) (tipc_cluster addr) (tipc_node addr)) n = bit addr n"
      by (cases "24 \<le> n"; cases "12 \<le> n") (auto simp: tipc_parts tipc_addr_def tipc_defs bit_simps)
  qed
next
  have m: "TCMU_OP_MASK = mask 3" by (simp add: TCMU_OP_MASK_def mask_eq_exp_minus_1)
  show "tcmu_hdr_get_op (tcmu_hdr_set_op x opcode) = take_bit 3 opcode" "tcmu_hdr_get_len (tcmu_hdr_set_op x opcode) = tcmu_hdr_get_len x"
    by (rule bit_word_eqI, auto simp: tcmu_hdr_get_op_def tcmu_hdr_set_op_def tcmu_hdr_get_len_def m bit_simps Let_def)+
  assume "take_bit 3 len = 0"
  then have low: "\<not> bit len n" if "n < 3" for n using that by (metis bit_0_eq bit_take_bit_iff bot_apply bot_bool_def)
  show "tcmu_hdr_get_len (tcmu_hdr_set_len x len) = len" "tcmu_hdr_get_op (tcmu_hdr_set_len x len) = tcmu_hdr_get_op x"
    by (rule bit_word_eqI, use low in \<open>auto simp: tcmu_hdr_get_op_def tcmu_hdr_set_len_def tcmu_hdr_get_len_def m bit_simps Let_def\<close>)+
qed

theorem tipc_tcmu_round_trip_witness:
  "tipc_cluster (tipc_addr 1 2 3) = 2 \<and> tcmu_hdr_get_op (tcmu_hdr_set_len 5 64) = tcmu_hdr_get_op 5"
  using tipc_tcmu_round_trip [of 1 2 3 0 5 0 64] by (simp add: take_bit_eq_mod)

end
