(* ===== verification/Virtio_Ring.thy ===== *)
theory Virtio_Ring
  imports C_Loops
begin

text \<open>
  The rings of \<open>linux/virtio_ring.h\<close>: how a virtqueue lies in memory, and when the other side has to be
  notified. Indices run freely in 16 bits and wrap around; a difference is computed as an \<open>int\<close> and
  truncated. Sizes are 64-bit words, addresses too.
\<close>

unbundle bit_operations_syntax

section \<open>Model\<close>

record vring =
  num :: u32
  desc :: u64
  avail :: u64
  used :: u64

definition sizeof_virtio16 :: u64 where
  "sizeof_virtio16 = 2"

definition sizeof_vring_desc :: u64 where
  "sizeof_vring_desc = 16"

definition sizeof_vring_used_elem :: u64 where
  "sizeof_vring_used_elem = 8"

text \<open>The addresses of the elements of the two rings, behind flags and index.\<close>

definition avail_ring :: "vring \<Rightarrow> u32 \<Rightarrow> u64" where
  "avail_ring vr i = avail vr + 4 + sizeof_virtio16 * ucast i"

definition used_ring :: "vring \<Rightarrow> u32 \<Rightarrow> u64" where
  "used_ring vr i = used vr + 4 + sizeof_vring_used_elem * ucast i"

definition vring_used_event :: "vring \<Rightarrow> u64" where
  "vring_used_event vr = avail_ring vr (num vr)"

definition vring_avail_event :: "vring \<Rightarrow> u64" where
  "vring_avail_event vr = used_ring vr (num vr)"

definition vring_init :: "vring \<Rightarrow> u32 \<Rightarrow> u64 \<Rightarrow> u64 \<Rightarrow> vring" where
  "vring_init vr n p align =
     (let vr1 = vr\<lparr>num := n\<rparr>;
          vr2 = vr1\<lparr>desc := p\<rparr>;
          vr3 = vr2\<lparr>avail := p + ucast n * sizeof_vring_desc\<rparr>
      in vr3\<lparr>used := (avail_ring vr3 n + sizeof_virtio16 + align - 1) AND NOT (align - 1)\<rparr>)"

definition vring_size :: "u32 \<Rightarrow> u64 \<Rightarrow> u32" where
  "vring_size n align =
     ucast (((sizeof_vring_desc * ucast n + sizeof_virtio16 * ucast (3 + n) + align - 1) AND NOT (align - 1)) +
            sizeof_virtio16 * 3 + sizeof_vring_used_elem * ucast n)"

definition vring_need_event :: "u16 \<Rightarrow> u16 \<Rightarrow> u16 \<Rightarrow> bool" where
  "vring_need_event event_idx new_idx old \<longleftrightarrow>
     lo16 (prom new_idx - prom event_idx - 1) < lo16 (prom new_idx - prom old)"

section \<open>Notifications\<close>

lemma lo16_diff: "lo16 (prom x - prom y) = x - y" "lo16 (prom x - prom y - 1) = x - y - 1"
proof -
  have "(ucast (a - b :: u32) :: u16) = ucast a - ucast b" for a b
  proof -
    have "take_bit 16 (take_bit 32 (k - l)) = take_bit 16 (take_bit 32 k - take_bit 32 l)" for k l :: int
      using take_bit_diff [of 16 "take_bit 32 k" "take_bit 32 l"] take_bit_diff [of 16 k l] by simp
    then show ?thesis by transfer simp
  qed
  moreover have "(ucast (ucast z :: u32) :: u16) = z" for z by (rule bit_word_eqI) (auto simp: bit_simps)
  ultimately show "lo16 (prom x - prom y) = x - y" "lo16 (prom x - prom y - 1) = x - y - 1"
    by (simp_all add: lo16_def prom_def)
qed

text \<open>An event fires when its index lies in the half-open range that the index moved over.\<close>

lemma need_event_iff: "vring_need_event event_idx new_idx old \<longleftrightarrow> unat (event_idx - old) < unat (new_idx - old)"
proof -
  define a where "a = new_idx - old"
  define b where "b = event_idx - old"
  have "new_idx - event_idx - 1 = a - b - 1" by (simp add: a_def b_def)
  then have "vring_need_event event_idx new_idx old \<longleftrightarrow> a - b - 1 < a"
    unfolding vring_need_event_def lo16_diff by (simp only: a_def)
  also have "\<dots> \<longleftrightarrow> unat b < unat a"
  proof (cases "unat b < unat a")
    case True
    then have "unat (a - b) = unat a - unat b" by (simp add: unat_sub word_le_nat_alt)
    moreover from this have "unat (a - b - 1) = unat a - unat b - 1" using True by (subst unat_sub) (simp_all add: word_le_nat_alt)
    ultimately show ?thesis using True by (simp add: word_less_nat_alt)
  next
    case False
    have m: "unat (- 1 :: u16) = 65535" by (simp add: unsigned_minus_1_eq_mask mask_eq_exp_minus_1)
    have "unat (- 1 - b) = 65535 - unat b" using unat_u16 [of b] by (subst unat_sub) (simp_all add: word_le_nat_alt m)
    moreover have "a - b - 1 = a + (- 1 - b)" by simp
    ultimately have "unat (a - b - 1) = unat a + (65535 - unat b)"
      using False unat_u16 [of b] by (simp only: unat_word_ariths) simp
    then show ?thesis using False by (simp add: word_less_nat_alt)
  qed
  finally show ?thesis by (simp add: a_def b_def)
qed

text \<open>Moving the index by a list of increments; the number of moves that ask for a notification.\<close>

fun notifications :: "u16 \<Rightarrow> u16 \<Rightarrow> nat list \<Rightarrow> nat" where
  "notifications event_idx idx [] = 0"
| "notifications event_idx idx (d # ds) =
     (if vring_need_event event_idx (idx + of_nat d) idx then 1 else 0) + notifications event_idx (idx + of_nat d) ds"

text \<open>
  C38. No notification is lost or doubled: however the movement of the index is split into steps, as long as it
  does not come round to where it started, exactly one step asks for a notification when the
  index passes the event index, and none when it does not; wrapping around makes no difference.
\<close>

theorem notified_once:
  assumes "sum_list ds < 2 ^ 16"
  shows "notifications event_idx idx ds = (if unat (event_idx - idx) < sum_list ds then 1 else 0)"
  using assms
proof (induction ds arbitrary: idx)
  case (Cons d ds)
  let ?e = "event_idx - idx" and ?i = "idx + of_nat d"
  have d: "unat (of_nat d :: u16) = d" using Cons.prems by (simp add: unat_of_nat)
  have ne: "vring_need_event event_idx ?i idx \<longleftrightarrow> unat ?e < d" by (simp add: need_event_iff d)
  have "event_idx - ?i = ?e - of_nat d" by simp
  then have e: "unat (event_idx - ?i) = (if d \<le> unat ?e then unat ?e - d else unat ?e + 65536 - d)"
    by (simp only: unat_sub_if' [of ?e "of_nat d"] d) simp
  show ?case using Cons.IH [of ?i] Cons.prems ne e unat_u16 [of ?e] by auto
qed simp

theorem notified_once_witness:
  "notifications 2 65530 [4, 3, 2, 5] = 1 \<and> notifications 20 65530 [4, 3, 2, 5] = 0"
  using notified_once [of "[4, 3, 2, 5]" 2 65530] notified_once [of "[4, 3, 2, 5]" 20 65530] by simp

section \<open>Layout\<close>

lemma round_up_shift: "m dvd p \<Longrightarrow> 0 < m \<Longrightarrow> round_up m (p + n) = p + round_up m n"
proof -
  assume "m dvd p" and m: "0 < m"
  then obtain k where p: "p = m * k" by blast
  have "(n + (m - 1) + m * k) div m = k + (n + (m - 1)) div m" using m by (intro div_mult_self2) simp
  then show ?thesis by (simp only: round_up_def p add.assoc [symmetric] add.commute [of "m * k"]) (simp add: algebra_simps)
qed

lemma align_mask:
  assumes "unat x + 2 ^ a \<le> 2 ^ 64" and "a < 64"
  shows "unat ((x + 2 ^ a - 1) AND NOT (2 ^ a - 1 :: u64)) = round_up (2 ^ a) (unat x)"
  using mask_round_up [of x a] assms by (simp add: mask_eq_exp_minus_1 add_diff_eq)

text \<open>
  The parts of a ring lie behind each other as documented: the descriptors at the given address, the
  available ring with the event index of the other side behind them, then the used ring at the next
  multiple of the alignment; its event index is the last of the bytes that \<open>vring_size\<close> counts.
\<close>

theorem vring_layout:
  assumes "unat n \<le> 2 ^ 15" and "a \<le> 20" and "2 ^ a dvd unat p" and "unat p + 2 ^ 22 \<le> 2 ^ 64"
    and "v = vring_init vr n p (2 ^ a)"
  shows "desc v = p \<and> unat (avail v) = unat p + 16 * unat n \<and>
     unat (vring_used_event v) = unat (avail v) + 4 + 2 * unat n \<and>
     2 ^ a dvd unat (used v) \<and> unat (vring_used_event v) + 2 \<le> unat (used v) \<and> unat (used v) < unat (vring_used_event v) + 2 + 2 ^ a \<and>
     unat (vring_avail_event v) = unat (used v) + 4 + 8 * unat n \<and>
     unat (vring_avail_event v) + 2 = unat p + unat (vring_size n (2 ^ a))"
proof -
  let ?N = "unat n" and ?A = "2 ^ a :: nat"
  have A: "?A \<le> 2 ^ 20" using assms(2) by (rule power_increasing) simp
  have un: "unat (ucast n :: u64) = ?N" by (rule unat_ucast_u32)
  have small: "?N \<le> 32768" "?A \<le> 1048576" "unat p + 4194304 \<le> 18446744073709551616"
    using assms(1,4) A by simp_all
  have av: "avail v = p + ucast n * 16" "used v = (avail v + 4 + 2 * ucast n + 2 + 2 ^ a - 1) AND NOT (2 ^ a - 1)"
    "desc v = p" "num v = n"
    unfolding assms(5) by (simp_all add: vring_init_def Let_def avail_ring_def sizeof_vring_desc_def sizeof_virtio16_def)
  have uav: "unat (avail v) = unat p + 16 * ?N" unfolding av(1) using small by (simp add: unat_word_ariths un)
  have ue: "unat (vring_used_event v) = unat (avail v) + 4 + 2 * ?N"
    using small uav by (simp add: vring_used_event_def avail_ring_def sizeof_virtio16_def av(4) unat_word_ariths un)
  let ?M = "18 * ?N + 6"
  have r: "?M \<le> round_up ?A ?M" "round_up ?A ?M < ?M + ?A" "?A dvd round_up ?A ?M"
    using round_up_bounds [of ?A ?M] round_up_dvd [of ?A ?M] by simp_all
  have "unat (avail v + 4 + 2 * ucast n + 2) = unat p + ?M"
    using small uav by (simp add: unat_word_ariths un)
  then have "unat (used v) = round_up ?A (unat p + ?M)"
    unfolding av(2) using align_mask [of "avail v + 4 + 2 * ucast n + 2" a] assms(2) small by simp
  then have us: "unat (used v) = unat p + round_up ?A ?M" using round_up_shift [OF assms(3)] by simp
  have ae: "unat (vring_avail_event v) = unat (used v) + 4 + 8 * ?N"
    using small us r by (simp add: vring_avail_event_def used_ring_def sizeof_vring_used_elem_def av(4) unat_word_ariths un)
  have n3: "unat (3 + n) = 3 + ?N" using small by (simp add: unat_word_ariths)
  then have "unat (16 * ucast n + 2 * ucast (3 + n) :: u64) = ?M"
    using small by (simp add: unat_word_ariths un)
  then have "unat ((16 * ucast n + 2 * ucast (3 + n) + 2 ^ a - 1) AND NOT (2 ^ a - 1 :: u64)) = round_up ?A ?M"
    using align_mask [of "16 * ucast n + 2 * ucast (3 + n)" a] assms(2) small by simp
  then have "unat (((16 * ucast n + 2 * ucast (3 + n) + 2 ^ a - 1) AND NOT (2 ^ a - 1 :: u64)) + 2 * 3 + 8 * ucast n) =
      round_up ?A ?M + 6 + 8 * ?N"
    using small r by (simp add: unat_word_ariths un)
  then have sz: "unat (vring_size n (2 ^ a)) = round_up ?A ?M + 6 + 8 * ?N"
    using small r by (simp add: vring_size_def sizeof_vring_desc_def sizeof_virtio16_def sizeof_vring_used_elem_def
        unsigned_ucast_eq take_bit_nat_eq_self)
  show ?thesis
    using av uav ue us ae sz r assms(3) by auto
qed

theorem vring_layout_witness:
  "unat (vring_avail_event (vring_init \<lparr>num = 0, desc = 0, avail = 0, used = 0\<rparr> 256 0x10000 4096)) + 2 =
     0x10000 + unat (vring_size 256 4096)"
  using vring_layout [of 256 12 "0x10000" _ "\<lparr>num = 0, desc = 0, avail = 0, used = 0\<rparr>", OF _ _ _ _ refl] by simp

end
