(* ===== verification/Stdio_Streams.thy ===== *)
theory Stdio_Streams
  imports C_Loops
begin

text \<open>
  Buffered streams: the macros of \<open>bits/types/struct_FILE.h\<close> and the inline functions and macros of
  \<open>bits/stdio.h\<close> of the sysroot. A stream is the part of \<open>struct _IO_FILE\<close> that this code touches,
  together with the memory its buffers lie in; the other fields belong to the library and are the
  extension of the record. The library functions that are called when a buffer is empty or full,
  \<open>__uflow\<close> and \<open>__overflow\<close>, are parameters, and so are the functions behind the macros. An \<open>int\<close> is a 32-bit
  word and \<open>EOF\<close> is \<open>-1\<close>. Of a block that is read, the bytes stored are returned in their order.
\<close>

unbundle bit_operations_syntax

section \<open>Model\<close>

record stream =
  us_flags :: u32
  IO_read_ptr :: u64
  IO_read_end :: u64
  IO_write_base :: u64
  IO_write_ptr :: u64
  IO_write_end :: u64
  smem :: memory

abbreviation EOF :: u32 where
  "EOF \<equiv> -1"

text \<open>An \<open>int\<close> returned by a call, and the stream it leaves.\<close>

type_synonym 'a uflow = "'a stream_scheme \<Rightarrow> u32 \<times> 'a stream_scheme"
type_synonym 'a overflow = "'a stream_scheme \<Rightarrow> u8 \<Rightarrow> u32 \<times> 'a stream_scheme"

definition getc_unlocked_body :: "'a uflow \<Rightarrow> 'a stream_scheme \<Rightarrow> u32 \<times> 'a stream_scheme" where
  "getc_unlocked_body uflow fp =
     (if IO_read_ptr fp \<ge> IO_read_end fp then uflow fp
      else (ucast (smem fp (IO_read_ptr fp)), fp\<lparr>IO_read_ptr := IO_read_ptr fp + 1\<rparr>))"

definition putc_unlocked_body :: "'a overflow \<Rightarrow> u32 \<Rightarrow> 'a stream_scheme \<Rightarrow> u32 \<times> 'a stream_scheme" where
  "putc_unlocked_body overflow ch fp =
     (if IO_write_ptr fp \<ge> IO_write_end fp then overflow fp (ucast ch)
      else (ucast (ucast ch :: u8),
            fp\<lparr>smem := (smem fp)(IO_write_ptr fp := ucast ch), IO_write_ptr := IO_write_ptr fp + 1\<rparr>))"

definition IO_EOF_SEEN :: u32 where
  "IO_EOF_SEEN = 0x0010"

definition feof_unlocked_body :: "'a stream_scheme \<Rightarrow> bool" where
  "feof_unlocked_body fp = (us_flags fp AND IO_EOF_SEEN \<noteq> 0)"

definition IO_ERR_SEEN :: u32 where
  "IO_ERR_SEEN = 0x0020"

definition ferror_unlocked_body :: "'a stream_scheme \<Rightarrow> bool" where
  "ferror_unlocked_body fp = (us_flags fp AND IO_ERR_SEEN \<noteq> 0)"

text \<open>The inline functions; \<open>getc\<close>, \<open>putc\<close>, \<open>vfprintf\<close> and \<open>__getdelim\<close> are functions of the library.\<close>

definition vprintf :: "('f \<Rightarrow> 'fmt \<Rightarrow> 'arg \<Rightarrow> 'r) \<Rightarrow> 'f \<Rightarrow> 'fmt \<Rightarrow> 'arg \<Rightarrow> 'r" where
  "vprintf vfprintf stdout fmt arg = vfprintf stdout fmt arg"

definition getchar :: "('f \<Rightarrow> 'r) \<Rightarrow> 'f \<Rightarrow> 'r" where
  "getchar getc stdin = getc stdin"

definition fgetc_unlocked :: "'a uflow \<Rightarrow> 'a stream_scheme \<Rightarrow> u32 \<times> 'a stream_scheme" where
  "fgetc_unlocked uflow fp = getc_unlocked_body uflow fp"

definition getc_unlocked :: "'a uflow \<Rightarrow> 'a stream_scheme \<Rightarrow> u32 \<times> 'a stream_scheme" where
  "getc_unlocked uflow fp = getc_unlocked_body uflow fp"

definition getchar_unlocked :: "'a uflow \<Rightarrow> 'a stream_scheme \<Rightarrow> u32 \<times> 'a stream_scheme" where
  "getchar_unlocked uflow stdin = getc_unlocked_body uflow stdin"

definition putchar :: "(u32 \<Rightarrow> 'f \<Rightarrow> 'r) \<Rightarrow> 'f \<Rightarrow> u32 \<Rightarrow> 'r" where
  "putchar putc stdout c = putc c stdout"

definition fputc_unlocked :: "'a overflow \<Rightarrow> u32 \<Rightarrow> 'a stream_scheme \<Rightarrow> u32 \<times> 'a stream_scheme" where
  "fputc_unlocked overflow c fp = putc_unlocked_body overflow c fp"

definition putc_unlocked :: "'a overflow \<Rightarrow> u32 \<Rightarrow> 'a stream_scheme \<Rightarrow> u32 \<times> 'a stream_scheme" where
  "putc_unlocked overflow c fp = putc_unlocked_body overflow c fp"

definition putchar_unlocked :: "'a overflow \<Rightarrow> 'a stream_scheme \<Rightarrow> u32 \<Rightarrow> u32 \<times> 'a stream_scheme" where
  "putchar_unlocked overflow stdout c = putc_unlocked_body overflow c stdout"

definition getline :: "('p \<Rightarrow> 'n \<Rightarrow> u32 \<Rightarrow> 'f \<Rightarrow> 'r) \<Rightarrow> 'p \<Rightarrow> 'n \<Rightarrow> 'f \<Rightarrow> 'r" where
  "getline getdelim lineptr n fp = getdelim lineptr n 10 fp"

definition feof_unlocked :: "'a stream_scheme \<Rightarrow> bool" where
  "feof_unlocked fp = feof_unlocked_body fp"

definition ferror_unlocked :: "'a stream_scheme \<Rightarrow> bool" where
  "ferror_unlocked fp = ferror_unlocked_body fp"

text \<open>
  The loops of the two block macros count down from the number of bytes; they give what is left of
  the count. A block to be written is its bytes, as \<open>char\<close> values that are sign extended.
\<close>

fun read_loop :: "'a uflow \<Rightarrow> nat \<Rightarrow> 'a stream_scheme \<Rightarrow> u8 list \<times> nat \<times> 'a stream_scheme" where
  "read_loop uflow 0 fp = ([], 0, fp)"
| "read_loop uflow (Suc cnt) fp =
     (let (c, fp1) = getc_unlocked uflow fp
      in if c = EOF then ([], Suc cnt, fp1)
         else let (bytes, left, fp2) = read_loop uflow cnt fp1 in (ucast c # bytes, left, fp2))"

fun write_loop :: "'a overflow \<Rightarrow> u8 list \<Rightarrow> nat \<Rightarrow> 'a stream_scheme \<Rightarrow> nat \<times> 'a stream_scheme" where
  "write_loop overflow block 0 fp = (0, fp)"
| "write_loop overflow block (Suc cnt) fp =
     (let (r, fp1) = putc_unlocked overflow (scast (hd block)) fp
      in if r = EOF then (Suc cnt, fp1) else write_loop overflow (tl block) cnt fp1)"

text \<open>The macros: what the compiler knows to be constant are arguments; \<open>fread\<close> and \<open>fwrite\<close> are the functions.\<close>

definition fread_unlocked ::
    "bool \<Rightarrow> bool \<Rightarrow> 'a uflow \<Rightarrow> (u64 \<Rightarrow> u64 \<Rightarrow> 'a stream_scheme \<Rightarrow> u64 \<times> u8 list \<times> 'a stream_scheme) \<Rightarrow>
     u64 \<Rightarrow> u64 \<Rightarrow> 'a stream_scheme \<Rightarrow> u64 \<times> u8 list \<times> 'a stream_scheme" where
  "fread_unlocked const_size const_n uflow fread sz n fp =
     (if const_size \<and> const_n \<and> sz * n \<le> 8 \<and> sz \<noteq> 0
      then let (bytes, cnt, fp1) = read_loop uflow (unat (sz * n)) fp in ((sz * n - of_nat cnt) div sz, bytes, fp1)
      else if const_size \<and> sz = 0 \<or> const_n \<and> n = 0 then (0, [], fp)
      else fread sz n fp)"

definition fwrite_unlocked ::
    "bool \<Rightarrow> bool \<Rightarrow> 'a overflow \<Rightarrow> (u8 list \<Rightarrow> u64 \<Rightarrow> u64 \<Rightarrow> 'a stream_scheme \<Rightarrow> u64 \<times> 'a stream_scheme) \<Rightarrow>
     u8 list \<Rightarrow> u64 \<Rightarrow> u64 \<Rightarrow> 'a stream_scheme \<Rightarrow> u64 \<times> 'a stream_scheme" where
  "fwrite_unlocked const_size const_n overflow fwrite block sz n fp =
     (if const_size \<and> const_n \<and> sz * n \<le> 8 \<and> sz \<noteq> 0
      then let (cnt, fp1) = write_loop overflow block (unat (sz * n)) fp in ((sz * n - of_nat cnt) div sz, fp1)
      else if const_size \<and> sz = 0 \<or> const_n \<and> n = 0 then (0, fp)
      else fwrite block sz n fp)"

section \<open>Buffers as sequences\<close>

definition bytes_between :: "memory \<Rightarrow> u64 \<Rightarrow> u64 \<Rightarrow> u8 list" where
  "bytes_between m p q = map (\<lambda>i. m (p + of_nat i)) [0 ..< unat q - unat p]"

lemma unat_u64: "unat (x :: u64) < 2 ^ 64"
proof -
  have "unat x < 2 ^ LENGTH(64)" by (rule unsigned_less)
  then show ?thesis by simp
qed

lemma unat_next: "(p :: u64) < q \<Longrightarrow> unat (p + 1) = unat p + 1"
  using unat_u64 [of q] by (simp add: word_less_nat_alt unat_word_ariths)

lemma bytes_between_empty [simp]: "q \<le> p \<Longrightarrow> bytes_between m p q = []"
  by (simp add: bytes_between_def word_le_nat_alt)

lemma bytes_between_Cons:
  assumes "p < q"
  shows "bytes_between m p q = m p # bytes_between m (p + 1) q"
proof -
  have n: "unat q - unat p = Suc (unat q - unat (p + 1))" using assms unat_next [OF assms] by (simp add: word_less_nat_alt)
  show ?thesis unfolding bytes_between_def n map_upt_Suc by (simp add: add.assoc)
qed

lemma bytes_between_snoc:
  assumes "p \<le> q" and "q < e"
  shows "bytes_between (m(q := c)) p (q + 1) = bytes_between m p q @ [c]"
proof -
  let ?n = "unat q - unat p"
  have n: "unat (q + 1) - unat p = Suc ?n" using assms(1) unat_next [OF assms(2)] by (simp add: word_le_nat_alt)
  have "unat (of_nat ?n :: u64) = ?n" using unat_u64 [of q] by (simp add: unat_of_nat)
  then have q: "p + of_nat ?n = q"
    using assms(1) unat_u64 [of q] by (simp add: word_unat_eq_iff unat_word_ariths word_le_nat_alt)
  have ne: "p + of_nat i \<noteq> q" if "i < ?n" for i
  proof -
    have "unat (of_nat i :: u64) = i" using that unat_u64 [of q] by (simp add: unat_of_nat)
    then show ?thesis using that unat_u64 [of q] by (simp add: word_unat_eq_iff unat_word_ariths)
  qed
  show ?thesis unfolding bytes_between_def n using q ne by simp
qed

section \<open>Reading\<close>

text \<open>
  What the library promises of refilling a buffer: \<open>rest\<close> are the bytes that the stream will still deliver
  behind its buffer. Called on an empty buffer, \<open>__uflow\<close> returns the first of them and has the
  others in the new buffer or behind it; without any it returns \<open>EOF\<close>. Reading in the buffer leaves the rest alone.
\<close>

definition incoming :: "('a stream_scheme \<Rightarrow> u8 list) \<Rightarrow> 'a stream_scheme \<Rightarrow> u8 list" where
  "incoming rest fp = bytes_between (smem fp) (IO_read_ptr fp) (IO_read_end fp) @ rest fp"

definition refills :: "'a uflow \<Rightarrow> ('a stream_scheme \<Rightarrow> u8 list) \<Rightarrow> bool" where
  "refills uflow rest \<longleftrightarrow>
     (\<forall>fp. IO_read_end fp \<le> IO_read_ptr fp \<longrightarrow>
        (case rest fp of
           [] \<Rightarrow> fst (uflow fp) = EOF \<and> incoming rest (snd (uflow fp)) = []
         | c # cs \<Rightarrow> fst (uflow fp) = ucast c \<and> incoming rest (snd (uflow fp)) = cs)) \<and>
     (\<forall>fp p. rest (fp\<lparr>IO_read_ptr := p\<rparr>) = rest fp)"

lemma byte_not_EOF [simp]: "(ucast (c :: u8) :: u32) \<noteq> EOF" "(ucast (ucast c :: u32) :: u8) = c"
proof -
  have "unat (ucast c :: u32) < 256" using unat_u8 [of c] by (simp add: unsigned_ucast_eq take_bit_nat_eq_self)
  then show "(ucast c :: u32) \<noteq> EOF" by (auto simp: unsigned_minus_1_eq_mask mask_eq_exp_minus_1)
  show "(ucast (ucast c :: u32) :: u8) = c" by (rule bit_word_eqI) (auto simp: bit_simps)
qed

lemma getc_delivers:
  assumes "refills uflow rest"
  shows "case incoming rest fp of
      [] \<Rightarrow> fst (getc_unlocked uflow fp) = EOF \<and> incoming rest (snd (getc_unlocked uflow fp)) = []
    | c # cs \<Rightarrow> fst (getc_unlocked uflow fp) = ucast c \<and> incoming rest (snd (getc_unlocked uflow fp)) = cs"
proof (cases "IO_read_end fp \<le> IO_read_ptr fp")
  case True
  then have "getc_unlocked uflow fp = uflow fp" "incoming rest fp = rest fp"
    by (simp_all add: getc_unlocked_def getc_unlocked_body_def incoming_def)
  then show ?thesis using assms True by (simp add: refills_def split: list.splits)
next
  case False
  then have l: "IO_read_ptr fp < IO_read_end fp" by simp
  have g: "getc_unlocked uflow fp = (ucast (smem fp (IO_read_ptr fp)), fp\<lparr>IO_read_ptr := IO_read_ptr fp + 1\<rparr>)"
    using False by (simp add: getc_unlocked_def getc_unlocked_body_def)
  have "rest (fp\<lparr>IO_read_ptr := IO_read_ptr fp + 1\<rparr>) = rest fp" using assms by (simp add: refills_def)
  then show ?thesis using l by (simp add: g incoming_def bytes_between_Cons)
qed

lemma read_loop_input:
  assumes "refills uflow rest" and "read_loop uflow cnt fp = (bytes, left, fp')"
  shows "bytes = take cnt (incoming rest fp) \<and> left = cnt - length bytes \<and> incoming rest fp' = drop cnt (incoming rest fp)"
  using assms(2)
proof (induction cnt arbitrary: fp bytes left)
  case (Suc cnt)
  obtain c fp1 where c: "getc_unlocked uflow fp = (c, fp1)" by fastforce
  note d = getc_delivers [OF assms(1), of fp, unfolded c fst_conv snd_conv]
  show ?case
  proof (cases "incoming rest fp")
    case Nil
    then show ?thesis using Suc.prems c d by (simp add: Let_def)
  next
    case (Cons b bs)
    then have cb: "c = ucast b" and i: "incoming rest fp1 = bs" using d by simp_all
    obtain bytes' where r: "read_loop uflow cnt fp1 = (bytes', left, fp')" "bytes = b # bytes'"
      using Suc.prems c cb by (auto simp: Let_def split: prod.splits)
    show ?thesis using Suc.IH [OF r(1)] r(2) Cons i by simp
  qed
qed simp

text \<open>
  C39. Reading a small block inline is exact: the bytes stored are the next bytes that the stream delivers,
  as many as size times count in the arithmetic of the machine or all that are left, the stream goes
  on behind them, and the number of complete items is returned; how they were spread over refills of the
  buffer does not matter.
\<close>

theorem block_read_exact:
  assumes "refills uflow rest" and "sz * n \<le> 8"
  shows "case fread_unlocked True True uflow fread sz n fp of (r, bytes, fp') \<Rightarrow>
     bytes = take (unat (sz * n)) (incoming rest fp) \<and> incoming rest fp' = drop (unat (sz * n)) (incoming rest fp) \<and>
     unat r = length bytes div unat sz"
proof (cases "sz = 0")
  case True
  then show ?thesis by (simp add: fread_unlocked_def)
next
  case False
  obtain bytes left fp' where l: "read_loop uflow (unat (sz * n)) fp = (bytes, left, fp')" by (metis prod_cases3)
  note i = read_loop_input [OF assms(1) l]
  have "length bytes \<le> unat (sz * n)" using i by simp
  then have "unat (of_nat left :: u64) = unat (sz * n) - length bytes"
    using i unat_u64 [of "sz * n"] by (simp only: unat_of_nat) simp
  then have "unat (sz * n - of_nat left) = length bytes"
    using \<open>length bytes \<le> unat (sz * n)\<close> by (subst unat_sub) (simp_all add: word_le_nat_alt)
  then show ?thesis using False assms(2) l i by (simp add: fread_unlocked_def unat_div)
qed

section \<open>Writing\<close>

text \<open>
  What the library promises of a full buffer: \<open>sent\<close> are the bytes that left the stream. Where
  \<open>__overflow\<close> does not fail it returns the byte, which is then the last of the bytes sent or still in the buffer.
\<close>

definition outgoing :: "('a stream_scheme \<Rightarrow> u8 list) \<Rightarrow> 'a stream_scheme \<Rightarrow> u8 list" where
  "outgoing sent fp = sent fp @ bytes_between (smem fp) (IO_write_base fp) (IO_write_ptr fp)"

definition flushes :: "'a overflow \<Rightarrow> ('a stream_scheme \<Rightarrow> u8 list) \<Rightarrow> bool" where
  "flushes overflow sent \<longleftrightarrow>
     (\<forall>fp ch. IO_write_base fp \<le> IO_write_ptr fp \<longrightarrow> IO_write_end fp \<le> IO_write_ptr fp \<longrightarrow>
        (case overflow fp ch of (r, fp') \<Rightarrow>
           IO_write_base fp' \<le> IO_write_ptr fp' \<and>
           (r = EOF \<or> r = ucast ch \<and> outgoing sent fp' = outgoing sent fp @ [ch]))) \<and>
     (\<forall>fp m p. sent (fp\<lparr>smem := m, IO_write_ptr := p\<rparr>) = sent fp)"

lemma putc_appends:
  assumes "flushes overflow sent" and "IO_write_base fp \<le> IO_write_ptr fp" and "putc_unlocked overflow ch fp = (r, fp')"
  shows "IO_write_base fp' \<le> IO_write_ptr fp' \<and>
    (r \<noteq> EOF \<longrightarrow> outgoing sent fp' = outgoing sent fp @ [ucast ch]) \<and>
    (r = EOF \<longrightarrow> (\<exists>fp ch. fst (overflow fp ch) = EOF))"
proof (cases "IO_write_end fp \<le> IO_write_ptr fp")
  case True
  then have ov: "overflow fp (ucast ch) = (r, fp')" using assms(3) by (simp add: putc_unlocked_def putc_unlocked_body_def)
  have "case overflow fp (ucast ch) of (r, fp') \<Rightarrow> IO_write_base fp' \<le> IO_write_ptr fp' \<and>
      (r = EOF \<or> r = ucast (ucast ch :: u8) \<and> outgoing sent fp' = outgoing sent fp @ [ucast ch])"
    using assms(1) [unfolded flushes_def, THEN conjunct1, THEN spec, THEN spec, of fp "ucast ch"] assms(2) True by simp
  then have "IO_write_base fp' \<le> IO_write_ptr fp' \<and> (r = EOF \<or> r = ucast (ucast ch :: u8) \<and> outgoing sent fp' = outgoing sent fp @ [ucast ch])"
    using ov by simp
  moreover have "\<exists>fp ch. fst (overflow fp ch) = EOF" if "r = EOF" using ov that by (metis fst_conv)
  ultimately show ?thesis by auto
next
  case False
  then have l: "IO_write_ptr fp < IO_write_end fp" by simp
  let ?m = "(smem fp)(IO_write_ptr fp := ucast ch)"
  have r: "r = ucast (ucast ch :: u8)" and fp': "fp' = fp\<lparr>smem := ?m, IO_write_ptr := IO_write_ptr fp + 1\<rparr>"
    using assms(3) False by (auto simp: putc_unlocked_def putc_unlocked_body_def)
  have "sent fp' = sent fp" using assms(1) by (simp add: flushes_def fp')
  then have "outgoing sent fp' = outgoing sent fp @ [ucast ch]"
    using bytes_between_snoc [OF assms(2) l] by (simp add: outgoing_def fp')
  moreover have "IO_write_base fp' \<le> IO_write_ptr fp'"
    using assms(2) unat_next [OF l] by (simp add: fp' word_le_nat_alt)
  ultimately show ?thesis using r by simp
qed

lemma char_sign_extended: "(ucast (scast (c :: u8) :: u32) :: u8) = c"
  by (rule bit_word_eqI) (auto simp: bit_simps)

lemma write_loop_output:
  assumes "flushes overflow sent" and "IO_write_base fp \<le> IO_write_ptr fp" and "cnt \<le> length block"
    and "write_loop overflow block cnt fp = (left, fp')"
  shows "left \<le> cnt \<and> (left = 0 \<longrightarrow> outgoing sent fp' = outgoing sent fp @ take cnt block) \<and>
    (left \<noteq> 0 \<longrightarrow> (\<exists>fp ch. fst (overflow fp ch) = EOF))"
  using assms(2-4)
proof (induction cnt arbitrary: fp block)
  case (Suc cnt)
  obtain b bs where b: "block = b # bs" using Suc.prems(2) by (cases block) auto
  obtain r fp1 where p: "putc_unlocked overflow (scast b) fp = (r, fp1)" by fastforce
  note a = putc_appends [OF assms(1) Suc.prems(1) p]
  show ?case
  proof (cases "r = EOF")
    case True
    then show ?thesis using Suc.prems(3) a p b by (simp add: Let_def)
  next
    case False
    then have w: "write_loop overflow bs cnt fp1 = (left, fp')" using Suc.prems(3) p b by (simp add: Let_def)
    have "cnt \<le> length bs" using Suc.prems(2) b by simp
    from Suc.IH [OF _ this w] a False show ?thesis by (simp add: b char_sign_extended)
  qed
qed simp

text \<open>
  Writing a small block inline is exact: never more items than given are reported, and when all of them
  are, the bytes of the block and nothing else were added to what the stream has sent or still holds,
  in order, however often the buffer was flushed; only a failing flush makes the number smaller.
\<close>

theorem block_write_exact:
  assumes "flushes overflow sent" and "IO_write_base fp \<le> IO_write_ptr fp"
    and "unat sz * unat n \<le> 8" and "sz \<noteq> 0" and "unat sz * unat n \<le> length block"
  shows "case fwrite_unlocked True True overflow fwrite block sz n fp of (r, fp') \<Rightarrow>
     r \<le> n \<and> (r = n \<longrightarrow> outgoing sent fp' = outgoing sent fp @ take (unat sz * unat n) block) \<and>
     (r \<noteq> n \<longrightarrow> (\<exists>fp ch. fst (overflow fp ch) = EOF))"
proof -
  have p: "unat (sz * n) = unat sz * unat n" using assms(3) by (simp add: unat_word_ariths)
  obtain left fp' where w: "write_loop overflow block (unat (sz * n)) fp = (left, fp')" by fastforce
  have ov: "left \<le> unat sz * unat n" "left = 0 \<longrightarrow> outgoing sent fp' = outgoing sent fp @ take (unat sz * unat n) block"
    "left \<noteq> 0 \<longrightarrow> (\<exists>fp ch. fst (overflow fp ch) = EOF)"
    using write_loop_output [OF assms(1,2) _ w] assms(5) p by auto
  have z: "0 < unat sz" using assms(4) by (simp add: unat_gt_0)
  have "unat (of_nat left :: u64) = left" using ov(1) unat_u64 [of "sz * n"] p by (simp add: unat_of_nat)
  then have "unat (sz * n - of_nat left) = unat sz * unat n - left"
    using ov(1) p by (subst unat_sub) (simp_all add: word_le_nat_alt)
  then have r: "unat ((sz * n - of_nat left) div sz) = (unat sz * unat n - left) div unat sz" by (simp add: unat_div)
  have le: "(unat sz * unat n - left) div unat sz \<le> unat n"
    using div_le_mono [of "unat sz * unat n - left" "unat sz * unat n" "unat sz"] z by simp
  have "left = 0" if "(unat sz * unat n - left) div unat sz = unat n"
  proof -
    have "unat n * unat sz \<le> unat sz * unat n - left" using that z by (metis div_times_less_eq_dividend)
    then show ?thesis using ov(1) by (simp add: mult.commute)
  qed
  moreover have "(unat sz * unat n - left) div unat sz = unat n" if "left = 0" using that z by simp
  ultimately show ?thesis
    using assms(3,4) w p ov r le by (auto simp: fwrite_unlocked_def word_le_nat_alt word_unat_eq_iff)
qed

section \<open>A library for the witnesses\<close>

text \<open>An input stream that is refilled byte by byte, and an output stream that flushes its whole buffer.\<close>

definition slow_uflow :: "u8 list uflow" where
  "slow_uflow fp = (case stream.more fp of [] \<Rightarrow> (EOF, fp) | c # cs \<Rightarrow> (ucast c, stream.more_update (\<lambda>_. cs) fp))"

definition full_overflow :: "u8 list overflow" where
  "full_overflow fp ch =
     (ucast ch, (stream.more_update (\<lambda>sent. sent @ bytes_between (smem fp) (IO_write_base fp) (IO_write_ptr fp) @ [ch]) fp)
        \<lparr>IO_write_ptr := IO_write_base fp\<rparr>)"

definition sampleStream :: "u8 list stream_scheme" where
  "sampleStream = \<lparr>us_flags = 0, IO_read_ptr = 64, IO_read_end = 66, IO_write_base = 32, IO_write_ptr = 33, IO_write_end = 34,
     smem = (\<lambda>a. ucast a), \<dots> = [1, 2]\<rparr>"

lemma slow_uflow_refills: "refills slow_uflow stream.more"
  by (auto simp: refills_def slow_uflow_def incoming_def split: list.split)

lemma full_overflow_flushes: "flushes full_overflow stream.more"
  by (auto simp: flushes_def full_overflow_def outgoing_def)

theorem block_read_exact_witness:
  "case fread_unlocked True True slow_uflow (\<lambda>sz n fp. (0, [], fp)) 2 3 sampleStream of (r, bytes, fp') \<Rightarrow> bytes = [64, 65, 1, 2] \<and> unat r = 2"
proof -
  have i: "incoming stream.more sampleStream = [64, 65, 1, 2]"
    by (simp add: incoming_def bytes_between_def sampleStream_def upt_rec)
  show ?thesis
    using block_read_exact [OF slow_uflow_refills, where sz = 2 and n = 3 and fp = sampleStream and fread = "\<lambda>sz n fp. (0, [], fp)"]
    unfolding i by (simp split: prod.splits)
qed

theorem block_write_exact_witness:
  "case fwrite_unlocked True True full_overflow (\<lambda>block sz n fp. (0, fp)) [7, 8, 9] 1 3 sampleStream of (r, fp') \<Rightarrow>
     r = 3 \<and> outgoing stream.more fp' = [1, 2, 32, 7, 8, 9]"
proof -
  have o: "outgoing stream.more sampleStream = [1, 2, 32]"
    by (simp add: outgoing_def bytes_between_def sampleStream_def upt_rec)
  have "fst (full_overflow fp ch) \<noteq> EOF" for fp ch by (simp add: full_overflow_def)
  then show ?thesis
    using block_write_exact [OF full_overflow_flushes, where fp = sampleStream and sz = 1 and n = 3 and block = "[7, 8, 9]"
        and fwrite = "\<lambda>block sz n fp. (0, fp)"] o by (auto simp: sampleStream_def)
qed

end
