(* ===== verification/Status_Words.thy ===== *)
theory Status_Words
  imports C_Integers
begin

text \<open>
  Words that say several things at once: the status of a child process (\<open>bits/waitstatus.h\<close>, \<open>sys/wait.h\<close>),
  the type of a file in its mode (\<open>bits/stat.h\<close>, \<open>sys/stat.h\<close>, \<open>linux/stat.h\<close>, \<open>dirent.h\<close>) and the priority and
  facility of a log message (\<open>sys/syslog.h\<close>). All values are \<open>int\<close> or \<open>unsigned\<close> of 32 bits. The tests
  that the source gives as numbers are truth values.
\<close>

unbundle bit_operations_syntax

section \<open>Wait status: \<open>bits/waitstatus.h\<close>, \<open>sys/wait.h\<close>\<close>

definition us_WEXITSTATUS :: "u32 \<Rightarrow> u32" where
  "us_WEXITSTATUS status = signed_drop_bit 8 (status AND 0xff00)"

definition us_WTERMSIG :: "u32 \<Rightarrow> u32" where
  "us_WTERMSIG status = status AND 0x7f"

definition us_WSTOPSIG :: "u32 \<Rightarrow> u32" where
  "us_WSTOPSIG status = us_WEXITSTATUS status"

definition us_WIFEXITED :: "u32 \<Rightarrow> bool" where
  "us_WIFEXITED status \<longleftrightarrow> us_WTERMSIG status = 0"

text \<open>The cast to \<open>signed char\<close> makes a negative number of 128; it is an \<open>int\<close> again before it is shifted.\<close>

definition us_WIFSIGNALED :: "u32 \<Rightarrow> bool" where
  "us_WIFSIGNALED status \<longleftrightarrow>
     sint (signed_drop_bit 1 (scast (lo8 ((status AND 0x7f) + 1)) :: u32)) > 0"

definition us_WIFSTOPPED :: "u32 \<Rightarrow> bool" where
  "us_WIFSTOPPED status \<longleftrightarrow> status AND 0xff = 0x7f"

definition us_W_CONTINUED :: u32 where
  "us_W_CONTINUED = 0xffff"

definition us_WIFCONTINUED :: "u32 \<Rightarrow> bool" where
  "us_WIFCONTINUED status \<longleftrightarrow> status = us_W_CONTINUED"

definition us_WCOREFLAG :: u32 where
  "us_WCOREFLAG = 0x80"

definition us_WCOREDUMP :: "u32 \<Rightarrow> u32" where
  "us_WCOREDUMP status = status AND us_WCOREFLAG"

definition us_W_EXITCODE :: "u32 \<Rightarrow> u32 \<Rightarrow> u32" where
  "us_W_EXITCODE ret sig = push_bit 8 ret OR sig"

definition us_W_STOPCODE :: "u32 \<Rightarrow> u32" where
  "us_W_STOPCODE sig = push_bit 8 sig OR 0x7f"

definition WEXITSTATUS :: "u32 \<Rightarrow> u32" where
  "WEXITSTATUS status = us_WEXITSTATUS status"

definition WTERMSIG :: "u32 \<Rightarrow> u32" where
  "WTERMSIG status = us_WTERMSIG status"

definition WSTOPSIG :: "u32 \<Rightarrow> u32" where
  "WSTOPSIG status = us_WSTOPSIG status"

definition WIFEXITED :: "u32 \<Rightarrow> bool" where
  "WIFEXITED status = us_WIFEXITED status"

definition WIFSIGNALED :: "u32 \<Rightarrow> bool" where
  "WIFSIGNALED status = us_WIFSIGNALED status"

definition WIFSTOPPED :: "u32 \<Rightarrow> bool" where
  "WIFSTOPPED status = us_WIFSTOPPED status"

definition WIFCONTINUED :: "u32 \<Rightarrow> bool" where
  "WIFCONTINUED status = us_WIFCONTINUED status"

definition WCOREDUMP :: "u32 \<Rightarrow> u32" where
  "WCOREDUMP status = us_WCOREDUMP status"

definition W_EXITCODE :: "u32 \<Rightarrow> u32 \<Rightarrow> u32" where
  "W_EXITCODE ret sig = us_W_EXITCODE ret sig"

definition W_STOPCODE :: "u32 \<Rightarrow> u32" where
  "W_STOPCODE sig = us_W_STOPCODE sig"

section \<open>File types: \<open>bits/stat.h\<close>, \<open>sys/stat.h\<close>, \<open>linux/stat.h\<close>, \<open>dirent.h\<close>\<close>

definition us_S_IFMT :: u32 where
  "us_S_IFMT = 0xf000"

definition us_S_IFDIR :: u32 where
  "us_S_IFDIR = 0x4000"

definition us_S_IFCHR :: u32 where
  "us_S_IFCHR = 0x2000"

definition us_S_IFBLK :: u32 where
  "us_S_IFBLK = 0x6000"

definition us_S_IFREG :: u32 where
  "us_S_IFREG = 0x8000"

definition us_S_IFIFO :: u32 where
  "us_S_IFIFO = 0x1000"

definition us_S_IFLNK :: u32 where
  "us_S_IFLNK = 0xa000"

definition us_S_IFSOCK :: u32 where
  "us_S_IFSOCK = 0xc000"

definition us_S_ISTYPE :: "u32 \<Rightarrow> u32 \<Rightarrow> bool" where
  "us_S_ISTYPE mode ty \<longleftrightarrow> mode AND us_S_IFMT = ty"

definition S_ISDIR :: "u32 \<Rightarrow> bool" where
  "S_ISDIR mode = us_S_ISTYPE mode us_S_IFDIR"

definition S_ISCHR :: "u32 \<Rightarrow> bool" where
  "S_ISCHR mode = us_S_ISTYPE mode us_S_IFCHR"

definition S_ISBLK :: "u32 \<Rightarrow> bool" where
  "S_ISBLK mode = us_S_ISTYPE mode us_S_IFBLK"

definition S_ISREG :: "u32 \<Rightarrow> bool" where
  "S_ISREG mode = us_S_ISTYPE mode us_S_IFREG"

definition S_ISFIFO :: "u32 \<Rightarrow> bool" where
  "S_ISFIFO mode = us_S_ISTYPE mode us_S_IFIFO"

definition S_ISLNK :: "u32 \<Rightarrow> bool" where
  "S_ISLNK mode = us_S_ISTYPE mode us_S_IFLNK"

definition S_ISSOCK :: "u32 \<Rightarrow> bool" where
  "S_ISSOCK mode = us_S_ISTYPE mode us_S_IFSOCK"

definition us_S_TYPEISMQ :: "u32 \<Rightarrow> u32" where
  "us_S_TYPEISMQ st_mode = st_mode - st_mode"

definition us_S_TYPEISSEM :: "u32 \<Rightarrow> u32" where
  "us_S_TYPEISSEM st_mode = st_mode - st_mode"

definition us_S_TYPEISSHM :: "u32 \<Rightarrow> u32" where
  "us_S_TYPEISSHM st_mode = st_mode - st_mode"

text \<open>The constants and tests of the kernel header; names that both headers use are prefixed here.\<close>

definition kernel_S_IFMT :: u32 where
  "kernel_S_IFMT = 0xf000"

definition kernel_S_IFDIR :: u32 where
  "kernel_S_IFDIR = 0x4000"

definition kernel_S_IFCHR :: u32 where
  "kernel_S_IFCHR = 0x2000"

definition kernel_S_IFBLK :: u32 where
  "kernel_S_IFBLK = 0x6000"

definition kernel_S_IFREG :: u32 where
  "kernel_S_IFREG = 0x8000"

definition kernel_S_IFIFO :: u32 where
  "kernel_S_IFIFO = 0x1000"

definition kernel_S_IFLNK :: u32 where
  "kernel_S_IFLNK = 0xa000"

definition kernel_S_IFSOCK :: u32 where
  "kernel_S_IFSOCK = 0xc000"

definition kernel_S_ISDIR :: "u32 \<Rightarrow> bool" where
  "kernel_S_ISDIR m \<longleftrightarrow> m AND kernel_S_IFMT = kernel_S_IFDIR"

definition kernel_S_ISCHR :: "u32 \<Rightarrow> bool" where
  "kernel_S_ISCHR m \<longleftrightarrow> m AND kernel_S_IFMT = kernel_S_IFCHR"

definition kernel_S_ISBLK :: "u32 \<Rightarrow> bool" where
  "kernel_S_ISBLK m \<longleftrightarrow> m AND kernel_S_IFMT = kernel_S_IFBLK"

definition kernel_S_ISREG :: "u32 \<Rightarrow> bool" where
  "kernel_S_ISREG m \<longleftrightarrow> m AND kernel_S_IFMT = kernel_S_IFREG"

definition kernel_S_ISFIFO :: "u32 \<Rightarrow> bool" where
  "kernel_S_ISFIFO m \<longleftrightarrow> m AND kernel_S_IFMT = kernel_S_IFIFO"

definition kernel_S_ISLNK :: "u32 \<Rightarrow> bool" where
  "kernel_S_ISLNK m \<longleftrightarrow> m AND kernel_S_IFMT = kernel_S_IFLNK"

definition kernel_S_ISSOCK :: "u32 \<Rightarrow> bool" where
  "kernel_S_ISSOCK m \<longleftrightarrow> m AND kernel_S_IFMT = kernel_S_IFSOCK"

definition DT_UNKNOWN :: u32 where
  "DT_UNKNOWN = 0"

definition DT_FIFO :: u32 where
  "DT_FIFO = 1"

definition DT_CHR :: u32 where
  "DT_CHR = 2"

definition DT_DIR :: u32 where
  "DT_DIR = 4"

definition DT_BLK :: u32 where
  "DT_BLK = 6"

definition DT_REG :: u32 where
  "DT_REG = 8"

definition DT_LNK :: u32 where
  "DT_LNK = 10"

definition DT_SOCK :: u32 where
  "DT_SOCK = 12"

definition DT_WHT :: u32 where
  "DT_WHT = 14"

definition IFTODT :: "u32 \<Rightarrow> u32" where
  "IFTODT mode = drop_bit 12 (mode AND 0xf000)"

definition DTTOIF :: "u32 \<Rightarrow> u32" where
  "DTTOIF dirtype = push_bit 12 dirtype"

section \<open>Log priorities: \<open>sys/syslog.h\<close>\<close>

definition LOG_EMERG :: u32 where
  "LOG_EMERG = 0"

definition LOG_ALERT :: u32 where
  "LOG_ALERT = 1"

definition LOG_CRIT :: u32 where
  "LOG_CRIT = 2"

definition LOG_ERR :: u32 where
  "LOG_ERR = 3"

definition LOG_WARNING :: u32 where
  "LOG_WARNING = 4"

definition LOG_NOTICE :: u32 where
  "LOG_NOTICE = 5"

definition LOG_INFO :: u32 where
  "LOG_INFO = 6"

definition LOG_DEBUG :: u32 where
  "LOG_DEBUG = 7"

definition LOG_PRIMASK :: u32 where
  "LOG_PRIMASK = 0x07"

definition LOG_PRI :: "u32 \<Rightarrow> u32" where
  "LOG_PRI p = p AND LOG_PRIMASK"

definition LOG_MAKEPRI :: "u32 \<Rightarrow> u32 \<Rightarrow> u32" where
  "LOG_MAKEPRI fac pri = fac OR pri"

definition LOG_KERN :: u32 where
  "LOG_KERN = push_bit 3 0"

definition LOG_USER :: u32 where
  "LOG_USER = push_bit 3 1"

definition LOG_MAIL :: u32 where
  "LOG_MAIL = push_bit 3 2"

definition LOG_DAEMON :: u32 where
  "LOG_DAEMON = push_bit 3 3"

definition LOG_AUTH :: u32 where
  "LOG_AUTH = push_bit 3 4"

definition LOG_SYSLOG :: u32 where
  "LOG_SYSLOG = push_bit 3 5"

definition LOG_LPR :: u32 where
  "LOG_LPR = push_bit 3 6"

definition LOG_NEWS :: u32 where
  "LOG_NEWS = push_bit 3 7"

definition LOG_UUCP :: u32 where
  "LOG_UUCP = push_bit 3 8"

definition LOG_CRON :: u32 where
  "LOG_CRON = push_bit 3 9"

definition LOG_AUTHPRIV :: u32 where
  "LOG_AUTHPRIV = push_bit 3 10"

definition LOG_FTP :: u32 where
  "LOG_FTP = push_bit 3 11"

definition LOG_LOCAL0 :: u32 where
  "LOG_LOCAL0 = push_bit 3 16"

definition LOG_LOCAL1 :: u32 where
  "LOG_LOCAL1 = push_bit 3 17"

definition LOG_LOCAL2 :: u32 where
  "LOG_LOCAL2 = push_bit 3 18"

definition LOG_LOCAL3 :: u32 where
  "LOG_LOCAL3 = push_bit 3 19"

definition LOG_LOCAL4 :: u32 where
  "LOG_LOCAL4 = push_bit 3 20"

definition LOG_LOCAL5 :: u32 where
  "LOG_LOCAL5 = push_bit 3 21"

definition LOG_LOCAL6 :: u32 where
  "LOG_LOCAL6 = push_bit 3 22"

definition LOG_LOCAL7 :: u32 where
  "LOG_LOCAL7 = push_bit 3 23"

definition LOG_NFACILITIES :: u32 where
  "LOG_NFACILITIES = 24"

definition LOG_FACMASK :: u32 where
  "LOG_FACMASK = 0x03f8"

definition LOG_FAC :: "u32 \<Rightarrow> u32" where
  "LOG_FAC p = drop_bit 3 (p AND LOG_FACMASK)"

definition INTERNAL_NOPRI :: u32 where
  "INTERNAL_NOPRI = 0x10"

definition INTERNAL_MARK :: u32 where
  "INTERNAL_MARK = LOG_MAKEPRI (push_bit 3 LOG_NFACILITIES) 0"

text \<open>The tables of names end with an entry without name.\<close>

definition prioritynames :: "(string option \<times> u32) list" where
  "prioritynames =
     [(Some ''alert'', LOG_ALERT),
      (Some ''crit'', LOG_CRIT),
      (Some ''debug'', LOG_DEBUG),
      (Some ''emerg'', LOG_EMERG),
      (Some ''err'', LOG_ERR),
      (Some ''error'', LOG_ERR),
      (Some ''info'', LOG_INFO),
      (Some ''none'', INTERNAL_NOPRI),
      (Some ''notice'', LOG_NOTICE),
      (Some ''panic'', LOG_EMERG),
      (Some ''warn'', LOG_WARNING),
      (Some ''warning'', LOG_WARNING),
      (None, - 1)]"

definition facilitynames :: "(string option \<times> u32) list" where
  "facilitynames =
     [(Some ''auth'', LOG_AUTH),
      (Some ''authpriv'', LOG_AUTHPRIV),
      (Some ''cron'', LOG_CRON),
      (Some ''daemon'', LOG_DAEMON),
      (Some ''ftp'', LOG_FTP),
      (Some ''kern'', LOG_KERN),
      (Some ''lpr'', LOG_LPR),
      (Some ''mail'', LOG_MAIL),
      (Some ''mark'', INTERNAL_MARK),
      (Some ''news'', LOG_NEWS),
      (Some ''security'', LOG_AUTH),
      (Some ''syslog'', LOG_SYSLOG),
      (Some ''user'', LOG_USER),
      (Some ''uucp'', LOG_UUCP),
      (Some ''local0'', LOG_LOCAL0),
      (Some ''local1'', LOG_LOCAL1),
      (Some ''local2'', LOG_LOCAL2),
      (Some ''local3'', LOG_LOCAL3),
      (Some ''local4'', LOG_LOCAL4),
      (Some ''local5'', LOG_LOCAL5),
      (Some ''local6'', LOG_LOCAL6),
      (Some ''local7'', LOG_LOCAL7),
      (None, - 1)]"

definition LOG_MASK :: "nat \<Rightarrow> u32" where
  "LOG_MASK pri = push_bit pri 1"

definition LOG_UPTO :: "nat \<Rightarrow> u32" where
  "LOG_UPTO pri = push_bit (pri + 1) 1 - 1"

section \<open>The status of a child\<close>

lemma wait_masks:
  "(x :: u32) AND 0x7f = take_bit 7 x" "x AND 0xff = take_bit 8 x" "x AND 0xff00 = push_bit 8 (take_bit 8 (drop_bit 8 x))"
proof -
  have m: "(0x7f :: u32) = mask 7" "(0xff :: u32) = mask 8" "(0xff00 :: u32) = push_bit 8 (mask 8)"
    by (simp_all add: mask_eq_exp_minus_1)
  show "x AND 0x7f = take_bit 7 x" "x AND 0xff = take_bit 8 x" unfolding m by (simp_all add: take_bit_eq_mask)
  show "x AND 0xff00 = push_bit 8 (take_bit 8 (drop_bit 8 x))"
    unfolding m by (rule bit_word_eqI) (auto simp: bit_simps)
qed

lemma exit_status: "us_WEXITSTATUS x = take_bit 8 (drop_bit 8 x)"
  unfolding us_WEXITSTATUS_def wait_masks by (rule bit_word_eqI) (auto simp: bit_simps min_def)

text \<open>The test for a signal is the comparison of the signal number with its two special values.\<close>

lemma signaled_iff: "us_WIFSIGNALED x \<longleftrightarrow> take_bit 7 x \<noteq> 0 \<and> take_bit 7 x \<noteq> 0x7f"
proof -
  let ?n = "unat (take_bit 7 x)"
  have n: "?n < 128" using take_bit_nat_less_exp [of 7 "unat x"] by (simp add: unsigned_take_bit_eq)
  define b :: u8 where "b = lo8 (take_bit 7 x + 1)"
  have ub: "unat b = ?n + 1"
    using n by (simp add: b_def c_convert_defs unsigned_ucast_eq unat_word_ariths take_bit_nat_eq_self)
  have "take_bit 7 x = 0 \<longleftrightarrow> ?n = 0" "take_bit 7 x = 0x7f \<longleftrightarrow> ?n = 127" by (simp_all add: word_unat_eq_iff)
  moreover have "sint (signed_drop_bit 1 (scast b :: u32)) = sint b div 2"
    by (simp add: sint_signed_drop_bit_eq drop_bit_eq_div sint_up_scast is_up)
  moreover have "sint b = (if ?n + 1 < 128 then int (?n + 1) else int (?n + 1) - 256)"
  proof (cases "?n = 127")
    case True
    then have "b = 128" using ub by (simp add: word_unat_eq_iff)
    then show ?thesis using True by simp
  next
    case False
    have "uint b = int (?n + 1)" using ub by (metis uint_nat)
    moreover have "signed_take_bit 7 (int (?n + 1)) = int (?n + 1)"
      using n False by (intro signed_take_bit_int_eq_self) (auto simp del: of_nat_unat)
    ultimately show ?thesis using n False by (simp add: sint_uint)
  qed
  ultimately show ?thesis using n unfolding us_WIFSIGNALED_def wait_masks b_def [symmetric]
    by (auto simp del: of_nat_unat)
qed

lemma wait_iffs:
  "WIFEXITED x \<longleftrightarrow> take_bit 7 x = 0" "WIFSIGNALED x \<longleftrightarrow> take_bit 7 x \<noteq> 0 \<and> take_bit 7 x \<noteq> 0x7f"
  "WIFSTOPPED x \<longleftrightarrow> take_bit 8 x = 0x7f" "WIFCONTINUED x \<longleftrightarrow> x = 0xffff"
  by (simp_all add: WIFEXITED_def us_WIFEXITED_def us_WTERMSIG_def WIFSIGNALED_def signaled_iff WIFSTOPPED_def us_WIFSTOPPED_def
      WIFCONTINUED_def us_WIFCONTINUED_def us_W_CONTINUED_def wait_masks)

lemma wait_partition:
  "if WIFEXITED st then \<not> WIFSIGNALED st \<and> \<not> WIFSTOPPED st \<and> \<not> WIFCONTINUED st
   else if WIFSIGNALED st then \<not> WIFSTOPPED st \<and> \<not> WIFCONTINUED st
   else if WIFSTOPPED st then \<not> WIFCONTINUED st
   else st AND 0xff = 0xff"
proof -
  have b7: "take_bit 7 st = take_bit 7 (take_bit 8 st)" by simp
  have "take_bit 8 st = 0x7f \<Longrightarrow> take_bit 7 st = 0x7f" "st = 0xffff \<Longrightarrow> take_bit 8 st \<noteq> 0x7f"
    "st = 0xffff \<Longrightarrow> take_bit 7 st = 0x7f" using b7 by (simp_all add: take_bit_eq_mod)
  moreover have "take_bit 8 st = 0xff" if "take_bit 7 st = 0x7f" "take_bit 8 st \<noteq> 0x7f"
  proof -
    have "bit st 7"
    proof (rule ccontr)
      assume "\<not> bit st 7"
      then have "take_bit 8 st = take_bit 7 st" by (intro bit_word_eqI) (auto simp: bit_simps less_Suc_eq numeral_eq_Suc)
      then show False using that by simp
    qed
    then have "take_bit 8 st = take_bit 7 st OR push_bit 7 1"
      by (intro bit_word_eqI) (auto simp: bit_simps less_Suc_eq numeral_eq_Suc)
    then show ?thesis using that(1) by simp
  qed
  moreover have "take_bit 7 st \<noteq> 0" if "take_bit 7 st = 0x7f" using that by simp
  ultimately show ?thesis unfolding wait_iffs wait_masks(2) if_bool_eq_conj by blast
qed

lemma exit_code_says:
  assumes "ret < 256"
  shows "WIFEXITED (W_EXITCODE ret 0)" "WEXITSTATUS (W_EXITCODE ret 0) = ret"
proof -
  have "n < 8" if "bit ret n" for n using assms that bit_below [of ret 8 n] by (simp add: word_less_nat_alt)
  then have "take_bit 8 (drop_bit 8 (push_bit 8 ret)) = ret" by (intro bit_word_eqI) (fastforce simp: bit_simps)
  then show "WIFEXITED (W_EXITCODE ret 0)" "WEXITSTATUS (W_EXITCODE ret 0) = ret"
    by (simp_all add: WEXITSTATUS_def exit_status wait_iffs W_EXITCODE_def us_W_EXITCODE_def take_bit_push_bit)
qed

lemma signal_code_says:
  assumes "0 < sig" "sig < 0x7f"
  shows "WIFSIGNALED (W_EXITCODE 0 sig) \<and> WTERMSIG (W_EXITCODE 0 sig) = sig \<and> WCOREDUMP (W_EXITCODE 0 sig) = 0"
    "WIFSIGNALED (W_EXITCODE 0 (sig OR us_WCOREFLAG)) \<and> WTERMSIG (W_EXITCODE 0 (sig OR us_WCOREFLAG)) = sig \<and>
     WCOREDUMP (W_EXITCODE 0 (sig OR us_WCOREFLAG)) \<noteq> 0"
proof -
  have lt: "n < 7" if "bit sig n" for n using assms that bit_below [of sig 7 n] by (simp add: word_less_nat_alt)
  have c: "(0x80 :: u32) = push_bit 7 1" by simp
  have t: "take_bit 7 sig = sig" by (rule bit_word_eqI) (use lt in \<open>auto simp: bit_simps\<close>)
  moreover have "take_bit 7 (sig OR 0x80) = sig"
    unfolding c by (rule bit_word_eqI) (use lt in \<open>auto simp: bit_simps simp del: push_bit_of_1\<close>)
  moreover have "sig AND 0x80 = 0"
    unfolding c by (rule bit_word_eqI) (use lt in \<open>auto simp: bit_simps simp del: push_bit_of_1\<close>)
  moreover have "(sig OR 0x80) AND 0x80 = 0x80"
    unfolding c by (rule bit_word_eqI) (auto simp: bit_simps simp del: push_bit_of_1)
  ultimately show "WIFSIGNALED (W_EXITCODE 0 sig) \<and> WTERMSIG (W_EXITCODE 0 sig) = sig \<and> WCOREDUMP (W_EXITCODE 0 sig) = 0"
    "WIFSIGNALED (W_EXITCODE 0 (sig OR us_WCOREFLAG)) \<and> WTERMSIG (W_EXITCODE 0 (sig OR us_WCOREFLAG)) = sig \<and>
     WCOREDUMP (W_EXITCODE 0 (sig OR us_WCOREFLAG)) \<noteq> 0"
    using assms
    by (auto simp: wait_iffs WTERMSIG_def us_WTERMSIG_def WCOREDUMP_def us_WCOREDUMP_def us_WCOREFLAG_def
        W_EXITCODE_def us_W_EXITCODE_def wait_masks)
qed

lemma stop_code_says:
  assumes "sig < 256"
  shows "WIFSTOPPED (W_STOPCODE sig)" "WSTOPSIG (W_STOPCODE sig) = sig"
proof -
  have lt: "n < 8" if "bit sig n" for n using assms that bit_below [of sig 8 n] by (simp add: word_less_nat_alt)
  have m: "(0x7f :: u32) = mask 7" by (simp add: mask_eq_exp_minus_1)
  have "take_bit 8 (drop_bit 8 (push_bit 8 sig OR 0x7f)) = sig"
    unfolding m by (rule bit_word_eqI) (use lt in \<open>fastforce simp: bit_simps\<close>)
  moreover have "take_bit 8 (push_bit 8 sig OR 0x7f) = 0x7f"
    unfolding m by (rule bit_word_eqI) (auto simp: bit_simps)
  ultimately show "WIFSTOPPED (W_STOPCODE sig)" "WSTOPSIG (W_STOPCODE sig) = sig"
    by (simp_all add: WSTOPSIG_def us_WSTOPSIG_def exit_status wait_iffs W_STOPCODE_def us_W_STOPCODE_def)
qed

lemma continued_says: "WIFCONTINUED us_W_CONTINUED" by (simp add: wait_iffs us_W_CONTINUED_def)

text \<open>
  C40. A wait status says exactly one thing: that the child exited, was killed by a signal, was stopped, or none of
  them, which is the case of a low byte of 255 and includes the status of a continued child. Statuses
  built by the macros say what they were built from.
\<close>

theorem wait_status_partition:
  "(if WIFEXITED st then \<not> WIFSIGNALED st \<and> \<not> WIFSTOPPED st \<and> \<not> WIFCONTINUED st
    else if WIFSIGNALED st then \<not> WIFSTOPPED st \<and> \<not> WIFCONTINUED st
    else if WIFSTOPPED st then \<not> WIFCONTINUED st
    else st AND 0xff = 0xff) \<and>
   (ret < 256 \<longrightarrow> WIFEXITED (W_EXITCODE ret 0) \<and> WEXITSTATUS (W_EXITCODE ret 0) = ret) \<and>
   (0 < sig \<and> sig < 0x7f \<longrightarrow> WIFSIGNALED (W_EXITCODE 0 sig) \<and> WTERMSIG (W_EXITCODE 0 sig) = sig \<and>
      WCOREDUMP (W_EXITCODE 0 sig) = 0 \<and>
      WIFSIGNALED (W_EXITCODE 0 (sig OR us_WCOREFLAG)) \<and> WTERMSIG (W_EXITCODE 0 (sig OR us_WCOREFLAG)) = sig \<and>
      WCOREDUMP (W_EXITCODE 0 (sig OR us_WCOREFLAG)) \<noteq> 0) \<and>
   (sig < 256 \<longrightarrow> WIFSTOPPED (W_STOPCODE sig) \<and> WSTOPSIG (W_STOPCODE sig) = sig) \<and>
   WIFCONTINUED us_W_CONTINUED"
  using wait_partition [of st] exit_code_says [of ret] signal_code_says [of sig] stop_code_says [of sig] continued_says by simp

theorem wait_status_partition_witness:
  "WEXITSTATUS (W_EXITCODE 3 0) = 3 \<and> WTERMSIG (W_EXITCODE 0 9) = 9 \<and> WSTOPSIG (W_STOPCODE 19) = 19"
  using wait_status_partition [of 0 3 9] wait_status_partition [of 0 3 19] by simp

section \<open>File types\<close>

lemmas type_defs = S_ISDIR_def S_ISCHR_def S_ISBLK_def S_ISREG_def S_ISFIFO_def S_ISLNK_def S_ISSOCK_def us_S_ISTYPE_def
  us_S_IFMT_def us_S_IFDIR_def us_S_IFCHR_def us_S_IFBLK_def us_S_IFREG_def us_S_IFIFO_def us_S_IFLNK_def us_S_IFSOCK_def

lemmas kernel_type_defs = kernel_S_ISDIR_def kernel_S_ISCHR_def kernel_S_ISBLK_def kernel_S_ISREG_def kernel_S_ISFIFO_def
  kernel_S_ISLNK_def kernel_S_ISSOCK_def kernel_S_IFMT_def kernel_S_IFDIR_def kernel_S_IFCHR_def kernel_S_IFBLK_def
  kernel_S_IFREG_def kernel_S_IFIFO_def kernel_S_IFLNK_def kernel_S_IFSOCK_def

definition type_tests :: "(u32 \<Rightarrow> bool) list" where
  "type_tests = [S_ISFIFO, S_ISCHR, S_ISDIR, S_ISBLK, S_ISREG, S_ISLNK, S_ISSOCK]"

lemma type_mask: "(x :: u32) AND 0xf000 = push_bit 12 (take_bit 4 (drop_bit 12 x))"
proof -
  have m: "(0xf000 :: u32) = push_bit 12 (mask 4)" by (simp add: mask_eq_exp_minus_1)
  show ?thesis unfolding m by (rule bit_word_eqI) (auto simp: bit_simps)
qed

lemma types_exclusive: "length (filter (\<lambda>test. test mode) type_tests) \<le> 1"
  by (cases "mode AND 0xf000 = 0x1000"; cases "mode AND 0xf000 = 0x2000"; cases "mode AND 0xf000 = 0x4000";
      cases "mode AND 0xf000 = 0x6000"; cases "mode AND 0xf000 = 0x8000"; cases "mode AND 0xf000 = 0xa000")
    (simp_all add: type_tests_def type_defs)

lemma permissions_ignored:
  assumes "perm < 2 ^ 12"
  shows "map (\<lambda>test. test (mode OR perm)) type_tests = map (\<lambda>test. test mode) type_tests"
proof -
  have "(mode OR perm) AND 0xf000 = mode AND 0xf000"
    unfolding type_mask using bit_above [OF assms] by (intro bit_word_eqI) (auto simp: bit_simps)
  then show ?thesis by (simp add: type_tests_def type_defs)
qed

lemma dirtype_round_trip:
  assumes "dirtype < 16"
  shows "DTTOIF dirtype AND 0xf000 = DTTOIF dirtype" "IFTODT (DTTOIF dirtype) = dirtype"
proof -
  have lt: "n < 4" if "bit dirtype n" for n using assms that bit_below [of dirtype 4 n] by (simp add: word_less_nat_alt)
  then have d: "take_bit 4 (drop_bit 12 (push_bit 12 dirtype)) = dirtype"
    by (intro bit_word_eqI) (fastforce simp: bit_simps)
  then show a: "DTTOIF dirtype AND 0xf000 = DTTOIF dirtype" unfolding DTTOIF_def type_mask by simp
  have "drop_bit 12 (push_bit 12 dirtype) = dirtype"
    by (rule bit_word_eqI) (use lt in \<open>fastforce simp: bit_simps\<close>)
  then show "IFTODT (DTTOIF dirtype) = dirtype" using a by (simp add: IFTODT_def DTTOIF_def)
qed

lemma dirtype_types:
  assumes "dirtype < 16"
  shows "map (\<lambda>test. test (DTTOIF dirtype)) type_tests =
    map (\<lambda>t. dirtype = t) [DT_FIFO, DT_CHR, DT_DIR, DT_BLK, DT_REG, DT_LNK, DT_SOCK]"
proof -
  have "DTTOIF dirtype AND 0xf000 = DTTOIF t \<longleftrightarrow> dirtype = t" if "t < 16" for t
    using dirtype_round_trip [OF assms] dirtype_round_trip [OF that] by metis
  from this [of 1] this [of 2] this [of 4] this [of 6] this [of 8] this [of 10] this [of 12] show ?thesis
    by (simp add: type_tests_def type_defs DTTOIF_def DT_FIFO_def DT_CHR_def DT_DIR_def DT_BLK_def DT_REG_def
        DT_LNK_def DT_SOCK_def)
qed

text \<open>
  The type of a file is unambiguous: no mode passes two of the tests, the tests of the two headers
  agree, permissions do not matter, and the type of a directory entry converts to the mode bits and back.
\<close>

theorem file_types_exclusive:
  "length (filter (\<lambda>test. test mode) type_tests) \<le> 1 \<and>
   map (\<lambda>test. test mode) type_tests =
     [kernel_S_ISFIFO mode, kernel_S_ISCHR mode, kernel_S_ISDIR mode, kernel_S_ISBLK mode, kernel_S_ISREG mode,
      kernel_S_ISLNK mode, kernel_S_ISSOCK mode] \<and>
   (perm < 2 ^ 12 \<longrightarrow> map (\<lambda>test. test (mode OR perm)) type_tests = map (\<lambda>test. test mode) type_tests) \<and>
   (dirtype < 16 \<longrightarrow> IFTODT (DTTOIF dirtype) = dirtype \<and>
      map (\<lambda>test. test (DTTOIF dirtype)) type_tests =
        map (\<lambda>t. dirtype = t) [DT_FIFO, DT_CHR, DT_DIR, DT_BLK, DT_REG, DT_LNK, DT_SOCK])"
  using types_exclusive permissions_ignored dirtype_round_trip(2) dirtype_types
  by (simp add: type_tests_def type_defs kernel_type_defs)

theorem file_types_exclusive_witness:
  "IFTODT (DTTOIF DT_DIR) = DT_DIR \<and> S_ISDIR (DTTOIF DT_DIR)"
  using file_types_exclusive [of 0 0 DT_DIR] by (simp add: DT_DIR_def type_tests_def type_defs DTTOIF_def)

section \<open>Log messages\<close>

lemma log_word_fields:
  assumes "pri < 8" "fac < 128"
  shows "LOG_PRI (LOG_MAKEPRI (push_bit 3 fac) pri) = pri" "LOG_FAC (LOG_MAKEPRI (push_bit 3 fac) pri) = fac"
proof -
  have p: "n < 3" if "bit pri n" for n using assms that bit_below [of pri 3 n] by (simp add: word_less_nat_alt)
  have f: "n < 7" if "bit fac n" for n using assms that bit_below [of fac 7 n] by (simp add: word_less_nat_alt)
  have m: "(7 :: u32) = mask 3" "(0x3f8 :: u32) = push_bit 3 (mask 7)" by (simp_all add: mask_eq_exp_minus_1)
  show "LOG_PRI (LOG_MAKEPRI (push_bit 3 fac) pri) = pri"
    unfolding LOG_PRI_def LOG_PRIMASK_def LOG_MAKEPRI_def m by (rule bit_word_eqI) (use p in \<open>auto simp: bit_simps\<close>)
  show "LOG_FAC (LOG_MAKEPRI (push_bit 3 fac) pri) = fac"
    unfolding LOG_FAC_def LOG_FACMASK_def LOG_MAKEPRI_def m
    by (rule bit_word_eqI) (use p f in \<open>fastforce simp: bit_simps\<close>)
qed

lemma log_mask_member:
  assumes "p < 8" "q < 8"
  shows "LOG_UPTO p AND LOG_MASK q \<noteq> 0 \<longleftrightarrow> q \<le> p"
proof -
  have u: "LOG_UPTO p = mask (p + 1)" unfolding LOG_UPTO_def by (simp only: mask_eq_exp_minus_1 push_bit_of_1)
  have "LOG_UPTO p AND LOG_MASK q = (if q \<le> p then push_bit q 1 else 0)"
    unfolding u LOG_MASK_def by (rule bit_word_eqI) (auto simp: bit_simps simp del: push_bit_of_1)
  moreover have "bit (push_bit q 1 :: u32) q" using assms by (simp add: bit_push_bit_iff del: push_bit_of_1)
  then have "(push_bit q 1 :: u32) \<noteq> 0" by (metis bit_0_eq bot_apply bot_bool_def)
  ultimately show ?thesis by simp
qed

lemma log_names:
  "\<forall>(n, v) \<in> set prioritynames. n \<noteq> None \<longrightarrow> n \<noteq> Some ''none'' \<longrightarrow> v < 8"
  "\<forall>(n, v) \<in> set facilitynames. n \<noteq> None \<longrightarrow> n \<noteq> Some ''mark'' \<longrightarrow> LOG_PRI v = 0 \<and> LOG_FAC v < LOG_NFACILITIES"
  by (simp_all add: prioritynames_def LOG_EMERG_def LOG_ALERT_def LOG_CRIT_def LOG_ERR_def LOG_WARNING_def LOG_NOTICE_def
      LOG_INFO_def LOG_DEBUG_def facilitynames_def LOG_PRI_def LOG_FAC_def LOG_PRIMASK_def LOG_FACMASK_def
      LOG_NFACILITIES_def LOG_KERN_def LOG_USER_def LOG_MAIL_def LOG_DAEMON_def LOG_AUTH_def LOG_SYSLOG_def LOG_LPR_def
      LOG_NEWS_def LOG_UUCP_def LOG_CRON_def LOG_AUTHPRIV_def LOG_FTP_def LOG_LOCAL0_def LOG_LOCAL1_def LOG_LOCAL2_def
      LOG_LOCAL3_def LOG_LOCAL4_def LOG_LOCAL5_def LOG_LOCAL6_def LOG_LOCAL7_def)

text \<open>
  Priority and facility share a word without disturbing each other, every facility and priority of
  the header fits, every name of the tables other than the internal ones is found with a legal value, and the
  mask up to a priority contains exactly the masks of the priorities that are at least as urgent.
\<close>

theorem log_words_split:
  "(pri < 8 \<and> fac < 128 \<longrightarrow> LOG_PRI (LOG_MAKEPRI (push_bit 3 fac) pri) = pri \<and> LOG_FAC (LOG_MAKEPRI (push_bit 3 fac) pri) = fac) \<and>
   (\<forall>(n, v) \<in> set prioritynames. n \<noteq> None \<longrightarrow> n \<noteq> Some ''none'' \<longrightarrow> v < 8) \<and>
   (\<forall>(n, v) \<in> set facilitynames. n \<noteq> None \<longrightarrow> n \<noteq> Some ''mark'' \<longrightarrow> LOG_PRI v = 0 \<and> LOG_FAC v < LOG_NFACILITIES) \<and>
   (p < 8 \<and> q < 8 \<longrightarrow> (LOG_UPTO p AND LOG_MASK q \<noteq> 0) = (q \<le> p))"
  using log_word_fields log_names log_mask_member by blast

theorem log_words_split_witness:
  "LOG_FAC (LOG_MAKEPRI LOG_DAEMON LOG_ERR) = 3 \<and> LOG_UPTO 4 AND LOG_MASK 3 \<noteq> 0"
  using log_words_split [of 3 3 4 3] by (simp add: LOG_DAEMON_def LOG_ERR_def)

end
