(* ===== verification/Small_Sets.thy ===== *)
theory Small_Sets
  imports Bit_Sets C_Loops
begin

text \<open>
  More sets in words: the message filter of \<open>netinet/icmp6.h\<close>, the interface sets of \<open>linux/mroute.h\<close> and
  \<open>linux/mroute6.h\<close>, the bit maps of \<open>sys/param.h\<close> and the event sets of \<open>thread_db.h\<close>, with the rounding macros
  that stand beside them. All of them are instances of the locale \<open>bit_set\<close>. Macros that are used as conditions are
  truth values.
\<close>

unbundle bit_operations_syntax

section \<open>Message filters: \<open>netinet/icmp6.h\<close>\<close>

definition icmp6_filter_words :: nat where
  "icmp6_filter_words = 8"

definition ICMP6_FILTER_WILLPASS :: "nat \<Rightarrow> u32 list \<Rightarrow> bool" where
  "ICMP6_FILTER_WILLPASS ty filt \<longleftrightarrow> filt ! drop_bit 5 ty AND push_bit (ty AND 31) 1 = 0"

definition ICMP6_FILTER_WILLBLOCK :: "nat \<Rightarrow> u32 list \<Rightarrow> bool" where
  "ICMP6_FILTER_WILLBLOCK ty filt \<longleftrightarrow> filt ! drop_bit 5 ty AND push_bit (ty AND 31) 1 \<noteq> 0"

definition ICMP6_FILTER_SETPASS :: "nat \<Rightarrow> u32 list \<Rightarrow> u32 list" where
  "ICMP6_FILTER_SETPASS ty filt = filt[drop_bit 5 ty := filt ! drop_bit 5 ty AND NOT (push_bit (ty AND 31) 1)]"

definition ICMP6_FILTER_SETBLOCK :: "nat \<Rightarrow> u32 list \<Rightarrow> u32 list" where
  "ICMP6_FILTER_SETBLOCK ty filt = filt[drop_bit 5 ty := filt ! drop_bit 5 ty OR push_bit (ty AND 31) 1]"

definition ICMP6_FILTER_SETPASSALL :: "u32 list \<Rightarrow> u32 list" where
  "ICMP6_FILTER_SETPASSALL filt = map (\<lambda>_. 0) filt"

definition ICMP6_FILTER_SETBLOCKALL :: "u32 list \<Rightarrow> u32 list" where
  "ICMP6_FILTER_SETBLOCKALL filt = map (\<lambda>_. - 1) filt"

section \<open>Multicast interfaces: \<open>linux/mroute.h\<close>, \<open>linux/mroute6.h\<close>\<close>

definition MAXVIFS :: nat where
  "MAXVIFS = 32"

text \<open>
  The map is an \<open>unsigned long\<close>; the shifted \<open>1\<close> is an \<open>int\<close> and is extended with its sign, which for interface 31
  fills the upper half.
\<close>

definition VIFM_SET :: "nat \<Rightarrow> u64 \<Rightarrow> u64" where
  "VIFM_SET n m = m OR scast (push_bit n 1 :: u32)"

definition VIFM_CLR :: "nat \<Rightarrow> u64 \<Rightarrow> u64" where
  "VIFM_CLR n m = m AND scast (NOT (push_bit n 1) :: u32)"

definition VIFM_ISSET :: "nat \<Rightarrow> u64 \<Rightarrow> bool" where
  "VIFM_ISSET n m \<longleftrightarrow> m AND scast (push_bit n 1 :: u32) \<noteq> 0"

definition VIFM_CLRALL :: "u64 \<Rightarrow> u64" where
  "VIFM_CLRALL m = 0"

definition VIFM_COPY :: "u64 \<Rightarrow> u64 \<Rightarrow> u64" where
  "VIFM_COPY mfrom mto = mfrom"

definition VIFM_SAME :: "u64 \<Rightarrow> u64 \<Rightarrow> bool" where
  "VIFM_SAME m1 m2 \<longleftrightarrow> m1 = m2"

definition IF_SETSIZE :: nat where
  "IF_SETSIZE = 256"

definition NIFBITS :: nat where
  "NIFBITS = 4 * 8"

definition if_set_words :: nat where
  "if_set_words = (IF_SETSIZE + NIFBITS - 1) div NIFBITS"

definition IF_SET :: "nat \<Rightarrow> u32 list \<Rightarrow> u32 list" where
  "IF_SET n p = p[n div NIFBITS := p ! (n div NIFBITS) OR push_bit (n mod NIFBITS) 1]"

definition IF_CLR :: "nat \<Rightarrow> u32 list \<Rightarrow> u32 list" where
  "IF_CLR n p = p[n div NIFBITS := p ! (n div NIFBITS) AND NOT (push_bit (n mod NIFBITS) 1)]"

definition IF_ISSET :: "nat \<Rightarrow> u32 list \<Rightarrow> bool" where
  "IF_ISSET n p \<longleftrightarrow> p ! (n div NIFBITS) AND push_bit (n mod NIFBITS) 1 \<noteq> 0"

definition IF_COPY :: "u32 list \<Rightarrow> u32 list \<Rightarrow> u32 list" where
  "IF_COPY f t = memcpy t 0 f 0 (length f)"

definition IF_ZERO :: "u32 list \<Rightarrow> u32 list" where
  "IF_ZERO p = map (\<lambda>_. 0) p"

section \<open>Bit maps and rounding: \<open>sys/param.h\<close>\<close>

definition NBBY :: nat where
  "NBBY = 8"

definition setbit :: "nat \<Rightarrow> u8 list \<Rightarrow> u8 list" where
  "setbit i a = a[i div NBBY := lo8 (prom (a ! (i div NBBY)) OR push_bit (i mod NBBY) 1)]"

definition clrbit :: "nat \<Rightarrow> u8 list \<Rightarrow> u8 list" where
  "clrbit i a = a[i div NBBY := lo8 (prom (a ! (i div NBBY)) AND NOT (push_bit (i mod NBBY) 1))]"

definition isset :: "nat \<Rightarrow> u8 list \<Rightarrow> bool" where
  "isset i a \<longleftrightarrow> prom (a ! (i div NBBY)) AND push_bit (i mod NBBY) 1 \<noteq> 0"

definition isclr :: "nat \<Rightarrow> u8 list \<Rightarrow> bool" where
  "isclr i a \<longleftrightarrow> prom (a ! (i div NBBY)) AND push_bit (i mod NBBY) 1 = 0"

text \<open>The rounding macros on \<open>unsigned long\<close>; what the compiler knows of \<open>y\<close> is an argument.\<close>

definition howmany :: "u64 \<Rightarrow> u64 \<Rightarrow> u64" where
  "howmany x y = (x + (y - 1)) div y"

definition powerof2 :: "u64 \<Rightarrow> bool" where
  "powerof2 x \<longleftrightarrow> (x - 1) AND x = 0"

definition roundup :: "bool \<Rightarrow> u64 \<Rightarrow> u64 \<Rightarrow> u64" where
  "roundup const_y x y =
     (if const_y \<and> powerof2 y then (x + y - 1) AND NOT (y - 1) else (x + (y - 1)) div y * y)"

definition us_MIN :: "u64 \<Rightarrow> u64 \<Rightarrow> u64" where
  "us_MIN a b = (if a < b then a else b)"

definition us_MAX :: "u64 \<Rightarrow> u64 \<Rightarrow> u64" where
  "us_MAX a b = (if a > b then a else b)"

section \<open>Thread events: \<open>thread_db.h\<close>\<close>

definition TD_EVENTSIZE :: nat where
  "TD_EVENTSIZE = 2"

definition BT_UISHIFT :: nat where
  "BT_UISHIFT = 5"

definition BT_NBIPUI :: nat where
  "BT_NBIPUI = push_bit BT_UISHIFT 1"

definition BT_UIMASK :: nat where
  "BT_UIMASK = BT_NBIPUI - 1"

definition td_eventmask :: "nat \<Rightarrow> u32" where
  "td_eventmask n = push_bit ((n - 1) AND BT_UIMASK) 1"

definition td_eventword :: "nat \<Rightarrow> nat" where
  "td_eventword n = drop_bit BT_UISHIFT (n - 1)"

fun td_fill_loop :: "u32 \<Rightarrow> nat \<Rightarrow> u32 list \<Rightarrow> u32 list" where
  "td_fill_loop v 0 bits = bits"
| "td_fill_loop v (Suc i) bits = td_fill_loop v i (bits[i := v])"

definition td_event_emptyset :: "u32 list \<Rightarrow> u32 list" where
  "td_event_emptyset bits = td_fill_loop 0 TD_EVENTSIZE bits"

definition td_event_fillset :: "u32 list \<Rightarrow> u32 list" where
  "td_event_fillset bits = td_fill_loop 0xffffffff TD_EVENTSIZE bits"

definition td_event_addset :: "nat \<Rightarrow> u32 list \<Rightarrow> u32 list" where
  "td_event_addset n bits = bits[td_eventword n := bits ! td_eventword n OR td_eventmask n]"

definition td_event_delset :: "nat \<Rightarrow> u32 list \<Rightarrow> u32 list" where
  "td_event_delset n bits = bits[td_eventword n := bits ! td_eventword n AND NOT (td_eventmask n)]"

definition td_eventismember :: "nat \<Rightarrow> u32 list \<Rightarrow> bool" where
  "td_eventismember n bits \<longleftrightarrow> td_eventmask n AND bits ! td_eventword n \<noteq> 0"

definition td_eventisempty :: "u32 list \<Rightarrow> bool" where
  "td_eventisempty bits \<longleftrightarrow> bits ! 0 = 0 \<and> bits ! 1 = 0"

section \<open>A history of operations\<close>

text \<open>The last operation on a number decides about it; one that was never touched is as before.\<close>

definition last_word :: "nat \<Rightarrow> (bool \<times> nat) list \<Rightarrow> bool \<Rightarrow> bool" where
  "last_word c ops before = fold (\<lambda>(b, d) now. if d = c then b else now) ops before"

definition perform :: "(nat \<Rightarrow> 'm \<Rightarrow> 'm) \<Rightarrow> (nat \<Rightarrow> 'm \<Rightarrow> 'm) \<Rightarrow> (bool \<times> nat) list \<Rightarrow> 'm \<Rightarrow> 'm" where
  "perform add del ops m = fold (\<lambda>(b, d) m. if b then add d m else del d m) ops m"

context bit_set
begin

lemma performed:
  assumes "ok m" and "list_all (\<lambda>(b, d). d < limit) ops" and "c < limit"
  shows "ok (perform add del ops m) \<and> (test c (perform add del ops m) \<longleftrightarrow> last_word c ops (test c m))"
  using assms(1,2)
proof (induction ops arbitrary: m)
  case (Cons op ops)
  obtain b d where op: "op = (b, d)" by fastforce
  let ?m = "if b then add d m else del d m"
  have d: "d < limit" using Cons.prems(2) op by simp
  then have ok: "ok ?m" using Cons.prems(1) by (simp add: ok_add ok_del)
  have "test c ?m \<longleftrightarrow> (if d = c then b else test c m)"
    using d ok Cons.prems(1) assms(3) by (auto simp: test_iff members_add members_del ok_add ok_del)
  then show ?case using Cons.IH [OF ok] Cons.prems(2) by (simp add: op perform_def last_word_def)
qed (simp_all add: perform_def last_word_def)

end

section \<open>The instances\<close>

lemma low_high:
  "drop_bit 5 n = n div (32 :: nat)" "n AND 31 = n mod (32 :: nat)"
proof -
  show "drop_bit 5 n = n div (32 :: nat)" by (simp add: drop_bit_eq_div)
  have "(31 :: nat) = mask 5" by (simp add: mask_eq_exp_minus_1)
  then show "n AND 31 = n mod (32 :: nat)" by (simp only: take_bit_eq_mask [symmetric] take_bit_eq_mod) simp
qed

lemmas filter_defs = ICMP6_FILTER_WILLBLOCK_def ICMP6_FILTER_SETPASS_def ICMP6_FILTER_SETBLOCK_def icmp6_filter_words_def low_high

interpretation icmp6_bits: bit_set word_members "\<lambda>f. length f = icmp6_filter_words" 256
    ICMP6_FILTER_SETBLOCK ICMP6_FILTER_SETPASS ICMP6_FILTER_WILLBLOCK
proof
  fix f :: "u32 list" and ty :: nat
  assume "length f = icmp6_filter_words" "ty < (256 :: nat)"
  then have room: "ty div 32 < length f" by (simp add: icmp6_filter_words_def)
  show "word_members (ICMP6_FILTER_SETBLOCK ty f) = insert ty (word_members f)"
    "word_members (ICMP6_FILTER_SETPASS ty f) = word_members f - {ty}" "ICMP6_FILTER_WILLBLOCK ty f \<longleftrightarrow> ty \<in> word_members f"
    using word_members_add [of ty f] word_members_del [of ty f] word_members_test [of ty f] room
    by (simp_all add: filter_defs)
qed (simp_all add: filter_defs)

lemmas if_defs = IF_SET_def IF_CLR_def IF_ISSET_def NIFBITS_def IF_SETSIZE_def if_set_words_def

interpretation if_bits: bit_set word_members "\<lambda>p. length p = if_set_words" IF_SETSIZE IF_SET IF_CLR IF_ISSET
proof
  fix p :: "u32 list" and n :: nat
  assume "length p = if_set_words" "n < IF_SETSIZE"
  then have room: "n div 32 < length p" by (simp add: if_defs)
  show "word_members (IF_SET n p) = insert n (word_members p)"
    "word_members (IF_CLR n p) = word_members p - {n}" "IF_ISSET n p \<longleftrightarrow> n \<in> word_members p"
    using word_members_add [of n p] word_members_del [of n p] word_members_test [of n p] room
    by (simp_all add: if_defs)
qed (simp_all add: if_defs)

lemma byte_ops:
  fixes b :: u8
  assumes "k < 8"
  shows "lo8 (prom b OR push_bit k 1) = b OR push_bit k 1" "lo8 (prom b AND NOT (push_bit k 1)) = b AND NOT (push_bit k 1)"
    "prom b AND push_bit k 1 \<noteq> 0 \<longleftrightarrow> b AND push_bit k 1 \<noteq> 0"
proof -
  show "lo8 (prom b OR push_bit k 1) = b OR push_bit k 1" "lo8 (prom b AND NOT (push_bit k 1)) = b AND NOT (push_bit k 1)"
    by (rule bit_word_eqI, auto simp: c_convert_defs bit_simps simp del: push_bit_of_1)+
  have "prom b AND push_bit k 1 \<noteq> 0 \<longleftrightarrow> bit (prom b) k" using assms by (intro mask_test) simp
  moreover have "b AND push_bit k 1 \<noteq> 0 \<longleftrightarrow> bit b k" using assms by (intro mask_test) simp
  ultimately show "prom b AND push_bit k 1 \<noteq> 0 \<longleftrightarrow> b AND push_bit k 1 \<noteq> 0"
    using assms by (simp add: c_convert_defs bit_simps)
qed

lemmas bitmap_defs = setbit_def clrbit_def isset_def NBBY_def

interpretation map_bits: bit_set word_members "\<lambda>a. n \<le> 8 * length a" n setbit clrbit isset for n
proof
  fix a :: "u8 list" and i :: nat
  assume "n \<le> 8 * length a" "i < n"
  then have room: "i div 8 < length a" by auto
  have k: "i mod 8 < 8" by simp
  show "word_members (setbit i a) = insert i (word_members a)"
    "word_members (clrbit i a) = word_members a - {i}" "isset i a \<longleftrightarrow> i \<in> word_members a"
    using word_members_add [of i a] word_members_del [of i a] word_members_test [of i a] room
    unfolding bitmap_defs byte_ops [OF k] by simp_all
qed (simp_all add: bitmap_defs)

text \<open>Events are numbered from 1; the set speaks of their predecessors.\<close>

lemma td_position: "td_eventword n = (n - 1) div 32" "td_eventmask n = push_bit ((n - 1) mod 32) 1"
  by (simp_all add: td_eventword_def td_eventmask_def BT_UIMASK_def BT_NBIPUI_def BT_UISHIFT_def low_high)

lemmas td_defs = td_event_addset_def td_event_delset_def td_eventismember_def td_position TD_EVENTSIZE_def

interpretation td_bits: bit_set word_members "\<lambda>bits. length bits = TD_EVENTSIZE" 64
    "\<lambda>c. td_event_addset (Suc c)" "\<lambda>c. td_event_delset (Suc c)" "\<lambda>c. td_eventismember (Suc c)"
proof
  fix bits :: "u32 list" and c :: nat
  assume "length bits = TD_EVENTSIZE" "c < (64 :: nat)"
  then have room: "c div 32 < length bits" by (simp add: TD_EVENTSIZE_def)
  show "word_members (td_event_addset (Suc c) bits) = insert c (word_members bits)"
    "word_members (td_event_delset (Suc c) bits) = word_members bits - {c}"
    "td_eventismember (Suc c) bits \<longleftrightarrow> c \<in> word_members bits"
    using word_members_add [of c bits] word_members_del [of c bits] word_members_test [of c bits] room
    by (simp_all add: td_defs and.commute)
qed (simp_all add: td_defs)

text \<open>The interface map keeps its upper half equal to the bit of interface 31.\<close>

definition vif_ok :: "u64 \<Rightarrow> bool" where
  "vif_ok m \<longleftrightarrow> scast (ucast m :: u32) = m"

definition vifs :: "u64 \<Rightarrow> nat set" where
  "vifs m = {n. n < MAXVIFS \<and> bit m n}"

lemma vif_ok_upper: "vif_ok m \<longleftrightarrow> (\<forall>k. 32 \<le> k \<and> k < 64 \<longrightarrow> bit m k = bit m 31)"
proof -
  have b: "bit (scast (ucast m :: u32) :: u64) k \<longleftrightarrow> k < 64 \<and> bit m (min k 31)" for k
    by (auto simp: bit_simps min_def)
  show ?thesis unfolding vif_ok_def
  proof (rule iffI)
    assume e: "scast (ucast m :: u32) = m"
    have "bit m k = bit m 31" if "32 \<le> k" "k < 64" for k using b [of k, unfolded e] that by (simp add: min_def)
    then show "\<forall>k. 32 \<le> k \<and> k < 64 \<longrightarrow> bit m k = bit m 31" by blast
  next
    assume u: "\<forall>k. 32 \<le> k \<and> k < 64 \<longrightarrow> bit m k = bit m 31"
    show "scast (ucast m :: u32) = m"
    proof (rule bit_word_eqI)
      fix k assume "k < LENGTH(64)"
      then show "bit (scast (ucast m :: u32) :: u64) k = bit m k" using u b [of k] by (cases "32 \<le> k") (auto simp: min_def)
    qed
  qed
qed

lemma bit_vif_mask: "n < 32 \<Longrightarrow> bit (scast (push_bit n 1 :: u32) :: u64) k \<longleftrightarrow> k < 64 \<and> (k = n \<or> n = 31 \<and> 32 \<le> k)"
  by (auto simp: bit_simps min_def simp del: push_bit_of_1)

lemma word_nonzero: "(w :: 'a::len word) \<noteq> 0 \<longleftrightarrow> (\<exists>k. bit w k)"
  by (metis bit_0_eq bit_eqI bot_apply bot_bool_def)

lemma vif_mask_not: "(scast (NOT x :: u32) :: u64) = NOT (scast x)"
  by (rule bit_word_eqI) (auto simp: bit_simps min_def)

interpretation vif_bits: bit_set vifs vif_ok MAXVIFS VIFM_SET VIFM_CLR VIFM_ISSET
proof
  fix m n assume m: "vif_ok m" and "n < MAXVIFS"
  then have n: "n < 32" by (simp add: MAXVIFS_def)
  note bits = bit_or_iff bit_and_iff bit_not_iff bit_vif_mask [OF n] VIFM_SET_def VIFM_CLR_def vif_mask_not
  show "vif_ok (VIFM_SET n m)" "vif_ok (VIFM_CLR n m)"
    using m n unfolding vif_ok_upper by (auto simp: bits simp del: push_bit_of_1)
  show "vifs (VIFM_SET n m) = insert n (vifs m)" "vifs (VIFM_CLR n m) = vifs m - {n}"
    using n by (auto simp: vifs_def MAXVIFS_def bits simp del: push_bit_of_1)
  have "VIFM_ISSET n m \<longleftrightarrow> (\<exists>k. bit (m AND scast (push_bit n 1 :: u32)) k)"
    unfolding VIFM_ISSET_def by (rule word_nonzero)
  also have "\<dots> \<longleftrightarrow> bit m n" using m n unfolding vif_ok_upper by (auto simp: bits simp del: push_bit_of_1)
  finally show "VIFM_ISSET n m \<longleftrightarrow> n \<in> vifs m" using n by (simp add: vifs_def MAXVIFS_def)
qed

section \<open>What the macros promise\<close>

text \<open>
  After any history of block and pass requests, started from either of the two blanket settings, a message type
  is blocked exactly when the last request for it, or else the setting, says so; and what is not blocked passes.
\<close>

theorem icmp6_filter_history:
  assumes "length filt = icmp6_filter_words" and "list_all (\<lambda>(b, d). d < 256) ops" and "ty < 256"
  shows "(ICMP6_FILTER_WILLBLOCK ty (perform ICMP6_FILTER_SETBLOCK ICMP6_FILTER_SETPASS ops (ICMP6_FILTER_SETPASSALL filt)) \<longleftrightarrow>
      last_word ty ops False) \<and>
    (ICMP6_FILTER_WILLBLOCK ty (perform ICMP6_FILTER_SETBLOCK ICMP6_FILTER_SETPASS ops (ICMP6_FILTER_SETBLOCKALL filt)) \<longleftrightarrow>
      last_word ty ops True) \<and>
    (ICMP6_FILTER_WILLPASS ty f \<longleftrightarrow> \<not> ICMP6_FILTER_WILLBLOCK ty f)"
proof -
  have room: "ty div 32 < length filt" using assms(1,3) by (simp add: icmp6_filter_words_def)
  then have "\<not> ICMP6_FILTER_WILLBLOCK ty (ICMP6_FILTER_SETPASSALL filt)" "ICMP6_FILTER_WILLBLOCK ty (ICMP6_FILTER_SETBLOCKALL filt)"
    by (simp_all add: filter_defs ICMP6_FILTER_SETPASSALL_def ICMP6_FILTER_SETBLOCKALL_def)
  then show ?thesis
    using icmp6_bits.performed [of "ICMP6_FILTER_SETPASSALL filt" ops ty] icmp6_bits.performed [of "ICMP6_FILTER_SETBLOCKALL filt" ops ty] assms
    by (simp add: ICMP6_FILTER_SETPASSALL_def ICMP6_FILTER_SETBLOCKALL_def ICMP6_FILTER_WILLPASS_def ICMP6_FILTER_WILLBLOCK_def)
qed

theorem icmp6_filter_history_witness:
  "ICMP6_FILTER_WILLBLOCK 135 (perform ICMP6_FILTER_SETBLOCK ICMP6_FILTER_SETPASS [(False, 135), (True, 135)]
     (ICMP6_FILTER_SETPASSALL (replicate 8 0)))"
  using icmp6_filter_history [of "replicate 8 0" "[(False, 135), (True, 135)]" 135]
  by (simp add: icmp6_filter_words_def last_word_def)

text \<open>
  The interface map of the IPv4 multicast router is a set of 32 interfaces although setting
  interface 31 fills the upper half of the word: from the cleared map on, every history of set and clear
  requests is answered by the last request, and two maps are the same word exactly when they hold the same
  interfaces.
\<close>

lemma vifm_same_iff: "vif_ok m1 \<Longrightarrow> vif_ok m2 \<Longrightarrow> VIFM_SAME m1 m2 \<longleftrightarrow> vifs m1 = vifs m2"
proof -
  assume ok: "vif_ok m1" "vif_ok m2"
  have "m1 = m2" if "vifs m1 = vifs m2"
  proof (rule bit_word_eqI)
    fix k assume "k < LENGTH(64)"
    have low: "bit m1 j = bit m2 j" if "j < 32" for j
      using \<open>vifs m1 = vifs m2\<close> that unfolding vifs_def MAXVIFS_def by blast
    have "32 \<le> k \<Longrightarrow> bit m1 k = bit m1 31 \<and> bit m2 k = bit m2 31"
      using ok \<open>k < LENGTH(64)\<close> unfolding vif_ok_upper by simp
    then show "bit m1 k = bit m2 k" using low [of k] low [of 31] by (cases "k < 32") auto
  qed
  then show ?thesis unfolding VIFM_SAME_def by blast
qed

theorem vif_map_history:
  assumes "list_all (\<lambda>(b, d). d < MAXVIFS) ops" and "list_all (\<lambda>(b, d). d < MAXVIFS) ops'" and "n < MAXVIFS"
  shows "(VIFM_ISSET n (perform VIFM_SET VIFM_CLR ops (VIFM_CLRALL m)) \<longleftrightarrow> last_word n ops False) \<and>
    (VIFM_SAME (perform VIFM_SET VIFM_CLR ops (VIFM_CLRALL m)) (perform VIFM_SET VIFM_CLR ops' (VIFM_CLRALL m)) \<longleftrightarrow>
      (\<forall>k < MAXVIFS. last_word k ops False = last_word k ops' False))"
proof -
  have ok: "vif_ok (VIFM_CLRALL m)" and z: "\<not> VIFM_ISSET k (VIFM_CLRALL m)" for k
    by (simp_all add: vif_ok_def VIFM_CLRALL_def VIFM_ISSET_def)
  have p: "vif_ok (perform VIFM_SET VIFM_CLR os (VIFM_CLRALL m)) \<and>
      (VIFM_ISSET k (perform VIFM_SET VIFM_CLR os (VIFM_CLRALL m)) \<longleftrightarrow> last_word k os False)"
    if "list_all (\<lambda>(b, d). d < MAXVIFS) os" "k < MAXVIFS" for os k
    using vif_bits.performed [OF ok that] z [of k] by simp
  have "vifs (perform VIFM_SET VIFM_CLR os (VIFM_CLRALL m)) = {k. k < MAXVIFS \<and> last_word k os False}"
    if os: "list_all (\<lambda>(b, d). d < MAXVIFS) os" for os
    using p [OF os] vif_bits.test_iff [of "perform VIFM_SET VIFM_CLR os (VIFM_CLRALL m)"] by (auto simp: vifs_def)
  then show ?thesis
    using p [OF assms(1) assms(3)] p [OF assms(2) assms(3)] assms(1,2) by (auto simp: vifm_same_iff)
qed

theorem vif_map_history_witness:
  "VIFM_SAME (perform VIFM_SET VIFM_CLR [(True, 31), (True, 0), (False, 31)] (VIFM_CLRALL 5))
     (perform VIFM_SET VIFM_CLR [(True, 0)] (VIFM_CLRALL 5))"
  using vif_map_history [of "[(True, 31), (True, 0), (False, 31)]" "[(True, 0)]" 0 5]
  by (simp add: MAXVIFS_def last_word_def)

text \<open>The whole-set operations on thread events.\<close>

lemma two_words: "word_members [a, b :: u32] = {d. d < 64 \<and> bit (if d < 32 then a else b) (d mod 32)}"
proof -
  have "d div 32 < 2 \<and> bit ([a, b] ! (d div 32)) (d mod 32) \<longleftrightarrow> d < 64 \<and> bit (if d < 32 then a else b) (d mod 32)" for d :: nat
  proof (cases "d < 64")
    case True
    then have "d div 32 = (if d < 32 then 0 else 1)" by auto
    then show ?thesis using True by simp
  next
    case False
    then have "\<not> d div 32 < 2" by auto
    then show ?thesis using False by blast
  qed
  then show ?thesis by (simp add: word_members_def numeral_2_eq_2)
qed

lemma td_whole_sets:
  assumes "length bits = TD_EVENTSIZE"
  shows "word_members (td_event_emptyset bits) = {}" "word_members (td_event_fillset bits) = {..<64}"
    "td_eventisempty bits \<longleftrightarrow> word_members bits = {}"
proof -
  obtain a b where ab: "bits = [a, b]" using assms by (auto simp: TD_EVENTSIZE_def length_Suc_conv numeral_2_eq_2)
  have n: "TD_EVENTSIZE = Suc (Suc 0)" "(0xffffffff :: u32) = - 1" by (simp add: TD_EVENTSIZE_def, simp)
  have e: "td_event_emptyset bits = [0, 0]" "td_event_fillset bits = [- 1, - 1]"
    unfolding ab td_event_emptyset_def td_event_fillset_def n by simp_all
  show "word_members (td_event_emptyset bits) = {}" "word_members (td_event_fillset bits) = {..<64}"
    unfolding e two_words by auto
  show "td_eventisempty bits \<longleftrightarrow> word_members bits = {}"
  proof
    assume none: "word_members bits = {}"
    have "\<not> bit a k" "\<not> bit b k" if "k < 32" for k
    proof -
      have "k \<notin> word_members bits" "k + 32 \<notin> word_members bits" using none by simp_all
      then show "\<not> bit a k" "\<not> bit b k" using that by (simp_all add: ab two_words)
    qed
    then have "a = 0" "b = 0" by (auto intro!: bit_word_eqI)
    then show "td_eventisempty bits" by (simp add: td_eventisempty_def ab)
  qed (auto simp: td_eventisempty_def ab two_words)
qed

section \<open>Rounding\<close>

lemma unat_exp: "k < 64 \<Longrightarrow> unat (2 ^ k :: u64) = 2 ^ k"
proof -
  assume "k < 64"
  then have "(2 :: nat) ^ k < 2 ^ 64" by (intro power_strict_increasing) simp_all
  then have "unat (of_nat (2 ^ k) :: u64) = 2 ^ k" by (simp add: unat_of_nat del: of_nat_power)
  then show ?thesis by simp
qed

lemma powerof2_iff:
  assumes "y \<noteq> 0"
  shows "powerof2 y \<longleftrightarrow> (\<exists>k < 64. y = 2 ^ k)"
proof
  assume p: "powerof2 y"
  define n where "n = unat y"
  have n: "1 \<le> n" "n < 2 ^ 64" using assms unsigned_less [of y] by (simp_all add: n_def unat_gt_0 Suc_le_eq)
  obtain k where k: "2 ^ k \<le> n" "n < 2 ^ (k + 1)" using ex_power_ivl1 [of 2 n] n(1) by auto
  have k64: "k < 64" using k(1) n(2) by (meson le_less_trans nat_power_less_imp_less zero_less_numeral)
  have top: "bit w k" if "2 ^ k \<le> unat w" "unat w < 2 ^ (k + 1)" for w :: u64
  proof -
    have "unat w div 2 ^ k = 1" using that by (simp add: div_nat_eqI)
    then have "bit (unat w) k" by (simp add: bit_iff_odd)
    then show ?thesis by (simp add: bit_unsigned_iff)
  qed
  have "unat (y - 1) = n - 1" using assms by (simp add: n_def unat_minus_one)
  have "n = 2 ^ k"
  proof (rule ccontr)
    assume "n \<noteq> 2 ^ k"
    then have "bit (y - 1) k" using top [of "y - 1"] k \<open>unat (y - 1) = n - 1\<close> by simp
    moreover have "bit y k" using top [of y] k by (simp add: n_def)
    ultimately have "bit ((y - 1) AND y) k" by (simp add: bit_and_iff)
    then show False using p by (simp add: powerof2_def)
  qed
  then have "y = 2 ^ k" using k64 by (simp add: n_def word_unat_eq_iff unat_exp)
  then show "\<exists>k < 64. y = 2 ^ k" using k64 by blast
next
  assume "\<exists>k < 64. y = 2 ^ k"
  then obtain k where "y = 2 ^ k" by blast
  then have "y - 1 = mask k" "y = push_bit k 1" by (simp_all add: mask_eq_exp_minus_1)
  then have "(y - 1) AND y = 0" by (simp only:) (rule bit_word_eqI, auto simp: bit_simps simp del: push_bit_of_1)
  then show "powerof2 y" by (simp add: powerof2_def)
qed

text \<open>
  Both bodies of the rounding macro give the least multiple of the unit that is not below the number, as long
  as the sum does not wrap, and the count macro says how many units it holds.
\<close>

theorem roundup_least_multiple:
  assumes "y \<noteq> 0" and "unat x + unat y \<le> 2 ^ 64"
  shows "unat (roundup const_y x y) = round_up (unat y) (unat x) \<and> unat (howmany x y) * unat y = round_up (unat y) (unat x)"
proof -
  have y: "0 < unat y" using assms(1) by (simp add: unat_gt_0)
  have s: "unat (x + (y - 1)) = unat x + (unat y - 1)"
    using assms y by (simp add: unat_word_ariths(1) unat_minus_one)
  have q: "unat ((x + (y - 1)) div y) = (unat x + (unat y - 1)) div unat y" by (simp add: unat_div s)
  have le: "(unat x + (unat y - 1)) div unat y * unat y < 2 ^ 64"
    using div_times_less_eq_dividend [of "unat x + (unat y - 1)" "unat y"] assms(2) y by linarith
  then have g: "unat ((x + (y - 1)) div y * y) = round_up (unat y) (unat x)"
    unfolding round_up_def unat_word_ariths(2) q by simp
  have "unat ((x + y - 1) AND NOT (y - 1)) = round_up (unat y) (unat x)" if p: "powerof2 y"
  proof -
    obtain k where k: "k < 64" "y = 2 ^ k" using p powerof2_iff [OF assms(1)] by blast
    then have u: "unat y = 2 ^ k" by (simp add: unat_exp)
    have "x + y - 1 = x + (2 ^ k - 1)" "NOT (y - 1) = NOT (mask k)" using k(2) by (simp_all add: mask_eq_exp_minus_1)
    then have "unat ((x + y - 1) AND NOT (y - 1)) = unat ((x + (2 ^ k - 1)) AND NOT (mask k))" by (simp only:)
    also have "\<dots> = round_up (2 ^ k) (unat x)" using assms(2) k(1) u by (intro mask_round_up) simp_all
    finally show ?thesis by (simp only: u)
  qed
  then show ?thesis using g q by (simp add: roundup_def howmany_def round_up_def)
qed

theorem roundup_least_multiple_witness:
  "unat (roundup True 13 8) = 16 \<and> unat (howmany 13 8) * 8 = 16"
  using roundup_least_multiple [of 8 13 True] by (simp add: round_up_def)

end
