(* ===== verification/Flag_Words.thy ===== *)
theory Flag_Words
  imports Small_Sets Byte_Order
begin

text \<open>
  Flags of the log-structured file system NILFS2 (\<open>linux/nilfs2_ondisk.h\<close>, \<open>linux/nilfs2_api.h\<close>) and small state words of
  other kernel interfaces: link speed and receive rings (\<open>linux/ethtool.h\<close>), mount types (\<open>linux/auto_fs.h\<close>), block group
  profiles (\<open>linux/btrfs_tree.h\<close>), packet headers (\<open>linux/dccp.h\<close>), the wake-up flag (\<open>linux/eventpoll.h\<close>) and the segment
  table (\<open>linux/map_to_7segment.h\<close>). The macros that generate a family of functions are definitions over the
  flag number; the functions they generate apply them. A structure is the members that the functions use, the other
  members are the extension of the record. Tests are truth values. On-disk words are little endian, which on this
  machine is the order of \<open>linux/byteorder/little_endian.h\<close>.
\<close>

unbundle bit_operations_syntax

section \<open>Checkpoints and segment usage of NILFS2\<close>

text \<open>\<open>1UL\<close> has 64 bits, so a word of 32 bits is widened for the operation and cut again by the store.\<close>

definition lo32 :: "u64 \<Rightarrow> u32" where
  "lo32 x = ucast x"

abbreviation to_disk :: "u32 \<Rightarrow> u32" where
  "to_disk \<equiv> LE_cpu_to_le32 Run_Time_Argument"

abbreviation from_disk :: "u32 \<Rightarrow> u32" where
  "from_disk \<equiv> LE_le32_to_cpu Run_Time_Argument"

record nilfs_checkpoint =
  cp_flags :: u32

record nilfs_segment_usage =
  su_lastmod :: u64
  su_nblocks :: u32
  su_flags :: u32

record nilfs_cpinfo =
  ci_flags :: u32

record nilfs_suinfo =
  sui_lastmod :: u64
  sui_nblocks :: u32
  sui_flags :: u32

record nilfs_suinfo_update =
  sup_flags :: u32

definition NILFS_CHECKPOINT_SNAPSHOT :: "nat" where
  "NILFS_CHECKPOINT_SNAPSHOT = 0"

definition NILFS_CHECKPOINT_INVALID :: "nat" where
  "NILFS_CHECKPOINT_INVALID = 1"

definition NILFS_CHECKPOINT_SKETCH :: "nat" where
  "NILFS_CHECKPOINT_SKETCH = 2"

definition NILFS_CHECKPOINT_MINOR :: "nat" where
  "NILFS_CHECKPOINT_MINOR = 3"

definition NILFS_SEGMENT_USAGE_ACTIVE :: "nat" where
  "NILFS_SEGMENT_USAGE_ACTIVE = 0"

definition NILFS_SEGMENT_USAGE_DIRTY :: "nat" where
  "NILFS_SEGMENT_USAGE_DIRTY = 1"

definition NILFS_SEGMENT_USAGE_ERROR :: "nat" where
  "NILFS_SEGMENT_USAGE_ERROR = 2"

definition NILFS_CPINFO_SNAPSHOT :: "nat" where
  "NILFS_CPINFO_SNAPSHOT = 0"

definition NILFS_CPINFO_INVALID :: "nat" where
  "NILFS_CPINFO_INVALID = 1"

definition NILFS_CPINFO_SKETCH :: "nat" where
  "NILFS_CPINFO_SKETCH = 2"

definition NILFS_CPINFO_MINOR :: "nat" where
  "NILFS_CPINFO_MINOR = 3"

definition NILFS_SUINFO_ACTIVE :: "nat" where
  "NILFS_SUINFO_ACTIVE = 0"

definition NILFS_SUINFO_DIRTY :: "nat" where
  "NILFS_SUINFO_DIRTY = 1"

definition NILFS_SUINFO_ERROR :: "nat" where
  "NILFS_SUINFO_ERROR = 2"

definition NILFS_SUINFO_UPDATE_LASTMOD :: "nat" where
  "NILFS_SUINFO_UPDATE_LASTMOD = 0"

definition NILFS_SUINFO_UPDATE_NBLOCKS :: "nat" where
  "NILFS_SUINFO_UPDATE_NBLOCKS = 1"

definition NILFS_SUINFO_UPDATE_FLAGS :: "nat" where
  "NILFS_SUINFO_UPDATE_FLAGS = 2"

definition NILFS_CHECKPOINT_FNS_set :: "nat \<Rightarrow> 'a nilfs_checkpoint_scheme \<Rightarrow> 'a nilfs_checkpoint_scheme" where
  "NILFS_CHECKPOINT_FNS_set flag s = s\<lparr>cp_flags := to_disk (lo32 (ucast (from_disk (cp_flags s)) OR push_bit flag 1))\<rparr>"

definition NILFS_CHECKPOINT_FNS_clear :: "nat \<Rightarrow> 'a nilfs_checkpoint_scheme \<Rightarrow> 'a nilfs_checkpoint_scheme" where
  "NILFS_CHECKPOINT_FNS_clear flag s = s\<lparr>cp_flags := to_disk (lo32 (ucast (from_disk (cp_flags s)) AND NOT (push_bit flag 1)))\<rparr>"

definition NILFS_CHECKPOINT_FNS_test :: "nat \<Rightarrow> 'a nilfs_checkpoint_scheme \<Rightarrow> bool" where
  "NILFS_CHECKPOINT_FNS_test flag s \<longleftrightarrow> (ucast (from_disk (cp_flags s)) AND push_bit flag 1 :: u64) \<noteq> 0"

definition nilfs_checkpoint_set_snapshot :: "'a nilfs_checkpoint_scheme \<Rightarrow> 'a nilfs_checkpoint_scheme" where
  "nilfs_checkpoint_set_snapshot s = NILFS_CHECKPOINT_FNS_set NILFS_CHECKPOINT_SNAPSHOT s"

definition nilfs_checkpoint_clear_snapshot :: "'a nilfs_checkpoint_scheme \<Rightarrow> 'a nilfs_checkpoint_scheme" where
  "nilfs_checkpoint_clear_snapshot s = NILFS_CHECKPOINT_FNS_clear NILFS_CHECKPOINT_SNAPSHOT s"

definition nilfs_checkpoint_snapshot :: "'a nilfs_checkpoint_scheme \<Rightarrow> bool" where
  "nilfs_checkpoint_snapshot s = NILFS_CHECKPOINT_FNS_test NILFS_CHECKPOINT_SNAPSHOT s"

definition nilfs_checkpoint_set_invalid :: "'a nilfs_checkpoint_scheme \<Rightarrow> 'a nilfs_checkpoint_scheme" where
  "nilfs_checkpoint_set_invalid s = NILFS_CHECKPOINT_FNS_set NILFS_CHECKPOINT_INVALID s"

definition nilfs_checkpoint_clear_invalid :: "'a nilfs_checkpoint_scheme \<Rightarrow> 'a nilfs_checkpoint_scheme" where
  "nilfs_checkpoint_clear_invalid s = NILFS_CHECKPOINT_FNS_clear NILFS_CHECKPOINT_INVALID s"

definition nilfs_checkpoint_invalid :: "'a nilfs_checkpoint_scheme \<Rightarrow> bool" where
  "nilfs_checkpoint_invalid s = NILFS_CHECKPOINT_FNS_test NILFS_CHECKPOINT_INVALID s"

definition nilfs_checkpoint_set_minor :: "'a nilfs_checkpoint_scheme \<Rightarrow> 'a nilfs_checkpoint_scheme" where
  "nilfs_checkpoint_set_minor s = NILFS_CHECKPOINT_FNS_set NILFS_CHECKPOINT_MINOR s"

definition nilfs_checkpoint_clear_minor :: "'a nilfs_checkpoint_scheme \<Rightarrow> 'a nilfs_checkpoint_scheme" where
  "nilfs_checkpoint_clear_minor s = NILFS_CHECKPOINT_FNS_clear NILFS_CHECKPOINT_MINOR s"

definition nilfs_checkpoint_minor :: "'a nilfs_checkpoint_scheme \<Rightarrow> bool" where
  "nilfs_checkpoint_minor s = NILFS_CHECKPOINT_FNS_test NILFS_CHECKPOINT_MINOR s"

definition NILFS_SEGMENT_USAGE_FNS_set :: "nat \<Rightarrow> 'a nilfs_segment_usage_scheme \<Rightarrow> 'a nilfs_segment_usage_scheme" where
  "NILFS_SEGMENT_USAGE_FNS_set flag s = s\<lparr>su_flags := to_disk (lo32 (ucast (from_disk (su_flags s)) OR push_bit flag 1))\<rparr>"

definition NILFS_SEGMENT_USAGE_FNS_clear :: "nat \<Rightarrow> 'a nilfs_segment_usage_scheme \<Rightarrow> 'a nilfs_segment_usage_scheme" where
  "NILFS_SEGMENT_USAGE_FNS_clear flag s = s\<lparr>su_flags := to_disk (lo32 (ucast (from_disk (su_flags s)) AND NOT (push_bit flag 1)))\<rparr>"

definition NILFS_SEGMENT_USAGE_FNS_test :: "nat \<Rightarrow> 'a nilfs_segment_usage_scheme \<Rightarrow> bool" where
  "NILFS_SEGMENT_USAGE_FNS_test flag s \<longleftrightarrow> (ucast (from_disk (su_flags s)) AND push_bit flag 1 :: u64) \<noteq> 0"

definition nilfs_segment_usage_set_active :: "'a nilfs_segment_usage_scheme \<Rightarrow> 'a nilfs_segment_usage_scheme" where
  "nilfs_segment_usage_set_active s = NILFS_SEGMENT_USAGE_FNS_set NILFS_SEGMENT_USAGE_ACTIVE s"

definition nilfs_segment_usage_clear_active :: "'a nilfs_segment_usage_scheme \<Rightarrow> 'a nilfs_segment_usage_scheme" where
  "nilfs_segment_usage_clear_active s = NILFS_SEGMENT_USAGE_FNS_clear NILFS_SEGMENT_USAGE_ACTIVE s"

definition nilfs_segment_usage_active :: "'a nilfs_segment_usage_scheme \<Rightarrow> bool" where
  "nilfs_segment_usage_active s = NILFS_SEGMENT_USAGE_FNS_test NILFS_SEGMENT_USAGE_ACTIVE s"

definition nilfs_segment_usage_set_dirty :: "'a nilfs_segment_usage_scheme \<Rightarrow> 'a nilfs_segment_usage_scheme" where
  "nilfs_segment_usage_set_dirty s = NILFS_SEGMENT_USAGE_FNS_set NILFS_SEGMENT_USAGE_DIRTY s"

definition nilfs_segment_usage_clear_dirty :: "'a nilfs_segment_usage_scheme \<Rightarrow> 'a nilfs_segment_usage_scheme" where
  "nilfs_segment_usage_clear_dirty s = NILFS_SEGMENT_USAGE_FNS_clear NILFS_SEGMENT_USAGE_DIRTY s"

definition nilfs_segment_usage_dirty :: "'a nilfs_segment_usage_scheme \<Rightarrow> bool" where
  "nilfs_segment_usage_dirty s = NILFS_SEGMENT_USAGE_FNS_test NILFS_SEGMENT_USAGE_DIRTY s"

definition nilfs_segment_usage_set_error :: "'a nilfs_segment_usage_scheme \<Rightarrow> 'a nilfs_segment_usage_scheme" where
  "nilfs_segment_usage_set_error s = NILFS_SEGMENT_USAGE_FNS_set NILFS_SEGMENT_USAGE_ERROR s"

definition nilfs_segment_usage_clear_error :: "'a nilfs_segment_usage_scheme \<Rightarrow> 'a nilfs_segment_usage_scheme" where
  "nilfs_segment_usage_clear_error s = NILFS_SEGMENT_USAGE_FNS_clear NILFS_SEGMENT_USAGE_ERROR s"

definition nilfs_segment_usage_error :: "'a nilfs_segment_usage_scheme \<Rightarrow> bool" where
  "nilfs_segment_usage_error s = NILFS_SEGMENT_USAGE_FNS_test NILFS_SEGMENT_USAGE_ERROR s"

definition nilfs_segment_usage_set_clean :: "'a nilfs_segment_usage_scheme \<Rightarrow> 'a nilfs_segment_usage_scheme" where
  "nilfs_segment_usage_set_clean su =
     su\<lparr>su_lastmod := LE_cpu_to_le64 Run_Time_Argument 0, su_nblocks := to_disk 0, su_flags := to_disk 0\<rparr>"

definition nilfs_segment_usage_clean :: "'a nilfs_segment_usage_scheme \<Rightarrow> bool" where
  "nilfs_segment_usage_clean su \<longleftrightarrow> from_disk (su_flags su) = 0"

definition NILFS_CPINFO_FNS_test :: "nat \<Rightarrow> 'a nilfs_cpinfo_scheme \<Rightarrow> bool" where
  "NILFS_CPINFO_FNS_test flag s \<longleftrightarrow> (ucast (ci_flags s) AND push_bit flag 1 :: u64) \<noteq> 0"

definition nilfs_cpinfo_snapshot :: "'a nilfs_cpinfo_scheme \<Rightarrow> bool" where
  "nilfs_cpinfo_snapshot s = NILFS_CPINFO_FNS_test NILFS_CPINFO_SNAPSHOT s"

definition nilfs_cpinfo_invalid :: "'a nilfs_cpinfo_scheme \<Rightarrow> bool" where
  "nilfs_cpinfo_invalid s = NILFS_CPINFO_FNS_test NILFS_CPINFO_INVALID s"

definition nilfs_cpinfo_minor :: "'a nilfs_cpinfo_scheme \<Rightarrow> bool" where
  "nilfs_cpinfo_minor s = NILFS_CPINFO_FNS_test NILFS_CPINFO_MINOR s"

definition NILFS_SUINFO_FNS_test :: "nat \<Rightarrow> 'a nilfs_suinfo_scheme \<Rightarrow> bool" where
  "NILFS_SUINFO_FNS_test flag s \<longleftrightarrow> (ucast (sui_flags s) AND push_bit flag 1 :: u64) \<noteq> 0"

definition nilfs_suinfo_active :: "'a nilfs_suinfo_scheme \<Rightarrow> bool" where
  "nilfs_suinfo_active s = NILFS_SUINFO_FNS_test NILFS_SUINFO_ACTIVE s"

definition nilfs_suinfo_dirty :: "'a nilfs_suinfo_scheme \<Rightarrow> bool" where
  "nilfs_suinfo_dirty s = NILFS_SUINFO_FNS_test NILFS_SUINFO_DIRTY s"

definition nilfs_suinfo_error :: "'a nilfs_suinfo_scheme \<Rightarrow> bool" where
  "nilfs_suinfo_error s = NILFS_SUINFO_FNS_test NILFS_SUINFO_ERROR s"

definition nilfs_suinfo_clean :: "'a nilfs_suinfo_scheme \<Rightarrow> bool" where
  "nilfs_suinfo_clean si \<longleftrightarrow> sui_flags si = 0"

definition NILFS_SUINFO_UPDATE_FNS_set :: "nat \<Rightarrow> 'a nilfs_suinfo_update_scheme \<Rightarrow> 'a nilfs_suinfo_update_scheme" where
  "NILFS_SUINFO_UPDATE_FNS_set flag s = s\<lparr>sup_flags := lo32 (ucast (sup_flags s) OR push_bit flag 1)\<rparr>"

definition NILFS_SUINFO_UPDATE_FNS_clear :: "nat \<Rightarrow> 'a nilfs_suinfo_update_scheme \<Rightarrow> 'a nilfs_suinfo_update_scheme" where
  "NILFS_SUINFO_UPDATE_FNS_clear flag s = s\<lparr>sup_flags := lo32 (ucast (sup_flags s) AND NOT (push_bit flag 1))\<rparr>"

definition NILFS_SUINFO_UPDATE_FNS_test :: "nat \<Rightarrow> 'a nilfs_suinfo_update_scheme \<Rightarrow> bool" where
  "NILFS_SUINFO_UPDATE_FNS_test flag s \<longleftrightarrow> (ucast (sup_flags s) AND push_bit flag 1 :: u64) \<noteq> 0"

definition nilfs_suinfo_update_set_lastmod :: "'a nilfs_suinfo_update_scheme \<Rightarrow> 'a nilfs_suinfo_update_scheme" where
  "nilfs_suinfo_update_set_lastmod s = NILFS_SUINFO_UPDATE_FNS_set NILFS_SUINFO_UPDATE_LASTMOD s"

definition nilfs_suinfo_update_clear_lastmod :: "'a nilfs_suinfo_update_scheme \<Rightarrow> 'a nilfs_suinfo_update_scheme" where
  "nilfs_suinfo_update_clear_lastmod s = NILFS_SUINFO_UPDATE_FNS_clear NILFS_SUINFO_UPDATE_LASTMOD s"

definition nilfs_suinfo_update_lastmod :: "'a nilfs_suinfo_update_scheme \<Rightarrow> bool" where
  "nilfs_suinfo_update_lastmod s = NILFS_SUINFO_UPDATE_FNS_test NILFS_SUINFO_UPDATE_LASTMOD s"

definition nilfs_suinfo_update_set_nblocks :: "'a nilfs_suinfo_update_scheme \<Rightarrow> 'a nilfs_suinfo_update_scheme" where
  "nilfs_suinfo_update_set_nblocks s = NILFS_SUINFO_UPDATE_FNS_set NILFS_SUINFO_UPDATE_NBLOCKS s"

definition nilfs_suinfo_update_clear_nblocks :: "'a nilfs_suinfo_update_scheme \<Rightarrow> 'a nilfs_suinfo_update_scheme" where
  "nilfs_suinfo_update_clear_nblocks s = NILFS_SUINFO_UPDATE_FNS_clear NILFS_SUINFO_UPDATE_NBLOCKS s"

definition nilfs_suinfo_update_nblocks :: "'a nilfs_suinfo_update_scheme \<Rightarrow> bool" where
  "nilfs_suinfo_update_nblocks s = NILFS_SUINFO_UPDATE_FNS_test NILFS_SUINFO_UPDATE_NBLOCKS s"

definition nilfs_suinfo_update_set_flags :: "'a nilfs_suinfo_update_scheme \<Rightarrow> 'a nilfs_suinfo_update_scheme" where
  "nilfs_suinfo_update_set_flags s = NILFS_SUINFO_UPDATE_FNS_set NILFS_SUINFO_UPDATE_FLAGS s"

definition nilfs_suinfo_update_clear_flags :: "'a nilfs_suinfo_update_scheme \<Rightarrow> 'a nilfs_suinfo_update_scheme" where
  "nilfs_suinfo_update_clear_flags s = NILFS_SUINFO_UPDATE_FNS_clear NILFS_SUINFO_UPDATE_FLAGS s"

definition nilfs_suinfo_update_flags :: "'a nilfs_suinfo_update_scheme \<Rightarrow> bool" where
  "nilfs_suinfo_update_flags s = NILFS_SUINFO_UPDATE_FNS_test NILFS_SUINFO_UPDATE_FLAGS s"

section \<open>Link speed and receive rings: \<open>linux/ethtool.h\<close>\<close>

record ethtool_cmd =
  cmd_speed :: u16
  cmd_speed_hi :: u16

definition ethtool_cmd_speed_set :: "'a ethtool_cmd_scheme \<Rightarrow> u32 \<Rightarrow> 'a ethtool_cmd_scheme" where
  "ethtool_cmd_speed_set ep spd = ep\<lparr>cmd_speed := lo16 (spd AND 0xFFFF), cmd_speed_hi := lo16 (drop_bit 16 spd)\<rparr>"

definition ethtool_cmd_speed :: "'a ethtool_cmd_scheme \<Rightarrow> u32" where
  "ethtool_cmd_speed ep = push_bit 16 (prom (cmd_speed_hi ep)) OR prom (cmd_speed ep)"

definition ETHTOOL_RX_FLOW_SPEC_RING :: "u64" where
  "ETHTOOL_RX_FLOW_SPEC_RING = 0x00000000FFFFFFFF"

definition ETHTOOL_RX_FLOW_SPEC_RING_VF :: "u64" where
  "ETHTOOL_RX_FLOW_SPEC_RING_VF = 0x000000FF00000000"

definition ETHTOOL_RX_FLOW_SPEC_RING_VF_OFF :: "nat" where
  "ETHTOOL_RX_FLOW_SPEC_RING_VF_OFF = 32"

definition SPEED_UNKNOWN :: "u32" where
  "SPEED_UNKNOWN = - 1"

definition DUPLEX_HALF :: "u8" where
  "DUPLEX_HALF = 0x00"

definition DUPLEX_FULL :: "u8" where
  "DUPLEX_FULL = 0x01"

definition DUPLEX_UNKNOWN :: "u8" where
  "DUPLEX_UNKNOWN = 0xff"

definition ethtool_get_flow_spec_ring :: "u64 \<Rightarrow> u64" where
  "ethtool_get_flow_spec_ring ring_cookie = ETHTOOL_RX_FLOW_SPEC_RING AND ring_cookie"

definition ethtool_get_flow_spec_ring_vf :: "u64 \<Rightarrow> u64" where
  "ethtool_get_flow_spec_ring_vf ring_cookie =
     drop_bit ETHTOOL_RX_FLOW_SPEC_RING_VF_OFF (ETHTOOL_RX_FLOW_SPEC_RING_VF AND ring_cookie)"

definition ethtool_validate_speed :: "u32 \<Rightarrow> bool" where
  "ethtool_validate_speed spd \<longleftrightarrow> spd \<le> 0x7fffffff \<or> spd = SPEED_UNKNOWN"

definition ethtool_validate_duplex :: "u8 \<Rightarrow> bool" where
  "ethtool_validate_duplex duplex \<longleftrightarrow>
     (if duplex = DUPLEX_HALF \<or> duplex = DUPLEX_FULL \<or> duplex = DUPLEX_UNKNOWN then True else False)"

section \<open>Mount types: \<open>linux/auto_fs.h\<close>\<close>

definition AUTOFS_TYPE_ANY :: "u32" where
  "AUTOFS_TYPE_ANY = 0"

definition AUTOFS_TYPE_INDIRECT :: "u32" where
  "AUTOFS_TYPE_INDIRECT = 1"

definition AUTOFS_TYPE_DIRECT :: "u32" where
  "AUTOFS_TYPE_DIRECT = 2"

definition AUTOFS_TYPE_OFFSET :: "u32" where
  "AUTOFS_TYPE_OFFSET = 4"

definition set_autofs_type_indirect :: "u32 \<Rightarrow> u32" where
  "set_autofs_type_indirect ty = AUTOFS_TYPE_INDIRECT"

definition autofs_type_indirect :: "u32 \<Rightarrow> bool" where
  "autofs_type_indirect ty \<longleftrightarrow> ty = AUTOFS_TYPE_INDIRECT"

definition set_autofs_type_direct :: "u32 \<Rightarrow> u32" where
  "set_autofs_type_direct ty = AUTOFS_TYPE_DIRECT"

definition autofs_type_direct :: "u32 \<Rightarrow> bool" where
  "autofs_type_direct ty \<longleftrightarrow> ty = AUTOFS_TYPE_DIRECT"

definition set_autofs_type_offset :: "u32 \<Rightarrow> u32" where
  "set_autofs_type_offset ty = AUTOFS_TYPE_OFFSET"

definition autofs_type_offset :: "u32 \<Rightarrow> bool" where
  "autofs_type_offset ty \<longleftrightarrow> ty = AUTOFS_TYPE_OFFSET"

definition set_autofs_type_any :: "u32 \<Rightarrow> u32" where
  "set_autofs_type_any ty = AUTOFS_TYPE_ANY"

definition autofs_type_any :: "u32 \<Rightarrow> bool" where
  "autofs_type_any ty \<longleftrightarrow> ty = AUTOFS_TYPE_ANY"

definition autofs_type_trigger :: "u32 \<Rightarrow> bool" where
  "autofs_type_trigger ty \<longleftrightarrow> ty = AUTOFS_TYPE_DIRECT \<or> ty = AUTOFS_TYPE_OFFSET"

section \<open>Block group profiles: \<open>linux/btrfs_tree.h\<close>\<close>

definition BTRFS_BLOCK_GROUP_RAID0 :: "u64" where
  "BTRFS_BLOCK_GROUP_RAID0 = push_bit 3 1"

definition BTRFS_BLOCK_GROUP_RAID1 :: "u64" where
  "BTRFS_BLOCK_GROUP_RAID1 = push_bit 4 1"

definition BTRFS_BLOCK_GROUP_DUP :: "u64" where
  "BTRFS_BLOCK_GROUP_DUP = push_bit 5 1"

definition BTRFS_BLOCK_GROUP_RAID10 :: "u64" where
  "BTRFS_BLOCK_GROUP_RAID10 = push_bit 6 1"

definition BTRFS_BLOCK_GROUP_RAID5 :: "u64" where
  "BTRFS_BLOCK_GROUP_RAID5 = push_bit 7 1"

definition BTRFS_BLOCK_GROUP_RAID6 :: "u64" where
  "BTRFS_BLOCK_GROUP_RAID6 = push_bit 8 1"

definition BTRFS_BLOCK_GROUP_PROFILE_MASK :: "u64" where
  "BTRFS_BLOCK_GROUP_PROFILE_MASK =
     BTRFS_BLOCK_GROUP_RAID0 OR BTRFS_BLOCK_GROUP_RAID1 OR BTRFS_BLOCK_GROUP_RAID5 OR BTRFS_BLOCK_GROUP_RAID6 OR
     BTRFS_BLOCK_GROUP_DUP OR BTRFS_BLOCK_GROUP_RAID10"

definition BTRFS_AVAIL_ALLOC_BIT_SINGLE :: "u64" where
  "BTRFS_AVAIL_ALLOC_BIT_SINGLE = push_bit 48 1"

definition BTRFS_EXTENDED_PROFILE_MASK :: "u64" where
  "BTRFS_EXTENDED_PROFILE_MASK = BTRFS_BLOCK_GROUP_PROFILE_MASK OR BTRFS_AVAIL_ALLOC_BIT_SINGLE"

definition chunk_to_extended :: "u64 \<Rightarrow> u64" where
  "chunk_to_extended flags =
     (if flags AND BTRFS_BLOCK_GROUP_PROFILE_MASK = 0 then flags OR BTRFS_AVAIL_ALLOC_BIT_SINGLE else flags)"

definition extended_to_chunk :: "u64 \<Rightarrow> u64" where
  "extended_to_chunk flags = flags AND NOT BTRFS_AVAIL_ALLOC_BIT_SINGLE"

definition BTRFS_QGROUP_LEVEL_SHIFT :: "nat" where
  "BTRFS_QGROUP_LEVEL_SHIFT = 48"

definition btrfs_qgroup_level :: "u64 \<Rightarrow> u64" where
  "btrfs_qgroup_level qgroupid = drop_bit BTRFS_QGROUP_LEVEL_SHIFT qgroupid"

section \<open>Packet headers: \<open>linux/dccp.h\<close>\<close>

text \<open>The sizes of the structures are those of their members, which need no padding.\<close>

definition DCCP_PKT_REQUEST :: "u8" where
  "DCCP_PKT_REQUEST = 0"

definition DCCP_PKT_RESPONSE :: "u8" where
  "DCCP_PKT_RESPONSE = 1"

definition DCCP_PKT_DATA :: "u8" where
  "DCCP_PKT_DATA = 2"

definition DCCP_PKT_ACK :: "u8" where
  "DCCP_PKT_ACK = 3"

definition DCCP_PKT_DATAACK :: "u8" where
  "DCCP_PKT_DATAACK = 4"

definition DCCP_PKT_CLOSEREQ :: "u8" where
  "DCCP_PKT_CLOSEREQ = 5"

definition DCCP_PKT_CLOSE :: "u8" where
  "DCCP_PKT_CLOSE = 6"

definition DCCP_PKT_RESET :: "u8" where
  "DCCP_PKT_RESET = 7"

definition DCCP_PKT_SYNC :: "u8" where
  "DCCP_PKT_SYNC = 8"

definition DCCP_PKT_SYNCACK :: "u8" where
  "DCCP_PKT_SYNCACK = 9"

definition sizeof_dccp_hdr_request :: "u32" where
  "sizeof_dccp_hdr_request = 4"

definition sizeof_dccp_hdr_ack_bits :: "u32" where
  "sizeof_dccp_hdr_ack_bits = 2 + 2 + 4"

definition sizeof_dccp_hdr_response :: "u32" where
  "sizeof_dccp_hdr_response = sizeof_dccp_hdr_ack_bits + 4"

definition sizeof_dccp_hdr_reset :: "u32" where
  "sizeof_dccp_hdr_reset = sizeof_dccp_hdr_ack_bits + 1 + 3"

definition dccp_packet_hdr_len :: "u8 \<Rightarrow> u32" where
  "dccp_packet_hdr_len ty =
     (if ty = DCCP_PKT_DATA then 0
      else if ty = DCCP_PKT_DATAACK \<or> ty = DCCP_PKT_ACK \<or> ty = DCCP_PKT_SYNC \<or> ty = DCCP_PKT_SYNCACK \<or>
              ty = DCCP_PKT_CLOSE \<or> ty = DCCP_PKT_CLOSEREQ then sizeof_dccp_hdr_ack_bits
      else if ty = DCCP_PKT_REQUEST then sizeof_dccp_hdr_request
      else if ty = DCCP_PKT_RESPONSE then sizeof_dccp_hdr_response
      else sizeof_dccp_hdr_reset)"

section \<open>The wake-up flag: \<open>linux/eventpoll.h\<close>\<close>

record epoll_event =
  ep_events :: u32
  ep_data :: u64

definition EPOLLWAKEUP :: "u32" where
  "EPOLLWAKEUP = push_bit 29 1"

text \<open>Whether the kernel is built with suspend support, and whether the caller has the capability, are arguments.\<close>

definition ep_take_care_of_epollwakeup :: "bool \<Rightarrow> bool \<Rightarrow> epoll_event \<Rightarrow> epoll_event" where
  "ep_take_care_of_epollwakeup config_pm_sleep capable epev =
     (if config_pm_sleep
      then if ep_events epev AND EPOLLWAKEUP \<noteq> 0 \<and> \<not> capable then epev\<lparr>ep_events := ep_events epev AND NOT EPOLLWAKEUP\<rparr> else epev
      else epev\<lparr>ep_events := ep_events epev AND NOT EPOLLWAKEUP\<rparr>)"

section \<open>The segment table: \<open>linux/map_to_7segment.h\<close>\<close>

text \<open>The table has 128 bytes; \<open>c\<close> is an \<open>int\<close>, compared as \<open>size_t\<close> once it is known not to be negative.\<close>

definition map_to_seg7 :: "u8 list \<Rightarrow> u32 \<Rightarrow> u32" where
  "map_to_seg7 table c = (if 0 \<le>s c \<and> (ucast c :: u64) < 128 then prom (table ! unat c) else - 22)"

section \<open>Flags are sets\<close>

definition flags_of :: "u32 \<Rightarrow> nat set" where
  "flags_of w = {k. k < 32 \<and> bit w k}"

lemma flag_ops:
  assumes "k < 32"
  shows "flags_of (lo32 (ucast w OR push_bit k 1)) = insert k (flags_of w)"
    "flags_of (lo32 (ucast w AND NOT (push_bit k 1))) = flags_of w - {k}"
    "(ucast (w :: u32) AND push_bit k 1 :: u64) \<noteq> 0 \<longleftrightarrow> k \<in> flags_of w"
proof -
  show "flags_of (lo32 (ucast w OR push_bit k 1)) = insert k (flags_of w)"
    "flags_of (lo32 (ucast w AND NOT (push_bit k 1))) = flags_of w - {k}"
    using assms by (auto simp: flags_of_def lo32_def bit_simps simp del: push_bit_of_1)
  have "(ucast w AND push_bit k 1 :: u64) \<noteq> 0 \<longleftrightarrow> bit (ucast w :: u64) k" using assms by (intro mask_test) simp
  then show "(ucast w AND push_bit k 1 :: u64) \<noteq> 0 \<longleftrightarrow> k \<in> flags_of w"
    using assms by (simp add: flags_of_def bit_simps)
qed

lemma no_flags_iff: "flags_of w = {} \<longleftrightarrow> w = 0"
proof
  assume "flags_of w = {}"
  then have "\<not> bit w k" if "k < 32" for k using that by (auto simp: flags_of_def)
  then show "w = 0" by (intro bit_word_eqI) simp
qed (simp add: flags_of_def)

lemmas disk_order = LE_cpu_to_le32_def LE_le32_to_cpu_def LE_cpu_to_le64_def

interpretation checkpoint_flags: bit_set "\<lambda>cp. flags_of (cp_flags cp)" "\<lambda>cp :: 'a nilfs_checkpoint_scheme. True" 32
    NILFS_CHECKPOINT_FNS_set NILFS_CHECKPOINT_FNS_clear NILFS_CHECKPOINT_FNS_test
  by unfold_locales
    (simp_all add: NILFS_CHECKPOINT_FNS_set_def NILFS_CHECKPOINT_FNS_clear_def NILFS_CHECKPOINT_FNS_test_def disk_order flag_ops
      del: push_bit_of_1)

interpretation usage_flags: bit_set "\<lambda>su. flags_of (su_flags su)" "\<lambda>su :: 'a nilfs_segment_usage_scheme. True" 32
    NILFS_SEGMENT_USAGE_FNS_set NILFS_SEGMENT_USAGE_FNS_clear NILFS_SEGMENT_USAGE_FNS_test
  by unfold_locales
    (simp_all add: NILFS_SEGMENT_USAGE_FNS_set_def NILFS_SEGMENT_USAGE_FNS_clear_def NILFS_SEGMENT_USAGE_FNS_test_def disk_order
      flag_ops del: push_bit_of_1)

interpretation update_flags: bit_set "\<lambda>upd. flags_of (sup_flags upd)" "\<lambda>upd :: 'a nilfs_suinfo_update_scheme. True" 32
    NILFS_SUINFO_UPDATE_FNS_set NILFS_SUINFO_UPDATE_FNS_clear NILFS_SUINFO_UPDATE_FNS_test
  by unfold_locales
    (simp_all add: NILFS_SUINFO_UPDATE_FNS_set_def NILFS_SUINFO_UPDATE_FNS_clear_def NILFS_SUINFO_UPDATE_FNS_test_def flag_ops
      del: push_bit_of_1)

text \<open>
  In each of the three structures that can be changed, any history of the generated functions leaves a flag as
  the last function for it says, and the other members alone; a segment is clean exactly when no flag
  is set, and is clean after it was made clean.
\<close>

theorem nilfs_flag_history:
  assumes "list_all (\<lambda>(b, d). d < 32) ops"
  shows "(flag < 32 \<longrightarrow>
      NILFS_CHECKPOINT_FNS_test flag (perform NILFS_CHECKPOINT_FNS_set NILFS_CHECKPOINT_FNS_clear ops cp) =
        last_word flag ops (NILFS_CHECKPOINT_FNS_test flag cp) \<and>
      NILFS_SEGMENT_USAGE_FNS_test flag (perform NILFS_SEGMENT_USAGE_FNS_set NILFS_SEGMENT_USAGE_FNS_clear ops su) =
        last_word flag ops (NILFS_SEGMENT_USAGE_FNS_test flag su) \<and>
      NILFS_SUINFO_UPDATE_FNS_test flag (perform NILFS_SUINFO_UPDATE_FNS_set NILFS_SUINFO_UPDATE_FNS_clear ops upd) =
        last_word flag ops (NILFS_SUINFO_UPDATE_FNS_test flag upd)) \<and>
    (nilfs_segment_usage_clean su \<longleftrightarrow> (\<forall>k < 32. \<not> NILFS_SEGMENT_USAGE_FNS_test k su)) \<and>
    nilfs_segment_usage_clean (nilfs_segment_usage_set_clean su)"
proof -
  have "nilfs_segment_usage_clean su \<longleftrightarrow> flags_of (su_flags su) = {}"
    by (simp add: nilfs_segment_usage_clean_def disk_order no_flags_iff)
  also have "\<dots> \<longleftrightarrow> (\<forall>k < 32. \<not> NILFS_SEGMENT_USAGE_FNS_test k su)"
    using usage_flags.test_iff [where m = su] by (auto simp: flags_of_def)
  finally show ?thesis
    using checkpoint_flags.performed [OF TrueI assms, of flag cp] usage_flags.performed [OF TrueI assms, of flag su]
      update_flags.performed [OF TrueI assms, of flag upd]
    by (simp add: nilfs_segment_usage_clean_def nilfs_segment_usage_set_clean_def disk_order)
qed

theorem nilfs_flag_history_witness:
  "NILFS_SEGMENT_USAGE_FNS_test NILFS_SEGMENT_USAGE_DIRTY
     (perform NILFS_SEGMENT_USAGE_FNS_set NILFS_SEGMENT_USAGE_FNS_clear
       [(True, NILFS_SEGMENT_USAGE_DIRTY), (True, NILFS_SEGMENT_USAGE_ERROR), (False, NILFS_SEGMENT_USAGE_ERROR)]
       \<lparr>su_lastmod = 7, su_nblocks = 9, su_flags = 0\<rparr>)"
  using nilfs_flag_history [of "[(True, NILFS_SEGMENT_USAGE_DIRTY), (True, NILFS_SEGMENT_USAGE_ERROR), (False, NILFS_SEGMENT_USAGE_ERROR)]"
      NILFS_SEGMENT_USAGE_DIRTY "\<lparr>cp_flags = 0\<rparr>" "\<lparr>su_lastmod = 7, su_nblocks = 9, su_flags = 0\<rparr>" "\<lparr>sup_flags = 0\<rparr>"]
  by (simp add: NILFS_SEGMENT_USAGE_DIRTY_def NILFS_SEGMENT_USAGE_ERROR_def last_word_def)

lemma nilfs_other_members:
  "nilfs_checkpoint.more (perform NILFS_CHECKPOINT_FNS_set NILFS_CHECKPOINT_FNS_clear ops cp) = nilfs_checkpoint.more cp"
  "(perform NILFS_SEGMENT_USAGE_FNS_set NILFS_SEGMENT_USAGE_FNS_clear ops su)\<lparr>su_flags := f\<rparr> = su\<lparr>su_flags := f\<rparr>"
proof (induction ops arbitrary: cp su)
  case (Cons op ops)
  {
    case 1
    show ?case using Cons.IH(1)
      by (cases op) (simp add: perform_def NILFS_CHECKPOINT_FNS_set_def NILFS_CHECKPOINT_FNS_clear_def)
  next
    case 2
    show ?case using Cons.IH(2)
      by (cases op) (simp add: perform_def NILFS_SEGMENT_USAGE_FNS_set_def NILFS_SEGMENT_USAGE_FNS_clear_def)
  }
qed (simp_all add: perform_def)

section \<open>Speed, rings, profiles, types and headers\<close>

lemma low_word: "(x :: u64) AND 0xFFFFFFFF = take_bit 32 x" "x AND 0xFF00000000 = push_bit 32 (take_bit 8 (drop_bit 32 x))"
proof -
  have m: "(0xFFFFFFFF :: u64) = mask 32" "(0xFF00000000 :: u64) = push_bit 32 (mask 8)" by (simp_all add: mask_eq_exp_minus_1)
  show "x AND 0xFFFFFFFF = take_bit 32 x" unfolding m by (simp add: take_bit_eq_mask)
  show "x AND 0xFF00000000 = push_bit 32 (take_bit 8 (drop_bit 32 x))"
    unfolding m by (rule bit_word_eqI) (auto simp: bit_simps)
qed

text \<open>A speed is read back as it was set; a ring number and a function number share a cookie.\<close>

theorem ethtool_words_round_trip:
  "ethtool_cmd_speed (ethtool_cmd_speed_set ep spd) = spd \<and>
   (ring < 2 ^ 32 \<and> vf < 2 ^ 8 \<longrightarrow> ethtool_get_flow_spec_ring (ring OR push_bit 32 vf) = ring \<and>
      ethtool_get_flow_spec_ring_vf (ring OR push_bit 32 vf) = vf)"
proof -
  have m: "(0xFFFF :: u32) = mask 16" by (simp add: mask_eq_exp_minus_1)
  have "ethtool_cmd_speed (ethtool_cmd_speed_set ep spd) = spd"
    unfolding ethtool_cmd_speed_def ethtool_cmd_speed_set_def m
    by (rule bit_word_eqI) (auto simp: c_convert_defs bit_simps)
  moreover have "ethtool_get_flow_spec_ring (ring OR push_bit 32 vf) = ring \<and>
      ethtool_get_flow_spec_ring_vf (ring OR push_bit 32 vf) = vf" if "ring < 2 ^ 32" "vf < 2 ^ 8"
  proof
    have r: "n < 32" if "bit ring n" for n using bit_above [OF \<open>ring < 2 ^ 32\<close>, of n] that by (meson not_le)
    have v: "n < 8" if "bit vf n" for n using bit_above [OF \<open>vf < 2 ^ 8\<close>, of n] that by (meson not_le)
    show "ethtool_get_flow_spec_ring (ring OR push_bit 32 vf) = ring"
      unfolding ethtool_get_flow_spec_ring_def ETHTOOL_RX_FLOW_SPEC_RING_def and.commute [of "0xFFFFFFFF"] low_word
      by (rule bit_word_eqI) (use r in \<open>auto simp: bit_simps\<close>)
    show "ethtool_get_flow_spec_ring_vf (ring OR push_bit 32 vf) = vf"
      unfolding ethtool_get_flow_spec_ring_vf_def ETHTOOL_RX_FLOW_SPEC_RING_VF_def ETHTOOL_RX_FLOW_SPEC_RING_VF_OFF_def
        and.commute [of "0xFF00000000"] low_word
      by (rule bit_word_eqI) (use r v in \<open>force simp: bit_simps\<close>)
  qed
  ultimately show ?thesis by blast
qed

theorem ethtool_words_round_trip_witness:
  "ethtool_get_flow_spec_ring (5 OR push_bit 32 3) = 5 \<and> ethtool_get_flow_spec_ring_vf (5 OR push_bit 32 3) = 3"
  using ethtool_words_round_trip [of "\<lparr>cmd_speed = 0, cmd_speed_hi = 0\<rparr>" 1000 5 3] by simp

text \<open>
  The extended form of a block group's flags always names a profile, and going back gives the flags it was made of;
  the flag for a single copy is never among the stored flags.
\<close>

theorem btrfs_profile_round_trip:
  "(flags AND BTRFS_AVAIL_ALLOC_BIT_SINGLE = 0 \<longrightarrow> extended_to_chunk (chunk_to_extended flags) = flags) \<and>
   chunk_to_extended flags AND BTRFS_EXTENDED_PROFILE_MASK \<noteq> 0 \<and>
   extended_to_chunk flags AND BTRFS_AVAIL_ALLOC_BIT_SINGLE = 0"
proof -
  let ?s = "BTRFS_AVAIL_ALLOC_BIT_SINGLE" and ?p = "BTRFS_BLOCK_GROUP_PROFILE_MASK"
  have s: "bit ?s n \<longleftrightarrow> n = 48" for n
    by (auto simp: BTRFS_AVAIL_ALLOC_BIT_SINGLE_def bit_simps simp del: push_bit_of_1)
  have "extended_to_chunk (chunk_to_extended flags) = flags" if "flags AND ?s = 0"
  proof (rule bit_word_eqI)
    fix n assume "n < LENGTH(64)"
    moreover have "\<not> bit flags 48" using that s [of 48] by (metis bit_0_eq bit_and_iff bot_apply bot_bool_def)
    ultimately show "bit (extended_to_chunk (chunk_to_extended flags)) n = bit flags n"
      by (auto simp: extended_to_chunk_def chunk_to_extended_def bit_simps s)
  qed
  moreover have "chunk_to_extended flags AND BTRFS_EXTENDED_PROFILE_MASK \<noteq> 0"
  proof (cases "flags AND ?p = 0")
    case True
    have "bit (chunk_to_extended flags AND BTRFS_EXTENDED_PROFILE_MASK) 48"
      using True by (simp add: chunk_to_extended_def BTRFS_EXTENDED_PROFILE_MASK_def bit_simps s)
    then show ?thesis by (metis word_nonzero)
  next
    case False
    then obtain k where "bit (flags AND ?p) k" by (auto simp: word_nonzero)
    then have "bit (chunk_to_extended flags AND BTRFS_EXTENDED_PROFILE_MASK) k"
      using False by (simp add: chunk_to_extended_def BTRFS_EXTENDED_PROFILE_MASK_def bit_simps)
    then show ?thesis by (metis word_nonzero)
  qed
  moreover have "extended_to_chunk flags AND ?s = 0" by (rule bit_word_eqI) (auto simp: extended_to_chunk_def bit_simps)
  ultimately show ?thesis by blast
qed

theorem btrfs_profile_round_trip_witness: "extended_to_chunk (chunk_to_extended 1) = 1"
  using btrfs_profile_round_trip [of 1] by (simp add: BTRFS_AVAIL_ALLOC_BIT_SINGLE_def)

lemmas autofs_defs = AUTOFS_TYPE_ANY_def AUTOFS_TYPE_INDIRECT_def AUTOFS_TYPE_DIRECT_def AUTOFS_TYPE_OFFSET_def
  set_autofs_type_indirect_def set_autofs_type_direct_def set_autofs_type_offset_def set_autofs_type_any_def
  autofs_type_indirect_def autofs_type_direct_def autofs_type_offset_def autofs_type_any_def autofs_type_trigger_def

lemma autofs_types_exclusive:
  "length (filter (\<lambda>test. test ty) [autofs_type_any, autofs_type_indirect, autofs_type_direct, autofs_type_offset]) \<le> 1"
  "autofs_type_trigger ty \<longleftrightarrow> autofs_type_direct ty \<or> autofs_type_offset ty"
  "autofs_type_indirect (set_autofs_type_indirect ty) \<and> autofs_type_direct (set_autofs_type_direct ty) \<and>
   autofs_type_offset (set_autofs_type_offset ty) \<and> autofs_type_any (set_autofs_type_any ty)"
  by (auto simp: autofs_defs)

lemmas dccp_defs = dccp_packet_hdr_len_def sizeof_dccp_hdr_request_def sizeof_dccp_hdr_ack_bits_def sizeof_dccp_hdr_response_def
  sizeof_dccp_hdr_reset_def

lemma dccp_header_bounds: "dccp_packet_hdr_len ty \<in> {0, 4, 8, 12}"
  by (simp add: dccp_defs)

lemma epollwakeup_only_with_capability:
  "\<not> capable \<or> \<not> pm \<Longrightarrow> ep_events (ep_take_care_of_epollwakeup pm capable epev) AND EPOLLWAKEUP = 0"
  "k \<noteq> 29 \<Longrightarrow> bit (ep_events (ep_take_care_of_epollwakeup pm capable epev)) k = bit (ep_events epev) k"
proof -
  have "(x AND NOT EPOLLWAKEUP) AND EPOLLWAKEUP = 0" for x by (rule bit_word_eqI) (auto simp: bit_simps)
  then show "\<not> capable \<or> \<not> pm \<Longrightarrow> ep_events (ep_take_care_of_epollwakeup pm capable epev) AND EPOLLWAKEUP = 0"
    by (auto simp: ep_take_care_of_epollwakeup_def)
  have "\<not> bit EPOLLWAKEUP k" if "k \<noteq> 29" using that by (auto simp: EPOLLWAKEUP_def bit_simps simp del: push_bit_of_1)
  then show "k \<noteq> 29 \<Longrightarrow> bit (ep_events (ep_take_care_of_epollwakeup pm capable epev)) k = bit (ep_events epev) k"
    by (auto simp: ep_take_care_of_epollwakeup_def bit_simps dest: bit_imp_le_length)
qed

lemma seg7_in_table: "length table = 128 \<Longrightarrow> map_to_seg7 table c \<noteq> - 22 \<Longrightarrow> unat c < length table"
proof -
  assume "length table = 128" "map_to_seg7 table c \<noteq> - 22"
  then have "(ucast c :: u64) < 128" by (simp add: map_to_seg7_def split: if_splits)
  then show ?thesis using \<open>length table = 128\<close> by (simp add: word_less_nat_alt)
qed

end

