(* ===== verification/Argz.thy ===== *)
theory Argz
  imports C_Loops
begin

text \<open>
  Argument vectors of \<open>argz.h\<close>: strings behind each other in memory, each with its terminating zero, and the
  inline function that steps from one to the next. Pointers are addresses of 64 bits and the null
  pointer is 0. The search of \<open>strchr\<close> for the terminator has no end where there is none, which is \<open>None\<close>;
  the two loops that the header recommends are partial in the same way.
\<close>

section \<open>Model\<close>

text \<open>\<open>strchr (p, '\0')\<close> of the C library.\<close>

partial_function (option) strchr_nul :: "memory \<Rightarrow> u64 \<Rightarrow> u64 option" where
  "strchr_nul mem p = (if mem p = 0 then Some p else strchr_nul mem (p + 1))"

definition us_argz_next :: "memory \<Rightarrow> u64 \<Rightarrow> u64 \<Rightarrow> u64 \<Rightarrow> u64 option" where
  "us_argz_next mem argz argz_len entry =
     (if entry \<noteq> 0
      then (case (if entry < argz + argz_len then map_option (\<lambda>q. q + 1) (strchr_nul mem entry) else Some entry) of
              None \<Rightarrow> None
            | Some e \<Rightarrow> Some (if e \<ge> argz + argz_len then 0 else e))
      else Some (if argz_len > 0 then argz else 0))"

definition argz_next :: "memory \<Rightarrow> u64 \<Rightarrow> u64 \<Rightarrow> u64 \<Rightarrow> u64 option" where
  "argz_next mem argz argz_len entry = us_argz_next mem argz argz_len entry"

text \<open>The entries that \<open>for (entry = argz; entry; entry = argz_next (argz, argz_len, entry))\<close> visits from \<open>entry\<close> on.\<close>

partial_function (option) argz_for :: "memory \<Rightarrow> u64 \<Rightarrow> u64 \<Rightarrow> u64 \<Rightarrow> u64 list option" where
  "argz_for mem argz argz_len entry =
     (if entry = 0 then Some []
      else (case argz_next mem argz argz_len entry of
              None \<Rightarrow> None
            | Some e \<Rightarrow> Option.bind (argz_for mem argz argz_len e) (\<lambda>es. Some (entry # es))))"

text \<open>The entries that \<open>while ((entry = argz_next (argz, argz_len, entry)))\<close> visits behind \<open>entry\<close>.\<close>

partial_function (option) argz_while :: "memory \<Rightarrow> u64 \<Rightarrow> u64 \<Rightarrow> u64 \<Rightarrow> u64 list option" where
  "argz_while mem argz argz_len entry =
     (case argz_next mem argz argz_len entry of
        None \<Rightarrow> None
      | Some e \<Rightarrow> if e = 0 then Some []
                  else Option.bind (argz_while mem argz argz_len e) (\<lambda>es. Some (e # es)))"

section \<open>Vectors in memory\<close>

definition bytes_at :: "memory \<Rightarrow> u64 \<Rightarrow> u8 list \<Rightarrow> bool" where
  "bytes_at mem p bs \<longleftrightarrow> (\<forall>i < length bs. mem (p + of_nat i) = bs ! i)"

definition vector_of :: "u8 list list \<Rightarrow> u8 list" where
  "vector_of strs = concat (map (\<lambda>s. s @ [0]) strs)"

fun entries :: "u64 \<Rightarrow> u8 list list \<Rightarrow> u64 list" where
  "entries p [] = []"
| "entries p (s # strs) = p # entries (p + of_nat (length s) + 1) strs"

lemma vector_of_simps [simp]:
  "vector_of [] = []" "vector_of (s # strs) = s @ 0 # vector_of strs" "vector_of strs = [] \<longleftrightarrow> strs = []"
  by (simp_all add: vector_of_def)

lemma bytes_at_append: "bytes_at mem p (xs @ ys) \<longleftrightarrow> bytes_at mem p xs \<and> bytes_at mem (p + of_nat (length xs)) ys"
proof
  assume a: "bytes_at mem p (xs @ ys)"
  have "mem (p + of_nat i) = xs ! i" if "i < length xs" for i
    using a that unfolding bytes_at_def by (metis length_append nth_append trans_less_add1)
  moreover have "mem (p + of_nat (length xs) + of_nat i) = ys ! i" if "i < length ys" for i
  proof -
    have "mem (p + of_nat (length xs + i)) = (xs @ ys) ! (length xs + i)"
      using a that unfolding bytes_at_def by (metis length_append nat_add_left_cancel_less)
    then show ?thesis by (simp add: add.assoc)
  qed
  ultimately show "bytes_at mem p xs \<and> bytes_at mem (p + of_nat (length xs)) ys" by (simp add: bytes_at_def)
next
  assume a: "bytes_at mem p xs \<and> bytes_at mem (p + of_nat (length xs)) ys"
  have "mem (p + of_nat i) = (xs @ ys) ! i" if "i < length xs + length ys" for i
  proof (cases "i < length xs")
    case False
    then obtain j where "i = length xs + j" by (metis le_Suc_ex not_le)
    then show ?thesis using a that by (simp add: bytes_at_def add.assoc)
  qed (use a in \<open>simp add: bytes_at_def nth_append\<close>)
  then show "bytes_at mem p (xs @ ys)" by (simp add: bytes_at_def)
qed

lemma bytes_at_Cons: "bytes_at mem p (x # xs) \<longleftrightarrow> mem p = x \<and> bytes_at mem (p + 1) xs"
  using bytes_at_append [of mem p "[x]" xs] by (simp add: bytes_at_def)

lemma bytes_at_vector:
  "bytes_at mem p (vector_of (s # strs)) \<longleftrightarrow>
     bytes_at mem p (s @ [0]) \<and> bytes_at mem (p + of_nat (length s) + 1) (vector_of strs)"
  using bytes_at_append [of mem p "s @ [0]" "vector_of strs"] by (simp add: ac_simps)

lemma strchr_nul_finds: "0 \<notin> set s \<Longrightarrow> bytes_at mem p (s @ [0]) \<Longrightarrow> strchr_nul mem p = Some (p + of_nat (length s))"
proof (induction s arbitrary: p)
  case Nil
  then show ?case by (subst strchr_nul.simps) (simp add: bytes_at_Cons)
next
  case (Cons c s)
  then have "mem p = c" "c \<noteq> 0" "strchr_nul mem (p + 1) = Some (p + 1 + of_nat (length s))"
    by (simp_all add: bytes_at_Cons)
  then show ?case by (subst strchr_nul.simps) (simp add: add.assoc add.commute)
qed

text \<open>A step: behind the last string the end is reached, behind any other one the next string.\<close>

lemma argz_step:
  assumes "bytes_at mem p (vector_of (s # strs))" and "0 \<notin> set s" and "p \<noteq> 0"
    and "argz + argz_len = p + of_nat (length (vector_of (s # strs)))"
    and "unat p + length (vector_of (s # strs)) < 2 ^ 64"
  shows "argz_next mem argz argz_len p = Some (if strs = [] then 0 else p + of_nat (length s) + 1)"
proof -
  let ?n = "length (vector_of (s # strs))" and ?e = "p + of_nat (length s) + 1"
  have at: "unat (p + of_nat k) = unat p + k" if "k \<le> ?n" for k
  proof -
    have "unat (of_nat k :: u64) = k" using that assms(5) by (simp add: unat_of_nat)
    then show ?thesis using that assms(5) by (simp add: unat_word_ariths)
  qed
  have e: "?e = p + of_nat (length s + 1)" by (simp add: add.assoc)
  have "0 < ?n" by simp
  then have "p < argz + argz_len" using at [of ?n] unfolding assms(4) by (simp add: word_less_nat_alt)
  moreover have "strchr_nul mem p = Some (p + of_nat (length s))"
    using assms(1,2) unfolding bytes_at_vector by (intro strchr_nul_finds) simp_all
  moreover have "argz + argz_len \<le> ?e \<longleftrightarrow> strs = []"
    unfolding assms(4) e word_le_nat_alt using at [of ?n] at [of "length s + 1"] by (cases strs) auto
  ultimately show ?thesis using assms(3) by (simp add: argz_next_def us_argz_next_def)
qed

lemma argz_loops:
  assumes "strs \<noteq> []" and "bytes_at mem p (vector_of strs)" and "\<forall>s \<in> set strs. 0 \<notin> set s" and "p \<noteq> 0"
    and "argz + argz_len = p + of_nat (length (vector_of strs))"
    and "unat p + length (vector_of strs) < 2 ^ 64"
  shows "argz_for mem argz argz_len p = Some (entries p strs) \<and> argz_while mem argz argz_len p = Some (tl (entries p strs))"
  using assms
proof (induction strs arbitrary: p)
  case (Cons s strs)
  let ?q = "p + of_nat (length s) + 1"
  have step: "argz_next mem argz argz_len p = Some (if strs = [] then 0 else ?q)"
    using Cons.prems by (intro argz_step) simp_all
  show ?case
  proof (cases "strs = []")
    case True
    have "argz_for mem argz argz_len 0 = Some []" by (subst argz_for.simps) simp
    moreover have "argz_while mem argz argz_len p = Some []" using step True by (subst argz_while.simps) simp
    ultimately show ?thesis using step True Cons.prems(4) by (subst argz_for.simps) simp
  next
    case False
    have q: "?q = p + of_nat (length s + 1)" by (simp add: add.assoc)
    have "unat (of_nat (length s + 1) :: u64) = length s + 1"
      using Cons.prems(6) by (simp add: unat_of_nat del: of_nat_add of_nat_Suc)
    then have u: "unat ?q = unat p + (length s + 1)"
      unfolding q using Cons.prems(6) by (simp add: unat_word_ariths del: of_nat_add of_nat_Suc)
    have "bytes_at mem ?q (vector_of strs)"
      using Cons.prems(2) unfolding bytes_at_vector by simp
    moreover have q0: "?q \<noteq> 0"
    proof
      assume "?q = 0"
      then have "unat ?q = 0" by (simp only: unat_0)
      then show False using u by simp
    qed
    moreover have "argz + argz_len = ?q + of_nat (length (vector_of strs))" using Cons.prems(5) by (simp add: algebra_simps)
    moreover have "unat ?q + length (vector_of strs) < 2 ^ 64" using u Cons.prems(6) by simp
    ultimately have rest: "argz_for mem argz argz_len ?q = Some (entries ?q strs)"
      "argz_while mem argz argz_len ?q = Some (tl (entries ?q strs))" using Cons.IH [OF False, of ?q] Cons.prems(3) by simp_all
    have ne: "entries ?q strs = ?q # tl (entries ?q strs)" using False by (cases strs) simp_all
    have "argz_while mem argz argz_len p = Some (entries ?q strs)"
      using step False q0 rest(2) ne by (subst argz_while.simps) simp
    moreover have "argz_for mem argz argz_len p = Some (p # entries ?q strs)"
      using step False rest(1) Cons.prems(4) by (subst argz_for.simps) simp
    ultimately show ?thesis by simp
  qed
qed simp

lemma entries_strings: "bytes_at mem p (vector_of strs) \<Longrightarrow> list_all2 (\<lambda>a s. bytes_at mem a (s @ [0])) (entries p strs) strs"
proof (induction strs arbitrary: p)
  case (Cons s strs)
  then have "bytes_at mem p (s @ [0])" "bytes_at mem (p + of_nat (length s) + 1) (vector_of strs)"
    unfolding bytes_at_vector by simp_all
  with Cons.IH show ?case by simp
qed simp

text \<open>
  Both loops that the header recommends end and visit the strings of a vector, each one once and in order: at the
  addresses they visit stand exactly the strings, with their terminators. Started at the null pointer, the
  second loop visits them all; on an empty vector it visits nothing.
\<close>

theorem argz_loops_visit_strings:
  assumes "bytes_at mem argz (vector_of strs)" and "\<forall>s \<in> set strs. 0 \<notin> set s" and "argz \<noteq> 0"
    and "unat argz + length (vector_of strs) < 2 ^ 64" and "argz_len = of_nat (length (vector_of strs))"
  shows "\<exists>es. list_all2 (\<lambda>a s. bytes_at mem a (s @ [0])) es strs \<and> argz_while mem argz argz_len 0 = Some es \<and>
    (strs \<noteq> [] \<longrightarrow> argz_for mem argz argz_len argz = Some es)"
proof (cases "strs = []")
  case True
  then have "argz_while mem argz argz_len 0 = Some []"
    using assms(5) by (subst argz_while.simps) (simp add: argz_next_def us_argz_next_def)
  then show ?thesis using True by simp
next
  case False
  have "argz + argz_len = argz + of_nat (length (vector_of strs))" by (simp add: assms(5))
  from argz_loops [OF False assms(1-3) this assms(4)]
  have l: "argz_for mem argz argz_len argz = Some (entries argz strs)"
    "argz_while mem argz argz_len argz = Some (tl (entries argz strs))" by simp_all
  have "0 < length (vector_of strs)" using False by simp
  moreover have "unat argz_len = length (vector_of strs)" using assms(4,5) by (simp add: unat_of_nat)
  ultimately have "0 < argz_len" by (simp add: word_less_nat_alt)
  moreover have "entries argz strs = argz # tl (entries argz strs)" using False by (cases strs) simp_all
  ultimately have "argz_while mem argz argz_len 0 = Some (entries argz strs)"
    using l(2) assms(3) by (subst argz_while.simps) (simp add: argz_next_def us_argz_next_def)
  then show ?thesis using l(1) entries_strings [OF assms(1)] by blast
qed

theorem argz_loops_visit_strings_witness:
  "\<exists>es. argz_while (\<lambda>a. if a = 17 \<or> a = 19 then 0 else 65) 16 4 0 = Some es \<and> length es = 2"
proof -
  let ?mem = "\<lambda>a :: u64. if a = 17 \<or> a = 19 then 0 else 65 :: u8"
  have "bytes_at ?mem 16 (vector_of [[65], [65]])" by (simp add: bytes_at_Cons) (simp add: bytes_at_def)
  then show ?thesis
    using argz_loops_visit_strings [of ?mem 16 "[[65], [65]]" 4] by (auto dest!: list_all2_lengthD)
qed

end
