(* ===== verification/Internet_Addresses.thy ===== *)
theory Internet_Addresses
  imports TIPC_Config Byte_Order
begin

text \<open>
  Internet addresses and numbers on the wire: the classes of IPv4 addresses (\<open>netinet/in.h\<close>, \<open>linux/in.h\<close>), the kinds of
  IPv6 addresses (\<open>netinet/in.h\<close>), the conversions of \<open>endian.h\<close> and the byte access of \<open>arpa/nameser.h\<close> and
  \<open>linux/coff.h\<close>. An IPv4 address is a number of 32 bits, an IPv6 address the list of its 16 bytes, which
  the little endian host also reads as four numbers. Tests are truth values.
\<close>

unbundle bit_operations_syntax

section \<open>Address classes\<close>

definition IN_CLASSA :: "u32 \<Rightarrow> bool" where
  "IN_CLASSA a \<longleftrightarrow> a AND 0x80000000 = 0"

definition IN_CLASSA_NET :: u32 where
  "IN_CLASSA_NET = 0xff000000"

definition IN_CLASSA_NSHIFT :: nat where
  "IN_CLASSA_NSHIFT = 24"

definition IN_CLASSA_HOST :: u32 where
  "IN_CLASSA_HOST = 0xffffffff AND NOT IN_CLASSA_NET"

definition IN_CLASSA_MAX :: nat where
  "IN_CLASSA_MAX = 128"

definition IN_CLASSB :: "u32 \<Rightarrow> bool" where
  "IN_CLASSB a \<longleftrightarrow> a AND 0xc0000000 = 0x80000000"

definition IN_CLASSB_NET :: u32 where
  "IN_CLASSB_NET = 0xffff0000"

definition IN_CLASSB_NSHIFT :: nat where
  "IN_CLASSB_NSHIFT = 16"

definition IN_CLASSB_HOST :: u32 where
  "IN_CLASSB_HOST = 0xffffffff AND NOT IN_CLASSB_NET"

definition IN_CLASSB_MAX :: nat where
  "IN_CLASSB_MAX = 65536"

definition IN_CLASSC :: "u32 \<Rightarrow> bool" where
  "IN_CLASSC a \<longleftrightarrow> a AND 0xe0000000 = 0xc0000000"

definition IN_CLASSC_NET :: u32 where
  "IN_CLASSC_NET = 0xffffff00"

definition IN_CLASSC_NSHIFT :: nat where
  "IN_CLASSC_NSHIFT = 8"

definition IN_CLASSC_HOST :: u32 where
  "IN_CLASSC_HOST = 0xffffffff AND NOT IN_CLASSC_NET"

definition IN_CLASSD :: "u32 \<Rightarrow> bool" where
  "IN_CLASSD a \<longleftrightarrow> a AND 0xf0000000 = 0xe0000000"

definition IN_MULTICAST :: "u32 \<Rightarrow> bool" where
  "IN_MULTICAST a = IN_CLASSD a"

definition IN_EXPERIMENTAL :: "u32 \<Rightarrow> bool" where
  "IN_EXPERIMENTAL a \<longleftrightarrow> a AND 0xe0000000 = 0xe0000000"

definition IN_BADCLASS :: "u32 \<Rightarrow> bool" where
  "IN_BADCLASS a \<longleftrightarrow> a AND 0xf0000000 = 0xf0000000"

text \<open>The kernel's header converts the address to \<open>long\<close>, which has 64 bits here; its names are prefixed.\<close>

definition kernel_IN_CLASSA :: "u32 \<Rightarrow> bool" where
  "kernel_IN_CLASSA a \<longleftrightarrow> (ucast a :: u64) AND 0x80000000 = 0"

definition kernel_IN_CLASSB :: "u32 \<Rightarrow> bool" where
  "kernel_IN_CLASSB a \<longleftrightarrow> (ucast a :: u64) AND 0xc0000000 = 0x80000000"

definition kernel_IN_CLASSC :: "u32 \<Rightarrow> bool" where
  "kernel_IN_CLASSC a \<longleftrightarrow> (ucast a :: u64) AND 0xe0000000 = 0xc0000000"

definition kernel_IN_CLASSD :: "u32 \<Rightarrow> bool" where
  "kernel_IN_CLASSD a \<longleftrightarrow> (ucast a :: u64) AND 0xf0000000 = 0xe0000000"

definition kernel_IN_MULTICAST :: "u32 \<Rightarrow> bool" where
  "kernel_IN_MULTICAST a = kernel_IN_CLASSD a"

definition kernel_IN_EXPERIMENTAL :: "u32 \<Rightarrow> bool" where
  "kernel_IN_EXPERIMENTAL a \<longleftrightarrow> (ucast a :: u64) AND 0xf0000000 = 0xf0000000"

definition kernel_IN_BADCLASS :: "u32 \<Rightarrow> bool" where
  "kernel_IN_BADCLASS a = kernel_IN_EXPERIMENTAL a"

definition IN_LOOPBACK :: "u32 \<Rightarrow> bool" where
  "IN_LOOPBACK a \<longleftrightarrow> (ucast a :: u64) AND 0xff000000 = 0x7f000000"

section \<open>IPv6 addresses\<close>

type_synonym in6_addr = "u8 list"

definition u6_addr32 :: "in6_addr \<Rightarrow> nat \<Rightarrow> u32" where
  "u6_addr32 a i = word4 (a ! (4 * i)) (a ! (4 * i + 1)) (a ! (4 * i + 2)) (a ! (4 * i + 3))"

definition ntohl :: "u32 \<Rightarrow> u32" where
  "ntohl x = bswap_32 True x"

definition IN6_IS_ADDR_UNSPECIFIED :: "in6_addr \<Rightarrow> bool" where
  "IN6_IS_ADDR_UNSPECIFIED a \<longleftrightarrow> u6_addr32 a 0 = 0 \<and> u6_addr32 a 1 = 0 \<and> u6_addr32 a 2 = 0 \<and> u6_addr32 a 3 = 0"

definition IN6_IS_ADDR_LOOPBACK :: "in6_addr \<Rightarrow> bool" where
  "IN6_IS_ADDR_LOOPBACK a \<longleftrightarrow> u6_addr32 a 0 = 0 \<and> u6_addr32 a 1 = 0 \<and> u6_addr32 a 2 = 0 \<and> u6_addr32 a 3 = htonl 1"

definition IN6_IS_ADDR_LINKLOCAL :: "in6_addr \<Rightarrow> bool" where
  "IN6_IS_ADDR_LINKLOCAL a \<longleftrightarrow> u6_addr32 a 0 AND htonl 0xffc00000 = htonl 0xfe800000"

definition IN6_IS_ADDR_SITELOCAL :: "in6_addr \<Rightarrow> bool" where
  "IN6_IS_ADDR_SITELOCAL a \<longleftrightarrow> u6_addr32 a 0 AND htonl 0xffc00000 = htonl 0xfec00000"

definition IN6_IS_ADDR_V4MAPPED :: "in6_addr \<Rightarrow> bool" where
  "IN6_IS_ADDR_V4MAPPED a \<longleftrightarrow> u6_addr32 a 0 = 0 \<and> u6_addr32 a 1 = 0 \<and> u6_addr32 a 2 = htonl 0xffff"

definition IN6_IS_ADDR_V4COMPAT :: "in6_addr \<Rightarrow> bool" where
  "IN6_IS_ADDR_V4COMPAT a \<longleftrightarrow>
     u6_addr32 a 0 = 0 \<and> u6_addr32 a 1 = 0 \<and> u6_addr32 a 2 = 0 \<and> ntohl (u6_addr32 a 3) > 1"

definition IN6_ARE_ADDR_EQUAL :: "in6_addr \<Rightarrow> in6_addr \<Rightarrow> bool" where
  "IN6_ARE_ADDR_EQUAL a b \<longleftrightarrow> u6_addr32 a 0 = u6_addr32 b 0 \<and> u6_addr32 a 1 = u6_addr32 b 1 \<and>
     u6_addr32 a 2 = u6_addr32 b 2 \<and> u6_addr32 a 3 = u6_addr32 b 3"

definition IN6_IS_ADDR_MULTICAST :: "in6_addr \<Rightarrow> bool" where
  "IN6_IS_ADDR_MULTICAST a \<longleftrightarrow> a ! 0 = 0xff"

definition IN6_IS_ADDR_MC_NODELOCAL :: "in6_addr \<Rightarrow> bool" where
  "IN6_IS_ADDR_MC_NODELOCAL a \<longleftrightarrow> IN6_IS_ADDR_MULTICAST a \<and> a ! 1 AND 0xf = 0x1"

definition IN6_IS_ADDR_MC_LINKLOCAL :: "in6_addr \<Rightarrow> bool" where
  "IN6_IS_ADDR_MC_LINKLOCAL a \<longleftrightarrow> IN6_IS_ADDR_MULTICAST a \<and> a ! 1 AND 0xf = 0x2"

definition IN6_IS_ADDR_MC_SITELOCAL :: "in6_addr \<Rightarrow> bool" where
  "IN6_IS_ADDR_MC_SITELOCAL a \<longleftrightarrow> IN6_IS_ADDR_MULTICAST a \<and> a ! 1 AND 0xf = 0x5"

definition IN6_IS_ADDR_MC_ORGLOCAL :: "in6_addr \<Rightarrow> bool" where
  "IN6_IS_ADDR_MC_ORGLOCAL a \<longleftrightarrow> IN6_IS_ADDR_MULTICAST a \<and> a ! 1 AND 0xf = 0x8"

definition IN6_IS_ADDR_MC_GLOBAL :: "in6_addr \<Rightarrow> bool" where
  "IN6_IS_ADDR_MC_GLOBAL a \<longleftrightarrow> IN6_IS_ADDR_MULTICAST a \<and> a ! 1 AND 0xf = 0xe"

section \<open>Conversions: \<open>endian.h\<close>, \<open>bits/uintn-identity.h\<close>\<close>

definition uint16_identity :: "u16 \<Rightarrow> u16" where
  "uint16_identity x = x"

definition uint32_identity :: "u32 \<Rightarrow> u32" where
  "uint32_identity x = x"

definition uint64_identity :: "u64 \<Rightarrow> u64" where
  "uint64_identity x = x"

text \<open>Whether the host is little endian is an argument of each conversion.\<close>

definition htobe16 :: "bool \<Rightarrow> u16 \<Rightarrow> u16" where
  "htobe16 little x = (if little then bswap_16 True x else uint16_identity x)"

definition htole16 :: "bool \<Rightarrow> u16 \<Rightarrow> u16" where
  "htole16 little x = (if little then uint16_identity x else bswap_16 True x)"

definition be16toh :: "bool \<Rightarrow> u16 \<Rightarrow> u16" where
  "be16toh little x = (if little then bswap_16 True x else uint16_identity x)"

definition le16toh :: "bool \<Rightarrow> u16 \<Rightarrow> u16" where
  "le16toh little x = (if little then uint16_identity x else bswap_16 True x)"

definition htobe32 :: "bool \<Rightarrow> u32 \<Rightarrow> u32" where
  "htobe32 little x = (if little then bswap_32 True x else uint32_identity x)"

definition htole32 :: "bool \<Rightarrow> u32 \<Rightarrow> u32" where
  "htole32 little x = (if little then uint32_identity x else bswap_32 True x)"

definition be32toh :: "bool \<Rightarrow> u32 \<Rightarrow> u32" where
  "be32toh little x = (if little then bswap_32 True x else uint32_identity x)"

definition le32toh :: "bool \<Rightarrow> u32 \<Rightarrow> u32" where
  "le32toh little x = (if little then uint32_identity x else bswap_32 True x)"

definition htobe64 :: "bool \<Rightarrow> u64 \<Rightarrow> u64" where
  "htobe64 little x = (if little then bswap_64 True x else uint64_identity x)"

definition htole64 :: "bool \<Rightarrow> u64 \<Rightarrow> u64" where
  "htole64 little x = (if little then uint64_identity x else bswap_64 True x)"

definition be64toh :: "bool \<Rightarrow> u64 \<Rightarrow> u64" where
  "be64toh little x = (if little then bswap_64 True x else uint64_identity x)"

definition le64toh :: "bool \<Rightarrow> u64 \<Rightarrow> u64" where
  "le64toh little x = (if little then uint64_identity x else bswap_64 True x)"

section \<open>Byte access: \<open>arpa/nameser.h\<close>, \<open>linux/coff.h\<close>\<close>

definition NS_INT32SZ :: nat where
  "NS_INT32SZ = 4"

definition NS_INT16SZ :: nat where
  "NS_INT16SZ = 2"

text \<open>The macros change a value and advance the pointer \<open>cp\<close>, here an index into the message.\<close>

definition NS_GET16 :: "u8 list \<Rightarrow> nat \<Rightarrow> u16 \<times> nat" where
  "NS_GET16 msg cp = (lo16 (push_bit 8 (prom (msg ! cp)) OR prom (msg ! (cp + 1))), cp + NS_INT16SZ)"

definition NS_GET32 :: "u8 list \<Rightarrow> nat \<Rightarrow> u32 \<times> nat" where
  "NS_GET32 msg cp =
     (push_bit 24 (prom (msg ! cp)) OR push_bit 16 (prom (msg ! (cp + 1))) OR push_bit 8 (prom (msg ! (cp + 2))) OR
        prom (msg ! (cp + 3)), cp + NS_INT32SZ)"

definition NS_PUT16 :: "u16 \<Rightarrow> u8 list \<Rightarrow> nat \<Rightarrow> u8 list \<times> nat" where
  "NS_PUT16 s msg cp = (msg[cp := lo8 (drop_bit 8 (prom s)), cp + 1 := lo8 (prom s)], cp + NS_INT16SZ)"

definition NS_PUT32 :: "u32 \<Rightarrow> u8 list \<Rightarrow> nat \<Rightarrow> u8 list \<times> nat" where
  "NS_PUT32 l msg cp =
     (msg[cp := lo8 (drop_bit 24 l), cp + 1 := lo8 (drop_bit 16 l), cp + 2 := lo8 (drop_bit 8 l), cp + 3 := lo8 l],
      cp + NS_INT32SZ)"

definition COFF_SHORT_L :: "u8 list \<Rightarrow> u16" where
  "COFF_SHORT_L ps = lo16 (push_bit 8 (prom (ps ! 1)) OR prom (ps ! 0))"

definition COFF_LONG_L :: "u8 list \<Rightarrow> u64" where
  "COFF_LONG_L ps = push_bit 24 (ucast (ps ! 3)) OR push_bit 16 (ucast (ps ! 2)) OR push_bit 8 (ucast (ps ! 1)) OR ucast (ps ! 0)"

definition COFF_SHORT_H :: "u8 list \<Rightarrow> u16" where
  "COFF_SHORT_H ps = lo16 (push_bit 8 (prom (ps ! 0)) OR prom (ps ! 1))"

definition COFF_LONG_H :: "u8 list \<Rightarrow> u64" where
  "COFF_LONG_H ps = push_bit 24 (ucast (ps ! 0)) OR push_bit 16 (ucast (ps ! 1)) OR push_bit 8 (ucast (ps ! 2)) OR ucast (ps ! 3)"

definition COFF_LONG :: "u8 list \<Rightarrow> u64" where
  "COFF_LONG v = COFF_LONG_L v"

definition COFF_SHORT :: "u8 list \<Rightarrow> u16" where
  "COFF_SHORT v = COFF_SHORT_L v"

section \<open>Classes partition the addresses\<close>

lemma top_bits:
  "bit (0x80000000 :: u32) n \<longleftrightarrow> n = 31" "bit (0xc0000000 :: u32) n \<longleftrightarrow> n = 30 \<or> n = 31"
  "bit (0xe0000000 :: u32) n \<longleftrightarrow> n = 29 \<or> n = 30 \<or> n = 31" "bit (0xf0000000 :: u32) n \<longleftrightarrow> n = 28 \<or> n = 29 \<or> n = 30 \<or> n = 31"
proof -
  have m: "(0x80000000 :: u32) = push_bit 31 1" "(0xc0000000 :: u32) = push_bit 30 1 OR push_bit 31 1"
    "(0xe0000000 :: u32) = push_bit 29 1 OR push_bit 30 1 OR push_bit 31 1"
    "(0xf0000000 :: u32) = push_bit 28 1 OR push_bit 29 1 OR push_bit 30 1 OR push_bit 31 1" by simp_all
  have b: "k < 32 \<Longrightarrow> bit (push_bit k 1 :: u32) n \<longleftrightarrow> n = k" for k by (auto simp: bit_simps simp del: push_bit_of_1)
  show "bit (0x80000000 :: u32) n \<longleftrightarrow> n = 31" unfolding m by (rule b) simp
  show "bit (0xc0000000 :: u32) n \<longleftrightarrow> n = 30 \<or> n = 31" unfolding m bit_or_iff by (simp add: b del: push_bit_of_1)
  show "bit (0xe0000000 :: u32) n \<longleftrightarrow> n = 29 \<or> n = 30 \<or> n = 31" unfolding m bit_or_iff by (simp add: b del: push_bit_of_1)
  show "bit (0xf0000000 :: u32) n \<longleftrightarrow> n = 28 \<or> n = 29 \<or> n = 30 \<or> n = 31" unfolding m bit_or_iff by (simp add: b del: push_bit_of_1)
qed

lemma masked_eq: "(a :: 'a::len word) AND m = v \<longleftrightarrow> (\<forall>n. bit a n \<and> bit m n \<longleftrightarrow> bit v n)"
  by (auto simp: bit_and_iff intro: bit_eqI)

lemma widened_eq: "(ucast a :: u64) AND ucast m = ucast v \<longleftrightarrow> a AND m = v" for a m v :: u32
proof
  assume "(ucast a :: u64) AND ucast m = ucast v"
  then have "(ucast (ucast a AND ucast m :: u64) :: u32) = ucast (ucast v :: u64)" by simp
  moreover have "(ucast (ucast a AND ucast m :: u64) :: u32) = a AND m" by (rule bit_word_eqI) (simp add: bit_simps)
  moreover have "(ucast (ucast v :: u64) :: u32) = v" by (rule bit_word_eqI) (simp add: bit_simps)
  ultimately show "a AND m = v" by simp
next
  assume "a AND m = v"
  then show "(ucast a :: u64) AND ucast m = ucast v" by (auto intro!: bit_word_eqI simp: bit_simps)
qed

lemma class_iffs:
  "IN_CLASSA a \<longleftrightarrow> \<not> bit a 31" "IN_CLASSB a \<longleftrightarrow> bit a 31 \<and> \<not> bit a 30" "IN_CLASSC a \<longleftrightarrow> bit a 31 \<and> bit a 30 \<and> \<not> bit a 29"
  "IN_CLASSD a \<longleftrightarrow> bit a 31 \<and> bit a 30 \<and> bit a 29 \<and> \<not> bit a 28"
  "IN_EXPERIMENTAL a \<longleftrightarrow> bit a 31 \<and> bit a 30 \<and> bit a 29"
  "IN_BADCLASS a \<longleftrightarrow> bit a 31 \<and> bit a 30 \<and> bit a 29 \<and> bit a 28"
  unfolding IN_CLASSA_def IN_CLASSB_def IN_CLASSC_def IN_CLASSD_def IN_EXPERIMENTAL_def IN_BADCLASS_def masked_eq top_bits
  by (auto dest: spec [of _ 28] spec [of _ 29] spec [of _ 30] spec [of _ 31])

lemma kernel_classes:
  "kernel_IN_CLASSA a = IN_CLASSA a" "kernel_IN_CLASSB a = IN_CLASSB a" "kernel_IN_CLASSC a = IN_CLASSC a"
  "kernel_IN_CLASSD a = IN_CLASSD a" "kernel_IN_EXPERIMENTAL a = IN_BADCLASS a"
  using widened_eq [where a = a and m = "0x80000000" and v = "0"] widened_eq [where a = a and m = "0xc0000000" and v = "0x80000000"] widened_eq [where a = a and m = "0xe0000000" and v = "0xc0000000"]
    widened_eq [where a = a and m = "0xf0000000" and v = "0xe0000000"] widened_eq [where a = a and m = "0xf0000000" and v = "0xf0000000"]
  by (simp_all add: kernel_IN_CLASSA_def kernel_IN_CLASSB_def kernel_IN_CLASSC_def kernel_IN_CLASSD_def kernel_IN_EXPERIMENTAL_def
      IN_CLASSA_def IN_CLASSB_def IN_CLASSC_def IN_CLASSD_def IN_BADCLASS_def)

definition class_tests :: "(u32 \<Rightarrow> bool) list" where
  "class_tests = [IN_CLASSA, IN_CLASSB, IN_CLASSC, IN_CLASSD, IN_BADCLASS]"

text \<open>
  Every IPv4 address belongs to exactly one of the five classes, and the headers of the C library and of the kernel
  agree on them. They do not agree on which addresses are experimental: for the C library multicast
  addresses are, for the kernel they are not.
\<close>

theorem address_classes_partition:
  "length (filter (\<lambda>test. test a) class_tests) = 1 \<and>
   map (\<lambda>test. test a) class_tests =
     [kernel_IN_CLASSA a, kernel_IN_CLASSB a, kernel_IN_CLASSC a, kernel_IN_CLASSD a, kernel_IN_BADCLASS a] \<and>
   (IN_EXPERIMENTAL a \<longleftrightarrow> kernel_IN_EXPERIMENTAL a \<or> IN_MULTICAST a) \<and>
   (kernel_IN_EXPERIMENTAL a \<and> IN_MULTICAST a \<longleftrightarrow> False)"
  by (cases "bit a 31"; cases "bit a 30"; cases "bit a 29"; cases "bit a 28")
    (simp_all add: class_tests_def kernel_classes kernel_IN_BADCLASS_def IN_MULTICAST_def class_iffs)

lemma experimental_differs: "IN_EXPERIMENTAL 0xe0000001 \<and> \<not> kernel_IN_EXPERIMENTAL 0xe0000001"
  by (simp add: IN_EXPERIMENTAL_def kernel_IN_EXPERIMENTAL_def)

text \<open>Network and host part of an address of each class are the whole address.\<close>

lemma class_parts:
  "(a AND IN_CLASSA_NET) OR (a AND IN_CLASSA_HOST) = a" "(a AND IN_CLASSB_NET) OR (a AND IN_CLASSB_HOST) = a"
  "(a AND IN_CLASSC_NET) OR (a AND IN_CLASSC_HOST) = a"
proof -
  have "(a AND n) OR (a AND (0xffffffff AND NOT n)) = a" for n :: u32
  proof -
    have e: "(0xffffffff :: u32) = - 1" by simp
    show ?thesis unfolding e by (rule bit_word_eqI) (auto simp: bit_simps)
  qed
  then show "(a AND IN_CLASSA_NET) OR (a AND IN_CLASSA_HOST) = a" "(a AND IN_CLASSB_NET) OR (a AND IN_CLASSB_HOST) = a"
    "(a AND IN_CLASSC_NET) OR (a AND IN_CLASSC_HOST) = a"
    unfolding IN_CLASSA_HOST_def IN_CLASSB_HOST_def IN_CLASSC_HOST_def by blast+
qed

section \<open>What the IPv6 tests mean\<close>

lemma no_bit_above_u8 [simp]: "\<not> bit (b :: u8) (8 + m)" "\<not> bit (b :: u8) (16 + m)" "\<not> bit (b :: u8) (24 + m)"
  by (auto dest: bit_imp_le_length)

lemma byte_word4:
  "byte 0 (word4 b0 b1 b2 b3) = b0" "byte 1 (word4 b0 b1 b2 b3) = b1"
  "byte 2 (word4 b0 b1 b2 b3) = b2" "byte 3 (word4 b0 b1 b2 b3) = b3"
  by (rule bit_word_eqI, simp add: bit_byte word4_def operator_bits)+

lemma word4_eq_iff [simp]: "word4 a b c d = word4 a' b' c' d' \<longleftrightarrow> a = a' \<and> b = b' \<and> c = c' \<and> d = d'"
  by (metis byte_word4)

lemma word4_and: "word4 a b c d AND word4 a' b' c' d' = word4 (a AND a') (b AND b') (c AND c') (d AND d')"
  by (rule u32_eqI) (simp_all add: word4_def operator_bits)

lemma bswapl_word4: "bswapl (word4 a b c d) = word4 d c b a"
  unfolding bswapl_def byte_word4 ..

lemma wire_constants:
  "(0 :: u32) = word4 0 0 0 0" "htonl 1 = word4 0 0 0 1" "htonl 0xffff = word4 0 0 0xff 0xff"
  "htonl 0xffc00000 = word4 0xff 0xc0 0 0" "htonl 0xfe800000 = word4 0xfe 0x80 0 0" "htonl 0xfec00000 = word4 0xfe 0xc0 0 0"
  by (simp_all add: htonl_def bswap_32_def builtin_bswap32_def bswapl_def word4_def byte_def)

lemma address_bytes:
  assumes "length a = 16"
  obtains b0 b1 b2 b3 b4 b5 b6 b7 b8 b9 b10 b11 b12 b13 b14 b15
  where "a = [b0, b1, b2, b3, b4, b5, b6, b7, b8, b9, b10, b11, b12, b13, b14, b15]"
  using assms by (auto simp: length_Suc_conv numeral_eq_Suc)

lemma above_one: "1 < (x :: u32) \<longleftrightarrow> x \<noteq> word4 0 0 0 0 \<and> x \<noteq> word4 1 0 0 0"
proof -
  have "word4 0 0 0 0 = 0" "word4 1 0 0 0 = 1" by (simp_all add: word4_def)
  moreover have "1 < x \<longleftrightarrow> x \<noteq> 0 \<and> x \<noteq> 1" by (auto simp: word_less_nat_alt word_unat_eq_iff)
  ultimately show ?thesis by simp
qed

lemmas in6_defs = IN6_IS_ADDR_UNSPECIFIED_def IN6_IS_ADDR_LOOPBACK_def IN6_IS_ADDR_LINKLOCAL_def IN6_IS_ADDR_SITELOCAL_def
  IN6_IS_ADDR_V4MAPPED_def IN6_IS_ADDR_V4COMPAT_def IN6_ARE_ADDR_EQUAL_def

lemma ntohl_above: "1 < ntohl (word4 a b c d) \<longleftrightarrow> \<not> (a = 0 \<and> b = 0 \<and> c = 0 \<and> (d = 0 \<or> d = 1))"
  by (auto simp: ntohl_def bswapl_word4 above_one)

lemma zero_words: "word4 a b c d = 0 \<longleftrightarrow> a = 0 \<and> b = 0 \<and> c = 0 \<and> d = 0"
  unfolding wire_constants(1) by simp

definition kind_tests :: "(in6_addr \<Rightarrow> bool) list" where
  "kind_tests = [IN6_IS_ADDR_UNSPECIFIED, IN6_IS_ADDR_LOOPBACK, IN6_IS_ADDR_LINKLOCAL, IN6_IS_ADDR_SITELOCAL,
     IN6_IS_ADDR_V4MAPPED, IN6_IS_ADDR_V4COMPAT, IN6_IS_ADDR_MULTICAST]"

lemma zero_blocks:
  "replicate 16 (0 :: u8) = [0, 0, 0, 0, 0, 0, 0, 0, 0, 0, 0, 0, 0, 0, 0, 0]"
  "replicate 15 (0 :: u8) = [0, 0, 0, 0, 0, 0, 0, 0, 0, 0, 0, 0, 0, 0, 0]"
  "replicate 12 (0 :: u8) = [0, 0, 0, 0, 0, 0, 0, 0, 0, 0, 0, 0]" "replicate 10 (0 :: u8) = [0, 0, 0, 0, 0, 0, 0, 0, 0, 0]"
  by (simp_all add: numeral_eq_Suc)

lemma in6_word_tests:
  assumes "length a = 16" "length b = 16"
  shows "IN6_IS_ADDR_UNSPECIFIED a \<longleftrightarrow> a = replicate 16 0" "IN6_IS_ADDR_LOOPBACK a \<longleftrightarrow> a = replicate 15 0 @ [1]"
    "IN6_IS_ADDR_LINKLOCAL a \<longleftrightarrow> a ! 0 = 0xfe \<and> a ! 1 AND 0xc0 = 0x80"
    "IN6_IS_ADDR_SITELOCAL a \<longleftrightarrow> a ! 0 = 0xfe \<and> a ! 1 AND 0xc0 = 0xc0"
    "IN6_IS_ADDR_V4MAPPED a \<longleftrightarrow> take 12 a = replicate 10 0 @ [0xff, 0xff]"
    "IN6_IS_ADDR_V4COMPAT a \<longleftrightarrow> take 12 a = replicate 12 0 \<and> drop 12 a \<noteq> [0, 0, 0, 0] \<and> drop 12 a \<noteq> [0, 0, 0, 1]"
    "IN6_ARE_ADDR_EQUAL a b \<longleftrightarrow> a = b"
proof -
  obtain a0 a1 a2 a3 a4 a5 a6 a7 a8 a9 a10 a11 a12 a13 a14 a15
    where a: "a = [a0, a1, a2, a3, a4, a5, a6, a7, a8, a9, a10, a11, a12, a13, a14, a15]"
    using assms(1) by (rule address_bytes)
  obtain b0 b1 b2 b3 b4 b5 b6 b7 b8 b9 b10 b11 b12 b13 b14 b15
    where b: "b = [b0, b1, b2, b3, b4, b5, b6, b7, b8, b9, b10, b11, b12, b13, b14, b15]"
    using assms(2) by (rule address_bytes)
  have w: "u6_addr32 a 0 = word4 a0 a1 a2 a3" "u6_addr32 a 1 = word4 a4 a5 a6 a7"
    "u6_addr32 a 2 = word4 a8 a9 a10 a11" "u6_addr32 a 3 = word4 a12 a13 a14 a15"
    "u6_addr32 b 0 = word4 b0 b1 b2 b3" "u6_addr32 b 1 = word4 b4 b5 b6 b7"
    "u6_addr32 b 2 = word4 b8 b9 b10 b11" "u6_addr32 b 3 = word4 b12 b13 b14 b15"
    by (simp_all add: a b u6_addr32_def)
  have t: "take 12 a = [a0, a1, a2, a3, a4, a5, a6, a7, a8, a9, a10, a11]" "drop 12 a = [a12, a13, a14, a15]"
    by (simp_all add: a)
  have "a0 AND 0xff = a0"
  proof -
    have e: "(0xff :: u8) = - 1" by simp
    show ?thesis unfolding e by (rule and.right_neutral)
  qed
  then show "IN6_IS_ADDR_LINKLOCAL a \<longleftrightarrow> a ! 0 = 0xfe \<and> a ! 1 AND 0xc0 = 0x80"
    "IN6_IS_ADDR_SITELOCAL a \<longleftrightarrow> a ! 0 = 0xfe \<and> a ! 1 AND 0xc0 = 0xc0"
    unfolding in6_defs w wire_constants(4-6) word4_and by (simp_all add: a)
  show "IN6_IS_ADDR_UNSPECIFIED a \<longleftrightarrow> a = replicate 16 0" "IN6_IS_ADDR_LOOPBACK a \<longleftrightarrow> a = replicate 15 0 @ [1]"
    unfolding in6_defs w wire_constants(2) zero_words zero_blocks by (auto simp: a)
  show "IN6_IS_ADDR_V4MAPPED a \<longleftrightarrow> take 12 a = replicate 10 0 @ [0xff, 0xff]"
    "IN6_IS_ADDR_V4COMPAT a \<longleftrightarrow> take 12 a = replicate 12 0 \<and> drop 12 a \<noteq> [0, 0, 0, 0] \<and> drop 12 a \<noteq> [0, 0, 0, 1]"
    unfolding in6_defs w wire_constants(3) zero_words ntohl_above zero_blocks t by auto
  show "IN6_ARE_ADDR_EQUAL a b \<longleftrightarrow> a = b" unfolding in6_defs w by (auto simp: a b)
qed

text \<open>
  The tests on IPv6 addresses mean what their names say of the bytes in their order on the wire, although
  they compare words of a little endian host with converted constants; no address is of two kinds.
\<close>

theorem in6_tests_mean:
  assumes "length a = 16" and "length b = 16"
  shows "(IN6_IS_ADDR_UNSPECIFIED a \<longleftrightarrow> a = replicate 16 0) \<and> (IN6_IS_ADDR_LOOPBACK a \<longleftrightarrow> a = replicate 15 0 @ [1]) \<and>
    (IN6_IS_ADDR_LINKLOCAL a \<longleftrightarrow> a ! 0 = 0xfe \<and> a ! 1 AND 0xc0 = 0x80) \<and>
    (IN6_IS_ADDR_SITELOCAL a \<longleftrightarrow> a ! 0 = 0xfe \<and> a ! 1 AND 0xc0 = 0xc0) \<and>
    (IN6_IS_ADDR_V4MAPPED a \<longleftrightarrow> take 12 a = replicate 10 0 @ [0xff, 0xff]) \<and>
    (IN6_IS_ADDR_V4COMPAT a \<longleftrightarrow> take 12 a = replicate 12 0 \<and> drop 12 a \<noteq> [0, 0, 0, 0] \<and> drop 12 a \<noteq> [0, 0, 0, 1]) \<and>
    (IN6_ARE_ADDR_EQUAL a b \<longleftrightarrow> a = b) \<and> length (filter (\<lambda>test. test a) kind_tests) \<le> 1"
proof -
  obtain a0 a1 a2 a3 a4 a5 a6 a7 a8 a9 a10 a11 a12 a13 a14 a15
    where a: "a = [a0, a1, a2, a3, a4, a5, a6, a7, a8, a9, a10, a11, a12, a13, a14, a15]"
    using assms(1) by (rule address_bytes)
  have "length (filter (\<lambda>test. test a) kind_tests) \<le> 1"
    unfolding kind_tests_def filter.simps in6_word_tests [OF assms] IN6_IS_ADDR_MULTICAST_def zero_blocks
    by (simp add: a)
  then show ?thesis using in6_word_tests [OF assms] by blast
qed

theorem in6_tests_mean_witness: "IN6_IS_ADDR_LOOPBACK (replicate 15 0 @ [1])"
  using in6_tests_mean [of "replicate 15 0 @ [1]" "replicate 16 0"] by simp

section \<open>Numbers on the wire\<close>

text \<open>
  The conversions of \<open>endian.h\<close> give a number the same bytes on hosts of either order, and are undone by their
  counterparts.
\<close>

lemmas endian_defs = htobe16_def htole16_def be16toh_def le16toh_def htobe32_def htole32_def be32toh_def le32toh_def
  htobe64_def htole64_def be64toh_def le64toh_def uint16_identity_def uint32_identity_def uint64_identity_def

theorem endian_host_independent:
  "le_bytes 2 (htobe16 True x) = be_bytes 2 (htobe16 False x) \<and> le_bytes 2 (htole16 True x) = be_bytes 2 (htole16 False x) \<and>
   le_bytes 4 (htobe32 True y) = be_bytes 4 (htobe32 False y) \<and> le_bytes 4 (htole32 True y) = be_bytes 4 (htole32 False y) \<and>
   le_bytes 8 (htobe64 True z) = be_bytes 8 (htobe64 False z) \<and> le_bytes 8 (htole64 True z) = be_bytes 8 (htole64 False z) \<and>
   be16toh h (htobe16 h x) = x \<and> le16toh h (htole16 h x) = x \<and> be32toh h (htobe32 h y) = y \<and> le32toh h (htole32 h y) = y \<and>
   be64toh h (htobe64 h z) = z \<and> le64toh h (htole64 h z) = z"
  by (simp add: endian_defs)

lemma ns_round_trip16:
  assumes "cp + 1 < length msg"
  shows "NS_GET16 (fst (NS_PUT16 s msg cp)) cp = (s, snd (NS_PUT16 s msg cp))"
proof -
  have "lo16 (push_bit 8 (prom (lo8 (drop_bit 8 (prom s)))) OR prom (lo8 (prom s))) = s"
    by (rule bit_word_eqI) (auto simp: c_convert_defs bit_simps)
  then show ?thesis using assms by (simp add: NS_GET16_def NS_PUT16_def)
qed

lemma ns_round_trip32:
  assumes "cp + 3 < length msg"
  shows "NS_GET32 (fst (NS_PUT32 l msg cp)) cp = (l, snd (NS_PUT32 l msg cp))"
proof -
  have "push_bit 24 (prom (lo8 (drop_bit 24 l))) OR push_bit 16 (prom (lo8 (drop_bit 16 l))) OR
      push_bit 8 (prom (lo8 (drop_bit 8 l))) OR prom (lo8 l) = l"
    by (rule u32_eqI) (auto simp: c_convert_defs bit_simps)
  then show ?thesis using assms by (simp add: NS_GET32_def NS_PUT32_def)
qed

text \<open>
  What the name server macros put into a message they get back, with the pointer behind it, and the
  bytes are those of the number in network order; nothing else in the message changes.
\<close>

theorem ns_numbers_round_trip:
  assumes "cp + 3 < length msg"
  shows "NS_GET16 (fst (NS_PUT16 s msg cp)) cp = (s, cp + 2) \<and> NS_GET32 (fst (NS_PUT32 l msg cp)) cp = (l, cp + 4) \<and>
    take 2 (drop cp (fst (NS_PUT16 s msg cp))) = be_bytes 2 s \<and> take 4 (drop cp (fst (NS_PUT32 l msg cp))) = be_bytes 4 l \<and>
    (\<forall>i. i < cp \<or> cp + 4 \<le> i \<longrightarrow> fst (NS_PUT16 s msg cp) ! i = msg ! i \<and> fst (NS_PUT32 l msg cp) ! i = msg ! i)"
proof -
  have b: "be_bytes 2 s = [byte 1 s, byte 0 s]" "be_bytes 4 l = [byte 3 l, byte 2 l, byte 1 l, byte 0 l]"
    by (simp_all add: be_bytes_def le_bytes_def upt_rec numeral_2_eq_2 numeral_3_eq_3)
  have p: "lo8 (drop_bit 8 (prom s)) = byte 1 s" "lo8 (prom s) = byte 0 s" "lo8 (drop_bit 24 l) = byte 3 l"
    "lo8 (drop_bit 16 l) = byte 2 l" "lo8 (drop_bit 8 l) = byte 1 l" "lo8 l = byte 0 l"
    by (rule bit_word_eqI, simp add: c_convert_defs byte_def bit_simps)+
  have "take 2 (drop cp (fst (NS_PUT16 s msg cp))) = be_bytes 2 s"
    unfolding b NS_PUT16_def p using assms by (intro nth_equalityI) (auto simp: nth_list_update less_Suc_eq numeral_2_eq_2)
  moreover have "take 4 (drop cp (fst (NS_PUT32 l msg cp))) = be_bytes 4 l"
    unfolding b NS_PUT32_def p using assms by (intro nth_equalityI) (auto simp: nth_list_update less_Suc_eq numeral_eq_Suc)
  moreover have "\<forall>i. i < cp \<or> cp + 4 \<le> i \<longrightarrow> fst (NS_PUT16 s msg cp) ! i = msg ! i \<and> fst (NS_PUT32 l msg cp) ! i = msg ! i"
    by (auto simp: NS_PUT16_def NS_PUT32_def)
  ultimately show ?thesis
    using ns_round_trip16 [of cp msg s] ns_round_trip32 [OF assms, of l] assms
    by (simp add: NS_PUT16_def NS_PUT32_def NS_INT16SZ_def NS_INT32SZ_def)
qed

theorem ns_numbers_round_trip_witness:
  "NS_GET32 (fst (NS_PUT32 0x01020304 (replicate 6 0) 1)) 1 = (0x01020304, 5)"
  using ns_numbers_round_trip [where cp = 1 and msg = "replicate 6 0" and l = "0x01020304"] by simp

text \<open>The two orders of the object file macros read each other's bytes reversed.\<close>

lemma coff_orders: "length ps = 4 \<Longrightarrow> COFF_LONG_L ps = COFF_LONG_H (rev ps)" "length qs = 2 \<Longrightarrow> COFF_SHORT_L qs = COFF_SHORT_H (rev qs)"
  by (auto simp: length_Suc_conv numeral_eq_Suc COFF_LONG_L_def COFF_LONG_H_def COFF_SHORT_L_def COFF_SHORT_H_def)

end
