(* ===== verification/Spec2Isabelle.thy ===== *)
theory Spec2Isabelle
  imports Whole_Program Segment_Distance Separating_Axes CEC_Protocol Queue_Macros Queue_Circular Byte_Order
    C_Library Bit_Sets TIPC_Config USB_Descriptors Fortify_System Fortify_Wide Fortify_Strings Fortify_Open
    Sequencer Obstack Netlink Ancillary_Data Table_Entries Packed_Numbers Virtio_Ring Stdio_Streams Status_Words
    Flag_Words Argz Internet_Addresses
begin

text \<open>
  A verification of the test generator for autonomous drones in \<open>src/snippets\<close>, and of the C code that the
  repository carries beside it in the system headers under \<open>src/docker/sysroot\<close>.

  \<^bold>\<open>The program.\<close> \<open>src/snippets/geneticAlgorithm\<close> searches for obstacle layouts that bring a drone on a fixed
  mission close to an obstacle. \<open>mission.py\<close> reads the plan and its flight segments; \<open>genes.py\<close> holds the
  genome of a layout (a wall, or a gate of two walls, relative to a segment); \<open>motifs.py\<close> decodes genes to
  boxes and checks the layout with \<open>geometry.py\<close>; \<open>generator.py\<close> scores flights, runs simulations in
  parallel batches under a budget, breeds generations and refines the best candidates; \<open>suite.py\<close>
  chooses the submitted tests so that they are different flights. Around the search, \<open>testcase.py\<close> wraps
  one flight, \<open>parallel_docker_agent.py\<close> runs it in a disposable container, \<open>patchAerialist.py\<close> patches the
  installed simulator package at start-up, \<open>random_generator.py\<close> is the competition's sample generator,
  and \<open>cli.py\<close> is the program that puts them together and exports the tests. The program is Python. The C of the
  repository is the vendored set of system headers of a container image; the Python program does not
  call it. Most of it declares types and constants only; the headers with executable code of their
  own are modelled here as a second, independent part of the library.

  \<^bold>\<open>Theories of the generator.\<close>
  \<^item> \<open>GA_Prelude\<close>: Python values (exceptions as \<open>Inl\<close>, infinite floats, \<open>round\<close>, \<open>min\<close> with a key) and the
    random generator as a tape of draws, read in the order of the calls.
  \<^item> \<open>Mission\<close> (\<open>mission.py\<close>), \<open>Genes\<close> (\<open>genes.py\<close>), \<open>Motifs\<close> (\<open>motifs.py\<close>): one definition per function;
    the plan reader's round trip, the ranges every genetic operator keeps, the bracketing of the gate width.
  \<^item> \<open>Geometry\<close>, \<open>Separating_Axes\<close>, \<open>Segment_Distance\<close> (\<open>geometry.py\<close>): the box tests, with soundness and
    completeness of the separating axis test up to its tolerance, and of the segment intersection.
  \<^item> \<open>Scoring\<close>, \<open>Individuals\<close>, \<open>Attempts\<close> (\<open>generator.py\<close>): the score with its bounds and monotonicity; the
    state of an individual; one simulation attempt with the watchdog, flakes and exceptions as branches.
  \<^item> \<open>Batch\<close>: \<open>runParallelBatch\<close> and \<open>runRetryingBatch\<close>. The locale \<open>attempt_operation\<close> is the contract of
    a job, \<open>marking_operation\<close> extends it with progress; both are interpreted on \<open>evaluate\<close> and \<open>rerun\<close>.
    The ledger of started simulations, the independence of the pool's order and progress follow.
  \<^item> \<open>Breeding\<close>: schedule, seeding, tournaments, niches, next generation.
  \<^item> \<open>Suite\<close>: resampling, diversity threshold, greedy selection; the locale \<open>separation\<close> holds the selection
    argument for any distance.
  \<^item> \<open>Py_Strings\<close>: Python's string functions. \<open>Patches\<close> (\<open>patchAerialist.py\<close>): the three text patches; the
    locale \<open>text_patch\<close> gives their idempotence and effect. \<open>Docker_Agent\<close> (\<open>parallel_docker_agent.py\<close>):
    the commands issued to the container engine, and that no worker outlives its test.
  \<^item> \<open>Test_Case\<close> (\<open>testcase.py\<close>, \<open>random_generator.py\<close>): the wrapper of a flight, which refines the simulator
    run of \<open>Attempts\<close>. \<open>Command_Line\<close> (\<open>cli.py\<close>): the virtual display, the main block and the exported files.
  \<^item> \<open>Generator\<close> and this theory: the class \<open>GeneticGenerator\<close>, the discovery loop, refinement and the
    theorems on a whole campaign.
  \<^item> \<open>Provenance\<close>: what an individual has recorded comes from its flights; the locale \<open>stored_run\<close> carries the
    invariant through batches and generations. \<open>Whole_Program\<close>: \<open>cli.py\<close> with either generator, the test case
    wrapper as the simulator of the search and the flown test cases as what is exported; the last theorem
    of this theory is the correctness of a run of the program from the mission file to the output folder.

  \<^bold>\<open>Theories of the system headers.\<close> Paths are relative to \<open>src/docker/sysroot/usr/include\<close>.
  \<^item> \<open>C_Integers\<close>: C integers as words of their width, promotion and truncation written out, \<open>memcpy\<close>, \<open>strlen\<close>.
  \<^item> \<open>CEC_Header\<close> (\<open>linux/cec.h\<close>), \<open>CEC_Recording\<close>, \<open>CEC_Devices\<close>, \<open>CEC_Audio\<close> (\<open>linux/cec-funcs.h\<close>): the HDMI
    control messages, every encoder and decoder. The locale \<open>message_codec\<close> derives injectivity from a
    round trip. \<open>CEC_Protocol\<close> is the step relation of calls and the invariant of reachable messages.
  \<^item> \<open>Queue_Macros\<close>, \<open>Queue_Circular\<close> (\<open>sys/queue.h\<close>): the linked lists over a heap of pointers, refining
    lists of members; the locale \<open>member_list\<close> carries the moves between two queues.
  \<^item> \<open>Byte_Swap\<close> (\<open>linux/swab.h\<close>, \<open>asm/swab.h\<close>, \<open>bits/byteswap.h\<close>) and \<open>Byte_Order\<close> (\<open>linux/byteorder\<close>).
  \<^item> \<open>C_Library\<close> (\<open>bits/stdlib-bsearch.h\<close>, \<open>bits/sysmacros.h\<close>, \<open>sys/time.h\<close>): binary search with termination and
    correctness, the device number encoding, time arithmetic.
  \<^item> \<open>Bit_Sets\<close> (\<open>bits/cpu-set.h\<close>, \<open>sched.h\<close>, \<open>sys/select.h\<close>, \<open>bits/select.h\<close>, \<open>linux/netfilter/xt_sctp.h\<close>): sets as
    arrays of words; the locale \<open>bit_set\<close> is interpreted on all three families.
  \<^item> \<open>TIPC_Config\<close> (\<open>linux/tipc_config.h\<close>): type-length-value items in memory and walks over them.
  \<^item> \<open>USB_Descriptors\<close> (\<open>linux/usb/ch9.h\<close>, \<open>linux/usb/audio.h\<close>): endpoint and audio unit descriptors.
  \<^item> \<open>Fortify_Base\<close>, \<open>Fortify_System\<close> (\<open>bits/unistd.h\<close>, \<open>bits/socket2.h\<close>, \<open>bits/poll2.h\<close>, \<open>bits/stdlib.h\<close>),
    \<open>Fortify_Wide\<close> (\<open>bits/wchar2.h\<close>), \<open>Fortify_Strings\<close> (\<open>bits/stdio2.h\<close>, \<open>bits/string_fortified.h\<close>,
    \<open>bits/strings_fortified.h\<close>): the wrappers that check buffer sizes. The locale \<open>fortified_call\<close> states what
    a wrapper promises, given that the checking library functions compare as documented: the call it
    replaces, or an abort exactly when the object is known to be too small.
  \<^item> \<open>Fortify_Open\<close> (\<open>bits/fcntl2.h\<close>, \<open>bits/mqueue2.h\<close>): the argument checks of the open functions; locale \<open>mode_checked\<close>.
  \<^item> \<open>Sequencer\<close> (\<open>linux/soundcard.h\<close>): the buffered event macros refine the stream of events.
  \<^item> \<open>Obstack\<close> (\<open>obstack.h\<close>): object stacks over an explicit memory, both sets of macro bodies.
  \<^item> \<open>C_Loops\<close>: the \<open>for\<close> statement with a body that may return (a partial function, \<open>None\<close> when it does not
    end), memory read as little endian words, rounding up. The locales \<open>length_walk\<close>, \<open>offset_loop\<close> and
    \<open>address_loop\<close> carry loops over records that hold their own length.
  \<^item> \<open>Netlink\<close> (\<open>linux/netlink.h\<close>, \<open>linux/rtnetlink.h\<close>, \<open>linux/if_addr.h\<close>, \<open>linux/if_link.h\<close>,
    \<open>linux/netfilter/nfnetlink_compat.h\<close>, \<open>linux/fanotify.h\<close>): walks over messages, attributes and events end and
    stay in the buffer. \<open>Ancillary_Data\<close> (\<open>bits/socket.h\<close>): control messages of sockets. \<open>Table_Entries\<close>
    (\<open>linux/netfilter/x_tables.h\<close>, the IPv4, IPv6 and ARP tables, \<open>linux/netfilter_bridge/ebtables.h\<close>):
    iteration over the entries, matches and targets of packet filter tables.
  \<^item> \<open>Packed_Fields\<close> (\<open>linux/bcache.h\<close>) and \<open>Packed_Numbers\<close> (\<open>asm-generic/ioctl.h\<close>, \<open>linux/phonet.h\<close>, \<open>linux/tipc.h\<close>,
    \<open>linux/target_core_user.h\<close>): several values in one word; the locales \<open>packed_field\<close> and \<open>disjoint_fields\<close>.
  \<^item> \<open>Virtio_Ring\<close> (\<open>linux/virtio_ring.h\<close>): the layout of a virtqueue and the notification decision.
  \<^item> \<open>Stdio_Streams\<close> (\<open>bits/types/struct_FILE.h\<close>, \<open>bits/stdio.h\<close>): characters and small blocks through the buffer of
    a stream, exact whatever the library does to refill and flush it within its contract.
  \<^item> \<open>Status_Words\<close> (\<open>bits/waitstatus.h\<close>, \<open>sys/wait.h\<close>, \<open>bits/stat.h\<close>, \<open>sys/stat.h\<close>, \<open>linux/stat.h\<close>, \<open>dirent.h\<close>,
    \<open>sys/syslog.h\<close>): the status of a child, the type of a file, priority and facility of a log message.
  \<^item> \<open>Small_Sets\<close> (\<open>netinet/icmp6.h\<close>, \<open>linux/mroute.h\<close>, \<open>linux/mroute6.h\<close>, \<open>sys/param.h\<close>, \<open>thread_db.h\<close>) and \<open>Flag_Words\<close>
    (\<open>linux/nilfs2_ondisk.h\<close>, \<open>linux/nilfs2_api.h\<close> and the inline functions of \<open>linux/ethtool.h\<close>, \<open>linux/auto_fs.h\<close>,
    \<open>linux/btrfs_tree.h\<close>, \<open>linux/dccp.h\<close>, \<open>linux/eventpoll.h\<close>, \<open>linux/map_to_7segment.h\<close>): further instances of
    \<open>bit_set\<close>, with a lemma on histories of operations added to the locale, and the rounding macros.
  \<^item> \<open>Argz\<close> (\<open>argz.h\<close>): the loops over an argument vector end and visit its strings.
  \<^item> \<open>Internet_Addresses\<close> (\<open>netinet/in.h\<close>, \<open>linux/in.h\<close>, \<open>endian.h\<close>, \<open>bits/uintn-identity.h\<close>, \<open>arpa/nameser.h\<close>,
    \<open>linux/coff.h\<close>): address classes and kinds, and numbers in messages.

  \<^bold>\<open>Modelling decisions.\<close> Floats of the generator are real numbers: the theorems are about its arithmetic
  without rounding. The simulator is a function parameter giving the recorded run of each attempt; it
  may return anything, also an exception. Individuals are references into a store, so that retries act
  on the same object. A thread pool runs the jobs of a wave in some permutation. Loops of the source
  are recursions with termination proofs: the retry loop by the jobs and their remaining allowance, the
  discovery loop by the remaining budget and its no-progress limit, resampling by the recorded points,
  threshold relaxation by the halvings left, the gate solver by its fixed number of steps. Traversals
  of the C lists may not end on an ill-formed heap and are partial functions with \<open>None\<close> for that; on
  well-formed heaps they are proved to return. Pointers of the C code are indices or addresses; the
  preprocessor's choices are arguments.

  \<^bold>\<open>Not modelled.\<close> The argument parser, the loggers and the progress output of the Python program; the
  contents of plots and YAML files. The Aerialist package, the container engine and the argument parser
  are packages outside the repository and appear as parameters that may answer anything or raise. The
  system headers that only declare types, constants and prototypes have no behaviour to model; those
  that expand to compiler builtins or inline assembly other than byte swaps are left out, and so are
  the fortified wrappers that do nothing but hand on a variable argument list.
\<close>

section \<open>The campaign as a whole\<close>

text \<open>
  C2. A campaign always ends with an answer and never overspends: for every simulator behaviour and every
  random generator, \<open>generate\<close> returns, the number of simulations it started is at most the
  budget, and every simulated layout lies inside the placement area without overlapping itself.
\<close>

theorem generate_within_budget:
  assumes "setting_ok (gg_config self) (gg_segments self) (gg_seedSegments self)" and "rng_ok r"
  shows "\<exists>res. generate isolated sim self r budget = Inr res \<and>
    (case res of
       None \<Rightarrow> budget \<le> 0
     | Some (selected, st) \<Rightarrow>
         0 < budget \<and> int (length (w_trace (c_world st))) \<le> budget \<and>
         (\<forall>layout \<in> set (w_trace (c_world st)). layout_legal (placementBounds (gg_config self)) layout))"
proof (cases "budget \<le> 0")
  case True
  then show ?thesis by (simp add: generate_def)
next
  case False
  then have pos: "0 < budget" by simp
  obtain selected st where g: "generate isolated sim self r budget = Inr (Some (selected, st))"
    "campaign_ok (setupOf isolated sim self (nat budget)) st" "runs st \<le> nat budget"
    using generate_ok [OF assms pos] by blast
  have "placementBounds (s_cfg (setupOf isolated sim self (nat budget))) = placementBounds (gg_config self)"
    by (simp add: setupOf_def)
  then show ?thesis using g pos by (auto simp: campaign_ok_def world_ok_def)
qed

definition sampleGenerator :: GeneticGenerator where
  "sampleGenerator = \<lparr>gg_config = defaultConfig, gg_waypoints = [(0, 0), (40, 0)], gg_segments = [sampleSegment],
     gg_seedSegments = [1]\<rparr>"

lemma sampleGenerator_ok:
  "setting_ok (gg_config sampleGenerator) (gg_segments sampleGenerator) (gg_seedSegments sampleGenerator)"
  using sampleSetting_ok by (simp add: sampleGenerator_def)

theorem generate_within_budget_witness:
  "\<exists>res. generate True sampleSim sampleGenerator rng_fixed 50 = Inr res \<and> res \<noteq> None"
  using generate_within_budget [OF sampleGenerator_ok rng_fixed_ok, of True sampleSim 50] by (auto split: option.splits)



text \<open>
  A mission file that can be read and has two different consecutive waypoints makes a working
  generator: the constructor leaves the configuration alone except for switching breeding off on
  request, seeds on the long segments or, without any, on all of them, and the setting the campaign
  needs holds.
\<close>

theorem newGenerator_ready:
  assumes "newGenerator config envEvolve plan = Inr self" and "allSegments (gg_waypoints self) \<noteq> []"
    and "seedSides config \<noteq> []" and "set (seedSides config) \<subseteq> {1, -1}" and "0 < seedDraws config"
    and "0 < tournamentK config" and "0 \<le> gateShare config" and "gateShare config \<le> 1"
  shows "setting_ok (gg_config self) (gg_segments self) (gg_seedSegments self) \<and>
    gg_config self = (if envEvolve = ''0'' then config\<lparr>evolve := False\<rparr> else config) \<and>
    2 \<le> length (gg_waypoints self) \<and>
    (\<forall>i \<in> set (gg_seedSegments self). \<exists>s \<in> set (gg_segments self). seg_index s = i \<and>
       (MIN_SEGMENT_LENGTH_M \<le> segLength s \<or> longSegments (gg_waypoints self) MIN_SEGMENT_LENGTH_M = []))"
proof -
  obtain ws where ws: "parseWaypoints plan = Inr ws"
    and self: "self = \<lparr>gg_config = (if envEvolve = ''0'' then config\<lparr>evolve := False\<rparr> else config), gg_waypoints = ws,
      gg_segments = allSegments ws, gg_seedSegments = seedSegmentsOf ws\<rparr>"
    using assms(1) by (auto simp: newGenerator_def Let_def elim!: bindE_InrE)
  have "seedSegmentsOf ws \<noteq> []" using assms(2) self by (simp add: seedSegmentsOf_def Let_def)
  moreover have "\<exists>s \<in> set (allSegments ws). seg_index s = i \<and>
      (MIN_SEGMENT_LENGTH_M \<le> segLength s \<or> longSegments ws MIN_SEGMENT_LENGTH_M = [])" if "i \<in> set (seedSegmentsOf ws)" for i
    using that by (fastforce simp: seedSegmentsOf_def longSegments_def Let_def split: if_splits)
  moreover from this have "set (seedSegmentsOf ws) \<subseteq> seg_index ` set (allSegments ws)" by blast
  ultimately show ?thesis
    using assms(3-) self parseWaypoints_shape [OF ws] allSegments_ok by (auto simp: setting_ok_def)
qed

text \<open>A smallest mission: from the home position to one waypoint.\<close>

lemma smallest_mission:
  "\<exists>self. newGenerator defaultConfig ''1'' (Inr (planOf (0, 0) [Some (1, 0)])) = Inr self \<and>
     allSegments (gg_waypoints self) \<noteq> [] \<and> gg_config self = defaultConfig"
proof -
  let ?ws = "[(0, 0), wgs84ToLocal 1 0 0 0]"
  let ?self = "\<lparr>gg_config = defaultConfig, gg_waypoints = ?ws, gg_segments = allSegments ?ws, gg_seedSegments = seedSegmentsOf ?ws\<rparr>"
  have self: "newGenerator defaultConfig ''1'' (Inr (planOf (0, 0) [Some (1, 0)])) = Inr ?self"
    using collectWaypoints_plan [of 0 0 480 "[Some (1, 0)]"]
    by (simp add: newGenerator_def parseWaypoints_def readPlan_def planOf_def Let_def del: planItem.simps)
  have "1 / 1000000 < segLength \<lparr>seg_index = 0, seg_a = (0, 0), seg_b = wgs84ToLocal 1 0 0 0\<rparr>"
    using pi_ge_two by (simp add: segLength_def pdist_def wgs84ToLocal_def radians_def EARTH_RADIUS_M_def Let_def)
  then have "allSegments (gg_waypoints ?self) \<noteq> []" by (simp add: allSegments_def)
  with self show ?thesis by auto
qed

theorem newGenerator_ready_witness:
  "\<exists>self. newGenerator defaultConfig ''1'' (Inr (planOf (0, 0) [Some (1, 0)])) = Inr self \<and>
     setting_ok (gg_config self) (gg_segments self) (gg_seedSegments self)"
proof -
  obtain self where self: "newGenerator defaultConfig ''1'' (Inr (planOf (0, 0) [Some (1, 0)])) = Inr self"
    "allSegments (gg_waypoints self) \<noteq> []" using smallest_mission by blast
  have "setting_ok (gg_config self) (gg_segments self) (gg_seedSegments self)"
    by (rule newGenerator_ready [OF self, THEN conjunct1]) (simp_all add: defaultConfig_def)
  with self(1) show ?thesis by blast
qed

section \<open>The whole program\<close>



definition sampleFlights :: flights where
  "sampleFlights = \<lparr>fl_config = sampleCase,
     fl_aerialist = (\<lambda>k. \<lparr>agent_run = (\<lambda>e t. Inr [\<lparr>result_record = None, result_log_file = ''log.ulg''\<rparr>]),
        min_distance_to_obstacles = (\<lambda>tr obs. Inr 1), plot_test = (\<lambda>t xs name. Inr ''p.png'')\<rparr>),
     fl_hex = (\<lambda>k. ''0''), fl_plot_hex = (\<lambda>k. ''1''), fl_overran = (\<lambda>k. False), fl_elapsed = (\<lambda>k. 60)\<rparr>"


end
